(* ===== verification/Pylons_Prelude.thy ===== *)
theory Pylons_Prelude
  imports Main "HOL-Library.Word" "HOL-Library.AList" "HOL-Library.Multiset" "HOL-Library.Monad_Syntax"
begin

text \<open>
  Shared vocabulary of the development: the names of the Go integer and array types, the byte
  encodings, the model of \<open>sync.Map\<close>, and the generic lemmas on words, lists and options that the
  component theories use.

  Conventions.
  \<^item> \<open>uint64\<close>, \<open>uint32\<close> and \<open>int\<close> (64 bit) are words, so \<open>+\<close> and \<open>-\<close> wrap as in Go; \<open>int\<close> values are
    compared with the signed order.
  \<^item> A fixed array \<open>[n]byte\<close> is a word of \<open>8 n\<close> bits, element 0 being the most significant byte, so
    Go's array equality is equality of words.
  \<^item> A run-time panic of the Go code (nil dereference, index out of range, failed type assertion) is
    the value \<open>None\<close>; a returned Go \<open>error\<close> is \<open>Inl\<close> of a sum.
\<close>

section \<open>Collections of facts\<close>

named_theorems smap_simps \<open>rewrite rules for the model of sync.Map\<close>
named_theorems pylons_defs \<open>definitions of the guards the handlers test\<close>

section \<open>Types of the code\<close>

type_synonym byte = "8 word"
type_synonym u32 = "32 word"
type_synonym u64 = "64 word"
type_synonym goint = "64 word"

type_synonym Address = "160 word"
type_synonym TokenAddress = "160 word"
type_synonym TokenNetworkID = "160 word"
type_synonym PaymentNetworkID = "160 word"
type_synonym EdgeId = "320 word"
type_synonym Keccak256 = "256 word"
type_synonym SecretHash = "256 word"
type_synonym LockHash = "256 word"
type_synonym LocksRoot = "256 word"
type_synonym BalanceHash = "256 word"
type_synonym TokenAmount = u64
type_synonym Balance = u64
type_synonym PaymentAmount = u64
type_synonym FeeAmount = u64
type_synonym ProportionalFeeAmount = u64
type_synonym Nonce = u64
type_synonym MessageID = u64
type_synonym BlockHeight = u32
type_synonym ChannelID = u32
type_synonym BlockExpiration = goint
type_synonym BlockTimeout = goint
type_synonym PaymentID = goint
type_synonym ChainID = goint
type_synonym Secret = "byte list"
type_synonym EncSecret = "byte list"
type_synonym Signature = "byte list"
type_synonym PubKey = "byte list"

unbundle bit_operations_syntax

section \<open>Words\<close>

lemma unat_add_u64:
  "unat (a :: u64) + unat b < 2 ^ 64 \<Longrightarrow> unat (a + b) = unat a + unat b"
  by (simp add: unat_word_ariths)

lemma unat_sub_u64: "(b :: u64) \<le> a \<Longrightarrow> unat (a - b) = unat a - unat b"
  by (rule unat_sub)

lemma unat_u64_less [simp]: "unat (a :: u64) < 18446744073709551616"
  using unsigned_less [of a] by simp

lemma u64_eq_of_nat: "unat (a :: u64) = n \<Longrightarrow> a = of_nat n"
  by auto

section \<open>Byte encodings\<close>

text \<open>The bytes of an array type that is modelled as a word of \<open>8 n\<close> bits, element 0 first.\<close>

definition be_bytes :: "nat \<Rightarrow> 'a::len word \<Rightarrow> byte list" where
  "be_bytes n w = map (\<lambda>i. ucast (drop_bit (8 * (n - 1 - i)) w)) [0..<n]"

definition hash_bytes :: "Keccak256 \<Rightarrow> byte list" where
  "hash_bytes w = be_bytes 32 w"

definition addr_bytes :: "Address \<Rightarrow> byte list" where
  "addr_bytes w = be_bytes 20 w"

lemma length_be_bytes [simp]: "length (be_bytes n w) = n"
  by (simp add: be_bytes_def)

lemma length_hash_bytes [simp]: "length (hash_bytes w) = 32"
  by (simp add: hash_bytes_def)

lemma length_addr_bytes [simp]: "length (addr_bytes w) = 20"
  by (simp add: addr_bytes_def)

text \<open>The value a byte list denotes when its first byte is the most significant one.\<close>

definition be_val :: "byte list \<Rightarrow> nat" where
  "be_val bs = foldl (\<lambda>v b. v * 256 + unat b) 0 bs"

lemma be_val_Nil [simp]: "be_val [] = 0"
  by (simp add: be_val_def)

lemma be_val_snoc [simp]: "be_val (bs @ [b]) = be_val bs * 256 + unat b"
  by (simp add: be_val_def)

lemma be_val_bound: "be_val bs < 256 ^ length bs"
proof (induction bs rule: rev_induct)
  case (snoc b bs)
  have "unat b < 256" using unsigned_less [of b] by simp
  with snoc show ?case by simp
qed simp

lemma be_val_Cons: "be_val (b # bs) = unat b * 256 ^ length bs + be_val bs"
proof (induction bs rule: rev_induct)
  case Nil
  show ?case by (simp add: be_val_def)
next
  case (snoc c cs)
  have "be_val (b # cs @ [c]) = be_val (b # cs) * 256 + unat c"
    using be_val_snoc [of "b # cs" c] by simp
  with snoc show ?case by (simp add: algebra_simps)
qed

lemma unat_byte_of: "unat (ucast (drop_bit k (w :: 'a::len word)) :: byte) = unat w div 2 ^ k mod 256"
  by (simp add: unsigned_ucast_eq unat_drop_bit_eq take_bit_eq_mod) (simp add: drop_bit_eq_div)

lemma be_val_be_bytes: "be_val (be_bytes n (w :: 'a::len word)) = unat w mod 256 ^ n"
proof (induction n arbitrary: w)
  case 0
  show ?case by (simp add: be_bytes_def)
next
  case (Suc n)
  let ?d = "\<lambda>i. unat w div 2 ^ (8 * i) mod 256"
  have drop: "ucast (drop_bit (8 * (n - i)) w) =
      (ucast (drop_bit (8 * (n - Suc i)) (drop_bit 8 w)) :: byte)" if "i < n" for i
  proof -
    have "8 * (n - i) = 8 * (n - Suc i) + 8" using that by simp
    then show ?thesis by simp
  qed
  have "be_bytes (Suc n) w = be_bytes n (drop_bit 8 w) @ [ucast w]"
    by (simp add: be_bytes_def drop)
  then have "be_val (be_bytes (Suc n) w) = (unat w div 256 mod 256 ^ n) * 256 + unat w mod 256"
    using Suc [of "drop_bit 8 w"] unat_byte_of [of 0 w] unat_drop_bit_eq [of 8 w]
    by (simp add: drop_bit_eq_div [of _ "unat w"])
  also have "\<dots> = unat w mod 256 ^ Suc n"
    by (simp add: mod_mult2_eq)
  finally show ?case .
qed

lemma be_val_hash_bytes: "be_val (hash_bytes w) = unat w"
proof -
  have "unat w < 256 ^ 32" using unsigned_less [of w] by simp
  then show ?thesis by (simp add: hash_bytes_def be_val_be_bytes)
qed

lemma hash_bytes_inject [simp]: "hash_bytes a = hash_bytes b \<longleftrightarrow> a = b"
  by (metis be_val_hash_bytes word_unat_eq_iff)

lemma addr_bytes_inject [simp]: "addr_bytes a = addr_bytes b \<longleftrightarrow> a = b"
proof -
  have "be_val (addr_bytes w) = unat w" for w
  proof -
    have "unat w < 256 ^ 20" using unsigned_less [of w] by simp
    then show ?thesis by (simp add: addr_bytes_def be_val_be_bytes)
  qed
  then show ?thesis by (metis word_unat_eq_iff)
qed

section \<open>The interface of sync.Map\<close>

text \<open>
  What the code relies on of a concurrent map: \<open>Load\<close> after \<open>Store\<close> and \<open>Delete\<close>, and that \<open>Range\<close>
  visits every entry once (\<open>entries\<close>, in an order the code may not depend on). The lemmas on totals
  say how a sum over \<open>Range\<close> moves when one entry is stored or deleted.
\<close>

lemma mset_eq_of_map_of:
  assumes "distinct (map fst xs)" and "distinct (map fst ys)" and "map_of xs = map_of ys"
  shows "mset xs = mset ys"
proof -
  have "set xs = set ys" using assms by (simp add: map_of_inject_set)
  moreover have "distinct xs" "distinct ys" using assms by (auto simp: distinct_map)
  ultimately show ?thesis by (simp add: set_eq_iff_mset_eq_distinct)
qed

locale sync_map =
  fixes Load :: "'m \<Rightarrow> 'k \<Rightarrow> 'v option"
    and Store :: "'k \<Rightarrow> 'v \<Rightarrow> 'm \<Rightarrow> 'm"
    and Delete :: "'k \<Rightarrow> 'm \<Rightarrow> 'm"
    and entries :: "'m \<Rightarrow> ('k \<times> 'v) list"
    and ok :: "'m \<Rightarrow> bool"
  assumes Load_Store: "ok m \<Longrightarrow> Load (Store k v m) = (Load m)(k \<mapsto> v)"
    and Load_Delete: "ok m \<Longrightarrow> Load (Delete k m) = (Load m)(k := None)"
    and ok_Store: "ok m \<Longrightarrow> ok (Store k v m)"
    and ok_Delete: "ok m \<Longrightarrow> ok (Delete k m)"
    and Load_entries: "ok m \<Longrightarrow> Load m = map_of (entries m)"
    and distinct_entries: "ok m \<Longrightarrow> distinct (map fst (entries m))"
begin

lemma mset_entries_Store_fresh:
  assumes "ok m" and "Load m k = None"
  shows "mset (entries (Store k v m)) = add_mset (k, v) (mset (entries m))"
proof -
  have k: "k \<notin> fst ` set (entries m)"
    using assms by (metis Load_entries map_of_eq_None_iff)
  have "mset (entries (Store k v m)) = mset ((k, v) # entries m)"
  proof (rule mset_eq_of_map_of)
    show "distinct (map fst (entries (Store k v m)))"
      using assms by (simp add: ok_Store distinct_entries)
    show "distinct (map fst ((k, v) # entries m))"
      using assms k by (simp add: distinct_entries)
    show "map_of (entries (Store k v m)) = map_of ((k, v) # entries m)"
      using assms by (simp add: ok_Store Load_Store flip: Load_entries)
  qed
  then show ?thesis by simp
qed

lemma mset_entries_Delete:
  assumes "ok m" and "Load m k = Some v"
  shows "mset (entries m) = add_mset (k, v) (mset (entries (Delete k m)))"
proof -
  have "Load (Delete k m) k = None" using assms by (simp add: Load_Delete)
  then have k: "k \<notin> fst ` set (entries (Delete k m))"
    using assms by (metis Load_entries map_of_eq_None_iff ok_Delete)
  have "mset (entries m) = mset ((k, v) # entries (Delete k m))"
  proof (rule mset_eq_of_map_of)
    show "distinct (map fst (entries m))" using assms by (simp add: distinct_entries)
    show "distinct (map fst ((k, v) # entries (Delete k m)))"
      using assms k by (simp add: distinct_entries ok_Delete)
    show "map_of (entries m) = map_of ((k, v) # entries (Delete k m))"
      using assms by (simp add: ok_Delete Load_Delete fun_upd_idem flip: Load_entries)
  qed
  then show ?thesis by simp
qed

lemma entries_Delete_absent:
  assumes "ok m" and "Load m k = None"
  shows "mset (entries (Delete k m)) = mset (entries m)"
  using assms
  by (intro mset_eq_of_map_of)
    (simp_all add: distinct_entries ok_Delete Load_Delete fun_upd_idem flip: Load_entries)

end

text \<open>The model of \<open>sync.Map\<close> and of Go's built-in maps: an association list with distinct keys.\<close>

type_synonym ('k, 'v) smap = "('k \<times> 'v) list"

definition smap_load :: "('k, 'v) smap \<Rightarrow> 'k \<Rightarrow> 'v option" where
  "smap_load m k = map_of m k"

definition smap_store :: "'k \<Rightarrow> 'v \<Rightarrow> ('k, 'v) smap \<Rightarrow> ('k, 'v) smap" where
  "smap_store k v m = AList.update k v m"

definition smap_delete :: "'k \<Rightarrow> ('k, 'v) smap \<Rightarrow> ('k, 'v) smap" where
  "smap_delete k m = AList.delete k m"

definition smap_ok :: "('k, 'v) smap \<Rightarrow> bool" where
  "smap_ok m \<longleftrightarrow> distinct (map fst m)"

lemma smap_load_Nil [simp]: "smap_load [] = Map.empty"
  by (simp add: smap_load_def fun_eq_iff)

lemma smap_ok_Nil [simp]: "smap_ok []"
  by (simp add: smap_ok_def)

lemma smap_load_store [simp, smap_simps]: "smap_load (smap_store k v m) = (smap_load m)(k \<mapsto> v)"
  by (simp add: smap_load_def smap_store_def update_conv' fun_eq_iff)

lemma smap_load_delete [simp, smap_simps]: "smap_load (smap_delete k m) = (smap_load m)(k := None)"
  by (simp add: smap_load_def smap_delete_def delete_conv' fun_eq_iff)

lemma smap_ok_store [simp, intro]: "smap_ok m \<Longrightarrow> smap_ok (smap_store k v m)"
  by (simp add: smap_ok_def smap_store_def distinct_update)

lemma smap_ok_delete [simp, intro]: "smap_ok m \<Longrightarrow> smap_ok (smap_delete k m)"
  by (simp add: smap_ok_def smap_delete_def distinct_delete)

interpretation sm: sync_map smap_load smap_store smap_delete "\<lambda>m. m" smap_ok
  by unfold_locales (auto simp: smap_load_def smap_ok_def fun_eq_iff
      smap_store_def smap_delete_def update_conv' delete_conv' distinct_update distinct_delete)

lemma smap_delete_absent [simp]: "smap_load m k = None \<Longrightarrow> smap_delete k m = m"
  by (auto simp: smap_load_def smap_delete_def delete_id map_of_eq_None_iff)

lemma smap_load_SomeD: "smap_load m k = Some v \<Longrightarrow> (k, v) \<in> set m"
  by (auto simp: smap_load_def dest: map_of_SomeD)

lemma smap_load_iff: "smap_ok m \<Longrightarrow> (k, v) \<in> set m \<longleftrightarrow> smap_load m k = Some v"
  by (simp add: smap_load_def smap_ok_def)

lemma set_smap_store_fresh:
  "smap_ok m \<Longrightarrow> smap_load m k = None \<Longrightarrow> set (smap_store k v m) = insert (k, v) (set m)"
  using sm.mset_entries_Store_fresh [of m k v] by (metis set_mset_add_mset_insert set_mset_mset)

lemma set_smap_delete:
  assumes "smap_ok m"
  shows "set (smap_delete k m) = {(k', v) \<in> set m. k' \<noteq> k}"
  using assms smap_load_iff [of m] smap_load_iff [of "smap_delete k m"]
  by (auto split: if_splits)

text \<open>A total accumulated by a \<open>Range\<close> loop.\<close>

definition range_sum :: "('v \<Rightarrow> 'a) \<Rightarrow> ('k, 'v) smap \<Rightarrow> ('a :: monoid_add)" where
  "range_sum f m = foldl (\<lambda>t e. t + f (snd e)) 0 m"

lemma foldl_add_sum_list:
  "foldl (\<lambda>t e. t + g e) (a :: 'a :: monoid_add) xs = a + sum_list (map g xs)"
  by (induction xs arbitrary: a) (auto simp: add.assoc)

lemma range_sum_eq: "range_sum f m = sum_list (map (\<lambda>e. f (snd e)) m)"
  by (simp add: range_sum_def foldl_add_sum_list)

lemma range_sum_mset:
  "range_sum (f :: 'v \<Rightarrow> 'a :: comm_monoid_add) m = sum_mset (image_mset (\<lambda>e. f (snd e)) (mset m))"
  by (simp add: range_sum_eq sum_mset_sum_list flip: mset_map)

lemma range_sum_perm:
  "mset m = mset m' \<Longrightarrow> range_sum (f :: 'v \<Rightarrow> 'a :: comm_monoid_add) m = range_sum f m'"
  by (simp add: range_sum_mset)

lemma range_sum_Nil [simp]: "range_sum f [] = 0"
  by (simp add: range_sum_def)

lemma range_sum_store_fresh:
  fixes f :: "'v \<Rightarrow> 'a :: comm_monoid_add"
  assumes "smap_ok m" and "smap_load m k = None"
  shows "range_sum f (smap_store k v m) = f v + range_sum f m"
  using sm.mset_entries_Store_fresh [OF assms, of v] by (simp add: range_sum_mset)

lemma range_sum_delete:
  fixes f :: "'v \<Rightarrow> 'a :: comm_monoid_add"
  assumes "smap_ok m" and "smap_load m k = Some v"
  shows "range_sum f m = f v + range_sum f (smap_delete k m)"
  using sm.mset_entries_Delete [OF assms] by (simp add: range_sum_mset)

end
