(* ===== verification/Pylons_State.thy ===== *)
theory Pylons_State
  imports Pylons_Prelude
begin

text \<open>
  The data of the program: the structs of \<open>transfer/state.go\<close>, the configuration of
  \<open>common/config.go\<close>, the error values, and the environment record that holds everything the
  sources only call.

  A struct is a record whose fields carry a short prefix; a pointer field the code compares with
  \<open>nil\<close> is an option, other pointer fields are the value they point to.
\<close>

section \<open>Environment\<close>

text \<open>
  \<open>common/config.go\<close>: the fields of the global \<open>Config\<close> that the transfer logic reads.
\<close>

record PylonsConfig =
  WithdrawTimeout :: goint
  MaxBlockDelay :: goint
  ConfirmBlockCount :: goint

text \<open>
  The environment: the hash function, the signature scheme and the secret decryption the code calls
  through \<open>crypto/sha256\<close> and the themis packages, the constants it takes from the micropayment
  contract package, the value Go leaves open when a float too large for \<open>uint64\<close> is converted
  (\<open>FloatOutOfRange\<close>), and the configuration. Nothing is assumed of these functions unless a theorem
  says so.
\<close>

record env =
  sha256 :: "byte list \<Rightarrow> Keccak256"
  DeserializePublicKey :: "PubKey \<Rightarrow> byte list option"
  SigDeserialize :: "Signature \<Rightarrow> byte list option"
  SigVerify :: "byte list \<Rightarrow> byte list \<Rightarrow> byte list \<Rightarrow> bool"
  AddressFromPubKey :: "byte list \<Rightarrow> Address"
  Decrypt :: "EncSecret \<Rightarrow> Secret option"
  SIGNATURE_PREFIX :: "byte list"
  CLOSE_MESSAGE_LENGTH :: "byte list"
  BALANCEPROOF_UPDATE_MESSAGE_LENGTH :: "byte list"
  COSETTLE_MESSAGE_LENGTH :: "byte list"
  WITHDRAW_MESSAGE_LENGTH :: "byte list"
  BalanceProofUpdate :: u64
  COOPERATIVESETTLE :: u64
  WITHDRAW :: u64
  USDT_CONTRACT_ADDRESS :: TokenAddress
  MicroPayContractAddress :: PaymentNetworkID
  FloatOutOfRange :: "int \<Rightarrow> u64"
  Config :: PylonsConfig

section \<open>State\<close>

record MerkleTreeState =
  Layers :: "Keccak256 list list"

record BalanceProofUnsignedState =
  bu_Nonce :: Nonce
  bu_TransferredAmount :: TokenAmount
  bu_LockedAmount :: TokenAmount
  bu_LocksRoot :: LocksRoot
  bu_BalanceHash :: BalanceHash
  bu_TokenNetworkId :: TokenNetworkID
  bu_ChannelId :: ChannelID
  bu_ChainId :: ChainID

record BalanceProofSignedState =
  bp_Nonce :: Nonce
  bp_TransferredAmount :: TokenAmount
  bp_LockedAmount :: TokenAmount
  bp_LocksRoot :: LocksRoot
  bp_BalanceHash :: BalanceHash
  bp_TokenNetworkId :: TokenNetworkID
  bp_ChannelId :: ChannelID
  bp_MessageHash :: Keccak256
  bp_Signature :: Signature
  bp_Sender :: Address
  bp_ChainId :: ChainID
  bp_PublicKey :: PubKey

record HashTimeLockState =
  lk_Amount :: TokenAmount
  lk_Expiration :: BlockHeight
  lk_SecretHash :: Keccak256
  lk_Encoded :: "byte list"
  lk_LockHash :: LockHash

record UnlockPartialProofState =
  up_Lock :: HashTimeLockState
  up_Secret :: Secret

record TransactionExecutionStatus =
  tx_StartedBlockHeight :: BlockHeight
  tx_FinishedBlockHeight :: BlockHeight
  tx_Result :: string

record NettingChannelEndState =
  es_Address :: Address
  es_ContractBalance :: TokenAmount
  es_TotalWithdraw :: TokenAmount
  es_LockedLocks :: "(SecretHash, HashTimeLockState) smap"
  es_UnLockedLocks :: "(SecretHash, UnlockPartialProofState) smap"
  es_OnChainUnLockedLocks :: "(SecretHash, UnlockPartialProofState) smap"
  es_MerkleTree :: "MerkleTreeState option"
  es_BalanceProof :: "BalanceProofSignedState option"

record FeeScheduleState =
  fs_CapFees :: bool
  fs_Flat :: FeeAmount
  fs_Proportional :: ProportionalFeeAmount
  fs_ImbalancePenalty :: "(TokenAmount, FeeAmount) smap list"

record TransactionChannelNewBalance =
  nb_ParticipantAddress :: Address
  nb_ContractBalance :: TokenAmount
  nb_DepositBlockHeight :: BlockHeight

record TransactionOrder =
  to_BlockHeight :: BlockHeight
  to_Transaction :: TransactionChannelNewBalance

record NettingChannelState =
  cs_Identifier :: ChannelID
  cs_ChainId :: ChainID
  cs_TokenAddress :: Address
  cs_PaymentNetworkId :: PaymentNetworkID
  cs_TokenNetworkId :: TokenNetworkID
  cs_RevealTimeout :: BlockTimeout
  cs_SettleTimeout :: BlockTimeout
  cs_FeeSchedule :: "FeeScheduleState option"
  cs_OurState :: NettingChannelEndState
  cs_PartnerState :: NettingChannelEndState
  cs_DepositTransactionQueue :: "TransactionOrder list"
  cs_OpenTransaction :: "TransactionExecutionStatus option"
  cs_CloseTransaction :: "TransactionExecutionStatus option"
  cs_SettleTransaction :: "TransactionExecutionStatus option"
  cs_UpdateTransaction :: "TransactionExecutionStatus option"
  cs_OurUnlockTransaction :: "TransactionExecutionStatus option"
  cs_WithdrawTransaction :: "TransactionExecutionStatus option"

text \<open>The status strings of a channel (\<open>state.go\<close>, \<open>ChannelStateClosed\<close> and its siblings).\<close>

datatype (plugins only: code) ChannelStatus =
    ChannelStateClosed
  | ChannelStateClosing
  | ChannelStateOpened
  | ChannelStateSettled
  | ChannelStateSettling
  | ChannelStateUnusable

definition TxnExecSucc :: string where
  "TxnExecSucc = ''success''"

definition TxnExecFail :: string where
  "TxnExecFail = ''failure''"

record RouteState =
  rt_NodeAddress :: Address
  rt_ChannelId :: ChannelID

record LockedTransferUnsignedState =
  lu_PaymentId :: PaymentID
  lu_Token :: Address
  lu_BalanceProof :: BalanceProofUnsignedState
  lu_Lock :: HashTimeLockState
  lu_Initiator :: Address
  lu_Target :: Address
  lu_EncSecret :: EncSecret
  lu_Mediators :: "Address list"

record LockedTransferSignedState =
  ls_MessageId :: MessageID
  ls_PaymentId :: PaymentID
  ls_Token :: Address
  ls_BalanceProof :: BalanceProofSignedState
  ls_Lock :: HashTimeLockState
  ls_Initiator :: Address
  ls_Target :: Address
  ls_EncSecret :: EncSecret
  ls_Mediators :: "Address list"

record TransferDescriptionWithSecretState =
  td_PaymentNetworkId :: PaymentNetworkID
  td_PaymentId :: PaymentID
  td_Amount :: TokenAmount
  td_TokenNetworkId :: TokenNetworkID
  td_Initiator :: Address
  td_Target :: Address
  td_Secret :: Secret
  td_EncSecret :: EncSecret
  td_SecretHash :: SecretHash

section \<open>Errors and reasons\<close>

text \<open>
  The error values of the channel code, one constructor per message, with the values it formats.
  \<open>Msg\<close> stands for a message without arguments. \<open>InMessage m x\<close> is the error \<open>x\<close> reported for an invalid message of kind \<open>m\<close>.
\<close>

datatype (plugins only: code) error =
    Msg string
  | NotExpired BlockHeight BlockHeight
  | NoCorrespondingLock SecretHash
  | InMessage string error
  | LocksRootMismatch LocksRoot LocksRoot
  | TransferredMismatch TokenAmount TokenAmount
  | LockedMismatch TokenAmount TokenAmount
  | TransferredNotIncreased TokenAmount TokenAmount
  | ExceedsDistributable TokenAmount TokenAmount
  | ChannelIdMismatch ChannelID ChannelID
  | TokenNetworkMismatch TokenNetworkID TokenNetworkID
  | ChainIdMismatch ChainID ChainID
  | NonceMismatch Nonce Nonce
  | PaymentAmountInvalid TokenAmount
  | WithdrawDecreased TokenAmount TokenAmount
  | WithdrawExceedsDeposit TokenAmount TokenAmount TokenAmount TokenAmount
  | BalanceMismatch TokenAmount TokenAmount TokenAmount TokenAmount
  | LockHasExpired BlockExpiration BlockHeight
  | LockTimeoutUnsafe BlockTimeout BlockHeight BlockExpiration BlockHeight

end
