(* ===== verification/Pylons_Sample.thy ===== *)
theory Pylons_Sample
  imports Pylons_State
begin

text \<open>
  A concrete environment, at which the theorems with hypotheses are applied. The hash is constant (the
  theorems hold for every hash function, collisions included), every signature verifies, and a public
  key belongs to the address that is its length.
\<close>

definition sample_config :: PylonsConfig where
  "sample_config = \<lparr>WithdrawTimeout = 10, MaxBlockDelay = 1, ConfirmBlockCount = 3\<rparr>"

definition sample_env :: env where
  "sample_env =
     \<lparr>sha256 = (\<lambda>_. 7), DeserializePublicKey = Some, SigDeserialize = Some, SigVerify = (\<lambda>_ _ _. True),
      AddressFromPubKey = (\<lambda>pk. of_nat (length pk)), Decrypt = (\<lambda>c. Some c), SIGNATURE_PREFIX = [1],
      CLOSE_MESSAGE_LENGTH = [2], BALANCEPROOF_UPDATE_MESSAGE_LENGTH = [3], COSETTLE_MESSAGE_LENGTH = [4],
      WITHDRAW_MESSAGE_LENGTH = [5], BalanceProofUpdate = 2, COOPERATIVESETTLE = 4, WITHDRAW = 3,
      USDT_CONTRACT_ADDRESS = 9, MicroPayContractAddress = 8, FloatOutOfRange = (\<lambda>_. 0), Config = sample_config\<rparr>"

lemma sample_env_simps [simp]:
  "sha256 sample_env bs = 7" "DeserializePublicKey sample_env = Some" "SigDeserialize sample_env = Some"
  "SigVerify sample_env a b c" "AddressFromPubKey sample_env pk = of_nat (length pk)"
  "ConfirmBlockCount (Config sample_env) = 3" "MaxBlockDelay (Config sample_env) = 1"
  "WithdrawTimeout (Config sample_env) = 10"
  by (simp_all add: sample_env_def sample_config_def)

end
