(* ===== verification/Pylons_Common.thy ===== *)
theory Pylons_Common
  imports Pylons_Sample
begin

text \<open>
  The helpers of \<open>common/common.go\<close>, \<open>common/signature.go\<close>, \<open>transfer/utils.go\<close> and
  \<open>transfer/pack.go\<close>: comparison of byte arrays, the byte encodings that are hashed and signed, and
  the signature check. The lemmas show that the byte-wise loops are equality and the order on the
  words that model the arrays, that the integer encoding can be read back, and that the packed
  messages determine the values packed into them.
\<close>

section \<open>Comparison of arrays\<close>

fun bytes_compare :: "byte list \<Rightarrow> byte list \<Rightarrow> int" where
  "bytes_compare (x # xs) (y # ys) =
     (if x > y then 1 else if x < y then -1 else bytes_compare xs ys)"
| "bytes_compare _ _ = 0"

definition Keccak256Compare :: "Keccak256 \<Rightarrow> Keccak256 \<Rightarrow> int" where
  "Keccak256Compare one two = bytes_compare (hash_bytes one) (hash_bytes two)"

definition Keccak256Less :: "Keccak256 \<Rightarrow> Keccak256 \<Rightarrow> bool" where
  "Keccak256Less a b \<longleftrightarrow> Keccak256Compare a b < 0"

fun bytes_equal :: "byte list \<Rightarrow> byte list \<Rightarrow> bool" where
  "bytes_equal (x # xs) (y # ys) = (if x \<noteq> y then False else bytes_equal xs ys)"
| "bytes_equal _ _ = True"

definition AddressEqual :: "Address \<Rightarrow> Address \<Rightarrow> bool" where
  "AddressEqual address1 address2 = bytes_equal (addr_bytes address1) (addr_bytes address2)"

definition compareLocksroot :: "LocksRoot \<Rightarrow> LocksRoot \<Rightarrow> bool" where
  "compareLocksroot one two = bytes_equal (hash_bytes one) (hash_bytes two)"

fun AddressContains :: "Address list \<Rightarrow> Address \<Rightarrow> bool" where
  "AddressContains [] address = False"
| "AddressContains (addr # addrs) address =
     (if AddressEqual addr address then True else AddressContains addrs address)"

lemma bytes_compare_eq_0: "length xs = length ys \<Longrightarrow> bytes_compare xs ys = 0 \<longleftrightarrow> xs = ys"
  by (induction xs ys rule: bytes_compare.induct) auto

lemma bytes_compare_neg:
  "length xs = length ys \<Longrightarrow> bytes_compare xs ys < 0 \<longleftrightarrow> be_val xs < be_val ys"
proof (induction xs ys rule: bytes_compare.induct)
  case (1 x xs y ys)
  let ?p = "256 ^ length ys :: nat"
  have bx: "be_val xs < ?p" and by': "be_val ys < ?p"
    using be_val_bound [of xs] be_val_bound [of ys] "1.prems" by simp_all
  have less: "be_val (a # as) < be_val (b # bs)"
    if "a < b" "be_val as < ?p" "length as = length ys" "length bs = length ys"
    for a b :: byte and as bs
  proof -
    from \<open>a < b\<close> have "Suc (unat a) \<le> unat b" by (simp add: word_less_nat_alt)
    then have "Suc (unat a) * ?p \<le> unat b * ?p" by (rule mult_le_mono1)
    with that show ?thesis by (simp add: be_val_Cons)
  qed
  consider "x > y" | "x < y" | "x = y" by force
  then show ?case
  proof cases
    case 1
    with less [of y x ys xs] by' "1.prems" show ?thesis by simp
  next
    case 2
    with less [of x y xs ys] bx "1.prems" show ?thesis by simp
  next
    case 3
    with "1.IH" "1.prems" show ?thesis by (simp add: be_val_Cons)
  qed
qed auto

lemma bytes_equal_iff: "length xs = length ys \<Longrightarrow> bytes_equal xs ys \<longleftrightarrow> xs = ys"
  by (induction xs ys rule: bytes_equal.induct) auto

lemma Keccak256Compare_eq_0 [simp]: "Keccak256Compare a b = 0 \<longleftrightarrow> a = b"
  by (simp add: Keccak256Compare_def bytes_compare_eq_0)

lemma Keccak256Less_iff [simp]: "Keccak256Less a b \<longleftrightarrow> a < b"
  by (simp add: Keccak256Less_def Keccak256Compare_def bytes_compare_neg be_val_hash_bytes word_less_nat_alt)

lemma Keccak256Compare_pos [simp]: "Keccak256Compare a b > 0 \<longleftrightarrow> a > b"
proof -
  have "Keccak256Compare a b < 0 \<longleftrightarrow> a < b"
    using Keccak256Less_iff [of a b] by (simp only: Keccak256Less_def)
  with Keccak256Compare_eq_0 [of a b] show ?thesis
    by (metis less_irrefl linorder_less_linear order_less_asym)
qed

lemma AddressEqual_iff [simp]: "AddressEqual a b \<longleftrightarrow> a = b"
  by (simp add: AddressEqual_def bytes_equal_iff)

lemma compareLocksroot_iff [simp]: "compareLocksroot a b \<longleftrightarrow> a = b"
  by (simp add: compareLocksroot_def bytes_equal_iff)

lemma AddressContains_iff [simp]: "AddressContains addrs a \<longleftrightarrow> a \<in> set addrs"
  by (induction addrs) auto

section \<open>Sorting of hashes\<close>

text \<open>
  \<open>sort.Sort(common.Keccak256Slice(xs))\<close>. \<open>Less\<close> is a total order on the arrays
  (\<open>Keccak256Less_iff\<close>), so the sorted slice is determined by its contents whatever algorithm the
  library uses.
\<close>

definition Keccak256Sort :: "Keccak256 list \<Rightarrow> Keccak256 list" where
  "Keccak256Sort xs = sort xs"

lemma Keccak256Sort_spec:
  "mset (Keccak256Sort xs) = mset xs" "sorted_wrt (\<lambda>a b. \<not> Keccak256Less b a) (Keccak256Sort xs)"
  by (simp_all add: Keccak256Sort_def not_less)

section \<open>Integer encodings\<close>

definition Uint64ToBytes :: "u64 \<Rightarrow> byte list" where
  "Uint64ToBytes n = map (\<lambda>i. ucast (drop_bit (8 * i) n)) [0..<8]"

text \<open>\<open>binary.Read\<close> leaves the variable at 0 when fewer than eight bytes are there.\<close>

definition BytesToUint64 :: "byte list \<Rightarrow> u64" where
  "BytesToUint64 data =
     (if length data < 8 then 0
      else foldr (\<lambda>b acc. ucast b OR push_bit 8 acc) (take 8 data) 0)"

lemma length_Uint64ToBytes [simp]: "length (Uint64ToBytes n) = 8"
  by (simp add: Uint64ToBytes_def)

lemma word_split_byte: "(ucast (ucast w :: byte) :: u64) OR push_bit 8 (drop_bit 8 w) = w"
proof (rule bit_word_eqI)
  fix n assume "n < LENGTH(64)"
  then show "bit ((ucast (ucast w :: byte) :: u64) OR push_bit 8 (drop_bit 8 w)) n = bit w n"
    by (cases "n < 8") (auto simp: bit_simps)
qed

lemma foldr_bytes:
  assumes "k \<le> 8"
  shows "foldr (\<lambda>b acc. (ucast b :: u64) OR push_bit 8 acc)
      (map (\<lambda>i. ucast (drop_bit (8 * i) n) :: byte) [k..<8]) 0 = drop_bit (8 * k) n"
  using assms
proof (induction k rule: inc_induct)
  case base
  show ?case by (rule bit_word_eqI) (auto simp: bit_simps dest: bit_imp_le_length)
next
  case (step k)
  from step.hyps have "[k..<8] = k # [Suc k..<8]" by (simp add: upt_rec)
  with step.IH word_split_byte [of "drop_bit (8 * k) n"] show ?case
    by (simp add: add.commute)
qed

lemma Uint64_roundtrip: "BytesToUint64 (Uint64ToBytes n) = n"
  using foldr_bytes [of 0 n] by (simp add: BytesToUint64_def Uint64ToBytes_def)

lemma Uint64ToBytes_inject [simp]: "Uint64ToBytes a = Uint64ToBytes b \<longleftrightarrow> a = b"
  by (metis Uint64_roundtrip)

section \<open>Hashed and signed messages\<close>

definition GetHash :: "env \<Rightarrow> byte list \<Rightarrow> SecretHash" where
  "GetHash e data = sha256 e data"

definition HashBalanceData :: "env \<Rightarrow> TokenAmount \<Rightarrow> TokenAmount \<Rightarrow> LocksRoot \<Rightarrow> BalanceHash" where
  "HashBalanceData e transferredAmount lockedAmount locksRoot =
     (if transferredAmount = 0 \<and> lockedAmount = 0 \<and> compareLocksroot locksRoot 0 then 0
      else GetHash e (Uint64ToBytes transferredAmount @ Uint64ToBytes lockedAmount
                      @ hash_bytes locksRoot))"

definition PackBalanceProof ::
  "env \<Rightarrow> Nonce \<Rightarrow> BalanceHash \<Rightarrow> byte list \<Rightarrow> ChannelID \<Rightarrow> TokenNetworkID \<Rightarrow> ChainID \<Rightarrow> goint \<Rightarrow> byte list"
where
  "PackBalanceProof e nonce balanceHash additionalHash channelId tokenNetworkAddr chainId msgType =
     hash_bytes (sha256 e
       (SIGNATURE_PREFIX e @ CLOSE_MESSAGE_LENGTH e @ Uint64ToBytes msgType
        @ Uint64ToBytes (ucast channelId) @ hash_bytes balanceHash @ Uint64ToBytes nonce
        @ additionalHash))"

definition PackBalanceProofUpdate ::
  "env \<Rightarrow> Nonce \<Rightarrow> BalanceHash \<Rightarrow> byte list \<Rightarrow> ChannelID \<Rightarrow> TokenNetworkID \<Rightarrow> ChainID \<Rightarrow> Signature \<Rightarrow> byte list"
where
  "PackBalanceProofUpdate e nonce balanceHash addtionalHash channelId tokenNetworkAddr chainId closeSignature =
     hash_bytes (sha256 e
       (SIGNATURE_PREFIX e @ BALANCEPROOF_UPDATE_MESSAGE_LENGTH e @ Uint64ToBytes (BalanceProofUpdate e)
        @ Uint64ToBytes (ucast channelId) @ hash_bytes balanceHash @ Uint64ToBytes nonce
        @ addtionalHash @ closeSignature))"

definition PackCooperativeSettle ::
  "env \<Rightarrow> ChannelID \<Rightarrow> Address \<Rightarrow> TokenAmount \<Rightarrow> Address \<Rightarrow> TokenAmount \<Rightarrow> byte list" where
  "PackCooperativeSettle e channelId participant1 participant1Balance participant2 participant2Balance =
     hash_bytes (sha256 e
       (SIGNATURE_PREFIX e @ COSETTLE_MESSAGE_LENGTH e @ Uint64ToBytes (COOPERATIVESETTLE e)
        @ Uint64ToBytes (ucast channelId) @ addr_bytes participant1 @ Uint64ToBytes participant1Balance
        @ addr_bytes participant2 @ Uint64ToBytes participant2Balance))"

definition PackWithdraw :: "env \<Rightarrow> ChannelID \<Rightarrow> Address \<Rightarrow> TokenAmount \<Rightarrow> byte list" where
  "PackWithdraw e channelId participant withdrawAmount =
     hash_bytes (sha256 e
       (SIGNATURE_PREFIX e @ WITHDRAW_MESSAGE_LENGTH e @ Uint64ToBytes (WITHDRAW e)
        @ Uint64ToBytes (ucast channelId) @ addr_bytes participant @ Uint64ToBytes withdrawAmount))"

text \<open>\<open>HashTimeLockState.PackData\<close> and \<open>CalcLockHash\<close> (\<open>transfer/state.go\<close>).\<close>

definition PackData :: "HashTimeLockState \<Rightarrow> byte list" where
  "PackData l = Uint64ToBytes (ucast (lk_Expiration l)) @ Uint64ToBytes (lk_Amount l)
     @ hash_bytes (lk_SecretHash l)"

definition CalcLockHash :: "env \<Rightarrow> HashTimeLockState \<Rightarrow> LockHash" where
  "CalcLockHash e l = GetHash e (PackData l)"

lemma CalcLockHash_LockHash [simp]: "CalcLockHash e (l\<lparr>lk_LockHash := h\<rparr>) = CalcLockHash e l"
  by (simp add: CalcLockHash_def PackData_def)

lemma u32_in_u64_inject: "ucast (a :: u32) = (ucast b :: u64) \<longleftrightarrow> a = b"
proof -
  have "unat (ucast w :: u64) = unat w" for w :: u32
  proof -
    have "unat w < 2 ^ 32" using unsigned_less [of w] by simp
    then show ?thesis by (simp add: unsigned_ucast_eq take_bit_nat_eq_self)
  qed
  then show ?thesis by (metis word_unat_eq_iff)
qed

lemma PackData_inject:
  "PackData a = PackData b \<longleftrightarrow>
     lk_Expiration a = lk_Expiration b \<and> lk_Amount a = lk_Amount b \<and> lk_SecretHash a = lk_SecretHash b"
  by (auto simp: PackData_def append_eq_append_conv u32_in_u64_inject)

section \<open>Signatures\<close>

definition GetPublicKey :: "env \<Rightarrow> PubKey \<Rightarrow> error + byte list" where
  "GetPublicKey e pubKeyBuf =
     (case DeserializePublicKey e pubKeyBuf of
        None \<Rightarrow> Inl (Msg ''deserialize publickey error'')
      | Some pubKey \<Rightarrow> Inr pubKey)"

definition VerifySignature :: "env \<Rightarrow> byte list \<Rightarrow> byte list \<Rightarrow> Signature \<Rightarrow> error + unit" where
  "VerifySignature e pubKey data signature =
     (case SigDeserialize e signature of
        None \<Rightarrow> Inl (Msg ''invalid signature data'')
      | Some sigObj \<Rightarrow>
          if \<not> SigVerify e pubKey data sigObj then Inl (Msg ''signature verification failed'')
          else Inr ())"

definition GetAddressFromPubKey :: "env \<Rightarrow> byte list \<Rightarrow> Address" where
  "GetAddressFromPubKey e pubKey = AddressFromPubKey e pubKey"

definition isValidSignature ::
  "env \<Rightarrow> byte list \<Rightarrow> PubKey \<Rightarrow> Signature \<Rightarrow> Address \<Rightarrow> error + unit" where
  "isValidSignature e dataToSign publicKey signature senderAddress =
     (if dataToSign = [] then Inl (Msg ''Signature invalid, dataToSign is nil'')
      else case GetPublicKey e publicKey of
        Inl _ \<Rightarrow> Inl (Msg ''Failed to get public key'')
      | Inr pubKey \<Rightarrow>
         (case VerifySignature e pubKey dataToSign signature of
            Inl _ \<Rightarrow> Inl (Msg ''Signature invalid, could not be recovered'')
          | Inr _ \<Rightarrow>
             (let signerAddress = GetAddressFromPubKey e pubKey
              in if AddressEqual senderAddress signerAddress then Inr ()
                 else Inl (Msg ''Signature was valid but the expected address does not match.''))))"

text \<open>Acceptance of a signature, spelled out over the signature scheme.\<close>

definition signed_by :: "env \<Rightarrow> Address \<Rightarrow> byte list \<Rightarrow> PubKey \<Rightarrow> Signature \<Rightarrow> bool" where
  "signed_by e signer data publicKey signature \<longleftrightarrow>
     (\<exists>pk so. DeserializePublicKey e publicKey = Some pk \<and> SigDeserialize e signature = Some so
        \<and> SigVerify e pk data so \<and> AddressFromPubKey e pk = signer)"

lemma isValidSignature_iff:
  "isValidSignature e data pk sig a = Inr () \<longleftrightarrow> data \<noteq> [] \<and> signed_by e a data pk sig"
  by (auto simp: isValidSignature_def signed_by_def GetPublicKey_def VerifySignature_def
      GetAddressFromPubKey_def Let_def split: option.splits if_splits)

lemma Pack_not_Nil [simp]:
  "PackBalanceProof e n bh ah c tn ch t \<noteq> []"
  "PackCooperativeSettle e c p1 b1 p2 b2 \<noteq> []"
  "PackWithdraw e c p w \<noteq> []"
  by (simp_all add: PackBalanceProof_def PackCooperativeSettle_def PackWithdraw_def
      flip: length_greater_0_conv)

definition IsValidSecretReveal :: "env \<Rightarrow> Secret \<Rightarrow> SecretHash \<Rightarrow> Secret \<Rightarrow> bool" where
  "IsValidSecretReveal e stateChangeSecret transferSecretHash secret =
     (secret \<noteq> replicate 32 0 \<and> GetHash e stateChangeSecret = transferSecretHash)"

section \<open>Properties\<close>

text \<open>
  The byte-by-byte comparison of hashes is a total order that agrees with equality: the result
  is zero exactly for equal arrays, the sign flips when the arguments are swapped, and less is
  transitive and total.
\<close>

theorem Keccak256Compare_total_order:
  "(Keccak256Compare a b = 0) = (a = b)
   \<and> (Keccak256Compare a b < 0) = (Keccak256Compare b a > 0)
   \<and> (\<not> (Keccak256Less a b \<and> Keccak256Less b c) \<or> Keccak256Less a c)
   \<and> (Keccak256Less a b \<or> a = b \<or> Keccak256Less b a)"
proof -
  have "Keccak256Compare a b < 0 \<longleftrightarrow> a < b"
    using Keccak256Less_iff [of a b] by (simp only: Keccak256Less_def)
  then show ?thesis by auto
qed

text \<open>The order applied at three hashes that are in order.\<close>

theorem Keccak256Compare_total_order_witness:
  "Keccak256Less 1 256 \<and> Keccak256Less 256 65536 \<and> Keccak256Less 1 65536 \<and> Keccak256Compare 65536 1 > 0"
  using Keccak256Compare_total_order [of 1 65536 65536] Keccak256Compare_total_order [of 1 256 65536] by simp

text \<open>
  Reading an encoded integer gives it back, whatever bytes follow: \<open>BytesToUint64\<close> uses the
  first eight bytes, which are the little-endian encoding that \<open>Uint64ToBytes\<close> writes.
\<close>

theorem Uint64_codec: "BytesToUint64 (Uint64ToBytes n @ rest) = n \<and> length (Uint64ToBytes n) = 8"
  using Uint64_roundtrip [of n] by (simp add: BytesToUint64_def)

text \<open>
  The bytes hashed for a lock determine its expiration, amount and secret hash, so two locks
  with equal hashes and different contents are a collision of the hash function. The same holds for
  the bytes of the balance hash: amounts and locks root can be read off them.
\<close>

theorem lock_encoding_injective:
  "(PackData a = PackData b) =
     (lk_Expiration a = lk_Expiration b \<and> lk_Amount a = lk_Amount b \<and> lk_SecretHash a = lk_SecretHash b)
   \<and> (Uint64ToBytes t @ Uint64ToBytes l @ hash_bytes r = Uint64ToBytes t' @ Uint64ToBytes l' @ hash_bytes r') =
     (t = t' \<and> l = l' \<and> r = r')"
  by (auto simp: PackData_inject append_eq_append_conv)

end
