(* ===== verification/Pylons_Merkle.thy ===== *)
theory Pylons_Merkle
  imports Pylons_Common
begin

text \<open>
  The Merkle tree of pending lock hashes (\<open>transfer/merkle_tree.go\<close> and the two update functions of
  \<open>transfer/channel.go\<close>). A tree is its list of layers, leaves first, as in the code.

  The abstract object behind a tree is the finite set of its leaves: \<open>tree_of\<close> is the one tree the
  code builds for a set, and the update functions are shown to compute insertion and removal on that
  set. The interface the channel code relies on is the locale \<open>lock_tree\<close>.
\<close>

section \<open>Construction\<close>

definition GetEmptyMerkleTree :: MerkleTreeState where
  "GetEmptyMerkleTree = \<lparr>Layers = [[], [0]]\<rparr>"

definition HashPair :: "env \<Rightarrow> Keccak256 \<Rightarrow> Keccak256 \<Rightarrow> Keccak256" where
  "HashPair e first second =
     (if Keccak256Compare first 0 = 0 then second
      else if Keccak256Compare second 0 = 0 then first
      else let data = (if Keccak256Compare first second > 0 then hash_bytes second @ hash_bytes first
                       else hash_bytes first @ hash_bytes second)
           in sha256 e data)"

text \<open>One pass of the inner loop of \<open>computeLayers\<close>.\<close>

fun newLayer :: "env \<Rightarrow> Keccak256 list \<Rightarrow> Keccak256 list" where
  "newLayer e (x # y # rest) = HashPair e x y # newLayer e rest"
| "newLayer e [x] = [HashPair e x 0]"
| "newLayer e [] = []"

lemma length_newLayer: "length (newLayer e xs) = (length xs + 1) div 2"
  by (induction e xs rule: newLayer.induct) auto

function layersAbove :: "env \<Rightarrow> Keccak256 list \<Rightarrow> Keccak256 list list" where
  "layersAbove e layer =
     (if length layer > 1 then let l = newLayer e layer in l # layersAbove e l else [])"
  by pat_completeness auto

termination by (relation "measure (\<lambda>(e, layer). length layer)") (auto simp: length_newLayer)

declare layersAbove.simps [simp del]

definition computeLayers :: "env \<Rightarrow> Keccak256 list \<Rightarrow> Keccak256 list list" where
  "computeLayers e elements = (let leaves = Keccak256Sort elements in leaves # layersAbove e leaves)"

definition MerkleRoot :: "Keccak256 list list \<Rightarrow> Keccak256" where
  "MerkleRoot merkleTree =
     (let levelNum = length merkleTree
      in if levelNum = 0 then 0
         else let rootLevel = merkleTree ! (levelNum - 1)
              in if length rootLevel = 0 then 0 else rootLevel ! 0)"

definition MerkleTreeWidth :: "MerkleTreeState \<Rightarrow> nat" where
  "MerkleTreeWidth merkleTree =
     (if length (Layers merkleTree) = 0 then 0 else length (Layers merkleTree ! 0))"

section \<open>Adding and removing a lock hash\<close>

text \<open>The search loop both functions start with: the index of the first equal leaf.\<close>

fun findLeaf :: "Keccak256 list \<Rightarrow> Keccak256 \<Rightarrow> nat option" where
  "findLeaf [] h = None"
| "findLeaf (x # xs) h =
     (if Keccak256Compare x h = 0 then Some 0 else map_option Suc (findLeaf xs h))"

text \<open>
  \<open>merkleTree.Layers[0]\<close> panics on a tree without layers (\<open>None\<close>). \<open>computeMerkleTreeWith\<close> returns a
  nil tree when the hash is there already. \<open>computeMerkleTreeWithout\<close> returns a tree without layers
  when the hash is not there.
\<close>

definition computeMerkleTreeWith ::
  "env \<Rightarrow> MerkleTreeState \<Rightarrow> LockHash \<Rightarrow> MerkleTreeState option option" where
  "computeMerkleTreeWith e merkleTree lockHash =
     (if Layers merkleTree = [] then None
      else let leaves = Layers merkleTree ! 0
           in Some (case findLeaf leaves lockHash of
                      None \<Rightarrow> Some \<lparr>Layers = computeLayers e (leaves @ [lockHash])\<rparr>
                    | Some _ \<Rightarrow> None))"

definition computeMerkleTreeWithout ::
  "env \<Rightarrow> MerkleTreeState \<Rightarrow> LockHash \<Rightarrow> MerkleTreeState option" where
  "computeMerkleTreeWithout e merkleTree lockHash =
     (if Layers merkleTree = [] then None
      else let leaves = Layers merkleTree ! 0
           in Some (case findLeaf leaves lockHash of
                      None \<Rightarrow> \<lparr>Layers = []\<rparr>
                    | Some i \<Rightarrow>
                       (let newLeaves = take i leaves @ (if i + 1 < length leaves then drop (i + 1) leaves else [])
                        in if length newLeaves > 0 then \<lparr>Layers = computeLayers e newLeaves\<rparr>
                           else GetEmptyMerkleTree)))"

section \<open>Proofs\<close>

text \<open>Go's division truncates towards zero, and the index starts at -1 when the element is absent.\<close>

definition go_half :: "int \<Rightarrow> int" where
  "go_half i = (if i < 0 then - ((- i) div 2) else i div 2)"

fun proofLoop :: "Keccak256 list list \<Rightarrow> nat \<Rightarrow> int \<Rightarrow> Keccak256 list option" where
  "proofLoop [] i idx = Some []"
| "proofLoop (layer # layers) i idx =
     (let pair = (if idx mod 2 \<noteq> 0 then idx - 1 else idx + 1)
      in if i < length layer
         then if 0 \<le> pair \<and> pair < int (length layer)
              then map_option ((#) (layer ! nat pair)) (proofLoop layers (Suc i) (go_half idx))
              else None
         else proofLoop layers (Suc i) (go_half idx))"

definition computeMerkleProofFor ::
  "Keccak256 list list \<Rightarrow> Keccak256 \<Rightarrow> Keccak256 list option" where
  "computeMerkleProofFor merkletree element =
     (if merkletree = [] then None
      else proofLoop merkletree 0 (case findLeaf (merkletree ! 0) element of None \<Rightarrow> -1 | Some i \<Rightarrow> int i))"

definition validateProof :: "env \<Rightarrow> Keccak256 list \<Rightarrow> Keccak256 \<Rightarrow> Keccak256 \<Rightarrow> bool" where
  "validateProof e proof root leafElement =
     (Keccak256Compare (foldl (HashPair e) leafElement proof) root = 0)"

section \<open>Lemmas\<close>

lemma HashPair_zero [simp]: "HashPair e 0 x = x" "HashPair e x 0 = x"
  by (simp_all add: HashPair_def)

lemma HashPair_commute: "HashPair e a b = HashPair e b a"
  by (auto simp: HashPair_def not_less)

lemma newLayer_Nil_iff [simp]: "newLayer e xs = [] \<longleftrightarrow> xs = []"
  by (cases "(e, xs)" rule: newLayer.cases) auto

lemma findLeaf_None [simp]: "findLeaf xs h = None \<longleftrightarrow> h \<notin> set xs"
  by (induction xs) auto

lemma findLeaf_Some: "findLeaf xs h = Some i \<Longrightarrow> i < length xs \<and> xs ! i = h"
  by (induction xs arbitrary: i) (auto split: if_splits)

lemma remove_at_distinct:
  assumes "distinct xs" and "i < length xs"
  shows "set (take i xs @ drop (i + 1) xs) = set xs - {xs ! i}" "distinct (take i xs @ drop (i + 1) xs)"
proof -
  have xs: "xs = take i xs @ xs ! i # drop (i + 1) xs"
    using assms(2) by (simp add: id_take_nth_drop)
  then have "set xs = set (take i xs @ xs ! i # drop (i + 1) xs)" by simp
  moreover have d: "distinct (take i xs @ xs ! i # drop (i + 1) xs)" using assms(1) xs by simp
  ultimately show "set (take i xs @ drop (i + 1) xs) = set xs - {xs ! i}" by auto
  show "distinct (take i xs @ drop (i + 1) xs)" using d by simp
qed

lemma computeLayers_distinct:
  "distinct xs \<Longrightarrow> computeLayers e xs = computeLayers e (sorted_list_of_set (set xs))"
  by (simp add: computeLayers_def Keccak256Sort_def sorted_list_of_set_sort_remdups distinct_remdups_id
      sorted_sort_id)

lemma computeLayers_perm: "mset xs = mset ys \<Longrightarrow> computeLayers e xs = computeLayers e ys"
  using properties_for_sort [of "sort xs" ys] by (simp add: computeLayers_def Keccak256Sort_def)

section \<open>The set of leaves behind a tree\<close>

definition tree_of :: "env \<Rightarrow> Keccak256 set \<Rightarrow> MerkleTreeState" where
  "tree_of e S =
     (if S = {} then GetEmptyMerkleTree else \<lparr>Layers = computeLayers e (sorted_list_of_set S)\<rparr>)"

definition leaves_of :: "MerkleTreeState \<Rightarrow> Keccak256 set" where
  "leaves_of t = (if Layers t = [] then {} else set (Layers t ! 0))"

definition mt_wf :: "env \<Rightarrow> MerkleTreeState \<Rightarrow> bool" where
  "mt_wf e t \<longleftrightarrow> t = tree_of e (leaves_of t)"

lemma Layers_tree_of [simp]:
  "Layers (tree_of e S) \<noteq> []" "Layers (tree_of e S) ! 0 = sorted_list_of_set S"
  by (simp_all add: tree_of_def GetEmptyMerkleTree_def computeLayers_def Keccak256Sort_def
      sorted_sort_id Let_def)

lemma leaves_tree_of [simp]: "finite S \<Longrightarrow> leaves_of (tree_of e S) = S"
  by (simp add: leaves_of_def)

lemma finite_leaves_of [simp]: "finite (leaves_of t)"
  by (simp add: leaves_of_def)

lemma mt_wf_tree_of [simp]: "finite S \<Longrightarrow> mt_wf e (tree_of e S)"
  by (simp add: mt_wf_def)

lemma MerkleTreeWidth_tree_of [simp]: "MerkleTreeWidth (tree_of e S) = card S"
  by (simp add: MerkleTreeWidth_def)

lemma With_tree_of:
  assumes "finite S"
  shows "computeMerkleTreeWith e (tree_of e S) h =
     Some (if h \<in> S then None else Some (tree_of e (insert h S)))"
proof (cases "h \<in> S")
  case True
  with assms show ?thesis by (auto simp: computeMerkleTreeWith_def Let_def split: option.split)
next
  case False
  let ?xs = "sorted_list_of_set S @ [h]"
  have "computeLayers e ?xs = computeLayers e (sorted_list_of_set (insert h S))"
    using computeLayers_distinct [of ?xs e] assms False by simp
  with assms False show ?thesis
    by (simp add: computeMerkleTreeWith_def Let_def tree_of_def [of e "insert h S"] split: option.split)
qed

lemma Without_tree_of:
  assumes "finite S"
  shows "computeMerkleTreeWithout e (tree_of e S) h =
     Some (if h \<in> S then tree_of e (S - {h}) else \<lparr>Layers = []\<rparr>)"
proof (cases "h \<in> S")
  case False
  with assms have "findLeaf (sorted_list_of_set S) h = None" by simp
  with False show ?thesis by (simp add: computeMerkleTreeWithout_def Let_def del: findLeaf_None)
next
  case True
  let ?xs = "sorted_list_of_set S"
  obtain i where i: "findLeaf ?xs h = Some i" using True assms by fastforce
  then have lt: "i < length ?xs" and at: "?xs ! i = h" by (blast dest: findLeaf_Some)+
  let ?ys = "take i ?xs @ drop (i + 1) ?xs"
  have ys: "set ?ys = S - {h}" "distinct ?ys"
    using remove_at_distinct [of ?xs i] lt at assms by simp_all
  have "?ys = [] \<longleftrightarrow> S - {h} = {}" using ys(1) by (metis set_empty)
  moreover have "computeLayers e ?ys = computeLayers e (sorted_list_of_set (S - {h}))"
    using computeLayers_distinct [OF ys(2)] ys(1) by simp
  moreover have "take i ?xs @ (if i + 1 < length ?xs then drop (i + 1) ?xs else []) = ?ys" by simp
  ultimately show ?thesis
    using True i by (simp add: computeMerkleTreeWithout_def Let_def tree_of_def [of e "S - {h}"])
qed

lemma root_tree_of_empty [simp]: "MerkleRoot (Layers (tree_of e {})) = 0"
  by (simp add: MerkleRoot_def tree_of_def GetEmptyMerkleTree_def)

lemma computeLayers_single: "MerkleRoot (computeLayers e [h]) = h"
  by (simp add: computeLayers_def Keccak256Sort_def MerkleRoot_def layersAbove.simps)

section \<open>The interface of the lock tree\<close>

text \<open>
  What the channel code relies on: a tree is determined by its leaves, and the updates insert and
  remove one leaf. The client lemmas are about sequences of updates.
\<close>

locale lock_tree =
  fixes wf :: "'t \<Rightarrow> bool"
    and leaves :: "'t \<Rightarrow> 'h set"
    and empty :: 't
    and tadd :: "'t \<Rightarrow> 'h \<Rightarrow> 't option option"
    and tdel :: "'t \<Rightarrow> 'h \<Rightarrow> 't option"
  assumes wf_empty: "wf empty"
    and leaves_empty: "leaves empty = {}"
    and canonical: "wf t \<Longrightarrow> wf t' \<Longrightarrow> leaves t = leaves t' \<Longrightarrow> t = t'"
    and tadd_known: "wf t \<Longrightarrow> h \<in> leaves t \<Longrightarrow> tadd t h = Some None"
    and tadd_fresh: "wf t \<Longrightarrow> h \<notin> leaves t \<Longrightarrow>
      \<exists>t'. tadd t h = Some (Some t') \<and> wf t' \<and> leaves t' = insert h (leaves t)"
    and tdel_known: "wf t \<Longrightarrow> h \<in> leaves t \<Longrightarrow>
      \<exists>t'. tdel t h = Some t' \<and> wf t' \<and> leaves t' = leaves t - {h}"
begin

lemma del_add:
  assumes "wf t" and "tadd t h = Some (Some t')"
  shows "tdel t' h = Some t"
proof -
  have h: "h \<notin> leaves t" using assms tadd_known by fastforce
  then have t': "wf t'" "leaves t' = insert h (leaves t)" using tadd_fresh assms by fastforce+
  then obtain t'' where "tdel t' h = Some t''" "wf t''" "leaves t'' = leaves t' - {h}"
    using tdel_known by blast
  with t' h assms(1) canonical [of t'' t] show ?thesis by simp
qed

lemma add_del:
  assumes "wf t" and "h \<in> leaves t" and "tdel t h = Some t'"
  shows "tadd t' h = Some (Some t)"
proof -
  have t': "wf t'" "leaves t' = leaves t - {h}" using tdel_known assms by fastforce+
  then obtain t'' where "tadd t' h = Some (Some t'')" "wf t''" "leaves t'' = insert h (leaves t')"
    using tadd_fresh [of t' h] by blast
  with t' assms canonical [of t'' t] show ?thesis by (simp add: insert_absorb)
qed

lemma add_commute:
  assumes "wf t" and "tadd t a = Some (Some ta)" and "tadd t b = Some (Some tb)" and "a \<noteq> b"
  shows "tadd ta b = tadd tb a \<and> tadd ta b \<noteq> Some None"
proof -
  have h: "a \<notin> leaves t" "b \<notin> leaves t" using assms tadd_known by fastforce+
  then have ta: "wf ta" "leaves ta = insert a (leaves t)" and tb: "wf tb" "leaves tb = insert b (leaves t)"
    using tadd_fresh assms by fastforce+
  obtain u where u: "tadd ta b = Some (Some u)" "wf u" "leaves u = insert b (leaves ta)"
    using tadd_fresh [of ta b] ta h \<open>a \<noteq> b\<close> by auto
  obtain v where v: "tadd tb a = Some (Some v)" "wf v" "leaves v = insert a (leaves tb)"
    using tadd_fresh [of tb a] tb h \<open>a \<noteq> b\<close> by auto
  have "u = v" using canonical [of u v] u v ta tb by auto
  with u v show ?thesis by simp
qed

end

lemma mt_wf_cases:
  assumes "mt_wf e t"
  obtains S where "finite S" and "t = tree_of e S"
  using assms by (auto simp: mt_wf_def intro: finite_leaves_of)

interpretation mt: lock_tree "mt_wf e" leaves_of GetEmptyMerkleTree "computeMerkleTreeWith e"
  "computeMerkleTreeWithout e" for e
proof
  show "mt_wf e GetEmptyMerkleTree" and "leaves_of GetEmptyMerkleTree = {}"
    by (simp_all add: mt_wf_def leaves_of_def tree_of_def GetEmptyMerkleTree_def)
  show "t = t'" if "mt_wf e t" "mt_wf e t'" "leaves_of t = leaves_of t'" for t t'
    using that by (metis mt_wf_def)
qed (auto simp: With_tree_of Without_tree_of elim!: mt_wf_cases)

section \<open>Properties\<close>

text \<open>
  C37. The tree updates implement a finite set of lock hashes. On the tree of a set, adding a
  hash gives the tree of the larger set, or nil when the hash is already a leaf; removing a leaf gives
  the tree of the smaller set; the width of the tree is the size of the set; and removing a
  hash that is not a leaf gives the tree without layers, not the unchanged tree.
\<close>

theorem merkle_tree_refines_set:
  "computeMerkleTreeWith e (tree_of e (set xs)) h =
     Some (if h \<in> set xs then None else Some (tree_of e (insert h (set xs))))
   \<and> computeMerkleTreeWithout e (tree_of e (set xs)) h =
     Some (if h \<in> set xs then tree_of e (set xs - {h}) else \<lparr>Layers = []\<rparr>)
   \<and> MerkleTreeWidth (tree_of e (set xs)) = card (set xs)
   \<and> tree_of e {} = GetEmptyMerkleTree"
  by (simp add: With_tree_of Without_tree_of tree_of_def [of e "{}"])

text \<open>
  Adding a lock hash and removing it again gives back the same tree, and removing a leaf and
  adding it again does too.
\<close>

theorem merkle_add_remove:
  assumes "mt_wf e t" and "computeMerkleTreeWith e t h = Some (Some t')" and "k \<in> leaves_of t"
    and "computeMerkleTreeWithout e t k = Some t''"
  shows "computeMerkleTreeWithout e t' h = Some t \<and> computeMerkleTreeWith e t'' k = Some (Some t)"
  using mt.del_add [OF assms(1,2)] mt.add_del [OF assms(1,3,4)] by simp

text \<open>The round trip on the tree with the one leaf 3, to which 5 is added.\<close>

theorem merkle_add_remove_witness:
  "computeMerkleTreeWithout sample_env (tree_of sample_env {3, 5}) 5 = Some (tree_of sample_env {3})
   \<and> computeMerkleTreeWith sample_env GetEmptyMerkleTree 3 = Some (Some (tree_of sample_env {3}))"
proof -
  have "computeMerkleTreeWith sample_env (tree_of sample_env {3}) 5 = Some (Some (tree_of sample_env {3, 5}))"
    by (simp add: With_tree_of insert_commute)
  moreover have "computeMerkleTreeWithout sample_env (tree_of sample_env {3}) 3 = Some GetEmptyMerkleTree"
    by (simp add: Without_tree_of tree_of_def [of _ "{}"])
  ultimately show ?thesis using merkle_add_remove [of sample_env "tree_of sample_env {3}" 5 _ 3] by simp
qed

text \<open>
  The order in which locks are added does not matter: two new hashes added in either order
  give the same tree, so both peers compute the same locks root.
\<close>

theorem merkle_order_independent:
  assumes "mt_wf e t" and "computeMerkleTreeWith e t a = Some (Some ta)"
    and "computeMerkleTreeWith e t b = Some (Some tb)" and "a \<noteq> b"
  shows "\<exists>u. computeMerkleTreeWith e ta b = Some (Some u) \<and> computeMerkleTreeWith e tb a = Some (Some u)"
proof -
  have "mt_wf e ta" "b \<notin> leaves_of ta"
    using assms mt.tadd_known [of e t a] mt.tadd_known [of e t b] mt.tadd_fresh [of e t a] by fastforce+
  with mt.tadd_fresh [of e ta b] mt.add_commute [OF assms] show ?thesis by auto
qed

text \<open>Two hashes added to the empty tree in both orders.\<close>

theorem merkle_order_independent_witness:
  "computeMerkleTreeWith sample_env (tree_of sample_env {3}) 5 = computeMerkleTreeWith sample_env (tree_of sample_env {5}) 3"
proof -
  have "computeMerkleTreeWith sample_env GetEmptyMerkleTree 3 = Some (Some (tree_of sample_env {3}))"
    "computeMerkleTreeWith sample_env GetEmptyMerkleTree 5 = Some (Some (tree_of sample_env {5}))"
    using With_tree_of [of "{}" sample_env] by (simp_all add: tree_of_def [of _ "{}"])
  from merkle_order_independent [OF mt.wf_empty this] show ?thesis by fastforce
qed

lemma layersAbove_2: "layersAbove e [a, b] = [[HashPair e a b]]"
  by (simp add: layersAbove.simps)

lemma layersAbove_4: "layersAbove e [a, b, c, d] =
    [[HashPair e a b, HashPair e c d], [HashPair e (HashPair e a b) (HashPair e c d)]]"
  by (simp add: layersAbove.simps [of _ "[a, b, c, d]"] layersAbove_2)

lemma length_2_4:
  "length ys = 2 \<Longrightarrow> \<exists>a b. ys = [a, b]" "length ys = 4 \<Longrightarrow> \<exists>a b c d. ys = [a, b, c, d]"
  by (auto simp: numeral_eq_Suc length_Suc_conv)

text \<open>
  The proof computed for a leaf of a tree with two or four leaves validates against the root.
\<close>

theorem merkle_proof_valid:
  assumes "length xs = 2 \<or> length xs = 4" and "x \<in> set xs"
  shows "\<exists>proof. computeMerkleProofFor (computeLayers e xs) x = Some proof
     \<and> validateProof e proof (MerkleRoot (computeLayers e xs)) x"
proof -
  have x: "x \<in> set (sort xs)" and len: "length (sort xs) = 2 \<or> length (sort xs) = 4" using assms by simp_all
  from len show ?thesis
  proof
    assume "length (sort xs) = 2"
    then obtain a b where s: "sort xs = [a, b]" using length_2_4(1) by blast
    show ?thesis
      using x unfolding s computeLayers_def Keccak256Sort_def Let_def layersAbove_2
      by (auto simp: computeMerkleProofFor_def MerkleRoot_def validateProof_def go_half_def HashPair_commute)
  next
    assume "length (sort xs) = 4"
    then obtain a b c d where s: "sort xs = [a, b, c, d]" using length_2_4(2) by blast
    show ?thesis
      using x unfolding s computeLayers_def Keccak256Sort_def Let_def layersAbove_4
      by (auto simp: computeMerkleProofFor_def MerkleRoot_def validateProof_def go_half_def HashPair_commute)
  qed
qed

text \<open>The proof for the larger of two leaves.\<close>

theorem merkle_proof_valid_witness:
  "computeMerkleProofFor (computeLayers sample_env [3, 5]) 5 = Some [3]
   \<and> validateProof sample_env [3] (MerkleRoot (computeLayers sample_env [3, 5])) 5"
proof -
  have "computeMerkleProofFor (computeLayers sample_env [3, 5]) 5 = Some [3]"
    by (simp add: computeLayers_def Keccak256Sort_def layersAbove_2 computeMerkleProofFor_def go_half_def)
  with merkle_proof_valid [of "[3, 5]" 5 sample_env] show ?thesis by simp
qed

text \<open>
  The bound that the loop of \<open>computeMerkleProofFor\<close> tests is the layer's index and not the pair's: a
  tree with one leaf, and the last leaf of a tree with three, make it read past the end of a layer.
\<close>

theorem merkle_proof_panics:
  "computeMerkleProofFor (computeLayers e [x]) x = None"
  by (simp add: computeLayers_def Keccak256Sort_def layersAbove.simps computeMerkleProofFor_def)

end
