(* ===== verification/Pylons_Locks.thy ===== *)
theory Pylons_Locks
  imports Pylons_Merkle
begin

text \<open>
  One side of a channel: the bookkeeping of pending locks and the amounts computed from them
  (\<open>transfer/channel.go\<close>, from \<open>IsLockPending\<close> to \<open>getNumberOfPendingTransfers\<close>, and the methods of
  \<open>NettingChannelEndState\<close> in \<open>transfer/state.go\<close>).

  A lock is stored under its secret hash in one of three maps: locked, unlocked by a secret received
  from a peer, or unlocked by a secret registered on chain.
\<close>

section \<open>Construction and accessors\<close>

definition NewNettingChannelEndState :: NettingChannelEndState where
  "NewNettingChannelEndState =
     \<lparr>es_Address = 0, es_ContractBalance = 0, es_TotalWithdraw = 0, es_LockedLocks = [],
      es_UnLockedLocks = [], es_OnChainUnLockedLocks = [],
      es_MerkleTree = Some GetEmptyMerkleTree, es_BalanceProof = None\<rparr>"

definition GetContractBalance :: "NettingChannelEndState \<Rightarrow> TokenAmount" where
  "GetContractBalance es = es_ContractBalance es"

definition GetTotalWithdraw :: "NettingChannelEndState \<Rightarrow> TokenAmount" where
  "GetTotalWithdraw es = es_TotalWithdraw es"

definition GetGasBalance :: "NettingChannelEndState \<Rightarrow> TokenAmount" where
  "GetGasBalance es =
     (case es_BalanceProof es of
        Some bp \<Rightarrow> es_ContractBalance es - es_TotalWithdraw es - bp_TransferredAmount bp
      | None \<Rightarrow> es_ContractBalance es - es_TotalWithdraw es)"

definition GetAddress :: "NettingChannelEndState \<Rightarrow> Address" where
  "GetAddress es = es_Address es"

definition Min :: "u64 \<Rightarrow> u64 \<Rightarrow> u64" where
  "Min x y = (if x < y then x else y)"

definition Max :: "u64 \<Rightarrow> u64 \<Rightarrow> u64" where
  "Max x y = (if x > y then x else y)"

definition MaxUint64 :: u64 where
  "MaxUint64 = 18446744073709551615"

section \<open>Queries on locks\<close>

definition IsLockPending :: "NettingChannelEndState \<Rightarrow> SecretHash \<Rightarrow> bool" where
  "IsLockPending es secretHash =
     (if smap_load (es_LockedLocks es) secretHash \<noteq> None then True
      else if smap_load (es_UnLockedLocks es) secretHash \<noteq> None then True
      else if smap_load (es_OnChainUnLockedLocks es) secretHash \<noteq> None then True
      else False)"

definition IsLockLocked :: "NettingChannelEndState \<Rightarrow> SecretHash \<Rightarrow> bool" where
  "IsLockLocked es secretHash = (smap_load (es_LockedLocks es) secretHash \<noteq> None)"

definition IsLockExpired ::
  "NettingChannelEndState \<Rightarrow> HashTimeLockState \<Rightarrow> BlockHeight \<Rightarrow> BlockHeight \<Rightarrow> error + unit" where
  "IsLockExpired es lock blockNumber lockExpirationThreshold =
     (if smap_load (es_OnChainUnLockedLocks es) (lk_SecretHash lock) \<noteq> None
      then Inl (Msg ''lock has been unlocked on-chain'')
      else if blockNumber < lockExpirationThreshold
      then Inl (NotExpired blockNumber lockExpirationThreshold)
      else Inr ())"

definition TransferExpired ::
  "env \<Rightarrow> LockedTransferSignedState \<Rightarrow> NettingChannelState \<Rightarrow> BlockHeight \<Rightarrow> bool" where
  "TransferExpired e transfer affectedChannel blockNumber =
     (let lockExpirationThreshold =
            lk_Expiration (ls_Lock transfer) + ucast (ConfirmBlockCount (Config e) * 2)
      in IsLockExpired (cs_OurState affectedChannel) (ls_Lock transfer) blockNumber
           lockExpirationThreshold = Inr ())"

definition IsSecretKnown :: "NettingChannelEndState \<Rightarrow> SecretHash \<Rightarrow> bool" where
  "IsSecretKnown es secretHash =
     (if smap_load (es_UnLockedLocks es) secretHash \<noteq> None then True
      else if smap_load (es_OnChainUnLockedLocks es) secretHash \<noteq> None then True
      else False)"

definition IsSecretKnownOffChain :: "NettingChannelEndState \<Rightarrow> SecretHash \<Rightarrow> bool" where
  "IsSecretKnownOffChain es secretHash = (smap_load (es_UnLockedLocks es) secretHash \<noteq> None)"

definition IsSecretKnownOnChain :: "NettingChannelEndState \<Rightarrow> SecretHash \<Rightarrow> bool" where
  "IsSecretKnownOnChain es secretHash = (smap_load (es_OnChainUnLockedLocks es) secretHash \<noteq> None)"

definition GetSecret :: "NettingChannelEndState \<Rightarrow> SecretHash \<Rightarrow> Secret" where
  "GetSecret es secretHash =
     (case smap_load (es_UnLockedLocks es) secretHash of
        Some u \<Rightarrow> up_Secret u
      | None \<Rightarrow>
         (case smap_load (es_OnChainUnLockedLocks es) secretHash of
            Some u \<Rightarrow> up_Secret u
          | None \<Rightarrow> []))"

definition GetLock :: "NettingChannelEndState \<Rightarrow> SecretHash \<Rightarrow> HashTimeLockState option" where
  "GetLock es secretHash =
     (case smap_load (es_LockedLocks es) secretHash of
        Some lock \<Rightarrow> Some lock
      | None \<Rightarrow>
         (case smap_load (es_UnLockedLocks es) secretHash of
            Some u \<Rightarrow> Some (up_Lock u)
          | None \<Rightarrow>
             (case smap_load (es_OnChainUnLockedLocks es) secretHash of
                Some u \<Rightarrow> Some (up_Lock u)
              | None \<Rightarrow> None)))"

definition LockExistsInEitherChannelSide :: "NettingChannelState \<Rightarrow> SecretHash \<Rightarrow> bool" where
  "LockExistsInEitherChannelSide cs secretHash =
     (let lock = GetLock (cs_OurState cs) secretHash;
          lock' = (if lock = None then GetLock (cs_PartnerState cs) secretHash else lock)
      in lock' \<noteq> None)"

section \<open>Updates of the lock maps\<close>

definition DelUnclaimedLock :: "NettingChannelEndState \<Rightarrow> SecretHash \<Rightarrow> NettingChannelEndState" where
  "DelUnclaimedLock es secretHash =
     (let es1 = (if smap_load (es_LockedLocks es) secretHash \<noteq> None
                 then es\<lparr>es_LockedLocks := smap_delete secretHash (es_LockedLocks es)\<rparr> else es)
      in if smap_load (es_UnLockedLocks es1) secretHash \<noteq> None
         then es1\<lparr>es_UnLockedLocks := smap_delete secretHash (es_UnLockedLocks es1)\<rparr> else es1)"

definition DelLock :: "NettingChannelEndState \<Rightarrow> SecretHash \<Rightarrow> NettingChannelEndState" where
  "DelLock es secretHash =
     (if IsLockPending es secretHash = False then es
      else let es1 = DelUnclaimedLock es secretHash
           in if smap_load (es_OnChainUnLockedLocks es1) secretHash \<noteq> None
              then es1\<lparr>es_OnChainUnLockedLocks := smap_delete secretHash (es_OnChainUnLockedLocks es1)\<rparr>
              else es1)"

definition RegisterSecretEndState ::
  "NettingChannelEndState \<Rightarrow> Secret \<Rightarrow> SecretHash \<Rightarrow> NettingChannelEndState" where
  "RegisterSecretEndState es secret secretHash =
     (case smap_load (es_LockedLocks es) secretHash of
        None \<Rightarrow> es
      | Some pendingLock \<Rightarrow>
          es\<lparr>es_LockedLocks := smap_delete secretHash (es_LockedLocks es),
             es_UnLockedLocks := smap_store secretHash \<lparr>up_Lock = pendingLock, up_Secret = secret\<rparr>
                                   (es_UnLockedLocks es)\<rparr>)"

definition RegisterOnChainSecretEndState ::
  "NettingChannelEndState \<Rightarrow> Secret \<Rightarrow> SecretHash \<Rightarrow> BlockHeight \<Rightarrow> bool \<Rightarrow> NettingChannelEndState"
where
  "RegisterOnChainSecretEndState es secret secretHash secretRevealBlockNumber deleteLock =
     (let pendingLock =
        (case smap_load (es_UnLockedLocks es) secretHash of
           Some u \<Rightarrow> Some (up_Lock u)
         | None \<Rightarrow> if IsLockLocked es secretHash then smap_load (es_LockedLocks es) secretHash else None)
      in case pendingLock of
           None \<Rightarrow> es
         | Some lock \<Rightarrow>
             if lk_Expiration lock < secretRevealBlockNumber then es
             else let es1 = (if deleteLock then DelLock es secretHash else es)
                  in es1\<lparr>es_OnChainUnLockedLocks :=
                           smap_store secretHash \<lparr>up_Lock = lock, up_Secret = secret\<rparr>
                             (es_OnChainUnLockedLocks es1)\<rparr>)"

definition RegisterOffChainSecret ::
  "NettingChannelState \<Rightarrow> Secret \<Rightarrow> SecretHash \<Rightarrow> NettingChannelState" where
  "RegisterOffChainSecret cs secret secretHash =
     cs\<lparr>cs_OurState := RegisterSecretEndState (cs_OurState cs) secret secretHash,
        cs_PartnerState := RegisterSecretEndState (cs_PartnerState cs) secret secretHash\<rparr>"

definition RegisterOnChainSecret ::
  "NettingChannelState \<Rightarrow> Secret \<Rightarrow> SecretHash \<Rightarrow> BlockHeight \<Rightarrow> bool \<Rightarrow> NettingChannelState" where
  "RegisterOnChainSecret cs secret secretHash secretRevealBlockNumber deleteLock =
     cs\<lparr>cs_OurState := RegisterOnChainSecretEndState (cs_OurState cs) secret secretHash
                          secretRevealBlockNumber deleteLock,
        cs_PartnerState := RegisterOnChainSecretEndState (cs_PartnerState cs) secret secretHash
                          secretRevealBlockNumber deleteLock\<rparr>"

text \<open>
  The assignment \<open>lock.LockHash = lock.CalcLockHash()\<close> on the lock that \<open>GetLock\<close> found, which is a
  pointer into one of the maps.
\<close>

definition rehashLock :: "env \<Rightarrow> NettingChannelEndState \<Rightarrow> SecretHash \<Rightarrow> NettingChannelEndState" where
  "rehashLock e es secretHash =
     (let upd = (\<lambda>l. l\<lparr>lk_LockHash := CalcLockHash e l\<rparr>);
          updu = (\<lambda>u. u\<lparr>up_Lock := upd (up_Lock u)\<rparr>)
      in case smap_load (es_LockedLocks es) secretHash of
           Some l \<Rightarrow> es\<lparr>es_LockedLocks := smap_store secretHash (upd l) (es_LockedLocks es)\<rparr>
         | None \<Rightarrow>
            (case smap_load (es_UnLockedLocks es) secretHash of
               Some u \<Rightarrow> es\<lparr>es_UnLockedLocks := smap_store secretHash (updu u) (es_UnLockedLocks es)\<rparr>
             | None \<Rightarrow>
                (case smap_load (es_OnChainUnLockedLocks es) secretHash of
                   Some u \<Rightarrow> es\<lparr>es_OnChainUnLockedLocks :=
                                  smap_store secretHash (updu u) (es_OnChainUnLockedLocks es)\<rparr>
                 | None \<Rightarrow> es)))"

section \<open>Amounts\<close>

record BalanceProofData =
  bd_locksRoot :: LocksRoot
  bd_nonce :: Nonce
  bd_transferredAmount :: TokenAmount
  bd_lockedAmount :: TokenAmount

definition getAmountLocked :: "NettingChannelEndState \<Rightarrow> Balance" where
  "getAmountLocked es =
     (let totalPending = range_sum lk_Amount (es_LockedLocks es);
          totalUnclaimed = range_sum (\<lambda>u. lk_Amount (up_Lock u)) (es_UnLockedLocks es);
          totalUnclaimedOnChain = range_sum (\<lambda>u. lk_Amount (up_Lock u)) (es_OnChainUnLockedLocks es)
      in totalPending + totalUnclaimed + totalUnclaimedOnChain)"

definition getBalance :: "NettingChannelEndState \<Rightarrow> NettingChannelEndState \<Rightarrow> Balance" where
  "getBalance sender receiver =
     (let senderTransferredAmount =
            (case es_BalanceProof sender of Some bp \<Rightarrow> bp_TransferredAmount bp | None \<Rightarrow> 0);
          receiverTransferredAmount =
            (case es_BalanceProof receiver of Some bp \<Rightarrow> bp_TransferredAmount bp | None \<Rightarrow> 0)
      in es_ContractBalance sender - es_TotalWithdraw sender - senderTransferredAmount
           + receiverTransferredAmount)"

definition getCurrentBalanceProof :: "NettingChannelEndState \<Rightarrow> BalanceProofData" where
  "getCurrentBalanceProof es =
     (case es_BalanceProof es of
        Some bp \<Rightarrow> \<lparr>bd_locksRoot = bp_LocksRoot bp, bd_nonce = bp_Nonce bp,
                    bd_transferredAmount = bp_TransferredAmount bp,
                    bd_lockedAmount = getAmountLocked es\<rparr>
      | None \<Rightarrow> \<lparr>bd_locksRoot = 0, bd_nonce = 0, bd_transferredAmount = 0, bd_lockedAmount = 0\<rparr>)"

definition GetDistributable :: "NettingChannelEndState \<Rightarrow> NettingChannelEndState \<Rightarrow> TokenAmount" where
  "GetDistributable sender receiver =
     (let balanceProofData = getCurrentBalanceProof sender;
          transferredAmount = bd_transferredAmount balanceProofData;
          lockedAmount = bd_lockedAmount balanceProofData;
          balance = getBalance sender receiver;
          amountLocked = getAmountLocked sender;
          distributable = balance - amountLocked;
          overflowLimit = Max (MaxUint64 - transferredAmount - lockedAmount) 0
      in Min overflowLimit distributable)"

definition getNextNonce :: "NettingChannelEndState \<Rightarrow> Nonce" where
  "getNextNonce es = (case es_BalanceProof es of Some bp \<Rightarrow> bp_Nonce bp + 1 | None \<Rightarrow> 1)"

text \<open>
  \<open>GetBatchUnlock\<close>: nil and the empty slice are both \<open>[]\<close>; the caller only tests for emptiness. A nil
  Merkle tree is a panic.
\<close>

definition GetBatchUnlock :: "NettingChannelEndState \<Rightarrow> HashTimeLockState list option" where
  "GetBatchUnlock es =
     (case es_MerkleTree es of
        None \<Rightarrow> None
      | Some merkleTree \<Rightarrow>
          if length (Layers merkleTree) = 0 then Some []
          else let put = (\<lambda>m l. smap_store (lk_LockHash l) l m);
                   m1 = foldl put [] (map snd (es_LockedLocks es));
                   m2 = foldl put m1 (map (up_Lock \<circ> snd) (es_UnLockedLocks es));
                   m3 = foldl put m2 (map (up_Lock \<circ> snd) (es_OnChainUnLockedLocks es))
               in Some (List.map_filter (smap_load m3) (Layers merkleTree ! 0)))"

definition getNumberOfPendingTransfers :: "NettingChannelEndState \<Rightarrow> nat" where
  "getNumberOfPendingTransfers es =
     (case es_MerkleTree es of None \<Rightarrow> 0 | Some merkleTree \<Rightarrow> MerkleTreeWidth merkleTree)"

definition updateContractBalance :: "NettingChannelEndState \<Rightarrow> Balance \<Rightarrow> NettingChannelEndState" where
  "updateContractBalance es contractBalance =
     (if contractBalance > es_ContractBalance es then es\<lparr>es_ContractBalance := contractBalance\<rparr> else es)"

end
