(* ===== verification/Pylons_EndState.thy ===== *)
theory Pylons_EndState
  imports Pylons_Locks
begin

text \<open>
  The invariant of one side of a channel and the amounts it makes exact.

  \<open>pending\<close> lists the entries of the three lock maps. A well-formed side (\<open>wf_end\<close>) stores every lock
  once and under its own secret hash, has the Merkle tree of exactly its pending lock hashes, and
  holds a balance proof whose locks root and locked amount are those of the pending locks.
\<close>

section \<open>The pending locks of a side\<close>

definition pending :: "NettingChannelEndState \<Rightarrow> (SecretHash \<times> HashTimeLockState) list" where
  "pending es = es_LockedLocks es @ map (apsnd up_Lock) (es_UnLockedLocks es)
     @ map (apsnd up_Lock) (es_OnChainUnLockedLocks es)"

definition lock_hashes :: "(SecretHash \<times> HashTimeLockState) list \<Rightarrow> LockHash set" where
  "lock_hashes ls = (lk_LockHash \<circ> snd) ` set ls"

definition lock_total :: "(SecretHash \<times> HashTimeLockState) list \<Rightarrow> TokenAmount" where
  "lock_total ls = sum_list (map (lk_Amount \<circ> snd) ls)"

definition lock_sum :: "(SecretHash \<times> HashTimeLockState) list \<Rightarrow> int" where
  "lock_sum ls = sum_list (map (uint \<circ> lk_Amount \<circ> snd) ls)"

definition locks_ok :: "env \<Rightarrow> (SecretHash \<times> HashTimeLockState) list \<Rightarrow> bool" where
  "locks_ok e ls \<longleftrightarrow> distinct (map fst ls) \<and> distinct (map (lk_LockHash \<circ> snd) ls)
     \<and> list_all (\<lambda>(k, l). lk_SecretHash l = k \<and> lk_LockHash l = CalcLockHash e l) ls"

definition proof_ok ::
  "env \<Rightarrow> (SecretHash \<times> HashTimeLockState) list \<Rightarrow> BalanceProofSignedState option \<Rightarrow> bool" where
  "proof_ok e ls bpo =
     (case bpo of
        None \<Rightarrow> ls = []
      | Some bp \<Rightarrow> bp_LocksRoot bp = MerkleRoot (Layers (tree_of e (lock_hashes ls)))
                  \<and> bp_LockedAmount bp = lock_total ls)"

definition wf_end :: "env \<Rightarrow> NettingChannelEndState \<Rightarrow> bool" where
  "wf_end e es \<longleftrightarrow> locks_ok e (pending es)
     \<and> es_MerkleTree es = Some (tree_of e (lock_hashes (pending es)))
     \<and> proof_ok e (pending es) (es_BalanceProof es)"

lemma wf_endD:
  assumes "wf_end e es"
  shows "locks_ok e (pending es)" "es_MerkleTree es = Some (tree_of e (lock_hashes (pending es)))"
    "proof_ok e (pending es) (es_BalanceProof es)"
  using assms by (simp_all add: wf_end_def)

lemma pending_cong:
  assumes "es_LockedLocks a = es_LockedLocks b" and "es_UnLockedLocks a = es_UnLockedLocks b"
    and "es_OnChainUnLockedLocks a = es_OnChainUnLockedLocks b"
  shows "pending a = pending b"
  using assms by (simp add: pending_def)

lemma pending_update [simp]:
  "pending (es\<lparr>es_BalanceProof := b\<rparr>) = pending es"
  "pending (es\<lparr>es_MerkleTree := t\<rparr>) = pending es"
  "pending (es\<lparr>es_ContractBalance := d\<rparr>) = pending es"
  "pending (es\<lparr>es_TotalWithdraw := w\<rparr>) = pending es"
  by (simp_all add: pending_def)

lemma finite_lock_hashes [simp]: "finite (lock_hashes ls)"
  by (simp add: lock_hashes_def)

lemma lock_hashes_Nil [simp]: "lock_hashes [] = {}"
  by (simp add: lock_hashes_def)

lemma lock_hashes_Cons [simp]: "lock_hashes ((k, l) # ls) = insert (lk_LockHash l) (lock_hashes ls)"
  by (simp add: lock_hashes_def)

lemma lock_total_simps [simp]:
  "lock_total [] = 0" "lock_total ((k, l) # ls) = lk_Amount l + lock_total ls"
  by (simp_all add: lock_total_def)

lemma lock_sum_simps [simp]:
  "lock_sum [] = 0" "lock_sum ((k, l) # ls) = uint (lk_Amount l) + lock_sum ls"
  by (simp_all add: lock_sum_def)

lemma lock_sum_nonneg [simp]: "0 \<le> lock_sum ls"
  by (induction ls) auto

lemma lock_total_sum: "lock_total ls = word_of_int (lock_sum ls)"
  by (induction ls) (auto simp: wi_hom_syms)

lemma distinct_map_perm: "mset xs = mset ys \<Longrightarrow> distinct (map f xs) \<longleftrightarrow> distinct (map f ys)"
  by (rule mset_eq_imp_distinct_iff) simp

lemma lock_perm:
  assumes "mset ls = mset ms"
  shows "lock_hashes ls = lock_hashes ms" "lock_total ls = lock_total ms" "lock_sum ls = lock_sum ms"
    "locks_ok e ls \<longleftrightarrow> locks_ok e ms"
proof -
  have set: "set ls = set ms" using assms by (rule mset_eq_setD)
  then show "lock_hashes ls = lock_hashes ms" by (simp add: lock_hashes_def)
  show "lock_total ls = lock_total ms" "lock_sum ls = lock_sum ms"
    unfolding lock_total_def lock_sum_def using assms by (metis mset_map sum_mset_sum_list)+
  show "locks_ok e ls \<longleftrightarrow> locks_ok e ms"
    using distinct_map_perm [OF assms, of fst] distinct_map_perm [OF assms, of "lk_LockHash \<circ> snd"] set
    by (simp add: locks_ok_def list_all_iff)
qed

lemma locks_ok_Cons:
  "locks_ok e ((k, l) # ls) \<longleftrightarrow> locks_ok e ls \<and> k \<notin> fst ` set ls \<and> lk_LockHash l \<notin> lock_hashes ls
     \<and> lk_SecretHash l = k \<and> lk_LockHash l = CalcLockHash e l"
  by (auto simp: locks_ok_def lock_hashes_def image_image)

section \<open>Queries through the list of pending locks\<close>

lemma map_of_apsnd: "map_of (map (apsnd f) xs) k = map_option f (map_of xs k)"
  by (induction xs) auto

lemma GetLock_pending: "GetLock es k = map_of (pending es) k"
  by (auto simp: GetLock_def pending_def smap_load_def map_add_def map_of_apsnd split: option.splits)

lemma IsLockPending_iff: "IsLockPending es k \<longleftrightarrow> GetLock es k \<noteq> None"
  by (auto simp: IsLockPending_def GetLock_def split: option.splits)

lemma getAmountLocked_pending: "getAmountLocked es = lock_total (pending es)"
  by (simp add: getAmountLocked_def pending_def lock_total_def range_sum_eq comp_def)

lemma GetLock_wf:
  assumes "wf_end e es" and "GetLock es k = Some l"
  shows "(k, l) \<in> set (pending es)" "lk_SecretHash l = k" "lk_LockHash l = CalcLockHash e l"
    "lk_LockHash l \<in> lock_hashes (pending es)"
proof -
  show mem: "(k, l) \<in> set (pending es)"
    using assms(2) by (simp add: GetLock_pending map_of_SomeD)
  with assms(1) show "lk_SecretHash l = k" "lk_LockHash l = CalcLockHash e l"
    by (auto simp: wf_end_def locks_ok_def list_all_iff)
  from mem show "lk_LockHash l \<in> lock_hashes (pending es)" by (force simp: lock_hashes_def)
qed

lemma wf_end_smap_ok:
  assumes "wf_end e es"
  shows "smap_ok (es_LockedLocks es)" "smap_ok (es_UnLockedLocks es)" "smap_ok (es_OnChainUnLockedLocks es)"
  using assms by (auto simp: wf_end_def locks_ok_def pending_def smap_ok_def comp_def)

lemma wf_end_disjoint:
  assumes "wf_end e es"
  shows "smap_load (es_LockedLocks es) k \<noteq> None \<Longrightarrow> smap_load (es_UnLockedLocks es) k = None"
    "smap_load (es_LockedLocks es) k \<noteq> None \<Longrightarrow> smap_load (es_OnChainUnLockedLocks es) k = None"
    "smap_load (es_UnLockedLocks es) k \<noteq> None \<Longrightarrow> smap_load (es_OnChainUnLockedLocks es) k = None"
  using assms
  by (auto simp: wf_end_def locks_ok_def pending_def smap_load_def map_of_eq_None_iff image_image
      dest!: map_of_SomeD; force)+

section \<open>Updates through the list of pending locks\<close>

lemma pending_Store_Locked:
  assumes "smap_ok (es_LockedLocks es)" and "smap_load (es_LockedLocks es) k = None"
  shows "mset (pending (es\<lparr>es_LockedLocks := smap_store k l (es_LockedLocks es)\<rparr>)) =
     mset ((k, l) # pending es)"
  using sm.mset_entries_Store_fresh [OF assms, of l] by (simp add: pending_def)

lemma pending_DelUnclaimedLock:
  assumes "wf_end e es" and "GetLock es k = Some l" and "smap_load (es_OnChainUnLockedLocks es) k = None"
  shows "mset ((k, l) # pending (DelUnclaimedLock es k)) = mset (pending es)"
proof (cases "smap_load (es_LockedLocks es) k")
  case (Some l')
  then have "l' = l" "smap_load (es_UnLockedLocks es) k = None"
    using assms wf_end_disjoint(1) [OF assms(1), of k] by (auto simp: GetLock_def)
  with Some sm.mset_entries_Delete [OF wf_end_smap_ok(1) [OF assms(1)] Some] show ?thesis
    by (simp add: DelUnclaimedLock_def pending_def)
next
  case None
  with assms obtain u where u: "smap_load (es_UnLockedLocks es) k = Some u" "l = up_Lock u"
    by (auto simp: GetLock_def split: option.splits)
  with None sm.mset_entries_Delete [OF wf_end_smap_ok(2) [OF assms(1)] u(1)] show ?thesis
    by (simp add: DelUnclaimedLock_def pending_def)
qed

lemma pending_DelLock:
  assumes "wf_end e es" and "GetLock es k = Some l"
  shows "mset ((k, l) # pending (DelLock es k)) = mset (pending es)"
proof (cases "smap_load (es_OnChainUnLockedLocks es) k")
  case None
  then have "DelLock es k = DelUnclaimedLock es k"
    using assms(2) by (auto simp: DelLock_def DelUnclaimedLock_def IsLockPending_iff Let_def)
  with pending_DelUnclaimedLock [OF assms None] show ?thesis by simp
next
  case (Some u)
  with wf_end_disjoint [OF assms(1), of k]
  have none: "smap_load (es_LockedLocks es) k = None" "smap_load (es_UnLockedLocks es) k = None"
    by fastforce+
  with Some assms(2) have "l = up_Lock u" by (simp add: GetLock_def)
  with none Some assms(2) sm.mset_entries_Delete [OF wf_end_smap_ok(3) [OF assms(1)] Some] show ?thesis
    by (simp add: DelLock_def DelUnclaimedLock_def IsLockPending_iff pending_def)
qed

lemma pending_RegisterSecretEndState:
  assumes "wf_end e es"
  shows "mset (pending (RegisterSecretEndState es s k)) = mset (pending es)"
proof (cases "smap_load (es_LockedLocks es) k")
  case None
  then show ?thesis by (simp add: RegisterSecretEndState_def)
next
  case (Some l)
  with wf_end_disjoint(1) [OF assms, of k] have "smap_load (es_UnLockedLocks es) k = None" by simp
  with Some sm.mset_entries_Delete [OF wf_end_smap_ok(1) [OF assms] Some]
    sm.mset_entries_Store_fresh [OF wf_end_smap_ok(2) [OF assms]]
  show ?thesis by (simp add: RegisterSecretEndState_def pending_def)
qed

lemma DelLock_loads [simp]:
  "smap_load (es_LockedLocks (DelLock es k)) = (smap_load (es_LockedLocks es))(k := None)"
  "smap_load (es_UnLockedLocks (DelLock es k)) = (smap_load (es_UnLockedLocks es))(k := None)"
  "smap_load (es_OnChainUnLockedLocks (DelLock es k)) = (smap_load (es_OnChainUnLockedLocks es))(k := None)"
  by (auto simp: DelLock_def DelUnclaimedLock_def IsLockPending_def Let_def fun_eq_iff)

lemma Del_keeps [simp]:
  "es_MerkleTree (DelLock es k) = es_MerkleTree es" "es_BalanceProof (DelLock es k) = es_BalanceProof es"
  "es_ContractBalance (DelLock es k) = es_ContractBalance es"
  "es_TotalWithdraw (DelLock es k) = es_TotalWithdraw es" "es_Address (DelLock es k) = es_Address es"
  "es_MerkleTree (DelUnclaimedLock es k) = es_MerkleTree es"
  "es_BalanceProof (DelUnclaimedLock es k) = es_BalanceProof es"
  "es_ContractBalance (DelUnclaimedLock es k) = es_ContractBalance es"
  "es_TotalWithdraw (DelUnclaimedLock es k) = es_TotalWithdraw es"
  "es_Address (DelUnclaimedLock es k) = es_Address es"
  by (simp_all add: DelLock_def DelUnclaimedLock_def Let_def)

lemma smap_ok_DelLock:
  "smap_ok (es_OnChainUnLockedLocks es) \<Longrightarrow> smap_ok (es_OnChainUnLockedLocks (DelLock es k))"
  by (simp add: DelLock_def DelUnclaimedLock_def Let_def)

lemma Del_update [simp]:
  "DelLock (es\<lparr>es_BalanceProof := b, es_MerkleTree := t\<rparr>) k =
     (DelLock es k)\<lparr>es_BalanceProof := b, es_MerkleTree := t\<rparr>"
  "DelUnclaimedLock (es\<lparr>es_BalanceProof := b, es_MerkleTree := t\<rparr>) k =
     (DelUnclaimedLock es k)\<lparr>es_BalanceProof := b, es_MerkleTree := t\<rparr>"
  by (simp_all add: DelLock_def DelUnclaimedLock_def IsLockPending_def Let_def)

lemma pending_RegisterOnChainSecretEndState:
  assumes "wf_end e es"
  shows "mset (pending (RegisterOnChainSecretEndState es s k n True)) = mset (pending es)"
proof -
  let ?p = "case smap_load (es_UnLockedLocks es) k of Some u \<Rightarrow> Some (up_Lock u)
    | None \<Rightarrow> if IsLockLocked es k then smap_load (es_LockedLocks es) k else None"
  show ?thesis
  proof (cases ?p)
    case None
    then show ?thesis by (simp add: RegisterOnChainSecretEndState_def)
  next
    case (Some l)
    then have l: "GetLock es k = Some l"
      using wf_end_disjoint(1) [OF assms, of k]
      by (auto simp: GetLock_def IsLockLocked_def split: option.splits if_splits)
    let ?d = "DelLock es k"
    have "mset (pending (?d\<lparr>es_OnChainUnLockedLocks :=
        smap_store k \<lparr>up_Lock = l, up_Secret = s\<rparr> (es_OnChainUnLockedLocks ?d)\<rparr>)) = mset ((k, l) # pending ?d)"
      using sm.mset_entries_Store_fresh [OF smap_ok_DelLock [OF wf_end_smap_ok(3) [OF assms]], of k k]
      by (simp add: pending_def)
    then have "mset (pending (?d\<lparr>es_OnChainUnLockedLocks :=
        smap_store k \<lparr>up_Lock = l, up_Secret = s\<rparr> (es_OnChainUnLockedLocks ?d)\<rparr>)) = mset (pending es)"
      using pending_DelLock [OF assms l] by simp
    with Some show ?thesis by (simp add: RegisterOnChainSecretEndState_def Let_def)
  qed
qed

lemma Register_keeps [simp]:
  "es_MerkleTree (RegisterSecretEndState es s k) = es_MerkleTree es"
  "es_BalanceProof (RegisterSecretEndState es s k) = es_BalanceProof es"
  "es_ContractBalance (RegisterSecretEndState es s k) = es_ContractBalance es"
  "es_TotalWithdraw (RegisterSecretEndState es s k) = es_TotalWithdraw es"
  "es_Address (RegisterSecretEndState es s k) = es_Address es"
  "es_MerkleTree (RegisterOnChainSecretEndState es s k n d) = es_MerkleTree es"
  "es_BalanceProof (RegisterOnChainSecretEndState es s k n d) = es_BalanceProof es"
  "es_ContractBalance (RegisterOnChainSecretEndState es s k n d) = es_ContractBalance es"
  "es_TotalWithdraw (RegisterOnChainSecretEndState es s k n d) = es_TotalWithdraw es"
  "es_Address (RegisterOnChainSecretEndState es s k n d) = es_Address es"
  by (simp_all add: RegisterSecretEndState_def RegisterOnChainSecretEndState_def Let_def split: option.split)

section \<open>Preservation of well-formedness\<close>

lemma wf_end_New [simp]: "wf_end e NewNettingChannelEndState"
  by (simp add: wf_end_def NewNettingChannelEndState_def pending_def locks_ok_def proof_ok_def tree_of_def)

lemma wf_end_perm:
  assumes "wf_end e es" and "mset (pending es') = mset (pending es)"
    and "es_MerkleTree es' = es_MerkleTree es" and "es_BalanceProof es' = es_BalanceProof es"
  shows "wf_end e es'"
  using assms lock_perm [OF assms(2)]
  by (auto simp: wf_end_def proof_ok_def split: option.splits)

lemma wf_end_amounts [simp]:
  "wf_end e (es\<lparr>es_ContractBalance := d\<rparr>) \<longleftrightarrow> wf_end e es"
  "wf_end e (es\<lparr>es_TotalWithdraw := w\<rparr>) \<longleftrightarrow> wf_end e es"
  by (simp_all add: wf_end_def)

lemma wf_end_Register:
  assumes "wf_end e es"
  shows "wf_end e (RegisterSecretEndState es s k)" "wf_end e (RegisterOnChainSecretEndState es s k n True)"
  using assms pending_RegisterSecretEndState [OF assms] pending_RegisterOnChainSecretEndState [OF assms]
  by (auto intro: wf_end_perm)

lemma wf_end_add:
  assumes "wf_end e es" and "GetLock es k = None" and "lk_LockHash l \<notin> lock_hashes (pending es)"
    and "lk_SecretHash l = k" and "lk_LockHash l = CalcLockHash e l"
    and "mset (pending es') = mset ((k, l) # pending es)"
    and "es_MerkleTree es' = Some (tree_of e (insert (lk_LockHash l) (lock_hashes (pending es))))"
    and "es_BalanceProof es' = Some bp"
    and "bp_LocksRoot bp = MerkleRoot (Layers (tree_of e (insert (lk_LockHash l) (lock_hashes (pending es)))))"
    and "bp_LockedAmount bp = lk_Amount l + lock_total (pending es)"
  shows "wf_end e es'"
proof -
  have "locks_ok e ((k, l) # pending es)"
    using assms by (simp add: locks_ok_Cons wf_end_def GetLock_pending map_of_eq_None_iff)
  then show ?thesis
    using assms lock_perm [OF assms(6)] by (simp add: wf_end_def proof_ok_def)
qed

lemma lock_hashes_del:
  assumes "locks_ok e ls" and "mset ((k, l) # ms) = mset ls"
  shows "lock_hashes ms = lock_hashes ls - {lk_LockHash l}" "locks_ok e ms"
    "lock_total ms = lock_total ls - lk_Amount l" "lock_sum ms = lock_sum ls - uint (lk_Amount l)"
  using assms(1) lock_perm(1-3) [OF assms(2)] lock_perm(4) [OF assms(2), of e]
  by (auto simp: locks_ok_Cons eq_diff_eq add.commute)

lemma wf_end_del:
  assumes "wf_end e es" and "mset ((k, l) # pending es') = mset (pending es)"
    and "es_MerkleTree es' = Some (tree_of e (lock_hashes (pending es) - {lk_LockHash l}))"
    and "es_BalanceProof es' = Some bp"
    and "bp_LocksRoot bp = MerkleRoot (Layers (tree_of e (lock_hashes (pending es) - {lk_LockHash l})))"
    and "bp_LockedAmount bp = lock_total (pending es) - lk_Amount l"
  shows "wf_end e es'"
  using assms lock_hashes_del [OF wf_endD(1) [OF assms(1)] assms(2)]
  by (simp add: wf_end_def proof_ok_def)

lemma wf_end_proof:
  assumes "wf_end e es"
    and "bp_LocksRoot bp = bd_locksRoot (getCurrentBalanceProof es)"
    and "bp_LockedAmount bp = getAmountLocked es"
  shows "wf_end e (es\<lparr>es_BalanceProof := Some bp\<rparr>)"
  using assms
  by (auto simp: wf_end_def proof_ok_def getCurrentBalanceProof_def getAmountLocked_pending split: option.splits)

lemma rehashLock_wf [simp]:
  assumes "wf_end e es"
  shows "rehashLock e es k = es"
proof -
  have hash: "lk_LockHash l = CalcLockHash e l" if "GetLock es k = Some l" for l
    using GetLock_wf [OF assms that] by simp
  have upd: "l\<lparr>lk_LockHash := CalcLockHash e l\<rparr> = l" if "lk_LockHash l = CalcLockHash e l" for l
    using that by (cases l) simp
  show ?thesis
    using hash
    by (auto simp: rehashLock_def GetLock_def upd smap_store_def smap_load_def update_triv split: option.splits)
qed

section \<open>Exact amounts\<close>

text \<open>
  What a side can still spend, over the integers: deposit less withdrawals, less what it has
  transferred and locked, plus what it has received. A channel is solvent when neither side is
  overspent and the totals the contract computes fit 64 bits; then the wrapping arithmetic of the
  code is exact.
\<close>

definition transferred :: "NettingChannelEndState \<Rightarrow> TokenAmount" where
  "transferred es = (case es_BalanceProof es of Some bp \<Rightarrow> bp_TransferredAmount bp | None \<Rightarrow> 0)"

definition capacity :: "NettingChannelEndState \<Rightarrow> NettingChannelEndState \<Rightarrow> int" where
  "capacity a b = uint (es_ContractBalance a) - uint (es_TotalWithdraw a) - uint (transferred a)
     + uint (transferred b) - lock_sum (pending a)"

definition solvent :: "NettingChannelEndState \<Rightarrow> NettingChannelEndState \<Rightarrow> bool" where
  "solvent a b \<longleftrightarrow> 0 \<le> capacity a b \<and> 0 \<le> capacity b a
     \<and> uint (es_ContractBalance a) + uint (es_ContractBalance b) < 2 ^ 64
     \<and> uint (transferred a) + lock_sum (pending a) < 2 ^ 64
     \<and> uint (transferred b) + lock_sum (pending b) < 2 ^ 64"

lemma solvent_sym: "solvent a b \<longleftrightarrow> solvent b a"
  by (auto simp: solvent_def add.commute)

lemma capacity_less:
  assumes "solvent a b"
  shows "capacity a b < 2 ^ 64"
proof -
  have "0 \<le> uint (es_TotalWithdraw a)" "0 \<le> uint (es_TotalWithdraw b)" by simp_all
  with lock_sum_nonneg [of "pending a"] lock_sum_nonneg [of "pending b"] assms show ?thesis
    unfolding solvent_def capacity_def by linarith
qed

lemma uint_of_int_u64: "0 \<le> i \<Longrightarrow> i < 2 ^ 64 \<Longrightarrow> uint (word_of_int i :: u64) = i"
  by (simp add: uint_word_of_int)

lemma amount_locked_exact:
  assumes "solvent a b"
  shows "uint (getAmountLocked a) = lock_sum (pending a)"
proof -
  have "lock_sum (pending a) < 2 ^ 64"
    using assms uint_nonnegative [of "transferred a"] unfolding solvent_def by linarith
  then show ?thesis
    by (simp add: getAmountLocked_pending lock_total_sum uint_word_of_int)
qed

lemma getBalance_transferred:
  "getBalance a b = es_ContractBalance a - es_TotalWithdraw a - transferred a + transferred b"
  by (simp add: getBalance_def transferred_def)

lemma getCurrentBalanceProof_wf:
  assumes "wf_end e es"
  shows "bd_lockedAmount (getCurrentBalanceProof es) = getAmountLocked es"
    "bd_transferredAmount (getCurrentBalanceProof es) = transferred es"
    "bd_locksRoot (getCurrentBalanceProof es) = MerkleRoot (Layers (tree_of e (lock_hashes (pending es))))"
  using assms
  by (auto simp: getCurrentBalanceProof_def transferred_def wf_end_def proof_ok_def
      getAmountLocked_pending split: option.splits)

lemma GetDistributable_exact:
  assumes "wf_end e a" and "solvent a b"
  shows "uint (GetDistributable a b) =
     min (2 ^ 64 - 1 - uint (transferred a) - lock_sum (pending a)) (capacity a b)"
proof -
  let ?d = "getBalance a b - getAmountLocked a"
  let ?o = "MaxUint64 - transferred a - getAmountLocked a"
  have "?d = word_of_int (capacity a b)"
    by (simp add: getBalance_transferred capacity_def getAmountLocked_pending lock_total_sum wi_hom_syms)
  then have d: "uint ?d = capacity a b"
    using capacity_less [OF assms(2)] assms(2) by (simp add: uint_of_int_u64 solvent_def)
  let ?l = "2 ^ 64 - 1 - uint (transferred a) - lock_sum (pending a)"
  have "word_of_int ?l = ?o"
    by (simp add: MaxUint64_def getAmountLocked_pending lock_total_sum flip: wi_hom_syms)
  moreover have "0 \<le> ?l" "?l < 2 ^ 64"
    using assms(2) lock_sum_nonneg [of "pending a"] uint_nonnegative [of "transferred a"]
    unfolding solvent_def by linarith+
  ultimately have o: "uint ?o = ?l" by (metis uint_of_int_u64)
  have "GetDistributable a b = Min (Max ?o 0) ?d"
    using getCurrentBalanceProof_wf [OF assms(1)] by (simp add: GetDistributable_def)
  moreover have "Max w 0 = w" for w
    by (simp add: Max_def word_neq_0_conv [symmetric])
  ultimately have "uint (GetDistributable a b) = min (uint ?o) (uint ?d)"
    by (simp add: Min_def word_less_def min_def)
  then show ?thesis by (simp add: d o)
qed

section \<open>Steps that keep a channel solvent\<close>

text \<open>
  The four ways a side's amounts move, each stated on the amounts alone so that both the sending and
  the receiving operation can use it.
\<close>

definition same_deposits :: "NettingChannelEndState \<Rightarrow> NettingChannelEndState \<Rightarrow> bool" where
  "same_deposits a a' \<longleftrightarrow>
     es_ContractBalance a' = es_ContractBalance a \<and> es_TotalWithdraw a' = es_TotalWithdraw a"

lemma distributable_bounds:
  assumes "wf_end e a" and "solvent a b" and "amount \<le> GetDistributable a b"
  shows "uint amount \<le> capacity a b" "uint (transferred a) + lock_sum (pending a) + uint amount < 2 ^ 64"
proof -
  have "uint amount \<le> uint (GetDistributable a b)" using assms(3) by (simp add: word_le_def)
  also note GetDistributable_exact [OF assms(1,2)]
  finally have le: "uint amount \<le> min (2 ^ 64 - 1 - uint (transferred a) - lock_sum (pending a)) (capacity a b)" .
  then show "uint amount \<le> capacity a b" by simp
  from le show "uint (transferred a) + lock_sum (pending a) + uint amount < 2 ^ 64" by linarith
qed

lemma uint_add_u64: "uint (a :: u64) + uint b < 2 ^ 64 \<Longrightarrow> uint (a + b) = uint a + uint b"
  by (simp add: uint_word_ariths)

lemma solvent_transfer:
  assumes "wf_end e a" and "solvent a b" and "amount \<le> GetDistributable a b" and "same_deposits a a'"
    and "transferred a' = transferred a + amount" and "lock_sum (pending a') = lock_sum (pending a)"
  shows "solvent a' b" "uint (transferred a') = uint (transferred a) + uint amount"
proof -
  note bounds = distributable_bounds [OF assms(1-3)]
  have "uint (transferred a) + uint amount < 2 ^ 64"
    using bounds(2) lock_sum_nonneg [of "pending a"] by linarith
  then show t: "uint (transferred a') = uint (transferred a) + uint amount"
    by (simp add: assms(5) uint_add_u64)
  have "0 \<le> uint amount" by simp
  then show "solvent a' b"
    using assms(2,4,6) bounds unfolding solvent_def capacity_def same_deposits_def t
    by (elim conjE) (intro conjI; simp only:; linarith)
qed

lemma solvent_lock:
  assumes "wf_end e a" and "solvent a b" and "amount \<le> GetDistributable a b" and "same_deposits a a'"
    and "transferred a' = transferred a" and "lock_sum (pending a') = lock_sum (pending a) + uint amount"
  shows "solvent a' b"
  using assms(2,4-6) distributable_bounds [OF assms(1-3)]
  unfolding solvent_def capacity_def same_deposits_def by (elim conjE) simp

lemma solvent_unlock:
  assumes "solvent a b" and "same_deposits a a'" and "uint amount \<le> lock_sum (pending a)"
    and "transferred a' = transferred a + amount" and "lock_sum (pending a') = lock_sum (pending a) - uint amount"
  shows "solvent a' b" "uint (transferred a') = uint (transferred a) + uint amount"
proof -
  have "uint (transferred a) + uint amount < 2 ^ 64"
    using assms(1,3) unfolding solvent_def by linarith
  then show t: "uint (transferred a') = uint (transferred a) + uint amount"
    by (simp add: assms(4) uint_add_u64)
  have "0 \<le> uint amount" by simp
  then show "solvent a' b"
    using assms(1,2,5) unfolding solvent_def capacity_def same_deposits_def t
    by (elim conjE) (intro conjI; simp only:; linarith)
qed

lemma solvent_expire:
  assumes "solvent a b" and "same_deposits a a'" and "transferred a' = transferred a"
    and "lock_sum (pending a') \<le> lock_sum (pending a)"
  shows "solvent a' b"
  using assms unfolding solvent_def capacity_def same_deposits_def by (elim conjE) simp

lemma GetLock_amount_le:
  assumes "GetLock es k = Some l"
  shows "uint (lk_Amount l) \<le> lock_sum (pending es)"
proof -
  have "(k, l) \<in> set (pending es)" using assms by (simp add: GetLock_pending map_of_SomeD)
  then have "uint (lk_Amount l) \<in> set (map (uint \<circ> lk_Amount \<circ> snd) (pending es))" by force
  then show ?thesis unfolding lock_sum_def by (rule member_le_sum_list) auto
qed

section \<open>The locks to unlock on chain\<close>

lemma set_map_filter_Some: "set (List.map_filter f xs) = {y. \<exists>x \<in> set xs. f x = Some y}"
  by (induction xs) (auto simp: List.map_filter_simps split: option.split)

lemma load_put:
  assumes "inj_on lk_LockHash (set ls)" and "l \<in> set ls"
  shows "smap_load (foldl (\<lambda>m l. smap_store (lk_LockHash l) l m) [] ls) (lk_LockHash l) = Some l"
  using assms
proof (induction ls rule: rev_induct)
  case (snoc x xs)
  show ?case
  proof (cases "lk_LockHash l = lk_LockHash x")
    case True
    with snoc.prems have "l = x" by (auto simp: inj_on_def)
    then show ?thesis by simp
  next
    case False
    with snoc show ?thesis by (auto simp: inj_on_def)
  qed
qed simp

lemma GetBatchUnlock_tree:
  assumes "es_MerkleTree es = Some (tree_of e S)"
  shows "GetBatchUnlock es = Some (List.map_filter
     (smap_load (foldl (\<lambda>m l. smap_store (lk_LockHash l) l m) [] (map snd (pending es)))) (sorted_list_of_set S))"
  using assms by (simp add: GetBatchUnlock_def Let_def pending_def comp_def)

lemma wf_end_inj: "wf_end e es \<Longrightarrow> inj_on lk_LockHash (snd ` set (pending es))"
  by (auto simp: wf_end_def locks_ok_def distinct_map inj_on_def)

section \<open>A sample channel\<close>

text \<open>Two sides used to apply the theorems: one with a pending lock and a balance proof, one without.\<close>

definition sample_lock :: HashTimeLockState where
  "sample_lock = \<lparr>lk_Amount = 10, lk_Expiration = 100, lk_SecretHash = 7, lk_Encoded = [], lk_LockHash = 7\<rparr>"

definition sample_proof :: BalanceProofSignedState where
  "sample_proof =
     \<lparr>bp_Nonce = 2, bp_TransferredAmount = 20, bp_LockedAmount = 10, bp_LocksRoot = 7, bp_BalanceHash = 7,
      bp_TokenNetworkId = 6, bp_ChannelId = 4, bp_MessageHash = 0, bp_Signature = [], bp_Sender = 1,
      bp_ChainId = 1, bp_PublicKey = [0]\<rparr>"

definition sample_side1 :: NettingChannelEndState where
  "sample_side1 =
     \<lparr>es_Address = 1, es_ContractBalance = 100, es_TotalWithdraw = 0, es_LockedLocks = [(7, sample_lock)],
      es_UnLockedLocks = [], es_OnChainUnLockedLocks = [],
      es_MerkleTree = Some (tree_of sample_env {7}), es_BalanceProof = Some sample_proof\<rparr>"

definition sample_side2 :: NettingChannelEndState where
  "sample_side2 =
     \<lparr>es_Address = 2, es_ContractBalance = 50, es_TotalWithdraw = 0, es_LockedLocks = [],
      es_UnLockedLocks = [], es_OnChainUnLockedLocks = [],
      es_MerkleTree = Some GetEmptyMerkleTree, es_BalanceProof = None\<rparr>"

lemma root_sample: "MerkleRoot (Layers (tree_of sample_env {7})) = 7"
  by (simp add: tree_of_def computeLayers_single)

lemma sample_pending [simp]: "pending sample_side1 = [(7, sample_lock)]" "pending sample_side2 = []"
  by (simp_all add: pending_def sample_side1_def sample_side2_def)

lemma sample_transferred [simp]: "transferred sample_side1 = 20" "transferred sample_side2 = 0"
  by (simp_all add: transferred_def sample_side1_def sample_side2_def sample_proof_def)

lemma sample_amounts [simp]:
  "es_ContractBalance sample_side1 = 100" "es_TotalWithdraw sample_side1 = 0" "es_Address sample_side1 = 1"
  "es_ContractBalance sample_side2 = 50" "es_TotalWithdraw sample_side2 = 0" "es_Address sample_side2 = 2"
  by (simp_all add: sample_side1_def sample_side2_def)

lemma sample_wf [simp]: "wf_end sample_env sample_side1" "wf_end sample_env sample_side2"
proof -
  have "lock_hashes [(7, sample_lock)] = {7}" by (simp add: sample_lock_def)
  then show "wf_end sample_env sample_side1"
    by (simp add: wf_end_def locks_ok_def proof_ok_def root_sample)
      (simp add: sample_side1_def sample_lock_def sample_proof_def CalcLockHash_def GetHash_def root_sample)
  show "wf_end sample_env sample_side2"
    by (simp add: wf_end_def locks_ok_def proof_ok_def) (simp add: sample_side2_def tree_of_def)
qed

lemma sample_capacity [simp]: "capacity sample_side1 sample_side2 = 70" "capacity sample_side2 sample_side1 = 70"
  by (simp_all add: capacity_def sample_lock_def)

lemma sample_solvent [simp]: "solvent sample_side1 sample_side2" "solvent sample_side2 sample_side1"
proof -
  show "solvent sample_side1 sample_side2"
    by (simp add: solvent_def sample_lock_def)
  then show "solvent sample_side2 sample_side1" by (simp add: solvent_sym)
qed

section \<open>Properties\<close>

text \<open>
  C34. The spendable amount is exact. On a well-formed side of a solvent channel the wrapping
  64-bit arithmetic of \<open>GetDistributable\<close> computes the smaller of what is left of the balance (deposit,
  less withdrawn, transferred and locked amounts, plus what was received) and of what the transferred
  amount can still grow by.
\<close>

theorem GetDistributable_is_exact:
  assumes "wf_end e a" and "solvent a b"
  shows "uint (GetDistributable a b) =
     min (2 ^ 64 - 1 - uint (transferred a) - lock_sum (pending a))
       (uint (es_ContractBalance a) - uint (es_TotalWithdraw a) - uint (transferred a)
        + uint (transferred b) - lock_sum (pending a))"
  using GetDistributable_exact [OF assms] by (simp add: capacity_def)

text \<open>100 deposited, 20 transferred and 10 locked leave 70.\<close>

theorem GetDistributable_is_exact_witness: "uint (GetDistributable sample_side1 sample_side2) = 70"
  using GetDistributable_is_exact [of sample_env sample_side1 sample_side2] sample_capacity(1)
  by (simp add: sample_lock_def)

text \<open>
  For a batch unlock the contract is given exactly the pending locks, each once, in the order of
  the leaves of the Merkle tree.
\<close>

theorem GetBatchUnlock_complete:
  assumes "wf_end e es"
  shows "\<exists>ls. GetBatchUnlock es = Some ls
     \<and> map lk_LockHash ls = sorted_list_of_set (lock_hashes (pending es))
     \<and> set ls = snd ` set (pending es) \<and> distinct ls"
proof -
  define f where "f = smap_load (foldl (\<lambda>m l. smap_store (lk_LockHash l) l m) [] (map snd (pending es)))"
  define hs where "hs = sorted_list_of_set (lock_hashes (pending es))"
  let ?P = "snd ` set (pending es)"
  have load: "f (lk_LockHash l) = Some l" if "(k, l) \<in> set (pending es)" for k l
    using load_put [of "map snd (pending es)" l] wf_end_inj [OF assms] that by (force simp: f_def)
  have hs: "set hs = lk_LockHash ` ?P" by (simp add: hs_def lock_hashes_def image_comp)
  have m: "map lk_LockHash (List.map_filter f xs) = xs" if "set xs \<subseteq> lk_LockHash ` ?P" for xs
    using that by (induction xs) (auto simp: List.map_filter_simps load)
  have "set (List.map_filter f hs) = ?P"
    unfolding set_map_filter_Some hs using load by (force simp: image_iff)
  moreover have "distinct (List.map_filter f hs)"
    using m [of hs] hs distinct_map [of lk_LockHash "List.map_filter f hs"] by (simp add: hs_def)
  moreover have "map lk_LockHash (List.map_filter f hs) = hs" using m hs by simp
  ultimately show ?thesis
    using GetBatchUnlock_tree [OF wf_endD(2) [OF assms]] by (simp add: f_def [symmetric] hs_def [symmetric])
qed

text \<open>The one lock of the sample side.\<close>

theorem GetBatchUnlock_complete_witness:
  "\<exists>ls. GetBatchUnlock sample_side1 = Some ls \<and> set ls = {sample_lock}"
  using GetBatchUnlock_complete [of sample_env sample_side1] by auto

text \<open>
  Registering a secret, from a peer or from the chain, moves the lock between the maps and
  changes nothing else: afterwards the secret can be read back, the same locks are pending, the locked
  amount is the same, and the side is well-formed.
\<close>

theorem RegisterSecret_moves_lock:
  assumes "wf_end e es" and "smap_load (es_LockedLocks es) h = Some l" and "n \<le> lk_Expiration l"
  shows "GetSecret (RegisterSecretEndState es s h) h = s
     \<and> GetSecret (RegisterOnChainSecretEndState es s h n True) h = s
     \<and> mset (pending (RegisterSecretEndState es s h)) = mset (pending es)
     \<and> mset (pending (RegisterOnChainSecretEndState es s h n True)) = mset (pending es)
     \<and> getAmountLocked (RegisterSecretEndState es s h) = getAmountLocked es
     \<and> getAmountLocked (RegisterOnChainSecretEndState es s h n True) = getAmountLocked es
     \<and> wf_end e (RegisterSecretEndState es s h) \<and> wf_end e (RegisterOnChainSecretEndState es s h n True)"
proof -
  have none: "smap_load (es_UnLockedLocks es) h = None" using wf_end_disjoint(1) [OF assms(1), of h] assms(2) by simp
  have "GetSecret (RegisterSecretEndState es s h) h = s"
    using assms(2) by (simp add: RegisterSecretEndState_def GetSecret_def)
  moreover have "GetSecret (RegisterOnChainSecretEndState es s h n True) h = s"
    using assms(2) none leD [OF assms(3)]
    by (simp add: RegisterOnChainSecretEndState_def GetSecret_def IsLockLocked_def Let_def)
  moreover note off = pending_RegisterSecretEndState [OF assms(1), of s h]
    and on = pending_RegisterOnChainSecretEndState [OF assms(1), of s h n]
  ultimately show ?thesis
    using lock_perm(2) [OF off] lock_perm(2) [OF on] wf_end_Register [OF assms(1)]
    by (simp add: getAmountLocked_pending)
qed

text \<open>The secret of the sample lock, registered before the lock expires.\<close>

theorem RegisterSecret_moves_lock_witness:
  "GetSecret (RegisterSecretEndState sample_side1 [1, 2] 7) 7 = [1, 2]
   \<and> GetSecret (RegisterOnChainSecretEndState sample_side1 [1, 2] 7 90 True) 7 = [1, 2]"
proof -
  have "smap_load (es_LockedLocks sample_side1) 7 = Some sample_lock" "90 \<le> lk_Expiration sample_lock"
    by (simp_all add: sample_side1_def sample_lock_def smap_load_def)
  from RegisterSecret_moves_lock [OF sample_wf(1) this, of "[1, 2]"] show ?thesis by simp
qed

end
