(* ===== verification/Pylons_Changes.thy ===== *)
theory Pylons_Changes
  imports Pylons_State
begin

text \<open>
  The state changes of \<open>transfer/statechange.go\<close> that concern one channel. A struct is a record; of
  the embedded \<open>ContractReceiveStateChange\<close> only the block height is kept, the transaction hash is
  never read. \<open>StateChange\<close> is the union the channel's dispatcher switches on.
\<close>

section \<open>State changes\<close>

record MediationFeeConfig =
  TokenToFlatFee :: "(TokenAddress, FeeAmount) smap"
  TokenToProportionalFee :: "(TokenAddress, ProportionalFeeAmount) smap"
  TokenToProportionalImbalanceFee :: "(TokenAddress, ProportionalFeeAmount) smap"
  CapMediationFees :: bool

record ActionTransferDirect =
  atd_TokenNetworkId :: TokenNetworkID
  atd_ReceiverAddress :: Address
  atd_PaymentId :: PaymentID
  atd_Amount :: TokenAmount

record ActionWithdraw =
  aw_TokenNetworkId :: TokenNetworkID
  aw_ChannelId :: ChannelID
  aw_Participant :: Address
  aw_Partner :: Address
  aw_TotalWithdraw :: TokenAmount

record ReceiveWithdrawRequest =
  rwr_TokenNetworkId :: TokenNetworkID
  rwr_MessageId :: MessageID
  rwr_ChannelId :: ChannelID
  rwr_Participant :: Address
  rwr_TotalWithdraw :: TokenAmount
  rwr_ParticipantSignature :: Signature
  rwr_ParticipantAddress :: Address
  rwr_ParticipantPublicKey :: PubKey

text \<open>The embedded \<open>ReceiveWithdrawRequest\<close> of the Go struct is the record that is extended.\<close>

record ReceiveWithdraw = ReceiveWithdrawRequest +
  rw_PartnerSignature :: Signature
  rw_PartnerAddress :: Address
  rw_PartnerPublicKey :: PubKey

record ContractReceiveChannelWithdraw =
  crw_BlockHeight :: BlockHeight
  crw_TokenNetworkId :: TokenNetworkID
  crw_ChannelId :: ChannelID
  crw_Participant :: Address
  crw_TotalWithdraw :: TokenAmount

record ActionCooperativeSettle =
  acs_TokenNetworkId :: TokenNetworkID
  acs_ChannelId :: ChannelID

record ReceiveCooperativeSettleRequest =
  rcr_TokenNetworkId :: TokenNetworkID
  rcr_MessageId :: MessageID
  rcr_ChannelId :: ChannelID
  rcr_Participant1 :: Address
  rcr_Participant1Balance :: TokenAmount
  rcr_Participant2 :: Address
  rcr_Participant2Balance :: TokenAmount
  rcr_Participant1Signature :: Signature
  rcr_Participant1Address :: Address
  rcr_Participant1PublicKey :: PubKey

record ReceiveCooperativeSettle =
  rcs_TokenNetworkId :: TokenNetworkID
  rcs_MessageId :: MessageID
  rcs_ChannelId :: ChannelID
  rcs_Participant1 :: Address
  rcs_Participant1Balance :: TokenAmount
  rcs_Participant2 :: Address
  rcs_Participant2Balance :: TokenAmount
  rcs_Participant1Signature :: Signature
  rcs_Participant1Address :: Address
  rcs_Participant1PublicKey :: PubKey
  rcs_Participant2Signature :: Signature
  rcs_Participant2Address :: Address
  rcs_Participant2PublicKey :: PubKey

record ContractReceiveChannelCooperativeSettled =
  crc_BlockHeight :: BlockHeight
  crc_TokenNetworkId :: TokenNetworkID
  crc_ChannelId :: ChannelID
  crc_Participant1Amount :: TokenAmount
  crc_Participant2Amount :: TokenAmount

record ContractReceiveChannelClosed =
  ccl_BlockHeight :: BlockHeight
  ccl_TransactionFrom :: Address
  ccl_TokenNetworkId :: TokenNetworkID
  ccl_ChannelId :: ChannelID

record ContractReceiveChannelNewBalance =
  cnb_BlockHeight :: BlockHeight
  cnb_TokenNetworkId :: TokenNetworkID
  cnb_ChannelId :: ChannelID
  cnb_DepositTransaction :: TransactionChannelNewBalance
  cnb_FeeConfig :: MediationFeeConfig

record ContractReceiveChannelSettled =
  cst_BlockHeight :: BlockHeight
  cst_TokenNetworkId :: TokenNetworkID
  cst_ChannelId :: ChannelID

record ContractReceiveSecretReveal =
  csr_BlockHeight :: BlockHeight
  csr_SecretRegistryAddress :: Address
  csr_SecretHash :: SecretHash
  csr_Secret :: Secret

record ContractReceiveChannelBatchUnlock =
  cbu_BlockHeight :: BlockHeight
  cbu_TokenNetworkId :: TokenNetworkID
  cbu_Participant :: Address
  cbu_Partner :: Address
  cbu_LocksRoot :: LocksRoot
  cbu_UnlockedAmount :: TokenAmount
  cbu_ReturnedTokens :: TokenAmount

record ContractReceiveUpdateTransfer =
  cut_BlockHeight :: BlockHeight
  cut_TokenNetworkId :: TokenNetworkID
  cut_ChannelId :: ChannelID
  cut_Nonce :: Nonce

record ReceiveTransferDirect =
  rtd_Sender :: Address
  rtd_TokenNetworkId :: TokenNetworkID
  rtd_MessageId :: MessageID
  rtd_PaymentId :: PaymentID
  rtd_BalanceProof :: BalanceProofSignedState

record ReceiveUnlock =
  rul_Sender :: Address
  rul_MessageId :: MessageID
  rul_Secret :: Secret
  rul_SecretHash :: SecretHash
  rul_BalanceProof :: BalanceProofSignedState

record ReceiveLockExpired =
  rle_BalanceProof :: BalanceProofSignedState
  rle_SecretHash :: SecretHash
  rle_MessageId :: MessageID

record ReceiveTransferRefund =
  rtr_Sender :: Address
  rtr_BalanceProof :: "BalanceProofSignedState option"
  rtr_Transfer :: LockedTransferSignedState
  rtr_Routes :: "RouteState list"

text \<open>The state changes \<open>StateTransitionForChannel\<close> dispatches on.\<close>

datatype (plugins only: code) StateChange =
    Block BlockHeight
  | ActionChannelClose TokenNetworkID ChannelID
  | SC_ActionTransferDirect ActionTransferDirect
  | SC_ContractReceiveChannelClosed ContractReceiveChannelClosed
  | SC_ContractReceiveUpdateTransfer ContractReceiveUpdateTransfer
  | SC_ContractReceiveChannelSettled ContractReceiveChannelSettled
  | SC_ContractReceiveChannelNewBalance ContractReceiveChannelNewBalance
  | SC_ReceiveTransferDirect ReceiveTransferDirect
  | SC_ActionWithdraw ActionWithdraw
  | SC_ReceiveWithdrawRequest ReceiveWithdrawRequest
  | SC_ReceiveWithdraw ReceiveWithdraw
  | SC_ContractReceiveChannelWithdraw ContractReceiveChannelWithdraw
  | SC_ActionCooperativeSettle ActionCooperativeSettle
  | SC_ReceiveCooperativeSettleRequest ReceiveCooperativeSettleRequest
  | SC_ReceiveCooperativeSettle ReceiveCooperativeSettle
  | SC_ContractReceiveChannelCooperativeSettled ContractReceiveChannelCooperativeSettled
  | SC_ContractReceiveChannelBatchUnlock ContractReceiveChannelBatchUnlock

end
