(* ===== verification/Pylons_Validate.thy ===== *)
theory Pylons_Validate
  imports Pylons_EndState Pylons_Changes
begin

text \<open>
  The checks a received message must pass before the channel state changes (the \<open>IsValid\<close> functions of
  \<open>transfer/channel.go\<close>) and the status of a channel they depend on.

  A check returns \<open>Inr\<close> when the message is accepted. The checks that look up a stored lock also write
  its hash (\<open>rehashLock\<close>), so they return the partner's side as well.
\<close>

section \<open>Status\<close>

definition GetStatus :: "NettingChannelState \<Rightarrow> ChannelStatus" where
  "GetStatus cs =
     (case cs_SettleTransaction cs of
        Some tx \<Rightarrow>
          (if tx_Result tx = TxnExecSucc then ChannelStateSettled
           else if tx_FinishedBlockHeight tx = 0 then ChannelStateSettling
           else ChannelStateUnusable)
      | None \<Rightarrow>
         (case cs_CloseTransaction cs of
            Some tx \<Rightarrow>
              (if tx_Result tx = TxnExecSucc then ChannelStateClosed
               else if tx_FinishedBlockHeight tx = 0 then ChannelStateClosing
               else ChannelStateUnusable)
          | None \<Rightarrow> ChannelStateOpened))"

lemma GetStatus_Opened:
  "GetStatus cs = ChannelStateOpened \<longleftrightarrow> cs_SettleTransaction cs = None \<and> cs_CloseTransaction cs = None"
  by (simp add: GetStatus_def split: option.split)

section \<open>Balance proofs\<close>

definition IsBalanceProofSafeForOnchainOperations :: "BalanceProofSignedState \<Rightarrow> bool" where
  "IsBalanceProofSafeForOnchainOperations bp =
     (let totalAmount = bp_TransferredAmount bp + bp_LockedAmount bp in totalAmount \<le> MaxUint64)"

definition IsValidAmount :: "NettingChannelEndState \<Rightarrow> TokenAmount \<Rightarrow> bool" where
  "IsValidAmount es amount =
     (let balanceProofData = getCurrentBalanceProof es;
          transferredAmountAfterUnlock =
            bd_transferredAmount balanceProofData + bd_lockedAmount balanceProofData + amount
      in transferredAmountAfterUnlock \<le> MaxUint64)"

definition IsValidSignature :: "env \<Rightarrow> BalanceProofSignedState \<Rightarrow> Address \<Rightarrow> error + unit" where
  "IsValidSignature e bp senderAddress =
     (let balanceHash = HashBalanceData e (bp_TransferredAmount bp) (bp_LockedAmount bp) (bp_LocksRoot bp);
          dataThatWasSigned = PackBalanceProof e (bp_Nonce bp) balanceHash (hash_bytes (bp_MessageHash bp))
            (bp_ChannelId bp) (bp_TokenNetworkId bp) (bp_ChainId bp) 1
      in isValidSignature e dataThatWasSigned (bp_PublicKey bp) (bp_Signature bp) senderAddress)"

definition IsBalanceProofUsableOnChain ::
  "env \<Rightarrow> BalanceProofSignedState \<Rightarrow> NettingChannelState \<Rightarrow> NettingChannelEndState \<Rightarrow> error + unit"
where
  "IsBalanceProofUsableOnChain e bp cs senderState =
     (let expectedNonce = getNextNonce senderState
      in case IsValidSignature e bp (es_Address senderState) of
           Inl err \<Rightarrow> Inl err
         | Inr _ \<Rightarrow>
             if GetStatus cs \<noteq> ChannelStateOpened then Inl (Msg ''The channel is already closed.'')
             else if bp_ChannelId bp \<noteq> cs_Identifier cs
             then Inl (ChannelIdMismatch (cs_Identifier cs) (bp_ChannelId bp))
             else if AddressEqual (bp_TokenNetworkId bp) (cs_TokenNetworkId cs) = False
             then Inl (TokenNetworkMismatch (cs_TokenNetworkId cs) (bp_TokenNetworkId bp))
             else if bp_ChainId bp \<noteq> cs_ChainId cs
             then Inl (ChainIdMismatch (cs_ChainId cs) (bp_ChainId bp))
             else if IsBalanceProofSafeForOnchainOperations bp = False
             then Inl (Msg ''Balance proof total transferred amount would overflow onchain.'')
             else if bp_Nonce bp \<noteq> expectedNonce then Inl (NonceMismatch expectedNonce (bp_Nonce bp))
             else Inr ())"

text \<open>What an accepted balance proof is known to satisfy.\<close>

definition bp_signed :: "env \<Rightarrow> BalanceProofSignedState \<Rightarrow> Address \<Rightarrow> bool" where
  "bp_signed e bp signer =
     signed_by e signer
       (PackBalanceProof e (bp_Nonce bp)
          (HashBalanceData e (bp_TransferredAmount bp) (bp_LockedAmount bp) (bp_LocksRoot bp))
          (hash_bytes (bp_MessageHash bp)) (bp_ChannelId bp) (bp_TokenNetworkId bp) (bp_ChainId bp) 1)
       (bp_PublicKey bp) (bp_Signature bp)"

lemma IsValidSignature_iff: "IsValidSignature e bp a = Inr () \<longleftrightarrow> bp_signed e bp a"
  by (simp add: IsValidSignature_def isValidSignature_iff bp_signed_def)

lemma Inr_unit_iff: "(\<exists>u. x = Inr u) \<longleftrightarrow> x = Inr ()"
  by auto

lemma u64_le_Max [simp]: "(w :: u64) \<le> MaxUint64"
proof -
  have "unat w < Suc 18446744073709551615" using unat_u64_less [of w] by simp
  then show ?thesis unfolding word_le_nat_alt MaxUint64_def by (simp del: unat_u64_less)
qed

lemma safe_always [simp]: "IsBalanceProofSafeForOnchainOperations bp" "IsValidAmount es amount"
  by (simp_all add: IsBalanceProofSafeForOnchainOperations_def IsValidAmount_def)

lemma IsBalanceProofUsableOnChain_iff [pylons_defs]:
  "IsBalanceProofUsableOnChain e bp cs s = Inr () \<longleftrightarrow>
     bp_signed e bp (es_Address s) \<and> GetStatus cs = ChannelStateOpened
     \<and> bp_ChannelId bp = cs_Identifier cs \<and> bp_TokenNetworkId bp = cs_TokenNetworkId cs
     \<and> bp_ChainId bp = cs_ChainId cs \<and> bp_Nonce bp = getNextNonce s"
  using IsValidSignature_iff [of e bp "es_Address s"]
  by (auto simp: IsBalanceProofUsableOnChain_def Let_def split: sum.splits)

section \<open>Transfers\<close>

definition MAXIMUM_PENDING_TRANSFERS :: nat where
  "MAXIMUM_PENDING_TRANSFERS = 160"

definition IsValidDirectTransfer ::
  "env \<Rightarrow> ReceiveTransferDirect \<Rightarrow> NettingChannelState \<Rightarrow> NettingChannelEndState
     \<Rightarrow> NettingChannelEndState \<Rightarrow> error + unit"
where
  "IsValidDirectTransfer e directTransfer cs senderState receiverState =
     (let bp = rtd_BalanceProof directTransfer;
          currentBalanceProof = getCurrentBalanceProof senderState;
          currentLocksRoot = bd_locksRoot currentBalanceProof;
          currentTransferredAmount = bd_transferredAmount currentBalanceProof;
          currentLockedAmount = bd_lockedAmount currentBalanceProof;
          distributable = GetDistributable senderState receiverState;
          amount = bp_TransferredAmount bp - currentTransferredAmount
      in case IsBalanceProofUsableOnChain e bp cs senderState of
           Inl err \<Rightarrow> Inl (InMessage ''DirectTransfer'' err)
         | Inr _ \<Rightarrow>
             if compareLocksroot (bp_LocksRoot bp) currentLocksRoot = False
             then Inl (InMessage ''DirectTransfer'' (LocksRootMismatch currentLocksRoot (bp_LocksRoot bp)))
             else if bp_TransferredAmount bp \<le> currentTransferredAmount
             then Inl (InMessage ''DirectTransfer''
                    (TransferredNotIncreased currentTransferredAmount (bp_TransferredAmount bp)))
             else if bp_LockedAmount bp \<noteq> currentLockedAmount
             then Inl (InMessage ''DirectTransfer'' (LockedMismatch currentLockedAmount (bp_LockedAmount bp)))
             else if amount > distributable
             then Inl (InMessage ''DirectTransfer'' (ExceedsDistributable amount distributable))
             else Inr ())"

text \<open>
  \<open>ValidLockedTransferCheck\<close> also sets \<open>lock.LockHash\<close> of the message's lock; the callers store the lock
  with that hash. A nil Merkle tree, or one without layers, is a panic.
\<close>

definition ValidLockedTransferCheck ::
  "env \<Rightarrow> NettingChannelState \<Rightarrow> NettingChannelEndState \<Rightarrow> NettingChannelEndState \<Rightarrow> string
     \<Rightarrow> BalanceProofSignedState \<Rightarrow> HashTimeLockState \<Rightarrow> (error + MerkleTreeState) option"
where
  "ValidLockedTransferCheck e cs senderState receiverState messageName bp lock =
     do { tree \<leftarrow> es_MerkleTree senderState;
          merkleTree \<leftarrow> computeMerkleTreeWith e tree (CalcLockHash e lock);
          let currentBalanceProof = getCurrentBalanceProof senderState;
          let currentTransferredAmount = bd_transferredAmount currentBalanceProof;
          let currentLockedAmount = bd_lockedAmount currentBalanceProof;
          let distributable = GetDistributable senderState receiverState;
          let expectedLockedAmount = currentLockedAmount + lk_Amount lock;
          let bad = (\<lambda>err. Some (Inl (InMessage messageName err)));
          (case IsBalanceProofUsableOnChain e bp cs senderState of
             Inl err \<Rightarrow> bad err
           | Inr _ \<Rightarrow>
              (case merkleTree of
                 None \<Rightarrow> bad (Msg ''Same lockhash handled twice'')
               | Some merkleTree \<Rightarrow>
                   if MerkleTreeWidth merkleTree > MAXIMUM_PENDING_TRANSFERS
                   then bad (Msg ''Adding the transfer would exceed the allowed limit of pending transfers'')
                   else let locksRootWithLock = MerkleRoot (Layers merkleTree)
                   in if bp_LocksRoot bp \<noteq> locksRootWithLock
                      then bad (LocksRootMismatch locksRootWithLock (bp_LocksRoot bp))
                      else if bp_TransferredAmount bp \<noteq> currentTransferredAmount
                      then bad (TransferredMismatch currentTransferredAmount (bp_TransferredAmount bp))
                      else if bp_LockedAmount bp \<noteq> expectedLockedAmount
                      then bad (LockedMismatch expectedLockedAmount (bp_LockedAmount bp))
                      else if lk_Amount lock > distributable
                      then bad (ExceedsDistributable (lk_Amount lock) distributable)
                      else if lk_SecretHash lock = 0
                      then bad (Msg ''The secrethash is the keccak of 0x0 and will not be usable OnChain'')
                      else Some (Inr merkleTree)))
        }"

definition IsValidLockedTransfer ::
  "env \<Rightarrow> LockedTransferSignedState \<Rightarrow> NettingChannelState \<Rightarrow> NettingChannelEndState
     \<Rightarrow> NettingChannelEndState \<Rightarrow> (error + MerkleTreeState) option"
where
  "IsValidLockedTransfer e transferState cs senderState receiverState =
     ValidLockedTransferCheck e cs senderState receiverState ''LockedTransfer''
       (ls_BalanceProof transferState) (ls_Lock transferState)"

definition RefundTransferMatchesReceived ::
  "LockedTransferSignedState \<Rightarrow> LockedTransferUnsignedState \<Rightarrow> bool" where
  "RefundTransferMatchesReceived refundTransfer receivedTransfer =
     (if bp_Sender (ls_BalanceProof refundTransfer) = lu_Target receivedTransfer then False
      else if lu_PaymentId receivedTransfer = ls_PaymentId refundTransfer
              \<and> lk_Amount (lu_Lock receivedTransfer) = lk_Amount (ls_Lock refundTransfer)
              \<and> lk_SecretHash (lu_Lock receivedTransfer) = lk_SecretHash (ls_Lock refundTransfer)
              \<and> lu_Target receivedTransfer = ls_Target refundTransfer
              \<and> lk_Expiration (lu_Lock receivedTransfer) = lk_Expiration (ls_Lock refundTransfer)
              \<and> lu_Token receivedTransfer = ls_Token refundTransfer
      then True else False)"

definition IsValidRefund ::
  "env \<Rightarrow> ReceiveTransferRefund \<Rightarrow> NettingChannelState \<Rightarrow> NettingChannelEndState
     \<Rightarrow> NettingChannelEndState \<Rightarrow> LockedTransferUnsignedState \<Rightarrow> (error + MerkleTreeState) option"
where
  "IsValidRefund e refund cs senderState receiverState receivedTransfer =
     do { r \<leftarrow> ValidLockedTransferCheck e cs senderState receiverState ''RefundTransfer''
                 (ls_BalanceProof (rtr_Transfer refund)) (ls_Lock (rtr_Transfer refund));
          (case r of
             Inl err \<Rightarrow> Some (Inl err)
           | Inr merkleTree \<Rightarrow>
               if \<not> RefundTransferMatchesReceived (rtr_Transfer refund) receivedTransfer
               then Some (Inl (Msg ''Refund transfer did not match the received transfer''))
               else Some (Inr merkleTree)) }"

definition IsValidUnlock ::
  "env \<Rightarrow> ReceiveUnlock \<Rightarrow> NettingChannelState \<Rightarrow> NettingChannelEndState
     \<Rightarrow> (NettingChannelEndState \<times> (error + MerkleTreeState)) option"
where
  "IsValidUnlock e unlock cs senderState =
     (let bp = rul_BalanceProof unlock;
          currentBalanceProof = getCurrentBalanceProof senderState;
          secretHash = GetHash e (rul_Secret unlock)
      in case GetLock senderState secretHash of
           None \<Rightarrow> Some (senderState, Inl (NoCorrespondingLock secretHash))
         | Some lock \<Rightarrow>
             do { tree \<leftarrow> es_MerkleTree senderState;
                  merkleTree \<leftarrow> computeMerkleTreeWithout e tree (CalcLockHash e lock);
                  let locksRootWithoutLock = MerkleRoot (Layers merkleTree);
                  let expectedTransferredAmount = bd_transferredAmount currentBalanceProof + lk_Amount lock;
                  let expectedLockedAmount = bd_lockedAmount currentBalanceProof - lk_Amount lock;
                  let bad = (\<lambda>err. Inl (InMessage ''Unlock'' err));
                  Some (rehashLock e senderState secretHash,
                    (case IsBalanceProofUsableOnChain e bp cs senderState of
                       Inl err \<Rightarrow> bad err
                     | Inr _ \<Rightarrow>
                         if bp_LocksRoot bp \<noteq> locksRootWithoutLock
                         then bad (LocksRootMismatch locksRootWithoutLock (bp_LocksRoot bp))
                         else if bp_TransferredAmount bp \<noteq> expectedTransferredAmount
                         then bad (TransferredMismatch expectedTransferredAmount (bp_TransferredAmount bp))
                         else if bp_LockedAmount bp \<noteq> expectedLockedAmount
                         then bad (LockedMismatch expectedLockedAmount (bp_LockedAmount bp))
                         else Inr merkleTree)) })"

text \<open>
  \<open>IsValidLockExpired\<close>: the lock is looked up among the locked locks only, and an absent one is an
  error, so the later branches for a nil lock are not reachable; neither is the one for a nil tree,
  which \<open>computeMerkleTreeWithout\<close> never returns. \<open>senderState\<close> is the partner's side.
\<close>

definition IsValidLockExpired ::
  "env \<Rightarrow> ReceiveLockExpired \<Rightarrow> NettingChannelState \<Rightarrow> NettingChannelEndState
     \<Rightarrow> NettingChannelEndState \<Rightarrow> BlockHeight \<Rightarrow> (NettingChannelEndState \<times> (error + MerkleTreeState)) option"
where
  "IsValidLockExpired e stateChange cs senderState receiverState blockNumber =
     (let secretHash = rle_SecretHash stateChange;
          bp = rle_BalanceProof stateChange;
          bad = (\<lambda>err. Inl (InMessage ''LockExpired'' err))
      in case smap_load (es_LockedLocks (cs_PartnerState cs)) secretHash of
           None \<Rightarrow> Some (senderState,
             Inl (Msg ''secretHash not found in channel partner's secretHashesToLockedLocks''))
         | Some lock \<Rightarrow>
             do { let lockRegisteredOnChain =
                        (smap_load (es_OnChainUnLockedLocks (cs_OurState cs)) secretHash \<noteq> None);
                  let currentBalanceProof = getCurrentBalanceProof senderState;
                  tree \<leftarrow> es_MerkleTree senderState;
                  merkleTree \<leftarrow> computeMerkleTreeWithout e tree (CalcLockHash e lock);
                  let expectedLockedAmount = bd_lockedAmount currentBalanceProof - lk_Amount lock;
                  let locksRootWithoutLock = MerkleRoot (Layers merkleTree);
                  let threshold = lk_Expiration lock
                        + ucast (ConfirmBlockCount (Config e) - MaxBlockDelay (Config e));
                  Some (rehashLock e senderState secretHash,
                    (if lockRegisteredOnChain then bad (Msg ''Lock was unlocked on-chain'')
                     else case IsBalanceProofUsableOnChain e bp cs senderState of
                       Inl err \<Rightarrow> bad err
                     | Inr _ \<Rightarrow>
                        (case IsLockExpired receiverState lock blockNumber threshold of
                           Inl err \<Rightarrow> bad err
                         | Inr _ \<Rightarrow>
                             if bp_LocksRoot bp \<noteq> locksRootWithoutLock
                             then bad (LocksRootMismatch locksRootWithoutLock (bp_LocksRoot bp))
                             else if bp_TransferredAmount bp \<noteq> bd_transferredAmount currentBalanceProof
                             then bad (TransferredMismatch (bd_transferredAmount currentBalanceProof)
                                    (bp_TransferredAmount bp))
                             else if bp_LockedAmount bp \<noteq> expectedLockedAmount
                             then bad (LockedMismatch expectedLockedAmount (bp_LockedAmount bp))
                             else Inr merkleTree))) })"

section \<open>What acceptance means\<close>

lemma IsValidDirectTransfer_iff:
  "IsValidDirectTransfer e dt cs s r = Inr () \<longleftrightarrow>
     IsBalanceProofUsableOnChain e (rtd_BalanceProof dt) cs s = Inr ()
     \<and> bp_LocksRoot (rtd_BalanceProof dt) = bd_locksRoot (getCurrentBalanceProof s)
     \<and> bp_TransferredAmount (rtd_BalanceProof dt) > bd_transferredAmount (getCurrentBalanceProof s)
     \<and> bp_LockedAmount (rtd_BalanceProof dt) = bd_lockedAmount (getCurrentBalanceProof s)
     \<and> bp_TransferredAmount (rtd_BalanceProof dt) - bd_transferredAmount (getCurrentBalanceProof s)
         \<le> GetDistributable s r"
  by (auto simp: IsValidDirectTransfer_def Let_def not_less split: sum.splits)

lemma ValidLockedTransferCheck_iff:
  assumes "wf_end e s"
  shows "ValidLockedTransferCheck e cs s r m bp lock = Some (Inr t) \<longleftrightarrow>
     IsBalanceProofUsableOnChain e bp cs s = Inr ()
     \<and> CalcLockHash e lock \<notin> lock_hashes (pending s)
     \<and> t = tree_of e (insert (CalcLockHash e lock) (lock_hashes (pending s)))
     \<and> card (insert (CalcLockHash e lock) (lock_hashes (pending s))) \<le> MAXIMUM_PENDING_TRANSFERS
     \<and> bp_LocksRoot bp = MerkleRoot (Layers t)
     \<and> bp_TransferredAmount bp = transferred s
     \<and> bp_LockedAmount bp = getAmountLocked s + lk_Amount lock
     \<and> lk_Amount lock \<le> GetDistributable s r \<and> lk_SecretHash lock \<noteq> 0"
  using getCurrentBalanceProof_wf [OF assms] wf_endD(2) [OF assms]
  by (auto simp: ValidLockedTransferCheck_def With_tree_of Let_def not_less split: sum.splits if_splits)

lemma ValidLockedTransferCheck_total:
  assumes "wf_end e s"
  shows "ValidLockedTransferCheck e cs s r m bp lock \<noteq> None"
  using wf_endD(2) [OF assms]
  by (auto simp: ValidLockedTransferCheck_def With_tree_of Let_def split: sum.splits if_splits)

lemma IsValidUnlock_iff:
  assumes "wf_end e s" and "GetLock s (GetHash e (rul_Secret u)) = Some lock"
  shows "IsValidUnlock e u cs s = Some (s', Inr t) \<longleftrightarrow> s' = s
      \<and> IsBalanceProofUsableOnChain e (rul_BalanceProof u) cs s = Inr ()
      \<and> t = tree_of e (lock_hashes (pending s) - {lk_LockHash lock})
      \<and> bp_LocksRoot (rul_BalanceProof u) = MerkleRoot (Layers t)
      \<and> bp_TransferredAmount (rul_BalanceProof u) = transferred s + lk_Amount lock
      \<and> bp_LockedAmount (rul_BalanceProof u) = getAmountLocked s - lk_Amount lock"
  using getCurrentBalanceProof_wf [OF assms(1)] wf_endD(2) [OF assms(1)] GetLock_wf [OF assms]
    rehashLock_wf [OF assms(1)] assms(2)
  by (auto simp: IsValidUnlock_def Without_tree_of Let_def split: sum.splits if_splits)

lemma IsValidUnlock_state:
  assumes "wf_end e s"
  shows "\<exists>r. IsValidUnlock e u cs s = Some (s, r)"
  using wf_endD(2) [OF assms] rehashLock_wf [OF assms]
  by (auto simp: IsValidUnlock_def Without_tree_of Let_def split: option.split)

lemma IsValidUnlock_lock:
  assumes "IsValidUnlock e u cs s = Some (s', Inr t)"
  shows "\<exists>lock. GetLock s (GetHash e (rul_Secret u)) = Some lock"
  using assms by (auto simp: IsValidUnlock_def Let_def split: option.splits)

lemma IsValidLockExpired_iff:
  assumes "wf_end e s" and "s = cs_PartnerState cs"
    and "smap_load (es_LockedLocks s) (rle_SecretHash x) = Some lock"
  shows "IsValidLockExpired e x cs s (cs_OurState cs) n = Some (s', Inr t) \<longleftrightarrow> s' = s
      \<and> smap_load (es_OnChainUnLockedLocks (cs_OurState cs)) (rle_SecretHash x) = None
      \<and> IsBalanceProofUsableOnChain e (rle_BalanceProof x) cs s = Inr ()
      \<and> lk_Expiration lock + ucast (ConfirmBlockCount (Config e) - MaxBlockDelay (Config e)) \<le> n
      \<and> t = tree_of e (lock_hashes (pending s) - {lk_LockHash lock})
      \<and> bp_LocksRoot (rle_BalanceProof x) = MerkleRoot (Layers t)
      \<and> bp_TransferredAmount (rle_BalanceProof x) = transferred s
      \<and> bp_LockedAmount (rle_BalanceProof x) = getAmountLocked s - lk_Amount lock"
proof -
  have "GetLock s (rle_SecretHash x) = Some lock" using assms(3) by (simp add: GetLock_def)
  from GetLock_wf [OF assms(1) this] show ?thesis
    using getCurrentBalanceProof_wf [OF assms(1)] wf_endD(2) [OF assms(1)] rehashLock_wf [OF assms(1)] assms(2,3)
    by (auto simp: IsValidLockExpired_def IsLockExpired_def Without_tree_of Let_def not_less
        split: sum.splits if_splits)
qed

lemma IsValidLockExpired_state:
  assumes "wf_end e s"
  shows "\<exists>r. IsValidLockExpired e x cs s o' n = Some (s, r)"
  using wf_endD(2) [OF assms] rehashLock_wf [OF assms]
  by (auto simp: IsValidLockExpired_def Without_tree_of Let_def split: option.split)

lemma IsValidLockExpired_lock:
  assumes "IsValidLockExpired e x cs s o' n = Some (s', Inr t)"
  shows "\<exists>lock. smap_load (es_LockedLocks (cs_PartnerState cs)) (rle_SecretHash x) = Some lock"
  using assms by (auto simp: IsValidLockExpired_def Let_def split: option.splits)

end
