(* ===== verification/Pylons_Events.thy ===== *)
theory Pylons_Events
  imports Pylons_State
begin

text \<open>
  The events of \<open>transfer/events.go\<close>: the interface \<open>Event\<close> is a datatype with one constructor per
  implementing struct, its arguments in the order of the struct's fields (an embedded
  \<open>ContractSendEvent\<close>, which is empty, is left out). \<open>NilSendBalanceProof\<close> is the nil pointer of type
  \<open>*SendBalanceProof\<close> that \<open>SendUnlock\<close> returns for an unknown lock and its callers append to the events.
\<close>

section \<open>Events\<close>

record SendMessageEvent =
  sm_Recipient :: Address
  sm_ChannelId :: ChannelID
  sm_MessageId :: MessageID

datatype (plugins only: code) Event =
    ContractSendChannelClose ChannelID TokenAddress TokenNetworkID "BalanceProofSignedState option"
  | ContractSendChannelSettle ChannelID TokenNetworkID
  | ContractSendChannelUpdateTransfer BlockExpiration ChannelID TokenNetworkID BalanceProofSignedState
  | ContractSendChannelBatchUnlock TokenAddress TokenNetworkID ChannelID Address
  | ContractSendSecretReveal BlockExpiration Secret
  | EventPaymentSentSuccess PaymentNetworkID TokenNetworkID PaymentID TokenAmount Address
  | EventPaymentSentFailed PaymentNetworkID TokenNetworkID PaymentID Address error
  | EventPaymentReceivedSuccess PaymentNetworkID TokenNetworkID PaymentID TokenAmount Address
  | EventTransferReceivedInvalidDirectTransfer PaymentID error
  | SendDirectTransfer SendMessageEvent PaymentID BalanceProofUnsignedState TokenAddress
  | EventInvalidReceivedUnlock SecretHash error
  | SendProcessed SendMessageEvent
  | SendWithdrawRequest SendMessageEvent Address TokenNetworkID TokenAmount
  | SendWithdraw SendMessageEvent Address TokenNetworkID TokenAmount Signature Address PubKey
  | ContractSendChannelWithdraw TokenNetworkID ChannelID Address TokenAmount
      Signature Address PubKey Signature Address PubKey
  | EventWithdrawRequestSentFailed TokenNetworkID ChannelID TokenAmount error
  | EventInvalidReceivedWithdrawRequest ChannelID Address TokenAmount error
  | EventInvalidReceivedWithdraw TokenNetworkID ChannelID Address TokenAmount error
  | EventWithdrawRequestTimeout TokenNetworkID ChannelID
  | SendCooperativeSettleRequest SendMessageEvent TokenNetworkID Address TokenAmount Address TokenAmount
  | SendCooperativeSettle SendMessageEvent TokenNetworkID Address TokenAmount Address TokenAmount
      Signature Address PubKey
  | ContractSendChannelCooperativeSettle TokenNetworkID ChannelID Address TokenAmount Address TokenAmount
      Signature Address PubKey Signature Address PubKey
  | EventCooperativeSettleRequestSentFailed TokenNetworkID ChannelID error
  | EventInvalidReceivedCooperativeSettleRequest TokenNetworkID ChannelID error
  | EventInvalidReceivedCooperativeSettle TokenNetworkID ChannelID error
  | EventInvalidReceivedTransferRefund PaymentID error
  | EventInvalidReceivedLockExpired SecretHash error
  | EventInvalidReceivedLockedTransfer PaymentID error
  | SendLockExpired SendMessageEvent BalanceProofUnsignedState SecretHash
  | SendLockedTransfer SendMessageEvent LockedTransferUnsignedState
  | SendSecretReveal SendMessageEvent Secret SecretHash
  | SendBalanceProof SendMessageEvent PaymentID TokenAddress Secret SecretHash BalanceProofUnsignedState
  | SendSecretRequest SendMessageEvent PaymentID TokenAmount BlockExpiration SecretHash
  | SendRefundTransfer SendMessageEvent LockedTransferUnsignedState
  | EventUnlockSuccess PaymentID SecretHash
  | EventUnlockFailed PaymentID SecretHash error
  | EventUnlockClaimSuccess PaymentID SecretHash
  | EventUnlockClaimFailed PaymentID SecretHash error
  | EventUnexpectedSecretReveal SecretHash error
  | NilSendBalanceProof

definition ChannelIdGlobalQueue :: ChannelID where
  "ChannelIdGlobalQueue = 0"

end
