(* ===== verification/Pylons_Send.thy ===== *)
theory Pylons_Send
  imports Pylons_Validate Pylons_Events
begin

text \<open>
  The operations that spend from our side of a channel (\<open>transfer/channel.go\<close>,
  \<open>createSendLockedTransfer\<close> to \<open>EventsForExpiredLock\<close>). Each builds an unsigned balance proof, stores
  it as our current one and returns the event that carries it.

  A message id is drawn with \<open>common.GetMsgID()\<close>; the value drawn is an argument.
\<close>

section \<open>Balance proofs of our own\<close>

text \<open>The signed state that is stored for a proof of our own: the signature fields stay empty.\<close>

definition fakeSigned :: "BalanceProofUnsignedState \<Rightarrow> BalanceProofSignedState" where
  "fakeSigned u =
     \<lparr>bp_Nonce = bu_Nonce u, bp_TransferredAmount = bu_TransferredAmount u,
      bp_LockedAmount = bu_LockedAmount u, bp_LocksRoot = bu_LocksRoot u,
      bp_BalanceHash = bu_BalanceHash u, bp_TokenNetworkId = bu_TokenNetworkId u,
      bp_ChannelId = bu_ChannelId u, bp_MessageHash = 0, bp_Signature = [], bp_Sender = 0,
      bp_ChainId = bu_ChainId u, bp_PublicKey = []\<rparr>"

text \<open>The literal the create functions share, with its balance hash.\<close>

definition newBalanceProof ::
  "env \<Rightarrow> Nonce \<Rightarrow> TokenAmount \<Rightarrow> TokenAmount \<Rightarrow> LocksRoot \<Rightarrow> TokenNetworkID \<Rightarrow> ChannelID \<Rightarrow> ChainID
     \<Rightarrow> BalanceProofUnsignedState"
where
  "newBalanceProof e nonce transferredAmount lockedAmount locksRoot tokenNetworkId channelId chainId =
     \<lparr>bu_Nonce = nonce, bu_TransferredAmount = transferredAmount, bu_LockedAmount = lockedAmount,
      bu_LocksRoot = locksRoot, bu_BalanceHash = HashBalanceData e transferredAmount lockedAmount locksRoot,
      bu_TokenNetworkId = tokenNetworkId, bu_ChannelId = channelId, bu_ChainId = chainId\<rparr>"

section \<open>Direct transfers\<close>

definition createSendDirectTransfer ::
  "env \<Rightarrow> NettingChannelState \<Rightarrow> PaymentAmount \<Rightarrow> MessageID \<Rightarrow> PaymentID
     \<Rightarrow> (SendMessageEvent \<times> PaymentID \<times> BalanceProofUnsignedState \<times> TokenAddress) option"
where
  "createSendDirectTransfer e cs amount messageId paymentId =
     (let ourState = cs_OurState cs; partnerState = cs_PartnerState cs
      in if amount > GetDistributable ourState partnerState then None
         else if GetStatus cs \<noteq> ChannelStateOpened then None
         else
           let (transferAmount, locksRoot) =
                 (case es_BalanceProof ourState of
                    Some bp \<Rightarrow> (amount + bp_TransferredAmount bp, bp_LocksRoot bp)
                  | None \<Rightarrow> (amount, 0));
               balanceProof = newBalanceProof e (getNextNonce ourState) transferAmount
                 (getAmountLocked ourState) locksRoot (cs_TokenNetworkId cs) (cs_Identifier cs) (cs_ChainId cs)
           in Some (\<lparr>sm_Recipient = es_Address partnerState, sm_ChannelId = cs_Identifier cs,
                     sm_MessageId = messageId\<rparr>,
                    paymentId, balanceProof, cs_TokenAddress cs))"

text \<open>\<open>sendDirectTransfer\<close> reads the fields of the event without a nil check.\<close>

definition sendDirectTransfer ::
  "env \<Rightarrow> NettingChannelState \<Rightarrow> PaymentAmount \<Rightarrow> MessageID \<Rightarrow> PaymentID \<Rightarrow> (NettingChannelState \<times> Event) option"
where
  "sendDirectTransfer e cs amount messageId paymentId =
     (case createSendDirectTransfer e cs amount messageId paymentId of
        None \<Rightarrow> None
      | Some (msg, pid, balanceProof, token) \<Rightarrow>
          Some (cs\<lparr>cs_OurState := (cs_OurState cs)\<lparr>es_BalanceProof := Some (fakeSigned balanceProof)\<rparr>\<rparr>,
                SendDirectTransfer msg pid balanceProof token))"

section \<open>Locked transfers\<close>

text \<open>The lock of a new transfer, with its hash.\<close>

definition newLock :: "env \<Rightarrow> PaymentAmount \<Rightarrow> BlockExpiration \<Rightarrow> SecretHash \<Rightarrow> HashTimeLockState" where
  "newLock e amount expiration secretHash =
     (let lock = \<lparr>lk_Amount = amount, lk_Expiration = ucast expiration, lk_SecretHash = secretHash,
                  lk_Encoded = [], lk_LockHash = 0\<rparr>
      in lock\<lparr>lk_LockHash := CalcLockHash e lock\<rparr>)"

definition createSendLockedTransfer ::
  "env \<Rightarrow> NettingChannelState \<Rightarrow> Address \<Rightarrow> Address \<Rightarrow> PaymentAmount \<Rightarrow> MessageID \<Rightarrow> PaymentID
     \<Rightarrow> BlockExpiration \<Rightarrow> EncSecret \<Rightarrow> SecretHash \<Rightarrow> Address list
     \<Rightarrow> (error + SendMessageEvent \<times> LockedTransferUnsignedState \<times> MerkleTreeState) option"
where
  "createSendLockedTransfer e cs initiator target amount messageId paymentId expiration encSecret
      secretHash mediators =
     (let ourState = cs_OurState cs; partnerState = cs_PartnerState cs
      in if amount > GetDistributable ourState partnerState
         then Some (Inl (Msg ''transfer amount is less then distributable''))
         else if GetStatus cs \<noteq> ChannelStateOpened
         then Some (Inl (Msg ''channelState is not Opened''))
         else do {
           let lock = newLock e amount expiration secretHash;
           tree \<leftarrow> es_MerkleTree ourState;
           merkleTreeOrNil \<leftarrow> computeMerkleTreeWith e tree (lk_LockHash lock);
           merkleTree \<leftarrow> merkleTreeOrNil;
           let locksRoot = MerkleRoot (Layers merkleTree);
           let transferAmount = (case es_BalanceProof ourState of Some bp \<Rightarrow> bp_TransferredAmount bp | None \<Rightarrow> 0);
           let lockedAmount = getAmountLocked ourState + amount;
           let balanceProof = newBalanceProof e (getNextNonce ourState) transferAmount lockedAmount
                 locksRoot (cs_TokenNetworkId cs) (cs_Identifier cs) (cs_ChainId cs);
           let transfer = \<lparr>lu_PaymentId = paymentId, lu_Token = cs_TokenAddress cs,
                 lu_BalanceProof = balanceProof, lu_Lock = lock, lu_Initiator = initiator,
                 lu_Target = target, lu_EncSecret = encSecret, lu_Mediators = mediators\<rparr>;
           Some (Inr (\<lparr>sm_Recipient = es_Address partnerState, sm_ChannelId = cs_Identifier cs,
                      sm_MessageId = messageId\<rparr>, transfer, merkleTree)) })"

text \<open>The update of our side that \<open>sendLockedTransfer\<close> and \<open>sendRefundTransfer\<close> share.\<close>

definition storeLockedTransfer ::
  "NettingChannelState \<Rightarrow> LockedTransferUnsignedState \<Rightarrow> MerkleTreeState \<Rightarrow> NettingChannelState" where
  "storeLockedTransfer cs transfer merkleTree =
     (let lock = lu_Lock transfer;
          our1 = (cs_OurState cs)\<lparr>es_BalanceProof := Some (fakeSigned (lu_BalanceProof transfer)),
                                  es_MerkleTree := Some merkleTree\<rparr>
      in cs\<lparr>cs_OurState := our1\<lparr>es_LockedLocks := smap_store (lk_SecretHash lock) lock (es_LockedLocks our1)\<rparr>\<rparr>)"

definition sendLockedTransfer ::
  "env \<Rightarrow> NettingChannelState \<Rightarrow> Address \<Rightarrow> Address \<Rightarrow> PaymentAmount \<Rightarrow> MessageID \<Rightarrow> PaymentID
     \<Rightarrow> BlockExpiration \<Rightarrow> EncSecret \<Rightarrow> SecretHash \<Rightarrow> Address list
     \<Rightarrow> (NettingChannelState \<times> Event option) option"
where
  "sendLockedTransfer e cs initiator target amount messageId paymentId expiration encSecret secretHash
      mediators =
     do { r \<leftarrow> createSendLockedTransfer e cs initiator target amount messageId paymentId expiration
                 encSecret secretHash mediators;
          (case r of
             Inl _ \<Rightarrow> Some (cs, None)
           | Inr (msg, transfer, merkleTree) \<Rightarrow>
               Some (storeLockedTransfer cs transfer merkleTree, Some (SendLockedTransfer msg transfer))) }"

definition RefundFromSendmediated :: "SendMessageEvent \<Rightarrow> LockedTransferUnsignedState \<Rightarrow> Event" where
  "RefundFromSendmediated msg transfer =
     SendRefundTransfer
       \<lparr>sm_Recipient = sm_Recipient msg, sm_ChannelId = sm_ChannelId msg, sm_MessageId = sm_MessageId msg\<rparr>
       transfer"

definition sendRefundTransfer ::
  "env \<Rightarrow> NettingChannelState \<Rightarrow> Address \<Rightarrow> Address \<Rightarrow> PaymentAmount \<Rightarrow> MessageID \<Rightarrow> PaymentID
     \<Rightarrow> BlockExpiration \<Rightarrow> EncSecret \<Rightarrow> SecretHash \<Rightarrow> (NettingChannelState \<times> (error + Event)) option"
where
  "sendRefundTransfer e cs initiator target amount messageId paymentId expiration encSecret secretHash =
     (if smap_load (es_LockedLocks (cs_PartnerState cs)) secretHash = None
      then Some (cs, Inl (Msg ''Refunds are only valid for *known and pending* transfers''))
      else do {
        r \<leftarrow> createSendLockedTransfer e cs initiator target amount messageId paymentId expiration
               encSecret secretHash [];
        (case r of
           Inl err \<Rightarrow> Some (cs, Inl err)
         | Inr (msg, transfer, merkleTree) \<Rightarrow>
             Some (storeLockedTransfer cs transfer merkleTree, Inr (RefundFromSendmediated msg transfer))) })"

section \<open>Unlocks\<close>

text \<open>\<open>CreateUnlock\<close> leaves the field \<open>SecretHash\<close> of the event at its zero value.\<close>

definition CreateUnlock ::
  "env \<Rightarrow> NettingChannelState \<Rightarrow> MessageID \<Rightarrow> PaymentID \<Rightarrow> Secret \<Rightarrow> HashTimeLockState
     \<Rightarrow> (error + SendMessageEvent \<times> BalanceProofUnsignedState \<times> MerkleTreeState) option"
where
  "CreateUnlock e cs messageId paymentId secret lock =
     (let ourState = cs_OurState cs
      in if \<not> IsLockPending ourState (lk_SecretHash lock)
         then Some (Inl (Msg ''caller must make sure the lock is known''))
         else do {
           let transferredAmount =
             (case es_BalanceProof ourState of
                Some bp \<Rightarrow> lk_Amount lock + bp_TransferredAmount bp
              | None \<Rightarrow> lk_Amount lock);
           tree \<leftarrow> es_MerkleTree ourState;
           merkleTree \<leftarrow> computeMerkleTreeWithout e tree (CalcLockHash e lock);
           let locksRoot = MerkleRoot (Layers merkleTree);
           let lockedAmount = getAmountLocked ourState - lk_Amount lock;
           let balanceProof = newBalanceProof e (getNextNonce ourState) transferredAmount lockedAmount
                 locksRoot (cs_TokenNetworkId cs) (cs_Identifier cs) (cs_ChainId cs);
           Some (Inr (\<lparr>sm_Recipient = es_Address (cs_PartnerState cs), sm_ChannelId = cs_Identifier cs,
                      sm_MessageId = messageId\<rparr>, balanceProof, merkleTree)) })"

text \<open>\<open>SendUnlock\<close> ignores the error of \<open>CreateUnlock\<close> and then reads the nil event.\<close>

definition SendUnlock ::
  "env \<Rightarrow> NettingChannelState \<Rightarrow> MessageID \<Rightarrow> PaymentID \<Rightarrow> Secret \<Rightarrow> SecretHash
     \<Rightarrow> (NettingChannelState \<times> Event option) option"
where
  "SendUnlock e cs messageId paymentId secret secretHash =
     (case GetLock (cs_OurState cs) secretHash of
        None \<Rightarrow> Some (cs, None)
      | Some lock \<Rightarrow>
          do { r \<leftarrow> CreateUnlock e cs messageId paymentId secret lock;
               (case r of
                  Inl _ \<Rightarrow> None
                | Inr (msg, balanceProof, merkleTree) \<Rightarrow>
                    Some (cs\<lparr>cs_OurState :=
                             DelLock ((rehashLock e (cs_OurState cs) secretHash)
                                        \<lparr>es_BalanceProof := Some (fakeSigned balanceProof),
                                         es_MerkleTree := Some merkleTree\<rparr>)
                               (lk_SecretHash lock)\<rparr>,
                          Some (SendBalanceProof msg paymentId (cs_TokenAddress cs) secret 0 balanceProof))) })"

section \<open>Closing and expired locks\<close>

definition EventsForClose :: "NettingChannelState \<Rightarrow> BlockHeight \<Rightarrow> NettingChannelState \<times> Event list" where
  "EventsForClose cs blockNumber =
     (if GetStatus cs = ChannelStateOpened \<or> GetStatus cs = ChannelStateClosing
      then (cs\<lparr>cs_CloseTransaction := Some \<lparr>tx_StartedBlockHeight = blockNumber,
                 tx_FinishedBlockHeight = 0, tx_Result = ''''\<rparr>\<rparr>,
            [ContractSendChannelClose (cs_Identifier cs) (cs_TokenAddress cs) (cs_TokenNetworkId cs)
               (es_BalanceProof (cs_PartnerState cs))])
      else (cs, []))"

text \<open>
  \<open>createSendExpiredLock\<close> also refreshes the balance hash of the proof that its only caller replaces.
\<close>

definition createSendExpiredLock ::
  "env \<Rightarrow> NettingChannelEndState \<Rightarrow> HashTimeLockState \<Rightarrow> ChainID \<Rightarrow> TokenNetworkID \<Rightarrow> ChannelID \<Rightarrow> Address
     \<Rightarrow> MessageID \<Rightarrow> (SendMessageEvent \<times> BalanceProofUnsignedState \<times> SecretHash \<times> MerkleTreeState) option option"
where
  "createSendExpiredLock e senderEndState lockedLock chainId tokenNetworkId channelId recipient msgId =
     (let updatedLockedAmount = getAmountLocked senderEndState - lk_Amount lockedLock
      in case es_BalanceProof senderEndState of
           None \<Rightarrow> Some None
         | Some balanceProof \<Rightarrow>
             do { tree \<leftarrow> es_MerkleTree senderEndState;
                  merkleTree \<leftarrow> computeMerkleTreeWithout e tree (lk_LockHash lockedLock);
                  let locksRoot = MerkleRoot (Layers merkleTree);
                  let balanceProofEx = newBalanceProof e (getNextNonce senderEndState)
                        (bp_TransferredAmount balanceProof) updatedLockedAmount locksRoot
                        tokenNetworkId channelId chainId;
                  Some (Some (\<lparr>sm_Recipient = recipient, sm_ChannelId = channelId, sm_MessageId = msgId\<rparr>,
                              balanceProofEx, lk_SecretHash lockedLock, merkleTree)) })"

definition EventsForExpiredLock ::
  "env \<Rightarrow> NettingChannelState \<Rightarrow> HashTimeLockState \<Rightarrow> MessageID \<Rightarrow> (NettingChannelState \<times> Event list) option"
where
  "EventsForExpiredLock e cs lockedLock msgId =
     do { r \<leftarrow> createSendExpiredLock e (cs_OurState cs) lockedLock (cs_ChainId cs) (cs_TokenNetworkId cs)
                 (cs_Identifier cs) (es_Address (cs_PartnerState cs)) msgId;
          (case r of
             None \<Rightarrow> Some (cs, [])
           | Some (msg, balanceProof, secretHash, merkleTree) \<Rightarrow>
               Some (cs\<lparr>cs_OurState :=
                        DelUnclaimedLock ((cs_OurState cs)\<lparr>es_BalanceProof := Some (fakeSigned balanceProof),
                                                          es_MerkleTree := Some merkleTree\<rparr>)
                          (lk_SecretHash lockedLock)\<rparr>,
                     [SendLockExpired msg balanceProof secretHash])) }"

section \<open>What the operations store and send\<close>

lemma newLock_simps [simp]:
  "lk_Amount (newLock e n x h) = n" "lk_Expiration (newLock e n x h) = ucast x"
  "lk_SecretHash (newLock e n x h) = h" "CalcLockHash e (newLock e n x h) = lk_LockHash (newLock e n x h)"
  by (simp_all add: newLock_def Let_def CalcLockHash_def PackData_def)

lemma fakeSigned_simps [simp]:
  "bp_Nonce (fakeSigned u) = bu_Nonce u" "bp_TransferredAmount (fakeSigned u) = bu_TransferredAmount u"
  "bp_LockedAmount (fakeSigned u) = bu_LockedAmount u" "bp_LocksRoot (fakeSigned u) = bu_LocksRoot u"
  by (simp_all add: fakeSigned_def)

lemma newBalanceProof_simps [simp]:
  "bu_Nonce (newBalanceProof e n t l r tn c ch) = n"
  "bu_TransferredAmount (newBalanceProof e n t l r tn c ch) = t"
  "bu_LockedAmount (newBalanceProof e n t l r tn c ch) = l"
  "bu_LocksRoot (newBalanceProof e n t l r tn c ch) = r"
  "bu_TokenNetworkId (newBalanceProof e n t l r tn c ch) = tn"
  "bu_ChannelId (newBalanceProof e n t l r tn c ch) = c"
  "bu_ChainId (newBalanceProof e n t l r tn c ch) = ch"
  "bu_BalanceHash (newBalanceProof e n t l r tn c ch) = HashBalanceData e t l r"
  by (simp_all add: newBalanceProof_def)

text \<open>The balance proof for the next message of a channel with the given amounts and root.\<close>

abbreviation nextProof ::
  "env \<Rightarrow> NettingChannelState \<Rightarrow> TokenAmount \<Rightarrow> TokenAmount \<Rightarrow> LocksRoot \<Rightarrow> BalanceProofUnsignedState" where
  "nextProof e cs t l r \<equiv>
     newBalanceProof e (getNextNonce (cs_OurState cs)) t l r (cs_TokenNetworkId cs) (cs_Identifier cs) (cs_ChainId cs)"

lemma sendDirectTransfer_eq:
  fixes e :: env
  assumes "amount \<le> GetDistributable (cs_OurState cs) (cs_PartnerState cs)" and "GetStatus cs = ChannelStateOpened"
  defines "u \<equiv> nextProof e cs (transferred (cs_OurState cs) + amount) (getAmountLocked (cs_OurState cs))
     (bd_locksRoot (getCurrentBalanceProof (cs_OurState cs)))"
  shows "sendDirectTransfer e cs amount m p =
     Some (cs\<lparr>cs_OurState := (cs_OurState cs)\<lparr>es_BalanceProof := Some (fakeSigned u)\<rparr>\<rparr>,
       SendDirectTransfer \<lparr>sm_Recipient = es_Address (cs_PartnerState cs), sm_ChannelId = cs_Identifier cs,
         sm_MessageId = m\<rparr> p u (cs_TokenAddress cs))"
  using assms
  by (auto simp: sendDirectTransfer_def createSendDirectTransfer_def Let_def transferred_def
      getCurrentBalanceProof_def not_less add.commute split: option.split)

lemma sendDirectTransfer_cases:
  assumes "sendDirectTransfer e cs amount m p = Some r"
  shows "amount \<le> GetDistributable (cs_OurState cs) (cs_PartnerState cs)" "GetStatus cs = ChannelStateOpened"
  using assms
  by (auto simp: sendDirectTransfer_def createSendDirectTransfer_def Let_def not_less split: if_splits)

lemma sendLockedTransfer_eq:
  fixes p :: PaymentID and i tg :: Address and es :: EncSecret and md :: "Address list"
  assumes wf: "wf_end e (cs_OurState cs)"
    and "amount \<le> GetDistributable (cs_OurState cs) (cs_PartnerState cs)" and "GetStatus cs = ChannelStateOpened"
    and "lk_LockHash (newLock e amount x h) \<notin> lock_hashes (pending (cs_OurState cs))"
  defines "t \<equiv> tree_of e (insert (lk_LockHash (newLock e amount x h)) (lock_hashes (pending (cs_OurState cs))))"
  defines "u \<equiv> nextProof e cs (transferred (cs_OurState cs)) (getAmountLocked (cs_OurState cs) + amount)
     (MerkleRoot (Layers t))"
  defines "tr \<equiv> \<lparr>lu_PaymentId = p, lu_Token = cs_TokenAddress cs, lu_BalanceProof = u,
     lu_Lock = newLock e amount x h, lu_Initiator = i, lu_Target = tg, lu_EncSecret = es, lu_Mediators = md\<rparr>"
  shows "createSendLockedTransfer e cs i tg amount m p x es h md =
     Some (Inr (\<lparr>sm_Recipient = es_Address (cs_PartnerState cs), sm_ChannelId = cs_Identifier cs,
         sm_MessageId = m\<rparr>, tr, t))"
    and "sendLockedTransfer e cs i tg amount m p x es h md =
     Some (storeLockedTransfer cs tr t,
       Some (SendLockedTransfer \<lparr>sm_Recipient = es_Address (cs_PartnerState cs), sm_ChannelId = cs_Identifier cs,
         sm_MessageId = m\<rparr> tr))"
proof -
  show c: "createSendLockedTransfer e cs i tg amount m p x es h md =
     Some (Inr (\<lparr>sm_Recipient = es_Address (cs_PartnerState cs), sm_ChannelId = cs_Identifier cs,
         sm_MessageId = m\<rparr>, tr, t))"
    using assms wf_endD(2) [OF wf]
    by (simp add: createSendLockedTransfer_def With_tree_of Let_def transferred_def not_less)
  then show "sendLockedTransfer e cs i tg amount m p x es h md =
     Some (storeLockedTransfer cs tr t,
       Some (SendLockedTransfer \<lparr>sm_Recipient = es_Address (cs_PartnerState cs), sm_ChannelId = cs_Identifier cs,
         sm_MessageId = m\<rparr> tr))"
    by (simp add: sendLockedTransfer_def)
qed

lemma createSendLockedTransfer_cases:
  assumes "wf_end e (cs_OurState cs)"
    and "createSendLockedTransfer e cs i tg amount m p x es h md = Some (Inr r)"
  shows "amount \<le> GetDistributable (cs_OurState cs) (cs_PartnerState cs)" "GetStatus cs = ChannelStateOpened"
    "lk_LockHash (newLock e amount x h) \<notin> lock_hashes (pending (cs_OurState cs))"
  using assms(2) wf_endD(2) [OF assms(1)]
  by (auto simp: createSendLockedTransfer_def With_tree_of Let_def not_less split: if_splits)

lemma SendUnlock_eq:
  assumes wf: "wf_end e (cs_OurState cs)" and l: "GetLock (cs_OurState cs) h = Some lock"
  defines "t \<equiv> tree_of e (lock_hashes (pending (cs_OurState cs)) - {lk_LockHash lock})"
  defines "u \<equiv> nextProof e cs (transferred (cs_OurState cs) + lk_Amount lock)
     (getAmountLocked (cs_OurState cs) - lk_Amount lock) (MerkleRoot (Layers t))"
  shows "SendUnlock e cs m p s h =
     Some (cs\<lparr>cs_OurState := (DelLock (cs_OurState cs) h)\<lparr>es_BalanceProof := Some (fakeSigned u),
         es_MerkleTree := Some t\<rparr>\<rparr>,
       Some (SendBalanceProof \<lparr>sm_Recipient = es_Address (cs_PartnerState cs), sm_ChannelId = cs_Identifier cs,
         sm_MessageId = m\<rparr> p (cs_TokenAddress cs) s 0 u))"
  using GetLock_wf [OF wf l] wf_endD(2) [OF wf] rehashLock_wf [OF wf] l
  by (auto simp: SendUnlock_def CreateUnlock_def Without_tree_of Let_def IsLockPending_iff t_def u_def
      transferred_def add.commute split: option.split)

lemma EventsForExpiredLock_eq:
  assumes wf: "wf_end e (cs_OurState cs)" and l: "GetLock (cs_OurState cs) h = Some lock"
  defines "t \<equiv> tree_of e (lock_hashes (pending (cs_OurState cs)) - {lk_LockHash lock})"
  defines "u \<equiv> nextProof e cs (transferred (cs_OurState cs))
     (getAmountLocked (cs_OurState cs) - lk_Amount lock) (MerkleRoot (Layers t))"
  shows "EventsForExpiredLock e cs lock m =
     Some (cs\<lparr>cs_OurState := (DelUnclaimedLock (cs_OurState cs) h)\<lparr>es_BalanceProof := Some (fakeSigned u),
         es_MerkleTree := Some t\<rparr>\<rparr>,
       [SendLockExpired \<lparr>sm_Recipient = es_Address (cs_PartnerState cs), sm_ChannelId = cs_Identifier cs,
         sm_MessageId = m\<rparr> u h])"
proof -
  have "es_BalanceProof (cs_OurState cs) \<noteq> None"
    using wf_endD(3) [OF wf] GetLock_wf(1) [OF wf l] by (auto simp: proof_ok_def split: option.splits)
  then obtain bp where "es_BalanceProof (cs_OurState cs) = Some bp" by blast
  then show ?thesis
    using GetLock_wf [OF wf l] wf_endD(2) [OF wf]
    by (simp add: EventsForExpiredLock_def createSendExpiredLock_def Without_tree_of t_def u_def transferred_def)
qed

end
