(* ===== verification/Pylons_Channel.thy ===== *)
theory Pylons_Channel
  imports Pylons_Send
begin

text \<open>
  The handlers of one channel (\<open>transfer/channel.go\<close>, \<open>handleSendDirectTransfer\<close> to
  \<open>StateTransitionForChannel\<close>). A handler returns the new channel state and the events; a nil state
  deletes the channel. The outer option is the panic of the Go code. \<open>msgId\<close> is the id that
  \<open>common.GetMsgID()\<close> draws if the handler needs one.
\<close>

text \<open>
  The state a handler returns is the channel, or nil; \<open>NilState cs\<close> keeps the contents the struct has
  when nil is returned, as other pointers to it may remain.
\<close>

datatype (plugins only: code) ChannelResult =
    NewState (the_channel: NettingChannelState)
  | NilState (the_channel: NettingChannelState)

type_synonym TransitionResult = "ChannelResult \<times> Event list"

section \<open>Sending direct transfers\<close>

definition handleSendDirectTransfer ::
  "env \<Rightarrow> NettingChannelState \<Rightarrow> ActionTransferDirect \<Rightarrow> MessageID \<Rightarrow> TransitionResult option" where
  "handleSendDirectTransfer e cs stateChange msgId =
     (let amount = atd_Amount stateChange;
          paymentId = atd_PaymentId stateChange;
          targetAddress = atd_ReceiverAddress stateChange;
          distributableAmount = GetDistributable (cs_OurState cs) (cs_PartnerState cs);
          currentBalanceProof = getCurrentBalanceProof (cs_OurState cs);
          transferedAmountAfterUnlock =
            bd_transferredAmount currentBalanceProof + amount + bd_lockedAmount currentBalanceProof;
          isOpen = (GetStatus cs = ChannelStateOpened);
          isValid = (amount > 0 \<and> transferedAmountAfterUnlock < MaxUint64);
          canPay = (amount \<le> distributableAmount);
          failure = (\<lambda>msg. Some (NewState cs, [EventPaymentSentFailed (cs_PaymentNetworkId cs)
                      (cs_TokenNetworkId cs) paymentId targetAddress msg]))
      in if isOpen \<and> isValid \<and> canPay
         then do { (cs', ev) \<leftarrow> sendDirectTransfer e cs amount msgId paymentId; Some (NewState cs', [ev]) }
         else if isOpen = False then failure (Msg ''Channel is not opened'')
         else if isValid = False then failure (PaymentAmountInvalid amount)
         else if canPay = False then failure (ExceedsDistributable distributableAmount amount)
         else Some (NewState cs, []))"

section \<open>Withdrawals\<close>

definition GetChannelEndState :: "NettingChannelState \<Rightarrow> nat \<Rightarrow> NettingChannelEndState" where
  "GetChannelEndState cs side = (if side = 0 then cs_OurState cs else cs_PartnerState cs)"

definition isValidWithdrawAmount ::
  "NettingChannelEndState \<Rightarrow> NettingChannelEndState \<Rightarrow> TokenAmount \<Rightarrow> error + unit" where
  "isValidWithdrawAmount participant partner totalWithdraw =
     (let currentWithdraw = GetTotalWithdraw participant;
          amountToWithdraw = totalWithdraw - currentWithdraw;
          bothDeposit = GetContractBalance participant + GetContractBalance partner;
          bothWithdraw = totalWithdraw + GetTotalWithdraw partner;
          distributable = GetDistributable participant partner
      in if totalWithdraw < currentWithdraw then Inl (WithdrawDecreased totalWithdraw currentWithdraw)
         else if amountToWithdraw \<le> 0 then Inl (Msg ''amount to withdraw no larger than 0'')
         else if bothWithdraw > bothDeposit
         then Inl (WithdrawExceedsDeposit totalWithdraw (GetTotalWithdraw partner) bothWithdraw bothDeposit)
         else if amountToWithdraw > distributable
         then Inl (ExceedsDistributable totalWithdraw distributable)
         else Inr ())"

definition RecordWithdrawTransaction :: "NettingChannelState \<Rightarrow> BlockHeight \<Rightarrow> NettingChannelState" where
  "RecordWithdrawTransaction cs height =
     cs\<lparr>cs_WithdrawTransaction := Some \<lparr>tx_StartedBlockHeight = height, tx_FinishedBlockHeight = 0,
                                       tx_Result = ''''\<rparr>\<rparr>"

definition DeleteWithdrawTransaction :: "NettingChannelState \<Rightarrow> NettingChannelState" where
  "DeleteWithdrawTransaction cs = cs\<lparr>cs_WithdrawTransaction := None\<rparr>"

definition GetWithdrawTransaction :: "NettingChannelState \<Rightarrow> TransactionExecutionStatus option" where
  "GetWithdrawTransaction cs = cs_WithdrawTransaction cs"

definition handleSendWithdrawRequest ::
  "NettingChannelState \<Rightarrow> ActionWithdraw \<Rightarrow> BlockHeight \<Rightarrow> MessageID \<Rightarrow> TransitionResult" where
  "handleSendWithdrawRequest cs stateChange blockNumber msgId =
     (let check = (if GetStatus cs = ChannelStateOpened
                   then isValidWithdrawAmount (GetChannelEndState cs 0) (GetChannelEndState cs 1)
                          (aw_TotalWithdraw stateChange)
                   else Inl (Msg ''channel is not opened''))
      in case check of
           Inr _ \<Rightarrow>
             (NewState (RecordWithdrawTransaction cs blockNumber),
              [SendWithdrawRequest
                 \<lparr>sm_Recipient = aw_Partner stateChange, sm_ChannelId = aw_ChannelId stateChange,
                  sm_MessageId = msgId\<rparr>
                 (aw_Participant stateChange) (cs_TokenNetworkId cs) (aw_TotalWithdraw stateChange)])
         | Inl err \<Rightarrow>
             (NewState cs, [EventWithdrawRequestSentFailed (aw_TokenNetworkId stateChange)
                          (aw_ChannelId stateChange) (aw_TotalWithdraw stateChange) err]))"

definition isValidWithdrawRequest ::
  "env \<Rightarrow> NettingChannelState \<Rightarrow> 'a ReceiveWithdrawRequest_scheme \<Rightarrow> error + unit" where
  "isValidWithdrawRequest e cs stateChange =
     (if GetStatus cs \<noteq> ChannelStateOpened then Inl (Msg ''channel is not opened'')
      else if \<not> AddressEqual (es_Address (cs_PartnerState cs)) (rwr_Participant stateChange)
      then Inl (Msg ''participant address invalid'')
      else if \<not> AddressEqual (rwr_Participant stateChange) (rwr_ParticipantAddress stateChange)
      then Inl (Msg ''participant address is same as the signer'')
      else case isValidWithdrawAmount (GetChannelEndState cs 1) (GetChannelEndState cs 0)
                  (rwr_TotalWithdraw stateChange) of
             Inl err \<Rightarrow> Inl err
           | Inr _ \<Rightarrow>
               (let dataToSign = PackWithdraw e (rwr_ChannelId stateChange) (rwr_Participant stateChange)
                                   (rwr_TotalWithdraw stateChange)
                in isValidSignature e dataToSign (rwr_ParticipantPublicKey stateChange)
                     (rwr_ParticipantSignature stateChange) (rwr_ParticipantAddress stateChange)))"

definition handleWithdrawRequestReceived ::
  "env \<Rightarrow> NettingChannelState \<Rightarrow> ReceiveWithdrawRequest \<Rightarrow> MessageID \<Rightarrow> TransitionResult" where
  "handleWithdrawRequestReceived e cs stateChange msgId =
     (case isValidWithdrawRequest e cs stateChange of
        Inr _ \<Rightarrow>
          (NewState cs,
           [SendWithdraw
              \<lparr>sm_Recipient = rwr_Participant stateChange, sm_ChannelId = rwr_ChannelId stateChange,
               sm_MessageId = msgId\<rparr>
              (rwr_Participant stateChange) (cs_TokenNetworkId cs) (rwr_TotalWithdraw stateChange)
              (rwr_ParticipantSignature stateChange) (rwr_ParticipantAddress stateChange)
              (rwr_ParticipantPublicKey stateChange),
            SendProcessed
              \<lparr>sm_Recipient = rwr_Participant stateChange, sm_ChannelId = ChannelIdGlobalQueue,
               sm_MessageId = rwr_MessageId stateChange\<rparr>])
      | Inl err \<Rightarrow>
          (NewState cs, [EventInvalidReceivedWithdrawRequest (rwr_ChannelId stateChange)
                       (rwr_Participant stateChange) (rwr_TotalWithdraw stateChange) err]))"

definition isValidWithdraw :: "env \<Rightarrow> NettingChannelState \<Rightarrow> ReceiveWithdraw \<Rightarrow> error + unit" where
  "isValidWithdraw e cs stateChange =
     (if GetStatus cs \<noteq> ChannelStateOpened then Inl (Msg ''channel is not opened'')
      else if \<not> AddressEqual (es_Address (cs_OurState cs)) (rwr_Participant stateChange)
      then Inl (Msg ''[isValidWithdraw] participant address invalid'')
      else let dataToSign = PackWithdraw e (rwr_ChannelId stateChange) (rwr_Participant stateChange)
                              (rwr_TotalWithdraw stateChange)
           in isValidSignature e dataToSign (rw_PartnerPublicKey stateChange)
                (rw_PartnerSignature stateChange) (rw_PartnerAddress stateChange))"

definition handleWithdrawReceived ::
  "env \<Rightarrow> NettingChannelState \<Rightarrow> ReceiveWithdraw \<Rightarrow> TransitionResult" where
  "handleWithdrawReceived e cs stateChange =
     (case isValidWithdraw e cs stateChange of
        Inr _ \<Rightarrow>
          (NewState cs,
           [ContractSendChannelWithdraw (rwr_TokenNetworkId stateChange) (rwr_ChannelId stateChange)
              (rwr_Participant stateChange) (rwr_TotalWithdraw stateChange)
              (rwr_ParticipantSignature stateChange) (rwr_ParticipantAddress stateChange)
              (rwr_ParticipantPublicKey stateChange) (rw_PartnerSignature stateChange)
              (rw_PartnerAddress stateChange) (rw_PartnerPublicKey stateChange)])
      | Inl err \<Rightarrow>
          (NewState cs, [EventInvalidReceivedWithdraw (rwr_TokenNetworkId stateChange)
                       (rwr_ChannelId stateChange) (rwr_Participant stateChange)
                       (rwr_TotalWithdraw stateChange) err]))"

definition handleChannelWithdraw ::
  "NettingChannelState \<Rightarrow> ContractReceiveChannelWithdraw \<Rightarrow> TransitionResult" where
  "handleChannelWithdraw cs stateChange =
     (let cs1 = (if AddressEqual (crw_Participant stateChange) (GetAddress (GetChannelEndState cs 0))
                 then cs\<lparr>cs_OurState := (cs_OurState cs)\<lparr>es_TotalWithdraw := crw_TotalWithdraw stateChange\<rparr>\<rparr>
                 else cs\<lparr>cs_PartnerState :=
                           (cs_PartnerState cs)\<lparr>es_TotalWithdraw := crw_TotalWithdraw stateChange\<rparr>\<rparr>)
      in (NewState (DeleteWithdrawTransaction cs1), []))"

section \<open>Cooperative settlement\<close>

definition calculateCooperativeSettleBalance ::
  "NettingChannelEndState \<Rightarrow> NettingChannelEndState \<Rightarrow> TokenAmount" where
  "calculateCooperativeSettleBalance participant1 participant2 =
     (let bpData1 = getCurrentBalanceProof participant1;
          bpData2 = getCurrentBalanceProof participant2
      in es_ContractBalance participant1 - es_TotalWithdraw participant1
           + bd_transferredAmount bpData2 - bd_transferredAmount bpData1
           + bd_lockedAmount bpData2 - bd_lockedAmount bpData1)"

definition GetCooprativeSettleBalances :: "NettingChannelState \<Rightarrow> TokenAmount \<times> TokenAmount" where
  "GetCooprativeSettleBalances cs =
     (let ourState = GetChannelEndState cs 0; partnerState = GetChannelEndState cs 1
      in (calculateCooperativeSettleBalance ourState partnerState,
          calculateCooperativeSettleBalance partnerState ourState))"

text \<open>The empty transaction record that marks a settlement as running.\<close>

definition runningSettle :: TransactionExecutionStatus where
  "runningSettle = \<lparr>tx_StartedBlockHeight = 0, tx_FinishedBlockHeight = 0, tx_Result = ''''\<rparr>"

definition handleSendCooperativeSettleRequest ::
  "NettingChannelState \<Rightarrow> ActionCooperativeSettle \<Rightarrow> MessageID \<Rightarrow> TransitionResult" where
  "handleSendCooperativeSettleRequest cs stateChange msgId =
     (if GetStatus cs = ChannelStateOpened
      then let (ourBalance, partnerBalance) = GetCooprativeSettleBalances cs;
               ourAddress = GetAddress (cs_OurState cs);
               partnerAddress = GetAddress (cs_PartnerState cs)
           in (NewState (cs\<lparr>cs_SettleTransaction := Some runningSettle\<rparr>),
               [SendCooperativeSettleRequest
                  \<lparr>sm_Recipient = partnerAddress, sm_ChannelId = acs_ChannelId stateChange, sm_MessageId = msgId\<rparr>
                  (acs_TokenNetworkId stateChange) ourAddress ourBalance partnerAddress partnerBalance])
      else (NewState cs, [EventCooperativeSettleRequestSentFailed (acs_TokenNetworkId stateChange)
                        (acs_ChannelId stateChange) (Msg ''Channel is not opened'')]))"

definition isValidCooperativeSettleRequest ::
  "env \<Rightarrow> NettingChannelState \<Rightarrow> ReceiveCooperativeSettleRequest \<Rightarrow> error + unit" where
  "isValidCooperativeSettleRequest e cs stateChange =
     (let ourState = GetChannelEndState cs 0;
          partnerState = GetChannelEndState cs 1;
          ourBalance = calculateCooperativeSettleBalance ourState partnerState;
          partnerBalance = calculateCooperativeSettleBalance partnerState ourState
      in if GetStatus cs \<noteq> ChannelStateOpened then Inl (Msg ''channel is not opened'')
         else if \<not> AddressEqual (es_Address partnerState) (rcr_Participant1 stateChange)
         then Inl (Msg ''participant1 address invalid'')
         else if \<not> AddressEqual (es_Address ourState) (rcr_Participant2 stateChange)
         then Inl (Msg ''participant2 address invalid'')
         else if \<not> AddressEqual (rcr_Participant1 stateChange) (rcr_Participant1Address stateChange)
         then Inl (Msg ''participant address is same as the signer'')
         else if ourBalance \<noteq> rcr_Participant2Balance stateChange
                 \<or> partnerBalance \<noteq> rcr_Participant1Balance stateChange
         then Inl (BalanceMismatch ourBalance partnerBalance (rcr_Participant1Balance stateChange)
                (rcr_Participant2Balance stateChange))
         else let dataToSign = PackCooperativeSettle e (rcr_ChannelId stateChange)
                    (rcr_Participant1 stateChange) (rcr_Participant1Balance stateChange)
                    (rcr_Participant2 stateChange) (rcr_Participant2Balance stateChange)
              in isValidSignature e dataToSign (rcr_Participant1PublicKey stateChange)
                   (rcr_Participant1Signature stateChange) (rcr_Participant1Address stateChange))"

definition handleCooperativeSettleRequestReceived ::
  "env \<Rightarrow> NettingChannelState \<Rightarrow> ReceiveCooperativeSettleRequest \<Rightarrow> MessageID \<Rightarrow> TransitionResult" where
  "handleCooperativeSettleRequestReceived e cs stateChange msgId =
     (case isValidCooperativeSettleRequest e cs stateChange of
        Inr _ \<Rightarrow>
          (NewState (cs\<lparr>cs_SettleTransaction := Some runningSettle\<rparr>),
           [SendCooperativeSettle
              \<lparr>sm_Recipient = rcr_Participant1 stateChange, sm_ChannelId = rcr_ChannelId stateChange,
               sm_MessageId = msgId\<rparr>
              (rcr_TokenNetworkId stateChange) (rcr_Participant1 stateChange)
              (rcr_Participant1Balance stateChange) (rcr_Participant2 stateChange)
              (rcr_Participant2Balance stateChange) (rcr_Participant1Signature stateChange)
              (rcr_Participant1Address stateChange) (rcr_Participant1PublicKey stateChange),
            SendProcessed
              \<lparr>sm_Recipient = rcr_Participant1 stateChange, sm_ChannelId = ChannelIdGlobalQueue,
               sm_MessageId = rcr_MessageId stateChange\<rparr>])
      | Inl err \<Rightarrow>
          (NewState cs, [EventInvalidReceivedCooperativeSettleRequest (rcr_TokenNetworkId stateChange)
                       (rcr_ChannelId stateChange) err]))"

definition isValidCooperativeSettle ::
  "env \<Rightarrow> NettingChannelState \<Rightarrow> ReceiveCooperativeSettle \<Rightarrow> error + unit" where
  "isValidCooperativeSettle e cs stateChange =
     (let ourState = GetChannelEndState cs 0;
          partnerState = GetChannelEndState cs 1;
          ourBalance = calculateCooperativeSettleBalance ourState partnerState;
          partnerBalance = calculateCooperativeSettleBalance partnerState ourState;
          dataToSign = PackCooperativeSettle e (rcs_ChannelId stateChange)
            (rcs_Participant1 stateChange) (rcs_Participant1Balance stateChange)
            (rcs_Participant2 stateChange) (rcs_Participant2Balance stateChange)
      in if GetStatus cs \<noteq> ChannelStateSettling then Inl (Msg ''channel is not opened'')
         else if \<not> AddressEqual (es_Address ourState) (rcs_Participant1 stateChange)
         then Inl (Msg ''participant1 address invalid'')
         else if \<not> AddressEqual (es_Address partnerState) (rcs_Participant2 stateChange)
         then Inl (Msg ''participant2 address invalid'')
         else if \<not> AddressEqual (rcs_Participant1 stateChange) (rcs_Participant1Address stateChange)
         then Inl (Msg ''participant1 address is same as the signer'')
         else if \<not> AddressEqual (rcs_Participant2 stateChange) (rcs_Participant2Address stateChange)
         then Inl (Msg ''participant1 address is same as the signer'')
         else if ourBalance \<noteq> rcs_Participant1Balance stateChange
                 \<or> partnerBalance \<noteq> rcs_Participant2Balance stateChange
         then Inl (BalanceMismatch ourBalance partnerBalance (rcs_Participant1Balance stateChange)
                (rcs_Participant2Balance stateChange))
         else case isValidSignature e dataToSign (rcs_Participant1PublicKey stateChange)
                     (rcs_Participant1Signature stateChange) (rcs_Participant1Address stateChange) of
                Inl err \<Rightarrow> Inl (InMessage ''participant1 siganature'' err)
              | Inr _ \<Rightarrow>
                  isValidSignature e dataToSign (rcs_Participant2PublicKey stateChange)
                    (rcs_Participant2Signature stateChange) (rcs_Participant2Address stateChange))"

definition handleCooperativeSettleReceived ::
  "env \<Rightarrow> NettingChannelState \<Rightarrow> ReceiveCooperativeSettle \<Rightarrow> TransitionResult" where
  "handleCooperativeSettleReceived e cs stateChange =
     (case isValidCooperativeSettle e cs stateChange of
        Inr _ \<Rightarrow>
          (NewState cs,
           [ContractSendChannelCooperativeSettle (rcs_TokenNetworkId stateChange)
              (rcs_ChannelId stateChange) (rcs_Participant1 stateChange)
              (rcs_Participant1Balance stateChange) (rcs_Participant2 stateChange)
              (rcs_Participant2Balance stateChange) (rcs_Participant1Signature stateChange)
              (rcs_Participant1Address stateChange) (rcs_Participant1PublicKey stateChange)
              (rcs_Participant2Signature stateChange) (rcs_Participant2Address stateChange)
              (rcs_Participant2PublicKey stateChange)])
      | Inl err \<Rightarrow>
          (NewState (cs\<lparr>cs_SettleTransaction := None\<rparr>),
           [EventInvalidReceivedCooperativeSettle (rcs_TokenNetworkId stateChange)
              (rcs_ChannelId stateChange) err]))"

section \<open>Closing, settling and unlocking on chain\<close>

definition setClosed :: "NettingChannelState \<Rightarrow> BlockHeight \<Rightarrow> NettingChannelState" where
  "setClosed cs blockNumber =
     (case cs_CloseTransaction cs of
        None \<Rightarrow> cs\<lparr>cs_CloseTransaction := Some \<lparr>tx_StartedBlockHeight = 0,
                    tx_FinishedBlockHeight = blockNumber, tx_Result = TxnExecSucc\<rparr>\<rparr>
      | Some tx \<Rightarrow>
          if tx_FinishedBlockHeight tx = 0
          then cs\<lparr>cs_CloseTransaction := Some (tx\<lparr>tx_FinishedBlockHeight := blockNumber,
                                                  tx_Result := TxnExecSucc\<rparr>)\<rparr>
          else cs)"

definition setSettled :: "NettingChannelState \<Rightarrow> BlockHeight \<Rightarrow> NettingChannelState" where
  "setSettled cs blockNumber =
     (case cs_SettleTransaction cs of
        None \<Rightarrow> cs\<lparr>cs_SettleTransaction := Some \<lparr>tx_StartedBlockHeight = 0,
                    tx_FinishedBlockHeight = blockNumber, tx_Result = TxnExecSucc\<rparr>\<rparr>
      | Some tx \<Rightarrow>
          if tx_FinishedBlockHeight tx = 0
          then cs\<lparr>cs_SettleTransaction := Some (tx\<lparr>tx_FinishedBlockHeight := blockNumber,
                                                   tx_Result := TxnExecSucc\<rparr>)\<rparr>
          else cs)"

definition handleChannelCooperativeSettled ::
  "NettingChannelState \<Rightarrow> ContractReceiveChannelCooperativeSettled \<Rightarrow> TransitionResult" where
  "handleChannelCooperativeSettled cs stateChange =
     (if crc_ChannelId stateChange = cs_Identifier cs
      then (NilState (setSettled cs (crc_BlockHeight stateChange)), []) else (NewState cs, []))"

definition handleActionClose :: "NettingChannelState \<Rightarrow> BlockHeight \<Rightarrow> TransitionResult" where
  "handleActionClose cs blockNumber =
     (let (cs', events) = EventsForClose cs blockNumber in (NewState cs', events))"

definition handleChannelClosed ::
  "NettingChannelState \<Rightarrow> ContractReceiveChannelClosed \<Rightarrow> TransitionResult" where
  "handleChannelClosed cs stateChange =
     (let status = GetStatus cs;
          justClosed = (ccl_ChannelId stateChange = cs_Identifier cs
            \<and> (status = ChannelStateOpened \<or> status = ChannelStateClosing))
      in if justClosed
         then let cs1 = setClosed cs (ccl_BlockHeight stateChange)
              in case es_BalanceProof (cs_PartnerState cs1) of
                   Some balanceProof \<Rightarrow>
                     if AddressEqual (ccl_TransactionFrom stateChange) (es_Address (cs_OurState cs1)) = False
                        \<and> cs_UpdateTransaction cs1 = None
                     then let expiration = ccl_BlockHeight stateChange + ucast (cs_SettleTimeout cs1)
                          in (NewState (cs1\<lparr>cs_UpdateTransaction :=
                                        Some \<lparr>tx_StartedBlockHeight = ccl_BlockHeight stateChange,
                                              tx_FinishedBlockHeight = 0, tx_Result = ''''\<rparr>\<rparr>),
                              [ContractSendChannelUpdateTransfer (ucast expiration) (cs_Identifier cs1)
                                 (cs_TokenNetworkId cs1) balanceProof])
                     else (NewState cs1, [])
                 | None \<Rightarrow> (NewState cs1, [])
         else (NewState cs, []))"

definition handleChannelUpdatedTransfer ::
  "NettingChannelState \<Rightarrow> ContractReceiveUpdateTransfer \<Rightarrow> BlockHeight \<Rightarrow> TransitionResult" where
  "handleChannelUpdatedTransfer cs stateChange blockNumber =
     (if cut_ChannelId stateChange = cs_Identifier cs
      then (NewState (cs\<lparr>cs_UpdateTransaction := Some \<lparr>tx_StartedBlockHeight = 0, tx_FinishedBlockHeight = 0,
                                                    tx_Result = ''success''\<rparr>\<rparr>), [])
      else (NewState cs, []))"

definition handleChannelSettled ::
  "NettingChannelState \<Rightarrow> ContractReceiveChannelSettled \<Rightarrow> BlockHeight \<Rightarrow> TransitionResult option" where
  "handleChannelSettled cs stateChange blockNumber =
     (if cst_ChannelId stateChange = cs_Identifier cs
      then do {
        let cs1 = setSettled cs (cst_BlockHeight stateChange);
        let isSettlePending = (cs_OurUnlockTransaction cs1 \<noteq> None);
        merkleTreeLeaves \<leftarrow> GetBatchUnlock (cs_PartnerState cs1);
        if isSettlePending = False \<and> length merkleTreeLeaves \<noteq> 0
        then Some (NewState (cs1\<lparr>cs_OurUnlockTransaction := Some \<lparr>tx_StartedBlockHeight = blockNumber,
                               tx_FinishedBlockHeight = 0, tx_Result = ''''\<rparr>\<rparr>),
                   [ContractSendChannelBatchUnlock (cs_TokenAddress cs1) (cs_TokenNetworkId cs1)
                      (cs_Identifier cs1) (es_Address (cs_PartnerState cs1))])
        else Some (NilState cs1, []) }
      else Some (NewState cs, []))"

definition handleChannelBatchUnlock ::
  "NettingChannelState \<Rightarrow> ContractReceiveChannelBatchUnlock \<Rightarrow> TransitionResult" where
  "handleChannelBatchUnlock cs stateChange =
     (if GetStatus cs = ChannelStateSettled then (NilState cs, []) else (NewState cs, []))"

section \<open>Deposits and blocks\<close>

text \<open>
  \<open>TransactionOrderHeap\<close> is a slice kept sorted by block height. \<open>sort.Sort\<close> leaves the order of equal
  heights open; the model keeps it, as the library does for slices of up to twelve elements.
\<close>

definition TransactionOrderHeap_Push :: "TransactionOrder list \<Rightarrow> TransactionOrder \<Rightarrow> TransactionOrder list" where
  "TransactionOrderHeap_Push h v = sort_key to_BlockHeight (h @ [v])"

fun TransactionOrderHeap_Pop :: "TransactionOrder list \<Rightarrow> (TransactionOrder \<times> TransactionOrder list) option" where
  "TransactionOrderHeap_Pop [] = None"
| "TransactionOrderHeap_Pop (x # xs) = Some (x, sort_key to_BlockHeight xs)"

definition IsTransactionConfirmed :: "env \<Rightarrow> BlockHeight \<Rightarrow> BlockHeight \<Rightarrow> bool" where
  "IsTransactionConfirmed e transactionBlockHeight blockChainBlockHeight =
     (let confirmationBlock = transactionBlockHeight + ucast (ConfirmBlockCount (Config e))
      in blockChainBlockHeight > confirmationBlock)"

definition isDepositConfirmed :: "env \<Rightarrow> NettingChannelState \<Rightarrow> BlockHeight \<Rightarrow> bool" where
  "isDepositConfirmed e cs blockNumber =
     (case cs_DepositTransactionQueue cs of
        [] \<Rightarrow> False
      | x # _ \<Rightarrow> IsTransactionConfirmed e (to_BlockHeight x) blockNumber)"

definition applyChannelNewBalance ::
  "NettingChannelState \<Rightarrow> TransactionChannelNewBalance \<Rightarrow> NettingChannelState" where
  "applyChannelNewBalance cs depositTransaction =
     (let participantAddress = nb_ParticipantAddress depositTransaction;
          contractBalance = nb_ContractBalance depositTransaction
      in if AddressEqual participantAddress (es_Address (cs_OurState cs))
         then cs\<lparr>cs_OurState := updateContractBalance (cs_OurState cs) contractBalance\<rparr>
         else if AddressEqual participantAddress (es_Address (cs_PartnerState cs))
         then cs\<lparr>cs_PartnerState := updateContractBalance (cs_PartnerState cs) contractBalance\<rparr>
         else cs)"

lemma applyChannelNewBalance_queue [simp]:
  "cs_DepositTransactionQueue (applyChannelNewBalance cs d) = cs_DepositTransactionQueue cs"
  by (simp add: applyChannelNewBalance_def Let_def)

text \<open>The loop of \<open>handleBlock\<close> over the confirmed deposits.\<close>

function applyConfirmedDeposits ::
  "env \<Rightarrow> NettingChannelState \<Rightarrow> BlockHeight \<Rightarrow> NettingChannelState option" where
  "applyConfirmedDeposits e cs blockNumber =
     (if isDepositConfirmed e cs blockNumber
      then case TransactionOrderHeap_Pop (cs_DepositTransactionQueue cs) of
             None \<Rightarrow> None
           | Some (order, rest) \<Rightarrow>
               applyConfirmedDeposits e
                 (applyChannelNewBalance (cs\<lparr>cs_DepositTransactionQueue := rest\<rparr>) (to_Transaction order)) blockNumber
      else Some cs)"
  by pat_completeness auto

termination
proof (relation "measure (\<lambda>(e, cs, n). length (cs_DepositTransactionQueue cs))", goal_cases)
  case 1
  show ?case by simp
next
  case (2 e cs n x order rest)
  then show ?case by (cases "cs_DepositTransactionQueue cs") auto
qed

declare applyConfirmedDeposits.simps [simp del]

text \<open>The three parts of \<open>handleBlock\<close>: the start of the settlement, the deposits and the withdraw timeout.\<close>

definition blockSettle :: "NettingChannelState \<Rightarrow> BlockHeight \<Rightarrow> NettingChannelState \<times> Event list" where
  "blockSettle cs blockHeight =
     (if GetStatus cs = ChannelStateClosed
      then case cs_CloseTransaction cs of
             None \<Rightarrow> (cs, [])
           | Some closeTx \<Rightarrow>
              (let settlementEnd = tx_FinishedBlockHeight closeTx + ucast (cs_SettleTimeout cs)
               in if blockHeight > settlementEnd \<and> cs_SettleTransaction cs = None
                  then (cs\<lparr>cs_SettleTransaction := Some \<lparr>tx_StartedBlockHeight = blockHeight,
                              tx_FinishedBlockHeight = 0, tx_Result = ''''\<rparr>\<rparr>,
                        [ContractSendChannelSettle (cs_Identifier cs) (cs_TokenNetworkId cs)])
                  else (cs, []))
      else (cs, []))"

definition blockWithdrawTimeout :: "env \<Rightarrow> NettingChannelState \<Rightarrow> BlockHeight \<Rightarrow> Event list" where
  "blockWithdrawTimeout e cs blockNumber =
     (if GetStatus cs = ChannelStateOpened
      then case GetWithdrawTransaction cs of
             Some withdraw \<Rightarrow>
               (if tx_StartedBlockHeight withdraw + ucast (WithdrawTimeout (Config e)) < blockNumber
                then [EventWithdrawRequestTimeout (cs_TokenNetworkId cs) (cs_Identifier cs)]
                else [])
           | None \<Rightarrow> []
      else [])"

definition handleBlock :: "env \<Rightarrow> NettingChannelState \<Rightarrow> BlockHeight \<Rightarrow> BlockHeight \<Rightarrow> TransitionResult option" where
  "handleBlock e cs blockHeight blockNumber =
     (let (cs1, events1) = blockSettle cs blockHeight
      in do { cs2 \<leftarrow> applyConfirmedDeposits e cs1 blockNumber;
              Some (NewState cs2, events1 @ blockWithdrawTimeout e cs2 blockNumber) })"

text \<open>A nil fee schedule is replaced by the zero struct, also by the getter.\<close>

definition zeroFeeSchedule :: FeeScheduleState where
  "zeroFeeSchedule = \<lparr>fs_CapFees = False, fs_Flat = 0, fs_Proportional = 0, fs_ImbalancePenalty = []\<rparr>"

definition GetFeeSchedule :: "NettingChannelState \<Rightarrow> NettingChannelState \<times> FeeScheduleState" where
  "GetFeeSchedule cs =
     (let fs = (case cs_FeeSchedule cs of Some fs \<Rightarrow> fs | None \<Rightarrow> zeroFeeSchedule)
      in (cs\<lparr>cs_FeeSchedule := Some fs\<rparr>, fs))"

definition SetFeeSchedule ::
  "NettingChannelState \<Rightarrow> FeeAmount \<Rightarrow> ProportionalFeeAmount \<Rightarrow> NettingChannelState" where
  "SetFeeSchedule cs flat pro =
     (let fs = (case cs_FeeSchedule cs of Some fs \<Rightarrow> fs | None \<Rightarrow> zeroFeeSchedule)
      in cs\<lparr>cs_FeeSchedule := Some (fs\<lparr>fs_Flat := flat, fs_Proportional := pro\<rparr>)\<rparr>)"

text \<open>Indexing a Go map gives the zero value for an absent key.\<close>

definition UpdateFeeScheduleAfterBalanceChange ::
  "env \<Rightarrow> NettingChannelState \<Rightarrow> MediationFeeConfig \<Rightarrow> NettingChannelState" where
  "UpdateFeeScheduleAfterBalanceChange e cs feeConfig =
     (let flat = (case smap_load (TokenToFlatFee feeConfig) (USDT_CONTRACT_ADDRESS e) of Some v \<Rightarrow> v | None \<Rightarrow> 0);
          pro = (case smap_load (TokenToProportionalFee feeConfig) (USDT_CONTRACT_ADDRESS e) of
                   Some v \<Rightarrow> v | None \<Rightarrow> 0)
      in SetFeeSchedule cs flat pro)"

definition handleChannelNewBalance ::
  "env \<Rightarrow> NettingChannelState \<Rightarrow> ContractReceiveChannelNewBalance \<Rightarrow> BlockHeight \<Rightarrow> TransitionResult" where
  "handleChannelNewBalance e cs stateChange blockNumber =
     (let depositTransaction = cnb_DepositTransaction stateChange;
          cs1 = (if IsTransactionConfirmed e (nb_DepositBlockHeight depositTransaction) blockNumber
                 then applyChannelNewBalance cs depositTransaction
                 else cs\<lparr>cs_DepositTransactionQueue :=
                           TransactionOrderHeap_Push (cs_DepositTransactionQueue cs)
                             \<lparr>to_BlockHeight = nb_DepositBlockHeight depositTransaction,
                              to_Transaction = depositTransaction\<rparr>\<rparr>)
      in (NewState (UpdateFeeScheduleAfterBalanceChange e cs1 (cnb_FeeConfig stateChange)), []))"

section \<open>Receiving transfers\<close>

definition handleReceiveDirectTransfer ::
  "env \<Rightarrow> NettingChannelState \<Rightarrow> ReceiveTransferDirect \<Rightarrow> TransitionResult" where
  "handleReceiveDirectTransfer e cs directTransfer =
     (case IsValidDirectTransfer e directTransfer cs (cs_PartnerState cs) (cs_OurState cs) of
        Inr _ \<Rightarrow>
          (let previousTransferredAmount = bd_transferredAmount (getCurrentBalanceProof (cs_PartnerState cs));
               bp = rtd_BalanceProof directTransfer;
               transferAmount = bp_TransferredAmount bp - previousTransferredAmount;
               cs' = cs\<lparr>cs_PartnerState := (cs_PartnerState cs)\<lparr>es_BalanceProof := Some bp\<rparr>\<rparr>
           in (NewState cs',
               [EventPaymentReceivedSuccess (cs_PaymentNetworkId cs') (cs_TokenNetworkId cs')
                  (rtd_PaymentId directTransfer) transferAmount (es_Address (cs_PartnerState cs')),
                SendProcessed \<lparr>sm_Recipient = bp_Sender bp, sm_ChannelId = ChannelIdGlobalQueue,
                               sm_MessageId = rtd_MessageId directTransfer\<rparr>]))
      | Inl err \<Rightarrow>
          (NewState cs, [EventTransferReceivedInvalidDirectTransfer (rtd_PaymentId directTransfer) err]))"

text \<open>
  The update of the partner's side for an accepted locked transfer or refund. The lock is stored with
  the hash that the check has written into it.
\<close>

definition storePartnerLock ::
  "env \<Rightarrow> NettingChannelState \<Rightarrow> BalanceProofSignedState \<Rightarrow> MerkleTreeState \<Rightarrow> HashTimeLockState \<Rightarrow> NettingChannelState"
where
  "storePartnerLock e cs bp merkleTree lock0 =
     (let lock = lock0\<lparr>lk_LockHash := CalcLockHash e lock0\<rparr>;
          p1 = (cs_PartnerState cs)\<lparr>es_BalanceProof := Some bp, es_MerkleTree := Some merkleTree\<rparr>
      in cs\<lparr>cs_PartnerState := p1\<lparr>es_LockedLocks := smap_store (lk_SecretHash lock) lock (es_LockedLocks p1)\<rparr>\<rparr>)"

definition HandleReceiveLockedTransfer ::
  "env \<Rightarrow> NettingChannelState \<Rightarrow> LockedTransferSignedState
     \<Rightarrow> (NettingChannelState \<times> Event list \<times> error option) option"
where
  "HandleReceiveLockedTransfer e cs mediatedTransfer =
     do { r \<leftarrow> IsValidLockedTransfer e mediatedTransfer cs (cs_PartnerState cs) (cs_OurState cs);
          (case r of
             Inr merkleTree \<Rightarrow>
               Some (storePartnerLock e cs (ls_BalanceProof mediatedTransfer) merkleTree (ls_Lock mediatedTransfer),
                 [SendProcessed \<lparr>sm_Recipient = bp_Sender (ls_BalanceProof mediatedTransfer),
                    sm_ChannelId = ChannelIdGlobalQueue, sm_MessageId = ls_MessageId mediatedTransfer\<rparr>], None)
           | Inl err \<Rightarrow>
               Some (cs, [EventInvalidReceivedLockedTransfer (ls_PaymentId mediatedTransfer) err], Some err)) }"

definition handleRefundTransfer ::
  "env \<Rightarrow> LockedTransferUnsignedState \<Rightarrow> NettingChannelState \<Rightarrow> ReceiveTransferRefund
     \<Rightarrow> (NettingChannelState \<times> Event list \<times> error option) option"
where
  "handleRefundTransfer e receivedTransfer cs refund =
     do { r \<leftarrow> IsValidRefund e refund cs (cs_PartnerState cs) (cs_OurState cs) receivedTransfer;
          (case r of
             Inr merkleTree \<Rightarrow>
               Some (storePartnerLock e cs (ls_BalanceProof (rtr_Transfer refund)) merkleTree
                       (ls_Lock (rtr_Transfer refund)),
                 [SendProcessed \<lparr>sm_Recipient = bp_Sender (ls_BalanceProof (rtr_Transfer refund)),
                    sm_ChannelId = ChannelIdGlobalQueue, sm_MessageId = ls_MessageId (rtr_Transfer refund)\<rparr>], None)
           | Inl err \<Rightarrow>
               Some (cs, [EventInvalidReceivedTransferRefund (lu_PaymentId receivedTransfer) err], Some err)) }"

definition handleReceiveLockExpired ::
  "env \<Rightarrow> NettingChannelState \<Rightarrow> ReceiveLockExpired \<Rightarrow> BlockHeight \<Rightarrow> TransitionResult option" where
  "handleReceiveLockExpired e cs stateChange blockNumber =
     do { (partner, r) \<leftarrow> IsValidLockExpired e stateChange cs (cs_PartnerState cs) (cs_OurState cs) blockNumber;
          (case r of
             Inr merkleTree \<Rightarrow>
               Some (NewState (cs\<lparr>cs_PartnerState :=
                   DelUnclaimedLock (partner\<lparr>es_BalanceProof := Some (rle_BalanceProof stateChange),
                                             es_MerkleTree := Some merkleTree\<rparr>) (rle_SecretHash stateChange)\<rparr>),
                 [SendProcessed \<lparr>sm_Recipient = bp_Sender (rle_BalanceProof stateChange),
                    sm_ChannelId = ChannelIdGlobalQueue, sm_MessageId = rle_MessageId stateChange\<rparr>])
           | Inl err \<Rightarrow>
               Some (NewState (cs\<lparr>cs_PartnerState := partner\<rparr>),
                 [EventInvalidReceivedLockExpired (rle_SecretHash stateChange) err])) }"

definition HandleUnlock ::
  "env \<Rightarrow> NettingChannelState \<Rightarrow> ReceiveUnlock
     \<Rightarrow> (NettingChannelState \<times> bool \<times> Event list \<times> error option) option"
where
  "HandleUnlock e cs unlock =
     do { (partner, r) \<leftarrow> IsValidUnlock e unlock cs (cs_PartnerState cs);
          let secretHash = GetHash e (rul_Secret unlock);
          (case r of
             Inr unlockedMerkleTree \<Rightarrow>
               Some (cs\<lparr>cs_PartnerState :=
                   DelLock (partner\<lparr>es_BalanceProof := Some (rul_BalanceProof unlock),
                                    es_MerkleTree := Some unlockedMerkleTree\<rparr>) secretHash\<rparr>,
                 True,
                 [SendProcessed \<lparr>sm_Recipient = bp_Sender (rul_BalanceProof unlock),
                    sm_ChannelId = ChannelIdGlobalQueue, sm_MessageId = rul_MessageId unlock\<rparr>], None)
           | Inl err \<Rightarrow>
               Some (cs\<lparr>cs_PartnerState := partner\<rparr>, False,
                 [EventInvalidReceivedUnlock secretHash err], Some err)) }"

section \<open>The dispatcher\<close>

definition StateTransitionForChannel ::
  "env \<Rightarrow> NettingChannelState \<Rightarrow> StateChange \<Rightarrow> BlockHeight \<Rightarrow> MessageID \<Rightarrow> TransitionResult option" where
  "StateTransitionForChannel e cs stateChange blockNumber msgId =
     (case stateChange of
        Block height \<Rightarrow> handleBlock e cs height blockNumber
      | ActionChannelClose _ _ \<Rightarrow> Some (handleActionClose cs blockNumber)
      | SC_ActionTransferDirect x \<Rightarrow> handleSendDirectTransfer e cs x msgId
      | SC_ContractReceiveChannelClosed x \<Rightarrow> Some (handleChannelClosed cs x)
      | SC_ContractReceiveUpdateTransfer x \<Rightarrow> Some (handleChannelUpdatedTransfer cs x blockNumber)
      | SC_ContractReceiveChannelSettled x \<Rightarrow> handleChannelSettled cs x blockNumber
      | SC_ContractReceiveChannelNewBalance x \<Rightarrow> Some (handleChannelNewBalance e cs x blockNumber)
      | SC_ReceiveTransferDirect x \<Rightarrow> Some (handleReceiveDirectTransfer e cs x)
      | SC_ActionWithdraw x \<Rightarrow> Some (handleSendWithdrawRequest cs x blockNumber msgId)
      | SC_ReceiveWithdrawRequest x \<Rightarrow> Some (handleWithdrawRequestReceived e cs x msgId)
      | SC_ReceiveWithdraw x \<Rightarrow> Some (handleWithdrawReceived e cs x)
      | SC_ContractReceiveChannelWithdraw x \<Rightarrow> Some (handleChannelWithdraw cs x)
      | SC_ActionCooperativeSettle x \<Rightarrow> Some (handleSendCooperativeSettleRequest cs x msgId)
      | SC_ReceiveCooperativeSettleRequest x \<Rightarrow> Some (handleCooperativeSettleRequestReceived e cs x msgId)
      | SC_ReceiveCooperativeSettle x \<Rightarrow> Some (handleCooperativeSettleReceived e cs x)
      | SC_ContractReceiveChannelCooperativeSettled x \<Rightarrow> Some (handleChannelCooperativeSettled cs x)
      | SC_ContractReceiveChannelBatchUnlock x \<Rightarrow> Some (handleChannelBatchUnlock cs x))"

end
