(* ===== verification/Pylons_Invariant.thy ===== *)
theory Pylons_Invariant
  imports Pylons_Channel
begin

text \<open>
  Preservation of the invariants by every operation on a channel. \<open>wf_channel\<close> is well-formedness of
  both sides; \<open>solvent\<close> says that neither side is overspent. The operations are first shown to act on
  one side in one of the ways the theory of a side knows, then both invariants follow.
\<close>

definition wf_channel :: "env \<Rightarrow> NettingChannelState \<Rightarrow> bool" where
  "wf_channel e cs \<longleftrightarrow> wf_end e (cs_OurState cs) \<and> wf_end e (cs_PartnerState cs)"

definition solvent_channel :: "NettingChannelState \<Rightarrow> bool" where
  "solvent_channel cs \<longleftrightarrow> solvent (cs_OurState cs) (cs_PartnerState cs)"

lemma wf_channelD:
  assumes "wf_channel e cs"
  shows "wf_end e (cs_OurState cs)" "wf_end e (cs_PartnerState cs)"
  using assms by (simp_all add: wf_channel_def)

section \<open>Moves of one side\<close>

text \<open>
  \<open>pays a a'\<close>: a payment of \<open>n\<close>; \<open>locks a a'\<close>: a new pending lock; \<open>unlocks a a'\<close>: a pending lock is paid;
  \<open>expires a a'\<close>: a pending lock is dropped. Each replaces the balance proof by one with the next nonce.
\<close>

definition pays :: "env \<Rightarrow> TokenAmount \<Rightarrow> NettingChannelEndState \<Rightarrow> NettingChannelEndState \<Rightarrow> bool" where
  "pays e n a a' \<longleftrightarrow> (\<exists>bp. a' = a\<lparr>es_BalanceProof := Some bp\<rparr> \<and> bp_Nonce bp = getNextNonce a
     \<and> bp_TransferredAmount bp = transferred a + n
     \<and> bp_LockedAmount bp = getAmountLocked a \<and> bp_LocksRoot bp = bd_locksRoot (getCurrentBalanceProof a))"

definition locks :: "env \<Rightarrow> HashTimeLockState \<Rightarrow> NettingChannelEndState \<Rightarrow> NettingChannelEndState \<Rightarrow> bool" where
  "locks e l a a' \<longleftrightarrow> (\<exists>bp. let t = tree_of e (insert (lk_LockHash l) (lock_hashes (pending a)))
     in a' = a\<lparr>es_BalanceProof := Some bp, es_MerkleTree := Some t,
               es_LockedLocks := smap_store (lk_SecretHash l) l (es_LockedLocks a)\<rparr>
     \<and> bp_Nonce bp = getNextNonce a \<and> bp_TransferredAmount bp = transferred a
     \<and> bp_LockedAmount bp = getAmountLocked a + lk_Amount l \<and> bp_LocksRoot bp = MerkleRoot (Layers t)
     \<and> lk_LockHash l \<notin> lock_hashes (pending a) \<and> lk_LockHash l = CalcLockHash e l)"

definition drops ::
  "env \<Rightarrow> HashTimeLockState \<Rightarrow> TokenAmount \<Rightarrow> NettingChannelEndState \<Rightarrow> NettingChannelEndState \<Rightarrow> bool" where
  "drops e l n a a' \<longleftrightarrow> (\<exists>bp. let t = tree_of e (lock_hashes (pending a) - {lk_LockHash l})
     in es_BalanceProof a' = Some bp \<and> es_MerkleTree a' = Some t
     \<and> mset ((lk_SecretHash l, l) # pending a') = mset (pending a) \<and> same_deposits a a'
     \<and> es_Address a' = es_Address a
     \<and> bp_Nonce bp = getNextNonce a \<and> bp_TransferredAmount bp = transferred a + n
     \<and> bp_LockedAmount bp = getAmountLocked a - lk_Amount l \<and> bp_LocksRoot bp = MerkleRoot (Layers t))"

lemma wf_pays: "wf_end e a \<Longrightarrow> pays e n a a' \<Longrightarrow> wf_end e a'"
  by (auto simp: pays_def intro: wf_end_proof)

lemma wf_locks:
  assumes "wf_end e a" and "locks e l a a'" and "GetLock a (lk_SecretHash l) = None"
  shows "wf_end e a'"
proof -
  from assms(2) obtain bp where a': "a' = a\<lparr>es_BalanceProof := Some bp,
      es_MerkleTree := Some (tree_of e (insert (lk_LockHash l) (lock_hashes (pending a)))),
      es_LockedLocks := smap_store (lk_SecretHash l) l (es_LockedLocks a)\<rparr>"
    and bp: "bp_LockedAmount bp = getAmountLocked a + lk_Amount l"
      "bp_LocksRoot bp = MerkleRoot (Layers (tree_of e (insert (lk_LockHash l) (lock_hashes (pending a)))))"
    and l: "lk_LockHash l \<notin> lock_hashes (pending a)" "lk_LockHash l = CalcLockHash e l"
    by (auto simp: locks_def Let_def)
  let ?b = "a\<lparr>es_LockedLocks := smap_store (lk_SecretHash l) l (es_LockedLocks a)\<rparr>"
  have "smap_load (es_LockedLocks a) (lk_SecretHash l) = None"
    using assms(3) by (simp add: GetLock_def split: option.splits)
  then have "mset (pending ?b) = mset ((lk_SecretHash l, l) # pending a)"
    by (intro pending_Store_Locked wf_end_smap_ok(1) [OF assms(1)])
  moreover have "pending a' = pending ?b" unfolding a' by (simp add: pending_def)
  ultimately show ?thesis
    using assms(1,3) l bp a'
    by (intro wf_end_add [of e a "lk_SecretHash l" l a' bp]) (simp_all add: getAmountLocked_pending add.commute)
qed

lemma pending_locks:
  assumes "wf_end e a" and "locks e l a a'" and "GetLock a (lk_SecretHash l) = None"
  shows "lock_sum (pending a') = lock_sum (pending a) + uint (lk_Amount l)"
proof -
  have "smap_load (es_LockedLocks a) (lk_SecretHash l) = None"
    using assms(3) by (simp add: GetLock_def split: option.splits)
  from pending_Store_Locked [OF wf_end_smap_ok(1) [OF assms(1)] this, of l]
  have "mset (pending a') = mset ((lk_SecretHash l, l) # pending a)"
    using assms(2) by (auto simp: locks_def Let_def pending_def)
  from lock_perm(3) [OF this] show ?thesis by simp
qed

lemma wf_drops: "wf_end e a \<Longrightarrow> drops e l n a a' \<Longrightarrow> wf_end e a'"
  by (auto simp: drops_def Let_def getAmountLocked_pending intro: wf_end_del)

lemma pending_drops:
  assumes "wf_end e a" and "drops e l n a a'"
  shows "lock_sum (pending a') = lock_sum (pending a) - uint (lk_Amount l)"
proof -
  from assms(2) have "mset ((lk_SecretHash l, l) # pending a') = mset (pending a)"
    by (auto simp: drops_def Let_def)
  from lock_hashes_del(4) [OF wf_endD(1) [OF assms(1)] this] show ?thesis .
qed

lemma solvent_pays:
  assumes "wf_end e a" and "pays e n a a'" and "n \<le> GetDistributable a b" and "solvent a b"
  shows "solvent a' b" "uint (transferred a') = uint (transferred a) + uint n"
  using solvent_transfer [OF assms(1,4,3), of a'] assms(2)
  by (auto simp: pays_def same_deposits_def transferred_def)

lemma solvent_locks:
  assumes "wf_end e a" and "locks e l a a'" and "GetLock a (lk_SecretHash l) = None"
    and "lk_Amount l \<le> GetDistributable a b" and "solvent a b"
  shows "solvent a' b"
  using solvent_lock [OF assms(1,5,4), of a'] pending_locks [OF assms(1-3)] assms(2)
  by (auto simp: locks_def same_deposits_def transferred_def Let_def)

lemma drops_fields:
  assumes "drops e l n a a'"
  shows "same_deposits a a'" "transferred a' = transferred a + n"
  using assms by (auto simp: drops_def Let_def transferred_def)

lemma solvent_drops:
  assumes "wf_end e a" and "drops e l n a a'" and "solvent a b" and "n = lk_Amount l \<or> n = 0"
  shows "solvent a' b"
proof -
  note f = drops_fields [OF assms(2)] pending_drops [OF assms(1,2)]
  from assms(4) show ?thesis
  proof
    assume n: "n = lk_Amount l"
    have "uint n \<le> lock_sum (pending a)"
      using f(3) lock_sum_nonneg [of "pending a'"] unfolding n by linarith
    from solvent_unlock(1) [OF assms(3) f(1) this f(2)] f(3) n show ?thesis by simp
  next
    assume "n = 0"
    with f show ?thesis by (intro solvent_expire [OF assms(3) f(1)]) simp_all
  qed
qed

section \<open>The operations as moves\<close>

lemma sendDirectTransfer_pays:
  assumes "sendDirectTransfer e cs n m p = Some (cs', ev)"
  shows "pays e n (cs_OurState cs) (cs_OurState cs')" "cs' = cs\<lparr>cs_OurState := cs_OurState cs'\<rparr>"
    "n \<le> GetDistributable (cs_OurState cs) (cs_PartnerState cs)"
proof -
  note c = sendDirectTransfer_cases [OF assms]
  show "n \<le> GetDistributable (cs_OurState cs) (cs_PartnerState cs)" by (rule c(1))
  from assms sendDirectTransfer_eq [OF c, of e m p]
  show "pays e n (cs_OurState cs) (cs_OurState cs')" "cs' = cs\<lparr>cs_OurState := cs_OurState cs'\<rparr>"
    by (auto simp: pays_def)
qed

lemma handleReceiveDirectTransfer_pays:
  assumes "wf_channel e cs"
    and "IsValidDirectTransfer e x cs (cs_PartnerState cs) (cs_OurState cs) = Inr ()"
  defines "n \<equiv> bp_TransferredAmount (rtd_BalanceProof x) - transferred (cs_PartnerState cs)"
  shows "pays e n (cs_PartnerState cs) ((cs_PartnerState cs)\<lparr>es_BalanceProof := Some (rtd_BalanceProof x)\<rparr>)"
    "n \<le> GetDistributable (cs_PartnerState cs) (cs_OurState cs)"
  using assms(2) getCurrentBalanceProof_wf [OF wf_channelD(2) [OF assms(1)]]
  by (auto simp: IsValidDirectTransfer_iff pays_def n_def pylons_defs)

lemma storeLockedTransfer_locks:
  assumes "wf_end e (cs_OurState cs)"
    and "createSendLockedTransfer e cs i tg n m p x es h md = Some (Inr (msg, tr, t))"
  shows "locks e (lu_Lock tr) (cs_OurState cs) (cs_OurState (storeLockedTransfer cs tr t))"
    "storeLockedTransfer cs tr t = cs\<lparr>cs_OurState := cs_OurState (storeLockedTransfer cs tr t)\<rparr>"
    "lk_SecretHash (lu_Lock tr) = h" "lk_Amount (lu_Lock tr) = n"
    "n \<le> GetDistributable (cs_OurState cs) (cs_PartnerState cs)"
proof -
  note c = createSendLockedTransfer_cases [OF assms]
  show "n \<le> GetDistributable (cs_OurState cs) (cs_PartnerState cs)" by (rule c(1))
  note eq = sendLockedTransfer_eq(1) [OF assms(1) c, of i tg m p es md]
  show "locks e (lu_Lock tr) (cs_OurState cs) (cs_OurState (storeLockedTransfer cs tr t))"
    "storeLockedTransfer cs tr t = cs\<lparr>cs_OurState := cs_OurState (storeLockedTransfer cs tr t)\<rparr>"
    "lk_SecretHash (lu_Lock tr) = h" "lk_Amount (lu_Lock tr) = n"
    using assms(2) c(3) eq by (auto simp: locks_def storeLockedTransfer_def Let_def)
qed

lemma storePartnerLock_locks:
  assumes "wf_channel e cs"
    and "ValidLockedTransferCheck e cs (cs_PartnerState cs) (cs_OurState cs) s bp lock = Some (Inr t)"
  defines "l \<equiv> lock\<lparr>lk_LockHash := CalcLockHash e lock\<rparr>"
  shows "locks e l (cs_PartnerState cs) (cs_PartnerState (storePartnerLock e cs bp t lock))"
    "storePartnerLock e cs bp t lock = cs\<lparr>cs_PartnerState := cs_PartnerState (storePartnerLock e cs bp t lock)\<rparr>"
    "lk_Amount lock \<le> GetDistributable (cs_PartnerState cs) (cs_OurState cs)"
  using assms(2) unfolding ValidLockedTransferCheck_iff [OF wf_channelD(2) [OF assms(1)]]
  by (auto simp: locks_def storePartnerLock_def Let_def l_def pylons_defs)

lemma HandleUnlock_drops:
  assumes "wf_channel e cs" and "IsValidUnlock e u cs (cs_PartnerState cs) = Some (s', Inr t)"
  defines "k \<equiv> GetHash e (rul_Secret u)"
  obtains l where "GetLock (cs_PartnerState cs) k = Some l"
    and "drops e l (lk_Amount l) (cs_PartnerState cs)
      (DelLock (s'\<lparr>es_BalanceProof := Some (rul_BalanceProof u), es_MerkleTree := Some t\<rparr>) k)"
    and "bp_signed e (rul_BalanceProof u) (es_Address (cs_PartnerState cs))"
proof -
  note wf = wf_channelD(2) [OF assms(1)]
  obtain l where l: "GetLock (cs_PartnerState cs) k = Some l"
    using IsValidUnlock_lock [OF assms(2)] unfolding k_def by blast
  note iff = IsValidUnlock_iff [OF wf l [unfolded k_def], of cs s' t, folded k_def]
  from pending_DelLock [OF wf l] GetLock_wf(2) [OF wf l] assms(2)
  have "drops e l (lk_Amount l) (cs_PartnerState cs)
      (DelLock (s'\<lparr>es_BalanceProof := Some (rul_BalanceProof u), es_MerkleTree := Some t\<rparr>) k)"
    unfolding iff by (auto simp: drops_def Let_def same_deposits_def pylons_defs)
  moreover have "bp_signed e (rul_BalanceProof u) (es_Address (cs_PartnerState cs))"
    using assms(2) unfolding iff by (simp add: pylons_defs)
  ultimately show ?thesis using that l by blast
qed

lemma handleReceiveLockExpired_drops:
  assumes "wf_channel e cs"
    and "IsValidLockExpired e x cs (cs_PartnerState cs) (cs_OurState cs) n = Some (s', Inr t)"
  obtains l where "smap_load (es_LockedLocks (cs_PartnerState cs)) (rle_SecretHash x) = Some l"
    and "drops e l 0 (cs_PartnerState cs)
      (DelUnclaimedLock (s'\<lparr>es_BalanceProof := Some (rle_BalanceProof x), es_MerkleTree := Some t\<rparr>)
        (rle_SecretHash x))"
proof -
  note wf = wf_channelD(2) [OF assms(1)]
  obtain l where l: "smap_load (es_LockedLocks (cs_PartnerState cs)) (rle_SecretHash x) = Some l"
    using IsValidLockExpired_lock [OF assms(2)] by blast
  then have g: "GetLock (cs_PartnerState cs) (rle_SecretHash x) = Some l" by (simp add: GetLock_def)
  have none: "smap_load (es_OnChainUnLockedLocks (cs_PartnerState cs)) (rle_SecretHash x) = None"
    using wf_end_disjoint(2) [OF wf] l by simp
  note iff = IsValidLockExpired_iff [OF wf refl l, of n s' t]
  from pending_DelUnclaimedLock [OF wf g none] GetLock_wf(2) [OF wf g] assms(2)
  have "drops e l 0 (cs_PartnerState cs)
      (DelUnclaimedLock (s'\<lparr>es_BalanceProof := Some (rle_BalanceProof x), es_MerkleTree := Some t\<rparr>)
        (rle_SecretHash x))"
    unfolding iff by (auto simp: drops_def Let_def same_deposits_def pylons_defs)
  with that l show ?thesis by blast
qed

lemma SendUnlock_drops:
  assumes "wf_end e (cs_OurState cs)" and "GetLock (cs_OurState cs) h = Some l"
    and "SendUnlock e cs m p s h = Some (cs', ev)"
  shows "drops e l (lk_Amount l) (cs_OurState cs) (cs_OurState cs')" "cs' = cs\<lparr>cs_OurState := cs_OurState cs'\<rparr>"
  using assms(3) SendUnlock_eq [OF assms(1,2), of m p s] pending_DelLock [OF assms(1,2)]
    GetLock_wf(2) [OF assms(1,2)]
  by (auto simp: drops_def Let_def same_deposits_def)

lemma EventsForExpiredLock_drops:
  assumes "wf_end e (cs_OurState cs)" and "GetLock (cs_OurState cs) h = Some l"
    and "smap_load (es_OnChainUnLockedLocks (cs_OurState cs)) h = None"
    and "EventsForExpiredLock e cs l m = Some (cs', evs)"
  shows "drops e l 0 (cs_OurState cs) (cs_OurState cs')" "cs' = cs\<lparr>cs_OurState := cs_OurState cs'\<rparr>"
  using assms(4) EventsForExpiredLock_eq [OF assms(1,2), of m] pending_DelUnclaimedLock [OF assms(1-3)]
    GetLock_wf(2) [OF assms(1,2)]
  by (auto simp: drops_def Let_def same_deposits_def)

section \<open>Deposits and withdrawals\<close>

definition deposits_ok :: "int \<Rightarrow> NettingChannelState \<Rightarrow> bool" where
  "deposits_ok N cs \<longleftrightarrow> uint (es_ContractBalance (cs_OurState cs)) \<le> N
     \<and> uint (es_ContractBalance (cs_PartnerState cs)) \<le> N
     \<and> list_all (\<lambda>d. uint (nb_ContractBalance (to_Transaction d)) \<le> N) (cs_DepositTransactionQueue cs)"

text \<open>
  The invariant of a channel. \<open>N\<close> bounds the deposits the chain reports; \<open>2 N < 2 ^ 64\<close>, the supply of
  the token, is the hypothesis under which amounts do not wrap.
\<close>

definition safe :: "env \<Rightarrow> int \<Rightarrow> NettingChannelState \<Rightarrow> bool" where
  "safe e N cs \<longleftrightarrow> wf_channel e cs \<and> solvent_channel cs \<and> deposits_ok N cs"

lemma safeD:
  assumes "safe e N cs"
  shows "wf_channel e cs" "solvent_channel cs" "deposits_ok N cs"
    "wf_end e (cs_OurState cs)" "wf_end e (cs_PartnerState cs)"
    "solvent (cs_OurState cs) (cs_PartnerState cs)" "solvent (cs_PartnerState cs) (cs_OurState cs)"
  using assms solvent_sym by (auto simp: safe_def wf_channel_def solvent_channel_def)

lemma safe_cong:
  assumes "cs_OurState cs' = cs_OurState cs" and "cs_PartnerState cs' = cs_PartnerState cs"
    and "cs_DepositTransactionQueue cs' = cs_DepositTransactionQueue cs"
  shows "safe e N cs' \<longleftrightarrow> safe e N cs"
  using assms by (simp add: safe_def wf_channel_def solvent_channel_def deposits_ok_def)

lemma safe_update_our:
  assumes "safe e N cs" and "wf_end e a'" and "solvent a' (cs_PartnerState cs)"
    and "uint (es_ContractBalance a') \<le> N"
  shows "safe e N (cs\<lparr>cs_OurState := a'\<rparr>)"
  using assms by (simp add: safe_def wf_channel_def solvent_channel_def deposits_ok_def)

lemma safe_update_partner:
  assumes "safe e N cs" and "wf_end e a'" and "solvent a' (cs_OurState cs)"
    and "uint (es_ContractBalance a') \<le> N"
  shows "safe e N (cs\<lparr>cs_PartnerState := a'\<rparr>)"
  using assms solvent_sym by (simp add: safe_def wf_channel_def solvent_channel_def deposits_ok_def)

lemma updateContractBalance_wf: "wf_end e es \<Longrightarrow> wf_end e (updateContractBalance es d)"
  by (simp add: updateContractBalance_def)

lemma solvent_deposit:
  assumes "solvent a b" and "uint (es_ContractBalance a) \<le> N" and "uint d \<le> N"
    and "uint (es_ContractBalance b) \<le> N" and "2 * N < 2 ^ 64"
  shows "solvent (updateContractBalance a d) b" "uint (es_ContractBalance (updateContractBalance a d)) \<le> N"
proof -
  have t: "transferred (a\<lparr>es_ContractBalance := d\<rparr>) = transferred a" by (simp add: transferred_def)
  show "solvent (updateContractBalance a d) b"
  proof (cases "d > es_ContractBalance a")
    case True
    then have "uint (es_ContractBalance a) \<le> uint d" by (simp add: word_less_def)
    with assms True show ?thesis
      unfolding solvent_def capacity_def updateContractBalance_def
      by (elim conjE) (intro conjI; simp add: t; linarith)
  next
    case False
    with assms show ?thesis by (simp add: updateContractBalance_def)
  qed
  show "uint (es_ContractBalance (updateContractBalance a d)) \<le> N"
    using assms by (simp add: updateContractBalance_def)
qed

lemma applyChannelNewBalance_safe:
  assumes "safe e N cs" and "2 * N < 2 ^ 64" and "uint (nb_ContractBalance d) \<le> N"
  shows "safe e N (applyChannelNewBalance cs d)"
proof -
  note s = safeD [OF assms(1)]
  have D: "uint (es_ContractBalance (cs_OurState cs)) \<le> N" "uint (es_ContractBalance (cs_PartnerState cs)) \<le> N"
    using s(3) by (simp_all add: deposits_ok_def)
  have our: "safe e N (cs\<lparr>cs_OurState := updateContractBalance (cs_OurState cs) (nb_ContractBalance d)\<rparr>)"
    using solvent_deposit [OF s(6) D(1) assms(3) D(2) assms(2)] updateContractBalance_wf [OF s(4)]
    by (intro safe_update_our assms(1))
  have "safe e N (cs\<lparr>cs_PartnerState := updateContractBalance (cs_PartnerState cs) (nb_ContractBalance d)\<rparr>)"
    using solvent_deposit [OF s(7) D(2) assms(3) D(1) assms(2)] updateContractBalance_wf [OF s(5)]
    by (intro safe_update_partner assms(1))
  with our assms(1) show ?thesis by (simp add: applyChannelNewBalance_def Let_def)
qed

text \<open>A property kept by applying one deposit holds after the loop, and the loop ends.\<close>

lemma applyConfirmedDeposits_invariant:
  assumes "P cs"
    and "\<And>cs order rest. P cs \<Longrightarrow> TransactionOrderHeap_Pop (cs_DepositTransactionQueue cs) = Some (order, rest) \<Longrightarrow>
      P (applyChannelNewBalance (cs\<lparr>cs_DepositTransactionQueue := rest\<rparr>) (to_Transaction order))"
  shows "\<exists>cs'. applyConfirmedDeposits e cs n = Some cs' \<and> P cs' \<and> \<not> isDepositConfirmed e cs' n"
  using assms(1)
proof (induction e cs n rule: applyConfirmedDeposits.induct)
  case (1 e cs n)
  show ?case
  proof (cases "isDepositConfirmed e cs n")
    case True
    then obtain order rest where pop: "TransactionOrderHeap_Pop (cs_DepositTransactionQueue cs) = Some (order, rest)"
      by (auto simp: isDepositConfirmed_def split: list.splits)
    from "1.IH" [OF True pop refl] assms(2) [OF "1.prems" pop] True pop show ?thesis
      by (simp add: applyConfirmedDeposits.simps [of e cs n])
  next
    case False
    with "1.prems" show ?thesis by (simp add: applyConfirmedDeposits.simps [of e cs n])
  qed
qed

lemma Pop_set:
  "TransactionOrderHeap_Pop q = Some (order, rest) \<Longrightarrow> set q = insert order (set rest)"
  by (cases q) auto

lemma pop_safe:
  assumes "2 * N < 2 ^ 64" and "safe e N cs"
    and "TransactionOrderHeap_Pop (cs_DepositTransactionQueue cs) = Some (order, rest)"
  shows "safe e N (applyChannelNewBalance (cs\<lparr>cs_DepositTransactionQueue := rest\<rparr>) (to_Transaction order))"
proof -
  have "list_all (\<lambda>d. uint (nb_ContractBalance (to_Transaction d)) \<le> N) (order # rest)"
    using safeD(3) [OF assms(2)] Pop_set [OF assms(3)] by (simp add: deposits_ok_def list_all_iff)
  then show ?thesis
    using assms(1,2)
    by (intro applyChannelNewBalance_safe)
      (auto simp: safe_def wf_channel_def solvent_channel_def deposits_ok_def)
qed

lemma solvent_withdraw:
  assumes "wf_end e a" and "solvent a b" and "isValidWithdrawAmount a b w = Inr ()"
  shows "solvent (a\<lparr>es_TotalWithdraw := w\<rparr>) b"
proof -
  have w: "es_TotalWithdraw a \<le> w" and d: "w - es_TotalWithdraw a \<le> GetDistributable a b"
    using assms(3) by (auto simp: isValidWithdrawAmount_def Let_def GetTotalWithdraw_def split: if_splits)
  have "uint (w - es_TotalWithdraw a) = uint w - uint (es_TotalWithdraw a)"
    using w by (simp add: uint_minus_simple_alt [symmetric] word_le_def uint_sub_lem [THEN iffD1])
  with distributable_bounds(1) [OF assms(1,2) d]
  have "uint w - uint (es_TotalWithdraw a) \<le> capacity a b" by simp
  moreover have "transferred (a\<lparr>es_TotalWithdraw := w\<rparr>) = transferred a" by (simp add: transferred_def)
  ultimately show ?thesis
    using assms(2) unfolding solvent_def capacity_def
    by (elim conjE) (intro conjI; simp; linarith)
qed

end
