(* ===== verification/Pylons_Runs.thy ===== *)
theory Pylons_Runs
  imports Pylons_Invariant
begin

text \<open>
  Runs of one channel. \<open>channel_step\<close> has one rule per entry point of the channel code: the dispatcher,
  the functions the initiator, mediator and target call to send, and the handlers of received
  messages. The invariant \<open>safe\<close> is kept by every rule.
\<close>

section \<open>Invariants of transition systems\<close>

locale invariant_machine =
  fixes step :: "'s \<Rightarrow> 's \<Rightarrow> bool"
    and inv :: "'s \<Rightarrow> bool"
  assumes step_inv: "inv s \<Longrightarrow> step s s' \<Longrightarrow> inv s'"
begin

lemma run_inv: "step\<^sup>*\<^sup>* s s' \<Longrightarrow> inv s \<Longrightarrow> inv s'"
  by (induction rule: rtranclp_induct) (auto intro: step_inv)

lemma run_consequence: "step\<^sup>*\<^sup>* s s' \<Longrightarrow> inv s \<Longrightarrow> (\<And>t. inv t \<Longrightarrow> P t) \<Longrightarrow> P s'"
  using run_inv by blast

end

section \<open>The dispatcher\<close>

text \<open>
  What is assumed of the events that report the chain: a reported deposit is at most \<open>N\<close>, and a
  reported withdrawal was a valid one for the amounts at that time.
\<close>

definition chain_ok :: "int \<Rightarrow> NettingChannelState \<Rightarrow> StateChange \<Rightarrow> bool" where
  "chain_ok N cs sc =
     (case sc of
        SC_ContractReceiveChannelNewBalance x \<Rightarrow> uint (nb_ContractBalance (cnb_DepositTransaction x)) \<le> N
      | SC_ContractReceiveChannelWithdraw x \<Rightarrow>
          (if crw_Participant x = es_Address (cs_OurState cs)
           then isValidWithdrawAmount (cs_OurState cs) (cs_PartnerState cs) (crw_TotalWithdraw x) = Inr ()
           else isValidWithdrawAmount (cs_PartnerState cs) (cs_OurState cs) (crw_TotalWithdraw x) = Inr ())
      | _ \<Rightarrow> True)"

text \<open>Many handlers leave both sides and the deposit queue alone.\<close>

definition same_sides :: "NettingChannelState \<Rightarrow> NettingChannelState \<Rightarrow> bool" where
  "same_sides cs cs' \<longleftrightarrow> cs_OurState cs' = cs_OurState cs \<and> cs_PartnerState cs' = cs_PartnerState cs
     \<and> cs_DepositTransactionQueue cs' = cs_DepositTransactionQueue cs"

lemma same_sides_safe: "same_sides cs cs' \<Longrightarrow> safe e N cs' \<longleftrightarrow> safe e N cs"
  by (rule safe_cong) (simp_all add: same_sides_def)

lemma handleSendDirectTransfer_result:
  "\<exists>cs' evs. handleSendDirectTransfer e cs x m = Some (NewState cs', evs) \<and>
     (cs' = cs \<or> (\<exists>ev. sendDirectTransfer e cs (atd_Amount x) m (atd_PaymentId x) = Some (cs', ev)))"
  using sendDirectTransfer_eq [of "atd_Amount x" cs e m "atd_PaymentId x"]
  by (auto simp: handleSendDirectTransfer_def Let_def)

lemma sendDirectTransfer_safe:
  assumes "safe e N cs" and "sendDirectTransfer e cs n m p = Some (cs', ev)"
  shows "safe e N cs'"
proof -
  note s = safeD [OF assms(1)] and p = sendDirectTransfer_pays [OF assms(2)]
  have "uint (es_ContractBalance (cs_OurState cs')) \<le> N"
    using p(1) s(3) by (auto simp: pays_def deposits_ok_def)
  with safe_update_our [OF assms(1) wf_pays [OF s(4) p(1)] solvent_pays(1) [OF s(4) p(1,3) s(6)]] p(2)
  show ?thesis by metis
qed

lemma handleReceiveDirectTransfer_safe:
  assumes "safe e N cs" and "handleReceiveDirectTransfer e cs x = (r, evs)"
  shows "\<exists>cs'. r = NewState cs' \<and> safe e N cs'"
proof (cases "IsValidDirectTransfer e x cs (cs_PartnerState cs) (cs_OurState cs)")
  case (Inl err)
  with assms show ?thesis by (auto simp: handleReceiveDirectTransfer_def)
next
  case (Inr u)
  note s = safeD [OF assms(1)]
  from Inr have "IsValidDirectTransfer e x cs (cs_PartnerState cs) (cs_OurState cs) = Inr ()" by simp
  note p = handleReceiveDirectTransfer_pays [OF s(1) this]
  have "safe e N (cs\<lparr>cs_PartnerState := (cs_PartnerState cs)\<lparr>es_BalanceProof := Some (rtd_BalanceProof x)\<rparr>\<rparr>)"
    using s(3) by (intro safe_update_partner assms(1) wf_pays [OF s(5) p(1)] solvent_pays(1) [OF s(5) p s(7)])
      (simp add: deposits_ok_def)
  with Inr assms(2) show ?thesis by (auto simp: handleReceiveDirectTransfer_def Let_def)
qed

lemma handleBlock_safe:
  assumes "safe e N cs" and "2 * N < 2 ^ 64"
  shows "\<exists>cs' evs. handleBlock e cs h n = Some (NewState cs', evs) \<and> safe e N cs'"
proof -
  have "\<exists>cs'. applyConfirmedDeposits e cs1 n = Some cs' \<and> safe e N cs'" if "safe e N cs1" for cs1
    using applyConfirmedDeposits_invariant [of "safe e N", OF that pop_safe [OF assms(2)]] by blast
  moreover have "safe e N (fst (blockSettle cs h))"
  proof -
    have "same_sides cs (fst (blockSettle cs h))"
      by (simp add: same_sides_def blockSettle_def Let_def split: option.split)
    with assms(1) show ?thesis by (simp add: same_sides_safe)
  qed
  ultimately obtain cs' where "applyConfirmedDeposits e (fst (blockSettle cs h)) n = Some cs'" "safe e N cs'"
    by blast
  then show ?thesis by (simp add: handleBlock_def case_prod_beta Let_def)
qed

lemma handleChannelNewBalance_safe:
  assumes "safe e N cs" and "2 * N < 2 ^ 64" and "uint (nb_ContractBalance (cnb_DepositTransaction x)) \<le> N"
  shows "\<exists>cs'. handleChannelNewBalance e cs x n = (NewState cs', []) \<and> safe e N cs'"
proof -
  have fee: "safe e N (UpdateFeeScheduleAfterBalanceChange e c f) \<longleftrightarrow> safe e N c" for c f
    by (rule safe_cong) (simp_all add: UpdateFeeScheduleAfterBalanceChange_def SetFeeSchedule_def Let_def)
  have "safe e N (cs\<lparr>cs_DepositTransactionQueue := TransactionOrderHeap_Push (cs_DepositTransactionQueue cs)
      \<lparr>to_BlockHeight = h, to_Transaction = cnb_DepositTransaction x\<rparr>\<rparr>)" for h
    using assms(1,3)
    by (simp add: safe_def wf_channel_def solvent_channel_def deposits_ok_def TransactionOrderHeap_Push_def list_all_iff)
  with applyChannelNewBalance_safe [OF assms] show ?thesis
    by (simp add: handleChannelNewBalance_def Let_def fee)
qed

lemma handleChannelWithdraw_safe:
  assumes "safe e N cs" and "chain_ok N cs (SC_ContractReceiveChannelWithdraw x)"
  shows "\<exists>cs'. handleChannelWithdraw cs x = (NewState cs', []) \<and> safe e N cs'"
proof -
  note s = safeD [OF assms(1)]
  have del: "safe e N (DeleteWithdrawTransaction c) \<longleftrightarrow> safe e N c" for c
    by (rule safe_cong) (simp_all add: DeleteWithdrawTransaction_def)
  have "safe e N (cs\<lparr>cs_OurState := (cs_OurState cs)\<lparr>es_TotalWithdraw := crw_TotalWithdraw x\<rparr>\<rparr>)"
    if "isValidWithdrawAmount (cs_OurState cs) (cs_PartnerState cs) (crw_TotalWithdraw x) = Inr ()"
    using s(3,4) by (intro safe_update_our assms(1) solvent_withdraw [OF s(4,6) that]) (auto simp: deposits_ok_def)
  moreover have "safe e N (cs\<lparr>cs_PartnerState := (cs_PartnerState cs)\<lparr>es_TotalWithdraw := crw_TotalWithdraw x\<rparr>\<rparr>)"
    if "isValidWithdrawAmount (cs_PartnerState cs) (cs_OurState cs) (crw_TotalWithdraw x) = Inr ()"
    using s(3,5) by (intro safe_update_partner assms(1) solvent_withdraw [OF s(5,7) that]) (auto simp: deposits_ok_def)
  ultimately show ?thesis
    using assms(2) by (simp add: handleChannelWithdraw_def Let_def del chain_ok_def GetAddress_def GetChannelEndState_def
        split: if_splits)
qed

lemma setClosed_same_sides: "same_sides cs (setClosed cs n)" "same_sides cs (setSettled cs n)"
  by (auto simp: same_sides_def setClosed_def setSettled_def split: option.split)

lemma status_handlers_same_sides:
  "same_sides cs (the_channel (fst (handleActionClose cs n)))"
  "same_sides cs (the_channel (fst (handleChannelClosed cs c)))"
  "same_sides cs (the_channel (fst (handleChannelUpdatedTransfer cs u n)))"
  "same_sides cs (the_channel (fst (handleSendWithdrawRequest cs w n m)))"
  "same_sides cs (the_channel (fst (handleWithdrawRequestReceived e cs wr m)))"
  "same_sides cs (the_channel (fst (handleWithdrawReceived e cs wi)))"
  "same_sides cs (the_channel (fst (handleSendCooperativeSettleRequest cs a m)))"
  "same_sides cs (the_channel (fst (handleCooperativeSettleRequestReceived e cs r m)))"
  "same_sides cs (the_channel (fst (handleCooperativeSettleReceived e cs s)))"
  "same_sides cs (the_channel (fst (handleChannelCooperativeSettled cs d)))"
  "same_sides cs (the_channel (fst (handleChannelBatchUnlock cs b)))"
proof -
  show "same_sides cs (the_channel (fst (handleChannelClosed cs c)))"
    using setClosed_same_sides(1) [of cs "ccl_BlockHeight c"]
    by (auto simp: handleChannelClosed_def Let_def same_sides_def split: option.split)
  show "same_sides cs (the_channel (fst (handleChannelCooperativeSettled cs d)))"
    using setClosed_same_sides(2) by (simp add: handleChannelCooperativeSettled_def) (simp add: same_sides_def)
qed (auto simp: same_sides_def handleActionClose_def EventsForClose_def handleChannelUpdatedTransfer_def
    handleSendWithdrawRequest_def handleWithdrawRequestReceived_def handleWithdrawReceived_def
    handleSendCooperativeSettleRequest_def handleCooperativeSettleRequestReceived_def
    handleCooperativeSettleReceived_def handleChannelBatchUnlock_def RecordWithdrawTransaction_def
    Let_def split: sum.split prod.split)

lemma handleChannelSettled_same_sides:
  assumes "wf_end e (cs_PartnerState cs)"
  shows "\<exists>r evs. handleChannelSettled cs x n = Some (r, evs) \<and> same_sides cs (the_channel r)"
proof -
  let ?cs = "setSettled cs (cst_BlockHeight x)"
  note same = setClosed_same_sides(2) [of cs "cst_BlockHeight x"]
  have "\<exists>ls. GetBatchUnlock (cs_PartnerState ?cs) = Some ls"
    using wf_endD(2) [OF assms] same by (simp add: GetBatchUnlock_def same_sides_def Let_def)
  with same show ?thesis by (auto simp: handleChannelSettled_def same_sides_def Let_def)
qed

lemma StateTransitionForChannel_step:
  assumes "safe e N cs" and "2 * N < 2 ^ 64" and "chain_ok N cs sc"
  shows "\<exists>r evs. StateTransitionForChannel e cs sc n m = Some (r, evs) \<and> safe e N (the_channel r)"
proof -
  note s = safeD [OF assms(1)]
  have same: "\<exists>r' evs'. Some (r, evs) = Some (r', evs') \<and> safe e N (the_channel r')"
    if "same_sides cs (the_channel r)" for r and evs :: "Event list"
    using same_sides_safe [OF that] assms(1) by simp
  have other: "\<exists>r' evs'. Some p = Some (r', evs') \<and> safe e N (the_channel r')"
    if "same_sides cs (the_channel (fst p))" for p :: TransitionResult
    using same [of "fst p" "snd p"] that by simp
  show ?thesis
  proof (cases sc)
    case (Block h)
    then show ?thesis using handleBlock_safe [OF assms(1,2), of h n] by (auto simp: StateTransitionForChannel_def)
  next
    case (SC_ActionTransferDirect x)
    then show ?thesis
      using handleSendDirectTransfer_result [of e cs x m] sendDirectTransfer_safe [OF assms(1)] assms(1)
      by (auto simp: StateTransitionForChannel_def)
  next
    case (SC_ContractReceiveChannelSettled x)
    then show ?thesis
      using handleChannelSettled_same_sides [OF s(5), of x n] same by (auto simp: StateTransitionForChannel_def)
  next
    case (SC_ContractReceiveChannelNewBalance x)
    then show ?thesis
      using handleChannelNewBalance_safe [OF assms(1,2), of x n] assms(3)
      by (auto simp: StateTransitionForChannel_def chain_ok_def)
  next
    case (SC_ReceiveTransferDirect x)
    then show ?thesis
      using handleReceiveDirectTransfer_safe [OF assms(1), of x]
      by (cases "handleReceiveDirectTransfer e cs x") (auto simp: StateTransitionForChannel_def)
  next
    case (SC_ContractReceiveChannelWithdraw x)
    then show ?thesis
      using handleChannelWithdraw_safe [OF assms(1), of x] assms(3)
      by (cases "handleChannelWithdraw cs x") (auto simp: StateTransitionForChannel_def)
  qed (simp_all only: StateTransitionForChannel_def StateChange.simps, (rule other status_handlers_same_sides)+)
qed

section \<open>The lock operations\<close>

lemma safe_locks_our:
  assumes "safe e N cs" and "locks e l (cs_OurState cs) a'" and "GetLock (cs_OurState cs) (lk_SecretHash l) = None"
    and "lk_Amount l \<le> GetDistributable (cs_OurState cs) (cs_PartnerState cs)"
  shows "safe e N (cs\<lparr>cs_OurState := a'\<rparr>)"
proof -
  note s = safeD [OF assms(1)]
  have "uint (es_ContractBalance a') \<le> N" using assms(2) s(3) by (auto simp: locks_def Let_def deposits_ok_def)
  then show ?thesis
    by (intro safe_update_our assms(1) wf_locks [OF s(4) assms(2,3)] solvent_locks [OF s(4) assms(2-4) s(6)])
qed

lemma safe_locks_partner:
  assumes "safe e N cs" and "locks e l (cs_PartnerState cs) a'"
    and "GetLock (cs_PartnerState cs) (lk_SecretHash l) = None"
    and "lk_Amount l \<le> GetDistributable (cs_PartnerState cs) (cs_OurState cs)"
  shows "safe e N (cs\<lparr>cs_PartnerState := a'\<rparr>)"
proof -
  note s = safeD [OF assms(1)]
  have "uint (es_ContractBalance a') \<le> N" using assms(2) s(3) by (auto simp: locks_def Let_def deposits_ok_def)
  then show ?thesis
    by (intro safe_update_partner assms(1) wf_locks [OF s(5) assms(2,3)] solvent_locks [OF s(5) assms(2-4) s(7)])
qed

lemma safe_drops_our:
  assumes "safe e N cs" and "drops e l n (cs_OurState cs) a'" and "n = lk_Amount l \<or> n = 0"
  shows "safe e N (cs\<lparr>cs_OurState := a'\<rparr>)"
proof -
  note s = safeD [OF assms(1)]
  have "uint (es_ContractBalance a') \<le> N"
    using drops_fields(1) [OF assms(2)] s(3) by (simp add: same_deposits_def deposits_ok_def)
  then show ?thesis
    by (intro safe_update_our assms(1) wf_drops [OF s(4) assms(2)] solvent_drops [OF s(4) assms(2) s(6) assms(3)])
qed

lemma safe_drops_partner:
  assumes "safe e N cs" and "drops e l n (cs_PartnerState cs) a'" and "n = lk_Amount l \<or> n = 0"
  shows "safe e N (cs\<lparr>cs_PartnerState := a'\<rparr>)"
proof -
  note s = safeD [OF assms(1)]
  have "uint (es_ContractBalance a') \<le> N"
    using drops_fields(1) [OF assms(2)] s(3) by (simp add: same_deposits_def deposits_ok_def)
  then show ?thesis
    by (intro safe_update_partner assms(1) wf_drops [OF s(5) assms(2)] solvent_drops [OF s(5) assms(2) s(7) assms(3)])
qed

lemma createSendLockedTransfer_safe:
  assumes "safe e N cs" and "GetLock (cs_OurState cs) h = None"
    and "createSendLockedTransfer e cs i tg n m p x es h md = Some (Inr (msg, tr, t))"
  shows "safe e N (storeLockedTransfer cs tr t)"
proof -
  note l = storeLockedTransfer_locks [OF safeD(4) [OF assms(1)] assms(3)]
  have "safe e N (cs\<lparr>cs_OurState := cs_OurState (storeLockedTransfer cs tr t)\<rparr>)"
    using assms(2) l(5) by (intro safe_locks_our [OF assms(1) l(1)]) (simp_all add: l(3,4))
  with l(2) show ?thesis by simp
qed

lemma sendLockedTransfer_safe:
  assumes "safe e N cs" and "GetLock (cs_OurState cs) h = None"
    and "sendLockedTransfer e cs i tg n m p x es h md = Some (cs', ev)"
  shows "safe e N cs'"
  using assms(3) createSendLockedTransfer_safe [OF assms(1,2)] assms(1)
  by (auto simp: sendLockedTransfer_def split: Option.bind_split_asm sum.split_asm prod.split_asm)

lemma sendRefundTransfer_safe:
  assumes "safe e N cs" and "GetLock (cs_OurState cs) h = None"
    and "sendRefundTransfer e cs i tg n m p x es h = Some (cs', r)"
  shows "safe e N cs'"
  using assms(3) createSendLockedTransfer_safe [OF assms(1,2)] assms(1)
  by (auto simp: sendRefundTransfer_def split: Option.bind_split_asm sum.split_asm prod.split_asm if_split_asm)

lemma storePartnerLock_safe:
  assumes "safe e N cs" and "GetLock (cs_PartnerState cs) (lk_SecretHash lock) = None"
    and "ValidLockedTransferCheck e cs (cs_PartnerState cs) (cs_OurState cs) s bp lock = Some (Inr t)"
  shows "safe e N (storePartnerLock e cs bp t lock)"
proof -
  note l = storePartnerLock_locks [OF safeD(1) [OF assms(1)] assms(3)]
  have "safe e N (cs\<lparr>cs_PartnerState := cs_PartnerState (storePartnerLock e cs bp t lock)\<rparr>)"
    using assms(2) l(3) by (intro safe_locks_partner [OF assms(1) l(1)]) simp_all
  with l(2) show ?thesis by simp
qed

lemma HandleReceiveLockedTransfer_safe:
  assumes "safe e N cs" and "GetLock (cs_PartnerState cs) (lk_SecretHash (ls_Lock tr)) = None"
    and "HandleReceiveLockedTransfer e cs tr = Some (cs', evs, err)"
  shows "safe e N cs'"
  using assms(3) storePartnerLock_safe [OF assms(1,2)] assms(1)
  by (auto simp: HandleReceiveLockedTransfer_def IsValidLockedTransfer_def split: Option.bind_split_asm sum.split_asm prod.split_asm)

lemma handleRefundTransfer_safe:
  assumes "safe e N cs" and "GetLock (cs_PartnerState cs) (lk_SecretHash (ls_Lock (rtr_Transfer rf))) = None"
    and "handleRefundTransfer e tr cs rf = Some (cs', evs, err)"
  shows "safe e N cs'"
  using assms(3) storePartnerLock_safe [OF assms(1,2)] assms(1)
  by (auto simp: handleRefundTransfer_def IsValidRefund_def split: Option.bind_split_asm sum.split_asm prod.split_asm if_split_asm)

lemma SendUnlock_safe:
  assumes "safe e N cs" and "SendUnlock e cs m p s h = Some (cs', ev)"
  shows "safe e N cs'"
proof (cases "GetLock (cs_OurState cs) h")
  case None
  with assms show ?thesis by (simp add: SendUnlock_def)
next
  case (Some l)
  note d = SendUnlock_drops [OF safeD(4) [OF assms(1)] Some assms(2)]
  from safe_drops_our [OF assms(1) d(1)] d(2) show ?thesis by simp
qed

lemma EventsForExpiredLock_safe:
  assumes "safe e N cs" and "GetLock (cs_OurState cs) h = Some l"
    and "smap_load (es_OnChainUnLockedLocks (cs_OurState cs)) h = None"
    and "EventsForExpiredLock e cs l m = Some (cs', evs)"
  shows "safe e N cs'"
proof -
  note d = EventsForExpiredLock_drops [OF safeD(4) [OF assms(1)] assms(2-4)]
  from safe_drops_our [OF assms(1) d(1)] d(2) show ?thesis by simp
qed

lemma HandleUnlock_safe:
  assumes "safe e N cs" and "HandleUnlock e cs u = Some (cs', ok, evs, err)"
  shows "safe e N cs'"
proof -
  note s = safeD [OF assms(1)]
  obtain r where r: "IsValidUnlock e u cs (cs_PartnerState cs) = Some (cs_PartnerState cs, r)"
    using IsValidUnlock_state [OF s(5)] by blast
  show ?thesis
  proof (cases r)
    case (Inl x)
    with assms r show ?thesis by (auto simp: HandleUnlock_def)
  next
    case (Inr t)
    obtain l where d: "drops e l (lk_Amount l) (cs_PartnerState cs)
        (DelLock ((cs_PartnerState cs)\<lparr>es_BalanceProof := Some (rul_BalanceProof u), es_MerkleTree := Some t\<rparr>)
          (GetHash e (rul_Secret u)))"
      using HandleUnlock_drops [OF s(1) r [unfolded Inr]] by blast
    from safe_drops_partner [OF assms(1) d] assms(2) r Inr
    show ?thesis by (auto simp: HandleUnlock_def simp del: Del_update)
  qed
qed

lemma handleReceiveLockExpired_safe:
  assumes "safe e N cs" and "handleReceiveLockExpired e cs x n = Some (res, evs)"
  shows "safe e N (the_channel res)"
proof -
  note s = safeD [OF assms(1)]
  obtain r where r: "IsValidLockExpired e x cs (cs_PartnerState cs) (cs_OurState cs) n = Some (cs_PartnerState cs, r)"
    using IsValidLockExpired_state [OF s(5)] by blast
  show ?thesis
  proof (cases r)
    case (Inl y)
    with assms r show ?thesis by (auto simp: handleReceiveLockExpired_def)
  next
    case (Inr t)
    obtain l where d: "drops e l 0 (cs_PartnerState cs)
        (DelUnclaimedLock ((cs_PartnerState cs)\<lparr>es_BalanceProof := Some (rle_BalanceProof x), es_MerkleTree := Some t\<rparr>)
          (rle_SecretHash x))"
      using handleReceiveLockExpired_drops [OF s(1) r [unfolded Inr]] by blast
    from safe_drops_partner [OF assms(1) d] assms(2) r Inr
    show ?thesis by (auto simp: handleReceiveLockExpired_def simp del: Del_update)
  qed
qed

lemma solvent_perm:
  assumes "solvent a b" and "lock_sum (pending a') = lock_sum (pending a)" and "lock_sum (pending b') = lock_sum (pending b)"
    and "transferred a' = transferred a" and "transferred b' = transferred b"
    and "same_deposits a a'" and "same_deposits b b'"
  shows "solvent a' b'"
  using assms by (simp add: solvent_def capacity_def same_deposits_def)

lemma Register_safe:
  assumes "safe e N cs"
  shows "safe e N (RegisterOffChainSecret cs s h)" "safe e N (RegisterOnChainSecret cs s h n True)"
proof -
  note w = safeD [OF assms]
  have t: "transferred (RegisterSecretEndState es s h) = transferred es"
    "transferred (RegisterOnChainSecretEndState es s h n True) = transferred es"
    "same_deposits es (RegisterSecretEndState es s h)"
    "same_deposits es (RegisterOnChainSecretEndState es s h n True)" for es
    by (simp_all add: transferred_def same_deposits_def)
  note off = lock_perm(3) [OF pending_RegisterSecretEndState] and on = lock_perm(3) [OF pending_RegisterOnChainSecretEndState]
  have "solvent_channel (RegisterOffChainSecret cs s h)" "solvent_channel (RegisterOnChainSecret cs s h n True)"
    unfolding solvent_channel_def RegisterOffChainSecret_def RegisterOnChainSecret_def
    using solvent_perm [OF w(6)] off [OF w(4)] off [OF w(5)] on [OF w(4)] on [OF w(5)] by (simp_all add: t)
  with wf_end_Register [OF w(4)] wf_end_Register [OF w(5)] w(3)
  show "safe e N (RegisterOffChainSecret cs s h)" "safe e N (RegisterOnChainSecret cs s h n True)"
    by (simp_all add: safe_def wf_channel_def deposits_ok_def RegisterOffChainSecret_def RegisterOnChainSecret_def)
qed

lemma GetFeeSchedule_safe: "safe e N cs \<Longrightarrow> safe e N (fst (GetFeeSchedule cs))"
  using safe_cong [of "fst (GetFeeSchedule cs)" cs] by (simp add: GetFeeSchedule_def Let_def)

section \<open>Steps and runs\<close>

text \<open>
  The side conditions say what the callers guarantee: a new lock has a secret hash that is not pending
  on that side, a lock is dropped as expired only when it is pending and was not registered on chain.
\<close>

inductive channel_step :: "env \<Rightarrow> int \<Rightarrow> NettingChannelState \<Rightarrow> NettingChannelState \<Rightarrow> bool" for e N where
  Transition: "StateTransitionForChannel e cs sc n m = Some (NewState cs', evs) \<Longrightarrow> chain_ok N cs sc \<Longrightarrow>
     channel_step e N cs cs'"
| SendLocked: "sendLockedTransfer e cs i tg a m p x es h md = Some (cs', ev) \<Longrightarrow>
     GetLock (cs_OurState cs) h = None \<Longrightarrow> channel_step e N cs cs'"
| SendRefund: "sendRefundTransfer e cs i tg a m p x es h = Some (cs', r) \<Longrightarrow>
     GetLock (cs_OurState cs) h = None \<Longrightarrow> channel_step e N cs cs'"
| SendBalanceProof: "SendUnlock e cs m p s h = Some (cs', ev) \<Longrightarrow> channel_step e N cs cs'"
| SendExpired: "EventsForExpiredLock e cs l m = Some (cs', evs) \<Longrightarrow> GetLock (cs_OurState cs) h = Some l \<Longrightarrow>
     smap_load (es_OnChainUnLockedLocks (cs_OurState cs)) h = None \<Longrightarrow> channel_step e N cs cs'"
| ReceiveLocked: "HandleReceiveLockedTransfer e cs tr = Some (cs', evs, err) \<Longrightarrow>
     GetLock (cs_PartnerState cs) (lk_SecretHash (ls_Lock tr)) = None \<Longrightarrow> channel_step e N cs cs'"
| ReceiveRefund: "handleRefundTransfer e ut cs rf = Some (cs', evs, err) \<Longrightarrow>
     GetLock (cs_PartnerState cs) (lk_SecretHash (ls_Lock (rtr_Transfer rf))) = None \<Longrightarrow> channel_step e N cs cs'"
| ReceiveUnlocked: "HandleUnlock e cs u = Some (cs', ok, evs, err) \<Longrightarrow> channel_step e N cs cs'"
| ReceiveExpired: "handleReceiveLockExpired e cs le n = Some (NewState cs', evs) \<Longrightarrow> channel_step e N cs cs'"
| OffChainSecret: "channel_step e N cs (RegisterOffChainSecret cs s h)"
| OnChainSecret: "channel_step e N cs (RegisterOnChainSecret cs s h n True)"
| ReadFees: "channel_step e N cs (fst (GetFeeSchedule cs))"

lemma channel_step_safe:
  assumes "2 * N < 2 ^ 64" and "safe e N cs" and "channel_step e N cs cs'"
  shows "safe e N cs'"
  using assms(3)
proof cases
  case (Transition sc n m evs)
  with StateTransitionForChannel_step [OF assms(2,1) Transition(2), of n m] show ?thesis by auto
next
  case (ReceiveExpired le n evs)
  with handleReceiveLockExpired_safe [OF assms(2)] show ?thesis by fastforce
qed (use assms(2) in \<open>auto intro: sendLockedTransfer_safe sendRefundTransfer_safe SendUnlock_safe
    EventsForExpiredLock_safe HandleReceiveLockedTransfer_safe handleRefundTransfer_safe HandleUnlock_safe Register_safe
    GetFeeSchedule_safe\<close>)

interpretation ch: invariant_machine "channel_step e N" "\<lambda>cs. 2 * N < 2 ^ 64 \<and> safe e N cs" for e N
  by unfold_locales (auto intro: channel_step_safe)

lemma run_safe:
  assumes "(channel_step e N)\<^sup>*\<^sup>* cs cs'" and "2 * N < 2 ^ 64" and "safe e N cs"
  shows "safe e N cs'"
  using ch.run_inv [OF assms(1)] assms(2,3) by blast

end
