(* ===== verification/Pylons_Identity.thy ===== *)
theory Pylons_Identity
  imports Pylons_Runs
begin

text \<open>
  What no operation of a channel changes: its identifier and the addresses of its two sides. Maps of channels
  rely on it.
\<close>

section \<open>What a channel keeps\<close>

definition same_identity :: "NettingChannelState \<Rightarrow> NettingChannelState \<Rightarrow> bool" where
  "same_identity cs cs' \<longleftrightarrow> cs_Identifier cs' = cs_Identifier cs
     \<and> es_Address (cs_OurState cs') = es_Address (cs_OurState cs)
     \<and> es_Address (cs_PartnerState cs') = es_Address (cs_PartnerState cs)"

lemma same_identity_refl [simp]: "same_identity cs cs"
  by (simp add: same_identity_def)

lemma same_identity_trans: "same_identity a b \<Longrightarrow> same_identity b c \<Longrightarrow> same_identity a c"
  by (simp add: same_identity_def)

lemma status_identity:
  "same_identity cs (the_channel (fst (handleActionClose cs n)))"
  "same_identity cs (the_channel (fst (handleChannelClosed cs c)))"
  "same_identity cs (the_channel (fst (handleChannelUpdatedTransfer cs u n)))"
  "same_identity cs (the_channel (fst (handleChannelBatchUnlock cs b)))"
  "same_identity cs (the_channel (fst (handleChannelCooperativeSettled cs s)))"
  "same_identity cs (the_channel (fst (handleSendWithdrawRequest cs w n m)))"
  "same_identity cs (the_channel (fst (handleWithdrawRequestReceived e cs wr m)))"
  "same_identity cs (the_channel (fst (handleWithdrawReceived e cs wv)))"
  "same_identity cs (the_channel (fst (handleSendCooperativeSettleRequest cs sr m)))"
  "same_identity cs (the_channel (fst (handleCooperativeSettleRequestReceived e cs sq m)))"
  "same_identity cs (the_channel (fst (handleCooperativeSettleReceived e cs sv)))"
  by (auto simp: same_identity_def handleActionClose_def EventsForClose_def handleChannelClosed_def setClosed_def
      handleChannelUpdatedTransfer_def handleChannelBatchUnlock_def handleChannelCooperativeSettled_def setSettled_def
      handleSendWithdrawRequest_def RecordWithdrawTransaction_def handleWithdrawRequestReceived_def
      handleWithdrawReceived_def handleSendCooperativeSettleRequest_def
      handleCooperativeSettleRequestReceived_def handleCooperativeSettleReceived_def DeleteWithdrawTransaction_def Let_def case_prod_beta
      split: option.split sum.split)

lemma handleChannelWithdraw_identity: "same_identity cs (the_channel (fst (handleChannelWithdraw cs x)))"
  by (auto simp: same_identity_def handleChannelWithdraw_def DeleteWithdrawTransaction_def Let_def)

lemma handleReceiveDirectTransfer_identity: "same_identity cs (the_channel (fst (handleReceiveDirectTransfer e cs x)))"
  by (auto simp: same_identity_def handleReceiveDirectTransfer_def Let_def split: sum.split)

lemma handleChannelSettled_identity:
  "handleChannelSettled cs x n = Some (r, evs) \<Longrightarrow> same_identity cs (the_channel r)"
  by (auto simp: same_identity_def handleChannelSettled_def setSettled_def Let_def case_prod_beta
      split: option.split_asm if_splits Option.bind_split_asm)

lemma applyChannelNewBalance_identity: "same_identity cs (applyChannelNewBalance cs t)"
  by (auto simp: same_identity_def applyChannelNewBalance_def updateContractBalance_def Let_def)

lemma handleChannelNewBalance_identity: "same_identity cs (the_channel (fst (handleChannelNewBalance e cs x n)))"
  by (auto simp: same_identity_def handleChannelNewBalance_def applyChannelNewBalance_def updateContractBalance_def
      UpdateFeeScheduleAfterBalanceChange_def SetFeeSchedule_def Let_def)

lemma handleBlock_identity:
  assumes "handleBlock e cs h n = Some (r, evs)"
  shows "same_identity cs (the_channel r)"
proof -
  have "same_identity cs (fst (blockSettle cs h))"
    by (auto simp: same_identity_def blockSettle_def Let_def split: option.split)
  moreover have "same_identity cs (applyChannelNewBalance (c\<lparr>cs_DepositTransactionQueue := rest\<rparr>) t)"
    if "same_identity cs c" for c rest t
    using that applyChannelNewBalance_identity [of "c\<lparr>cs_DepositTransactionQueue := rest\<rparr>" t] by (simp add: same_identity_def)
  ultimately obtain cs' where "applyConfirmedDeposits e (fst (blockSettle cs h)) n = Some cs'" and "same_identity cs cs'"
    using applyConfirmedDeposits_invariant [of "same_identity cs" "fst (blockSettle cs h)" e n] by blast
  with assms show ?thesis by (auto simp: handleBlock_def case_prod_beta)
qed

lemma sendDirectTransfer_identity:
  "sendDirectTransfer e cs a m p = Some (cs', ev) \<Longrightarrow> same_identity cs cs'"
  by (auto simp: sendDirectTransfer_def same_identity_def Let_def split: Option.bind_split_asm option.split_asm prod.split_asm)

lemma fst_identity: "p = (r, evs) \<Longrightarrow> same_identity cs (the_channel (fst p)) \<Longrightarrow> same_identity cs (the_channel r)"
  by simp

lemmas result_identity =
    fst_identity [OF _ status_identity(1)]
    fst_identity [OF _ status_identity(2)]
    fst_identity [OF _ status_identity(3)]
    fst_identity [OF _ status_identity(4)]
    fst_identity [OF _ status_identity(5)]
    fst_identity [OF _ status_identity(6)]
    fst_identity [OF _ status_identity(7)]
    fst_identity [OF _ status_identity(8)]
    fst_identity [OF _ status_identity(9)]
    fst_identity [OF _ status_identity(10)]
    fst_identity [OF _ status_identity(11)]
    fst_identity [OF _ handleChannelWithdraw_identity]
    fst_identity [OF _ handleReceiveDirectTransfer_identity]
    fst_identity [OF _ handleChannelNewBalance_identity]

lemma StateTransitionForChannel_identity:
  assumes "StateTransitionForChannel e cs sc n m = Some (r, evs)"
  shows "same_identity cs (the_channel r)"
proof -
  note s = assms [unfolded StateTransitionForChannel_def]
  show ?thesis
  proof (cases sc)
    case (SC_ActionTransferDirect x)
    with s handleSendDirectTransfer_result [of e cs x m] sendDirectTransfer_identity show ?thesis by fastforce
  qed (use s in \<open>auto intro: result_identity handleBlock_identity handleChannelSettled_identity\<close>)
qed

lemma rehashLock_Address [simp]: "es_Address (rehashLock e a h) = es_Address a"
  by (simp add: rehashLock_def split: option.split)

lemma IsValidUnlock_Address:
  "IsValidUnlock e u cs a = Some (a', r) \<Longrightarrow> es_Address a' = es_Address a"
  by (auto simp: IsValidUnlock_def Let_def split: option.split_asm Option.bind_split_asm)

lemma IsValidLockExpired_Address:
  "IsValidLockExpired e le cs a b n = Some (a', r) \<Longrightarrow> es_Address a' = es_Address a"
  by (auto simp: IsValidLockExpired_def Let_def split: option.split_asm Option.bind_split_asm)

lemma channel_step_identity:
  assumes "channel_step e N cs cs'"
  shows "same_identity cs cs'"
  using assms
proof cases
  case (Transition sc n m evs)
  from StateTransitionForChannel_identity [OF this(1)] show ?thesis by simp
next
  case (SendLocked i tg a m p x es h md ev)
  then show ?thesis
    by (auto simp: sendLockedTransfer_def storeLockedTransfer_def same_identity_def Let_def split: Option.bind_split_asm option.split_asm if_splits sum.split_asm prod.split_asm)
next
  case (SendRefund i tg a m p x es h r)
  then show ?thesis
    by (auto simp: sendRefundTransfer_def storeLockedTransfer_def same_identity_def Let_def split: Option.bind_split_asm option.split_asm if_splits sum.split_asm prod.split_asm)
next
  case (SendBalanceProof m p s h ev)
  then show ?thesis
    by (auto simp: SendUnlock_def same_identity_def Let_def split: Option.bind_split_asm option.split_asm if_splits sum.split_asm prod.split_asm)
next
  case (SendExpired l m evs h)
  then show ?thesis
    by (auto simp: EventsForExpiredLock_def same_identity_def Let_def split: Option.bind_split_asm option.split_asm if_splits sum.split_asm prod.split_asm)
next
  case (ReceiveLocked tr evs err)
  then show ?thesis
    by (auto simp: HandleReceiveLockedTransfer_def storePartnerLock_def same_identity_def Let_def
        split: Option.bind_split_asm option.split_asm if_splits sum.split_asm prod.split_asm)
next
  case (ReceiveRefund ut rf evs err)
  then show ?thesis
    by (auto simp: handleRefundTransfer_def storePartnerLock_def same_identity_def Let_def
        split: Option.bind_split_asm option.split_asm if_splits sum.split_asm prod.split_asm)
next
  case (ReceiveUnlocked u ok evs err)
  then show ?thesis
    by (auto simp: HandleUnlock_def same_identity_def Let_def dest!: IsValidUnlock_Address
        split: Option.bind_split_asm option.split_asm if_splits sum.split_asm prod.split_asm)
next
  case (ReceiveExpired le n evs)
  then show ?thesis
    by (auto simp: handleReceiveLockExpired_def same_identity_def Let_def dest!: IsValidLockExpired_Address
        split: Option.bind_split_asm option.split_asm if_splits sum.split_asm prod.split_asm)
qed (auto simp: same_identity_def RegisterOffChainSecret_def RegisterOnChainSecret_def
    GetFeeSchedule_def Let_def)

end
