(* ===== verification/Pylons_ChannelRuns.thy ===== *)
theory Pylons_ChannelRuns
  imports Pylons_Identity
begin

text \<open>
  Histories of one channel: every call of an entry point of the channel code, with nothing assumed of it, and what is asked of
  a call for the sides to stay safe. \<open>channel_step\<close> is a call of which that holds. Along a history a settlement that was
  started stays started, unless an invalid answer to a cooperative settlement takes it back.
\<close>

section \<open>Calls\<close>

text \<open>
  What matters of a call: the state change the dispatcher got; the secret hash of a lock that is added to one of the
  sides; the lock that is given up as expired.
\<close>

datatype (plugins only: code) ChannelCall =
    Dispatched StateChange
  | AddsOwnLock SecretHash
  | AddsPartnerLock SecretHash
  | GivesUpLock HashTimeLockState
  | OtherCall

inductive channel_call :: "env \<Rightarrow> NettingChannelState \<Rightarrow> ChannelCall \<Rightarrow> NettingChannelState \<Rightarrow> bool" for e where
  CallTransition: "StateTransitionForChannel e cs sc n m = Some (NewState cs', evs) \<Longrightarrow> channel_call e cs (Dispatched sc) cs'"
| CallSendLocked: "sendLockedTransfer e cs i tg a m p x es h md = Some (cs', ev) \<Longrightarrow> channel_call e cs (AddsOwnLock h) cs'"
| CallSendRefund: "sendRefundTransfer e cs i tg a m p x es h = Some (cs', r) \<Longrightarrow> channel_call e cs (AddsOwnLock h) cs'"
| CallSendUnlock: "SendUnlock e cs m p s h = Some (cs', ev) \<Longrightarrow> channel_call e cs OtherCall cs'"
| CallSendExpired: "EventsForExpiredLock e cs l m = Some (cs', evs) \<Longrightarrow> channel_call e cs (GivesUpLock l) cs'"
| CallReceiveLocked: "HandleReceiveLockedTransfer e cs tr = Some (cs', evs, err) \<Longrightarrow>
     channel_call e cs (AddsPartnerLock (lk_SecretHash (ls_Lock tr))) cs'"
| CallReceiveRefund: "handleRefundTransfer e ut cs rf = Some (cs', evs, err) \<Longrightarrow>
     channel_call e cs (AddsPartnerLock (lk_SecretHash (ls_Lock (rtr_Transfer rf)))) cs'"
| CallReceiveUnlock: "HandleUnlock e cs u = Some (cs', ok, evs, err) \<Longrightarrow> channel_call e cs OtherCall cs'"
| CallReceiveExpired: "handleReceiveLockExpired e cs le n = Some (NewState cs', evs) \<Longrightarrow> channel_call e cs OtherCall cs'"
| CallOffChainSecret: "channel_call e cs OtherCall (RegisterOffChainSecret cs s h)"
| CallOnChainSecret: "channel_call e cs OtherCall (RegisterOnChainSecret cs s h n True)"
| CallReadFees: "channel_call e cs OtherCall (fst (GetFeeSchedule cs))"

text \<open>A history, as the states in which the calls were made and the calls.\<close>

inductive channel_history :: "env \<Rightarrow> NettingChannelState \<Rightarrow> (NettingChannelState \<times> ChannelCall) list \<Rightarrow> NettingChannelState \<Rightarrow> bool"
  for e where
  Untouched: "channel_history e cs [] cs"
| Call: "channel_call e cs c cs1 \<Longrightarrow> channel_history e cs1 tr cs2 \<Longrightarrow> channel_history e cs ((cs, c) # tr) cs2"

section \<open>Safe calls\<close>

text \<open>
  A report of the chain is consistent (\<open>chain_ok\<close>), a new lock has a secret hash that is not in use on its
  side, and a lock that is given up is pending and was not registered on the chain.
\<close>

definition call_ok :: "int \<Rightarrow> NettingChannelState \<Rightarrow> ChannelCall \<Rightarrow> bool" where
  "call_ok N cs c =
     (case c of
        Dispatched sc \<Rightarrow> chain_ok N cs sc
      | AddsOwnLock h \<Rightarrow> GetLock (cs_OurState cs) h = None
      | AddsPartnerLock h \<Rightarrow> GetLock (cs_PartnerState cs) h = None
      | GivesUpLock l \<Rightarrow> (\<exists>h. GetLock (cs_OurState cs) h = Some l \<and> smap_load (es_OnChainUnLockedLocks (cs_OurState cs)) h = None)
      | OtherCall \<Rightarrow> True)"

lemma call_step: "channel_call e cs c cs' \<Longrightarrow> call_ok N cs c \<Longrightarrow> channel_step e N cs cs'"
  by (cases rule: channel_call.cases) (auto simp: call_ok_def intro: channel_step.intros)

lemma history_run:
  "channel_history e cs tr cs' \<Longrightarrow> \<forall>(s, c) \<in> set tr. call_ok N s c \<Longrightarrow> (channel_step e N)\<^sup>*\<^sup>* cs cs'"
proof (induction rule: channel_history.induct)
  case (Call cs c cs1 tr cs2)
  then have "channel_step e N cs cs1" using call_step by fastforce
  with Call show ?case by (auto intro: converse_rtranclp_into_rtranclp)
qed simp

lemma history_safe:
  assumes "channel_history e cs tr cs'" and "\<forall>(s, c) \<in> set tr. call_ok N s c" and "2 * N < 2 ^ 64" and "safe e N cs"
  shows "safe e N cs'"
  by (rule run_safe [OF history_run [OF assms(1,2)] assms(3,4)])

section \<open>A settlement stays started\<close>

definition keeps_settling :: "NettingChannelState \<Rightarrow> NettingChannelState \<Rightarrow> bool" where
  "keeps_settling cs cs' \<longleftrightarrow> (cs_SettleTransaction cs \<noteq> None \<longrightarrow> cs_SettleTransaction cs' \<noteq> None)"

lemma keeps_settling_refl [simp]: "keeps_settling cs cs"
  by (simp add: keeps_settling_def)

text \<open>The one state change that takes a settlement back.\<close>

definition takes_back :: "env \<Rightarrow> NettingChannelState \<Rightarrow> ChannelCall \<Rightarrow> bool" where
  "takes_back e cs c \<longleftrightarrow> (\<exists>x err. c = Dispatched (SC_ReceiveCooperativeSettle x) \<and> isValidCooperativeSettle e cs x = Inl err)"

lemma status_keeps:
  "keeps_settling cs (the_channel (fst (handleActionClose cs n)))"
  "keeps_settling cs (the_channel (fst (handleChannelClosed cs c)))"
  "keeps_settling cs (the_channel (fst (handleChannelUpdatedTransfer cs u n)))"
  "keeps_settling cs (the_channel (fst (handleChannelBatchUnlock cs b)))"
  "keeps_settling cs (the_channel (fst (handleChannelCooperativeSettled cs s)))"
  "keeps_settling cs (the_channel (fst (handleSendWithdrawRequest cs w n m)))"
  "keeps_settling cs (the_channel (fst (handleWithdrawRequestReceived e cs wr m)))"
  "keeps_settling cs (the_channel (fst (handleWithdrawReceived e cs wv)))"
  "keeps_settling cs (the_channel (fst (handleSendCooperativeSettleRequest cs sr m)))"
  "keeps_settling cs (the_channel (fst (handleCooperativeSettleRequestReceived e cs sq m)))"
  by (auto simp: keeps_settling_def handleActionClose_def EventsForClose_def handleChannelClosed_def setClosed_def
      handleChannelUpdatedTransfer_def handleChannelBatchUnlock_def handleChannelCooperativeSettled_def setSettled_def
      handleSendWithdrawRequest_def RecordWithdrawTransaction_def handleWithdrawRequestReceived_def
      handleWithdrawReceived_def handleSendCooperativeSettleRequest_def
      handleCooperativeSettleRequestReceived_def DeleteWithdrawTransaction_def Let_def case_prod_beta
      split: option.split sum.split)

lemma other_keeps:
  "keeps_settling cs (the_channel (fst (handleChannelWithdraw cs x)))"
  "keeps_settling cs (the_channel (fst (handleReceiveDirectTransfer e cs y)))"
  "keeps_settling cs (the_channel (fst (handleChannelNewBalance e cs z n)))"
  by (auto simp: keeps_settling_def handleChannelWithdraw_def DeleteWithdrawTransaction_def handleReceiveDirectTransfer_def
      handleChannelNewBalance_def applyChannelNewBalance_def updateContractBalance_def
      UpdateFeeScheduleAfterBalanceChange_def SetFeeSchedule_def Let_def split: sum.split)

lemma handleCooperativeSettleReceived_keeps:
  "\<not> takes_back e cs (Dispatched (SC_ReceiveCooperativeSettle x)) \<Longrightarrow>
    keeps_settling cs (the_channel (fst (handleCooperativeSettleReceived e cs x)))"
  by (auto simp: takes_back_def keeps_settling_def handleCooperativeSettleReceived_def split: sum.split)

lemma handleChannelSettled_keeps:
  "handleChannelSettled cs x n = Some (r, evs) \<Longrightarrow> keeps_settling cs (the_channel r)"
  by (auto simp: keeps_settling_def handleChannelSettled_def setSettled_def Let_def case_prod_beta
      split: option.split_asm if_splits Option.bind_split_asm)

lemma applyConfirmedDeposits_settling:
  assumes "applyConfirmedDeposits e cs n = Some cs'"
  shows "cs_SettleTransaction cs' = cs_SettleTransaction cs"
  using applyConfirmedDeposits_invariant [of "\<lambda>c. cs_SettleTransaction c = cs_SettleTransaction cs" cs e n] assms
  by (auto simp: applyChannelNewBalance_def Let_def)

lemma handleBlock_keeps:
  assumes "handleBlock e cs h n = Some (r, evs)"
  shows "keeps_settling cs (the_channel r)"
  using assms applyConfirmedDeposits_settling
  by (fastforce simp: handleBlock_def keeps_settling_def blockSettle_def Let_def
      split: prod.split_asm option.split_asm if_splits Option.bind_split_asm)

lemma sendDirectTransfer_keeps: "sendDirectTransfer e cs a m p = Some (cs', ev) \<Longrightarrow> keeps_settling cs cs'"
  by (auto simp: sendDirectTransfer_def keeps_settling_def Let_def split: Option.bind_split_asm option.split_asm prod.split_asm)

lemma fst_keeps: "p = (r, evs) \<Longrightarrow> keeps_settling cs (the_channel (fst p)) \<Longrightarrow> keeps_settling cs (the_channel r)"
  by simp

lemmas result_keeps =
    fst_keeps [OF _ status_keeps(1)] fst_keeps [OF _ status_keeps(2)] fst_keeps [OF _ status_keeps(3)]
    fst_keeps [OF _ status_keeps(4)] fst_keeps [OF _ status_keeps(5)] fst_keeps [OF _ status_keeps(6)]
    fst_keeps [OF _ status_keeps(7)] fst_keeps [OF _ status_keeps(8)] fst_keeps [OF _ status_keeps(9)]
    fst_keeps [OF _ status_keeps(10)] fst_keeps [OF _ other_keeps(1)] fst_keeps [OF _ other_keeps(2)]
    fst_keeps [OF _ other_keeps(3)]

lemma StateTransitionForChannel_keeps:
  assumes "StateTransitionForChannel e cs sc n m = Some (r, evs)" and "\<not> takes_back e cs (Dispatched sc)"
  shows "keeps_settling cs (the_channel r)"
proof -
  note s = assms(1) [unfolded StateTransitionForChannel_def]
  show ?thesis
  proof (cases sc)
    case (SC_ActionTransferDirect x)
    with s handleSendDirectTransfer_result [of e cs x m] sendDirectTransfer_keeps show ?thesis by fastforce
  next
    case (SC_ReceiveCooperativeSettle x)
    with s handleCooperativeSettleReceived_keeps [of e cs x] assms(2) show ?thesis by (auto intro: fst_keeps)
  qed (use s in \<open>auto intro: result_keeps handleBlock_keeps handleChannelSettled_keeps\<close>)
qed

lemma channel_call_keeps:
  assumes "channel_call e cs c cs'" and "\<not> takes_back e cs c"
  shows "keeps_settling cs cs'"
  using assms(1)
proof cases
  case (CallTransition sc n m evs)
  with StateTransitionForChannel_keeps [OF CallTransition(2)] assms(2) show ?thesis by simp
next
  case (CallSendLocked i tg a m p x es h md ev)
  then show ?thesis
    by (auto simp: sendLockedTransfer_def storeLockedTransfer_def keeps_settling_def Let_def
        split: Option.bind_split_asm option.split_asm if_splits sum.split_asm prod.split_asm)
next
  case (CallSendRefund i tg a m p x es h r)
  then show ?thesis
    by (auto simp: sendRefundTransfer_def storeLockedTransfer_def keeps_settling_def Let_def
        split: Option.bind_split_asm option.split_asm if_splits sum.split_asm prod.split_asm)
next
  case (CallSendUnlock m p s h ev)
  then show ?thesis
    by (auto simp: SendUnlock_def keeps_settling_def Let_def split: Option.bind_split_asm option.split_asm if_splits sum.split_asm prod.split_asm)
next
  case (CallSendExpired l m evs)
  then show ?thesis
    by (auto simp: EventsForExpiredLock_def keeps_settling_def Let_def
        split: Option.bind_split_asm option.split_asm if_splits sum.split_asm prod.split_asm)
next
  case (CallReceiveLocked tr evs err)
  then show ?thesis
    by (auto simp: HandleReceiveLockedTransfer_def storePartnerLock_def keeps_settling_def Let_def
        split: Option.bind_split_asm option.split_asm if_splits sum.split_asm prod.split_asm)
next
  case (CallReceiveRefund ut rf evs err)
  then show ?thesis
    by (auto simp: handleRefundTransfer_def storePartnerLock_def keeps_settling_def Let_def
        split: Option.bind_split_asm option.split_asm if_splits sum.split_asm prod.split_asm)
next
  case (CallReceiveUnlock u ok evs err)
  then show ?thesis
    by (auto simp: HandleUnlock_def keeps_settling_def Let_def
        split: Option.bind_split_asm option.split_asm if_splits sum.split_asm prod.split_asm)
next
  case (CallReceiveExpired le n evs)
  then show ?thesis
    by (auto simp: handleReceiveLockExpired_def keeps_settling_def Let_def
        split: Option.bind_split_asm option.split_asm if_splits sum.split_asm prod.split_asm)
qed (auto simp: keeps_settling_def RegisterOffChainSecret_def RegisterOnChainSecret_def GetFeeSchedule_def Let_def)

lemma history_keeps:
  "channel_history e cs tr cs' \<Longrightarrow> \<forall>(s, c) \<in> set tr. \<not> takes_back e s c \<Longrightarrow> keeps_settling cs cs'"
proof (induction rule: channel_history.induct)
  case (Call cs c cs1 tr cs2)
  with channel_call_keeps [OF Call.hyps(1)] show ?case by (auto simp: keeps_settling_def)
qed (simp add: keeps_settling_def)

section \<open>Settle transactions\<close>

lemma settling_not_closed: "cs_SettleTransaction cs \<noteq> None \<Longrightarrow> GetStatus cs \<noteq> ChannelStateClosed"
  by (auto simp: GetStatus_def split: option.splits)

lemma set_case_if: "x \<noteq> y \<Longrightarrow> x \<notin> set (case z of Some w \<Rightarrow> if P w then [y] else [] | None \<Rightarrow> [])"
  by (cases z) simp_all

lemma blockWithdrawTimeout_not_settle: "ContractSendChannelSettle c t \<notin> set (blockWithdrawTimeout e cs n)"
proof (cases "GetStatus cs = ChannelStateOpened")
  case True
  show ?thesis unfolding blockWithdrawTimeout_def if_P [OF True] by (rule set_case_if) simp
next
  case False
  show ?thesis unfolding blockWithdrawTimeout_def if_not_P [OF False] by simp
qed

text \<open>The events of the other state changes are of other kinds; a block sends none while a settlement is started.\<close>

lemma dispatch_settles_not:
  assumes "StateTransitionForChannel e cs sc n m = Some (r, evs)" and "cs_SettleTransaction cs \<noteq> None"
  shows "ContractSendChannelSettle k t \<notin> set evs"
proof (cases sc)
  case (Block h)
  have "snd (blockSettle cs h) = []" using settling_not_closed [OF assms(2)] by (simp add: blockSettle_def)
  then have "\<exists>cs2. evs = blockWithdrawTimeout e cs2 n"
    using assms(1) Block
    by (auto simp: StateTransitionForChannel_def handleBlock_def split: prod.split_asm Option.bind_split_asm)
  with blockWithdrawTimeout_not_settle show ?thesis by blast
next
  case (SC_ActionTransferDirect x)
  with assms(1) show ?thesis
    by (auto simp: StateTransitionForChannel_def handleSendDirectTransfer_def sendDirectTransfer_def Let_def
        split: Option.bind_split_asm option.split_asm prod.split_asm if_splits)
qed (use assms(1) in \<open>auto simp: StateTransitionForChannel_def handleActionClose_def EventsForClose_def handleChannelClosed_def
    handleChannelUpdatedTransfer_def handleChannelBatchUnlock_def handleChannelCooperativeSettled_def handleSendWithdrawRequest_def
    handleWithdrawRequestReceived_def handleWithdrawReceived_def handleSendCooperativeSettleRequest_def
    handleCooperativeSettleRequestReceived_def handleCooperativeSettleReceived_def handleChannelWithdraw_def
    handleReceiveDirectTransfer_def handleChannelNewBalance_def handleChannelSettled_def Let_def case_prod_beta
    split: option.split_asm sum.split_asm if_splits Option.bind_split_asm prod.split_asm\<close>)

end
