(* ===== verification/Pylons_Protocol.thy ===== *)
theory Pylons_Protocol
  imports Pylons_Runs
begin

text \<open>
  Two peers and one channel. Each peer keeps both sides of the channel; \<open>mirrored\<close> says that what one
  keeps of itself is what the other keeps of it, up to who has learned which secret. A message
  that one peer sends in a mirrored state, once signed, is accepted by the other, and the states are
  mirrored again.
\<close>

section \<open>Mirrored states\<close>

definition same_proof :: "BalanceProofSignedState option \<Rightarrow> BalanceProofSignedState option \<Rightarrow> bool" where
  "same_proof p q =
     (case (p, q) of
        (None, None) \<Rightarrow> True
      | (Some p, Some q) \<Rightarrow> bp_Nonce p = bp_Nonce q \<and> bp_TransferredAmount p = bp_TransferredAmount q
      | _ \<Rightarrow> False)"

definition same_view :: "NettingChannelEndState \<Rightarrow> NettingChannelEndState \<Rightarrow> bool" where
  "same_view x y \<longleftrightarrow> es_Address x = es_Address y \<and> es_ContractBalance x = es_ContractBalance y
     \<and> es_TotalWithdraw x = es_TotalWithdraw y \<and> mset (pending x) = mset (pending y)
     \<and> same_proof (es_BalanceProof x) (es_BalanceProof y)"

definition mirrored :: "env \<Rightarrow> NettingChannelState \<Rightarrow> NettingChannelState \<Rightarrow> bool" where
  "mirrored e a b \<longleftrightarrow> wf_channel e a \<and> wf_channel e b
     \<and> same_view (cs_OurState a) (cs_PartnerState b) \<and> same_view (cs_OurState b) (cs_PartnerState a)
     \<and> cs_Identifier a = cs_Identifier b \<and> cs_TokenNetworkId a = cs_TokenNetworkId b
     \<and> cs_ChainId a = cs_ChainId b"

text \<open>The balance proof \<open>bp\<close> is the unsigned proof \<open>u\<close> signed by \<open>signer\<close>.\<close>

definition signs :: "env \<Rightarrow> Address \<Rightarrow> BalanceProofUnsignedState \<Rightarrow> BalanceProofSignedState \<Rightarrow> bool" where
  "signs e signer u bp \<longleftrightarrow> bp_Nonce bp = bu_Nonce u \<and> bp_TransferredAmount bp = bu_TransferredAmount u
     \<and> bp_LockedAmount bp = bu_LockedAmount u \<and> bp_LocksRoot bp = bu_LocksRoot u
     \<and> bp_TokenNetworkId bp = bu_TokenNetworkId u \<and> bp_ChannelId bp = bu_ChannelId u
     \<and> bp_ChainId bp = bu_ChainId u \<and> bp_signed e bp signer"

text \<open>A lock as it arrives: its hash is not part of the message, the receiver computes it.\<close>

definition same_lock :: "HashTimeLockState \<Rightarrow> HashTimeLockState \<Rightarrow> bool" where
  "same_lock l m \<longleftrightarrow> l\<lparr>lk_LockHash := 0\<rparr> = m\<lparr>lk_LockHash := 0\<rparr>"

lemma same_lock_refl [simp]: "same_lock l l"
  by (simp add: same_lock_def)

lemma same_lockD:
  assumes "same_lock l m"
  shows "lk_Amount l = lk_Amount m" "lk_Expiration l = lk_Expiration m" "lk_SecretHash l = lk_SecretHash m"
    "CalcLockHash e l = CalcLockHash e m" "l\<lparr>lk_LockHash := h\<rparr> = m\<lparr>lk_LockHash := h\<rparr>"
proof -
  have s: "l\<lparr>lk_LockHash := 0\<rparr> = m\<lparr>lk_LockHash := 0\<rparr>" using assms by (simp add: same_lock_def)
  from arg_cong [OF s, of lk_Amount] arg_cong [OF s, of lk_Expiration] arg_cong [OF s, of lk_SecretHash]
    arg_cong [OF s, of "CalcLockHash e"] arg_cong [OF s, of "lk_LockHash_update (\<lambda>_. h)"]
  show "lk_Amount l = lk_Amount m" "lk_Expiration l = lk_Expiration m" "lk_SecretHash l = lk_SecretHash m"
    "CalcLockHash e l = CalcLockHash e m" "l\<lparr>lk_LockHash := h\<rparr> = m\<lparr>lk_LockHash := h\<rparr>" by simp_all
qed

lemma same_lock_stored:
  assumes "same_lock l m"
  shows "ValidLockedTransferCheck e cs s r n bp l = ValidLockedTransferCheck e cs s r n bp m"
    "storePartnerLock e cs bp t l = storePartnerLock e cs bp t m"
  unfolding ValidLockedTransferCheck_def storePartnerLock_def same_lockD [OF assms] by (rule refl)+

lemma same_proofD:
  assumes "same_proof (es_BalanceProof x) (es_BalanceProof y)"
  shows "transferred x = transferred y" "getNextNonce x = getNextNonce y"
  using assms by (auto simp: same_proof_def transferred_def getNextNonce_def split: option.splits)

lemma same_viewD:
  assumes "same_view x y"
  shows "transferred x = transferred y" "getNextNonce x = getNextNonce y"
    "lock_hashes (pending x) = lock_hashes (pending y)" "getAmountLocked x = getAmountLocked y"
    "lock_sum (pending x) = lock_sum (pending y)" "es_Address x = es_Address y"
    "es_ContractBalance x = es_ContractBalance y" "es_TotalWithdraw x = es_TotalWithdraw y"
    "mset (pending x) = mset (pending y)"
  using assms same_proofD [of x y] lock_perm(1-3) [of "pending x" "pending y"]
  by (auto simp: same_view_def getAmountLocked_pending)

lemma same_view_sym: "same_view x y \<Longrightarrow> same_view y x"
  by (auto simp: same_view_def same_proof_def split: option.splits)

lemma same_view_GetLock:
  assumes "same_view x y" and "wf_end e x" and "wf_end e y"
  shows "GetLock x = GetLock y"
proof -
  have "distinct (map fst (pending x))" "distinct (map fst (pending y))"
    using assms(2,3) by (simp_all add: wf_end_def locks_ok_def)
  with mset_eq_setD [OF same_viewD(9) [OF assms(1)]] show ?thesis
    by (auto simp: GetLock_pending fun_eq_iff intro: map_of_inject_set [THEN iffD2, THEN fun_cong])
qed

lemma same_view_distributable:
  assumes "same_view x y" and "same_view x' y'" and "wf_end e x" and "wf_end e y"
  shows "GetDistributable x x' = GetDistributable y y'"
  using getCurrentBalanceProof_wf [OF assms(3)] getCurrentBalanceProof_wf [OF assms(4)]
    same_viewD [OF assms(1)] same_viewD [OF assms(2)]
  by (simp add: GetDistributable_def getBalance_transferred)

lemma same_view_root:
  assumes "same_view x y" and "wf_end e x" and "wf_end e y"
  shows "bd_locksRoot (getCurrentBalanceProof x) = bd_locksRoot (getCurrentBalanceProof y)"
  using getCurrentBalanceProof_wf(3) [OF assms(2)] getCurrentBalanceProof_wf(3) [OF assms(3)]
    same_viewD(3) [OF assms(1)] by simp

lemma same_view_pays:
  assumes "same_view x y" and "pays e n x x'" and "pays e n y y'"
  shows "same_view x' y'"
  using assms(2,3) same_viewD [OF assms(1)] by (auto simp: pays_def same_view_def same_proof_def)

lemma mset_pending_locks:
  assumes "wf_end e a" and "locks e l a a'" and "GetLock a (lk_SecretHash l) = None"
  shows "mset (pending a') = add_mset (lk_SecretHash l, l) (mset (pending a))"
proof -
  have "smap_load (es_LockedLocks a) (lk_SecretHash l) = None"
    using assms(3) by (simp add: GetLock_def split: option.splits)
  from pending_Store_Locked [OF wf_end_smap_ok(1) [OF assms(1)] this, of l] assms(2)
  show ?thesis by (auto simp: locks_def Let_def pending_def)
qed

lemma locks_fields:
  assumes "locks e l a a'"
  shows "es_Address a' = es_Address a" "es_ContractBalance a' = es_ContractBalance a"
    "es_TotalWithdraw a' = es_TotalWithdraw a"
    "\<exists>bp. es_BalanceProof a' = Some bp \<and> bp_Nonce bp = getNextNonce a \<and> bp_TransferredAmount bp = transferred a"
  using assms by (auto simp: locks_def Let_def)

lemma same_view_locks:
  assumes "same_view x y" and "locks e l x x'" and "locks e l y y'" and "wf_end e x" and "wf_end e y"
    and "GetLock x (lk_SecretHash l) = None"
  shows "same_view x' y'"
proof -
  have "GetLock y (lk_SecretHash l) = None" using same_view_GetLock [OF assms(1,4,5)] assms(6) by simp
  note p = mset_pending_locks [OF assms(4,2,6)] mset_pending_locks [OF assms(5,3) this]
  have "mset (pending x') = mset (pending y')" using p same_viewD(9) [OF assms(1)] by simp
  with locks_fields [OF assms(2)] locks_fields [OF assms(3)] same_viewD(1,2,6-8) [OF assms(1)] show ?thesis
    by (auto simp: same_view_def same_proof_def)
qed

lemma same_view_drops:
  assumes "same_view x y" and "drops e l n x x'" and "drops e l n y y'"
  shows "same_view x' y'"
proof -
  have "add_mset (lk_SecretHash l, l) (mset (pending x')) = mset (pending x)"
    "add_mset (lk_SecretHash l, l) (mset (pending y')) = mset (pending y)"
    using assms(2,3) by (auto simp: drops_def Let_def)
  then have "mset (pending x') = mset (pending y')"
    using same_viewD(9) [OF assms(1)] by (metis add_mset_add_mset_same_iff)
  with assms(2,3) same_viewD [OF assms(1)] show ?thesis
    by (auto simp: drops_def Let_def same_view_def same_proof_def same_deposits_def)
qed

lemma mirroredD:
  assumes "mirrored e a b"
  shows "wf_channel e a" "wf_channel e b" "same_view (cs_OurState a) (cs_PartnerState b)"
    "same_view (cs_PartnerState a) (cs_OurState b)"
    "wf_end e (cs_OurState a)" "wf_end e (cs_PartnerState a)" "wf_end e (cs_OurState b)" "wf_end e (cs_PartnerState b)"
    "cs_Identifier a = cs_Identifier b" "cs_TokenNetworkId a = cs_TokenNetworkId b" "cs_ChainId a = cs_ChainId b"
  using assms same_view_sym by (auto simp: mirrored_def wf_channel_def)

lemma mirrored_sym: "mirrored e a b \<longleftrightarrow> mirrored e b a"
  by (auto simp: mirrored_def)

lemma mirrored_update:
  assumes "mirrored e a b" and "same_view x y" and "wf_end e x" and "wf_end e y"
  shows "mirrored e (a\<lparr>cs_OurState := x\<rparr>) (b\<lparr>cs_PartnerState := y\<rparr>)"
  using assms by (simp add: mirrored_def wf_channel_def)

section \<open>Acceptance\<close>

text \<open>A signed proof with the ids of the channel and the next nonce is usable for the partner.\<close>

lemma usable_signed:
  assumes "mirrored e a b" and "GetStatus b = ChannelStateOpened"
    and "signs e (es_Address (cs_OurState a)) (nextProof e a t l r) bp"
  shows "IsBalanceProofUsableOnChain e bp b (cs_PartnerState b) = Inr ()"
  using assms(2,3) mirroredD [OF assms(1)] same_viewD [OF mirroredD(3) [OF assms(1)]]
  by (simp add: IsBalanceProofUsableOnChain_iff signs_def)

lemma direct_agreement:
  assumes "mirrored e a b" and "solvent_channel a" and "GetStatus b = ChannelStateOpened" and "n > 0"
    and "sendDirectTransfer e a n m p = Some (a', ev)"
    and "signs e (es_Address (cs_OurState a))
      (nextProof e a (transferred (cs_OurState a) + n) (getAmountLocked (cs_OurState a))
        (bd_locksRoot (getCurrentBalanceProof (cs_OurState a)))) (rtd_BalanceProof x)"
  defines "b' \<equiv> b\<lparr>cs_PartnerState := (cs_PartnerState b)\<lparr>es_BalanceProof := Some (rtd_BalanceProof x)\<rparr>\<rparr>"
  shows "IsValidDirectTransfer e x b (cs_PartnerState b) (cs_OurState b) = Inr ()"
    "mirrored e a' b'" "bp_TransferredAmount (rtd_BalanceProof x) - transferred (cs_PartnerState b) = n"
proof -
  note m = mirroredD [OF assms(1)] and v = same_viewD [OF mirroredD(3) [OF assms(1)]]
  note c = getCurrentBalanceProof_wf [OF m(8)] and p = sendDirectTransfer_pays [OF assms(5)]
  let ?bp = "rtd_BalanceProof x"
  have bp: "bp_TransferredAmount ?bp = transferred (cs_OurState a) + n"
    "bp_LockedAmount ?bp = getAmountLocked (cs_OurState a)"
    "bp_LocksRoot ?bp = bd_locksRoot (getCurrentBalanceProof (cs_OurState a))"
    using assms(6) by (simp_all add: signs_def)
  have "uint (transferred (cs_OurState a')) = uint (transferred (cs_OurState a)) + uint n"
    using solvent_pays(2) [OF m(5) p(1,3)] assms(2) by (simp add: solvent_channel_def)
  moreover have "transferred (cs_OurState a') = transferred (cs_OurState a) + n"
    using p(1) by (auto simp: pays_def transferred_def)
  moreover have "0 < uint n" using assms(4) by (simp add: word_less_def)
  ultimately have "transferred (cs_OurState a) < transferred (cs_OurState a) + n"
    by (simp add: word_less_def)
  moreover have "n \<le> GetDistributable (cs_PartnerState b) (cs_OurState b)"
    using p(3) same_view_distributable [OF m(3,4,5,8)] by simp
  ultimately show acc: "IsValidDirectTransfer e x b (cs_PartnerState b) (cs_OurState b) = Inr ()"
    using usable_signed [OF assms(1,3,6)] bp v c same_view_root [OF m(3,5,8)]
    by (simp add: IsValidDirectTransfer_iff)
  show n: "bp_TransferredAmount ?bp - transferred (cs_PartnerState b) = n" using bp v by simp
  note q = handleReceiveDirectTransfer_pays(1) [OF m(2) acc, unfolded n]
  have "mirrored e (a\<lparr>cs_OurState := cs_OurState a'\<rparr>) b'"
    unfolding b'_def
    by (intro mirrored_update [OF assms(1)] same_view_pays [OF m(3) p(1) q] wf_pays [OF m(5) p(1)] wf_pays [OF m(8) q])
  with p(2) show "mirrored e a' b'" by simp
qed

lemma locked_agreement:
  assumes "mirrored e a b" and "GetStatus b = ChannelStateOpened"
    and "GetLock (cs_OurState a) h = None" and "h \<noteq> 0"
    and "getNumberOfPendingTransfers (cs_OurState a) < MAXIMUM_PENDING_TRANSFERS"
    and "sendLockedTransfer e a i tg n m p x es h md = Some (a', Some (SendLockedTransfer msg ut))"
    and "signs e (es_Address (cs_OurState a)) (lu_BalanceProof ut) (ls_BalanceProof tr)"
    and "same_lock (ls_Lock tr) (lu_Lock ut)"
  obtains t where "IsValidLockedTransfer e tr b (cs_PartnerState b) (cs_OurState b) = Some (Inr t)"
    and "mirrored e a' (storePartnerLock e b (ls_BalanceProof tr) t (ls_Lock tr))"
proof -
  note m = mirroredD [OF assms(1)] and v = same_viewD [OF mirroredD(3) [OF assms(1)]]
  let ?A = "cs_OurState a" and ?B = "cs_PartnerState b" and ?l = "newLock e n x h"
  obtain t where cr: "createSendLockedTransfer e a i tg n m p x es h md = Some (Inr (msg, ut, t))"
    and a': "a' = storeLockedTransfer a ut t"
    using assms(6) by (auto simp: sendLockedTransfer_def split: Option.bind_split_asm sum.split_asm)
  note c = createSendLockedTransfer_cases [OF m(5) cr] and l = storeLockedTransfer_locks [OF m(5) cr]
  from sendLockedTransfer_eq(1) [OF m(5) c, of i tg m p es md] cr
  have t: "t = tree_of e (insert (lk_LockHash ?l) (lock_hashes (pending ?A)))"
    and ut: "lu_Lock ut = ?l"
      "lu_BalanceProof ut = nextProof e a (transferred ?A) (getAmountLocked ?A + n) (MerkleRoot (Layers t))"
    by auto
  have "card (insert (lk_LockHash ?l) (lock_hashes (pending ?B))) \<le> MAXIMUM_PENDING_TRANSFERS"
    using assms(5) c(3) wf_endD(2) [OF m(5)] v(3) by (simp add: getNumberOfPendingTransfers_def)
  moreover have "n \<le> GetDistributable ?B (cs_OurState b)"
    using c(1) same_view_distributable [OF m(3,4,5,8)] by simp
  ultimately have ok: "ValidLockedTransferCheck e b ?B (cs_OurState b) ''LockedTransfer'' (ls_BalanceProof tr) ?l
      = Some (Inr t)"
    using usable_signed [OF assms(1,2)] assms(4,7) c(3) v
    by (simp add: ValidLockedTransferCheck_iff [OF m(8)] t ut signs_def)
  note q = storePartnerLock_locks [OF m(2) ok]
  have hash: "?l\<lparr>lk_LockHash := CalcLockHash e ?l\<rparr> = ?l" by (simp add: newLock_def Let_def CalcLockHash_def PackData_def)
  note q' = q(1) [unfolded hash] and p' = l(1) [unfolded ut(1)]
  have gA: "GetLock ?A (lk_SecretHash ?l) = None" using assms(3) by simp
  then have gB: "GetLock ?B (lk_SecretHash ?l) = None" using same_view_GetLock [OF m(3,5,8)] by simp
  have "mirrored e (a\<lparr>cs_OurState := cs_OurState (storeLockedTransfer a ut t)\<rparr>)
      (b\<lparr>cs_PartnerState := cs_PartnerState (storePartnerLock e b (ls_BalanceProof tr) t ?l)\<rparr>)"
    by (intro mirrored_update [OF assms(1)] same_view_locks [OF m(3) p' q' m(5,8) gA]
        wf_locks [OF m(5) p' gA] wf_locks [OF m(8) q' gB])
  with l(2) q(2) a' same_lock_stored(2) [OF assms(8)] ut(1)
  have "mirrored e a' (storePartnerLock e b (ls_BalanceProof tr) t (ls_Lock tr))" by simp
  with that [of t] ok same_lock_stored(1) [OF assms(8)] ut(1) show ?thesis by (simp add: IsValidLockedTransfer_def)
qed

lemma unlock_agreement:
  assumes "mirrored e a b" and "GetStatus b = ChannelStateOpened"
    and "SendUnlock e a m p s (GetHash e s) = Some (a', Some (SendBalanceProof msg p' tk s' h' u))"
    and "signs e (es_Address (cs_OurState a)) u (rul_BalanceProof x)" and "rul_Secret x = s"
  obtains t where "IsValidUnlock e x b (cs_PartnerState b) = Some (cs_PartnerState b, Inr t)"
    and "mirrored e a' (b\<lparr>cs_PartnerState := DelLock ((cs_PartnerState b)\<lparr>es_BalanceProof := Some (rul_BalanceProof x),
           es_MerkleTree := Some t\<rparr>) (GetHash e s)\<rparr>)"
proof -
  note m = mirroredD [OF assms(1)] and v = same_viewD [OF mirroredD(3) [OF assms(1)]]
  let ?A = "cs_OurState a" and ?B = "cs_PartnerState b" and ?h = "GetHash e s"
  obtain l where lA: "GetLock ?A ?h = Some l" using assms(3) by (auto simp: SendUnlock_def split: option.splits)
  then have lB: "GetLock ?B ?h = Some l" using same_view_GetLock [OF m(3,5,8)] by simp
  let ?t = "tree_of e (lock_hashes (pending ?A) - {lk_LockHash l})"
  have u: "u = nextProof e a (transferred ?A + lk_Amount l) (getAmountLocked ?A - lk_Amount l) (MerkleRoot (Layers ?t))"
    using assms(3) SendUnlock_eq [OF m(5) lA, of m p s] by simp
  have ok: "IsValidUnlock e x b ?B = Some (?B, Inr ?t)"
    using IsValidUnlock_iff [OF m(8) lB [folded assms(5)], of b ?B ?t] usable_signed [OF assms(1,2) assms(4) [unfolded u]]
      assms(4) u v by (simp add: signs_def)
  note pA = SendUnlock_drops [OF m(5) lA assms(3)]
  let ?b = "DelLock (?B\<lparr>es_BalanceProof := Some (rul_BalanceProof x), es_MerkleTree := Some ?t\<rparr>) ?h"
  have pB: "drops e l (lk_Amount l) ?B ?b"
    using HandleUnlock_drops [OF m(2) ok] lB assms(5) by (auto simp del: Del_update)
  have "mirrored e (a\<lparr>cs_OurState := cs_OurState a'\<rparr>) (b\<lparr>cs_PartnerState := ?b\<rparr>)"
    by (intro mirrored_update [OF assms(1)] same_view_drops [OF m(3) pA(1) pB] wf_drops [OF m(5) pA(1)] wf_drops [OF m(8) pB])
  with that [OF ok] pA(2) show ?thesis by simp
qed

lemma expired_agreement:
  assumes "mirrored e a b" and "GetStatus b = ChannelStateOpened"
    and "smap_load (es_LockedLocks (cs_PartnerState b)) h = Some l"
    and "smap_load (es_OnChainUnLockedLocks (cs_OurState a)) h = None"
    and "smap_load (es_OnChainUnLockedLocks (cs_OurState b)) h = None"
    and "lk_Expiration l + ucast (ConfirmBlockCount (Config e) - MaxBlockDelay (Config e)) \<le> n"
    and "EventsForExpiredLock e a l m = Some (a', [SendLockExpired msg u h'])"
    and "signs e (es_Address (cs_OurState a)) u (rle_BalanceProof x)" and "rle_SecretHash x = h"
  obtains t where "IsValidLockExpired e x b (cs_PartnerState b) (cs_OurState b) n = Some (cs_PartnerState b, Inr t)"
    and "mirrored e a' (b\<lparr>cs_PartnerState := DelUnclaimedLock ((cs_PartnerState b)\<lparr>
           es_BalanceProof := Some (rle_BalanceProof x), es_MerkleTree := Some t\<rparr>) h\<rparr>)"
proof -
  note m = mirroredD [OF assms(1)] and v = same_viewD [OF mirroredD(3) [OF assms(1)]]
  let ?A = "cs_OurState a" and ?B = "cs_PartnerState b"
  have lB: "GetLock ?B h = Some l" using assms(3) by (simp add: GetLock_def)
  then have lA: "GetLock ?A h = Some l" using same_view_GetLock [OF m(3,5,8)] by simp
  let ?t = "tree_of e (lock_hashes (pending ?A) - {lk_LockHash l})"
  have u: "u = nextProof e a (transferred ?A) (getAmountLocked ?A - lk_Amount l) (MerkleRoot (Layers ?t))"
    using assms(7) EventsForExpiredLock_eq [OF m(5) lA, of m] by simp
  have ok: "IsValidLockExpired e x b ?B (cs_OurState b) n = Some (?B, Inr ?t)"
    using IsValidLockExpired_iff [OF m(8) refl assms(3) [folded assms(9)], of n ?B ?t] assms(5,6,9)
      usable_signed [OF assms(1,2) assms(8) [unfolded u]] assms(8) u v by (simp add: signs_def)
  note pA = EventsForExpiredLock_drops [OF m(5) lA assms(4,7)]
  let ?b = "DelUnclaimedLock (?B\<lparr>es_BalanceProof := Some (rle_BalanceProof x), es_MerkleTree := Some ?t\<rparr>) h"
  have pB: "drops e l 0 ?B ?b"
    using handleReceiveLockExpired_drops [OF m(2) ok] assms(3,9) by (auto simp del: Del_update)
  have "mirrored e (a\<lparr>cs_OurState := cs_OurState a'\<rparr>) (b\<lparr>cs_PartnerState := ?b\<rparr>)"
    by (intro mirrored_update [OF assms(1)] same_view_drops [OF m(3) pA(1) pB] wf_drops [OF m(5) pA(1)] wf_drops [OF m(8) pB])
  with that [OF ok] pA(2) show ?thesis by simp
qed

lemma settle_balance_view:
  assumes "same_view x y" and "same_view x' y'" and "wf_end e x" and "wf_end e y" and "wf_end e x'" and "wf_end e y'"
  shows "calculateCooperativeSettleBalance x x' = calculateCooperativeSettleBalance y y'"
  using same_viewD [OF assms(1)] same_viewD [OF assms(2)] getCurrentBalanceProof_wf [OF assms(3)]
    getCurrentBalanceProof_wf [OF assms(4)] getCurrentBalanceProof_wf [OF assms(5)] getCurrentBalanceProof_wf [OF assms(6)]
  by (simp add: calculateCooperativeSettleBalance_def)

section \<open>A sample pair of peers\<close>

definition sample_channel :: "NettingChannelEndState \<Rightarrow> NettingChannelEndState \<Rightarrow> NettingChannelState" where
  "sample_channel our partner =
     \<lparr>cs_Identifier = 4, cs_ChainId = 1, cs_TokenAddress = 9, cs_PaymentNetworkId = 8, cs_TokenNetworkId = 6,
      cs_RevealTimeout = 20, cs_SettleTimeout = 50, cs_FeeSchedule = None, cs_OurState = our,
      cs_PartnerState = partner, cs_DepositTransactionQueue = [], cs_OpenTransaction = None,
      cs_CloseTransaction = None, cs_SettleTransaction = None, cs_UpdateTransaction = None,
      cs_OurUnlockTransaction = None, cs_WithdrawTransaction = None\<rparr>"

definition sample_signed :: "BalanceProofUnsignedState \<Rightarrow> BalanceProofSignedState" where
  "sample_signed u = (fakeSigned u)\<lparr>bp_PublicKey := [0], bp_Sender := 1\<rparr>"

lemma sample_channel_simps [simp]:
  "cs_OurState (sample_channel a b) = a" "cs_PartnerState (sample_channel a b) = b"
  "cs_Identifier (sample_channel a b) = 4" "cs_DepositTransactionQueue (sample_channel a b) = []"
  "cs_SettleTransaction (sample_channel a b) = None" "cs_CloseTransaction (sample_channel a b) = None"
  "GetStatus (sample_channel a b) = ChannelStateOpened"
  by (simp_all add: sample_channel_def GetStatus_def)

lemma sample_signs: "signs sample_env 1 u (sample_signed u)"
  by (simp add: signs_def sample_signed_def bp_signed_def signed_by_def) (simp add: fakeSigned_def)

lemma same_view_refl [simp]: "same_view x x"
  by (simp add: same_view_def same_proof_def split: option.split)

abbreviation sample1 :: NettingChannelState where
  "sample1 \<equiv> sample_channel sample_side1 sample_side2"

abbreviation sample2 :: NettingChannelState where
  "sample2 \<equiv> sample_channel sample_side2 sample_side1"

lemma sample_mirrored [simp]: "mirrored sample_env sample1 sample2"
  by (simp add: mirrored_def wf_channel_def) (simp add: sample_channel_def)

lemma sample_safe [simp]: "safe sample_env 1000 sample1"
  by (simp add: safe_def wf_channel_def solvent_channel_def deposits_ok_def)

lemma sample_distributable: "(n :: u64) \<le> 70 \<Longrightarrow> n \<le> GetDistributable sample_side1 sample_side2"
  using GetDistributable_exact [of sample_env sample_side1 sample_side2]
  by (simp add: word_le_def sample_lock_def)

end
