(* ===== verification/Pylons_Messages.thy ===== *)
theory Pylons_Messages
  imports Pylons_Protocol
begin

text \<open>
  The five kinds of message that carry a balance proof, delivered to their handlers, and what the
  sequence of accepted messages looks like: signed by the partner, in an open channel, with
  consecutive nonces. The sequence numbers are an interface of their own, the locale \<open>sequenced\<close>.
\<close>

section \<open>Sequence numbers\<close>

primrec accept_all :: "('s \<Rightarrow> 'm \<Rightarrow> 's option) \<Rightarrow> 's \<Rightarrow> 'm list \<Rightarrow> 's option" where
  "accept_all f s [] = Some s"
| "accept_all f s (m # ms) = (case f s m of None \<Rightarrow> None | Some s' \<Rightarrow> accept_all f s' ms)"

locale sequenced =
  fixes accept :: "'s \<Rightarrow> 'm \<Rightarrow> 's option"
    and seqno :: "'m \<Rightarrow> u64"
    and expected :: "'s \<Rightarrow> u64"
  assumes accept_now: "accept s m = Some s' \<Longrightarrow> seqno m = expected s"
    and accept_next: "accept s m = Some s' \<Longrightarrow> expected s' = seqno m + 1"
begin

lemma no_replay:
  assumes "accept s m = Some s'"
  shows "accept s' m = None"
proof (rule ccontr)
  assume "accept s' m \<noteq> None"
  then have "seqno m = expected s'" using accept_now by blast
  with accept_next [OF assms] have "seqno m = seqno m + 1" by simp
  then show False by simp
qed

lemma run_seqnos:
  "accept_all accept s ms = Some s' \<Longrightarrow>
     map seqno ms = map (\<lambda>i. expected s + of_nat i) [0..<length ms] \<and> expected s' = expected s + of_nat (length ms)"
proof (induction ms arbitrary: s)
  case (Cons m ms)
  then obtain s1 where s1: "accept s m = Some s1" "accept_all accept s1 ms = Some s'"
    by (auto split: option.splits)
  note now = accept_now [OF s1(1)] accept_next [OF s1(1)]
  from Cons.IH [OF s1(2)] now
  have "map seqno ms = map (\<lambda>i. expected s + of_nat (Suc i)) [0..<length ms]"
    "expected s' = expected s + of_nat (length (m # ms))" by (simp_all add: algebra_simps)
  moreover have "[0..<length (m # ms)] = 0 # map Suc [0..<length ms]"
    by (simp add: upt_conv_Cons map_Suc_upt del: upt_Suc)
  ultimately show ?case using now by (simp add: comp_def del: upt_Suc)
qed simp

end

section \<open>Delivery of messages\<close>

datatype (plugins only: code) Message =
    MDirect ReceiveTransferDirect
  | MLocked LockedTransferSignedState
  | MRefund LockedTransferUnsignedState ReceiveTransferRefund
  | MUnlock ReceiveUnlock
  | MExpired ReceiveLockExpired BlockHeight

fun message_proof :: "Message \<Rightarrow> BalanceProofSignedState" where
  "message_proof (MDirect x) = rtd_BalanceProof x"
| "message_proof (MLocked tr) = ls_BalanceProof tr"
| "message_proof (MRefund ut rf) = ls_BalanceProof (rtr_Transfer rf)"
| "message_proof (MUnlock u) = rul_BalanceProof u"
| "message_proof (MExpired x n) = rle_BalanceProof x"

fun deliver :: "env \<Rightarrow> NettingChannelState \<Rightarrow> Message \<Rightarrow> (NettingChannelState \<times> Event list) option" where
  "deliver e cs (MDirect x) = (let (r, evs) = handleReceiveDirectTransfer e cs x in Some (the_channel r, evs))"
| "deliver e cs (MLocked tr) = map_option (\<lambda>(cs', evs, err). (cs', evs)) (HandleReceiveLockedTransfer e cs tr)"
| "deliver e cs (MRefund ut rf) = map_option (\<lambda>(cs', evs, err). (cs', evs)) (handleRefundTransfer e ut cs rf)"
| "deliver e cs (MUnlock u) = map_option (\<lambda>(cs', ok, evs, err). (cs', evs)) (HandleUnlock e cs u)"
| "deliver e cs (MExpired x n) = map_option (\<lambda>(r, evs). (the_channel r, evs)) (handleReceiveLockExpired e cs x n)"

text \<open>A message is acknowledged when its handler emits \<open>SendProcessed\<close>.\<close>

fun is_processed :: "Event \<Rightarrow> bool" where
  "is_processed (SendProcessed m) = True"
| "is_processed _ = False"

definition accept :: "env \<Rightarrow> NettingChannelState \<Rightarrow> Message \<Rightarrow> NettingChannelState option" where
  "accept e cs msg =
     (case deliver e cs msg of
        Some (cs', evs) \<Rightarrow> if list_ex is_processed evs then Some cs' else None
      | None \<Rightarrow> None)"

lemma is_processed_errors [simp]:
  "\<not> is_processed (EventTransferReceivedInvalidDirectTransfer p x)"
  "\<not> is_processed (EventInvalidReceivedLockedTransfer p x)"
  "\<not> is_processed (EventInvalidReceivedTransferRefund p x)"
  "\<not> is_processed (EventInvalidReceivedUnlock h x)"
  "\<not> is_processed (EventInvalidReceivedLockExpired h x)"
  by simp_all

lemma usable_locked:
  "ValidLockedTransferCheck e cs s r m bp lock = Some (Inr t) \<Longrightarrow> IsBalanceProofUsableOnChain e bp cs s = Inr ()"
  by (auto simp: ValidLockedTransferCheck_def Let_def split: Option.bind_split_asm sum.split_asm)

lemma usable_unlock:
  "IsValidUnlock e u cs s = Some (s', Inr t) \<Longrightarrow> IsBalanceProofUsableOnChain e (rul_BalanceProof u) cs s = Inr ()"
  by (auto simp: IsValidUnlock_def Let_def split: option.split_asm Option.bind_split_asm sum.split_asm)

lemma usable_expired:
  "IsValidLockExpired e x cs s r n = Some (s', Inr t) \<Longrightarrow>
     IsBalanceProofUsableOnChain e (rle_BalanceProof x) cs s = Inr ()"
  by (auto simp: IsValidLockExpired_def Let_def split: option.split_asm Option.bind_split_asm sum.split_asm if_split_asm)

lemma accept_cases:
  assumes "accept e cs msg = Some cs'"
  shows "IsBalanceProofUsableOnChain e (message_proof msg) cs (cs_PartnerState cs) = Inr ()"
    "es_BalanceProof (cs_PartnerState cs') = Some (message_proof msg)"
    "cs_OurState cs' = cs_OurState cs"
proof -
  have "IsBalanceProofUsableOnChain e (message_proof msg) cs (cs_PartnerState cs) = Inr ()
     \<and> es_BalanceProof (cs_PartnerState cs') = Some (message_proof msg) \<and> cs_OurState cs' = cs_OurState cs"
  proof (cases msg)
    case (MDirect x)
    with assms show ?thesis
      by (auto simp: accept_def handleReceiveDirectTransfer_def Let_def IsValidDirectTransfer_iff
          split: sum.split_asm)
  next
    case (MLocked tr)
    with assms show ?thesis
      by (auto simp: accept_def HandleReceiveLockedTransfer_def IsValidLockedTransfer_def storePartnerLock_def Let_def
          split: Option.bind_split_asm sum.split_asm dest!: usable_locked)
  next
    case (MRefund ut rf)
    with assms show ?thesis
      by (auto simp: accept_def handleRefundTransfer_def IsValidRefund_def storePartnerLock_def Let_def
          split: Option.bind_split_asm sum.split_asm if_split_asm dest!: usable_locked)
  next
    case (MUnlock u)
    with assms show ?thesis
      by (auto simp: accept_def HandleUnlock_def Let_def
          split: Option.bind_split_asm sum.split_asm dest!: usable_unlock)
  next
    case (MExpired x n)
    with assms show ?thesis
      by (auto simp: accept_def handleReceiveLockExpired_def Let_def
          split: Option.bind_split_asm sum.split_asm dest!: usable_expired)
  qed
  then show "IsBalanceProofUsableOnChain e (message_proof msg) cs (cs_PartnerState cs) = Inr ()"
    "es_BalanceProof (cs_PartnerState cs') = Some (message_proof msg)"
    "cs_OurState cs' = cs_OurState cs" by simp_all
qed

interpretation msgs: sequenced "accept e" "bp_Nonce \<circ> message_proof" "getNextNonce \<circ> cs_PartnerState" for e
proof
  fix s m s'
  assume a: "accept e s m = Some s'"
  show "(bp_Nonce \<circ> message_proof) m = (getNextNonce \<circ> cs_PartnerState) s"
    using accept_cases(1) [OF a] by (simp add: pylons_defs)
  show "(getNextNonce \<circ> cs_PartnerState) s' = (bp_Nonce \<circ> message_proof) m + 1"
    using accept_cases(2) [OF a] by (simp add: getNextNonce_def)
qed

lemma IsValidRefund_total:
  assumes "wf_end e s"
  shows "\<exists>r'. IsValidRefund e rf cs s r ut = Some r'"
proof -
  obtain v where "ValidLockedTransferCheck e cs s r ''RefundTransfer'' (ls_BalanceProof (rtr_Transfer rf))
      (ls_Lock (rtr_Transfer rf)) = Some v"
    using ValidLockedTransferCheck_total [OF assms] by blast
  then show ?thesis by (cases v) (simp_all add: IsValidRefund_def)
qed

lemma deliver_rejected:
  assumes "wf_channel e cs"
  shows "\<exists>cs' evs. deliver e cs msg = Some (cs', evs) \<and> (list_ex is_processed evs \<or> cs' = cs)"
proof (cases msg)
  case (MDirect x)
  then show ?thesis by (auto simp: handleReceiveDirectTransfer_def Let_def split: sum.split)
next
  case (MLocked tr)
  obtain r where "IsValidLockedTransfer e tr cs (cs_PartnerState cs) (cs_OurState cs) = Some r"
    using ValidLockedTransferCheck_total [OF wf_channelD(2) [OF assms]] unfolding IsValidLockedTransfer_def by blast
  with MLocked show ?thesis by (auto simp: HandleReceiveLockedTransfer_def split: sum.split)
next
  case (MRefund ut rf)
  obtain r where "IsValidRefund e rf cs (cs_PartnerState cs) (cs_OurState cs) ut = Some r"
    using IsValidRefund_total [OF wf_channelD(2) [OF assms]] by blast
  with MRefund show ?thesis by (auto simp: handleRefundTransfer_def split: sum.split)
next
  case (MUnlock u)
  obtain r where "IsValidUnlock e u cs (cs_PartnerState cs) = Some (cs_PartnerState cs, r)"
    using IsValidUnlock_state [OF wf_channelD(2) [OF assms]] by blast
  with MUnlock show ?thesis by (cases r) (simp_all add: HandleUnlock_def)
next
  case (MExpired x n)
  obtain r where "IsValidLockExpired e x cs (cs_PartnerState cs) (cs_OurState cs) n = Some (cs_PartnerState cs, r)"
    using IsValidLockExpired_state [OF wf_channelD(2) [OF assms]] by blast
  with MExpired show ?thesis by (cases r) (simp_all add: handleReceiveLockExpired_def)
qed

end
