(* ===== verification/Pylons_Tasks.thy ===== *)
theory Pylons_Tasks
  imports Pylons_Messages
begin

text \<open>
  What the payment tasks share: the state of an initiator, a mediator and a target (\<open>transfer/state.go\<close>), the
  state changes that concern a payment (\<open>transfer/statechange.go\<close>), and the two functions on expiration
  and on-chain registration that all tasks call (\<open>transfer/mediator.go\<close>).
\<close>

section \<open>Data\<close>

text \<open>
  \<open>is_RevealSecret\<close> is the message \<open>SendSecretReveal\<close> once it was sent: its header, the secret and its
  hash.
\<close>

record InitiatorTransferState =
  is_TransferDescription :: TransferDescriptionWithSecretState
  is_ChannelId :: ChannelID
  is_Transfer :: LockedTransferUnsignedState
  is_RevealSecret :: "(SendMessageEvent \<times> Secret \<times> SecretHash) option"
  is_ReceivedSecretRequest :: bool

record InitiatorPaymentState =
  ip_Initiator :: "InitiatorTransferState option"
  ip_CancelledChannels :: "ChannelID list"

record TargetTransferState =
  tg_Route :: RouteState
  tg_Transfer :: LockedTransferSignedState
  tg_Secret :: "Secret option"
  tg_State :: string

text \<open>
  A mediator keeps one pair per transfer it has passed on: the transfer received from the payer and the
  one sent to the payee, each with its state, a string as in the code. The transfer it could not pass
  on is the waiting transfer.
\<close>

record MediationPairState =
  mp_PayeeAddress :: Address
  mp_PayeeTransfer :: LockedTransferUnsignedState
  mp_PayeeState :: string
  mp_PayerTransfer :: LockedTransferSignedState
  mp_PayerState :: string

record WaitingTransferState =
  wt_Transfer :: LockedTransferSignedState
  wt_State :: string

record MediatorTransferState =
  ms_SecretHash :: SecretHash
  ms_Secret :: "Secret option"
  ms_TransfersPair :: "MediationPairState list"
  ms_WaitingTransfer :: "WaitingTransferState option"

record ActionInitInitiator =
  aii_TransferDescription :: TransferDescriptionWithSecretState
  aii_Routes :: "RouteState list"

record ActionInitMediator =
  aim_Routes :: "RouteState list"
  aim_FromRoute :: RouteState
  aim_FromTransfer :: LockedTransferSignedState

record ActionInitTarget =
  ait_Route :: RouteState
  ait_Transfer :: LockedTransferSignedState

record ActionCancelRoute =
  acr_RegistryAddress :: Address
  acr_ChannelId :: ChannelID
  acr_Routes :: "RouteState list"

record ReceiveSecretRequest =
  rsq_PaymentId :: PaymentID
  rsq_Amount :: PaymentAmount
  rsq_Expiration :: BlockExpiration
  rsq_SecretHash :: SecretHash
  rsq_Sender :: Address
  rsq_MessageId :: MessageID

record ReceiveSecretReveal =
  rsr_Secret :: Secret
  rsr_Sender :: Address
  rsr_MessageId :: MessageID

record ReceiveTransferRefundCancelRoute =
  rrc_Transfer :: LockedTransferSignedState
  rrc_Routes :: "RouteState list"
  rrc_SecretHash :: SecretHash
  rrc_Secret :: Secret

text \<open>The state changes the dispatchers of the tasks switch on.\<close>

datatype (plugins only: code) TaskChange =
    TC_Block BlockHeight
  | TC_ActionInitInitiator ActionInitInitiator
  | TC_ActionInitMediator ActionInitMediator
  | TC_ActionInitTarget ActionInitTarget
  | TC_ActionCancelRoute ActionCancelRoute
  | TC_ActionCancelPayment PaymentID
  | TC_ReceiveSecretRequest ReceiveSecretRequest
  | TC_ReceiveSecretReveal ReceiveSecretReveal
  | TC_ReceiveTransferRefund ReceiveTransferRefund
  | TC_ReceiveTransferRefundCancelRoute ReceiveTransferRefundCancelRoute
  | TC_ReceiveUnlock ReceiveUnlock
  | TC_ReceiveLockExpired ReceiveLockExpired
  | TC_ContractReceiveSecretReveal ContractReceiveSecretReveal

section \<open>Expiration\<close>

text \<open>
  \<open>MdIsSafeToWait\<close> returns an error when it is not safe to wait. Block heights have 32 bits, timeouts
  are signed machine integers.
\<close>

definition MdIsSafeToWait :: "BlockExpiration \<Rightarrow> BlockTimeout \<Rightarrow> BlockHeight \<Rightarrow> error + unit" where
  "MdIsSafeToWait lockExpiration revealTimeout blockNumber =
     (if ucast lockExpiration < blockNumber
      then Inl (LockHasExpired lockExpiration blockNumber)
      else let lockTimeout = ucast lockExpiration - blockNumber :: BlockHeight
           in if sint (ucast lockTimeout :: BlockTimeout) > sint revealTimeout then Inr ()
              else Inl (LockTimeoutUnsafe revealTimeout lockTimeout lockExpiration blockNumber))"

definition EventsForOnChainSecretReveal ::
  "NettingChannelState \<Rightarrow> Secret \<Rightarrow> BlockExpiration \<Rightarrow> Event list" where
  "EventsForOnChainSecretReveal cs secret expiration =
     (let st = GetStatus cs
      in if st = ChannelStateClosed \<or> st = ChannelStateOpened \<or> st = ChannelStateClosing
         then [ContractSendSecretReveal expiration secret] else [])"

text \<open>For a lock of the program, it is safe to wait exactly when more than the reveal timeout remains.\<close>

lemma MdIsSafeToWait_iff:
  "MdIsSafeToWait (ucast (x :: BlockHeight)) t n = Inr () \<longleftrightarrow> uint n \<le> uint x \<and> sint t < uint x - uint n"
proof -
  have u: "ucast (ucast x :: BlockExpiration) = x" by transfer simp
  have s: "sint (ucast y :: BlockTimeout) = uint y" for y :: BlockHeight
    by transfer (simp add: signed_take_bit_eq_if_positive bit_take_bit_iff)
  show ?thesis
    using uint_sub_if' [of x n] by (auto simp: MdIsSafeToWait_def u s word_less_def word_le_def Let_def)
qed

end
