(* ===== verification/Pylons_Target.thy ===== *)
theory Pylons_Target
  imports Pylons_Tasks
begin

text \<open>
  The target of a payment (\<open>transfer/mediated_target.go\<close>). A handler changes the channel the payment
  comes in on and returns the new state of the task and the events; the task state \<open>None\<close> ends the
  task. The outer option is the panic of the Go code. \<open>msgId\<close> is the id \<open>common.GetMsgID()\<close> draws.
\<close>

section \<open>Handlers\<close>

type_synonym TargetResult = "NettingChannelState \<times> TargetTransferState option \<times> Event list"

definition DefaultNumberOfBlockConfirmations :: BlockHeight where
  "DefaultNumberOfBlockConfirmations = 5"

definition TgEventsForOnChainSecretReveal ::
  "TargetTransferState \<Rightarrow> NettingChannelState \<Rightarrow> BlockHeight \<Rightarrow> TargetTransferState \<times> Event list" where
  "TgEventsForOnChainSecretReveal targetState cs blockNumber =
     (let lock = ls_Lock (tg_Transfer targetState);
          expiration = ucast (lk_Expiration lock);
          err = MdIsSafeToWait expiration (cs_RevealTimeout cs) blockNumber;
          secretKnownOffChain = IsSecretKnownOffChain (cs_PartnerState cs) (lk_SecretHash lock);
          hasOnchainRevealStarted = (tg_State targetState = ''onchain_secret_reveal'')
      in if err \<noteq> Inr () \<and> secretKnownOffChain \<and> \<not> hasOnchainRevealStarted
         then (targetState\<lparr>tg_State := ''onchain_secret_reveal''\<rparr>,
               EventsForOnChainSecretReveal cs (GetSecret (cs_PartnerState cs) (lk_SecretHash lock)) expiration)
         else (targetState, []))"

text \<open>
  The message the target sends towards the initiator once it knows the secret. Its field \<open>SecretHash\<close> is
  not set.
\<close>

definition revealTo :: "RouteState \<Rightarrow> MessageID \<Rightarrow> Secret \<Rightarrow> Event" where
  "revealTo route msgId secret =
     SendSecretReveal \<lparr>sm_Recipient = rt_NodeAddress route, sm_ChannelId = rt_ChannelId route,
       sm_MessageId = msgId\<rparr> secret 0"

text \<open>
  \<open>HandleInitTarget\<close>: the variable \<open>err\<close> that decryption and the two tests after it assign is
  declared anew in the inner block; the outer one, whose message is read at the end, is nil there. All
  three failures are therefore panics.
\<close>

definition HandleInitTarget ::
  "env \<Rightarrow> ActionInitTarget \<Rightarrow> NettingChannelState \<Rightarrow> BlockHeight \<Rightarrow> MessageID \<Rightarrow> TargetResult option" where
  "HandleInitTarget e stateChange cs blockNumber msgId =
     (let transfer = ait_Transfer stateChange; lock = ls_Lock transfer
      in do { (cs1, channelEvents, err) \<leftarrow> HandleReceiveLockedTransfer e cs transfer;
              let failed = (\<lambda>reason. Some (cs1, None,
                    channelEvents @ [EventUnlockClaimFailed (ls_PaymentId transfer) (lk_SecretHash lock) reason]));
              (case err of
                 Some reason \<Rightarrow> failed reason
               | None \<Rightarrow>
                  (case MdIsSafeToWait (ucast (lk_Expiration lock)) (cs_RevealTimeout cs1) blockNumber of
                     Inl _ \<Rightarrow> failed (Msg ''not safe to wait'')
                   | Inr _ \<Rightarrow>
                      (case Decrypt e (ls_EncSecret transfer) of
                         None \<Rightarrow> None
                       | Some secret \<Rightarrow>
                           (let secretHash = GetHash e secret
                            in if secretHash = lk_SecretHash lock
                               then if \<not> TransferExpired e transfer cs1 blockNumber
                                    then Some (RegisterOffChainSecret cs1 secret secretHash,
                                           Some \<lparr>tg_Route = ait_Route stateChange, tg_Transfer = transfer,
                                                 tg_Secret = Some secret, tg_State = ''reveal_secret''\<rparr>,
                                           channelEvents @ [revealTo (ait_Route stateChange) msgId secret])
                                    else None
                               else None)))) })"

definition TgHandleOffChainSecretReveal ::
  "env \<Rightarrow> TargetTransferState \<Rightarrow> ReceiveSecretReveal \<Rightarrow> NettingChannelState \<Rightarrow> BlockHeight \<Rightarrow> MessageID
     \<Rightarrow> TargetResult" where
  "TgHandleOffChainSecretReveal e targetState stateChange cs blockNumber msgId =
     (let secretHash = sha256 e (rsr_Secret stateChange);
          validSecret = (secretHash = lk_SecretHash (ls_Lock (tg_Transfer targetState)));
          hasTransferExpired = TransferExpired e (tg_Transfer targetState) cs blockNumber
      in if validSecret \<and> \<not> hasTransferExpired
         then (RegisterOffChainSecret cs (rsr_Secret stateChange) secretHash,
               Some (targetState\<lparr>tg_State := ''reveal_secret'', tg_Secret := Some (rsr_Secret stateChange)\<rparr>),
               [SendProcessed \<lparr>sm_Recipient = rsr_Sender stateChange, sm_ChannelId = ChannelIdGlobalQueue,
                  sm_MessageId = rsr_MessageId stateChange\<rparr>,
                revealTo (tg_Route targetState) msgId (rsr_Secret stateChange)])
         else (cs, Some targetState, []))"

definition TgHandleOnChainSecretReveal ::
  "TargetTransferState \<Rightarrow> ContractReceiveSecretReveal \<Rightarrow> NettingChannelState \<Rightarrow> TargetResult" where
  "TgHandleOnChainSecretReveal targetState stateChange cs =
     (if csr_SecretHash stateChange = lk_SecretHash (ls_Lock (tg_Transfer targetState))
      then (RegisterOnChainSecret cs (csr_Secret stateChange) (csr_SecretHash stateChange)
              (csr_BlockHeight stateChange) True,
            Some (targetState\<lparr>tg_State := ''reveal_secret'', tg_Secret := Some (csr_Secret stateChange)\<rparr>), [])
      else (cs, Some targetState, []))"

text \<open>A nil task is read by \<open>TgHandleUnlock\<close> only when the message is valid.\<close>

definition TgHandleUnlock ::
  "env \<Rightarrow> TargetTransferState option \<Rightarrow> ReceiveUnlock \<Rightarrow> NettingChannelState \<Rightarrow> TargetResult option" where
  "TgHandleUnlock e targetState stateChange cs =
     do { (cs1, isValid, events, _) \<leftarrow> HandleUnlock e cs stateChange;
          (if isValid
           then do { ts \<leftarrow> targetState;
                     let transfer = tg_Transfer ts;
                     Some (cs1, None, events @
                       [EventPaymentReceivedSuccess (cs_PaymentNetworkId cs1) (cs_TokenNetworkId cs1)
                          (ls_PaymentId transfer) (lk_Amount (ls_Lock transfer)) (ls_Initiator transfer),
                        EventUnlockClaimSuccess (ls_PaymentId transfer) (lk_SecretHash (ls_Lock transfer))]) }
           else Some (cs1, targetState, events)) }"

definition TgHandleBlock ::
  "TargetTransferState \<Rightarrow> NettingChannelState \<Rightarrow> BlockHeight \<Rightarrow> TargetResult" where
  "TgHandleBlock targetState cs blockNumber =
     (let transfer = tg_Transfer targetState;
          lock = ls_Lock transfer;
          secretKnown = IsSecretKnown (cs_PartnerState cs) (lk_SecretHash lock);
          lockHasExpired = (IsLockExpired (cs_OurState cs) lock blockNumber
                              (lk_Expiration lock + DefaultNumberOfBlockConfirmations) = Inr ())
      in if lockHasExpired \<and> tg_State targetState \<noteq> ''expired''
         then (cs, Some (targetState\<lparr>tg_State := ''expired''\<rparr>),
               [EventUnlockClaimFailed (ls_PaymentId transfer) (lk_SecretHash lock) (Msg ''lock expired'')])
         else if secretKnown
         then (let (ts, events) = TgEventsForOnChainSecretReveal targetState cs blockNumber
               in (cs, Some ts, events))
         else (cs, Some targetState, []))"

definition TgHandleLockExpired ::
  "env \<Rightarrow> TargetTransferState \<Rightarrow> ReceiveLockExpired \<Rightarrow> NettingChannelState \<Rightarrow> BlockHeight \<Rightarrow> TargetResult option"
where
  "TgHandleLockExpired e targetState stateChange cs blockNumber =
     do { (result, events) \<leftarrow> handleReceiveLockExpired e cs stateChange blockNumber;
          let cs1 = the_channel result;
          let transfer = tg_Transfer targetState;
          (if GetLock (cs_PartnerState cs1) (lk_SecretHash (ls_Lock transfer)) \<noteq> None
           then Some (cs1, None, events @
                  [EventUnlockClaimFailed (ls_PaymentId transfer) (lk_SecretHash (ls_Lock transfer))
                     (Msg ''Lock expired'')])
           else Some (cs1, Some targetState, events)) }"

text \<open>
  The dispatcher. A nil iteration (a second \<open>ActionInitTarget\<close>, or a state change it does not know) is
  \<open>Some (cs, None)\<close>; an iteration is \<open>Some (cs', Some (task, events))\<close>. Every handler but the first and
  \<open>TgHandleUnlock\<close> reads the task at once, which panics when it is nil.
\<close>

definition TgStateTransition ::
  "env \<Rightarrow> TargetTransferState option \<Rightarrow> TaskChange \<Rightarrow> NettingChannelState \<Rightarrow> BlockHeight \<Rightarrow> MessageID
     \<Rightarrow> (NettingChannelState \<times> (TargetTransferState option \<times> Event list) option) option"
where
  "TgStateTransition e targetState stateChange cs blockNumber msgId =
     (let iteration = map_option (\<lambda>(cs', ts, events). (cs', Some (ts, events)))
      in case stateChange of
           TC_ActionInitTarget x \<Rightarrow>
             if targetState = None then iteration (HandleInitTarget e x cs blockNumber msgId) else Some (cs, None)
         | TC_Block height \<Rightarrow>
             iteration (do { ts \<leftarrow> targetState; Some (TgHandleBlock ts cs height) })
         | TC_ReceiveSecretReveal x \<Rightarrow>
             iteration (do { ts \<leftarrow> targetState; Some (TgHandleOffChainSecretReveal e ts x cs blockNumber msgId) })
         | TC_ContractReceiveSecretReveal x \<Rightarrow>
             iteration (do { ts \<leftarrow> targetState; Some (TgHandleOnChainSecretReveal ts x cs) })
         | TC_ReceiveUnlock x \<Rightarrow> iteration (TgHandleUnlock e targetState x cs)
         | TC_ReceiveLockExpired x \<Rightarrow>
             iteration (do { ts \<leftarrow> targetState; TgHandleLockExpired e ts x cs blockNumber })
         | _ \<Rightarrow> Some (cs, None))"

section \<open>Effect on the channel\<close>

lemma step_refl: "(channel_step e N)\<^sup>*\<^sup>* cs cs" by simp

lemma HandleInitTarget_cases:
  assumes "HandleInitTarget e x cs n m = Some (cs', ts, evs)"
  obtains (failed) channelEvents err reason where
      "HandleReceiveLockedTransfer e cs (ait_Transfer x) = Some (cs', channelEvents, err)" and "ts = None"
      and "evs = channelEvents @ [EventUnlockClaimFailed (ls_PaymentId (ait_Transfer x))
             (lk_SecretHash (ls_Lock (ait_Transfer x))) reason]"
  | (started) cs1 channelEvents secret where
      "HandleReceiveLockedTransfer e cs (ait_Transfer x) = Some (cs1, channelEvents, None)"
      and "Decrypt e (ls_EncSecret (ait_Transfer x)) = Some secret"
      and "GetHash e secret = lk_SecretHash (ls_Lock (ait_Transfer x))"
      and "\<not> TransferExpired e (ait_Transfer x) cs1 n"
      and "cs' = RegisterOffChainSecret cs1 secret (GetHash e secret)"
      and "ts = Some \<lparr>tg_Route = ait_Route x, tg_Transfer = ait_Transfer x, tg_Secret = Some secret,
             tg_State = ''reveal_secret''\<rparr>"
      and "evs = channelEvents @ [revealTo (ait_Route x) m secret]"
proof -
  obtain cs1 ce err where r: "HandleReceiveLockedTransfer e cs (ait_Transfer x) = Some (cs1, ce, err)"
    using assms by (auto simp: HandleInitTarget_def Let_def split: Option.bind_split_asm)
  show ?thesis
  proof (cases err)
    case (Some reason)
    with assms r that(1) show ?thesis by (auto simp: HandleInitTarget_def Let_def)
  next
    case None
    show ?thesis
    proof (cases "MdIsSafeToWait (ucast (lk_Expiration (ls_Lock (ait_Transfer x)))) (cs_RevealTimeout cs1) n")
      case (Inl y)
      with assms r None that(1) show ?thesis by (auto simp: HandleInitTarget_def Let_def)
    next
      case (Inr u)
      with assms r None that(2) show ?thesis
        by (auto simp: HandleInitTarget_def Let_def split: option.split_asm if_split_asm)
    qed
  qed
qed

lemma HandleInitTarget_starts:
  assumes "HandleReceiveLockedTransfer e cs (ait_Transfer x) = Some (cs1, ce, None)"
    and "MdIsSafeToWait (ucast (lk_Expiration (ls_Lock (ait_Transfer x)))) (cs_RevealTimeout cs1) n = Inr ()"
    and "Decrypt e (ls_EncSecret (ait_Transfer x)) = Some secret"
    and "GetHash e secret = lk_SecretHash (ls_Lock (ait_Transfer x))"
    and "\<not> TransferExpired e (ait_Transfer x) cs1 n"
  shows "HandleInitTarget e x cs n m =
     Some (RegisterOffChainSecret cs1 secret (GetHash e secret),
       Some \<lparr>tg_Route = ait_Route x, tg_Transfer = ait_Transfer x, tg_Secret = Some secret,
             tg_State = ''reveal_secret''\<rparr>,
       ce @ [revealTo (ait_Route x) m secret])"
  using assms by (simp add: HandleInitTarget_def Let_def)

lemma GetStatus_sides [simp]:
  "GetStatus (cs\<lparr>cs_OurState := x\<rparr>) = GetStatus cs" "GetStatus (cs\<lparr>cs_PartnerState := x\<rparr>) = GetStatus cs"
  unfolding GetStatus_def by (auto split: option.split)

lemma HandleReceiveLockedTransfer_frame:
  assumes "HandleReceiveLockedTransfer e cs tr = Some (cs', evs, err)"
  shows "cs_RevealTimeout cs' = cs_RevealTimeout cs" "cs_OurState cs' = cs_OurState cs" "GetStatus cs' = GetStatus cs"
    "cs_PaymentNetworkId cs' = cs_PaymentNetworkId cs" "cs_TokenNetworkId cs' = cs_TokenNetworkId cs"
    "es_Address (cs_PartnerState cs') = es_Address (cs_PartnerState cs)"
  using assms by (auto simp: HandleReceiveLockedTransfer_def storePartnerLock_def Let_def
      split: Option.bind_split_asm sum.split_asm)

text \<open>A lock that it is safe to wait for has not expired.\<close>

lemma safe_not_expired:
  assumes "MdIsSafeToWait (ucast (lk_Expiration (ls_Lock tr))) t n = Inr ()" and "0 \<le> sint t"
    and "lk_Expiration (ls_Lock tr) \<le> lk_Expiration (ls_Lock tr) + ucast (ConfirmBlockCount (Config e) * 2)"
  shows "\<not> TransferExpired e tr cs n"
proof -
  have "n < lk_Expiration (ls_Lock tr)" using assms(1,2) by (simp add: MdIsSafeToWait_iff word_less_def)
  then have "n < lk_Expiration (ls_Lock tr) + ucast (ConfirmBlockCount (Config e) * 2)"
    using assms(3) by (rule less_le_trans)
  then show ?thesis by (auto simp: TransferExpired_def IsLockExpired_def)
qed

lemma TgHandleUnlock_step:
  assumes "TgHandleUnlock e ts x cs = Some (cs', r)"
  obtains ok evs err where "HandleUnlock e cs x = Some (cs', ok, evs, err)"
  using assms by (auto simp: TgHandleUnlock_def Let_def split: Option.bind_split_asm if_split_asm)

lemma handleReceiveLockExpired_NewState:
  "handleReceiveLockExpired e cs x n = Some (r, evs) \<Longrightarrow> r = NewState (the_channel r)"
  by (auto simp: handleReceiveLockExpired_def split: Option.bind_split_asm sum.split_asm)

lemma TgHandleLockExpired_step:
  assumes "TgHandleLockExpired e ts x cs n = Some (cs', r)"
  obtains evs where "handleReceiveLockExpired e cs x n = Some (NewState cs', evs)"
proof -
  obtain res evs where "handleReceiveLockExpired e cs x n = Some (res, evs)" and "cs' = the_channel res"
    using assms by (auto simp: TgHandleLockExpired_def Let_def split: Option.bind_split_asm if_split_asm)
  with handleReceiveLockExpired_NewState that show ?thesis by metis
qed

lemma TgHandleBlock_channel [simp]: "fst (TgHandleBlock ts cs h) = cs"
  by (simp add: TgHandleBlock_def Let_def split: prod.split)

section \<open>A sample task\<close>

text \<open>The second sample peer is the target of a payment of 10 tokens, with the sample lock.\<close>

definition sample_transfer :: LockedTransferSignedState where
  "sample_transfer = \<lparr>ls_MessageId = 1, ls_PaymentId = 2, ls_Token = 9, ls_BalanceProof = sample_proof,
     ls_Lock = sample_lock, ls_Initiator = 1, ls_Target = 2, ls_EncSecret = [1], ls_Mediators = []\<rparr>"

definition sample_target :: TargetTransferState where
  "sample_target = \<lparr>tg_Route = \<lparr>rt_NodeAddress = 1, rt_ChannelId = 4\<rparr>, tg_Transfer = sample_transfer,
     tg_Secret = Some [1], tg_State = ''reveal_secret''\<rparr>"

lemma sample_target_simps [simp]:
  "tg_Transfer sample_target = sample_transfer" "ls_Lock sample_transfer = sample_lock"
  "tg_State sample_target = ''reveal_secret''" "ls_PaymentId sample_transfer = 2" "ls_Initiator sample_transfer = 1"
  by (simp_all add: sample_target_def sample_transfer_def)

lemma sample_lock_simps [simp]:
  "lk_SecretHash sample_lock = 7" "lk_Expiration sample_lock = 100" "lk_Amount sample_lock = 10"
  "sample_lock\<lparr>lk_LockHash := CalcLockHash sample_env sample_lock\<rparr> = sample_lock"
  by (simp_all add: sample_lock_def CalcLockHash_def GetHash_def)

lemma sample_wf_channel [simp]: "wf_channel sample_env sample1" "wf_channel sample_env sample2"
  by (simp_all add: wf_channel_def)

lemma sample_locked [simp]: "smap_load (es_LockedLocks sample_side1) 7 = Some sample_lock"
  by (simp add: sample_side1_def smap_load_def)

section \<open>Properties\<close>

text \<open>
  The target is a client of the channel: whatever it does to the channel is a sequence of
  channel steps, so everything that holds along runs of a channel holds for a node that receives payments.
  A payment is started only for a secret hash that is not pending on the partner's side.
\<close>

lemma TgStateTransition_steps:
  assumes "TgStateTransition e ts sc cs n m = Some (cs', it)"
    and "\<And>x. sc = TC_ActionInitTarget x \<Longrightarrow> GetLock (cs_PartnerState cs) (lk_SecretHash (ls_Lock (ait_Transfer x))) = None"
  shows "(channel_step e N)\<^sup>*\<^sup>* cs cs'"
proof (cases sc)
  case (TC_ActionInitTarget x)
  note fresh = assms(2) [OF TC_ActionInitTarget]
  show ?thesis
  proof (cases ts)
    case (Some t)
    with assms(1) TC_ActionInitTarget show ?thesis by (simp add: TgStateTransition_def)
  next
    case None
    then obtain t evs where "HandleInitTarget e x cs n m = Some (cs', t, evs)"
      using assms(1) TC_ActionInitTarget by (auto simp: TgStateTransition_def)
    then show ?thesis
    proof (cases rule: HandleInitTarget_cases)
      case (failed ce err reason)
      then show ?thesis using ReceiveLocked [OF _ fresh] by blast
    next
      case (started cs1 ce secret)
      from ReceiveLocked [OF started(1) fresh] started(5) OffChainSecret show ?thesis
        by (metis converse_rtranclp_into_rtranclp r_into_rtranclp)
    qed
  qed
next
  case (TC_ReceiveSecretReveal x)
  with assms(1) show ?thesis
    by (auto simp: TgStateTransition_def TgHandleOffChainSecretReveal_def Let_def
        split: Option.bind_split_asm if_split_asm intro: OffChainSecret)
next
  case (TC_ContractReceiveSecretReveal x)
  with assms(1) show ?thesis
    by (auto simp: TgStateTransition_def TgHandleOnChainSecretReveal_def
        split: Option.bind_split_asm if_split_asm intro: OnChainSecret)
next
  case (TC_ReceiveUnlock x)
  with assms(1) obtain r where "TgHandleUnlock e ts x cs = Some (cs', r)" by (auto simp: TgStateTransition_def)
  then show ?thesis by (rule TgHandleUnlock_step) (blast intro: ReceiveUnlocked)
next
  case (TC_ReceiveLockExpired x)
  with assms(1) obtain t r where "TgHandleLockExpired e t x cs n = Some (cs', r)"
    by (auto simp: TgStateTransition_def split: Option.bind_split_asm)
  then show ?thesis by (rule TgHandleLockExpired_step) (blast intro: ReceiveExpired)
next
  case (TC_Block h)
  with assms(1) obtain t r where "TgHandleBlock t cs h = (cs', r)"
    by (auto simp: TgStateTransition_def split: Option.bind_split_asm)
  with TgHandleBlock_channel [of t cs h] show ?thesis by simp
qed (use assms(1) in \<open>simp_all add: TgStateTransition_def\<close>)

text \<open>
  A running target task never panics on a well-formed channel, whatever arrives.
\<close>

theorem target_total:
  assumes "wf_channel e cs"
  shows "\<exists>cs' it. TgStateTransition e (Some ts) sc cs n m = Some (cs', it)"
proof -
  have "\<exists>r. HandleUnlock e cs x = Some r" for x
    using deliver_rejected [OF assms, of "MUnlock x"] by auto
  moreover have "\<exists>r. handleReceiveLockExpired e cs x n = Some r" for x
    using deliver_rejected [OF assms, of "MExpired x n"] by auto
  ultimately have "TgHandleUnlock e (Some ts) x cs \<noteq> None" "TgHandleLockExpired e ts y cs n \<noteq> None" for x y
    unfolding TgHandleUnlock_def TgHandleLockExpired_def Let_def
    by (auto simp: bind_eq_None_conv split: prod.splits)
  then show ?thesis
    by (cases sc) (auto simp: TgStateTransition_def split: prod.split)
qed

text \<open>
  The invariant of a running task: the lock of its transfer is pending on the partner's side, under the
  hash that the check has computed for it.
\<close>

definition target_ok :: "env \<Rightarrow> TargetTransferState \<Rightarrow> NettingChannelState \<Rightarrow> bool" where
  "target_ok e ts cs \<longleftrightarrow> (let lock = ls_Lock (tg_Transfer ts) in
     GetLock (cs_PartnerState cs) (lk_SecretHash lock) = Some (lock\<lparr>lk_LockHash := CalcLockHash e lock\<rparr>))"

lemma HandleReceiveLockedTransfer_accepted:
  assumes "HandleReceiveLockedTransfer e cs tr = Some (cs', evs, None)"
  shows "smap_load (es_LockedLocks (cs_PartnerState cs')) (lk_SecretHash (ls_Lock tr)) =
      Some ((ls_Lock tr)\<lparr>lk_LockHash := CalcLockHash e (ls_Lock tr)\<rparr>)"
    "evs = [SendProcessed \<lparr>sm_Recipient = bp_Sender (ls_BalanceProof tr), sm_ChannelId = ChannelIdGlobalQueue,
              sm_MessageId = ls_MessageId tr\<rparr>]"
  using assms by (auto simp: HandleReceiveLockedTransfer_def storePartnerLock_def Let_def
      split: Option.bind_split_asm sum.split_asm)

lemma GetLock_RegisterSecret:
  assumes "smap_load (es_LockedLocks es) h = Some l"
  shows "GetLock (RegisterSecretEndState es s h) h = Some l" "GetSecret (RegisterSecretEndState es s h) h = s"
    "IsSecretKnownOffChain (RegisterSecretEndState es s h) h"
  using assms by (simp_all add: RegisterSecretEndState_def GetLock_def GetSecret_def IsSecretKnownOffChain_def)

text \<open>
  A target reveals the secret of a payment only once it holds the money: when the task is
  started, the lock is recorded on the partner's side, its secret is known and hashes to the lock's
  secret hash, and the events are the acknowledgement and the revealed secret.
\<close>

theorem target_started:
  assumes "HandleInitTarget e x cs n m = Some (cs', Some ts, evs)"
  shows "target_ok e ts cs' \<and> tg_State ts = ''reveal_secret''
     \<and> (\<exists>s. tg_Secret ts = Some s \<and> GetHash e s = lk_SecretHash (ls_Lock (tg_Transfer ts))
          \<and> GetSecret (cs_PartnerState cs') (GetHash e s) = s \<and> IsSecretKnownOffChain (cs_PartnerState cs') (GetHash e s)
          \<and> evs = [SendProcessed \<lparr>sm_Recipient = bp_Sender (ls_BalanceProof (tg_Transfer ts)),
                     sm_ChannelId = ChannelIdGlobalQueue, sm_MessageId = ls_MessageId (tg_Transfer ts)\<rparr>,
                   revealTo (tg_Route ts) m s])"
  using assms
proof (cases rule: HandleInitTarget_cases)
  case (failed ce err reason)
  then show ?thesis by simp
next
  case (started cs1 ce secret)
  note a = HandleReceiveLockedTransfer_accepted [OF started(1)]
  from GetLock_RegisterSecret [OF a(1), of secret] a(2) started show ?thesis
    by (simp add: target_ok_def RegisterOffChainSecret_def Let_def)
qed

text \<open>
  C36. A payment is reported as received only when the money has arrived: the report ends the task
  and names the amount by which the partner's transferred amount has grown; the balance
  proof now in force is signed by the partner and the lock is no longer pending.
\<close>

theorem target_payment_received:
  assumes "wf_channel e cs" and "target_ok e ts cs" and "GetHash e (rul_Secret x) = lk_SecretHash (ls_Lock (tg_Transfer ts))"
    and "TgStateTransition e (Some ts) (TC_ReceiveUnlock x) cs n m = Some (cs', Some (ts', evs))"
    and "EventPaymentReceivedSuccess pn tn p a i \<in> set evs"
  shows "ts' = None \<and> p = ls_PaymentId (tg_Transfer ts) \<and> i = ls_Initiator (tg_Transfer ts)
     \<and> transferred (cs_PartnerState cs') = transferred (cs_PartnerState cs) + a
     \<and> (\<exists>l. add_mset (lk_SecretHash l, l) (mset (pending (cs_PartnerState cs'))) = mset (pending (cs_PartnerState cs))
          \<and> lk_SecretHash l = lk_SecretHash (ls_Lock (tg_Transfer ts)))
     \<and> es_BalanceProof (cs_PartnerState cs') = Some (rul_BalanceProof x)
     \<and> bp_signed e (rul_BalanceProof x) (es_Address (cs_PartnerState cs))
     \<and> cs_OurState cs' = cs_OurState cs"
proof -
  obtain r where v: "IsValidUnlock e x cs (cs_PartnerState cs) = Some (cs_PartnerState cs, r)"
    using IsValidUnlock_state [OF wf_channelD(2) [OF assms(1)]] by blast
  from assms(4,5) obtain t where r: "r = Inr t"
    by (cases r) (auto simp: TgStateTransition_def TgHandleUnlock_def HandleUnlock_def v)
  let ?p = "DelLock ((cs_PartnerState cs)\<lparr>es_BalanceProof := Some (rul_BalanceProof x), es_MerkleTree := Some t\<rparr>)
      (GetHash e (rul_Secret x))"
  obtain l where l: "GetLock (cs_PartnerState cs) (GetHash e (rul_Secret x)) = Some l"
    and d: "drops e l (lk_Amount l) (cs_PartnerState cs) ?p"
    and sg: "bp_signed e (rul_BalanceProof x) (es_Address (cs_PartnerState cs))"
    using HandleUnlock_drops [OF assms(1) v [unfolded r]] by blast
  have "lk_Amount l = lk_Amount (ls_Lock (tg_Transfer ts))" "lk_SecretHash l = lk_SecretHash (ls_Lock (tg_Transfer ts))"
    using l assms(2,3) by (auto simp: target_ok_def Let_def)
  moreover have "add_mset (lk_SecretHash l, l) (mset (pending ?p)) = mset (pending (cs_PartnerState cs))"
    using d by (auto simp: drops_def Let_def)
  ultimately show ?thesis
    using assms(4,5) drops_fields(2) [OF d] sg
    by (auto simp: TgStateTransition_def TgHandleUnlock_def HandleUnlock_def v r Let_def simp del: Del_update
        intro!: exI [of _ l])
qed

text \<open>The events of a target task over a list of blocks, with the channel as it is.\<close>

primrec target_blocks :: "TargetTransferState \<Rightarrow> NettingChannelState \<Rightarrow> BlockHeight list \<Rightarrow> Event list" where
  "target_blocks ts cs [] = []"
| "target_blocks ts cs (h # hs) =
     (case TgHandleBlock ts cs h of
        (cs', Some ts', evs) \<Rightarrow> evs @ target_blocks ts' cs' hs
      | (cs', None, evs) \<Rightarrow> evs)"

lemma TgHandleBlock_waiting:
  assumes "h < lk_Expiration (ls_Lock (tg_Transfer ts)) + 5"
  shows "TgHandleBlock ts cs h =
     (if IsSecretKnown (cs_PartnerState cs) (lk_SecretHash (ls_Lock (tg_Transfer ts)))
      then let (ts', evs) = TgEventsForOnChainSecretReveal ts cs h in (cs, Some ts', evs)
      else (cs, Some ts, []))"
  using assms by (simp add: TgHandleBlock_def IsLockExpired_def DefaultNumberOfBlockConfirmations_def Let_def)

lemma target_blocks_started:
  assumes "tg_State ts = ''onchain_secret_reveal''" and "\<And>h. h \<in> set hs \<Longrightarrow> h < lk_Expiration (ls_Lock (tg_Transfer ts)) + 5"
  shows "target_blocks ts cs hs = []"
  using assms(2)
  by (induction hs) (simp_all add: TgHandleBlock_waiting TgEventsForOnChainSecretReveal_def assms(1) Let_def)

text \<open>
  The secret is registered on chain in time and once. While the lock has not expired, a target
  that knows the secret from a message asks for its registration exactly once over any sequence of
  blocks, at the first block at which it is no longer safe to wait; it never asks when waiting is safe.
\<close>

theorem target_reveals_once:
  assumes "IsSecretKnownOffChain (cs_PartnerState cs) (lk_SecretHash (ls_Lock (tg_Transfer ts)))"
    and "GetStatus cs = ChannelStateOpened \<or> GetStatus cs = ChannelStateClosing \<or> GetStatus cs = ChannelStateClosed"
    and "tg_State ts \<noteq> ''onchain_secret_reveal''"
    and "\<And>h. h \<in> set hs \<Longrightarrow> h < lk_Expiration (ls_Lock (tg_Transfer ts)) + 5"
  shows "target_blocks ts cs hs =
     (if \<exists>h \<in> set hs. MdIsSafeToWait (ucast (lk_Expiration (ls_Lock (tg_Transfer ts)))) (cs_RevealTimeout cs) h \<noteq> Inr ()
      then [ContractSendSecretReveal (ucast (lk_Expiration (ls_Lock (tg_Transfer ts))))
              (GetSecret (cs_PartnerState cs) (lk_SecretHash (ls_Lock (tg_Transfer ts))))]
      else [])"
  using assms(3,4)
proof (induction hs)
  case Nil
  then show ?case by simp
next
  case (Cons h hs)
  let ?x = "ls_Lock (tg_Transfer ts)" and ?ts = "ts\<lparr>tg_State := ''onchain_secret_reveal''\<rparr>"
  have known: "IsSecretKnown (cs_PartnerState cs) (lk_SecretHash ?x)"
    using assms(1) by (simp add: IsSecretKnownOffChain_def IsSecretKnown_def)
  note b = TgHandleBlock_waiting [OF Cons.prems(2) [of h], of cs]
  show ?case
  proof (cases "MdIsSafeToWait (ucast (lk_Expiration ?x)) (cs_RevealTimeout cs) h = Inr ()")
    case True
    with Cons b known show ?thesis by (simp add: TgEventsForOnChainSecretReveal_def Let_def)
  next
    case False
    have "target_blocks ?ts cs hs = []" using Cons.prems(2) by (intro target_blocks_started) simp_all
    with False b known Cons.prems(1) assms(1,2) show ?thesis
      by (auto simp: TgEventsForOnChainSecretReveal_def EventsForOnChainSecretReveal_def Let_def)
  qed
qed

section \<open>Witnesses\<close>

theorem target_total_witness:
  "\<exists>cs' it. TgStateTransition sample_env (Some sample_target) (TC_Block 90) sample2 90 0 = Some (cs', it)"
  using target_total [OF sample_wf_channel(2)] by simp

text \<open>The first sample peer receives 15 tokens, locked until block 200, at block 50.\<close>

theorem target_started_witness:
  "\<exists>x cs' ts evs. HandleInitTarget sample_env x sample1 50 3 = Some (cs', Some ts, evs) \<and> target_ok sample_env ts cs'
     \<and> IsSecretKnownOffChain (cs_PartnerState cs') 7"
proof -
  have "15 \<le> GetDistributable sample_side2 sample_side1"
    using GetDistributable_exact [of sample_env sample_side2 sample_side1] by (simp add: word_le_def)
  then obtain a' ut where s: "sendLockedTransfer sample_env sample2 2 1 15 1 2 200 [] 7 [] = Some (a', Some (SendLockedTransfer
       \<lparr>sm_Recipient = 1, sm_ChannelId = 4, sm_MessageId = 1\<rparr> ut))" and l: "lu_Lock ut = newLock sample_env 15 200 7"
    using sendLockedTransfer_eq(2) [of sample_env sample2 15 200 7 2 1 1 2 "[]" "[]"] by simp
  let ?tr = "\<lparr>ls_MessageId = 1, ls_PaymentId = 2, ls_Token = 9,
          ls_BalanceProof = (sample_signed (lu_BalanceProof ut))\<lparr>bp_PublicKey := [0, 0]\<rparr>, ls_Lock = lu_Lock ut,
          ls_Initiator = 2, ls_Target = 1, ls_EncSecret = [1], ls_Mediators = []\<rparr>"
  let ?x = "\<lparr>ait_Route = \<lparr>rt_NodeAddress = 2, rt_ChannelId = 4\<rparr>, ait_Transfer = ?tr\<rparr>"
  have m: "mirrored sample_env sample2 sample1" using sample_mirrored mirrored_sym by blast
  have "signs sample_env (es_Address (cs_OurState sample2)) (lu_BalanceProof ut) (ls_BalanceProof ?tr)"
    by (simp add: signs_def sample_signed_def bp_signed_def signed_by_def) (simp add: fakeSigned_def)
  moreover have "getNumberOfPendingTransfers (cs_OurState sample2) < MAXIMUM_PENDING_TRANSFERS"
    by (simp add: getNumberOfPendingTransfers_def sample_side2_def MerkleTreeWidth_def GetEmptyMerkleTree_def
        MAXIMUM_PENDING_TRANSFERS_def)
  ultimately obtain t where "IsValidLockedTransfer sample_env ?tr sample1 (cs_PartnerState sample1) (cs_OurState sample1) = Some (Inr t)"
    using locked_agreement [OF m _ _ _ _ s, of ?tr] by (auto simp: GetLock_pending)
  then obtain cs1 ce where r: "HandleReceiveLockedTransfer sample_env sample1 (ait_Transfer ?x) = Some (cs1, ce, None)"
    by (auto simp: HandleReceiveLockedTransfer_def)
  have t: "cs_RevealTimeout cs1 = 20" using HandleReceiveLockedTransfer_frame(1) [OF r] by (simp add: sample_channel_def)
  have x: "ls_Lock (ait_Transfer ?x) = newLock sample_env 15 200 7" using l by simp
  have w: "MdIsSafeToWait (ucast (lk_Expiration (ls_Lock (ait_Transfer ?x)))) (cs_RevealTimeout cs1) 50 = Inr ()"
    unfolding x t MdIsSafeToWait_iff by simp
  have ex: "\<not> TransferExpired sample_env (ait_Transfer ?x) cs1 50"
    by (rule safe_not_expired [OF w]) (simp_all add: l t)
  have d: "Decrypt sample_env (ls_EncSecret (ait_Transfer ?x)) = Some [1]" by (simp add: sample_env_def)
  have g: "GetHash sample_env [1] = lk_SecretHash (ls_Lock (ait_Transfer ?x))" unfolding x by (simp add: GetHash_def)
  note h = HandleInitTarget_starts [OF r w d g ex, of 3]
  from target_started [OF h] h show ?thesis by (auto simp: GetHash_def)
qed

text \<open>The sample payment is unlocked: 10 tokens on top of the 20 transferred before.\<close>

theorem target_payment_received_witness:
  "\<exists>x cs' evs. TgStateTransition sample_env (Some sample_target) (TC_ReceiveUnlock x) sample2 90 0 = Some (cs', Some (None, evs))
     \<and> transferred (cs_PartnerState cs') = 30"
proof -
  have h: "GetHash sample_env [1] = 7" by (simp add: GetHash_def)
  have "GetLock (cs_OurState sample1) 7 = Some sample_lock" by (simp add: GetLock_pending)
  then obtain a' u where s: "SendUnlock sample_env sample1 3 2 [1] 7 = Some (a', Some (SendBalanceProof
       \<lparr>sm_Recipient = 2, sm_ChannelId = 4, sm_MessageId = 3\<rparr> 2 (cs_TokenAddress sample1) [1] 0 u))"
    using SendUnlock_eq [of sample_env sample1 7 sample_lock 3 2 "[1]"] by simp
  let ?x = "\<lparr>rul_Sender = 1, rul_MessageId = 3, rul_Secret = [1], rul_SecretHash = 7, rul_BalanceProof = sample_signed u\<rparr>"
  have "signs sample_env (es_Address (cs_OurState sample1)) u (rul_BalanceProof ?x)" using sample_signs by simp
  with unlock_agreement [OF sample_mirrored _ s [folded h], of ?x]
  obtain t where v: "IsValidUnlock sample_env ?x sample2 (cs_PartnerState sample2) = Some (cs_PartnerState sample2, Inr t)"
    by auto
  obtain cs' evs where r: "TgStateTransition sample_env (Some sample_target) (TC_ReceiveUnlock ?x) sample2 90 0 =
      Some (cs', Some (None, evs))" and ev: "EventPaymentReceivedSuccess 8 6 2 10 1 \<in> set evs"
    using v by (simp add: TgStateTransition_def TgHandleUnlock_def HandleUnlock_def) (simp add: sample_channel_def)
  have "target_ok sample_env sample_target sample2" by (simp add: target_ok_def GetLock_pending)
  from target_payment_received [OF sample_wf_channel(2) this _ r ev] h
  have "transferred (cs_PartnerState cs') = 30" by simp
  with r show ?thesis by blast
qed

text \<open>
  The lock of the sample payment expires at block 100 and the reveal timeout is 20 blocks: the
  target that knows the secret registers it at block 81, the first it sees after block 79.
\<close>

theorem target_reveals_once_witness:
  "target_blocks sample_target (RegisterOffChainSecret sample2 [1] 7) [70, 75, 81, 90, 102]
   = [ContractSendSecretReveal 100 [1]]"
proof -
  let ?cs = "RegisterOffChainSecret sample2 [1] 7"
  have k: "IsSecretKnownOffChain (cs_PartnerState ?cs) 7" "GetSecret (cs_PartnerState ?cs) 7 = [1]"
    using GetLock_RegisterSecret [OF sample_locked] by (simp_all add: RegisterOffChainSecret_def)
  have t: "cs_RevealTimeout ?cs = 20" by (simp add: RegisterOffChainSecret_def sample_channel_def)
  have st: "GetStatus ?cs = ChannelStateOpened" by (simp add: RegisterOffChainSecret_def)
  have "MdIsSafeToWait (ucast (100 :: BlockHeight)) 20 81 \<noteq> Inr ()" unfolding MdIsSafeToWait_iff by simp
  then have u: "\<exists>h \<in> set [70, 75, 81, 90, 102]. MdIsSafeToWait (ucast (100 :: BlockHeight)) 20 h \<noteq> Inr ()"
    by (intro bexI [of _ 81]) simp_all
  have "\<And>h. h \<in> set [70, 75, 81, 90, 102] \<Longrightarrow> h < (100 :: BlockHeight) + 5" by auto
  with target_reveals_once [of ?cs sample_target "[70, 75, 81, 90, 102]"] k t st u show ?thesis by simp
qed

section \<open>Departures\<close>

text \<open>
  A transfer that passes the checks of the channel but whose encrypted secret cannot be decrypted, or
  decrypts to another secret, makes the target panic.
\<close>

theorem bad_encrypted_secret_panics:
  assumes "HandleReceiveLockedTransfer e cs (ait_Transfer x) = Some (cs1, ce, None)"
    and "MdIsSafeToWait (ucast (lk_Expiration (ls_Lock (ait_Transfer x)))) (cs_RevealTimeout cs1) n = Inr ()"
    and "case Decrypt e (ls_EncSecret (ait_Transfer x)) of None \<Rightarrow> True
         | Some s \<Rightarrow> GetHash e s \<noteq> lk_SecretHash (ls_Lock (ait_Transfer x))"
  shows "TgStateTransition e None (TC_ActionInitTarget x) cs n m = None"
  using assms by (auto simp: TgStateTransition_def HandleInitTarget_def Let_def split: option.splits)

text \<open>
  The test of \<open>TgHandleLockExpired\<close> is inverted: a rejected message ends the task while the
  lock is still pending, an accepted one keeps the task although its lock is gone.
\<close>

theorem lock_expired_test_inverted:
  assumes "wf_channel e cs" and "target_ok e ts cs" and "rle_SecretHash x = lk_SecretHash (ls_Lock (tg_Transfer ts))"
    and "handleReceiveLockExpired e cs x n = Some (NewState cs', evs)"
    and "TgStateTransition e (Some ts) (TC_ReceiveLockExpired x) cs n m = Some (cs'', Some (ts', evs'))"
  shows "ts' = (if list_ex is_processed evs then Some ts else None)"
proof -
  note wf = wf_channelD(2) [OF assms(1)]
  let ?h = "rle_SecretHash x"
  obtain r where v: "IsValidLockExpired e x cs (cs_PartnerState cs) (cs_OurState cs) n = Some (cs_PartnerState cs, r)"
    using IsValidLockExpired_state [OF wf] by blast
  show ?thesis
  proof (cases r)
    case (Inl err)
    with v assms show ?thesis
      by (auto simp: TgStateTransition_def TgHandleLockExpired_def handleReceiveLockExpired_def target_ok_def Let_def)
  next
    case (Inr t)
    have l: "smap_load (es_LockedLocks (cs_PartnerState cs)) ?h \<noteq> None"
      using IsValidLockExpired_lock [OF v [unfolded Inr]] by auto
    have "GetLock (DelUnclaimedLock ((cs_PartnerState cs)\<lparr>es_BalanceProof := Some (rle_BalanceProof x),
        es_MerkleTree := Some t\<rparr>) ?h) ?h = None"
      using l wf_end_disjoint [OF wf, of ?h] by (auto simp: DelUnclaimedLock_def GetLock_def)
    with Inr v assms show ?thesis
      by (auto simp: TgStateTransition_def TgHandleLockExpired_def handleReceiveLockExpired_def Let_def
          simp del: Del_update)
  qed
qed

text \<open>
  After the lock has expired, a target that knows the secret reports the failure and asks for the
  registration of the secret in turn, at every second block.
\<close>

theorem expired_target_alternates:
  assumes "IsSecretKnownOffChain (cs_PartnerState cs) (lk_SecretHash (ls_Lock (tg_Transfer ts)))"
    and "GetStatus cs = ChannelStateOpened" and "tg_State ts = ''expired''"
    and "smap_load (es_OnChainUnLockedLocks (cs_OurState cs)) (lk_SecretHash (ls_Lock (tg_Transfer ts))) = None"
    and "lk_Expiration (ls_Lock (tg_Transfer ts)) + 5 \<le> h" and "lk_Expiration (ls_Lock (tg_Transfer ts)) < h"
    and "lk_Expiration (ls_Lock (tg_Transfer ts)) + 5 \<le> h'"
  shows "target_blocks ts cs [h, h'] =
     [ContractSendSecretReveal (ucast (lk_Expiration (ls_Lock (tg_Transfer ts))))
        (GetSecret (cs_PartnerState cs) (lk_SecretHash (ls_Lock (tg_Transfer ts)))),
      EventUnlockClaimFailed (ls_PaymentId (tg_Transfer ts)) (lk_SecretHash (ls_Lock (tg_Transfer ts))) (Msg ''lock expired'')]"
proof -
  have "MdIsSafeToWait (ucast (lk_Expiration (ls_Lock (tg_Transfer ts)))) (cs_RevealTimeout cs) h \<noteq> Inr ()"
    using assms(6) by (simp add: MdIsSafeToWait_iff word_less_def)
  moreover have "IsSecretKnown (cs_PartnerState cs) (lk_SecretHash (ls_Lock (tg_Transfer ts)))"
    using assms(1) by (simp add: IsSecretKnownOffChain_def IsSecretKnown_def)
  ultimately show ?thesis
    using assms by (simp add: TgHandleBlock_def TgEventsForOnChainSecretReveal_def EventsForOnChainSecretReveal_def
        IsLockExpired_def DefaultNumberOfBlockConfirmations_def Let_def leD)
qed

end
