(* ===== verification/Pylons_Initiator.thy ===== *)
theory Pylons_Initiator
  imports Pylons_Target
begin

text \<open>
  The initiator of a payment (\<open>transfer/mediated_initiator.go\<close>,
  \<open>transfer/mediated_initiator_manager.go\<close>). The channels of the token network are a map from ids to
  channels; a handler returns the map it has changed. The outer option is the panic of the Go code;
  \<open>msgId\<close> is the id \<open>common.GetMsgID()\<close> draws.
\<close>

type_synonym Channels = "(ChannelID, NettingChannelState) smap"

section \<open>One transfer\<close>

definition MaximumPendingTransfers :: nat where
  "MaximumPendingTransfers = 160"

definition InitEventsForUnlockLock ::
  "env \<Rightarrow> InitiatorTransferState \<Rightarrow> NettingChannelState \<Rightarrow> Secret \<Rightarrow> SecretHash \<Rightarrow> MessageID
     \<Rightarrow> (NettingChannelState \<times> Event list) option" where
  "InitEventsForUnlockLock e initiatorState cs secret secretHash msgId =
     (let td = is_TransferDescription initiatorState
      in do { (cs1, unlockLock) \<leftarrow> SendUnlock e cs msgId (td_PaymentId td) secret secretHash;
              Some (cs1, [case unlockLock of Some ev \<Rightarrow> ev | None \<Rightarrow> NilSendBalanceProof,
                EventPaymentSentSuccess (cs_PaymentNetworkId cs1) (cs_TokenNetworkId cs1) (td_PaymentId td)
                  (td_Amount td) (td_Target td),
                EventUnlockSuccess (td_PaymentId td) (td_SecretHash td)]) })"

definition InitHandleBlock ::
  "env \<Rightarrow> InitiatorTransferState \<Rightarrow> BlockHeight \<Rightarrow> NettingChannelState \<Rightarrow> MessageID
     \<Rightarrow> (NettingChannelState \<times> InitiatorTransferState option \<times> Event list) option" where
  "InitHandleBlock e initiatorState blockHeight cs msgId =
     (let secretHash = lk_SecretHash (lu_Lock (is_Transfer initiatorState))
      in case smap_load (es_LockedLocks (cs_OurState cs)) secretHash of
           None \<Rightarrow>
             if smap_load (es_LockedLocks (cs_PartnerState cs)) secretHash \<noteq> None
             then Some (cs, Some initiatorState, []) else Some (cs, None, [])
         | Some lockedLock \<Rightarrow>
             (let lockExpirationThreshold = lk_Expiration lockedLock + ucast (ConfirmBlockCount (Config e)) * 2
              in if IsLockExpired (cs_OurState cs) lockedLock blockHeight lockExpirationThreshold = Inr ()
                 then do { (cs1, expiredLockEvents) \<leftarrow> EventsForExpiredLock e cs lockedLock msgId;
                           let td = is_TransferDescription initiatorState;
                           let event = expiredLockEvents @
                             [EventPaymentSentFailed (td_PaymentNetworkId td) (td_TokenNetworkId td) (td_PaymentId td)
                                (td_Target td) (Msg ''transfer's lock has expired'')];
                           Some (cs1, if LockExistsInEitherChannelSide cs1 secretHash then Some initiatorState else None,
                                 event) }
                 else Some (cs, Some initiatorState, [])))"

definition InitGetInitialLockExpiration :: "BlockHeight \<Rightarrow> BlockTimeout \<Rightarrow> BlockExpiration" where
  "InitGetInitialLockExpiration blockNumber revealTimeout = ucast blockNumber + revealTimeout * 2"

text \<open>
  The first usable channel of the routes, with its key in the map. A channel without a Merkle tree is
  a panic.
\<close>

fun InitNextChannelFromRoutes ::
  "RouteState list \<Rightarrow> Channels \<Rightarrow> TokenAmount \<Rightarrow> (ChannelID \<times> NettingChannelState) option option" where
  "InitNextChannelFromRoutes [] chans transferAmount = Some None"
| "InitNextChannelFromRoutes (route # routes) chans transferAmount =
     (case smap_load chans (rt_ChannelId route) of
        None \<Rightarrow> InitNextChannelFromRoutes routes chans transferAmount
      | Some cs \<Rightarrow>
          if GetStatus cs \<noteq> ChannelStateOpened then InitNextChannelFromRoutes routes chans transferAmount
          else if es_MerkleTree (cs_OurState cs) = None then None
          else if getNumberOfPendingTransfers (cs_OurState cs) \<ge> MaximumPendingTransfers
          then InitNextChannelFromRoutes routes chans transferAmount
          else if transferAmount > GetDistributable (cs_OurState cs) (cs_PartnerState cs)
          then InitNextChannelFromRoutes routes chans transferAmount
          else if IsValidAmount (cs_OurState cs) transferAmount then Some (Some (rt_ChannelId route, cs))
          else InitNextChannelFromRoutes routes chans transferAmount)"

definition InitSendLockedTransfer ::
  "env \<Rightarrow> TransferDescriptionWithSecretState \<Rightarrow> NettingChannelState \<Rightarrow> MessageID \<Rightarrow> BlockHeight
     \<Rightarrow> (NettingChannelState \<times> Event option) option" where
  "InitSendLockedTransfer e td cs messageId blockNumber =
     (let lockExpiration = InitGetInitialLockExpiration blockNumber (cs_RevealTimeout cs)
      in sendLockedTransfer e cs (td_Initiator td) (td_Target td) (td_Amount td) messageId (td_PaymentId td)
           lockExpiration (td_EncSecret td) (td_SecretHash td) [])"

definition InitTryNewRoute ::
  "env \<Rightarrow> InitiatorTransferState option \<Rightarrow> Channels \<Rightarrow> RouteState list \<Rightarrow> TransferDescriptionWithSecretState
     \<Rightarrow> BlockHeight \<Rightarrow> bool \<Rightarrow> MessageID \<Rightarrow> (Channels \<times> InitiatorTransferState option \<times> Event list) option" where
  "InitTryNewRoute e oldInitiatorState chans availableRoutes td blockNumber init msgId =
     do { found \<leftarrow> (if init then InitNextChannelFromRoutes availableRoutes chans (td_Amount td) else Some None);
          (case found of
             None \<Rightarrow>
               Some (chans, oldInitiatorState,
                 [EventPaymentSentFailed (td_PaymentNetworkId td) (td_TokenNetworkId td) (td_PaymentId td) (td_Target td)
                    (if length availableRoutes = 0 then Msg ''there is no route available''
                     else Msg ''none of the available routes could be used'')])
           | Some (channelId, cs) \<Rightarrow>
               do { (cs1, lockedTransferEvent) \<leftarrow> InitSendLockedTransfer e td cs msgId blockNumber;
                    (case lockedTransferEvent of
                       Some (SendLockedTransfer msg transfer) \<Rightarrow>
                         Some (smap_store channelId cs1 chans,
                           Some \<lparr>is_TransferDescription = td, is_ChannelId = cs_Identifier cs1, is_Transfer = transfer,
                                 is_RevealSecret = None, is_ReceivedSecretRequest = False\<rparr>,
                           [SendLockedTransfer msg transfer])
                     | _ \<Rightarrow> Some (smap_store channelId cs1 chans, None, [])) }) }"

text \<open>\<open>lock\<close> is read only when the amount matches; it may be nil.\<close>

definition HandleSecretRequest ::
  "env \<Rightarrow> InitiatorTransferState \<Rightarrow> ReceiveSecretRequest \<Rightarrow> NettingChannelState \<Rightarrow> MessageID
     \<Rightarrow> (InitiatorTransferState \<times> Event list) option" where
  "HandleSecretRequest e initiatorState stateChange cs msgId =
     (let td = is_TransferDescription initiatorState;
          isMessageFromTarget = (rsq_Sender stateChange = td_Target td
            \<and> rsq_SecretHash stateChange = td_SecretHash td \<and> rsq_PaymentId stateChange = td_PaymentId td)
      in do { isValidSecretRequest \<leftarrow>
                (if rsq_Amount stateChange = td_Amount td
                 then map_option (\<lambda>lock. rsq_Expiration stateChange = ucast (lk_Expiration lock))
                        (GetLock (cs_OurState cs) (td_SecretHash td))
                 else Some False);
              (if is_ReceivedSecretRequest initiatorState \<and> isMessageFromTarget then Some (initiatorState, [])
               else if isValidSecretRequest \<and> isMessageFromTarget
               then let msg = \<lparr>sm_Recipient = td_Target td, sm_ChannelId = ChannelIdGlobalQueue, sm_MessageId = msgId\<rparr>;
                        secretHash = sha256 e (td_Secret td)
                    in Some (initiatorState\<lparr>is_RevealSecret := Some (msg, td_Secret td, secretHash),
                               is_ReceivedSecretRequest := True\<rparr>,
                             [SendSecretReveal msg (td_Secret td) secretHash,
                              SendProcessed \<lparr>sm_Recipient = rsq_Sender stateChange, sm_ChannelId = ChannelIdGlobalQueue,
                                sm_MessageId = rsq_MessageId stateChange\<rparr>])
               else if \<not> isValidSecretRequest \<and> isMessageFromTarget
               then Some (initiatorState\<lparr>is_ReceivedSecretRequest := True\<rparr>,
                          [EventPaymentSentFailed (cs_PaymentNetworkId cs) (cs_TokenNetworkId cs) (td_PaymentId td)
                             (td_Target td) (Msg ''bad secret request message from target'')])
               else Some (initiatorState, [])) })"

definition InitHandleOffChainSecretReveal ::
  "env \<Rightarrow> InitiatorTransferState \<Rightarrow> ReceiveSecretReveal \<Rightarrow> NettingChannelState \<Rightarrow> MessageID
     \<Rightarrow> (NettingChannelState \<times> InitiatorTransferState option \<times> Event list) option" where
  "InitHandleOffChainSecretReveal e initiatorState stateChange cs msgId =
     (let secretHash = sha256 e (rsr_Secret stateChange);
          validReveal = (secretHash = td_SecretHash (is_TransferDescription initiatorState));
          sentByPartner = (rsr_Sender stateChange = es_Address (cs_PartnerState cs));
          isChannelOpen = (GetStatus cs = ChannelStateOpened)
      in if validReveal \<and> isChannelOpen \<and> sentByPartner
         then do { (cs1, events) \<leftarrow> InitEventsForUnlockLock e initiatorState cs (rsr_Secret stateChange) secretHash msgId;
                   Some (cs1, None, events @
                     [SendProcessed \<lparr>sm_Recipient = rsr_Sender stateChange, sm_ChannelId = ChannelIdGlobalQueue,
                        sm_MessageId = rsr_MessageId stateChange\<rparr>]) }
         else Some (cs, Some initiatorState, []))"

definition InitHandleOnChainSecretReveal ::
  "env \<Rightarrow> InitiatorTransferState \<Rightarrow> ContractReceiveSecretReveal \<Rightarrow> NettingChannelState \<Rightarrow> MessageID
     \<Rightarrow> (NettingChannelState \<times> InitiatorTransferState option \<times> Event list) option" where
  "InitHandleOnChainSecretReveal e initiatorState stateChange cs msgId =
     (let lock = lu_Lock (is_Transfer initiatorState);
          isValidSecret = (csr_SecretHash stateChange = lk_SecretHash lock);
          isChannelOpen = (GetStatus cs = ChannelStateOpened);
          isLockExpired = (csr_BlockHeight stateChange > lk_Expiration lock)
      in if isValidSecret \<and> isChannelOpen \<and> \<not> isLockExpired
         then do { (cs1, events) \<leftarrow> InitEventsForUnlockLock e initiatorState cs (csr_Secret stateChange)
                     (csr_SecretHash stateChange) msgId;
                   Some (cs1, None, events) }
         else Some (cs, Some initiatorState, []))"

section \<open>The payment\<close>

text \<open>
  The state a handler of the manager returns: nil, the payment, or (from \<open>ImHandleInit\<close>) the transfer
  itself.
\<close>

datatype (plugins only: code) ImState =
    ImNil
  | ImPayment InitiatorPaymentState
  | ImTransfer InitiatorTransferState

type_synonym ImResult = "Channels \<times> ImState \<times> Event list"

definition HandleReceiveRefundTransferCancelRoute ::
  "env \<Rightarrow> NettingChannelState \<Rightarrow> ReceiveTransferRefundCancelRoute
     \<Rightarrow> (NettingChannelState \<times> Event list \<times> error option) option" where
  "HandleReceiveRefundTransferCancelRoute e cs refundTransfer =
     HandleReceiveLockedTransfer e cs (rrc_Transfer refundTransfer)"

definition ImIterationFromSub ::
  "InitiatorPaymentState \<Rightarrow> InitiatorTransferState option \<times> Event list \<Rightarrow> ImState \<times> Event list" where
  "ImIterationFromSub paymentState iteration =
     (case fst iteration of
        Some newState \<Rightarrow> (ImPayment (paymentState\<lparr>ip_Initiator := Some newState\<rparr>), snd iteration)
      | None \<Rightarrow> (ImNil, snd iteration))"

definition ImCanCancel :: "InitiatorPaymentState \<Rightarrow> bool" where
  "ImCanCancel paymentState =
     (case ip_Initiator paymentState of None \<Rightarrow> True | Some i \<Rightarrow> is_RevealSecret i = None)"

definition ImEventsForCancelCurrentRoute :: "TransferDescriptionWithSecretState \<Rightarrow> Event list" where
  "ImEventsForCancelCurrentRoute td =
     [EventUnlockFailed (td_PaymentId td) (td_SecretHash td) (Msg ''route was canceled'')]"

definition ImCancelCurrentRoute ::
  "InitiatorPaymentState \<Rightarrow> (InitiatorPaymentState \<times> Event list) option" where
  "ImCancelCurrentRoute paymentState =
     (if ImCanCancel paymentState = False then Some (paymentState, [])
      else do { i \<leftarrow> ip_Initiator paymentState;
                Some (paymentState\<lparr>ip_CancelledChannels := ip_CancelledChannels paymentState @ [is_ChannelId i],
                                    ip_Initiator := None\<rparr>,
                      ImEventsForCancelCurrentRoute (is_TransferDescription i)) })"

definition ImHandleBlock ::
  "env \<Rightarrow> InitiatorPaymentState \<Rightarrow> BlockHeight \<Rightarrow> Channels \<Rightarrow> MessageID \<Rightarrow> ImResult option" where
  "ImHandleBlock e paymentState blockHeight chans msgId =
     do { i \<leftarrow> ip_Initiator paymentState;
          (case smap_load chans (is_ChannelId i) of
             None \<Rightarrow> Some (chans, ImPayment paymentState, [])
           | Some cs \<Rightarrow>
               do { (cs1, sub) \<leftarrow> InitHandleBlock e i blockHeight cs msgId;
                    Some (smap_store (is_ChannelId i) cs1 chans, ImIterationFromSub paymentState sub) }) }"

definition ImHandleInit ::
  "env \<Rightarrow> InitiatorPaymentState option \<Rightarrow> ActionInitInitiator \<Rightarrow> Channels \<Rightarrow> BlockHeight \<Rightarrow> MessageID \<Rightarrow> ImResult option"
where
  "ImHandleInit e paymentState stateChange chans blockNumber msgId =
     (case paymentState of
        None \<Rightarrow>
          do { (chans1, newState, events) \<leftarrow> InitTryNewRoute e None chans (aii_Routes stateChange)
                 (aii_TransferDescription stateChange) blockNumber True msgId;
               Some (chans1, case newState of Some ts \<Rightarrow> ImTransfer ts | None \<Rightarrow> ImNil, events) }
      | Some ps \<Rightarrow> Some (chans, ImPayment ps, []))"

definition ImHandleCancelRoute ::
  "env \<Rightarrow> InitiatorPaymentState \<Rightarrow> ActionCancelRoute \<Rightarrow> Channels \<Rightarrow> BlockHeight \<Rightarrow> MessageID \<Rightarrow> ImResult option"
where
  "ImHandleCancelRoute e paymentState stateChange chans blockNumber msgId =
     (if ImCanCancel paymentState
      then do { i \<leftarrow> ip_Initiator paymentState;
                (ps1, cancelEvents) \<leftarrow> ImCancelCurrentRoute paymentState;
                (chans1, newState, events) \<leftarrow> InitTryNewRoute e None chans (acr_Routes stateChange)
                  (is_TransferDescription i) blockNumber False msgId;
                Some (chans1,
                  case newState of Some ts \<Rightarrow> ImPayment (ps1\<lparr>ip_Initiator := Some ts\<rparr>) | None \<Rightarrow> ImNil,
                  cancelEvents @ events) }
      else Some (chans, ImPayment paymentState, []))"

definition ImHandleCancelPayment ::
  "InitiatorPaymentState \<Rightarrow> NettingChannelState option \<Rightarrow> (ImState \<times> Event list) option" where
  "ImHandleCancelPayment paymentState channelState =
     (if ImCanCancel paymentState
      then do { i \<leftarrow> ip_Initiator paymentState;
                (ps1, cancelEvents) \<leftarrow> ImCancelCurrentRoute paymentState;
                cs \<leftarrow> channelState;
                let td = is_TransferDescription i;
                Some (ImNil, cancelEvents @
                  [EventPaymentSentFailed (cs_PaymentNetworkId cs) (cs_TokenNetworkId cs) (td_PaymentId td) (td_Target td)
                     (Msg ''user canceld payment'')]) }
      else Some (ImPayment paymentState, []))"

text \<open>The description that replaces the old one when a refund arrives; \<open>EncSecret\<close> is not carried over.\<close>

definition refundDescription ::
  "env \<Rightarrow> TransferDescriptionWithSecretState \<Rightarrow> Secret \<Rightarrow> TransferDescriptionWithSecretState" where
  "refundDescription e old secret =
     old\<lparr>td_Secret := secret, td_EncSecret := [], td_SecretHash := sha256 e secret\<rparr>"

definition ImHandleTransferRefundCancelRoute ::
  "env \<Rightarrow> InitiatorPaymentState \<Rightarrow> ReceiveTransferRefundCancelRoute \<Rightarrow> Channels \<Rightarrow> BlockHeight \<Rightarrow> MessageID
     \<Rightarrow> ImResult option" where
  "ImHandleTransferRefundCancelRoute e paymentState stateChange chans blockNumber msgId =
     do { i \<leftarrow> ip_Initiator paymentState;
          let refundTransfer = rrc_Transfer stateChange;
          let originalTransfer = is_Transfer i;
          let isValidLock = (lk_SecretHash (ls_Lock refundTransfer) = lk_SecretHash (lu_Lock originalTransfer)
                \<and> lk_Amount (ls_Lock refundTransfer) = lk_Amount (lu_Lock originalTransfer)
                \<and> lk_Expiration (ls_Lock refundTransfer) = lk_Expiration (lu_Lock originalTransfer));
          (if isValidLock \<and> RefundTransferMatchesReceived refundTransfer originalTransfer
           then do { cs \<leftarrow> smap_load chans (is_ChannelId i);
                     (cs1, channelEvents, err) \<leftarrow> HandleReceiveRefundTransferCancelRoute e cs stateChange;
                     let chans1 = smap_store (is_ChannelId i) cs1 chans;
                     (if err = None
                      then do { let ps1 = paymentState\<lparr>ip_Initiator := Some (i\<lparr>is_TransferDescription :=
                                  refundDescription e (is_TransferDescription i) (rrc_Secret stateChange)\<rparr>)\<rparr>;
                                (chans2, newState, events) \<leftarrow> ImHandleCancelRoute e ps1
                                  \<lparr>acr_RegistryAddress = 0, acr_ChannelId = 0, acr_Routes = rrc_Routes stateChange\<rparr>
                                  chans1 blockNumber msgId;
                                Some (chans2, newState, channelEvents @ events) }
                      else Some (chans1, ImPayment paymentState, channelEvents)) }
           else Some (chans, ImPayment paymentState, [])) }"

definition ImHandleLockExpired ::
  "env \<Rightarrow> InitiatorPaymentState \<Rightarrow> ReceiveLockExpired \<Rightarrow> Channels \<Rightarrow> BlockHeight \<Rightarrow> ImResult option" where
  "ImHandleLockExpired e paymentState stateChange chans blockNumber =
     do { i \<leftarrow> ip_Initiator paymentState;
          cs \<leftarrow> smap_load chans (is_ChannelId i);
          let transfer = is_Transfer i;
          let secretHash = lk_SecretHash (lu_Lock transfer);
          (result, events) \<leftarrow> handleReceiveLockExpired e cs stateChange blockNumber;
          let cs1 = the_channel result;
          Some (smap_store (is_ChannelId i) cs1 chans, ImPayment paymentState,
            if GetLock (cs_PartnerState cs1) secretHash \<noteq> None
            then events @ [EventUnlockClaimFailed (lu_PaymentId transfer) secretHash (Msg ''Lock expired'')]
            else events) }"

definition ImHandleOffchainSecretReveal ::
  "env \<Rightarrow> InitiatorPaymentState \<Rightarrow> ReceiveSecretReveal \<Rightarrow> Channels \<Rightarrow> MessageID \<Rightarrow> ImResult option" where
  "ImHandleOffchainSecretReveal e paymentState stateChange chans msgId =
     do { i \<leftarrow> ip_Initiator paymentState;
          cs \<leftarrow> smap_load chans (is_ChannelId i);
          (cs1, sub) \<leftarrow> InitHandleOffChainSecretReveal e i stateChange cs msgId;
          Some (smap_store (is_ChannelId i) cs1 chans, ImIterationFromSub paymentState sub) }"

definition ImHandleOnChainSecretReveal ::
  "env \<Rightarrow> InitiatorPaymentState \<Rightarrow> ContractReceiveSecretReveal \<Rightarrow> Channels \<Rightarrow> MessageID \<Rightarrow> ImResult option" where
  "ImHandleOnChainSecretReveal e paymentState stateChange chans msgId =
     do { i \<leftarrow> ip_Initiator paymentState;
          cs \<leftarrow> smap_load chans (is_ChannelId i);
          (cs1, sub) \<leftarrow> InitHandleOnChainSecretReveal e i stateChange cs msgId;
          Some (smap_store (is_ChannelId i) cs1 chans, ImIterationFromSub paymentState sub) }"

text \<open>
  The dispatcher; a nil iteration (an unknown state change) is \<open>Some (chans, None)\<close>. A nil payment is
  read by every handler but \<open>ImHandleInit\<close>.
\<close>

definition ImStateTransition ::
  "env \<Rightarrow> InitiatorPaymentState option \<Rightarrow> TaskChange \<Rightarrow> Channels \<Rightarrow> BlockHeight \<Rightarrow> MessageID
     \<Rightarrow> (Channels \<times> (ImState \<times> Event list) option) option" where
  "ImStateTransition e paymentState stateChange chans blockNumber msgId =
     (let iteration = map_option (\<lambda>(chans', st, events). (chans', Some (st, events)))
      in case stateChange of
           TC_Block height \<Rightarrow>
             iteration (do { ps \<leftarrow> paymentState; ImHandleBlock e ps height chans msgId })
         | TC_ActionInitInitiator x \<Rightarrow> iteration (ImHandleInit e paymentState x chans blockNumber msgId)
         | TC_ReceiveSecretRequest x \<Rightarrow>
             iteration (do { ps \<leftarrow> paymentState;
               i \<leftarrow> ip_Initiator ps;
               cs \<leftarrow> smap_load chans (is_ChannelId i);
               (i1, events) \<leftarrow> HandleSecretRequest e i x cs msgId;
               Some (chans, ImIterationFromSub ps (Some i1, events)) })
         | TC_ActionCancelRoute x \<Rightarrow>
             iteration (do { ps \<leftarrow> paymentState; ImHandleCancelRoute e ps x chans blockNumber msgId })
         | TC_ReceiveTransferRefundCancelRoute x \<Rightarrow>
             iteration (do { ps \<leftarrow> paymentState; ImHandleTransferRefundCancelRoute e ps x chans blockNumber msgId })
         | TC_ActionCancelPayment _ \<Rightarrow>
             iteration (do { ps \<leftarrow> paymentState;
               i \<leftarrow> ip_Initiator ps;
               (st, events) \<leftarrow> ImHandleCancelPayment ps (smap_load chans (is_ChannelId i));
               Some (chans, st, events) })
         | TC_ReceiveSecretReveal x \<Rightarrow>
             iteration (do { ps \<leftarrow> paymentState; ImHandleOffchainSecretReveal e ps x chans msgId })
         | TC_ReceiveLockExpired x \<Rightarrow>
             iteration (do { ps \<leftarrow> paymentState; ImHandleLockExpired e ps x chans blockNumber })
         | TC_ContractReceiveSecretReveal x \<Rightarrow>
             iteration (do { ps \<leftarrow> paymentState; ImHandleOnChainSecretReveal e ps x chans msgId })
         | _ \<Rightarrow> Some (chans, None))"

section \<open>Effect on the channels\<close>

text \<open>Every channel of a map takes channel steps of its own; none appears or disappears.\<close>

definition chans_steps :: "env \<Rightarrow> int \<Rightarrow> Channels \<Rightarrow> Channels \<Rightarrow> bool" where
  "chans_steps e N chans chans' \<longleftrightarrow>
     (\<forall>k. rel_option (channel_step e N)\<^sup>*\<^sup>* (smap_load chans k) (smap_load chans' k))"

definition chans_safe :: "env \<Rightarrow> int \<Rightarrow> Channels \<Rightarrow> bool" where
  "chans_safe e N chans \<longleftrightarrow> (\<forall>k cs. smap_load chans k = Some cs \<longrightarrow> safe e N cs)"

lemma rel_option_refl_steps: "rel_option (channel_step e N)\<^sup>*\<^sup>* x x"
  by (cases x) simp_all

lemma chans_steps_refl [simp]: "chans_steps e N chans chans"
  by (simp add: chans_steps_def rel_option_refl_steps)

lemma chans_steps_store:
  assumes "smap_load chans k = Some cs" and "(channel_step e N)\<^sup>*\<^sup>* cs cs'"
  shows "chans_steps e N chans (smap_store k cs' chans)"
  using assms by (simp add: chans_steps_def rel_option_refl_steps)

lemma chans_steps_trans:
  assumes "chans_steps e N a b" and "chans_steps e N b c"
  shows "chans_steps e N a c"
  unfolding chans_steps_def
proof
  fix k
  have "rel_option (channel_step e N)\<^sup>*\<^sup>* (smap_load a k) (smap_load b k)"
    "rel_option (channel_step e N)\<^sup>*\<^sup>* (smap_load b k) (smap_load c k)"
    using assms by (simp_all add: chans_steps_def)
  then show "rel_option (channel_step e N)\<^sup>*\<^sup>* (smap_load a k) (smap_load c k)"
    by (cases "smap_load a k"; cases "smap_load b k"; cases "smap_load c k") auto
qed

lemma chans_steps_safe:
  assumes "chans_steps e N chans chans'" and "chans_safe e N chans" and "2 * N < 2 ^ 64"
  shows "chans_safe e N chans'"
  unfolding chans_safe_def
proof (intro allI impI)
  fix k cs' assume "smap_load chans' k = Some cs'"
  with assms(1) obtain cs where cs: "smap_load chans k = Some cs" and st: "(channel_step e N)\<^sup>*\<^sup>* cs cs'"
    unfolding chans_steps_def by (metis option_rel_Some2)
  from run_safe [OF st assms(3)] assms(2) cs show "safe e N cs'" by (auto simp: chans_safe_def)
qed

lemma InitNextChannelFromRoutes_usable:
  assumes "InitNextChannelFromRoutes routes chans a = Some (Some (k, cs))"
  shows "smap_load chans k = Some cs" "GetStatus cs = ChannelStateOpened"
    "a \<le> GetDistributable (cs_OurState cs) (cs_PartnerState cs)"
    "getNumberOfPendingTransfers (cs_OurState cs) < MaximumPendingTransfers" "k \<in> rt_ChannelId ` set routes"
proof -
  have "smap_load chans k = Some cs \<and> GetStatus cs = ChannelStateOpened
      \<and> a \<le> GetDistributable (cs_OurState cs) (cs_PartnerState cs)
      \<and> getNumberOfPendingTransfers (cs_OurState cs) < MaximumPendingTransfers \<and> k \<in> rt_ChannelId ` set routes"
    using assms
    by (induction routes chans a rule: InitNextChannelFromRoutes.induct) (auto split: option.split_asm if_split_asm)
  then show "smap_load chans k = Some cs" "GetStatus cs = ChannelStateOpened"
    "a \<le> GetDistributable (cs_OurState cs) (cs_PartnerState cs)"
    "getNumberOfPendingTransfers (cs_OurState cs) < MaximumPendingTransfers" "k \<in> rt_ChannelId ` set routes" by simp_all
qed

lemma InitTryNewRoute_cases:
  assumes "InitTryNewRoute e old chans routes td n init m = Some (chans', st, evs)"
  obtains (failed) reason where "chans' = chans" and "st = old"
      and "evs = [EventPaymentSentFailed (td_PaymentNetworkId td) (td_TokenNetworkId td) (td_PaymentId td) (td_Target td) reason]"
  | (refused) k cs cs1 ev where "InitNextChannelFromRoutes routes chans (td_Amount td) = Some (Some (k, cs))" and "init"
      and "InitSendLockedTransfer e td cs m n = Some (cs1, ev)" and "chans' = smap_store k cs1 chans"
      and "st = None" and "evs = []"
  | (sent) k cs cs1 msg ut where "InitNextChannelFromRoutes routes chans (td_Amount td) = Some (Some (k, cs))" and "init"
      and "InitSendLockedTransfer e td cs m n = Some (cs1, Some (SendLockedTransfer msg ut))"
      and "chans' = smap_store k cs1 chans"
      and "st = Some \<lparr>is_TransferDescription = td, is_ChannelId = cs_Identifier cs1, is_Transfer = ut,
             is_RevealSecret = None, is_ReceivedSecretRequest = False\<rparr>"
      and "evs = [SendLockedTransfer msg ut]"
proof -
  obtain found where f: "(if init then InitNextChannelFromRoutes routes chans (td_Amount td) else Some None) = Some found"
    using assms by (auto simp: InitTryNewRoute_def split: Option.bind_split_asm)
  show ?thesis
  proof (cases found)
    case None
    with assms f that(1) show ?thesis by (auto simp: InitTryNewRoute_def)
  next
    case (Some kc)
    obtain k cs where kc: "kc = (k, cs)" by (cases kc)
    from f Some have i: "init" and nx: "InitNextChannelFromRoutes routes chans (td_Amount td) = Some (Some (k, cs))"
      by (auto simp: kc split: if_split_asm)
    obtain cs1 ev where s: "InitSendLockedTransfer e td cs m n = Some (cs1, ev)"
      using assms i nx by (auto simp: InitTryNewRoute_def split: Option.bind_split_asm)
    show ?thesis
      using assms i nx s that(2) [OF nx i s] that(3) [OF nx i]
      by (auto simp: InitTryNewRoute_def split: option.split_asm Event.split_asm)
  qed
qed

lemma InitTryNewRoute_steps:
  assumes "InitTryNewRoute e old chans routes td n init m = Some (chans', st, evs)"
    and "\<And>k cs. init \<Longrightarrow> smap_load chans k = Some cs \<Longrightarrow> GetLock (cs_OurState cs) (td_SecretHash td) = None"
  shows "chans_steps e N chans chans'"
proof -
  have step: "chans_steps e N chans (smap_store k cs1 chans)"
    if "InitNextChannelFromRoutes routes chans (td_Amount td) = Some (Some (k, cs))" and init
      and "InitSendLockedTransfer e td cs m n = Some (cs1, ev)" for k cs cs1 ev
  proof -
    note l = InitNextChannelFromRoutes_usable(1) [OF that(1)]
    have "channel_step e N cs cs1"
      using that(3) assms(2) [OF that(2) l] by (auto simp: InitSendLockedTransfer_def Let_def intro: SendLocked)
    with l show ?thesis by (intro chans_steps_store) auto
  qed
  from assms(1) show ?thesis by (cases rule: InitTryNewRoute_cases) (use step in auto)
qed

lemma InitEventsForUnlockLock_step:
  assumes "InitEventsForUnlockLock e i cs s h m = Some (cs', evs)"
  shows "(channel_step e N)\<^sup>*\<^sup>* cs cs'"
  using assms by (auto simp: InitEventsForUnlockLock_def Let_def split: Option.bind_split_asm intro: SendBalanceProof)

lemma Init_reveal_step:
  "InitHandleOffChainSecretReveal e i x cs m = Some (cs', r) \<Longrightarrow> (channel_step e N)\<^sup>*\<^sup>* cs cs'"
  "InitHandleOnChainSecretReveal e i y cs m = Some (cs', r) \<Longrightarrow> (channel_step e N)\<^sup>*\<^sup>* cs cs'"
  by (auto simp: InitHandleOffChainSecretReveal_def InitHandleOnChainSecretReveal_def Let_def
      split: if_split_asm Option.bind_split_asm intro: InitEventsForUnlockLock_step)

lemma InitHandleBlock_step:
  assumes "InitHandleBlock e i h cs m = Some (cs', r)" and "wf_channel e cs"
  shows "(channel_step e N)\<^sup>*\<^sup>* cs cs'"
proof (cases "smap_load (es_LockedLocks (cs_OurState cs)) (lk_SecretHash (lu_Lock (is_Transfer i)))")
  case None
  with assms(1) show ?thesis by (auto simp: InitHandleBlock_def Let_def split: if_split_asm)
next
  case (Some l)
  let ?h = "lk_SecretHash (lu_Lock (is_Transfer i))"
  have "GetLock (cs_OurState cs) ?h = Some l" using Some by (simp add: GetLock_def)
  moreover have "smap_load (es_OnChainUnLockedLocks (cs_OurState cs)) ?h = None"
    using wf_end_disjoint(2) [OF wf_channelD(1) [OF assms(2)]] Some by simp
  ultimately show ?thesis
    using assms(1) Some SendExpired
    by (auto simp: InitHandleBlock_def Let_def split: if_split_asm Option.bind_split_asm)
qed

lemma ImHandleCancelRoute_channels:
  "ImHandleCancelRoute e ps x chans n m = Some (chans', r) \<Longrightarrow> chans' = chans"
  by (auto simp: ImHandleCancelRoute_def InitTryNewRoute_def split: if_split_asm Option.bind_split_asm)

lemma ImHandleLockExpired_step:
  assumes "ImHandleLockExpired e ps x chans n = Some (chans', r)"
  shows "chans_steps e N chans chans'"
proof -
  obtain i where i: "ip_Initiator ps = Some i" using assms by (auto simp: ImHandleLockExpired_def split: Option.bind_split_asm)
  obtain cs where l: "smap_load chans (is_ChannelId i) = Some cs"
    using assms i by (auto simp: ImHandleLockExpired_def split: Option.bind_split_asm)
  obtain res evs where h: "handleReceiveLockExpired e cs x n = Some (res, evs)"
    using assms i l by (auto simp: ImHandleLockExpired_def Let_def split: Option.bind_split_asm)
  have c: "chans' = smap_store (is_ChannelId i) (the_channel res) chans"
    using assms i l h by (simp add: ImHandleLockExpired_def Let_def)
  have "handleReceiveLockExpired e cs x n = Some (NewState (the_channel res), evs)"
    using h handleReceiveLockExpired_NewState by metis
  then have "channel_step e N cs (the_channel res)" by (rule ReceiveExpired)
  with l show ?thesis unfolding c by (intro chans_steps_store) auto
qed

lemma ImHandleTransferRefundCancelRoute_step:
  assumes "ImHandleTransferRefundCancelRoute e ps x chans n m = Some (chans', r)"
    and "\<And>k cs. smap_load chans k = Some cs \<Longrightarrow> GetLock (cs_PartnerState cs) (lk_SecretHash (ls_Lock (rrc_Transfer x))) = None"
  shows "chans_steps e N chans chans'"
proof (cases "chans' = chans")
  case True
  then show ?thesis by simp
next
  case False
  obtain i where i: "ip_Initiator ps = Some i"
    using assms(1) by (auto simp: ImHandleTransferRefundCancelRoute_def split: Option.bind_split_asm)
  obtain cs where l: "smap_load chans (is_ChannelId i) = Some cs"
    using assms(1) i False
    by (auto simp: ImHandleTransferRefundCancelRoute_def Let_def split: Option.bind_split_asm if_split_asm)
  obtain cs1 evs err where h: "HandleReceiveLockedTransfer e cs (rrc_Transfer x) = Some (cs1, evs, err)"
    using assms(1) i l False
    by (auto simp: ImHandleTransferRefundCancelRoute_def HandleReceiveRefundTransferCancelRoute_def Let_def
        split: Option.bind_split_asm if_split_asm)
  have c: "chans' = smap_store (is_ChannelId i) cs1 chans"
    using assms(1) i l h False
    by (auto simp: ImHandleTransferRefundCancelRoute_def HandleReceiveRefundTransferCancelRoute_def Let_def
        split: Option.bind_split_asm if_split_asm dest!: ImHandleCancelRoute_channels)
  from ReceiveLocked [OF h assms(2) [OF l], of N] l show ?thesis unfolding c by (intro chans_steps_store) auto
qed

section \<open>Properties\<close>

text \<open>
  The initiator is a client of its channels: whatever it does, each channel of the token network
  takes channel steps only. A payment is started with a secret hash that no channel has pending on
  our side, and a refund is taken for one that is not pending on the partner's side.
\<close>

lemma ImStateTransition_steps:
  assumes "ImStateTransition e ps sc chans n m = Some (chans', it)" and "chans_safe e N chans"
    and "\<And>x k cs. sc = TC_ActionInitInitiator x \<Longrightarrow> smap_load chans k = Some cs \<Longrightarrow>
       GetLock (cs_OurState cs) (td_SecretHash (aii_TransferDescription x)) = None"
    and "\<And>x k cs. sc = TC_ReceiveTransferRefundCancelRoute x \<Longrightarrow> smap_load chans k = Some cs \<Longrightarrow>
       GetLock (cs_PartnerState cs) (lk_SecretHash (ls_Lock (rrc_Transfer x))) = None"
  shows "chans_steps e N chans chans'"
proof (cases sc)
  case (TC_Block h)
  with assms(1) obtain p st evs where b: "ImHandleBlock e p h chans m = Some (chans', st, evs)"
    by (auto simp: ImStateTransition_def split: Option.bind_split_asm)
  show ?thesis
  proof (cases "chans' = chans")
    case False
    with b obtain i cs cs1 r where "smap_load chans (is_ChannelId i) = Some cs"
      and "InitHandleBlock e i h cs m = Some (cs1, r)" and "chans' = smap_store (is_ChannelId i) cs1 chans"
      by (auto simp: ImHandleBlock_def split: Option.bind_split_asm option.split_asm)
    with InitHandleBlock_step assms(2) show ?thesis
      by (metis chans_steps_store chans_safe_def safeD(1))
  qed simp
next
  case (TC_ActionInitInitiator x)
  with assms(1) obtain st evs where "ImHandleInit e ps x chans n m = Some (chans', st, evs)"
    by (auto simp: ImStateTransition_def)
  then show ?thesis
    using InitTryNewRoute_steps assms(3) [OF TC_ActionInitInitiator]
    by (auto simp: ImHandleInit_def split: option.split_asm Option.bind_split_asm)
next
  case (TC_ReceiveSecretReveal x)
  with assms(1) show ?thesis
    by (auto simp: ImStateTransition_def ImHandleOffchainSecretReveal_def split: Option.bind_split_asm
        intro: chans_steps_store Init_reveal_step(1))
next
  case (TC_ContractReceiveSecretReveal x)
  with assms(1) show ?thesis
    by (auto simp: ImStateTransition_def ImHandleOnChainSecretReveal_def split: Option.bind_split_asm
        intro: chans_steps_store Init_reveal_step(2))
next
  case (TC_ReceiveTransferRefundCancelRoute x)
  with assms(1) show ?thesis
    using ImHandleTransferRefundCancelRoute_step assms(4) [OF TC_ReceiveTransferRefundCancelRoute]
    by (auto simp: ImStateTransition_def split: Option.bind_split_asm)
next
  case (TC_ReceiveLockExpired x)
  with assms(1) show ?thesis
    by (auto simp: ImStateTransition_def split: Option.bind_split_asm intro: ImHandleLockExpired_step)
qed (use assms(1) in \<open>auto simp: ImStateTransition_def split: Option.bind_split_asm dest: ImHandleCancelRoute_channels\<close>)

text \<open>
  The invariant of a running transfer: its lock is pending on our side of its channel, with the
  amount and the secret hash of the description.
\<close>

definition initiator_ok :: "InitiatorTransferState \<Rightarrow> NettingChannelState \<Rightarrow> bool" where
  "initiator_ok i cs \<longleftrightarrow> (let td = is_TransferDescription i; lock = lu_Lock (is_Transfer i) in
     GetLock (cs_OurState cs) (td_SecretHash td) = Some lock
     \<and> lk_SecretHash lock = td_SecretHash td \<and> lk_Amount lock = td_Amount td)"

lemma sendLockedTransfer_lock:
  assumes "sendLockedTransfer e cs i tg n m p x es h md = Some (cs', Some (SendLockedTransfer msg ut))"
  shows "lu_Lock ut = newLock e n x h" "GetLock (cs_OurState cs') h = Some (lu_Lock ut)"
    "cs' = cs\<lparr>cs_OurState := cs_OurState cs'\<rparr>" "lu_PaymentId ut = p" "lu_EncSecret ut = es"
    "msg = \<lparr>sm_Recipient = es_Address (cs_PartnerState cs), sm_ChannelId = cs_Identifier cs, sm_MessageId = m\<rparr>"
proof -
  obtain t where c: "createSendLockedTransfer e cs i tg n m p x es h md = Some (Inr (msg, ut, t))"
    and s: "cs' = storeLockedTransfer cs ut t"
    using assms by (auto simp: sendLockedTransfer_def split: Option.bind_split_asm sum.split_asm)
  from c show l: "lu_Lock ut = newLock e n x h" "lu_PaymentId ut = p" "lu_EncSecret ut = es"
    "msg = \<lparr>sm_Recipient = es_Address (cs_PartnerState cs), sm_ChannelId = cs_Identifier cs, sm_MessageId = m\<rparr>"
    by (auto simp: createSendLockedTransfer_def Let_def split: if_split_asm Option.bind_split_asm)
  show "GetLock (cs_OurState cs') h = Some (lu_Lock ut)" "cs' = cs\<lparr>cs_OurState := cs_OurState cs'\<rparr>"
    by (simp_all add: s storeLockedTransfer_def GetLock_def l Let_def)
qed

lemma sendLockedTransfer_fields:
  assumes "wf_end e (cs_OurState cs)"
    and "sendLockedTransfer e cs i tg n m p x es h md = Some (cs', Some (SendLockedTransfer msg ut))"
  shows "es_Address (cs_OurState cs') = es_Address (cs_OurState cs)"
    "transferred (cs_OurState cs') = transferred (cs_OurState cs)"
proof -
  obtain t where "createSendLockedTransfer e cs i tg n m p x es h md = Some (Inr (msg, ut, t))"
    and s: "cs' = storeLockedTransfer cs ut t"
    using assms(2) by (auto simp: sendLockedTransfer_def split: Option.bind_split_asm sum.split_asm)
  from locks_fields [OF storeLockedTransfer_locks(1) [OF assms(1) this(1)]]
  show "es_Address (cs_OurState cs') = es_Address (cs_OurState cs)"
    "transferred (cs_OurState cs') = transferred (cs_OurState cs)"
    by (auto simp: s transferred_def)
qed

text \<open>
  A payment starts on one channel of its routes that is open and has the amount to spend: the lock
  is recorded there with the amount and the secret hash of the payment, the other channels are
  not touched, and the locked transfer is sent to the partner.
\<close>

theorem initiator_started:
  assumes "ImHandleInit e None x chans n m = Some (chans', ImTransfer i, evs)"
    and "\<And>k cs. smap_load chans k = Some cs \<Longrightarrow> cs_Identifier cs = k"
  shows "\<exists>cs cs' msg. smap_load chans (is_ChannelId i) = Some cs \<and> smap_load chans' (is_ChannelId i) = Some cs'
     \<and> is_ChannelId i \<in> rt_ChannelId ` set (aii_Routes x) \<and> GetStatus cs = ChannelStateOpened
     \<and> td_Amount (aii_TransferDescription x) \<le> GetDistributable (cs_OurState cs) (cs_PartnerState cs)
     \<and> initiator_ok i cs' \<and> is_TransferDescription i = aii_TransferDescription x
     \<and> cs_PartnerState cs' = cs_PartnerState cs \<and> (\<forall>k. k \<noteq> is_ChannelId i \<longrightarrow> smap_load chans' k = smap_load chans k)
     \<and> sm_Recipient msg = es_Address (cs_PartnerState cs) \<and> evs = [SendLockedTransfer msg (is_Transfer i)]"
proof -
  let ?td = "aii_TransferDescription x"
  have "InitTryNewRoute e None chans (aii_Routes x) ?td n True m = Some (chans', Some i, evs)"
    using assms(1) by (auto simp: ImHandleInit_def split: Option.bind_split_asm option.split_asm)
  then show ?thesis
  proof (cases rule: InitTryNewRoute_cases)
    case (sent k cs cs1 msg ut)
    note u = InitNextChannelFromRoutes_usable [OF sent(1)]
    have s: "sendLockedTransfer e cs (td_Initiator ?td) (td_Target ?td) (td_Amount ?td) m (td_PaymentId ?td)
        (InitGetInitialLockExpiration n (cs_RevealTimeout cs)) (td_EncSecret ?td) (td_SecretHash ?td) []
        = Some (cs1, Some (SendLockedTransfer msg ut))"
      using sent(3) by (simp add: InitSendLockedTransfer_def)
    note l = sendLockedTransfer_lock [OF s]
    have "cs_Identifier cs1 = cs_Identifier cs" "cs_PartnerState cs1 = cs_PartnerState cs"
      by (subst l(3), simp)+
    moreover have "cs_Identifier cs = k" using assms(2) u(1) .
    ultimately show ?thesis using u sent l by (auto simp: initiator_ok_def Let_def)
  qed simp_all
qed

lemma InitEventsForUnlockLock_pays:
  assumes "wf_channel e cs" and "initiator_ok i cs"
    and "InitEventsForUnlockLock e i cs s (td_SecretHash (is_TransferDescription i)) m = Some (cs', evs)"
  shows "transferred (cs_OurState cs') = transferred (cs_OurState cs) + td_Amount (is_TransferDescription i)"
    "GetLock (cs_OurState cs') (td_SecretHash (is_TransferDescription i)) = None"
    "cs_PartnerState cs' = cs_PartnerState cs"
proof -
  let ?td = "is_TransferDescription i"
  have l: "GetLock (cs_OurState cs) (td_SecretHash ?td) = Some (lu_Lock (is_Transfer i))"
    and a: "lk_Amount (lu_Lock (is_Transfer i)) = td_Amount ?td"
    using assms(2) by (simp_all add: initiator_ok_def Let_def)
  note wf = wf_channelD(1) [OF assms(1)]
  from assms(3) obtain ev where s: "SendUnlock e cs m (td_PaymentId ?td) s (td_SecretHash ?td) = Some (cs', ev)"
    by (auto simp: InitEventsForUnlockLock_def Let_def split: Option.bind_split_asm)
  note d = SendUnlock_drops [OF wf l s]
  show "transferred (cs_OurState cs') = transferred (cs_OurState cs) + td_Amount ?td"
    using drops_fields(2) [OF d(1)] a by simp
  have "wf_end e (cs_OurState cs')" using wf_drops [OF wf d(1)] .
  moreover have "mset (pending (cs_OurState cs)) =
      add_mset (td_SecretHash ?td, lu_Lock (is_Transfer i)) (mset (pending (cs_OurState cs')))"
    using d(1) GetLock_wf(2) [OF wf l] by (auto simp: drops_def Let_def)
  moreover have "distinct (map fst (pending (cs_OurState cs)))" using wf by (simp add: wf_end_def locks_ok_def)
  ultimately have "td_SecretHash ?td \<notin> fst ` set (pending (cs_OurState cs'))"
    using distinct_map_perm [of "pending (cs_OurState cs)"
        "(td_SecretHash ?td, lu_Lock (is_Transfer i)) # pending (cs_OurState cs')" fst] by simp
  then show "GetLock (cs_OurState cs') (td_SecretHash ?td) = None" by (simp add: GetLock_pending map_of_eq_None_iff)
  show "cs_PartnerState cs' = cs_PartnerState cs" by (subst d(2)) simp
qed

text \<open>The other handlers do not report a payment as sent.\<close>

lemma EventsForExpiredLock_quiet:
  "EventsForExpiredLock e cs l m = Some (cs', evs) \<Longrightarrow> EventPaymentSentSuccess pn tn p a t \<in> set evs \<Longrightarrow> False"
  by (auto simp: EventsForExpiredLock_def split: Option.bind_split_asm option.split_asm)

lemma ImHandleBlock_quiet:
  "ImHandleBlock e ps h chans m = Some (chans', st, evs) \<Longrightarrow> EventPaymentSentSuccess pn tn p a t \<in> set evs \<Longrightarrow> False"
  by (auto simp: ImHandleBlock_def InitHandleBlock_def ImIterationFromSub_def Let_def
      split: Option.bind_split_asm option.split_asm if_split_asm)
    (metis EventsForExpiredLock_quiet)+

lemma ImHandleCancelRoute_quiet:
  "ImHandleCancelRoute e ps x chans n m = Some (chans', st, evs) \<Longrightarrow> EventPaymentSentSuccess pn tn p a t \<in> set evs \<Longrightarrow> False"
  by (auto simp: ImHandleCancelRoute_def ImCancelCurrentRoute_def ImEventsForCancelCurrentRoute_def InitTryNewRoute_def
      split: Option.bind_split_asm if_split_asm)

lemma HandleReceiveLockedTransfer_quiet:
  "HandleReceiveLockedTransfer e cs tr = Some (cs', evs, err) \<Longrightarrow> EventPaymentSentSuccess pn tn p a t \<in> set evs \<Longrightarrow> False"
  by (auto simp: HandleReceiveLockedTransfer_def split: Option.bind_split_asm sum.split_asm)

lemma ImHandleTransferRefundCancelRoute_quiet:
  "ImHandleTransferRefundCancelRoute e ps x chans n m = Some (chans', st, evs) \<Longrightarrow>
     EventPaymentSentSuccess pn tn p a t \<in> set evs \<Longrightarrow> False"
  by (auto simp: ImHandleTransferRefundCancelRoute_def HandleReceiveRefundTransferCancelRoute_def Let_def
      split: Option.bind_split_asm if_split_asm)
    (metis HandleReceiveLockedTransfer_quiet ImHandleCancelRoute_quiet)+

lemma ImHandleLockExpired_quiet:
  "ImHandleLockExpired e ps x chans n = Some (chans', st, evs) \<Longrightarrow> EventPaymentSentSuccess pn tn p a t \<in> set evs \<Longrightarrow> False"
  by (auto simp: ImHandleLockExpired_def handleReceiveLockExpired_def Let_def
      split: Option.bind_split_asm sum.split_asm if_split_asm)

lemma HandleSecretRequest_quiet:
  "HandleSecretRequest e i x cs m = Some (i', evs) \<Longrightarrow> EventPaymentSentSuccess pn tn p a t \<in> set evs \<Longrightarrow> False"
  by (auto simp: HandleSecretRequest_def Let_def split: Option.bind_split_asm if_split_asm)

lemma ImHandleCancelPayment_quiet:
  "ImHandleCancelPayment ps c = Some (st, evs) \<Longrightarrow> EventPaymentSentSuccess pn tn p a t \<in> set evs \<Longrightarrow> False"
  by (auto simp: ImHandleCancelPayment_def ImCancelCurrentRoute_def ImEventsForCancelCurrentRoute_def Let_def
      split: Option.bind_split_asm if_split_asm)

lemmas im_quiet = ImHandleBlock_quiet ImHandleCancelRoute_quiet ImHandleTransferRefundCancelRoute_quiet
  ImHandleLockExpired_quiet HandleSecretRequest_quiet ImHandleCancelPayment_quiet

text \<open>
  C35. The initiator pays only for the secret, and exactly the amount: a payment is reported as sent only
  after a secret with the hash of the payment came from the partner of the channel, or was registered on
  chain before the lock expired; the task ends, the transferred amount has grown by the
  amount of the payment, the lock is gone, and the partner's side is untouched.
\<close>

theorem initiator_pays_for_secret:
  assumes "ip_Initiator ps = Some i" and "smap_load chans (is_ChannelId i) = Some cs"
    and "wf_channel e cs" and "initiator_ok i cs"
    and "ImStateTransition e (Some ps) sc chans n m = Some (chans', Some (st, evs))"
    and "EventPaymentSentSuccess pn tn p a t \<in> set evs"
  shows "st = ImNil \<and> p = td_PaymentId (is_TransferDescription i) \<and> a = td_Amount (is_TransferDescription i)
     \<and> ((\<exists>x. sc = TC_ReceiveSecretReveal x \<and> sha256 e (rsr_Secret x) = td_SecretHash (is_TransferDescription i)
            \<and> rsr_Sender x = es_Address (cs_PartnerState cs))
        \<or> (\<exists>x. sc = TC_ContractReceiveSecretReveal x \<and> csr_SecretHash x = td_SecretHash (is_TransferDescription i)
            \<and> csr_BlockHeight x \<le> lk_Expiration (lu_Lock (is_Transfer i))))
     \<and> (\<exists>cs'. smap_load chans' (is_ChannelId i) = Some cs' \<and> GetStatus cs = ChannelStateOpened
          \<and> transferred (cs_OurState cs') = transferred (cs_OurState cs) + a
          \<and> GetLock (cs_OurState cs') (td_SecretHash (is_TransferDescription i)) = None
          \<and> cs_PartnerState cs' = cs_PartnerState cs)"
proof -
  have h: "lk_SecretHash (lu_Lock (is_Transfer i)) = td_SecretHash (is_TransferDescription i)"
    using assms(4) by (simp add: initiator_ok_def Let_def)
  have ev: "pn = cs_PaymentNetworkId c \<and> p = td_PaymentId (is_TransferDescription i) \<and> a = td_Amount (is_TransferDescription i)"
    if "InitEventsForUnlockLock e i cs s k m = Some (c, es)" and "EventPaymentSentSuccess pn tn p a t \<in> set es" for s k c es
    using that by (auto simp: InitEventsForUnlockLock_def SendUnlock_def Let_def
        split: Option.bind_split_asm option.split_asm sum.split_asm)
  show ?thesis
  proof (cases sc)
    case (TC_ReceiveSecretReveal x)
    with assms(1,2,5,6) obtain c es where u: "InitEventsForUnlockLock e i cs (rsr_Secret x) (sha256 e (rsr_Secret x)) m = Some (c, es)"
      and v: "sha256 e (rsr_Secret x) = td_SecretHash (is_TransferDescription i)"
        "GetStatus cs = ChannelStateOpened" "rsr_Sender x = es_Address (cs_PartnerState cs)"
      and r: "chans' = smap_store (is_ChannelId i) c chans" "st = ImNil" "EventPaymentSentSuccess pn tn p a t \<in> set es"
      by (auto simp: ImStateTransition_def ImHandleOffchainSecretReveal_def InitHandleOffChainSecretReveal_def
          ImIterationFromSub_def Let_def split: Option.bind_split_asm if_split_asm)
    from InitEventsForUnlockLock_pays [OF assms(3,4) u [unfolded v(1)]] ev [OF u r(3)] v r TC_ReceiveSecretReveal
    show ?thesis by simp
  next
    case (TC_ContractReceiveSecretReveal x)
    with assms(1,2,5,6) obtain c es where u: "InitEventsForUnlockLock e i cs (csr_Secret x) (csr_SecretHash x) m = Some (c, es)"
      and v: "csr_SecretHash x = td_SecretHash (is_TransferDescription i)"
        "GetStatus cs = ChannelStateOpened" "csr_BlockHeight x \<le> lk_Expiration (lu_Lock (is_Transfer i))"
      and r: "chans' = smap_store (is_ChannelId i) c chans" "st = ImNil" "EventPaymentSentSuccess pn tn p a t \<in> set es"
      by (auto simp: ImStateTransition_def ImHandleOnChainSecretReveal_def InitHandleOnChainSecretReveal_def
          ImIterationFromSub_def Let_def h split: Option.bind_split_asm if_split_asm)
    from InitEventsForUnlockLock_pays [OF assms(3,4) u [unfolded v(1)]] ev [OF u r(3)] v r TC_ContractReceiveSecretReveal
    show ?thesis by simp
  qed (use assms(5,6) im_quiet in \<open>fastforce simp: ImStateTransition_def ImHandleInit_def ImIterationFromSub_def
      split: Option.bind_split_asm\<close>)+
qed

text \<open>The events a transfer emits for a list of secret requests, with its channel as it is.\<close>

primrec request_events ::
  "env \<Rightarrow> NettingChannelState \<Rightarrow> MessageID \<Rightarrow> InitiatorTransferState \<Rightarrow> ReceiveSecretRequest list \<Rightarrow> Event list option"
where
  "request_events e cs m i [] = Some []"
| "request_events e cs m i (r # rs) =
     do { (i', evs) \<leftarrow> HandleSecretRequest e i r cs m;
          evs' \<leftarrow> request_events e cs m i' rs;
          Some (evs @ evs') }"

text \<open>A request of the target for this payment, and one that also has the right amount and expiration.\<close>

definition from_target :: "InitiatorTransferState \<Rightarrow> ReceiveSecretRequest \<Rightarrow> bool" where
  "from_target i r \<longleftrightarrow> (let td = is_TransferDescription i in rsq_Sender r = td_Target td
     \<and> rsq_SecretHash r = td_SecretHash td \<and> rsq_PaymentId r = td_PaymentId td)"

definition valid_request :: "InitiatorTransferState \<Rightarrow> ReceiveSecretRequest \<Rightarrow> bool" where
  "valid_request i r \<longleftrightarrow> from_target i r \<and> rsq_Amount r = td_Amount (is_TransferDescription i)
     \<and> rsq_Expiration r = ucast (lk_Expiration (lu_Lock (is_Transfer i)))"

definition reveals :: "Event list \<Rightarrow> Event list" where
  "reveals = filter (\<lambda>ev. case ev of SendSecretReveal _ _ _ \<Rightarrow> True | _ \<Rightarrow> False)"

lemma reveals_simps [simp]:
  "reveals [] = []" "reveals (SendSecretReveal msg s h # evs) = SendSecretReveal msg s h # reveals evs"
  "reveals (SendProcessed msg # evs) = reveals evs" "reveals (EventPaymentSentFailed pn tn p t x # evs) = reveals evs"
  "reveals (evs @ evs') = reveals evs @ reveals evs'"
  by (simp_all add: reveals_def)

lemma HandleSecretRequest_ok:
  assumes "initiator_ok i cs"
  shows "HandleSecretRequest e i r cs m =
     (if \<not> from_target i r \<or> is_ReceivedSecretRequest i then Some (i, [])
      else let td = is_TransferDescription i;
               msg = \<lparr>sm_Recipient = td_Target td, sm_ChannelId = ChannelIdGlobalQueue, sm_MessageId = m\<rparr>
           in if valid_request i r
              then Some (i\<lparr>is_RevealSecret := Some (msg, td_Secret td, sha256 e (td_Secret td)), is_ReceivedSecretRequest := True\<rparr>,
                     [SendSecretReveal msg (td_Secret td) (sha256 e (td_Secret td)),
                      SendProcessed \<lparr>sm_Recipient = rsq_Sender r, sm_ChannelId = ChannelIdGlobalQueue, sm_MessageId = rsq_MessageId r\<rparr>])
              else Some (i\<lparr>is_ReceivedSecretRequest := True\<rparr>,
                     [EventPaymentSentFailed (cs_PaymentNetworkId cs) (cs_TokenNetworkId cs) (td_PaymentId td) (td_Target td)
                        (Msg ''bad secret request message from target'')]))"
  using assms by (auto simp: HandleSecretRequest_def initiator_ok_def from_target_def valid_request_def Let_def)

lemma request_events_done:
  assumes "initiator_ok i cs" and "is_ReceivedSecretRequest i"
  shows "request_events e cs m i rs = Some []"
  by (induction rs) (simp_all add: HandleSecretRequest_ok assms)

text \<open>
  The secret is revealed for a proper request of the target only, and once: of any sequence of
  requests only the first one that comes from the target for this payment counts. If it has the right
  amount and expiration the secret is sent, in one message and to the target; otherwise never.
\<close>

theorem secret_revealed_once:
  assumes "initiator_ok i cs" and "\<not> is_ReceivedSecretRequest i"
  shows "\<exists>evs. request_events e cs m i rs = Some evs \<and>
     reveals evs =
       (case find (from_target i) rs of
          Some r \<Rightarrow> if valid_request i r
             then [SendSecretReveal \<lparr>sm_Recipient = td_Target (is_TransferDescription i), sm_ChannelId = ChannelIdGlobalQueue,
                     sm_MessageId = m\<rparr> (td_Secret (is_TransferDescription i)) (sha256 e (td_Secret (is_TransferDescription i)))]
             else []
        | None \<Rightarrow> [])"
proof (induction rs)
  case Nil
  show ?case by simp
next
  case (Cons r rs)
  show ?case
  proof (cases "from_target i r")
    case False
    with Cons assms(2) show ?thesis by (auto simp: HandleSecretRequest_ok [OF assms(1)])
  next
    case True
    have "request_events e cs m (i\<lparr>is_RevealSecret := x, is_ReceivedSecretRequest := True\<rparr>) rs = Some []"
      "request_events e cs m (i\<lparr>is_ReceivedSecretRequest := True\<rparr>) rs = Some []" for x
      using assms(1) by (simp_all add: request_events_done initiator_ok_def Let_def)
    with True assms(2) show ?thesis by (simp add: HandleSecretRequest_ok [OF assms(1)] Let_def)
  qed
qed

section \<open>Witnesses\<close>

text \<open>The first sample peer has started a payment of 10 tokens to the second, with the sample lock.\<close>

definition sample_description :: TransferDescriptionWithSecretState where
  "sample_description = \<lparr>td_PaymentNetworkId = 8, td_PaymentId = 2, td_Amount = 10, td_TokenNetworkId = 6,
     td_Initiator = 1, td_Target = 2, td_Secret = [1], td_EncSecret = [1], td_SecretHash = 7\<rparr>"

definition sample_initiator :: InitiatorTransferState where
  "sample_initiator = \<lparr>is_TransferDescription = sample_description, is_ChannelId = 4,
     is_Transfer = \<lparr>lu_PaymentId = 2, lu_Token = 9,
       lu_BalanceProof = newBalanceProof sample_env 2 20 10 7 6 4 1, lu_Lock = sample_lock, lu_Initiator = 1,
       lu_Target = 2, lu_EncSecret = [1], lu_Mediators = []\<rparr>,
     is_RevealSecret = None, is_ReceivedSecretRequest = False\<rparr>"

definition sample_payment :: InitiatorPaymentState where
  "sample_payment = \<lparr>ip_Initiator = Some sample_initiator, ip_CancelledChannels = []\<rparr>"

lemma sample_initiator_simps [simp]:
  "is_ChannelId sample_initiator = 4" "is_TransferDescription sample_initiator = sample_description"
  "lu_Lock (is_Transfer sample_initiator) = sample_lock" "\<not> is_ReceivedSecretRequest sample_initiator"
  "ip_Initiator sample_payment = Some sample_initiator"
  by (simp_all add: sample_initiator_def sample_payment_def)

lemma sample_description_simps [simp]:
  "td_PaymentId sample_description = 2" "td_Amount sample_description = 10" "td_Target sample_description = 2"
  "td_Secret sample_description = [1]" "td_SecretHash sample_description = 7"
  by (simp_all add: sample_description_def)

lemma sample_initiator_ok [simp]: "initiator_ok sample_initiator sample1"
  by (simp add: initiator_ok_def GetLock_pending)

lemma sample_chans [simp]: "smap_load [(4, cs)] 4 = Some cs" "smap_load [(4, cs)] k = Some cs' \<longleftrightarrow> k = 4 \<and> cs' = cs"
  by (auto simp: smap_load_def)

abbreviation sample_reveal :: TaskChange where
  "sample_reveal \<equiv> TC_ReceiveSecretReveal \<lparr>rsr_Secret = [1], rsr_Sender = 2, rsr_MessageId = 5\<rparr>"

lemma sample_initiator_step:
  "\<exists>cs' evs. ImStateTransition sample_env (Some sample_payment) sample_reveal [(4, sample1)] 90 3 =
       Some (smap_store 4 cs' [(4, sample1)], Some (ImNil, evs)) \<and> EventPaymentSentSuccess 8 6 2 10 2 \<in> set evs"
proof -
  have "GetLock (cs_OurState sample1) 7 = Some sample_lock" by (simp add: GetLock_pending)
  then obtain a' u where "SendUnlock sample_env sample1 3 2 [1] 7 = Some (a', Some (SendBalanceProof
       \<lparr>sm_Recipient = 2, sm_ChannelId = 4, sm_MessageId = 3\<rparr> 2 (cs_TokenAddress sample1) [1] 0 u))"
    and "cs_PaymentNetworkId a' = 8" "cs_TokenNetworkId a' = 6"
    using SendUnlock_eq [of sample_env sample1 7 sample_lock 3 2 "[1]"] by (simp add: sample_channel_def)
  then show ?thesis
    by (simp add: ImStateTransition_def ImHandleOffchainSecretReveal_def InitHandleOffChainSecretReveal_def
        InitEventsForUnlockLock_def ImIterationFromSub_def) blast
qed

theorem initiator_pays_for_secret_witness:
  "\<exists>chans' evs cs'. ImStateTransition sample_env (Some sample_payment) sample_reveal [(4, sample1)] 90 3 =
       Some (chans', Some (ImNil, evs)) \<and> smap_load chans' 4 = Some cs' \<and> transferred (cs_OurState cs') = 30"
proof -
  obtain cs' evs where s: "ImStateTransition sample_env (Some sample_payment) sample_reveal [(4, sample1)] 90 3 =
       Some (smap_store 4 cs' [(4, sample1)], Some (ImNil, evs))" and ev: "EventPaymentSentSuccess 8 6 2 10 2 \<in> set evs"
    using sample_initiator_step by blast
  from initiator_pays_for_secret [OF _ _ sample_wf_channel(1) sample_initiator_ok s ev] s show ?thesis by simp
qed

text \<open>Two requests of the target; the first one is answered with the secret.\<close>

theorem secret_revealed_once_witness:
  "\<exists>evs. request_events sample_env sample1 3 sample_initiator
       [\<lparr>rsq_PaymentId = 2, rsq_Amount = 10, rsq_Expiration = 100, rsq_SecretHash = 7, rsq_Sender = 2, rsq_MessageId = 1\<rparr>,
        \<lparr>rsq_PaymentId = 2, rsq_Amount = 10, rsq_Expiration = 100, rsq_SecretHash = 7, rsq_Sender = 2, rsq_MessageId = 9\<rparr>]
     = Some evs \<and> length (reveals evs) = 1"
  using secret_revealed_once [OF sample_initiator_ok sample_initiator_simps(4), of sample_env 3
       "[\<lparr>rsq_PaymentId = 2, rsq_Amount = 10, rsq_Expiration = 100, rsq_SecretHash = 7, rsq_Sender = 2, rsq_MessageId = 1\<rparr>,
         \<lparr>rsq_PaymentId = 2, rsq_Amount = 10, rsq_Expiration = 100, rsq_SecretHash = 7, rsq_Sender = 2, rsq_MessageId = 9\<rparr>]"]
  by (auto simp: from_target_def valid_request_def Let_def)

text \<open>The second sample peer starts a payment of 15 tokens over the sample channel.\<close>

theorem initiator_started_witness:
  "\<exists>chans' i evs cs'. ImHandleInit sample_env None
       \<lparr>aii_TransferDescription = sample_description\<lparr>td_Amount := 15, td_SecretHash := 5\<rparr>,
        aii_Routes = [\<lparr>rt_NodeAddress = 1, rt_ChannelId = 4\<rparr>]\<rparr> [(4, sample2)] 50 1 = Some (chans', ImTransfer i, evs)
     \<and> smap_load chans' 4 = Some cs' \<and> initiator_ok i cs'"
proof -
  let ?td = "sample_description\<lparr>td_Amount := 15, td_SecretHash := 5\<rparr>"
  let ?x = "\<lparr>aii_TransferDescription = ?td, aii_Routes = [\<lparr>rt_NodeAddress = 1, rt_ChannelId = 4\<rparr>]\<rparr>"
  have d: "15 \<le> GetDistributable sample_side2 sample_side1"
    using GetDistributable_exact [of sample_env sample_side2 sample_side1] by (simp add: word_le_def)
  have n: "InitNextChannelFromRoutes (aii_Routes ?x) [(4, sample2)] 15 = Some (Some (4, sample2))"
    using d by (simp add: not_less getNumberOfPendingTransfers_def sample_side2_def MerkleTreeWidth_def
        GetEmptyMerkleTree_def MaximumPendingTransfers_def)
  obtain cs1 msg ut where "InitSendLockedTransfer sample_env ?td sample2 1 50 = Some (cs1, Some (SendLockedTransfer msg ut))"
    and "cs_Identifier cs1 = 4"
    using d sendLockedTransfer_eq(2) [of sample_env sample2 15]
    by (simp add: InitSendLockedTransfer_def Let_def storeLockedTransfer_def)
  with n have s: "\<exists>chans' i evs. ImHandleInit sample_env None ?x [(4, sample2)] 50 1 = Some (chans', ImTransfer i, evs)
      \<and> is_ChannelId i = 4"
    by (simp add: ImHandleInit_def InitTryNewRoute_def)
  then obtain chans' i evs where h: "ImHandleInit sample_env None ?x [(4, sample2)] 50 1 = Some (chans', ImTransfer i, evs)"
    and "is_ChannelId i = 4" by blast
  with initiator_started [OF h] show ?thesis by auto
qed

end
