(* ===== verification/Pylons_Fees.thy ===== *)
theory Pylons_Fees
  imports Complex_Main Pylons_Channel "HOL-Library.Log_Nat"
begin

text \<open>
  The fee of a mediator (\<open>GetAmountWithoutFees\<close> of \<open>transfer/mediator.go\<close>). The code computes it with
  \<open>float64\<close>; a float is modelled as the rational number it denotes, and every operation rounds its exact
  result to 53 significant bits, ties to even. The numbers the code meets are zero or lie between
  \<open>10 ^ - 9\<close> and \<open>2 ^ 100\<close>, so overflow and subnormal numbers cannot occur.
\<close>

section \<open>Floating point\<close>

definition round_half_even :: "rat \<Rightarrow> int" where
  "round_half_even y = (let f = \<lfloor>y\<rfloor>; r = y - of_int f in if r < 1 / 2 \<or> r = 1 / 2 \<and> even f then f else f + 1)"

text \<open>The value of the last of the 53 bits.\<close>

definition f64_scale :: "rat \<Rightarrow> rat" where
  "f64_scale x = (let (n, d) = quotient_of x; k = bitlen n - bitlen d
     in if 2 powi k \<le> x then 2 powi (k - 52) else 2 powi (k - 53))"

definition f64_round :: "rat \<Rightarrow> rat" where
  "f64_round x = (if x \<le> 0 then 0 else of_int (round_half_even (x / f64_scale x)) * f64_scale x)"

definition f64_of_u64 :: "u64 \<Rightarrow> rat" where
  "f64_of_u64 a = f64_round (of_int (uint a))"

text \<open>Conversion to \<open>uint64\<close> cuts off the fraction; Go leaves the value open when it does not fit.\<close>

definition u64_of_f64 :: "env \<Rightarrow> rat \<Rightarrow> u64" where
  "u64_of_f64 e x = (if x < 2 ^ 64 then of_int \<lfloor>x\<rfloor> else FloatOutOfRange e \<lfloor>x\<rfloor>)"

section \<open>The fee\<close>

definition DefaultMediationFeeLimit :: rat where
  "DefaultMediationFeeLimit = f64_round (1 / 5)"

definition GetAmountWithoutFees :: "env \<Rightarrow> TokenAmount \<Rightarrow> FeeScheduleState \<Rightarrow> u64" where
  "GetAmountWithoutFees e amountWithFees payerFeeSchedule =
     (let rate = f64_round (f64_of_u64 (fs_Proportional payerFeeSchedule) / 10 ^ 9);
          fee = fs_Flat payerFeeSchedule + u64_of_f64 e (f64_round (f64_of_u64 amountWithFees * rate));
          limit = f64_round (f64_of_u64 amountWithFees * DefaultMediationFeeLimit)
      in if f64_of_u64 fee \<le> limit then amountWithFees - fee
         else amountWithFees - u64_of_f64 e limit)"

section \<open>Rounding errors\<close>

lemma round_half_even_error: "\<bar>of_int (round_half_even y) - y\<bar> \<le> 1 / 2"
proof -
  have "of_int \<lfloor>y\<rfloor> \<le> y" "y < of_int \<lfloor>y\<rfloor> + 1" by linarith+
  then show ?thesis by (auto simp: round_half_even_def Let_def abs_le_iff)
qed

lemma f64_scale_bound:
  assumes "0 < x"
  shows "0 < f64_scale x" "2 ^ 52 * f64_scale x \<le> x"
proof -
  obtain n d where q: "quotient_of x = (n, d)" by (cases "quotient_of x")
  have d: "0 < d" using quotient_of_denom_pos [OF q] .
  have x: "x = of_int n / of_int d" using quotient_of_div [OF q] .
  have n: "0 < n" using assms d by (simp add: x zero_less_divide_iff)
  have bn: "(2::int) ^ nat (bitlen n - 1) \<le> n" using bitlen_bounds [OF n] by simp
  have bd: "d < 2 ^ nat (bitlen d)" using bitlen_bounds [OF d] by simp
  have pn: "0 < bitlen n" "0 < bitlen d" using n d by (simp_all add: bitlen_nonneg order_less_le bitlen_eq_zero_iff)
  have "(2::rat) powi (bitlen n - 1) \<le> of_int n"
    using bn pn by (simp add: power_int_def)
  moreover have "of_int d \<le> (2::rat) powi (bitlen d)"
    using bd pn by (simp add: power_int_def)
  ultimately have "(2::rat) powi (bitlen n - 1) / 2 powi (bitlen d) \<le> x"
    unfolding x using d n by (intro frac_le) auto
  then have k: "(2::rat) powi (bitlen n - bitlen d - 1) \<le> x"
    by (simp add: power_int_diff [symmetric] algebra_simps)
  show "0 < f64_scale x" by (simp add: f64_scale_def q Let_def)
  have s: "(2::rat) ^ 52 * 2 powi (k - 52) = 2 powi k" for k
    by (simp add: power_int_diff)
  show "2 ^ 52 * f64_scale x \<le> x"
    using k s [of "bitlen n - bitlen d"] s [of "bitlen n - bitlen d - 1"]
    by (auto simp: f64_scale_def q Let_def)
qed

lemma f64_round_error: "0 \<le> x \<Longrightarrow> \<bar>f64_round x - x\<bar> * 2 ^ 53 \<le> x"
proof (cases "x = 0")
  case False
  assume "0 \<le> x"
  with False have p: "0 < x" by simp
  note s = f64_scale_bound [OF p]
  let ?s = "f64_scale x" let ?r = "of_int (round_half_even (x / ?s)) :: rat"
  have "\<bar>?r * ?s - x\<bar> = \<bar>?r - x / ?s\<bar> * ?s"
    using s(1) by (simp add: abs_mult_pos left_diff_distrib)
  also have "\<dots> \<le> 1 / 2 * ?s" using round_half_even_error s(1) by (intro mult_right_mono) auto
  finally have "\<bar>?r * ?s - x\<bar> * 2 ^ 53 \<le> x" using s(2) by simp
  with p show ?thesis by (simp add: f64_round_def)
qed (simp add: f64_round_def)

lemma f64_round_le:
  assumes "0 \<le> x"
  shows "f64_round x \<le> x * (1 + 1 / 2 ^ 53)" "x * (1 - 1 / 2 ^ 53) \<le> f64_round x" "0 \<le> f64_round x"
proof -
  have "f64_round x - x \<le> \<bar>f64_round x - x\<bar>" "x - f64_round x \<le> \<bar>f64_round x - x\<bar>" by linarith+
  with f64_round_error [OF assms] show "f64_round x \<le> x * (1 + 1 / 2 ^ 53)" and l: "x * (1 - 1 / 2 ^ 53) \<le> f64_round x"
    by simp_all
  have "0 \<le> x * (1 - 1 / 2 ^ 53)" using assms by simp
  with l show "0 \<le> f64_round x" by (rule order_trans [rotated])
qed

lemma DefaultMediationFeeLimit_eq: "DefaultMediationFeeLimit = 3602879701896397 / 18014398509481984"
  by code_simp

lemma uint_rat: "0 \<le> (of_int (uint a) :: rat)" "of_int (uint (a :: u64)) < (2 ^ 64 :: rat)"
proof -
  show "0 \<le> (of_int (uint a) :: rat)" by (simp del: of_int_uint)
  have "uint a < 2 ^ 64" using uint_lt2p [of a] by simp
  then show "of_int (uint a) < (2 ^ 64 :: rat)" by (metis of_int_less_iff of_int_numeral of_int_power)
qed

lemma fee_limit_bound:
  "0 \<le> f64_round (f64_of_u64 a * DefaultMediationFeeLimit)"
  "f64_round (f64_of_u64 a * DefaultMediationFeeLimit) * (5 * 2 ^ 51) \<le> of_int (uint a) * (2 ^ 51 + 1)"
proof -
  define A where "A = (of_int (uint a) :: rat)"
  define f where "f = f64_of_u64 a"
  have A: "0 \<le> A" using uint_rat(1) by (simp only: A_def)
  have f: "0 \<le> f" "f \<le> A * (1 + 1 / 2 ^ 53)"
    using f64_round_le(3,1) [OF A] by (simp_all only: f64_of_u64_def A_def f_def)
  have p: "0 \<le> f * DefaultMediationFeeLimit" using f(1) by (simp add: DefaultMediationFeeLimit_eq)
  show "0 \<le> f64_round (f64_of_u64 a * DefaultMediationFeeLimit)" using f64_round_le(3) [OF p] by (simp only: f_def)
  have "f64_round (f * DefaultMediationFeeLimit) \<le> f * DefaultMediationFeeLimit * (1 + 1 / 2 ^ 53)"
    using f64_round_le(1) [OF p] .
  then have "f64_round (f * DefaultMediationFeeLimit) * (5 * 2 ^ 51) \<le> A * (2 ^ 51 + 1)" using f(2) A by (simp add: DefaultMediationFeeLimit_eq)
  then show "f64_round (f64_of_u64 a * DefaultMediationFeeLimit) * (5 * 2 ^ 51) \<le> of_int (uint a) * (2 ^ 51 + 1)"
    by (simp only: f_def A_def)
qed

lemma fee_le_limit:
  assumes "f64_of_u64 fee \<le> L" and "L * (5 * 2 ^ 51) \<le> A * (2 ^ 51 + 1)"
  shows "of_int (uint fee) * (5 * 2 ^ 50) \<le> A * (2 ^ 50 + 1)"
proof -
  define F where "F = (of_int (uint fee) :: rat)"
  have F: "0 \<le> F" using uint_rat(1) by (simp only: F_def)
  have "F * (1 - 1 / 2 ^ 53) \<le> f64_of_u64 fee"
    using f64_round_le(2) [OF F] by (simp only: f64_of_u64_def F_def)
  with assms(1) have "F * (1 - 1 / 2 ^ 53) \<le> L" by (rule order_trans [rotated])
  with assms(2) have "F * (5 * 2 ^ 50) \<le> A * (2 ^ 50 + 1)" using F by simp
  then show ?thesis by (simp only: F_def)
qed

lemma floor_le_limit:
  assumes "0 \<le> L" and "L * (5 * 2 ^ 51) \<le> A * (2 ^ 51 + 1)" and "A < 2 ^ 64"
  shows "of_int (uint (u64_of_f64 e L)) * (5 * 2 ^ 50) \<le> A * (2 ^ 50 + 1)"
proof -
  have lt: "L < 2 ^ 64" using assms by simp
  then have "\<lfloor>L\<rfloor> < 2 ^ 64" by (simp add: floor_less_iff)
  then have u: "uint (u64_of_f64 e L) = \<lfloor>L\<rfloor>"
    using assms(1) lt by (simp add: u64_of_f64_def uint_word_of_int_eq take_bit_int_eq_self_iff)
  have "of_int \<lfloor>L\<rfloor> * (5 * 2 ^ 50) \<le> L * (5 * 2 ^ 50)" by (intro mult_right_mono) simp_all
  also have "\<dots> \<le> A * (2 ^ 50 + 1)" using assms(1,2) by simp
  finally show ?thesis unfolding u .
qed

lemma GetAmountWithoutFees_bounds:
  "uint (GetAmountWithoutFees e a fs) \<le> uint a"
  "(uint a - uint (GetAmountWithoutFees e a fs)) * (5 * 2 ^ 50) \<le> uint a * (2 ^ 50 + 1)"
proof -
  note b = fee_limit_bound [of a]
  obtain fee where g: "GetAmountWithoutFees e a fs = a - fee"
    and fee: "of_int (uint fee) * (5 * 2 ^ 50) \<le> (of_int (uint a) :: rat) * (2 ^ 50 + 1)"
    using fee_le_limit [OF _ b(2)] floor_le_limit [OF b uint_rat(2)] unfolding GetAmountWithoutFees_def Let_def
    by (metis (no_types, lifting))
  have "of_int (uint fee * (5 * 2 ^ 50)) \<le> (of_int (uint a * (2 ^ 50 + 1)) :: rat)"
    using fee by (simp only: of_int_mult of_int_add of_int_power of_int_numeral of_int_1)
  then have i: "uint fee * (5 * 2 ^ 50) \<le> uint a * (2 ^ 50 + 1)" by (simp only: of_int_le_iff)
  also have "\<dots> \<le> uint a * (5 * 2 ^ 50)" by (intro mult_left_mono) simp_all
  finally have "uint fee \<le> uint a" by simp
  then have "uint (a - fee) = uint a - uint fee" by (simp add: uint_sub_if')
  with i g show "uint (GetAmountWithoutFees e a fs) \<le> uint a" "(uint a - uint (GetAmountWithoutFees e a fs)) * (5 * 2 ^ 50) \<le> uint a * (2 ^ 50 + 1)"
    by simp_all
qed

section \<open>Properties\<close>

text \<open>
  C33. A mediator takes at most a fifth of a transfer, whatever the fee schedule, up to the error of the
  floating point computation (one part in \<open>2 ^ 50\<close>): it never passes on more than it has received, not
  even when the sum of the fees wraps around.
\<close>

theorem mediation_fee_limited:
  "uint (GetAmountWithoutFees e a fs) \<le> uint a
     \<and> (uint a - uint (GetAmountWithoutFees e a fs)) * (5 * 2 ^ 50) \<le> uint a * (2 ^ 50 + 1)"
  by (simp only: GetAmountWithoutFees_bounds simp_thms)

end
