(* ===== verification/Pylons_Mediator.thy ===== *)
theory Pylons_Mediator
  imports Pylons_Initiator Pylons_Fees
begin

text \<open>
  The mediator of a payment (\<open>transfer/mediator.go\<close>). The pairs and the mediator state are pointers the
  handlers write to; here every function returns the pairs and the channels it has changed. The outer
  option is the panic of the Go code. A loop that sends a message per pair draws the message ids from
  \<open>ids\<close>, indexed by the number of pairs still to come. The iteration over a Go map is in no fixed order:
  \<open>order\<close> is the order of the run.
\<close>

section \<open>States of a pair\<close>

definition STATE_TRANSFER_PAID :: "string list" where
  "STATE_TRANSFER_PAID = [''payee_contract_unlock'', ''payee_balance_proof'', ''payer_balance_proof'']"

definition STATE_TRANSFER_FINAL :: "string list" where
  "STATE_TRANSFER_FINAL = [''payee_contract_unlock'', ''payee_balance_proof'', ''payee_expired'',
     ''payer_balance_proof'', ''payer_expired'']"

definition VALID_PAYEE_STATES :: "string list" where
  "VALID_PAYEE_STATES = [''payee_pending'', ''payee_secret_revealed'', ''payee_contract_unlock'',
     ''payee_balance_proof'', ''payee_expired'']"

definition VALID_PAYER_STATES :: "string list" where
  "VALID_PAYER_STATES = [''payer_pending'', ''payer_secret_revealed'', ''payer_waiting_unlock'',
     ''payer_waiting_secret_reveal'', ''payer_balance_proof'', ''payer_expired'']"

definition STATE_SECRET_KNOWN :: "string list" where
  "STATE_SECRET_KNOWN = [''payee_secret_revealed'', ''payee_contract_unlock'', ''payee_balance_proof'',
     ''payer_secret_revealed'', ''payer_waiting_unlock'', ''payer_balance_proof'']"

definition MdIsLockValid :: "BlockExpiration \<Rightarrow> BlockHeight \<Rightarrow> bool" where
  "MdIsLockValid expiration blockNumber \<longleftrightarrow> blockNumber \<le> ucast expiration"

section \<open>Choosing a channel\<close>

text \<open>\<open>getNumberOfPendingTransfers\<close> reads the Merkle tree before any test; timeouts are signed.\<close>

definition MdIsChannelUsable :: "NettingChannelState \<Rightarrow> PaymentAmount \<Rightarrow> BlockTimeout \<Rightarrow> bool option" where
  "MdIsChannelUsable cs transferAmount lockTimeout =
     do { _ \<leftarrow> es_MerkleTree (cs_OurState cs);
          let pendingTransfersCount = getNumberOfPendingTransfers (cs_OurState cs);
          let distributable = GetDistributable (cs_OurState cs) (cs_PartnerState cs);
          Some (if sint lockTimeout \<le> 0 then False
            else if GetStatus cs \<noteq> ChannelStateOpened then False
            else if sint (cs_SettleTimeout cs) < sint lockTimeout then False
            else if sint (cs_RevealTimeout cs) \<ge> sint lockTimeout then False
            else if pendingTransfersCount \<ge> MAXIMUM_PENDING_TRANSFERS then False
            else if transferAmount > distributable then False
            else if \<not> IsValidAmount (cs_OurState cs) transferAmount then False
            else True) }"

definition MdIsSendTransferAlmostEqual :: "LockedTransferUnsignedState \<Rightarrow> LockedTransferSignedState \<Rightarrow> bool" where
  "MdIsSendTransferAlmostEqual send received \<longleftrightarrow>
     lu_PaymentId send = ls_PaymentId received
     \<and> lu_Token send = ls_Token received
     \<and> lk_Amount (lu_Lock send) = lk_Amount (ls_Lock received)
     \<and> lk_Expiration (lu_Lock send) = lk_Expiration (ls_Lock received)
     \<and> lk_SecretHash (lu_Lock send) = lk_SecretHash (ls_Lock received)
     \<and> lu_Initiator send = ls_Initiator received
     \<and> lu_Target send = ls_Target received"

definition MdHasSecretRegistrationStarted ::
  "NettingChannelState list \<Rightarrow> MediationPairState list \<Rightarrow> SecretHash \<Rightarrow> bool" where
  "MdHasSecretRegistrationStarted channelStates transfersPair secretHash =
     (let isSecretRegisteredOnChain =
            (\<exists>payerChannel \<in> set channelStates. IsSecretKnownOnChain (cs_PartnerState payerChannel) secretHash);
          hasPendingTransaction = (\<exists>pair \<in> set transfersPair. mp_PayerState pair = ''payer_waiting_secret_reveal'')
      in isSecretRegisteredOnChain \<or> hasPendingTransaction)"

text \<open>The ids of the two channels of a pair.\<close>

definition payerChannelId :: "MediationPairState \<Rightarrow> ChannelID" where
  "payerChannelId pair = bp_ChannelId (ls_BalanceProof (mp_PayerTransfer pair))"

definition payeeChannelId :: "MediationPairState \<Rightarrow> ChannelID" where
  "payeeChannelId pair = bu_ChannelId (lu_BalanceProof (mp_PayeeTransfer pair))"

definition MdFilterUsedRoutes ::
  "(RouteState list \<Rightarrow> RouteState list) \<Rightarrow> MediationPairState list \<Rightarrow> RouteState list \<Rightarrow> RouteState list" where
  "MdFilterUsedRoutes order transfersPair routes =
     (let channelIdToRoute = foldl (\<lambda>m r. smap_store (rt_ChannelId r) r m) [] routes;
          unused = foldl (\<lambda>m pair. smap_delete (payeeChannelId pair) (smap_delete (payerChannelId pair) m))
                     channelIdToRoute transfersPair
      in order (map snd unused))"

definition GetPayeeChannel :: "Channels \<Rightarrow> MediationPairState \<Rightarrow> NettingChannelState option" where
  "GetPayeeChannel channelsMap transferPair = smap_load channelsMap (payeeChannelId transferPair)"

definition GetPayerChannel :: "Channels \<Rightarrow> MediationPairState \<Rightarrow> NettingChannelState option" where
  "GetPayerChannel channelsMap transferPair = smap_load channelsMap (payerChannelId transferPair)"

definition isPendingPair :: "MediationPairState \<Rightarrow> bool" where
  "isPendingPair pair =
     (let payeeFlag = (mp_PayeeState pair \<in> set STATE_TRANSFER_FINAL);
          payerFlag = (mp_PayerState pair \<in> set STATE_TRANSFER_FINAL)
      in \<not> payeeFlag \<or> \<not> payerFlag)"

definition GetPendingTransferPairs :: "MediationPairState list \<Rightarrow> MediationPairState list" where
  "GetPendingTransferPairs transfersPair = filter isPendingPair transfersPair"

text \<open>The key of the first usable channel of the routes.\<close>

fun nextChannelFromRoutes ::
  "RouteState list \<Rightarrow> Channels \<Rightarrow> PaymentAmount \<Rightarrow> BlockTimeout \<Rightarrow> ChannelID option option" where
  "nextChannelFromRoutes [] channelsMap transferAmount lockTimeout = Some None"
| "nextChannelFromRoutes (route # availableRoutes) channelsMap transferAmount lockTimeout =
     (case smap_load channelsMap (rt_ChannelId route) of
        None \<Rightarrow> nextChannelFromRoutes availableRoutes channelsMap transferAmount lockTimeout
      | Some channelState \<Rightarrow>
          do { usable \<leftarrow> MdIsChannelUsable channelState transferAmount lockTimeout;
               (if usable then Some (Some (rt_ChannelId route))
                else nextChannelFromRoutes availableRoutes channelsMap transferAmount lockTimeout) })"

section \<open>Sanity check\<close>

fun sanityPairs :: "MediationPairState list \<Rightarrow> error + unit" where
  "sanityPairs [] = Inr ()"
| "sanityPairs (pair # pairs) =
     (if \<not> MdIsSendTransferAlmostEqual (mp_PayeeTransfer pair) (mp_PayerTransfer pair)
      then Inl (Msg ''[SanityCheck] MdIsSendTransferAlmostEqual error'')
      else if mp_PayerState pair \<notin> set VALID_PAYER_STATES
      then Inl (Msg ''[SanityCheck] PayerState not in VALID_PAYER_STATES error'')
      else if mp_PayeeState pair \<notin> set VALID_PAYEE_STATES
      then Inl (Msg ''[SanityCheck] PayeeState not in VALID_PAYEE_STATES error'')
      else sanityPairs pairs)"

fun sanityRefunds :: "(MediationPairState \<times> MediationPairState) list \<Rightarrow> error + unit" where
  "sanityRefunds [] = Inr ()"
| "sanityRefunds ((original, refund) # rest) =
     (if mp_PayeeAddress original \<noteq> ls_Initiator (mp_PayerTransfer refund)
      then Inl (Msg ''[SanityCheck] original.payee_address != refund.payer_address'')
      else if \<not> MdIsSendTransferAlmostEqual (mp_PayeeTransfer original) (mp_PayerTransfer refund)
      then Inl (Msg ''[SanityCheck] MdIsSendTransferAlmostEqual error'')
      else sanityRefunds rest)"

definition SanityCheck :: "MediatorTransferState \<Rightarrow> error + unit" where
  "SanityCheck state =
     (let pairs = ms_TransfersPair state;
          allTransfersStates = map mp_PayeeState pairs @ map mp_PayerState pairs
      in if (\<exists>s \<in> set allTransfersStates. s \<in> set STATE_TRANSFER_PAID) \<and> ms_SecretHash state = 0
         then Inl (Msg ''state.SecretHash is nil'')
         else if pairs \<noteq> [] \<and> ms_SecretHash state \<noteq> lk_SecretHash (ls_Lock (mp_PayerTransfer (hd pairs)))
         then Inl (Msg ''[SanityCheck] state.SecretHash != firstPair.PayerTransfer.Lock.SecretHash'')
         else case sanityPairs pairs of
                Inl err \<Rightarrow> Inl err
              | Inr _ \<Rightarrow>
                  (case sanityRefunds (zip (rev pairs) pairs) of
                     Inl err \<Rightarrow> Inl err
                   | Inr _ \<Rightarrow>
                       (case ms_WaitingTransfer state of
                          None \<Rightarrow> Inr ()
                        | Some w \<Rightarrow>
                            if pairs \<noteq> [] \<and> \<not> MdIsSendTransferAlmostEqual (mp_PayeeTransfer (last pairs)) (wt_Transfer w)
                            then Inl (Msg ''[SanityCheck] MdIsSendTransferAlmostEqual error'')
                            else Inr ())))"

section \<open>End of the task\<close>

definition waitingChannelId :: "WaitingTransferState \<Rightarrow> ChannelID" where
  "waitingChannelId w = bp_ChannelId (ls_BalanceProof (wt_Transfer w))"

definition clearIfFinalized ::
  "MediatorTransferState option \<times> Event list \<Rightarrow> Channels \<Rightarrow> MediatorTransferState option \<times> Event list" where
  "clearIfFinalized iteration channelsMap =
     (case fst iteration of
        None \<Rightarrow> iteration
      | Some state \<Rightarrow>
          (let secretHash = ms_SecretHash state;
               payerPending = (\<lambda>k. case smap_load channelsMap k of
                 None \<Rightarrow> False | Some cs \<Rightarrow> IsLockPending (cs_PartnerState cs) secretHash);
               payeePending = (\<lambda>k. case smap_load channelsMap k of
                 None \<Rightarrow> False | Some cs \<Rightarrow> IsLockPending (cs_OurState cs) secretHash)
           in if \<exists>pair \<in> set (ms_TransfersPair state). payerPending (payerChannelId pair) \<or> payeePending (payeeChannelId pair)
              then iteration
              else case ms_WaitingTransfer state of
                     Some w \<Rightarrow> if payerPending (waitingChannelId w) then iteration else (None, snd iteration)
                   | None \<Rightarrow> (None, snd iteration)))"

section \<open>Passing a transfer on\<close>

definition lockTimeoutOf :: "HashTimeLockState \<Rightarrow> BlockHeight \<Rightarrow> BlockTimeout" where
  "lockTimeoutOf lock blockNumber =
     (if lk_Expiration lock > blockNumber then ucast (lk_Expiration lock - blockNumber) else 0)"

text \<open>
  A missing payer channel is a panic of \<open>GetFeeSchedule\<close>. \<open>nextChannelFromRoutes\<close> has tested the settle
  timeout.
\<close>

definition forwardTransferPair ::
  "env \<Rightarrow> LockedTransferSignedState \<Rightarrow> RouteState list \<Rightarrow> Channels \<Rightarrow> BlockHeight \<Rightarrow> MessageID
     \<Rightarrow> (Channels \<times> (error + MediationPairState option \<times> Event list)) option" where
  "forwardTransferPair e payerTransfer availableRoutes channelsMap blockNumber msgId =
     (let lock = ls_Lock payerTransfer;
          lockTimeout = lockTimeoutOf lock blockNumber;
          payerId = bp_ChannelId (ls_BalanceProof payerTransfer)
      in do {
        payeeChannel \<leftarrow> nextChannelFromRoutes availableRoutes channelsMap (lk_Amount lock) lockTimeout;
        payerChannel \<leftarrow> smap_load channelsMap payerId;
        let (payerChannel1, fees) = GetFeeSchedule payerChannel;
        let channelsMap1 = smap_store payerId payerChannel1 channelsMap;
        let amountAfterFee = GetAmountWithoutFees e (lk_Amount lock) fees;
        (case payeeChannel of
           None \<Rightarrow> Some (channelsMap1, Inr (None, []))
         | Some payeeId \<Rightarrow>
             do { cs \<leftarrow> smap_load channelsMap1 payeeId;
                  (if sint (cs_SettleTimeout cs) < sint lockTimeout
                   then Some (channelsMap1, Inl (Msg ''[forwardTransferPair] payeeChannel.SettleTimeout < lockTimeout''))
                   else if cs_TokenAddress cs \<noteq> ls_Token payerTransfer
                   then Some (channelsMap1, Inl (Msg ''[forwardTransferPair] payeeChannel.TokenAddress != payerTransfer.Token''))
                   else do {
                     (cs1, lockedTransferEvent) \<leftarrow> sendLockedTransfer e cs (ls_Initiator payerTransfer)
                       (ls_Target payerTransfer) amountAfterFee msgId (ls_PaymentId payerTransfer)
                       (ucast (lk_Expiration lock)) (ls_EncSecret payerTransfer) (lk_SecretHash lock)
                       (ls_Mediators payerTransfer);
                     let channelsMap2 = smap_store payeeId cs1 channelsMap1;
                     (case lockedTransferEvent of
                        Some (SendLockedTransfer msg transfer) \<Rightarrow>
                          Some (channelsMap2,
                            Inr (Some \<lparr>mp_PayeeAddress = es_Address (cs_PartnerState cs1), mp_PayeeTransfer = transfer,
                                       mp_PayeeState = ''payee_pending'', mp_PayerTransfer = payerTransfer,
                                       mp_PayerState = ''payer_pending''\<rparr>,
                                 [SendLockedTransfer msg transfer]))
                      | _ \<Rightarrow> Some (channelsMap2, Inl (Msg ''[forwardTransferPair] lockedTransferEvent is nil''))) }) }) })"

definition backwardTransferPair ::
  "env \<Rightarrow> ChannelID \<Rightarrow> Channels \<Rightarrow> LockedTransferSignedState \<Rightarrow> BlockHeight \<Rightarrow> MessageID
     \<Rightarrow> (Channels \<times> (error + MediationPairState option \<times> Event list)) option" where
  "backwardTransferPair e backwardId channelsMap payerTransfer blockNumber msgId =
     (let lock = ls_Lock payerTransfer
      in do {
        cs \<leftarrow> smap_load channelsMap backwardId;
        usable \<leftarrow> MdIsChannelUsable cs (lk_Amount lock) (lockTimeoutOf lock blockNumber);
        (if usable
         then do {
           (cs1, refundTransfer) \<leftarrow> sendRefundTransfer e cs (ls_Initiator payerTransfer) (ls_Target payerTransfer)
             (lk_Amount lock) msgId (ls_PaymentId payerTransfer) (ucast (lk_Expiration lock))
             (ls_EncSecret payerTransfer) (lk_SecretHash lock);
           let channelsMap1 = smap_store backwardId cs1 channelsMap;
           (case refundTransfer of
              Inr (SendRefundTransfer msg transfer) \<Rightarrow>
                Some (channelsMap1,
                  Inr (Some \<lparr>mp_PayeeAddress = es_Address (cs_PartnerState cs1), mp_PayeeTransfer = transfer,
                             mp_PayeeState = ''payee_pending'', mp_PayerTransfer = payerTransfer,
                             mp_PayerState = ''payer_pending''\<rparr>,
                       [SendRefundTransfer msg transfer]))
            | Inr ev \<Rightarrow> Some (channelsMap1, Inr (None, [ev]))
            | Inl err \<Rightarrow> Some (channelsMap1, Inl err)) }
         else Some (channelsMap, Inr (None, []))) })"

text \<open>
  The payer channel is given by its key. The error of \<open>backwardTransferPair\<close> is dropped: the transfer
  waits then.
\<close>

definition mediateTransfer ::
  "env \<Rightarrow> (RouteState list \<Rightarrow> RouteState list) \<Rightarrow> MediatorTransferState \<Rightarrow> RouteState list \<Rightarrow> ChannelID \<Rightarrow> Channels
     \<Rightarrow> LockedTransferSignedState \<Rightarrow> BlockHeight \<Rightarrow> MessageID
     \<Rightarrow> (Channels \<times> (error + MediatorTransferState \<times> Event list)) option" where
  "mediateTransfer e order state possibleRoutes payerId channelsMap payerTransfer blockNumber msgId =
     (let availableRoutes = MdFilterUsedRoutes order (ms_TransfersPair state) possibleRoutes
      in do {
        payerChannel \<leftarrow> smap_load channelsMap payerId;
        (if es_Address (cs_PartnerState payerChannel) \<noteq> bp_Sender (ls_BalanceProof payerTransfer)
         then Some (channelsMap, Inl (Msg ''payerChannel.PartnerState.Address != payerTransfer.BalanceProof.Sender''))
         else do {
           (channelsMap1, forward) \<leftarrow>
             forwardTransferPair e payerTransfer availableRoutes channelsMap blockNumber msgId;
           (case forward of
              Inl err \<Rightarrow> Some (channelsMap1, Inl (InMessage ''mediateTransfer forwardTransferPair error'' err))
            | Inr (Some transferPair, forwardEvents) \<Rightarrow>
                Some (channelsMap1,
                  Inr (state\<lparr>ms_TransfersPair := ms_TransfersPair state @ [transferPair]\<rparr>, forwardEvents))
            | Inr (None, _) \<Rightarrow>
                (let originalId = (case ms_TransfersPair state of [] \<Rightarrow> payerId | pair # _ \<Rightarrow> payerChannelId pair);
                     waiting = state\<lparr>ms_WaitingTransfer := Some \<lparr>wt_Transfer = payerTransfer, wt_State = []\<rparr>\<rparr>
                 in case smap_load channelsMap1 originalId of
                      None \<Rightarrow> Some (channelsMap1, Inr (waiting, []))
                    | Some _ \<Rightarrow>
                        do { (channelsMap2, backward) \<leftarrow>
                               backwardTransferPair e originalId channelsMap1 payerTransfer blockNumber msgId;
                             (case backward of
                                Inr (Some transferPair, backwardEvents) \<Rightarrow>
                                  Some (channelsMap2,
                                    Inr (state\<lparr>ms_TransfersPair := ms_TransfersPair state @ [transferPair]\<rparr>, backwardEvents))
                              | _ \<Rightarrow> Some (channelsMap2, Inr (waiting, []))) })) }) })"

section \<open>Learning the secret\<close>

definition updateChannel ::
  "(NettingChannelState \<Rightarrow> NettingChannelState) \<Rightarrow> ChannelID \<Rightarrow> Channels \<Rightarrow> Channels" where
  "updateChannel f channelId channelsMap =
     (case smap_load channelsMap channelId of
        None \<Rightarrow> channelsMap
      | Some cs \<Rightarrow> smap_store channelId (f cs) channelsMap)"

text \<open>The walk over the pairs and the waiting transfer that both functions below share.\<close>

definition setSecret ::
  "(NettingChannelState \<Rightarrow> NettingChannelState) \<Rightarrow> MediatorTransferState \<Rightarrow> Channels \<Rightarrow> Secret \<Rightarrow> SecretHash
     \<Rightarrow> MediatorTransferState \<times> Channels \<times> Event list" where
  "setSecret register state channelsMap secret secretHash =
     (let state1 = state\<lparr>ms_Secret := Some secret\<rparr>;
          channelsMap1 = foldl (\<lambda>m pair. updateChannel register (payeeChannelId pair)
                            (updateChannel register (payerChannelId pair) m)) channelsMap (ms_TransfersPair state)
      in case ms_WaitingTransfer state of
           Some w \<Rightarrow> (state1, updateChannel register (waitingChannelId w) channelsMap1,
             [EventUnexpectedSecretReveal secretHash (Msg ''The mediator has a waiting transfer.'')])
         | None \<Rightarrow> (state1, channelsMap1, []))"

definition setOffChainSecret ::
  "MediatorTransferState \<Rightarrow> Channels \<Rightarrow> Secret \<Rightarrow> SecretHash \<Rightarrow> MediatorTransferState \<times> Channels \<times> Event list" where
  "setOffChainSecret state channelsMap secret secretHash =
     setSecret (\<lambda>cs. RegisterOffChainSecret cs secret secretHash) state channelsMap secret secretHash"

definition setOnChainSecret ::
  "MediatorTransferState \<Rightarrow> Channels \<Rightarrow> Secret \<Rightarrow> SecretHash \<Rightarrow> BlockHeight
     \<Rightarrow> MediatorTransferState \<times> Channels \<times> Event list" where
  "setOnChainSecret state channelsMap secret secretHash blockNumber =
     setSecret (\<lambda>cs. RegisterOnChainSecret cs secret secretHash blockNumber True) state channelsMap secret secretHash"

definition setOffchainRevealState :: "MediationPairState list \<Rightarrow> Address \<Rightarrow> MediationPairState list" where
  "setOffchainRevealState transfersPair payeeAddress =
     map (\<lambda>pair. if mp_PayeeAddress pair = payeeAddress then pair\<lparr>mp_PayeeState := ''payee_secret_revealed''\<rparr> else pair)
       transfersPair"

section \<open>Events\<close>

text \<open>
  \<open>GetPendingTransferPairs\<close> returns pointers into the list, so a loop over its result changes the pending
  pairs of the list and leaves the others alone.
\<close>

definition hasExpiredPair :: "env \<Rightarrow> Channels \<Rightarrow> BlockHeight \<Rightarrow> MediationPairState \<Rightarrow> bool" where
  "hasExpiredPair e channelsMap blockNumber pair \<longleftrightarrow> isPendingPair pair
     \<and> (case GetPayerChannel channelsMap pair of
          None \<Rightarrow> False
        | Some payerChannel \<Rightarrow> TransferExpired e (mp_PayerTransfer pair) payerChannel blockNumber)"

definition unlockClaimFailed :: "LockedTransferSignedState \<Rightarrow> Event" where
  "unlockClaimFailed transfer =
     EventUnlockClaimFailed (ls_PaymentId transfer) (lk_SecretHash (ls_Lock transfer)) (Msg ''lock expired'')"

definition eventsForExpiredPairs ::
  "env \<Rightarrow> Channels \<Rightarrow> MediationPairState list \<Rightarrow> WaitingTransferState option \<Rightarrow> BlockHeight
     \<Rightarrow> MediationPairState list \<times> WaitingTransferState option \<times> Event list" where
  "eventsForExpiredPairs e channelsMap transfersPair waitingTransfer blockNumber =
     (let expired = hasExpiredPair e channelsMap blockNumber;
          pairs = map (\<lambda>pair. if expired pair then pair\<lparr>mp_PayerState := ''payer_expired''\<rparr> else pair) transfersPair;
          events = map (\<lambda>pair. unlockClaimFailed (mp_PayerTransfer pair)) (filter expired transfersPair)
      in case waitingTransfer of
           Some w \<Rightarrow>
             if wt_State w \<noteq> ''expired''
             then (pairs, Some (w\<lparr>wt_State := ''expired''\<rparr>), events @ [unlockClaimFailed (wt_Transfer w)])
             else (pairs, waitingTransfer, events)
         | None \<Rightarrow> (pairs, None, events))"

text \<open>The reveal message leaves its field \<open>SecretHash\<close> at the zero value.\<close>

primrec secretRevealLoop ::
  "MediationPairState list \<Rightarrow> Secret \<Rightarrow> (nat \<Rightarrow> MessageID) \<Rightarrow> MediationPairState list \<times> Event list" where
  "secretRevealLoop [] secret ids = ([], [])"
| "secretRevealLoop (pair # pairs) secret ids =
     (let (pairs', events) = secretRevealLoop pairs secret ids;
          payeeKnowsSecret = (mp_PayeeState pair \<in> set STATE_SECRET_KNOWN);
          payerKnowsSecret = (mp_PayerState pair \<in> set STATE_SECRET_KNOWN);
          isTransferPending = (mp_PayerState pair = ''payer_pending'');
          shouldSendSecret = (payeeKnowsSecret \<and> \<not> payerKnowsSecret \<and> isTransferPending)
      in if shouldSendSecret
         then (pair\<lparr>mp_PayerState := ''payer_secret_revealed''\<rparr> # pairs',
               SendSecretReveal \<lparr>sm_Recipient = bp_Sender (ls_BalanceProof (mp_PayerTransfer pair)),
                 sm_ChannelId = ChannelIdGlobalQueue, sm_MessageId = ids (length pairs)\<rparr> secret 0 # events)
         else (pair # pairs', events))"

text \<open>The list of pairs is reversed in place, here and in \<open>eventsForBalanceProof\<close>.\<close>

definition eventsForSecretReveal ::
  "MediationPairState list \<Rightarrow> Secret \<Rightarrow> (nat \<Rightarrow> MessageID) \<Rightarrow> MediationPairState list \<times> Event list" where
  "eventsForSecretReveal transfersPair secret ids = secretRevealLoop (rev transfersPair) secret ids"

text \<open>
  A loop over the pairs whose body may change the pair and the channels; the body also gets the number of
  pairs that follow.
\<close>

primrec pairLoop ::
  "(nat \<Rightarrow> Channels \<Rightarrow> MediationPairState \<Rightarrow> (Channels \<times> MediationPairState \<times> Event list) option)
     \<Rightarrow> MediationPairState list \<Rightarrow> Channels \<Rightarrow> (Channels \<times> MediationPairState list \<times> Event list) option" where
  "pairLoop body [] channelsMap = Some (channelsMap, [], [])"
| "pairLoop body (pair # pairs) channelsMap =
     do { (channelsMap1, pair1, events1) \<leftarrow> body (length pairs) channelsMap pair;
          (channelsMap2, pairs2, events2) \<leftarrow> pairLoop body pairs channelsMap1;
          Some (channelsMap2, pair1 # pairs2, events1 @ events2) }"

text \<open>
  \<open>SendUnlock\<close> returns a typed nil pointer when the lock is unknown. A missing payee channel is not
  open, so the test for it that follows in the code does not fire.
\<close>

definition balanceProofPair ::
  "env \<Rightarrow> BlockHeight \<Rightarrow> Secret \<Rightarrow> SecretHash \<Rightarrow> MessageID \<Rightarrow> Channels \<Rightarrow> MediationPairState
     \<Rightarrow> (Channels \<times> MediationPairState \<times> Event list) option" where
  "balanceProofPair e blockNumber secret secretHash messageId channelsMap pair =
     (let payeeKnowsSecret = (mp_PayeeState pair \<in> set STATE_SECRET_KNOWN);
          payeePayed = (mp_PayeeState pair \<in> set STATE_TRANSFER_PAID)
      in case (GetPayerChannel channelsMap pair, GetPayeeChannel channelsMap pair) of
           (Some payerChannel, Some payeeChannel) \<Rightarrow>
             if MdIsSafeToWait (ucast (lk_Expiration (ls_Lock (mp_PayerTransfer pair)))) (cs_RevealTimeout payerChannel)
                  blockNumber = Inr ()
                \<and> GetStatus payeeChannel = ChannelStateOpened \<and> payeeKnowsSecret \<and> \<not> payeePayed
             then do {
               (cs1, unlockLock) \<leftarrow> SendUnlock e payeeChannel messageId
                 (lu_PaymentId (mp_PayeeTransfer pair)) secret secretHash;
               Some (smap_store (payeeChannelId pair) cs1 channelsMap,
                 pair\<lparr>mp_PayeeState := ''payee_balance_proof''\<rparr>,
                 [case unlockLock of Some ev \<Rightarrow> ev | None \<Rightarrow> NilSendBalanceProof,
                  EventUnlockSuccess (ls_PaymentId (mp_PayerTransfer pair))
                    (lk_SecretHash (ls_Lock (mp_PayerTransfer pair)))]) }
             else Some (channelsMap, pair, [])
         | _ \<Rightarrow> Some (channelsMap, pair, []))"

definition eventsForBalanceProof ::
  "env \<Rightarrow> Channels \<Rightarrow> MediationPairState list \<Rightarrow> BlockHeight \<Rightarrow> Secret \<Rightarrow> SecretHash \<Rightarrow> (nat \<Rightarrow> MessageID)
     \<Rightarrow> (Channels \<times> MediationPairState list \<times> Event list) option" where
  "eventsForBalanceProof e channelsMap transfersPair blockNumber secret secretHash ids =
     pairLoop (\<lambda>i. balanceProofPair e blockNumber secret secretHash (ids i)) (rev transfersPair) channelsMap"

primrec dangerzoneLoop ::
  "MediationPairState list \<Rightarrow> bool \<Rightarrow> Channels \<Rightarrow> BlockHeight \<Rightarrow> MediationPairState list \<times> Event list" where
  "dangerzoneLoop [] transactionSent channelsMap blockNumber = ([], [])"
| "dangerzoneLoop (pair # pairs) transactionSent channelsMap blockNumber =
     (let lock = ls_Lock (mp_PayerTransfer pair);
          unchanged = (let (pairs', events) = dangerzoneLoop pairs transactionSent channelsMap blockNumber
                       in (pair # pairs', events))
      in if \<not> isPendingPair pair then unchanged
         else case GetPayerChannel channelsMap pair of
           None \<Rightarrow> unchanged
         | Some payerChannel \<Rightarrow>
             (let secretKnown = IsSecretKnown (cs_PartnerState payerChannel) (lk_SecretHash lock)
              in if MdIsSafeToWait (ucast (lk_Expiration lock)) (cs_RevealTimeout payerChannel) blockNumber \<noteq> Inr ()
                    \<and> secretKnown
                 then let (pairs', events) = dangerzoneLoop pairs True channelsMap blockNumber;
                          revealEvents =
                            (if \<not> transactionSent
                             then EventsForOnChainSecretReveal payerChannel
                                    (GetSecret (cs_PartnerState payerChannel) (lk_SecretHash lock)) (ucast (lk_Expiration lock))
                             else [])
                      in (pair\<lparr>mp_PayerState := ''payer_waiting_secret_reveal''\<rparr> # pairs', revealEvents @ events)
                 else unchanged))"

definition eventsForOnChainSecretRevealIfDangerzone ::
  "Channels \<Rightarrow> SecretHash \<Rightarrow> MediationPairState list \<Rightarrow> BlockHeight \<Rightarrow> MediationPairState list \<times> Event list" where
  "eventsForOnChainSecretRevealIfDangerzone channelsMap secretHash transfersPair blockNumber =
     (let allPayerChannels = List.map_filter (GetPayerChannel channelsMap) transfersPair;
          transactionSent = MdHasSecretRegistrationStarted allPayerChannels transfersPair secretHash
      in dangerzoneLoop transfersPair transactionSent channelsMap blockNumber)"

text \<open>The lock of a closed payer channel is read without a test; it may be nil.\<close>

primrec closedLoop ::
  "MediationPairState list \<Rightarrow> bool \<Rightarrow> Channels \<Rightarrow> Secret \<Rightarrow> SecretHash \<Rightarrow> (MediationPairState list \<times> Event list) option"
where
  "closedLoop [] transactionSent channelsMap secret secretHash = Some ([], [])"
| "closedLoop (pair # pairs) transactionSent channelsMap secret secretHash =
     (case (if isPendingPair pair then GetPayerChannel channelsMap pair else None) of
        Some payerChannel \<Rightarrow>
          if GetStatus payerChannel = ChannelStateClosed
          then do {
            revealEvents \<leftarrow>
              (if \<not> transactionSent
               then do { lock \<leftarrow> GetLock (cs_PartnerState payerChannel) secretHash;
                         Some (EventsForOnChainSecretReveal payerChannel secret (ucast (lk_Expiration lock))) }
               else Some []);
            (pairs', events) \<leftarrow> closedLoop pairs True channelsMap secret secretHash;
            Some (pair\<lparr>mp_PayerState := ''payer_waiting_secret_reveal''\<rparr> # pairs', revealEvents @ events) }
          else do { (pairs', events) \<leftarrow> closedLoop pairs transactionSent channelsMap secret secretHash;
                    Some (pair # pairs', events) }
      | None \<Rightarrow> do { (pairs', events) \<leftarrow> closedLoop pairs transactionSent channelsMap secret secretHash;
                     Some (pair # pairs', events) })"

text \<open>
  \<open>transactionSent\<close> is computed anew in every round of the first loop; the last round sees all payer
  channels, and without pairs it stays false.
\<close>

definition eventsForOnChainSecretRevealIfClosed ::
  "Channels \<Rightarrow> MediationPairState list \<Rightarrow> Secret \<Rightarrow> SecretHash \<Rightarrow> (MediationPairState list \<times> Event list) option" where
  "eventsForOnChainSecretRevealIfClosed channelsMap transfersPair secret secretHash =
     (let (allPayerChannels, transactionSent) =
            foldl (\<lambda>(channels, sent) pair.
                let channels1 = (case GetPayerChannel channelsMap pair of Some cs \<Rightarrow> channels @ [cs] | None \<Rightarrow> channels)
                in (channels1, MdHasSecretRegistrationStarted channels1 transfersPair secretHash))
              ([], False) transfersPair
      in closedLoop transfersPair transactionSent channelsMap secret secretHash)"

definition removeExpiredPair ::
  "env \<Rightarrow> SecretHash \<Rightarrow> BlockHeight \<Rightarrow> MessageID \<Rightarrow> Channels \<Rightarrow> MediationPairState
     \<Rightarrow> (Channels \<times> MediationPairState \<times> Event list) option" where
  "removeExpiredPair e secretHash blockNumber messageId channelsMap transferPair =
     (case GetPayeeChannel channelsMap transferPair of
        None \<Rightarrow> Some (channelsMap, transferPair, [])
      | Some cs \<Rightarrow>
          (let lock = (case smap_load (es_UnLockedLocks (cs_OurState cs)) secretHash of
                 Some u \<Rightarrow> Some (up_Lock u)
               | None \<Rightarrow> smap_load (es_LockedLocks (cs_OurState cs)) secretHash)
           in case lock of
                None \<Rightarrow> Some (channelsMap, transferPair, [])
              | Some lock \<Rightarrow>
                  (let lockExpirationThreshold = lk_Expiration lock + ucast (ConfirmBlockCount (Config e)) * 2
                   in if IsLockExpired (cs_OurState cs) lock blockNumber lockExpirationThreshold = Inr ()
                      then do {
                        (cs1, expiredLockEvents) \<leftarrow> EventsForExpiredLock e cs lock messageId;
                        Some (smap_store (payeeChannelId transferPair) cs1 channelsMap,
                          transferPair\<lparr>mp_PayeeState := ''payee_expired''\<rparr>,
                          expiredLockEvents @
                            [EventUnlockFailed (lu_PaymentId (mp_PayeeTransfer transferPair))
                               (lk_SecretHash (lu_Lock (mp_PayeeTransfer transferPair))) (Msg ''lock expired'')]) }
                      else Some (channelsMap, transferPair, []))))"

definition eventsToRemoveExpiredLocks ::
  "env \<Rightarrow> MediatorTransferState \<Rightarrow> Channels \<Rightarrow> BlockHeight \<Rightarrow> (nat \<Rightarrow> MessageID)
     \<Rightarrow> (Channels \<times> MediatorTransferState \<times> Event list) option" where
  "eventsToRemoveExpiredLocks e state channelsMap blockNumber ids =
     do { (channelsMap1, pairs, events) \<leftarrow>
            pairLoop (\<lambda>i. removeExpiredPair e (ms_SecretHash state) blockNumber (ids i)) (ms_TransfersPair state) channelsMap;
          Some (channelsMap1, state\<lparr>ms_TransfersPair := pairs\<rparr>, events) }"

section \<open>Handlers\<close>

text \<open>The two loops that send messages draw different ids.\<close>

definition secretLearned ::
  "env \<Rightarrow> MediatorTransferState \<Rightarrow> Channels \<Rightarrow> BlockHeight \<Rightarrow> Secret \<Rightarrow> SecretHash \<Rightarrow> Address \<Rightarrow> (nat \<Rightarrow> MessageID)
     \<Rightarrow> (Channels \<times> MediatorTransferState \<times> Event list) option" where
  "secretLearned e state channelsMap blockNumber secret secretHash payeeAddress ids =
     (let (state1, channelsMap1, secretRevealEvents) = setOffChainSecret state channelsMap secret secretHash;
          pairs1 = setOffchainRevealState (ms_TransfersPair state1) payeeAddress
      in do {
        (pairs2, onChainSecretReveal) \<leftarrow> eventsForOnChainSecretRevealIfClosed channelsMap1 pairs1 secret secretHash;
        let (pairs3, offChainSecretReveal) = eventsForSecretReveal pairs2 secret (\<lambda>i. ids (2 * i));
        (channelsMap2, pairs4, balanceProof) \<leftarrow>
          eventsForBalanceProof e channelsMap1 pairs3 blockNumber secret secretHash (\<lambda>i. ids (2 * i + 1));
        Some (channelsMap2, state1\<lparr>ms_TransfersPair := pairs4\<rparr>,
          secretRevealEvents @ offChainSecretReveal @ balanceProof @ onChainSecretReveal) })"

text \<open>An error of \<open>mediateTransfer\<close> comes with a nil iteration, whose events are read at once.\<close>

definition HandleInitMediator ::
  "env \<Rightarrow> (RouteState list \<Rightarrow> RouteState list) \<Rightarrow> ActionInitMediator \<Rightarrow> Channels \<Rightarrow> BlockHeight \<Rightarrow> MessageID
     \<Rightarrow> (Channels \<times> MediatorTransferState option \<times> Event list) option" where
  "HandleInitMediator e order stateChange channelsMap blockNumber msgId =
     (let fromTransfer = aim_FromTransfer stateChange;
          payerId = rt_ChannelId (aim_FromRoute stateChange)
      in case smap_load channelsMap payerId of
           None \<Rightarrow> Some (channelsMap, None, [])
         | Some payerChannel \<Rightarrow>
             do { (cs1, events, err) \<leftarrow> HandleReceiveLockedTransfer e payerChannel fromTransfer;
                  let channelsMap1 = smap_store payerId cs1 channelsMap;
                  (if err \<noteq> None then Some (channelsMap1, None, events)
                   else do {
                     (channelsMap2, iteration) \<leftarrow> mediateTransfer e order
                       \<lparr>ms_SecretHash = lk_SecretHash (ls_Lock fromTransfer), ms_Secret = None, ms_TransfersPair = [],
                        ms_WaitingTransfer = None\<rparr>
                       (aim_Routes stateChange) payerId channelsMap1 fromTransfer blockNumber msgId;
                     (case iteration of
                        Inl _ \<Rightarrow> None
                      | Inr (state, iterationEvents) \<Rightarrow> Some (channelsMap2, Some state, events @ iterationEvents)) }) })"

definition MdHandleBlock ::
  "env \<Rightarrow> MediatorTransferState \<Rightarrow> BlockHeight \<Rightarrow> Channels \<Rightarrow> (nat \<Rightarrow> MessageID)
     \<Rightarrow> (Channels \<times> MediatorTransferState \<times> Event list) option" where
  "MdHandleBlock e state blockHeight channelsMap ids =
     do { (channelsMap1, state1, expiredLocksEvents) \<leftarrow>
            eventsToRemoveExpiredLocks e state channelsMap blockHeight ids;
          let (pairs2, secretRevealEvents) = eventsForOnChainSecretRevealIfDangerzone channelsMap1
                (ms_SecretHash state1) (ms_TransfersPair state1) blockHeight;
          let (pairs3, waiting, unlockFailEvents) =
                eventsForExpiredPairs e channelsMap1 pairs2 (ms_WaitingTransfer state1) blockHeight;
          Some (channelsMap1, state1\<lparr>ms_TransfersPair := pairs3, ms_WaitingTransfer := waiting\<rparr>,
            unlockFailEvents @ secretRevealEvents @ expiredLocksEvents) }"

text \<open>
  The test of the payer channel is the wrong way round: a refund over a known channel is dropped, and
  over an unknown one \<open>handleRefundTransfer\<close> reads the nil channel.
\<close>

definition MdHandleRefundTransfer ::
  "MediatorTransferState \<Rightarrow> ReceiveTransferRefund \<Rightarrow> Channels
     \<Rightarrow> (Channels \<times> MediatorTransferState \<times> Event list) option" where
  "MdHandleRefundTransfer state stateChange channelsMap =
     (if ms_Secret state = None
      then if ms_TransfersPair state = [] then None
           else case smap_load channelsMap (bp_ChannelId (ls_BalanceProof (rtr_Transfer stateChange))) of
                  Some _ \<Rightarrow> Some (channelsMap, state, [])
                | None \<Rightarrow> None
      else Some (channelsMap, state, []))"

definition handleOffChainSecretReveal ::
  "env \<Rightarrow> MediatorTransferState \<Rightarrow> ReceiveSecretReveal \<Rightarrow> Channels \<Rightarrow> BlockHeight \<Rightarrow> (nat \<Rightarrow> MessageID)
     \<Rightarrow> (Channels \<times> MediatorTransferState \<times> Event list) option" where
  "handleOffChainSecretReveal e state stateChange channelsMap blockNumber ids =
     (let secret = rsr_Secret stateChange;
          isValidReveal = IsValidSecretReveal e secret (ms_SecretHash state) secret;
          isSecretUnknown = (ms_Secret state = None)
      in if ms_TransfersPair state = [] then None
         else let transferPair = last (ms_TransfersPair state)
              in case GetPayerChannel channelsMap transferPair of
                   None \<Rightarrow> Some (channelsMap, state, [])
                 | Some payerChannel \<Rightarrow>
                     (let hasPayerTransferExpired =
                            TransferExpired e (mp_PayerTransfer transferPair) payerChannel blockNumber
                      in if isSecretUnknown \<and> isValidReveal \<and> \<not> hasPayerTransferExpired
                         then do {
                           (channelsMap1, state1, events) \<leftarrow> secretLearned e state channelsMap blockNumber secret
                             (sha256 e secret) (rsr_Sender stateChange) ids;
                           Some (channelsMap1, state1, events @
                             [SendProcessed \<lparr>sm_Recipient = rsr_Sender stateChange, sm_ChannelId = ChannelIdGlobalQueue,
                                sm_MessageId = rsr_MessageId stateChange\<rparr>]) }
                         else Some (channelsMap, state, [])))"

text \<open>The height of the event replaces that of the node.\<close>

definition handleOnChainSecretReveal ::
  "env \<Rightarrow> MediatorTransferState \<Rightarrow> ContractReceiveSecretReveal \<Rightarrow> Channels \<Rightarrow> (nat \<Rightarrow> MessageID)
     \<Rightarrow> (Channels \<times> MediatorTransferState \<times> Event list) option" where
  "handleOnChainSecretReveal e state onChainSecretReveal channelsMap ids =
     (let secret = csr_Secret onChainSecretReveal;
          secretHash = csr_SecretHash onChainSecretReveal;
          blockNumber = csr_BlockHeight onChainSecretReveal
      in if IsValidSecretReveal e secret (ms_SecretHash state) secret
         then let (state1, channelsMap1, secretReveal) = setOnChainSecret state channelsMap secret secretHash blockNumber
              in do {
                (channelsMap2, pairs, balanceProof) \<leftarrow> eventsForBalanceProof e channelsMap1
                  (ms_TransfersPair state1) blockNumber secret secretHash ids;
                Some (channelsMap2, state1\<lparr>ms_TransfersPair := pairs\<rparr>, secretReveal @ balanceProof) }
         else Some (channelsMap, state, []))"

definition unlockPair ::
  "env \<Rightarrow> ReceiveUnlock \<Rightarrow> Channels \<Rightarrow> MediationPairState \<Rightarrow> (Channels \<times> MediationPairState \<times> Event list) option" where
  "unlockPair e stateChange channelsMap pair =
     (let balanceProof = rul_BalanceProof stateChange
      in case (if bp_Sender (ls_BalanceProof (mp_PayerTransfer pair)) = bp_Sender balanceProof
               then smap_load channelsMap (bp_ChannelId balanceProof) else None) of
           None \<Rightarrow> Some (channelsMap, pair, [])
         | Some cs \<Rightarrow>
             do { (cs1, isValid, channelEvents, _) \<leftarrow> HandleUnlock e cs stateChange;
                  let channelsMap1 = smap_store (bp_ChannelId balanceProof) cs1 channelsMap;
                  Some (if isValid
                    then (channelsMap1, pair\<lparr>mp_PayerState := ''payer_balance_proof''\<rparr>,
                      channelEvents @ [EventUnlockClaimSuccess (lu_PaymentId (mp_PayeeTransfer pair))
                        (lk_SecretHash (lu_Lock (mp_PayeeTransfer pair)))])
                    else (channelsMap1, pair, channelEvents)) })"

definition MdHandleUnlock ::
  "env \<Rightarrow> MediatorTransferState \<Rightarrow> ReceiveUnlock \<Rightarrow> Channels
     \<Rightarrow> (Channels \<times> MediatorTransferState \<times> Event list) option" where
  "MdHandleUnlock e state stateChange channelsMap =
     do { (channelsMap1, pairs, events) \<leftarrow> pairLoop (\<lambda>_. unlockPair e stateChange) (ms_TransfersPair state) channelsMap;
          Some (channelsMap1, state\<lparr>ms_TransfersPair := pairs\<rparr>, events) }"

text \<open>
  A missing channel ends the loop and drops the events collected so far (\<open>None\<close> in the place of the
  events). The test of \<open>GetLock\<close> is the wrong way round, as it is for the other tasks.
\<close>

primrec lockExpiredLoop ::
  "env \<Rightarrow> SecretHash \<Rightarrow> MediationPairState list \<Rightarrow> ReceiveLockExpired \<Rightarrow> Channels \<Rightarrow> BlockHeight
     \<Rightarrow> (Channels \<times> MediationPairState list \<times> Event list option) option" where
  "lockExpiredLoop e secretHash [] stateChange channelsMap blockNumber = Some (channelsMap, [], Some [])"
| "lockExpiredLoop e secretHash (transferPair # pairs) stateChange channelsMap blockNumber =
     (case GetPayerChannel channelsMap transferPair of
        None \<Rightarrow> Some (channelsMap, transferPair # pairs, None)
      | Some cs \<Rightarrow>
          do { (result, events1) \<leftarrow> handleReceiveLockExpired e cs stateChange blockNumber;
               let cs1 = the_channel result;
               let channelsMap1 = smap_store (payerChannelId transferPair) cs1 channelsMap;
               let pair1 = (if GetLock (cs_PartnerState cs1) secretHash \<noteq> None
                            then transferPair\<lparr>mp_PayerState := ''payer_expired''\<rparr> else transferPair);
               (channelsMap2, pairs2, events2) \<leftarrow>
                 lockExpiredLoop e secretHash pairs stateChange channelsMap1 blockNumber;
               Some (channelsMap2, pair1 # pairs2, map_option (\<lambda>evs. events1 @ evs) events2) })"

definition handleLockExpired ::
  "env \<Rightarrow> MediatorTransferState \<Rightarrow> ReceiveLockExpired \<Rightarrow> Channels \<Rightarrow> BlockHeight
     \<Rightarrow> (Channels \<times> MediatorTransferState \<times> Event list) option" where
  "handleLockExpired e state stateChange channelsMap blockNumber =
     do { (channelsMap1, pairs, looped) \<leftarrow>
            lockExpiredLoop e (ms_SecretHash state) (ms_TransfersPair state) stateChange channelsMap blockNumber;
          let state1 = state\<lparr>ms_TransfersPair := pairs\<rparr>;
          (case looped of
             None \<Rightarrow> Some (channelsMap1, state1, [])
           | Some events \<Rightarrow>
               (case ms_WaitingTransfer state of
                  None \<Rightarrow> Some (channelsMap1, state1, events)
                | Some w \<Rightarrow>
                    (case smap_load channelsMap1 (waitingChannelId w) of
                       None \<Rightarrow> Some (channelsMap1, state1, events)
                     | Some waitingChannel \<Rightarrow>
                         do { (result, waitingEvents) \<leftarrow> handleReceiveLockExpired e waitingChannel stateChange blockNumber;
                              Some (smap_store (waitingChannelId w) (the_channel result) channelsMap1, state1,
                                events @ waitingEvents) }))) }"

section \<open>The dispatcher\<close>

text \<open>
  A nil mediator state is read by every handler but \<open>HandleInitMediator\<close>. The result of \<open>SanityCheck\<close> is
  dropped by the code.
\<close>

definition MdStateTransition ::
  "env \<Rightarrow> (RouteState list \<Rightarrow> RouteState list) \<Rightarrow> MediatorTransferState option \<Rightarrow> TaskChange \<Rightarrow> Channels
     \<Rightarrow> BlockHeight \<Rightarrow> (nat \<Rightarrow> MessageID)
     \<Rightarrow> (Channels \<times> (error + MediatorTransferState option \<times> Event list)) option" where
  "MdStateTransition e order mediatorState stateChange channelsMap blockNumber ids =
     (let finish = map_option (\<lambda>(channelsMap', iteration). (channelsMap', Inr (clearIfFinalized iteration channelsMap')));
          finish_state = (\<lambda>r. finish (map_option (\<lambda>(channelsMap', state, events). (channelsMap', Some state, events)) r))
      in case stateChange of
           TC_ActionInitMediator x \<Rightarrow>
             finish (if mediatorState = None
                     then HandleInitMediator e order x channelsMap blockNumber (ids 0)
                     else Some (channelsMap, mediatorState, []))
         | TC_Block height \<Rightarrow>
             finish_state (do { st \<leftarrow> mediatorState; MdHandleBlock e st height channelsMap ids })
         | TC_ReceiveTransferRefund x \<Rightarrow>
             finish_state (do { st \<leftarrow> mediatorState; MdHandleRefundTransfer st x channelsMap })
         | TC_ReceiveSecretReveal x \<Rightarrow>
             finish_state (do { st \<leftarrow> mediatorState; handleOffChainSecretReveal e st x channelsMap blockNumber ids })
         | TC_ContractReceiveSecretReveal x \<Rightarrow>
             finish_state (do { st \<leftarrow> mediatorState; handleOnChainSecretReveal e st x channelsMap ids })
         | TC_ReceiveUnlock x \<Rightarrow>
             finish_state (do { st \<leftarrow> mediatorState; MdHandleUnlock e st x channelsMap })
         | TC_ReceiveLockExpired x \<Rightarrow>
             finish_state (do { st \<leftarrow> mediatorState; handleLockExpired e st x channelsMap blockNumber })
         | _ \<Rightarrow> Some (channelsMap, Inl (Msg ''[MdStateTransition] stateChange Type error'')))"

end
