(* ===== verification/Pylons_Mediation.thy ===== *)
theory Pylons_Mediation
  imports Pylons_Mediator
begin

text \<open>
  What the mediator of \<open>Pylons_Mediator\<close> does to its channels and to the tokens of its owner.
\<close>

section \<open>Choosing a channel\<close>

lemma MdIsChannelUsable_True:
  assumes "MdIsChannelUsable cs a t = Some True"
  shows "GetStatus cs = ChannelStateOpened" "a \<le> GetDistributable (cs_OurState cs) (cs_PartnerState cs)"
    "sint (cs_RevealTimeout cs) < sint t" "sint t \<le> sint (cs_SettleTimeout cs)" "0 < sint t"
    "getNumberOfPendingTransfers (cs_OurState cs) < MAXIMUM_PENDING_TRANSFERS"
  using assms by (auto simp: MdIsChannelUsable_def Let_def split: Option.bind_split_asm if_split_asm)

lemma nextChannelFromRoutes_usable:
  assumes "nextChannelFromRoutes routes chans a t = Some (Some k)"
  shows "\<exists>cs. smap_load chans k = Some cs \<and> MdIsChannelUsable cs a t = Some True \<and> k \<in> rt_ChannelId ` set routes"
  using assms
  by (induction routes) (auto split: option.split_asm if_split_asm Option.bind_split_asm)

lemma smap_loads_of_stores:
  "smap_load (foldl (\<lambda>m r. smap_store (f r) r m) m0 rs) k = Some r \<Longrightarrow> smap_load m0 k = Some r \<or> r \<in> set rs \<and> f r = k"
  by (induction rs arbitrary: m0) (force split: if_split_asm)+

lemma smap_ok_stores: "smap_ok m0 \<Longrightarrow> smap_ok (foldl (\<lambda>m r. smap_store (f r) r m) m0 rs)"
  by (induction rs arbitrary: m0) simp_all

lemma smap_deletes:
  "smap_ok m0 \<Longrightarrow> smap_ok (foldl (\<lambda>m p. smap_delete (g p) (smap_delete (f p) m)) m0 ps)
     \<and> (smap_load (foldl (\<lambda>m p. smap_delete (g p) (smap_delete (f p) m)) m0 ps) k = Some r
        \<longleftrightarrow> smap_load m0 k = Some r \<and> k \<notin> f ` set ps \<and> k \<notin> g ` set ps)"
  by (induction ps arbitrary: m0) (auto split: if_split_asm)

text \<open>The order of the iteration over a map is a permutation of its entries.\<close>

definition map_order :: "('a list \<Rightarrow> 'a list) \<Rightarrow> bool" where
  "map_order order \<longleftrightarrow> (\<forall>xs. mset (order xs) = mset xs)"

lemma map_order_set: "map_order order \<Longrightarrow> set (order xs) = set xs"
  by (metis map_order_def mset_eq_setD)

lemma MdFilterUsedRoutes_unused:
  assumes "map_order order" and "r \<in> set (MdFilterUsedRoutes order pairs routes)"
  shows "r \<in> set routes" "rt_ChannelId r \<notin> payerChannelId ` set pairs" "rt_ChannelId r \<notin> payeeChannelId ` set pairs"
proof -
  let ?m = "foldl (\<lambda>m r. smap_store (rt_ChannelId r) r m) [] routes"
  let ?u = "foldl (\<lambda>m p. smap_delete (payeeChannelId p) (smap_delete (payerChannelId p) m)) ?m pairs"
  have m: "smap_ok ?m" by (rule smap_ok_stores) simp
  note d = smap_deletes [OF m, of payeeChannelId payerChannelId pairs]
  from assms obtain k where "(k, r) \<in> set ?u" by (auto simp: MdFilterUsedRoutes_def Let_def map_order_set)
  then have u: "smap_load ?u k = Some r" using smap_load_iff [of ?u k r] conjunct1 [OF d] by simp
  have l: "smap_load ?m k = Some r" and k: "k \<notin> payerChannelId ` set pairs" "k \<notin> payeeChannelId ` set pairs"
    using conjunct2 [OF d, of k r] u by simp_all
  from smap_loads_of_stores [OF l] have "r \<in> set routes" "rt_ChannelId r = k" by simp_all
  with k show "r \<in> set routes" "rt_ChannelId r \<notin> payerChannelId ` set pairs" "rt_ChannelId r \<notin> payeeChannelId ` set pairs"
    by simp_all
qed

section \<open>Passing a transfer on\<close>

text \<open>The three outcomes of trying the routes.\<close>

lemma forwardTransferPair_cases:
  assumes "forwardTransferPair e tr routes chans n m = Some (chans', r)"
  obtains (no_route) payer where "smap_load chans (bp_ChannelId (ls_BalanceProof tr)) = Some payer"
      and "chans' = smap_store (bp_ChannelId (ls_BalanceProof tr)) (fst (GetFeeSchedule payer)) chans" and "r = Inr (None, [])"
  | (refused) payer err where "smap_load chans (bp_ChannelId (ls_BalanceProof tr)) = Some payer"
      and "chans' = smap_store (bp_ChannelId (ls_BalanceProof tr)) (fst (GetFeeSchedule payer)) chans" and "r = Inl err"
  | (sent) payer k cs cs' ev where "smap_load chans (bp_ChannelId (ls_BalanceProof tr)) = Some payer"
      and "nextChannelFromRoutes routes chans (lk_Amount (ls_Lock tr)) (lockTimeoutOf (ls_Lock tr) n) = Some (Some k)"
      and "smap_load (smap_store (bp_ChannelId (ls_BalanceProof tr)) (fst (GetFeeSchedule payer)) chans) k = Some cs"
      and "cs_TokenAddress cs = ls_Token tr"
      and "sendLockedTransfer e cs (ls_Initiator tr) (ls_Target tr)
             (GetAmountWithoutFees e (lk_Amount (ls_Lock tr)) (snd (GetFeeSchedule payer))) m (ls_PaymentId tr)
             (ucast (lk_Expiration (ls_Lock tr))) (ls_EncSecret tr) (lk_SecretHash (ls_Lock tr)) (ls_Mediators tr)
             = Some (cs', ev)"
      and "chans' = smap_store k cs' (smap_store (bp_ChannelId (ls_BalanceProof tr)) (fst (GetFeeSchedule payer)) chans)"
      and "(\<exists>err. r = Inl err) \<or> (\<exists>msg ut. ev = Some (SendLockedTransfer msg ut)
             \<and> r = Inr (Some \<lparr>mp_PayeeAddress = es_Address (cs_PartnerState cs'), mp_PayeeTransfer = ut,
                     mp_PayeeState = ''payee_pending'', mp_PayerTransfer = tr, mp_PayerState = ''payer_pending''\<rparr>,
                   [SendLockedTransfer msg ut]))"
proof -
  let ?id = "bp_ChannelId (ls_BalanceProof tr)"
  obtain found payer where f: "nextChannelFromRoutes routes chans (lk_Amount (ls_Lock tr)) (lockTimeoutOf (ls_Lock tr) n) = Some found"
    and p: "smap_load chans ?id = Some payer"
    using assms by (auto simp: forwardTransferPair_def Let_def split: Option.bind_split_asm)
  obtain payer1 fees where g: "GetFeeSchedule payer = (payer1, fees)" by (cases "GetFeeSchedule payer")
  let ?c1 = "smap_store ?id payer1 chans"
  show ?thesis
  proof (cases found)
    case None
    with assms f p g that(1) show ?thesis by (auto simp: forwardTransferPair_def Let_def)
  next
    case (Some k)
    obtain cs where cs: "smap_load ?c1 k = Some cs"
      using assms f p g Some by (auto simp: forwardTransferPair_def Let_def split: Option.bind_split_asm)
    show ?thesis
    proof (cases "sint (cs_SettleTimeout cs) < sint (lockTimeoutOf (ls_Lock tr) n) \<or> cs_TokenAddress cs \<noteq> ls_Token tr")
      case True
      with assms f p g Some cs that(2) show ?thesis
        by (auto simp: forwardTransferPair_def Let_def simp del: smap_load_store split: if_split_asm)
    next
      case False
      then obtain cs' ev where s: "sendLockedTransfer e cs (ls_Initiator tr) (ls_Target tr)
             (GetAmountWithoutFees e (lk_Amount (ls_Lock tr)) fees) m (ls_PaymentId tr)
             (ucast (lk_Expiration (ls_Lock tr))) (ls_EncSecret tr) (lk_SecretHash (ls_Lock tr)) (ls_Mediators tr) = Some (cs', ev)"
        using assms f p g Some cs
        by (auto simp: forwardTransferPair_def Let_def simp del: smap_load_store split: Option.bind_split_asm)
      have c: "chans' = smap_store k cs' ?c1" "(\<exists>err. r = Inl err) \<or> (\<exists>msg ut. ev = Some (SendLockedTransfer msg ut)
             \<and> r = Inr (Some \<lparr>mp_PayeeAddress = es_Address (cs_PartnerState cs'), mp_PayeeTransfer = ut,
                     mp_PayeeState = ''payee_pending'', mp_PayerTransfer = tr, mp_PayerState = ''payer_pending''\<rparr>,
                   [SendLockedTransfer msg ut]))"
        using assms f p g Some cs False s
        by (auto simp: forwardTransferPair_def Let_def simp del: smap_load_store split: option.split_asm Event.split_asm)
      from that(3) [of payer k cs cs' ev] False f p g Some cs s c show ?thesis by simp
    qed
  qed
qed

section \<open>Effect on the channels\<close>

text \<open>No channel has a lock with the secret hash on our side.\<close>

definition fresh_our :: "SecretHash \<Rightarrow> Channels \<Rightarrow> bool" where
  "fresh_our h chans \<longleftrightarrow> (\<forall>k cs. smap_load chans k = Some cs \<longrightarrow> GetLock (cs_OurState cs) h = None)"

lemma fresh_our_store:
  "fresh_our h chans \<Longrightarrow> GetLock (cs_OurState cs) h = None \<Longrightarrow> fresh_our h (smap_store k cs chans)"
  by (simp add: fresh_our_def)

lemma GetFeeSchedule_frame [simp]:
  "cs_OurState (fst (GetFeeSchedule cs)) = cs_OurState cs" "cs_PartnerState (fst (GetFeeSchedule cs)) = cs_PartnerState cs"
  "GetStatus (fst (GetFeeSchedule cs)) = GetStatus cs" "cs_RevealTimeout (fst (GetFeeSchedule cs)) = cs_RevealTimeout cs"
  "cs_TokenAddress (fst (GetFeeSchedule cs)) = cs_TokenAddress cs" "cs_Identifier (fst (GetFeeSchedule cs)) = cs_Identifier cs"
  by (simp_all add: GetFeeSchedule_def GetStatus_def Let_def split: option.split)

lemma forwardTransferPair_steps:
  assumes "forwardTransferPair e tr routes chans n m = Some (chans', r)" and "fresh_our (lk_SecretHash (ls_Lock tr)) chans"
  shows "chans_steps e N chans chans'" "r = Inr (None, evs) \<Longrightarrow> fresh_our (lk_SecretHash (ls_Lock tr)) chans'"
proof -
  let ?id = "bp_ChannelId (ls_BalanceProof tr)"
  have fee: "chans_steps e N chans (smap_store ?id (fst (GetFeeSchedule c)) chans)"
    "fresh_our (lk_SecretHash (ls_Lock tr)) (smap_store ?id (fst (GetFeeSchedule c)) chans)"
    if "smap_load chans ?id = Some c" for c
    using that assms(2) by (auto intro!: chans_steps_store ReadFees fresh_our_store) (simp add: fresh_our_def)
  from assms(1) show "chans_steps e N chans chans'"
  proof (cases rule: forwardTransferPair_cases)
    case (sent payer k cs cs' ev)
    have "GetLock (cs_OurState cs) (lk_SecretHash (ls_Lock tr)) = None"
      using fee(2) [OF sent(1)] sent(3) by (simp only: fresh_our_def)
    then have "(channel_step e N)\<^sup>*\<^sup>* cs cs'" using SendLocked [OF sent(5)] by blast
    from chans_steps_store [OF sent(3) this] fee(1) [OF sent(1)]
    show ?thesis unfolding sent(6) by (rule chans_steps_trans [rotated])
  qed (simp_all add: fee)
  assume "r = Inr (None, evs)"
  with assms(1) show "fresh_our (lk_SecretHash (ls_Lock tr)) chans'"
    by (cases rule: forwardTransferPair_cases) (auto simp: fee)
qed

lemma backwardTransferPair_steps:
  assumes "backwardTransferPair e k chans tr n m = Some (chans', r)" and "fresh_our (lk_SecretHash (ls_Lock tr)) chans"
  shows "chans_steps e N chans chans'"
proof -
  obtain cs where l: "smap_load chans k = Some cs"
    using assms(1) by (auto simp: backwardTransferPair_def Let_def split: Option.bind_split_asm)
  have "\<exists>cs' rf. chans' = chans \<or> chans' = smap_store k cs' chans \<and>
      sendRefundTransfer e cs (ls_Initiator tr) (ls_Target tr) (lk_Amount (ls_Lock tr)) m (ls_PaymentId tr)
        (ucast (lk_Expiration (ls_Lock tr))) (ls_EncSecret tr) (lk_SecretHash (ls_Lock tr)) = Some (cs', rf)"
    using assms(1) l
    by (fastforce simp: backwardTransferPair_def Let_def split: Option.bind_split_asm if_split_asm sum.split_asm Event.split_asm)
  with l assms(2) show ?thesis by (auto simp: fresh_our_def intro!: chans_steps_store [OF l] dest: SendRefund)
qed

lemma mediateTransfer_steps:
  assumes "mediateTransfer e order st routes k chans tr n m = Some (chans', r)" and "fresh_our (lk_SecretHash (ls_Lock tr)) chans"
  shows "chans_steps e N chans chans'"
proof (cases "chans' = chans")
  case False
  obtain chans1 f where f: "forwardTransferPair e tr (MdFilterUsedRoutes order (ms_TransfersPair st) routes) chans n m = Some (chans1, f)"
    using assms(1) False by (auto simp: mediateTransfer_def Let_def split: Option.bind_split_asm if_split_asm)
  note fs = forwardTransferPair_steps [OF f assms(2)]
  show ?thesis
  proof (cases "chans' = chans1")
    case True
    with fs(1) show ?thesis by simp
  next
    case False
    with \<open>chans' \<noteq> chans\<close> obtain evs k' b where r: "f = Inr (None, evs)"
      and b: "backwardTransferPair e k' chans1 tr n m = Some (chans', b)"
      using assms(1) f
      by (auto simp: mediateTransfer_def Let_def split: Option.bind_split_asm if_split_asm sum.split_asm option.split_asm)
    from backwardTransferPair_steps [OF b fs(2) [OF r]] fs(1) show ?thesis by (rule chans_steps_trans [rotated])
  qed
qed simp

lemma HandleInitMediator_steps:
  assumes "HandleInitMediator e order x chans n m = Some (chans', r)" 
    and "fresh_our (lk_SecretHash (ls_Lock (aim_FromTransfer x))) chans"
    and "\<And>k cs. smap_load chans k = Some cs \<Longrightarrow> GetLock (cs_PartnerState cs) (lk_SecretHash (ls_Lock (aim_FromTransfer x))) = None"
  shows "chans_steps e N chans chans'"
proof (cases "smap_load chans (rt_ChannelId (aim_FromRoute x))")
  case None
  with assms(1) show ?thesis by (simp add: HandleInitMediator_def)
next
  case (Some cs)
  let ?k = "rt_ChannelId (aim_FromRoute x)" let ?tr = "aim_FromTransfer x"
  obtain cs1 evs err where h: "HandleReceiveLockedTransfer e cs ?tr = Some (cs1, evs, err)"
    using assms(1) Some by (auto simp: HandleInitMediator_def Let_def split: Option.bind_split_asm)
  have s1: "chans_steps e N chans (smap_store ?k cs1 chans)"
    by (rule chans_steps_store [OF Some]) (use ReceiveLocked [OF h assms(3) [OF Some]] in blast)
  have f: "fresh_our (lk_SecretHash (ls_Lock ?tr)) (smap_store ?k cs1 chans)"
    using assms(2) Some HandleReceiveLockedTransfer_frame(2) [OF h]
    by (intro fresh_our_store) (auto simp: fresh_our_def)
  show ?thesis
  proof (cases "chans' = smap_store ?k cs1 chans")
    case False
    then obtain st' r' where "mediateTransfer e order st' (aim_Routes x) ?k (smap_store ?k cs1 chans) ?tr n m = Some (chans', r')"
      using assms(1) Some h by (auto simp: HandleInitMediator_def Let_def split: Option.bind_split_asm if_split_asm sum.split_asm)
    from mediateTransfer_steps [OF this f] s1 show ?thesis by (rule chans_steps_trans [rotated])
  qed (use s1 in simp)
qed

lemma updateChannel_steps:
  assumes "\<And>cs. channel_step e N cs (f cs)"
  shows "chans_steps e N chans (updateChannel f k chans)"
  using assms by (auto simp: updateChannel_def split: option.split intro: chans_steps_store)

lemma setSecret_steps:
  assumes "setSecret f st chans s h = (st', chans', evs)" and "\<And>cs. channel_step e N cs (f cs)"
  shows "chans_steps e N chans chans'"
proof -
  have "chans_steps e N c (foldl (\<lambda>m pair. updateChannel f (payeeChannelId pair)
      (updateChannel f (payerChannelId pair) m)) c pairs)" for c pairs
  proof (induction pairs arbitrary: c)
    case (Cons p pairs)
    from Cons chans_steps_trans [OF updateChannel_steps [OF assms(2)] updateChannel_steps [OF assms(2)]]
    show ?case using chans_steps_trans by (fastforce simp: foldl_Cons)
  qed simp
  with assms(1) chans_steps_trans [OF _ updateChannel_steps [OF assms(2)]] show ?thesis
    by (auto simp: setSecret_def Let_def split: option.split_asm)
qed

lemma pairLoop_steps:
  assumes "2 * N < 2 ^ 64"
    and "\<And>i c p c' p' evs. body i c p = Some (c', p', evs) \<Longrightarrow> chans_safe e N c \<Longrightarrow> chans_steps e N c c'"
  shows "pairLoop body pairs chans = Some (chans', pairs', evs) \<Longrightarrow> chans_safe e N chans \<Longrightarrow> chans_steps e N chans chans'"
proof (induction pairs arbitrary: chans chans' pairs' evs)
  case (Cons p pairs)
  from Cons.prems(1) obtain c p1 evs1 pairs2 evs2 where b: "body (length pairs) chans p = Some (c, p1, evs1)"
    and l: "pairLoop body pairs c = Some (chans', pairs2, evs2)" by (auto split: Option.bind_split_asm)
  note s = assms(2) [OF b Cons.prems(2)]
  from s Cons.IH [OF l chans_steps_safe [OF s Cons.prems(2) assms(1)]] show ?case by (rule chans_steps_trans)
qed simp

lemma balanceProofPair_steps:
  "balanceProofPair e n s h m c p = Some (c', p', evs) \<Longrightarrow> chans_steps e N c c'"
  by (auto simp: balanceProofPair_def GetPayeeChannel_def Let_def split: Option.bind_split_asm option.split_asm if_split_asm
      intro: chans_steps_store SendBalanceProof)

lemma unlockPair_steps:
  "unlockPair e x c p = Some (c', p', evs) \<Longrightarrow> chans_steps e N c c'"
  by (auto simp: unlockPair_def Let_def split: Option.bind_split_asm option.split_asm if_split_asm)
    (metis chans_steps_store ReceiveUnlocked r_into_rtranclp)+

lemma removeExpiredPair_steps:
  assumes "removeExpiredPair e h n m c p = Some (c', p', evs)" and "chans_safe e N c"
  shows "chans_steps e N c c'"
proof (cases "c' = c")
  case False
  with assms(1) obtain cs cs1 lock levs where l: "smap_load c (payeeChannelId p) = Some cs"
    and k: "smap_load (es_UnLockedLocks (cs_OurState cs)) h = None \<and> smap_load (es_LockedLocks (cs_OurState cs)) h = Some lock
      \<or> (\<exists>u. smap_load (es_UnLockedLocks (cs_OurState cs)) h = Some u \<and> lock = up_Lock u)"
    and x: "EventsForExpiredLock e cs lock m = Some (cs1, levs)" and c': "c' = smap_store (payeeChannelId p) cs1 c"
    by (auto simp: removeExpiredPair_def GetPayeeChannel_def Let_def
        split: Option.bind_split_asm option.split_asm if_split_asm)
  have "safe e N cs" using assms(2) l by (simp add: chans_safe_def)
  note d = wf_end_disjoint [OF safeD(4) [OF this], of h]
  from k d have "GetLock (cs_OurState cs) h = Some lock" "smap_load (es_OnChainUnLockedLocks (cs_OurState cs)) h = None"
    by (auto simp: GetLock_def split: option.split)
  from SendExpired [OF x this, of N] l show ?thesis unfolding c' by (intro chans_steps_store) blast+
qed simp

lemma lockExpired_step:
  "handleReceiveLockExpired e cs x n = Some (r, evs) \<Longrightarrow> (channel_step e N)\<^sup>*\<^sup>* cs (the_channel r)"
  using ReceiveExpired handleReceiveLockExpired_NewState by (metis r_into_rtranclp)

lemma lockExpiredLoop_steps:
  "lockExpiredLoop e h pairs x chans n = Some (chans', r) \<Longrightarrow> chans_steps e N chans chans'"
proof (induction pairs arbitrary: chans chans' r)
  case (Cons p pairs)
  show ?case
  proof (cases "GetPayerChannel chans p")
    case None
    with Cons.prems show ?thesis by simp
  next
    case (Some cs)
    with Cons.prems obtain res evs r' where h: "handleReceiveLockExpired e cs x n = Some (res, evs)"
      and l: "lockExpiredLoop e h pairs x (smap_store (payerChannelId p) (the_channel res) chans) n = Some (chans', r')"
      by (auto simp: Let_def split: Option.bind_split_asm)
    have "chans_steps e N chans (smap_store (payerChannelId p) (the_channel res) chans)"
      using Some lockExpired_step [OF h] by (intro chans_steps_store) (auto simp: GetPayerChannel_def)
    then show ?thesis using Cons.IH [OF l] by (rule chans_steps_trans)
  qed
qed simp

lemma handleLockExpired_steps:
  assumes "handleLockExpired e st x chans n = Some (chans', r)"
  shows "chans_steps e N chans chans'"
proof -
  obtain c ps l where lp: "lockExpiredLoop e (ms_SecretHash st) (ms_TransfersPair st) x chans n = Some (c, ps, l)"
    using assms by (auto simp: handleLockExpired_def split: Option.bind_split_asm)
  have "chans_steps e N c chans'"
    using assms lp by (auto simp: handleLockExpired_def Let_def split: Option.bind_split_asm option.split_asm
        intro!: chans_steps_store lockExpired_step)
  with lockExpiredLoop_steps [OF lp] show ?thesis by (rule chans_steps_trans)
qed

lemma eventsForBalanceProof_steps:
  assumes "eventsForBalanceProof e chans pairs n s h ids = Some (chans', pairs', evs)"
    and "chans_safe e N chans" and "2 * N < 2 ^ 64"
  shows "chans_steps e N chans chans'"
  using pairLoop_steps [OF assms(3) balanceProofPair_steps] assms(1,2) by (auto simp: eventsForBalanceProof_def)

lemma secretLearned_steps:
  assumes "secretLearned e st chans n s h payee ids = Some (chans', r)" and "chans_safe e N chans" and "2 * N < 2 ^ 64"
  shows "chans_steps e N chans chans'"
proof -
  obtain st1 c evs where o: "setOffChainSecret st chans s h = (st1, c, evs)" by (cases "setOffChainSecret st chans s h")
  then have s: "chans_steps e N chans c"
    unfolding setOffChainSecret_def by (rule setSecret_steps) (rule OffChainSecret)
  obtain pairs3 pairs4 evs4 ids' where "eventsForBalanceProof e c pairs3 n s h ids' = Some (chans', pairs4, evs4)"
    using assms(1) o by (auto simp: secretLearned_def Let_def split: Option.bind_split_asm prod.split_asm)
  from eventsForBalanceProof_steps [OF this chans_steps_safe [OF s assms(2,3)] assms(3)]
  show ?thesis using s by (rule chans_steps_trans [rotated])
qed

lemma handleOffChainSecretReveal_steps:
  assumes "handleOffChainSecretReveal e st x chans n ids = Some (chans', r)" and "chans_safe e N chans" and "2 * N < 2 ^ 64"
  shows "chans_steps e N chans chans'"
  using assms(1) secretLearned_steps [OF _ assms(2,3)]
  by (auto simp: handleOffChainSecretReveal_def Let_def split: Option.bind_split_asm option.split_asm if_split_asm)

lemma handleOnChainSecretReveal_steps:
  assumes "handleOnChainSecretReveal e st x chans ids = Some (chans', r)" and "chans_safe e N chans" and "2 * N < 2 ^ 64"
  shows "chans_steps e N chans chans'"
proof -
  obtain st1 c evs where o: "setOnChainSecret st chans (csr_Secret x) (csr_SecretHash x) (csr_BlockHeight x) = (st1, c, evs)"
    by (cases "setOnChainSecret st chans (csr_Secret x) (csr_SecretHash x) (csr_BlockHeight x)")
  then have s: "chans_steps e N chans c"
    unfolding setOnChainSecret_def by (rule setSecret_steps) (rule OnChainSecret)
  from s chans_steps_trans [OF s eventsForBalanceProof_steps [OF _ chans_steps_safe [OF s assms(2,3)] assms(3)]] assms(1) o
  show ?thesis by (auto simp: handleOnChainSecretReveal_def Let_def split: Option.bind_split_asm if_split_asm)
qed

lemma MdHandleBlock_steps:
  assumes "MdHandleBlock e st h chans ids = Some (chans', r)" and "chans_safe e N chans" and "2 * N < 2 ^ 64"
  shows "chans_steps e N chans chans'"
  using assms(1,2) pairLoop_steps [OF assms(3) removeExpiredPair_steps]
  by (auto simp: MdHandleBlock_def eventsToRemoveExpiredLocks_def Let_def split: Option.bind_split_asm prod.split_asm)

lemma MdHandleUnlock_steps:
  assumes "MdHandleUnlock e st x chans = Some (chans', r)" and "chans_safe e N chans" and "2 * N < 2 ^ 64"
  shows "chans_steps e N chans chans'"
  using assms(1,2) pairLoop_steps [OF assms(3) unlockPair_steps]
  by (auto simp: MdHandleUnlock_def split: Option.bind_split_asm)

section \<open>Properties\<close>

text \<open>The handler behind a transition of a running task.\<close>

definition md_handler ::
  "env \<Rightarrow> MediatorTransferState \<Rightarrow> TaskChange \<Rightarrow> Channels \<Rightarrow> BlockHeight \<Rightarrow> (nat \<Rightarrow> MessageID)
     \<Rightarrow> (Channels \<times> MediatorTransferState \<times> Event list) option" where
  "md_handler e st sc chans n ids =
     (case sc of
        TC_Block h \<Rightarrow> MdHandleBlock e st h chans ids
      | TC_ReceiveTransferRefund x \<Rightarrow> MdHandleRefundTransfer st x chans
      | TC_ReceiveSecretReveal x \<Rightarrow> handleOffChainSecretReveal e st x chans n ids
      | TC_ContractReceiveSecretReveal x \<Rightarrow> handleOnChainSecretReveal e st x chans ids
      | TC_ReceiveUnlock x \<Rightarrow> MdHandleUnlock e st x chans
      | TC_ReceiveLockExpired x \<Rightarrow> handleLockExpired e st x chans n
      | _ \<Rightarrow> Some (chans, st, []))"

lemma MdStateTransition_cases:
  assumes "MdStateTransition e order st sc chans n ids = Some (chans', r)"
  obtains (init) x st' evs where "sc = TC_ActionInitMediator x" and "st = None"
      and "HandleInitMediator e order x chans n (ids 0) = Some (chans', st', evs)"
      and "r = Inr (clearIfFinalized (st', evs) chans')"
  | (step) s s' evs where "st = Some s" and "md_handler e s sc chans n ids = Some (chans', s', evs)"
      and "r = Inr (clearIfFinalized (Some s', evs) chans')"
  | (unknown) err where "chans' = chans" and "r = Inl err"
proof (cases sc)
  case (TC_ActionInitMediator x)
  with assms that show ?thesis
    by (cases st) (auto simp: MdStateTransition_def md_handler_def)
qed (use assms that(2,3) in \<open>auto simp: MdStateTransition_def md_handler_def split: Option.bind_split_asm\<close>)

lemma md_handler_steps:
  assumes "md_handler e st sc chans n ids = Some (chans', r)" and "chans_safe e N chans" and "2 * N < 2 ^ 64"
  shows "chans_steps e N chans chans'"
proof (cases sc)
  case (TC_ReceiveTransferRefund x)
  with assms(1) show ?thesis
    by (auto simp: md_handler_def MdHandleRefundTransfer_def split: if_split_asm option.split_asm)
qed (use assms in \<open>auto simp: md_handler_def intro: MdHandleBlock_steps handleOffChainSecretReveal_steps
    handleOnChainSecretReveal_steps MdHandleUnlock_steps handleLockExpired_steps\<close>)

text \<open>
  The mediator is a client of its channels: whatever it does, each channel of the token network takes
  channel steps only. A mediation is started with a secret hash that is pending in no channel.
\<close>

lemma MdStateTransition_steps:
  assumes "MdStateTransition e order st sc chans n ids = Some (chans', r)"
    and "chans_safe e N chans" and "2 * N < 2 ^ 64"
    and "\<And>x k cs. sc = TC_ActionInitMediator x \<Longrightarrow> smap_load chans k = Some cs \<Longrightarrow>
       GetLock (cs_OurState cs) (lk_SecretHash (ls_Lock (aim_FromTransfer x))) = None
       \<and> GetLock (cs_PartnerState cs) (lk_SecretHash (ls_Lock (aim_FromTransfer x))) = None"
  shows "chans_steps e N chans chans'"
  using assms(1)
proof (cases rule: MdStateTransition_cases)
  case (init x st' evs)
  with HandleInitMediator_steps [OF init(3)] assms(4) [OF init(1)] show ?thesis by (simp add: fresh_our_def)
next
  case (step s s' evs)
  from md_handler_steps [OF step(2) assms(2,3)] show ?thesis .
qed simp

text \<open>What a handler leaves alone in a pair, and in the state of the task.\<close>

definition pair_core :: "MediationPairState \<Rightarrow> Address \<times> LockedTransferUnsignedState \<times> LockedTransferSignedState" where
  "pair_core p = (mp_PayeeAddress p, mp_PayeeTransfer p, mp_PayerTransfer p)"

definition same_task :: "MediatorTransferState \<Rightarrow> MediatorTransferState \<Rightarrow> bool" where
  "same_task s s' \<longleftrightarrow> ms_SecretHash s' = ms_SecretHash s
     \<and> mset (map pair_core (ms_TransfersPair s')) = mset (map pair_core (ms_TransfersPair s))
     \<and> map_option wt_Transfer (ms_WaitingTransfer s') = map_option wt_Transfer (ms_WaitingTransfer s)"

lemma pair_core_update [simp]:
  "pair_core (p\<lparr>mp_PayerState := x\<rparr>) = pair_core p" "pair_core (p\<lparr>mp_PayeeState := x\<rparr>) = pair_core p"
  by (simp_all add: pair_core_def)

lemma pair_core_ids:
  "pair_core p = pair_core q \<Longrightarrow> payerChannelId p = payerChannelId q \<and> payeeChannelId p = payeeChannelId q"
  by (simp add: pair_core_def payerChannelId_def payeeChannelId_def)

lemma set_map_member: "set (map f xs) = set (map f ys) \<Longrightarrow> p \<in> set xs \<Longrightarrow> \<exists>q \<in> set ys. f q = f p"
  by (metis imageE image_eqI list.set_map)

lemma same_task_refl [simp]: "same_task s s"
  by (simp add: same_task_def)

lemma pairLoop_core:
  assumes "\<And>i c p c' p' evs. body i c p = Some (c', p', evs) \<Longrightarrow> pair_core p' = pair_core p"
  shows "pairLoop body pairs chans = Some (chans', pairs', evs) \<Longrightarrow> map pair_core pairs' = map pair_core pairs"
  by (induction pairs arbitrary: chans chans' pairs' evs) (auto split: Option.bind_split_asm, metis assms)

lemma pair_bodies_core:
  "balanceProofPair e n s h m c p = Some (c', p', evs) \<Longrightarrow> pair_core p' = pair_core p"
  "unlockPair e x c p = Some (c', p', evs) \<Longrightarrow> pair_core p' = pair_core p"
  "removeExpiredPair e h n m c p = Some (c', p', evs) \<Longrightarrow> pair_core p' = pair_core p"
  by (auto simp: balanceProofPair_def unlockPair_def removeExpiredPair_def Let_def
      split: Option.bind_split_asm option.split_asm if_split_asm)

lemma secretRevealLoop_core: "map pair_core (fst (secretRevealLoop pairs s ids)) = map pair_core pairs"
  by (induction pairs) (simp_all add: case_prod_beta Let_def)

lemma dangerzoneLoop_core: "map pair_core (fst (dangerzoneLoop pairs sent c n)) = map pair_core pairs"
  by (induction pairs arbitrary: sent) (simp_all add: case_prod_beta Let_def split: option.split)

lemma closedLoop_core: "closedLoop pairs sent c s h = Some (pairs', evs) \<Longrightarrow> map pair_core pairs' = map pair_core pairs"
  by (induction pairs arbitrary: sent pairs' evs) (auto split: Option.bind_split_asm option.split_asm if_split_asm)

lemma lockExpiredLoop_core:
  "lockExpiredLoop e h pairs x chans n = Some (chans', pairs', r) \<Longrightarrow> map pair_core pairs' = map pair_core pairs"
  by (induction pairs arbitrary: chans chans' pairs' r) (auto simp: Let_def split: Option.bind_split_asm option.split_asm)

lemma eventsForBalanceProof_core:
  "eventsForBalanceProof e c pairs n s h ids = Some (c', pairs', evs) \<Longrightarrow> map pair_core pairs' = map pair_core (rev pairs)"
  unfolding eventsForBalanceProof_def by (erule pairLoop_core [rotated]) (rule pair_bodies_core)

lemma setSecret_core:
  "setSecret f st c s h = (st', c', evs) \<Longrightarrow> st' = st\<lparr>ms_Secret := Some s\<rparr>"
  by (auto simp: setSecret_def Let_def split: option.split_asm)

lemma secretLearned_core:
  assumes "secretLearned e st c n s h payee ids = Some (c', st', evs)"
  shows "same_task st st'" "ms_Secret st' = Some s"
proof -
  obtain st1 c1 evs1 where o: "setOffChainSecret st c s h = (st1, c1, evs1)" by (cases "setOffChainSecret st c s h")
  note st1 = setSecret_core [OF o [unfolded setOffChainSecret_def]]
  obtain pairs2 evs2 where cl: "eventsForOnChainSecretRevealIfClosed c1
      (setOffchainRevealState (ms_TransfersPair st) payee) s h = Some (pairs2, evs2)"
    using assms o st1 by (auto simp: secretLearned_def Let_def split: Option.bind_split_asm prod.split_asm)
  obtain pairs4 evs4 where b: "eventsForBalanceProof e c1 (fst (eventsForSecretReveal pairs2 s (\<lambda>i. ids (2 * i)))) n s h
      (\<lambda>i. ids (2 * i + 1)) = Some (c', pairs4, evs4)" and st': "st' = st1\<lparr>ms_TransfersPair := pairs4\<rparr>"
    using assms o st1 cl by (auto simp: secretLearned_def Let_def split: Option.bind_split_asm prod.split_asm)
  have "map pair_core pairs2 = map pair_core (ms_TransfersPair st)"
    using cl closedLoop_core by (force simp: eventsForOnChainSecretRevealIfClosed_def setOffchainRevealState_def case_prod_beta)
  moreover have "map pair_core (fst (eventsForSecretReveal pairs2 s ids')) = rev (map pair_core pairs2)" for ids'
    by (simp add: eventsForSecretReveal_def secretRevealLoop_core rev_map)
  ultimately have "map pair_core pairs4 = map pair_core (ms_TransfersPair st)"
    using eventsForBalanceProof_core [OF b] by (simp flip: rev_map)
  then show "same_task st st'" "ms_Secret st' = Some s" by (simp_all add: st' st1 same_task_def)
qed

lemma eventsForExpiredPairs_core:
  "eventsForExpiredPairs e c pairs w n = (pairs', w', evs) \<Longrightarrow>
     map pair_core pairs' = map pair_core pairs \<and> map_option wt_Transfer w' = map_option wt_Transfer w"
  by (auto simp: eventsForExpiredPairs_def Let_def split: option.split_asm if_split_asm)

lemma MdHandleBlock_core:
  assumes "MdHandleBlock e st h c ids = Some (c', st', evs)"
  shows "same_task st st'" "ms_Secret st' = ms_Secret st"
proof -
  obtain pairs1 evs1 where l: "pairLoop (\<lambda>i. removeExpiredPair e (ms_SecretHash st) h (ids i)) (ms_TransfersPair st) c = Some (c', pairs1, evs1)"
    using assms by (auto simp: MdHandleBlock_def eventsToRemoveExpiredLocks_def Let_def split: Option.bind_split_asm prod.split_asm)
  let ?d = "eventsForOnChainSecretRevealIfDangerzone c' (ms_SecretHash st) pairs1 h"
  obtain pairs3 w evs3 where x: "eventsForExpiredPairs e c' (fst ?d) (ms_WaitingTransfer st) h = (pairs3, w, evs3)"
    by (cases "eventsForExpiredPairs e c' (fst ?d) (ms_WaitingTransfer st) h")
  have st': "st' = st\<lparr>ms_TransfersPair := pairs3, ms_WaitingTransfer := w\<rparr>"
    using assms l x by (auto simp: MdHandleBlock_def eventsToRemoveExpiredLocks_def Let_def split: prod.split_asm)
  have "map pair_core pairs3 = map pair_core pairs1 \<and> map_option wt_Transfer w = map_option wt_Transfer (ms_WaitingTransfer st)"
    using eventsForExpiredPairs_core [OF x]
    by (simp add: eventsForOnChainSecretRevealIfDangerzone_def dangerzoneLoop_core Let_def)
  moreover have "map pair_core pairs1 = map pair_core (ms_TransfersPair st)"
    using l by (rule pairLoop_core [rotated]) (rule pair_bodies_core)
  ultimately show "same_task st st'" "ms_Secret st' = ms_Secret st" by (simp_all add: st' same_task_def)
qed

lemma md_handler_core:
  assumes "md_handler e st sc c n ids = Some (c', st', evs)"
  shows "same_task st st'"
proof (cases sc)
  case (TC_ReceiveTransferRefund x)
  with assms show ?thesis
    by (auto simp: md_handler_def MdHandleRefundTransfer_def split: if_split_asm option.split_asm)
next
  case (TC_ReceiveSecretReveal x)
  with assms show ?thesis
    by (auto simp: md_handler_def handleOffChainSecretReveal_def Let_def
        split: Option.bind_split_asm option.split_asm if_split_asm intro: secretLearned_core)
next
  case (TC_ContractReceiveSecretReveal x)
  with assms show ?thesis
    by (auto simp: md_handler_def handleOnChainSecretReveal_def setOnChainSecret_def same_task_def Let_def
        split: Option.bind_split_asm if_split_asm prod.split_asm dest!: setSecret_core eventsForBalanceProof_core
        simp flip: mset_map rev_map)
next
  case (TC_ReceiveUnlock x)
  with assms show ?thesis
    using pairLoop_core [of "\<lambda>_. unlockPair e x", OF pair_bodies_core(2)]
    by (auto simp: md_handler_def MdHandleUnlock_def same_task_def simp flip: mset_map split: Option.bind_split_asm)
next
  case (TC_ReceiveLockExpired x)
  with assms show ?thesis
    by (auto simp: md_handler_def handleLockExpired_def same_task_def Let_def simp flip: mset_map
        split: Option.bind_split_asm option.split_asm dest!: lockExpiredLoop_core)
qed (use assms in \<open>auto simp: md_handler_def intro: MdHandleBlock_core\<close>)

end
