(* ===== verification/Pylons_TokenNetwork.thy ===== *)
theory Pylons_TokenNetwork
  imports Pylons_Mediation
begin

text \<open>
  The token network of a node (\<open>transfer/tokennetwork.go\<close>, the network parts of \<open>transfer/state.go\<close> and
  \<open>transfer/views.go\<close>): the channels, their index by partner, the graph of known routes and the dispatch of
  state changes to the channels.

  The maps \<open>ChannelsMap\<close> and \<open>PartnerAddressesToChannels\<close> of the code hold pointers to the same channel
  structs. Here the structs live in \<open>tn_ChannelsMap\<close> and the index holds their ids; a handler that
  changes a channel through either map changes the one struct. The order in which Go visits the keys of a
  map is a parameter, \<open>ranges\<close>.
\<close>

section \<open>Data\<close>

record TokenNetworkGraph =
  gr_Nodes :: "(Address, goint) smap"
  gr_Edges :: "(EdgeId, goint) smap"

record TokenNetworkState =
  tn_DnsAddrsMap :: "(Address, goint) smap"
  tn_Address :: TokenNetworkID
  tn_TokenAddress :: TokenAddress
  tn_NetworkGraph :: TokenNetworkGraph
  tn_ChannelsMap :: Channels
  tn_PartnerAddressesToChannels :: "(Address, ChannelID list) smap"
  tn_FeeScheduleMap :: "(Address, FeeScheduleState) smap"

record ContractReceiveChannelNew =
  ccn_BlockHeight :: BlockHeight
  ccn_TokenNetworkId :: TokenNetworkID
  ccn_ChannelState :: NettingChannelState
  ccn_ChannelId :: ChannelID

record ContractReceiveRouteNew =
  crn_BlockHeight :: BlockHeight
  crn_TokenNetworkId :: TokenNetworkID
  crn_ChannelId :: ChannelID
  crn_Participant1 :: Address
  crn_Participant2 :: Address

record ContractReceiveRouteClosed =
  crd_BlockHeight :: BlockHeight
  crd_TokenNetworkId :: TokenNetworkID
  crd_ChannelId :: ChannelID

record ContractReceiveSetFee =
  csf_BlockHeight :: BlockHeight
  csf_WalletAddr :: Address
  csf_TokenAddr :: Address
  csf_TokenNetworkId :: TokenNetworkID
  csf_FeeSchedule :: FeeScheduleState

text \<open>The state changes \<open>stateTransitionForNetwork\<close> dispatches on: those of a channel, and four more.\<close>

datatype (plugins only: code) NetworkChange =
    NC_Channel StateChange
  | NC_ContractReceiveChannelNew ContractReceiveChannelNew
  | NC_ContractReceiveRouteNew ContractReceiveRouteNew
  | NC_ContractReceiveRouteClosed ContractReceiveRouteClosed
  | NC_ContractReceiveSetFee ContractReceiveSetFee

text \<open>The orders of iteration, and the DNS contract: which addresses \<open>GetDnsNodeByAddr\<close> knows.\<close>

record QueueId =
  qi_Recipient :: Address
  qi_ChannelId :: ChannelID

record ranges =
  rg_PaymentNetworks :: "PaymentNetworkID list \<Rightarrow> PaymentNetworkID list"
  rg_TokenNetworks :: "TokenNetworkID list \<Rightarrow> TokenNetworkID list"
  rg_Channels :: "ChannelID list \<Rightarrow> ChannelID list"
  rg_Partners :: "Address list \<Rightarrow> Address list"
  rg_Tasks :: "SecretHash list \<Rightarrow> SecretHash list"
  rg_Queues :: "QueueId list \<Rightarrow> QueueId list"
  rg_Routes :: "RouteState list \<Rightarrow> RouteState list"
  IsDnsNode :: "Address \<Rightarrow> bool"

definition ranges_ok :: "ranges \<Rightarrow> bool" where
  "ranges_ok r \<longleftrightarrow> map_order (rg_PaymentNetworks r) \<and> map_order (rg_TokenNetworks r) \<and> map_order (rg_Channels r)
     \<and> map_order (rg_Partners r) \<and> map_order (rg_Tasks r) \<and> map_order (rg_Queues r) \<and> map_order (rg_Routes r)"

text \<open>A loop over the keys of a map: the body may panic, changes the state and yields events.\<close>

fun rangeLoop :: "('k \<Rightarrow> 's \<Rightarrow> ('s \<times> Event list) option) \<Rightarrow> 'k list \<Rightarrow> 's \<Rightarrow> ('s \<times> Event list) option" where
  "rangeLoop body [] s = Some (s, [])"
| "rangeLoop body (k # ks) s =
     do { (s1, events1) \<leftarrow> body k s; (s2, events2) \<leftarrow> rangeLoop body ks s1; Some (s2, events1 @ events2) }"

section \<open>The graph of routes\<close>

definition NewTokenNetworkState :: "Address \<Rightarrow> TokenNetworkState" where
  "NewTokenNetworkState localAddr =
     \<lparr>tn_DnsAddrsMap = [], tn_Address = 0, tn_TokenAddress = 0,
      tn_NetworkGraph = \<lparr>gr_Nodes = [(localAddr, 1)], gr_Edges = []\<rparr>,
      tn_ChannelsMap = [], tn_PartnerAddressesToChannels = [], tn_FeeScheduleMap = []\<rparr>"

definition updateDns :: "ranges \<Rightarrow> Address \<Rightarrow> TokenNetworkState \<Rightarrow> TokenNetworkState" where
  "updateDns r addr tn =
     (if IsDnsNode r addr then tn\<lparr>tn_DnsAddrsMap := smap_store addr 1 (tn_DnsAddrsMap tn)\<rparr> else tn)"

definition edgeId :: "Address \<Rightarrow> Address \<Rightarrow> EdgeId" where
  "edgeId addr1 addr2 = word_cat addr1 addr2"

definition addEdge :: "Address \<Rightarrow> Address \<Rightarrow> TokenNetworkGraph \<Rightarrow> TokenNetworkGraph" where
  "addEdge addr1 addr2 g =
     g\<lparr>gr_Edges := smap_store (edgeId addr1 addr2) 1 (gr_Edges g),
       gr_Nodes := (case smap_load (gr_Nodes g) addr1 of
                      Some v \<Rightarrow> smap_store addr1 (v + 1) (gr_Nodes g)
                    | None \<Rightarrow> smap_store addr1 1 (gr_Nodes g))\<rparr>"

definition AddRoute :: "ranges \<Rightarrow> Address \<Rightarrow> Address \<Rightarrow> TokenNetworkState \<Rightarrow> TokenNetworkState" where
  "AddRoute r addr1 addr2 tn =
     (let tn1 = updateDns r addr2 (updateDns r addr1 tn);
          g = tn_NetworkGraph tn1
      in if smap_load (gr_Edges g) (edgeId addr1 addr2) \<noteq> None then tn1
         else let g1 = addEdge addr1 addr2 g
              in if smap_load (gr_Edges g1) (edgeId addr2 addr1) \<noteq> None then tn1\<lparr>tn_NetworkGraph := g1\<rparr>
                 else tn1\<lparr>tn_NetworkGraph := addEdge addr2 addr1 g1\<rparr>)"

definition delEdge :: "Address \<Rightarrow> Address \<Rightarrow> TokenNetworkGraph \<Rightarrow> TokenNetworkGraph" where
  "delEdge addr1 addr2 g =
     (if smap_load (gr_Edges g) (edgeId addr1 addr2) = None then g
      else g\<lparr>gr_Edges := smap_delete (edgeId addr1 addr2) (gr_Edges g),
             gr_Nodes := (case smap_load (gr_Nodes g) addr1 of
                            None \<Rightarrow> gr_Nodes g
                          | Some v \<Rightarrow> if sint v \<le> 1 then smap_delete addr1 (gr_Nodes g)
                                      else smap_store addr1 (v - 1) (gr_Nodes g))\<rparr>)"

definition DelRoute :: "ChannelID \<Rightarrow> TokenNetworkState \<Rightarrow> TokenNetworkState" where
  "DelRoute channelId tn =
     (case smap_load (tn_ChannelsMap tn) channelId of
        None \<Rightarrow> tn
      | Some cs \<Rightarrow>
          let addr1 = es_Address (cs_OurState cs);
              addr2 = es_Address (cs_PartnerState cs)
          in tn\<lparr>tn_NetworkGraph := delEdge addr2 addr1 (delEdge addr1 addr2 (tn_NetworkGraph tn))\<rparr>)"

definition AddFeeSchedule :: "Address \<Rightarrow> FeeScheduleState \<Rightarrow> TokenNetworkState \<Rightarrow> TokenNetworkState" where
  "AddFeeSchedule addr fee tn = tn\<lparr>tn_FeeScheduleMap := smap_store addr fee (tn_FeeScheduleMap tn)\<rparr>"

section \<open>The index by partner\<close>

definition partnerChannels :: "TokenNetworkState \<Rightarrow> Address \<Rightarrow> ChannelID list" where
  "partnerChannels tn addr =
     (case smap_load (tn_PartnerAddressesToChannels tn) addr of Some ids \<Rightarrow> ids | None \<Rightarrow> [])"

definition putPartner :: "Address \<Rightarrow> ChannelID \<Rightarrow> TokenNetworkState \<Rightarrow> TokenNetworkState" where
  "putPartner addr channelId tn =
     tn\<lparr>tn_PartnerAddressesToChannels :=
          smap_store addr (List.insert channelId (partnerChannels tn addr)) (tn_PartnerAddressesToChannels tn)\<rparr>"

definition dropPartner :: "Address \<Rightarrow> ChannelID \<Rightarrow> TokenNetworkState \<Rightarrow> TokenNetworkState" where
  "dropPartner addr channelId tn =
     tn\<lparr>tn_PartnerAddressesToChannels :=
          smap_store addr (removeAll channelId (partnerChannels tn addr)) (tn_PartnerAddressesToChannels tn)\<rparr>"

text \<open>\<open>AdjustTokenNetworkState\<close> rebuilds the index after a state was read from storage.\<close>

definition AdjustTokenNetworkState :: "ranges \<Rightarrow> TokenNetworkState \<Rightarrow> TokenNetworkState" where
  "AdjustTokenNetworkState r tn =
     foldl (\<lambda>t k. case smap_load (tn_ChannelsMap tn) k of
              Some cs \<Rightarrow> putPartner (es_Address (cs_PartnerState cs)) (cs_Identifier cs) t
            | None \<Rightarrow> t)
       (tn\<lparr>tn_PartnerAddressesToChannels := []\<rparr>) (rg_Channels r (map fst (tn_ChannelsMap tn)))"

definition FilterChannelsByStatus ::
  "ranges \<Rightarrow> Channels \<Rightarrow> ChannelID list \<Rightarrow> ChannelStatus list \<Rightarrow> ChannelID list" where
  "FilterChannelsByStatus r chans channelStates excludeStates =
     [k \<leftarrow> rg_Channels r channelStates.
        case smap_load chans k of Some cs \<Rightarrow> GetStatus cs \<notin> set excludeStates | None \<Rightarrow> False]"

section \<open>Dispatch to channels\<close>

fun GetChannelId :: "StateChange \<Rightarrow> ChannelID" where
  "GetChannelId (ActionChannelClose _ channelId) = channelId"
| "GetChannelId (SC_ContractReceiveChannelNewBalance x) = cnb_ChannelId x"
| "GetChannelId (SC_ContractReceiveChannelClosed x) = ccl_ChannelId x"
| "GetChannelId (SC_ContractReceiveChannelSettled x) = cst_ChannelId x"
| "GetChannelId (SC_ContractReceiveUpdateTransfer x) = cut_ChannelId x"
| "GetChannelId (SC_ReceiveWithdrawRequest x) = rwr_ChannelId x"
| "GetChannelId (SC_ReceiveWithdraw x) = rwr_ChannelId x"
| "GetChannelId (SC_ContractReceiveChannelWithdraw x) = crw_ChannelId x"
| "GetChannelId (SC_ReceiveCooperativeSettleRequest x) = rcr_ChannelId x"
| "GetChannelId (SC_ReceiveCooperativeSettle x) = rcs_ChannelId x"
| "GetChannelId (SC_ContractReceiveChannelCooperativeSettled x) = crc_ChannelId x"
| "GetChannelId _ = 0"

text \<open>
  A transition of the channel under a key, if there is one, whose new state is ignored: the struct in the
  map is the one that was changed.
\<close>

definition channelInPlace ::
  "env \<Rightarrow> StateChange \<Rightarrow> BlockHeight \<Rightarrow> MessageID \<Rightarrow> ChannelID \<Rightarrow> TokenNetworkState
     \<Rightarrow> (TokenNetworkState \<times> Event list) option" where
  "channelInPlace e stateChange blockNumber msgId k tn =
     (case smap_load (tn_ChannelsMap tn) k of
        None \<Rightarrow> Some (tn, [])
      | Some cs \<Rightarrow>
          do { (result, events) \<leftarrow> StateTransitionForChannel e cs stateChange blockNumber msgId;
               Some (tn\<lparr>tn_ChannelsMap := smap_store k (the_channel result) (tn_ChannelsMap tn)\<rparr>, events) })"

definition subDispatchToChannelById ::
  "env \<Rightarrow> TokenNetworkState \<Rightarrow> StateChange \<Rightarrow> BlockHeight \<Rightarrow> MessageID \<Rightarrow> (TokenNetworkState \<times> Event list) option"
where
  "subDispatchToChannelById e tn stateChange blockNumber msgId =
     (let channelId = GetChannelId stateChange
      in case smap_load (tn_ChannelsMap tn) channelId of
           None \<Rightarrow> Some (tn, [])
         | Some cs \<Rightarrow>
             do { (result, events) \<leftarrow> StateTransitionForChannel e cs stateChange blockNumber msgId;
                  let addr = es_Address (cs_PartnerState (the_channel result));
                  Some (case result of
                      NilState _ \<Rightarrow>
                        dropPartner addr channelId (tn\<lparr>tn_ChannelsMap := smap_delete channelId (tn_ChannelsMap tn)\<rparr>)
                    | NewState cs' \<Rightarrow>
                        putPartner addr channelId (tn\<lparr>tn_ChannelsMap := smap_store channelId cs' (tn_ChannelsMap tn)\<rparr>),
                    events) })"

definition handleChannelClose ::
  "env \<Rightarrow> TokenNetworkState \<Rightarrow> TokenNetworkID \<Rightarrow> ChannelID \<Rightarrow> BlockHeight \<Rightarrow> MessageID
     \<Rightarrow> (TokenNetworkState \<times> Event list) option" where
  "handleChannelClose e tn tokenNetworkId channelId blockNumber msgId =
     subDispatchToChannelById e (DelRoute channelId tn) (ActionChannelClose tokenNetworkId channelId) blockNumber msgId"

definition handleChannelNew ::
  "ranges \<Rightarrow> TokenNetworkState \<Rightarrow> ContractReceiveChannelNew \<Rightarrow> TokenNetworkState" where
  "handleChannelNew r tn stateChange =
     (let channelState = ccn_ChannelState stateChange;
          channelId = cs_Identifier channelState;
          ourAddress = es_Address (cs_OurState channelState);
          partnerAddress = es_Address (cs_PartnerState channelState);
          tn1 = AddRoute r ourAddress partnerAddress tn
      in if smap_load (tn_ChannelsMap tn1) channelId = None
         then putPartner partnerAddress channelId
                (tn1\<lparr>tn_ChannelsMap := smap_store channelId channelState (tn_ChannelsMap tn1)\<rparr>)
         else tn1)"

definition handleClosed ::
  "env \<Rightarrow> TokenNetworkState \<Rightarrow> ContractReceiveChannelClosed \<Rightarrow> BlockHeight \<Rightarrow> MessageID
     \<Rightarrow> (TokenNetworkState \<times> Event list) option" where
  "handleClosed e tn stateChange blockNumber msgId =
     subDispatchToChannelById e (DelRoute (ccl_ChannelId stateChange) tn)
       (SC_ContractReceiveChannelClosed stateChange) blockNumber msgId"

text \<open>The channels between the two participants; a channel whose new state is nil is deleted.\<close>

definition batchUnlockChannel ::
  "env \<Rightarrow> ContractReceiveChannelBatchUnlock \<Rightarrow> BlockHeight \<Rightarrow> MessageID \<Rightarrow> ChannelID \<Rightarrow> TokenNetworkState
     \<Rightarrow> (TokenNetworkState \<times> Event list) option" where
  "batchUnlockChannel e unlock blockNumber msgId k tn =
     (case smap_load (tn_ChannelsMap tn) k of
        None \<Rightarrow> Some (tn, [])
      | Some cs \<Rightarrow>
          let our = es_Address (cs_OurState cs);
              partner = es_Address (cs_PartnerState cs);
              participant1 = cbu_Participant unlock;
              participant2 = cbu_Partner unlock;
              areAddressesValid1 = (AddressEqual our participant1 \<and> AddressEqual partner participant2);
              areAddressesValid2 = (AddressEqual our participant2 \<and> AddressEqual partner participant1)
          in if areAddressesValid1 \<or> areAddressesValid2
             then do { (result, events) \<leftarrow> StateTransitionForChannel e cs (SC_ContractReceiveChannelBatchUnlock unlock)
                         blockNumber msgId;
                       let cs1 = the_channel result;
                       let tn1 = tn\<lparr>tn_ChannelsMap := smap_store k cs1 (tn_ChannelsMap tn)\<rparr>;
                       Some (case result of
                           NewState _ \<Rightarrow> tn1
                         | NilState _ \<Rightarrow>
                             (let addr = es_Address (cs_PartnerState cs1);
                                  tn2 = tn1\<lparr>tn_ChannelsMap := smap_delete (cs_Identifier cs1) (tn_ChannelsMap tn1)\<rparr>
                              in if smap_load (tn_PartnerAddressesToChannels tn2) addr = None then tn2
                                 else dropPartner addr (cs_Identifier cs1) tn2),
                         events) }
             else Some (tn, []))"

definition handleBatchUnlock ::
  "env \<Rightarrow> ranges \<Rightarrow> TokenNetworkState \<Rightarrow> ContractReceiveChannelBatchUnlock \<Rightarrow> BlockHeight \<Rightarrow> MessageID
     \<Rightarrow> (TokenNetworkState \<times> Event list) option" where
  "handleBatchUnlock e r tn unlock blockNumber msgId =
     rangeLoop (batchUnlockChannel e unlock blockNumber msgId) (rg_Channels r (map fst (tn_ChannelsMap tn))) tn"

text \<open>The last channel the filter yields.\<close>

definition handleActionTransferDirect ::
  "env \<Rightarrow> ranges \<Rightarrow> PaymentNetworkID \<Rightarrow> TokenNetworkState \<Rightarrow> ActionTransferDirect \<Rightarrow> BlockHeight \<Rightarrow> MessageID
     \<Rightarrow> (TokenNetworkState \<times> Event list) option" where
  "handleActionTransferDirect e r paymentNetworkId tn stateChange blockNumber msgId =
     (let receiverAddress = atd_ReceiverAddress stateChange;
          channelStates = FilterChannelsByStatus r (tn_ChannelsMap tn) (partnerChannels tn receiverAddress)
            [ChannelStateUnusable]
      in if channelStates \<noteq> []
         then channelInPlace e (SC_ActionTransferDirect stateChange) blockNumber msgId (last channelStates) tn
         else Some (tn, [EventPaymentSentFailed paymentNetworkId (atd_TokenNetworkId stateChange)
                (atd_PaymentId stateChange) receiverAddress (Msg ''Unknown partner channel'')]))"

definition handleReceiveTransferDirect ::
  "env \<Rightarrow> TokenNetworkState \<Rightarrow> ReceiveTransferDirect \<Rightarrow> BlockHeight \<Rightarrow> MessageID
     \<Rightarrow> (TokenNetworkState \<times> Event list) option" where
  "handleReceiveTransferDirect e tn stateChange blockNumber msgId =
     channelInPlace e (SC_ReceiveTransferDirect stateChange) blockNumber msgId
       (bp_ChannelId (rtd_BalanceProof stateChange)) tn"

definition handleActionWithdraw ::
  "env \<Rightarrow> ranges \<Rightarrow> TokenNetworkState \<Rightarrow> ActionWithdraw \<Rightarrow> BlockHeight \<Rightarrow> MessageID
     \<Rightarrow> (TokenNetworkState \<times> Event list) option" where
  "handleActionWithdraw e r tn stateChange blockNumber msgId =
     (let channelStates = FilterChannelsByStatus r (tn_ChannelsMap tn) (partnerChannels tn (aw_Partner stateChange))
            [ChannelStateClosed, ChannelStateClosing, ChannelStateSettled, ChannelStateSettling, ChannelStateUnusable]
      in if channelStates \<noteq> []
         then channelInPlace e (SC_ActionWithdraw stateChange) blockNumber msgId (last channelStates) tn
         else Some (tn, []))"

definition handleActionCooperativeSettle ::
  "env \<Rightarrow> TokenNetworkState \<Rightarrow> ActionCooperativeSettle \<Rightarrow> BlockHeight \<Rightarrow> MessageID
     \<Rightarrow> (TokenNetworkState \<times> Event list) option" where
  "handleActionCooperativeSettle e tn stateChange blockNumber msgId =
     (case smap_load (tn_ChannelsMap tn) (acs_ChannelId stateChange) of
        None \<Rightarrow> Some (tn, [])
      | Some cs \<Rightarrow>
          if GetStatus cs = ChannelStateOpened
          then channelInPlace e (SC_ActionCooperativeSettle stateChange) blockNumber msgId (acs_ChannelId stateChange) tn
          else Some (tn, []))"

definition handleContractReceiveSetFee :: "TokenNetworkState \<Rightarrow> ContractReceiveSetFee \<Rightarrow> TokenNetworkState" where
  "handleContractReceiveSetFee tn stateChange =
     AddFeeSchedule (csf_WalletAddr stateChange) (csf_FeeSchedule stateChange) tn"

text \<open>The new state is nil only for a state change that no case handles.\<close>

definition stateTransitionForNetwork ::
  "env \<Rightarrow> ranges \<Rightarrow> PaymentNetworkID \<Rightarrow> TokenNetworkState \<Rightarrow> NetworkChange \<Rightarrow> BlockHeight \<Rightarrow> MessageID
     \<Rightarrow> (TokenNetworkState option \<times> Event list) option" where
  "stateTransitionForNetwork e r paymentNetworkId tn stateChange blockNumber msgId =
     (let state = map_option (\<lambda>(tn', events). (Some tn', events));
          byId = (\<lambda>sc. state (subDispatchToChannelById e tn sc blockNumber msgId))
      in case stateChange of
           NC_Channel sc \<Rightarrow>
             (case sc of
                Block _ \<Rightarrow> Some (None, [])
              | ActionChannelClose tokenNetworkId channelId \<Rightarrow>
                  state (handleChannelClose e tn tokenNetworkId channelId blockNumber msgId)
              | SC_ContractReceiveChannelClosed x \<Rightarrow> state (handleClosed e tn x blockNumber msgId)
              | SC_ActionTransferDirect x \<Rightarrow>
                  state (handleActionTransferDirect e r paymentNetworkId tn x blockNumber msgId)
              | SC_ReceiveTransferDirect x \<Rightarrow> state (handleReceiveTransferDirect e tn x blockNumber msgId)
              | SC_ActionWithdraw x \<Rightarrow> state (handleActionWithdraw e r tn x blockNumber msgId)
              | SC_ActionCooperativeSettle x \<Rightarrow> state (handleActionCooperativeSettle e tn x blockNumber msgId)
              | SC_ContractReceiveChannelBatchUnlock x \<Rightarrow> state (handleBatchUnlock e r tn x blockNumber msgId)
              | _ \<Rightarrow> byId sc)
         | NC_ContractReceiveChannelNew x \<Rightarrow> Some (Some (handleChannelNew r tn x), [])
         | NC_ContractReceiveRouteNew x \<Rightarrow> Some (Some (AddRoute r (crn_Participant1 x) (crn_Participant2 x) tn), [])
         | NC_ContractReceiveRouteClosed x \<Rightarrow> Some (Some (DelRoute (crd_ChannelId x) tn), [])
         | NC_ContractReceiveSetFee x \<Rightarrow> Some (Some (handleContractReceiveSetFee tn x), []))"

end
