(* ===== verification/Pylons_Node.thy ===== *)
theory Pylons_Node
  imports Pylons_TokenNetwork
begin

text \<open>
  The node (\<open>transfer/node.go\<close>, with the parts of \<open>transfer/state.go\<close>, \<open>transfer/views.go\<close> and
  \<open>transfer/tokennetwork.go\<close> it calls): the chain state, the dispatch of every state change to the token
  networks and to the payment tasks, the queues of messages that are not acknowledged yet and the
  transactions that are pending.

  A task is changed in place, so the task of a secret hash holds the state its transition returns.
  \<open>msgId\<close> is the id a channel draws from \<open>common.GetMsgID()\<close>, \<open>ids h\<close> are the ids the task of the secret
  hash \<open>h\<close> draws.
\<close>

section \<open>Data\<close>

record PaymentNetworkState =
  pn_Address :: PaymentNetworkID
  pn_TokenIdentifiersToTokenNetworks :: "(TokenNetworkID, TokenNetworkState) smap"
  pn_TokenAddressesToTokenIdentifiers :: "(TokenAddress, TokenNetworkID) smap"

datatype (plugins only: code) Task =
    InitiatorTask TokenNetworkID ImState
  | MediatorTask TokenNetworkID MediatorTransferState
  | TargetTask TokenNetworkID ChannelID TargetTransferState

record ChainState =
  ch_BlockHeight :: BlockHeight
  ch_ChainId :: ChainID
  ch_IdentifiersToPaymentNetworks :: "(PaymentNetworkID, PaymentNetworkState) smap"
  ch_Address :: Address
  ch_SecretHashesToTask :: "(SecretHash, Task) smap"
  ch_PendingTransactions :: "Event list"
  ch_QueueIdsToQueues :: "(QueueId, Event list) smap"

record ActionInitChain =
  aic_BlockHeight :: BlockHeight
  aic_OurAddress :: Address
  aic_ChainId :: ChainID

text \<open>
  \<open>ActionNewTokenNetwork\<close> and \<open>ContractReceiveNewTokenNetwork\<close> carry a payment network id and a token
  network, \<open>ReceiveDelivered\<close> and \<open>ReceiveProcessed\<close> a sender and a message id. A block is a state change of
  channels and of tasks.
\<close>

datatype (plugins only: code) NodeChange =
    ND_Network NetworkChange
  | ND_Task TaskChange
  | ND_ActionInitChain ActionInitChain
  | ND_ActionNewTokenNetwork PaymentNetworkID TokenNetworkState
  | ND_ActionLeaveAllNetworks
  | ND_ContractReceiveNewPaymentNetwork PaymentNetworkState
  | ND_ContractReceiveNewTokenNetwork PaymentNetworkID TokenNetworkState
  | ND_ReceiveDelivered Address MessageID
  | ND_ReceiveProcessed Address MessageID
  | ND_ContractReceiveStateChange BlockHeight

definition NewChainState :: ChainState where
  "NewChainState = \<lparr>ch_BlockHeight = 0, ch_ChainId = 0, ch_IdentifiersToPaymentNetworks = [], ch_Address = 0,
     ch_SecretHashesToTask = [], ch_PendingTransactions = [], ch_QueueIdsToQueues = []\<rparr>"

definition NewPaymentNetworkState :: PaymentNetworkState where
  "NewPaymentNetworkState = \<lparr>pn_Address = 0, pn_TokenIdentifiersToTokenNetworks = [],
     pn_TokenAddressesToTokenIdentifiers = []\<rparr>"

section \<open>Views\<close>

definition GetTokenNetworkByTokenAddress ::
  "ChainState \<Rightarrow> PaymentNetworkID \<Rightarrow> TokenAddress \<Rightarrow> TokenNetworkState option" where
  "GetTokenNetworkByTokenAddress chain paymentNetworkId tokenAddress =
     do { pn \<leftarrow> smap_load (ch_IdentifiersToPaymentNetworks chain) paymentNetworkId;
          tokenNetworkId \<leftarrow> smap_load (pn_TokenAddressesToTokenIdentifiers pn) tokenAddress;
          smap_load (pn_TokenIdentifiersToTokenNetworks pn) tokenNetworkId }"

definition GetTokenNetworkByIdentifier :: "env \<Rightarrow> ChainState \<Rightarrow> TokenNetworkID \<Rightarrow> TokenNetworkState option" where
  "GetTokenNetworkByIdentifier e chain tokenNetworkId =
     do { pn \<leftarrow> smap_load (ch_IdentifiersToPaymentNetworks chain) (MicroPayContractAddress e);
          smap_load (pn_TokenIdentifiersToTokenNetworks pn) tokenNetworkId }"

text \<open>The first payment network, in the order of iteration, that has the token network.\<close>

definition GetTokenNetworkRegistryByTokenNetworkId ::
  "ranges \<Rightarrow> ChainState \<Rightarrow> TokenNetworkID \<Rightarrow> (PaymentNetworkID \<times> PaymentNetworkState) option" where
  "GetTokenNetworkRegistryByTokenNetworkId r chain tokenNetworkId =
     (let nets = ch_IdentifiersToPaymentNetworks chain;
          has = (\<lambda>k. case smap_load nets k of
                   Some pn \<Rightarrow> smap_load (pn_TokenIdentifiersToTokenNetworks pn) tokenNetworkId \<noteq> None
                 | None \<Rightarrow> False)
      in do { k \<leftarrow> List.find has (rg_PaymentNetworks r (map fst nets));
              pn \<leftarrow> smap_load nets k;
              Some (k, pn) })"

definition GetChannelStateByTokenNetworkId ::
  "env \<Rightarrow> ChainState \<Rightarrow> TokenNetworkID \<Rightarrow> ChannelID \<Rightarrow> NettingChannelState option" where
  "GetChannelStateByTokenNetworkId e chain tokenNetworkId channelId =
     do { tn \<leftarrow> GetTokenNetworkByIdentifier e chain tokenNetworkId;
          smap_load (tn_ChannelsMap tn) channelId }"

definition GetChannelStateByTokenNetworkAndPartner ::
  "env \<Rightarrow> ranges \<Rightarrow> ChainState \<Rightarrow> TokenNetworkID \<Rightarrow> Address \<Rightarrow> NettingChannelState option" where
  "GetChannelStateByTokenNetworkAndPartner e r chain tokenNetworkId partnerAddress =
     do { tn \<leftarrow> GetTokenNetworkByIdentifier e chain tokenNetworkId;
          let states = FilterChannelsByStatus r (tn_ChannelsMap tn) (partnerChannels tn partnerAddress)
                [ChannelStateUnusable];
          (if states \<noteq> [] then smap_load (tn_ChannelsMap tn) (last states) else None) }"

text \<open>A token network is changed in place: it is the one of the payment network of the contract.\<close>

definition storeTokenNetwork :: "env \<Rightarrow> TokenNetworkID \<Rightarrow> TokenNetworkState \<Rightarrow> ChainState \<Rightarrow> ChainState" where
  "storeTokenNetwork e tokenNetworkId tn chain =
     (let nets = ch_IdentifiersToPaymentNetworks chain
      in case smap_load nets (MicroPayContractAddress e) of
           None \<Rightarrow> chain
         | Some pn \<Rightarrow> chain\<lparr>ch_IdentifiersToPaymentNetworks := smap_store (MicroPayContractAddress e)
             (pn\<lparr>pn_TokenIdentifiersToTokenNetworks :=
                   smap_store tokenNetworkId tn (pn_TokenIdentifiersToTokenNetworks pn)\<rparr>) nets\<rparr>)"

section \<open>Messages and transactions\<close>

fun GetSenderAndMessageId :: "NodeChange \<Rightarrow> Address \<times> MessageID" where
  "GetSenderAndMessageId (ND_Network (NC_Channel (SC_ReceiveTransferDirect v))) = (rtd_Sender v, rtd_MessageId v)"
| "GetSenderAndMessageId (ND_Task (TC_ReceiveUnlock v)) = (rul_Sender v, rul_MessageId v)"
| "GetSenderAndMessageId (ND_Task (TC_ReceiveLockExpired v)) = (bp_Sender (rle_BalanceProof v), rle_MessageId v)"
| "GetSenderAndMessageId (ND_Task (TC_ReceiveSecretRequest v)) = (rsq_Sender v, rsq_MessageId v)"
| "GetSenderAndMessageId (ND_Task (TC_ReceiveSecretReveal v)) = (rsr_Sender v, rsr_MessageId v)"
| "GetSenderAndMessageId (ND_ReceiveDelivered sender messageId) = (sender, messageId)"
| "GetSenderAndMessageId (ND_ReceiveProcessed sender messageId) = (sender, messageId)"
| "GetSenderAndMessageId _ = (0, 0)"

fun GetSenderMessageEvent :: "Event \<Rightarrow> SendMessageEvent option" where
  "GetSenderMessageEvent (SendDirectTransfer m _ _ _) = Some m"
| "GetSenderMessageEvent (SendLockedTransfer m _) = Some m"
| "GetSenderMessageEvent (SendLockExpired m _ _) = Some m"
| "GetSenderMessageEvent (SendBalanceProof m _ _ _ _ _) = Some m"
| "GetSenderMessageEvent (SendSecretReveal m _ _) = Some m"
| "GetSenderMessageEvent (SendSecretRequest m _ _ _ _) = Some m"
| "GetSenderMessageEvent (SendRefundTransfer m _) = Some m"
| "GetSenderMessageEvent (SendProcessed m) = Some m"
| "GetSenderMessageEvent (SendCooperativeSettleRequest m _ _ _ _ _) = Some m"
| "GetSenderMessageEvent (SendCooperativeSettle m _ _ _ _ _ _ _ _) = Some m"
| "GetSenderMessageEvent _ = None"

fun GetContractSendEvent :: "Event \<Rightarrow> bool" where
  "GetContractSendEvent (ContractSendChannelClose _ _ _ _) = True"
| "GetContractSendEvent (ContractSendChannelSettle _ _) = True"
| "GetContractSendEvent (ContractSendChannelUpdateTransfer _ _ _ _) = True"
| "GetContractSendEvent (ContractSendChannelWithdraw _ _ _ _ _ _ _ _ _ _) = True"
| "GetContractSendEvent (ContractSendChannelCooperativeSettle _ _ _ _ _ _ _ _ _ _ _ _) = True"
| "GetContractSendEvent _ = False"

fun GetContractReceiveStateChange :: "NodeChange \<Rightarrow> bool" where
  "GetContractReceiveStateChange (ND_Network (NC_ContractReceiveChannelNew _)) = True"
| "GetContractReceiveStateChange (ND_Network (NC_Channel (SC_ContractReceiveChannelClosed _))) = True"
| "GetContractReceiveStateChange (ND_Network (NC_Channel (SC_ContractReceiveChannelSettled _))) = True"
| "GetContractReceiveStateChange (ND_Network (NC_Channel (SC_ContractReceiveChannelNewBalance _))) = True"
| "GetContractReceiveStateChange (ND_Network (NC_Channel (SC_ContractReceiveUpdateTransfer _))) = True"
| "GetContractReceiveStateChange (ND_Network (NC_Channel (SC_ContractReceiveChannelWithdraw _))) = True"
| "GetContractReceiveStateChange (ND_Network (NC_Channel (SC_ContractReceiveChannelCooperativeSettled _))) = True"
| "GetContractReceiveStateChange _ = False"

text \<open>An event in a queue that is not a message would be a nil dereference.\<close>

fun inPlaceDeleteMessage :: "Event list \<Rightarrow> NodeChange \<Rightarrow> Event list option" where
  "inPlaceDeleteMessage [] stateChange = Some []"
| "inPlaceDeleteMessage (ev # messageQueue) stateChange =
     do { message \<leftarrow> GetSenderMessageEvent ev;
          rest \<leftarrow> inPlaceDeleteMessage messageQueue stateChange;
          let (sender, messageId) = GetSenderAndMessageId stateChange;
          Some (if sm_MessageId message = messageId \<and> AddressEqual (sm_Recipient message) sender then rest
                else ev # rest) }"

definition inPlaceDeleteMessageQueue :: "NodeChange \<Rightarrow> QueueId \<Rightarrow> ChainState \<Rightarrow> ChainState option" where
  "inPlaceDeleteMessageQueue stateChange queueId chain =
     (case smap_load (ch_QueueIdsToQueues chain) queueId of
        None \<Rightarrow> Some chain
      | Some queue \<Rightarrow>
          do { newQueue \<leftarrow> inPlaceDeleteMessage queue stateChange;
               Some (chain\<lparr>ch_QueueIdsToQueues :=
                 if length newQueue = 0 then smap_delete queueId (ch_QueueIdsToQueues chain)
                 else smap_store queueId newQueue (ch_QueueIdsToQueues chain)\<rparr>) })"

definition handleDelivered :: "ChainState \<Rightarrow> Address \<Rightarrow> MessageID \<Rightarrow> (ChainState \<times> Event list) option" where
  "handleDelivered chain sender messageId =
     map_option (\<lambda>chain'. (chain', []))
       (inPlaceDeleteMessageQueue (ND_ReceiveDelivered sender messageId) \<lparr>qi_Recipient = sender, qi_ChannelId = 0\<rparr> chain)"

text \<open>The event for one message: a direct transfer that was processed has been paid.\<close>

definition processedMessage ::
  "env \<Rightarrow> ranges \<Rightarrow> ChainState \<Rightarrow> NodeChange \<Rightarrow> Event \<Rightarrow> Event list option" where
  "processedMessage e r chain stateChange ev =
     do { message \<leftarrow> GetSenderMessageEvent ev;
          let (sender, messageId) = GetSenderAndMessageId stateChange;
          (if sm_MessageId message = messageId \<and> AddressEqual (sm_Recipient message) sender
           then (case ev of
                   SendDirectTransfer m paymentId bp tokenAddress \<Rightarrow>
                     do { cs \<leftarrow> GetChannelStateByTokenNetworkAndPartner e r chain (bu_TokenNetworkId bp) (sm_Recipient m);
                          Some [EventPaymentSentSuccess (cs_PaymentNetworkId cs) (cs_TokenNetworkId cs) paymentId
                            (bu_TransferredAmount bp) (sm_Recipient m)] }
                 | _ \<Rightarrow> Some [])
           else Some []) }"

definition processedQueue ::
  "env \<Rightarrow> ranges \<Rightarrow> NodeChange \<Rightarrow> QueueId \<Rightarrow> ChainState \<Rightarrow> (ChainState \<times> Event list) option" where
  "processedQueue e r stateChange queueId chain =
     (case smap_load (ch_QueueIdsToQueues chain) queueId of
        None \<Rightarrow> Some (chain, [])
      | Some queue \<Rightarrow>
          rangeLoop (\<lambda>ev c. map_option (\<lambda>events. (c, events)) (processedMessage e r c stateChange ev)) queue chain)"

definition handleProcessed ::
  "env \<Rightarrow> ranges \<Rightarrow> ChainState \<Rightarrow> Address \<Rightarrow> MessageID \<Rightarrow> (ChainState \<times> Event list) option" where
  "handleProcessed e r chain sender messageId =
     (let stateChange = ND_ReceiveProcessed sender messageId;
          queueIds = (\<lambda>c. rg_Queues r (map fst (ch_QueueIdsToQueues c)))
      in do { (chain1, events) \<leftarrow> rangeLoop (processedQueue e r stateChange) (queueIds chain) chain;
              (chain2, _) \<leftarrow> rangeLoop (\<lambda>k c. map_option (\<lambda>c'. (c', [])) (inPlaceDeleteMessageQueue stateChange k c))
                 (queueIds chain1) chain1;
              Some (chain2, events) })"

definition isTransactionEffectSatisfied :: "Event \<Rightarrow> NodeChange \<Rightarrow> bool" where
  "isTransactionEffectSatisfied transaction stateChange =
     (case (stateChange, transaction) of
        (ND_Network (NC_Channel (SC_ContractReceiveUpdateTransfer x)), ContractSendChannelUpdateTransfer _ channelId _ bp) \<Rightarrow>
          cut_ChannelId x = channelId \<and> cut_Nonce x = bp_Nonce bp
      | (ND_Network (NC_Channel (SC_ContractReceiveChannelClosed x)), ContractSendChannelClose channelId _ _ _) \<Rightarrow>
          ccl_ChannelId x = channelId
      | (ND_Network (NC_Channel (SC_ContractReceiveChannelSettled x)), ContractSendChannelSettle channelId _) \<Rightarrow>
          cst_ChannelId x = channelId
      | (ND_Task (TC_ContractReceiveSecretReveal x), ContractSendSecretReveal _ secret) \<Rightarrow> csr_Secret x = secret
      | (ND_Network (NC_Channel (SC_ContractReceiveChannelWithdraw x)),
           ContractSendChannelWithdraw _ channelId participant _ _ _ _ _ _ _) \<Rightarrow>
          crw_ChannelId x = channelId \<and> crw_Participant x = participant
      | (ND_Network (NC_Channel (SC_ContractReceiveChannelCooperativeSettled x)),
           ContractSendChannelCooperativeSettle _ channelId _ _ _ _ _ _ _ _ _ _) \<Rightarrow> crc_ChannelId x = channelId
      | _ \<Rightarrow> False)"

definition isTransactionInvalidated :: "Event \<Rightarrow> NodeChange \<Rightarrow> bool" where
  "isTransactionInvalidated transaction stateChange =
     (case (stateChange, transaction) of
        (ND_Network (NC_Channel (SC_ContractReceiveChannelSettled x)), ContractSendChannelUpdateTransfer _ channelId _ _) \<Rightarrow>
          cst_ChannelId x = channelId
      | _ \<Rightarrow> False)"

definition isTransactionExpired :: "Event \<Rightarrow> BlockHeight \<Rightarrow> bool" where
  "isTransactionExpired transaction blockNumber =
     (case transaction of
        ContractSendChannelUpdateTransfer expiration _ _ _ \<Rightarrow> sint expiration < sint (ucast blockNumber :: BlockExpiration)
      | ContractSendSecretReveal expiration _ \<Rightarrow> sint expiration < sint (ucast blockNumber :: BlockExpiration)
      | _ \<Rightarrow> False)"

definition isTransactionPending :: "ChainState \<Rightarrow> Event \<Rightarrow> NodeChange \<Rightarrow> bool" where
  "isTransactionPending chain transaction stateChange =
     (if isTransactionEffectSatisfied transaction stateChange then False
      else if isTransactionInvalidated transaction stateChange then False
      else if isTransactionExpired transaction (ch_BlockHeight chain) then False
      else True)"

definition queueEvent :: "ChainState \<Rightarrow> Event \<Rightarrow> ChainState" where
  "queueEvent chain ev =
     (let chain1 = (case GetSenderMessageEvent ev of
            None \<Rightarrow> chain
          | Some m \<Rightarrow>
              let queueId = \<lparr>qi_Recipient = sm_Recipient m, qi_ChannelId = sm_ChannelId m\<rparr>;
                  events = (case smap_load (ch_QueueIdsToQueues chain) queueId of Some q \<Rightarrow> q | None \<Rightarrow> [])
              in chain\<lparr>ch_QueueIdsToQueues := smap_store queueId (events @ [ev]) (ch_QueueIdsToQueues chain)\<rparr>)
      in if GetContractSendEvent ev
         then chain1\<lparr>ch_PendingTransactions := ch_PendingTransactions chain1 @ [ev]\<rparr> else chain1)"

definition updateQueues :: "ChainState \<Rightarrow> Event list \<Rightarrow> NodeChange \<Rightarrow> ChainState" where
  "updateQueues chain events stateChange =
     foldl queueEvent
       (if GetContractReceiveStateChange stateChange
        then chain\<lparr>ch_PendingTransactions := [ev \<leftarrow> ch_PendingTransactions chain. isTransactionPending chain ev stateChange]\<rparr>
        else chain) events"

section \<open>Payment tasks\<close>

text \<open>The state of a task after a transition; nil deletes the task.\<close>

definition finishTask :: "SecretHash \<Rightarrow> Task option \<Rightarrow> ChainState \<Rightarrow> ChainState" where
  "finishTask secretHash task chain =
     chain\<lparr>ch_SecretHashesToTask :=
       (case task of
          Some t \<Rightarrow> smap_store secretHash t (ch_SecretHashesToTask chain)
        | None \<Rightarrow> smap_delete secretHash (ch_SecretHashesToTask chain))\<rparr>"

text \<open>
  The payment the code builds around the transfer of an initiator lives for one transition; the task keeps
  the transfer.
\<close>

definition managerState :: "InitiatorTransferState \<Rightarrow> ImState \<Rightarrow> ImState option" where
  "managerState ms st =
     (case st of
        ImNil \<Rightarrow> None
      | ImPayment ps \<Rightarrow> Some (ImTransfer (case ip_Initiator ps of Some i \<Rightarrow> i | None \<Rightarrow> ms))
      | ImTransfer i \<Rightarrow> Some (ImTransfer ms))"

definition dispatchInitiator ::
  "env \<Rightarrow> (nat \<Rightarrow> MessageID) \<Rightarrow> ChainState \<Rightarrow> TaskChange \<Rightarrow> SecretHash \<Rightarrow> TokenNetworkID \<Rightarrow> ImState
     \<Rightarrow> (ChainState \<times> Event list) option" where
  "dispatchInitiator e ids chain stateChange secretHash tokenNetworkId manager =
     (case GetTokenNetworkByIdentifier e chain tokenNetworkId of
        None \<Rightarrow> Some (chain, [])
      | Some tn \<Rightarrow>
          (case manager of
             ImTransfer ms \<Rightarrow>
               do { (chans, iteration) \<leftarrow> ImStateTransition e (Some \<lparr>ip_Initiator = Some ms, ip_CancelledChannels = []\<rparr>)
                      stateChange (tn_ChannelsMap tn) (ch_BlockHeight chain) (ids 0);
                    (st, events) \<leftarrow> iteration;
                    Some (finishTask secretHash (map_option (InitiatorTask tokenNetworkId) (managerState ms st))
                            (storeTokenNetwork e tokenNetworkId (tn\<lparr>tn_ChannelsMap := chans\<rparr>) chain), events) }
           | _ \<Rightarrow> None))"

definition dispatchMediator ::
  "env \<Rightarrow> ranges \<Rightarrow> (nat \<Rightarrow> MessageID) \<Rightarrow> ChainState \<Rightarrow> TaskChange \<Rightarrow> SecretHash \<Rightarrow> TokenNetworkID
     \<Rightarrow> MediatorTransferState \<Rightarrow> (ChainState \<times> Event list) option" where
  "dispatchMediator e r ids chain stateChange secretHash tokenNetworkId ms =
     (case GetTokenNetworkByIdentifier e chain tokenNetworkId of
        None \<Rightarrow> Some (chain, [])
      | Some tn \<Rightarrow>
          do { (chans, result) \<leftarrow> MdStateTransition e (rg_Routes r) (Some ms) stateChange (tn_ChannelsMap tn)
                 (ch_BlockHeight chain) ids;
               (case result of
                  Inl err \<Rightarrow> None
                | Inr (st, events) \<Rightarrow>
                    Some (finishTask secretHash (map_option (MediatorTask tokenNetworkId) st)
                            (storeTokenNetwork e tokenNetworkId (tn\<lparr>tn_ChannelsMap := chans\<rparr>) chain), events)) })"

definition dispatchTarget ::
  "env \<Rightarrow> (nat \<Rightarrow> MessageID) \<Rightarrow> ChainState \<Rightarrow> TaskChange \<Rightarrow> SecretHash \<Rightarrow> TokenNetworkID \<Rightarrow> ChannelID
     \<Rightarrow> TargetTransferState \<Rightarrow> (ChainState \<times> Event list) option" where
  "dispatchTarget e ids chain stateChange secretHash tokenNetworkId channelId ts =
     (case GetTokenNetworkByIdentifier e chain tokenNetworkId of
        None \<Rightarrow> Some (chain, [])
      | Some tn \<Rightarrow>
          (case smap_load (tn_ChannelsMap tn) channelId of
             None \<Rightarrow> Some (chain, [])
           | Some cs \<Rightarrow>
               do { (cs', iteration) \<leftarrow> TgStateTransition e (Some ts) stateChange cs (ch_BlockHeight chain) (ids 0);
                    (st, events) \<leftarrow> iteration;
                    Some (finishTask secretHash (map_option (TargetTask tokenNetworkId channelId) st)
                            (storeTokenNetwork e tokenNetworkId
                               (tn\<lparr>tn_ChannelsMap := smap_store channelId cs' (tn_ChannelsMap tn)\<rparr>) chain), events) }))"

definition subDispatchToPaymentTask ::
  "env \<Rightarrow> ranges \<Rightarrow> (nat \<Rightarrow> MessageID) \<Rightarrow> ChainState \<Rightarrow> TaskChange \<Rightarrow> SecretHash \<Rightarrow> (ChainState \<times> Event list) option"
where
  "subDispatchToPaymentTask e r ids chain stateChange secretHash =
     (case smap_load (ch_SecretHashesToTask chain) secretHash of
        None \<Rightarrow> Some (chain, [])
      | Some (InitiatorTask tokenNetworkId manager) \<Rightarrow>
          dispatchInitiator e ids chain stateChange secretHash tokenNetworkId manager
      | Some (MediatorTask tokenNetworkId ms) \<Rightarrow>
          dispatchMediator e r ids chain stateChange secretHash tokenNetworkId ms
      | Some (TargetTask tokenNetworkId channelId ts) \<Rightarrow>
          dispatchTarget e ids chain stateChange secretHash tokenNetworkId channelId ts)"

text \<open>
  The task of a new payment. An initiator task that exists already is read with a type assertion on
  \<open>*InitiatorPaymentState\<close>, which its state need not have.
\<close>

definition subDispatchInitiatorTask ::
  "env \<Rightarrow> (nat \<Rightarrow> MessageID) \<Rightarrow> ChainState \<Rightarrow> TaskChange \<Rightarrow> TokenNetworkID \<Rightarrow> SecretHash
     \<Rightarrow> (ChainState \<times> Event list) option" where
  "subDispatchInitiatorTask e ids chain stateChange tokenNetworkId secretHash =
     do { (isValidSubTask, manager) \<leftarrow>
            (case smap_load (ch_SecretHashesToTask chain) secretHash of
               None \<Rightarrow> Some (True, None)
             | Some (InitiatorTask tnid (ImPayment ps)) \<Rightarrow> Some (tokenNetworkId = tnid, Some ps)
             | Some (InitiatorTask _ _) \<Rightarrow> None
             | Some _ \<Rightarrow> Some (False, None));
          (if isValidSubTask
           then do { tn \<leftarrow> GetTokenNetworkByIdentifier e chain tokenNetworkId;
                     (chans, iteration) \<leftarrow> ImStateTransition e manager stateChange (tn_ChannelsMap tn)
                       (ch_BlockHeight chain) (ids 0);
                     (st, events) \<leftarrow> iteration;
                     Some (finishTask secretHash
                             (case st of ImNil \<Rightarrow> None | _ \<Rightarrow> Some (InitiatorTask tokenNetworkId st))
                             (storeTokenNetwork e tokenNetworkId (tn\<lparr>tn_ChannelsMap := chans\<rparr>) chain), events) }
           else Some (chain, [])) }"

definition subDispatchMediatorTask ::
  "env \<Rightarrow> ranges \<Rightarrow> (nat \<Rightarrow> MessageID) \<Rightarrow> ChainState \<Rightarrow> TaskChange \<Rightarrow> TokenNetworkID \<Rightarrow> SecretHash
     \<Rightarrow> (ChainState \<times> Event list) option" where
  "subDispatchMediatorTask e r ids chain stateChange tokenNetworkId secretHash =
     (let (isValidSubTask, mediatorState) =
            (case smap_load (ch_SecretHashesToTask chain) secretHash of
               None \<Rightarrow> (True, None)
             | Some (MediatorTask tnid ms) \<Rightarrow> (tokenNetworkId = tnid, Some ms)
             | Some _ \<Rightarrow> (False, None))
      in if isValidSubTask
         then do { tn \<leftarrow> GetTokenNetworkByIdentifier e chain tokenNetworkId;
                   (chans, result) \<leftarrow> MdStateTransition e (rg_Routes r) mediatorState stateChange (tn_ChannelsMap tn)
                     (ch_BlockHeight chain) ids;
                   (case result of
                      Inl err \<Rightarrow> None
                    | Inr (st, events) \<Rightarrow>
                        Some (finishTask secretHash (map_option (MediatorTask tokenNetworkId) st)
                                (storeTokenNetwork e tokenNetworkId (tn\<lparr>tn_ChannelsMap := chans\<rparr>) chain), events)) }
         else Some (chain, []))"

definition subDispatchTargetTask ::
  "env \<Rightarrow> (nat \<Rightarrow> MessageID) \<Rightarrow> ChainState \<Rightarrow> TaskChange \<Rightarrow> TokenNetworkID \<Rightarrow> ChannelID \<Rightarrow> SecretHash
     \<Rightarrow> (ChainState \<times> Event list) option" where
  "subDispatchTargetTask e ids chain stateChange tokenNetworkId channelId secretHash =
     (let (isValidSubTask, targetState) =
            (case smap_load (ch_SecretHashesToTask chain) secretHash of
               None \<Rightarrow> (True, None)
             | Some (TargetTask tnid _ ts) \<Rightarrow> (tokenNetworkId = tnid, Some ts)
             | Some _ \<Rightarrow> (False, None))
      in if isValidSubTask
         then (case GetTokenNetworkByIdentifier e chain tokenNetworkId of
                 None \<Rightarrow> Some (chain, [])
               | Some tn \<Rightarrow>
                   (case smap_load (tn_ChannelsMap tn) channelId of
                      None \<Rightarrow> Some (chain, [])
                    | Some cs \<Rightarrow>
                        do { (cs', iteration) \<leftarrow> TgStateTransition e targetState stateChange cs (ch_BlockHeight chain) (ids 0);
                             let chain1 = storeTokenNetwork e tokenNetworkId
                               (tn\<lparr>tn_ChannelsMap := smap_store channelId cs' (tn_ChannelsMap tn)\<rparr>) chain;
                             (case iteration of
                                None \<Rightarrow> Some (chain1, [])
                              | Some (st, events) \<Rightarrow>
                                  Some (finishTask secretHash (map_option (TargetTask tokenNetworkId channelId) st) chain1,
                                        events)) }))
         else Some (chain, []))"

section \<open>Handlers of the node\<close>

text \<open>A block goes to every channel of every token network.\<close>

definition blockToNetwork ::
  "env \<Rightarrow> ranges \<Rightarrow> StateChange \<Rightarrow> BlockHeight \<Rightarrow> MessageID \<Rightarrow> TokenNetworkID \<Rightarrow> PaymentNetworkState
     \<Rightarrow> (PaymentNetworkState \<times> Event list) option" where
  "blockToNetwork e r stateChange blockNumber msgId tokenNetworkId pn =
     (case smap_load (pn_TokenIdentifiersToTokenNetworks pn) tokenNetworkId of
        None \<Rightarrow> Some (pn, [])
      | Some tn \<Rightarrow>
          do { (tn', events) \<leftarrow> rangeLoop (channelInPlace e stateChange blockNumber msgId)
                 (rg_Channels r (map fst (tn_ChannelsMap tn))) tn;
               Some (pn\<lparr>pn_TokenIdentifiersToTokenNetworks :=
                       smap_store tokenNetworkId tn' (pn_TokenIdentifiersToTokenNetworks pn)\<rparr>, events) })"

definition blockToPaymentNetwork ::
  "env \<Rightarrow> ranges \<Rightarrow> StateChange \<Rightarrow> BlockHeight \<Rightarrow> MessageID \<Rightarrow> PaymentNetworkID \<Rightarrow> ChainState
     \<Rightarrow> (ChainState \<times> Event list) option" where
  "blockToPaymentNetwork e r stateChange blockNumber msgId paymentNetworkId chain =
     (case smap_load (ch_IdentifiersToPaymentNetworks chain) paymentNetworkId of
        None \<Rightarrow> Some (chain, [])
      | Some pn \<Rightarrow>
          do { (pn', events) \<leftarrow> rangeLoop (blockToNetwork e r stateChange blockNumber msgId)
                 (rg_TokenNetworks r (map fst (pn_TokenIdentifiersToTokenNetworks pn))) pn;
               Some (chain\<lparr>ch_IdentifiersToPaymentNetworks :=
                       smap_store paymentNetworkId pn' (ch_IdentifiersToPaymentNetworks chain)\<rparr>, events) })"

definition subDispatchToAllChannels ::
  "env \<Rightarrow> ranges \<Rightarrow> ChainState \<Rightarrow> StateChange \<Rightarrow> BlockHeight \<Rightarrow> MessageID \<Rightarrow> (ChainState \<times> Event list) option" where
  "subDispatchToAllChannels e r chain stateChange blockNumber msgId =
     rangeLoop (blockToPaymentNetwork e r stateChange blockNumber msgId)
       (rg_PaymentNetworks r (map fst (ch_IdentifiersToPaymentNetworks chain))) chain"

definition subDispatchToAllLockedTransfers ::
  "env \<Rightarrow> ranges \<Rightarrow> (SecretHash \<Rightarrow> nat \<Rightarrow> MessageID) \<Rightarrow> ChainState \<Rightarrow> TaskChange \<Rightarrow> (ChainState \<times> Event list) option"
where
  "subDispatchToAllLockedTransfers e r ids chain stateChange =
     rangeLoop (\<lambda>k c. subDispatchToPaymentTask e r (ids k) c stateChange k)
       (rg_Tasks r (map fst (ch_SecretHashesToTask chain))) chain"

definition handleBlockForNode ::
  "env \<Rightarrow> ranges \<Rightarrow> (SecretHash \<Rightarrow> nat \<Rightarrow> MessageID) \<Rightarrow> ChainState \<Rightarrow> BlockHeight \<Rightarrow> MessageID
     \<Rightarrow> (ChainState \<times> Event list) option" where
  "handleBlockForNode e r ids chain blockNumber msgId =
     do { (chain1, channelEvents) \<leftarrow> subDispatchToAllChannels e r (chain\<lparr>ch_BlockHeight := blockNumber\<rparr>)
            (Block blockNumber) blockNumber msgId;
          (chain2, transferEvents) \<leftarrow> subDispatchToAllLockedTransfers e r ids chain1 (TC_Block blockNumber);
          Some (chain2, channelEvents @ transferEvents) }"

definition handleChainInit :: "ChainState option \<Rightarrow> ActionInitChain \<Rightarrow> ChainState" where
  "handleChainInit chainState stateChange =
     (case chainState of
        None \<Rightarrow> NewChainState\<lparr>ch_BlockHeight := aic_BlockHeight stateChange, ch_Address := aic_OurAddress stateChange,
                  ch_ChainId := aic_ChainId stateChange\<rparr>
      | Some chain \<Rightarrow> chain)"

definition maybeAddTokenNetwork ::
  "env \<Rightarrow> ChainState \<Rightarrow> PaymentNetworkID \<Rightarrow> TokenNetworkState \<Rightarrow> ChainState" where
  "maybeAddTokenNetwork e chain paymentNetworkId tn =
     (let nets = ch_IdentifiersToPaymentNetworks chain;
          add = (\<lambda>pn. pn\<lparr>pn_TokenIdentifiersToTokenNetworks :=
                     smap_store (tn_Address tn) tn (pn_TokenIdentifiersToTokenNetworks pn),
                   pn_TokenAddressesToTokenIdentifiers :=
                     smap_store (tn_TokenAddress tn) (tn_Address tn) (pn_TokenAddressesToTokenIdentifiers pn)\<rparr>)
      in case smap_load nets paymentNetworkId of
           None \<Rightarrow> chain\<lparr>ch_IdentifiersToPaymentNetworks := smap_store paymentNetworkId
                      (add (NewPaymentNetworkState\<lparr>pn_Address := MicroPayContractAddress e\<rparr>)) nets\<rparr>
         | Some pn \<Rightarrow>
             if GetTokenNetworkByTokenAddress chain paymentNetworkId (tn_TokenAddress tn) = None
             then chain\<lparr>ch_IdentifiersToPaymentNetworks := smap_store paymentNetworkId (add pn) nets\<rparr>
             else chain)"

text \<open>A nil state of the network deletes it from the payment network that has it.\<close>

definition handleTokenNetworkAction ::
  "env \<Rightarrow> ranges \<Rightarrow> ChainState \<Rightarrow> NetworkChange \<Rightarrow> TokenNetworkID \<Rightarrow> MessageID
     \<Rightarrow> (ChainState option \<times> Event list) option" where
  "handleTokenNetworkAction e r chain stateChange tokenNetworkId msgId =
     (case GetTokenNetworkRegistryByTokenNetworkId r chain tokenNetworkId of
        None \<Rightarrow> Some (None, [])
      | Some (key, pn) \<Rightarrow>
          (case GetTokenNetworkByIdentifier e chain tokenNetworkId of
             None \<Rightarrow> Some (Some chain, [])
           | Some tn \<Rightarrow>
               do { (st, events) \<leftarrow> stateTransitionForNetwork e r (pn_Address pn) tn stateChange (ch_BlockHeight chain) msgId;
                    Some (Some (case st of
                        Some tn' \<Rightarrow> storeTokenNetwork e tokenNetworkId tn' chain
                      | None \<Rightarrow> chain\<lparr>ch_IdentifiersToPaymentNetworks := smap_store key
                          (pn\<lparr>pn_TokenAddressesToTokenIdentifiers :=
                                smap_delete (tn_TokenAddress tn) (pn_TokenAddressesToTokenIdentifiers pn),
                              pn_TokenIdentifiersToTokenNetworks :=
                                smap_delete tokenNetworkId (pn_TokenIdentifiersToTokenNetworks pn)\<rparr>)
                          (ch_IdentifiersToPaymentNetworks chain)\<rparr>), events) }))"

definition handleContractReceiveChannelClosed ::
  "env \<Rightarrow> ranges \<Rightarrow> ChainState \<Rightarrow> ContractReceiveChannelClosed \<Rightarrow> MessageID
     \<Rightarrow> (ChainState option \<times> Event list) option" where
  "handleContractReceiveChannelClosed e r chain stateChange msgId =
     (let channelId = ccl_ChannelId stateChange;
          chain1 = (case GetChannelStateByTokenNetworkId e chain 0 channelId of
              None \<Rightarrow> chain
            | Some cs \<Rightarrow> chain\<lparr>ch_QueueIdsToQueues := smap_delete
                \<lparr>qi_Recipient = es_Address (cs_PartnerState cs), qi_ChannelId = channelId\<rparr> (ch_QueueIdsToQueues chain)\<rparr>)
      in handleTokenNetworkAction e r chain1 (NC_Channel (SC_ContractReceiveChannelClosed stateChange))
           (ccl_TokenNetworkId stateChange) msgId)"

text \<open>Closing every usable channel.\<close>

definition closeChannel :: "BlockHeight \<Rightarrow> ChannelID \<Rightarrow> TokenNetworkState \<Rightarrow> (TokenNetworkState \<times> Event list) option" where
  "closeChannel blockNumber k tn =
     (case smap_load (tn_ChannelsMap tn) k of
        None \<Rightarrow> Some (tn, [])
      | Some cs \<Rightarrow>
          let (cs', events) = EventsForClose cs blockNumber
          in Some (tn\<lparr>tn_ChannelsMap := smap_store k cs' (tn_ChannelsMap tn)\<rparr>, events))"

definition closePartner ::
  "ranges \<Rightarrow> BlockHeight \<Rightarrow> Address \<Rightarrow> TokenNetworkState \<Rightarrow> (TokenNetworkState \<times> Event list) option" where
  "closePartner r blockNumber addr tn =
     rangeLoop (closeChannel blockNumber)
       (FilterChannelsByStatus r (tn_ChannelsMap tn) (partnerChannels tn addr) [ChannelStateUnusable]) tn"

definition getChannelsCloseEvents ::
  "ranges \<Rightarrow> BlockHeight \<Rightarrow> TokenNetworkState \<Rightarrow> (TokenNetworkState \<times> Event list) option" where
  "getChannelsCloseEvents r blockNumber tn =
     rangeLoop (closePartner r blockNumber) (rg_Partners r (map fst (tn_PartnerAddressesToChannels tn))) tn"

definition leaveNetwork ::
  "ranges \<Rightarrow> BlockHeight \<Rightarrow> TokenNetworkID \<Rightarrow> PaymentNetworkState \<Rightarrow> (PaymentNetworkState \<times> Event list) option" where
  "leaveNetwork r blockNumber tokenNetworkId pn =
     (case smap_load (pn_TokenIdentifiersToTokenNetworks pn) tokenNetworkId of
        None \<Rightarrow> Some (pn, [])
      | Some tn \<Rightarrow>
          do { (tn', events) \<leftarrow> getChannelsCloseEvents r blockNumber tn;
               Some (pn\<lparr>pn_TokenIdentifiersToTokenNetworks :=
                       smap_store tokenNetworkId tn' (pn_TokenIdentifiersToTokenNetworks pn)\<rparr>, events) })"

definition leavePaymentNetwork ::
  "ranges \<Rightarrow> PaymentNetworkID \<Rightarrow> ChainState \<Rightarrow> (ChainState \<times> Event list) option" where
  "leavePaymentNetwork r paymentNetworkId chain =
     (case smap_load (ch_IdentifiersToPaymentNetworks chain) paymentNetworkId of
        None \<Rightarrow> Some (chain, [])
      | Some pn \<Rightarrow>
          do { (pn', events) \<leftarrow> rangeLoop (leaveNetwork r (ch_BlockHeight chain))
                 (rg_TokenNetworks r (map fst (pn_TokenIdentifiersToTokenNetworks pn))) pn;
               Some (chain\<lparr>ch_IdentifiersToPaymentNetworks :=
                       smap_store paymentNetworkId pn' (ch_IdentifiersToPaymentNetworks chain)\<rparr>, events) })"

definition handleLeaveAllNetworks :: "ranges \<Rightarrow> ChainState \<Rightarrow> (ChainState \<times> Event list) option" where
  "handleLeaveAllNetworks r chain =
     rangeLoop (leavePaymentNetwork r) (rg_PaymentNetworks r (map fst (ch_IdentifiersToPaymentNetworks chain))) chain"

definition handleNewPaymentNetwork :: "ChainState \<Rightarrow> PaymentNetworkState \<Rightarrow> ChainState" where
  "handleNewPaymentNetwork chain paymentNetwork =
     (let nets = ch_IdentifiersToPaymentNetworks chain
      in if smap_load nets (pn_Address paymentNetwork) = None
         then chain\<lparr>ch_IdentifiersToPaymentNetworks := smap_store (pn_Address paymentNetwork) paymentNetwork nets\<rparr>
         else chain)"

section \<open>The dispatcher\<close>

text \<open>The token network a state change of channels and routes names.\<close>

fun changeTokenNetworkId :: "NetworkChange \<Rightarrow> TokenNetworkID" where
  "changeTokenNetworkId (NC_ContractReceiveChannelNew x) = ccn_TokenNetworkId x"
| "changeTokenNetworkId (NC_ContractReceiveRouteNew x) = crn_TokenNetworkId x"
| "changeTokenNetworkId (NC_ContractReceiveRouteClosed x) = crd_TokenNetworkId x"
| "changeTokenNetworkId (NC_ContractReceiveSetFee x) = csf_TokenNetworkId x"
| "changeTokenNetworkId (NC_Channel (ActionChannelClose tokenNetworkId _)) = tokenNetworkId"
| "changeTokenNetworkId (NC_Channel (SC_ActionTransferDirect x)) = atd_TokenNetworkId x"
| "changeTokenNetworkId (NC_Channel (SC_ContractReceiveChannelClosed x)) = ccl_TokenNetworkId x"
| "changeTokenNetworkId (NC_Channel (SC_ContractReceiveUpdateTransfer x)) = cut_TokenNetworkId x"
| "changeTokenNetworkId (NC_Channel (SC_ContractReceiveChannelSettled x)) = cst_TokenNetworkId x"
| "changeTokenNetworkId (NC_Channel (SC_ContractReceiveChannelNewBalance x)) = cnb_TokenNetworkId x"
| "changeTokenNetworkId (NC_Channel (SC_ReceiveTransferDirect x)) = rtd_TokenNetworkId x"
| "changeTokenNetworkId (NC_Channel (SC_ActionWithdraw x)) = aw_TokenNetworkId x"
| "changeTokenNetworkId (NC_Channel (SC_ReceiveWithdrawRequest x)) = rwr_TokenNetworkId x"
| "changeTokenNetworkId (NC_Channel (SC_ReceiveWithdraw x)) = rwr_TokenNetworkId x"
| "changeTokenNetworkId (NC_Channel (SC_ContractReceiveChannelWithdraw x)) = crw_TokenNetworkId x"
| "changeTokenNetworkId (NC_Channel (SC_ActionCooperativeSettle x)) = acs_TokenNetworkId x"
| "changeTokenNetworkId (NC_Channel (SC_ReceiveCooperativeSettleRequest x)) = rcr_TokenNetworkId x"
| "changeTokenNetworkId (NC_Channel (SC_ReceiveCooperativeSettle x)) = rcs_TokenNetworkId x"
| "changeTokenNetworkId (NC_Channel (SC_ContractReceiveChannelCooperativeSettled x)) = crc_TokenNetworkId x"
| "changeTokenNetworkId (NC_Channel (SC_ContractReceiveChannelBatchUnlock x)) = cbu_TokenNetworkId x"
| "changeTokenNetworkId (NC_Channel (Block _)) = 0"

text \<open>
  State changes of payments. Those that start one carry its secret hash and token network; the others go to
  the task of their secret hash. The two cancellations have no case, which leaves the iteration nil.
\<close>

definition handleTaskChange ::
  "env \<Rightarrow> ranges \<Rightarrow> (SecretHash \<Rightarrow> nat \<Rightarrow> MessageID) \<Rightarrow> ChainState \<Rightarrow> TaskChange \<Rightarrow> MessageID
     \<Rightarrow> (ChainState \<times> Event list) option option" where
  "handleTaskChange e r ids chain stateChange msgId =
     (let iteration = map_option Some;
          toTask = (\<lambda>h. iteration (subDispatchToPaymentTask e r (ids h) chain stateChange h))
      in case stateChange of
           TC_Block blockNumber \<Rightarrow> iteration (handleBlockForNode e r ids chain blockNumber msgId)
         | TC_ActionInitInitiator x \<Rightarrow>
             (let td = aii_TransferDescription x
              in iteration (subDispatchInitiatorTask e (ids (td_SecretHash td)) chain stateChange (td_TokenNetworkId td)
                   (td_SecretHash td)))
         | TC_ActionInitMediator x \<Rightarrow>
             (let transfer = aim_FromTransfer x; secretHash = lk_SecretHash (ls_Lock transfer)
              in iteration (subDispatchMediatorTask e r (ids secretHash) chain stateChange
                   (bp_TokenNetworkId (ls_BalanceProof transfer)) secretHash))
         | TC_ActionInitTarget x \<Rightarrow>
             (let transfer = ait_Transfer x; secretHash = lk_SecretHash (ls_Lock transfer)
              in iteration (subDispatchTargetTask e (ids secretHash) chain stateChange
                   (bp_TokenNetworkId (ls_BalanceProof transfer)) (bp_ChannelId (ls_BalanceProof transfer)) secretHash))
         | TC_ReceiveSecretRequest x \<Rightarrow> toTask (rsq_SecretHash x)
         | TC_ReceiveSecretReveal x \<Rightarrow> toTask (GetHash e (rsr_Secret x))
         | TC_ReceiveTransferRefund x \<Rightarrow> toTask (lk_SecretHash (ls_Lock (rtr_Transfer x)))
         | TC_ReceiveTransferRefundCancelRoute x \<Rightarrow> toTask (lk_SecretHash (ls_Lock (rrc_Transfer x)))
         | TC_ReceiveUnlock x \<Rightarrow> toTask (rul_SecretHash x)
         | TC_ReceiveLockExpired x \<Rightarrow> toTask (rle_SecretHash x)
         | TC_ContractReceiveSecretReveal x \<Rightarrow> toTask (csr_SecretHash x)
         | TC_ActionCancelRoute _ \<Rightarrow> Some None
         | TC_ActionCancelPayment _ \<Rightarrow> Some None)"

text \<open>
  The outer option is a panic, the inner one a nil iteration; the new state of an iteration may be nil.
  Only the first state change may meet a nil chain state.
\<close>

definition handleStateChangeForNode ::
  "env \<Rightarrow> ranges \<Rightarrow> (SecretHash \<Rightarrow> nat \<Rightarrow> MessageID) \<Rightarrow> ChainState option \<Rightarrow> NodeChange \<Rightarrow> MessageID
     \<Rightarrow> (ChainState option \<times> Event list) option option" where
  "handleStateChangeForNode e r ids chainState stateChange msgId =
     (case stateChange of
        ND_ActionInitChain x \<Rightarrow> Some (Some (Some (handleChainInit chainState x), []))
      | ND_Task (TC_ActionCancelRoute _) \<Rightarrow> Some None
      | ND_Task (TC_ActionCancelPayment _) \<Rightarrow> Some None
      | ND_ContractReceiveStateChange _ \<Rightarrow> Some None
      | _ \<Rightarrow>
          do { chain \<leftarrow> chainState;
               (let state = map_option (\<lambda>(c, events). Some (Some c, events))
                in case stateChange of
                     ND_Network (NC_Channel (Block blockNumber)) \<Rightarrow>
                       state (handleBlockForNode e r ids chain blockNumber msgId)
                   | ND_Network (NC_Channel (SC_ContractReceiveChannelClosed x)) \<Rightarrow>
                       map_option Some (handleContractReceiveChannelClosed e r chain x msgId)
                   | ND_Network sc \<Rightarrow>
                       map_option Some (handleTokenNetworkAction e r chain sc (changeTokenNetworkId sc) msgId)
                   | ND_Task sc \<Rightarrow>
                       map_option (map_option (\<lambda>(c, events). (Some c, events)))
                         (handleTaskChange e r ids chain sc msgId)
                   | ND_ActionNewTokenNetwork pnid tn \<Rightarrow> state (Some (maybeAddTokenNetwork e chain pnid tn, []))
                   | ND_ContractReceiveNewTokenNetwork pnid tn \<Rightarrow> state (Some (maybeAddTokenNetwork e chain pnid tn, []))
                   | ND_ActionLeaveAllNetworks \<Rightarrow> state (handleLeaveAllNetworks r chain)
                   | ND_ContractReceiveNewPaymentNetwork pn \<Rightarrow> state (Some (handleNewPaymentNetwork chain pn, []))
                   | ND_ReceiveDelivered sender messageId \<Rightarrow> state (handleDelivered chain sender messageId)
                   | ND_ReceiveProcessed sender messageId \<Rightarrow> state (handleProcessed e r chain sender messageId)
                   | _ \<Rightarrow> Some None) })"

text \<open>\<open>updateQueues\<close> asserts that the new state is a chain state, which nil is not.\<close>

definition StateTransition ::
  "env \<Rightarrow> ranges \<Rightarrow> (SecretHash \<Rightarrow> nat \<Rightarrow> MessageID) \<Rightarrow> ChainState option \<Rightarrow> NodeChange \<Rightarrow> MessageID
     \<Rightarrow> (ChainState \<times> Event list) option option" where
  "StateTransition e r ids chainState stateChange msgId =
     do { iteration \<leftarrow> handleStateChangeForNode e r ids chainState stateChange msgId;
          (case iteration of
             None \<Rightarrow> Some None
           | Some (newState, events) \<Rightarrow>
               do { chain \<leftarrow> newState;
                    Some (Some (updateQueues chain events stateChange, events)) }) }"

end
