(* ===== verification/Pylons_NodeRuns.thy ===== *)
theory Pylons_NodeRuns
  imports Pylons_Node Pylons_Identity
begin

text \<open>
  What holds along the runs of a node: its channels stay safe, and its queues keep every message until it is
  acknowledged.
\<close>

section \<open>Loops\<close>

lemma rangeLoop_inv:
  assumes "rangeLoop body ks s = Some (s', evs)" and "P s"
    and "\<And>k s s1 ev. k \<in> set ks \<Longrightarrow> P s \<Longrightarrow> body k s = Some (s1, ev) \<Longrightarrow> P s1"
  shows "P s'"
  using assms
proof (induction ks arbitrary: s evs)
  case (Cons k ks)
  from Cons.prems(1) obtain s1 ev evs2 where b: "body k s = Some (s1, ev)" and r: "rangeLoop body ks s1 = Some (s', evs2)"
    by (auto split: Option.bind_split_asm)
  from Cons.prems(3) [OF _ Cons.prems(2) b] have "P s1" by simp
  then show ?case by (rule Cons.IH [OF r]) (rule Cons.prems(3), simp_all)
qed simp

section \<open>Channels of the node\<close>

definition every_channel :: "(NettingChannelState \<Rightarrow> bool) \<Rightarrow> ChainState \<Rightarrow> bool" where
  "every_channel P chain \<longleftrightarrow>
     (\<forall>p pn t tn k cs. smap_load (ch_IdentifiersToPaymentNetworks chain) p = Some pn \<longrightarrow>
        smap_load (pn_TokenIdentifiersToTokenNetworks pn) t = Some tn \<longrightarrow>
        smap_load (tn_ChannelsMap tn) k = Some cs \<longrightarrow> P cs)"

text \<open>
  The index of a token network is consistent: a channel is found under its own id, and the ids listed for a
  partner are those of the channels with that partner.
\<close>

definition index_ok :: "TokenNetworkState \<Rightarrow> bool" where
  "index_ok tn \<longleftrightarrow>
     (\<forall>k cs. smap_load (tn_ChannelsMap tn) k = Some cs \<longrightarrow> cs_Identifier cs = k)
     \<and> (\<forall>a k. k \<in> set (partnerChannels tn a) \<longleftrightarrow>
          (\<exists>cs. smap_load (tn_ChannelsMap tn) k = Some cs \<and> es_Address (cs_PartnerState cs) = a))"

definition tn_safe :: "env \<Rightarrow> int \<Rightarrow> TokenNetworkState \<Rightarrow> bool" where
  "tn_safe e N tn \<longleftrightarrow> chans_safe e N (tn_ChannelsMap tn) \<and> index_ok tn"

definition net_safe :: "env \<Rightarrow> int \<Rightarrow> PaymentNetworkState \<Rightarrow> bool" where
  "net_safe e N pn \<longleftrightarrow> (\<forall>t tn. smap_load (pn_TokenIdentifiersToTokenNetworks pn) t = Some tn \<longrightarrow> tn_safe e N tn)"

definition chain_safe :: "env \<Rightarrow> int \<Rightarrow> ChainState \<Rightarrow> bool" where
  "chain_safe e N chain \<longleftrightarrow>
     (\<forall>p pn. smap_load (ch_IdentifiersToPaymentNetworks chain) p = Some pn \<longrightarrow> net_safe e N pn)"

lemma chain_safe_every: "chain_safe e N chain \<Longrightarrow> every_channel (safe e N) chain"
  unfolding chain_safe_def net_safe_def tn_safe_def chans_safe_def every_channel_def by blast

lemma GetTokenNetwork_channels:
  assumes "GetTokenNetworkByIdentifier e chain t = Some tn" and "every_channel P chain"
    and "smap_load (tn_ChannelsMap tn) k = Some cs"
  shows "P cs"
  using assms unfolding every_channel_def GetTokenNetworkByIdentifier_def
  by (auto split: Option.bind_split_asm)

lemma GetTokenNetwork_safe:
  "GetTokenNetworkByIdentifier e chain t = Some tn \<Longrightarrow> chain_safe e N chain \<Longrightarrow> tn_safe e N tn"
  by (auto simp: GetTokenNetworkByIdentifier_def chain_safe_def net_safe_def split: Option.bind_split_asm)

lemma net_safe_store:
  "net_safe e N pn \<Longrightarrow> tn_safe e N tn \<Longrightarrow>
   net_safe e N (pn\<lparr>pn_TokenIdentifiersToTokenNetworks := smap_store t tn (pn_TokenIdentifiersToTokenNetworks pn)\<rparr>)"
  by (simp add: net_safe_def)

lemma chain_safe_store:
  "chain_safe e N chain \<Longrightarrow> net_safe e N pn \<Longrightarrow>
   chain_safe e N (chain\<lparr>ch_IdentifiersToPaymentNetworks := smap_store p pn (ch_IdentifiersToPaymentNetworks chain)\<rparr>)"
  by (simp add: chain_safe_def)

lemma storeTokenNetwork_safe:
  assumes "chain_safe e N chain" and "tn_safe e N tn"
  shows "chain_safe e N (storeTokenNetwork e t tn chain)"
proof (cases "smap_load (ch_IdentifiersToPaymentNetworks chain) (MicroPayContractAddress e)")
  case (Some pn)
  with assms(1) have "net_safe e N pn" by (simp add: chain_safe_def)
  with Some show ?thesis
    by (simp add: storeTokenNetwork_def Let_def chain_safe_store [OF assms(1)] net_safe_store [OF _ assms(2)])
qed (simp add: storeTokenNetwork_def assms(1))

lemma chain_safe_fields [simp]:
  "chain_safe e N (finishTask h t chain) \<longleftrightarrow> chain_safe e N chain"
  "chain_safe e N (chain\<lparr>ch_QueueIdsToQueues := q\<rparr>) \<longleftrightarrow> chain_safe e N chain"
  "chain_safe e N (chain\<lparr>ch_PendingTransactions := ts\<rparr>) \<longleftrightarrow> chain_safe e N chain"
  "chain_safe e N (chain\<lparr>ch_BlockHeight := n\<rparr>) \<longleftrightarrow> chain_safe e N chain"
  by (simp_all add: chain_safe_def finishTask_def)

section \<open>Network transitions are safe\<close>

lemma chans_safe_store: "chans_safe e N chans \<Longrightarrow> safe e N cs \<Longrightarrow> chans_safe e N (smap_store k cs chans)"
  by (simp add: chans_safe_def)

lemma chans_safe_delete: "chans_safe e N chans \<Longrightarrow> chans_safe e N (smap_delete k chans)"
  by (simp add: chans_safe_def)

text \<open>Channels that keep their identities keep the index.\<close>

lemma index_ok_identity:
  assumes "index_ok tn" and "\<And>k. rel_option same_identity (smap_load (tn_ChannelsMap tn) k) (smap_load chans k)"
  shows "index_ok (tn\<lparr>tn_ChannelsMap := chans\<rparr>)"
proof -
  have id: "map_option (\<lambda>cs. (cs_Identifier cs, es_Address (cs_PartnerState cs))) (smap_load chans k) =
      map_option (\<lambda>cs. (cs_Identifier cs, es_Address (cs_PartnerState cs))) (smap_load (tn_ChannelsMap tn) k)" for k
    using assms(2) [of k] by (cases "smap_load (tn_ChannelsMap tn) k"; cases "smap_load chans k") (auto simp: same_identity_def)
  have 1: "cs_Identifier cs = k" if "smap_load chans k = Some cs" for k cs
    using id [of k] that assms(1) by (cases "smap_load (tn_ChannelsMap tn) k") (auto simp: index_ok_def)
  have 2: "(\<exists>cs. smap_load chans k = Some cs \<and> es_Address (cs_PartnerState cs) = a) \<longleftrightarrow>
      (\<exists>cs. smap_load (tn_ChannelsMap tn) k = Some cs \<and> es_Address (cs_PartnerState cs) = a)" for a k
    using id [of k] by (cases "smap_load (tn_ChannelsMap tn) k"; cases "smap_load chans k") auto
  from assms(1) show ?thesis unfolding index_ok_def by (simp add: 1 2 partnerChannels_def)
qed

lemma tn_safe_store:
  assumes "tn_safe e N tn" and "smap_load (tn_ChannelsMap tn) k = Some cs" and "same_identity cs cs'" and "safe e N cs'"
  shows "tn_safe e N (tn\<lparr>tn_ChannelsMap := smap_store k cs' (tn_ChannelsMap tn)\<rparr>)"
proof -
  have "rel_option same_identity (smap_load (tn_ChannelsMap tn) i) (smap_load (smap_store k cs' (tn_ChannelsMap tn)) i)" for i
    using assms(2,3) by (cases "smap_load (tn_ChannelsMap tn) i") auto
  from index_ok_identity [OF _ this] assms(1,4) show ?thesis by (simp add: tn_safe_def chans_safe_store)
qed

lemma tn_safe_steps:
  assumes "tn_safe e N tn" and "chans_steps e N (tn_ChannelsMap tn) chans" and "2 * N < 2 ^ 64"
  shows "tn_safe e N (tn\<lparr>tn_ChannelsMap := chans\<rparr>)"
proof -
  have "same_identity cs cs'" if "(channel_step e N)\<^sup>*\<^sup>* cs cs'" for cs cs'
    using that by (induction rule: rtranclp_induct) (auto intro: same_identity_trans channel_step_identity)
  then have "rel_option same_identity (smap_load (tn_ChannelsMap tn) k) (smap_load chans k)" for k
    using assms(2) unfolding chans_steps_def by (metis (mono_tags, lifting) option.rel_mono_strong)
  from index_ok_identity [OF _ this] chans_steps_safe [OF assms(2) _ assms(3)] assms(1) show ?thesis
    by (simp add: tn_safe_def)
qed

lemma partner_fields [simp]:
  "tn_ChannelsMap (putPartner a k tn) = tn_ChannelsMap tn"
  "tn_ChannelsMap (dropPartner a k tn) = tn_ChannelsMap tn"
  "tn_ChannelsMap (AddRoute r a b tn) = tn_ChannelsMap tn"
  "tn_ChannelsMap (DelRoute k tn) = tn_ChannelsMap tn"
  "tn_ChannelsMap (AddFeeSchedule a f tn) = tn_ChannelsMap tn"
  "partnerChannels (AddRoute r a b tn) = partnerChannels tn"
  "partnerChannels (DelRoute k tn) = partnerChannels tn"
  "partnerChannels (AddFeeSchedule a f tn) = partnerChannels tn"
  "partnerChannels (tn\<lparr>tn_ChannelsMap := chans\<rparr>) = partnerChannels tn"
  by (auto simp: putPartner_def dropPartner_def AddRoute_def DelRoute_def AddFeeSchedule_def updateDns_def Let_def
      partnerChannels_def fun_eq_iff split: option.split)

lemma partnerChannels_put: "partnerChannels (putPartner a k tn) b =
    (if b = a then List.insert k (partnerChannels tn a) else partnerChannels tn b)"
  by (simp add: partnerChannels_def putPartner_def)

lemma partnerChannels_drop: "partnerChannels (dropPartner a k tn) b =
    (if b = a then removeAll k (partnerChannels tn a) else partnerChannels tn b)"
  by (simp add: partnerChannels_def dropPartner_def)

lemma tn_safe_routes [simp]:
  "tn_safe e N (AddRoute r a b tn) \<longleftrightarrow> tn_safe e N tn"
  "tn_safe e N (DelRoute k tn) \<longleftrightarrow> tn_safe e N tn"
  "tn_safe e N (AddFeeSchedule a f tn) \<longleftrightarrow> tn_safe e N tn"
  by (simp_all add: tn_safe_def index_ok_def)

text \<open>Putting an id where it already is, a new channel, and the removal of a channel.\<close>

lemma tn_safe_put:
  assumes "tn_safe e N tn" and "smap_load (tn_ChannelsMap tn) k = Some cs" and "es_Address (cs_PartnerState cs) = a"
  shows "tn_safe e N (putPartner a k tn)"
  using assms by (auto simp: tn_safe_def index_ok_def partnerChannels_put)

lemma tn_safe_new:
  assumes "tn_safe e N tn" and "smap_load (tn_ChannelsMap tn) (cs_Identifier cs) = None" and "safe e N cs"
  shows "tn_safe e N (putPartner (es_Address (cs_PartnerState cs)) (cs_Identifier cs)
    (tn\<lparr>tn_ChannelsMap := smap_store (cs_Identifier cs) cs (tn_ChannelsMap tn)\<rparr>))"
  using assms by (auto simp: tn_safe_def index_ok_def partnerChannels_put chans_safe_store)

lemma tn_safe_drop:
  assumes "tn_safe e N tn" and "smap_load (tn_ChannelsMap tn) k = Some cs" and "es_Address (cs_PartnerState cs) = a"
  shows "tn_safe e N (dropPartner a k (tn\<lparr>tn_ChannelsMap := smap_delete k (tn_ChannelsMap tn)\<rparr>))"
  using assms by (auto simp: tn_safe_def index_ok_def partnerChannels_drop chans_safe_delete split: if_splits)

lemma Transition_safe:
  assumes "safe e N cs" and "2 * N < 2 ^ 64" and "chain_ok N cs sc"
    and "StateTransitionForChannel e cs sc n m = Some (result, evs)"
  shows "safe e N (the_channel result)"
  using StateTransitionForChannel_step [OF assms(1,2,3), of n m] assms(4) by auto

text \<open>The transition of a channel of the network, with its struct changed in place.\<close>

lemma tn_safe_transition:
  assumes "tn_safe e N tn" and "2 * N < 2 ^ 64" and "smap_load (tn_ChannelsMap tn) k = Some cs" and "chain_ok N cs sc"
    and "StateTransitionForChannel e cs sc n m = Some (result, evs)"
  shows "tn_safe e N (tn\<lparr>tn_ChannelsMap := smap_store k (the_channel result) (tn_ChannelsMap tn)\<rparr>)"
proof -
  have "safe e N cs" using assms(1,3) by (simp add: tn_safe_def chans_safe_def)
  from tn_safe_store [OF assms(1,3) StateTransitionForChannel_identity [OF assms(5)] Transition_safe [OF this assms(2,4,5)]]
  show ?thesis .
qed

lemma tn_safe_id: "tn_safe e N tn \<Longrightarrow> smap_load (tn_ChannelsMap tn) k = Some cs \<Longrightarrow> cs_Identifier cs = k"
  by (simp add: tn_safe_def index_ok_def)

lemma channelInPlace_safe:
  assumes "channelInPlace e sc n m k tn = Some (tn', evs)" and "tn_safe e N tn"
    and "2 * N < 2 ^ 64" and "\<And>cs. smap_load (tn_ChannelsMap tn) k = Some cs \<Longrightarrow> chain_ok N cs sc"
  shows "tn_safe e N tn'"
proof (cases "smap_load (tn_ChannelsMap tn) k")
  case None
  with assms(1,2) show ?thesis by (simp add: channelInPlace_def)
next
  case (Some cs)
  with assms(1) obtain result where r: "StateTransitionForChannel e cs sc n m = Some (result, evs)"
    and tn: "tn' = tn\<lparr>tn_ChannelsMap := smap_store k (the_channel result) (tn_ChannelsMap tn)\<rparr>"
    by (auto simp: channelInPlace_def split: Option.bind_split_asm)
  from tn_safe_transition [OF assms(2,3) Some assms(4) [OF Some] r] show ?thesis by (simp add: tn)
qed

lemma subDispatch_safe:
  assumes "subDispatchToChannelById e tn sc n m = Some (tn', evs)" and "tn_safe e N tn"
    and "2 * N < 2 ^ 64" and "\<And>k cs. smap_load (tn_ChannelsMap tn) k = Some cs \<Longrightarrow> chain_ok N cs sc"
  shows "tn_safe e N tn'"
proof (cases "smap_load (tn_ChannelsMap tn) (GetChannelId sc)")
  case None
  with assms(1,2) show ?thesis by (simp add: subDispatchToChannelById_def)
next
  case (Some cs)
  with assms(1) obtain result where r: "StateTransitionForChannel e cs sc n m = Some (result, evs)"
    by (auto simp: subDispatchToChannelById_def Let_def split: Option.bind_split_asm)
  note t = tn_safe_transition [OF assms(2,3) Some assms(4) [OF Some] r]
  have a: "es_Address (cs_PartnerState (the_channel result)) = es_Address (cs_PartnerState cs)"
    using StateTransitionForChannel_identity [OF r] by (simp add: same_identity_def)
  show ?thesis
  proof (cases result)
    case (NewState cs')
    with assms(1) Some r tn_safe_put [OF t, of "GetChannelId sc" cs'] show ?thesis
      by (auto simp: subDispatchToChannelById_def Let_def)
  next
    case (NilState cs')
    with assms(1) Some r a tn_safe_drop [OF assms(2) Some] show ?thesis
      by (auto simp: subDispatchToChannelById_def Let_def)
  qed
qed

lemma batchUnlock_safe:
  assumes "batchUnlockChannel e x n m k tn = Some (tn', evs)" and "tn_safe e N tn"
    and "2 * N < 2 ^ 64"
  shows "tn_safe e N tn'"
proof (cases "tn' = tn \<or> smap_load (tn_ChannelsMap tn) k = None")
  case True
  with assms(1,2) show ?thesis by (auto simp: batchUnlockChannel_def)
next
  case False
  then obtain cs where l: "smap_load (tn_ChannelsMap tn) k = Some cs" by blast
  with False assms(1) obtain result ev where r: "StateTransitionForChannel e cs (SC_ContractReceiveChannelBatchUnlock x) n m = Some (result, ev)"
    by (auto simp: batchUnlockChannel_def Let_def split: if_splits Option.bind_split_asm)
  let ?tn1 = "tn\<lparr>tn_ChannelsMap := smap_store k (the_channel result) (tn_ChannelsMap tn)\<rparr>"
  have t: "tn_safe e N ?tn1" using tn_safe_transition [OF assms(2,3) l _ r] by (simp add: chain_ok_def)
  have l1: "smap_load (tn_ChannelsMap ?tn1) k = Some (the_channel result)" by simp
  have id: "cs_Identifier (the_channel result) = k" using tn_safe_id [OF t l1] .
  show ?thesis
  proof (cases result)
    case (NewState cs')
    with assms(1) False l r t show ?thesis by (auto simp: batchUnlockChannel_def Let_def split: if_splits)
  next
    case (NilState cs')
    let ?a = "es_Address (cs_PartnerState (the_channel result))"
    let ?tn2 = "?tn1\<lparr>tn_ChannelsMap := smap_delete k (tn_ChannelsMap ?tn1)\<rparr>"
    have "k \<in> set (partnerChannels ?tn1 ?a)" using t l1 unfolding tn_safe_def index_ok_def by blast
    then have "smap_load (tn_PartnerAddressesToChannels ?tn2) ?a \<noteq> None"
      by (cases "smap_load (tn_PartnerAddressesToChannels tn) ?a") (simp_all add: partnerChannels_def)
    with assms(1) False l r NilState id have "tn' = dropPartner ?a k ?tn2"
      by (auto simp: batchUnlockChannel_def Let_def split: if_splits)
    with tn_safe_drop [OF t l1] show ?thesis by simp
  qed
qed

lemma stateTransitionForNetwork_safe:
  assumes "stateTransitionForNetwork e r pnid tn sc n m = Some (Some tn', evs)"
    and "tn_safe e N tn" and "2 * N < 2 ^ 64"
    and "\<And>x k cs. sc = NC_Channel x \<Longrightarrow> smap_load (tn_ChannelsMap tn) k = Some cs \<Longrightarrow> chain_ok N cs x"
    and "\<And>x. sc = NC_ContractReceiveChannelNew x \<Longrightarrow> safe e N (ccn_ChannelState x)"
  shows "tn_safe e N tn'"
proof (cases sc)
  case (NC_Channel x)
  note ok = assms(4) [OF NC_Channel] and d = assms(2,3)
  have by_id: ?thesis if "subDispatchToChannelById e tn0 x n m = Some (tn', evs)" and "tn_safe e N tn0"
    and "tn_ChannelsMap tn0 = tn_ChannelsMap tn" for tn0
    using subDispatch_safe [OF that(1,2) d(2)] ok that(3) by simp
  have in_place: ?thesis if "channelInPlace e x n m k tn = Some (tn', evs)" for k
    using channelInPlace_safe [OF that d ok] .
  have loop: ?thesis if "rangeLoop (batchUnlockChannel e y n m) ks tn = Some (tn', evs)" for y ks
    using rangeLoop_inv [OF that, of "tn_safe e N"] d batchUnlock_safe by blast
  note f = assms(1) [unfolded NC_Channel stateTransitionForNetwork_def Let_def, simplified]
  show ?thesis
  proof (cases x)
    case (ActionChannelClose t k)
    with f by_id [of "DelRoute k tn"] d show ?thesis by (simp add: handleChannelClose_def)
  next
    case (SC_ContractReceiveChannelClosed y)
    with f by_id [of "DelRoute (ccl_ChannelId y) tn"] d show ?thesis by (simp add: handleClosed_def)
  next
    case (SC_ActionTransferDirect y)
    with f in_place d show ?thesis by (auto simp: handleActionTransferDirect_def Let_def split: if_splits)
  next
    case (SC_ReceiveTransferDirect y)
    with f in_place show ?thesis by (simp add: handleReceiveTransferDirect_def)
  next
    case (SC_ActionWithdraw y)
    with f in_place d show ?thesis by (auto simp: handleActionWithdraw_def Let_def split: if_splits)
  next
    case (SC_ActionCooperativeSettle y)
    with f in_place d show ?thesis
      by (auto simp: handleActionCooperativeSettle_def split: if_splits option.split_asm)
  next
    case (SC_ContractReceiveChannelBatchUnlock y)
    with f loop show ?thesis by (simp add: handleBatchUnlock_def)
  qed (use f by_id [of tn] d in simp_all)
next
  case (NC_ContractReceiveChannelNew x)
  let ?cs = "ccn_ChannelState x"
  let ?tn1 = "AddRoute r (es_Address (cs_OurState ?cs)) (es_Address (cs_PartnerState ?cs)) tn"
  from assms(5) [OF NC_ContractReceiveChannelNew] assms(2) tn_safe_new [of e N ?tn1 ?cs] NC_ContractReceiveChannelNew assms(1)
  show ?thesis by (auto simp: stateTransitionForNetwork_def handleChannelNew_def Let_def)
qed (use assms(1,2) in \<open>auto simp: stateTransitionForNetwork_def handleContractReceiveSetFee_def\<close>)

section \<open>Task transitions are safe\<close>

text \<open>
  What is assumed of a state change: what it reports of the chain is right for every channel, a channel or a
  network it adds is safe, and a payment is started, or taken back, under a secret hash that is not pending.
\<close>

definition change_ok :: "env \<Rightarrow> int \<Rightarrow> ChainState \<Rightarrow> NodeChange \<Rightarrow> bool" where
  "change_ok e N chain sc =
     (let unused = (\<lambda>our partner h. every_channel (\<lambda>cs. (our \<longrightarrow> GetLock (cs_OurState cs) h = None)
            \<and> (partner \<longrightarrow> GetLock (cs_PartnerState cs) h = None)) chain)
      in case sc of
           ND_Network (NC_Channel x) \<Rightarrow> every_channel (\<lambda>cs. chain_ok N cs x) chain
         | ND_Network (NC_ContractReceiveChannelNew x) \<Rightarrow> safe e N (ccn_ChannelState x)
         | ND_Task (TC_ActionInitInitiator x) \<Rightarrow> unused True False (td_SecretHash (aii_TransferDescription x))
         | ND_Task (TC_ActionInitMediator x) \<Rightarrow> unused True True (lk_SecretHash (ls_Lock (aim_FromTransfer x)))
         | ND_Task (TC_ActionInitTarget x) \<Rightarrow> unused False True (lk_SecretHash (ls_Lock (ait_Transfer x)))
         | ND_Task (TC_ReceiveTransferRefundCancelRoute x) \<Rightarrow> unused False True (lk_SecretHash (ls_Lock (rrc_Transfer x)))
         | ND_ActionNewTokenNetwork _ tn \<Rightarrow> tn_safe e N tn
         | ND_ContractReceiveNewTokenNetwork _ tn \<Rightarrow> tn_safe e N tn
         | ND_ContractReceiveNewPaymentNetwork pn \<Rightarrow> net_safe e N pn
         | _ \<Rightarrow> True)"

lemma initiator_dispatch_safe:
  assumes "ImStateTransition e ps sc (tn_ChannelsMap tn) n m = Some (chans, it)"
    and "GetTokenNetworkByIdentifier e chain t = Some tn" and "chain_safe e N chain" and "2 * N < 2 ^ 64"
    and "change_ok e N chain (ND_Task sc)"
  shows "chain_safe e N (storeTokenNetwork e t (tn\<lparr>tn_ChannelsMap := chans\<rparr>) chain)"
proof -
  note g = GetTokenNetwork_channels [OF assms(2)] and s = GetTokenNetwork_safe [OF assms(2,3)]
  from s have c: "chans_safe e N (tn_ChannelsMap tn)" by (simp add: tn_safe_def)
  have "chans_steps e N (tn_ChannelsMap tn) chans"
  proof (rule ImStateTransition_steps [OF assms(1) c])
    fix x k cs assume "sc = TC_ActionInitInitiator x" and l: "smap_load (tn_ChannelsMap tn) k = Some cs"
    with assms(5) g [OF _ l] show "GetLock (cs_OurState cs) (td_SecretHash (aii_TransferDescription x)) = None"
      by (simp add: change_ok_def)
  next
    fix x k cs assume "sc = TC_ReceiveTransferRefundCancelRoute x" and l: "smap_load (tn_ChannelsMap tn) k = Some cs"
    with assms(5) g [OF _ l] show "GetLock (cs_PartnerState cs) (lk_SecretHash (ls_Lock (rrc_Transfer x))) = None"
      by (simp add: change_ok_def)
  qed
  from storeTokenNetwork_safe [OF assms(3) tn_safe_steps [OF s this assms(4)]] show ?thesis .
qed

lemma mediator_dispatch_safe:
  assumes "MdStateTransition e order st sc (tn_ChannelsMap tn) n ids = Some (chans, res)"
    and "GetTokenNetworkByIdentifier e chain t = Some tn" and "chain_safe e N chain" and "2 * N < 2 ^ 64"
    and "change_ok e N chain (ND_Task sc)"
  shows "chain_safe e N (storeTokenNetwork e t (tn\<lparr>tn_ChannelsMap := chans\<rparr>) chain)"
proof -
  note g = GetTokenNetwork_channels [OF assms(2)] and s = GetTokenNetwork_safe [OF assms(2,3)]
  from s have c: "chans_safe e N (tn_ChannelsMap tn)" by (simp add: tn_safe_def)
  have "chans_steps e N (tn_ChannelsMap tn) chans"
  proof (rule MdStateTransition_steps [OF assms(1) c assms(4)])
    fix x k cs assume "sc = TC_ActionInitMediator x" and l: "smap_load (tn_ChannelsMap tn) k = Some cs"
    with assms(5) g [OF _ l] show "GetLock (cs_OurState cs) (lk_SecretHash (ls_Lock (aim_FromTransfer x))) = None
       \<and> GetLock (cs_PartnerState cs) (lk_SecretHash (ls_Lock (aim_FromTransfer x))) = None"
      by (simp add: change_ok_def)
  qed
  from storeTokenNetwork_safe [OF assms(3) tn_safe_steps [OF s this assms(4)]] show ?thesis .
qed

lemma target_dispatch_safe:
  assumes "TgStateTransition e ts sc cs n m = Some (cs', it)"
    and "GetTokenNetworkByIdentifier e chain t = Some tn" and "smap_load (tn_ChannelsMap tn) k = Some cs"
    and "chain_safe e N chain" and "2 * N < 2 ^ 64" and "change_ok e N chain (ND_Task sc)"
  shows "chain_safe e N (storeTokenNetwork e t (tn\<lparr>tn_ChannelsMap := smap_store k cs' (tn_ChannelsMap tn)\<rparr>) chain)"
proof -
  have "(channel_step e N)\<^sup>*\<^sup>* cs cs'"
  proof (rule TgStateTransition_steps [OF assms(1)])
    fix x assume "sc = TC_ActionInitTarget x"
    with assms(6) GetTokenNetwork_channels [OF assms(2) _ assms(3)]
    show "GetLock (cs_PartnerState cs) (lk_SecretHash (ls_Lock (ait_Transfer x))) = None" by (simp add: change_ok_def)
  qed
  from tn_safe_steps [OF GetTokenNetwork_safe [OF assms(2,4)] chans_steps_store [OF assms(3) this] assms(5)]
  show ?thesis by (rule storeTokenNetwork_safe [OF assms(4)])
qed

lemma subDispatchToPaymentTask_safe:
  assumes "subDispatchToPaymentTask e r ids chain sc h = Some (chain', evs)"
    and "chain_safe e N chain" and "2 * N < 2 ^ 64" and "change_ok e N chain (ND_Task sc)"
  shows "chain_safe e N chain'"
proof (cases "smap_load (ch_SecretHashesToTask chain) h")
  case None
  with assms(1,2) show ?thesis by (simp add: subDispatchToPaymentTask_def)
next
  case (Some task)
  note d = assms(1) [unfolded subDispatchToPaymentTask_def Some, simplified] and a = assms(2,3,4)
  show ?thesis
  proof (cases task)
    case (InitiatorTask t manager)
    with d a(1) initiator_dispatch_safe [OF _ _ a] show ?thesis
      by (auto simp: dispatchInitiator_def split: option.split_asm ImState.split_asm Option.bind_split_asm)
  next
    case (MediatorTask t ms)
    with d a(1) mediator_dispatch_safe [OF _ _ a] show ?thesis
      by (auto simp: dispatchMediator_def split: option.split_asm sum.split_asm Option.bind_split_asm)
  next
    case (TargetTask t k ts)
    with d a(1) target_dispatch_safe [OF _ _ _ a] show ?thesis
      by (auto simp: dispatchTarget_def split: option.split_asm Option.bind_split_asm)
  qed
qed

lemma subDispatchInitiatorTask_safe:
  assumes "subDispatchInitiatorTask e ids chain sc t h = Some (chain', evs)"
    and "chain_safe e N chain" and "2 * N < 2 ^ 64" and "change_ok e N chain (ND_Task sc)"
  shows "chain_safe e N chain'"
  using assms(1,2) initiator_dispatch_safe [OF _ _ assms(2,3,4)]
  by (auto simp: subDispatchInitiatorTask_def split: Option.bind_split_asm if_splits)

lemma subDispatchMediatorTask_safe:
  assumes "subDispatchMediatorTask e r ids chain sc t h = Some (chain', evs)"
    and "chain_safe e N chain" and "2 * N < 2 ^ 64" and "change_ok e N chain (ND_Task sc)"
  shows "chain_safe e N chain'"
  using assms(1,2) mediator_dispatch_safe [OF _ _ assms(2,3,4)]
  by (auto simp: subDispatchMediatorTask_def case_prod_beta split: Option.bind_split_asm if_splits sum.split_asm)

lemma subDispatchTargetTask_safe:
  assumes "subDispatchTargetTask e ids chain sc t k h = Some (chain', evs)"
    and "chain_safe e N chain" and "2 * N < 2 ^ 64" and "change_ok e N chain (ND_Task sc)"
  shows "chain_safe e N chain'"
  using assms(1,2) target_dispatch_safe [OF _ _ _ assms(2,3,4)]
  by (auto simp: subDispatchTargetTask_def case_prod_beta Let_def
      split: Option.bind_split_asm if_splits option.split_asm)

section \<open>Transitions of the node are safe\<close>

lemma loop_networks_safe:
  assumes "rangeLoop body ts pn = Some (pn', evs)" and "net_safe e N pn"
    and "\<And>t pn pn1 ev. net_safe e N pn \<Longrightarrow> body t pn = Some (pn1, ev) \<Longrightarrow> net_safe e N pn1"
  shows "net_safe e N pn'"
  using rangeLoop_inv [OF assms(1), of "net_safe e N"] assms(2,3) by blast

lemma loop_chain_safe:
  assumes "rangeLoop body ps chain = Some (chain', evs)" and "chain_safe e N chain"
    and "\<And>p c c1 ev. chain_safe e N c \<Longrightarrow> body p c = Some (c1, ev) \<Longrightarrow> chain_safe e N c1"
  shows "chain_safe e N chain'"
  using rangeLoop_inv [OF assms(1), of "chain_safe e N"] assms(2,3) by blast

lemma blockToNetwork_safe:
  assumes "blockToNetwork e r (Block h) n m t pn = Some (pn', evs)" and "net_safe e N pn" and "2 * N < 2 ^ 64"
  shows "net_safe e N pn'"
proof (cases "smap_load (pn_TokenIdentifiersToTokenNetworks pn) t")
  case None
  with assms(1,2) show ?thesis by (simp add: blockToNetwork_def)
next
  case (Some tn)
  with assms(1) obtain tn' where l: "rangeLoop (channelInPlace e (Block h) n m) (rg_Channels r (map fst (tn_ChannelsMap tn))) tn
      = Some (tn', evs)" and pn': "pn' = pn\<lparr>pn_TokenIdentifiersToTokenNetworks :=
      smap_store t tn' (pn_TokenIdentifiersToTokenNetworks pn)\<rparr>"
    by (auto simp: blockToNetwork_def split: Option.bind_split_asm)
  have "tn_safe e N tn" using assms(2) Some by (simp add: net_safe_def)
  then have "tn_safe e N tn'"
    using rangeLoop_inv [OF l, of "tn_safe e N"] channelInPlace_safe [OF _ _ assms(3)]
    by (auto simp: chain_ok_def)
  with assms(2) show ?thesis by (simp add: pn' net_safe_store)
qed

lemma blockToPaymentNetwork_safe:
  assumes "blockToPaymentNetwork e r (Block h) n m p chain = Some (chain', evs)" and "chain_safe e N chain"
    and "2 * N < 2 ^ 64"
  shows "chain_safe e N chain'"
proof (cases "smap_load (ch_IdentifiersToPaymentNetworks chain) p")
  case None
  with assms(1,2) show ?thesis by (simp add: blockToPaymentNetwork_def)
next
  case (Some pn)
  with assms(2) have "net_safe e N pn" by (simp add: chain_safe_def)
  with assms Some loop_networks_safe blockToNetwork_safe show ?thesis
    by (fastforce simp: blockToPaymentNetwork_def chain_safe_store split: Option.bind_split_asm)
qed

lemma handleBlockForNode_safe:
  assumes "handleBlockForNode e r ids chain h m = Some (chain', evs)" and "chain_safe e N chain" and "2 * N < 2 ^ 64"
  shows "chain_safe e N chain'"
proof -
  from assms(1) obtain c1 ev1 ev2 where
      1: "subDispatchToAllChannels e r (chain\<lparr>ch_BlockHeight := h\<rparr>) (Block h) h m = Some (c1, ev1)"
    and 2: "subDispatchToAllLockedTransfers e r ids c1 (TC_Block h) = Some (chain', ev2)"
    by (auto simp: handleBlockForNode_def split: Option.bind_split_asm)
  have "chain_safe e N c1"
    using loop_chain_safe [OF 1 [unfolded subDispatchToAllChannels_def]] assms(2,3) blockToPaymentNetwork_safe by simp
  then show ?thesis
    using loop_chain_safe [OF 2 [unfolded subDispatchToAllLockedTransfers_def]] assms(3) subDispatchToPaymentTask_safe
    by (auto simp: change_ok_def)
qed

lemma closeChannel_safe:
  assumes "closeChannel n k tn = Some (tn', evs)" and "tn_safe e N tn"
  shows "tn_safe e N tn'"
proof (cases "smap_load (tn_ChannelsMap tn) k")
  case None
  with assms show ?thesis by (simp add: closeChannel_def)
next
  case (Some cs)
  have "same_sides cs (fst (EventsForClose cs n))" "same_identity cs (fst (EventsForClose cs n))"
    by (simp_all add: same_sides_def same_identity_def EventsForClose_def)
  moreover have "safe e N cs" using assms(2) Some by (simp add: tn_safe_def chans_safe_def)
  ultimately have "tn_safe e N (tn\<lparr>tn_ChannelsMap := smap_store k (fst (EventsForClose cs n)) (tn_ChannelsMap tn)\<rparr>)"
    using tn_safe_store [OF assms(2) Some] same_sides_safe by blast
  with assms(1) Some show ?thesis by (simp add: closeChannel_def case_prod_beta)
qed

lemma leaveNetwork_safe:
  assumes "leaveNetwork r n t pn = Some (pn', evs)" and "net_safe e N pn"
  shows "net_safe e N pn'"
proof (cases "smap_load (pn_TokenIdentifiersToTokenNetworks pn) t")
  case None
  with assms show ?thesis by (simp add: leaveNetwork_def)
next
  case (Some tn)
  then obtain tn' where l: "getChannelsCloseEvents r n tn = Some (tn', evs)"
    and pn': "pn' = pn\<lparr>pn_TokenIdentifiersToTokenNetworks := smap_store t tn' (pn_TokenIdentifiersToTokenNetworks pn)\<rparr>"
    using assms(1) by (auto simp: leaveNetwork_def split: Option.bind_split_asm)
  let ?P = "tn_safe e N"
  have p: "?P t1" if "closePartner r n a t0 = Some (t1, ev)" "?P t0" for a t0 t1 ev
    using rangeLoop_inv [OF that(1) [unfolded closePartner_def], of ?P] that(2) closeChannel_safe by blast
  have "?P tn" using assms(2) Some by (simp add: net_safe_def)
  then have "?P tn'" using rangeLoop_inv [OF l [unfolded getChannelsCloseEvents_def], of ?P] p by blast
  with assms(2) show ?thesis by (simp add: pn' net_safe_store)
qed

lemma handleLeaveAllNetworks_safe:
  assumes "handleLeaveAllNetworks r chain = Some (chain', evs)" and "chain_safe e N chain"
  shows "chain_safe e N chain'"
proof -
  have "chain_safe e N c1" if "leavePaymentNetwork r p c = Some (c1, ev)" "chain_safe e N c" for p c c1 ev
  proof (cases "smap_load (ch_IdentifiersToPaymentNetworks c) p")
    case None
    with that show ?thesis by (simp add: leavePaymentNetwork_def)
  next
    case (Some pn)
    with that(2) have "net_safe e N pn" by (simp add: chain_safe_def)
    from that(1) Some obtain pn' where l: "rangeLoop (leaveNetwork r (ch_BlockHeight c))
        (rg_TokenNetworks r (map fst (pn_TokenIdentifiersToTokenNetworks pn))) pn = Some (pn', ev)"
      and c1: "c1 = c\<lparr>ch_IdentifiersToPaymentNetworks := smap_store p pn' (ch_IdentifiersToPaymentNetworks c)\<rparr>"
      by (auto simp: leavePaymentNetwork_def split: Option.bind_split_asm)
    from loop_networks_safe [OF l \<open>net_safe e N pn\<close> leaveNetwork_safe] that(2) show ?thesis
      by (simp add: c1 chain_safe_store)
  qed
  with loop_chain_safe [OF assms(1) [unfolded handleLeaveAllNetworks_def] assms(2)] show ?thesis by blast
qed

lemma maybeAddTokenNetwork_safe:
  assumes "chain_safe e N chain" and "tn_safe e N tn"
  shows "chain_safe e N (maybeAddTokenNetwork e chain p tn)"
  using assms
  by (auto simp: maybeAddTokenNetwork_def Let_def chain_safe_def net_safe_def NewPaymentNetworkState_def split: option.split)

lemma handleTokenNetworkAction_safe:
  assumes "handleTokenNetworkAction e r chain sc t m = Some (Some chain', evs)" and "chain_safe e N chain"
    and "2 * N < 2 ^ 64" and "change_ok e N chain (ND_Network sc)"
  shows "chain_safe e N chain'"
proof (cases "GetTokenNetworkByIdentifier e chain t")
  case None
  with assms(1,2) show ?thesis by (auto simp: handleTokenNetworkAction_def split: option.split_asm)
next
  case (Some tn)
  with assms(1) obtain key pn st where g: "GetTokenNetworkRegistryByTokenNetworkId r chain t = Some (key, pn)"
    and s: "stateTransitionForNetwork e r (pn_Address pn) tn sc (ch_BlockHeight chain) m = Some (st, evs)"
    by (auto simp: handleTokenNetworkAction_def split: option.split_asm Option.bind_split_asm)
  show ?thesis
  proof (cases st)
    case None
    have "net_safe e N pn" using g assms(2)
      by (auto simp: GetTokenNetworkRegistryByTokenNetworkId_def chain_safe_def Let_def split: Option.bind_split_asm)
    with assms(1,2) g s Some None show ?thesis
      by (auto simp: handleTokenNetworkAction_def net_safe_def intro!: chain_safe_store)
  next
    case st: (Some tn')
    have "tn_safe e N tn'"
    proof (rule stateTransitionForNetwork_safe [OF s [unfolded st] GetTokenNetwork_safe [OF Some assms(2)] assms(3)])
      fix x k cs assume "sc = NC_Channel x" and l: "smap_load (tn_ChannelsMap tn) k = Some cs"
      with assms(4) GetTokenNetwork_channels [OF Some _ l] show "chain_ok N cs x" by (simp add: change_ok_def)
    qed (use assms(4) in \<open>simp add: change_ok_def\<close>)
    with assms(1,2) g s Some st show ?thesis
      by (auto simp: handleTokenNetworkAction_def storeTokenNetwork_safe)
  qed
qed

lemma ChannelClosed_safe:
  assumes "handleContractReceiveChannelClosed e r chain x m = Some (Some chain', evs)" and "chain_safe e N chain"
    and "2 * N < 2 ^ 64"
  shows "chain_safe e N chain'"
proof -
  have "\<exists>q. handleTokenNetworkAction e r (chain\<lparr>ch_QueueIdsToQueues := q\<rparr>)
      (NC_Channel (SC_ContractReceiveChannelClosed x)) (ccl_TokenNetworkId x) m = Some (Some chain', evs)"
  proof (cases "GetChannelStateByTokenNetworkId e chain 0 (ccl_ChannelId x)")
    case None
    then have "handleTokenNetworkAction e r (chain\<lparr>ch_QueueIdsToQueues := ch_QueueIdsToQueues chain\<rparr>)
      (NC_Channel (SC_ContractReceiveChannelClosed x)) (ccl_TokenNetworkId x) m = Some (Some chain', evs)"
      using assms(1) by (simp add: handleContractReceiveChannelClosed_def)
    then show ?thesis ..
  next
    case (Some cs)
    with assms(1) show ?thesis by (auto simp: handleContractReceiveChannelClosed_def Let_def)
  qed
  then obtain q where "handleTokenNetworkAction e r (chain\<lparr>ch_QueueIdsToQueues := q\<rparr>)
      (NC_Channel (SC_ContractReceiveChannelClosed x)) (ccl_TokenNetworkId x) m = Some (Some chain', evs)" ..
  from handleTokenNetworkAction_safe [OF this _ assms(3)] assms(2) show ?thesis
    by (simp add: change_ok_def chain_ok_def every_channel_def)
qed

end
