(* ===== verification/Pylons_Outbox.thy ===== *)
theory Pylons_Outbox
  imports Pylons_NodeRuns
begin

text \<open>
  The outbox of a node: the messages that wait for an acknowledgement and the transactions that are pending.
  Only \<open>updateQueues\<close> and the two acknowledgements change it.
\<close>

section \<open>Queues\<close>

definition queueOf :: "ChainState \<Rightarrow> QueueId \<Rightarrow> Event list" where
  "queueOf chain q = (case smap_load (ch_QueueIdsToQueues chain) q of Some evs \<Rightarrow> evs | None \<Rightarrow> [])"

text \<open>The message is the one the state change names, and goes to its sender.\<close>

definition matches :: "NodeChange \<Rightarrow> Event \<Rightarrow> bool" where
  "matches sc ev =
     (case GetSenderMessageEvent ev of
        None \<Rightarrow> False
      | Some m \<Rightarrow> (sm_Recipient m, sm_MessageId m) = GetSenderAndMessageId sc)"

text \<open>Delivered concerns the queue of its sender for channel 0 only, Processed every queue.\<close>

definition acknowledges :: "NodeChange \<Rightarrow> QueueId \<Rightarrow> Event \<Rightarrow> bool" where
  "acknowledges sc q ev =
     (case sc of
        ND_ReceiveDelivered sender _ \<Rightarrow> q = \<lparr>qi_Recipient = sender, qi_ChannelId = 0\<rparr> \<and> matches sc ev
      | ND_ReceiveProcessed _ _ \<Rightarrow> matches sc ev
      | _ \<Rightarrow> False)"

definition goes_to :: "QueueId \<Rightarrow> Event \<Rightarrow> bool" where
  "goes_to q ev =
     (case GetSenderMessageEvent ev of
        None \<Rightarrow> False
      | Some m \<Rightarrow> q = \<lparr>qi_Recipient = sm_Recipient m, qi_ChannelId = sm_ChannelId m\<rparr>)"

definition same_outbox :: "ChainState \<Rightarrow> ChainState \<Rightarrow> bool" where
  "same_outbox c c' \<longleftrightarrow> ch_QueueIdsToQueues c' = ch_QueueIdsToQueues c \<and> ch_PendingTransactions c' = ch_PendingTransactions c"

lemma same_outbox_refl [simp]: "same_outbox c c"
  by (simp add: same_outbox_def)

lemma same_outbox_trans: "same_outbox a b \<Longrightarrow> same_outbox b c \<Longrightarrow> same_outbox a c"
  by (simp add: same_outbox_def)

lemma same_outbox_fields [simp]:
  "same_outbox c (storeTokenNetwork e t tn c') \<longleftrightarrow> same_outbox c c'"
  "same_outbox c (finishTask h task c') \<longleftrightarrow> same_outbox c c'"
  "same_outbox c (c'\<lparr>ch_IdentifiersToPaymentNetworks := n\<rparr>) \<longleftrightarrow> same_outbox c c'"
  "same_outbox c (c'\<lparr>ch_BlockHeight := h'\<rparr>) \<longleftrightarrow> same_outbox c c'"
  by (auto simp: same_outbox_def storeTokenNetwork_def finishTask_def Let_def split: option.split)

lemma loop_outbox:
  assumes "rangeLoop body ks c = Some (c', evs)" and "\<And>k c c1 ev. body k c = Some (c1, ev) \<Longrightarrow> same_outbox c c1"
  shows "same_outbox c c'"
  by (rule rangeLoop_inv [OF assms(1), of "same_outbox c"]) (auto intro: same_outbox_trans assms(2))

section \<open>Handlers that leave the outbox alone\<close>

lemma subDispatchToPaymentTask_outbox:
  "subDispatchToPaymentTask e r ids c sc h = Some (c', evs) \<Longrightarrow> same_outbox c c'"
  by (auto simp: subDispatchToPaymentTask_def dispatchInitiator_def dispatchMediator_def dispatchTarget_def
      split: option.split_asm Task.split_asm ImState.split_asm sum.split_asm Option.bind_split_asm)

lemma subDispatchInitiatorTask_outbox:
  "subDispatchInitiatorTask e ids c sc t h = Some (c', evs) \<Longrightarrow> same_outbox c c'"
  by (auto simp: subDispatchInitiatorTask_def split: Option.bind_split_asm if_splits)

lemma subDispatchMediatorTask_outbox:
  "subDispatchMediatorTask e r ids c sc t h = Some (c', evs) \<Longrightarrow> same_outbox c c'"
  by (auto simp: subDispatchMediatorTask_def case_prod_beta split: Option.bind_split_asm if_splits sum.split_asm)

lemma subDispatchTargetTask_outbox:
  "subDispatchTargetTask e ids c sc t k h = Some (c', evs) \<Longrightarrow> same_outbox c c'"
  by (auto simp: subDispatchTargetTask_def case_prod_beta Let_def split: Option.bind_split_asm if_splits option.split_asm)

lemma handleBlockForNode_outbox:
  assumes "handleBlockForNode e r ids c h m = Some (c', evs)"
  shows "same_outbox c c'"
proof -
  from assms obtain c1 ev1 ev2 where 1: "subDispatchToAllChannels e r (c\<lparr>ch_BlockHeight := h\<rparr>) (Block h) h m = Some (c1, ev1)"
    and 2: "subDispatchToAllLockedTransfers e r ids c1 (TC_Block h) = Some (c', ev2)"
    by (auto simp: handleBlockForNode_def split: Option.bind_split_asm)
  have "same_outbox (c\<lparr>ch_BlockHeight := h\<rparr>) c1"
    by (rule loop_outbox [OF 1 [unfolded subDispatchToAllChannels_def]])
      (auto simp: blockToPaymentNetwork_def split: option.split_asm Option.bind_split_asm)
  moreover have "same_outbox c1 c'"
    by (rule loop_outbox [OF 2 [unfolded subDispatchToAllLockedTransfers_def]]) (rule subDispatchToPaymentTask_outbox)
  ultimately show ?thesis using same_outbox_trans [of c "c\<lparr>ch_BlockHeight := h\<rparr>" c1] same_outbox_trans [of c c1 c'] by simp
qed

lemma handleLeaveAllNetworks_outbox:
  "handleLeaveAllNetworks r c = Some (c', evs) \<Longrightarrow> same_outbox c c'"
  unfolding handleLeaveAllNetworks_def
  by (erule loop_outbox) (auto simp: leavePaymentNetwork_def split: option.split_asm Option.bind_split_asm)

lemma maybeAddTokenNetwork_outbox: "same_outbox c (maybeAddTokenNetwork e c p tn)"
  by (simp add: maybeAddTokenNetwork_def Let_def split: option.split)

lemma handleTokenNetworkAction_outbox:
  "handleTokenNetworkAction e r c sc t m = Some (Some c', evs) \<Longrightarrow> same_outbox c c'"
  by (auto simp: handleTokenNetworkAction_def split: option.split_asm Option.bind_split_asm prod.split_asm)

lemma handleTaskChange_outbox:
  "handleTaskChange e r ids c sc m = Some (Some (c', evs)) \<Longrightarrow> same_outbox c c'"
  using handleBlockForNode_outbox subDispatchToPaymentTask_outbox subDispatchInitiatorTask_outbox
    subDispatchMediatorTask_outbox subDispatchTargetTask_outbox
  by (cases sc) (auto simp: handleTaskChange_def Let_def)

section \<open>Acknowledgements\<close>

lemma inPlaceDeleteMessage_filter:
  "inPlaceDeleteMessage queue sc = Some queue' \<Longrightarrow> queue' = [ev \<leftarrow> queue. \<not> matches sc ev]"
proof (induction queue arbitrary: queue')
  case (Cons ev queue)
  then show ?case
    by (cases "GetSenderAndMessageId sc")
      (auto simp: matches_def AddressEqual_iff Let_def split: Option.bind_split_asm if_splits)
qed simp

lemma queueOf_cong: "ch_QueueIdsToQueues c' = ch_QueueIdsToQueues c \<Longrightarrow> queueOf c' q = queueOf c q"
  by (simp add: queueOf_def)

lemma inPlaceDeleteMessageQueue_queue:
  assumes "inPlaceDeleteMessageQueue sc k c = Some c'"
  shows "queueOf c' q = (if q = k then [ev \<leftarrow> queueOf c q. \<not> matches sc ev] else queueOf c q)"
    and "ch_PendingTransactions c' = ch_PendingTransactions c"
    and "ch_IdentifiersToPaymentNetworks c' = ch_IdentifiersToPaymentNetworks c"
  using assms
  by (auto simp: inPlaceDeleteMessageQueue_def queueOf_def dest!: inPlaceDeleteMessage_filter
      split: option.split_asm Option.bind_split_asm if_splits)

lemma deleteLoop_queue:
  assumes "rangeLoop (\<lambda>k c. map_option (\<lambda>c'. (c', [])) (inPlaceDeleteMessageQueue sc k c)) ks c = Some (c', evs)"
  shows "queueOf c' q = (if q \<in> set ks then [ev \<leftarrow> queueOf c q. \<not> matches sc ev] else queueOf c q)"
    and "ch_PendingTransactions c' = ch_PendingTransactions c"
    and "ch_IdentifiersToPaymentNetworks c' = ch_IdentifiersToPaymentNetworks c"
  using assms
proof (induction ks arbitrary: c evs)
  case (Cons k ks)
  {
    case 1
    then show ?case using Cons.IH(1) inPlaceDeleteMessageQueue_queue(1)
      by (auto split: Option.bind_split_asm)
  next
    case 2
    then show ?case using Cons.IH(2) inPlaceDeleteMessageQueue_queue(2)
      by (auto split: Option.bind_split_asm)
  next
    case 3
    then show ?case using Cons.IH(3) inPlaceDeleteMessageQueue_queue(3)
      by (auto split: Option.bind_split_asm)
  }
qed simp_all

lemma processed_unchanged:
  assumes "rangeLoop (processedQueue e r sc) ks c = Some (c', evs)"
  shows "c' = c"
proof -
  have "c1 = c0" if "processedQueue e r sc k c0 = Some (c1, ev)" for k c0 c1 ev
  proof (cases "smap_load (ch_QueueIdsToQueues c0) k")
    case (Some queue)
    with that have "rangeLoop (\<lambda>ev c. map_option (\<lambda>events. (c, events)) (processedMessage e r c sc ev)) queue c0 = Some (c1, ev)"
      by (simp add: processedQueue_def)
    from rangeLoop_inv [OF this, of "\<lambda>c. c = c0"] show ?thesis by auto
  qed (use that in \<open>simp add: processedQueue_def\<close>)
  with rangeLoop_inv [OF assms, of "\<lambda>x. x = c"] show ?thesis by blast
qed

lemma handleProcessed_queue:
  assumes "handleProcessed e r c s i = Some (c', evs)" and "ranges_ok r"
  shows "queueOf c' q = [ev \<leftarrow> queueOf c q. \<not> matches (ND_ReceiveProcessed s i) ev]"
    and "ch_PendingTransactions c' = ch_PendingTransactions c"
    and "ch_IdentifiersToPaymentNetworks c' = ch_IdentifiersToPaymentNetworks c"
proof -
  let ?ks = "rg_Queues r (map fst (ch_QueueIdsToQueues c))"
  from assms(1) obtain ev2 where l: "rangeLoop (\<lambda>k c. map_option (\<lambda>c'. (c', []))
      (inPlaceDeleteMessageQueue (ND_ReceiveProcessed s i) k c)) ?ks c = Some (c', ev2)"
    by (auto simp: handleProcessed_def Let_def dest!: processed_unchanged split: Option.bind_split_asm)
  have "queueOf c q = []" if "q \<notin> set ?ks"
    using that assms(2) by (auto simp: ranges_ok_def map_order_set queueOf_def smap_load_def split: option.split dest: map_of_SomeD)
      (metis fst_conv image_eqI map_of_SomeD)
  with deleteLoop_queue(1) [OF l, of q] show "queueOf c' q = [ev \<leftarrow> queueOf c q. \<not> matches (ND_ReceiveProcessed s i) ev]"
    by (auto split: if_splits)
  show "ch_PendingTransactions c' = ch_PendingTransactions c"
    "ch_IdentifiersToPaymentNetworks c' = ch_IdentifiersToPaymentNetworks c"
    using deleteLoop_queue(2,3) [OF l] .
qed

section \<open>New messages and transactions\<close>

lemma queueOf_queueEvent:
  "queueOf (queueEvent c ev) q = queueOf c q @ (if goes_to q ev then [ev] else [])"
  by (auto simp: queueEvent_def queueOf_def goes_to_def Let_def split: option.split)

lemma pending_queueEvent:
  "ch_PendingTransactions (queueEvent c ev) = ch_PendingTransactions c @ (if GetContractSendEvent ev then [ev] else [])"
  by (auto simp: queueEvent_def Let_def split: option.split)

lemma networks_queueEvent:
  "ch_IdentifiersToPaymentNetworks (queueEvent c ev) = ch_IdentifiersToPaymentNetworks c"
  "ch_BlockHeight (queueEvent c ev) = ch_BlockHeight c"
  by (auto simp: queueEvent_def Let_def split: option.split)

lemma foldl_queueEvent:
  "queueOf (foldl queueEvent c evs) q = queueOf c q @ [ev \<leftarrow> evs. goes_to q ev]"
  "ch_PendingTransactions (foldl queueEvent c evs) = ch_PendingTransactions c @ [ev \<leftarrow> evs. GetContractSendEvent ev]"
  "ch_IdentifiersToPaymentNetworks (foldl queueEvent c evs) = ch_IdentifiersToPaymentNetworks c"
  "ch_BlockHeight (foldl queueEvent c evs) = ch_BlockHeight c"
  by (induction evs arbitrary: c) (simp_all add: queueOf_queueEvent pending_queueEvent networks_queueEvent)

lemma updateQueues_outbox:
  "queueOf (updateQueues c evs sc) q = queueOf c q @ [ev \<leftarrow> evs. goes_to q ev]"
  "ch_PendingTransactions (updateQueues c evs sc) =
     [ev \<leftarrow> ch_PendingTransactions c. GetContractReceiveStateChange sc \<longrightarrow> isTransactionPending c ev sc]
     @ [ev \<leftarrow> evs. GetContractSendEvent ev]"
  "ch_IdentifiersToPaymentNetworks (updateQueues c evs sc) = ch_IdentifiersToPaymentNetworks c"
  "ch_BlockHeight (updateQueues c evs sc) = ch_BlockHeight c"
  by (simp_all add: updateQueues_def foldl_queueEvent) (simp_all add: queueOf_def)

section \<open>The transition\<close>

text \<open>
  What a handler leaves in the outbox. The report of a closed channel is the one exception: it deletes the queue of a
  channel that it looks up under the token network with id 0.
\<close>

lemma handler_outbox:
  assumes "handleStateChangeForNode e r ids (Some c) sc m = Some (Some (Some c', evs))" and "ranges_ok r"
    and "\<And>x. sc \<noteq> ND_Network (NC_Channel (SC_ContractReceiveChannelClosed x))"
  shows "queueOf c' q = [ev \<leftarrow> queueOf c q. \<not> acknowledges sc q ev]
    \<and> ch_PendingTransactions c' = ch_PendingTransactions c"
proof -
  have same: ?thesis if "same_outbox c c'" and "\<And>q ev. \<not> acknowledges sc q ev"
    using that queueOf_cong [of c' c q] by (simp add: same_outbox_def)
  note h = assms(1) [unfolded handleStateChangeForNode_def Let_def]
  show ?thesis
  proof (cases sc)
    case (ND_ReceiveDelivered s i)
    with h have "inPlaceDeleteMessageQueue sc \<lparr>qi_Recipient = s, qi_ChannelId = 0\<rparr> c = Some c'"
      by (auto simp: handleDelivered_def)
    with inPlaceDeleteMessageQueue_queue(1,2) [OF this] ND_ReceiveDelivered show ?thesis
      by (simp add: acknowledges_def)
  next
    case (ND_ReceiveProcessed s i)
    with h have "handleProcessed e r c s i = Some (c', evs)" by auto
    with handleProcessed_queue(1,2) [OF this assms(2)] ND_ReceiveProcessed show ?thesis by (simp add: acknowledges_def)
  next
    case (ND_Task x)
    with h have "handleTaskChange e r ids c x m = Some (Some (c', evs))" by (cases x) auto
    from same [OF handleTaskChange_outbox [OF this]] ND_Task show ?thesis by (simp add: acknowledges_def)
  next
    case (ND_Network x)
    have "same_outbox c c'"
    proof (cases "\<exists>h. x = NC_Channel (Block h)")
      case True
      with h ND_Network handleBlockForNode_outbox show ?thesis by auto
    next
      case False
      with h ND_Network assms(3) obtain t where "handleTokenNetworkAction e r c x t m = Some (Some c', evs)"
        by (cases x) (auto split: StateChange.split_asm)
      then show ?thesis by (rule handleTokenNetworkAction_outbox)
    qed
    from same [OF this] ND_Network show ?thesis by (simp add: acknowledges_def)
  next
    case (ND_ActionInitChain x)
    with h same show ?thesis by (simp add: acknowledges_def handleChainInit_def)
  next
    case (ND_ActionNewTokenNetwork p tn)
    with h same maybeAddTokenNetwork_outbox show ?thesis by (auto simp: acknowledges_def)
  next
    case ND_ActionLeaveAllNetworks
    with h same handleLeaveAllNetworks_outbox show ?thesis by (auto simp: acknowledges_def)
  next
    case (ND_ContractReceiveNewPaymentNetwork pn)
    with h same show ?thesis by (auto simp: acknowledges_def handleNewPaymentNetwork_def Let_def)
  next
    case (ND_ContractReceiveNewTokenNetwork p tn)
    with h same maybeAddTokenNetwork_outbox show ?thesis by (auto simp: acknowledges_def)
  qed (use h in simp)
qed

lemma closed_outbox:
  assumes "handleContractReceiveChannelClosed e r c x m = Some (Some c', evs)"
  shows "queueOf c' q = queueOf c q \<or> ccl_ChannelId x = qi_ChannelId q
      \<and> GetChannelStateByTokenNetworkId e c 0 (ccl_ChannelId x) \<noteq> None"
    and "ch_PendingTransactions c' = ch_PendingTransactions c"
proof -
  let ?c1 = "case GetChannelStateByTokenNetworkId e c 0 (ccl_ChannelId x) of
      None \<Rightarrow> c
    | Some cs \<Rightarrow> c\<lparr>ch_QueueIdsToQueues := smap_delete
        \<lparr>qi_Recipient = es_Address (cs_PartnerState cs), qi_ChannelId = ccl_ChannelId x\<rparr> (ch_QueueIdsToQueues c)\<rparr>"
  from assms(1) have s: "same_outbox ?c1 c'"
    unfolding handleContractReceiveChannelClosed_def Let_def by (rule handleTokenNetworkAction_outbox)
  then have "queueOf c' q = queueOf ?c1 q" by (intro queueOf_cong) (simp add: same_outbox_def)
  then show "queueOf c' q = queueOf c q \<or> ccl_ChannelId x = qi_ChannelId q
      \<and> GetChannelStateByTokenNetworkId e c 0 (ccl_ChannelId x) \<noteq> None"
    by (cases q) (auto simp: queueOf_def split: option.split_asm if_splits)
  from s show "ch_PendingTransactions c' = ch_PendingTransactions c"
    by (simp add: same_outbox_def split: option.split)
qed

lemma handler_outbox_closed:
  assumes "handleStateChangeForNode e r ids (Some c) sc m = Some (Some (Some c', evs))" and "ranges_ok r"
    and "\<And>k. GetChannelStateByTokenNetworkId e c 0 k = None"
  shows "queueOf c' q = [ev \<leftarrow> queueOf c q. \<not> acknowledges sc q ev]
    \<and> ch_PendingTransactions c' = ch_PendingTransactions c"
proof (cases "\<exists>x. sc = ND_Network (NC_Channel (SC_ContractReceiveChannelClosed x))")
  case True
  then obtain x where x: "sc = ND_Network (NC_Channel (SC_ContractReceiveChannelClosed x))" by blast
  with assms(1) have "handleContractReceiveChannelClosed e r c x m = Some (Some c', evs)"
    by (simp add: handleStateChangeForNode_def Let_def)
  from closed_outbox(1) [OF this, of q] closed_outbox(2) [OF this] assms(3) x show ?thesis by (simp add: acknowledges_def)
next
  case False
  with handler_outbox [OF assms(1,2)] show ?thesis by blast
qed

text \<open>
  The outbox of a node after a state change, exactly: the messages of each queue that the state change does
  not acknowledge, in their order, and then the new ones for it; the pending transactions that a report of the chain
  neither confirms, nor makes void, nor finds expired, and then the new ones.
\<close>

theorem outbox_exact:
  assumes "StateTransition e r ids (Some c) sc m = Some (Some (c', evs))" and "ranges_ok r"
    and "\<And>k. GetChannelStateByTokenNetworkId e c 0 k = None"
  shows "queueOf c' q = [ev \<leftarrow> queueOf c q. \<not> acknowledges sc q ev] @ [ev \<leftarrow> evs. goes_to q ev]
    \<and> ch_PendingTransactions c' =
        [ev \<leftarrow> ch_PendingTransactions c. GetContractReceiveStateChange sc \<longrightarrow> isTransactionPending c' ev sc]
        @ [ev \<leftarrow> evs. GetContractSendEvent ev]"
proof -
  from assms(1) obtain c1 where h: "handleStateChangeForNode e r ids (Some c) sc m = Some (Some (Some c1, evs))"
    and c': "c' = updateQueues c1 evs sc"
    by (auto simp: StateTransition_def split: Option.bind_split_asm option.split_asm prod.split_asm)
  have "isTransactionPending c' ev sc = isTransactionPending c1 ev sc" for ev
    by (simp add: isTransactionPending_def c' updateQueues_outbox(4))
  with handler_outbox_closed [OF h assms(2,3), of q] show ?thesis
    unfolding c' updateQueues_outbox(1,2) by simp
qed

end
