(* ===== verification/Pylons_Payment.thy ===== *)
theory Pylons_Payment
  imports Pylons_Initiator
begin

text \<open>
  A payment from its initiator to its target over one channel: the tasks of the two nodes and
  their two copies of the channel, with the messages that travel between them.
\<close>

section \<open>Messages\<close>

text \<open>
  What the partner receives of a locked transfer, with the signature of the sender; the message does
  not carry the hash of the lock.
\<close>

definition received_transfer ::
  "(BalanceProofUnsignedState \<Rightarrow> BalanceProofSignedState) \<Rightarrow> SendMessageEvent \<Rightarrow> LockedTransferUnsignedState
     \<Rightarrow> LockedTransferSignedState" where
  "received_transfer sign msg ut =
     \<lparr>ls_MessageId = sm_MessageId msg, ls_PaymentId = lu_PaymentId ut, ls_Token = lu_Token ut,
      ls_BalanceProof = sign (lu_BalanceProof ut), ls_Lock = (lu_Lock ut)\<lparr>lk_LockHash := 0\<rparr>,
      ls_Initiator = lu_Initiator ut, ls_Target = lu_Target ut, ls_EncSecret = lu_EncSecret ut, ls_Mediators = lu_Mediators ut\<rparr>"

lemma received_transfer_simps [simp]:
  "ls_BalanceProof (received_transfer sign msg ut) = sign (lu_BalanceProof ut)"
  "ls_Lock (received_transfer sign msg ut) = (lu_Lock ut)\<lparr>lk_LockHash := 0\<rparr>" "ls_EncSecret (received_transfer sign msg ut) = lu_EncSecret ut"
  "ls_PaymentId (received_transfer sign msg ut) = lu_PaymentId ut"
  "ls_Initiator (received_transfer sign msg ut) = lu_Initiator ut"
  by (simp_all add: received_transfer_def)

section \<open>Steps\<close>

lemma same_view_Register:
  assumes "same_view x y" and "wf_end e y"
  shows "same_view x (RegisterSecretEndState y s h)" "same_view (RegisterSecretEndState y s h) x"
proof -
  have "mset (pending (RegisterSecretEndState y s h)) = mset (pending y)"
    using pending_RegisterSecretEndState [OF assms(2)] .
  then show "same_view x (RegisterSecretEndState y s h)" using assms(1) by (simp add: same_view_def)
  then show "same_view (RegisterSecretEndState y s h) x" by (rule same_view_sym)
qed

text \<open>Which peer has learned a secret does not matter for their agreement.\<close>

lemma mirrored_Register:
  assumes "mirrored e a b"
  shows "mirrored e a (RegisterOffChainSecret b s h)"
proof -
  note m = mirroredD [OF assms]
  show ?thesis
    using assms same_view_Register(1) [OF m(3,8)] same_view_Register(2) [OF m(4,7)]
      wf_end_Register(1) [OF m(7)] wf_end_Register(1) [OF m(8)]
    by (simp add: mirrored_def RegisterOffChainSecret_def wf_channel_def)
qed

lemma target_accepts:
  assumes "mirrored e a b" and "GetStatus b = ChannelStateOpened"
    and "GetLock (cs_OurState a) h = None" and "h \<noteq> 0"
    and "getNumberOfPendingTransfers (cs_OurState a) < MAXIMUM_PENDING_TRANSFERS"
    and "sendLockedTransfer e a i tg n m p x es h md = Some (a', Some (SendLockedTransfer msg ut))"
    and "signs e (es_Address (cs_OurState a)) (lu_BalanceProof ut) bp"
    and "Decrypt e es = Some s" and "GetHash e s = h"
    and "MdIsSafeToWait (ucast (lk_Expiration (lu_Lock ut))) (cs_RevealTimeout b) nb = Inr ()"
    and "0 \<le> sint (cs_RevealTimeout b)"
    and "lk_Expiration (lu_Lock ut) \<le> lk_Expiration (lu_Lock ut) + ucast (ConfirmBlockCount (Config e) * 2)"
  defines "tr \<equiv> received_transfer (\<lambda>_. bp) msg ut"
  obtains b1 where "HandleInitTarget e \<lparr>ait_Route = route, ait_Transfer = tr\<rparr> b nb m2 =
       Some (b1, Some \<lparr>tg_Route = route, tg_Transfer = tr, tg_Secret = Some s, tg_State = ''reveal_secret''\<rparr>,
         [SendProcessed \<lparr>sm_Recipient = bp_Sender bp, sm_ChannelId = ChannelIdGlobalQueue,
            sm_MessageId = sm_MessageId msg\<rparr>, revealTo route m2 s])"
    and "mirrored e a' b1" and "GetStatus b1 = ChannelStateOpened"
    and "cs_PaymentNetworkId b1 = cs_PaymentNetworkId b" "cs_TokenNetworkId b1 = cs_TokenNetworkId b"
proof -
  note l = sendLockedTransfer_lock [OF assms(6)]
  obtain t where v: "IsValidLockedTransfer e tr b (cs_PartnerState b) (cs_OurState b) = Some (Inr t)"
    and mi: "mirrored e a' (storePartnerLock e b (ls_BalanceProof tr) t (ls_Lock tr))"
    using locked_agreement [OF assms(1-6), of tr] assms(7) by (auto simp: tr_def same_lock_def)
  let ?b0 = "storePartnerLock e b (ls_BalanceProof tr) t (ls_Lock tr)" and ?x = "\<lparr>ait_Route = route, ait_Transfer = tr\<rparr>"
  have r: "HandleReceiveLockedTransfer e b (ait_Transfer ?x) = Some (?b0, [SendProcessed
      \<lparr>sm_Recipient = bp_Sender bp, sm_ChannelId = ChannelIdGlobalQueue,
       sm_MessageId = sm_MessageId msg\<rparr>], None)"
    using v by (simp add: HandleReceiveLockedTransfer_def tr_def received_transfer_def)
  note f = HandleReceiveLockedTransfer_frame [OF r]
  have w: "MdIsSafeToWait (ucast (lk_Expiration (ls_Lock (ait_Transfer ?x)))) (cs_RevealTimeout ?b0) nb = Inr ()"
    using assms(10) f(1) by (simp add: tr_def)
  have ex: "\<not> TransferExpired e (ait_Transfer ?x) ?b0 nb"
    by (rule safe_not_expired [OF w]) (use assms(11,12) f(1) in \<open>simp_all add: tr_def\<close>)
  have h: "GetHash e s = lk_SecretHash (ls_Lock (ait_Transfer ?x))" using assms(9) l(1) by (simp add: tr_def)
  have d: "Decrypt e (ls_EncSecret (ait_Transfer ?x)) = Some s" using assms(8) l(5) by (simp add: tr_def)
  show ?thesis
  proof (rule that)
    show "HandleInitTarget e ?x b nb m2 =
       Some (RegisterOffChainSecret ?b0 s (GetHash e s),
         Some \<lparr>tg_Route = route, tg_Transfer = tr, tg_Secret = Some s, tg_State = ''reveal_secret''\<rparr>,
         [SendProcessed \<lparr>sm_Recipient = bp_Sender bp, sm_ChannelId = ChannelIdGlobalQueue,
            sm_MessageId = sm_MessageId msg\<rparr>, revealTo route m2 s])"
      using HandleInitTarget_starts [OF r w d h ex, of m2] by simp
    show "mirrored e a' (RegisterOffChainSecret ?b0 s (GetHash e s))" using mi by (rule mirrored_Register)
  qed (use f assms(2) in \<open>simp_all add: RegisterOffChainSecret_def\<close>)
qed

text \<open>What a started payment has sent, and on which channel.\<close>

lemma ImHandleInit_sent:
  assumes "ImHandleInit e None \<lparr>aii_TransferDescription = td, aii_Routes = routes\<rparr> chans n m =
       Some (chans1, ImTransfer i, [SendLockedTransfer msg ut])"
    and "\<And>k cs. smap_load chans k = Some cs \<Longrightarrow> cs_Identifier cs = k" and "smap_load chans (is_ChannelId i) = Some a"
  obtains a1 x where "sendLockedTransfer e a (td_Initiator td) (td_Target td) (td_Amount td) m (td_PaymentId td) x
        (td_EncSecret td) (td_SecretHash td) [] = Some (a1, Some (SendLockedTransfer msg ut))"
    and "chans1 = smap_store (is_ChannelId i) a1 chans" and "GetStatus a = ChannelStateOpened"
    and "getNumberOfPendingTransfers (cs_OurState a) < MAXIMUM_PENDING_TRANSFERS"
    and "is_TransferDescription i = td"
proof -
  have "InitTryNewRoute e None chans routes td n True m = Some (chans1, Some i, [SendLockedTransfer msg ut])"
    using assms(1) by (auto simp: ImHandleInit_def split: Option.bind_split_asm option.split_asm)
  then show ?thesis
  proof (cases rule: InitTryNewRoute_cases)
    case (sent k cs cs1 msg' ut')
    note u = InitNextChannelFromRoutes_usable [OF sent(1)]
    have s: "sendLockedTransfer e cs (td_Initiator td) (td_Target td) (td_Amount td) m (td_PaymentId td)
        (InitGetInitialLockExpiration n (cs_RevealTimeout cs)) (td_EncSecret td) (td_SecretHash td) []
        = Some (cs1, Some (SendLockedTransfer msg ut))"
      using sent(3,6) by (simp add: InitSendLockedTransfer_def)
    have "cs_Identifier cs1 = cs_Identifier cs" by (subst sendLockedTransfer_lock(3) [OF s]) simp
    then have k: "is_ChannelId i = k" using assms(2) [OF u(1)] sent(5) by simp
    then have a: "cs = a" using u(1) assms(3) by simp
    show ?thesis
    proof (rule that)
      show "sendLockedTransfer e a (td_Initiator td) (td_Target td) (td_Amount td) m (td_PaymentId td)
        (InitGetInitialLockExpiration n (cs_RevealTimeout a)) (td_EncSecret td) (td_SecretHash td) []
        = Some (cs1, Some (SendLockedTransfer msg ut))" using s a by simp
    qed (use u(2,4) a k sent(4,5) in \<open>simp_all add: MaximumPendingTransfers_def MAXIMUM_PENDING_TRANSFERS_def\<close>)
  qed simp_all
qed

text \<open>The unlock of a lock that both peers hold.\<close>

lemma unlock_completes:
  assumes "mirrored e a b" and "GetStatus b = ChannelStateOpened" and "GetLock (cs_OurState a) (GetHash e s) = Some l"
  obtains a2 msg2 u where "SendUnlock e a m p s (GetHash e s) =
        Some (a2, Some (SendBalanceProof msg2 p (cs_TokenAddress a) s 0 u))" and "sm_MessageId msg2 = m"
    and "\<forall>x. rul_Secret x = s \<and> signs e (es_Address (cs_OurState a)) u (rul_BalanceProof x) \<longrightarrow>
       (\<exists>t. IsValidUnlock e x b (cs_PartnerState b) = Some (cs_PartnerState b, Inr t)
         \<and> mirrored e a2 (b\<lparr>cs_PartnerState := DelLock ((cs_PartnerState b)\<lparr>es_BalanceProof := Some (rul_BalanceProof x),
           es_MerkleTree := Some t\<rparr>) (GetHash e s)\<rparr>))"
    and "transferred (cs_OurState a2) = transferred (cs_OurState a) + lk_Amount l"
    and "cs_PaymentNetworkId a2 = cs_PaymentNetworkId a" and "cs_TokenNetworkId a2 = cs_TokenNetworkId a"
proof -
  note m = mirroredD [OF assms(1)]
  obtain a2 msg2 u where su: "SendUnlock e a m p s (GetHash e s) =
        Some (a2, Some (SendBalanceProof msg2 p (cs_TokenAddress a) s 0 u))" and i: "sm_MessageId msg2 = m"
    using SendUnlock_eq [OF m(5) assms(3), of m p s] by simp
  have v: "\<exists>t. IsValidUnlock e x b (cs_PartnerState b) = Some (cs_PartnerState b, Inr t)
         \<and> mirrored e a2 (b\<lparr>cs_PartnerState := DelLock ((cs_PartnerState b)\<lparr>es_BalanceProof := Some (rul_BalanceProof x),
           es_MerkleTree := Some t\<rparr>) (GetHash e s)\<rparr>)"
    if "rul_Secret x = s" "signs e (es_Address (cs_OurState a)) u (rul_BalanceProof x)" for x
    using unlock_agreement [OF assms(1,2) su that(2,1)] by blast
  note d = SendUnlock_drops [OF m(5) assms(3) su]
  have tr: "transferred (cs_OurState a2) = transferred (cs_OurState a) + lk_Amount l" using drops_fields(2) [OF d(1)] .
  have "cs_PaymentNetworkId a2 = cs_PaymentNetworkId a" "cs_TokenNetworkId a2 = cs_TokenNetworkId a"
    by (subst d(2), simp)+
  with v that [OF su i _ tr] show ?thesis by simp
qed

section \<open>The whole payment\<close>

text \<open>
  C8. A payment over one channel completes. When the two nodes agree on the channel and the secret of
  the payment is encrypted for the target, the target accepts the locked transfer that the initiator
  sends and reveals the secret; the initiator answers with the unlock and reports the payment as
  sent; the target accepts the unlock and reports the payment as received, with the same amount; both
  tasks have ended, the amount is transferred, and the nodes agree again.
\<close>

theorem payment_completes:
  fixes e :: env and a b :: NettingChannelState
  assumes "mirrored e a b" and "GetStatus b = ChannelStateOpened" and "smap_load chans k = Some a"
    and "\<And>k cs. smap_load chans k = Some cs \<Longrightarrow> cs_Identifier cs = k"
    and "ImHandleInit e None \<lparr>aii_TransferDescription = td, aii_Routes = routes\<rparr> chans n m1 =
       Some (chans1, ImTransfer i, [SendLockedTransfer msg ut])" and "is_ChannelId i = k"
    and "GetLock (cs_OurState a) (td_SecretHash td) = None" and "td_SecretHash td \<noteq> 0"
    and "Decrypt e (td_EncSecret td) = Some s" and "GetHash e s = td_SecretHash td"
    and "signs e (es_Address (cs_OurState a)) (lu_BalanceProof ut) bp"
    and "MdIsSafeToWait (ucast (lk_Expiration (lu_Lock ut))) (cs_RevealTimeout b) nb = Inr ()"
    and "0 \<le> sint (cs_RevealTimeout b)"
    and "lk_Expiration (lu_Lock ut) \<le> lk_Expiration (lu_Lock ut) + ucast (ConfirmBlockCount (Config e) * 2)"
  shows "\<exists>b1 ts ack a2 u msg2 evs.
     TgStateTransition e None (TC_ActionInitTarget
         \<lparr>ait_Route = \<lparr>rt_NodeAddress = es_Address (cs_OurState a), rt_ChannelId = k\<rparr>,
          ait_Transfer = received_transfer (\<lambda>_. bp) msg ut\<rparr>) b nb m2 =
       Some (b1, Some (Some ts, [ack, SendSecretReveal \<lparr>sm_Recipient = es_Address (cs_OurState a), sm_ChannelId = k,
               sm_MessageId = m2\<rparr> s 0]))
   \<and> ImStateTransition e (Some \<lparr>ip_Initiator = Some i, ip_CancelledChannels = []\<rparr>) (TC_ReceiveSecretReveal
         \<lparr>rsr_Secret = s, rsr_Sender = es_Address (cs_OurState b), rsr_MessageId = m2\<rparr>) chans1 n' m3 =
       Some (smap_store k a2 chans1, Some (ImNil, SendBalanceProof msg2 (td_PaymentId td) (cs_TokenAddress a) s 0 u
         # EventPaymentSentSuccess (cs_PaymentNetworkId a) (cs_TokenNetworkId a) (td_PaymentId td) (td_Amount td) (td_Target td)
         # evs))
   \<and> sm_MessageId msg2 = m3 \<and> transferred (cs_OurState a2) = transferred (cs_OurState a) + td_Amount td
   \<and> (\<forall>bp2. signs e (es_Address (cs_OurState a)) u bp2 \<longrightarrow> (\<exists>b2 evs'.
       TgStateTransition e (Some ts) (TC_ReceiveUnlock
         \<lparr>rul_Sender = es_Address (cs_OurState a), rul_MessageId = m3, rul_Secret = s, rul_SecretHash = GetHash e s,
          rul_BalanceProof = bp2\<rparr>) b1 n'' m4 =
         Some (b2, Some (None, evs'))
     \<and> EventPaymentReceivedSuccess (cs_PaymentNetworkId b) (cs_TokenNetworkId b) (td_PaymentId td) (td_Amount td) (lu_Initiator ut)
         \<in> set evs'
     \<and> mirrored e a2 b2))"
proof -
  note m = mirroredD [OF assms(1)]
  have ki: "smap_load chans (is_ChannelId i) = Some a" using assms(3,6) by simp
  obtain a1 x where sl: "sendLockedTransfer e a (td_Initiator td) (td_Target td) (td_Amount td) m1 (td_PaymentId td) x
        (td_EncSecret td) (td_SecretHash td) [] = Some (a1, Some (SendLockedTransfer msg ut))"
    and c1: "chans1 = smap_store (is_ChannelId i) a1 chans" and op: "GetStatus a = ChannelStateOpened"
    and few: "getNumberOfPendingTransfers (cs_OurState a) < MAXIMUM_PENDING_TRANSFERS"
    and td: "is_TransferDescription i = td"
    by (rule ImHandleInit_sent [OF assms(5,4) ki])
  note l = sendLockedTransfer_lock [OF sl]
  let ?route = "\<lparr>rt_NodeAddress = es_Address (cs_OurState a), rt_ChannelId = k\<rparr>"
  obtain b1 where tg: "HandleInitTarget e \<lparr>ait_Route = ?route, ait_Transfer = received_transfer (\<lambda>_. bp) msg ut\<rparr> b nb m2 =
       Some (b1, Some \<lparr>tg_Route = ?route, tg_Transfer = received_transfer (\<lambda>_. bp) msg ut, tg_Secret = Some s,
           tg_State = ''reveal_secret''\<rparr>,
         [SendProcessed \<lparr>sm_Recipient = bp_Sender bp, sm_ChannelId = ChannelIdGlobalQueue,
            sm_MessageId = sm_MessageId msg\<rparr>, revealTo ?route m2 s])"
    and mi: "mirrored e a1 b1" and ob: "GetStatus b1 = ChannelStateOpened"
    and nb: "cs_PaymentNetworkId b1 = cs_PaymentNetworkId b" "cs_TokenNetworkId b1 = cs_TokenNetworkId b"
    by (rule target_accepts [OF assms(1,2,7,8) few sl assms(11,9,10,12,13,14)])
  have a1: "cs_PartnerState a1 = cs_PartnerState a" "GetStatus a1 = ChannelStateOpened"
    "cs_TokenAddress a1 = cs_TokenAddress a" "cs_PaymentNetworkId a1 = cs_PaymentNetworkId a"
    "cs_TokenNetworkId a1 = cs_TokenNetworkId a"
    by (subst l(3), simp add: op)+
  have a1': "es_Address (cs_OurState a1) = es_Address (cs_OurState a)"
    "transferred (cs_OurState a1) = transferred (cs_OurState a)"
    using sendLockedTransfer_fields [OF m(5) sl] by simp_all
  have lk: "GetLock (cs_OurState a1) (GetHash e s) = Some (lu_Lock ut)" using l(2) assms(10) by simp
  obtain a2 msg2 u where su: "SendUnlock e a1 m3 (td_PaymentId td) s (GetHash e s) =
        Some (a2, Some (SendBalanceProof msg2 (td_PaymentId td) (cs_TokenAddress a1) s 0 u))" and i2: "sm_MessageId msg2 = m3"
    and v: "\<forall>x. rul_Secret x = s \<and> signs e (es_Address (cs_OurState a1)) u (rul_BalanceProof x) \<longrightarrow>
       (\<exists>t. IsValidUnlock e x b1 (cs_PartnerState b1) = Some (cs_PartnerState b1, Inr t)
         \<and> mirrored e a2 (b1\<lparr>cs_PartnerState := DelLock ((cs_PartnerState b1)\<lparr>es_BalanceProof := Some (rul_BalanceProof x),
           es_MerkleTree := Some t\<rparr>) (GetHash e s)\<rparr>))"
    and tr2: "transferred (cs_OurState a2) = transferred (cs_OurState a1) + lk_Amount (lu_Lock ut)"
    and n2: "cs_PaymentNetworkId a2 = cs_PaymentNetworkId a1" "cs_TokenNetworkId a2 = cs_TokenNetworkId a1"
    by (rule unlock_completes [where m = m3 and p = "td_PaymentId td", OF mi ob lk])
  have "sha256 e s = td_SecretHash td" using assms(10) by (simp add: GetHash_def)
  then have "ImStateTransition e (Some \<lparr>ip_Initiator = Some i, ip_CancelledChannels = []\<rparr>) (TC_ReceiveSecretReveal
         \<lparr>rsr_Secret = s, rsr_Sender = es_Address (cs_OurState b), rsr_MessageId = m2\<rparr>) chans1 n' m3 =
       Some (smap_store k a2 chans1, Some (ImNil, [SendBalanceProof msg2 (td_PaymentId td) (cs_TokenAddress a) s 0 u,
         EventPaymentSentSuccess (cs_PaymentNetworkId a) (cs_TokenNetworkId a) (td_PaymentId td) (td_Amount td) (td_Target td),
         EventUnlockSuccess (td_PaymentId td) (td_SecretHash td),
         SendProcessed \<lparr>sm_Recipient = es_Address (cs_OurState b), sm_ChannelId = ChannelIdGlobalQueue, sm_MessageId = m2\<rparr>]))"
    using su a1 n2 c1 td assms(6,10) same_viewD(6) [OF m(4)]
    by (simp add: ImStateTransition_def ImHandleOffchainSecretReveal_def InitHandleOffChainSecretReveal_def
        InitEventsForUnlockLock_def ImIterationFromSub_def)
  moreover have lp: "lk_Amount (lu_Lock ut) = td_Amount td" "lu_PaymentId ut = td_PaymentId td" using l(1,4) by simp_all
  moreover have "\<exists>b2 evs'. TgStateTransition e (Some \<lparr>tg_Route = ?route, tg_Transfer = received_transfer (\<lambda>_. bp) msg ut,
         tg_Secret = Some s, tg_State = ''reveal_secret''\<rparr>) (TC_ReceiveUnlock x) b1 n'' m4 = Some (b2, Some (None, evs'))
     \<and> EventPaymentReceivedSuccess (cs_PaymentNetworkId b) (cs_TokenNetworkId b) (td_PaymentId td) (td_Amount td) (lu_Initiator ut)
         \<in> set evs'
     \<and> mirrored e a2 b2" if s: "signs e (es_Address (cs_OurState a)) u bp2"
      and x: "x = \<lparr>rul_Sender = es_Address (cs_OurState a), rul_MessageId = m3, rul_Secret = s, rul_SecretHash = GetHash e s,
          rul_BalanceProof = bp2\<rparr>" for bp2 x
    using v [rule_format, of x] s x nb lp by (auto simp: a1'(1) TgStateTransition_def TgHandleUnlock_def HandleUnlock_def simp del: Del_update)
  ultimately show ?thesis
    using tg tr2 a1'(2) i2 by (fastforce simp: TgStateTransition_def revealTo_def)
qed

text \<open>The second sample peer pays 15 tokens to the first.\<close>

theorem payment_completes_witness:
  "\<exists>chans1 i msg ut b1 ts ack a2 u msg2 b2 evs evs'.
     ImHandleInit sample_env None \<lparr>aii_TransferDescription = sample_description\<lparr>td_Amount := 15\<rparr>,
         aii_Routes = [\<lparr>rt_NodeAddress = 1, rt_ChannelId = 4\<rparr>]\<rparr> [(4, sample2)] 50 1
       = Some (chans1, ImTransfer i, [SendLockedTransfer msg ut])
   \<and> TgStateTransition sample_env None (TC_ActionInitTarget
         \<lparr>ait_Route = \<lparr>rt_NodeAddress = 2, rt_ChannelId = 4\<rparr>,
          ait_Transfer = received_transfer (\<lambda>_. (sample_signed (lu_BalanceProof ut))\<lparr>bp_PublicKey := [0, 0]\<rparr>) msg ut\<rparr>) sample1 50 2 =
       Some (b1, Some (Some ts, [ack, SendSecretReveal \<lparr>sm_Recipient = 2, sm_ChannelId = 4, sm_MessageId = 2\<rparr> [1] 0]))
   \<and> ImStateTransition sample_env (Some \<lparr>ip_Initiator = Some i, ip_CancelledChannels = []\<rparr>) (TC_ReceiveSecretReveal
         \<lparr>rsr_Secret = [1], rsr_Sender = 1, rsr_MessageId = 2\<rparr>) chans1 51 3 =
       Some (smap_store 4 a2 chans1, Some (ImNil, SendBalanceProof msg2 2 9 [1] 0 u # EventPaymentSentSuccess 8 6 2 15 2 # evs))
   \<and> TgStateTransition sample_env (Some ts) (TC_ReceiveUnlock
         \<lparr>rul_Sender = 2, rul_MessageId = 3, rul_Secret = [1], rul_SecretHash = 7,
          rul_BalanceProof = (sample_signed u)\<lparr>bp_PublicKey := [0, 0]\<rparr>\<rparr>) b1 52 4 = Some (b2, Some (None, evs'))
   \<and> mirrored sample_env a2 b2 \<and> transferred (cs_OurState a2) = 15"
proof -
  let ?td = "sample_description\<lparr>td_Amount := 15\<rparr>" and ?routes = "[\<lparr>rt_NodeAddress = 1, rt_ChannelId = 4\<rparr>]"
  let ?sign = "\<lambda>u. (sample_signed u)\<lparr>bp_PublicKey := [0, 0]\<rparr>"
  have d: "15 \<le> GetDistributable sample_side2 sample_side1"
    using GetDistributable_exact [of sample_env sample_side2 sample_side1] by (simp add: word_le_def)
  have n: "InitNextChannelFromRoutes ?routes [(4, sample2)] 15 = Some (Some (4, sample2))"
    using d by (simp add: not_less getNumberOfPendingTransfers_def sample_side2_def MerkleTreeWidth_def
        GetEmptyMerkleTree_def MaximumPendingTransfers_def)
  obtain cs1 msg ut where "InitSendLockedTransfer sample_env ?td sample2 1 50 = Some (cs1, Some (SendLockedTransfer msg ut))"
    and "cs_Identifier cs1 = 4" and ut: "lu_Lock ut = newLock sample_env 15 90 7"
    using d sendLockedTransfer_eq(2) [of sample_env sample2 15]
    by (simp add: InitSendLockedTransfer_def InitGetInitialLockExpiration_def Let_def storeLockedTransfer_def)
      (simp add: sample_channel_def)
  with n obtain chans1 i where h: "ImHandleInit sample_env None \<lparr>aii_TransferDescription = ?td, aii_Routes = ?routes\<rparr>
      [(4, sample2)] 50 1 = Some (chans1, ImTransfer i, [SendLockedTransfer msg ut])" and i: "is_ChannelId i = 4"
    by (simp add: ImHandleInit_def InitTryNewRoute_def)
  have m: "mirrored sample_env sample2 sample1" using sample_mirrored mirrored_sym by blast
  have sg: "\<And>u. signs sample_env (es_Address (cs_OurState sample2)) u (?sign u)"
    by (simp add: signs_def sample_signed_def bp_signed_def signed_by_def) (simp add: fakeSigned_def)
  have rt: "cs_RevealTimeout sample1 = 20" by (simp add: sample_channel_def)
  have w: "MdIsSafeToWait (ucast (lk_Expiration (lu_Lock ut))) (cs_RevealTimeout sample1) 50 = Inr ()"
    unfolding MdIsSafeToWait_iff rt ut by simp
  note pc = payment_completes [OF m _ _ _ h i, of "[1]" "?sign (lu_BalanceProof ut)" 50 2 51 3 52 4]
  have fields: "cs_TokenAddress sample2 = 9" "cs_PaymentNetworkId sample2 = 8" "cs_TokenNetworkId sample2 = 6"
    by (simp_all add: sample_channel_def)
  have dec: "Decrypt sample_env (td_EncSecret ?td) = Some [1]" by (simp add: sample_env_def sample_description_def)
  have hash: "GetHash sample_env [1] = 7" by (simp add: GetHash_def)
  show ?thesis
    using pc [OF _ _ _ _ _ dec _ sg w] h sg by (simp add: GetLock_pending hash fields rt ut) blast
qed

end
