(* ===== verification/Pylons_MediationSafety.thy ===== *)
theory Pylons_MediationSafety
  imports Pylons_Mediation
begin

text \<open>
  Why a mediator does not lose tokens: what it has locked towards the payee is covered by the lock of the
  payer, it pays the payee only while it can claim from the payer, and it forgets no lock it may claim.
\<close>

section \<open>Starting a mediation\<close>

lemma ucast_height: "ucast (ucast (h :: BlockHeight) :: BlockExpiration) = h"
  by transfer simp

lemma mediateTransfer_forwards:
  assumes "mediateTransfer e order st routes k0 chans tr n m = Some (chans', Inr (st', evs))"
    and "SendLockedTransfer msg ut \<in> set evs"
  obtains pair where "forwardTransferPair e tr (MdFilterUsedRoutes order (ms_TransfersPair st) routes) chans n m
       = Some (chans', Inr (Some pair, evs))"
    and "st' = st\<lparr>ms_TransfersPair := ms_TransfersPair st @ [pair]\<rparr>"
proof -
  obtain c f where f: "forwardTransferPair e tr (MdFilterUsedRoutes order (ms_TransfersPair st) routes) chans n m = Some (c, f)"
    using assms(1) by (auto simp: mediateTransfer_def Let_def split: Option.bind_split_asm if_split_asm)
  have b: "backwardTransferPair e k c tr n m = Some (c', Inr (x, evs')) \<Longrightarrow> SendLockedTransfer msg ut \<notin> set evs'" for k c' x evs'
    by (auto simp: backwardTransferPair_def sendRefundTransfer_def RefundFromSendmediated_def Let_def
        split: Option.bind_split_asm if_split_asm sum.split_asm Event.split_asm)
  show ?thesis
    using assms f b that
    by (auto simp: mediateTransfer_def Let_def split: Option.bind_split_asm if_split_asm sum.split_asm option.split_asm)
qed

lemma HandleInitMediator_cases:
  assumes "HandleInitMediator e order x chans n m = Some (chans', Some st, evs)"
  obtains payer cs evs' where "smap_load chans (rt_ChannelId (aim_FromRoute x)) = Some payer"
    and "HandleReceiveLockedTransfer e payer (aim_FromTransfer x) = Some (cs, [SendProcessed
        \<lparr>sm_Recipient = bp_Sender (ls_BalanceProof (aim_FromTransfer x)), sm_ChannelId = ChannelIdGlobalQueue,
         sm_MessageId = ls_MessageId (aim_FromTransfer x)\<rparr>], None)"
    and "mediateTransfer e order \<lparr>ms_SecretHash = lk_SecretHash (ls_Lock (aim_FromTransfer x)), ms_Secret = None,
           ms_TransfersPair = [], ms_WaitingTransfer = None\<rparr> (aim_Routes x) (rt_ChannelId (aim_FromRoute x))
           (smap_store (rt_ChannelId (aim_FromRoute x)) cs chans) (aim_FromTransfer x) n m = Some (chans', Inr (st, evs'))"
    and "set evs = insert (SendProcessed \<lparr>sm_Recipient = bp_Sender (ls_BalanceProof (aim_FromTransfer x)),
           sm_ChannelId = ChannelIdGlobalQueue, sm_MessageId = ls_MessageId (aim_FromTransfer x)\<rparr>) (set evs')"
proof (cases "smap_load chans (rt_ChannelId (aim_FromRoute x))")
  case None
  with assms show ?thesis by (simp add: HandleInitMediator_def)
next
  case (Some payer)
  with assms obtain cs evs0 where h: "HandleReceiveLockedTransfer e payer (aim_FromTransfer x) = Some (cs, evs0, None)"
    by (auto simp: HandleInitMediator_def Let_def split: Option.bind_split_asm if_split_asm)
  note e0 = HandleReceiveLockedTransfer_accepted(2) [OF h]
  from that [OF Some h [unfolded e0]] assms Some h show ?thesis
    by (auto simp: HandleInitMediator_def e0 Let_def split: Option.bind_split_asm sum.split_asm)
qed

lemma storePartnerLock_frame:
  assumes "HandleReceiveLockedTransfer e cs tr = Some (cs', evs, err)"
  shows "cs_Identifier cs' = cs_Identifier cs" "cs_TokenAddress cs' = cs_TokenAddress cs"
  using assms by (auto simp: HandleReceiveLockedTransfer_def storePartnerLock_def Let_def
      split: Option.bind_split_asm sum.split_asm)

lemma sendLockedTransfer_channel:
  assumes "sendLockedTransfer e cs i tg a m p x es h md = Some (cs', Some (SendLockedTransfer msg ut))"
  shows "bu_ChannelId (lu_BalanceProof ut) = cs_Identifier cs"
  using assms by (auto simp: sendLockedTransfer_def createSendLockedTransfer_def Let_def
      split: Option.bind_split_asm sum.split_asm if_split_asm)

text \<open>
  C32. When a mediator accepts a transfer and passes it on, it does so over an open channel of the routes:
  the new lock there has the secret hash and the expiration of the received one and at most its amount, it
  is pending on our side, the received lock is pending on the payer's side of the payer's channel, and the
  task remembers both transfers as one pair.
\<close>

theorem mediator_forwards:
  assumes "HandleInitMediator e order x chans n m = Some (chans', Some st, evs)"
    and "SendLockedTransfer msg ut \<in> set evs" and "map_order order"
    and "\<And>k cs. smap_load chans k = Some cs \<Longrightarrow> cs_Identifier cs = k"
  shows "\<exists>pair payer' payee payee'. ms_TransfersPair st = [pair] \<and> ms_WaitingTransfer st = None \<and> ms_Secret st = None
     \<and> ms_SecretHash st = lk_SecretHash (ls_Lock (aim_FromTransfer x))
     \<and> mp_PayerTransfer pair = aim_FromTransfer x \<and> mp_PayeeTransfer pair = ut
     \<and> lk_SecretHash (lu_Lock ut) = ms_SecretHash st
     \<and> lk_Expiration (lu_Lock ut) = lk_Expiration (ls_Lock (aim_FromTransfer x))
     \<and> lk_Amount (lu_Lock ut) \<le> lk_Amount (ls_Lock (aim_FromTransfer x))
     \<and> payeeChannelId pair \<in> rt_ChannelId ` set (aim_Routes x)
     \<and> smap_load chans (payeeChannelId pair) = Some payee \<and> GetStatus payee = ChannelStateOpened
     \<and> smap_load chans' (payeeChannelId pair) = Some payee' \<and> GetLock (cs_OurState payee') (ms_SecretHash st) = Some (lu_Lock ut)
     \<and> mp_PayeeAddress pair = es_Address (cs_PartnerState payee') \<and> sm_Recipient msg = mp_PayeeAddress pair
     \<and> smap_load chans' (rt_ChannelId (aim_FromRoute x)) = Some payer'
     \<and> (\<exists>l. smap_load (es_LockedLocks (cs_PartnerState payer')) (ms_SecretHash st) = Some l
           \<and> lk_Amount l = lk_Amount (ls_Lock (aim_FromTransfer x))
           \<and> lk_Expiration l = lk_Expiration (ls_Lock (aim_FromTransfer x)))"
proof -
  let ?tr = "aim_FromTransfer x" let ?kp = "rt_ChannelId (aim_FromRoute x)" let ?id = "bp_ChannelId (ls_BalanceProof (aim_FromTransfer x))"
  from assms(1) show ?thesis
  proof (cases rule: HandleInitMediator_cases)
    case (1 payer cs1 evs')
    note fr = HandleReceiveLockedTransfer_frame [OF 1(2)] storePartnerLock_frame [OF 1(2)]
    note acc = HandleReceiveLockedTransfer_accepted(1) [OF 1(2)]
    let ?c1 = "smap_store ?kp cs1 chans"
    have "SendLockedTransfer msg ut \<in> set evs'" using 1(4) assms(2) by simp
    from mediateTransfer_forwards [OF 1(3) this] obtain pair where
      f: "forwardTransferPair e ?tr (MdFilterUsedRoutes order [] (aim_Routes x)) ?c1 n m = Some (chans', Inr (Some pair, evs'))"
      and st: "st = \<lparr>ms_SecretHash = lk_SecretHash (ls_Lock ?tr), ms_Secret = None, ms_TransfersPair = [pair], ms_WaitingTransfer = None\<rparr>"
      by auto
    from f show ?thesis
    proof (cases rule: forwardTransferPair_cases)
      case (sent payer2 k cs cs' ev)
      let ?c2 = "smap_store ?id (fst (GetFeeSchedule payer2)) ?c1"
      obtain msg' ut' where ev: "ev = Some (SendLockedTransfer msg' ut')" and p: "pair = \<lparr>mp_PayeeAddress = es_Address (cs_PartnerState cs'),
          mp_PayeeTransfer = ut', mp_PayeeState = ''payee_pending'', mp_PayerTransfer = ?tr, mp_PayerState = ''payer_pending''\<rparr>"
        and evs': "evs' = [SendLockedTransfer msg' ut']" using sent(7) by auto
      have u: "ut' = ut" "msg' = msg" using evs' \<open>SendLockedTransfer msg ut \<in> set evs'\<close> by simp_all
      note s = sent(5) [unfolded ev u]
      note l = sendLockedTransfer_lock [OF s] and cid = sendLockedTransfer_channel [OF s]
      have pr: "cs_PartnerState cs' = cs_PartnerState cs" by (subst l(3)) simp
      have idc: "cs_Identifier cs = k"
        using sent(1,3) 1(1) fr(7) assms(4) by (auto split: if_split_asm)
      have kk: "payeeChannelId pair = k" by (simp add: payeeChannelId_def p u cid idc)
      obtain cs0 where n: "smap_load ?c1 k = Some cs0" "MdIsChannelUsable cs0 (lk_Amount (ls_Lock ?tr)) (lockTimeoutOf (ls_Lock ?tr) n) = Some True"
        "k \<in> rt_ChannelId ` set (MdFilterUsedRoutes order [] (aim_Routes x))"
        using nextChannelFromRoutes_usable [OF sent(2)] by blast
      have r: "k \<in> rt_ChannelId ` set (aim_Routes x)" using n(3) MdFilterUsedRoutes_unused(1) [OF assms(3)] by blast
      obtain payee where payee: "smap_load chans k = Some payee" "GetStatus payee = ChannelStateOpened"
        using n(1) MdIsChannelUsable_True(1) [OF n(2)] 1(1) fr(3) by (auto split: if_split_asm)
      have "smap_load ?c2 ?kp = Some cs1 \<or> smap_load ?c2 ?kp = Some (fst (GetFeeSchedule cs1))"
        using sent(1) by (auto split: if_split_asm)
      then obtain payer' where py: "smap_load chans' ?kp = Some payer'" "cs_PartnerState payer' = cs_PartnerState cs1"
        using sent(3) pr unfolding sent(6) by (cases "k = ?kp") auto
      have am: "lk_Amount (lu_Lock ut) \<le> lk_Amount (ls_Lock ?tr)"
        using GetAmountWithoutFees_bounds(1) by (simp add: l(1) word_le_def)
      have ex: "lk_Expiration (lu_Lock ut) = lk_Expiration (ls_Lock ?tr)" by (simp add: l(1) ucast_height)
      have h: "lk_SecretHash (lu_Lock ut) = lk_SecretHash (ls_Lock ?tr)" by (simp add: l(1))
      have k': "smap_load chans' k = Some cs'" by (simp add: sent(6))
      have pf: "mp_PayerTransfer pair = ?tr" "mp_PayeeTransfer pair = ut" "mp_PayeeAddress pair = es_Address (cs_PartnerState cs')"
        by (simp_all add: p u)
      show ?thesis using am ex h k' py acc r payee l(2,6) by (simp add: st kk pf pr)
    qed (use \<open>SendLockedTransfer msg ut \<in> set evs'\<close> in simp_all)
  qed
qed

text \<open>A mediation over the one route there is.\<close>

lemma HandleInitMediator_starts:
  assumes "smap_load chans kp = Some payer" and "HandleReceiveLockedTransfer e payer tr = Some (cs1, [ack], None)"
    and "bp_ChannelId (ls_BalanceProof tr) = kp" and "es_Address (cs_PartnerState payer) = bp_Sender (ls_BalanceProof tr)"
    and "smap_load chans k = Some cs" and "k \<noteq> kp"
    and "MdIsChannelUsable cs (lk_Amount (ls_Lock tr)) (lockTimeoutOf (ls_Lock tr) n) = Some True"
    and "cs_TokenAddress cs = ls_Token tr" and "map_order order"
    and "sendLockedTransfer e cs (ls_Initiator tr) (ls_Target tr) (GetAmountWithoutFees e (lk_Amount (ls_Lock tr)) (snd (GetFeeSchedule cs1)))
       m (ls_PaymentId tr) (ucast (lk_Expiration (ls_Lock tr))) (ls_EncSecret tr) (lk_SecretHash (ls_Lock tr)) (ls_Mediators tr)
       = Some (cs', Some (SendLockedTransfer msg ut))"
  shows "HandleInitMediator e order \<lparr>aim_Routes = [\<lparr>rt_NodeAddress = ra, rt_ChannelId = k\<rparr>],
       aim_FromRoute = \<lparr>rt_NodeAddress = fa, rt_ChannelId = kp\<rparr>, aim_FromTransfer = tr\<rparr> chans n m =
     Some (smap_store k cs' (smap_store kp (fst (GetFeeSchedule cs1)) (smap_store kp cs1 chans)),
       Some \<lparr>ms_SecretHash = lk_SecretHash (ls_Lock tr), ms_Secret = None, ms_TransfersPair =
         [\<lparr>mp_PayeeAddress = es_Address (cs_PartnerState cs'), mp_PayeeTransfer = ut, mp_PayeeState = ''payee_pending'',
           mp_PayerTransfer = tr, mp_PayerState = ''payer_pending''\<rparr>], ms_WaitingTransfer = None\<rparr>,
       [ack, SendLockedTransfer msg ut])"
proof -
  let ?r = "\<lparr>rt_NodeAddress = ra, rt_ChannelId = k\<rparr>" let ?c1 = "smap_store kp cs1 chans"
  have "order [?r] = [?r]" using assms(9) unfolding map_order_def by (metis mset_single_iff_right)
  then have rt: "MdFilterUsedRoutes order [] [?r] = [?r]" by (simp add: MdFilterUsedRoutes_def smap_store_def)
  have "sint (lockTimeoutOf (ls_Lock tr) n) \<le> sint (cs_SettleTimeout cs)" using MdIsChannelUsable_True(4) [OF assms(7)] .
  then have "forwardTransferPair e tr [?r] ?c1 n m = Some (smap_store k cs' (smap_store kp (fst (GetFeeSchedule cs1)) ?c1),
      Inr (Some \<lparr>mp_PayeeAddress = es_Address (cs_PartnerState cs'), mp_PayeeTransfer = ut, mp_PayeeState = ''payee_pending'',
           mp_PayerTransfer = tr, mp_PayerState = ''payer_pending''\<rparr>, [SendLockedTransfer msg ut]))"
    using assms(3,5,6,7,8,10) by (simp add: forwardTransferPair_def case_prod_beta)
  moreover have "es_Address (cs_PartnerState cs1) = bp_Sender (ls_BalanceProof tr)"
    using HandleReceiveLockedTransfer_frame(6) [OF assms(2)] assms(4) by simp
  ultimately show ?thesis using assms(1,2,3) by (simp add: HandleInitMediator_def mediateTransfer_def rt)
qed

section \<open>The task lasts as long as its locks\<close>

lemma clearIfFinalized_None:
  assumes "clearIfFinalized (Some st, evs) chans = (None, evs')" and "pair \<in> set (ms_TransfersPair st)"
  shows "smap_load chans (payerChannelId pair) = Some cs \<Longrightarrow> GetLock (cs_PartnerState cs) (ms_SecretHash st) = None"
    "smap_load chans (payeeChannelId pair) = Some cs \<Longrightarrow> GetLock (cs_OurState cs) (ms_SecretHash st) = None"
  using assms by (auto simp: clearIfFinalized_def IsLockPending_iff Let_def split: if_split_asm option.split_asm)

text \<open>
  A mediator forgets no lock: as long as the lock of a pair is pending in the payer's or in the payee's
  channel the task goes on, with the same transfers, whatever happens.
\<close>

theorem mediator_task_lasts:
  assumes "MdStateTransition e order (Some st) sc chans n ids = Some (chans', Inr (st', evs))"
    and "pair \<in> set (ms_TransfersPair st)"
    and "smap_load chans' (payerChannelId pair) = Some cs \<and> GetLock (cs_PartnerState cs) (ms_SecretHash st) \<noteq> None
       \<or> smap_load chans' (payeeChannelId pair) = Some cs \<and> GetLock (cs_OurState cs) (ms_SecretHash st) \<noteq> None"
  shows "\<exists>s. st' = Some s \<and> ms_SecretHash s = ms_SecretHash st
     \<and> mset (map pair_core (ms_TransfersPair s)) = mset (map pair_core (ms_TransfersPair st))"
  using assms(1)
proof (cases rule: MdStateTransition_cases)
  case (step s s' evs')
  have t: "same_task st s'" using md_handler_core [OF step(2)] step(1) by simp
  then have "set (map pair_core (ms_TransfersPair st)) = set (map pair_core (ms_TransfersPair s'))"
    unfolding same_task_def by (metis mset_eq_setD)
  from set_map_member [OF this assms(2)] obtain p where p: "p \<in> set (ms_TransfersPair s')"
    "payerChannelId p = payerChannelId pair" "payeeChannelId p = payeeChannelId pair"
    using pair_core_ids by blast
  have "fst (clearIfFinalized (Some s', evs') chans') \<noteq> None"
    using clearIfFinalized_None [OF _ p(1)] assms(3) t p(2,3) unfolding same_task_def
    by (metis prod.collapse)
  then have "st' = Some s'"
    using step(3) by (auto simp: clearIfFinalized_def Let_def split: if_split_asm option.split_asm)
  with t show ?thesis by (simp add: same_task_def)
qed simp_all

section \<open>Messages that give something away\<close>

text \<open>All but balance proofs and revealed secrets.\<close>

definition quiet :: "Event \<Rightarrow> bool" where
  "quiet ev = (case ev of SendBalanceProof _ _ _ _ _ _ \<Rightarrow> False | SendSecretReveal _ _ _ \<Rightarrow> False | _ \<Rightarrow> True)"

lemma pairLoop_event:
  assumes "\<And>i c p c' p' evs. body i c p = Some (c', p', evs) \<Longrightarrow> R c c'"
    and "\<And>c. R c c" and "\<And>a b c. R a b \<Longrightarrow> R b c \<Longrightarrow> R a c"
  shows "pairLoop body pairs chans = Some (chans', pairs', evs) \<Longrightarrow> R chans chans' \<and>
    (\<forall>ev \<in> set evs. \<exists>i c p c' p' evs1. p \<in> set pairs \<and> body i c p = Some (c', p', evs1) \<and> ev \<in> set evs1 \<and> R chans c \<and> R c' chans')"
proof (induction pairs arbitrary: chans chans' pairs' evs)
  case (Cons p pairs)
  from Cons.prems obtain c p1 evs1 pairs2 evs2 where b: "body (length pairs) chans p = Some (c, p1, evs1)"
    and l: "pairLoop body pairs c = Some (chans', pairs2, evs2)" and e: "evs = evs1 @ evs2"
    by (auto split: Option.bind_split_asm)
  note r = assms(1) [OF b] and ih = Cons.IH [OF l]
  have "\<exists>i c p' c' p'' evs1. p' \<in> set (p # pairs) \<and> body i c p' = Some (c', p'', evs1) \<and> ev \<in> set evs1 \<and> R chans c \<and> R c' chans'"
    if "ev \<in> set evs" for ev
  proof (cases "ev \<in> set evs1")
    case True
    with b assms(2) ih show ?thesis by (meson list.set_intros(1))
  next
    case False
    with that e ih assms(3) [OF r] show ?thesis by (metis Un_iff list.set_intros(2) set_append)
  qed
  with assms(3) [OF r] ih show ?case by blast
qed (simp add: assms(2))

lemma pairLoop_quiet:
  assumes "\<And>i c p c' p' evs. body i c p = Some (c', p', evs) \<Longrightarrow> \<forall>ev \<in> set evs. quiet ev"
    and "pairLoop body pairs chans = Some (chans', pairs', evs)"
  shows "\<forall>ev \<in> set evs. quiet ev"
  using pairLoop_event [of body "\<lambda>_ _. True", OF _ _ _ assms(2)] assms(1) by blast

lemma pair_bodies_quiet:
  "removeExpiredPair e h n m c p = Some (c', p', evs) \<Longrightarrow> \<forall>ev \<in> set evs. quiet ev"
  "unlockPair e x c p = Some (c', p', evs) \<Longrightarrow> \<forall>ev \<in> set evs. quiet ev"
  by (auto simp: removeExpiredPair_def unlockPair_def EventsForExpiredLock_def HandleUnlock_def quiet_def Let_def
      split: Option.bind_split_asm option.split_asm if_split_asm sum.split_asm)

lemma dangerzoneLoop_quiet: "\<forall>ev \<in> set (snd (dangerzoneLoop pairs sent c n)). quiet ev"
  by (induction pairs arbitrary: sent)
    (auto simp: case_prod_beta quiet_def EventsForOnChainSecretReveal_def Let_def split: option.split)

lemma closedLoop_quiet: "closedLoop pairs sent c s h = Some (pairs', evs) \<Longrightarrow> \<forall>ev \<in> set evs. quiet ev"
  by (induction pairs arbitrary: sent pairs' evs)
    (fastforce simp: quiet_def EventsForOnChainSecretReveal_def Let_def split: Option.bind_split_asm option.split_asm if_split_asm)+

lemma lockExpiredLoop_quiet:
  "lockExpiredLoop e h pairs x chans n = Some (chans', pairs', Some evs) \<Longrightarrow> \<forall>ev \<in> set evs. quiet ev"
  by (induction pairs arbitrary: chans chans' pairs' evs)
    (fastforce simp: handleReceiveLockExpired_def quiet_def Let_def split: Option.bind_split_asm option.split_asm sum.split_asm)+

section \<open>Departures\<close>

text \<open>
  A refund is never handled: the test of the payer channel is the wrong way round, so the state, the
  channels and the events are those of a message that was ignored, or the program panics.
\<close>

theorem mediator_refund_dropped:
  "MdHandleRefundTransfer st x chans = Some (chans', st', evs) \<Longrightarrow> chans' = chans \<and> st' = st \<and> evs = []"
  by (auto simp: MdHandleRefundTransfer_def split: if_split_asm option.split_asm)

text \<open>
  The token in a locked transfer is not validated. A transfer that names another token than the channel of
  the route makes \<open>mediateTransfer\<close> fail, and \<open>HandleInitMediator\<close> then reads the nil iteration.
\<close>

theorem wrong_token_panics:
  assumes "smap_load chans kp = Some payer" and "HandleReceiveLockedTransfer e payer tr = Some (cs1, evs, None)"
    and "bp_ChannelId (ls_BalanceProof tr) = kp"
    and "smap_load chans k = Some cs" and "k \<noteq> kp"
    and "MdIsChannelUsable cs (lk_Amount (ls_Lock tr)) (lockTimeoutOf (ls_Lock tr) n) = Some True"
    and "cs_TokenAddress cs \<noteq> ls_Token tr" and "map_order order"
  shows "HandleInitMediator e order \<lparr>aim_Routes = [\<lparr>rt_NodeAddress = ra, rt_ChannelId = k\<rparr>],
     aim_FromRoute = \<lparr>rt_NodeAddress = fa, rt_ChannelId = kp\<rparr>, aim_FromTransfer = tr\<rparr> chans n m = None"
proof -
  let ?r = "\<lparr>rt_NodeAddress = ra, rt_ChannelId = k\<rparr>"
  have "order [?r] = [?r]" using assms(8) unfolding map_order_def by (metis mset_single_iff_right)
  then have rt: "MdFilterUsedRoutes order [] [?r] = [?r]" by (simp add: MdFilterUsedRoutes_def smap_store_def)
  have "\<exists>c err. forwardTransferPair e tr [?r] (smap_store kp cs1 chans) n m = Some (c, Inl err)"
    using assms(3-7) by (simp add: forwardTransferPair_def case_prod_beta Let_def)
  with assms(1,2) show ?thesis by (auto simp: HandleInitMediator_def mediateTransfer_def rt Let_def)
qed

text \<open>
  \<open>SanityCheck\<close> compares the payee of the last pair with the initiator of the payment, and the amounts
  before and after the fee. It fails for every task with one pair whose payee is not the initiator; the
  dispatcher drops its result.
\<close>

theorem sanity_check_rejects:
  "ms_TransfersPair st = [pair] \<Longrightarrow> mp_PayeeAddress pair \<noteq> ls_Initiator (mp_PayerTransfer pair) \<Longrightarrow> \<exists>err. SanityCheck st = Inl err"
  by (auto simp: SanityCheck_def Let_def split: sum.split)

text \<open>A waiting transfer is reported as expired at the first block after it has arrived, whatever its expiration.\<close>

theorem waiting_transfer_expires_at_once:
  "wt_State w \<noteq> ''expired'' \<Longrightarrow>
     \<exists>pairs' w' evs. eventsForExpiredPairs e chans pairs (Some w) n = (pairs', Some w', evs) \<and> wt_State w' = ''expired''
       \<and> EventUnlockClaimFailed (ls_PaymentId (wt_Transfer w)) (lk_SecretHash (ls_Lock (wt_Transfer w))) (Msg ''lock expired'') \<in> set evs"
  by (simp add: eventsForExpiredPairs_def unlockClaimFailed_def Let_def)

end
