(* ===== verification/Pylons_MediationPays.thy ===== *)
theory Pylons_MediationPays
  imports Pylons_MediationSafety
begin

text \<open>
  When a mediator pays the payee and when it reveals the secret to the payer.
\<close>

section \<open>Registering the secret\<close>

text \<open>The lock of the partner with its secret: our node can unlock it, on chain if it has to.\<close>

definition claimable :: "SecretHash \<Rightarrow> HashTimeLockState \<Rightarrow> NettingChannelState \<Rightarrow> bool" where
  "claimable h l cs \<longleftrightarrow> GetLock (cs_PartnerState cs) h = Some l \<and> IsSecretKnown (cs_PartnerState cs) h"

lemma Register_claimable_off:
  assumes "GetLock (cs_PartnerState cs) h = Some l"
  shows "claimable h l (RegisterOffChainSecret cs s h)"
  using assms by (auto simp: claimable_def RegisterOffChainSecret_def RegisterSecretEndState_def IsLockLocked_def
      GetLock_def IsSecretKnown_def Let_def split: option.split_asm)

lemma Register_claimable_on:
  assumes "wf_end e (cs_PartnerState cs)" and "GetLock (cs_PartnerState cs) h = Some l" and "n \<le> lk_Expiration l"
  shows "claimable h l (RegisterOnChainSecret cs s h n True)"
  using assms(2,3) wf_end_disjoint [OF assms(1), of h]
  by (auto simp: claimable_def RegisterOnChainSecret_def RegisterOnChainSecretEndState_def IsLockLocked_def DelLock_loads
      GetLock_def IsSecretKnown_def IsLockPending_def Let_def not_less split: option.split_asm)

text \<open>Each payer's channel is registered at least once.\<close>

lemma funpow_update:
  assumes "\<exists>i. smap_load c k = Some ((f ^^ i) cs) \<and> (b \<longrightarrow> 0 < i)"
  shows "\<exists>i. smap_load (updateChannel f k' c) k = Some ((f ^^ i) cs) \<and> (b \<or> k' = k \<longrightarrow> 0 < i)"
proof -
  obtain i where i: "smap_load c k = Some ((f ^^ i) cs)" "b \<longrightarrow> 0 < i" using assms by blast
  show ?thesis
  proof (cases "k' = k")
    case True
    with i have "smap_load (updateChannel f k' c) k = Some ((f ^^ Suc i) cs)" by (simp add: updateChannel_def)
    then show ?thesis by blast
  next
    case False
    with i show ?thesis by (intro exI [of _ i]) (auto simp: updateChannel_def split: option.split)
  qed
qed

lemma setSecret_funpow:
  assumes "setSecret f st chans s h = (st', chans', evs)" and "smap_load chans k = Some cs"
  shows "\<exists>i. smap_load chans' k = Some ((f ^^ i) cs) \<and> (k \<in> payerChannelId ` set (ms_TransfersPair st) \<longrightarrow> 0 < i)"
proof -
  have fold: "\<exists>i. smap_load (foldl (\<lambda>m pair. updateChannel f (payeeChannelId pair)
      (updateChannel f (payerChannelId pair) m)) c pairs) k = Some ((f ^^ i) cs)
      \<and> (b \<or> k \<in> payerChannelId ` set pairs \<longrightarrow> 0 < i)"
    if "\<exists>i. smap_load c k = Some ((f ^^ i) cs) \<and> (b \<longrightarrow> 0 < i)" for c b pairs
    using that
  proof (induction pairs arbitrary: c b)
    case (Cons p pairs)
    note f = funpow_update [OF funpow_update [OF Cons.prems, of "payerChannelId p"], of "payeeChannelId p"]
    then have "\<exists>i. smap_load (updateChannel f (payeeChannelId p) (updateChannel f (payerChannelId p) c)) k = Some ((f ^^ i) cs)
        \<and> (b \<or> payerChannelId p = k \<longrightarrow> 0 < i)" by blast
    from Cons.IH [OF this] show ?case by (auto simp: insert_iff)
  qed simp
  have "\<exists>i. smap_load chans k = Some ((f ^^ i) cs) \<and> (False \<longrightarrow> 0 < i)"
    using assms(2) by (intro exI [of _ 0]) simp
  note g = fold [OF this, of "ms_TransfersPair st"]
  show ?thesis
  proof (cases "ms_WaitingTransfer st")
    case None
    with assms(1) g show ?thesis by (auto simp: setSecret_def Let_def)
  next
    case (Some w)
    with assms(1) have "chans' = updateChannel f (waitingChannelId w) (foldl (\<lambda>m pair. updateChannel f (payeeChannelId pair)
      (updateChannel f (payerChannelId pair) m)) chans (ms_TransfersPair st))" by (simp add: setSecret_def Let_def)
    with funpow_update [OF g, of "waitingChannelId w"] show ?thesis by auto
  qed
qed

lemma setSecret_None:
  assumes "setSecret f st chans s h = (st', chans', evs)" and "smap_load chans k = None"
  shows "smap_load chans' k = None"
proof -
  have u: "smap_load (updateChannel f k' c) k = None" if "smap_load c k = None" for c k'
    using that by (auto simp: updateChannel_def split: option.split)
  have "smap_load (foldl (\<lambda>m pair. updateChannel f (payeeChannelId pair) (updateChannel f (payerChannelId pair) m)) c pairs) k = None"
    if "smap_load c k = None" for c pairs
    using that by (induction pairs arbitrary: c) (simp_all add: u)
  with assms u show ?thesis by (auto simp: setSecret_def Let_def split: option.split_asm)
qed

lemma claimable_funpow:
  assumes "P cs" and "\<And>c. P c \<Longrightarrow> P (f c)" and "\<And>c. P c \<Longrightarrow> Q (f c)"
  shows "0 < i \<Longrightarrow> Q ((f ^^ i) cs)"
proof -
  have "P ((f ^^ j) cs)" for j by (induction j) (simp_all add: assms)
  then show "0 < i \<Longrightarrow> Q ((f ^^ i) cs)" by (cases i) (simp_all add: assms(3))
qed

section \<open>Paying the payee\<close>

text \<open>Every channel keeps the partner's side and the reveal timeout.\<close>

definition pay_frame :: "Channels \<Rightarrow> Channels \<Rightarrow> bool" where
  "pay_frame c c' \<longleftrightarrow> (\<forall>k. rel_option (\<lambda>cs cs'. cs_PartnerState cs' = cs_PartnerState cs
     \<and> cs_RevealTimeout cs' = cs_RevealTimeout cs) (smap_load c k) (smap_load c' k))"

lemma pay_frame_refl [simp]: "pay_frame c c"
  by (simp add: pay_frame_def option.rel_refl)

lemma pay_frame_trans:
  assumes "pay_frame a b" and "pay_frame b c"
  shows "pay_frame a c"
  unfolding pay_frame_def
proof
  fix k
  let ?R = "\<lambda>cs cs'. cs_PartnerState cs' = cs_PartnerState cs \<and> cs_RevealTimeout cs' = cs_RevealTimeout cs"
  have "rel_option ?R (smap_load a k) (smap_load b k)" "rel_option ?R (smap_load b k) (smap_load c k)"
    using assms by (simp_all add: pay_frame_def)
  then show "rel_option ?R (smap_load a k) (smap_load c k)"
    by (cases "smap_load a k"; cases "smap_load b k"; cases "smap_load c k") auto
qed

lemma pay_frame_load:
  assumes "pay_frame c c'"
  shows "smap_load c' k = Some cs' \<Longrightarrow> \<exists>cs. smap_load c k = Some cs \<and> cs_PartnerState cs = cs_PartnerState cs'
      \<and> cs_RevealTimeout cs = cs_RevealTimeout cs'"
    "smap_load c k = Some cs \<Longrightarrow> \<exists>cs'. smap_load c' k = Some cs' \<and> cs_PartnerState cs' = cs_PartnerState cs"
  using spec [OF assms [unfolded pay_frame_def], of k] by (cases "smap_load c k"; cases "smap_load c' k"; auto)+

lemma SendUnlock_frame:
  "SendUnlock e cs m p s h = Some (cs', ev) \<Longrightarrow> cs_PartnerState cs' = cs_PartnerState cs \<and> cs_RevealTimeout cs' = cs_RevealTimeout cs"
  by (auto simp: SendUnlock_def split: option.split_asm Option.bind_split_asm sum.split_asm)

lemma balanceProofPair_frame:
  assumes "balanceProofPair e n s h m c p = Some (c', p', evs)"
  shows "pay_frame c c'"
proof (cases "c' = c")
  case False
  with assms obtain payee payee' ev where "smap_load c (payeeChannelId p) = Some payee"
    and "SendUnlock e payee m (lu_PaymentId (mp_PayeeTransfer p)) s h = Some (payee', ev)"
    and "c' = smap_store (payeeChannelId p) payee' c"
    by (auto simp: balanceProofPair_def GetPayeeChannel_def Let_def split: Option.bind_split_asm option.split_asm if_split_asm)
  with SendUnlock_frame [OF this(2)] show ?thesis by (simp add: pay_frame_def option.rel_refl)
qed simp

lemma balanceProofPair_pays:
  assumes "balanceProofPair e n s h m c p = Some (c', p', evs)" and "SendBalanceProof msg pid tok s' h' u \<in> set evs"
  shows "s' = s \<and> pid = lu_PaymentId (mp_PayeeTransfer p) \<and> (\<exists>payer. smap_load c (payerChannelId p) = Some payer
     \<and> MdIsSafeToWait (ucast (lk_Expiration (ls_Lock (mp_PayerTransfer p)))) (cs_RevealTimeout payer) n = Inr ())"
  using assms
  by (auto simp: balanceProofPair_def GetPayerChannel_def SendUnlock_def Let_def
      split: Option.bind_split_asm option.split_asm if_split_asm sum.split_asm)

lemma eventsForBalanceProof_pays:
  assumes "eventsForBalanceProof e c pairs n s h ids = Some (c', pairs', evs)" and "SendBalanceProof msg pid tok s' h' u \<in> set evs"
  shows "s' = s \<and> (\<exists>p \<in> set pairs. pid = lu_PaymentId (mp_PayeeTransfer p) \<and> (\<exists>payer payer'. smap_load c (payerChannelId p) = Some payer
     \<and> MdIsSafeToWait (ucast (lk_Expiration (ls_Lock (mp_PayerTransfer p)))) (cs_RevealTimeout payer) n = Inr ()
     \<and> smap_load c' (payerChannelId p) = Some payer' \<and> cs_PartnerState payer' = cs_PartnerState payer))"
proof -
  have "pairLoop (\<lambda>i. balanceProofPair e n s h (ids i)) (rev pairs) c = Some (c', pairs', evs)"
    using assms(1) by (simp add: eventsForBalanceProof_def)
  then have "pay_frame c c' \<and> (\<forall>ev \<in> set evs. \<exists>i ci p ci' p' evs1. p \<in> set (rev pairs)
      \<and> balanceProofPair e n s h (ids i) ci p = Some (ci', p', evs1) \<and> ev \<in> set evs1 \<and> pay_frame c ci \<and> pay_frame ci' c')"
    by (rule pairLoop_event [rotated 3]) (erule balanceProofPair_frame, rule pay_frame_refl, erule (1) pay_frame_trans)
  with assms(2)
  obtain i ci p ci' p' evs1 where p: "p \<in> set (rev pairs)" and b: "balanceProofPair e n s h (ids i) ci p = Some (ci', p', evs1)"
    and ev: "SendBalanceProof msg pid tok s' h' u \<in> set evs1" and f: "pay_frame c ci" "pay_frame c c'"
    by blast
  from balanceProofPair_pays [OF b ev] obtain payer0 where s: "s' = s" "pid = lu_PaymentId (mp_PayeeTransfer p)"
    and l: "smap_load ci (payerChannelId p) = Some payer0"
    and w: "MdIsSafeToWait (ucast (lk_Expiration (ls_Lock (mp_PayerTransfer p)))) (cs_RevealTimeout payer0) n = Inr ()" by blast
  obtain payer where l0: "smap_load c (payerChannelId p) = Some payer" "cs_RevealTimeout payer = cs_RevealTimeout payer0"
    using pay_frame_load(1) [OF f(1) l] by blast
  from pay_frame_load(2) [OF f(2) l0(1)] s w l0 p show ?thesis by auto
qed

lemma Register_timeout:
  "cs_RevealTimeout (((\<lambda>cs. RegisterOffChainSecret cs s h) ^^ i) cs) = cs_RevealTimeout cs"
  "cs_RevealTimeout (((\<lambda>cs. RegisterOnChainSecret cs s h n True) ^^ i) cs) = cs_RevealTimeout cs"
  by (induction i) (simp_all add: RegisterOffChainSecret_def RegisterOnChainSecret_def)

lemma closed_core:
  "eventsForOnChainSecretRevealIfClosed c pairs s h = Some (pairs', evs) \<Longrightarrow> map pair_core pairs' = map pair_core pairs"
  using closedLoop_core by (auto simp: eventsForOnChainSecretRevealIfClosed_def case_prod_beta)

text \<open>The payments of a transition all come from one walk over the pairs, after the secret was registered.\<close>

lemma off_chain_pays:
  assumes "handleOffChainSecretReveal e st x c n ids = Some (c', st', evs)" and "SendBalanceProof msg pid tok s h u \<in> set evs"
  obtains c1 st1 evs1 pairs pairs' evs2 ids' where "sha256 e (rsr_Secret x) = ms_SecretHash st"
    and "setSecret (\<lambda>cs. RegisterOffChainSecret cs (rsr_Secret x) (ms_SecretHash st)) st c (rsr_Secret x) (ms_SecretHash st) = (st1, c1, evs1)"
    and "set (map pair_core pairs) = set (map pair_core (ms_TransfersPair st))"
    and "eventsForBalanceProof e c1 pairs n (rsr_Secret x) (ms_SecretHash st) ids' = Some (c', pairs', evs2)"
    and "SendBalanceProof msg pid tok s h u \<in> set evs2"
proof -
  let ?s = "rsr_Secret x"
  have v: "sha256 e ?s = ms_SecretHash st" and "\<exists>evs'. secretLearned e st c n ?s (sha256 e ?s) (rsr_Sender x) ids = Some (c', st', evs')
      \<and> SendBalanceProof msg pid tok s h u \<in> set evs'"
    using assms
    by (auto simp: handleOffChainSecretReveal_def IsValidSecretReveal_def GetHash_def Let_def
        split: Option.bind_split_asm option.split_asm if_split_asm)
  then obtain evs' where l: "secretLearned e st c n ?s (ms_SecretHash st) (rsr_Sender x) ids = Some (c', st', evs')"
    and ev: "SendBalanceProof msg pid tok s h u \<in> set evs'" by auto
  obtain st1 c1 evs1 where o: "setOffChainSecret st c ?s (ms_SecretHash st) = (st1, c1, evs1)"
    by (cases "setOffChainSecret st c ?s (ms_SecretHash st)")
  note o' = o [unfolded setOffChainSecret_def]
  note st1 = setSecret_core [OF o']
  obtain pairs2 evs2 where cl: "eventsForOnChainSecretRevealIfClosed c1
      (setOffchainRevealState (ms_TransfersPair st) (rsr_Sender x)) ?s (ms_SecretHash st) = Some (pairs2, evs2)"
    using l o st1 by (auto simp: secretLearned_def Let_def split: Option.bind_split_asm prod.split_asm)
  let ?r = "eventsForSecretReveal pairs2 ?s (\<lambda>i. ids (2 * i))"
  obtain pairs4 evs4 where b: "eventsForBalanceProof e c1 (fst ?r) n ?s (ms_SecretHash st) (\<lambda>i. ids (2 * i + 1)) = Some (c', pairs4, evs4)"
    and evs': "evs' = evs1 @ snd ?r @ evs4 @ evs2"
    using l o st1 cl by (auto simp: secretLearned_def Let_def split: Option.bind_split_asm prod.split_asm)
  have "map pair_core pairs2 = map pair_core (ms_TransfersPair st)"
    using closed_core [OF cl] by (auto simp: setOffchainRevealState_def)
  then have core: "set (map pair_core (fst ?r)) = set (map pair_core (ms_TransfersPair st))"
    by (metis eventsForSecretReveal_def secretRevealLoop_core rev_map set_rev)
  have "SendBalanceProof msg pid tok s h u \<notin> set evs1"
    using o' by (auto simp: setSecret_def Let_def split: option.split_asm)
  moreover have "SendBalanceProof msg pid tok s h u \<notin> set (snd (secretRevealLoop ps ?s i))" for ps i
    by (induction ps) (auto simp: Let_def case_prod_beta)
  moreover have "SendBalanceProof msg pid tok s h u \<notin> set evs2"
    using cl closedLoop_quiet by (fastforce simp: eventsForOnChainSecretRevealIfClosed_def case_prod_beta quiet_def)
  ultimately have "SendBalanceProof msg pid tok s h u \<in> set evs4"
    using ev by (auto simp: evs' eventsForSecretReveal_def)
  from that [OF v o' core b this] show ?thesis .
qed

lemma on_chain_pays:
  assumes "handleOnChainSecretReveal e st x c ids = Some (c', st', evs)" and "SendBalanceProof msg pid tok s h u \<in> set evs"
    and "csr_SecretHash x = sha256 e (csr_Secret x)"
  obtains c1 st1 evs1 pairs pairs' evs2 where "sha256 e (csr_Secret x) = ms_SecretHash st"
    and "setSecret (\<lambda>cs. RegisterOnChainSecret cs (csr_Secret x) (ms_SecretHash st) (csr_BlockHeight x) True) st c
           (csr_Secret x) (ms_SecretHash st) = (st1, c1, evs1)"
    and "set (map pair_core pairs) = set (map pair_core (ms_TransfersPair st))"
    and "eventsForBalanceProof e c1 pairs (csr_BlockHeight x) (csr_Secret x) (ms_SecretHash st) ids = Some (c', pairs', evs2)"
    and "SendBalanceProof msg pid tok s h u \<in> set evs2"
proof -
  have v: "sha256 e (csr_Secret x) = ms_SecretHash st"
    using assms(1,2) by (auto simp: handleOnChainSecretReveal_def IsValidSecretReveal_def GetHash_def Let_def split: if_split_asm)
  obtain st1 c1 evs1 where o: "setSecret (\<lambda>cs. RegisterOnChainSecret cs (csr_Secret x) (ms_SecretHash st) (csr_BlockHeight x) True) st c
           (csr_Secret x) (ms_SecretHash st) = (st1, c1, evs1)" by (metis prod_cases3)
  have "SendBalanceProof msg pid tok s h u \<notin> set evs1"
    using o by (auto simp: setSecret_def Let_def split: option.split_asm)
  with assms o setSecret_core [OF o] v that [OF v o refl] show ?thesis
    by (auto simp: handleOnChainSecretReveal_def setOnChainSecret_def Let_def split: Option.bind_split_asm if_split_asm)
qed

text \<open>
  Together: if every round of the registration makes the lock claimable, the mediator pays for a pair
  only while it is safe to wait for the payer, and can claim from the payer afterwards.
\<close>

lemma payment_claimable:
  assumes "setSecret f st c s h = (st1, c1, evs1)"
    and "set (map pair_core pairs) = set (map pair_core (ms_TransfersPair st))"
    and "eventsForBalanceProof e c1 pairs n s h ids = Some (c', pairs', evs2)"
    and "SendBalanceProof msg pid tok s' h' u \<in> set evs2"
    and timeout: "\<And>i cs. cs_RevealTimeout ((f ^^ i) cs) = cs_RevealTimeout cs"
    and claim: "\<And>i k cs l. 0 < i \<Longrightarrow> smap_load c k = Some cs \<Longrightarrow> GetLock (cs_PartnerState cs) h = Some l \<Longrightarrow> n \<le> lk_Expiration l \<Longrightarrow>
       claimable h l ((f ^^ i) cs)"
  shows "s' = s \<and> (\<exists>pair \<in> set (ms_TransfersPair st). \<exists>payer. pid = lu_PaymentId (mp_PayeeTransfer pair)
     \<and> smap_load c (payerChannelId pair) = Some payer
     \<and> MdIsSafeToWait (ucast (lk_Expiration (ls_Lock (mp_PayerTransfer pair)))) (cs_RevealTimeout payer) n = Inr ()
     \<and> (\<forall>l. GetLock (cs_PartnerState payer) h = Some l \<and> lk_Expiration l = lk_Expiration (ls_Lock (mp_PayerTransfer pair)) \<longrightarrow>
          (\<exists>payer'. smap_load c' (payerChannelId pair) = Some payer' \<and> claimable h l payer')))"
proof -
  from eventsForBalanceProof_pays [OF assms(3,4)] obtain p payer1 payer' where s: "s' = s" and p: "p \<in> set pairs"
    and pid: "pid = lu_PaymentId (mp_PayeeTransfer p)" and l1: "smap_load c1 (payerChannelId p) = Some payer1"
    and w: "MdIsSafeToWait (ucast (lk_Expiration (ls_Lock (mp_PayerTransfer p)))) (cs_RevealTimeout payer1) n = Inr ()"
    and l': "smap_load c' (payerChannelId p) = Some payer'" "cs_PartnerState payer' = cs_PartnerState payer1" by blast
  obtain q where q: "q \<in> set (ms_TransfersPair st)" "pair_core q = pair_core p"
    using set_map_member [OF assms(2) p] by blast
  then have f: "payerChannelId q = payerChannelId p" "mp_PayeeTransfer q = mp_PayeeTransfer p" "mp_PayerTransfer q = mp_PayerTransfer p"
    using pair_core_ids [OF q(2)] by (simp_all add: pair_core_def)
  obtain payer where l: "smap_load c (payerChannelId q) = Some payer"
    using setSecret_None [OF assms(1)] l1 f(1) by fastforce
  obtain i where "smap_load c1 (payerChannelId q) = Some ((f ^^ i) payer)" and i0: "0 < i"
    using setSecret_funpow [OF assms(1) l] q(1) by blast
  then have i: "payer1 = (f ^^ i) payer" "0 < i" using l1 f(1) by simp_all
  have "n \<le> lk_Expiration (ls_Lock (mp_PayerTransfer p))"
    using w by (auto simp: MdIsSafeToWait_def ucast_height Let_def not_less split: if_split_asm)
  then have "claimable h x payer1" if "GetLock (cs_PartnerState payer) h = Some x" "lk_Expiration x = lk_Expiration (ls_Lock (mp_PayerTransfer p))" for x
    using claim [OF i(2) l that(1)] that(2) by (simp add: i(1))
  then have "\<forall>x. GetLock (cs_PartnerState payer) h = Some x \<and> lk_Expiration x = lk_Expiration (ls_Lock (mp_PayerTransfer q)) \<longrightarrow>
      (\<exists>payer'. smap_load c' (payerChannelId q) = Some payer' \<and> claimable h x payer')"
    using l' f by (auto simp: claimable_def)
  with s q(1) pid l w timeout [of i payer] f show ?thesis by (intro conjI bexI [of _ q] exI [of _ payer]) (simp_all add: i(1))
qed

text \<open>The state changes after which a mediator pays.\<close>

lemma md_handler_quiet:
  assumes "md_handler e st sc c n ids = Some (c', st', evs)" and "ev \<in> set evs" and "\<not> quiet ev"
  shows "(\<exists>x. sc = TC_ReceiveSecretReveal x) \<or> (\<exists>x. sc = TC_ContractReceiveSecretReveal x)"
proof (rule ccontr)
  assume n: "\<not> ?thesis"
  have "\<forall>ev \<in> set evs. quiet ev"
  proof (cases sc)
    case (TC_Block h)
    have w: "\<forall>ev \<in> set evs'. quiet ev" if "eventsForExpiredPairs e c2 ps w h = (ps', w', evs')" for c2 ps w ps' w' evs'
      using that by (auto simp: eventsForExpiredPairs_def unlockClaimFailed_def quiet_def Let_def split: option.split_asm if_split_asm)
    from assms(1) TC_Block obtain c1 st1 evs1 where r: "eventsToRemoveExpiredLocks e st c h ids = Some (c1, st1, evs1)"
      by (auto simp: md_handler_def MdHandleBlock_def split: Option.bind_split_asm)
    then have q1: "\<forall>ev \<in> set evs1. quiet ev"
      using pairLoop_quiet [OF pair_bodies_quiet(1)]
      by (auto simp: eventsToRemoveExpiredLocks_def split: Option.bind_split_asm)
    obtain ps2 evs2 where d: "eventsForOnChainSecretRevealIfDangerzone c1 (ms_SecretHash st1) (ms_TransfersPair st1) h = (ps2, evs2)"
      by (rule prod.exhaust)
    then have q2: "\<forall>ev \<in> set evs2. quiet ev"
      using dangerzoneLoop_quiet by (metis eventsForOnChainSecretRevealIfDangerzone_def snd_conv)
    obtain ps3 w' evs3 where x: "eventsForExpiredPairs e c1 ps2 (ms_WaitingTransfer st1) h = (ps3, w', evs3)"
      by (rule prod_cases3)
    from assms(1) TC_Block q1 q2 w [OF x] r d x show ?thesis by (auto simp: md_handler_def MdHandleBlock_def)
  next
    case (TC_ReceiveUnlock x)
    with assms(1) pairLoop_quiet [of "\<lambda>_. unlockPair e x", OF pair_bodies_quiet(2)] show ?thesis
      by (auto simp: md_handler_def MdHandleUnlock_def split: Option.bind_split_asm)
  next
    case (TC_ReceiveLockExpired x)
    have "\<forall>ev \<in> set evs'. quiet ev" if "handleReceiveLockExpired e cs x n = Some (r, evs')" for cs r evs'
      using that by (auto simp: handleReceiveLockExpired_def quiet_def split: Option.bind_split_asm sum.split_asm)
    moreover obtain c1 ps1 r1 where l: "lockExpiredLoop e (ms_SecretHash st) (ms_TransfersPair st) x c n = Some (c1, ps1, r1)"
      using assms(1) TC_ReceiveLockExpired by (auto simp: md_handler_def handleLockExpired_def split: Option.bind_split_asm)
    moreover have "r1 = Some evs1 \<Longrightarrow> \<forall>ev \<in> set evs1. quiet ev" for evs1 using l lockExpiredLoop_quiet by blast
    ultimately show ?thesis using assms(1) TC_ReceiveLockExpired
      by (auto simp: md_handler_def handleLockExpired_def Let_def split: Option.bind_split_asm option.split_asm)
  qed (use assms(1) n in \<open>auto simp: md_handler_def MdHandleRefundTransfer_def split: if_split_asm option.split_asm\<close>)
  with assms(2,3) show False by blast
qed


text \<open>
  C25. A mediator pays the payee only for the secret, and only while it can claim from the payer: when it sends
  a balance proof to a payee, the secret in it has the hash of the payment, more blocks than the reveal
  timeout of the payer's channel are left before the payer's lock expires, and afterwards our node knows
  the secret of that lock, which is still pending.
\<close>

theorem mediator_pays_claimable:
  assumes "MdStateTransition e order (Some st) sc chans n ids = Some (chans', Inr (st', evs))"
    and "SendBalanceProof msg pid tok s h u \<in> set evs" and "chans_safe e N chans"
    and "\<And>x. sc = TC_ContractReceiveSecretReveal x \<Longrightarrow> csr_SecretHash x = sha256 e (csr_Secret x)"
  shows "sha256 e s = ms_SecretHash st \<and> (\<exists>pair \<in> set (ms_TransfersPair st). \<exists>payer b. pid = lu_PaymentId (mp_PayeeTransfer pair)
     \<and> smap_load chans (payerChannelId pair) = Some payer
     \<and> (case sc of TC_ContractReceiveSecretReveal x \<Rightarrow> b = csr_BlockHeight x | _ \<Rightarrow> b = n)
     \<and> MdIsSafeToWait (ucast (lk_Expiration (ls_Lock (mp_PayerTransfer pair)))) (cs_RevealTimeout payer) b = Inr ()
     \<and> (\<forall>l. GetLock (cs_PartnerState payer) (ms_SecretHash st) = Some l
            \<and> lk_Expiration l = lk_Expiration (ls_Lock (mp_PayerTransfer pair)) \<longrightarrow>
          (\<exists>payer'. smap_load chans' (payerChannelId pair) = Some payer' \<and> claimable (ms_SecretHash st) l payer')))"
  using assms(1)
proof (cases rule: MdStateTransition_cases)
  case (step s0 s' evs')
  then have h: "md_handler e st sc chans n ids = Some (chans', s', evs')" by simp
  have "evs' = evs" using step(3) by (auto simp: clearIfFinalized_def Let_def split: if_split_asm option.split_asm)
  then have ev: "SendBalanceProof msg pid tok s h u \<in> set evs'" using assms(2) by simp
  have "\<not> quiet (SendBalanceProof msg pid tok s h u)" by (simp add: quiet_def)
  from md_handler_quiet [OF h ev this] show ?thesis
  proof (elim disjE exE)
    fix x assume sc: "sc = TC_ReceiveSecretReveal x"
    let ?f = "\<lambda>cs. RegisterOffChainSecret cs (rsr_Secret x) (ms_SecretHash st)"
    from h sc have "handleOffChainSecretReveal e st x chans n ids = Some (chans', s', evs')" by (simp add: md_handler_def)
    from this ev show ?thesis
    proof (cases rule: off_chain_pays)
      case (1 c1 st1 evs1 pairs pairs' evs2 ids')
      have "claimable (ms_SecretHash st) l ((?f ^^ i) cs)" if "0 < i" "GetLock (cs_PartnerState cs) (ms_SecretHash st) = Some l" for i cs l
        by (rule claimable_funpow [where P = "\<lambda>c :: NettingChannelState. GetLock (cs_PartnerState c) (ms_SecretHash st) = Some l", OF _ _ _ that(1)])
          (use that(2) Register_claimable_off in \<open>auto simp: claimable_def\<close>)
      with payment_claimable [OF 1(2-5) Register_timeout(1)] 1(1) sc show ?thesis by simp
    qed
  next
    fix x assume sc: "sc = TC_ContractReceiveSecretReveal x"
    let ?f = "\<lambda>cs. RegisterOnChainSecret cs (csr_Secret x) (ms_SecretHash st) (csr_BlockHeight x) True"
    from h sc have "handleOnChainSecretReveal e st x chans ids = Some (chans', s', evs')" by (simp add: md_handler_def)
    from this ev assms(4) [OF sc] show ?thesis
    proof (cases rule: on_chain_pays)
      case (1 c1 st1 evs1 pairs pairs' evs2)
      have "claimable (ms_SecretHash st) l ((?f ^^ i) cs)" if "0 < i" "smap_load chans k = Some cs"
        "GetLock (cs_PartnerState cs) (ms_SecretHash st) = Some l" "csr_BlockHeight x \<le> lk_Expiration l" for i k cs l
      proof (rule claimable_funpow [where P = "\<lambda>c :: NettingChannelState. wf_end e (cs_PartnerState c) \<and> GetLock (cs_PartnerState c) (ms_SecretHash st) = Some l",
            OF _ _ _ that(1)])
        show "wf_end e (cs_PartnerState cs) \<and> GetLock (cs_PartnerState cs) (ms_SecretHash st) = Some l"
          using assms(3) that(2,3) safeD(5) [of e N cs] by (simp add: chans_safe_def)
        fix c :: NettingChannelState assume c: "wf_end e (cs_PartnerState c) \<and> GetLock (cs_PartnerState c) (ms_SecretHash st) = Some l"
        then show q: "claimable (ms_SecretHash st) l (?f c)" using Register_claimable_on that(4) by blast
        then show "wf_end e (cs_PartnerState (?f c)) \<and> GetLock (cs_PartnerState (?f c)) (ms_SecretHash st) = Some l"
          using c wf_end_Register(2) by (auto simp: claimable_def RegisterOnChainSecret_def)
      qed
      with payment_claimable [OF 1(2-5) Register_timeout(2)] 1(1) sc show ?thesis by simp
    qed
  qed
qed simp_all

section \<open>Revealing the secret\<close>

lemma clearIfFinalized_result:
  "clearIfFinalized (Some s, evs) c = (None, evs) \<or> clearIfFinalized (Some s, evs) c = (Some s, evs)"
  by (cases "ms_WaitingTransfer s") (auto simp: clearIfFinalized_def Let_def)

lemma reveals_quiet: "\<forall>ev \<in> set evs. quiet ev \<Longrightarrow> reveals evs = []"
  by (auto simp: reveals_def filter_empty_conv quiet_def split: Event.split_asm)

lemma reveals_secretRevealLoop: "length (reveals (snd (secretRevealLoop pairs s ids))) \<le> length pairs"
  by (induction pairs) (auto simp: case_prod_beta Let_def)

lemma reveals_balanceProof:
  assumes "eventsForBalanceProof e c pairs n s h ids = Some (c', pairs', evs)"
  shows "reveals evs = []"
proof -
  have "SendSecretReveal m s' h' \<notin> set evs1" if "balanceProofPair e n s h mid ci p = Some (ci', p', evs1)" for mid ci p ci' p' evs1 m s' h'
    using that by (auto simp: balanceProofPair_def SendUnlock_def Let_def split: Option.bind_split_asm option.split_asm if_split_asm sum.split_asm)
  then have "SendSecretReveal m s' h' \<notin> set evs" for m s' h'
    using pairLoop_event [where R = "\<lambda>_ _. True", OF _ _ _ assms [unfolded eventsForBalanceProof_def]] by blast
  then show ?thesis by (fastforce simp: reveals_def filter_empty_conv split: Event.split_asm)
qed

lemma closed_quiet:
  "eventsForOnChainSecretRevealIfClosed c pairs s h = Some (pairs', evs) \<Longrightarrow> reveals evs = []"
  using closedLoop_quiet reveals_quiet by (auto simp: eventsForOnChainSecretRevealIfClosed_def case_prod_beta)

lemma setSecret_quiet:
  "setSecret f st c s h = (st', c', evs) \<Longrightarrow> st' = st\<lparr>ms_Secret := Some s\<rparr> \<and> reveals evs = []"
  by (auto simp: setSecret_def reveals_def Let_def split: option.split_asm)

lemma secretLearned_reveals:
  assumes "secretLearned e st c n s h payee ids = Some (c', st', evs)"
  shows "length (reveals evs) \<le> length (ms_TransfersPair st)"
proof -
  obtain st1 c1 evs1 where o: "setOffChainSecret st c s h = (st1, c1, evs1)" by (cases "setOffChainSecret st c s h")
  note o' = o [unfolded setOffChainSecret_def]
  note st1 = setSecret_core [OF o']
  obtain pairs2 evs2 where cl: "eventsForOnChainSecretRevealIfClosed c1
      (setOffchainRevealState (ms_TransfersPair st) payee) s h = Some (pairs2, evs2)"
    using assms o st1 by (auto simp: secretLearned_def Let_def split: Option.bind_split_asm prod.split_asm)
  let ?r = "eventsForSecretReveal pairs2 s (\<lambda>i. ids (2 * i))"
  obtain pairs4 evs4 where b: "eventsForBalanceProof e c1 (fst ?r) n s h (\<lambda>i. ids (2 * i + 1)) = Some (c', pairs4, evs4)"
    and evs: "evs = evs1 @ snd ?r @ evs4 @ evs2"
    using assms o st1 cl by (auto simp: secretLearned_def Let_def split: Option.bind_split_asm prod.split_asm)
  have "length pairs2 = length (ms_TransfersPair st)"
    using arg_cong [OF closed_core [OF cl], of length] by (simp add: setOffchainRevealState_def)
  with reveals_secretRevealLoop [of "rev pairs2"] show ?thesis
    by (simp add: evs conjunct2 [OF setSecret_quiet [OF o']] closed_quiet [OF cl] reveals_balanceProof [OF b] eventsForSecretReveal_def)
qed

lemma md_handler_reveals:
  assumes "md_handler e st sc c n ids = Some (c', st', evs)"
  shows "length (reveals evs) \<le> (if ms_Secret st = None then length (ms_TransfersPair st) else 0)"
    "ms_Secret st \<noteq> None \<or> reveals evs \<noteq> [] \<Longrightarrow> ms_Secret st' \<noteq> None"
proof -
  have "length (reveals evs) \<le> (if ms_Secret st = None then length (ms_TransfersPair st) else 0)
      \<and> (ms_Secret st \<noteq> None \<or> reveals evs \<noteq> [] \<longrightarrow> ms_Secret st' \<noteq> None)"
  proof (cases "(\<exists>x. sc = TC_ReceiveSecretReveal x) \<or> (\<exists>x. sc = TC_ContractReceiveSecretReveal x)")
    case False
    have "ms_Secret st' = ms_Secret st"
    proof (cases sc)
      case (TC_Block h)
      with assms MdHandleBlock_core(2) show ?thesis by (auto simp: md_handler_def)
    qed (use assms False in \<open>auto simp: md_handler_def MdHandleRefundTransfer_def MdHandleUnlock_def handleLockExpired_def Let_def
        split: if_split_asm option.split_asm Option.bind_split_asm\<close>)
    moreover have "reveals evs = []" using md_handler_quiet [OF assms] False reveals_quiet by blast
    ultimately show ?thesis by simp
  next
    case True
    then show ?thesis
    proof (elim disjE exE)
      fix x assume "sc = TC_ReceiveSecretReveal x"
      with assms show ?thesis
        by (auto simp: md_handler_def handleOffChainSecretReveal_def Let_def
            split: Option.bind_split_asm option.split_asm if_split_asm
            dest: secretLearned_reveals secretLearned_core(2))
    next
      fix x assume "sc = TC_ContractReceiveSecretReveal x"
      with assms show ?thesis
        by (auto simp: md_handler_def handleOnChainSecretReveal_def setOnChainSecret_def Let_def
            split: Option.bind_split_asm if_split_asm prod.split_asm
            dest!: setSecret_quiet reveals_balanceProof)
    qed
  qed
  then show "length (reveals evs) \<le> (if ms_Secret st = None then length (ms_TransfersPair st) else 0)"
    "ms_Secret st \<noteq> None \<or> reveals evs \<noteq> [] \<Longrightarrow> ms_Secret st' \<noteq> None" by blast+
qed

text \<open>A run of the task: it ends when the state is nil, a state change of another task is an error without effect.\<close>

primrec md_run ::
  "env \<Rightarrow> (RouteState list \<Rightarrow> RouteState list) \<Rightarrow> MediatorTransferState option \<Rightarrow> Channels
     \<Rightarrow> (TaskChange \<times> BlockHeight \<times> (nat \<Rightarrow> MessageID)) list
     \<Rightarrow> (Channels \<times> MediatorTransferState option \<times> Event list) option" where
  "md_run e order st chans [] = Some (chans, st, [])"
| "md_run e order st chans (x # xs) =
     (case st of
        None \<Rightarrow> Some (chans, None, [])
      | Some _ \<Rightarrow>
          do { (chans1, r) \<leftarrow> MdStateTransition e order st (fst x) chans (fst (snd x)) (snd (snd x));
               (case r of
                  Inl _ \<Rightarrow> md_run e order st chans1 xs
                | Inr (st1, events) \<Rightarrow>
                    do { (chans2, st2, events2) \<leftarrow> md_run e order st1 chans1 xs;
                         Some (chans2, st2, events @ events2) }) })"

text \<open>
  Along any run of the task the secret is sent to each payer at most once: there are at most as many
  messages with the secret as pairs, and none once the secret is known.
\<close>

theorem mediator_reveals_once:
  "md_run e order (Some st) chans xs = Some (chans', st', evs) \<Longrightarrow>
     length (reveals evs) \<le> (if ms_Secret st = None then length (ms_TransfersPair st) else 0)"
proof (induction xs arbitrary: st chans evs)
  case (Cons x xs)
  from Cons.prems obtain c1 r where t: "MdStateTransition e order (Some st) (fst x) chans (fst (snd x)) (snd (snd x)) = Some (c1, r)"
    by (auto split: Option.bind_split_asm)
  from t show ?case
  proof (cases rule: MdStateTransition_cases)
    case (step s s' evs1)
    note h = md_handler_reveals [OF step(2)] and core = md_handler_core [OF step(2)]
    have len: "length (ms_TransfersPair s') = length (ms_TransfersPair s)"
      using core by (metis same_task_def length_map size_mset)
    obtain st1 where st1: "clearIfFinalized (Some s', evs1) c1 = (st1, evs1)" "st1 = None \<or> st1 = Some s'"
      using clearIfFinalized_result by metis
    obtain evs2 where e: "md_run e order st1 c1 xs = Some (chans', st', evs2)" "evs = evs1 @ evs2"
      using Cons.prems t step(3) st1(1) by (auto split: Option.bind_split_asm)
    have "length (reveals evs2) \<le> (if ms_Secret s' = None then length (ms_TransfersPair s') else 0)"
    proof (cases st1)
      case None
      with e have "evs2 = []" by (cases xs) auto
      then show ?thesis by simp
    next
      case (Some y)
      with st1(2) e(1) have "md_run e order (Some s') c1 xs = Some (chans', st', evs2)" by simp
      from Cons.IH [OF this] show ?thesis .
    qed
    with h len e(2) step(1) show ?thesis by (cases "reveals evs1 = []"; cases "ms_Secret s'") (auto split: if_split_asm)
  next
    case (unknown err)
    with Cons t show ?thesis by simp
  qed simp
qed simp

section \<open>Registering the secret on chain\<close>

definition registrations :: "Event list \<Rightarrow> Event list" where
  "registrations = filter (\<lambda>ev. case ev of ContractSendSecretReveal _ _ \<Rightarrow> True | _ \<Rightarrow> False)"

lemma registrations_append [simp]: "registrations (a @ b) = registrations a @ registrations b" "registrations [] = []"
  by (simp_all add: registrations_def)

lemma registrations_reveal: "length (registrations (EventsForOnChainSecretReveal cs s x)) \<le> 1"
  by (simp add: EventsForOnChainSecretReveal_def registrations_def Let_def)

lemma dangerzoneLoop_registers:
  "length (registrations (snd (dangerzoneLoop pairs sent c n))) \<le> (if sent then 0 else 1)"
proof (induction pairs arbitrary: sent)
  case (Cons p pairs)
  from Cons [of True] Cons [of sent] registrations_reveal show ?case
    by (auto simp: case_prod_beta Let_def split: option.split)
qed simp

lemma dangerzoneLoop_danger:
  assumes "ContractSendSecretReveal x s \<in> set (snd (dangerzoneLoop pairs sent c n))"
  shows "\<exists>p \<in> set pairs. \<exists>cs. GetPayerChannel c p = Some cs \<and> x = ucast (lk_Expiration (ls_Lock (mp_PayerTransfer p)))
     \<and> MdIsSafeToWait x (cs_RevealTimeout cs) n \<noteq> Inr () \<and> IsSecretKnown (cs_PartnerState cs) (lk_SecretHash (ls_Lock (mp_PayerTransfer p)))
     \<and> s = GetSecret (cs_PartnerState cs) (lk_SecretHash (ls_Lock (mp_PayerTransfer p)))"
  using assms
proof (induction pairs arbitrary: sent)
  case (Cons p pairs)
  show ?case
  proof (cases "ContractSendSecretReveal x s \<in> set (snd (dangerzoneLoop pairs True c n)) \<or> ContractSendSecretReveal x s \<in> set (snd (dangerzoneLoop pairs sent c n))")
    case True
    with Cons.IH show ?thesis by auto
  next
    case False
    with Cons.prems show ?thesis
      by (auto simp: case_prod_beta EventsForOnChainSecretReveal_def Let_def split: option.split_asm if_split_asm)
  qed
qed simp

lemma removeExpiredPair_registers:
  "removeExpiredPair e h n m c p = Some (c', p', evs) \<Longrightarrow> mp_PayerState p' = mp_PayerState p \<and> (\<forall>ev \<in> set evs. \<forall>x s. ev \<noteq> ContractSendSecretReveal x s)"
  by (auto simp: removeExpiredPair_def EventsForExpiredLock_def Let_def
      split: Option.bind_split_asm option.split_asm if_split_asm)

lemma pairLoop_states:
  assumes "\<And>i c p c' p' evs. body i c p = Some (c', p', evs) \<Longrightarrow> mp_PayerState p' = mp_PayerState p"
  shows "pairLoop body pairs chans = Some (chans', pairs', evs) \<Longrightarrow> map mp_PayerState pairs' = map mp_PayerState pairs"
  by (induction pairs arbitrary: chans chans' pairs' evs) (auto split: Option.bind_split_asm, metis assms)

lemma registrations_none: "\<forall>x s. ContractSendSecretReveal x s \<notin> set evs \<Longrightarrow> registrations evs = []"
  by (auto simp: registrations_def filter_empty_conv split: Event.split)

text \<open>The registrations of a block come from one walk over the pairs, whose states no earlier step has changed.\<close>

lemma MdHandleBlock_registers:
  assumes "MdHandleBlock e st b chans ids = Some (chans', st', evs)"
  obtains ps sent where "registrations evs = registrations (snd (dangerzoneLoop ps sent chans' b))"
    and "\<And>x s. ContractSendSecretReveal x s \<in> set evs \<Longrightarrow> ContractSendSecretReveal x s \<in> set (snd (dangerzoneLoop ps sent chans' b))"
    and "map pair_core ps = map pair_core (ms_TransfersPair st)"
    and "\<exists>p \<in> set (ms_TransfersPair st). mp_PayerState p = ''payer_waiting_secret_reveal'' \<Longrightarrow> sent"
proof -
  obtain ps1 evs1 where l: "pairLoop (\<lambda>i. removeExpiredPair e (ms_SecretHash st) b (ids i)) (ms_TransfersPair st) chans = Some (chans', ps1, evs1)"
    using assms by (auto simp: MdHandleBlock_def eventsToRemoveExpiredLocks_def Let_def split: Option.bind_split_asm prod.split_asm)
  define sent where "sent = MdHasSecretRegistrationStarted (List.map_filter (GetPayerChannel chans') ps1) ps1 (ms_SecretHash st)"
  let ?d = "dangerzoneLoop ps1 sent chans' b"
  have d: "eventsForOnChainSecretRevealIfDangerzone chans' (ms_SecretHash st) ps1 b = ?d"
    by (simp add: eventsForOnChainSecretRevealIfDangerzone_def sent_def Let_def)
  obtain ps3 w evs3 where x: "eventsForExpiredPairs e chans' (fst ?d) (ms_WaitingTransfer st) b = (ps3, w, evs3)"
    by (rule prod_cases3)
  have evs: "evs = evs3 @ snd ?d @ evs1"
    using assms l x d by (auto simp: MdHandleBlock_def eventsToRemoveExpiredLocks_def Let_def split: prod.split_asm)
  have q3: "\<forall>x s. ContractSendSecretReveal x s \<notin> set evs3"
    using x by (auto simp: eventsForExpiredPairs_def unlockClaimFailed_def Let_def split: option.split_asm if_split_asm)
  have q1: "\<forall>x s. ContractSendSecretReveal x s \<notin> set evs1"
    using pairLoop_event [where R = "\<lambda>_ _. True", OF _ _ _ l] removeExpiredPair_registers by blast
  have states: "map mp_PayerState (ms_TransfersPair st) = map mp_PayerState ps1"
    using pairLoop_states [OF _ l] removeExpiredPair_registers by (metis (no_types))
  have core: "map pair_core ps1 = map pair_core (ms_TransfersPair st)"
    using l by (rule pairLoop_core [rotated]) (rule pair_bodies_core)
  show ?thesis
  proof (rule that [of ps1 sent])
    show "registrations evs = registrations (snd ?d)" using q1 q3 by (simp add: evs registrations_none)
    show "ContractSendSecretReveal x s \<in> set evs \<Longrightarrow> ContractSendSecretReveal x s \<in> set (snd ?d)" for x s
      using q1 q3 by (auto simp: evs)
    assume "\<exists>p \<in> set (ms_TransfersPair st). mp_PayerState p = ''payer_waiting_secret_reveal''"
    then obtain p where "p \<in> set (ms_TransfersPair st)" and p: "mp_PayerState p = ''payer_waiting_secret_reveal''" by blast
    from set_map_member [OF arg_cong [OF states, of set] this(1)] p show sent
      unfolding sent_def MdHasSecretRegistrationStarted_def Let_def by simp
  qed (rule core)
qed

text \<open>
  In a block the mediator sends at most one transaction that registers the secret, none while one of its
  pairs waits for such a transaction, and only for a payer's lock that has entered the danger zone and
  whose secret is known.
\<close>

theorem mediator_registers_once:
  assumes "MdHandleBlock e st b chans ids = Some (chans', st', evs)"
  shows "length (registrations evs) \<le> 1
     \<and> ((\<exists>p \<in> set (ms_TransfersPair st). mp_PayerState p = ''payer_waiting_secret_reveal'') \<longrightarrow> registrations evs = [])
     \<and> (\<forall>x s. ContractSendSecretReveal x s \<in> set evs \<longrightarrow> (\<exists>p \<in> set (ms_TransfersPair st). \<exists>cs.
          smap_load chans' (payerChannelId p) = Some cs \<and> x = ucast (lk_Expiration (ls_Lock (mp_PayerTransfer p)))
          \<and> MdIsSafeToWait x (cs_RevealTimeout cs) b \<noteq> Inr ()
          \<and> IsSecretKnown (cs_PartnerState cs) (lk_SecretHash (ls_Lock (mp_PayerTransfer p)))
          \<and> s = GetSecret (cs_PartnerState cs) (lk_SecretHash (ls_Lock (mp_PayerTransfer p)))))"
  using assms
proof (cases rule: MdHandleBlock_registers)
  case (1 ps sent)
  have "length (registrations evs) \<le> (if sent then 0 else 1)" using dangerzoneLoop_registers by (simp add: 1(1))
  moreover have "\<exists>p \<in> set (ms_TransfersPair st). \<exists>cs.
          smap_load chans' (payerChannelId p) = Some cs \<and> x = ucast (lk_Expiration (ls_Lock (mp_PayerTransfer p)))
          \<and> MdIsSafeToWait x (cs_RevealTimeout cs) b \<noteq> Inr ()
          \<and> IsSecretKnown (cs_PartnerState cs) (lk_SecretHash (ls_Lock (mp_PayerTransfer p)))
          \<and> s = GetSecret (cs_PartnerState cs) (lk_SecretHash (ls_Lock (mp_PayerTransfer p)))"
    if ev: "ContractSendSecretReveal x s \<in> set evs" for x s
  proof -
    from dangerzoneLoop_danger [OF 1(2) [OF ev]] obtain p cs where p: "p \<in> set ps"
      and c: "GetPayerChannel chans' p = Some cs" "x = ucast (lk_Expiration (ls_Lock (mp_PayerTransfer p)))"
        "MdIsSafeToWait x (cs_RevealTimeout cs) b \<noteq> Inr ()"
        "IsSecretKnown (cs_PartnerState cs) (lk_SecretHash (ls_Lock (mp_PayerTransfer p)))"
        "s = GetSecret (cs_PartnerState cs) (lk_SecretHash (ls_Lock (mp_PayerTransfer p)))" by blast
    from set_map_member [OF arg_cong [OF 1(3), of set] p] obtain q where q: "q \<in> set (ms_TransfersPair st)" "pair_core q = pair_core p" by blast
    with pair_core_ids [OF q(2)] have "payerChannelId q = payerChannelId p" "mp_PayerTransfer q = mp_PayerTransfer p"
      by (simp_all add: pair_core_def)
    with q(1) c show ?thesis by (intro bexI [of _ q] exI [of _ cs]) (simp_all add: GetPayerChannel_def)
  qed
  ultimately show ?thesis using 1(4) by (auto split: if_split_asm)
qed

end
