(* ===== verification/Pylons_MediationSample.thy ===== *)
theory Pylons_MediationSample
  imports Pylons_MediationPays
begin

text \<open>
  A concrete mediation, at which the theorems on the mediator are applied.
\<close>

section \<open>The sample mediator\<close>

text \<open>
  The sample mediator has received the sample transfer over channel 4 and has passed it on over channel 5,
  in full since the fee schedule is empty.
\<close>

definition sample_pair :: MediationPairState where
  "sample_pair = \<lparr>mp_PayeeAddress = 2,
     mp_PayeeTransfer = \<lparr>lu_PaymentId = 2, lu_Token = 9, lu_BalanceProof = newBalanceProof sample_env 2 20 10 7 6 5 1,
       lu_Lock = sample_lock, lu_Initiator = 1, lu_Target = 2, lu_EncSecret = [1], lu_Mediators = []\<rparr>,
     mp_PayeeState = ''payee_pending'', mp_PayerTransfer = sample_transfer, mp_PayerState = ''payer_pending''\<rparr>"

definition sample_mediator :: MediatorTransferState where
  "sample_mediator = \<lparr>ms_SecretHash = 7, ms_Secret = None, ms_TransfersPair = [sample_pair], ms_WaitingTransfer = None\<rparr>"

abbreviation sample_payee :: NettingChannelState where
  "sample_payee \<equiv> sample1\<lparr>cs_Identifier := 5\<rparr>"

abbreviation sample_network :: Channels where
  "sample_network \<equiv> [(4, sample2), (5, sample_payee)]"

lemma sample_pair_simps [simp]:
  "payerChannelId sample_pair = 4" "payeeChannelId sample_pair = 5" "mp_PayeeAddress sample_pair = 2"
  "mp_PayerTransfer sample_pair = sample_transfer" "mp_PayeeState sample_pair = ''payee_pending''"
  "mp_PayerState sample_pair = ''payer_pending''" "lu_PaymentId (mp_PayeeTransfer sample_pair) = 2"
  by (simp_all add: sample_pair_def payerChannelId_def payeeChannelId_def sample_transfer_def sample_proof_def newBalanceProof_def)

lemma sample_mediator_simps [simp]:
  "ms_SecretHash sample_mediator = 7" "ms_Secret sample_mediator = None" "ms_TransfersPair sample_mediator = [sample_pair]"
  "ms_WaitingTransfer sample_mediator = None"
  by (simp_all add: sample_mediator_def)

lemma sample_network_simps [simp]:
  "smap_load sample_network 4 = Some sample2" "smap_load sample_network 5 = Some sample_payee"
  by (simp_all add: smap_load_def)

lemma sample_network_safe [simp]: "chans_safe sample_env 1000 sample_network"
proof -
  have "safe sample_env 1000 sample2" by (simp add: safe_def wf_channel_def solvent_channel_def deposits_ok_def)
  moreover have "safe sample_env 1000 sample_payee" using safe_cong [of sample_payee sample1] by simp
  ultimately show ?thesis by (simp add: chans_safe_def smap_load_def)
qed

abbreviation sample_payee_reveal :: ReceiveSecretReveal where
  "sample_payee_reveal \<equiv> \<lparr>rsr_Secret = [1], rsr_Sender = 2, rsr_MessageId = 5\<rparr>"

lemma sample_mediation:
  "\<exists>chans' st' evs msg u. MdStateTransition sample_env (\<lambda>rs. rs) (Some sample_mediator) (TC_ReceiveSecretReveal sample_payee_reveal)
       sample_network 50 (\<lambda>i. of_nat i) = Some (chans', Inr (st', evs)) \<and> SendBalanceProof msg 2 9 [1] 0 u \<in> set evs
     \<and> smap_load chans' 4 = Some (RegisterOffChainSecret sample2 [1] 7)"
proof -
  let ?f = "\<lambda>cs. RegisterOffChainSecret cs [1] 7"
  let ?c1 = "smap_store 5 (?f sample_payee) (smap_store 4 (?f sample2) sample_network)"
  have o: "setOffChainSecret sample_mediator sample_network [1] 7 = (sample_mediator\<lparr>ms_Secret := Some [1]\<rparr>, ?c1, [])"
    by (simp add: setOffChainSecret_def setSecret_def updateChannel_def)
  have v: "IsValidSecretReveal sample_env [1] 7 [1]" by (auto simp: IsValidSecretReveal_def GetHash_def dest: arg_cong [of _ _ length])
  have x: "\<not> TransferExpired sample_env sample_transfer sample2 50"
    by (simp add: TransferExpired_def IsLockExpired_def sample_side2_def)
  have wf: "wf_end sample_env (cs_OurState (?f sample_payee))"
    using wf_end_Register(1) [OF sample_wf(1)] by (simp add: RegisterOffChainSecret_def)
  have l: "GetLock (cs_OurState (?f sample_payee)) 7 = Some sample_lock"
    by (simp add: RegisterOffChainSecret_def GetLock_RegisterSecret)
  have w: "MdIsSafeToWait (ucast (lk_Expiration sample_lock)) (cs_RevealTimeout (?f sample2)) 50 = Inr ()"
    unfolding MdIsSafeToWait_iff by (simp add: RegisterOffChainSecret_def sample_channel_def)
  have st: "GetStatus (?f sample_payee) = ChannelStateOpened" "GetStatus (?f sample2) = ChannelStateOpened"
    by (simp_all add: RegisterOffChainSecret_def GetStatus_def)
  obtain cs' msg u where su: "SendUnlock sample_env (?f sample_payee) 1 2 [1] 7 = Some (cs', Some (SendBalanceProof msg 2 9 [1] 0 u))"
    using SendUnlock_eq [OF wf l, of 1 2 "[1]"] by (simp add: RegisterOffChainSecret_def sample_channel_def)
  let ?p1 = "sample_pair\<lparr>mp_PayeeState := ''payee_secret_revealed''\<rparr>"
  let ?p2 = "?p1\<lparr>mp_PayerState := ''payer_secret_revealed''\<rparr>"
  have id: "payerChannelId ?p1 = 4" "payeeChannelId ?p1 = 5" "payerChannelId ?p2 = 4" "payeeChannelId ?p2 = 5"
    using sample_pair_simps(1,2) by (simp_all add: payerChannelId_def payeeChannelId_def del: sample_pair_simps)
  have cl: "eventsForOnChainSecretRevealIfClosed ?c1 [?p1] [1] 7 = Some ([?p1], [])"
    by (simp add: eventsForOnChainSecretRevealIfClosed_def GetPayerChannel_def id st case_prod_beta)
  have rv: "eventsForSecretReveal [?p1] [1] (\<lambda>i. of_nat (2 * i)) = ([?p2], [SendSecretReveal
      \<lparr>sm_Recipient = bp_Sender (ls_BalanceProof sample_transfer), sm_ChannelId = ChannelIdGlobalQueue, sm_MessageId = 0\<rparr> [1] 0])"
    by (simp add: eventsForSecretReveal_def STATE_SECRET_KNOWN_def)
  have bp: "eventsForBalanceProof sample_env ?c1 [?p2] 50 [1] 7 (\<lambda>i. of_nat (2 * i + 1)) =
      Some (smap_store 5 cs' ?c1, [?p2\<lparr>mp_PayeeState := ''payee_balance_proof''\<rparr>],
        [SendBalanceProof msg 2 9 [1] 0 u, EventUnlockSuccess 2 7])"
    using su w by (simp add: eventsForBalanceProof_def balanceProofPair_def GetPayerChannel_def GetPayeeChannel_def id st
        STATE_SECRET_KNOWN_def STATE_TRANSFER_PAID_def)
  let ?c2 = "smap_store 5 cs' ?c1"
  let ?s = "sample_mediator\<lparr>ms_Secret := Some [1], ms_TransfersPair := [?p2\<lparr>mp_PayeeState := ''payee_balance_proof''\<rparr>]\<rparr>"
  let ?evs = "[SendSecretReveal \<lparr>sm_Recipient = bp_Sender (ls_BalanceProof sample_transfer), sm_ChannelId = ChannelIdGlobalQueue,
      sm_MessageId = 0\<rparr> [1] 0, SendBalanceProof msg 2 9 [1] 0 u, EventUnlockSuccess 2 7,
    SendProcessed \<lparr>sm_Recipient = 2, sm_ChannelId = ChannelIdGlobalQueue, sm_MessageId = 5\<rparr>]"
  have "handleOffChainSecretReveal sample_env sample_mediator sample_payee_reveal sample_network 50 (\<lambda>i. of_nat i) = Some (?c2, ?s, ?evs)"
    using cl rv bp by (simp add: handleOffChainSecretReveal_def GetPayerChannel_def x v secretLearned_def o setOffchainRevealState_def Let_def)
  then have t: "MdStateTransition sample_env (\<lambda>rs. rs) (Some sample_mediator) (TC_ReceiveSecretReveal sample_payee_reveal)
       sample_network 50 (\<lambda>i. of_nat i) = Some (?c2, Inr (clearIfFinalized (Some ?s, ?evs) ?c2))"
    by (simp add: MdStateTransition_def)
  obtain st' where "clearIfFinalized (Some ?s, ?evs) ?c2 = (st', ?evs)" using clearIfFinalized_result [of ?s ?evs ?c2] by blast
  with t have "MdStateTransition sample_env (\<lambda>rs. rs) (Some sample_mediator) (TC_ReceiveSecretReveal sample_payee_reveal)
       sample_network 50 (\<lambda>i. of_nat i) = Some (?c2, Inr (st', ?evs))" by simp
  moreover have "SendBalanceProof msg 2 9 [1] 0 u \<in> set ?evs" "smap_load ?c2 4 = Some (?f sample2)" by simp_all
  ultimately show ?thesis by blast
qed

section \<open>Witnesses\<close>

theorem mediator_pays_claimable_witness:
  "\<exists>chans' r payer. MdStateTransition sample_env (\<lambda>rs. rs) (Some sample_mediator) (TC_ReceiveSecretReveal sample_payee_reveal)
       sample_network 50 (\<lambda>i. of_nat i) = Some (chans', r) \<and> smap_load chans' 4 = Some payer \<and> claimable 7 sample_lock payer"
proof -
  obtain chans' st' evs msg u where t: "MdStateTransition sample_env (\<lambda>rs. rs) (Some sample_mediator)
       (TC_ReceiveSecretReveal sample_payee_reveal) sample_network 50 (\<lambda>i. of_nat i) = Some (chans', Inr (st', evs))"
    and ev: "SendBalanceProof msg 2 9 [1] 0 u \<in> set evs" using sample_mediation by blast
  have "GetLock sample_side1 7 = Some sample_lock" by (simp add: GetLock_pending)
  with mediator_pays_claimable [OF t ev sample_network_safe] t show ?thesis by simp
qed

theorem mediator_task_lasts_witness:
  "\<exists>chans' st' evs. MdStateTransition sample_env (\<lambda>rs. rs) (Some sample_mediator) (TC_ReceiveSecretReveal sample_payee_reveal)
       sample_network 50 (\<lambda>i. of_nat i) = Some (chans', Inr (Some st', evs)) \<and> ms_SecretHash st' = 7"
proof -
  obtain chans' st' evs where t: "MdStateTransition sample_env (\<lambda>rs. rs) (Some sample_mediator)
       (TC_ReceiveSecretReveal sample_payee_reveal) sample_network 50 (\<lambda>i. of_nat i) = Some (chans', Inr (st', evs))"
    and l: "smap_load chans' 4 = Some (RegisterOffChainSecret sample2 [1] 7)" using sample_mediation by blast
  have "GetLock (cs_PartnerState (RegisterOffChainSecret sample2 [1] 7)) 7 = Some sample_lock"
    by (simp add: RegisterOffChainSecret_def GetLock_RegisterSecret)
  with mediator_task_lasts [OF t, of sample_pair "RegisterOffChainSecret sample2 [1] 7"] l t show ?thesis by auto
qed

theorem mediator_reveals_once_witness:
  "\<exists>chans' st' evs. md_run sample_env (\<lambda>rs. rs) (Some sample_mediator) sample_network
       [(TC_ReceiveSecretReveal sample_payee_reveal, 50, \<lambda>i. of_nat i)] = Some (chans', st', evs) \<and> length (reveals evs) \<le> 1"
proof -
  obtain chans' st' evs where "MdStateTransition sample_env (\<lambda>rs. rs) (Some sample_mediator)
       (TC_ReceiveSecretReveal sample_payee_reveal) sample_network 50 (\<lambda>i. of_nat i) = Some (chans', Inr (st', evs))"
    using sample_mediation by blast
  then have r: "md_run sample_env (\<lambda>rs. rs) (Some sample_mediator) sample_network
       [(TC_ReceiveSecretReveal sample_payee_reveal, 50, \<lambda>i. of_nat i)] = Some (chans', st', evs)" by simp
  from mediator_reveals_once [OF r] r show ?thesis by simp
qed

text \<open>At block 90 the sample lock, which expires at 100, is in the danger zone.\<close>

theorem mediator_registers_once_witness:
  "\<exists>chans' st' evs. MdHandleBlock sample_env sample_mediator 90
       [(4, RegisterOffChainSecret sample2 [1] 7), (5, sample_payee)] (\<lambda>i. of_nat i) = Some (chans', st', evs)
     \<and> ContractSendSecretReveal 100 [1] \<in> set evs \<and> length (registrations evs) = 1"
proof -
  let ?c = "[(4, RegisterOffChainSecret sample2 [1] 7), (5, sample_payee)]"
  have k: "IsSecretKnown (cs_PartnerState (RegisterOffChainSecret sample2 [1] 7)) 7"
    "GetSecret (cs_PartnerState (RegisterOffChainSecret sample2 [1] 7)) 7 = [1]"
    using GetLock_RegisterSecret [OF sample_locked, of "[1]"]
    by (simp_all add: RegisterOffChainSecret_def IsSecretKnown_def IsSecretKnownOffChain_def)
  have ko: "\<not> IsSecretKnownOnChain (cs_PartnerState (RegisterOffChainSecret sample2 [1] 7)) 7"
    by (simp add: RegisterOffChainSecret_def IsSecretKnownOnChain_def RegisterSecretEndState_def IsLockLocked_def)
      (simp add: sample_side1_def)
  have w: "MdIsSafeToWait (ucast (lk_Expiration sample_lock)) (cs_RevealTimeout (RegisterOffChainSecret sample2 [1] 7)) 90 \<noteq> Inr ()"
    unfolding MdIsSafeToWait_iff by (simp add: RegisterOffChainSecret_def sample_channel_def)
  have st: "GetStatus (RegisterOffChainSecret sample2 [1] 7) = ChannelStateOpened"
    by (simp add: RegisterOffChainSecret_def GetStatus_def)
  have x: "\<not> TransferExpired sample_env sample_transfer (RegisterOffChainSecret sample2 [1] 7) 90"
    by (simp add: TransferExpired_def IsLockExpired_def)
  have "removeExpiredPair sample_env 7 90 (of_nat 0) ?c sample_pair = Some (?c, sample_pair, [])"
    by (simp add: removeExpiredPair_def GetPayeeChannel_def smap_load_def sample_side1_def IsLockExpired_def)
  then have "\<exists>st' evs. MdHandleBlock sample_env sample_mediator 90 ?c (\<lambda>i. of_nat i) = Some (?c, st', evs)
      \<and> ContractSendSecretReveal 100 [1] \<in> set evs \<and> registrations evs \<noteq> []"
    using k ko w st x
    by (simp add: MdHandleBlock_def eventsToRemoveExpiredLocks_def eventsForOnChainSecretRevealIfDangerzone_def
        MdHasSecretRegistrationStarted_def GetPayerChannel_def smap_load_def isPendingPair_def STATE_TRANSFER_FINAL_def
        EventsForOnChainSecretReveal_def eventsForExpiredPairs_def registrations_def List.map_filter_def Let_def)
  then obtain st' evs where b: "MdHandleBlock sample_env sample_mediator 90 ?c (\<lambda>i. of_nat i) = Some (?c, st', evs)"
    and e: "ContractSendSecretReveal 100 [1] \<in> set evs" "registrations evs \<noteq> []" by blast
  from mediator_registers_once [OF b] e have "length (registrations evs) = 1" by (cases "registrations evs") auto
  with b e show ?thesis by blast
qed

text \<open>A transfer of 15 tokens arrives over channel 4 and is passed on over channel 5.\<close>

theorem mediator_forwards_witness:
  "\<exists>x chans' st evs msg ut. HandleInitMediator sample_env (\<lambda>rs. rs) x [(4, sample1), (5, sample2\<lparr>cs_Identifier := 5\<rparr>)] 160 3 =
       Some (chans', Some st, evs) \<and> SendLockedTransfer msg ut \<in> set evs \<and> lk_Amount (lu_Lock ut) \<le> 15 \<and> lk_Expiration (lu_Lock ut) = 200"
proof -
  have d: "15 \<le> GetDistributable sample_side2 sample_side1"
    using GetDistributable_exact [of sample_env sample_side2 sample_side1] by (simp add: word_le_def)
  then obtain a' ut where s: "sendLockedTransfer sample_env sample2 2 1 15 1 2 200 [] 5 [] = Some (a', Some (SendLockedTransfer
       \<lparr>sm_Recipient = 1, sm_ChannelId = 4, sm_MessageId = 1\<rparr> ut))" and l: "lu_Lock ut = newLock sample_env 15 200 5"
    using sendLockedTransfer_eq(2) [of sample_env sample2 15 200 5 2 1 1 2 "[]" "[]"] by simp
  let ?tr = "\<lparr>ls_MessageId = 1, ls_PaymentId = 2, ls_Token = 9,
          ls_BalanceProof = (sample_signed (lu_BalanceProof ut))\<lparr>bp_PublicKey := [0, 0], bp_Sender := 2\<rparr>, ls_Lock = lu_Lock ut,
          ls_Initiator = 2, ls_Target = 1, ls_EncSecret = [], ls_Mediators = []\<rparr>"
  have few: "getNumberOfPendingTransfers sample_side2 < MAXIMUM_PENDING_TRANSFERS"
    by (simp add: getNumberOfPendingTransfers_def sample_side2_def MerkleTreeWidth_def GetEmptyMerkleTree_def
        MAXIMUM_PENDING_TRANSFERS_def)
  have m: "mirrored sample_env sample2 sample1" using sample_mirrored mirrored_sym by blast
  have "signs sample_env (es_Address (cs_OurState sample2)) (lu_BalanceProof ut) (ls_BalanceProof ?tr)"
    by (simp add: signs_def sample_signed_def bp_signed_def signed_by_def) (simp add: fakeSigned_def)
  with few obtain t where "IsValidLockedTransfer sample_env ?tr sample1 (cs_PartnerState sample1) (cs_OurState sample1) = Some (Inr t)"
    using locked_agreement [OF m _ _ _ _ s, of ?tr] by (auto simp: GetLock_pending)
  then obtain cs1 ce where r: "HandleReceiveLockedTransfer sample_env sample1 ?tr = Some (cs1, ce, None)"
    by (auto simp: HandleReceiveLockedTransfer_def)
  let ?net = "[(4, sample1), (5, sample2\<lparr>cs_Identifier := 5\<rparr>)]"
  have ack: "\<exists>ack. ce = [ack]" using HandleReceiveLockedTransfer_accepted(2) [OF r] by simp
  have bc: "bp_ChannelId (ls_BalanceProof ?tr) = 4"
    using sendLockedTransfer_channel [OF s] by (simp add: sample_signed_def fakeSigned_def)
  have us: "MdIsChannelUsable (sample2\<lparr>cs_Identifier := 5\<rparr>) (lk_Amount (ls_Lock ?tr)) (lockTimeoutOf (ls_Lock ?tr) 160) = Some True"
    using d few wf_endD(2) [OF sample_wf(2)]
    by (simp add: MdIsChannelUsable_def l lockTimeoutOf_def not_less not_le GetStatus_def) (simp add: sample_channel_def)
  let ?a = "GetAmountWithoutFees sample_env (lk_Amount (ls_Lock ?tr)) (snd (GetFeeSchedule cs1))"
  have "?a \<le> GetDistributable sample_side2 sample_side1"
    using d GetAmountWithoutFees_bounds(1) [of sample_env 15 "snd (GetFeeSchedule cs1)"] by (simp add: l word_le_def)
  then obtain cs' msg ut' where sl: "sendLockedTransfer sample_env (sample2\<lparr>cs_Identifier := 5\<rparr>) (ls_Initiator ?tr) (ls_Target ?tr) ?a 3
      (ls_PaymentId ?tr) (ucast (lk_Expiration (ls_Lock ?tr))) (ls_EncSecret ?tr) (lk_SecretHash (ls_Lock ?tr)) (ls_Mediators ?tr)
      = Some (cs', Some (SendLockedTransfer msg ut'))"
    using sendLockedTransfer_eq(2) [of sample_env "sample2\<lparr>cs_Identifier := 5\<rparr>" ?a] by (simp add: GetStatus_def)
  have o: "map_order (\<lambda>rs :: RouteState list. rs)" by (simp add: map_order_def)
  obtain chans' st evs where h: "HandleInitMediator sample_env (\<lambda>rs. rs) \<lparr>aim_Routes = [\<lparr>rt_NodeAddress = 1, rt_ChannelId = 5\<rparr>],
       aim_FromRoute = \<lparr>rt_NodeAddress = 2, rt_ChannelId = 4\<rparr>, aim_FromTransfer = ?tr\<rparr> ?net 160 3 = Some (chans', Some st, evs)"
    and ev: "SendLockedTransfer msg ut' \<in> set evs"
    using HandleInitMediator_starts [of ?net 4 sample1 sample_env ?tr cs1 _ 5, OF _ _ bc _ _ _ us _ o sl] ack r
    by (fastforce simp: smap_load_def sample_channel_def)
  have "cs_Identifier cs = k" if "smap_load ?net k = Some cs" for k cs
    using that by (auto simp: smap_load_def split: if_split_asm)
  from mediator_forwards [OF h ev o this] h ev show ?thesis by (force simp: l)
qed

end
