(* ===== verification/Pylons_NodeProperties.thy ===== *)
theory Pylons_NodeProperties
  imports Pylons_Outbox Pylons_Payment Pylons_MediationSample
begin

text \<open>
  The properties of a node: the safety of its channels, the delivery of its messages, and the departures that
  modelling the dispatch has shown.
\<close>

section \<open>Safety of a node\<close>

lemma networks_safe_cong:
  "ch_IdentifiersToPaymentNetworks c' = ch_IdentifiersToPaymentNetworks c \<Longrightarrow> chain_safe e N c' \<longleftrightarrow> chain_safe e N c"
  by (simp add: chain_safe_def)

lemma handleTaskChange_safe:
  assumes "handleTaskChange e r ids c sc m = Some (Some (c', evs))" and "chain_safe e N c" and "2 * N < 2 ^ 64"
    and "change_ok e N c (ND_Task sc)"
  shows "chain_safe e N c'"
proof -
  note a = assms(2,3,4)
  note s = handleBlockForNode_safe [OF _ a(1,2)] subDispatchToPaymentTask_safe [OF _ a] subDispatchInitiatorTask_safe [OF _ a]
    subDispatchMediatorTask_safe [OF _ a] subDispatchTargetTask_safe [OF _ a]
  from assms(1) s show ?thesis by (cases sc) (auto simp: handleTaskChange_def Let_def)
qed

lemma handler_safe:
  assumes "handleStateChangeForNode e r ids (Some c) sc m = Some (Some (Some c', evs))" and "ranges_ok r"
    and "chain_safe e N c" and "2 * N < 2 ^ 64" and "change_ok e N c sc"
  shows "chain_safe e N c'"
proof -
  note h = assms(1) [unfolded handleStateChangeForNode_def Let_def] and a = assms(3,4)
  show ?thesis
  proof (cases sc)
    case (ND_ReceiveDelivered s i)
    with h have "inPlaceDeleteMessageQueue sc \<lparr>qi_Recipient = s, qi_ChannelId = 0\<rparr> c = Some c'"
      by (auto simp: handleDelivered_def)
    from networks_safe_cong [OF inPlaceDeleteMessageQueue_queue(3) [OF this]] a(1) show ?thesis by blast
  next
    case (ND_ReceiveProcessed s i)
    with h have "handleProcessed e r c s i = Some (c', evs)" by auto
    from networks_safe_cong [OF handleProcessed_queue(3) [OF this assms(2)]] a(1) show ?thesis by blast
  next
    case (ND_Task x)
    with h have "handleTaskChange e r ids c x m = Some (Some (c', evs))" by (cases x) auto
    from handleTaskChange_safe [OF this a] assms(5) ND_Task show ?thesis by simp
  next
    case (ND_Network x)
    consider n where "x = NC_Channel (Block n)" | y where "x = NC_Channel (SC_ContractReceiveChannelClosed y)"
      | "\<And>n y. x \<noteq> NC_Channel (Block n) \<and> x \<noteq> NC_Channel (SC_ContractReceiveChannelClosed y)" by blast
    then show ?thesis
    proof cases
      case 1
      with h ND_Network handleBlockForNode_safe [OF _ a] show ?thesis by auto
    next
      case 2
      with h ND_Network ChannelClosed_safe [OF _ a] show ?thesis by auto
    next
      case 3
      with h ND_Network have "handleTokenNetworkAction e r c x (changeTokenNetworkId x) m = Some (Some c', evs)"
        by (auto split: NetworkChange.split_asm StateChange.split_asm)
      from handleTokenNetworkAction_safe [OF this a] assms(5) ND_Network show ?thesis by simp
    qed
  next
    case (ND_ActionInitChain x)
    with h a show ?thesis by (simp add: handleChainInit_def)
  next
    case (ND_ActionNewTokenNetwork p tn)
    with h a assms(5) show ?thesis by (auto simp: change_ok_def maybeAddTokenNetwork_safe)
  next
    case ND_ActionLeaveAllNetworks
    with h handleLeaveAllNetworks_safe [OF _ a(1)] show ?thesis by auto
  next
    case (ND_ContractReceiveNewPaymentNetwork pn)
    with h a assms(5) show ?thesis
      by (auto simp: change_ok_def handleNewPaymentNetwork_def Let_def chain_safe_store)
  next
    case (ND_ContractReceiveNewTokenNetwork p tn)
    with h a assms(5) show ?thesis by (auto simp: change_ok_def maybeAddTokenNetwork_safe)
  qed (use h in simp)
qed

text \<open>One state change of a node, whatever the order of its loops and the ids it draws.\<close>

inductive node_step :: "env \<Rightarrow> ChainState \<Rightarrow> NodeChange \<Rightarrow> Event list \<Rightarrow> ChainState \<Rightarrow> bool" for e where
  "StateTransition e r ids (Some c) sc m = Some (Some (c', evs)) \<Longrightarrow> ranges_ok r \<Longrightarrow> node_step e c sc evs c'"

inductive_cases node_stepE: "node_step e c sc evs c'"

lemma node_step_handler:
  assumes "node_step e c sc evs c'"
  obtains r ids m c1 where "ranges_ok r"
    and "handleStateChangeForNode e r ids (Some c) sc m = Some (Some (Some c1, evs))" and "c' = updateQueues c1 evs sc"
  using assms
  by (auto simp: StateTransition_def elim!: node_stepE split: Option.bind_split_asm option.split_asm prod.split_asm)

lemma node_step_safe:
  assumes "node_step e c sc evs c'" and "change_ok e N c sc" and "2 * N < 2 ^ 64" and "chain_safe e N c"
  shows "chain_safe e N c'"
proof -
  from assms(1) obtain r ids m c1 where r: "ranges_ok r"
    and h: "handleStateChangeForNode e r ids (Some c) sc m = Some (Some (Some c1, evs))"
    and c': "c' = updateQueues c1 evs sc"
    by (rule node_step_handler)
  from handler_safe [OF h r assms(4,3,2)] have "chain_safe e N c1" .
  with networks_safe_cong [OF updateQueues_outbox(3)] show ?thesis unfolding c' by blast
qed

interpretation node: invariant_machine "\<lambda>c c'. \<exists>sc evs. node_step e c sc evs c' \<and> change_ok e N c sc"
    "\<lambda>c. 2 * N < 2 ^ 64 \<and> chain_safe e N c" for e N
  by unfold_locales (blast intro: node_step_safe)

text \<open>A run, as the states in which the changes arrived and the changes.\<close>

inductive node_arrivals :: "env \<Rightarrow> ChainState \<Rightarrow> (ChainState \<times> NodeChange) list \<Rightarrow> ChainState \<Rightarrow> bool" for e where
  Rest: "node_arrivals e c [] c"
| Arrival: "node_step e c sc evs c1 \<Longrightarrow> node_arrivals e c1 tr c2 \<Longrightarrow> node_arrivals e c ((c, sc) # tr) c2"

inductive_cases node_arrivals_ConsE: "node_arrivals e c (s # tr) c'"

lemma arrivals_run:
  "node_arrivals e c tr c' \<Longrightarrow> \<forall>(s, sc) \<in> set tr. change_ok e N s sc \<Longrightarrow>
    (\<lambda>c c'. \<exists>sc evs. node_step e c sc evs c' \<and> change_ok e N c sc)\<^sup>*\<^sup>* c c'"
proof (induction rule: node_arrivals.induct)
  case (Arrival c sc evs c1 tr c2)
  then have "\<exists>sc evs. node_step e c sc evs c1 \<and> change_ok e N c sc" by auto
  with Arrival show ?case by (auto intro: converse_rtranclp_into_rtranclp)
qed simp

text \<open>What is asked of a state change concerns only these kinds; of all others nothing is asked.\<close>

definition restricted :: "NodeChange \<Rightarrow> bool" where
  "restricted sc =
     (case sc of
        ND_Network (NC_Channel (SC_ContractReceiveChannelNewBalance _)) \<Rightarrow> True
      | ND_Network (NC_Channel (SC_ContractReceiveChannelWithdraw _)) \<Rightarrow> True
      | ND_Network (NC_ContractReceiveChannelNew _) \<Rightarrow> True
      | ND_Task (TC_ActionInitInitiator _) \<Rightarrow> True
      | ND_Task (TC_ActionInitMediator _) \<Rightarrow> True
      | ND_Task (TC_ActionInitTarget _) \<Rightarrow> True
      | ND_Task (TC_ReceiveTransferRefundCancelRoute _) \<Rightarrow> True
      | ND_ActionNewTokenNetwork _ _ \<Rightarrow> True
      | ND_ContractReceiveNewTokenNetwork _ _ \<Rightarrow> True
      | ND_ContractReceiveNewPaymentNetwork _ \<Rightarrow> True
      | _ \<Rightarrow> False)"

lemma unrestricted_ok: "\<not> restricted sc \<Longrightarrow> change_ok e N c sc"
  by (auto simp: restricted_def change_ok_def chain_ok_def every_channel_def Let_def
      split: NodeChange.splits NetworkChange.splits StateChange.splits TaskChange.splits)

lemma restricted_arrivals:
  "\<forall>(s, sc) \<in> set tr. restricted sc \<longrightarrow> change_ok e N s sc \<Longrightarrow> \<forall>(s, sc) \<in> set tr. change_ok e N s sc"
  using unrestricted_ok by blast


text \<open>
  C24. Along every run of a node, under the same conditions on the changes that arrive as in C11, the index of each token
  network stays consistent: every channel is filed under its own id, and looking up a partner yields exactly the channels with
  that partner, although channels are added, changed through both maps by the tasks and handlers, and deleted.
\<close>

theorem node_index_consistent:
  assumes "node_arrivals e c tr c'"
    and "\<forall>(s, sc) \<in> set tr. restricted sc \<longrightarrow> change_ok e N s sc"
    and "2 * N < 2 ^ 64" and "chain_safe e N c"
    and "GetTokenNetworkByIdentifier e c' t = Some tn"
  shows "k \<in> set (partnerChannels tn a) \<longleftrightarrow>
    (\<exists>cs. smap_load (tn_ChannelsMap tn) k = Some cs \<and> cs_Identifier cs = k \<and> es_Address (cs_PartnerState cs) = a)"
proof -
  have "chain_safe e N c'"
    using node.run_inv [OF arrivals_run [OF assms(1) restricted_arrivals [OF assms(2)]]] assms(3,4) by blast
  from GetTokenNetwork_safe [OF assms(5) this] show ?thesis unfolding tn_safe_def index_ok_def by blast
qed

text \<open>Restoring the index from storage.\<close>

lemma Adjust_fold:
  fixes chans :: Channels
  defines "f \<equiv> \<lambda>t k. case smap_load chans k of
      Some cs \<Rightarrow> putPartner (es_Address (cs_PartnerState cs)) (cs_Identifier cs) t | None \<Rightarrow> t"
  shows "tn_ChannelsMap (foldl f tn ks) = tn_ChannelsMap tn"
    and "set (partnerChannels (foldl f tn ks) a) = set (partnerChannels tn a) \<union>
      {cs_Identifier cs | k cs. k \<in> set ks \<and> smap_load chans k = Some cs \<and> es_Address (cs_PartnerState cs) = a}"
proof (induction ks arbitrary: tn)
  case (Cons k ks)
  case 1
  show ?case using Cons(1) [of "f tn k"] by (simp add: f_def split: option.split)
  case 2
  show ?case using Cons(2) [of "f tn k"]
    by (cases "smap_load chans k") (auto simp: f_def partnerChannels_put)
qed simp_all

text \<open>
  The index that is rebuilt when a state is read from storage lists, for every partner, exactly the channels
  with that partner, in whatever order the map of channels is visited.
\<close>

theorem index_rebuilt:
  assumes "ranges_ok r" and "\<And>k cs. smap_load (tn_ChannelsMap tn) k = Some cs \<Longrightarrow> cs_Identifier cs = k"
  shows "index_ok (AdjustTokenNetworkState r tn)"
proof -
  let ?ks = "rg_Channels r (map fst (tn_ChannelsMap tn))"
  have ks: "k \<in> set ?ks" if "smap_load (tn_ChannelsMap tn) k = Some cs" for k cs
    using that assms(1) smap_load_SomeD [OF that] by (force simp: ranges_ok_def map_order_set)
  have 1: "tn_ChannelsMap (AdjustTokenNetworkState r tn) = tn_ChannelsMap tn"
    unfolding AdjustTokenNetworkState_def by (simp add: Adjust_fold(1))
  have "set (partnerChannels (AdjustTokenNetworkState r tn) a) =
      {cs_Identifier cs | k cs. smap_load (tn_ChannelsMap tn) k = Some cs \<and> es_Address (cs_PartnerState cs) = a}" for a
  proof -
    have "partnerChannels (tn\<lparr>tn_PartnerAddressesToChannels := []\<rparr>) a = []" by (simp add: partnerChannels_def)
    with Adjust_fold(2) [of "tn_ChannelsMap tn" "tn\<lparr>tn_PartnerAddressesToChannels := []\<rparr>" ?ks a] ks show ?thesis
      unfolding AdjustTokenNetworkState_def by fastforce
  qed
  with 1 assms(2) show ?thesis unfolding index_ok_def by fastforce
qed

section \<open>Delivery of messages\<close>

text \<open>A run: the state changes with the events they caused.\<close>

inductive node_run :: "env \<Rightarrow> ChainState \<Rightarrow> (NodeChange \<times> Event list) list \<Rightarrow> ChainState \<Rightarrow> bool" for e where
  Stop: "node_run e c [] c"
| Step: "node_step e c sc evs c1 \<Longrightarrow> node_run e c1 tr c2 \<Longrightarrow> node_run e c ((sc, evs) # tr) c2"

inductive_cases node_run_NilE: "node_run e c [] c'"
inductive_cases node_run_ConsE: "node_run e c (s # tr) c'"

text \<open>The report that a channel was closed is the only other state change that can drop a message.\<close>

definition closes :: "NodeChange \<Rightarrow> ChannelID \<Rightarrow> bool" where
  "closes sc k = (case sc of ND_Network (NC_Channel (SC_ContractReceiveChannelClosed x)) \<Rightarrow> ccl_ChannelId x = k | _ \<Rightarrow> False)"

lemma node_step_queue:
  assumes "node_step e c sc evs c'" and "ev \<in> set (queueOf c q) \<or> ev \<in> set evs \<and> goes_to q ev"
    and "\<not> acknowledges sc q ev" and "\<not> closes sc (qi_ChannelId q)"
  shows "ev \<in> set (queueOf c' q)"
proof -
  from assms(1) obtain r ids m c1 where r: "ranges_ok r"
    and h: "handleStateChangeForNode e r ids (Some c) sc m = Some (Some (Some c1, evs))"
    and c': "c' = updateQueues c1 evs sc"
    by (rule node_step_handler)
  have "ev \<in> set (queueOf c1 q)" if "ev \<in> set (queueOf c q)"
  proof (cases "\<exists>x. sc = ND_Network (NC_Channel (SC_ContractReceiveChannelClosed x))")
    case True
    then obtain x where x: "sc = ND_Network (NC_Channel (SC_ContractReceiveChannelClosed x))" by blast
    with h have "handleContractReceiveChannelClosed e r c x m = Some (Some c1, evs)"
      by (simp add: handleStateChangeForNode_def Let_def)
    from closed_outbox(1) [OF this, of q] that x assms(4) show ?thesis by (simp add: closes_def)
  next
    case False
    with handler_outbox [OF h r, of q] that assms(3) show ?thesis by simp
  qed
  with assms(2) show ?thesis by (auto simp: c' updateQueues_outbox(1))
qed


section \<open>Departures\<close>

text \<open>
  A state change whose token network no payment network knows yields an iteration with a nil state, on which
  \<open>updateQueues\<close> panics. The id comes from the message of a peer.
\<close>

lemma unknown_network_panics:
  assumes "GetTokenNetworkRegistryByTokenNetworkId r c (rtd_TokenNetworkId x) = None"
  shows "StateTransition e r ids (Some c) (ND_Network (NC_Channel (SC_ReceiveTransferDirect x))) m = None"
  using assms by (simp add: StateTransition_def handleStateChangeForNode_def handleTokenNetworkAction_def)

text \<open>
  A message for a task of another role: the task's dispatcher returns a nil iteration, which the node reads. The
  last hop of a payment can send an Unlock to its initiator, any peer a request for the secret to a mediator.
\<close>

lemma unlock_at_initiator_panics:
  assumes "smap_load (ch_SecretHashesToTask c) (rul_SecretHash x) = Some (InitiatorTask t manager)"
    and "GetTokenNetworkByIdentifier e c t = Some tn"
  shows "StateTransition e r ids (Some c) (ND_Task (TC_ReceiveUnlock x)) m = None"
  using assms by (simp add: StateTransition_def handleStateChangeForNode_def handleTaskChange_def
      subDispatchToPaymentTask_def dispatchInitiator_def ImStateTransition_def split: ImState.split)

lemma secret_request_at_mediator_panics:
  assumes "smap_load (ch_SecretHashesToTask c) (rsq_SecretHash x) = Some (MediatorTask t ms)"
    and "GetTokenNetworkByIdentifier e c t = Some tn"
  shows "StateTransition e r ids (Some c) (ND_Task (TC_ReceiveSecretRequest x)) m = None"
  using assms by (simp add: StateTransition_def handleStateChangeForNode_def handleTaskChange_def
      subDispatchToPaymentTask_def dispatchMediator_def MdStateTransition_def)

text \<open>A second payment under the secret hash of one that is in progress.\<close>

lemma second_payment_panics:
  assumes "smap_load (ch_SecretHashesToTask c) (td_SecretHash (aii_TransferDescription x)) = Some (InitiatorTask t (ImTransfer i))"
  shows "StateTransition e r ids (Some c) (ND_Task (TC_ActionInitInitiator x)) m = None"
  using assms by (simp add: StateTransition_def handleStateChangeForNode_def handleTaskChange_def
      subDispatchInitiatorTask_def Let_def)

text \<open>
  The event for a processed direct transfer carries everything transferred so far over the channel, not the amount
  of the payment; and it is a nil dereference once the channel was settled.
\<close>

lemma processed_reports_total:
  assumes "GetChannelStateByTokenNetworkAndPartner e r c (bu_TokenNetworkId bp) (sm_Recipient msg) = Some cs"
  shows "processedMessage e r c (ND_ReceiveProcessed (sm_Recipient msg) (sm_MessageId msg)) (SendDirectTransfer msg p bp tk) =
    Some [EventPaymentSentSuccess (cs_PaymentNetworkId cs) (cs_TokenNetworkId cs) p (bu_TransferredAmount bp) (sm_Recipient msg)]"
  using assms by (simp add: processedMessage_def AddressEqual_iff)

lemma processed_unknown_channel_panics:
  assumes "GetChannelStateByTokenNetworkAndPartner e r c (bu_TokenNetworkId bp) (sm_Recipient msg) = None"
  shows "processedMessage e r c (ND_ReceiveProcessed (sm_Recipient msg) (sm_MessageId msg)) (SendDirectTransfer msg p bp tk) = None"
  using assms by (simp add: processedMessage_def AddressEqual_iff)

section \<open>Witnesses\<close>

text \<open>A node with one token network, whose only task is the sample mediation.\<close>

definition sample_ranges :: ranges where
  "sample_ranges = \<lparr>rg_PaymentNetworks = (\<lambda>xs. xs), rg_TokenNetworks = (\<lambda>xs. xs), rg_Channels = (\<lambda>xs. xs),
     rg_Partners = (\<lambda>xs. xs), rg_Tasks = (\<lambda>xs. xs), rg_Queues = (\<lambda>xs. xs), rg_Routes = (\<lambda>xs. xs),
     IsDnsNode = (\<lambda>_. False)\<rparr>"

definition sample_token_network :: TokenNetworkState where
  "sample_token_network = (NewTokenNetworkState 1)\<lparr>tn_Address := 6, tn_TokenAddress := 9,
     tn_ChannelsMap := sample_network, tn_PartnerAddressesToChannels := [(1, [4]), (2, [5])]\<rparr>"

definition sample_node :: ChainState where
  "sample_node = NewChainState\<lparr>ch_BlockHeight := 50,
     ch_IdentifiersToPaymentNetworks := [(8, \<lparr>pn_Address = 8, pn_TokenIdentifiersToTokenNetworks = [(6, sample_token_network)],
       pn_TokenAddressesToTokenIdentifiers = [(9, 6)]\<rparr>)],
     ch_SecretHashesToTask := [(7, MediatorTask 6 sample_mediator)]\<rparr>"

lemma sample_ranges_ok [simp]: "ranges_ok sample_ranges" "rg_Routes sample_ranges = (\<lambda>xs. xs)"
  by (simp_all add: ranges_ok_def map_order_def sample_ranges_def)

lemma sample_node_simps [simp]:
  "GetTokenNetworkByIdentifier sample_env sample_node 6 = Some sample_token_network"
  "GetTokenNetworkByIdentifier sample_env sample_node 0 = None"
  "tn_ChannelsMap sample_token_network = sample_network" "ch_BlockHeight sample_node = 50"
  "smap_load (ch_SecretHashesToTask sample_node) 7 = Some (MediatorTask 6 sample_mediator)"
  "queueOf sample_node q = []" "ch_PendingTransactions sample_node = []"
  by (simp_all add: sample_node_def GetTokenNetworkByIdentifier_def smap_load_def sample_env_def sample_token_network_def
      queueOf_def NewChainState_def)

lemma sample_index_ok: "index_ok sample_token_network"
proof -
  have "partnerChannels sample_token_network a = (if a = 1 then [4] else if a = 2 then [5] else [])" for a
    by (simp add: partnerChannels_def sample_token_network_def smap_load_def)
  then show ?thesis by (auto simp: index_ok_def smap_load_def del: sample_network_simps)
qed

lemma sample_node_safe [simp]: "chain_safe sample_env 1000 sample_node"
  using sample_index_ok
  by (simp add: sample_node_def chain_safe_def net_safe_def tn_safe_def smap_load_def [of "[(8, _)]"] smap_load_def [of "[(6, _)]"])

abbreviation sample_change :: NodeChange where
  "sample_change \<equiv> ND_Task (TC_ReceiveSecretReveal sample_payee_reveal)"

lemma sample_node_step:
  "\<exists>c' evs msg u. StateTransition sample_env sample_ranges (\<lambda>_ i. of_nat i) (Some sample_node) sample_change 0 = Some (Some (c', evs))
     \<and> SendBalanceProof msg 2 9 [1] 0 u \<in> set evs"
proof -
  obtain chans' st' evs msg u where t: "MdStateTransition sample_env (\<lambda>rs. rs) (Some sample_mediator)
      (TC_ReceiveSecretReveal sample_payee_reveal) sample_network 50 (\<lambda>i. of_nat i) = Some (chans', Inr (st', evs))"
    and ev: "SendBalanceProof msg 2 9 [1] 0 u \<in> set evs"
    using sample_mediation by blast
  have "\<exists>c'. StateTransition sample_env sample_ranges (\<lambda>_ i. of_nat i) (Some sample_node) sample_change 0 = Some (Some (c', evs))"
    using t by (simp add: StateTransition_def handleStateChangeForNode_def handleTaskChange_def subDispatchToPaymentTask_def
        dispatchMediator_def GetHash_def del: sample_network_simps)
  with ev show ?thesis by blast
qed


text \<open>A channel is opened: afterwards it is listed for its partner.\<close>

definition sample_opened :: NodeChange where
  "sample_opened = ND_Network (NC_ContractReceiveChannelNew
     \<lparr>ccn_BlockHeight = 50, ccn_TokenNetworkId = 6, ccn_ChannelState = sample1\<lparr>cs_Identifier := 7\<rparr>, ccn_ChannelId = 7\<rparr>)"

lemma sample_opened_step:
  "\<exists>c' tn. node_step sample_env sample_node sample_opened [] c' \<and> GetTokenNetworkByIdentifier sample_env c' 6 = Some tn
     \<and> smap_load (tn_ChannelsMap tn) 7 = Some (sample1\<lparr>cs_Identifier := 7\<rparr>)"
proof -
  let ?tn = "handleChannelNew sample_ranges sample_token_network
     \<lparr>ccn_BlockHeight = 50, ccn_TokenNetworkId = 6, ccn_ChannelState = sample1\<lparr>cs_Identifier := 7\<rparr>, ccn_ChannelId = 7\<rparr>"
  have "\<exists>c'. StateTransition sample_env sample_ranges ids (Some sample_node) sample_opened m = Some (Some (c', []))
      \<and> GetTokenNetworkByIdentifier sample_env c' 6 = Some ?tn" for ids m
    by (simp add: StateTransition_def handleStateChangeForNode_def sample_opened_def handleTokenNetworkAction_def
        GetTokenNetworkRegistryByTokenNetworkId_def stateTransitionForNetwork_def storeTokenNetwork_def updateQueues_def sample_ranges_def
        sample_node_def smap_load_def [of "[(8, _)]"] smap_load_def [of "[(6, _)]"] sample_env_def GetTokenNetworkByIdentifier_def)
  moreover have "smap_load (tn_ChannelsMap ?tn) 7 = Some (sample1\<lparr>cs_Identifier := 7\<rparr>)"
    by (simp add: handleChannelNew_def Let_def smap_load_def [of "[(4, _), _]"])
  ultimately show ?thesis using node_step.intros [OF _ sample_ranges_ok(1)] by blast
qed

theorem node_index_consistent_witness:
  "\<exists>c' tn. node_step sample_env sample_node sample_opened [] c' \<and> GetTokenNetworkByIdentifier sample_env c' 6 = Some tn
     \<and> 7 \<in> set (partnerChannels tn (es_Address (cs_PartnerState sample1)))"
proof -
  obtain c' tn where t: "node_step sample_env sample_node sample_opened [] c'" "GetTokenNetworkByIdentifier sample_env c' 6 = Some tn"
      "smap_load (tn_ChannelsMap tn) 7 = Some (sample1\<lparr>cs_Identifier := 7\<rparr>)"
    using sample_opened_step by blast
  have r: "node_arrivals sample_env sample_node [(sample_node, sample_opened)] c'" by (rule Arrival [OF t(1) Rest])
  have "safe sample_env 1000 (sample1\<lparr>cs_Identifier := 7\<rparr>)" using safe_cong [of "sample1\<lparr>cs_Identifier := 7\<rparr>" sample1] by simp
  then have "change_ok sample_env 1000 sample_node sample_opened" by (simp add: change_ok_def sample_opened_def)
  with node_index_consistent [OF r _ _ _ t(2), of 1000 7] t show ?thesis by auto
qed

theorem index_rebuilt_witness:
  "index_ok (AdjustTokenNetworkState sample_ranges (sample_token_network\<lparr>tn_PartnerAddressesToChannels := []\<rparr>))"
  by (rule index_rebuilt) (auto simp: smap_load_def split: if_splits simp del: sample_network_simps)


theorem outbox_exact_witness:
  "\<exists>c' evs msg u. StateTransition sample_env sample_ranges (\<lambda>_ i. of_nat i) (Some sample_node) sample_change 0 = Some (Some (c', evs))
     \<and> SendBalanceProof msg 2 9 [1] 0 u \<in> set evs
     \<and> queueOf c' \<lparr>qi_Recipient = 2, qi_ChannelId = 0\<rparr> = [ev \<leftarrow> evs. goes_to \<lparr>qi_Recipient = 2, qi_ChannelId = 0\<rparr> ev]"
proof -
  obtain c' evs msg u where t: "StateTransition sample_env sample_ranges (\<lambda>_ i. of_nat i) (Some sample_node) sample_change 0
      = Some (Some (c', evs))" and ev: "SendBalanceProof msg 2 9 [1] 0 u \<in> set evs"
    using sample_node_step by blast
  have "GetChannelStateByTokenNetworkId sample_env sample_node 0 k = None" for k
    by (simp add: GetChannelStateByTokenNetworkId_def)
  from outbox_exact [OF t sample_ranges_ok(1) this, of "\<lparr>qi_Recipient = 2, qi_ChannelId = 0\<rparr>"]
  have "queueOf c' \<lparr>qi_Recipient = 2, qi_ChannelId = 0\<rparr> = [ev \<leftarrow> evs. goes_to \<lparr>qi_Recipient = 2, qi_ChannelId = 0\<rparr> ev]"
    by (simp add: acknowledges_def)
  with t ev show ?thesis by blast
qed

end
