(* ===== verification/Pylons_Deposits.thy ===== *)
theory Pylons_Deposits
  imports Pylons_Invariant
begin

text \<open>
  Deposits: the queue of reported deposits that are not confirmed yet, and the loop of \<open>handleBlock\<close> that
  applies the confirmed ones. The loop is shown to be a filter of the queue and a maximum over the
  confirmed balances, so the order of deposits at the same height does not matter.
\<close>

section \<open>The loop as a filter\<close>

abbreviation confirmed :: "env \<Rightarrow> BlockHeight \<Rightarrow> TransactionOrder \<Rightarrow> bool" where
  "confirmed e n \<equiv> \<lambda>d. IsTransactionConfirmed e (to_BlockHeight d) n"

lemma sort_key_tl: "sorted (map f (x # xs)) \<Longrightarrow> sort_key f xs = xs"
  by (simp add: sort_key_id_if_sorted)

lemma applyChannelNewBalance_cong:
  "applyChannelNewBalance (cs\<lparr>cs_DepositTransactionQueue := q\<rparr>) d =
     (applyChannelNewBalance cs d)\<lparr>cs_DepositTransactionQueue := q\<rparr>"
  by (simp add: applyChannelNewBalance_def Let_def)

lemma foldl_applyChannelNewBalance_cong:
  "foldl applyChannelNewBalance (cs\<lparr>cs_DepositTransactionQueue := q\<rparr>) ds =
     (foldl applyChannelNewBalance cs ds)\<lparr>cs_DepositTransactionQueue := q\<rparr>"
  by (induction ds arbitrary: cs) (simp_all add: applyChannelNewBalance_cong)

lemma applyConfirmedDeposits_filter:
  assumes "sorted (map to_BlockHeight q)" and "cs_DepositTransactionQueue cs = q"
    and "\<And>d d'. d \<in> set q \<Longrightarrow> d' \<in> set q \<Longrightarrow> to_BlockHeight d \<le> to_BlockHeight d' \<Longrightarrow> confirmed e n d' \<Longrightarrow> confirmed e n d"
  shows "applyConfirmedDeposits e cs n =
     Some ((foldl applyChannelNewBalance cs (map to_Transaction (filter (confirmed e n) q)))
       \<lparr>cs_DepositTransactionQueue := filter (\<lambda>d. \<not> confirmed e n d) q\<rparr>)"
  using assms
proof (induction q arbitrary: cs)
  case Nil
  then show ?case by (simp add: applyConfirmedDeposits.simps isDepositConfirmed_def)
next
  case (Cons x xs)
  show ?case
  proof (cases "confirmed e n x")
    case True
    let ?cs = "applyChannelNewBalance (cs\<lparr>cs_DepositTransactionQueue := xs\<rparr>) (to_Transaction x)"
    have "applyConfirmedDeposits e cs n = applyConfirmedDeposits e ?cs n"
      using True Cons.prems(2) sort_key_tl [OF Cons.prems(1)]
      by (subst applyConfirmedDeposits.simps) (simp add: isDepositConfirmed_def)
    also have "\<dots> = Some ((foldl applyChannelNewBalance ?cs (map to_Transaction (filter (confirmed e n) xs)))
       \<lparr>cs_DepositTransactionQueue := filter (\<lambda>d. \<not> confirmed e n d) xs\<rparr>)"
      using Cons.prems by (intro Cons.IH) auto
    finally show ?thesis
      using True by (simp add: applyChannelNewBalance_cong foldl_applyChannelNewBalance_cong)
  next
    case False
    have none: "\<not> confirmed e n d" if "d \<in> set (x # xs)" for d
      using Cons.prems(3) [of x d] Cons.prems(1) that False by auto
    then have "filter (confirmed e n) (x # xs) = []" "filter (\<lambda>d. \<not> confirmed e n d) (x # xs) = x # xs"
      by (auto simp: filter_empty_conv intro!: filter_True)
    moreover have "applyConfirmedDeposits e cs n = Some cs"
      using False Cons.prems(2) by (subst applyConfirmedDeposits.simps) (simp add: isDepositConfirmed_def)
    ultimately show ?thesis using Cons.prems(2) by (simp del: filter.simps)
  qed
qed

section \<open>The balances as a maximum\<close>

lemma updateContractBalance_max:
  "es_ContractBalance (updateContractBalance es d) = max (es_ContractBalance es) d"
  by (auto simp: updateContractBalance_def max_def)

lemma updateContractBalance_Address [simp]: "es_Address (updateContractBalance es d) = es_Address es"
  by (simp add: updateContractBalance_def)

lemma applyChannelNewBalance_sides:
  "es_Address (cs_OurState (applyChannelNewBalance cs d)) = es_Address (cs_OurState cs)"
  "es_Address (cs_PartnerState (applyChannelNewBalance cs d)) = es_Address (cs_PartnerState cs)"
  "es_ContractBalance (cs_OurState (applyChannelNewBalance cs d)) =
     (if nb_ParticipantAddress d = es_Address (cs_OurState cs)
      then max (es_ContractBalance (cs_OurState cs)) (nb_ContractBalance d) else es_ContractBalance (cs_OurState cs))"
  "es_ContractBalance (cs_PartnerState (applyChannelNewBalance cs d)) =
     (if nb_ParticipantAddress d \<noteq> es_Address (cs_OurState cs) \<and> nb_ParticipantAddress d = es_Address (cs_PartnerState cs)
      then max (es_ContractBalance (cs_PartnerState cs)) (nb_ContractBalance d)
      else es_ContractBalance (cs_PartnerState cs))"
  by (simp_all add: applyChannelNewBalance_def Let_def updateContractBalance_max)

lemma foldl_apply_max:
  assumes "es_Address (cs_OurState cs) \<noteq> es_Address (cs_PartnerState cs)"
  shows "es_ContractBalance (cs_OurState (foldl applyChannelNewBalance cs ds)) =
      fold max (map nb_ContractBalance (filter (\<lambda>d. nb_ParticipantAddress d = es_Address (cs_OurState cs)) ds))
        (es_ContractBalance (cs_OurState cs))"
    "es_ContractBalance (cs_PartnerState (foldl applyChannelNewBalance cs ds)) =
      fold max (map nb_ContractBalance (filter (\<lambda>d. nb_ParticipantAddress d = es_Address (cs_PartnerState cs)) ds))
        (es_ContractBalance (cs_PartnerState cs))"
  using assms
  by (induction ds arbitrary: cs) (simp_all add: applyChannelNewBalance_sides max.commute)

lemma Push_sorted: "sorted (map to_BlockHeight (TransactionOrderHeap_Push q d))"
  by (simp add: TransactionOrderHeap_Push_def)

lemma confirmed_mono:
  assumes "unat h' + unat (ucast (ConfirmBlockCount (Config e)) :: u32) < 2 ^ 32" and "h \<le> h'"
    and "IsTransactionConfirmed e h' n"
  shows "IsTransactionConfirmed e h n"
proof -
  let ?c = "ucast (ConfirmBlockCount (Config e)) :: u32"
  have "unat h \<le> unat h'" using assms(2) by (simp add: word_le_nat_alt)
  with assms(1) have "unat (h + ?c) = unat h + unat ?c" "unat (h' + ?c) = unat h' + unat ?c"
    by (simp_all add: unat_word_ariths)
  with \<open>unat h \<le> unat h'\<close> have "h + ?c \<le> h' + ?c" by (simp add: word_le_nat_alt)
  with assms(3) show ?thesis by (simp add: IsTransactionConfirmed_def Let_def)
qed

text \<open>The balances that confirmed deposits of a queue report for an address.\<close>

definition confirmed_balances ::
  "env \<Rightarrow> BlockHeight \<Rightarrow> Address \<Rightarrow> TransactionOrder list \<Rightarrow> TokenAmount list" where
  "confirmed_balances e n a q = map (\<lambda>d. nb_ContractBalance (to_Transaction d))
     (filter (\<lambda>d. IsTransactionConfirmed e (to_BlockHeight d) n \<and> nb_ParticipantAddress (to_Transaction d) = a) q)"

lemma confirmed_balances_eq:
  "map nb_ContractBalance (filter (\<lambda>d. nb_ParticipantAddress d = a) (map to_Transaction (filter (confirmed e n) q))) =
     confirmed_balances e n a q"
  by (induction q) (auto simp: confirmed_balances_def)

section \<open>Properties\<close>

text \<open>
  C39. The loop over deposits ends and applies exactly the confirmed ones. On a queue sorted by height,
  with heights small enough for the confirmation block not to wrap, the unconfirmed deposits remain in the
  queue in order, and the contract balance of each participant is the maximum of its old balance and its
  confirmed ones.
\<close>

theorem confirmed_deposits_applied:
  assumes "sorted (map to_BlockHeight (cs_DepositTransactionQueue cs))"
    and "\<forall>d \<in> set (cs_DepositTransactionQueue cs).
      unat (to_BlockHeight d) + unat (ucast (ConfirmBlockCount (Config e)) :: u32) < 2 ^ 32"
    and "es_Address (cs_OurState cs) \<noteq> es_Address (cs_PartnerState cs)"
  shows "\<exists>cs'. applyConfirmedDeposits e cs n = Some cs'
     \<and> cs_DepositTransactionQueue cs' =
         filter (\<lambda>d. \<not> IsTransactionConfirmed e (to_BlockHeight d) n) (cs_DepositTransactionQueue cs)
     \<and> es_ContractBalance (cs_OurState cs') = fold max
         (confirmed_balances e n (es_Address (cs_OurState cs)) (cs_DepositTransactionQueue cs))
         (es_ContractBalance (cs_OurState cs))
     \<and> es_ContractBalance (cs_PartnerState cs') = fold max
         (confirmed_balances e n (es_Address (cs_PartnerState cs)) (cs_DepositTransactionQueue cs))
         (es_ContractBalance (cs_PartnerState cs))"
proof -
  have "applyConfirmedDeposits e cs n =
     Some ((foldl applyChannelNewBalance cs (map to_Transaction (filter (confirmed e n) (cs_DepositTransactionQueue cs))))
       \<lparr>cs_DepositTransactionQueue := filter (\<lambda>d. \<not> confirmed e n d) (cs_DepositTransactionQueue cs)\<rparr>)"
    using assms(2) confirmed_mono by (intro applyConfirmedDeposits_filter [OF assms(1) refl]) blast
  then show ?thesis by (simp add: foldl_apply_max [OF assms(3)] confirmed_balances_eq)
qed

text \<open>A queue with a confirmed and an unconfirmed deposit of the first sample side.\<close>

definition sample_deposit :: "BlockHeight \<Rightarrow> TokenAmount \<Rightarrow> TransactionOrder" where
  "sample_deposit h n = \<lparr>to_BlockHeight = h, to_Transaction = \<lparr>nb_ParticipantAddress = 1, nb_ContractBalance = n,
     nb_DepositBlockHeight = h\<rparr>\<rparr>"

definition sample_queue :: NettingChannelState where
  "sample_queue =
     \<lparr>cs_Identifier = 4, cs_ChainId = 1, cs_TokenAddress = 9, cs_PaymentNetworkId = 8, cs_TokenNetworkId = 6,
      cs_RevealTimeout = 20, cs_SettleTimeout = 50, cs_FeeSchedule = None, cs_OurState = sample_side1,
      cs_PartnerState = sample_side2, cs_DepositTransactionQueue = [sample_deposit 5 130, sample_deposit 20 200],
      cs_OpenTransaction = None, cs_CloseTransaction = None, cs_SettleTransaction = None, cs_UpdateTransaction = None,
      cs_OurUnlockTransaction = None, cs_WithdrawTransaction = None\<rparr>"

theorem confirmed_deposits_applied_witness:
  "\<exists>cs'. applyConfirmedDeposits sample_env sample_queue 10 = Some cs'
     \<and> cs_DepositTransactionQueue cs' = [sample_deposit 20 200] \<and> es_ContractBalance (cs_OurState cs') = 130"
  using confirmed_deposits_applied [of sample_queue sample_env 10]
  by (auto simp: sample_queue_def sample_deposit_def IsTransactionConfirmed_def confirmed_balances_def)

end
