(* ===== verification/Pylons_Routing.thy ===== *)
theory Pylons_Routing
  imports Pylons_Node
begin

text \<open>
  The search for a route: the depth-first search over the graph of known channels (\<open>route/dfs.go\<close>,
  \<open>route/route.go\<close>) and the choice of the first hop (\<open>service/route.go\<close>). A path is listed from the target
  back to the sender. \<open>order\<close> is the order in which Go visits the neighbours of a node.
\<close>

section \<open>The graph\<close>

type_synonym Path = "Address list"

text \<open>\<open>sp\<close> is the list of the paths found so far.\<close>

record Topology =
  tp_nodes :: "(Address, goint) smap"
  tp_edges :: "(Address, (Address, goint) smap) smap"
  tp_sp :: "Path list"

definition GetAddr1 :: "EdgeId \<Rightarrow> Address" where
  "GetAddr1 edge = ucast (drop_bit 160 edge)"

definition GetAddr2 :: "EdgeId \<Rightarrow> Address" where
  "GetAddr2 edge = ucast edge"

definition NewTopology ::
  "(Address, goint) smap \<Rightarrow> (EdgeId, goint) smap \<Rightarrow> Address list \<Rightarrow> Topology" where
  "NewTopology nodes edges previousAddrs =
     \<lparr>tp_nodes = foldl (\<lambda>m (addr, v). if \<not> AddressContains previousAddrs addr then smap_store addr v m else m) [] nodes,
      tp_edges = foldl (\<lambda>m (edge, v).
          let addr1 = GetAddr1 edge; addr2 = GetAddr2 edge
          in if \<not> AddressContains previousAddrs addr1 \<and> \<not> AddressContains previousAddrs addr2
             then smap_store addr1
               (smap_store addr2 v (case smap_load m addr1 of Some vs \<Rightarrow> vs | None \<Rightarrow> [])) m
             else m) [] edges,
      tp_sp = []\<rparr>"

definition neighbours :: "(Address, (Address, goint) smap) smap \<Rightarrow> Address \<Rightarrow> Address list" where
  "neighbours edges a = (case smap_load edges a of Some vs \<Rightarrow> map fst vs | None \<Rightarrow> [])"

section \<open>Depth-first search\<close>

text \<open>What is left to visit; the flag covers a search that starts at an address of its own path.\<close>

definition unvisited :: "Address \<Rightarrow> Path \<Rightarrow> nat" where
  "unvisited to path = 2 * card (UNIV - set path) + (if to \<in> set path then 1 else 0)"

lemma unvisited_less:
  assumes "n \<notin> set (path @ [to])"
  shows "unvisited n (path @ [to]) < unvisited to path"
proof (cases "to \<in> set path")
  case True
  with assms show ?thesis by (simp add: unvisited_def insert_absorb)
next
  case False
  then have "card (UNIV - set (path @ [to])) < card (UNIV - set path)"
    by (intro psubset_card_mono) auto
  with False assms show ?thesis by (simp add: unvisited_def)
qed

text \<open>
  The search goes from the target to the sender and collects a path whenever it arrives. It ends because a
  path never visits an address twice and there are finitely many.
\<close>

function searchPathDFSTarget ::
  "(Address list \<Rightarrow> Address list) \<Rightarrow> (Address, (Address, goint) smap) smap \<Rightarrow> Address \<Rightarrow> Address \<Rightarrow> Path
     \<Rightarrow> Path list \<Rightarrow> Path list" where
  "searchPathDFSTarget order edges from to path sp =
     (let path1 = path @ [to]
      in if to = from then sp @ [path1]
         else if path1 \<in> set sp then sp
         else foldl (\<lambda>sp1 n. if n \<in> set path1 then sp1 else searchPathDFSTarget order edges from n path1 sp1)
                sp (order (neighbours edges to)))"
  by pat_completeness auto

termination
  by (relation "measure (\<lambda>(order, edges, from, to, path, sp). unvisited to path)")
    (auto simp only: wf_measure in_measure case_prod_conv intro: unvisited_less)

declare searchPathDFSTarget.simps [simp del]

definition GetPairPath :: "(Address list \<Rightarrow> Address list) \<Rightarrow> Topology \<Rightarrow> Address \<Rightarrow> Address \<Rightarrow> Path list" where
  "GetPairPath order t from to =
     (if length (tp_nodes t) = 0 \<or> length (tp_edges t) = 0 then []
      else searchPathDFSTarget order (tp_edges t) from to [] (tp_sp t))"

text \<open>
  The sorted paths. Go's sort leaves the order of paths of equal length open; only the sort by length is relied
  on. When the graph is empty, the paths of the topology, none, are sorted and returned.
\<close>

definition GetPairPathSorted :: "(Address list \<Rightarrow> Address list) \<Rightarrow> Topology \<Rightarrow> Address \<Rightarrow> Address \<Rightarrow> Path list" where
  "GetPairPathSorted order t from to =
     sort_key length (if length (tp_nodes t) = 0 \<or> length (tp_edges t) = 0 then tp_sp t else GetPairPath order t from to)"

section \<open>Paths\<close>

text \<open>A simple path from \<open>to\<close> back to \<open>from\<close> along the edges.\<close>

fun linked :: "(Address, (Address, goint) smap) smap \<Rightarrow> Path \<Rightarrow> bool" where
  "linked edges (a # b # p) \<longleftrightarrow> b \<in> set (neighbours edges a) \<and> linked edges (b # p)"
| "linked edges _ \<longleftrightarrow> True"

definition simple_path :: "(Address, (Address, goint) smap) smap \<Rightarrow> Address \<Rightarrow> Address \<Rightarrow> Path \<Rightarrow> bool" where
  "simple_path edges from to p \<longleftrightarrow> p \<noteq> [] \<and> hd p = to \<and> last p = from \<and> distinct p \<and> linked edges p"

text \<open>The search as a function of the graph: the continuations of a path.\<close>

definition conts :: "(Address, (Address, goint) smap) smap \<Rightarrow> Address \<Rightarrow> Address \<Rightarrow> Path \<Rightarrow> Path set" where
  "conts edges from to path = {path @ p | p. simple_path edges from to p \<and> set p \<inter> set path = {}}"

lemma simple_path_Cons:
  "simple_path edges from to (to # n # q) \<longleftrightarrow>
     to \<noteq> from \<and> n \<in> set (neighbours edges to) \<and> to \<notin> set (n # q) \<and> simple_path edges from n (n # q)"
  by (auto simp: simple_path_def)

lemma simple_path_here: "simple_path edges to to p \<longleftrightarrow> p = [to]"
proof (cases p)
  case (Cons x q)
  then show ?thesis by (cases q) (auto simp: simple_path_def)
qed (simp add: simple_path_def)

lemma conts_arrived: "to \<notin> set path \<Longrightarrow> conts edges to to path = {path @ [to]}"
  by (auto simp: conts_def simple_path_here)

lemma conts_step:
  assumes "to \<noteq> from" and "to \<notin> set path"
  shows "conts edges from to path =
    (\<Union>n \<in> {n \<in> set (neighbours edges to). n \<notin> set (path @ [to])}. conts edges from n (path @ [to]))"
proof (intro equalityI subsetI)
  fix x assume "x \<in> conts edges from to path"
  then obtain p where x: "x = path @ p" and p: "simple_path edges from to p" and d: "set p \<inter> set path = {}"
    by (auto simp: conts_def)
  from p assms(1) obtain n q where "p = to # n # q"
    unfolding simple_path_def by (metis last_ConsL list.collapse)
  with x p d show "x \<in> (\<Union>n \<in> {n \<in> set (neighbours edges to). n \<notin> set (path @ [to])}. conts edges from n (path @ [to]))"
    by (auto simp: conts_def simple_path_Cons)
next
  fix x assume "x \<in> (\<Union>n \<in> {n \<in> set (neighbours edges to). n \<notin> set (path @ [to])}. conts edges from n (path @ [to]))"
  then obtain n q where n: "n \<in> set (neighbours edges to)" and x: "x = (path @ [to]) @ q"
    and q: "simple_path edges from n q" and d: "set q \<inter> set (path @ [to]) = {}"
    by (auto simp: conts_def)
  from q obtain r where "q = n # r" by (cases q) (auto simp: simple_path_def)
  with n q d assms have "simple_path edges from to (to # q)" by (auto simp: simple_path_Cons)
  with x d assms(2) show "x \<in> conts edges from to path" by (auto simp: conts_def)
qed

lemma conts_last: "x \<in> conts edges from to path \<Longrightarrow> last x = from"
  by (auto simp: conts_def simple_path_def)

lemma conts_nth:
  assumes "x \<in> conts edges from to path" shows "x ! length path = to"
proof -
  from assms obtain p where "x = path @ p" and "p \<noteq> []" and "hd p = to" by (auto simp: conts_def simple_path_def)
  then show ?thesis by (cases p) simp_all
qed

text \<open>A list of new paths: what a search adds to the paths found before.\<close>

definition adds :: "Path list \<Rightarrow> Path list \<Rightarrow> Path set \<Rightarrow> bool" where
  "adds sp sp' A \<longleftrightarrow> (\<exists>ps. sp' = sp @ ps \<and> set ps = A \<and> distinct ps)"

text \<open>
  A loop over the neighbours that are not on the path. \<open>C n\<close> is what the search from \<open>n\<close> adds, \<open>F n\<close> the paths
  that must not have been found before it starts.
\<close>

lemma adds_loop:
  assumes "distinct ns" and "\<And>n sp. n \<in> set ns \<Longrightarrow> n \<notin> set path \<Longrightarrow> set sp \<inter> F n = {} \<Longrightarrow> adds sp (g n sp) (C n)"
    and "\<And>m n. m \<noteq> n \<Longrightarrow> C m \<inter> F n = {}" and "\<And>m n. m \<noteq> n \<Longrightarrow> C m \<inter> C n = {}"
    and "\<And>n. n \<in> set ns \<Longrightarrow> set sp \<inter> F n = {}"
  shows "adds sp (foldl (\<lambda>sp n. if n \<in> set path then sp else g n sp) sp ns)
    (\<Union>n \<in> {n \<in> set ns. n \<notin> set path}. C n)"
  using assms(1,2,5)
proof (induction ns arbitrary: sp)
  case Nil
  then show ?case by (simp add: adds_def)
next
  case (Cons n ns)
  let ?U = "\<Union>m \<in> {m \<in> set ns. m \<notin> set path}. C m"
  show ?case
  proof (cases "n \<in> set path")
    case True
    have eq: "{m \<in> set (n # ns). m \<notin> set path} = {m \<in> set ns. m \<notin> set path}" using True by auto
    have "adds sp (foldl (\<lambda>sp n. if n \<in> set path then sp else g n sp) sp ns) ?U"
      using Cons.prems by (intro Cons.IH) simp_all
    with True show ?thesis unfolding eq by simp
  next
    case False
    from Cons.prems(2) [of n sp] False Cons.prems(3) obtain ps where g: "g n sp = sp @ ps"
      and ps: "set ps = C n" "distinct ps"
      by (auto simp: adds_def)
    have "set (g n sp) \<inter> F m = {}" if "m \<in> set ns" for m
      using that Cons.prems(1,3) assms(3) [of n m] by (auto simp: g ps)
    then have "adds (g n sp) (foldl (\<lambda>sp n. if n \<in> set path then sp else g n sp) (g n sp) ns) ?U"
      using Cons.prems(1,2) by (intro Cons.IH) simp_all
    then obtain qs where qs: "foldl (\<lambda>sp n. if n \<in> set path then sp else g n sp) (g n sp) ns = g n sp @ qs"
      "set qs = ?U" "distinct qs"
      by (auto simp: adds_def)
    have "C n \<inter> C m = {}" if "m \<in> set ns" for m using that Cons.prems(1) by (intro assms(4)) auto
    then have "set ps \<inter> set qs = {}" unfolding ps qs by blast
    moreover have "set (ps @ qs) = (\<Union>m \<in> {m \<in> set (n # ns). m \<notin> set path}. C m)"
      using False by (auto simp: ps qs)
    ultimately show ?thesis using False ps(2) qs by (auto simp: adds_def g intro!: exI [of _ "ps @ qs"])
  qed
qed

text \<open>The search adds exactly the continuations of its path, each once.\<close>

lemma searchPathDFSTarget_adds:
  assumes "map_order order" and "\<And>a. distinct (neighbours edges a)"
    and "to \<notin> set path" and "\<forall>p \<in> set sp. last p = from"
  shows "adds sp (searchPathDFSTarget order edges from to path sp) (conts edges from to path)"
  using assms(3,4)
proof (induction "unvisited to path" arbitrary: to path sp rule: less_induct)
  case less
  show ?case
  proof (cases "to = from")
    case True
    then show ?thesis using less.prems(1) conts_arrived [of "from" path edges]
      by (subst searchPathDFSTarget.simps) (auto simp: adds_def Let_def)
  next
    case False
    have "path @ [to] \<notin> set sp" using less.prems(2) False by force
    then have s: "searchPathDFSTarget order edges from to path sp =
        foldl (\<lambda>sp n. if n \<in> set (path @ [to]) then sp else searchPathDFSTarget order edges from n (path @ [to]) sp)
          sp (order (neighbours edges to))"
      using False by (subst searchPathDFSTarget.simps) (simp add: Let_def)
    have d: "distinct (order (neighbours edges to))" and m: "set (order (neighbours edges to)) = set (neighbours edges to)"
      using assms(1,2) by (metis map_order_def mset_eq_imp_distinct_iff, metis assms(1) map_order_set)
    show ?thesis unfolding s conts_step [OF False less.prems(1)] m [symmetric]
    proof (rule adds_loop [OF d, where F = "\<lambda>n. {p. last p \<noteq> from}"])
      fix n sp0 assume "n \<notin> set (path @ [to])" and "set sp0 \<inter> {p. last p \<noteq> from} = {}"
      then show "adds sp0 (searchPathDFSTarget order edges from n (path @ [to]) sp0) (conts edges from n (path @ [to]))"
        by (intro less.hyps unvisited_less) blast+
    next
      fix m n :: Address assume "m \<noteq> n"
      then show "conts edges from m (path @ [to]) \<inter> conts edges from n (path @ [to]) = {}"
        by (auto dest!: conts_nth)
    qed (use less.prems(2) conts_last in blast)+
  qed
qed

definition topology_ok :: "Topology \<Rightarrow> bool" where
  "topology_ok t \<longleftrightarrow> tp_sp t = [] \<and> (\<forall>a. distinct (neighbours (tp_edges t) a))"

lemma GetPairPathSorted_exact:
  assumes "map_order order" and "topology_ok t"
  shows "set (GetPairPathSorted order t from to) =
      (if length (tp_nodes t) = 0 \<or> length (tp_edges t) = 0 then {} else {p. simple_path (tp_edges t) from to p})"
    and "distinct (GetPairPathSorted order t from to)"
    and "sorted (map length (GetPairPathSorted order t from to))"
proof -
  have "adds [] (searchPathDFSTarget order (tp_edges t) from to [] []) (conts (tp_edges t) from to [])"
    using assms by (intro searchPathDFSTarget_adds) (simp_all add: topology_ok_def)
  then show "set (GetPairPathSorted order t from to) =
      (if length (tp_nodes t) = 0 \<or> length (tp_edges t) = 0 then {} else {p. simple_path (tp_edges t) from to p})"
    and "distinct (GetPairPathSorted order t from to)"
    using assms(2) by (auto simp: GetPairPathSorted_def GetPairPath_def adds_def conts_def topology_ok_def)
  show "sorted (map length (GetPairPathSorted order t from to))" by (simp add: GetPairPathSorted_def)
qed

section \<open>All paths from an address\<close>

function searchPathDFS ::
  "(Address list \<Rightarrow> Address list) \<Rightarrow> (Address, (Address, goint) smap) smap \<Rightarrow> Address \<Rightarrow> Path
     \<Rightarrow> Path list \<Rightarrow> Path list" where
  "searchPathDFS order edges from path sp =
     (let path1 = path @ [from]
      in if path1 \<in> set sp then sp
         else foldl (\<lambda>sp1 n. if n \<in> set path1 then sp1 else searchPathDFS order edges n path1 sp1)
                (sp @ [path1]) (order (neighbours edges from)))"
  by pat_completeness auto

termination
  by (relation "measure (\<lambda>(order, edges, from, path, sp). unvisited from path)")
    (auto simp only: wf_measure in_measure case_prod_conv intro: unvisited_less)

declare searchPathDFS.simps [simp del]

definition GetAllPath :: "(Address list \<Rightarrow> Address list) \<Rightarrow> Topology \<Rightarrow> Address \<Rightarrow> Path list" where
  "GetAllPath order t from =
     (if length (tp_nodes t) = 0 \<or> length (tp_edges t) = 0 then []
      else searchPathDFS order (tp_edges t) from [] (tp_sp t))"

definition GetAllPathSorted :: "(Address list \<Rightarrow> Address list) \<Rightarrow> Topology \<Rightarrow> Address \<Rightarrow> Path list" where
  "GetAllPathSorted order t from =
     sort_key length (if length (tp_nodes t) = 0 \<or> length (tp_edges t) = 0 then tp_sp t else GetAllPath order t from)"

text \<open>The simple paths that start with a given path.\<close>

definition exts :: "(Address, (Address, goint) smap) smap \<Rightarrow> Address \<Rightarrow> Path \<Rightarrow> Path set" where
  "exts edges from path = {path @ p | p to. simple_path edges to from p \<and> set p \<inter> set path = {}}"

lemma exts_conts: "exts edges from path = (\<Union>to. conts edges to from path)"
  by (auto simp: exts_def conts_def)

lemma exts_step:
  assumes "from \<notin> set path"
  shows "exts edges from path = insert (path @ [from])
    (\<Union>n \<in> {n \<in> set (neighbours edges from). n \<notin> set (path @ [from])}. exts edges n (path @ [from]))"
    (is "_ = insert ?p1 ?U")
proof (intro equalityI subsetI)
  fix x assume "x \<in> exts edges from path"
  then obtain to where x: "x \<in> conts edges to from path" by (auto simp: exts_conts)
  show "x \<in> insert ?p1 ?U"
  proof (cases "to = from")
    case True
    with x assms show ?thesis by (simp add: conts_arrived)
  next
    case False
    with x conts_step [of "from" to path edges] assms show ?thesis by (auto simp: exts_conts)
  qed
next
  fix x assume "x \<in> insert ?p1 ?U"
  then show "x \<in> exts edges from path"
  proof
    assume "x = ?p1"
    with conts_arrived [OF assms] show ?thesis by (auto simp: exts_conts)
  next
    assume "x \<in> ?U"
    then obtain n to where n: "n \<in> set (neighbours edges from)" "n \<notin> set (path @ [from])"
      and x: "x \<in> conts edges to n (path @ [from])"
      by (auto simp: exts_conts)
    have "to \<notin> set (path @ [from])"
    proof -
      from x obtain q where q: "simple_path edges to n q" "set q \<inter> set (path @ [from]) = {}" by (auto simp: conts_def)
      then have "to \<in> set q" by (auto simp: simple_path_def)
      with q(2) show ?thesis by blast
    qed
    then have "from \<noteq> to" by auto
    from conts_step [OF this assms, of edges] n x show ?thesis by (auto simp: exts_conts)
  qed
qed

lemma exts_prefix: "x \<in> exts edges from path \<Longrightarrow> take (Suc (length path)) x = path @ [from]"
  by (auto simp: exts_def simple_path_def) (metis hd_Cons_tl take0 take_Suc_Cons)

lemma searchPathDFS_adds:
  assumes "map_order order" and "\<And>a. distinct (neighbours edges a)"
    and "from \<notin> set path" and "set sp \<inter> exts edges from path = {}"
  shows "adds sp (searchPathDFS order edges from path sp) (exts edges from path)"
  using assms(3,4)
proof (induction "unvisited from path" arbitrary: "from" path sp rule: less_induct)
  case less
  let ?p1 = "path @ [from]"
  have "?p1 \<notin> set sp" using less.prems by (auto simp: exts_step)
  then have s: "searchPathDFS order edges from path sp =
      foldl (\<lambda>sp n. if n \<in> set ?p1 then sp else searchPathDFS order edges n ?p1 sp) (sp @ [?p1]) (order (neighbours edges from))"
    by (subst searchPathDFS.simps) (simp add: Let_def)
  have d: "distinct (order (neighbours edges from))"
    and m: "set (order (neighbours edges from)) = set (neighbours edges from)"
    using assms(1,2) by (metis map_order_def mset_eq_imp_distinct_iff, metis assms(1) map_order_set)
  have len: "Suc (length ?p1) \<le> length x" if "x \<in> exts edges n ?p1" for x n
    using exts_prefix [OF that] by (metis length_append_singleton length_take min.cobounded1)
  have "adds (sp @ [?p1]) (searchPathDFS order edges from path sp)
      (\<Union>n \<in> {n \<in> set (order (neighbours edges from)). n \<notin> set ?p1}. exts edges n ?p1)"
    unfolding s
  proof (rule adds_loop [OF d, where F = "\<lambda>n. exts edges n ?p1"])
    fix n sp0 assume "n \<notin> set ?p1" and "set sp0 \<inter> exts edges n ?p1 = {}"
    then show "adds sp0 (searchPathDFS order edges n ?p1 sp0) (exts edges n ?p1)"
      by (intro less.hyps unvisited_less)
  next
    fix m n :: Address assume "m \<noteq> n"
    then show "exts edges m ?p1 \<inter> exts edges n ?p1 = {}" by (auto dest!: exts_prefix)
    then show "exts edges m ?p1 \<inter> exts edges n ?p1 = {}" .
  next
    fix n assume "n \<in> set (order (neighbours edges from))"
    show "set (sp @ [?p1]) \<inter> exts edges n ?p1 = {}"
    proof (cases "n \<in> set ?p1")
      case True
      then have "exts edges n ?p1 = {}" by (auto simp: exts_def simple_path_def) (metis disjoint_iff list.set_sel(1))+
      then show ?thesis by simp
    next
      case False
      with less.prems(2) \<open>n \<in> _\<close> m have "set sp \<inter> exts edges n ?p1 = {}"
        unfolding exts_step [OF less.prems(1)] by blast
      then show ?thesis using len by fastforce
    qed
  qed
  then show ?case unfolding exts_step [OF less.prems(1)] m
    using len by (fastforce simp: adds_def)
qed

lemma GetAllPathSorted_exact:
  assumes "map_order order" and "topology_ok t"
  shows "set (GetAllPathSorted order t from) =
      (if length (tp_nodes t) = 0 \<or> length (tp_edges t) = 0 then {} else {p. \<exists>to. simple_path (tp_edges t) to from p})"
    and "distinct (GetAllPathSorted order t from)"
    and "sorted (map length (GetAllPathSorted order t from))"
proof -
  have "adds [] (searchPathDFS order (tp_edges t) from [] []) (exts (tp_edges t) from [])"
    using assms by (intro searchPathDFS_adds) (simp_all add: topology_ok_def)
  then show "set (GetAllPathSorted order t from) =
      (if length (tp_nodes t) = 0 \<or> length (tp_edges t) = 0 then {} else {p. \<exists>to. simple_path (tp_edges t) to from p})"
    and "distinct (GetAllPathSorted order t from)"
    using assms(2) by (auto simp: GetAllPathSorted_def GetAllPath_def adds_def exts_def topology_ok_def)
  show "sorted (map length (GetAllPathSorted order t from))" by (simp add: GetAllPathSorted_def)
qed

section \<open>The topology of a network\<close>

lemma GetAddr_edgeId [simp]: "GetAddr1 (edgeId a b) = a" "GetAddr2 (edgeId a b) = b"
  by (rule bit_word_eqI; simp add: GetAddr1_def GetAddr2_def edgeId_def bit_simps bit_word_cat_iff)+

text \<open>Storing edges in the map of maps.\<close>

lemma fst_smap_store [simp]: "fst ` set (smap_store b v vs) = insert b (fst ` set vs)"
  by (simp add: smap_store_def dom_update)

lemma neighbours_store:
  "set (neighbours (smap_store a (smap_store b v (case smap_load m a of Some vs \<Rightarrow> vs | None \<Rightarrow> [])) m) c) =
     (if c = a then insert b (set (neighbours m c)) else set (neighbours m c))"
proof (cases "smap_load m a")
  case (Some vs)
  then show ?thesis by (auto simp: neighbours_def)
qed (simp add: neighbours_def)

definition inner_ok :: "(Address, (Address, goint) smap) smap \<Rightarrow> bool" where
  "inner_ok m \<longleftrightarrow> (\<forall>a vs. smap_load m a = Some vs \<longrightarrow> smap_ok vs)"

lemma inner_ok_store:
  "inner_ok m \<Longrightarrow> inner_ok (smap_store a (smap_store b v (case smap_load m a of Some vs \<Rightarrow> vs | None \<Rightarrow> [])) m)"
  by (auto simp: inner_ok_def split: option.split)

lemma inner_ok_distinct: "inner_ok m \<Longrightarrow> distinct (neighbours m a)"
  by (auto simp: inner_ok_def neighbours_def smap_ok_def split: option.split)

lemma topology_fold:
  fixes bl :: "Address list"
  defines "f \<equiv> \<lambda>m (edge, v :: goint). let addr1 = GetAddr1 edge; addr2 = GetAddr2 edge
      in if \<not> AddressContains bl addr1 \<and> \<not> AddressContains bl addr2
         then smap_store addr1 (smap_store addr2 v (case smap_load m addr1 of Some vs \<Rightarrow> vs | None \<Rightarrow> [])) m else m"
  shows "inner_ok m \<Longrightarrow> inner_ok (foldl f m edges)"
    and "set (neighbours (foldl f m edges) a) = set (neighbours m a) \<union>
      {b. a \<notin> set bl \<and> b \<notin> set bl \<and> (\<exists>x \<in> set edges. GetAddr1 (fst x) = a \<and> GetAddr2 (fst x) = b)}"
proof (induction edges arbitrary: m)
  case (Cons x edges)
  {
    case 1
    then show ?case using Cons(1) [of "f m x"] inner_ok_store by (simp add: f_def Let_def case_prod_beta)
  next
    case 2
    show ?case using Cons(2) [of "f m x"] neighbours_store
      by (auto simp: f_def Let_def case_prod_beta AddressContains_iff)
  }
qed simp_all

lemma NewTopology_ok: "topology_ok (NewTopology nodes edges bl)"
proof -
  have "inner_ok []" by (simp add: inner_ok_def)
  from inner_ok_distinct [OF topology_fold(1) [OF this]] show ?thesis
    by (simp add: topology_ok_def NewTopology_def)
qed

lemma NewTopology_edges:
  "b \<in> set (neighbours (tp_edges (NewTopology nodes edges bl)) a) \<longleftrightarrow>
     a \<notin> set bl \<and> b \<notin> set bl \<and> (\<exists>x \<in> set edges. GetAddr1 (fst x) = a \<and> GetAddr2 (fst x) = b)"
proof -
  have "neighbours [] a = []" by (simp add: neighbours_def)
  with topology_fold(2) [of bl "[]" edges a] show ?thesis by (auto simp: NewTopology_def)
qed

end
