(* ===== verification/Pylons_Dijkstra.thy ===== *)
theory Pylons_Dijkstra
  imports Pylons_Routing
begin

text \<open>
  The weighted search for a route (\<open>route/dijkstra.go\<close>). The code lists a path from the sender on and turns it
  round at the end; the lemmas work with the turned path, which starts at the address that was reached, as the
  paths of the depth-first search do. Weights are \<open>int64\<close> values, added with wrap-around and compared as
  signed numbers.
\<close>

section \<open>The directed graph\<close>

record Vertex =
  vx_From :: "(Address, goint) smap"
  vx_To :: "(Address, goint) smap"

type_synonym DirectedGraph = "(Address, Vertex) smap"

text \<open>An edge between two vertices that exist is entered at both ends.\<close>

definition add_node :: "Address list \<Rightarrow> DirectedGraph \<Rightarrow> Address \<times> goint \<Rightarrow> DirectedGraph" where
  "add_node blacklist g node =
     (if fst node \<notin> set blacklist then smap_store (fst node) \<lparr>vx_From = [], vx_To = []\<rparr> g else g)"

definition add_edge :: "DirectedGraph \<Rightarrow> EdgeId \<times> goint \<Rightarrow> DirectedGraph" where
  "add_edge g e =
     (let addr1 = GetAddr1 (fst e); addr2 = GetAddr2 (fst e)
      in case smap_load g addr1 of
           None \<Rightarrow> g
         | Some v1 \<Rightarrow>
             (case smap_load g addr2 of
                None \<Rightarrow> g
              | Some _ \<Rightarrow>
                  (let g1 = smap_store addr1 (v1\<lparr>vx_From := smap_store addr2 (snd e) (vx_From v1)\<rparr>) g
                   in case smap_load g1 addr2 of
                        Some v2 \<Rightarrow> smap_store addr2 (v2\<lparr>vx_To := smap_store addr1 (snd e) (vx_To v2)\<rparr>) g1
                      | None \<Rightarrow> g1)))"

definition NewDirectGraph ::
  "(Address, goint) smap \<Rightarrow> (EdgeId, goint) smap \<Rightarrow> Address list \<Rightarrow> DirectedGraph" where
  "NewDirectGraph nodes edges blacklist = foldl add_edge (foldl (add_node blacklist) [] nodes) edges"

section \<open>The search\<close>

definition MaxInt64 :: goint where
  "MaxInt64 = 0x7FFFFFFFFFFFFFFF"

type_synonym dij = "(Address, goint) smap \<times> (Address, goint) smap \<times> (Address, Path) smap"

text \<open>A neighbour of \<open>from\<close> is entered, and gets a new path when that is shorter.\<close>

definition relax :: "(Address, goint) smap \<Rightarrow> Address \<Rightarrow> (Address, goint) smap \<times> (Address, Path) smap
     \<Rightarrow> Address \<times> goint \<Rightarrow> (Address, goint) smap \<times> (Address, Path) smap" where
  "relax prev from = (\<lambda>(dst, pathList) (node, distance).
     let dist1 = (if smap_load dst node = None then smap_store node MaxInt64 dst else dst)
     in if smap_load prev node \<noteq> None then (dist1, pathList)
        else let a = (case smap_load dist1 from of Some d \<Rightarrow> d | None \<Rightarrow> 0) + distance;
                 b = (case smap_load dist1 node of Some d \<Rightarrow> d | None \<Rightarrow> 0)
             in if a <s b
                then (smap_store node a dist1,
                      smap_store node ((case smap_load pathList from of Some p \<Rightarrow> p | None \<Rightarrow> []) @ [node]) pathList)
                else (dist1, pathList))"

text \<open>The nearest node that is not settled; the target wins a tie.\<close>

definition nearest :: "(Address, goint) smap \<Rightarrow> Address \<Rightarrow> Address \<times> goint \<Rightarrow> Address \<times> goint \<Rightarrow> Address \<times> goint" where
  "nearest prev to = (\<lambda>(nearestNode, minDistance) (node, distance).
     if smap_load prev node \<noteq> None then (nearestNode, minDistance)
     else let (n1, m1) = (if distance <s minDistance then (node, distance) else (nearestNode, minDistance))
          in if distance = m1 \<and> node = to then (node, distance) else (n1, m1))"

lemma nearest_unsettled:
  "foldl (nearest prev to) (n0, MaxInt64) ds = (n, m) \<Longrightarrow> m \<noteq> MaxInt64 \<Longrightarrow> smap_load prev n = None"
proof (induction ds arbitrary: n m rule: rev_induct)
  case (snoc x ds)
  obtain n1 m1 where r: "foldl (nearest prev to) (n0, MaxInt64) ds = (n1, m1)" by fastforce
  obtain node d where x: "x = (node, d)" by fastforce
  from snoc.prems(1) have "nearest prev to (n1, m1) (node, d) = (n, m)" by (simp add: r x)
  then show ?case using snoc.IH [OF r] snoc.prems(2) by (auto simp: nearest_def Let_def split: if_splits)
qed simp

text \<open>What is left to settle.\<close>

definition unsettled :: "(Address, goint) smap \<Rightarrow> nat" where
  "unsettled prev = card {a :: Address. smap_load prev a = None}"

lemma unsettled_less: "smap_load prev n = None \<Longrightarrow> unsettled (smap_store n v prev) < unsettled prev"
  unfolding unsettled_def by (rule psubset_card_mono) auto

function searchPathDijkstra ::
  "((Address \<times> goint) list \<Rightarrow> (Address \<times> goint) list) \<Rightarrow> DirectedGraph \<Rightarrow> (Address, goint) smap
     \<Rightarrow> (Address, goint) smap \<Rightarrow> Address \<Rightarrow> Address \<Rightarrow> (Address, Path) smap \<Rightarrow> (Address, Path) smap" where
  "searchPathDijkstra order g dst prev from to pathList =
     (if from = to then pathList
      else let (dist1, pathList1) = foldl (relax prev from) (dst, pathList)
                 (order (case smap_load g from of Some v \<Rightarrow> vx_To v | None \<Rightarrow> []));
               (nearestNode, minDistance) = foldl (nearest prev to) (0, MaxInt64) (order dist1)
           in if minDistance = MaxInt64 then pathList1
              else searchPathDijkstra order g dist1 (if smap_load prev nearestNode = None then smap_store nearestNode (of_nat (length prev)) prev else prev)
                     nearestNode to pathList1)"
  by pat_completeness auto

termination
proof (relation "measure (\<lambda>(order, g, dst, prev, from, to, pathList). unsettled prev)", goal_cases)
  case (2 order g dst prev "from" to pathList x d1 p1 y n m)
  then have r: "foldl (nearest prev to) (0, MaxInt64) (order d1) = (n, m)" and "m \<noteq> MaxInt64" by simp_all
  from nearest_unsettled [OF this] show ?case by (auto simp: unsettled_less)
qed simp

declare searchPathDijkstra.simps [simp del]

definition GetPairShortestPath ::
  "((Address \<times> goint) list \<Rightarrow> (Address \<times> goint) list) \<Rightarrow> DirectedGraph \<Rightarrow> Address \<Rightarrow> Address \<Rightarrow> Path list" where
  "GetPairShortestPath order g from to =
     (let pathList = searchPathDijkstra order g [(from, 0)] [(from, 0)] from to [(from, [from])]
      in [rev (case smap_load pathList to of Some p \<Rightarrow> p | None \<Rightarrow> [])])"

section \<open>Weighted paths\<close>

text \<open>The weight of the edge by which \<open>a\<close> is reached from \<open>b\<close>.\<close>

definition weightOf :: "DirectedGraph \<Rightarrow> Address \<Rightarrow> Address \<Rightarrow> goint option" where
  "weightOf g a b = (case smap_load g b of Some v \<Rightarrow> smap_load (vx_To v) a | None \<Rightarrow> None)"

fun dlinked :: "DirectedGraph \<Rightarrow> Path \<Rightarrow> bool" where
  "dlinked g (a # b # p) \<longleftrightarrow> weightOf g a b \<noteq> None \<and> dlinked g (b # p)"
| "dlinked g _ \<longleftrightarrow> True"

fun plen :: "DirectedGraph \<Rightarrow> Path \<Rightarrow> int" where
  "plen g (a # b # p) = (case weightOf g a b of Some w \<Rightarrow> sint w | None \<Rightarrow> 0) + plen g (b # p)"
| "plen g _ = 0"

text \<open>A path from \<open>from\<close> to \<open>to\<close>, listed from its end.\<close>

definition walk :: "DirectedGraph \<Rightarrow> Address \<Rightarrow> Address \<Rightarrow> Path \<Rightarrow> bool" where
  "walk g from to p \<longleftrightarrow> p \<noteq> [] \<and> hd p = to \<and> last p = from \<and> dlinked g p"

text \<open>Weights are not negative, and no path without a cycle is as heavy as \<open>MaxInt64\<close>.\<close>

definition weights_ok :: "DirectedGraph \<Rightarrow> int \<Rightarrow> bool" where
  "weights_ok g W \<longleftrightarrow> (\<forall>a b w. weightOf g a b = Some w \<longrightarrow> 0 \<le> sint w \<and> sint w \<le> W) \<and> 0 \<le> W
     \<and> int (card (fst ` set g)) * W < 2 ^ 63 - 1"

lemma weights_okD: "weights_ok g W \<Longrightarrow> weightOf g a b = Some w \<Longrightarrow> 0 \<le> sint w \<and> sint w \<le> W"
  by (simp add: weights_ok_def)

lemma weightOf_dom: "weightOf g a b \<noteq> None \<Longrightarrow> b \<in> fst ` set g"
  by (auto simp: weightOf_def dest: smap_load_SomeD split: option.splits intro: rev_image_eqI)

lemma walk_Cons: "walk g from a (a # b # r) \<longleftrightarrow> weightOf g a b \<noteq> None \<and> walk g from b (b # r)"
  by (auto simp: walk_def)

lemma walk_single [simp]: "walk g from a [b] \<longleftrightarrow> a = b \<and> b = from"
  by (auto simp: walk_def)

lemma walk_obtain:
  assumes "walk g from to p" obtains r where "p = to # r"
  using assms by (cases p) (auto simp: walk_def)

lemma plen_nonneg: "weights_ok g W \<Longrightarrow> 0 \<le> plen g p"
  by (induction g p rule: plen.induct) (auto dest: weights_okD split: option.split)

lemma plen_le: "weights_ok g W \<Longrightarrow> plen g (a # p) \<le> int (length p) * W"
proof (induction p arbitrary: a)
  case (Cons b p)
  have "(case weightOf g a b of Some w \<Rightarrow> sint w | None \<Rightarrow> 0) \<le> W"
    using Cons.prems by (auto dest: weights_okD simp: weights_ok_def split: option.split)
  with Cons.IH [OF Cons.prems, of b] show ?case by (simp add: algebra_simps)
qed simp

lemma dlinked_dom: "dlinked g (a # p) \<Longrightarrow> set p \<subseteq> fst ` set g"
proof (induction p arbitrary: a)
  case (Cons b p)
  then show ?case using weightOf_dom [of g a b] by auto
qed simp

lemma plen_bound:
  assumes "weights_ok g W" and "dlinked g (a # p)" and "distinct p"
  shows "plen g (a # p) < 2 ^ 63 - 1"
proof -
  have "length p \<le> card (fst ` set g)"
    using card_mono [OF _ dlinked_dom [OF assms(2)]] assms(3) by (simp add: distinct_card)
  then have "int (length p) * W \<le> int (card (fst ` set g)) * W"
    using assms(1) by (intro mult_right_mono) (simp_all add: weights_ok_def)
  with plen_le [OF assms(1), of a p] assms(1) show ?thesis by (simp add: weights_ok_def)
qed

text \<open>A path that starts outside a set and ends in it crosses into it, and what follows is not heavier.\<close>

lemma walk_escape:
  assumes "weights_ok g W" and "walk g from x p" and "x \<notin> P" and "from \<in> P"
  obtains a b w q where "a \<notin> P" and "b \<in> P" and "weightOf g a b = Some w" and "walk g from b q"
    and "sint w + plen g q \<le> plen g p"
  using assms(2,3)
proof (induction p arbitrary: x thesis)
  case Nil
  then show ?case by (simp add: walk_def)
next
  case (Cons c p)
  then have c: "c = x" by (simp add: walk_def)
  show ?case
  proof (cases p)
    case Nil
    with Cons.prems c assms(4) show ?thesis by simp
  next
    case (Cons b r)
    with \<open>walk g from x (c # p)\<close> c obtain w where w: "weightOf g x b = Some w" and b: "walk g from b p"
      by (auto simp: walk_Cons)
    have l: "plen g (c # p) = sint w + plen g p" by (simp add: Cons c w)
    show ?thesis
    proof (cases "b \<in> P")
      case True
      with Cons.prems(1) [of x b w p] Cons.prems(3) w b l show ?thesis by simp
    next
      case False
      show ?thesis
      proof (rule Cons.IH [OF _ b False])
        fix a' b' w' q assume "a' \<notin> P" "b' \<in> P" "weightOf g a' b' = Some w'" "walk g from b' q"
          "sint w' + plen g q \<le> plen g p"
        moreover have "0 \<le> sint w" using weights_okD [OF assms(1) w] by simp
        ultimately show thesis using Cons.prems(1) [of a' b' w' q] l by simp
      qed
    qed
  qed
qed

section \<open>The invariant\<close>

text \<open>
  Every entry of \<open>dst\<close> has its path in \<open>pathList\<close>, through settled nodes and as heavy as the entry says; the
  entry of a settled node is the weight of a lightest path.
\<close>

definition has_path :: "DirectedGraph \<Rightarrow> Address \<Rightarrow> (Address, goint) smap \<Rightarrow> (Address, Path) smap \<Rightarrow> Address \<Rightarrow> goint \<Rightarrow> bool" where
  "has_path g src prev pathList x d \<longleftrightarrow> (\<exists>r. smap_load pathList x = Some (rev (x # r)) \<and> walk g src x (x # r)
     \<and> distinct (x # r) \<and> (\<forall>y \<in> set r. smap_load prev y \<noteq> None) \<and> sint d = plen g (x # r))"

definition lightest :: "DirectedGraph \<Rightarrow> Address \<Rightarrow> Address \<Rightarrow> goint \<Rightarrow> bool" where
  "lightest g src x d \<longleftrightarrow> (\<forall>p. walk g src x p \<longrightarrow> sint d \<le> plen g p)"

definition dij_core :: "DirectedGraph \<Rightarrow> Address \<Rightarrow> (Address, goint) smap \<Rightarrow> (Address, goint) smap \<Rightarrow> (Address, Path) smap \<Rightarrow> bool" where
  "dij_core g src dst prev pathList \<longleftrightarrow> smap_ok dst \<and> smap_load prev src \<noteq> None
     \<and> (\<forall>x. smap_load prev x \<noteq> None \<longrightarrow> (\<exists>d. smap_load dst x = Some d \<and> lightest g src x d))
     \<and> (\<forall>x d. smap_load dst x = Some d \<longrightarrow> has_path g src prev pathList x d)
     \<and> (\<forall>x. smap_load dst x = None \<longrightarrow> smap_load pathList x = None)"

lemma dij_coreD:
  assumes "dij_core g src dst prev pathList"
  shows "smap_ok dst" and "smap_load prev src \<noteq> None"
    and "smap_load prev x \<noteq> None \<Longrightarrow> \<exists>d. smap_load dst x = Some d \<and> lightest g src x d"
    and "smap_load dst x = Some d \<Longrightarrow> has_path g src prev pathList x d"
    and "smap_load dst x = None \<Longrightarrow> smap_load pathList x = None"
  using assms by (simp_all add: dij_core_def)

text \<open>The edge by which \<open>a\<close> is reached from a node at distance \<open>d\<close> has been used.\<close>

definition relaxed :: "(Address, goint) smap \<Rightarrow> goint \<Rightarrow> Address \<Rightarrow> goint \<Rightarrow> bool" where
  "relaxed dst d a w \<longleftrightarrow> (\<exists>d'. smap_load dst a = Some d' \<and> sint d' \<le> sint d + sint w)"

definition le_dst :: "(Address, goint) smap \<Rightarrow> (Address, goint) smap \<Rightarrow> bool" where
  "le_dst dst' dst \<longleftrightarrow> (\<forall>x d. smap_load dst x = Some d \<longrightarrow> (\<exists>d'. smap_load dst' x = Some d' \<and> sint d' \<le> sint d))"

lemma le_dst_refl [simp]: "le_dst dst dst"
  by (simp add: le_dst_def)

lemma le_dst_trans: "le_dst c b \<Longrightarrow> le_dst b a \<Longrightarrow> le_dst c a"
  unfolding le_dst_def by (meson order_trans)

lemma relaxed_le_dst: "le_dst dst' dst \<Longrightarrow> relaxed dst d a w \<Longrightarrow> relaxed dst' d a w"
  unfolding relaxed_def le_dst_def by (meson order_trans)

lemma sint_MaxInt64 [simp]: "sint MaxInt64 = 2 ^ 63 - 1"
  by (simp add: MaxInt64_def)

lemma has_path_less:
  assumes "weights_ok g W" and "has_path g src prev pathList x d"
  shows "0 \<le> sint d" "sint d < 2 ^ 63 - 1"
  using assms plen_nonneg [of g W] plen_bound [of g W x] by (auto simp: has_path_def walk_def)

lemma sint_add_small:
  fixes a b :: goint
  assumes "0 \<le> sint a" and "0 \<le> sint b" and "sint a + sint b < 2 ^ 63 - 1"
  shows "sint (a + b) = sint a + sint b"
proof -
  have "sint (a + b) = signed_take_bit 63 (sint a + sint b)" by (simp add: sint_word_ariths(1))
  also have "\<dots> = sint a + sint b" using assms by (intro signed_take_bit_int_eq_self) simp_all
  finally show ?thesis .
qed

lemma relax_core:
  assumes ok: "weights_ok g W" and core: "dij_core g src dst prev pathList"
    and cur: "smap_load prev cur \<noteq> None" and w: "weightOf g node cur = Some w"
    and r: "relax prev cur (dst, pathList) (node, w) = (dst', pathList')"
  shows "dij_core g src dst' prev pathList'" and "le_dst dst' dst"
    and "\<forall>x. smap_load prev x \<noteq> None \<longrightarrow> smap_load dst' x = smap_load dst x" and "relaxed dst' (the (smap_load dst cur)) node w"
proof -
  from dij_coreD(3) [OF core cur] obtain dc where dc: "smap_load dst cur = Some dc" by blast
  then have "has_path g src prev pathList cur dc" by (rule dij_coreD(4) [OF core])
  then obtain rc where pc: "smap_load pathList cur = Some (rev (cur # rc))" and wk: "walk g src cur (cur # rc)"
    and dis: "distinct (cur # rc)" and set: "\<forall>y \<in> set rc. smap_load prev y \<noteq> None" and len: "sint dc = plen g (cur # rc)"
    unfolding has_path_def by blast
  have wk': "walk g src node (node # cur # rc)" using wk w by (simp add: walk_Cons)
  have len': "plen g (node # cur # rc) = sint dc + sint w" using w len by simp
  have bound: "sint dc + sint w < 2 ^ 63 - 1"
    using plen_bound [OF ok, of node "cur # rc"] wk' dis len' by (simp add: walk_def)
  have pos: "0 \<le> sint dc" "0 \<le> sint w" using plen_nonneg [OF ok] weights_okD [OF ok w] by (simp_all add: len)
  have sum: "sint (dc + w) = sint dc + sint w"
    using pos bound by (rule sint_add_small)
  have "dij_core g src dst' prev pathList' \<and> le_dst dst' dst \<and> (\<forall>x. smap_load prev x \<noteq> None \<longrightarrow> smap_load dst' x = smap_load dst x)
      \<and> relaxed dst' dc node w"
  proof (cases "smap_load prev node")
    case (Some i)
    with dij_coreD(3) [OF core, of node] obtain dn where dn: "smap_load dst node = Some dn" and "lightest g src node dn"
      by auto
    with wk' len' have "sint dn \<le> sint dc + sint w" by (auto simp: lightest_def)
    moreover have "dst' = dst" "pathList' = pathList" using r Some dn by (auto simp: relax_def Let_def)
    ultimately show ?thesis using core dn by (auto simp: relaxed_def)
  next
    case None
    then have ne: "node \<noteq> cur" using cur by auto
    let ?better = "smap_load dst node = None \<or> sint (dc + w) < sint (the (smap_load dst node))"
    show ?thesis
    proof (cases ?better)
      case False
      then have "dst' = dst" "pathList' = pathList"
        using r None dc by (auto simp: relax_def Let_def word_sless_alt split: if_splits)
      with False core sum show ?thesis by (auto simp: relaxed_def)
    next
      case True
      then have load: "smap_load dst' = (smap_load dst)(node \<mapsto> dc + w)"
        and loadp: "smap_load pathList' = (smap_load pathList)(node \<mapsto> rev (node # cur # rc))"
        and okd: "smap_ok dst \<Longrightarrow> smap_ok dst'"
        using r None dc pc ne bound sum by (auto simp: relax_def Let_def word_sless_alt split: if_splits)
      have hp: "has_path g src prev pathList' node (dc + w)"
        unfolding has_path_def loadp sum using wk' dis set None cur len' by (intro exI [of _ "cur # rc"]) auto
      have other: "has_path g src prev pathList' x d" if "has_path g src prev pathList x d" "x \<noteq> node" for x d
        using that by (auto simp: has_path_def loadp)
      have "dij_core g src dst' prev pathList'"
        using core None hp other okd unfolding dij_core_def load loadp by auto
      moreover have "le_dst dst' dst" using True by (auto simp: le_dst_def load)
      ultimately show ?thesis using None sum by (auto simp: relaxed_def load)
    qed
  qed
  with dc show "dij_core g src dst' prev pathList'" and "le_dst dst' dst"
    and "\<forall>x. smap_load prev x \<noteq> None \<longrightarrow> smap_load dst' x = smap_load dst x" and "relaxed dst' (the (smap_load dst cur)) node w"
    by simp_all
qed

lemma relax_all:
  assumes ok: "weights_ok g W" and "dij_core g src dst prev pathList"
    and cur: "smap_load prev cur \<noteq> None" and "\<And>a w. (a, w) \<in> set es \<Longrightarrow> weightOf g a cur = Some w"
    and "foldl (relax prev cur) (dst, pathList) es = (dst', pathList')"
  shows "dij_core g src dst' prev pathList' \<and> le_dst dst' dst \<and> (\<forall>x. smap_load prev x \<noteq> None \<longrightarrow> smap_load dst' x = smap_load dst x)
    \<and> (\<forall>(a, w) \<in> set es. relaxed dst' (the (smap_load dst cur)) a w)"
  using assms(2,4,5)
proof (induction es arbitrary: dst pathList)
  case (Cons e es)
  obtain a w where e: "e = (a, w)" by fastforce
  obtain d1 p1 where r: "relax prev cur (dst, pathList) (a, w) = (d1, p1)" by fastforce
  note step = relax_core [OF ok Cons.prems(1) cur _ r]
  have "weightOf g a cur = Some w" using Cons.prems(2) by (simp add: e)
  note step = step [OF this]
  have "foldl (relax prev cur) (d1, p1) es = (dst', pathList')" using Cons.prems(3) by (simp add: e r)
  with Cons.IH [OF step(1)] Cons.prems(2)
  have IH: "dij_core g src dst' prev pathList' \<and> le_dst dst' d1 \<and> (\<forall>x. smap_load prev x \<noteq> None \<longrightarrow> smap_load dst' x = smap_load d1 x)
    \<and> (\<forall>(a, w) \<in> set es. relaxed dst' (the (smap_load d1 cur)) a w)" by simp
  have cur1: "smap_load d1 cur = smap_load dst cur" using step(3) cur by blast
  have "relaxed dst' (the (smap_load dst cur)) a w" using IH step(4) relaxed_le_dst by blast
  with IH have "\<forall>(a, w) \<in> set (e # es). relaxed dst' (the (smap_load dst cur)) a w" by (simp add: e cur1)
  moreover have "le_dst dst' dst" using IH step(2) le_dst_trans by blast
  moreover have "\<forall>x. smap_load prev x \<noteq> None \<longrightarrow> smap_load dst' x = smap_load dst x" using IH step(3) by metis
  ultimately show ?case using IH by blast
qed simp

section \<open>Lightest paths\<close>

lemma nearest_least:
  assumes "foldl (nearest prev to) (n0, MaxInt64) ds = (n, m)"
    and "\<And>x d. (x, d) \<in> set ds \<Longrightarrow> sint d < 2 ^ 63 - 1"
  shows "if m = MaxInt64 then \<forall>(x, d) \<in> set ds. smap_load prev x \<noteq> None
    else (n, m) \<in> set ds \<and> smap_load prev n = None
      \<and> (\<forall>(x, d) \<in> set ds. smap_load prev x = None \<longrightarrow> sint m \<le> sint d)"
  using assms
proof (induction ds arbitrary: n m rule: rev_induct)
  case (snoc y ds)
  obtain n1 m1 where r: "foldl (nearest prev to) (n0, MaxInt64) ds = (n1, m1)" by fastforce
  obtain x d where y: "y = (x, d)" by fastforce
  from snoc.prems(1) have n: "nearest prev to (n1, m1) (x, d) = (n, m)" by (simp add: r y)
  have d: "sint d < 2 ^ 63 - 1" "d \<noteq> MaxInt64" using snoc.prems(2) [of x d] by (auto simp: y)
  have IH: "if m1 = MaxInt64 then \<forall>(x, d) \<in> set ds. smap_load prev x \<noteq> None
    else (n1, m1) \<in> set ds \<and> smap_load prev n1 = None
      \<and> (\<forall>(x, d) \<in> set ds. smap_load prev x = None \<longrightarrow> sint m1 \<le> sint d)"
    by (rule snoc.IH [OF r]) (use snoc.prems(2) in auto)
  show ?case
  proof (cases "smap_load prev x")
    case (Some i)
    with n have "n = n1" "m = m1" by (simp_all add: nearest_def)
    with IH Some show ?thesis by (auto simp: y)
  next
    case None
    show ?thesis
    proof (cases "m1 = MaxInt64")
      case True
      with n None d have "n = x" "m = d" by (auto simp: nearest_def Let_def word_sless_alt split: if_splits)
      with True IH None d show ?thesis by (auto simp: y)
    next
      case False
      with n None IH d show ?thesis
        by (auto simp: nearest_def Let_def word_sless_alt y split: if_splits)
    qed
  qed
qed simp

text \<open>What the search leaves for its target.\<close>

definition best_path :: "DirectedGraph \<Rightarrow> Address \<Rightarrow> Address \<Rightarrow> Path option \<Rightarrow> bool" where
  "best_path g src to p \<longleftrightarrow> (case p of
     None \<Rightarrow> \<not> (\<exists>q. walk g src to q)
   | Some q \<Rightarrow> walk g src to (rev q) \<and> distinct q \<and> (\<forall>q'. walk g src to q' \<longrightarrow> plen g (rev q) \<le> plen g q'))"

lemma dij_arrived:
  assumes "dij_core g src dst prev pathList" and "smap_load prev to \<noteq> None"
  shows "best_path g src to (smap_load pathList to)"
proof -
  from dij_coreD(3) [OF assms] obtain d where d: "smap_load dst to = Some d" and l: "lightest g src to d" by blast
  from dij_coreD(4) [OF assms(1) d] obtain r where "smap_load pathList to = Some (rev (to # r))"
    and "walk g src to (to # r)" and "distinct (to # r)" and "sint d = plen g (to # r)"
    unfolding has_path_def by blast
  with l show ?thesis by (simp add: best_path_def lightest_def)
qed

lemma dij_settle:
  assumes ok: "weights_ok g W" and core: "dij_core g src dst prev pathList"
    and rel: "\<And>x a w. smap_load prev x \<noteq> None \<Longrightarrow> weightOf g a x = Some w \<Longrightarrow> relaxed dst (the (smap_load dst x)) a w"
    and m: "smap_load dst n = Some m"
    and least: "\<And>x d. smap_load dst x = Some d \<Longrightarrow> smap_load prev x = None \<Longrightarrow> sint m \<le> sint d"
    and new: "smap_load prev n = None"
  shows "dij_core g src dst (smap_store n i prev) pathList"
proof -
  have "lightest g src n m" unfolding lightest_def
  proof (intro allI impI)
    fix p assume p: "walk g src n p"
    obtain a b w q where a: "a \<notin> {x. smap_load prev x \<noteq> None}" and b: "b \<in> {x. smap_load prev x \<noteq> None}"
      and w: "weightOf g a b = Some w" and q: "walk g src b q" and le: "sint w + plen g q \<le> plen g p"
      by (rule walk_escape [OF ok p, of "{x. smap_load prev x \<noteq> None}"]) (use dij_coreD(2) [OF core] new in simp_all)
    from b dij_coreD(3) [OF core, of b] obtain db where db: "smap_load dst b = Some db" and lb: "lightest g src b db" by auto
    from rel [OF _ w] b db obtain da where "smap_load dst a = Some da" and "sint da \<le> sint db + sint w"
      by (auto simp: relaxed_def)
    moreover have "sint db \<le> plen g q" using lb q by (simp add: lightest_def)
    moreover have "sint m \<le> sint da" using least calculation(1) a by simp
    ultimately show "sint m \<le> plen g p" using le by simp
  qed
  moreover have "has_path g src (smap_store n i prev) pathList x d" if "has_path g src prev pathList x d" for x d
    using that by (fastforce simp: has_path_def)
  ultimately show ?thesis using core m unfolding dij_core_def by auto
qed

lemma dij_unreachable:
  assumes ok: "weights_ok g W" and core: "dij_core g src dst prev pathList"
    and rel: "\<And>x a w. smap_load prev x \<noteq> None \<Longrightarrow> weightOf g a x = Some w \<Longrightarrow> relaxed dst (the (smap_load dst x)) a w"
    and all: "\<And>x d. smap_load dst x = Some d \<Longrightarrow> smap_load prev x \<noteq> None"
    and new: "smap_load prev to = None"
  shows "best_path g src to (smap_load pathList to)"
proof -
  have "\<not> walk g src to p" for p
  proof
    assume p: "walk g src to p"
    obtain a b w where a: "a \<notin> {x. smap_load prev x \<noteq> None}" and b: "b \<in> {x. smap_load prev x \<noteq> None}"
      and w: "weightOf g a b = Some w"
      by (rule walk_escape [OF ok p, of "{x. smap_load prev x \<noteq> None}"]) (use dij_coreD(2) [OF core] new in simp_all)
    from rel [OF _ w] b obtain da where "smap_load dst a = Some da" by (auto simp: relaxed_def)
    with all a show False by simp
  qed
  moreover have "smap_load dst to = None" using all [of to] new by (cases "smap_load dst to") auto
  then have "smap_load pathList to = None" by (rule dij_coreD(5) [OF core])
  ultimately show ?thesis by (simp add: best_path_def)
qed

lemma searchPathDijkstra_best:
  assumes ok: "weights_ok g W" and gok: "\<And>x v. smap_load g x = Some v \<Longrightarrow> smap_ok (vx_To v)"
    and order: "map_order order"
    and "dij_core g src dst prev pathList" and "smap_load prev from \<noteq> None"
    and "smap_load prev to \<noteq> None \<Longrightarrow> from = to"
    and "\<And>x a w. smap_load prev x \<noteq> None \<Longrightarrow> x \<noteq> from \<Longrightarrow> weightOf g a x = Some w \<Longrightarrow>
      relaxed dst (the (smap_load dst x)) a w"
  shows "best_path g src to (smap_load (searchPathDijkstra order g dst prev from to pathList) to)"
  using assms(4-)
proof (induction "unsettled prev" arbitrary: dst prev pathList "from" rule: less_induct)
  case less
  show ?case
  proof (cases "from = to")
    case True
    with dij_arrived less.prems(1,2) show ?thesis by (simp add: searchPathDijkstra.simps)
  next
    case False
    then have new: "smap_load prev to = None" using less.prems(3) by blast
    let ?es = "order (case smap_load g from of Some v \<Rightarrow> vx_To v | None \<Rightarrow> [])"
    obtain dst1 pl1 where r: "foldl (relax prev from) (dst, pathList) ?es = (dst1, pl1)" by fastforce
    obtain n m where nm: "foldl (nearest prev to) (0, MaxInt64) (order dst1) = (n, m)" by fastforce
    have es: "(a, w) \<in> set ?es \<longleftrightarrow> weightOf g a from = Some w" for a w
      using order gok [of "from"] by (auto simp: map_order_set weightOf_def smap_load_iff split: option.split)
    note all = relax_all [OF ok less.prems(1,2) iffD1 [OF es] r]
    then have core: "dij_core g src dst1 prev pl1" and le: "le_dst dst1 dst"
      and same: "smap_load prev x \<noteq> None \<Longrightarrow> smap_load dst1 x = smap_load dst x" for x
      by blast+
    have rel: "relaxed dst1 (the (smap_load dst1 x)) a w" if x: "smap_load prev x \<noteq> None" and w: "weightOf g a x = Some w" for x a w
    proof (cases "x = from")
      case True
      with w es have "(a, w) \<in> set ?es" by simp
      with all have "relaxed dst1 (the (smap_load dst from)) a w" by blast
      with same [OF less.prems(2)] True show ?thesis by simp
    next
      case False
      from relaxed_le_dst [OF le less.prems(4) [OF x this w]] same [OF x] show ?thesis by simp
    qed
    have mem: "(x, d) \<in> set (order dst1) \<longleftrightarrow> smap_load dst1 x = Some d" for x d
      using order dij_coreD(1) [OF core] by (simp add: map_order_set smap_load_iff)
    have near: "if m = MaxInt64 then \<forall>(x, d) \<in> set (order dst1). smap_load prev x \<noteq> None
      else (n, m) \<in> set (order dst1) \<and> smap_load prev n = None
        \<and> (\<forall>(x, d) \<in> set (order dst1). smap_load prev x = None \<longrightarrow> sint m \<le> sint d)"
      by (rule nearest_least [OF nm]) (rule has_path_less(2) [OF ok dij_coreD(4) [OF core]], simp add: mem)
    show ?thesis
    proof (cases "m = MaxInt64")
      case True
      then have "smap_load prev x \<noteq> None" if "smap_load dst1 x = Some d" for x d
        using near that mem [of x d] by auto
      from dij_unreachable [OF ok core rel this new] have "best_path g src to (smap_load pl1 to)" .
      with False r nm True show ?thesis by (simp add: searchPathDijkstra.simps)
    next
      case ne: False
      then have m: "smap_load dst1 n = Some m" and n: "smap_load prev n = None" using near mem by simp_all
      have least: "sint m \<le> sint d" if "smap_load dst1 x = Some d" "smap_load prev x = None" for x d
        using near ne that by (auto simp: mem [symmetric])
      let ?prev = "smap_store n (of_nat (length prev)) prev"
      have "best_path g src to (smap_load (searchPathDijkstra order g dst1 ?prev n to pl1) to)"
      proof (rule less.hyps)
        show "unsettled ?prev < unsettled prev" by (rule unsettled_less [OF n])
        show "dij_core g src dst1 ?prev pl1" by (rule dij_settle [OF ok core rel m least n])
        show "relaxed dst1 (the (smap_load dst1 x)) a w"
          if "smap_load ?prev x \<noteq> None" "x \<noteq> n" "weightOf g a x = Some w" for x a w
          using rel [of x a w] that by simp
      qed (use new in \<open>auto split: if_splits\<close>)
      with False r nm ne n show ?thesis by (subst searchPathDijkstra.simps) simp
    qed
  qed
qed

lemma GetPairShortestPath_best:
  assumes "weights_ok g W" and "\<And>x v. smap_load g x = Some v \<Longrightarrow> smap_ok (vx_To v)" and "map_order order"
  shows "\<exists>p. GetPairShortestPath order g from to = [p]
    \<and> (if p = [] then \<not> (\<exists>q. walk g from to q)
       else walk g from to p \<and> distinct p \<and> (\<forall>q. walk g from to q \<longrightarrow> plen g p \<le> plen g q))"
proof -
  have [simp]: "smap_load [(from, x)] a = (if a = from then Some x else None)" for x :: 'v and a
    by (simp add: smap_load_def)
  have "has_path g from [(from, 0)] [(from, [from])] from 0" by (simp add: has_path_def)
  moreover have "lightest g from from 0" using plen_nonneg [OF assms(1)] by (simp add: lightest_def)
  ultimately have core: "dij_core g from [(from, 0)] [(from, 0)] [(from, [from])]"
    by (simp add: dij_core_def smap_ok_def)
  have "best_path g from to (smap_load (searchPathDijkstra order g [(from, 0)] [(from, 0)] from to [(from, [from])]) to)"
    by (rule searchPathDijkstra_best [OF assms(1) _ assms(3) core]) (use assms(2) in \<open>auto split: if_splits\<close>)
  then show ?thesis by (auto simp: GetPairShortestPath_def Let_def best_path_def walk_def split: option.splits)
qed

section \<open>The graph of a network\<close>

lemma edgeId_GetAddr [simp]: "edgeId (GetAddr1 e) (GetAddr2 e) = e"
  by (rule bit_word_eqI) (auto simp: GetAddr1_def GetAddr2_def edgeId_def bit_simps bit_word_cat_iff)

definition all_to_ok :: "DirectedGraph \<Rightarrow> bool" where
  "all_to_ok g \<longleftrightarrow> (\<forall>x v. smap_load g x = Some v \<longrightarrow> smap_ok (vx_To v))"

lemma add_edge_facts:
  shows "fst ` set (add_edge g (e, v)) = fst ` set g"
    and "all_to_ok g \<Longrightarrow> all_to_ok (add_edge g (e, v))"
    and "weightOf (add_edge g (e, v)) a b =
      (if e = edgeId a b \<and> a \<in> fst ` set g \<and> b \<in> fst ` set g then Some v else weightOf g a b)"
proof -
  have dom: "smap_load g x = Some y \<Longrightarrow> x \<in> fst ` set g" for x y by (force dest: smap_load_SomeD)
  have dom': "x \<in> fst ` set g \<longleftrightarrow> smap_load g x \<noteq> None" for x
    by (simp add: smap_load_def map_of_eq_None_iff)
  show "fst ` set (add_edge g (e, v)) = fst ` set g"
    by (auto simp: add_edge_def Let_def dom insert_absorb split: option.split)
  show "all_to_ok g \<Longrightarrow> all_to_ok (add_edge g (e, v))"
    by (auto simp: add_edge_def Let_def all_to_ok_def split: option.split)
  have e: "e = edgeId a b \<longleftrightarrow> GetAddr1 e = a \<and> GetAddr2 e = b" by (metis GetAddr_edgeId edgeId_GetAddr)
  show "weightOf (add_edge g (e, v)) a b =
      (if e = edgeId a b \<and> a \<in> fst ` set g \<and> b \<in> fst ` set g then Some v else weightOf g a b)"
    unfolding e dom'
    by (auto simp: add_edge_def Let_def weightOf_def split: option.split)
qed

lemma add_edges:
  "smap_ok edges \<Longrightarrow> fst ` set (foldl add_edge g edges) = fst ` set g
     \<and> (all_to_ok g \<longrightarrow> all_to_ok (foldl add_edge g edges))
     \<and> weightOf (foldl add_edge g edges) a b =
         (if a \<in> fst ` set g \<and> b \<in> fst ` set g \<and> smap_load edges (edgeId a b) \<noteq> None
          then smap_load edges (edgeId a b) else weightOf g a b)"
proof (induction edges arbitrary: g)
  case (Cons x edges)
  obtain e v where x: "x = (e, v)" by fastforce
  have "smap_load edges e = None" using Cons.prems by (simp add: x smap_ok_def smap_load_def map_of_eq_None_iff)
  moreover have "smap_ok edges" using Cons.prems by (simp add: smap_ok_def)
  ultimately show ?case using Cons.IH [of "add_edge g x"] add_edge_facts [of g e v]
    by (auto simp: x smap_load_def)
qed simp

lemma NewDirectGraph_facts:
  fixes nodes :: "(Address, goint) smap" and bl :: "Address list"
  assumes "smap_ok edges"
  defines "g \<equiv> NewDirectGraph nodes edges bl" and "V \<equiv> fst ` set nodes - set bl"
  shows "fst ` set g = V" and "all_to_ok g"
    and "weightOf g a b = (if a \<in> V \<and> b \<in> V then smap_load edges (edgeId a b) else None)"
proof -
  let ?f = "add_node bl"
  have f: "fst ` set (foldl ?f g0 nodes) = fst ` set g0 \<union> V" for g0
    unfolding V_def
  proof (induction nodes arbitrary: g0)
    case (Cons x nodes)
    show ?case using Cons [of "?f g0 x"] by (cases x) (auto simp: add_node_def)
  qed simp
  have f0: "\<forall>x v. smap_load g0 x = Some v \<longrightarrow> vx_To v = [] \<Longrightarrow>
      smap_load (foldl ?f g0 nodes) x = Some v \<Longrightarrow> vx_To v = []" for g0 x v
  proof (induction nodes arbitrary: g0)
    case (Cons y nodes)
    have "\<forall>x v. smap_load (?f g0 y) x = Some v \<longrightarrow> vx_To v = []" using Cons.prems(1) by (simp add: add_node_def)
    from Cons.IH [OF this] Cons.prems(2) show ?case by simp
  qed simp
  have "vx_To v = []" if "smap_load (foldl ?f [] nodes) x = Some v" for x v using f0 [OF _ that] by simp
  then have ok0: "all_to_ok (foldl ?f [] nodes)" and w0: "weightOf (foldl ?f [] nodes) a b = None"
    by (simp_all add: all_to_ok_def weightOf_def split: option.split)
  have "g = foldl add_edge (foldl ?f [] nodes) edges"
    unfolding g_def NewDirectGraph_def ..
  with add_edges [OF assms(1), of "foldl ?f [] nodes" a b] f [of "[]"] ok0 w0
  show "fst ` set g = V" and "all_to_ok g"
    and "weightOf g a b = (if a \<in> V \<and> b \<in> V then smap_load edges (edgeId a b) else None)"
    by simp_all
qed

text \<open>The path that is returned is a lightest one, and there is one when the target can be reached.\<close>

lemma GetPairShortestPath_all:
  assumes "weights_ok g W" and "all_to_ok g" and "map_order order"
  shows "\<exists>p. GetPairShortestPath order g from to = [p]
    \<and> (if p = [] then \<not> (\<exists>q. walk g from to q)
       else walk g from to p \<and> distinct p \<and> (\<forall>q. walk g from to q \<longrightarrow> plen g p \<le> plen g q))"
  by (rule GetPairShortestPath_best) (use assms in \<open>auto simp: all_to_ok_def\<close>)

end
