(* ===== verification/Pylons_Graph.thy ===== *)
theory Pylons_Graph
  imports Pylons_Routing
begin

text \<open>
  The graph of a token network that \<open>AddRoute\<close> and \<open>DelRoute\<close> keep (\<open>transfer/state.go\<close>): routes are entered
  in both directions, and the number stored with a node is the number of its routes, one more for the own node,
  which is entered at the start. So a node is known exactly as long as it has a route, the own node always.
\<close>

definition outdeg :: "TokenNetworkGraph \<Rightarrow> Address \<Rightarrow> nat" where
  "outdeg g a = card {b. smap_load (gr_Edges g) (edgeId a b) \<noteq> None}"

definition degree :: "Address \<Rightarrow> TokenNetworkGraph \<Rightarrow> Address \<Rightarrow> nat" where
  "degree self g a = outdeg g a + (if a = self then 1 else 0)"

definition node_count :: "goint option \<Rightarrow> nat \<Rightarrow> bool" where
  "node_count v n \<longleftrightarrow> (case v of Some v \<Rightarrow> 0 < n \<and> sint v = int n | None \<Rightarrow> n = 0)"

definition count_ok :: "Address \<Rightarrow> TokenNetworkGraph \<Rightarrow> bool" where
  "count_ok self g \<longleftrightarrow> smap_ok (gr_Edges g) \<and> (\<forall>a. node_count (smap_load (gr_Nodes g) a) (degree self g a))"

definition graph_ok :: "Address \<Rightarrow> TokenNetworkGraph \<Rightarrow> bool" where
  "graph_ok self g \<longleftrightarrow> count_ok self g \<and> (\<forall>a b. smap_load (gr_Edges g) (edgeId a b) \<noteq> None
     \<longrightarrow> smap_load (gr_Edges g) (edgeId b a) \<noteq> None)"

lemma edgeId_eq [simp]: "edgeId a b = edgeId c d \<longleftrightarrow> a = c \<and> b = d"
  by (metis GetAddr_edgeId)

text \<open>Tried first: with the equations both ways round the simplifier would loop.\<close>

lemma edgeId_swap [simp]: "edgeId a b = edgeId b a \<longleftrightarrow> a = b"
  by auto

lemma outdeg_le: "outdeg g a \<le> length (gr_Edges g)"
proof -
  have "edgeId a ` {b. smap_load (gr_Edges g) (edgeId a b) \<noteq> None} \<subseteq> fst ` set (gr_Edges g)"
    by (force dest: smap_load_SomeD)
  then have "card (edgeId a ` {b. smap_load (gr_Edges g) (edgeId a b) \<noteq> None}) \<le> card (fst ` set (gr_Edges g))"
    by (intro card_mono) simp_all
  moreover have "inj_on (edgeId a) {b. smap_load (gr_Edges g) (edgeId a b) \<noteq> None}" by (simp add: inj_on_def)
  moreover have "card (fst ` set (gr_Edges g)) \<le> length (gr_Edges g)"
    by (meson card_image_le card_length finite_set le_trans)
  ultimately show ?thesis by (simp add: outdeg_def card_image)
qed

lemma sint_incr:
  fixes v :: goint
  assumes "0 \<le> sint v" and "sint v < 2 ^ 62" shows "sint (v + 1) = sint v + 1"
proof -
  have "sint (v + 1) = signed_take_bit 63 (sint v + 1)" by (simp add: sint_word_ariths)
  also have "\<dots> = sint v + 1" using assms by (intro signed_take_bit_int_eq_self) simp_all
  finally show ?thesis .
qed

lemma sint_decr:
  fixes v :: goint
  assumes "0 < sint v" shows "sint (v - 1) = sint v - 1"
proof -
  have "sint v < 2 ^ 63" using sint_lt [of v] by simp
  have "sint (v - 1) = signed_take_bit 63 (sint v - 1)" by (simp add: sint_word_ariths)
  also have "\<dots> = sint v - 1" using assms \<open>sint v < 2 ^ 63\<close> by (intro signed_take_bit_int_eq_self) simp_all
  finally show ?thesis .
qed

lemma addEdge_edges [simp]:
  "gr_Edges (addEdge a b g) = smap_store (edgeId a b) 1 (gr_Edges g)"
  by (simp add: addEdge_def)

lemma outdeg_addEdge:
  assumes "smap_load (gr_Edges g) (edgeId a b) = None"
  shows "outdeg (addEdge a b g) c = (if c = a then outdeg g c + 1 else outdeg g c)"
proof -
  have "{d. smap_load (gr_Edges (addEdge a b g)) (edgeId c d) \<noteq> None} =
      (if c = a then insert b {d. smap_load (gr_Edges g) (edgeId c d) \<noteq> None}
       else {d. smap_load (gr_Edges g) (edgeId c d) \<noteq> None})"
    by auto
  with assms show ?thesis by (simp add: outdeg_def)
qed

lemma outdeg_delEdge:
  assumes "smap_load (gr_Edges g) (edgeId a b) \<noteq> None"
  shows "outdeg (delEdge a b g) c = (if c = a then outdeg g c - 1 else outdeg g c)"
proof -
  have "{d. smap_load (gr_Edges (delEdge a b g)) (edgeId c d) \<noteq> None} =
      (if c = a then {d. smap_load (gr_Edges g) (edgeId c d) \<noteq> None} - {b}
       else {d. smap_load (gr_Edges g) (edgeId c d) \<noteq> None})"
    using assms by (auto simp: delEdge_def split: if_splits)
  with assms show ?thesis by (simp add: outdeg_def)
qed

lemma count_ok_addEdge:
  assumes ok: "count_ok self g" and new: "smap_load (gr_Edges g) (edgeId a b) = None"
    and small: "length (gr_Edges g) < 2 ^ 62 - 1"
  shows "count_ok self (addEdge a b g)"
proof -
  let ?v = "case smap_load (gr_Nodes g) a of Some v \<Rightarrow> v + 1 | None \<Rightarrow> 1"
  have a: "node_count (smap_load (gr_Nodes g) a) (degree self g a)" using ok by (simp add: count_ok_def)
  have "degree self g a < 2 ^ 62" using outdeg_le [of g a] small by (auto simp: degree_def)
  then have "int (degree self g a) < 2 ^ 62" by (metis of_nat_less_iff of_nat_numeral of_nat_power)
  with a have "sint ?v = int (degree self g a) + 1"
    by (auto simp: node_count_def sint_incr split: option.splits)
  moreover have "smap_load (gr_Nodes (addEdge a b g)) = (smap_load (gr_Nodes g))(a \<mapsto> ?v)"
    by (simp add: addEdge_def split: option.split)
  ultimately have "node_count (smap_load (gr_Nodes (addEdge a b g)) c) (degree self (addEdge a b g) c)" for c
    using ok by (cases "c = a") (simp_all add: node_count_def degree_def outdeg_addEdge [OF new] count_ok_def)
  with ok show ?thesis by (simp add: count_ok_def)
qed

lemma count_ok_delEdge:
  assumes ok: "count_ok self g" shows "count_ok self (delEdge a b g)"
proof (cases "smap_load (gr_Edges g) (edgeId a b)")
  case None
  with ok show ?thesis by (simp add: delEdge_def)
next
  case (Some w)
  then have "{d. smap_load (gr_Edges g) (edgeId a d) \<noteq> None} \<noteq> {}" by blast
  then have pos: "0 < outdeg g a" by (simp add: outdeg_def card_gt_0_iff)
  have "node_count (smap_load (gr_Nodes g) a) (degree self g a)" using ok by (simp add: count_ok_def)
  with pos obtain v where v: "smap_load (gr_Nodes g) a = Some v" and sv: "sint v = int (degree self g a)"
    by (auto simp: node_count_def degree_def split: option.splits)
  have load: "smap_load (gr_Nodes (delEdge a b g)) = (smap_load (gr_Nodes g))
      (a := if degree self g a \<le> 1 then None else Some (v - 1))"
    using Some v sv by (auto simp: delEdge_def)
  have "sint (v - 1) = int (degree self g a) - 1" using sint_decr [of v] sv pos by (simp add: degree_def)
  then have "node_count (smap_load (gr_Nodes (delEdge a b g)) c) (degree self (delEdge a b g) c)" for c
    using ok pos outdeg_delEdge [of g a b] Some
    by (cases "c = a") (auto simp: load node_count_def degree_def count_ok_def)
  moreover have "smap_ok (gr_Edges (delEdge a b g))" using ok by (simp add: delEdge_def count_ok_def)
  ultimately show ?thesis by (simp add: count_ok_def)
qed

lemma length_smap_store: "length (smap_store k v m) \<le> Suc (length m)"
  unfolding smap_store_def by (induction m) auto

lemma delEdge_load:
  "smap_load (gr_Edges (delEdge a b g)) e = (if e = edgeId a b then None else smap_load (gr_Edges g) e)"
  by (auto simp: delEdge_def)

lemma updateDns_graph [simp]: "tn_NetworkGraph (updateDns r a tn) = tn_NetworkGraph tn"
  by (simp add: updateDns_def)

lemma AddRoute_graph:
  "tn_NetworkGraph (AddRoute r a b tn) = (let g = tn_NetworkGraph tn
     in if smap_load (gr_Edges g) (edgeId a b) \<noteq> None then g
        else if a = b \<or> smap_load (gr_Edges g) (edgeId b a) \<noteq> None then addEdge a b g
        else addEdge b a (addEdge a b g))"
proof (cases "a = b")
  case False
  then have ne: "edgeId b a \<noteq> edgeId a b" by auto
  show ?thesis using False by (simp add: AddRoute_def Let_def ne del: edgeId_eq)
qed (simp add: AddRoute_def Let_def)

lemma graph_ok_AddRoute:
  assumes ok: "graph_ok self (tn_NetworkGraph tn)" and small: "length (gr_Edges (tn_NetworkGraph tn)) < 2 ^ 62 - 2"
  shows "graph_ok self (tn_NetworkGraph (AddRoute r a b tn))"
proof -
  let ?g = "tn_NetworkGraph tn"
  have c: "count_ok self ?g"
    and sym: "\<forall>x y. smap_load (gr_Edges ?g) (edgeId x y) \<noteq> None \<longrightarrow> smap_load (gr_Edges ?g) (edgeId y x) \<noteq> None"
    using ok by (simp_all add: graph_ok_def)
  show ?thesis
  proof (cases "smap_load (gr_Edges ?g) (edgeId a b)")
    case (Some w)
    with ok show ?thesis by (simp add: AddRoute_graph)
  next
    case None
    then have new: "smap_load (gr_Edges ?g) (edgeId b a) = None" using sym by blast
    have c1: "count_ok self (addEdge a b ?g)" using c None small by (intro count_ok_addEdge) simp_all
    show ?thesis
    proof (cases "a = b")
      case True
      with None c1 sym show ?thesis by (simp add: AddRoute_graph graph_ok_def)
    next
      case False
      have "length (gr_Edges (addEdge a b ?g)) < 2 ^ 62 - 1"
        using length_smap_store [of "edgeId a b" 1 "gr_Edges ?g"] small by simp
      then have "count_ok self (addEdge b a (addEdge a b ?g))"
        using new False by (intro count_ok_addEdge [OF c1]) auto
      moreover have "tn_NetworkGraph (AddRoute r a b tn) = addEdge b a (addEdge a b ?g)"
        using None new False by (simp add: AddRoute_graph)
      ultimately show ?thesis using sym by (simp add: graph_ok_def)
    qed
  qed
qed

lemma graph_ok_delEdges:
  assumes "graph_ok self g" shows "graph_ok self (delEdge b a (delEdge a b g))"
  unfolding graph_ok_def delEdge_load edgeId_eq
proof (intro conjI allI impI)
  show "count_ok self (delEdge b a (delEdge a b g))" using assms count_ok_delEdge by (simp add: graph_ok_def)
  fix x y
  assume "(if x = b \<and> y = a then None else if x = a \<and> y = b then None else smap_load (gr_Edges g) (edgeId x y)) \<noteq> None"
  then have "\<not> (x = b \<and> y = a)" and "\<not> (x = a \<and> y = b)" and "smap_load (gr_Edges g) (edgeId x y) \<noteq> None"
    by (metis, metis, metis)
  with assms show "(if y = b \<and> x = a then None else if y = a \<and> x = b then None else smap_load (gr_Edges g) (edgeId y x)) \<noteq> None"
    unfolding graph_ok_def by presburger
qed

lemma graph_ok_DelRoute:
  assumes "graph_ok self (tn_NetworkGraph tn)" shows "graph_ok self (tn_NetworkGraph (DelRoute channelId tn))"
  using assms graph_ok_delEdges by (simp add: DelRoute_def Let_def split: option.split)

lemma graph_ok_New: "graph_ok a (tn_NetworkGraph (NewTokenNetworkState a))"
  by (simp add: graph_ok_def count_ok_def NewTokenNetworkState_def outdeg_def degree_def node_count_def smap_load_def)

lemma AddRoute_length:
  "length (gr_Edges (tn_NetworkGraph (AddRoute r a b tn))) \<le> length (gr_Edges (tn_NetworkGraph tn)) + 2"
proof -
  have "length (smap_store k v (smap_store k' v' m)) \<le> length m + 2" "length (smap_store k v m) \<le> length m + 2"
    for k k' :: EdgeId and v v' :: goint and m
    using length_smap_store [of k v m] length_smap_store [of k' v' m] length_smap_store [of k v "smap_store k' v' m"]
    by simp_all
  then show ?thesis by (simp add: AddRoute_graph Let_def)
qed

lemma graph_ok_AddRoutes:
  assumes "length routes < 2 ^ 60" and "graph_ok self (tn_NetworkGraph tn)" and "gr_Edges (tn_NetworkGraph tn) = []"
  shows "graph_ok self (tn_NetworkGraph (foldl (\<lambda>tn (a, b). AddRoute r a b tn) tn routes))
    \<and> length (gr_Edges (tn_NetworkGraph (foldl (\<lambda>tn (a, b). AddRoute r a b tn) tn routes))) \<le> 2 * length routes"
  using assms(1)
proof (induction routes rule: rev_induct)
  case (snoc x routes)
  obtain a b where x: "x = (a, b)" by fastforce
  let ?tn = "foldl (\<lambda>tn (a, b). AddRoute r a b tn) tn routes"
  from snoc have ok: "graph_ok self (tn_NetworkGraph ?tn)" and "length (gr_Edges (tn_NetworkGraph ?tn)) \<le> 2 * length routes"
    and "length routes < 2 ^ 60" by simp_all
  with graph_ok_AddRoute [OF ok, of r a b] AddRoute_length [of r a b ?tn] show ?case by (simp add: x)
qed (use assms in simp)

text \<open>What the search for a route uses: both ends of an edge are nodes.\<close>

lemma graph_ok_ends:
  assumes "graph_ok self g" and e: "smap_load (gr_Edges g) (edgeId a b) \<noteq> None"
  shows "smap_load (gr_Nodes g) a \<noteq> None" and "smap_load (gr_Nodes g) b \<noteq> None"
proof -
  have *: "smap_load (gr_Nodes g) x \<noteq> None" if "smap_load (gr_Edges g) (edgeId x y) \<noteq> None" for x y
  proof
    assume "smap_load (gr_Nodes g) x = None"
    moreover have "node_count (smap_load (gr_Nodes g) x) (degree self g x)"
      using assms(1) by (simp add: graph_ok_def count_ok_def)
    ultimately have "outdeg g x = 0" by (simp add: node_count_def degree_def)
    then have "{d. smap_load (gr_Edges g) (edgeId x d) \<noteq> None} = {}" by (simp add: outdeg_def)
    with that show False by blast
  qed
  have "smap_load (gr_Edges g) (edgeId b a) \<noteq> None" using assms unfolding graph_ok_def by blast
  with * e show "smap_load (gr_Nodes g) a \<noteq> None" and "smap_load (gr_Nodes g) b \<noteq> None" by blast+
qed

end
