(* ===== verification/Pylons_Routes.thy ===== *)
theory Pylons_Routes
  imports Pylons_Dijkstra Pylons_Graph Pylons_Fees
begin

text \<open>
  The choice of a route (\<open>service/route.go\<close>): which neighbour a payment is given to. A route of this code is
  only the first hop and its channel. The code reads the DNS nodes, the reachability of a node and the
  configuration from elsewhere; they are fields of \<open>routing\<close>.
\<close>

record routing =
  RouteStrategy :: string
  FeePenalty :: rat
  DiversityPenalty :: rat
  GetAllDnsNodes :: "Address list option"
  NetworkReachable :: "Address \<Rightarrow> bool"

datatype (plugins only: code) RouteError =
    RouteTokenNetworkNil
  | RouteDnsNil
  | RouteSptNil
  | RouteNone
  | RouteUnreachable
  | RouteChannelNil
  | RouteNotOpened
  | RouteNoFunds

definition RouteStrategyShort :: string where
  "RouteStrategyShort = ''short''"

definition RouteStrategyCheap :: string where
  "RouteStrategyCheap = ''cheap''"

definition RouteStrategyDiverse :: string where
  "RouteStrategyDiverse = ''diverse''"

section \<open>The first hop\<close>

definition checkRouteAvailable :: "NettingChannelState \<Rightarrow> TokenAmount \<Rightarrow> RouteError + unit" where
  "checkRouteAvailable cs amount =
     (if GetStatus cs \<noteq> ChannelStateOpened then Inl RouteNotOpened
      else let distributable = GetDistributable (cs_OurState cs) (cs_PartnerState cs)
           in if amount > distributable then Inl RouteNoFunds else Inr ())"

definition GetAllDns :: "TokenNetworkState \<Rightarrow> (Address, goint) smap" where
  "GetAllDns tn = foldl (\<lambda>m (addr, _). smap_store addr 1 m) [] (tn_DnsAddrsMap tn)"

definition GetAllDnsFromChain :: "routing \<Rightarrow> (Address, goint) smap" where
  "GetAllDnsFromChain rt = (case GetAllDnsNodes rt of
     None \<Rightarrow> [] | Some dnsNodes \<Rightarrow> foldl (\<lambda>m tmpAddr. smap_store tmpAddr 1 m) [] dnsNodes)"

definition dnsAddrs :: "routing \<Rightarrow> TokenNetworkState \<Rightarrow> (Address, goint) smap" where
  "dnsAddrs rt tn = (let dnsAddrsMap = GetAllDns tn
     in if length dnsAddrsMap = 0 then GetAllDnsFromChain rt else dnsAddrsMap)"

text \<open>The channel a hop can be paid through. Each test that fails sends the search to its next path.\<close>

definition routeHop :: "env \<Rightarrow> ranges \<Rightarrow> routing \<Rightarrow> ChainState \<Rightarrow> TokenNetworkID \<Rightarrow> (Address, goint) smap
     \<Rightarrow> Address \<Rightarrow> TokenAmount \<Rightarrow> Address \<Rightarrow> ChannelID option" where
  "routeHop e r rt chain tokenNetworkId dnsAddrsMap toAddr amount nextHop =
     (if nextHop \<noteq> toAddr \<and> smap_load dnsAddrsMap nextHop = None then None
      else if \<not> NetworkReachable rt nextHop then None
      else case GetChannelStateByTokenNetworkAndPartner e r chain tokenNetworkId nextHop of
             None \<Rightarrow> None
           | Some channelState \<Rightarrow>
               (case checkRouteAvailable channelState amount of
                  Inl _ \<Rightarrow> None | Inr _ \<Rightarrow> Some (cs_Identifier channelState)))"

section \<open>The shortest route\<close>

fun firstRoute :: "(Address \<Rightarrow> ChannelID option) \<Rightarrow> Address \<Rightarrow> Path list \<Rightarrow> (Address \<times> ChannelID) option" where
  "firstRoute hop toAddr [] = None"
| "firstRoute hop toAddr (sp # spt) =
     (if length sp < 2 then firstRoute hop toAddr spt
      else if sp ! 0 \<noteq> toAddr then firstRoute hop toAddr spt
      else let nextHop = sp ! (length sp - 2)
           in case hop nextHop of
                Some channelId \<Rightarrow> Some (nextHop, channelId)
              | None \<Rightarrow> firstRoute hop toAddr spt)"

definition GetBestRoutesByDFS ::
  "env \<Rightarrow> ranges \<Rightarrow> (Address list \<Rightarrow> Address list) \<Rightarrow> routing \<Rightarrow> ChainState \<Rightarrow> TokenNetworkID \<Rightarrow> Address \<Rightarrow> Address
     \<Rightarrow> TokenAmount \<Rightarrow> Address list \<Rightarrow> RouteError + RouteState list" where
  "GetBestRoutesByDFS e r order rt chain tokenNetworkId fromAddr toAddr amount badAddrs =
     (case GetTokenNetworkByIdentifier e chain tokenNetworkId of
        None \<Rightarrow> Inl RouteTokenNetworkNil
      | Some tokenNetwork \<Rightarrow>
          let dnsAddrsMap = dnsAddrs rt tokenNetwork
          in if length dnsAddrsMap = 0 then Inl RouteDnsNil
             else let g = tn_NetworkGraph tokenNetwork;
                      spt = GetPairPathSorted order (NewTopology (gr_Nodes g) (gr_Edges g) badAddrs) fromAddr toAddr
                  in if length spt = 0 then Inl RouteSptNil
                     else case firstRoute (routeHop e r rt chain tokenNetworkId dnsAddrsMap toAddr amount) toAddr spt of
                            None \<Rightarrow> Inl RouteNone
                          | Some (nextHop, channelId) \<Rightarrow>
                              Inr [\<lparr>rt_NodeAddress = nextHop, rt_ChannelId = channelId\<rparr>])"

section \<open>Weights\<close>

definition f64 :: "rat \<Rightarrow> rat" where
  "f64 x = (if x < 0 then - f64_round (- x) else f64_round x)"

text \<open>\<open>math.Ceil\<close>, then the conversion to \<open>int64\<close>; Go leaves open what does not fit.\<close>

definition int64_ceil :: "env \<Rightarrow> rat \<Rightarrow> goint" where
  "int64_ceil e x = (if - (2 ^ 63) \<le> \<lceil>x\<rceil> \<and> \<lceil>x\<rceil> < 2 ^ 63 then of_int \<lceil>x\<rceil> else FloatOutOfRange e \<lceil>x\<rceil>)"

definition feeScheduleOf :: "(Address, FeeScheduleState) smap \<Rightarrow> Address \<Rightarrow> FeeScheduleState" where
  "feeScheduleOf feeScheduleMap to = (case smap_load feeScheduleMap to of
     Some schedule \<Rightarrow> schedule | None \<Rightarrow> 
       \<lparr>fs_CapFees = False, fs_Flat = 1, fs_Proportional = 1000000, fs_ImbalancePenalty = []\<rparr>)"

definition penaltyWeight :: "env \<Rightarrow> TokenAmount \<Rightarrow> nat \<Rightarrow> rat \<Rightarrow> rat \<Rightarrow> FeeScheduleState \<Rightarrow> goint" where
  "penaltyWeight e amount visited feePenalty diversityPenalty schedule =
     (let amountWithoutFee = GetAmountWithoutFees e amount schedule;
          amountFee = f64 (f64_of_u64 amount - f64_of_u64 amountWithoutFee);
          feeWeight = f64 (amountFee * feePenalty);
          diversityWeight = f64 (f64 (of_nat visited) * diversityPenalty);
          weight = f64 (f64 (1 + feeWeight) + diversityWeight)
      in int64_ceil e weight)"

definition CalculateEdgeWeightByPenalty ::
  "env \<Rightarrow> (EdgeId, goint) smap \<Rightarrow> TokenAmount \<Rightarrow> nat \<Rightarrow> rat \<Rightarrow> rat \<Rightarrow> (Address, FeeScheduleState) smap
     \<Rightarrow> (EdgeId, goint) smap" where
  "CalculateEdgeWeightByPenalty e edges amount visited feePenalty diversityPenalty feeScheduleMap =
     map (\<lambda>(key, _). (key, penaltyWeight e amount visited feePenalty diversityPenalty
            (feeScheduleOf feeScheduleMap (GetAddr2 key)))) edges"

definition feeWeight :: "env \<Rightarrow> TokenAmount \<Rightarrow> FeeScheduleState \<Rightarrow> goint" where
  "feeWeight e amount schedule =
     (let amountWithoutFee = GetAmountWithoutFees e amount schedule;
          amountFee = f64 (f64 (1 + f64_of_u64 amount) - f64_of_u64 amountWithoutFee)
      in int64_ceil e amountFee)"

definition CalculateEdgeWeightByFee ::
  "env \<Rightarrow> (EdgeId, goint) smap \<Rightarrow> TokenAmount \<Rightarrow> (Address, FeeScheduleState) smap \<Rightarrow> (EdgeId, goint) smap" where
  "CalculateEdgeWeightByFee e edges amount feeScheduleMap =
     map (\<lambda>(key, _). (key, feeWeight e amount (feeScheduleOf feeScheduleMap (GetAddr2 key)))) edges"

section \<open>The lightest route\<close>

text \<open>The switch has no case for \<open>RouteStrategyCheap\<close>: then the weights stay as they are.\<close>

definition weigh :: "env \<Rightarrow> routing \<Rightarrow> TokenNetworkState \<Rightarrow> string \<Rightarrow> TokenAmount \<Rightarrow> nat
     \<Rightarrow> (EdgeId, goint) smap \<Rightarrow> (EdgeId, goint) smap" where
  "weigh e rt tn strategy amount visited edges =
     (if strategy = RouteStrategyDiverse
      then CalculateEdgeWeightByPenalty e edges amount visited (FeePenalty rt) (DiversityPenalty rt)
             (tn_FeeScheduleMap tn)
      else if strategy = RouteStrategyShort then CalculateEdgeWeightByFee e edges amount (tn_FeeScheduleMap tn)
      else edges)"

text \<open>
  The loop of \<open>GetBestRoutesByDijkstra\<close>: a first hop that cannot be used joins the bad addresses. The weights
  are written to the graph of the network; the result carries it.
\<close>

partial_function (option) dijkstraRoutes ::
  "env \<Rightarrow> routing \<Rightarrow> ((Address \<times> goint) list \<Rightarrow> (Address \<times> goint) list) \<Rightarrow> TokenNetworkState
     \<Rightarrow> (Address \<Rightarrow> ChannelID option) \<Rightarrow> Address \<Rightarrow> Address \<Rightarrow> TokenAmount \<Rightarrow> string \<Rightarrow> Address list
     \<Rightarrow> (EdgeId, goint) smap \<Rightarrow> ((RouteError + RouteState list) \<times> (EdgeId, goint) smap) option" where
  "dijkstraRoutes e rt order tn hop fromAddr toAddr amount strategy badAddrs edges =
     (let edges1 = weigh e rt tn strategy amount (length badAddrs) edges;
          spt = GetPairShortestPath order (NewDirectGraph (gr_Nodes (tn_NetworkGraph tn)) edges1 badAddrs) fromAddr toAddr
      in case spt of
           [] \<Rightarrow> Some (Inl RouteNone, edges1)
         | path # _ \<Rightarrow>
             (if length path < 2 then Some (Inl RouteNone, edges1)
              else let nextHop = path ! (length path - 2)
                   in case hop nextHop of
                        Some channelId \<Rightarrow> Some (Inr [\<lparr>rt_NodeAddress = nextHop, rt_ChannelId = channelId\<rparr>], edges1)
                      | None \<Rightarrow> dijkstraRoutes e rt order tn hop fromAddr toAddr amount strategy (badAddrs @ [nextHop]) edges1))"

definition GetBestRoutesByDijkstra ::
  "env \<Rightarrow> ranges \<Rightarrow> ((Address \<times> goint) list \<Rightarrow> (Address \<times> goint) list) \<Rightarrow> routing \<Rightarrow> ChainState \<Rightarrow> TokenNetworkID
     \<Rightarrow> Address \<Rightarrow> Address \<Rightarrow> TokenAmount \<Rightarrow> Address list \<Rightarrow> string \<Rightarrow> ((RouteError + RouteState list) \<times> ChainState) option" where
  "GetBestRoutesByDijkstra e r order rt chain tokenNetworkId fromAddr toAddr amount badAddrs strategy =
     (case GetTokenNetworkByIdentifier e chain tokenNetworkId of
        None \<Rightarrow> Some (Inl RouteTokenNetworkNil, chain)
      | Some tokenNetwork \<Rightarrow>
          let dnsAddrsMap = dnsAddrs rt tokenNetwork
          in if length dnsAddrsMap = 0 then Some (Inl RouteDnsNil, chain)
             else do { (result, edges) \<leftarrow> dijkstraRoutes e rt order tokenNetwork
                         (routeHop e r rt chain tokenNetworkId dnsAddrsMap toAddr amount) fromAddr toAddr amount strategy
                         badAddrs (gr_Edges (tn_NetworkGraph tokenNetwork));
                       Some (result, storeTokenNetwork e tokenNetworkId (tokenNetwork\<lparr>tn_NetworkGraph :=
                         (tn_NetworkGraph tokenNetwork)\<lparr>gr_Edges := edges\<rparr>\<rparr>) chain) })"

definition GetBestRoutes ::
  "env \<Rightarrow> ranges \<Rightarrow> (Address list \<Rightarrow> Address list) \<Rightarrow> ((Address \<times> goint) list \<Rightarrow> (Address \<times> goint) list) \<Rightarrow> routing
     \<Rightarrow> ChainState \<Rightarrow> TokenNetworkID \<Rightarrow> Address \<Rightarrow> Address \<Rightarrow> TokenAmount \<Rightarrow> Address list
     \<Rightarrow> ((RouteError + RouteState list) \<times> ChainState) option" where
  "GetBestRoutes e r orderN orderD rt chain tokenNetworkId fromAddr toAddr amount badAddrs =
     (if RouteStrategy rt = RouteStrategyShort
      then Some (GetBestRoutesByDFS e r orderN rt chain tokenNetworkId fromAddr toAddr amount badAddrs, chain)
      else if RouteStrategy rt = RouteStrategyCheap
      then GetBestRoutesByDijkstra e r orderD rt chain tokenNetworkId fromAddr toAddr amount badAddrs RouteStrategyCheap
      else if RouteStrategy rt = RouteStrategyDiverse
      then GetBestRoutesByDijkstra e r orderD rt chain tokenNetworkId fromAddr toAddr amount badAddrs RouteStrategyDiverse
      else Some (Inl RouteNone, chain))"

definition GetSpecifiedRoute ::
  "env \<Rightarrow> ranges \<Rightarrow> routing \<Rightarrow> ChainState \<Rightarrow> TokenNetworkID \<Rightarrow> Address \<Rightarrow> TokenAmount \<Rightarrow> RouteError + RouteState list" where
  "GetSpecifiedRoute e r rt chain tokenNetworkId media amount =
     (if NetworkReachable rt media
      then case GetChannelStateByTokenNetworkAndPartner e r chain tokenNetworkId media of
             None \<Rightarrow> Inl RouteChannelNil
           | Some channelState \<Rightarrow>
               (case checkRouteAvailable channelState amount of
                  Inl err \<Rightarrow> Inl err
                | Inr _ \<Rightarrow> Inr [\<lparr>rt_NodeAddress = media, rt_ChannelId = cs_Identifier channelState\<rparr>])
      else Inl RouteUnreachable)"

end
