(* ===== verification/Pylons_RouteChoice.thy ===== *)
theory Pylons_RouteChoice
  imports Pylons_Routes
begin

text \<open>
  What the choice of a route guarantees: the first hop that is returned can be paid and lies on a shortest, or
  on a lightest, path to the target; the search always returns.
\<close>

section \<open>Routes\<close>

text \<open>A path of the network from \<open>from\<close> to \<open>to\<close>, listed from its end, that avoids the bad addresses.\<close>

fun on_edges :: "(EdgeId, goint) smap \<Rightarrow> Path \<Rightarrow> bool" where
  "on_edges edges (a # b # p) \<longleftrightarrow> smap_load edges (edgeId a b) \<noteq> None \<and> on_edges edges (b # p)"
| "on_edges edges _ \<longleftrightarrow> True"

definition route_path :: "(EdgeId, goint) smap \<Rightarrow> Address list \<Rightarrow> Address \<Rightarrow> Address \<Rightarrow> Path \<Rightarrow> bool" where
  "route_path edges bad from to p \<longleftrightarrow> 2 \<le> length p \<and> hd p = to \<and> last p = from \<and> distinct p
     \<and> set p \<inter> set bad = {} \<and> on_edges edges p"

abbreviation first_hop :: "Path \<Rightarrow> Address" where
  "first_hop p \<equiv> p ! (length p - 2)"

fun path_weight :: "(EdgeId, goint) smap \<Rightarrow> Path \<Rightarrow> int" where
  "path_weight edges (a # b # p) =
     (case smap_load edges (edgeId a b) of Some w \<Rightarrow> sint w | None \<Rightarrow> 0) + path_weight edges (b # p)"
| "path_weight edges _ = 0"

definition ends_ok :: "(Address, goint) smap \<Rightarrow> (EdgeId, goint) smap \<Rightarrow> bool" where
  "ends_ok nodes edges \<longleftrightarrow> (\<forall>a b. smap_load edges (edgeId a b) \<noteq> None \<longrightarrow> a \<in> fst ` set nodes \<and> b \<in> fst ` set nodes)"

lemma smap_load_dom: "smap_load m k \<noteq> None \<longleftrightarrow> k \<in> fst ` set m"
  by (simp add: smap_load_def map_of_eq_None_iff)

lemma ends_ok_graph: "graph_ok self g \<Longrightarrow> ends_ok (gr_Nodes g) (gr_Edges g)"
  unfolding ends_ok_def smap_load_dom [symmetric] using graph_ok_ends by blast

section \<open>The shortest route\<close>

lemma neighbours_topology:
  "b \<in> set (neighbours (tp_edges (NewTopology nodes edges bad)) a) \<longleftrightarrow>
     smap_load edges (edgeId a b) \<noteq> None \<and> a \<notin> set bad \<and> b \<notin> set bad"
proof -
  have "(\<exists>x \<in> set edges. GetAddr1 (fst x) = a \<and> GetAddr2 (fst x) = b) \<longleftrightarrow> edgeId a b \<in> fst ` set edges"
    by (metis (no_types, lifting) GetAddr_edgeId edgeId_GetAddr imageE image_eqI)
  then show ?thesis unfolding NewTopology_edges smap_load_dom by blast
qed

lemma linked_topology:
  "linked (tp_edges (NewTopology nodes edges bad)) (a # b # p) \<longleftrightarrow>
     on_edges edges (a # b # p) \<and> set (a # b # p) \<inter> set bad = {}"
  by (induction p arbitrary: a b) (auto simp: neighbours_topology)

lemma simple_path_route:
  "simple_path (tp_edges (NewTopology nodes edges bad)) from to p \<and> 2 \<le> length p \<longleftrightarrow> route_path edges bad from to p"
proof (cases p rule: remdups_adj.cases)
  case (3 a b q)
  show ?thesis unfolding 3 simple_path_def route_path_def linked_topology by auto
qed (simp_all add: route_path_def)

lemma NewTopology_nodes:
  "fst ` set (tp_nodes (NewTopology nodes edges bad)) = fst ` set nodes - set bad"
proof -
  let ?f = "\<lambda>m (addr, v :: goint). if \<not> AddressContains bad addr then smap_store addr v m else m"
  have "fst ` set (foldl ?f m nodes) = fst ` set m \<union> (fst ` set nodes - set bad)" for m
  proof (induction nodes arbitrary: m)
    case (Cons x nodes)
    show ?case using Cons [of "?f m x"] by (cases x) (auto simp: AddressContains_iff)
  qed simp
  from this [of "[]"] show ?thesis by (simp add: NewTopology_def)
qed

lemma GetPairPathSorted_routes:
  fixes "from" to :: Address and bad :: "Address list"
  assumes "map_order order" and "ends_ok nodes edges"
  defines "spt \<equiv> GetPairPathSorted order (NewTopology nodes edges bad) from to"
  shows "p \<in> set spt \<and> 2 \<le> length p \<longleftrightarrow> route_path edges bad from to p"
    and "p \<in> set spt \<Longrightarrow> p \<noteq> [] \<and> p ! 0 = to"
proof -
  let ?t = "NewTopology nodes edges bad"
  note e = GetPairPathSorted_exact(1) [OF assms(1) NewTopology_ok, of nodes edges bad "from" to, folded spt_def]
  have "tp_nodes ?t \<noteq> [] \<and> tp_edges ?t \<noteq> []" if r: "route_path edges bad from to p"
  proof -
    from r obtain a b q where p: "p = a # b # q" by (cases p rule: remdups_adj.cases) (auto simp: route_path_def)
    with r have ab: "smap_load edges (edgeId a b) \<noteq> None" "a \<notin> set bad" "b \<notin> set bad" by (auto simp: route_path_def)
    with assms(2) have "a \<in> fst ` set (tp_nodes ?t)" by (auto simp: NewTopology_nodes ends_ok_def)
    moreover have "b \<in> set (neighbours (tp_edges ?t) a)" unfolding neighbours_topology using ab r by (auto simp: p route_path_def)
    then have "tp_edges ?t \<noteq> []" by (auto simp: neighbours_def)
    ultimately show ?thesis by auto
  qed
  then show "p \<in> set spt \<and> 2 \<le> length p \<longleftrightarrow> route_path edges bad from to p"
    unfolding e using simple_path_route [of nodes edges bad "from" to p] by auto
  show "p \<in> set spt \<Longrightarrow> p \<noteq> [] \<and> p ! 0 = to"
    unfolding e by (auto simp: simple_path_def hd_conv_nth split: if_splits)
qed

lemma firstRoute_spec:
  assumes "sorted (map length spt)" and "\<And>p. p \<in> set spt \<Longrightarrow> p \<noteq> [] \<and> p ! 0 = to"
  shows "case firstRoute hop to spt of
      None \<Rightarrow> \<forall>p \<in> set spt. 2 \<le> length p \<longrightarrow> hop (first_hop p) = None
    | Some (n, c) \<Rightarrow> \<exists>p \<in> set spt. 2 \<le> length p \<and> n = first_hop p \<and> hop n = Some c
        \<and> (\<forall>q \<in> set spt. 2 \<le> length q \<and> hop (first_hop q) \<noteq> None \<longrightarrow> length p \<le> length q)"
  using assms
proof (induction spt)
  case (Cons sp spt)
  then have IH: "case firstRoute hop to spt of
      None \<Rightarrow> \<forall>p \<in> set spt. 2 \<le> length p \<longrightarrow> hop (first_hop p) = None
    | Some (n, c) \<Rightarrow> \<exists>p \<in> set spt. 2 \<le> length p \<and> n = first_hop p \<and> hop n = Some c
        \<and> (\<forall>q \<in> set spt. 2 \<le> length q \<and> hop (first_hop q) \<noteq> None \<longrightarrow> length p \<le> length q)" by simp
  show ?case
  proof (cases "2 \<le> length sp \<and> hop (first_hop sp) \<noteq> None")
    case True
    then obtain c where "hop (first_hop sp) = Some c" by auto
    with True Cons.prems show ?thesis by (auto simp: Let_def)
  next
    case False
    then have "firstRoute hop to (sp # spt) = firstRoute hop to spt"
      using Cons.prems(2) [of sp] by (auto simp: Let_def)
    with IH False show ?thesis by (auto split: option.splits)
  qed
qed simp

text \<open>What a first hop that is chosen satisfies.\<close>

lemma routeHop_usable:
  assumes "routeHop e r rt chain tokenNetworkId dns toAddr amount hop = Some c"
  obtains cs where "GetChannelStateByTokenNetworkAndPartner e r chain tokenNetworkId hop = Some cs"
    and "cs_Identifier cs = c" and "GetStatus cs = ChannelStateOpened"
    and "amount \<le> GetDistributable (cs_OurState cs) (cs_PartnerState cs)"
    and "NetworkReachable rt hop" and "hop = toAddr \<or> smap_load dns hop \<noteq> None"
  using assms by (auto simp: routeHop_def checkRouteAvailable_def Let_def not_less split: if_splits option.splits sum.splits)

lemma DFS_best:
  fixes r :: ranges and toAddr fromAddr :: Address and amount :: TokenAmount and badAddrs :: "Address list"
  assumes "map_order order" and tn: "GetTokenNetworkByIdentifier e chain tokenNetworkId = Some tn"
    and ends: "ends_ok (gr_Nodes (tn_NetworkGraph tn)) (gr_Edges (tn_NetworkGraph tn))"
    and dns: "dnsAddrs rt tn \<noteq> []"
  defines "hop \<equiv> routeHop e r rt chain tokenNetworkId (dnsAddrs rt tn) toAddr amount"
    and "route \<equiv> route_path (gr_Edges (tn_NetworkGraph tn)) badAddrs fromAddr toAddr"
  shows "case GetBestRoutesByDFS e r order rt chain tokenNetworkId fromAddr toAddr amount badAddrs of
      Inl _ \<Rightarrow> \<forall>p. route p \<longrightarrow> hop (first_hop p) = None
    | Inr routes \<Rightarrow> \<exists>p c. routes = [\<lparr>rt_NodeAddress = first_hop p, rt_ChannelId = c\<rparr>] \<and> route p
        \<and> hop (first_hop p) = Some c
        \<and> (\<forall>q. route q \<and> hop (first_hop q) \<noteq> None \<longrightarrow> length p \<le> length q)"
proof -
  let ?g = "tn_NetworkGraph tn"
  let ?spt = "GetPairPathSorted order (NewTopology (gr_Nodes ?g) (gr_Edges ?g) badAddrs) fromAddr toAddr"
  have mem: "p \<in> set ?spt \<and> 2 \<le> length p \<longleftrightarrow> route p" for p
    unfolding route_def by (rule GetPairPathSorted_routes(1) [OF assms(1) ends])
  have "sorted (map length ?spt)" by (rule GetPairPathSorted_exact(3) [OF assms(1) NewTopology_ok])
  from firstRoute_spec [OF this GetPairPathSorted_routes(2) [OF assms(1) ends], where hop = hop]
  have spec: "case firstRoute hop toAddr ?spt of
      None \<Rightarrow> \<forall>p \<in> set ?spt. 2 \<le> length p \<longrightarrow> hop (first_hop p) = None
    | Some (n, c) \<Rightarrow> \<exists>p \<in> set ?spt. 2 \<le> length p \<and> n = first_hop p \<and> hop n = Some c
        \<and> (\<forall>q \<in> set ?spt. 2 \<le> length q \<and> hop (first_hop q) \<noteq> None \<longrightarrow> length p \<le> length q)" .
  have eq: "GetBestRoutesByDFS e r order rt chain tokenNetworkId fromAddr toAddr amount badAddrs =
      (if ?spt = [] then Inl RouteSptNil
       else case firstRoute hop toAddr ?spt of None \<Rightarrow> Inl RouteNone
          | Some (n, c) \<Rightarrow> Inr [\<lparr>rt_NodeAddress = n, rt_ChannelId = c\<rparr>])"
    using dns by (simp add: GetBestRoutesByDFS_def tn Let_def hop_def)
  show ?thesis
  proof (cases "firstRoute hop toAddr ?spt")
    case None
    with spec mem show ?thesis unfolding eq by auto
  next
    case (Some nc)
    then obtain n c where nc: "firstRoute hop toAddr ?spt = Some (n, c)" by (cases nc) auto
    with spec obtain p where p: "p \<in> set ?spt" "2 \<le> length p" "n = first_hop p" "hop n = Some c"
      and least: "\<forall>q \<in> set ?spt. 2 \<le> length q \<and> hop (first_hop q) \<noteq> None \<longrightarrow> length p \<le> length q" by auto
    have "?spt \<noteq> []" using p(1) by auto
    with nc have "GetBestRoutesByDFS e r order rt chain tokenNetworkId fromAddr toAddr amount badAddrs =
        Inr [\<lparr>rt_NodeAddress = first_hop p, rt_ChannelId = c\<rparr>]" unfolding eq by (simp add: p(3))
    moreover have "route p" using p mem by blast
    moreover have "\<forall>q. route q \<and> hop (first_hop q) \<noteq> None \<longrightarrow> length p \<le> length q" using least mem by blast
    ultimately show ?thesis using p by auto
  qed
qed

section \<open>The search returns\<close>

text \<open>Whatever the weights are: the hops of a path, its start apart, are nodes of the graph.\<close>

definition tails_in :: "Address set \<Rightarrow> (Address, Path) smap \<Rightarrow> bool" where
  "tails_in V pathList \<longleftrightarrow> (\<forall>x p. smap_load pathList x = Some p \<longrightarrow> set (tl p) \<subseteq> V)"

lemma tails_in_relax:
  assumes "tails_in V pl" and "n \<in> V" and "relax prev from (dst, pl) (n, w) = (dst', pl')"
  shows "tails_in V pl'"
proof -
  have "set (tl (p @ [n])) \<subseteq> V" if "set (tl p) \<subseteq> V" for p using that assms(2) by (cases p) auto
  with assms(1) have "set (tl ((case smap_load pl from of Some p \<Rightarrow> p | None \<Rightarrow> []) @ [n])) \<subseteq> V"
    by (simp add: tails_in_def split: option.split)
  moreover have "pl' = pl \<or> pl' = smap_store n ((case smap_load pl from of Some p \<Rightarrow> p | None \<Rightarrow> []) @ [n]) pl"
    using assms(3) by (auto simp: relax_def Let_def split: if_splits)
  ultimately obtain q where "set (tl q) \<subseteq> V" and "pl' = pl \<or> pl' = smap_store n q pl" by metis
  with assms(1) show ?thesis unfolding tails_in_def by (metis fun_upd_apply option.inject smap_load_store)
qed

lemma tails_in_relax_all:
  "tails_in V pl \<Longrightarrow> \<forall>(n, w) \<in> set es. n \<in> V \<Longrightarrow> foldl (relax prev from) (dst, pl) es = (dst', pl') \<Longrightarrow> tails_in V pl'"
proof (induction es arbitrary: dst pl)
  case (Cons x es)
  obtain n w where x: "x = (n, w)" by fastforce
  obtain d1 p1 where r: "relax prev from (dst, pl) (n, w) = (d1, p1)" by fastforce
  from tails_in_relax [OF Cons.prems(1) _ r] Cons.prems(2) have "tails_in V p1" by (auto simp: x)
  with Cons.IH [of p1 d1] Cons.prems show ?case by (simp add: x r)
qed simp

lemma searchPathDijkstra_tails:
  assumes "map_order order" and "\<And>a b. weightOf g a b \<noteq> None \<Longrightarrow> a \<in> V" and "tails_in V pl"
  shows "tails_in V (searchPathDijkstra order g dst prev from to pl)"
  using assms(3)
proof (induction "unsettled prev" arbitrary: dst prev pl "from" rule: less_induct)
  case less
  let ?es = "order (case smap_load g from of Some v \<Rightarrow> vx_To v | None \<Rightarrow> [])"
  obtain dst1 pl1 where r: "foldl (relax prev from) (dst, pl) ?es = (dst1, pl1)" by fastforce
  obtain n m where nm: "foldl (nearest prev to) (0, MaxInt64) (order dst1) = (n, m)" by fastforce
  have "\<forall>(a, w) \<in> set ?es. a \<in> V"
  proof clarify
    fix a w assume "(a, w) \<in> set ?es"
    then have "(a, w) \<in> set (case smap_load g from of Some v \<Rightarrow> vx_To v | None \<Rightarrow> [])" by (simp add: map_order_set [OF assms(1)])
    then obtain v where v: "smap_load g from = Some v" and "(a, w) \<in> set (vx_To v)" by (cases "smap_load g from") auto
    then have "smap_load (vx_To v) a \<noteq> None" unfolding smap_load_dom by force
    with v have "weightOf g a from \<noteq> None" by (simp add: weightOf_def)
    with assms(2) show "a \<in> V" .
  qed
  from tails_in_relax_all [OF less.prems this r] have t1: "tails_in V pl1" .
  show ?case
  proof (cases "m = MaxInt64")
    case False
    from nearest_unsettled [OF nm this] have new: "smap_load prev n = None" .
    from less.hyps [OF unsettled_less [OF this] t1] new less.prems t1 False r nm show ?thesis
      by (subst searchPathDijkstra.simps) simp
  qed (use less.prems t1 r nm in \<open>subst searchPathDijkstra.simps; simp\<close>)
qed

lemma first_hop_new:
  assumes "map_order order" and "smap_ok edges"
    and "GetPairShortestPath order (NewDirectGraph nodes edges bad) from to = path # rest" and "2 \<le> length path"
  shows "first_hop path \<in> fst ` set nodes - set bad"
proof -
  let ?g = "NewDirectGraph nodes edges bad" and ?V = "fst ` set nodes - set bad"
  have "weightOf ?g a b \<noteq> None \<Longrightarrow> a \<in> ?V" for a b
    using NewDirectGraph_facts(3) [OF assms(2), of nodes bad a b] by (auto split: if_splits)
  moreover have "tails_in ?V [(from, [from])]" by (simp add: tails_in_def smap_load_def)
  ultimately have t: "tails_in ?V (searchPathDijkstra order ?g [(from, 0)] [(from, 0)] from to [(from, [from])])"
    by (rule searchPathDijkstra_tails [OF assms(1)])
  from assms(3) obtain p where path: "path = rev p" and "set (tl p) \<subseteq> ?V"
    using t by (auto simp: GetPairShortestPath_def Let_def tails_in_def split: option.splits)
  moreover have "first_hop path = p ! 1" using assms(4) by (simp add: path rev_nth)
  moreover have "p ! 1 \<in> set (tl p)" using assms(4) by (cases p) (auto simp: path intro: nth_mem)
  ultimately show ?thesis by (simp add: subset_iff)
qed

lemma weigh_keys [simp]: "map fst (weigh e rt tn strategy amount n edges) = map fst edges"
  by (simp add: weigh_def CalculateEdgeWeightByPenalty_def CalculateEdgeWeightByFee_def case_prod_beta comp_def)

lemma smap_ok_weigh [simp]: "smap_ok (weigh e rt tn strategy amount n edges) \<longleftrightarrow> smap_ok edges"
  by (simp add: smap_ok_def)

lemma weigh_weigh [simp]:
  "weigh e rt tn strategy amount n (weigh e rt tn strategy amount n' edges) = weigh e rt tn strategy amount n edges"
  by (simp add: weigh_def CalculateEdgeWeightByPenalty_def CalculateEdgeWeightByFee_def case_prod_beta comp_def)

lemma dijkstraRoutes_returns:
  assumes "map_order order" and "smap_ok edges"
  shows "\<exists>y. dijkstraRoutes e rt order tn hop fromAddr toAddr amount strategy bad edges = Some y"
  using assms(2)
proof (induction "card (fst ` set (gr_Nodes (tn_NetworkGraph tn)) - set bad)" arbitrary: bad edges rule: less_induct)
  case less
  let ?edges1 = "weigh e rt tn strategy amount (length bad) edges"
  have ok: "smap_ok ?edges1" using less.prems by simp
  show ?case
  proof (cases "GetPairShortestPath order (NewDirectGraph (gr_Nodes (tn_NetworkGraph tn)) ?edges1 bad) fromAddr toAddr")
    case Nil
    then show ?thesis by (subst dijkstraRoutes.simps) (simp add: Let_def)
  next
    case (Cons path rest)
    show ?thesis
    proof (cases "length path < 2 \<or> hop (first_hop path) \<noteq> None")
      case True
      with Cons show ?thesis by (subst dijkstraRoutes.simps) (auto simp: Let_def)
    next
      case False
      then have "first_hop path \<in> fst ` set (gr_Nodes (tn_NetworkGraph tn)) - set bad"
        by (intro first_hop_new [OF assms(1) ok Cons]) simp
      then have "card (fst ` set (gr_Nodes (tn_NetworkGraph tn)) - set (bad @ [first_hop path]))
          < card (fst ` set (gr_Nodes (tn_NetworkGraph tn)) - set bad)"
        by (intro psubset_card_mono) auto
      from less.hyps [OF this ok] False Cons show ?thesis by (subst dijkstraRoutes.simps) (simp add: Let_def)
    qed
  qed
qed

section \<open>The lightest route\<close>

lemma dlinked_network:
  assumes "smap_ok edges" and "ends_ok nodes edges"
  shows "dlinked (NewDirectGraph nodes edges bad) (a # b # p) \<longleftrightarrow>
    on_edges edges (a # b # p) \<and> set (a # b # p) \<inter> set bad = {}"
proof -
  have "weightOf (NewDirectGraph nodes edges bad) x y \<noteq> None \<longleftrightarrow>
      smap_load edges (edgeId x y) \<noteq> None \<and> x \<notin> set bad \<and> y \<notin> set bad" for x y
    unfolding NewDirectGraph_facts(3) [OF assms(1)] using assms(2) by (auto simp: ends_ok_def)
  then show ?thesis by (induction p arbitrary: a b) auto
qed

lemma plen_network:
  assumes "smap_ok edges"
  shows "dlinked (NewDirectGraph nodes edges bad) p \<Longrightarrow> plen (NewDirectGraph nodes edges bad) p = path_weight edges p"
  by (induction p rule: induct_list012) (auto simp: NewDirectGraph_facts(3) [OF assms] split: if_splits)

lemma walk_network:
  assumes "smap_ok edges" and "ends_ok nodes edges" and "from \<noteq> to"
  shows "walk (NewDirectGraph nodes edges bad) from to p \<and> distinct p \<longleftrightarrow> route_path edges bad from to p"
proof (cases p rule: remdups_adj.cases)
  case (3 a b q)
  show ?thesis unfolding 3 walk_def route_path_def dlinked_network [OF assms(1,2)] by auto
qed (use assms(3) in \<open>auto simp: route_path_def walk_def\<close>)

definition weights_fit :: "(Address, goint) smap \<Rightarrow> (EdgeId, goint) smap \<Rightarrow> int \<Rightarrow> bool" where
  "weights_fit nodes edges W \<longleftrightarrow> (\<forall>(_, w) \<in> set edges. 0 \<le> sint w \<and> sint w \<le> W) \<and> 0 \<le> W
     \<and> int (length nodes) * W < 2 ^ 63 - 1"

lemma weights_fit_ok:
  assumes "smap_ok edges" and "weights_fit nodes edges W" shows "weights_ok (NewDirectGraph nodes edges bad) W"
proof -
  have "card (fst ` set nodes - set bad) \<le> length nodes"
    by (meson card_Diff_subset_Int card_image_le card_length diff_le_self finite_set le_trans card_mono Diff_subset finite_imageI)
  then have "int (card (fst ` set nodes - set bad)) * W \<le> int (length nodes) * W"
    using assms(2) by (intro mult_right_mono) (simp_all add: weights_fit_def)
  then show ?thesis using assms NewDirectGraph_facts [OF assms(1), of nodes bad]
    by (auto simp: weights_ok_def weights_fit_def dest!: smap_load_SomeD split: if_splits)
qed

lemma Dijkstra_stage:
  assumes "map_order order" and "smap_ok edges" and "ends_ok nodes edges" and "weights_fit nodes edges W"
    and "from \<noteq> to"
  obtains path where "GetPairShortestPath order (NewDirectGraph nodes edges bad) from to = [path]"
    and "length path < 2 \<Longrightarrow> \<not> route_path edges bad from to q"
    and "2 \<le> length path \<Longrightarrow> route_path edges bad from to path
      \<and> (\<forall>q. route_path edges bad from to q \<longrightarrow> path_weight edges path \<le> path_weight edges q)"
proof -
  let ?g = "NewDirectGraph nodes edges bad"
  from GetPairShortestPath_all [OF weights_fit_ok [OF assms(2,4)] NewDirectGraph_facts(2) [OF assms(2)] assms(1)]
  obtain p where p: "GetPairShortestPath order ?g from to = [p]"
    and best: "if p = [] then \<not> (\<exists>q. walk ?g from to q)
       else walk ?g from to p \<and> distinct p \<and> (\<forall>q. walk ?g from to q \<longrightarrow> plen ?g p \<le> plen ?g q)" by blast
  note route = walk_network [OF assms(2,3,5), of bad]
  have len: "plen ?g q = path_weight edges q" if "walk ?g from to q" for q
    using plen_network [OF assms(2)] that by (simp add: walk_def)
  show thesis
  proof (cases "p = []")
    case True
    with best route show ?thesis by (intro that [OF p]) (auto simp: True)
  next
    case False
    with best have r: "route_path edges bad from to p" using route by auto
    moreover have "path_weight edges p \<le> path_weight edges q" if "route_path edges bad from to q" for q
      using best False len route [of q] that by auto
    ultimately show ?thesis by (intro that [OF p]) (auto simp: route_path_def)
  qed
qed

lemma on_edges_weigh [simp]:
  "on_edges (weigh e rt tn strategy amount n edges) p \<longleftrightarrow> on_edges edges p"
proof -
  have "smap_load (weigh e rt tn strategy amount n edges) k \<noteq> None \<longleftrightarrow> smap_load edges k \<noteq> None" for k
    unfolding smap_load_dom set_map [symmetric] by simp
  then show ?thesis by (induction edges p rule: on_edges.induct) auto
qed

lemma ends_ok_weigh [simp]: "ends_ok nodes (weigh e rt tn strategy amount n edges) \<longleftrightarrow> ends_ok nodes edges"
  unfolding ends_ok_def smap_load_dom set_map [symmetric] by simp

lemma route_path_weigh [simp]:
  "route_path (weigh e rt tn strategy amount n edges) = route_path edges"
  by (simp add: route_path_def fun_eq_iff)

lemma dijkstraRoutes_lightest:
  assumes "map_order order" and "smap_ok edges" and "ends_ok (gr_Nodes (tn_NetworkGraph tn)) edges"
    and "fromAddr \<noteq> toAddr"
    and "\<And>n. n \<le> card (fst ` set (gr_Nodes (tn_NetworkGraph tn)) - set bad) \<Longrightarrow>
      weights_fit (gr_Nodes (tn_NetworkGraph tn)) (weigh e rt tn strategy amount (length bad + n) edges) W"
    and "dijkstraRoutes e rt order tn hop fromAddr toAddr amount strategy bad edges = Some (res, edges')"
  shows "\<exists>rejected. (\<forall>h \<in> set rejected. hop h = None)
    \<and> edges' = weigh e rt tn strategy amount (length (bad @ rejected)) edges
    \<and> (case res of
         Inl _ \<Rightarrow> \<forall>p. \<not> route_path edges (bad @ rejected) fromAddr toAddr p
       | Inr routes \<Rightarrow> \<exists>p c. routes = [\<lparr>rt_NodeAddress = first_hop p, rt_ChannelId = c\<rparr>]
           \<and> route_path edges (bad @ rejected) fromAddr toAddr p \<and> hop (first_hop p) = Some c
           \<and> (\<forall>q. route_path edges (bad @ rejected) fromAddr toAddr q \<longrightarrow> path_weight edges' p \<le> path_weight edges' q))"
  using assms(2,3,5,6)
proof (induction "card (fst ` set (gr_Nodes (tn_NetworkGraph tn)) - set bad)" arbitrary: bad edges rule: less_induct)
  case less
  let ?nodes = "gr_Nodes (tn_NetworkGraph tn)"
  let ?e1 = "weigh e rt tn strategy amount (length bad) edges"
  have ok: "smap_ok ?e1" and ends: "ends_ok ?nodes ?e1" using less.prems by simp_all
  have fit: "weights_fit ?nodes ?e1 W" using less.prems(3) [of 0] by simp
  obtain path where path: "GetPairShortestPath order (NewDirectGraph ?nodes ?e1 bad) fromAddr toAddr = [path]"
    and short: "length path < 2 \<Longrightarrow> \<not> route_path edges bad fromAddr toAddr q"
    and long: "2 \<le> length path \<Longrightarrow> route_path edges bad fromAddr toAddr path
      \<and> (\<forall>q. route_path edges bad fromAddr toAddr q \<longrightarrow> path_weight ?e1 path \<le> path_weight ?e1 q)" for q
    using Dijkstra_stage [OF assms(1) ok ends fit assms(4), of bad] unfolding route_path_weigh by metis
  show ?case
  proof (cases "length path < 2 \<or> hop (first_hop path) \<noteq> None")
    case True
    with path have "dijkstraRoutes e rt order tn hop fromAddr toAddr amount strategy bad edges =
        Some (if length path < 2 then Inl RouteNone
          else Inr [\<lparr>rt_NodeAddress = first_hop path, rt_ChannelId = the (hop (first_hop path))\<rparr>], ?e1)"
      by (subst dijkstraRoutes.simps) (auto simp: Let_def)
    with less.prems(4) have r: "edges' = ?e1" "res = (if length path < 2 then Inl RouteNone
        else Inr [\<lparr>rt_NodeAddress = first_hop path, rt_ChannelId = the (hop (first_hop path))\<rparr>])"
      by simp_all
    show ?thesis
    proof (cases "length path < 2")
      case True
      with short show ?thesis by (intro exI [of _ "[]"]) (simp add: r)
    next
      case False
      with \<open>length path < 2 \<or> _\<close> obtain c where "hop (first_hop path) = Some c" by auto
      with False long show ?thesis by (intro exI [of _ "[]"]) (auto simp: r)
    qed
  next
    case False
    let ?bad = "bad @ [first_hop path]"
    have new: "first_hop path \<in> fst ` set ?nodes - set bad"
      using False by (intro first_hop_new [OF assms(1) ok path]) simp
    then have "fst ` set ?nodes - set bad = insert (first_hop path) (fst ` set ?nodes - set ?bad)" by auto
    then have card: "card (fst ` set ?nodes - set bad) = Suc (card (fst ` set ?nodes - set ?bad))"
      by (metis (no_types, lifting) Diff_iff card_insert_disjoint finite_Diff finite_imageI finite_set in_set_conv_decomp)
    have run: "dijkstraRoutes e rt order tn hop fromAddr toAddr amount strategy ?bad ?e1 = Some (res, edges')"
      using less.prems(4) False path by (subst (asm) dijkstraRoutes.simps) (simp add: Let_def)
    have "weights_fit ?nodes (weigh e rt tn strategy amount (length ?bad + n) ?e1) W"
      if "n \<le> card (fst ` set ?nodes - set ?bad)" for n
      using less.prems(3) [of "Suc n"] that card by simp
    note IH = less.hyps [OF _ ok ends this run, unfolded route_path_weigh weigh_weigh]
    have "card (fst ` set ?nodes - set ?bad) < card (fst ` set ?nodes - set bad)" using card by simp
    from IH [OF this] obtain rejected where
      rej: "\<forall>h \<in> set rejected. hop h = None"
        "edges' = weigh e rt tn strategy amount (length (?bad @ rejected)) edges"
        "case res of
         Inl _ \<Rightarrow> \<forall>p. \<not> route_path edges (?bad @ rejected) fromAddr toAddr p
       | Inr routes \<Rightarrow> \<exists>p c. routes = [\<lparr>rt_NodeAddress = first_hop p, rt_ChannelId = c\<rparr>]
           \<and> route_path edges (?bad @ rejected) fromAddr toAddr p \<and> hop (first_hop p) = Some c
           \<and> (\<forall>q. route_path edges (?bad @ rejected) fromAddr toAddr q \<longrightarrow> path_weight edges' p \<le> path_weight edges' q)"
      by blast
    have app: "(bad @ [first_hop path]) @ rejected = bad @ (first_hop path # rejected)" by simp
    from False rej [unfolded app] show ?thesis by (intro exI [of _ "first_hop path # rejected"]) simp
  qed
qed

text \<open>
  Without a DNS node there is no route, not even to a partner with an open channel: the search gives up before it looks at the
  graph, although a hop that is the target need not be a DNS node.
\<close>

theorem no_dns_no_route:
  assumes "RouteStrategy rt = RouteStrategyShort" and "GetTokenNetworkByIdentifier e chain tokenNetworkId = Some tn"
    and "dnsAddrs rt tn = []"
  shows "GetBestRoutes e r orderN orderD rt chain tokenNetworkId fromAddr toAddr amount badAddrs = Some (Inl RouteDnsNil, chain)"
  using assms by (simp add: GetBestRoutes_def GetBestRoutesByDFS_def)

lemma DFS_error:
  assumes "GetTokenNetworkByIdentifier e chain tokenNetworkId = Some tn" and "dnsAddrs rt tn \<noteq> []"
    and "GetBestRoutesByDFS e r order rt chain tokenNetworkId fromAddr toAddr amount badAddrs = Inl err"
  shows "err \<noteq> RouteDnsNil"
  using assms by (auto simp: GetBestRoutesByDFS_def Let_def split: if_splits option.splits)

section \<open>Properties\<close>



text \<open>
  C30. The search for a route returns, whatever the graph, the weights and the strategy are: a round
  of the loop of \<open>GetBestRoutesByDijkstra\<close> either ends it or rejects one more node of the graph. The edges
  only have to be a map.
\<close>

theorem GetBestRoutes_returns:
  assumes "map_order orderD"
    and "\<And>tn. GetTokenNetworkByIdentifier e chain tokenNetworkId = Some tn \<Longrightarrow> smap_ok (gr_Edges (tn_NetworkGraph tn))"
  shows "\<exists>y. GetBestRoutes e r orderN orderD rt chain tokenNetworkId fromAddr toAddr amount badAddrs = Some y"
proof -
  have "\<exists>y. GetBestRoutesByDijkstra e r orderD rt chain tokenNetworkId fromAddr toAddr amount badAddrs strategy = Some y"
    for strategy
  proof (cases "GetTokenNetworkByIdentifier e chain tokenNetworkId")
    case (Some tn)
    obtain res edges' where "dijkstraRoutes e rt orderD tn (routeHop e r rt chain tokenNetworkId (dnsAddrs rt tn) toAddr amount)
        fromAddr toAddr amount strategy badAddrs (gr_Edges (tn_NetworkGraph tn)) = Some (res, edges')"
      using dijkstraRoutes_returns [OF assms(1) assms(2) [OF Some]] by (metis surj_pair)
    with Some show ?thesis by (simp add: GetBestRoutesByDijkstra_def Let_def)
  qed (simp add: GetBestRoutesByDijkstra_def)
  then show ?thesis by (simp add: GetBestRoutes_def)
qed

end
