(* ===== verification/Pylons_RouteSample.thy ===== *)
theory Pylons_RouteSample
  imports Pylons_RouteChoice Pylons_Invariant
begin

text \<open>
  The route theorems at a concrete network: node 3 has channels with 1 and 2, 2 also has a route to 1, and 1 one
  to 7. The channel with 1 holds 5, the one with 2 holds 100.
\<close>

definition route_end :: "Address \<Rightarrow> TokenAmount \<Rightarrow> NettingChannelEndState" where
  "route_end a b = sample_side2\<lparr>es_Address := a, es_ContractBalance := b\<rparr>"

definition route_channel :: "ChannelID \<Rightarrow> Address \<Rightarrow> TokenAmount \<Rightarrow> NettingChannelState" where
  "route_channel i a b = sample1\<lparr>cs_Identifier := i, cs_OurState := route_end 3 b, cs_PartnerState := route_end a 0\<rparr>"

definition route_ranges :: ranges where
  "route_ranges = \<lparr>rg_PaymentNetworks = (\<lambda>xs. xs), rg_TokenNetworks = (\<lambda>xs. xs), rg_Channels = (\<lambda>xs. xs),
     rg_Partners = (\<lambda>xs. xs), rg_Tasks = (\<lambda>xs. xs), rg_Queues = (\<lambda>xs. xs), rg_Routes = (\<lambda>xs. xs),
     IsDnsNode = (\<lambda>a. a < 3)\<rparr>"

definition route_network :: TokenNetworkState where
  "route_network = foldl (\<lambda>tn (a, b). AddRoute route_ranges a b tn)
     ((NewTokenNetworkState 3)\<lparr>tn_ChannelsMap := [(1, route_channel 1 1 5), (2, route_channel 2 2 100)],
       tn_PartnerAddressesToChannels := [(1, [1]), (2, [2])]\<rparr>) [(3, 1), (3, 2), (2, 1), (1, 7)]"

definition route_chain :: ChainState where
  "route_chain = NewChainState\<lparr>ch_IdentifiersToPaymentNetworks := [(8, \<lparr>pn_Address = 8,
     pn_TokenIdentifiersToTokenNetworks = [(6, route_network)], pn_TokenAddressesToTokenIdentifiers = [(9, 6)]\<rparr>)]\<rparr>"

definition route_config :: "string \<Rightarrow> routing" where
  "route_config s = \<lparr>RouteStrategy = s, FeePenalty = 1, DiversityPenalty = 1, GetAllDnsNodes = None,
     NetworkReachable = (\<lambda>_. True)\<rparr>"

lemma route_network_found: "GetTokenNetworkByIdentifier sample_env route_chain 6 = Some route_network"
  by (simp add: GetTokenNetworkByIdentifier_def route_chain_def NewChainState_def sample_env_def smap_load_def)

lemma same_order [simp]: "map_order (\<lambda>xs. xs)"
  by (simp add: map_order_def)

lemma route_dns: "dnsAddrs (route_config s) route_network = [(1, 1), (2, 1)]"
proof -
  have "GetAllDns route_network = [(1, 1), (2, 1)]" by code_simp
  then show ?thesis by (simp add: dnsAddrs_def)
qed

lemma route_graph_ok: "graph_ok 3 (tn_NetworkGraph route_network)"
  unfolding route_network_def using graph_ok_New [of 3]
  by (intro conjunct1 [OF graph_ok_AddRoutes]) (simp_all add: NewTokenNetworkState_def)

lemma route_hop:
  "routeHop sample_env route_ranges (route_config s) route_chain 6 [(1, 1), (2, 1)] 7 50 1 = None"
  "routeHop sample_env route_ranges (route_config s) route_chain 6 [(1, 1), (2, 1)] 7 50 2 = Some 2"
proof -
  have c: "routeHop sample_env route_ranges (route_config s) = routeHop sample_env route_ranges (route_config [])"
    by (simp add: routeHop_def route_config_def fun_eq_iff)
  show "routeHop sample_env route_ranges (route_config s) route_chain 6 [(1, 1), (2, 1)] 7 50 1 = None"
    unfolding c by code_simp
  show "routeHop sample_env route_ranges (route_config s) route_chain 6 [(1, 1), (2, 1)] 7 50 2 = Some 2"
    unfolding c by code_simp
qed

lemma route_graph:
  "gr_Nodes (tn_NetworkGraph route_network) = [(3, 3), (1, 3), (2, 2), (7, 1)]"
  "gr_Edges (tn_NetworkGraph route_network) = [(edgeId 3 1, 1), (edgeId 1 3, 1), (edgeId 3 2, 1), (edgeId 2 3, 1),
     (edgeId 2 1, 1), (edgeId 1 2, 1), (edgeId 1 7, 1), (edgeId 7 1, 1)]"
  by code_simp+

lemma route_directed:
  "NewDirectGraph (gr_Nodes (tn_NetworkGraph route_network)) (gr_Edges (tn_NetworkGraph route_network)) [] =
   [(3, \<lparr>vx_From = [(1, 1), (2, 1)], vx_To = [(1, 1), (2, 1)]\<rparr>),
    (1, \<lparr>vx_From = [(3, 1), (2, 1), (7, 1)], vx_To = [(3, 1), (2, 1), (7, 1)]\<rparr>),
    (2, \<lparr>vx_From = [(3, 1), (1, 1)], vx_To = [(3, 1), (1, 1)]\<rparr>), (7, \<lparr>vx_From = [(1, 1)], vx_To = [(1, 1)]\<rparr>)]"
  "NewDirectGraph (gr_Nodes (tn_NetworkGraph route_network)) (gr_Edges (tn_NetworkGraph route_network)) [1] =
   [(3, \<lparr>vx_From = [(2, 1)], vx_To = [(2, 1)]\<rparr>), (2, \<lparr>vx_From = [(3, 1)], vx_To = [(3, 1)]\<rparr>),
    (7, \<lparr>vx_From = [], vx_To = []\<rparr>)]"
  by (simp_all add: route_graph NewDirectGraph_def add_node_def add_edge_def smap_load_def smap_store_def)

lemma route_search:
  "GetPairShortestPath (\<lambda>xs. xs) (NewDirectGraph (gr_Nodes (tn_NetworkGraph route_network))
     (gr_Edges (tn_NetworkGraph route_network)) []) 3 7 = [[7, 1, 3]]"
  "GetPairShortestPath (\<lambda>xs. xs) (NewDirectGraph (gr_Nodes (tn_NetworkGraph route_network))
     (gr_Edges (tn_NetworkGraph route_network)) [1]) 3 7 = [[]]"
  unfolding route_directed
  by (simp_all add: GetPairShortestPath_def searchPathDijkstra.simps relax_def nearest_def
      smap_load_def smap_store_def word_sless_alt MaxInt64_def)

lemma weigh_cheap [simp]: "weigh e rt tn RouteStrategyCheap amount n edges = edges"
  by (simp add: weigh_def RouteStrategyCheap_def RouteStrategyDiverse_def RouteStrategyShort_def)

text \<open>
  The weighted search can miss a route that exists. A first hop without funds is excluded from
  the whole path, not only as a first hop: in the sample network the channel with 1 cannot carry 50, but 2 can,
  and reaches the target through 1. The strategy "short" returns 2; with "cheap" the search ends with an error.
\<close>

theorem weighted_search_misses_route:
  "GetBestRoutes sample_env route_ranges (\<lambda>xs. xs) (\<lambda>xs. xs) (route_config RouteStrategyShort) route_chain 6 3 7 50 [] =
     Some (Inr [\<lparr>rt_NodeAddress = 2, rt_ChannelId = 2\<rparr>], route_chain)"
  "map_option fst (GetBestRoutes sample_env route_ranges (\<lambda>xs. xs) (\<lambda>xs. xs) (route_config RouteStrategyCheap) route_chain 6 3 7 50 []) =
     Some (Inl RouteNone)"
proof -
  have "GetBestRoutesByDFS sample_env route_ranges (\<lambda>xs. xs) (route_config RouteStrategyShort) route_chain 6 3 7 50 [] =
      Inr [\<lparr>rt_NodeAddress = 2, rt_ChannelId = 2\<rparr>]" by code_simp
  then show "GetBestRoutes sample_env route_ranges (\<lambda>xs. xs) (\<lambda>xs. xs) (route_config RouteStrategyShort) route_chain 6 3 7 50 [] =
     Some (Inr [\<lparr>rt_NodeAddress = 2, rt_ChannelId = 2\<rparr>], route_chain)"
    by (simp add: GetBestRoutes_def route_config_def)
  let ?hop = "routeHop sample_env route_ranges (route_config RouteStrategyCheap) route_chain 6 [(1, 1), (2, 1)] 7 50"
  have "dijkstraRoutes sample_env (route_config RouteStrategyCheap) (\<lambda>xs. xs) route_network ?hop 3 7 50 RouteStrategyCheap
      [1] (gr_Edges (tn_NetworkGraph route_network)) = Some (Inl RouteNone, gr_Edges (tn_NetworkGraph route_network))"
    by (subst dijkstraRoutes.simps) (simp add: Let_def route_search)
  then have "dijkstraRoutes sample_env (route_config RouteStrategyCheap) (\<lambda>xs. xs) route_network ?hop 3 7 50 RouteStrategyCheap
      [] (gr_Edges (tn_NetworkGraph route_network)) = Some (Inl RouteNone, gr_Edges (tn_NetworkGraph route_network))"
    by (subst dijkstraRoutes.simps) (simp add: Let_def route_search route_hop)
  moreover have "RouteStrategyCheap \<noteq> RouteStrategyShort" by (simp add: RouteStrategyCheap_def RouteStrategyShort_def)
  ultimately show "map_option fst (GetBestRoutes sample_env route_ranges (\<lambda>xs. xs) (\<lambda>xs. xs) (route_config RouteStrategyCheap)
      route_chain 6 3 7 50 []) = Some (Inl RouteNone)"
    by (simp add: GetBestRoutes_def GetBestRoutesByDijkstra_def route_network_found route_dns Let_def)
      (simp add: route_config_def)
qed



theorem GetBestRoutes_returns_witness:
  "\<exists>y. GetBestRoutes sample_env route_ranges (\<lambda>xs. xs) (\<lambda>xs. xs) (route_config RouteStrategyDiverse) route_chain 6 3 7 50 [] = Some y"
proof (rule GetBestRoutes_returns [OF same_order])
  fix tn assume "GetTokenNetworkByIdentifier sample_env route_chain 6 = Some tn"
  then show "smap_ok (gr_Edges (tn_NetworkGraph tn))"
    using route_graph_ok by (simp add: route_network_found graph_ok_def count_ok_def)
qed

end
