(* ===== verification/Pylons_Wire.thy ===== *)
theory Pylons_Wire
  imports Pylons_Events Pylons_Validate
begin

text \<open>
  The messages of \<open>network/transport/messages\<close>: the structs that \<open>message.proto\<close> declares, what is
  packed and signed of each (\<open>message.go\<close>), how an event of the transfer logic becomes a message,
  and how a message is signed.

  A pointer to a sub-message is an option, \<open>None\<close> the nil pointer; a sub-message with a single field
  is that field. Reading through a nil pointer is a panic: the functions return \<open>None\<close> then. A
  function that can also fail with a Go error has a sum inside.
\<close>

section \<open>Messages\<close>

type_synonym 'a ptr = "'a option"

record SignedMessage =
  sg_Signature :: "byte list"
  sg_Sender :: "byte list ptr"
  sg_Publickey :: "byte list"

record EnvelopeMessage =
  ev_ChainId :: "u64 ptr"
  ev_Nonce :: u64
  ev_TransferredAmount :: "u64 ptr"
  ev_LockedAmount :: "u64 ptr"
  ev_LocksRoot :: "byte list ptr"
  ev_ChannelId :: "u64 ptr"
  ev_TokenNetworkAddress :: "byte list ptr"
  ev_Signature :: "SignedMessage ptr"

record HashTimeLock =
  hl_Amount :: "u64 ptr"
  hl_Expiration :: "u64 ptr"
  hl_SecretHash :: "byte list ptr"

record Processed =
  pr_MessageId :: "u64 ptr"
  pr_Signature :: "SignedMessage ptr"

record Delivered =
  de_DeliveredMessageId :: "u64 ptr"
  de_Signature :: "SignedMessage ptr"

record SecretRequest =
  sq_MessageId :: "u64 ptr"
  sq_PaymentId :: "u64 ptr"
  sq_SecretHash :: "byte list ptr"
  sq_Amount :: "u64 ptr"
  sq_Expiration :: "u64 ptr"
  sq_Signature :: "SignedMessage ptr"

record RevealSecret =
  rv_MessageId :: "u64 ptr"
  rv_Secret :: "byte list ptr"
  rv_Signature :: "SignedMessage ptr"

text \<open>The message \<open>BalanceProof\<close> is the one that unlocks: it carries the secret.\<close>

record BalanceProof =
  ul_EnvelopeMessage :: "EnvelopeMessage ptr"
  ul_MessageId :: "u64 ptr"
  ul_PaymentId :: "u64 ptr"
  ul_Secret :: "byte list ptr"

record DirectTransfer =
  dt_EnvelopeMessage :: "EnvelopeMessage ptr"
  dt_MessageId :: "u64 ptr"
  dt_PaymentId :: "u64 ptr"
  dt_Token :: "byte list ptr"
  dt_Recipient :: "byte list ptr"

record LockedTransferBase =
  lb_EnvelopeMessage :: "EnvelopeMessage ptr"
  lb_MessageId :: "u64 ptr"
  lb_PaymentId :: "u64 ptr"
  lb_Token :: "byte list ptr"
  lb_Recipient :: "byte list ptr"
  lb_Lock :: "HashTimeLock ptr"

record LockedTransfer =
  lt_BaseMessage :: "LockedTransferBase ptr"
  lt_Initiator :: "byte list ptr"
  lt_Target :: "byte list ptr"
  lt_EncSecret :: "byte list ptr"
  lt_Fee :: u32
  lt_Mediators :: "byte list ptr list"

record RefundTransfer =
  rf_Refund :: "LockedTransfer ptr"

record LockExpired =
  le_EnvelopeMessage :: "EnvelopeMessage ptr"
  le_MessageId :: "u64 ptr"
  le_Recipient :: "byte list ptr"
  le_SecretHash :: "byte list ptr"

record WithdrawRequest =
  wq_TokenNetworkAddress :: "byte list ptr"
  wq_MessageId :: "u64 ptr"
  wq_ChannelId :: "u64 ptr"
  wq_Participant :: "byte list ptr"
  wq_WithdrawAmount :: "u64 ptr"
  wq_ParticipantSignature :: "SignedMessage ptr"

record Withdraw =
  wd_TokenNetworkAddress :: "byte list ptr"
  wd_MessageId :: "u64 ptr"
  wd_ChannelId :: "u64 ptr"
  wd_Participant :: "byte list ptr"
  wd_WithdrawAmount :: "u64 ptr"
  wd_ParticipantSignature :: "SignedMessage ptr"
  wd_PartnerSignature :: "SignedMessage ptr"

record CooperativeSettleRequest =
  cq_TokenNetworkAddress :: "byte list ptr"
  cq_MessageId :: "u64 ptr"
  cq_ChannelId :: "u64 ptr"
  cq_Participant1 :: "byte list ptr"
  cq_Participant1Balance :: "u64 ptr"
  cq_Participant2 :: "byte list ptr"
  cq_Participant2Balance :: "u64 ptr"
  cq_Participant1Signature :: "SignedMessage ptr"

record CooperativeSettle =
  co_TokenNetworkAddress :: "byte list ptr"
  co_MessageId :: "u64 ptr"
  co_ChannelId :: "u64 ptr"
  co_Participant1 :: "byte list ptr"
  co_Participant1Balance :: "u64 ptr"
  co_Participant2 :: "byte list ptr"
  co_Participant2Balance :: "u64 ptr"
  co_Participant1Signature :: "SignedMessage ptr"
  co_Participant2Signature :: "SignedMessage ptr"

text \<open>The types that implement \<open>SignedMessageInterface\<close>.\<close>

datatype (plugins only: code) WireMessage =
    M_DirectTransfer DirectTransfer
  | M_Processed Processed
  | M_Delivered Delivered
  | M_SecretRequest SecretRequest
  | M_RevealSecret RevealSecret
  | M_BalanceProof BalanceProof
  | M_LockExpired LockExpired
  | M_RefundTransfer RefundTransfer
  | M_LockedTransfer LockedTransfer
  | M_WithdrawRequest WithdrawRequest
  | M_Withdraw Withdraw
  | M_CooperativeSettleRequest CooperativeSettleRequest
  | M_CooperativeSettle CooperativeSettle

section \<open>Arrays and slices\<close>

text \<open>
  \<open>copy(a[:], bs)\<close> into a zero array takes as many bytes as there are. \<open>bs[:n]\<close> may reach past the
  length of a slice, up to its capacity; what lies there, or that the capacity is too small, is the
  parameter \<open>beyond\<close>.
\<close>

type_synonym slices = "byte list \<Rightarrow> nat \<Rightarrow> byte list option"

definition copy_bytes :: "nat \<Rightarrow> byte list \<Rightarrow> byte list" where
  "copy_bytes n bs = take n (bs @ replicate n 0)"

definition copy_address :: "byte list \<Rightarrow> Address" where
  "copy_address bs = word_of_nat (be_val (copy_bytes 20 bs))"

definition copy_hash :: "byte list \<Rightarrow> Keccak256" where
  "copy_hash bs = word_of_nat (be_val (copy_bytes 32 bs))"

definition slice_to :: "slices \<Rightarrow> nat \<Rightarrow> byte list \<Rightarrow> byte list option" where
  "slice_to beyond n bs = (if n \<le> length bs then Some (take n bs) else beyond bs n)"

definition ConvertAddress :: "slices \<Rightarrow> byte list ptr \<Rightarrow> Address option" where
  "ConvertAddress beyond addr =
     do { bs \<leftarrow> addr; s \<leftarrow> slice_to beyond 20 bs; Some (copy_address s) }"

definition ConvertLocksRoot :: "slices \<Rightarrow> byte list ptr \<Rightarrow> LocksRoot option" where
  "ConvertLocksRoot beyond lock =
     do { bs \<leftarrow> lock; s \<leftarrow> slice_to beyond 32 bs; Some (copy_hash s) }"

lemma copy_address_bytes [simp]: "copy_address (addr_bytes a) = a"
proof -
  have "be_val (addr_bytes a) = unat a"
  proof -
    have "unat a < 2 ^ 160" using unsigned_less [of a] by simp
    then show ?thesis by (simp add: addr_bytes_def be_val_be_bytes)
  qed
  then show ?thesis by (simp add: copy_address_def copy_bytes_def)
qed

lemma copy_hash_bytes [simp]: "copy_hash (hash_bytes h) = h"
  by (simp add: copy_hash_def copy_bytes_def be_val_hash_bytes)

lemma slice_to_whole [simp]: "length bs = n \<Longrightarrow> slice_to beyond n bs = Some bs"
  by (simp add: slice_to_def)

lemma ConvertAddress_bytes [simp]: "ConvertAddress beyond (Some (addr_bytes a)) = Some a"
  by (simp add: ConvertAddress_def)

lemma ConvertLocksRoot_bytes [simp]: "ConvertLocksRoot beyond (Some (hash_bytes h)) = Some h"
  by (simp add: ConvertLocksRoot_def)

section \<open>Packing\<close>

definition MessageHash :: "env \<Rightarrow> byte list \<Rightarrow> byte list" where
  "MessageHash e data = hash_bytes (sha256 e data)"

definition EnvelopeMessage_DataToSign ::
  "env \<Rightarrow> slices \<Rightarrow> EnvelopeMessage \<Rightarrow> byte list \<Rightarrow> byte list option" where
  "EnvelopeMessage_DataToSign e beyond env dataToSign =
     do { tna \<leftarrow> ev_TokenNetworkAddress env;
          chainId \<leftarrow> ev_ChainId env;
          channelId \<leftarrow> ev_ChannelId env;
          transferredAmount \<leftarrow> ev_TransferredAmount env;
          lockedAmount \<leftarrow> ev_LockedAmount env;
          locksRoot \<leftarrow> ConvertLocksRoot beyond (ev_LocksRoot env);
          let balanceHash = HashBalanceData e transferredAmount lockedAmount locksRoot;
          let additionalHash = (if dataToSign = [] then [] else MessageHash e dataToSign);
          Some (PackBalanceProof e (ev_Nonce env) balanceHash additionalHash (ucast channelId)
                  (copy_address tna) chainId 1) }"

definition DirectTransfer_Pack :: "DirectTransfer \<Rightarrow> byte list option" where
  "DirectTransfer_Pack m =
     do { env \<leftarrow> dt_EnvelopeMessage m;
          chainId \<leftarrow> ev_ChainId env; messageId \<leftarrow> dt_MessageId m; paymentId \<leftarrow> dt_PaymentId m;
          token \<leftarrow> dt_Token m; tna \<leftarrow> ev_TokenNetworkAddress env; channelId \<leftarrow> ev_ChannelId env;
          transferredAmount \<leftarrow> ev_TransferredAmount env; lockedAmount \<leftarrow> ev_LockedAmount env;
          recipient \<leftarrow> dt_Recipient m; locksRoot \<leftarrow> ev_LocksRoot env;
          Some (Uint64ToBytes chainId @ Uint64ToBytes messageId @ Uint64ToBytes paymentId
                @ Uint64ToBytes (ev_Nonce env) @ token @ tna @ Uint64ToBytes channelId
                @ Uint64ToBytes transferredAmount @ Uint64ToBytes lockedAmount @ recipient @ locksRoot) }"

definition LockedTransfer_Pack :: "LockedTransfer \<Rightarrow> byte list option" where
  "LockedTransfer_Pack m =
     do { b \<leftarrow> lt_BaseMessage m; env \<leftarrow> lb_EnvelopeMessage b;
          chainId \<leftarrow> ev_ChainId env; messageId \<leftarrow> lb_MessageId b; paymentId \<leftarrow> lb_PaymentId b;
          token \<leftarrow> lb_Token b; tna \<leftarrow> ev_TokenNetworkAddress env; channelId \<leftarrow> ev_ChannelId env;
          transferredAmount \<leftarrow> ev_TransferredAmount env; lockedAmount \<leftarrow> ev_LockedAmount env;
          recipient \<leftarrow> lb_Recipient b; locksRoot \<leftarrow> ev_LocksRoot env;
          Some (Uint64ToBytes chainId @ Uint64ToBytes messageId @ Uint64ToBytes paymentId
                @ Uint64ToBytes (ev_Nonce env) @ token @ tna @ Uint64ToBytes channelId
                @ Uint64ToBytes transferredAmount @ Uint64ToBytes lockedAmount @ recipient @ locksRoot) }"

definition BalanceProof_Pack :: "BalanceProof \<Rightarrow> byte list option" where
  "BalanceProof_Pack m =
     do { env \<leftarrow> ul_EnvelopeMessage m;
          chainId \<leftarrow> ev_ChainId env; messageId \<leftarrow> ul_MessageId m; paymentId \<leftarrow> ul_PaymentId m;
          tna \<leftarrow> ev_TokenNetworkAddress env; channelId \<leftarrow> ev_ChannelId env;
          transferredAmount \<leftarrow> ev_TransferredAmount env; lockedAmount \<leftarrow> ev_LockedAmount env;
          locksRoot \<leftarrow> ev_LocksRoot env;
          Some (Uint64ToBytes chainId @ Uint64ToBytes messageId @ Uint64ToBytes paymentId
                @ Uint64ToBytes (ev_Nonce env) @ tna @ Uint64ToBytes channelId
                @ Uint64ToBytes transferredAmount @ Uint64ToBytes lockedAmount @ locksRoot) }"

definition LockExpired_Pack :: "LockExpired \<Rightarrow> byte list option" where
  "LockExpired_Pack m =
     do { env \<leftarrow> le_EnvelopeMessage m;
          chainId \<leftarrow> ev_ChainId env; messageId \<leftarrow> le_MessageId m;
          tna \<leftarrow> ev_TokenNetworkAddress env; channelId \<leftarrow> ev_ChannelId env;
          transferredAmount \<leftarrow> ev_TransferredAmount env; lockedAmount \<leftarrow> ev_LockedAmount env;
          recipient \<leftarrow> le_Recipient m; locksRoot \<leftarrow> ev_LocksRoot env; secretHash \<leftarrow> le_SecretHash m;
          Some (Uint64ToBytes chainId @ Uint64ToBytes (ev_Nonce env) @ Uint64ToBytes messageId
                @ tna @ Uint64ToBytes channelId
                @ Uint64ToBytes transferredAmount @ Uint64ToBytes lockedAmount @ recipient @ locksRoot @ secretHash) }"

definition RefundTransfer_Pack :: "RefundTransfer \<Rightarrow> byte list option" where
  "RefundTransfer_Pack m = do { r \<leftarrow> rf_Refund m; LockedTransfer_Pack r }"

text \<open>\<open>DataToSign\<close> of each message; a method of \<open>SignedMessageInterface\<close>.\<close>

definition Processed_DataToSign :: "Processed \<Rightarrow> byte list option" where
  "Processed_DataToSign m =
     do { messageId \<leftarrow> pr_MessageId m; Some (Uint64ToBytes messageId) }"

definition Delivered_DataToSign :: "Delivered \<Rightarrow> byte list option" where
  "Delivered_DataToSign m =
     do { messageId \<leftarrow> de_DeliveredMessageId m; Some (Uint64ToBytes messageId) }"

definition LockedTransfer_DataToSign :: "env \<Rightarrow> slices \<Rightarrow> LockedTransfer \<Rightarrow> byte list option" where
  "LockedTransfer_DataToSign e beyond m =
     do { b \<leftarrow> lt_BaseMessage m; env \<leftarrow> lb_EnvelopeMessage b; p \<leftarrow> LockedTransfer_Pack m;
          EnvelopeMessage_DataToSign e beyond env p }"

definition DirectTransfer_DataToSign :: "env \<Rightarrow> slices \<Rightarrow> DirectTransfer \<Rightarrow> byte list option" where
  "DirectTransfer_DataToSign e beyond m =
     do { env \<leftarrow> dt_EnvelopeMessage m; p \<leftarrow> DirectTransfer_Pack m; EnvelopeMessage_DataToSign e beyond env p }"

definition SecretRequest_DataToSign :: "SecretRequest \<Rightarrow> byte list option" where
  "SecretRequest_DataToSign m =
     do { messageId \<leftarrow> sq_MessageId m; paymentId \<leftarrow> sq_PaymentId m; secretHash \<leftarrow> sq_SecretHash m;
          amount \<leftarrow> sq_Amount m; expiration \<leftarrow> sq_Expiration m;
          Some (Uint64ToBytes messageId @ Uint64ToBytes paymentId @ secretHash @ Uint64ToBytes amount
                  @ Uint64ToBytes expiration) }"

definition BalanceProof_DataToSign :: "env \<Rightarrow> slices \<Rightarrow> BalanceProof \<Rightarrow> byte list option" where
  "BalanceProof_DataToSign e beyond m =
     do { env \<leftarrow> ul_EnvelopeMessage m; p \<leftarrow> BalanceProof_Pack m; EnvelopeMessage_DataToSign e beyond env p }"

definition LockExpired_DataToSign :: "env \<Rightarrow> slices \<Rightarrow> LockExpired \<Rightarrow> byte list option" where
  "LockExpired_DataToSign e beyond m =
     do { env \<leftarrow> le_EnvelopeMessage m; p \<leftarrow> LockExpired_Pack m; EnvelopeMessage_DataToSign e beyond env p }"

definition RevealSecret_DataToSign :: "RevealSecret \<Rightarrow> byte list option" where
  "RevealSecret_DataToSign m =
     do { messageId \<leftarrow> rv_MessageId m; secret \<leftarrow> rv_Secret m; Some (Uint64ToBytes messageId @ secret) }"

definition WithdrawRequest_DataToSign :: "env \<Rightarrow> slices \<Rightarrow> WithdrawRequest \<Rightarrow> byte list option" where
  "WithdrawRequest_DataToSign e beyond m =
     do { channelId \<leftarrow> wq_ChannelId m; participant \<leftarrow> ConvertAddress beyond (wq_Participant m);
          withdrawAmount \<leftarrow> wq_WithdrawAmount m;
          Some (PackWithdraw e (ucast channelId) participant withdrawAmount) }"

definition Withdraw_DataToSign :: "env \<Rightarrow> slices \<Rightarrow> Withdraw \<Rightarrow> byte list option" where
  "Withdraw_DataToSign e beyond m =
     do { channelId \<leftarrow> wd_ChannelId m; participant \<leftarrow> ConvertAddress beyond (wd_Participant m);
          withdrawAmount \<leftarrow> wd_WithdrawAmount m;
          Some (PackWithdraw e (ucast channelId) participant withdrawAmount) }"

definition CooperativeSettleRequest_DataToSign :: "env \<Rightarrow> slices \<Rightarrow> CooperativeSettleRequest \<Rightarrow> byte list option" where
  "CooperativeSettleRequest_DataToSign e beyond m =
     do { channelId \<leftarrow> cq_ChannelId m;
          participant1 \<leftarrow> ConvertAddress beyond (cq_Participant1 m);
          participant1Balance \<leftarrow> cq_Participant1Balance m;
          participant2 \<leftarrow> ConvertAddress beyond (cq_Participant2 m);
          participant2Balance \<leftarrow> cq_Participant2Balance m;
          Some (PackCooperativeSettle e (ucast channelId) participant1 participant1Balance
                  participant2 participant2Balance) }"

definition CooperativeSettle_DataToSign :: "env \<Rightarrow> slices \<Rightarrow> CooperativeSettle \<Rightarrow> byte list option" where
  "CooperativeSettle_DataToSign e beyond m =
     do { channelId \<leftarrow> co_ChannelId m;
          participant1 \<leftarrow> ConvertAddress beyond (co_Participant1 m);
          participant1Balance \<leftarrow> co_Participant1Balance m;
          participant2 \<leftarrow> ConvertAddress beyond (co_Participant2 m);
          participant2Balance \<leftarrow> co_Participant2Balance m;
          Some (PackCooperativeSettle e (ucast channelId) participant1 participant1Balance
                  participant2 participant2Balance) }"

definition RefundTransfer_DataToSign :: "env \<Rightarrow> slices \<Rightarrow> RefundTransfer \<Rightarrow> byte list option" where
  "RefundTransfer_DataToSign e beyond m =
     do { r \<leftarrow> rf_Refund m; b \<leftarrow> lt_BaseMessage r; env \<leftarrow> lb_EnvelopeMessage b; p \<leftarrow> RefundTransfer_Pack m;
          EnvelopeMessage_DataToSign e beyond env p }"

definition DataToSign :: "env \<Rightarrow> slices \<Rightarrow> WireMessage \<Rightarrow> byte list option" where
  "DataToSign e beyond message =
     (case message of
        M_DirectTransfer m \<Rightarrow> DirectTransfer_DataToSign e beyond m
      | M_Processed m \<Rightarrow> Processed_DataToSign m
      | M_Delivered m \<Rightarrow> Delivered_DataToSign m
      | M_SecretRequest m \<Rightarrow> SecretRequest_DataToSign m
      | M_RevealSecret m \<Rightarrow> RevealSecret_DataToSign m
      | M_BalanceProof m \<Rightarrow> BalanceProof_DataToSign e beyond m
      | M_LockExpired m \<Rightarrow> LockExpired_DataToSign e beyond m
      | M_RefundTransfer m \<Rightarrow> RefundTransfer_DataToSign e beyond m
      | M_LockedTransfer m \<Rightarrow> LockedTransfer_DataToSign e beyond m
      | M_WithdrawRequest m \<Rightarrow> WithdrawRequest_DataToSign e beyond m
      | M_Withdraw m \<Rightarrow> Withdraw_DataToSign e beyond m
      | M_CooperativeSettleRequest m \<Rightarrow> CooperativeSettleRequest_DataToSign e beyond m
      | M_CooperativeSettle m \<Rightarrow> CooperativeSettle_DataToSign e beyond m)"

section \<open>Messages of events\<close>

text \<open>The envelope every \<open>FromEvent\<close> function builds of a balance proof.\<close>

definition envelopeOf :: "BalanceProofUnsignedState \<Rightarrow> EnvelopeMessage" where
  "envelopeOf bp =
     \<lparr>ev_ChainId = Some (bu_ChainId bp),
      ev_Nonce = bu_Nonce bp,
      ev_TransferredAmount = Some (bu_TransferredAmount bp),
      ev_LockedAmount = Some (bu_LockedAmount bp),
      ev_LocksRoot = Some (hash_bytes (bu_LocksRoot bp)),
      ev_ChannelId = Some (ucast (bu_ChannelId bp)),
      ev_TokenNetworkAddress = Some (addr_bytes (bu_TokenNetworkId bp)),
      ev_Signature = None\<rparr>"

definition ProcessedFromEvent :: "SendMessageEvent \<Rightarrow> Processed" where
  "ProcessedFromEvent msg = \<lparr>pr_MessageId = Some (sm_MessageId msg), pr_Signature = None\<rparr>"

definition DirectTransferFromEvent ::
  "SendMessageEvent \<Rightarrow> PaymentID \<Rightarrow> BalanceProofUnsignedState \<Rightarrow> TokenAddress \<Rightarrow> DirectTransfer" where
  "DirectTransferFromEvent msg paymentId bp tokenAddress =
     \<lparr>dt_EnvelopeMessage = Some (envelopeOf bp),
      dt_MessageId = Some (sm_MessageId msg),
      dt_PaymentId = Some paymentId,
      dt_Token = Some (addr_bytes tokenAddress),
      dt_Recipient = Some (addr_bytes (sm_Recipient msg))\<rparr>"

definition LockedTransferFromEvent :: "SendMessageEvent \<Rightarrow> LockedTransferUnsignedState \<Rightarrow> LockedTransfer" where
  "LockedTransferFromEvent msg transfer =
     (let lock = \<lparr>hl_Amount = Some (lk_Amount (lu_Lock transfer)),
                  hl_Expiration = Some (ucast (lk_Expiration (lu_Lock transfer))),
                  hl_SecretHash = Some (hash_bytes (lk_SecretHash (lu_Lock transfer)))\<rparr>;
          transferBase = \<lparr>lb_EnvelopeMessage = Some (envelopeOf (lu_BalanceProof transfer)),
                  lb_MessageId = Some (sm_MessageId msg),
                  lb_PaymentId = Some (lu_PaymentId transfer),
                  lb_Token = Some (addr_bytes (lu_Token transfer)),
                  lb_Recipient = Some (addr_bytes (sm_Recipient msg)),
                  lb_Lock = Some lock\<rparr>
      in \<lparr>lt_BaseMessage = Some transferBase,
          lt_Initiator = Some (addr_bytes (lu_Initiator transfer)),
          lt_Target = Some (addr_bytes (lu_Target transfer)),
          lt_EncSecret = Some (lu_EncSecret transfer),
          lt_Fee = 0,
          lt_Mediators = map (\<lambda>mediator. Some (addr_bytes mediator)) (lu_Mediators transfer)\<rparr>)"

definition SecretRequestFromEvent ::
  "SendMessageEvent \<Rightarrow> PaymentID \<Rightarrow> TokenAmount \<Rightarrow> BlockExpiration \<Rightarrow> SecretHash \<Rightarrow> SecretRequest" where
  "SecretRequestFromEvent msg paymentId amount expiration secretHash =
     \<lparr>sq_MessageId = Some (sm_MessageId msg), sq_PaymentId = Some paymentId,
      sq_SecretHash = Some (hash_bytes secretHash), sq_Amount = Some amount,
      sq_Expiration = Some expiration, sq_Signature = None\<rparr>"

definition RefundTransferFromEvent :: "SendMessageEvent \<Rightarrow> LockedTransferUnsignedState \<Rightarrow> RefundTransfer" where
  "RefundTransferFromEvent msg transfer = \<lparr>rf_Refund = Some (LockedTransferFromEvent msg transfer)\<rparr>"

definition UnlockFromEvent ::
  "SendMessageEvent \<Rightarrow> PaymentID \<Rightarrow> Secret \<Rightarrow> BalanceProofUnsignedState \<Rightarrow> BalanceProof" where
  "UnlockFromEvent msg paymentId secret bp =
     \<lparr>ul_EnvelopeMessage = Some (envelopeOf bp), ul_MessageId = Some (sm_MessageId msg),
      ul_PaymentId = Some paymentId, ul_Secret = Some secret\<rparr>"

definition RevealSecretFromEvent :: "SendMessageEvent \<Rightarrow> Secret \<Rightarrow> RevealSecret" where
  "RevealSecretFromEvent msg secret =
     \<lparr>rv_MessageId = Some (sm_MessageId msg), rv_Secret = Some secret, rv_Signature = None\<rparr>"

definition LockExpiredFromEvent ::
  "SendMessageEvent \<Rightarrow> BalanceProofUnsignedState \<Rightarrow> SecretHash \<Rightarrow> LockExpired" where
  "LockExpiredFromEvent msg bp secretHash =
     \<lparr>le_EnvelopeMessage = Some (envelopeOf bp), le_MessageId = Some (sm_MessageId msg),
      le_Recipient = Some (addr_bytes (sm_Recipient msg)), le_SecretHash = Some (hash_bytes secretHash)\<rparr>"

definition WithdrawRequestFromEvent ::
  "SendMessageEvent \<Rightarrow> Address \<Rightarrow> TokenNetworkID \<Rightarrow> TokenAmount \<Rightarrow> WithdrawRequest" where
  "WithdrawRequestFromEvent msg participant tokenNetworkId withdrawAmount =
     \<lparr>wq_TokenNetworkAddress = Some (addr_bytes tokenNetworkId),
      wq_MessageId = Some (sm_MessageId msg),
      wq_ChannelId = Some (ucast (sm_ChannelId msg)),
      wq_Participant = Some (addr_bytes participant),
      wq_WithdrawAmount = Some withdrawAmount,
      wq_ParticipantSignature = None\<rparr>"

definition WithdrawFromEvent ::
  "SendMessageEvent \<Rightarrow> Address \<Rightarrow> TokenNetworkID \<Rightarrow> TokenAmount \<Rightarrow> Signature \<Rightarrow> Address \<Rightarrow> PubKey \<Rightarrow> Withdraw" where
  "WithdrawFromEvent msg participant tokenNetworkId withdrawAmount signature address publicKey =
     \<lparr>wd_TokenNetworkAddress = Some (addr_bytes tokenNetworkId),
      wd_MessageId = Some (sm_MessageId msg),
      wd_ChannelId = Some (ucast (sm_ChannelId msg)),
      wd_Participant = Some (addr_bytes participant),
      wd_WithdrawAmount = Some withdrawAmount,
      wd_ParticipantSignature = Some \<lparr>sg_Signature = signature, sg_Sender = Some (addr_bytes address),
                                      sg_Publickey = publicKey\<rparr>,
      wd_PartnerSignature = None\<rparr>"

definition CooperativeSettleRequestFromEvent ::
  "SendMessageEvent \<Rightarrow> TokenNetworkID \<Rightarrow> Address \<Rightarrow> TokenAmount \<Rightarrow> Address \<Rightarrow> TokenAmount \<Rightarrow> CooperativeSettleRequest" where
  "CooperativeSettleRequestFromEvent msg tokenNetworkId participant1 balance1 participant2 balance2 =
     \<lparr>cq_TokenNetworkAddress = Some (addr_bytes tokenNetworkId),
      cq_MessageId = Some (sm_MessageId msg),
      cq_ChannelId = Some (ucast (sm_ChannelId msg)),
      cq_Participant1 = Some (addr_bytes participant1), cq_Participant1Balance = Some balance1,
      cq_Participant2 = Some (addr_bytes participant2), cq_Participant2Balance = Some balance2,
      cq_Participant1Signature = None\<rparr>"

definition CooperativeSettleFromEvent ::
  "SendMessageEvent \<Rightarrow> TokenNetworkID \<Rightarrow> Address \<Rightarrow> TokenAmount \<Rightarrow> Address \<Rightarrow> TokenAmount
     \<Rightarrow> Signature \<Rightarrow> Address \<Rightarrow> PubKey \<Rightarrow> CooperativeSettle" where
  "CooperativeSettleFromEvent msg tokenNetworkId participant1 balance1 participant2 balance2 signature address publicKey =
     \<lparr>co_TokenNetworkAddress = Some (addr_bytes tokenNetworkId),
      co_MessageId = Some (sm_MessageId msg),
      co_ChannelId = Some (ucast (sm_ChannelId msg)),
      co_Participant1 = Some (addr_bytes participant1), co_Participant1Balance = Some balance1,
      co_Participant2 = Some (addr_bytes participant2), co_Participant2Balance = Some balance2,
      co_Participant1Signature = Some \<lparr>sg_Signature = signature, sg_Sender = Some (addr_bytes address),
                                       sg_Publickey = publicKey\<rparr>,
      co_Participant2Signature = None\<rparr>"

text \<open>
  The outer option is the panic on the nil \<open>*SendBalanceProof\<close>; an event that is not sent as a message
  has none.
\<close>

definition MessageFromSendEvent :: "Event \<Rightarrow> WireMessage option option" where
  "MessageFromSendEvent event =
     (case event of
        SendDirectTransfer msg paymentId bp token \<Rightarrow>
          Some (Some (M_DirectTransfer (DirectTransferFromEvent msg paymentId bp token)))
      | SendProcessed msg \<Rightarrow> Some (Some (M_Processed (ProcessedFromEvent msg)))
      | SendLockedTransfer msg transfer \<Rightarrow> Some (Some (M_LockedTransfer (LockedTransferFromEvent msg transfer)))
      | SendSecretReveal msg secret _ \<Rightarrow> Some (Some (M_RevealSecret (RevealSecretFromEvent msg secret)))
      | SendBalanceProof msg paymentId _ secret _ bp \<Rightarrow>
          Some (Some (M_BalanceProof (UnlockFromEvent msg paymentId secret bp)))
      | NilSendBalanceProof \<Rightarrow> None
      | SendSecretRequest msg paymentId amount expiration secretHash \<Rightarrow>
          Some (Some (M_SecretRequest (SecretRequestFromEvent msg paymentId amount expiration secretHash)))
      | SendRefundTransfer msg transfer \<Rightarrow> Some (Some (M_RefundTransfer (RefundTransferFromEvent msg transfer)))
      | SendLockExpired msg bp secretHash \<Rightarrow> Some (Some (M_LockExpired (LockExpiredFromEvent msg bp secretHash)))
      | SendWithdrawRequest msg participant tokenNetworkId amount \<Rightarrow>
          Some (Some (M_WithdrawRequest (WithdrawRequestFromEvent msg participant tokenNetworkId amount)))
      | SendWithdraw msg participant tokenNetworkId amount signature address publicKey \<Rightarrow>
          Some (Some (M_Withdraw (WithdrawFromEvent msg participant tokenNetworkId amount signature address publicKey)))
      | SendCooperativeSettleRequest msg tokenNetworkId participant1 balance1 participant2 balance2 \<Rightarrow>
          Some (Some (M_CooperativeSettleRequest (CooperativeSettleRequestFromEvent msg tokenNetworkId
            participant1 balance1 participant2 balance2)))
      | SendCooperativeSettle msg tokenNetworkId participant1 balance1 participant2 balance2 signature address publicKey \<Rightarrow>
          Some (Some (M_CooperativeSettle (CooperativeSettleFromEvent msg tokenNetworkId
            participant1 balance1 participant2 balance2 signature address publicKey)))
      | _ \<Rightarrow> Some None)"

section \<open>Signing\<close>

text \<open>
  An account of the themis wallet: its address, its serialized public key, and \<open>sig.Sign\<close>.
\<close>

record Account =
  ac_Address :: Address
  ac_PublicKey :: PubKey
  ac_Sign :: "byte list \<Rightarrow> error + Signature"

text \<open>The part of \<open>Sign\<close> that stores the signature in the message.\<close>

definition setSignature :: "SignedMessage \<Rightarrow> WireMessage \<Rightarrow> WireMessage option" where
  "setSignature sg message =
     (case message of
        M_DirectTransfer m \<Rightarrow>
          do { env \<leftarrow> dt_EnvelopeMessage m;
               Some (M_DirectTransfer (m\<lparr>dt_EnvelopeMessage := Some (env\<lparr>ev_Signature := Some sg\<rparr>)\<rparr>)) }
      | M_Processed m \<Rightarrow> Some (M_Processed (m\<lparr>pr_Signature := Some sg\<rparr>))
      | M_Delivered m \<Rightarrow> Some (M_Delivered (m\<lparr>de_Signature := Some sg\<rparr>))
      | M_LockedTransfer m \<Rightarrow>
          do { b \<leftarrow> lt_BaseMessage m; env \<leftarrow> lb_EnvelopeMessage b;
               Some (M_LockedTransfer (m\<lparr>lt_BaseMessage :=
                 Some (b\<lparr>lb_EnvelopeMessage := Some (env\<lparr>ev_Signature := Some sg\<rparr>)\<rparr>)\<rparr>)) }
      | M_RefundTransfer m \<Rightarrow>
          do { r \<leftarrow> rf_Refund m; b \<leftarrow> lt_BaseMessage r; env \<leftarrow> lb_EnvelopeMessage b;
               Some (M_RefundTransfer (m\<lparr>rf_Refund := Some (r\<lparr>lt_BaseMessage :=
                 Some (b\<lparr>lb_EnvelopeMessage := Some (env\<lparr>ev_Signature := Some sg\<rparr>)\<rparr>)\<rparr>)\<rparr>)) }
      | M_SecretRequest m \<Rightarrow> Some (M_SecretRequest (m\<lparr>sq_Signature := Some sg\<rparr>))
      | M_RevealSecret m \<Rightarrow> Some (M_RevealSecret (m\<lparr>rv_Signature := Some sg\<rparr>))
      | M_BalanceProof m \<Rightarrow>
          do { env \<leftarrow> ul_EnvelopeMessage m;
               Some (M_BalanceProof (m\<lparr>ul_EnvelopeMessage := Some (env\<lparr>ev_Signature := Some sg\<rparr>)\<rparr>)) }
      | M_LockExpired m \<Rightarrow>
          do { env \<leftarrow> le_EnvelopeMessage m;
               Some (M_LockExpired (m\<lparr>le_EnvelopeMessage := Some (env\<lparr>ev_Signature := Some sg\<rparr>)\<rparr>)) }
      | M_WithdrawRequest m \<Rightarrow> Some (M_WithdrawRequest (m\<lparr>wq_ParticipantSignature := Some sg\<rparr>))
      | M_Withdraw m \<Rightarrow> Some (M_Withdraw (m\<lparr>wd_PartnerSignature := Some sg\<rparr>))
      | M_CooperativeSettleRequest m \<Rightarrow> Some (M_CooperativeSettleRequest (m\<lparr>cq_Participant1Signature := Some sg\<rparr>))
      | M_CooperativeSettle m \<Rightarrow> Some (M_CooperativeSettle (m\<lparr>co_Participant2Signature := Some sg\<rparr>)))"

definition Sign :: "env \<Rightarrow> slices \<Rightarrow> Account \<Rightarrow> WireMessage \<Rightarrow> (error + WireMessage) option" where
  "Sign e beyond account message =
     do { data \<leftarrow> DataToSign e beyond message;
          (case ac_Sign account data of
             Inl err \<Rightarrow> Some (Inl err)
           | Inr sigData \<Rightarrow>
               map_option Inr (setSignature
                 \<lparr>sg_Signature = sigData, sg_Sender = Some (addr_bytes (ac_Address account)),
                  sg_Publickey = ac_PublicKey account\<rparr> message)) }"

section \<open>Verifying\<close>

text \<open>
  \<open>GetPublicKey\<close>, \<open>GetSender\<close>, \<open>GetSignature\<close> and \<open>Verify\<close> of \<open>message.go\<close>, for direct transfers and
  acknowledgements; the outer option is the panic.
\<close>

definition GetPublicKeyFromEnvelope :: "env \<Rightarrow> EnvelopeMessage \<Rightarrow> (error + byte list) option" where
  "GetPublicKeyFromEnvelope e message =
     do { sg \<leftarrow> ev_Signature message;
          Some (case DeserializePublicKey e (sg_Publickey sg) of
                  None \<Rightarrow> Inl (Msg ''deserialize publickey error'')
                | Some pubKey \<Rightarrow> Inr pubKey) }"

definition Message_GetPublicKey :: "env \<Rightarrow> WireMessage \<Rightarrow> (error + byte list) option" where
  "Message_GetPublicKey e message =
     (let deserialize = (\<lambda>pubKeyBuf. case DeserializePublicKey e pubKeyBuf of
                            None \<Rightarrow> Inl (Msg ''deserialize publickey error'')
                          | Some pubKey \<Rightarrow> Inr pubKey)
      in case message of
        M_DirectTransfer m \<Rightarrow>
          do { env \<leftarrow> dt_EnvelopeMessage m; sg \<leftarrow> ev_Signature env; Some (deserialize (sg_Publickey sg)) }
      | M_Processed m \<Rightarrow> do { sg \<leftarrow> pr_Signature m; Some (deserialize (sg_Publickey sg)) }
      | _ \<Rightarrow> Some (Inl (Msg ''Unknow message type to GetPublicKey'')))"

definition Message_GetSender :: "WireMessage \<Rightarrow> (error + Address) option" where
  "Message_GetSender message =
     (let sender = (\<lambda>senderBuf. if length senderBuf \<noteq> 20 then Inl (Msg ''invalid sender length'')
                       else Inr (copy_address (take 20 senderBuf)))
      in case message of
        M_DirectTransfer m \<Rightarrow>
          do { env \<leftarrow> dt_EnvelopeMessage m; sg \<leftarrow> ev_Signature env; senderBuf \<leftarrow> sg_Sender sg; Some (sender senderBuf) }
      | M_Processed m \<Rightarrow> do { sg \<leftarrow> pr_Signature m; senderBuf \<leftarrow> sg_Sender sg; Some (sender senderBuf) }
      | _ \<Rightarrow> Some (Inl (Msg ''Unknow message type to GetSender'')))"

definition Message_GetSignature :: "WireMessage \<Rightarrow> (error + byte list) option" where
  "Message_GetSignature message =
     (case message of
        M_DirectTransfer m \<Rightarrow> do { env \<leftarrow> dt_EnvelopeMessage m; sg \<leftarrow> ev_Signature env; Some (Inr (sg_Signature sg)) }
      | M_Processed m \<Rightarrow> do { sg \<leftarrow> pr_Signature m; Some (Inr (sg_Signature sg)) }
      | _ \<Rightarrow> Some (Inl (Msg ''Unknow message type to GetSignature'')))"

text \<open>As written: a key or sender that cannot be read is no error.\<close>

definition Verify :: "env \<Rightarrow> byte list \<Rightarrow> WireMessage \<Rightarrow> (error + unit) option" where
  "Verify e data message =
     do { pubKey \<leftarrow> Message_GetPublicKey e message;
          (case pubKey of
             Inl _ \<Rightarrow> Some (Inr ())
           | Inr pubKey \<Rightarrow>
               do { sender \<leftarrow> Message_GetSender message;
                    (case sender of
                       Inl _ \<Rightarrow> Some (Inr ())
                     | Inr sender \<Rightarrow>
                         do { signature \<leftarrow> Message_GetSignature message;
                              (case signature of
                                 Inl err \<Rightarrow> Some (Inl err)
                               | Inr signature \<Rightarrow>
                                   Some (if sender \<noteq> AddressFromPubKey e pubKey
                                         then Inl (Msg ''sender and public key not match'')
                                         else VerifySignature e pubKey data signature)) }) }) }"

end
