(* ===== verification/Pylons_Queue.thy ===== *)
theory Pylons_Queue
  imports Pylons_Prelude
begin

text \<open>
  The message queue of \<open>network/transport/queue.go\<close>: a linked list of nodes with a head and a tail pointer, a length
  and a capacity. The nodes live in a store, a pointer is the address of a node. The lemmas show that the
  operations are those of a bounded first-in first-out list, stated as the interface \<open>bounded_fifo\<close>.

  \<open>Push\<close> ends, still under the lock, with a send on the channel \<open>DataCh\<close> when the length is 1. \<open>DataCh\<close> has
  room for one element; it is kept beside the list as the flag whether it is full. \<open>pushLocked\<close> is what \<open>Push\<close> does up
  to the send, and says whether it sends; \<open>Push\<close> is the call, which blocks (\<open>None\<close>) when it sends on the full channel.
\<close>

section \<open>The linked list\<close>

record 'a Node =
  nd_data :: 'a
  nd_next :: "nat option"

record 'a Queue =
  q_nodes :: "(nat, 'a Node) smap"
  q_fresh :: nat
  q_head :: "nat option"
  q_tail :: "nat option"
  q_length :: u32
  q_capacity :: u32

definition NewQueue :: "u32 \<Rightarrow> 'a Queue" where
  "NewQueue cap = \<lparr>q_nodes = [], q_fresh = 0, q_head = None, q_tail = None, q_length = 0, q_capacity = cap\<rparr>"

definition Len :: "'a Queue \<Rightarrow> u32" where
  "Len q = q_length q"

definition pushLocked :: "'a \<Rightarrow> 'a Queue \<Rightarrow> 'a Queue \<times> bool \<times> bool" where
  "pushLocked data q =
     (let (q', ok) =
        (if q_length q = q_capacity q then (q, False)
         else
          let node = q_fresh q;
              q1 = q\<lparr>q_nodes := smap_store node \<lparr>nd_data = data, nd_next = None\<rparr> (q_nodes q), q_fresh := Suc node\<rparr>;
              q2 = (case q_tail q1 of
                      None \<Rightarrow> q1\<lparr>q_head := Some node, q_tail := Some node\<rparr>
                    | Some t \<Rightarrow>
                        q1\<lparr>q_nodes := (case smap_load (q_nodes q1) t of
                                        None \<Rightarrow> q_nodes q1
                                      | Some n \<Rightarrow> smap_store t (n\<lparr>nd_next := Some node\<rparr>) (q_nodes q1)),
                           q_tail := Some node\<rparr>)
          in (q2\<lparr>q_length := q_length q2 + 1\<rparr>, True))
      in (q', ok, q_length q' = 1))"

text \<open>The send on \<open>DataCh\<close>, with nobody else at work on the queue: there is no result as long as the channel is full.\<close>

definition Push :: "'a \<Rightarrow> 'a Queue \<times> bool \<Rightarrow> (bool \<times> 'a Queue \<times> bool) option" where
  "Push data s =
     (let (q, dataCh) = s; (q, ok, sends) = pushLocked data q
      in if sends \<and> dataCh then None else Some (ok, q, dataCh \<or> sends))"

text \<open>A pointer to a node that is not in the store cannot occur; reading through it is the panic of a nil pointer.\<close>

definition Peek :: "'a Queue \<Rightarrow> 'a option" where
  "Peek q = (case q_head q of None \<Rightarrow> None | Some h \<Rightarrow> map_option nd_data (smap_load (q_nodes q) h))"

definition Pop :: "'a Queue \<Rightarrow> 'a Queue \<times> 'a option" where
  "Pop q =
     (case q_head q of
        None \<Rightarrow> (q, None)
      | Some h \<Rightarrow>
         (case smap_load (q_nodes q) h of
            None \<Rightarrow> (q, None)
          | Some node \<Rightarrow>
             (let q1 = q\<lparr>q_head := nd_next node\<rparr>;
                  q2 = (if q_head q1 = None then q1\<lparr>q_tail := None\<rparr> else q1)
              in (q2\<lparr>q_length := q_length q2 - 1\<rparr>, Some (nd_data node)))))"

section \<open>The list it stands for\<close>

fun linked_nodes :: "(nat, 'a Node) smap \<Rightarrow> nat option \<Rightarrow> nat list \<Rightarrow> 'a list \<Rightarrow> bool" where
  "linked_nodes m p [] [] \<longleftrightarrow> p = None"
| "linked_nodes m p (a # as) (x # xs) \<longleftrightarrow>
     p = Some a \<and> (\<exists>n. smap_load m a = Some n \<and> nd_data n = x \<and> linked_nodes m (nd_next n) as xs)"
| "linked_nodes m p _ _ \<longleftrightarrow> False"

definition holds_list :: "'a Queue \<Rightarrow> 'a list \<Rightarrow> bool" where
  "holds_list q xs \<longleftrightarrow> (\<exists>as. linked_nodes (q_nodes q) (q_head q) as xs \<and> distinct as \<and> (\<forall>a \<in> set as. a < q_fresh q)
       \<and> q_tail q = (if as = [] then None else Some (last as)))
   \<and> q_length q = of_nat (length xs) \<and> length xs \<le> unat (q_capacity q)"

lemma linked_length: "linked_nodes m p as xs \<Longrightarrow> length as = length xs"
  by (induction m p as xs rule: linked_nodes.induct) auto

lemma linked_frame: "linked_nodes m p as xs \<Longrightarrow> a \<notin> set as \<Longrightarrow> linked_nodes (smap_store a n m) p as xs"
  by (induction m p as xs rule: linked_nodes.induct) (auto simp: smap_load_store)

text \<open>A node is appended behind the last one.\<close>

lemma linked_snoc:
  assumes "linked_nodes m p as xs" and "as \<noteq> []" and "distinct as" and "b \<notin> set as"
    and "smap_load m (last as) = Some n"
  shows "linked_nodes (smap_store (last as) (n\<lparr>nd_next := Some b\<rparr>) (smap_store b \<lparr>nd_data = x, nd_next = None\<rparr> m)) p
           (as @ [b]) (xs @ [x])"
  using assms
proof (induction m p as xs rule: linked_nodes.induct)
  case (2 m p a as x' xs)
  then obtain n' where n': "p = Some a" "smap_load m a = Some n'" "nd_data n' = x'" "linked_nodes m (nd_next n') as xs"
    by auto
  show ?case
  proof (cases "as = []")
    case True
    with 2 n' show ?thesis by (cases xs) (auto simp: smap_load_store)
  next
    case False
    with 2 n' show ?thesis by (auto simp: smap_load_store)
  qed
qed auto

lemma linked_last: "linked_nodes m p as xs \<Longrightarrow> as \<noteq> [] \<Longrightarrow> \<exists>n. smap_load m (last as) = Some n"
  by (induction m p as xs rule: linked_nodes.induct) auto

section \<open>The operations\<close>

lemma unat_u32_less: "unat (w :: u32) < 2 ^ 32"
  using unsigned_less [of w] by simp

lemma length_is_full:
  assumes "holds_list q xs"
  shows "q_length q = q_capacity q \<longleftrightarrow> length xs = unat (q_capacity q)" "unat (q_length q) = length xs"
proof -
  have l: "q_length q = of_nat (length xs)" "length xs \<le> unat (q_capacity q)" using assms by (auto simp: holds_list_def)
  moreover have "length xs < 2 ^ 32" using l(2) unat_u32_less [of "q_capacity q"] by linarith
  ultimately show u: "unat (q_length q) = length xs" by (simp add: unat_of_nat take_bit_nat_eq_self)
  show "q_length q = q_capacity q \<longleftrightarrow> length xs = unat (q_capacity q)"
    using u by (metis word_unat_eq_iff)
qed

lemma NewQueue_holds: "holds_list (NewQueue cap) []"
  by (simp add: holds_list_def NewQueue_def exI [of _ "[]"])

lemma holds_head:
  assumes "holds_list q xs"
  shows "q_head q = None \<longleftrightarrow> xs = []" "q_tail q = None \<longleftrightarrow> xs = []"
proof -
  obtain as where as: "linked_nodes (q_nodes q) (q_head q) as xs" "q_tail q = (if as = [] then None else Some (last as))"
    using assms by (auto simp: holds_list_def)
  show "q_head q = None \<longleftrightarrow> xs = []" using as(1) by (cases as; cases xs) auto
  show "q_tail q = None \<longleftrightarrow> xs = []" using as linked_length [OF as(1)] by auto
qed

lemma pushLocked_full:
  assumes "holds_list q xs" and "length xs = unat (q_capacity q)"
  shows "pushLocked x q = (q, False, length xs = 1)"
proof -
  have "q_length q = 1 \<longleftrightarrow> length xs = 1" using length_is_full(2) [OF assms(1)] by (metis unat_1 word_unat_eq_iff)
  with length_is_full(1) [OF assms(1)] assms(2) show ?thesis by (simp add: pushLocked_def)
qed

lemma pushLocked_room:
  assumes "holds_list q xs" and "length xs < unat (q_capacity q)"
  shows "\<exists>q'. pushLocked x q = (q', True, xs = []) \<and> holds_list q' (xs @ [x]) \<and> q_capacity q' = q_capacity q"
proof -
  obtain as where as: "linked_nodes (q_nodes q) (q_head q) as xs" "distinct as" "\<forall>a \<in> set as. a < q_fresh q"
    and tl: "q_tail q = (if as = [] then None else Some (last as))" and len: "q_length q = of_nat (length xs)"
    using assms(1) by (auto simp: holds_list_def)
  have b: "q_fresh q \<notin> set as" using as(3) by auto
  have nf: "q_length q \<noteq> q_capacity q" using length_is_full(1) [OF assms(1)] assms(2) by simp
  have one: "q_length q + 1 = 1 \<longleftrightarrow> xs = []"
  proof -
    have "q_length q = 0 \<longleftrightarrow> length xs = 0" using length_is_full(2) [OF assms(1)] by (metis unat_0 word_unat_eq_iff)
    then show ?thesis by simp
  qed
  show ?thesis
  proof (cases "as = []")
    case True
    then have "xs = []" "q_head q = None" using as(1) by (cases xs; auto)+
    with True assms(2) tl nf len show ?thesis
      by (simp add: pushLocked_def Let_def) (auto simp: holds_list_def intro!: exI [of _ "[q_fresh q]"])
  next
    case False
    obtain n where n: "smap_load (q_nodes q) (last as) = Some n" using linked_last [OF as(1) False] by blast
    have lb: "last as \<noteq> q_fresh q" using b last_in_set [OF False] by auto
    have "linked_nodes (smap_store (last as) (n\<lparr>nd_next := Some (q_fresh q)\<rparr>)
        (smap_store (q_fresh q) \<lparr>nd_data = x, nd_next = None\<rparr> (q_nodes q))) (q_head q) (as @ [q_fresh q]) (xs @ [x])"
      by (rule linked_snoc [OF as(1) False as(2) b n])
    moreover have "xs \<noteq> []" using False linked_length [OF as(1)] by auto
    moreover have "\<forall>a \<in> set (as @ [q_fresh q]). a < Suc (q_fresh q)" using as(3) by auto
    ultimately show ?thesis
      using False tl nf len n lb as(2) b assms(2) one
      by (simp add: pushLocked_def Let_def) (auto simp: holds_list_def intro!: exI [of _ "as @ [q_fresh q]"])
  qed
qed

lemma Peek_holds:
  assumes "holds_list q xs"
  shows "Peek q = (case xs of [] \<Rightarrow> None | x # _ \<Rightarrow> Some x)"
proof (cases xs)
  case Nil
  with holds_head(1) [OF assms] show ?thesis by (simp add: Peek_def)
next
  case (Cons x ys)
  obtain as where "linked_nodes (q_nodes q) (q_head q) as xs" using assms by (auto simp: holds_list_def)
  with Cons show ?thesis by (cases as) (auto simp: Peek_def)
qed

lemma Pop_holds:
  assumes "holds_list q xs"
  shows "\<exists>q'. Pop q = (q', case xs of [] \<Rightarrow> None | x # _ \<Rightarrow> Some x) \<and> holds_list q' (tl xs) \<and> q_capacity q' = q_capacity q"
proof (cases xs)
  case Nil
  with assms holds_head(1) [OF assms] show ?thesis by (simp add: Pop_def)
next
  case (Cons x ys)
  obtain as where as: "linked_nodes (q_nodes q) (q_head q) as xs" "distinct as" "\<forall>a \<in> set as. a < q_fresh q"
    and tl: "q_tail q = (if as = [] then None else Some (last as))" and len: "q_length q = of_nat (length xs)"
      "length xs \<le> unat (q_capacity q)"
    using assms by (auto simp: holds_list_def)
  obtain a bs n where a: "as = a # bs" "q_head q = Some a" "smap_load (q_nodes q) a = Some n" "nd_data n = x"
    "linked_nodes (q_nodes q) (nd_next n) bs ys"
    using as(1) Cons by (cases as) auto
  have "nd_next n = None \<longleftrightarrow> bs = []" using a(5) by (cases bs; cases ys) auto
  with a as tl len Cons show ?thesis
    by (auto simp: Pop_def holds_list_def Let_def intro!: exI [of _ bs])
qed

section \<open>The interface\<close>

locale bounded_fifo =
  fixes new :: "u32 \<Rightarrow> 'q" and push :: "'a \<Rightarrow> 'q \<Rightarrow> 'q \<times> bool \<times> bool" and peek :: "'q \<Rightarrow> 'a option"
    and pop :: "'q \<Rightarrow> 'q \<times> 'a option" and len :: "'q \<Rightarrow> u32" and cap :: "'q \<Rightarrow> u32" and holds :: "'q \<Rightarrow> 'a list \<Rightarrow> bool"
  assumes new_holds: "holds (new n) []" and new_cap: "cap (new n) = n"
    and push_full: "holds q xs \<Longrightarrow> length xs = unat (cap q) \<Longrightarrow> push x q = (q, False, length xs = 1)"
    and push_room: "holds q xs \<Longrightarrow> length xs < unat (cap q) \<Longrightarrow>
      \<exists>q'. push x q = (q', True, xs = []) \<and> holds q' (xs @ [x]) \<and> cap q' = cap q"
    and peek_first: "holds q xs \<Longrightarrow> peek q = (case xs of [] \<Rightarrow> None | x # _ \<Rightarrow> Some x)"
    and pop_first: "holds q xs \<Longrightarrow>
      \<exists>q'. pop q = (q', case xs of [] \<Rightarrow> None | x # _ \<Rightarrow> Some x) \<and> holds q' (tl xs) \<and> cap q' = cap q"
    and len_holds: "holds q xs \<Longrightarrow> unat (len q) = length xs"
    and bounded: "holds q xs \<Longrightarrow> length xs \<le> unat (cap q)"
begin

lemma push_holds:
  assumes "holds q xs" and "push x q = (q', ok, signal)"
  shows "ok \<longleftrightarrow> length xs < unat (cap q)" "holds q' (if ok then xs @ [x] else xs)" "cap q' = cap q"
    "signal \<longleftrightarrow> length (if ok then xs @ [x] else xs) = 1"
proof -
  consider "length xs = unat (cap q)" | "length xs < unat (cap q)" using bounded [OF assms(1)] by linarith
  then have "(ok \<longleftrightarrow> length xs < unat (cap q)) \<and> holds q' (if ok then xs @ [x] else xs) \<and> cap q' = cap q
      \<and> (signal \<longleftrightarrow> length (if ok then xs @ [x] else xs) = 1)"
  proof cases
    case 1
    with push_full [OF assms(1) 1, of x] assms show ?thesis by auto
  next
    case 2
    with push_room [OF assms(1) 2, of x] assms(2) show ?thesis by auto
  qed
  then show "ok \<longleftrightarrow> length xs < unat (cap q)" "holds q' (if ok then xs @ [x] else xs)" "cap q' = cap q"
    "signal \<longleftrightarrow> length (if ok then xs @ [x] else xs) = 1" by auto
qed

lemma pop_holds:
  assumes "holds q xs" and "pop q = (q', out)"
  shows "out = (case xs of [] \<Rightarrow> None | x # _ \<Rightarrow> Some x)" "holds q' (tl xs)" "cap q' = cap q"
  using pop_first [OF assms(1)] assms(2) by auto

end

interpretation lq: bounded_fifo NewQueue pushLocked Peek Pop Len q_capacity holds_list
proof
  show "holds_list (NewQueue n) []" for n by (rule NewQueue_holds)
  show "q_capacity (NewQueue n) = n" for n by (simp add: NewQueue_def)
qed (simp_all add: pushLocked_full pushLocked_room Peek_holds Pop_holds Len_def length_is_full(2), auto simp: holds_list_def)

section \<open>Sequences of calls\<close>

text \<open>The calls on a queue, with the receive from \<open>DataCh\<close> that \<open>QueueSend\<close> does, and what each returns.\<close>

datatype (plugins only: code) 'a QueueCall = CallPush 'a | CallPop | CallPeek | CallLen | Receive

datatype (plugins only: code) 'a QueueResult = Pushed bool | Gave "'a option" | Counted nat | Received

fun queueCall :: "'a QueueCall \<Rightarrow> 'a Queue \<times> bool \<Rightarrow> ('a QueueResult \<times> 'a Queue \<times> bool) option" where
  "queueCall (CallPush x) s = map_option (\<lambda>(ok, s). (Pushed ok, s)) (Push x s)"
| "queueCall CallPop (q, d) = (let (q, out) = Pop q in Some (Gave out, q, d))"
| "queueCall CallPeek (q, d) = Some (Gave (Peek q), q, d)"
| "queueCall CallLen (q, d) = Some (Counted (unat (Len q)), q, d)"
| "queueCall Receive (q, d) = (if d then Some (Received, q, False) else None)"

text \<open>
  The contract: a list of at most \<open>n\<close> elements, and whether a signal waits. An element that is the only one after the
  call is signalled; a signal waits for the one before it to be received.
\<close>

fun fifoCall :: "nat \<Rightarrow> 'a QueueCall \<Rightarrow> 'a list \<times> bool \<Rightarrow> ('a QueueResult \<times> 'a list \<times> bool) option" where
  "fifoCall n (CallPush x) (xs, d) =
     (let accepted = length xs < n; ys = (if accepted then xs @ [x] else xs)
      in if length ys = 1 \<and> d then None else Some (Pushed accepted, ys, d \<or> length ys = 1))"
| "fifoCall n CallPop (xs, d) = Some (Gave (case xs of [] \<Rightarrow> None | x # _ \<Rightarrow> Some x), tl xs, d)"
| "fifoCall n CallPeek (xs, d) = Some (Gave (case xs of [] \<Rightarrow> None | x # _ \<Rightarrow> Some x), xs, d)"
| "fifoCall n CallLen (xs, d) = Some (Counted (length xs), xs, d)"
| "fifoCall n Receive (xs, d) = (if d then Some (Received, xs, False) else None)"

text \<open>The results of the calls one after the other; a call that blocks never returns, and nothing follows it.\<close>

fun results :: "('c \<Rightarrow> 's \<Rightarrow> ('r \<times> 's) option) \<Rightarrow> 'c list \<Rightarrow> 's \<Rightarrow> 'r list" where
  "results call [] s = []"
| "results call (c # cs) s = (case call c s of None \<Rightarrow> [] | Some (r, s') \<Rightarrow> r # results call cs s')"

text \<open>One call: the same result, and the queue holds what the list is.\<close>

lemma queueCall_refines:
  assumes "holds_list q xs"
  shows "rel_option (\<lambda>(r, q', d) (r', xs', d'). r = r' \<and> d = d' \<and> holds_list q' xs' \<and> q_capacity q' = q_capacity q)
    (queueCall c (q, d)) (fifoCall (unat (q_capacity q)) c (xs, d))"
proof (cases c)
  case (CallPush x)
  obtain q' ok sends where p: "pushLocked x q = (q', ok, sends)" by (metis prod_cases3)
  from lq.push_holds [OF assms p] p CallPush show ?thesis by (auto simp: Push_def)
next
  case CallPop
  obtain q' out where p: "Pop q = (q', out)" by fastforce
  from lq.pop_holds [OF assms p] p CallPop show ?thesis by auto
qed (use lq.peek_first [OF assms] lq.len_holds [OF assms] assms in auto)

lemma results_refine:
  "holds_list q xs \<Longrightarrow> q_capacity q = cap \<Longrightarrow> results queueCall cs (q, d) = results (fifoCall (unat cap)) cs (xs, d)"
proof (induction cs arbitrary: q xs d)
  case (Cons c cs)
  from queueCall_refines [OF Cons.prems(1), of c d] Cons.prems(2) Cons.IH show ?case
    by (cases "queueCall c (q, d)"; cases "fifoCall (unat cap) c (xs, d)") auto
qed simp

text \<open>
  C31. The linked list with its signal channel is a bounded first-in first-out queue: on a new queue, any sequence of calls
  of one goroutine gives exactly the results of the list of at most \<open>cap\<close> elements. \<open>Push\<close> accepts as long as there is room and refuses
  exactly when there is none, \<open>Pop\<close> and \<open>Peek\<close> give the oldest element, \<open>Len\<close> counts; and a call hangs in the model of the
  code, with nothing after it, exactly where the contract has it hang: a receive with no signal, a \<open>Push\<close> that leaves one
  element behind while the signal before it was not received.
\<close>

theorem queue_refines_fifo:
  "results queueCall cs (NewQueue cap, False) = results (fifoCall (unat cap)) cs ([], False)"
  by (rule results_refine [OF lq.new_holds lq.new_cap])

text \<open>What the contract promises in turn: nothing is lost, doubled or overtaken, and the bound holds.\<close>

fun pushedBy :: "'a QueueCall list \<Rightarrow> 'a QueueResult list \<Rightarrow> 'a list" where
  "pushedBy (CallPush x # cs) (Pushed True # rs) = x # pushedBy cs rs"
| "pushedBy (c # cs) (r # rs) = pushedBy cs rs"
| "pushedBy _ _ = []"

fun poppedBy :: "'a QueueCall list \<Rightarrow> 'a QueueResult list \<Rightarrow> 'a list" where
  "poppedBy (CallPop # cs) (Gave (Some x) # rs) = x # poppedBy cs rs"
| "poppedBy (c # cs) (r # rs) = poppedBy cs rs"
| "poppedBy _ _ = []"

lemma fifo_order:
  "length xs \<le> n \<Longrightarrow> rs = results (fifoCall n) cs (xs, d) \<Longrightarrow>
    \<exists>ys. xs @ pushedBy cs rs = poppedBy cs rs @ ys \<and> length ys \<le> n"
proof (induction cs arbitrary: xs d rs)
  case (Cons c cs)
  show ?case
  proof (cases "fifoCall n c (xs, d)")
    case (Some p)
    obtain r zs d' where p: "p = (r, zs, d')" by (metis prod_cases3)
    have z: "length zs \<le> n" using Some p Cons.prems(1) by (cases c) (auto simp: Let_def split: if_splits)
    from Cons.IH [OF z refl, of d'] Some p Cons.prems show ?thesis
      by (cases c) (auto simp: Let_def split: if_splits list.splits)
  qed (use Cons.prems in auto)
qed auto

lemma queue_order:
  "\<exists>ys. pushedBy cs (results queueCall cs (NewQueue cap, False)) = poppedBy cs (results queueCall cs (NewQueue cap, False)) @ ys
     \<and> length ys \<le> unat cap"
  using fifo_order [of "[]" "unat cap" _ cs False] results_refine [OF lq.new_holds lq.new_cap, where cs = cs and d = False and cap = cap] by simp

end
