(* ===== verification/Pylons_Transport.thy ===== *)
theory Pylons_Transport
  imports Pylons_Wire Pylons_Queue Pylons_Outbox
begin

text \<open>
  The transport of \<open>network/transport/transport.go\<close>. Each pair of a recipient and a channel has a queue and a
  goroutine, \<open>QueueSend\<close>, that sends the first message of the queue again and again until it is acknowledged.
  The goroutine is a state machine: one step is one operation on the queue, on one of its two channels \<open>DataCh\<close> and
  \<open>DeliverChan\<close> (both with room for one element), or on the timer. A step that would block is not enabled.
\<close>

section \<open>Items and queues\<close>

record QueueItem =
  qm_message :: WireMessage
  qm_messageId :: "u64 ptr"

definition MAX_RETRY :: nat where
  "MAX_RETRY = 5"

text \<open>The item \<open>SendAsync\<close> queues; the outer option is the panic.\<close>

definition queueItem :: "WireMessage \<Rightarrow> (error + QueueItem) option" where
  "queueItem msg =
     (let item = (\<lambda>msgID. Some (Inr \<lparr>qm_message = msg, qm_messageId = msgID\<rparr>))
      in case msg of
        M_DirectTransfer m \<Rightarrow> item (dt_MessageId m)
      | M_Processed m \<Rightarrow> item (pr_MessageId m)
      | M_LockedTransfer m \<Rightarrow> do { b \<leftarrow> lt_BaseMessage m; item (lb_MessageId b) }
      | M_SecretRequest m \<Rightarrow> item (sq_MessageId m)
      | M_RevealSecret m \<Rightarrow> item (rv_MessageId m)
      | M_RefundTransfer m \<Rightarrow> do { r \<leftarrow> rf_Refund m; b \<leftarrow> lt_BaseMessage r; item (lb_MessageId b) }
      | M_BalanceProof m \<Rightarrow> item (ul_MessageId m)
      | M_LockExpired m \<Rightarrow> item (le_MessageId m)
      | M_WithdrawRequest m \<Rightarrow> item (wq_MessageId m)
      | M_Withdraw m \<Rightarrow> item (wd_MessageId m)
      | M_CooperativeSettleRequest m \<Rightarrow> item (cq_MessageId m)
      | M_CooperativeSettle m \<Rightarrow> item (co_MessageId m)
      | M_Delivered _ \<Rightarrow> Some (Inl (Msg ''[SendAsync] Unknown message type to send async'')))"

text \<open>A message that the chain state no longer holds in the queue is not sent any more.\<close>

definition CheckIfNeedRemove :: "ChainState \<Rightarrow> QueueId \<Rightarrow> MessageID \<Rightarrow> bool option" where
  "CheckIfNeedRemove chain queueId messageId =
     (case smap_load (ch_QueueIdsToQueues chain) queueId of
        None \<Rightarrow> Some True
      | Some events \<Rightarrow>
          (let ids = map (map_option sm_MessageId \<circ> GetSenderMessageEvent) events;
               known = takeWhile (\<lambda>i. i \<noteq> None) ids
           in if Some messageId \<in> set known then Some False
              else if length known < length ids then None else Some True))"

section \<open>The sender of one queue\<close>

text \<open>Who called \<open>PeekAndSend\<close>: the three cases of the select statement.\<close>

datatype (plugins only: code) Caller = OnData | OnTimer | OnDeliver

datatype (plugins only: code) Phase =
    Selecting
  | Timeout
  | Peeking Caller
  | Removing Caller MessageID
  | Handling MessageID
  | Popped
  | Stopped

text \<open>
  \<open>se_pushing\<close>: a \<open>Push\<close> still holds the lock because \<open>DataCh\<close> has no room for its element. \<open>se_timer\<close>: the
  timer runs, or has fired and nobody has read it.
\<close>

record Sender =
  se_Queue :: "QueueItem Queue"
  se_DataCh :: bool
  se_DeliverChan :: "MessageID option"
  se_pushing :: bool
  se_phase :: Phase
  se_timer :: bool
  se_retryTimes :: nat

definition NewSender :: "u32 \<Rightarrow> Sender" where
  "NewSender cap = \<lparr>se_Queue = NewQueue cap, se_DataCh = False, se_DeliverChan = None, se_pushing = False,
     se_phase = Selecting, se_timer = True, se_retryTimes = 0\<rparr>"

text \<open>What a step does that can be seen from outside.\<close>

datatype (plugins only: code) Action =
    Pushes QueueItem bool
  | Acknowledges MessageID
  | Sends QueueItem bool
  | Forgets MessageID
  | Pops QueueItem
  | Internal

text \<open>The retries after \<open>PeekAndSend\<close> returned, with an error or without.\<close>

fun retries :: "Caller \<Rightarrow> bool \<Rightarrow> nat \<Rightarrow> nat" where
  "retries OnData ok n = n"
| "retries OnTimer ok n = (if ok then n else n + 1)"
| "retries OnDeliver ok n = 0"

inductive sender_step :: "QueueId \<Rightarrow> Sender \<Rightarrow> Action \<Rightarrow> Sender \<Rightarrow> bool" for qid where
  push: "\<not> se_pushing s \<Longrightarrow> pushLocked item (se_Queue s) = (q, ok, signal) \<Longrightarrow>
    sender_step qid s (Pushes item ok) (s\<lparr>se_Queue := q, se_pushing := signal\<rparr>)"
| pushed: "se_pushing s \<Longrightarrow> \<not> se_DataCh s \<Longrightarrow>
    sender_step qid s Internal (s\<lparr>se_pushing := False, se_DataCh := True\<rparr>)"
| acknowledge: "se_DeliverChan s = None \<Longrightarrow>
    sender_step qid s (Acknowledges i) (s\<lparr>se_DeliverChan := Some i\<rparr>)"
| select_data: "se_phase s = Selecting \<Longrightarrow> se_DataCh s \<Longrightarrow>
    sender_step qid s Internal (s\<lparr>se_DataCh := False, se_timer := True, se_phase := Peeking OnData\<rparr>)"
| select_timer: "se_phase s = Selecting \<Longrightarrow> se_timer s \<Longrightarrow>
    sender_step qid s Internal (s\<lparr>se_timer := False, se_phase := Timeout\<rparr>)"
| select_deliver: "se_phase s = Selecting \<Longrightarrow> se_DeliverChan s = Some i \<Longrightarrow>
    sender_step qid s Internal (s\<lparr>se_DeliverChan := None, se_phase := Handling i\<rparr>)"
| select_kill: "se_phase s = Selecting \<Longrightarrow>
    sender_step qid s Internal (s\<lparr>se_timer := False, se_phase := Stopped\<rparr>)"
| timeout_empty: "se_phase s = Timeout \<Longrightarrow> \<not> se_pushing s \<Longrightarrow> Len (se_Queue s) = 0 \<Longrightarrow>
    sender_step qid s Internal (s\<lparr>se_phase := Selecting\<rparr>)"
| timeout_retry: "se_phase s = Timeout \<Longrightarrow> \<not> se_pushing s \<Longrightarrow> Len (se_Queue s) \<noteq> 0 \<Longrightarrow> se_retryTimes s \<noteq> MAX_RETRY \<Longrightarrow>
    sender_step qid s Internal (s\<lparr>se_timer := True, se_phase := Peeking OnTimer\<rparr>)"
| timeout_unreachable: "se_phase s = Timeout \<Longrightarrow> \<not> se_pushing s \<Longrightarrow> Len (se_Queue s) \<noteq> 0 \<Longrightarrow> se_retryTimes s = MAX_RETRY \<Longrightarrow>
    sender_step qid s Internal (s\<lparr>se_timer := True, se_phase := Selecting\<rparr>)"
| timeout_reachable: "se_phase s = Timeout \<Longrightarrow> \<not> se_pushing s \<Longrightarrow> Len (se_Queue s) \<noteq> 0 \<Longrightarrow> se_retryTimes s = MAX_RETRY \<Longrightarrow>
    sender_step qid s Internal (s\<lparr>se_timer := True, se_retryTimes := 0, se_phase := Peeking OnTimer\<rparr>)"
| peek_empty: "se_phase s = Peeking caller \<Longrightarrow> \<not> se_pushing s \<Longrightarrow> Peek (se_Queue s) = None \<Longrightarrow>
    sender_step qid s Internal (s\<lparr>se_retryTimes := retries caller False (se_retryTimes s), se_phase := Selecting\<rparr>)"
| peek_remove: "se_phase s = Peeking caller \<Longrightarrow> \<not> se_pushing s \<Longrightarrow> Peek (se_Queue s) = Some item \<Longrightarrow>
    qm_messageId item = Some i \<Longrightarrow> CheckIfNeedRemove chain qid i = Some True \<Longrightarrow>
    sender_step qid s (Forgets i) (s\<lparr>se_phase := Removing caller i\<rparr>)"
| peek_send: "se_phase s = Peeking caller \<Longrightarrow> \<not> se_pushing s \<Longrightarrow> Peek (se_Queue s) = Some item \<Longrightarrow>
    qm_messageId item = Some i \<Longrightarrow> CheckIfNeedRemove chain qid i = Some False \<Longrightarrow>
    sender_step qid s (Sends item ok) (s\<lparr>se_retryTimes := retries caller ok (se_retryTimes s), se_phase := Selecting\<rparr>)"
| removing: "se_phase s = Removing caller i \<Longrightarrow> se_DeliverChan s = None \<Longrightarrow>
    sender_step qid s Internal (s\<lparr>se_DeliverChan := Some i, se_retryTimes := retries caller True (se_retryTimes s),
       se_phase := Selecting\<rparr>)"
| handle_empty: "se_phase s = Handling i \<Longrightarrow> \<not> se_pushing s \<Longrightarrow> Peek (se_Queue s) = None \<Longrightarrow>
    sender_step qid s Internal (s\<lparr>se_phase := Selecting\<rparr>)"
| handle_other: "se_phase s = Handling i \<Longrightarrow> \<not> se_pushing s \<Longrightarrow> Peek (se_Queue s) = Some item \<Longrightarrow>
    qm_messageId item = Some j \<Longrightarrow> i \<noteq> j \<Longrightarrow>
    sender_step qid s Internal (s\<lparr>se_phase := Selecting\<rparr>)"
| handle_pop: "se_phase s = Handling i \<Longrightarrow> \<not> se_pushing s \<Longrightarrow> Peek (se_Queue s) = Some item \<Longrightarrow>
    qm_messageId item = Some i \<Longrightarrow> Pop (se_Queue s) = (q, out) \<Longrightarrow> timer \<longrightarrow> se_timer s \<Longrightarrow>
    sender_step qid s (Pops item) (s\<lparr>se_Queue := q, se_timer := timer, se_phase := Popped\<rparr>)"
| popped_empty: "se_phase s = Popped \<Longrightarrow> \<not> se_pushing s \<Longrightarrow> Len (se_Queue s) = 0 \<Longrightarrow>
    sender_step qid s Internal (s\<lparr>se_retryTimes := 0, se_phase := Selecting\<rparr>)"
| popped_next: "se_phase s = Popped \<Longrightarrow> \<not> se_pushing s \<Longrightarrow> Len (se_Queue s) \<noteq> 0 \<Longrightarrow>
    sender_step qid s Internal (s\<lparr>se_timer := True, se_phase := Peeking OnDeliver\<rparr>)"

inductive_cases sender_stepE: "sender_step qid s a s'"

inductive sender_run :: "QueueId \<Rightarrow> Sender \<Rightarrow> Action list \<Rightarrow> Sender \<Rightarrow> bool" for qid where
  run_Nil: "sender_run qid s [] s"
| run_snoc: "sender_run qid s tr s' \<Longrightarrow> sender_step qid s' a s'' \<Longrightarrow> sender_run qid s (tr @ [a]) s''"

lemma sender_run_trans: "sender_run qid s1 tr2 s2 \<Longrightarrow> sender_run qid s0 tr1 s1 \<Longrightarrow> sender_run qid s0 (tr1 @ tr2) s2"
proof (induction rule: sender_run.induct)
  case (run_snoc s1 tr s2 a s3)
  then show ?case using sender_run.run_snoc [of qid s0 "tr1 @ tr"] by simp
qed simp

lemma sender_run_step: "sender_step qid s a s' \<Longrightarrow> sender_run qid s [a] s'"
  using sender_run.run_snoc [OF sender_run.run_Nil] by fastforce

section \<open>Histories\<close>

text \<open>The items a history has accepted and popped, and the ids it has seen acknowledged or found obsolete.\<close>

definition accepted :: "Action list \<Rightarrow> QueueItem list" where
  "accepted tr = List.map_filter (\<lambda>a. case a of Pushes item True \<Rightarrow> Some item | _ \<Rightarrow> None) tr"

definition popped :: "Action list \<Rightarrow> QueueItem list" where
  "popped tr = List.map_filter (\<lambda>a. case a of Pops item \<Rightarrow> Some item | _ \<Rightarrow> None) tr"

definition released :: "Action list \<Rightarrow> MessageID \<Rightarrow> bool" where
  "released tr i \<longleftrightarrow> Acknowledges i \<in> set tr \<or> Forgets i \<in> set tr"

lemma history_simps [simp]:
  "accepted [] = []" "popped [] = []" "\<not> released [] i"
  "accepted (tr @ [a]) = accepted tr @ (case a of Pushes item ok \<Rightarrow> if ok then [item] else [] | _ \<Rightarrow> [])"
  "popped (tr @ [a]) = popped tr @ (case a of Pops item \<Rightarrow> [item] | _ \<Rightarrow> [])"
  "released (tr @ [a]) i \<longleftrightarrow> released tr i \<or> a = Acknowledges i \<or> a = Forgets i"
  by (auto simp: accepted_def popped_def released_def map_filter_simps map_filter_def split: Action.split bool.split)

section \<open>The invariant\<close>

text \<open>
  A sender that has work to do and is not stopped will look at its queue again: the timer runs, or an element is in
  \<open>DataCh\<close> or about to be, or it is about to look.
\<close>

definition awake :: "Sender \<Rightarrow> bool" where
  "awake s \<longleftrightarrow> se_timer s \<or> se_DataCh s \<or> se_pushing s \<or> se_phase s \<in> {Timeout, Popped, Stopped}"

definition sender_inv :: "u32 \<Rightarrow> Action list \<Rightarrow> Sender \<Rightarrow> QueueItem list \<Rightarrow> bool" where
  "sender_inv cap tr s xs \<longleftrightarrow>
     holds_list (se_Queue s) xs \<and> q_capacity (se_Queue s) = cap \<and> accepted tr = popped tr @ xs
   \<and> (\<forall>item \<in> set (popped tr). \<exists>i. qm_messageId item = Some i \<and> released tr i)
   \<and> (\<forall>i. se_DeliverChan s = Some i \<longrightarrow> released tr i)
   \<and> (\<forall>i. se_phase s = Handling i \<longrightarrow> released tr i)
   \<and> (\<forall>caller i. se_phase s = Removing caller i \<longrightarrow> released tr i)
   \<and> se_retryTimes s \<le> MAX_RETRY
   \<and> (se_phase s = Peeking OnTimer \<longrightarrow> se_retryTimes s < MAX_RETRY)
   \<and> (xs \<noteq> [] \<longrightarrow> awake s)"

lemma Len_zero: "holds_list q xs \<Longrightarrow> Len q = 0 \<longleftrightarrow> xs = []"
  using lq.len_holds by (metis length_0_conv unat_eq_zero)

lemma retries_bound: "n \<le> MAX_RETRY \<Longrightarrow> (caller = OnTimer \<longrightarrow> n < MAX_RETRY) \<Longrightarrow> retries caller ok n \<le> MAX_RETRY"
  by (cases caller) auto

lemma retries_done: "n \<le> MAX_RETRY \<Longrightarrow> retries caller True n \<le> MAX_RETRY"
  by (cases caller) auto

lemma MAX_RETRY_pos [simp]: "0 < MAX_RETRY"
  by (simp add: MAX_RETRY_def)

lemma sender_inv_step:
  assumes "sender_step qid s a s'" and "sender_inv cap tr s xs"
  shows "\<exists>xs'. sender_inv cap (tr @ [a]) s' xs'"
proof -
  have h: "holds_list (se_Queue s) xs" using assms(2) by (simp add: sender_inv_def)
  note z = Len_zero [OF h] and pk = lq.peek_first [OF h]
  have old: "\<forall>item \<in> set (popped tr). \<exists>i. qm_messageId item = Some i \<and> released (tr @ [a]) i"
    using assms(2) by (fastforce simp: sender_inv_def)
  from assms(1) show ?thesis
  proof cases
    case (push item q ok signal)
    note p = lq.push_holds [OF h push(4)]
    have "signal" if "xs = []" "ok" using p(4) that by simp
    with assms(2) p old push show ?thesis
      by (intro exI [of _ "if ok then xs @ [item] else xs"]) (auto simp: sender_inv_def awake_def)
  next
    case (handle_pop i item q out timer)
    obtain ys where x: "xs = item # ys" using pk handle_pop(5) by (cases xs) auto
    have "holds_list q ys \<and> q_capacity q = q_capacity (se_Queue s)"
      using lq.pop_first [OF h] handle_pop(7) x by auto
    with assms(2) old handle_pop x show ?thesis
      by (intro exI [of _ ys]) (auto simp: sender_inv_def awake_def)
  qed (use assms(2) old z pk in \<open>intro exI [of _ xs], auto simp: sender_inv_def awake_def retries_bound retries_done\<close>)+
qed

lemma sender_run_inv:
  "sender_run qid s0 tr s \<Longrightarrow> s0 = NewSender cap \<Longrightarrow> \<exists>xs. sender_inv cap tr s xs"
proof (induction rule: sender_run.induct)
  case (run_Nil s)
  then show ?case
    by (auto simp: sender_inv_def NewSender_def NewQueue_holds intro!: exI [of _ "[]"]) (simp add: NewQueue_def)
next
  case (run_snoc s tr s' a s'')
  then show ?case using sender_inv_step by blast
qed

lemmas sender_reachable = sender_run_inv [OF _ refl]

lemma sender_run_prefix: "sender_run qid s0 tr s \<Longrightarrow> tr = tr1 @ tr2 \<Longrightarrow> \<exists>s1. sender_run qid s0 tr1 s1 \<and> sender_run qid s1 tr2 s"
proof (induction arbitrary: tr2 rule: sender_run.induct)
  case (run_Nil s)
  then show ?case using sender_run.run_Nil by auto
next
  case (run_snoc s tr s' a s'')
  show ?case
  proof (cases tr2 rule: rev_cases)
    case Nil
    then show ?thesis using run_snoc sender_run.run_Nil sender_run.run_snoc by (metis append.right_neutral)
  next
    case (snoc tr3 b)
    with run_snoc obtain s1 where "sender_run qid s tr1 s1" "sender_run qid s1 tr3 s'" "b = a" by auto
    with run_snoc.hyps(2) snoc show ?thesis using sender_run.run_snoc by blast
  qed
qed

lemma sender_run_Cons: "sender_step qid s a s' \<Longrightarrow> sender_run qid s' tr s'' \<Longrightarrow> sender_run qid s (a # tr) s''"
  using sender_run_trans [OF _ sender_run_step] by fastforce

inductive_cases sender_run_ConsE: "sender_run qid s (tr @ [a]) s'"
inductive_cases Sends_stepE: "sender_step qid s (Sends item ok) s'"

section \<open>Order\<close>

text \<open>
  C22. The messages of a queue go out in the order they were queued and one at a time. Whenever the goroutine hands a
  message to the network, every message queued before it has been popped, which happens only after its id was
  acknowledged by a \<open>Delivered\<close> or found missing from the queues of the chain state; and the queue holds no more
  than its capacity.
\<close>

theorem sent_in_order:
  assumes "sender_run qid (NewSender cap) (tr1 @ Sends item ok # tr2) s"
  shows "\<exists>rest. accepted tr1 = popped tr1 @ item # rest \<and> length (item # rest) \<le> unat cap
     \<and> (\<forall>p \<in> set (popped tr1). \<exists>i. qm_messageId p = Some i \<and> released tr1 i)"
proof -
  obtain s1 where s1: "sender_run qid (NewSender cap) (tr1 @ [Sends item ok]) s1"
    using sender_run_prefix [OF assms, of "tr1 @ [Sends item ok]" tr2] by auto
  then obtain s0 where s0: "sender_run qid (NewSender cap) tr1 s0" and st: "sender_step qid s0 (Sends item ok) s1"
    by (auto elim: sender_run_ConsE)
  obtain xs where inv: "sender_inv cap tr1 s0 xs" using sender_reachable [OF s0] ..
  then have h: "holds_list (se_Queue s0) xs" "q_capacity (se_Queue s0) = cap" by (auto simp: sender_inv_def)
  have "Peek (se_Queue s0) = Some item" using st by (auto elim: Sends_stepE)
  then obtain rest where "xs = item # rest" using lq.peek_first [OF h(1)] by (cases xs) auto
  with inv lq.bounded [OF h(1)] h(2) show ?thesis by (auto simp: sender_inv_def)
qed

section \<open>Progress and deadlock\<close>

text \<open>
  Two ways to hang: a \<open>Push\<close> holds the lock and waits for room in \<open>DataCh\<close> while the goroutine, the only reader
  of \<open>DataCh\<close>, waits for the lock; and the goroutine itself waits for room in the \<open>DeliverChan\<close> it alone reads.
\<close>

definition blocked :: "Sender \<Rightarrow> bool" where
  "blocked s \<longleftrightarrow>
     (case se_phase s of
        Selecting \<Rightarrow> False
      | Stopped \<Rightarrow> False
      | Removing _ _ \<Rightarrow> se_DeliverChan s \<noteq> None
      | _ \<Rightarrow> se_pushing s \<and> se_DataCh s)"

lemma blocked_step:
  "sender_step qid s a s' \<Longrightarrow> blocked s \<Longrightarrow> blocked s' \<and> (\<forall>item ok. a \<noteq> Sends item ok) \<and> (\<forall>item. a \<noteq> Pops item)"
  by (erule sender_step.cases) (auto simp: blocked_def split: Phase.splits)

lemma blocked_forever:
  "sender_run qid s tr s' \<Longrightarrow> blocked s \<Longrightarrow> blocked s' \<and> (\<forall>item ok. Sends item ok \<notin> set tr) \<and> (\<forall>item. Pops item \<notin> set tr)"
proof (induction rule: sender_run.induct)
  case (run_snoc s tr s' a s'')
  with blocked_step [OF run_snoc.hyps(2)] show ?case by auto
qed simp

definition progress :: "QueueId \<Rightarrow> Sender \<Rightarrow> QueueItem \<Rightarrow> bool" where
  "progress qid s item \<longleftrightarrow> (\<exists>tr s'. sender_run qid s tr s' \<and> (Sends item True \<in> set tr \<or> Pops item \<in> set tr))"

lemma progress_step: "sender_step qid s a s' \<Longrightarrow> progress qid s' item \<Longrightarrow> progress qid s item"
  using sender_run_Cons unfolding progress_def by (metis list.set_intros(2))

lemma progress_now: "sender_step qid s a s' \<Longrightarrow> a = Sends item True \<or> a = Pops item \<Longrightarrow> progress qid s item"
  using sender_run_step unfolding progress_def by (metis list.set_intros(1))

lemma still_wanted: "\<exists>chain. CheckIfNeedRemove chain qid i = Some False"
proof
  show "CheckIfNeedRemove (NewChainState\<lparr>ch_QueueIdsToQueues :=
      [(qid, [SendProcessed \<lparr>sm_Recipient = qi_Recipient qid, sm_ChannelId = qi_ChannelId qid, sm_MessageId = i\<rparr>])]\<rparr>) qid i
      = Some False"
    by (simp add: CheckIfNeedRemove_def smap_load_def)
qed

lemma peeking_progress:
  assumes "se_phase s = Peeking caller" and "holds_list (se_Queue s) (item # xs)" and "qm_messageId item = Some i"
    and "\<not> se_pushing s"
  shows "progress qid s item"
proof -
  obtain chain where c: "CheckIfNeedRemove chain qid i = Some False" using still_wanted by blast
  have "Peek (se_Queue s) = Some item" using lq.peek_first [OF assms(2)] by simp
  with progress_now [OF peek_send [OF assms(1,4) this assms(3) c]] show ?thesis by blast
qed

lemma timeout_progress:
  assumes "se_phase s = Timeout" and h: "holds_list (se_Queue s) (item # xs)" and i: "qm_messageId item = Some i"
    and "\<not> se_pushing s"
  shows "progress qid s item"
proof -
  have l: "Len (se_Queue s) \<noteq> 0" using Len_zero [OF h] by simp
  note p = peeking_progress [where item = item and xs = xs and i = i]
  show ?thesis
  proof (cases "se_retryTimes s = MAX_RETRY")
    case True
    show ?thesis by (rule progress_step [OF timeout_reachable [OF assms(1,4) l True]], rule p) (use h i assms(4) in auto)
  next
    case False
    show ?thesis by (rule progress_step [OF timeout_retry [OF assms(1,4) l False]], rule p) (use h i assms(4) in auto)
  qed
qed

lemma selecting_progress:
  assumes ph: "se_phase s = Selecting" and h: "holds_list (se_Queue s) (item # xs)" and i: "qm_messageId item = Some i"
    and aw: "awake s"
  shows "progress qid s item"
proof -
  note p = peeking_progress [where item = item and xs = xs and i = i]
  have idle: "progress qid t item" if "se_phase t = Selecting" "se_Queue t = se_Queue s" "\<not> se_pushing t" "se_DataCh t" for t
    by (rule progress_step [OF select_data [OF that(1,4)]], rule p) (use h i that in auto)
  consider "se_pushing s" "se_DataCh s" | "se_pushing s" "\<not> se_DataCh s" | "\<not> se_pushing s" "se_DataCh s"
    | "\<not> se_pushing s" "se_timer s"
    using aw ph by (auto simp: awake_def)
  then show ?thesis
  proof cases
    case 1
    show ?thesis
      by (rule progress_step [OF select_data [OF ph 1(2)]], rule progress_step [OF pushed], simp add: 1, simp,
          rule p [of _ OnData]) (use h i 1 in auto)
  next
    case 2
    show ?thesis by (rule progress_step [OF pushed [OF 2]], rule idle) (use ph in auto)
  next
    case 3
    with ph idle show ?thesis by blast
  next
    case 4
    show ?thesis by (rule progress_step [OF select_timer [OF ph 4(2)]], rule timeout_progress) (use h i 4 in auto)
  qed
qed

lemma removing_progress:
  assumes "se_phase s = Removing caller i" and "se_DeliverChan s = None" and "holds_list (se_Queue s) (item # xs)"
    and "qm_messageId item = Some j" and "awake s"
  shows "progress qid s item"
  by (rule progress_step [OF removing [OF assms(1,2)]], rule selecting_progress)
     (use assms in \<open>auto simp: awake_def\<close>)

lemma handling_progress:
  assumes "se_phase s = Handling i" and h: "holds_list (se_Queue s) (item # xs)" and j: "qm_messageId item = Some j"
    and "\<not> se_pushing s" and "awake s"
  shows "progress qid s item"
proof -
  have pk: "Peek (se_Queue s) = Some item" using lq.peek_first [OF h] by simp
  show ?thesis
  proof (cases "i = j")
    case True
    obtain q out where "Pop (se_Queue s) = (q, out)" by fastforce
    then show ?thesis using progress_now [OF handle_pop [OF assms(1,4) pk, of q out False]] j True by blast
  next
    case False
    show ?thesis
      by (rule progress_step [OF handle_other [OF assms(1,4) pk j False]], rule selecting_progress)
         (use assms in \<open>auto simp: awake_def\<close>)
  qed
qed

lemma popped_progress:
  assumes "se_phase s = Popped" and h: "holds_list (se_Queue s) (item # xs)" and j: "qm_messageId item = Some j"
    and "\<not> se_pushing s"
  shows "progress qid s item"
  by (rule progress_step [OF popped_next [OF assms(1,4)]], simp add: Len_zero [OF h], rule peeking_progress)
     (use assms in auto)

text \<open>A waiting \<open>Push\<close> that can finish does.\<close>

lemma unpushed_progress:
  assumes "\<not> se_pushing s \<Longrightarrow> progress qid s item"
    and "progress qid (s\<lparr>se_pushing := False, se_DataCh := True\<rparr>) item" and "\<not> (se_pushing s \<and> se_DataCh s)"
  shows "progress qid s item"
  using assms progress_step [OF pushed, of s qid item] by blast

lemma reachable_progress:
  assumes inv: "sender_inv cap tr s (item # xs)" and id: "qm_messageId item = Some j"
    and "\<not> blocked s" and "se_phase s \<noteq> Stopped"
  shows "progress qid s item"
proof -
  have h: "holds_list (se_Queue s) (item # xs)" and aw: "awake s" using inv by (auto simp: sender_inv_def)
  have aw': "awake (s\<lparr>se_pushing := False, se_DataCh := True\<rparr>)" by (simp add: awake_def)
  show ?thesis
  proof (cases "se_phase s")
    case Selecting
    then show ?thesis using selecting_progress h id aw by blast
  next
    case (Removing caller i)
    then show ?thesis using removing_progress [OF _ _ h id aw] assms(3) by (auto simp: blocked_def)
  next
    case Timeout
    show ?thesis
      by (rule unpushed_progress; (rule timeout_progress)?) (use Timeout h id assms(3) in \<open>auto simp: blocked_def\<close>)
  next
    case (Peeking c)
    show ?thesis
      by (rule unpushed_progress; (rule peeking_progress)?) (use Peeking h id assms(3) in \<open>auto simp: blocked_def\<close>)
  next
    case (Handling i)
    show ?thesis
      by (rule unpushed_progress; (rule handling_progress)?)
         (use Handling h id aw aw' assms(3) in \<open>auto simp: blocked_def\<close>)
  next
    case Popped
    show ?thesis
      by (rule unpushed_progress; (rule popped_progress)?) (use Popped h id assms(3) in \<open>auto simp: blocked_def\<close>)
  qed (use assms(4) in simp)
qed


section \<open>Both deadlocks happen\<close>

definition reaches :: "QueueId \<Rightarrow> Sender \<Rightarrow> Sender \<Rightarrow> bool" where
  "reaches qid s s' \<longleftrightarrow> (\<exists>tr. sender_run qid s tr s')"

lemma reaches_refl: "reaches qid s s"
  using sender_run.run_Nil unfolding reaches_def by blast

lemma reaches_step: "reaches qid s0 s \<Longrightarrow> sender_step qid s a s' \<Longrightarrow> reaches qid s0 s'"
  using sender_run.run_snoc unfolding reaches_def by blast

lemma no_longer_wanted: "CheckIfNeedRemove NewChainState qid i = Some True"
  by (simp add: CheckIfNeedRemove_def NewChainState_def smap_load_def)

text \<open>The first message of a fresh queue has been sent, nothing else happened.\<close>

lemma first_sent:
  fixes A :: QueueItem
  assumes "0 < unat cap" and "qm_messageId A = Some a"
  shows "\<exists>q. reaches qid (NewSender cap) ((NewSender cap)\<lparr>se_Queue := q\<rparr>) \<and> holds_list q [A] \<and> q_capacity q = cap"
proof -
  let ?s = "NewSender cap"
  obtain q where q: "pushLocked A (se_Queue ?s) = (q, True, True)" "holds_list q [A]" "q_capacity q = cap"
    using pushLocked_room [OF NewQueue_holds, of cap A] assms(1) by (auto simp: NewSender_def lq.new_cap)
  obtain chain where c: "CheckIfNeedRemove chain qid a = Some False" using still_wanted by blast
  have pk: "Peek q = Some A" using lq.peek_first [OF q(2)] by simp
  have "reaches qid ?s (?s\<lparr>se_Queue := q, se_pushing := True\<rparr>)"
    by (rule reaches_step [OF reaches_refl], rule push [OF _ q(1)]) (simp add: NewSender_def)
  then have "reaches qid ?s (?s\<lparr>se_Queue := q, se_pushing := False, se_DataCh := True\<rparr>)"
    by (rule reaches_step) (use pushed [of "?s\<lparr>se_Queue := q, se_pushing := True\<rparr>"] in \<open>simp add: NewSender_def\<close>)
  then have "reaches qid ?s (?s\<lparr>se_Queue := q, se_phase := Peeking OnData\<rparr>)"
    by (rule reaches_step)
       (use select_data [of "?s\<lparr>se_Queue := q, se_pushing := False, se_DataCh := True\<rparr>"] in \<open>simp add: NewSender_def\<close>)
  then have "reaches qid ?s (?s\<lparr>se_Queue := q\<rparr>)"
    by (rule reaches_step)
       (use peek_send [of "?s\<lparr>se_Queue := q, se_phase := Peeking OnData\<rparr>" OnData A a chain qid True] pk assms(2) c
        in \<open>simp add: NewSender_def\<close>)
  with q show ?thesis by blast
qed

text \<open>
  The acknowledged message is gone from the chain state, so that the timer makes the goroutine put its id into
  \<open>DeliverChan\<close>; but \<open>ReceiveDelivered\<close> has put it there already.
\<close>

theorem obsolete_message_deadlock:
  fixes A :: QueueItem
  assumes "0 < unat cap" and "qm_messageId A = Some a"
  shows "\<exists>tr s. sender_run qid (NewSender cap) tr s \<and> blocked s \<and> se_phase s = Removing OnTimer a"
proof -
  let ?s = "NewSender cap"
  obtain q where q: "reaches qid ?s (?s\<lparr>se_Queue := q\<rparr>)" "holds_list q [A]"
    using first_sent [OF assms] by blast
  have pk: "Peek q = Some A" and l: "Len q \<noteq> 0" using lq.peek_first [OF q(2)] Len_zero [OF q(2)] by simp_all
  have "reaches qid ?s (?s\<lparr>se_Queue := q, se_timer := False, se_phase := Timeout\<rparr>)"
    by (rule reaches_step [OF q(1)]) (use select_timer [of "?s\<lparr>se_Queue := q\<rparr>"] in \<open>simp add: NewSender_def\<close>)
  then have "reaches qid ?s (?s\<lparr>se_Queue := q, se_phase := Peeking OnTimer\<rparr>)"
    by (rule reaches_step)
       (use timeout_retry [of "?s\<lparr>se_Queue := q, se_timer := False, se_phase := Timeout\<rparr>"] l
        in \<open>simp add: NewSender_def MAX_RETRY_def\<close>)
  then have "reaches qid ?s (?s\<lparr>se_Queue := q, se_phase := Removing OnTimer a\<rparr>)"
    by (rule reaches_step)
       (use peek_remove [of "?s\<lparr>se_Queue := q, se_phase := Peeking OnTimer\<rparr>" OnTimer A a NewChainState qid] pk assms(2) no_longer_wanted
        in \<open>simp add: NewSender_def\<close>)
  then have "reaches qid ?s (?s\<lparr>se_Queue := q, se_phase := Removing OnTimer a, se_DeliverChan := Some a\<rparr>)"
    by (rule reaches_step)
       (use acknowledge [of "?s\<lparr>se_Queue := q, se_phase := Removing OnTimer a\<rparr>" qid a] in \<open>simp add: NewSender_def\<close>)
  then show ?thesis unfolding reaches_def by (force simp: blocked_def)
qed

text \<open>The acknowledgement of the first message arrives, is selected and pops it.\<close>

lemma acknowledged:
  assumes r: "reaches qid s0 s" and "se_phase s = Selecting" and "se_DeliverChan s = None" and "\<not> se_pushing s"
    and "se_timer s" and h: "holds_list (se_Queue s) (item # ys)" and "qm_messageId item = Some i"
  shows "\<exists>q. reaches qid s0 (s\<lparr>se_Queue := q, se_phase := Popped\<rparr>) \<and> holds_list q ys \<and> q_capacity q = q_capacity (se_Queue s)"
proof -
  obtain q where q: "Pop (se_Queue s) = (q, Some item)" "holds_list q ys" "q_capacity q = q_capacity (se_Queue s)"
    using lq.pop_first [OF h] by auto
  have pk: "Peek (se_Queue s) = Some item" using lq.peek_first [OF h] by simp
  have "reaches qid s0 (s\<lparr>se_DeliverChan := Some i\<rparr>)" by (rule reaches_step [OF r acknowledge [OF assms(3)]])
  then have "reaches qid s0 (s\<lparr>se_DeliverChan := None, se_phase := Handling i\<rparr>)"
    by (rule reaches_step) (use select_deliver [of "s\<lparr>se_DeliverChan := Some i\<rparr>" i] assms(2) in simp)
  then have "reaches qid s0 (s\<lparr>se_DeliverChan := None, se_Queue := q, se_timer := True, se_phase := Popped\<rparr>)"
    by (rule reaches_step)
       (use handle_pop [of "s\<lparr>se_DeliverChan := None, se_phase := Handling i\<rparr>" i item q "Some item" True] pk q(1) assms(4,5,7)
        in simp)
  moreover have "s\<lparr>se_DeliverChan := None, se_Queue := q, se_timer := True, se_phase := Popped\<rparr> = s\<lparr>se_Queue := q, se_phase := Popped\<rparr>"
    using assms(3,5) by simp
  ultimately show ?thesis using q by auto
qed

text \<open>
  A message queued between the acknowledgement of its predecessor and the check of the length is sent at once, its
  token stays in \<open>DataCh\<close>. If its acknowledgement is selected before the token, the next \<open>Push\<close> waits for \<open>DataCh\<close>
  with the lock held.
\<close>

theorem push_deadlock:
  fixes A B C :: QueueItem
  assumes "0 < unat cap" and ids: "qm_messageId A = Some a" "qm_messageId B = Some b"
  shows "\<exists>tr s. sender_run qid (NewSender cap) tr s \<and> blocked s \<and> se_phase s = Popped \<and> C \<in> set (accepted tr)"
proof -
  let ?s = "NewSender cap"
  obtain q1 where q1: "reaches qid ?s (?s\<lparr>se_Queue := q1\<rparr>)" "holds_list q1 [A]" "q_capacity q1 = cap"
    using first_sent [OF assms(1) ids(1)] by blast
  obtain q2 where q2: "reaches qid ?s (?s\<lparr>se_Queue := q2, se_phase := Popped\<rparr>)" "holds_list q2 []" "q_capacity q2 = cap"
    using acknowledged [OF q1(1) _ _ _ _ _ ids(1), of "[]"] q1 by (auto simp: NewSender_def)
  obtain q3 where q3: "pushLocked B q2 = (q3, True, True)" "holds_list q3 [B]" "q_capacity q3 = cap"
    using pushLocked_room [OF q2(2), of B] assms(1) q2(3) by auto
  obtain chain where c: "CheckIfNeedRemove chain qid b = Some False" using still_wanted by blast
  have pk: "Peek q3 = Some B" "Len q3 \<noteq> 0" using lq.peek_first [OF q3(2)] Len_zero [OF q3(2)] by simp_all
  have "reaches qid ?s (?s\<lparr>se_Queue := q3, se_phase := Popped, se_pushing := True\<rparr>)"
    by (rule reaches_step [OF q2(1)])
       (use push [of "?s\<lparr>se_Queue := q2, se_phase := Popped\<rparr>" B q3 True True] q3(1) in \<open>simp add: NewSender_def\<close>)
  then have "reaches qid ?s (?s\<lparr>se_Queue := q3, se_phase := Popped, se_DataCh := True\<rparr>)"
    by (rule reaches_step)
       (use pushed [of "?s\<lparr>se_Queue := q3, se_phase := Popped, se_pushing := True\<rparr>"] in \<open>simp add: NewSender_def\<close>)
  then have "reaches qid ?s (?s\<lparr>se_Queue := q3, se_phase := Peeking OnDeliver, se_DataCh := True\<rparr>)"
    by (rule reaches_step)
       (use popped_next [of "?s\<lparr>se_Queue := q3, se_phase := Popped, se_DataCh := True\<rparr>"] pk in \<open>simp add: NewSender_def\<close>)
  then have "reaches qid ?s (?s\<lparr>se_Queue := q3, se_DataCh := True\<rparr>)"
    by (rule reaches_step)
       (use peek_send [of "?s\<lparr>se_Queue := q3, se_phase := Peeking OnDeliver, se_DataCh := True\<rparr>" OnDeliver B b chain qid True]
          pk ids c in \<open>simp add: NewSender_def\<close>)
  from acknowledged [OF this _ _ _ _ _ ids(2), of "[]"] q3
  obtain q4 where q4: "reaches qid ?s (?s\<lparr>se_Queue := q4, se_DataCh := True, se_phase := Popped\<rparr>)" "holds_list q4 []"
      "q_capacity q4 = cap"
    by (auto simp: NewSender_def)
  obtain q5 where q5: "pushLocked C q4 = (q5, True, True)" using pushLocked_room [OF q4(2), of C] assms(1) q4(3) by auto
  obtain tr where "sender_run qid ?s tr (?s\<lparr>se_Queue := q4, se_DataCh := True, se_phase := Popped\<rparr>)"
    using q4(1) unfolding reaches_def by blast
  from run_snoc [OF this push [of "?s\<lparr>se_Queue := q4, se_DataCh := True, se_phase := Popped\<rparr>" C q5 True True]] q5
  have "sender_run qid ?s (tr @ [Pushes C True])
      (?s\<lparr>se_Queue := q5, se_DataCh := True, se_phase := Popped, se_pushing := True\<rparr>)"
    by (simp add: NewSender_def)
  then show ?thesis by (force simp: blocked_def)
qed

section \<open>A sample run\<close>

definition sample_item :: QueueItem where
  "sample_item = \<lparr>qm_message = M_Processed \<lparr>pr_MessageId = Some 9, pr_Signature = None\<rparr>, qm_messageId = Some 9\<rparr>"

definition sample_sender :: Sender where
  "sample_sender = (NewSender 1)\<lparr>se_Queue := fst (pushLocked sample_item (NewQueue 1))\<rparr>"

lemma sample_queue:
  "pushLocked sample_item (NewQueue 1) = (se_Queue sample_sender, True, True)" "Peek (se_Queue sample_sender) = Some sample_item"
  by (simp_all add: sample_sender_def NewSender_def pushLocked_def NewQueue_def Peek_def Let_def)

lemma sample_run:
  "sender_run \<lparr>qi_Recipient = 2, qi_ChannelId = 4\<rparr> (NewSender 1)
     ([Pushes sample_item True, Internal, Internal] @ Sends sample_item False # []) sample_sender"
proof -
  let ?q = "\<lparr>qi_Recipient = 2, qi_ChannelId = 4\<rparr> :: QueueId" and ?s = "sample_sender"
  obtain chain where c: "CheckIfNeedRemove chain ?q 9 = Some False" using still_wanted by blast
  obtain q where s: "?s = (NewSender 1)\<lparr>se_Queue := q\<rparr>" by (simp add: sample_sender_def)
  have "se_Queue ?s = q" by (subst s) simp
  then have q: "pushLocked sample_item (NewQueue 1) = (q, True, True)" "Peek q = Some sample_item"
    using sample_queue by simp_all
  have i: "qm_messageId sample_item = Some 9" by (simp add: sample_item_def)
  have "sender_run ?q (?s\<lparr>se_phase := Peeking OnData\<rparr>) [Sends sample_item False] ?s"
    using sender_run_step [OF peek_send [of "?s\<lparr>se_phase := Peeking OnData\<rparr>" OnData sample_item 9 chain ?q False]] c q(2) i
    by (simp add: s NewSender_def)
  then have "sender_run ?q (?s\<lparr>se_DataCh := True\<rparr>) (Internal # [Sends sample_item False]) ?s"
    by (rule sender_run_Cons [rotated]) (use select_data [of "?s\<lparr>se_DataCh := True\<rparr>" ?q] in \<open>simp add: s NewSender_def\<close>)
  then have "sender_run ?q (?s\<lparr>se_pushing := True\<rparr>) (Internal # Internal # [Sends sample_item False]) ?s"
    by (rule sender_run_Cons [rotated]) (use pushed [of "?s\<lparr>se_pushing := True\<rparr>" ?q] in \<open>simp add: s NewSender_def\<close>)
  then have "sender_run ?q (NewSender 1) (Pushes sample_item True # Internal # Internal # [Sends sample_item False]) ?s"
    by (rule sender_run_Cons [rotated])
       (use push [of "NewSender 1" sample_item q True True ?q] q(1) in \<open>simp add: s NewSender_def\<close>)
  then show ?thesis by simp
qed

theorem sent_in_order_witness:
  "\<exists>rest. accepted [Pushes sample_item True, Internal, Internal] =
       popped [Pushes sample_item True, Internal, Internal] @ sample_item # rest \<and> length (sample_item # rest) \<le> unat (1 :: u32)"
  using sent_in_order [OF sample_run] by blast


end
