(* ===== verification/Pylons_Inbound.thy ===== *)
theory Pylons_Inbound
  imports Pylons_Wire Pylons_Routes
begin

text \<open>
  What a node does with a message it receives: \<open>service/message_handler.go\<close> turns each message into the
  state change it hands to \<open>HandleStateChange\<close>, with \<open>MediatorInit\<close> and \<open>TargetInit\<close> of
  \<open>service/channel.go\<close> for a locked transfer. A nil pointer in the message is a panic, \<open>None\<close>.
\<close>

section \<open>Balance proofs and transfers\<close>

definition BalanceProofFromEnvelope ::
  "env \<Rightarrow> slices \<Rightarrow> EnvelopeMessage \<Rightarrow> byte list \<Rightarrow> BalanceProofSignedState option" where
  "BalanceProofFromEnvelope e beyond message dataToSign =
     do { tmpLocksRoot \<leftarrow> ev_LocksRoot message;
          locksRoot \<leftarrow> slice_to beyond 32 tmpLocksRoot;
          tna \<leftarrow> ev_TokenNetworkAddress message;
          tokenNetworkId \<leftarrow> slice_to beyond 20 tna;
          transferredAmount \<leftarrow> ev_TransferredAmount message;
          lockedAmount \<leftarrow> ev_LockedAmount message;
          channelId \<leftarrow> ev_ChannelId message;
          sg \<leftarrow> ev_Signature message;
          sender \<leftarrow> ConvertAddress beyond (sg_Sender sg);
          chainId \<leftarrow> ev_ChainId message;
          Some \<lparr>bp_Nonce = ev_Nonce message, bp_TransferredAmount = transferredAmount,
                bp_LockedAmount = lockedAmount, bp_LocksRoot = copy_hash locksRoot,
                bp_BalanceHash = HashBalanceData e transferredAmount lockedAmount (copy_hash locksRoot),
                bp_TokenNetworkId = copy_address tokenNetworkId, bp_ChannelId = ucast channelId,
                bp_MessageHash = GetHash e dataToSign, bp_Signature = sg_Signature sg, bp_Sender = sender,
                bp_ChainId = chainId, bp_PublicKey = sg_Publickey sg\<rparr> }"

definition LockedTransferSignedFromMessage ::
  "env \<Rightarrow> slices \<Rightarrow> LockedTransfer \<Rightarrow> LockedTransferSignedState option" where
  "LockedTransferSignedFromMessage e beyond message =
     do { b \<leftarrow> lt_BaseMessage message;
          env \<leftarrow> lb_EnvelopeMessage b;
          packed \<leftarrow> LockedTransfer_Pack message;
          balanceProof \<leftarrow> BalanceProofFromEnvelope e beyond env packed;
          lock \<leftarrow> lb_Lock b;
          secretHash \<leftarrow> hl_SecretHash lock;
          keccakHash \<leftarrow> slice_to beyond 32 secretHash;
          amount \<leftarrow> hl_Amount lock;
          expiration \<leftarrow> hl_Expiration lock;
          tokenAddress \<leftarrow> ConvertAddress beyond (lb_Token b);
          initAddress \<leftarrow> ConvertAddress beyond (lt_Initiator message);
          targetAddress \<leftarrow> ConvertAddress beyond (lt_Target message);
          mediators \<leftarrow> those (map (ConvertAddress beyond) (lt_Mediators message));
          messageId \<leftarrow> lb_MessageId b;
          paymentId \<leftarrow> lb_PaymentId b;
          encSecret \<leftarrow> lt_EncSecret message;
          Some \<lparr>ls_MessageId = messageId, ls_PaymentId = paymentId, ls_Token = tokenAddress,
                ls_BalanceProof = balanceProof,
                ls_Lock = \<lparr>lk_Amount = amount, lk_Expiration = ucast expiration,
                           lk_SecretHash = copy_hash keccakHash, lk_Encoded = [], lk_LockHash = 0\<rparr>,
                ls_Initiator = initAddress, ls_Target = targetAddress, ls_EncSecret = encSecret,
                ls_Mediators = mediators\<rparr> }"

section \<open>Handlers\<close>

definition HandleMessageDirectTransfer :: "env \<Rightarrow> slices \<Rightarrow> DirectTransfer \<Rightarrow> NodeChange option" where
  "HandleMessageDirectTransfer e beyond message =
     do { env \<leftarrow> dt_EnvelopeMessage message;
          tna \<leftarrow> ev_TokenNetworkAddress env;
          tokenNetworkId \<leftarrow> slice_to beyond 20 tna;
          packed \<leftarrow> DirectTransfer_Pack message;
          balanceProof \<leftarrow> BalanceProofFromEnvelope e beyond env packed;
          messageId \<leftarrow> dt_MessageId message;
          paymentId \<leftarrow> dt_PaymentId message;
          Some (ND_Network (NC_Channel (SC_ReceiveTransferDirect
            \<lparr>rtd_Sender = bp_Sender balanceProof, rtd_TokenNetworkId = copy_address tokenNetworkId,
             rtd_MessageId = messageId, rtd_PaymentId = paymentId, rtd_BalanceProof = balanceProof\<rparr>))) }"

definition HandleMessageProcessed :: "slices \<Rightarrow> Processed \<Rightarrow> NodeChange option" where
  "HandleMessageProcessed beyond message =
     do { sg \<leftarrow> pr_Signature message;
          sender \<leftarrow> ConvertAddress beyond (sg_Sender sg);
          messageId \<leftarrow> pr_MessageId message;
          Some (ND_ReceiveProcessed sender messageId) }"

definition HandleMessageDelivered :: "slices \<Rightarrow> Delivered \<Rightarrow> NodeChange option" where
  "HandleMessageDelivered beyond message =
     do { sg \<leftarrow> de_Signature message;
          sender \<leftarrow> ConvertAddress beyond (sg_Sender sg);
          messageId \<leftarrow> de_DeliveredMessageId message;
          Some (ND_ReceiveDelivered sender messageId) }"

definition HandleMessageSecretRequest :: "SecretRequest \<Rightarrow> NodeChange option" where
  "HandleMessageSecretRequest message =
     do { secretHash \<leftarrow> sq_SecretHash message;
          sg \<leftarrow> sq_Signature message;
          sender \<leftarrow> sg_Sender sg;
          paymentId \<leftarrow> sq_PaymentId message;
          amount \<leftarrow> sq_Amount message;
          expiration \<leftarrow> sq_Expiration message;
          messageId \<leftarrow> sq_MessageId message;
          Some (ND_Task (TC_ReceiveSecretRequest
            \<lparr>rsq_PaymentId = paymentId, rsq_Amount = amount, rsq_Expiration = expiration,
             rsq_SecretHash = copy_hash secretHash, rsq_Sender = copy_address sender, rsq_MessageId = messageId\<rparr>)) }"

definition HandleMessageRevealSecret :: "RevealSecret \<Rightarrow> NodeChange option" where
  "HandleMessageRevealSecret message =
     do { sg \<leftarrow> rv_Signature message;
          sender \<leftarrow> sg_Sender sg;
          secret \<leftarrow> rv_Secret message;
          messageId \<leftarrow> rv_MessageId message;
          Some (ND_Task (TC_ReceiveSecretReveal
            \<lparr>rsr_Secret = secret, rsr_Sender = copy_address sender, rsr_MessageId = messageId\<rparr>)) }"

definition HandleMessageSecret :: "env \<Rightarrow> slices \<Rightarrow> BalanceProof \<Rightarrow> NodeChange option" where
  "HandleMessageSecret e beyond message =
     do { env \<leftarrow> ul_EnvelopeMessage message;
          sg \<leftarrow> ev_Signature env;
          sender \<leftarrow> sg_Sender sg;
          secret \<leftarrow> ul_Secret message;
          packed \<leftarrow> BalanceProof_Pack message;
          balanceProof \<leftarrow> BalanceProofFromEnvelope e beyond env packed;
          messageId \<leftarrow> ul_MessageId message;
          Some (ND_Task (TC_ReceiveUnlock
            \<lparr>rul_Sender = copy_address sender, rul_MessageId = messageId, rul_Secret = secret,
             rul_SecretHash = GetHash e secret, rul_BalanceProof = balanceProof\<rparr>)) }"

definition HandleMessageLockExpired :: "env \<Rightarrow> slices \<Rightarrow> LockExpired \<Rightarrow> NodeChange option" where
  "HandleMessageLockExpired e beyond message =
     do { secretHash \<leftarrow> le_SecretHash message;
          env \<leftarrow> le_EnvelopeMessage message;
          packed \<leftarrow> LockExpired_Pack message;
          balanceProof \<leftarrow> BalanceProofFromEnvelope e beyond env packed;
          messageId \<leftarrow> le_MessageId message;
          Some (ND_Task (TC_ReceiveLockExpired
            \<lparr>rle_BalanceProof = balanceProof, rle_SecretHash = copy_hash secretHash, rle_MessageId = messageId\<rparr>)) }"

text \<open>
  The service a handler works for: its address, the routing it calls, the orders of iteration, and the
  bytes that lie beyond the end of a slice. \<open>secretRandom\<close> is what \<open>SecretRandom\<close> returns.
\<close>

record ChannelService =
  sv_address :: Address
  sv_ranges :: ranges
  sv_orderNodes :: "Address list \<Rightarrow> Address list"
  sv_orderEdges :: "(Address \<times> goint) list \<Rightarrow> (Address \<times> goint) list"
  sv_routing :: routing
  sv_slices :: slices
  sv_secretRandom :: Secret

definition ServiceBestRoutes ::
  "env \<Rightarrow> ChannelService \<Rightarrow> ChainState \<Rightarrow> TokenNetworkID \<Rightarrow> Address \<Rightarrow> TokenAmount \<Rightarrow> Address list
     \<Rightarrow> (RouteState list \<times> ChainState) option" where
  "ServiceBestRoutes e srv chain tokenNetworkId target amount badAddrs =
     do { (routes, chain) \<leftarrow> GetBestRoutes e (sv_ranges srv) (sv_orderNodes srv) (sv_orderEdges srv) (sv_routing srv)
            chain tokenNetworkId (sv_address srv) target amount badAddrs;
          Some (case routes of Inl _ \<Rightarrow> [] | Inr routes \<Rightarrow> routes, chain) }"

definition GetTransferRole :: "ChainState \<Rightarrow> SecretHash \<Rightarrow> string" where
  "GetTransferRole chain secrethash =
     (case smap_load (ch_SecretHashesToTask chain) secrethash of
        Some (InitiatorTask _ _) \<Rightarrow> ''initiator''
      | Some (MediatorTask _ _) \<Rightarrow> ''mediator''
      | Some (TargetTask _ _ _) \<Rightarrow> ''target''
      | None \<Rightarrow> [])"

text \<open>Of a refund, the token address is taken for the token network the routes are searched in.\<close>

definition HandleMessageRefundTransfer ::
  "env \<Rightarrow> ChannelService \<Rightarrow> ChainState \<Rightarrow> RefundTransfer \<Rightarrow> (NodeChange \<times> ChainState) option" where
  "HandleMessageRefundTransfer e srv chain message =
     do { refund \<leftarrow> rf_Refund message;
          b \<leftarrow> lt_BaseMessage refund;
          token \<leftarrow> lb_Token b;
          env \<leftarrow> lb_EnvelopeMessage b;
          sg \<leftarrow> ev_Signature env;
          sender \<leftarrow> sg_Sender sg;
          fromTransfer \<leftarrow> LockedTransferSignedFromMessage e (sv_slices srv) refund;
          (routes, chain) \<leftarrow> ServiceBestRoutes e srv chain (copy_address token) (ls_Target fromTransfer)
             (lk_Amount (ls_Lock fromTransfer)) [copy_address sender];
          let role = GetTransferRole chain (lk_SecretHash (ls_Lock fromTransfer));
          Some (if role = ''initiator''
                then ND_Task (TC_ReceiveTransferRefundCancelRoute
                       \<lparr>rrc_Transfer = fromTransfer, rrc_Routes = routes, rrc_SecretHash = 0,
                        rrc_Secret = sv_secretRandom srv\<rparr>)
                else ND_Task (TC_ReceiveTransferRefund
                       \<lparr>rtr_Sender = 0, rtr_BalanceProof = None, rtr_Transfer = fromTransfer,
                        rtr_Routes = routes\<rparr>), chain) }"

definition MediatorInit ::
  "env \<Rightarrow> ChannelService \<Rightarrow> ChainState \<Rightarrow> LockedTransfer \<Rightarrow> (ActionInitMediator \<times> ChainState) option" where
  "MediatorInit e srv chain lockedTransfer =
     do { initiator \<leftarrow> lt_Initiator lockedTransfer;
          let initiatorAddr = copy_address initiator;
          fromTransfer \<leftarrow> LockedTransferSignedFromMessage e (sv_slices srv) lockedTransfer;
          let badAddrs = initiatorAddr # ls_Mediators fromTransfer;
          (routes, chain) \<leftarrow> ServiceBestRoutes e srv chain (bp_TokenNetworkId (ls_BalanceProof fromTransfer))
             (ls_Target fromTransfer) (lk_Amount (ls_Lock fromTransfer)) badAddrs;
          Some (\<lparr>aim_Routes = routes,
                 aim_FromRoute = \<lparr>rt_NodeAddress = initiatorAddr,
                                  rt_ChannelId = bp_ChannelId (ls_BalanceProof fromTransfer)\<rparr>,
                 aim_FromTransfer = fromTransfer\<lparr>ls_Mediators := ls_Mediators fromTransfer @ [sv_address srv]\<rparr>\<rparr>,
                chain) }"

definition TargetInit :: "env \<Rightarrow> ChannelService \<Rightarrow> LockedTransfer \<Rightarrow> ActionInitTarget option" where
  "TargetInit e srv lockedTransfer =
     do { b \<leftarrow> lt_BaseMessage lockedTransfer;
          env \<leftarrow> lb_EnvelopeMessage b;
          sg \<leftarrow> ev_Signature env;
          sender \<leftarrow> sg_Sender sg;
          fromTransfer \<leftarrow> LockedTransferSignedFromMessage e (sv_slices srv) lockedTransfer;
          Some \<lparr>ait_Route = \<lparr>rt_NodeAddress = copy_address sender,
                             rt_ChannelId = bp_ChannelId (ls_BalanceProof fromTransfer)\<rparr>,
                ait_Transfer = fromTransfer\<rparr> }"

definition HandleMessageLockedTransfer ::
  "env \<Rightarrow> ChannelService \<Rightarrow> ChainState \<Rightarrow> LockedTransfer \<Rightarrow> (NodeChange \<times> ChainState) option" where
  "HandleMessageLockedTransfer e srv chain message =
     do { target \<leftarrow> lt_Target message;
          if copy_address target = sv_address srv
          then do { init \<leftarrow> TargetInit e srv message; Some (ND_Task (TC_ActionInitTarget init), chain) }
          else do { (init, chain) \<leftarrow> MediatorInit e srv chain message;
                    Some (ND_Task (TC_ActionInitMediator init), chain) } }"

definition HandleMessageWithdrawRequest :: "slices \<Rightarrow> WithdrawRequest \<Rightarrow> NodeChange option" where
  "HandleMessageWithdrawRequest beyond message =
     do { tokenNetworkId \<leftarrow> ConvertAddress beyond (wq_TokenNetworkAddress message);
          messageId \<leftarrow> wq_MessageId message;
          channelId \<leftarrow> wq_ChannelId message;
          participant \<leftarrow> ConvertAddress beyond (wq_Participant message);
          withdrawAmount \<leftarrow> wq_WithdrawAmount message;
          sg \<leftarrow> wq_ParticipantSignature message;
          sender \<leftarrow> ConvertAddress beyond (sg_Sender sg);
          Some (ND_Network (NC_Channel (SC_ReceiveWithdrawRequest
            \<lparr>rwr_TokenNetworkId = tokenNetworkId, rwr_MessageId = messageId, rwr_ChannelId = ucast channelId,
             rwr_Participant = participant, rwr_TotalWithdraw = withdrawAmount,
             rwr_ParticipantSignature = sg_Signature sg, rwr_ParticipantAddress = sender,
             rwr_ParticipantPublicKey = sg_Publickey sg\<rparr>))) }"

text \<open>A withdrawal is processed only when the channel is known and has asked for one; its message id is not kept.\<close>

definition HandleMessageWithdraw ::
  "env \<Rightarrow> slices \<Rightarrow> ChainState \<Rightarrow> Withdraw \<Rightarrow> NodeChange option option" where
  "HandleMessageWithdraw e beyond chain message =
     do { channelId \<leftarrow> wd_ChannelId message;
          tokenNetworkId \<leftarrow> ConvertAddress beyond (wd_TokenNetworkAddress message);
          (case GetChannelStateByTokenNetworkId e chain tokenNetworkId (ucast channelId) of
             None \<Rightarrow> Some None
           | Some channelState \<Rightarrow>
              (case GetWithdrawTransaction channelState of
                 None \<Rightarrow> Some None
               | Some _ \<Rightarrow>
                   do { participant \<leftarrow> ConvertAddress beyond (wd_Participant message);
                        withdrawAmount \<leftarrow> wd_WithdrawAmount message;
                        sg1 \<leftarrow> wd_ParticipantSignature message;
                        sender1 \<leftarrow> ConvertAddress beyond (sg_Sender sg1);
                        sg2 \<leftarrow> wd_PartnerSignature message;
                        sender2 \<leftarrow> ConvertAddress beyond (sg_Sender sg2);
                        Some (Some (ND_Network (NC_Channel (SC_ReceiveWithdraw
                          \<lparr>rwr_TokenNetworkId = tokenNetworkId, rwr_MessageId = 0, rwr_ChannelId = ucast channelId,
                           rwr_Participant = participant, rwr_TotalWithdraw = withdrawAmount,
                           rwr_ParticipantSignature = sg_Signature sg1, rwr_ParticipantAddress = sender1,
                           rwr_ParticipantPublicKey = sg_Publickey sg1,
                           rw_PartnerSignature = sg_Signature sg2, rw_PartnerAddress = sender2,
                           rw_PartnerPublicKey = sg_Publickey sg2\<rparr>)))) })) }"

definition HandleMessageCooperativeSettleRequest :: "slices \<Rightarrow> CooperativeSettleRequest \<Rightarrow> NodeChange option" where
  "HandleMessageCooperativeSettleRequest beyond message =
     do { tokenNetworkId \<leftarrow> ConvertAddress beyond (cq_TokenNetworkAddress message);
          messageId \<leftarrow> cq_MessageId message;
          channelId \<leftarrow> cq_ChannelId message;
          participant1 \<leftarrow> ConvertAddress beyond (cq_Participant1 message);
          balance1 \<leftarrow> cq_Participant1Balance message;
          participant2 \<leftarrow> ConvertAddress beyond (cq_Participant2 message);
          balance2 \<leftarrow> cq_Participant2Balance message;
          sg \<leftarrow> cq_Participant1Signature message;
          sender \<leftarrow> ConvertAddress beyond (sg_Sender sg);
          Some (ND_Network (NC_Channel (SC_ReceiveCooperativeSettleRequest
            \<lparr>rcr_TokenNetworkId = tokenNetworkId, rcr_MessageId = messageId, rcr_ChannelId = ucast channelId,
             rcr_Participant1 = participant1, rcr_Participant1Balance = balance1,
             rcr_Participant2 = participant2, rcr_Participant2Balance = balance2,
             rcr_Participant1Signature = sg_Signature sg, rcr_Participant1Address = sender,
             rcr_Participant1PublicKey = sg_Publickey sg\<rparr>))) }"

definition HandleMessageCooperativeSettle ::
  "env \<Rightarrow> slices \<Rightarrow> ChainState \<Rightarrow> CooperativeSettle \<Rightarrow> NodeChange option option" where
  "HandleMessageCooperativeSettle e beyond chain message =
     do { channelId \<leftarrow> co_ChannelId message;
          tokenNetworkId \<leftarrow> ConvertAddress beyond (co_TokenNetworkAddress message);
          (case GetChannelStateByTokenNetworkId e chain tokenNetworkId (ucast channelId) of
             None \<Rightarrow> Some None
           | Some _ \<Rightarrow>
               do { messageId \<leftarrow> co_MessageId message;
                    participant1 \<leftarrow> ConvertAddress beyond (co_Participant1 message);
                    balance1 \<leftarrow> co_Participant1Balance message;
                    participant2 \<leftarrow> ConvertAddress beyond (co_Participant2 message);
                    balance2 \<leftarrow> co_Participant2Balance message;
                    sg1 \<leftarrow> co_Participant1Signature message;
                    sender1 \<leftarrow> ConvertAddress beyond (sg_Sender sg1);
                    sg2 \<leftarrow> co_Participant2Signature message;
                    sender2 \<leftarrow> ConvertAddress beyond (sg_Sender sg2);
                    Some (Some (ND_Network (NC_Channel (SC_ReceiveCooperativeSettle
                      \<lparr>rcs_TokenNetworkId = tokenNetworkId, rcs_MessageId = messageId, rcs_ChannelId = ucast channelId,
                       rcs_Participant1 = participant1, rcs_Participant1Balance = balance1,
                       rcs_Participant2 = participant2, rcs_Participant2Balance = balance2,
                       rcs_Participant1Signature = sg_Signature sg1, rcs_Participant1Address = sender1,
                       rcs_Participant1PublicKey = sg_Publickey sg1,
                       rcs_Participant2Signature = sg_Signature sg2, rcs_Participant2Address = sender2,
                       rcs_Participant2PublicKey = sg_Publickey sg2\<rparr>)))) }) }"

text \<open>
  The state change a message becomes, if any, and the chain state, in which a search for routes has
  weighed the edges.
\<close>

definition messageChange ::
  "env \<Rightarrow> ChannelService \<Rightarrow> ChainState \<Rightarrow> WireMessage \<Rightarrow> (NodeChange option \<times> ChainState) option" where
  "messageChange e srv chain message =
     (let one = map_option (\<lambda>sc. (Some sc, chain)); two = map_option (\<lambda>r. (Some (fst r), snd r));
          three = map_option (\<lambda>sc. (sc, chain)); beyond = sv_slices srv
      in case message of
        M_DirectTransfer m \<Rightarrow> one (HandleMessageDirectTransfer e beyond m)
      | M_Delivered m \<Rightarrow> one (HandleMessageDelivered beyond m)
      | M_Processed m \<Rightarrow> one (HandleMessageProcessed beyond m)
      | M_SecretRequest m \<Rightarrow> one (HandleMessageSecretRequest m)
      | M_RevealSecret m \<Rightarrow> one (HandleMessageRevealSecret m)
      | M_BalanceProof m \<Rightarrow> one (HandleMessageSecret e beyond m)
      | M_LockExpired m \<Rightarrow> one (HandleMessageLockExpired e beyond m)
      | M_RefundTransfer m \<Rightarrow> two (HandleMessageRefundTransfer e srv chain m)
      | M_LockedTransfer m \<Rightarrow> two (HandleMessageLockedTransfer e srv chain m)
      | M_WithdrawRequest m \<Rightarrow> one (HandleMessageWithdrawRequest beyond m)
      | M_Withdraw m \<Rightarrow> three (HandleMessageWithdraw e beyond chain m)
      | M_CooperativeSettleRequest m \<Rightarrow> one (HandleMessageCooperativeSettleRequest beyond m)
      | M_CooperativeSettle m \<Rightarrow> three (HandleMessageCooperativeSettle e beyond chain m))"

end
