(* ===== verification/Pylons_Delivery.thy ===== *)
theory Pylons_Delivery
  imports Pylons_Inbound Pylons_Payment
begin

text \<open>
  From the event at the sender to the state change at the receiver: the event becomes a message, the
  message is signed, the receiver's handler reads it. \<open>delivers\<close> says what must arrive; the lemmas show
  that it does, and that the receiver of a balance proof gets one the sender has signed.
\<close>

section \<open>The contract\<close>

text \<open>What \<open>sig.Sign\<close> promises: the signatures it makes are accepted for the account.\<close>

definition account_ok :: "env \<Rightarrow> Account \<Rightarrow> bool" where
  "account_ok e account \<longleftrightarrow>
     (\<forall>d sg. ac_Sign account d = Inr sg \<longrightarrow> signed_by e (ac_Address account) d (ac_PublicKey account) sg)"

text \<open>
  \<open>delivers e self a ev sc\<close>: the state change \<open>sc\<close> tells the node \<open>self\<close> what the event \<open>ev\<close> of the node
  \<open>a\<close> said. Balance proofs, withdrawals and settlements come with a signature of \<open>a\<close>. A locked transfer
  starts the target, or a mediator that has found some routes.
\<close>

definition delivers :: "env \<Rightarrow> Address \<Rightarrow> Address \<Rightarrow> Event \<Rightarrow> NodeChange \<Rightarrow> bool" where
  "delivers e self a ev sc \<longleftrightarrow>
     (case ev of
        SendProcessed msg \<Rightarrow> sc = ND_ReceiveProcessed a (sm_MessageId msg)
      | SendDirectTransfer msg paymentId u _ \<Rightarrow>
          (\<exists>bp. signs e a u bp \<and> sc = ND_Network (NC_Channel (SC_ReceiveTransferDirect
             \<lparr>rtd_Sender = a, rtd_TokenNetworkId = bu_TokenNetworkId u, rtd_MessageId = sm_MessageId msg,
              rtd_PaymentId = paymentId, rtd_BalanceProof = bp\<rparr>)))
      | SendLockedTransfer msg ut \<Rightarrow>
          (\<exists>bp. signs e a (lu_BalanceProof ut) bp
             \<and> (if lu_Target ut = self
                then sc = ND_Task (TC_ActionInitTarget
                  \<lparr>ait_Route = \<lparr>rt_NodeAddress = a, rt_ChannelId = bu_ChannelId (lu_BalanceProof ut)\<rparr>,
                   ait_Transfer = received_transfer (\<lambda>_. bp) msg ut\<rparr>)
                else \<exists>routes. sc = ND_Task (TC_ActionInitMediator
                  \<lparr>aim_Routes = routes,
                   aim_FromRoute = \<lparr>rt_NodeAddress = lu_Initiator ut, rt_ChannelId = bu_ChannelId (lu_BalanceProof ut)\<rparr>,
                   aim_FromTransfer = (received_transfer (\<lambda>_. bp) msg ut)\<lparr>ls_Mediators := lu_Mediators ut @ [self]\<rparr>\<rparr>)))
      | SendRefundTransfer msg ut \<Rightarrow>
          (\<exists>bp routes. signs e a (lu_BalanceProof ut) bp
             \<and> (sc = ND_Task (TC_ReceiveTransferRefund
                  \<lparr>rtr_Sender = 0, rtr_BalanceProof = None, rtr_Transfer = received_transfer (\<lambda>_. bp) msg ut,
                   rtr_Routes = routes\<rparr>)
              \<or> (\<exists>s. sc = ND_Task (TC_ReceiveTransferRefundCancelRoute
                  \<lparr>rrc_Transfer = received_transfer (\<lambda>_. bp) msg ut, rrc_Routes = routes, rrc_SecretHash = 0,
                   rrc_Secret = s\<rparr>))))
      | SendSecretRequest msg paymentId amount expiration secretHash \<Rightarrow>
          sc = ND_Task (TC_ReceiveSecretRequest
            \<lparr>rsq_PaymentId = paymentId, rsq_Amount = amount, rsq_Expiration = expiration,
             rsq_SecretHash = secretHash, rsq_Sender = a, rsq_MessageId = sm_MessageId msg\<rparr>)
      | SendSecretReveal msg secret _ \<Rightarrow>
          sc = ND_Task (TC_ReceiveSecretReveal \<lparr>rsr_Secret = secret, rsr_Sender = a, rsr_MessageId = sm_MessageId msg\<rparr>)
      | SendBalanceProof msg _ _ secret _ u \<Rightarrow>
          (\<exists>bp. signs e a u bp \<and> sc = ND_Task (TC_ReceiveUnlock
             \<lparr>rul_Sender = a, rul_MessageId = sm_MessageId msg, rul_Secret = secret,
              rul_SecretHash = GetHash e secret, rul_BalanceProof = bp\<rparr>))
      | SendLockExpired msg u secretHash \<Rightarrow>
          (\<exists>bp. signs e a u bp \<and> sc = ND_Task (TC_ReceiveLockExpired
             \<lparr>rle_BalanceProof = bp, rle_SecretHash = secretHash, rle_MessageId = sm_MessageId msg\<rparr>))
      | SendWithdrawRequest msg participant tokenNetworkId amount \<Rightarrow>
          (\<exists>pk sg. signed_by e a (PackWithdraw e (sm_ChannelId msg) participant amount) pk sg
             \<and> sc = ND_Network (NC_Channel (SC_ReceiveWithdrawRequest
               \<lparr>rwr_TokenNetworkId = tokenNetworkId, rwr_MessageId = sm_MessageId msg, rwr_ChannelId = sm_ChannelId msg,
                rwr_Participant = participant, rwr_TotalWithdraw = amount, rwr_ParticipantSignature = sg,
                rwr_ParticipantAddress = a, rwr_ParticipantPublicKey = pk\<rparr>)))
      | SendWithdraw msg participant tokenNetworkId amount sg1 a1 pk1 \<Rightarrow>
          (\<exists>pk sg. signed_by e a (PackWithdraw e (sm_ChannelId msg) participant amount) pk sg
             \<and> sc = ND_Network (NC_Channel (SC_ReceiveWithdraw
               \<lparr>rwr_TokenNetworkId = tokenNetworkId, rwr_MessageId = 0, rwr_ChannelId = sm_ChannelId msg,
                rwr_Participant = participant, rwr_TotalWithdraw = amount, rwr_ParticipantSignature = sg1,
                rwr_ParticipantAddress = a1, rwr_ParticipantPublicKey = pk1, rw_PartnerSignature = sg,
                rw_PartnerAddress = a, rw_PartnerPublicKey = pk\<rparr>)))
      | SendCooperativeSettleRequest msg tokenNetworkId p1 b1 p2 b2 \<Rightarrow>
          (\<exists>pk sg. signed_by e a (PackCooperativeSettle e (sm_ChannelId msg) p1 b1 p2 b2) pk sg
             \<and> sc = ND_Network (NC_Channel (SC_ReceiveCooperativeSettleRequest
               \<lparr>rcr_TokenNetworkId = tokenNetworkId, rcr_MessageId = sm_MessageId msg, rcr_ChannelId = sm_ChannelId msg,
                rcr_Participant1 = p1, rcr_Participant1Balance = b1, rcr_Participant2 = p2, rcr_Participant2Balance = b2,
                rcr_Participant1Signature = sg, rcr_Participant1Address = a, rcr_Participant1PublicKey = pk\<rparr>)))
      | SendCooperativeSettle msg tokenNetworkId p1 b1 p2 b2 sg1 a1 pk1 \<Rightarrow>
          (\<exists>pk sg. signed_by e a (PackCooperativeSettle e (sm_ChannelId msg) p1 b1 p2 b2) pk sg
             \<and> sc = ND_Network (NC_Channel (SC_ReceiveCooperativeSettle
               \<lparr>rcs_TokenNetworkId = tokenNetworkId, rcs_MessageId = sm_MessageId msg, rcs_ChannelId = sm_ChannelId msg,
                rcs_Participant1 = p1, rcs_Participant1Balance = b1, rcs_Participant2 = p2, rcs_Participant2Balance = b2,
                rcs_Participant1Signature = sg1, rcs_Participant1Address = a1, rcs_Participant1PublicKey = pk1,
                rcs_Participant2Signature = sg, rcs_Participant2Address = a, rcs_Participant2PublicKey = pk\<rparr>)))
      | _ \<Rightarrow> False)"

text \<open>
  The receiver knows the channel of a withdrawal and has asked for it, and knows the channel of a settlement;
  other messages it takes in any state.
\<close>

definition awaits :: "env \<Rightarrow> ChainState \<Rightarrow> Event \<Rightarrow> bool" where
  "awaits e chain ev \<longleftrightarrow>
     (case ev of
        SendWithdraw msg _ tokenNetworkId _ _ _ _ \<Rightarrow>
          (case GetChannelStateByTokenNetworkId e chain tokenNetworkId (sm_ChannelId msg) of
             None \<Rightarrow> False | Some cs \<Rightarrow> GetWithdrawTransaction cs \<noteq> None)
      | SendCooperativeSettle msg tokenNetworkId _ _ _ _ _ _ _ \<Rightarrow>
          GetChannelStateByTokenNetworkId e chain tokenNetworkId (sm_ChannelId msg) \<noteq> None
      | _ \<Rightarrow> True)"

section \<open>Envelopes\<close>

lemma u32_u64_u32 [simp]: "ucast (ucast (c :: u32) :: u64) = c"
  by (rule bit_word_eqI) (simp add: bit_simps)

definition received_proof ::
  "env \<Rightarrow> Account \<Rightarrow> byte list \<Rightarrow> Signature \<Rightarrow> BalanceProofUnsignedState \<Rightarrow> BalanceProofSignedState" where
  "received_proof e account packed sg u =
     \<lparr>bp_Nonce = bu_Nonce u, bp_TransferredAmount = bu_TransferredAmount u, bp_LockedAmount = bu_LockedAmount u,
      bp_LocksRoot = bu_LocksRoot u,
      bp_BalanceHash = HashBalanceData e (bu_TransferredAmount u) (bu_LockedAmount u) (bu_LocksRoot u),
      bp_TokenNetworkId = bu_TokenNetworkId u, bp_ChannelId = bu_ChannelId u, bp_MessageHash = GetHash e packed,
      bp_Signature = sg, bp_Sender = ac_Address account, bp_ChainId = bu_ChainId u,
      bp_PublicKey = ac_PublicKey account\<rparr>"

abbreviation sealed :: "Account \<Rightarrow> Signature \<Rightarrow> BalanceProofUnsignedState \<Rightarrow> EnvelopeMessage" where
  "sealed account sg u \<equiv> (envelopeOf u)\<lparr>ev_Signature := Some \<lparr>sg_Signature = sg,
     sg_Sender = Some (addr_bytes (ac_Address account)), sg_Publickey = ac_PublicKey account\<rparr>\<rparr>"

lemma EnvelopeMessage_DataToSign_of:
  "EnvelopeMessage_DataToSign e beyond (envelopeOf u) (b # bs) =
     Some (PackBalanceProof e (bu_Nonce u) (HashBalanceData e (bu_TransferredAmount u) (bu_LockedAmount u) (bu_LocksRoot u))
       (hash_bytes (GetHash e (b # bs))) (bu_ChannelId u) (bu_TokenNetworkId u) (bu_ChainId u) 1)"
  by (simp add: EnvelopeMessage_DataToSign_def envelopeOf_def MessageHash_def GetHash_def)

lemma BalanceProofFromEnvelope_sealed:
  "BalanceProofFromEnvelope e beyond (sealed account sg u) packed = Some (received_proof e account packed sg u)"
  by (simp add: BalanceProofFromEnvelope_def envelopeOf_def received_proof_def)

lemma received_proof_signs:
  assumes "account_ok e account" and "packed \<noteq> []"
    and "EnvelopeMessage_DataToSign e beyond (envelopeOf u) packed = Some d" and "ac_Sign account d = Inr sg"
  shows "signs e (ac_Address account) u (received_proof e account packed sg u)"
proof -
  obtain b bs where p: "packed = b # bs" using assms(2) by (cases packed) auto
  have "d = PackBalanceProof e (bu_Nonce u)
      (HashBalanceData e (bu_TransferredAmount u) (bu_LockedAmount u) (bu_LocksRoot u))
      (hash_bytes (GetHash e packed)) (bu_ChannelId u) (bu_TokenNetworkId u) (bu_ChainId u) 1"
    using assms(3) by (simp add: p EnvelopeMessage_DataToSign_of)
  with assms(1,4) show ?thesis
    by (simp add: account_ok_def signs_def bp_signed_def received_proof_def)
qed

lemma Uint64ToBytes_not_Nil [simp]: "Uint64ToBytes n \<noteq> []"
  using length_Uint64ToBytes [of n] by (metis length_0_conv zero_neq_numeral)

section \<open>Packed messages\<close>

text \<open>The signature is not packed, so both sides pack the same bytes.\<close>

lemma DirectTransfer_Pack_sealed:
  "\<exists>packed. packed \<noteq> [] \<and> DirectTransfer_Pack (DirectTransferFromEvent msg p u tk) = Some packed
     \<and> (\<forall>sg. DirectTransfer_Pack ((DirectTransferFromEvent msg p u tk)\<lparr>dt_EnvelopeMessage := Some (sealed account sg u)\<rparr>) = Some packed)"
  by (simp add: DirectTransfer_Pack_def DirectTransferFromEvent_def envelopeOf_def)

lemma BalanceProof_Pack_sealed:
  "\<exists>packed. packed \<noteq> [] \<and> BalanceProof_Pack (UnlockFromEvent msg p s u) = Some packed
     \<and> (\<forall>sg. BalanceProof_Pack ((UnlockFromEvent msg p s u)\<lparr>ul_EnvelopeMessage := Some (sealed account sg u)\<rparr>) = Some packed)"
  by (simp add: BalanceProof_Pack_def UnlockFromEvent_def envelopeOf_def)

lemma LockExpired_Pack_sealed:
  "\<exists>packed. packed \<noteq> [] \<and> LockExpired_Pack (LockExpiredFromEvent msg u h) = Some packed
     \<and> (\<forall>sg. LockExpired_Pack ((LockExpiredFromEvent msg u h)\<lparr>le_EnvelopeMessage := Some (sealed account sg u)\<rparr>) = Some packed)"
  by (simp add: LockExpired_Pack_def LockExpiredFromEvent_def envelopeOf_def)

definition sealedTransfer :: "Account \<Rightarrow> Signature \<Rightarrow> SendMessageEvent \<Rightarrow> LockedTransferUnsignedState \<Rightarrow> LockedTransfer" where
  "sealedTransfer account sg msg ut = (LockedTransferFromEvent msg ut)\<lparr>lt_BaseMessage :=
     map_option (\<lambda>b. b\<lparr>lb_EnvelopeMessage := Some (sealed account sg (lu_BalanceProof ut))\<rparr>)
       (lt_BaseMessage (LockedTransferFromEvent msg ut))\<rparr>"

lemma LockedTransfer_Pack_sealed:
  "\<exists>packed. packed \<noteq> [] \<and> LockedTransfer_Pack (LockedTransferFromEvent msg ut) = Some packed
     \<and> (\<forall>sg. LockedTransfer_Pack (sealedTransfer account sg msg ut) = Some packed)"
  by (simp add: sealedTransfer_def LockedTransfer_Pack_def LockedTransferFromEvent_def Let_def envelopeOf_def)

lemma those_Some [simp]: "those (map (\<lambda>x. Some (f x)) xs) = Some (map f xs)"
  by (induction xs) simp_all

text \<open>What the receiver reads of a locked transfer.\<close>

lemma LockedTransferSignedFromMessage_sealed:
  assumes "LockedTransfer_Pack (sealedTransfer account sg msg ut) = Some packed" and "lk_Encoded (lu_Lock ut) = []"
  shows "LockedTransferSignedFromMessage e beyond (sealedTransfer account sg msg ut) =
    Some (received_transfer (received_proof e account packed sg) msg ut)"
proof -
  have "(lu_Lock ut)\<lparr>lk_LockHash := 0\<rparr> = \<lparr>lk_Amount = lk_Amount (lu_Lock ut), lk_Expiration = lk_Expiration (lu_Lock ut),
      lk_SecretHash = lk_SecretHash (lu_Lock ut), lk_Encoded = [], lk_LockHash = 0\<rparr>"
    using assms(2) by (cases "lu_Lock ut") simp
  with assms(1) show ?thesis
    by (simp add: sealedTransfer_def LockedTransferSignedFromMessage_def LockedTransferFromEvent_def Let_def
        BalanceProofFromEnvelope_sealed received_transfer_def comp_def)
qed

section \<open>Signing\<close>

lemma Sign_signed:
  assumes "Sign e beyond account m = Some (Inr m')"
  shows "\<exists>d sg. DataToSign e beyond m = Some d \<and> ac_Sign account d = Inr sg
    \<and> setSignature \<lparr>sg_Signature = sg, sg_Sender = Some (addr_bytes (ac_Address account)),
           sg_Publickey = ac_PublicKey account\<rparr> m = Some m'"
  using assms by (auto simp: Sign_def split: bind_splits sum.splits)

section \<open>Delivery\<close>

text \<open>The messages that carry a balance proof.\<close>

lemma delivers_direct:
  assumes "account_ok e account"
    and "Sign e beyond account (M_DirectTransfer (DirectTransferFromEvent msg p u tk)) = Some (Inr m)"
  shows "\<exists>bp. signs e (ac_Address account) u bp
     \<and> messageChange e srv chain m = Some (Some (ND_Network (NC_Channel (SC_ReceiveTransferDirect
         \<lparr>rtd_Sender = ac_Address account, rtd_TokenNetworkId = bu_TokenNetworkId u, rtd_MessageId = sm_MessageId msg,
          rtd_PaymentId = p, rtd_BalanceProof = bp\<rparr>))), chain)"
proof -
  let ?d = "DirectTransferFromEvent msg p u tk"
  obtain packed where p: "packed \<noteq> []" "DirectTransfer_Pack ?d = Some packed"
    "\<And>sg. DirectTransfer_Pack (?d\<lparr>dt_EnvelopeMessage := Some (sealed account sg u)\<rparr>) = Some packed"
    using DirectTransfer_Pack_sealed [of msg "p" u tk account] by blast
  obtain d sg where d: "DataToSign e beyond (M_DirectTransfer ?d) = Some d" "ac_Sign account d = Inr sg"
    and m: "m = M_DirectTransfer (?d\<lparr>dt_EnvelopeMessage := Some (sealed account sg u)\<rparr>)"
    using Sign_signed [OF assms(2)] by (auto simp: setSignature_def DirectTransferFromEvent_def)
  have "EnvelopeMessage_DataToSign e beyond (envelopeOf u) packed = Some d"
    using d(1) p(2) by (simp add: DataToSign_def DirectTransfer_DataToSign_def) (simp add: DirectTransferFromEvent_def)
  note sg = received_proof_signs [OF assms(1) p(1) this d(2)]
  show ?thesis
    using sg p(3) [of sg]
    by (auto simp: m messageChange_def HandleMessageDirectTransfer_def BalanceProofFromEnvelope_sealed Let_def
        received_proof_def) (auto simp: DirectTransferFromEvent_def envelopeOf_def)
qed

lemma delivers_unlock:
  assumes "account_ok e account"
    and "Sign e beyond account (M_BalanceProof (UnlockFromEvent msg p s u)) = Some (Inr m)"
  shows "\<exists>bp. signs e (ac_Address account) u bp
     \<and> messageChange e srv chain m = Some (Some (ND_Task (TC_ReceiveUnlock
         \<lparr>rul_Sender = ac_Address account, rul_MessageId = sm_MessageId msg, rul_Secret = s,
          rul_SecretHash = GetHash e s, rul_BalanceProof = bp\<rparr>)), chain)"
proof -
  let ?d = "UnlockFromEvent msg p s u"
  obtain packed where p: "packed \<noteq> []" "BalanceProof_Pack ?d = Some packed"
    "\<And>sg. BalanceProof_Pack (?d\<lparr>ul_EnvelopeMessage := Some (sealed account sg u)\<rparr>) = Some packed"
    using BalanceProof_Pack_sealed [of msg "p" s u account] by blast
  obtain d sg where d: "DataToSign e beyond (M_BalanceProof ?d) = Some d" "ac_Sign account d = Inr sg"
    and m: "m = M_BalanceProof (?d\<lparr>ul_EnvelopeMessage := Some (sealed account sg u)\<rparr>)"
    using Sign_signed [OF assms(2)] by (auto simp: setSignature_def UnlockFromEvent_def)
  have "EnvelopeMessage_DataToSign e beyond (envelopeOf u) packed = Some d"
    using d(1) p(2) by (simp add: DataToSign_def BalanceProof_DataToSign_def) (simp add: UnlockFromEvent_def)
  note sg = received_proof_signs [OF assms(1) p(1) this d(2)]
  show ?thesis
    using sg p(3) [of sg]
    by (auto simp: m messageChange_def HandleMessageSecret_def BalanceProofFromEnvelope_sealed Let_def)
      (auto simp: UnlockFromEvent_def envelopeOf_def)
qed

lemma delivers_expired:
  assumes "account_ok e account"
    and "Sign e beyond account (M_LockExpired (LockExpiredFromEvent msg u h)) = Some (Inr m)"
  shows "\<exists>bp. signs e (ac_Address account) u bp
     \<and> messageChange e srv chain m = Some (Some (ND_Task (TC_ReceiveLockExpired
         \<lparr>rle_BalanceProof = bp, rle_SecretHash = h, rle_MessageId = sm_MessageId msg\<rparr>)), chain)"
proof -
  let ?d = "LockExpiredFromEvent msg u h"
  obtain packed where p: "packed \<noteq> []" "LockExpired_Pack ?d = Some packed"
    "\<And>sg. LockExpired_Pack (?d\<lparr>le_EnvelopeMessage := Some (sealed account sg u)\<rparr>) = Some packed"
    using LockExpired_Pack_sealed [of msg u h account] by blast
  obtain d sg where d: "DataToSign e beyond (M_LockExpired ?d) = Some d" "ac_Sign account d = Inr sg"
    and m: "m = M_LockExpired (?d\<lparr>le_EnvelopeMessage := Some (sealed account sg u)\<rparr>)"
    using Sign_signed [OF assms(2)] by (auto simp: setSignature_def LockExpiredFromEvent_def)
  have "EnvelopeMessage_DataToSign e beyond (envelopeOf u) packed = Some d"
    using d(1) p(2) by (simp add: DataToSign_def LockExpired_DataToSign_def) (simp add: LockExpiredFromEvent_def)
  note sg = received_proof_signs [OF assms(1) p(1) this d(2)]
  show ?thesis
    using sg p(3) [of sg]
    by (auto simp: m messageChange_def HandleMessageLockExpired_def BalanceProofFromEnvelope_sealed Let_def)
      (auto simp: LockExpiredFromEvent_def envelopeOf_def)
qed

text \<open>A locked transfer is the body of two messages.\<close>

lemma sealedTransfer_signed:
  assumes "account_ok e account" and "lk_Encoded (lu_Lock ut) = []"
    and "LockedTransfer_DataToSign e beyond (LockedTransferFromEvent msg ut) = Some d" and "ac_Sign account d = Inr sg"
  shows "\<exists>bp. signs e (ac_Address account) (lu_BalanceProof ut) bp
     \<and> (\<forall>b. LockedTransferSignedFromMessage e b (sealedTransfer account sg msg ut) = Some (received_transfer (\<lambda>_. bp) msg ut))"
proof -
  obtain packed where p: "packed \<noteq> []" "LockedTransfer_Pack (LockedTransferFromEvent msg ut) = Some packed"
    "\<And>sg. LockedTransfer_Pack (sealedTransfer account sg msg ut) = Some packed"
    using LockedTransfer_Pack_sealed [of msg ut account] by blast
  have "EnvelopeMessage_DataToSign e beyond (envelopeOf (lu_BalanceProof ut)) packed = Some d"
    using assms(3) p(2) by (simp add: LockedTransfer_DataToSign_def) (simp add: LockedTransferFromEvent_def Let_def)
  note sg = received_proof_signs [OF assms(1) p(1) this assms(4)]
  have "received_transfer (received_proof e account packed sg) msg ut
      = received_transfer (\<lambda>_. received_proof e account packed sg (lu_BalanceProof ut)) msg ut"
    by (simp add: received_transfer_def)
  with sg LockedTransferSignedFromMessage_sealed [OF p(3) assms(2)] show ?thesis by auto
qed

lemma sealedTransfer_fields [simp]:
  "lt_Initiator (sealedTransfer account sg msg ut) = Some (addr_bytes (lu_Initiator ut))"
  "lt_Target (sealedTransfer account sg msg ut) = Some (addr_bytes (lu_Target ut))"
  "\<exists>b. lt_BaseMessage (sealedTransfer account sg msg ut) = Some b
     \<and> lb_EnvelopeMessage b = Some (sealed account sg (lu_BalanceProof ut)) \<and> lb_Token b = Some (addr_bytes (lu_Token ut))"
  by (simp_all add: sealedTransfer_def LockedTransferFromEvent_def Let_def)

lemma delivers_locked:
  assumes "account_ok e account" and "lk_Encoded (lu_Lock ut) = []"
    and "Sign e beyond account (M_LockedTransfer (LockedTransferFromEvent msg ut)) = Some (Inr m)"
    and "\<And>tn t x bad. ServiceBestRoutes e srv chain tn t x bad \<noteq> None"
  shows "\<exists>sc chain'. messageChange e srv chain m = Some (Some sc, chain')
     \<and> delivers e (sv_address srv) (ac_Address account) (SendLockedTransfer msg ut) sc"
proof -
  obtain d sg where d: "LockedTransfer_DataToSign e beyond (LockedTransferFromEvent msg ut) = Some d" "ac_Sign account d = Inr sg"
    and m: "m = M_LockedTransfer (sealedTransfer account sg msg ut)"
    using Sign_signed [OF assms(3)]
    by (auto simp: setSignature_def DataToSign_def) (auto simp: sealedTransfer_def LockedTransferFromEvent_def Let_def)
  obtain bp where bp: "signs e (ac_Address account) (lu_BalanceProof ut) bp"
    and tr: "\<And>b. LockedTransferSignedFromMessage e b (sealedTransfer account sg msg ut) = Some (received_transfer (\<lambda>_. bp) msg ut)"
    using sealedTransfer_signed [OF assms(1,2) d] by blast
  have ch: "bp_ChannelId bp = bu_ChannelId (lu_BalanceProof ut)" using bp by (simp add: signs_def)
  obtain b where b: "lt_BaseMessage (sealedTransfer account sg msg ut) = Some b"
    "lb_EnvelopeMessage b = Some (sealed account sg (lu_BalanceProof ut))"
    using sealedTransfer_fields(3) by blast
  show ?thesis
  proof (cases "lu_Target ut = sv_address srv")
    case True
    with bp tr b ch show ?thesis
      by (auto simp: m messageChange_def HandleMessageLockedTransfer_def TargetInit_def delivers_def Let_def)
  next
    case False
    let ?tr = "received_transfer (\<lambda>_. bp) msg ut"
    obtain routes chain' where r: "ServiceBestRoutes e srv chain (bp_TokenNetworkId (ls_BalanceProof ?tr)) (ls_Target ?tr)
        (lk_Amount (ls_Lock ?tr)) (lu_Initiator ut # ls_Mediators ?tr) = Some (routes, chain')"
      using assms(4) by fastforce
    have md: "ls_Mediators ?tr = lu_Mediators ut" by (simp add: received_transfer_def)
    from False bp tr r ch md show ?thesis
      by (auto simp: m messageChange_def HandleMessageLockedTransfer_def MediatorInit_def delivers_def Let_def)
  qed
qed

lemma delivers_refund:
  assumes "account_ok e account" and "lk_Encoded (lu_Lock ut) = []"
    and "Sign e beyond account (M_RefundTransfer (RefundTransferFromEvent msg ut)) = Some (Inr m)"
    and "\<And>tn t x bad. ServiceBestRoutes e srv chain tn t x bad \<noteq> None"
  shows "\<exists>sc chain'. messageChange e srv chain m = Some (Some sc, chain')
     \<and> delivers e (sv_address srv) (ac_Address account) (SendRefundTransfer msg ut) sc"
proof -
  have same: "RefundTransfer_DataToSign e beyond (RefundTransferFromEvent msg ut) =
      LockedTransfer_DataToSign e beyond (LockedTransferFromEvent msg ut)"
    by (simp add: RefundTransfer_DataToSign_def RefundTransferFromEvent_def RefundTransfer_Pack_def
        LockedTransfer_DataToSign_def)
  obtain d sg where d: "LockedTransfer_DataToSign e beyond (LockedTransferFromEvent msg ut) = Some d" "ac_Sign account d = Inr sg"
    and m: "m = M_RefundTransfer \<lparr>rf_Refund = Some (sealedTransfer account sg msg ut)\<rparr>"
    using Sign_signed [OF assms(3)] same
    by (auto simp: setSignature_def DataToSign_def)
      (auto simp: RefundTransferFromEvent_def sealedTransfer_def LockedTransferFromEvent_def Let_def)
  obtain bp where bp: "signs e (ac_Address account) (lu_BalanceProof ut) bp"
    and tr: "\<And>b. LockedTransferSignedFromMessage e b (sealedTransfer account sg msg ut) = Some (received_transfer (\<lambda>_. bp) msg ut)"
    using sealedTransfer_signed [OF assms(1,2) d] by blast
  obtain b where b: "lt_BaseMessage (sealedTransfer account sg msg ut) = Some b"
    "lb_EnvelopeMessage b = Some (sealed account sg (lu_BalanceProof ut))" "lb_Token b = Some (addr_bytes (lu_Token ut))"
    using sealedTransfer_fields(3) by blast
  let ?tr = "received_transfer (\<lambda>_. bp) msg ut"
  obtain routes chain' where r: "ServiceBestRoutes e srv chain (lu_Token ut) (ls_Target ?tr)
      (lk_Amount (ls_Lock ?tr)) [ac_Address account] = Some (routes, chain')"
    using assms(4) by fastforce
  from bp tr r b show ?thesis
    by (auto simp: m messageChange_def HandleMessageRefundTransfer_def delivers_def Let_def)
qed

text \<open>The messages without a balance proof.\<close>

definition carries_proof :: "Event \<Rightarrow> bool" where
  "carries_proof ev \<longleftrightarrow>
     (case ev of SendDirectTransfer _ _ _ _ \<Rightarrow> True | SendLockedTransfer _ _ \<Rightarrow> True | SendRefundTransfer _ _ \<Rightarrow> True
      | SendBalanceProof _ _ _ _ _ _ \<Rightarrow> True | SendLockExpired _ _ _ \<Rightarrow> True | _ \<Rightarrow> False)"

lemma delivers_plain:
  assumes "account_ok e account" and "MessageFromSendEvent ev = Some (Some w)"
    and "Sign e beyond account w = Some (Inr m)" and "awaits e chain ev" and "\<not> carries_proof ev"
  shows "\<exists>sc chain'. messageChange e srv chain m = Some (Some sc, chain') \<and> delivers e self (ac_Address account) ev sc"
proof -
  obtain d sg where d: "DataToSign e beyond w = Some d" "ac_Sign account d = Inr sg"
    and m: "setSignature \<lparr>sg_Signature = sg, sg_Sender = Some (addr_bytes (ac_Address account)),
           sg_Publickey = ac_PublicKey account\<rparr> w = Some m"
    using Sign_signed [OF assms(3)] by blast
  have sg: "signed_by e (ac_Address account) d (ac_PublicKey account) sg"
    using assms(1) d(2) by (simp add: account_ok_def)
  show ?thesis
    using assms(2,4,5) d(1) m sg
    by (cases ev)
      (auto simp: MessageFromSendEvent_def awaits_def carries_proof_def setSignature_def messageChange_def delivers_def
        Let_def DataToSign_def ProcessedFromEvent_def HandleMessageProcessed_def
        WithdrawRequestFromEvent_def HandleMessageWithdrawRequest_def WithdrawRequest_DataToSign_def
        WithdrawFromEvent_def HandleMessageWithdraw_def Withdraw_DataToSign_def
        CooperativeSettleRequestFromEvent_def HandleMessageCooperativeSettleRequest_def
        CooperativeSettleRequest_DataToSign_def
        CooperativeSettleFromEvent_def HandleMessageCooperativeSettle_def CooperativeSettle_DataToSign_def
        SecretRequestFromEvent_def HandleMessageSecretRequest_def
        RevealSecretFromEvent_def HandleMessageRevealSecret_def split: option.splits)
qed

text \<open>The code never fills the \<open>Encoded\<close> bytes of a lock.\<close>

definition plain_lock :: "Event \<Rightarrow> bool" where
  "plain_lock ev \<longleftrightarrow>
     (case ev of SendLockedTransfer _ ut \<Rightarrow> lk_Encoded (lu_Lock ut) = []
      | SendRefundTransfer _ ut \<Rightarrow> lk_Encoded (lu_Lock ut) = [] | _ \<Rightarrow> True)"

lemma delivery:
  assumes "account_ok e account" and "MessageFromSendEvent ev = Some (Some w)"
    and "Sign e beyond account w = Some (Inr m)" and "awaits e chain ev" and "plain_lock ev"
    and "\<And>tn t x bad. ServiceBestRoutes e srv chain tn t x bad \<noteq> None"
  shows "\<exists>sc chain'. messageChange e srv chain m = Some (Some sc, chain')
     \<and> delivers e (sv_address srv) (ac_Address account) ev sc"
proof (cases "carries_proof ev")
  case False
  then show ?thesis using delivers_plain [OF assms(1-4)] by blast
next
  case True
  then show ?thesis
  proof (cases ev)
    case (SendDirectTransfer msg p u tk)
    then have "w = M_DirectTransfer (DirectTransferFromEvent msg p u tk)" using assms(2) by (simp add: MessageFromSendEvent_def)
    with delivers_direct [OF assms(1), of beyond msg "p" u tk m srv chain] assms(3) SendDirectTransfer
    show ?thesis by (auto simp: delivers_def)
  next
    case (SendBalanceProof msg p tk s h u)
    then have "w = M_BalanceProof (UnlockFromEvent msg p s u)" using assms(2) by (simp add: MessageFromSendEvent_def)
    with delivers_unlock [OF assms(1), of beyond msg "p" s u m srv chain] assms(3) SendBalanceProof
    show ?thesis by (auto simp: delivers_def)
  next
    case (SendLockExpired msg u h)
    then have "w = M_LockExpired (LockExpiredFromEvent msg u h)" using assms(2) by (simp add: MessageFromSendEvent_def)
    with delivers_expired [OF assms(1), of beyond msg u h m srv chain] assms(3) SendLockExpired
    show ?thesis by (auto simp: delivers_def)
  next
    case (SendLockedTransfer msg ut)
    then have "w = M_LockedTransfer (LockedTransferFromEvent msg ut)" using assms(2) by (simp add: MessageFromSendEvent_def)
    with delivers_locked [OF assms(1) _ _ assms(6), of ut beyond msg m] assms(3,5) SendLockedTransfer
    show ?thesis by (simp add: plain_lock_def)
  next
    case (SendRefundTransfer msg ut)
    then have "w = M_RefundTransfer (RefundTransferFromEvent msg ut)" using assms(2) by (simp add: MessageFromSendEvent_def)
    with delivers_refund [OF assms(1) _ _ assms(6), of ut beyond msg m] assms(3,5) SendRefundTransfer
    show ?thesis by (simp add: plain_lock_def)
  qed (simp_all add: carries_proof_def)
qed

text \<open>A message made of an event can always be signed, if the account does not refuse.\<close>

lemma Sign_returns:
  assumes "MessageFromSendEvent ev = Some (Some w)"
  shows "Sign e beyond account w \<noteq> None"
  using assms
  by (cases ev)
    (auto simp: MessageFromSendEvent_def Sign_def DataToSign_def setSignature_def
      ProcessedFromEvent_def DirectTransfer_DataToSign_def DirectTransfer_Pack_def DirectTransferFromEvent_def
      LockedTransfer_DataToSign_def LockedTransfer_Pack_def LockedTransferFromEvent_def
      RefundTransfer_DataToSign_def RefundTransfer_Pack_def RefundTransferFromEvent_def
      BalanceProof_DataToSign_def BalanceProof_Pack_def UnlockFromEvent_def
      LockExpired_DataToSign_def LockExpired_Pack_def LockExpiredFromEvent_def envelopeOf_def
      EnvelopeMessage_DataToSign_def
      WithdrawRequestFromEvent_def WithdrawRequest_DataToSign_def WithdrawFromEvent_def Withdraw_DataToSign_def
      CooperativeSettleRequestFromEvent_def CooperativeSettleRequest_DataToSign_def
      CooperativeSettleFromEvent_def CooperativeSettle_DataToSign_def
      SecretRequestFromEvent_def SecretRequest_DataToSign_def RevealSecretFromEvent_def RevealSecret_DataToSign_def
      Processed_DataToSign_def Let_def split: sum.splits)

end
