(* ===== verification/Pylons_Endpoint.thy ===== *)
theory Pylons_Endpoint
  imports Pylons_Transport Pylons_Delivery
begin

text \<open>
  The two ends of the transport of \<open>network/transport/transport.go\<close>: \<open>SendAsync\<close> puts a message into the queue of
  its recipient and channel, \<open>ReceiveMessage\<close> hands a message to the handlers and answers with a signed \<open>Delivered\<close>,
  \<open>ReceiveDelivered\<close> hands the answer to the queue that sent the message. The lemmas show that nothing that is
  well formed makes the handlers panic, and that a message and its acknowledgement find each other.
\<close>

section \<open>The transport\<close>

text \<open>
  A queue and its goroutine are known by their queue id: there is one for each. \<open>tp_MaxMsgQueue\<close> is the configured
  capacity.
\<close>

record Transport =
  tp_messageQueues :: "(QueueId, Sender) smap"
  tp_addressQueueMap :: "(MessageID, QueueId) smap"
  tp_MaxMsgQueue :: u32

definition GetQueue :: "QueueId \<Rightarrow> Transport \<Rightarrow> Sender \<times> Transport" where
  "GetQueue queueId tp =
     (case smap_load (tp_messageQueues tp) queueId of
        Some q \<Rightarrow> (q, tp)
      | None \<Rightarrow>
          (let q = NewSender (tp_MaxMsgQueue tp)
           in (q, tp\<lparr>tp_messageQueues := smap_store queueId q (tp_messageQueues tp)\<rparr>)))"

text \<open>
  The outer option is the panic. The result is the one of a call that ends: \<open>Push\<close> has got the lock and, if it sends on
  \<open>DataCh\<close>, the goroutine of the queue has received what was in it before. A call that finds \<open>DataCh\<close> full may
  wait, and \<open>push_deadlock\<close> shows one that waits for ever.
\<close>

definition SendAsync :: "QueueId \<Rightarrow> WireMessage \<Rightarrow> Transport \<Rightarrow> (error option \<times> Transport) option" where
  "SendAsync queueId msg tp =
     do { item \<leftarrow> queueItem msg;
          Some (case item of
                  Inl err \<Rightarrow> (Some err, tp)
                | Inr item \<Rightarrow>
                    (let (q, tp) = GetQueue queueId tp;
                         (queue, ok, signal) = pushLocked item (se_Queue q)
                     in (if ok then None else Some (Msg ''[SendAsync] failed to push to queue''),
                         tp\<lparr>tp_messageQueues := smap_store queueId (q\<lparr>se_Queue := queue, se_DataCh := se_DataCh q \<or> signal\<rparr>)
                              (tp_messageQueues tp)\<rparr>))) }"

text \<open>What \<open>PeekAndSend\<close> does to the map before it sends: \<open>LoadOrStore\<close>.\<close>

definition register :: "MessageID \<Rightarrow> QueueId \<Rightarrow> Transport \<Rightarrow> Transport" where
  "register msgId queueId tp =
     (case smap_load (tp_addressQueueMap tp) msgId of
        Some _ \<Rightarrow> tp
      | None \<Rightarrow> tp\<lparr>tp_addressQueueMap := smap_store msgId queueId (tp_addressQueueMap tp)\<rparr>)"

text \<open>To whom a message is acknowledged, and its id; the outer option is the panic.\<close>

definition acknowledgeTo :: "slices \<Rightarrow> WireMessage \<Rightarrow> (Address \<times> u64 ptr) option option" where
  "acknowledgeTo beyond message =
     (let to = (\<lambda>sg msgID. do { sg \<leftarrow> sg; a \<leftarrow> ConvertAddress beyond (sg_Sender sg); Some (Some (a, msgID)) });
          envelope = (\<lambda>env msgID. do { env \<leftarrow> env; to (ev_Signature env) msgID })
      in case message of
        M_DirectTransfer m \<Rightarrow> envelope (dt_EnvelopeMessage m) (dt_MessageId m)
      | M_Processed m \<Rightarrow> to (pr_Signature m) (pr_MessageId m)
      | M_LockedTransfer m \<Rightarrow> do { b \<leftarrow> lt_BaseMessage m; envelope (lb_EnvelopeMessage b) (lb_MessageId b) }
      | M_LockExpired m \<Rightarrow> envelope (le_EnvelopeMessage m) (le_MessageId m)
      | M_RefundTransfer m \<Rightarrow>
          do { r \<leftarrow> rf_Refund m; b \<leftarrow> lt_BaseMessage r; envelope (lb_EnvelopeMessage b) (lb_MessageId b) }
      | M_SecretRequest m \<Rightarrow> to (sq_Signature m) (sq_MessageId m)
      | M_RevealSecret m \<Rightarrow> to (rv_Signature m) (rv_MessageId m)
      | M_BalanceProof m \<Rightarrow> envelope (ul_EnvelopeMessage m) (ul_MessageId m)
      | M_WithdrawRequest m \<Rightarrow>
          do { a \<leftarrow> ConvertAddress beyond (wq_Participant m); Some (Some (a, wq_MessageId m)) }
      | M_Withdraw m \<Rightarrow> to (wd_PartnerSignature m) (wd_MessageId m)
      | M_CooperativeSettleRequest m \<Rightarrow> to (cq_Participant1Signature m) (cq_MessageId m)
      | M_CooperativeSettle m \<Rightarrow> to (co_Participant2Signature m) (co_MessageId m)
      | M_Delivered _ \<Rightarrow> Some None)"

text \<open>What the handler made of the message, and the acknowledgement that is sent, if it can be signed.\<close>

definition ReceiveMessage ::
  "env \<Rightarrow> ChannelService \<Rightarrow> Account \<Rightarrow> ChainState \<Rightarrow> WireMessage
     \<Rightarrow> ((NodeChange option \<times> ChainState) \<times> (Address \<times> WireMessage) option) option" where
  "ReceiveMessage e srv account chain message =
     do { handled \<leftarrow> messageChange e srv chain message;
          to \<leftarrow> acknowledgeTo (sv_slices srv) message;
          (case to of
             None \<Rightarrow> Some (handled, None)
           | Some (senderWalletAddr, msgID) \<Rightarrow>
               do { msgId \<leftarrow> msgID;
                    signed \<leftarrow> Sign e (sv_slices srv) account
                      (M_Delivered \<lparr>de_DeliveredMessageId = Some msgId, de_Signature = None\<rparr>);
                    Some (handled, case signed of Inl _ \<Rightarrow> None | Inr m \<Rightarrow> Some (senderWalletAddr, m)) }) }"

text \<open>The queue whose \<open>DeliverChan\<close> gets the id.\<close>

definition ReceiveDelivered ::
  "env \<Rightarrow> ChannelService \<Rightarrow> ChainState \<Rightarrow> Delivered \<Rightarrow> Transport
     \<Rightarrow> ((NodeChange option \<times> ChainState) \<times> (QueueId \<times> MessageID) option) option" where
  "ReceiveDelivered e srv chain message tp =
     do { handled \<leftarrow> messageChange e srv chain (M_Delivered message);
          msgId \<leftarrow> de_DeliveredMessageId message;
          Some (handled, map_option (\<lambda>queue. (queue, msgId)) (smap_load (tp_addressQueueMap tp) msgId)) }"

section \<open>What the queues hold\<close>

text \<open>A queue that does not exist is empty; all have the configured capacity.\<close>

definition queue_holds :: "Transport \<Rightarrow> QueueId \<Rightarrow> QueueItem list \<Rightarrow> bool" where
  "queue_holds tp queueId xs \<longleftrightarrow>
     (case smap_load (tp_messageQueues tp) queueId of
        None \<Rightarrow> xs = []
      | Some s \<Rightarrow> holds_list (se_Queue s) xs \<and> q_capacity (se_Queue s) = tp_MaxMsgQueue tp)"

lemma SendAsync_queues:
  assumes "queueItem msg = Some (Inr item)" and "queue_holds tp queueId xs" and "length xs < unat (tp_MaxMsgQueue tp)"
  shows "\<exists>tp2. SendAsync queueId msg tp = Some (None, tp2) \<and> tp_MaxMsgQueue tp2 = tp_MaxMsgQueue tp
     \<and> queue_holds tp2 queueId (xs @ [item])
     \<and> (\<forall>q ys. q \<noteq> queueId \<longrightarrow> queue_holds tp2 q ys = queue_holds tp q ys)"
proof -
  obtain q tp1 where g: "GetQueue queueId tp = (q, tp1)" by fastforce
  have q: "holds_list (se_Queue q) xs" "q_capacity (se_Queue q) = tp_MaxMsgQueue tp"
    and tp1: "tp_MaxMsgQueue tp1 = tp_MaxMsgQueue tp"
      "\<And>k. k \<noteq> queueId \<Longrightarrow> smap_load (tp_messageQueues tp1) k = smap_load (tp_messageQueues tp) k"
    using g assms(2) lq.new_holds lq.new_cap
    by (auto simp: GetQueue_def queue_holds_def NewSender_def Let_def split: option.splits)
  obtain queue where "pushLocked item (se_Queue q) = (queue, True, xs = [])" "holds_list queue (xs @ [item])"
      "q_capacity queue = q_capacity (se_Queue q)"
    using lq.push_room [OF q(1), of item] q(2) assms(3) by auto
  with assms(1) g q(2) tp1 show ?thesis by (simp add: SendAsync_def queue_holds_def split: option.split)
qed

text \<open>
  The state machine of a queue, and what a call of \<open>SendAsync\<close> is for it: steps that push the items, none of which waits
  for the goroutine. A push that is accepted does not wait when no other push does and when a signal is only left in \<open>DataCh\<close> of a
  queue that holds something (\<open>ready\<close>).
\<close>

definition senderOf :: "QueueId \<Rightarrow> Transport \<Rightarrow> Sender" where
  "senderOf q tp = fst (GetQueue q tp)"

definition ready :: "Transport \<Rightarrow> QueueId \<Rightarrow> QueueItem list \<Rightarrow> bool" where
  "ready tp q xs \<longleftrightarrow> queue_holds tp q xs \<and> \<not> se_pushing (senderOf q tp) \<and> (xs = [] \<longrightarrow> \<not> se_DataCh (senderOf q tp))"

definition pushes_to :: "Transport \<Rightarrow> QueueId \<Rightarrow> QueueItem list \<Rightarrow> Transport \<Rightarrow> bool" where
  "pushes_to tp q items tp' \<longleftrightarrow>
     (\<exists>tr. sender_run q (senderOf q tp) tr (senderOf q tp') \<and> accepted tr = items \<and> popped tr = []
        \<and> (\<forall>item. Pushes item False \<notin> set tr))"

lemma accepted_append: "accepted (tr1 @ tr2) = accepted tr1 @ accepted tr2" "popped (tr1 @ tr2) = popped tr1 @ popped tr2"
  by (simp_all add: accepted_def popped_def map_filter_def)

lemma pushes_to_Nil [simp]: "senderOf q tp' = senderOf q tp \<Longrightarrow> pushes_to tp q [] tp'"
  using sender_run.run_Nil [of q "senderOf q tp"] unfolding pushes_to_def by (intro exI [of _ "[]"]) simp

lemma pushes_to_trans: "pushes_to tp q xs tp1 \<Longrightarrow> pushes_to tp1 q ys tp2 \<Longrightarrow> pushes_to tp q (xs @ ys) tp2"
proof -
  assume "pushes_to tp q xs tp1" "pushes_to tp1 q ys tp2"
  then obtain tr1 tr2 where
      "sender_run q (senderOf q tp) tr1 (senderOf q tp1)" "accepted tr1 = xs" "popped tr1 = []" "\<forall>i. Pushes i False \<notin> set tr1"
      "sender_run q (senderOf q tp1) tr2 (senderOf q tp2)" "accepted tr2 = ys" "popped tr2 = []" "\<forall>i. Pushes i False \<notin> set tr2"
    unfolding pushes_to_def by blast
  then show "pushes_to tp q (xs @ ys) tp2"
    unfolding pushes_to_def using sender_run_trans [of q "senderOf q tp1" tr2 "senderOf q tp2" "senderOf q tp" tr1]
    by (intro exI [of _ "tr1 @ tr2"]) (simp add: accepted_append)
qed

lemma senderOf_holds:
  assumes "queue_holds tp q xs"
  shows "holds_list (se_Queue (senderOf q tp)) xs" "q_capacity (se_Queue (senderOf q tp)) = tp_MaxMsgQueue tp"
  using assms lq.new_holds lq.new_cap
  by (auto simp: senderOf_def GetQueue_def queue_holds_def NewSender_def Let_def split: option.splits)

text \<open>An accepted push, with its signal: steps of the machine that nothing delays.\<close>

lemma push_steps:
  fixes q :: Sender
  assumes "pushLocked item (se_Queue q) = (queue, True, first)" and "\<not> se_pushing q" and "first \<longrightarrow> \<not> se_DataCh q"
  shows "\<exists>tr. sender_run qid q tr (q\<lparr>se_Queue := queue, se_DataCh := se_DataCh q \<or> first\<rparr>) \<and> accepted tr = [item]
     \<and> popped tr = [] \<and> (\<forall>item. Pushes item False \<notin> set tr)"
proof -
  note st = push [OF assms(2,1), of qid]
  show ?thesis
  proof (cases first)
    case True
    have "sender_step qid (q\<lparr>se_Queue := queue, se_pushing := first\<rparr>) Internal (q\<lparr>se_Queue := queue, se_DataCh := True\<rparr>)"
      using pushed [of "q\<lparr>se_Queue := queue, se_pushing := True\<rparr>" qid] True assms(2,3) by (cases q) simp
    from sender_run_Cons [OF st sender_run_step [OF this]] True show ?thesis
      by (intro exI [of _ "[Pushes item True, Internal]"]) (simp add: accepted_def popped_def map_filter_simps)
  next
    case False
    then have "q\<lparr>se_Queue := queue, se_pushing := first\<rparr> = q\<lparr>se_Queue := queue, se_DataCh := se_DataCh q \<or> first\<rparr>"
      using assms(2) by (cases q) simp
    with sender_run_step [OF st] show ?thesis
      by (intro exI [of _ "[Pushes item True]"]) (simp add: accepted_def popped_def map_filter_simps)
  qed
qed

lemma SendAsync_ready:
  assumes "queueItem msg = Some (Inr item)" and "ready tp queueId xs" and "length xs < unat (tp_MaxMsgQueue tp)"
  shows "\<exists>tp2. SendAsync queueId msg tp = Some (None, tp2) \<and> tp_MaxMsgQueue tp2 = tp_MaxMsgQueue tp
     \<and> ready tp2 queueId (xs @ [item]) \<and> pushes_to tp queueId [item] tp2
     \<and> (\<forall>q. q \<noteq> queueId \<longrightarrow> senderOf q tp2 = senderOf q tp \<and> (\<forall>ys. queue_holds tp2 q ys = queue_holds tp q ys))"
proof -
  obtain q tp1 where g: "GetQueue queueId tp = (q, tp1)" by fastforce
  then have sq: "senderOf queueId tp = q" by (simp add: senderOf_def)
  have q: "holds_list (se_Queue q) xs" "q_capacity (se_Queue q) = tp_MaxMsgQueue tp" "\<not> se_pushing q" "xs = [] \<longrightarrow> \<not> se_DataCh q"
    using assms(2) senderOf_holds [of tp queueId xs] by (simp_all add: ready_def sq)
  obtain queue where p: "pushLocked item (se_Queue q) = (queue, True, xs = [])"
    using lq.push_room [OF q(1), of item] q(2) assms(3) by auto
  let ?q' = "q\<lparr>se_Queue := queue, se_DataCh := se_DataCh q \<or> xs = []\<rparr>"
  obtain tp2 where t: "SendAsync queueId msg tp = Some (None, tp2)" "tp_MaxMsgQueue tp2 = tp_MaxMsgQueue tp"
      "queue_holds tp2 queueId (xs @ [item])" "\<forall>q ys. q \<noteq> queueId \<longrightarrow> queue_holds tp2 q ys = queue_holds tp q ys"
    using SendAsync_queues [OF assms(1) _ assms(3)] assms(2) unfolding ready_def by blast
  have tp2: "tp2 = tp1\<lparr>tp_messageQueues := smap_store queueId ?q' (tp_messageQueues tp1)\<rparr>"
    using t(1) assms(1) g p by (simp add: SendAsync_def)
  have s': "senderOf queueId tp2 = ?q'" by (simp add: tp2 senderOf_def GetQueue_def)
  have other: "senderOf k tp2 = senderOf k tp" if "k \<noteq> queueId" for k
    using g that by (auto simp: tp2 senderOf_def GetQueue_def Let_def split: option.splits)
  have "pushes_to tp queueId [item] tp2" unfolding pushes_to_def sq s' by (rule push_steps [OF p q(3,4)])
  moreover have "ready tp2 queueId (xs @ [item])" using t(3) q(3) by (simp add: ready_def s')
  ultimately show ?thesis using t other by blast
qed

section \<open>Well-formed messages\<close>

definition bytes_ok :: "nat \<Rightarrow> byte list ptr \<Rightarrow> bool" where
  "bytes_ok n p = (case p of None \<Rightarrow> False | Some bs \<Rightarrow> n \<le> length bs)"

definition signature_ok :: "SignedMessage ptr \<Rightarrow> bool" where
  "signature_ok p = (case p of None \<Rightarrow> False | Some sg \<Rightarrow> bytes_ok 20 (sg_Sender sg))"

definition envelope_ok :: "EnvelopeMessage ptr \<Rightarrow> bool" where
  "envelope_ok p =
     (case p of None \<Rightarrow> False
      | Some env \<Rightarrow> ev_ChainId env \<noteq> None \<and> ev_TransferredAmount env \<noteq> None \<and> ev_LockedAmount env \<noteq> None
          \<and> bytes_ok 32 (ev_LocksRoot env) \<and> ev_ChannelId env \<noteq> None \<and> bytes_ok 20 (ev_TokenNetworkAddress env)
          \<and> signature_ok (ev_Signature env))"

definition lock_ok :: "HashTimeLock ptr \<Rightarrow> bool" where
  "lock_ok p =
     (case p of None \<Rightarrow> False
      | Some lock \<Rightarrow> hl_Amount lock \<noteq> None \<and> hl_Expiration lock \<noteq> None \<and> bytes_ok 32 (hl_SecretHash lock))"

definition transfer_ok :: "LockedTransfer ptr \<Rightarrow> bool" where
  "transfer_ok p =
     (case p of None \<Rightarrow> False
      | Some m \<Rightarrow> (case lt_BaseMessage m of None \<Rightarrow> False
          | Some b \<Rightarrow> envelope_ok (lb_EnvelopeMessage b) \<and> lb_MessageId b \<noteq> None \<and> lb_PaymentId b \<noteq> None
              \<and> bytes_ok 20 (lb_Token b) \<and> bytes_ok 0 (lb_Recipient b) \<and> lock_ok (lb_Lock b))
          \<and> bytes_ok 20 (lt_Initiator m) \<and> bytes_ok 20 (lt_Target m) \<and> bytes_ok 0 (lt_EncSecret m)
          \<and> list_all (bytes_ok 20) (lt_Mediators m))"

definition well_formed :: "WireMessage \<Rightarrow> bool" where
  "well_formed message =
     (case message of
        M_DirectTransfer m \<Rightarrow> envelope_ok (dt_EnvelopeMessage m) \<and> dt_MessageId m \<noteq> None \<and> dt_PaymentId m \<noteq> None
          \<and> bytes_ok 0 (dt_Token m) \<and> bytes_ok 0 (dt_Recipient m)
      | M_Processed m \<Rightarrow> pr_MessageId m \<noteq> None \<and> signature_ok (pr_Signature m)
      | M_Delivered m \<Rightarrow> de_DeliveredMessageId m \<noteq> None \<and> signature_ok (de_Signature m)
      | M_SecretRequest m \<Rightarrow> sq_MessageId m \<noteq> None \<and> sq_PaymentId m \<noteq> None \<and> bytes_ok 0 (sq_SecretHash m)
          \<and> sq_Amount m \<noteq> None \<and> sq_Expiration m \<noteq> None \<and> signature_ok (sq_Signature m)
      | M_RevealSecret m \<Rightarrow> rv_MessageId m \<noteq> None \<and> bytes_ok 0 (rv_Secret m) \<and> signature_ok (rv_Signature m)
      | M_BalanceProof m \<Rightarrow> envelope_ok (ul_EnvelopeMessage m) \<and> ul_MessageId m \<noteq> None \<and> ul_PaymentId m \<noteq> None
          \<and> bytes_ok 0 (ul_Secret m)
      | M_LockExpired m \<Rightarrow> envelope_ok (le_EnvelopeMessage m) \<and> le_MessageId m \<noteq> None \<and> bytes_ok 0 (le_Recipient m)
          \<and> bytes_ok 0 (le_SecretHash m)
      | M_RefundTransfer m \<Rightarrow> transfer_ok (rf_Refund m)
      | M_LockedTransfer m \<Rightarrow> transfer_ok (Some m)
      | M_WithdrawRequest m \<Rightarrow> bytes_ok 20 (wq_TokenNetworkAddress m) \<and> wq_MessageId m \<noteq> None \<and> wq_ChannelId m \<noteq> None
          \<and> bytes_ok 20 (wq_Participant m) \<and> wq_WithdrawAmount m \<noteq> None \<and> signature_ok (wq_ParticipantSignature m)
      | M_Withdraw m \<Rightarrow> bytes_ok 20 (wd_TokenNetworkAddress m) \<and> wd_MessageId m \<noteq> None \<and> wd_ChannelId m \<noteq> None
          \<and> bytes_ok 20 (wd_Participant m) \<and> wd_WithdrawAmount m \<noteq> None \<and> signature_ok (wd_ParticipantSignature m)
          \<and> signature_ok (wd_PartnerSignature m)
      | M_CooperativeSettleRequest m \<Rightarrow> bytes_ok 20 (cq_TokenNetworkAddress m) \<and> cq_MessageId m \<noteq> None
          \<and> cq_ChannelId m \<noteq> None \<and> bytes_ok 20 (cq_Participant1 m) \<and> cq_Participant1Balance m \<noteq> None
          \<and> bytes_ok 20 (cq_Participant2 m) \<and> cq_Participant2Balance m \<noteq> None
          \<and> signature_ok (cq_Participant1Signature m)
      | M_CooperativeSettle m \<Rightarrow> bytes_ok 20 (co_TokenNetworkAddress m) \<and> co_MessageId m \<noteq> None
          \<and> co_ChannelId m \<noteq> None \<and> bytes_ok 20 (co_Participant1 m) \<and> co_Participant1Balance m \<noteq> None
          \<and> bytes_ok 20 (co_Participant2 m) \<and> co_Participant2Balance m \<noteq> None
          \<and> signature_ok (co_Participant1Signature m) \<and> signature_ok (co_Participant2Signature m))"

lemma bytes_okD: "bytes_ok n p \<Longrightarrow> \<exists>bs. p = Some bs \<and> n \<le> length bs"
  by (simp add: bytes_ok_def split: option.splits)

lemma bytes_ok_Some [simp]: "bytes_ok n (Some bs) \<longleftrightarrow> n \<le> length bs"
  by (simp add: bytes_ok_def)

lemma bytes_ok_0 [simp]: "bytes_ok 0 p \<longleftrightarrow> (\<exists>bs. p = Some bs)"
  by (simp add: bytes_ok_def split: option.split)

lemma slice_to_ok: "n \<le> length bs \<Longrightarrow> slice_to beyond n bs = Some (take n bs)"
  by (simp add: slice_to_def)

lemma ConvertAddress_ok: "bytes_ok 20 p \<Longrightarrow> \<exists>a. ConvertAddress beyond p = Some a"
  by (auto simp: ConvertAddress_def slice_to_ok dest!: bytes_okD)

lemma signature_okD: "signature_ok p \<Longrightarrow> \<exists>sg s a. p = Some sg \<and> sg_Sender sg = Some s \<and> ConvertAddress beyond (Some s) = Some a"
  using ConvertAddress_ok [of "sg_Sender (the p)" beyond] by (auto simp: signature_ok_def split: option.splits dest!: bytes_okD)

lemma BalanceProofFromEnvelope_ok:
  "envelope_ok (Some env) \<Longrightarrow> \<exists>bp. BalanceProofFromEnvelope e beyond env d = Some bp"
  using signature_okD [of "ev_Signature env" beyond]
  by (auto simp: envelope_ok_def BalanceProofFromEnvelope_def slice_to_ok dest!: bytes_okD)

lemma those_ok: "list_all (\<lambda>x. f x \<noteq> None) xs \<Longrightarrow> \<exists>ys. those (map f xs) = Some ys"
  by (induction xs) auto

lemma transfer_okD:
  assumes "transfer_ok (Some m)"
  shows "\<exists>b env sg s i t tr. lt_BaseMessage m = Some b \<and> lb_EnvelopeMessage b = Some env \<and> ev_Signature env = Some sg
     \<and> sg_Sender sg = Some s \<and> lt_Initiator m = Some i \<and> lt_Target m = Some t \<and> (\<exists>k. lb_Token b = Some k)
     \<and> LockedTransferSignedFromMessage e beyond m = Some tr"
proof -
  obtain b env where b: "lt_BaseMessage m = Some b" "lb_EnvelopeMessage b = Some env"
    and env: "envelope_ok (Some env)"
    using assms by (auto simp: transfer_ok_def envelope_ok_def split: option.splits)
  obtain p where p: "LockedTransfer_Pack m = Some p"
    using assms b by (auto simp: transfer_ok_def envelope_ok_def LockedTransfer_Pack_def split: option.splits dest!: bytes_okD)
  obtain bp where bp: "BalanceProofFromEnvelope e beyond env p = Some bp" using BalanceProofFromEnvelope_ok [OF env] by blast
  have "list_all (\<lambda>x. ConvertAddress beyond x \<noteq> None) (lt_Mediators m)"
    using assms ConvertAddress_ok by (fastforce simp: transfer_ok_def list_all_iff)
  then obtain ms where ms: "those (map (ConvertAddress beyond) (lt_Mediators m)) = Some ms" using those_ok by blast
  obtain k i t where a: "ConvertAddress beyond (lb_Token b) = Some k" "ConvertAddress beyond (lt_Initiator m) = Some i"
      "ConvertAddress beyond (lt_Target m) = Some t"
    using assms b ConvertAddress_ok by (fastforce simp: transfer_ok_def)
  obtain lock h where l: "lb_Lock b = Some lock" "hl_SecretHash lock = Some h" "slice_to beyond 32 h = Some (take 32 h)"
      "hl_Amount lock \<noteq> None" "hl_Expiration lock \<noteq> None"
    using assms b by (auto simp: transfer_ok_def lock_ok_def slice_to_ok split: option.splits dest!: bytes_okD)
  have "\<exists>tr. LockedTransferSignedFromMessage e beyond m = Some tr"
    using assms b p bp ms a l by (auto simp: transfer_ok_def LockedTransferSignedFromMessage_def)
  moreover have "\<exists>sg s. ev_Signature env = Some sg \<and> sg_Sender sg = Some s"
    using env signature_okD [of "ev_Signature env" beyond] by (auto simp: envelope_ok_def)
  ultimately show ?thesis using assms b by (auto simp: transfer_ok_def dest!: bytes_okD)
qed

definition routes_found :: "env \<Rightarrow> ChannelService \<Rightarrow> ChainState \<Rightarrow> bool" where
  "routes_found e srv chain \<longleftrightarrow> (\<forall>tn t x bad. ServiceBestRoutes e srv chain tn t x bad \<noteq> None)"

lemma routes_found_bind:
  "routes_found e srv chain \<Longrightarrow> \<forall>rs chain'. \<exists>a b. f (rs, chain') = Some (a, b) \<Longrightarrow>
    \<exists>a b. Option.bind (ServiceBestRoutes e srv chain tn t x bad) f = Some (a, b)"
  unfolding routes_found_def by (metis bind.bind_lunit not_None_eq surj_pair)

lemma locked_transfer_handled:
  assumes "transfer_ok (Some m)" and "routes_found e srv chain"
  shows "HandleMessageLockedTransfer e srv chain m \<noteq> None"
proof -
  note t = transfer_okD [OF assms(1), of e "sv_slices srv"]
  have "MediatorInit e srv chain m \<noteq> None"
    using t by (auto simp: MediatorInit_def Let_def intro!: routes_found_bind [OF assms(2)])
  moreover have "TargetInit e srv m \<noteq> None" using t by (auto simp: TargetInit_def)
  ultimately show ?thesis using t by (auto simp: HandleMessageLockedTransfer_def)
qed

lemma refund_handled:
  assumes "transfer_ok (rf_Refund m)" and "routes_found e srv chain"
  shows "HandleMessageRefundTransfer e srv chain m \<noteq> None"
proof -
  obtain r where r: "rf_Refund m = Some r" using assms(1) by (auto simp: transfer_ok_def split: option.splits)
  then show ?thesis
    using transfer_okD [of r e "sv_slices srv"] assms(1)
    by (auto simp: HandleMessageRefundTransfer_def Let_def intro!: routes_found_bind [OF assms(2)])
qed

text \<open>The remaining handlers, one by one.\<close>

lemma envelope_handled:
  assumes "envelope_ok p"
  shows "\<exists>env sg s t ci ch ta la r bp. p = Some env \<and> ev_Signature env = Some sg \<and> sg_Sender sg = Some s
     \<and> ev_TokenNetworkAddress env = Some t \<and> slice_to beyond 20 t = Some (take 20 t) \<and> ev_ChainId env = Some ci
     \<and> ev_ChannelId env = Some ch \<and> ev_TransferredAmount env = Some ta \<and> ev_LockedAmount env = Some la
     \<and> ev_LocksRoot env = Some r \<and> (\<forall>d. BalanceProofFromEnvelope e beyond env d = Some (bp d))"
proof -
  obtain env where env: "p = Some env" "envelope_ok (Some env)" using assms by (auto simp: envelope_ok_def split: option.splits)
  obtain bp where "\<forall>d. BalanceProofFromEnvelope e beyond env d = Some (bp d)"
    using BalanceProofFromEnvelope_ok [OF env(2)] by metis
  moreover have "\<exists>sg s. ev_Signature env = Some sg \<and> sg_Sender sg = Some s"
    using env(2) signature_okD [of "ev_Signature env" beyond] by (auto simp: envelope_ok_def)
  ultimately show ?thesis using env by (auto simp: envelope_ok_def slice_to_ok dest!: bytes_okD)
qed

lemma direct_handled: "well_formed (M_DirectTransfer m) \<Longrightarrow> HandleMessageDirectTransfer e beyond m \<noteq> None"
  using envelope_handled [of "dt_EnvelopeMessage m" beyond e]
  by (auto simp: well_formed_def HandleMessageDirectTransfer_def DirectTransfer_Pack_def)

lemma secret_handled: "well_formed (M_BalanceProof m) \<Longrightarrow> HandleMessageSecret e beyond m \<noteq> None"
  using envelope_handled [of "ul_EnvelopeMessage m" beyond e]
  by (auto simp: well_formed_def HandleMessageSecret_def BalanceProof_Pack_def)

lemma expired_handled: "well_formed (M_LockExpired m) \<Longrightarrow> HandleMessageLockExpired e beyond m \<noteq> None"
  using envelope_handled [of "le_EnvelopeMessage m" beyond e]
  by (auto simp: well_formed_def HandleMessageLockExpired_def LockExpired_Pack_def)

lemma plain_handled:
  "well_formed (M_Processed m1) \<Longrightarrow> HandleMessageProcessed beyond m1 \<noteq> None"
  "well_formed (M_Delivered m2) \<Longrightarrow> HandleMessageDelivered beyond m2 \<noteq> None"
  "well_formed (M_SecretRequest m3) \<Longrightarrow> HandleMessageSecretRequest m3 \<noteq> None"
  "well_formed (M_RevealSecret m4) \<Longrightarrow> HandleMessageRevealSecret m4 \<noteq> None"
  by (auto simp: well_formed_def HandleMessageProcessed_def HandleMessageDelivered_def HandleMessageSecretRequest_def
        HandleMessageRevealSecret_def dest!: signature_okD [of _ beyond])

lemma withdraw_handled:
  "well_formed (M_WithdrawRequest m1) \<Longrightarrow> HandleMessageWithdrawRequest beyond m1 \<noteq> None"
  "well_formed (M_Withdraw m2) \<Longrightarrow> HandleMessageWithdraw e beyond chain m2 \<noteq> None"
  by (auto simp: well_formed_def HandleMessageWithdrawRequest_def HandleMessageWithdraw_def split: option.split
        dest!: signature_okD [of _ beyond] ConvertAddress_ok [of _ beyond])

lemma settle_handled:
  "well_formed (M_CooperativeSettleRequest m1) \<Longrightarrow> HandleMessageCooperativeSettleRequest beyond m1 \<noteq> None"
  "well_formed (M_CooperativeSettle m2) \<Longrightarrow> HandleMessageCooperativeSettle e beyond chain m2 \<noteq> None"
  by (auto simp: well_formed_def HandleMessageCooperativeSettleRequest_def HandleMessageCooperativeSettle_def
        split: option.split dest!: signature_okD [of _ beyond] ConvertAddress_ok [of _ beyond])

lemma well_formed_handled:
  assumes "well_formed m" and "routes_found e srv chain"
  shows "messageChange e srv chain m \<noteq> None"
  using assms
  by (cases m)
     (simp_all add: messageChange_def Let_def direct_handled secret_handled expired_handled plain_handled withdraw_handled
       settle_handled locked_transfer_handled refund_handled well_formed_def [of "M_LockedTransfer _"]
       well_formed_def [of "M_RefundTransfer _"] del: not_None_eq)

text \<open>What a node makes of its events and signs is well formed.\<close>

lemma signed_well_formed:
  assumes "MessageFromSendEvent ev = Some (Some w)" and "Sign e beyond account w = Some (Inr m)"
  shows "well_formed m"
proof -
  obtain sg where m: "setSignature \<lparr>sg_Signature = sg, sg_Sender = Some (addr_bytes (ac_Address account)),
           sg_Publickey = ac_PublicKey account\<rparr> w = Some m"
    using Sign_signed [OF assms(2)] by blast
  show ?thesis
    using assms(1) m
    by (cases ev)
      (auto simp: MessageFromSendEvent_def setSignature_def well_formed_def envelope_ok_def signature_ok_def
        transfer_ok_def lock_ok_def envelopeOf_def list_all_iff
        ProcessedFromEvent_def DirectTransferFromEvent_def LockedTransferFromEvent_def SecretRequestFromEvent_def
        RefundTransferFromEvent_def UnlockFromEvent_def RevealSecretFromEvent_def LockExpiredFromEvent_def
        WithdrawRequestFromEvent_def WithdrawFromEvent_def CooperativeSettleRequestFromEvent_def
        CooperativeSettleFromEvent_def Let_def)
qed

section \<open>Acknowledgements\<close>

definition participant_signs :: "Address \<Rightarrow> Event \<Rightarrow> bool" where
  "participant_signs a ev \<longleftrightarrow> (case ev of SendWithdrawRequest _ participant _ _ \<Rightarrow> participant = a | _ \<Rightarrow> True)"

lemma signed_ids:
  assumes "MessageFromSendEvent ev = Some (Some w)" and "Sign e beyond account w = Some (Inr m)"
    and "participant_signs (ac_Address account) ev"
  shows "\<exists>i. queueItem m = Some (Inr \<lparr>qm_message = m, qm_messageId = Some i\<rparr>)
     \<and> acknowledgeTo beyond' m = Some (Some (ac_Address account, Some i))"
proof -
  obtain sg where m: "setSignature \<lparr>sg_Signature = sg, sg_Sender = Some (addr_bytes (ac_Address account)),
           sg_Publickey = ac_PublicKey account\<rparr> w = Some m"
    using Sign_signed [OF assms(2)] by blast
  show ?thesis
    using assms(1,3) m
    by (cases ev)
      (auto simp: MessageFromSendEvent_def setSignature_def queueItem_def acknowledgeTo_def envelopeOf_def
        participant_signs_def ProcessedFromEvent_def DirectTransferFromEvent_def LockedTransferFromEvent_def
        SecretRequestFromEvent_def RefundTransferFromEvent_def UnlockFromEvent_def RevealSecretFromEvent_def
        LockExpiredFromEvent_def WithdrawRequestFromEvent_def WithdrawFromEvent_def
        CooperativeSettleRequestFromEvent_def CooperativeSettleFromEvent_def Let_def)
qed

lemma Delivered_signed:
  assumes "\<forall>d. \<exists>sg. ac_Sign account d = Inr sg"
  shows "\<exists>d. Sign e beyond account (M_Delivered \<lparr>de_DeliveredMessageId = Some i, de_Signature = None\<rparr>) = Some (Inr (M_Delivered d))
     \<and> (\<forall>srv chain tp. ReceiveDelivered e srv chain d tp =
          Some ((Some (ND_ReceiveDelivered (ac_Address account) i), chain),
                map_option (\<lambda>q. (q, i)) (smap_load (tp_addressQueueMap tp) i)))"
  using assms
  by (auto simp: Sign_def DataToSign_def Delivered_DataToSign_def setSignature_def ReceiveDelivered_def messageChange_def
        HandleMessageDelivered_def Let_def dest!: spec [of _ "Uint64ToBytes i"])

text \<open>
  C9. A message makes a round trip. What node \<open>a\<close> makes of an event, signs and queues arrives at node \<open>b\<close> as the state
  change that says what the event said, with the balance proofs, withdrawals and settlements signed by \<open>a\<close>;
  \<open>b\<close> answers \<open>a\<close> with a signed \<open>Delivered\<close>; and that one, back at \<open>a\<close>, becomes the state change that
  removes the message and reaches the very queue that sent it, with the id of its first item.
\<close>

theorem message_acknowledged:
  assumes "account_ok e a" and "MessageFromSendEvent ev = Some (Some w)" and "Sign e beyond a w = Some (Inr m)"
    and "participant_signs (ac_Address a) ev" and "awaits e chain ev" and "plain_lock ev"
    and "routes_found e srv chain" and "\<forall>d. \<exists>sg. ac_Sign b d = Inr sg"
  shows "\<exists>sc chain' d i. ReceiveMessage e srv b chain m = Some ((Some sc, chain'), Some (ac_Address a, M_Delivered d))
    \<and> delivers e (sv_address srv) (ac_Address a) ev sc
    \<and> queueItem m = Some (Inr \<lparr>qm_message = m, qm_messageId = Some i\<rparr>)
    \<and> (\<forall>srvA chainA tp q. smap_load (tp_addressQueueMap tp) i = None \<longrightarrow>
         ReceiveDelivered e srvA chainA d (register i q tp) =
           Some ((Some (ND_ReceiveDelivered (ac_Address b) i), chainA), Some (q, i)))"
proof -
  obtain sc chain' where sc: "messageChange e srv chain m = Some (Some sc, chain')"
      "delivers e (sv_address srv) (ac_Address a) ev sc"
    using delivery [OF assms(1-3,5,6)] assms(7) unfolding routes_found_def by blast
  obtain i where i: "queueItem m = Some (Inr \<lparr>qm_message = m, qm_messageId = Some i\<rparr>)"
      "acknowledgeTo (sv_slices srv) m = Some (Some (ac_Address a, Some i))"
    using signed_ids [OF assms(2-4)] by blast
  obtain d where d: "Sign e (sv_slices srv) b (M_Delivered \<lparr>de_DeliveredMessageId = Some i, de_Signature = None\<rparr>) = Some (Inr (M_Delivered d))"
      "\<forall>srv chain tp. ReceiveDelivered e srv chain d tp =
          Some ((Some (ND_ReceiveDelivered (ac_Address b) i), chain),
                map_option (\<lambda>q. (q, i)) (smap_load (tp_addressQueueMap tp) i))"
    using Delivered_signed [OF assms(8)] by blast
  have "ReceiveMessage e srv b chain m = Some ((Some sc, chain'), Some (ac_Address a, M_Delivered d))"
    using sc(1) i(2) d(1) by (simp add: ReceiveMessage_def)
  with sc(2) i(1) d(2) show ?thesis by (auto simp: register_def)
qed

text \<open>
  The handlers take the sender a message names at its word. Nothing calls \<open>Verify\<close>, and only balance proofs,
  withdrawals and settlements have their signature checked later.
\<close>

theorem sender_not_verified:
  fixes signature publicKey :: "byte list" and a :: Address
  defines "sg \<equiv> \<lparr>sg_Signature = signature, sg_Sender = Some (addr_bytes a), sg_Publickey = publicKey\<rparr>"
  shows "messageChange e srv chain (M_Delivered \<lparr>de_DeliveredMessageId = Some i, de_Signature = Some sg\<rparr>) =
      Some (Some (ND_ReceiveDelivered a i), chain)"
    and "messageChange e srv chain (M_Processed \<lparr>pr_MessageId = Some i, pr_Signature = Some sg\<rparr>) =
      Some (Some (ND_ReceiveProcessed a i), chain)"
    and "messageChange e srv chain (M_RevealSecret \<lparr>rv_MessageId = Some i, rv_Secret = Some s, rv_Signature = Some sg\<rparr>) =
      Some (Some (ND_Task (TC_ReceiveSecretReveal \<lparr>rsr_Secret = s, rsr_Sender = a, rsr_MessageId = i\<rparr>)), chain)"
  by (simp_all add: sg_def messageChange_def HandleMessageDelivered_def HandleMessageProcessed_def HandleMessageRevealSecret_def)

section \<open>Samples\<close>

text \<open>An account whose signatures are the first bytes of what is signed, a service without routes, and a transfer.\<close>

definition sample_account :: "Address \<Rightarrow> Account" where
  "sample_account a = \<lparr>ac_Address = a, ac_PublicKey = replicate (unat a) 0, ac_Sign = (\<lambda>d. Inr (take 3 d))\<rparr>"

definition endpoint_ranges :: ranges where
  "endpoint_ranges = \<lparr>rg_PaymentNetworks = (\<lambda>xs. xs), rg_TokenNetworks = (\<lambda>xs. xs), rg_Channels = (\<lambda>xs. xs),
     rg_Partners = (\<lambda>xs. xs), rg_Tasks = (\<lambda>xs. xs), rg_Queues = (\<lambda>xs. xs), rg_Routes = (\<lambda>xs. xs),
     IsDnsNode = (\<lambda>a. False)\<rparr>"

definition sample_service :: ChannelService where
  "sample_service = \<lparr>sv_address = 2, sv_ranges = endpoint_ranges, sv_orderNodes = (\<lambda>xs. xs), sv_orderEdges = (\<lambda>xs. xs),
     sv_routing = \<lparr>RouteStrategy = RouteStrategyShort, FeePenalty = 1, DiversityPenalty = 1, GetAllDnsNodes = None,
       NetworkReachable = (\<lambda>_. True)\<rparr>, sv_slices = (\<lambda>_ _. None), sv_secretRandom = []\<rparr>"

definition sample_sent_transfer :: Event where
  "sample_sent_transfer = SendDirectTransfer \<lparr>sm_Recipient = 2, sm_ChannelId = 4, sm_MessageId = 9\<rparr> 5
     \<lparr>bu_Nonce = 1, bu_TransferredAmount = 10, bu_LockedAmount = 0, bu_LocksRoot = 0, bu_BalanceHash = 0,
      bu_TokenNetworkId = 6, bu_ChannelId = 4, bu_ChainId = 1\<rparr> 3"

lemma sample_routes_found: "routes_found sample_env sample_service chain"
  by (simp add: routes_found_def ServiceBestRoutes_def GetBestRoutes_def sample_service_def)

lemma sample_account_ok: "account_ok sample_env (sample_account a)"
  by (simp add: account_ok_def sample_account_def signed_by_def)

definition sample_signed_transfer :: WireMessage where
  "sample_signed_transfer =
     (case MessageFromSendEvent sample_sent_transfer of
        Some (Some w) \<Rightarrow>
          (case Sign sample_env (\<lambda>_ _. None) (sample_account 1) w of Some (Inr m) \<Rightarrow> m | _ \<Rightarrow> w)
      | _ \<Rightarrow> M_Delivered \<lparr>de_DeliveredMessageId = None, de_Signature = None\<rparr>)"

lemma sample_sent:
  "\<exists>w. MessageFromSendEvent sample_sent_transfer = Some (Some w)
     \<and> Sign sample_env (\<lambda>_ _. None) (sample_account 1) w = Some (Inr sample_signed_transfer)"
proof -
  obtain w where w: "MessageFromSendEvent sample_sent_transfer = Some (Some w)"
    by (simp add: MessageFromSendEvent_def sample_sent_transfer_def)
  obtain r where "Sign sample_env (\<lambda>_ _. None) (sample_account 1) w = Some r" using Sign_returns [OF w] by blast
  moreover obtain m where "r = Inr m"
    using calculation by (cases r) (auto simp: Sign_def sample_account_def split: bind_splits)
  ultimately show ?thesis using w by (simp add: sample_signed_transfer_def)
qed

theorem message_acknowledged_witness:
  "\<exists>sc chain' d i. ReceiveMessage sample_env sample_service (sample_account 2) NewChainState sample_signed_transfer =
      Some ((Some sc, chain'), Some (1, M_Delivered d))
    \<and> delivers sample_env 2 1 sample_sent_transfer sc
    \<and> queueItem sample_signed_transfer = Some (Inr \<lparr>qm_message = sample_signed_transfer, qm_messageId = Some i\<rparr>)"
proof -
  obtain w where w: "MessageFromSendEvent sample_sent_transfer = Some (Some w)"
      "Sign sample_env (\<lambda>_ _. None) (sample_account 1) w = Some (Inr sample_signed_transfer)"
    using sample_sent by blast
  have "participant_signs (ac_Address (sample_account 1)) sample_sent_transfer" "awaits sample_env NewChainState sample_sent_transfer"
      "plain_lock sample_sent_transfer" "\<forall>d. \<exists>sg. ac_Sign (sample_account 2) d = Inr sg"
    by (simp_all add: participant_signs_def awaits_def plain_lock_def sample_sent_transfer_def sample_account_def)
  from message_acknowledged [OF sample_account_ok w this(1-3) sample_routes_found this(4)]
  show ?thesis by (simp add: sample_account_def sample_service_def) blast
qed

end
