(* ===== verification/Pylons_Storage.thy ===== *)
theory Pylons_Storage
  imports Pylons_Node
begin

text \<open>
  The write-ahead log: \<open>storage/wal.go\<close>, the tables of \<open>storage/sqlite.go\<close> it writes and reads,
  \<open>StateManager\<close> of \<open>transfer/architecture.go\<close> with \<open>DeepCopy\<close>, and what \<open>AdjustChainState\<close> rebuilds of a state
  that was read (\<open>transfer/state.go\<close>).

  The tables are lists of rows in the order of insertion. The text a value is stored as is made and read by
  \<open>jsonext\<close>, a parameter (\<open>codec\<close>). The transition is a parameter as in the code; it is given the seed of the
  message ids instead of setting the random source.
\<close>

section \<open>Copies\<close>

text \<open>\<open>DeepCopy\<close> lists the fields it copies; the fee schedules of a token network are not among them.\<close>

definition DeepCopyTokenNetwork :: "TokenNetworkState \<Rightarrow> TokenNetworkState" where
  "DeepCopyTokenNetwork tn =
     \<lparr>tn_DnsAddrsMap = tn_DnsAddrsMap tn, tn_Address = tn_Address tn, tn_TokenAddress = tn_TokenAddress tn,
      tn_NetworkGraph = tn_NetworkGraph tn, tn_ChannelsMap = tn_ChannelsMap tn,
      tn_PartnerAddressesToChannels = tn_PartnerAddressesToChannels tn, tn_FeeScheduleMap = []\<rparr>"

definition DeepCopyPaymentNetwork :: "PaymentNetworkState \<Rightarrow> PaymentNetworkState" where
  "DeepCopyPaymentNetwork pn =
     \<lparr>pn_Address = pn_Address pn,
      pn_TokenIdentifiersToTokenNetworks =
        map (\<lambda>(k, tn). (k, DeepCopyTokenNetwork tn)) (pn_TokenIdentifiersToTokenNetworks pn),
      pn_TokenAddressesToTokenIdentifiers = pn_TokenAddressesToTokenIdentifiers pn\<rparr>"

definition DeepCopy :: "ChainState option \<Rightarrow> ChainState option" where
  "DeepCopy src =
     (case src of
        None \<Rightarrow> None
      | Some chain \<Rightarrow> Some
          \<lparr>ch_BlockHeight = ch_BlockHeight chain, ch_ChainId = ch_ChainId chain,
           ch_IdentifiersToPaymentNetworks =
             map (\<lambda>(k, pn). (k, DeepCopyPaymentNetwork pn)) (ch_IdentifiersToPaymentNetworks chain),
           ch_Address = ch_Address chain, ch_SecretHashesToTask = ch_SecretHashesToTask chain,
           ch_PendingTransactions = ch_PendingTransactions chain, ch_QueueIdsToQueues = ch_QueueIdsToQueues chain\<rparr>)"

definition AdjustPaymentNetworkState :: "ranges \<Rightarrow> PaymentNetworkState \<Rightarrow> PaymentNetworkState" where
  "AdjustPaymentNetworkState r pn =
     (let networks = map (\<lambda>(k, tn). (k, AdjustTokenNetworkState r tn)) (pn_TokenIdentifiersToTokenNetworks pn)
      in pn\<lparr>pn_TokenIdentifiersToTokenNetworks := networks,
            pn_TokenAddressesToTokenIdentifiers :=
              foldl (\<lambda>m k. case smap_load networks k of
                       None \<Rightarrow> m | Some tn \<Rightarrow> smap_store (tn_TokenAddress tn) (tn_Address tn) m)
                [] (rg_TokenNetworks r (map fst networks))\<rparr>)"

definition AdjustChainState :: "ranges \<Rightarrow> ChainState \<Rightarrow> ChainState" where
  "AdjustChainState r chain = chain\<lparr>ch_IdentifiersToPaymentNetworks :=
     map (\<lambda>(k, pn). (k, AdjustPaymentNetworkState r pn)) (ch_IdentifiersToPaymentNetworks chain)\<rparr>"

section \<open>Tables\<close>

record SQLiteStorage =
  st_sequence :: nat
  st_state_changes :: "(nat \<times> byte list) list"
  st_state_snapshot :: "(nat \<times> byte list) list"
  st_state_events :: "(nat \<times> byte list) list"

text \<open>
  \<open>jsonext.Marshal\<close> and \<open>UnmarshalExt\<close>; reading fails with \<open>None\<close>. \<open>cd_Extract\<close> is the function
  \<open>json_extract\<close> of SQLite on the stored text, \<open>None\<close> its NULL.
\<close>

datatype (plugins only: code) SqlValue = SqlInteger int | SqlText string

record codec =
  cd_MarshalChange :: "NodeChange \<Rightarrow> byte list"
  cd_UnmarshalChange :: "byte list \<Rightarrow> NodeChange option"
  cd_MarshalState :: "ChainState option \<Rightarrow> byte list"
  cd_UnmarshalState :: "byte list \<Rightarrow> ChainState option"
  cd_MarshalEvent :: "Event \<Rightarrow> byte list"
  cd_UnmarshalEvent :: "byte list \<Rightarrow> Event option"
  cd_Extract :: "byte list \<Rightarrow> string \<Rightarrow> SqlValue option"

text \<open>The identifier of a state change as the callers give it: the string \<open>"latest"\<close> or a number.\<close>

datatype (plugins only: code) ChangeIdentifier = Latest | Identifier nat

definition NewSQLiteStorage :: SQLiteStorage where
  "NewSQLiteStorage = \<lparr>st_sequence = 0, st_state_changes = [], st_state_snapshot = [], st_state_events = []\<rparr>"

definition writeStateChange :: "codec \<Rightarrow> NodeChange \<Rightarrow> SQLiteStorage \<Rightarrow> SQLiteStorage \<times> nat" where
  "writeStateChange c stateChange st =
     (let lastRowId = st_sequence st + 1
      in (st\<lparr>st_sequence := lastRowId,
             st_state_changes := st_state_changes st @ [(lastRowId, cd_MarshalChange c stateChange)]\<rparr>, lastRowId))"

definition writeStateSnapshot :: "codec \<Rightarrow> nat \<Rightarrow> ChainState option \<Rightarrow> SQLiteStorage \<Rightarrow> SQLiteStorage" where
  "writeStateSnapshot c stateChangeId snapshot st =
     st\<lparr>st_state_snapshot := st_state_snapshot st @ [(stateChangeId, cd_MarshalState c snapshot)]\<rparr>"

definition writeEvents :: "codec \<Rightarrow> nat \<Rightarrow> Event list \<Rightarrow> SQLiteStorage \<Rightarrow> SQLiteStorage" where
  "writeEvents c stateChangeId events st =
     st\<lparr>st_state_events := st_state_events st @ map (\<lambda>ev. (stateChangeId, cd_MarshalEvent c ev)) events\<rparr>"

definition CountStateChanges :: "SQLiteStorage \<Rightarrow> nat" where
  "CountStateChanges st = st_sequence st"

text \<open>The last row of those a query selects, 0 and nil when there is none or it cannot be read.\<close>

definition getSnapshotClosestToStateChange :: "codec \<Rightarrow> SQLiteStorage \<Rightarrow> ChangeIdentifier \<Rightarrow> nat \<times> ChainState option" where
  "getSnapshotClosestToStateChange c st stateChangeId =
     (let realStateChangeId =
            (case stateChangeId of
               Latest \<Rightarrow> (if st_state_changes st = [] then 0 else fst (last (st_state_changes st)))
             | Identifier n \<Rightarrow> n);
          rows = filter (\<lambda>(i, _). i \<le> realStateChangeId) (st_state_snapshot st)
      in if rows = [] then (0, None)
         else case cd_UnmarshalState c (snd (last rows)) of
                Some snapshotState \<Rightarrow> (fst (last rows), Some snapshotState)
              | None \<Rightarrow> (0, None))"

text \<open>With \<open>"latest"\<close> the rows after \<open>fromId\<close>, with a number those \<open>BETWEEN\<close> both bounds. A row that cannot be read is skipped.\<close>

definition getStateChangesById :: "codec \<Rightarrow> SQLiteStorage \<Rightarrow> nat \<Rightarrow> ChangeIdentifier \<Rightarrow> NodeChange list" where
  "getStateChangesById c st fromId toId =
     (let rows = (case toId of
                    Latest \<Rightarrow> filter (\<lambda>(i, _). fromId < i) (st_state_changes st)
                  | Identifier n \<Rightarrow> filter (\<lambda>(i, _). fromId \<le> i \<and> i \<le> n) (st_state_changes st))
      in List.map_filter (\<lambda>(_, d). cd_UnmarshalChange c d) rows)"

section \<open>The state manager and the log\<close>

text \<open>
  The transition gets the seed. The outer option of its result is a panic, the inner one the nil iteration,
  after which the state is kept.
\<close>

type_synonym transition = "nat \<Rightarrow> ChainState option \<Rightarrow> NodeChange \<Rightarrow> (ChainState \<times> Event list) option option"

definition Dispatch :: "transition \<Rightarrow> nat \<Rightarrow> ChainState option \<Rightarrow> NodeChange \<Rightarrow> (ChainState option \<times> Event list) option" where
  "Dispatch transition seed currentState stateChange =
     do { iteration \<leftarrow> transition seed (DeepCopy currentState) stateChange;
          Some (case iteration of
                  None \<Rightarrow> (currentState, [])
                | Some (newState, events) \<Rightarrow> (Some newState, events)) }"

record WriteAheadLog =
  wal_CurrentState :: "ChainState option"
  wal_StateChangeId :: nat
  wal_Storage :: SQLiteStorage

fun replayChanges :: "transition \<Rightarrow> nat \<Rightarrow> NodeChange list \<Rightarrow> ChainState option \<Rightarrow> ChainState option option" where
  "replayChanges transition seed [] state = Some state"
| "replayChanges transition seed (change # changes) state =
     do { (state, _) \<leftarrow> Dispatch transition seed state change;
          replayChanges transition (seed + 1) changes state }"

definition RestoreToStateChange ::
  "transition \<Rightarrow> codec \<Rightarrow> ranges \<Rightarrow> SQLiteStorage \<Rightarrow> ChangeIdentifier \<Rightarrow> WriteAheadLog option" where
  "RestoreToStateChange transition c r storage stateChangeIdentifier =
     (let (fromStateChangeId, snapshot) = getSnapshotClosestToStateChange c storage stateChangeIdentifier;
          unAppliedStateChanges = getStateChangesById c storage fromStateChangeId stateChangeIdentifier
      in do { state \<leftarrow> replayChanges transition (fromStateChangeId + 1) unAppliedStateChanges
                         (map_option (AdjustChainState r) snapshot);
              Some \<lparr>wal_CurrentState = state, wal_StateChangeId = 0, wal_Storage = storage\<rparr> })"

text \<open>
  The change is in the log before it is dispatched. The events are \<open>None\<close> when the dispatch panics.
\<close>

definition LogAndDispatch :: "transition \<Rightarrow> codec \<Rightarrow> NodeChange \<Rightarrow> WriteAheadLog \<Rightarrow> WriteAheadLog \<times> Event list option" where
  "LogAndDispatch transition c stateChange wal =
     (let (storage, stateChangeId) = writeStateChange c stateChange (wal_Storage wal);
          wal = wal\<lparr>wal_StateChangeId := stateChangeId, wal_Storage := storage\<rparr>
      in case Dispatch transition stateChangeId (wal_CurrentState wal) stateChange of
           None \<Rightarrow> (wal, None)
         | Some (state, events) \<Rightarrow>
             (wal\<lparr>wal_CurrentState := state, wal_Storage := writeEvents c stateChangeId events storage\<rparr>, Some events))"

definition Snapshot :: "codec \<Rightarrow> WriteAheadLog \<Rightarrow> WriteAheadLog" where
  "Snapshot c wal =
     (if wal_StateChangeId wal \<noteq> 0
      then wal\<lparr>wal_Storage := writeStateSnapshot c (wal_StateChangeId wal) (wal_CurrentState wal) (wal_Storage wal)\<rparr>
      else wal)"

text \<open>\<open>ChannelStateUntilStateChange\<close> of \<open>storage/restore.go\<close>.\<close>

definition ChannelStateUntilStateChange ::
  "env \<Rightarrow> transition \<Rightarrow> codec \<Rightarrow> ranges \<Rightarrow> SQLiteStorage \<Rightarrow> ChannelID \<Rightarrow> nat \<Rightarrow> NettingChannelState option option" where
  "ChannelStateUntilStateChange e transition c r storage channelId stateChangeIdentifier =
     do { wal \<leftarrow> RestoreToStateChange transition c r storage (Identifier stateChangeIdentifier);
          chainState \<leftarrow> wal_CurrentState wal;
          Some (GetChannelStateByTokenNetworkId e chainState (USDT_CONTRACT_ADDRESS e) channelId) }"

end
