(* ===== verification/Pylons_Wal.thy ===== *)
theory Pylons_Wal
  imports Pylons_Storage Pylons_NodeProperties
begin

text \<open>
  Restarts. A run logs and dispatches state changes, takes snapshots, and may stop, or panic, and restore the state from the
  storage at any point; the lemmas relate what a restart brings back to the log.

  Every dispatch of a run may use a transition of its own: the order in which Go visits a map, the message ids that are drawn
  and the answers of the DNS contract are not the same when a change is dispatched again. And nothing is assumed of the text a value is
  stored as: a restart gets what the text is read back as. (\<open>jsonext\<close> writes a \<open>sync.Map\<close> as an empty
  object, so the routing graph and the pending locks of a snapshot are gone: \<open>snapshot_loses_locks\<close>.)
\<close>

section \<open>Runs\<close>

text \<open>
  \<open>logged T c wal hist snaps\<close>: a run has logged the changes \<open>hist\<close> and taken the snapshots
  \<open>snaps\<close>, in any number of sessions, with transitions and orders from \<open>T\<close>.
\<close>

inductive logged ::
  "(transition \<times> ranges) set \<Rightarrow> codec \<Rightarrow> WriteAheadLog \<Rightarrow> NodeChange list \<Rightarrow> (nat \<times> ChainState option) list \<Rightarrow> bool"
  for T c where
  new: "logged T c \<lparr>wal_CurrentState = None, wal_StateChangeId = 0, wal_Storage = NewSQLiteStorage\<rparr> [] []"
| dispatch: "logged T c wal hist snaps \<Longrightarrow> (t, r) \<in> T \<Longrightarrow> LogAndDispatch t c sc wal = (wal', Some evs)
    \<Longrightarrow> logged T c wal' (hist @ [sc]) snaps"
| snapshot: "logged T c wal hist snaps \<Longrightarrow> wal_StateChangeId wal \<noteq> 0
    \<Longrightarrow> logged T c (Snapshot c wal) hist (snaps @ [(wal_StateChangeId wal, wal_CurrentState wal)])"
| restart: "logged T c wal hist snaps \<Longrightarrow> (t, r) \<in> T \<Longrightarrow> RestoreToStateChange t c r (wal_Storage wal) Latest = Some wal'
    \<Longrightarrow> logged T c wal' hist snaps"
| crash: "logged T c wal hist snaps \<Longrightarrow> (t, r) \<in> T \<Longrightarrow> LogAndDispatch t c sc wal = (wal1, None) \<Longrightarrow> (t', r') \<in> T
    \<Longrightarrow> RestoreToStateChange t' c r' (wal_Storage wal1) Latest = Some wal' \<Longrightarrow> logged T c wal' (hist @ [sc]) snaps"

inductive_cases loggedE: "logged T c wal hist snaps"

lemma replayChanges_append:
  "replayChanges t n (xs @ ys) s = (replayChanges t n xs s \<bind> replayChanges t (n + length xs) ys)"
  by (induction xs arbitrary: n s) (auto simp: case_prod_beta split: bind_splits)

text \<open>The rows of the log, numbered from 1.\<close>

definition rows :: "codec \<Rightarrow> NodeChange list \<Rightarrow> (nat \<times> byte list) list" where
  "rows c hist = enumerate 1 (map (cd_MarshalChange c) hist)"

lemma rows_append [simp]:
  "rows c (hist @ [sc]) = rows c hist @ [(Suc (length hist), cd_MarshalChange c sc)]"
  by (simp add: rows_def enumerate_append_eq)

lemma rows_Nil_iff [simp]: "rows c hist = [] \<longleftrightarrow> hist = []"
  by (cases hist) (simp_all add: rows_def)

lemma rows_bound: "(i, d) \<in> set (rows c hist) \<Longrightarrow> i \<le> length hist"
  by (auto simp: rows_def in_set_enumerate_eq)

lemma last_rows: "hist \<noteq> [] \<Longrightarrow> fst (last (rows c hist)) = length hist"
  by (cases hist rule: rev_exhaust) simp_all

text \<open>What a logged change is read back as; a text that cannot be read is skipped.\<close>

definition readBack :: "codec \<Rightarrow> NodeChange list \<Rightarrow> NodeChange list" where
  "readBack c hist = List.map_filter (\<lambda>sc. cd_UnmarshalChange c (cd_MarshalChange c sc)) hist"

lemma readBack_append [simp]: "readBack c (xs @ ys) = readBack c xs @ readBack c ys"
  by (simp add: readBack_def map_filter_def)

lemma read_rows:
  assumes "n \<le> length hist"
  shows "List.map_filter (\<lambda>(_, d). cd_UnmarshalChange c d) (filter (\<lambda>(i, _). k < i \<and> i \<le> n) (rows c hist))
    = readBack c (drop k (take n hist))"
  using assms
proof (induction hist arbitrary: n rule: rev_induct)
  case Nil
  then show ?case by (simp add: rows_def readBack_def map_filter_simps)
next
  case (snoc sc hist)
  show ?case
  proof (cases "n = Suc (length hist)")
    case True
    have e: "filter (\<lambda>(i, _). k < i \<and> i \<le> n) (rows c hist) = filter (\<lambda>(i, _). k < i \<and> i \<le> length hist) (rows c hist)"
      using True by (intro filter_cong) (auto dest: rows_bound)
    have "List.map_filter (\<lambda>(_, d). cd_UnmarshalChange c d) (filter (\<lambda>(i, _). k < i \<and> i \<le> length hist) (rows c hist))
        = readBack c (drop k hist)"
      using snoc.IH [of "length hist"] by simp
    with True e show ?thesis by (cases "k \<le> length hist") (auto simp: map_filter_def readBack_def)
  next
    case False
    then have "n \<le> length hist" using snoc.prems by simp
    with snoc.IH [of n] show ?thesis by (simp add: map_filter_def)
  qed
qed

section \<open>The storage of a run\<close>

definition stored :: "codec \<Rightarrow> SQLiteStorage \<Rightarrow> NodeChange list \<Rightarrow> (nat \<times> ChainState option) list \<Rightarrow> bool" where
  "stored c st hist snaps \<longleftrightarrow>
     st_sequence st = length hist
   \<and> st_state_changes st = rows c hist
   \<and> st_state_snapshot st = map (\<lambda>(k, s). (k, cd_MarshalState c s)) snaps
   \<and> (\<forall>(k, s) \<in> set snaps. 0 < k \<and> k \<le> length hist)"

lemma stored_new: "stored c NewSQLiteStorage [] []"
  by (simp add: stored_def NewSQLiteStorage_def rows_def)

lemma stored_append:
  assumes "stored c st hist snaps" and "writeStateChange c sc st = (st', n)"
  shows "stored c st' (hist @ [sc]) snaps \<and> n = Suc (length hist)"
  using assms by (auto simp: stored_def writeStateChange_def Let_def)

lemma stored_events [simp]: "stored c (writeEvents c n evs st) hist snaps \<longleftrightarrow> stored c st hist snaps"
  by (simp add: stored_def writeEvents_def)

lemma LogAndDispatch_stored:
  assumes "stored c (wal_Storage wal) hist snaps" and "LogAndDispatch t c sc wal = (wal', evs)"
  shows "stored c (wal_Storage wal') (hist @ [sc]) snaps \<and> wal_StateChangeId wal' = Suc (length hist)"
proof -
  obtain st n where w: "writeStateChange c sc (wal_Storage wal) = (st, n)" by fastforce
  from stored_append [OF assms(1) w] assms(2) show ?thesis
    by (auto simp: LogAndDispatch_def w Let_def split: option.splits)
qed

lemma RestoreToStateChange_storage:
  "RestoreToStateChange t c r st which = Some wal \<Longrightarrow> wal_Storage wal = st \<and> wal_StateChangeId wal = 0"
  by (auto simp: RestoreToStateChange_def split: prod.splits bind_splits)

lemma logged_stored:
  "logged T c wal hist snaps \<Longrightarrow> stored c (wal_Storage wal) hist snaps \<and> wal_StateChangeId wal \<in> {0, length hist}"
proof (induction rule: logged.induct)
  case new
  show ?case by (simp add: stored_new)
next
  case (dispatch wal hist snaps t r sc wal' evs)
  then show ?case using LogAndDispatch_stored by auto
next
  case (snapshot wal hist snaps)
  then show ?case by (auto simp: stored_def Snapshot_def writeStateSnapshot_def)
next
  case (restart wal hist snaps t r wal')
  then show ?case using RestoreToStateChange_storage by auto
next
  case (crash wal hist snaps t r sc wal1 t' r' wal')
  then show ?case using LogAndDispatch_stored RestoreToStateChange_storage by fastforce
qed

text \<open>The snapshot a restart starts from: the last one, or none when it cannot be read.\<close>

definition lastSnapshot :: "codec \<Rightarrow> (nat \<times> ChainState option) list \<Rightarrow> nat \<times> ChainState option" where
  "lastSnapshot c snaps =
     (if snaps = [] then (0, None)
      else case cd_UnmarshalState c (cd_MarshalState c (snd (last snaps))) of
             Some s \<Rightarrow> (fst (last snaps), Some s)
           | None \<Rightarrow> (0, None))"

lemma latest_snapshot:
  assumes "stored c st hist snaps"
  shows "getSnapshotClosestToStateChange c st Latest = lastSnapshot c snaps"
proof -
  have "(case Latest of Latest \<Rightarrow> (if st_state_changes st = [] then 0 else fst (last (st_state_changes st))) | Identifier n \<Rightarrow> n)
      = length hist"
    using assms last_rows [of hist c] by (simp add: stored_def)
  moreover have "filter (\<lambda>(i, _). i \<le> length hist) (st_state_snapshot st) = map (\<lambda>(k, s). (k, cd_MarshalState c s)) snaps"
    using assms by (auto simp: stored_def intro!: filter_True)
  ultimately show ?thesis
    by (simp add: getSnapshotClosestToStateChange_def lastSnapshot_def last_map case_prod_unfold split: option.split)
qed

lemma latest_rows:
  "filter (\<lambda>(i, _). k < i) (rows c hist) = filter (\<lambda>(i, _). k < i \<and> i \<le> length hist) (rows c hist)"
  by (auto dest: rows_bound intro!: filter_cong)

lemma restore_latest:
  assumes "stored c st hist snaps"
  shows "RestoreToStateChange t c r st Latest =
     (let (k, s) = lastSnapshot c snaps
      in map_option (\<lambda>s. \<lparr>wal_CurrentState = s, wal_StateChangeId = 0, wal_Storage = st\<rparr>)
           (replayChanges t (k + 1) (readBack c (drop k hist)) (map_option (AdjustChainState r) s)))"
proof -
  obtain k s where ks: "lastSnapshot c snaps = (k, s)" by fastforce
  have "getStateChangesById c st k Latest = readBack c (drop k hist)"
    using read_rows [of "length hist" hist c k] assms latest_rows [of k c hist]
    by (simp add: getStateChangesById_def stored_def)
  then show ?thesis
    by (cases "replayChanges t (k + 1) (readBack c (drop k hist)) (map_option (AdjustChainState r) s)")
      (simp_all add: RestoreToStateChange_def latest_snapshot [OF assms] ks)
qed

section \<open>Restarts\<close>


section \<open>When everything reads back\<close>

text \<open>
  What is lost at a restart is lost in the texts and by the new draws, not by the log: were every text read as what was
  written, up to what \<open>AdjustChainState\<close> rebuilds, and every change dispatched with the same transition again, a node that is
  restarted would be in the state of one that never was. The codec of the code does not satisfy the hypothesis \<open>reads_back\<close>.
\<close>

definition reads_back :: "codec \<Rightarrow> ranges \<Rightarrow> NodeChange list \<Rightarrow> (nat \<times> ChainState option) list \<Rightarrow> bool" where
  "reads_back c r hist snaps \<longleftrightarrow>
     (\<forall>sc \<in> set hist. cd_UnmarshalChange c (cd_MarshalChange c sc) = Some sc)
   \<and> (\<forall>(k, s) \<in> set snaps. map_option (AdjustChainState r) (cd_UnmarshalState c (cd_MarshalState c s)) = s)"

lemma reads_back_append:
  "reads_back c r (hist @ [sc]) snaps \<longleftrightarrow>
     reads_back c r hist snaps \<and> cd_UnmarshalChange c (cd_MarshalChange c sc) = Some sc"
  "reads_back c r hist (snaps @ [(k, s)]) \<longleftrightarrow> reads_back c r hist snaps
     \<and> map_option (AdjustChainState r) (cd_UnmarshalState c (cd_MarshalState c s)) = s"
  by (auto simp: reads_back_def)

lemma readBack_all: "reads_back c r hist snaps \<Longrightarrow> set xs \<subseteq> set hist \<Longrightarrow> readBack c xs = xs"
  by (induction xs) (auto simp: readBack_def reads_back_def map_filter_simps)

definition replayed :: "transition \<Rightarrow> NodeChange list \<Rightarrow> (nat \<times> ChainState option) list \<Rightarrow> bool" where
  "replayed t hist snaps \<longleftrightarrow> (\<forall>(k, s) \<in> set snaps. replayChanges t 1 (take k hist) None = Some s)"

lemma restore_replays_all:
  assumes "stored c st hist snaps" and "reads_back c r hist snaps" and "replayed t hist snaps"
  shows "RestoreToStateChange t c r st Latest =
     map_option (\<lambda>s. \<lparr>wal_CurrentState = s, wal_StateChangeId = 0, wal_Storage = st\<rparr>) (replayChanges t 1 hist None)"
proof -
  obtain k s where ks: "lastSnapshot c snaps = (k, s)" by fastforce
  have k: "k \<le> length hist \<and> replayChanges t 1 (take k hist) None = Some (map_option (AdjustChainState r) s)"
  proof (cases "snaps = []")
    case False
    obtain k' s' where l: "last snaps = (k', s')" by fastforce
    with last_in_set [OF False] have "(k', s') \<in> set snaps" by simp
    with assms have "k' \<le> length hist" "replayChanges t 1 (take k' hist) None = Some s'"
        "map_option (AdjustChainState r) (cd_UnmarshalState c (cd_MarshalState c s')) = s'"
      by (auto simp: stored_def replayed_def reads_back_def)
    with ks l False show ?thesis by (cases "cd_UnmarshalState c (cd_MarshalState c s')") (auto simp: lastSnapshot_def)
  qed (use ks in \<open>simp add: lastSnapshot_def\<close>)
  have "readBack c (drop k hist) = drop k hist" using readBack_all [OF assms(2)] set_drop_subset by metis
  moreover have "replayChanges t 1 hist None = replayChanges t (k + 1) (drop k hist) (map_option (AdjustChainState r) s)"
    using replayChanges_append [of t 1 "take k hist" "drop k hist" None] k by simp
  ultimately show ?thesis by (simp add: restore_latest [OF assms(1)] ks)
qed

lemma LogAndDispatch_replays:
  assumes "stored c (wal_Storage wal) hist snaps" and "LogAndDispatch t c sc wal = (wal', evs)"
    and "replayChanges t 1 hist None = Some (wal_CurrentState wal)"
  shows "replayChanges t 1 (hist @ [sc]) None = (if evs = None then None else Some (wal_CurrentState wal'))"
proof -
  obtain st n where w: "writeStateChange c sc (wal_Storage wal) = (st, n)" by fastforce
  from stored_append [OF assms(1) w] assms(2,3) show ?thesis
    by (auto simp: LogAndDispatch_def w Let_def replayChanges_append split: option.splits)
qed

lemma replayed_append:
  "stored c st hist snaps \<Longrightarrow> replayed t hist snaps \<Longrightarrow> replayed t (hist @ [sc]) snaps"
  by (fastforce simp: replayed_def stored_def)

lemma logged_replays:
  "logged {(t, r)} c wal hist snaps \<Longrightarrow> reads_back c r hist snaps \<Longrightarrow>
    replayed t hist snaps \<and> replayChanges t 1 hist None = Some (wal_CurrentState wal)"
proof (induction rule: logged.induct)
  case new
  show ?case by (simp add: replayed_def)
next
  case (dispatch wal hist snaps t' r' sc wal' evs)
  note st = logged_stored [OF dispatch.hyps(1), THEN conjunct1]
  from dispatch LogAndDispatch_replays [OF st, of t sc wal' "Some evs"] replayed_append [OF st] show ?case
    by (simp add: reads_back_append)
next
  case (snapshot wal hist snaps)
  with logged_stored [OF snapshot.hyps(1)] show ?case by (auto simp: reads_back_append replayed_def Snapshot_def)
next
  case (restart wal hist snaps t' r' wal')
  with restore_replays_all [of c "wal_Storage wal" hist snaps r t] logged_stored [OF restart.hyps(1)] show ?case by auto
next
  case (crash wal hist snaps t1 r1 sc wal1 t2 r2 wal')
  have rb: "reads_back c r hist snaps" using crash.prems by (simp add: reads_back_append)
  note st = logged_stored [OF crash.hyps(1), THEN conjunct1]
  note s1 = LogAndDispatch_stored [OF st crash.hyps(3), THEN conjunct1]
  have "replayChanges t 1 (hist @ [sc]) None = None"
    using LogAndDispatch_replays [OF st, of t sc wal1 None] crash rb by simp
  moreover have "replayed t (hist @ [sc]) snaps" using replayed_append [OF st] crash.IH rb by blast
  ultimately have "RestoreToStateChange t c r (wal_Storage wal1) Latest = None"
    using restore_replays_all [OF s1 crash.prems] by simp
  with crash.hyps show ?case by simp
qed

lemma restarts_are_transparent:
  assumes "logged {(t, r)} c wal hist snaps" and "reads_back c r hist snaps"
  shows "replayChanges t 1 hist None = Some (wal_CurrentState wal)
    \<and> map_option wal_CurrentState (RestoreToStateChange t c r (wal_Storage wal) Latest) = Some (wal_CurrentState wal)"
  using logged_replays [OF assms] restore_replays_all [OF _ assms(2)] logged_stored [OF assms(1)] by auto

text \<open>
  Restoring up to a numbered change starts at the change of the snapshot, which the snapshot already contains:
  that change is dispatched a second time.
\<close>

theorem restore_number_repeats:
  assumes "logged T c wal hist snaps" and "n \<le> length hist"
    and "getSnapshotClosestToStateChange c (wal_Storage wal) (Identifier n) = (k, Some x)" and "0 < k" and "k \<le> n"
  shows "map_option wal_CurrentState (RestoreToStateChange t c r (wal_Storage wal) (Identifier n)) =
      replayChanges t (k + 1) (readBack c (hist ! (k - 1) # drop k (take n hist))) (Some (AdjustChainState r x))"
proof -
  have st: "stored c (wal_Storage wal) hist snaps" using logged_stored [OF assms(1)] by simp
  have "filter (\<lambda>(i, _). k \<le> i \<and> i \<le> n) (rows c hist) = filter (\<lambda>(i, _). k - 1 < i \<and> i \<le> n) (rows c hist)"
    using assms(4) by (intro filter_cong) auto
  then have "getStateChangesById c (wal_Storage wal) k (Identifier n) = readBack c (drop (k - 1) (take n hist))"
    using read_rows [of n hist c "k - 1"] assms(2) st by (simp add: getStateChangesById_def stored_def)
  moreover have "drop (k - 1) (take n hist) = hist ! (k - 1) # drop k (take n hist)"
    using assms(2,4,5) Cons_nth_drop_Suc [of "k - 1" "take n hist"] by simp
  ultimately show ?thesis
    by (cases "replayChanges t (k + 1) (readBack c (hist ! (k - 1) # drop k (take n hist))) (Some (AdjustChainState r x))")
      (simp_all add: RestoreToStateChange_def assms(3) del: replayChanges.simps)
qed

section \<open>What jsonext loses\<close>

text \<open>
  \<open>jsonext\<close> writes a \<open>sync.Map\<close>, which has no exported field, as an empty object and reads that as an empty map. The routing graph of
  a token network and the three maps of locks of the sides of a channel are such maps.
\<close>

definition withoutLocks :: "NettingChannelEndState \<Rightarrow> NettingChannelEndState" where
  "withoutLocks es = es\<lparr>es_LockedLocks := [], es_UnLockedLocks := [], es_OnChainUnLockedLocks := []\<rparr>"

definition withoutChannelMaps :: "NettingChannelState \<Rightarrow> NettingChannelState" where
  "withoutChannelMaps cs = cs\<lparr>cs_OurState := withoutLocks (cs_OurState cs), cs_PartnerState := withoutLocks (cs_PartnerState cs)\<rparr>"

definition withoutNetworkMaps :: "TokenNetworkState \<Rightarrow> TokenNetworkState" where
  "withoutNetworkMaps tn =
     tn\<lparr>tn_NetworkGraph := (tn_NetworkGraph tn)\<lparr>gr_Nodes := [], gr_Edges := []\<rparr>,
        tn_ChannelsMap := map (\<lambda>(k, cs). (k, withoutChannelMaps cs)) (tn_ChannelsMap tn)\<rparr>"

definition withoutMaps :: "ChainState \<Rightarrow> ChainState" where
  "withoutMaps chain = chain\<lparr>ch_IdentifiersToPaymentNetworks :=
     map (\<lambda>(p, pn). (p, pn\<lparr>pn_TokenIdentifiersToTokenNetworks :=
         map (\<lambda>(t, tn). (t, withoutNetworkMaps tn)) (pn_TokenIdentifiersToTokenNetworks pn)\<rparr>))
       (ch_IdentifiersToPaymentNetworks chain)\<rparr>"

lemma smap_load_map: "smap_load (map (\<lambda>(k, v). (k, f v)) m) k = map_option f (smap_load m k)"
  by (induction m) (auto simp: smap_load_def)

text \<open>Of the state changes, those that carry a network or a channel lose its maps.\<close>

definition changeWithoutMaps :: "NodeChange \<Rightarrow> NodeChange" where
  "changeWithoutMaps sc =
     (case sc of
        ND_ActionNewTokenNetwork p tn \<Rightarrow> ND_ActionNewTokenNetwork p (withoutNetworkMaps tn)
      | ND_ContractReceiveNewTokenNetwork p tn \<Rightarrow> ND_ContractReceiveNewTokenNetwork p (withoutNetworkMaps tn)
      | ND_ContractReceiveNewPaymentNetwork pn \<Rightarrow> ND_ContractReceiveNewPaymentNetwork (pn\<lparr>pn_TokenIdentifiersToTokenNetworks :=
          map (\<lambda>(t, tn). (t, withoutNetworkMaps tn)) (pn_TokenIdentifiersToTokenNetworks pn)\<rparr>)
      | ND_Network (NC_ContractReceiveChannelNew x) \<Rightarrow>
          ND_Network (NC_ContractReceiveChannelNew (x\<lparr>ccn_ChannelState := withoutChannelMaps (ccn_ChannelState x)\<rparr>))
      | _ \<Rightarrow> sc)"

lemma Adjust_load:
  "smap_load (ch_IdentifiersToPaymentNetworks (AdjustChainState r chain)) p =
     map_option (AdjustPaymentNetworkState r) (smap_load (ch_IdentifiersToPaymentNetworks chain) p)"
  "smap_load (pn_TokenIdentifiersToTokenNetworks (AdjustPaymentNetworkState r pn)) t =
     map_option (AdjustTokenNetworkState r) (smap_load (pn_TokenIdentifiersToTokenNetworks pn) t)"
  "tn_ChannelsMap (AdjustTokenNetworkState r tn) = tn_ChannelsMap tn"
proof -
  show "smap_load (ch_IdentifiersToPaymentNetworks (AdjustChainState r chain)) p =
     map_option (AdjustPaymentNetworkState r) (smap_load (ch_IdentifiersToPaymentNetworks chain) p)"
    by (simp add: AdjustChainState_def smap_load_map)
  show "smap_load (pn_TokenIdentifiersToTokenNetworks (AdjustPaymentNetworkState r pn)) t =
     map_option (AdjustTokenNetworkState r) (smap_load (pn_TokenIdentifiersToTokenNetworks pn) t)"
    by (simp add: AdjustPaymentNetworkState_def Let_def smap_load_map)
  show "tn_ChannelsMap (AdjustTokenNetworkState r tn) = tn_ChannelsMap tn"
    unfolding AdjustTokenNetworkState_def by (simp add: Adjust_fold(1))
qed

lemma withoutMaps_load:
  "smap_load (ch_IdentifiersToPaymentNetworks (withoutMaps chain)) p = map_option
     (\<lambda>pn. pn\<lparr>pn_TokenIdentifiersToTokenNetworks := map (\<lambda>(t, tn). (t, withoutNetworkMaps tn)) (pn_TokenIdentifiersToTokenNetworks pn)\<rparr>)
     (smap_load (ch_IdentifiersToPaymentNetworks chain) p)"
  "smap_load (tn_ChannelsMap (withoutNetworkMaps tn)) k = map_option withoutChannelMaps (smap_load (tn_ChannelsMap tn) k)"
  by (simp_all add: withoutMaps_def withoutNetworkMaps_def smap_load_map)

lemma withoutMaps_channels:
  assumes "smap_load (ch_IdentifiersToPaymentNetworks (AdjustChainState r (withoutMaps chain))) p = Some pn"
    and "smap_load (pn_TokenIdentifiersToTokenNetworks pn) t = Some tn" and "smap_load (tn_ChannelsMap tn) k = Some cs"
  shows "\<exists>cs'. cs = withoutChannelMaps cs'"
  using assms unfolding Adjust_load withoutMaps_load by (auto simp: Adjust_load withoutMaps_load smap_load_map) blast

text \<open>
  A node that is restarted from a snapshot has no lock pending in any channel, whatever it had: no lock can be
  unlocked, expire or be claimed on the chain any more, while the Merkle trees and the balance proofs still commit to them.
\<close>

theorem snapshot_loses_locks:
  assumes "logged T c wal hist snaps" and "snaps \<noteq> []" and "last snaps = (length hist, Some chain)"
    and "cd_UnmarshalState c (cd_MarshalState c (Some chain)) = Some (withoutMaps chain)"
  shows "\<exists>chain'. map_option wal_CurrentState (RestoreToStateChange t c r (wal_Storage wal) Latest) = Some (Some chain')
     \<and> every_channel (\<lambda>cs. pending (cs_OurState cs) = [] \<and> pending (cs_PartnerState cs) = []) chain'"
proof -
  have "lastSnapshot c snaps = (length hist, Some (withoutMaps chain))" using assms(2-4) by (simp add: lastSnapshot_def)
  then have "map_option wal_CurrentState (RestoreToStateChange t c r (wal_Storage wal) Latest) =
      Some (Some (AdjustChainState r (withoutMaps chain)))"
    using restore_latest [of c "wal_Storage wal" hist snaps t r] logged_stored [OF assms(1)]
    by (simp add: readBack_def map_filter_simps)
  moreover have "every_channel (\<lambda>cs. pending (cs_OurState cs) = [] \<and> pending (cs_PartnerState cs) = [])
      (AdjustChainState r (withoutMaps chain))"
    unfolding every_channel_def
    using withoutMaps_channels by (fastforce simp: withoutChannelMaps_def withoutLocks_def pending_def)
  ultimately show ?thesis by blast
qed

section \<open>The transition of the node\<close>

text \<open>
  What a transition draws may be another for every dispatch: the message ids, the orders of its loops over maps and the
  answers of the DNS contract are functions of the seed, the number of the change.
\<close>

definition nodeTransition ::
  "env \<Rightarrow> (nat \<Rightarrow> ranges) \<Rightarrow> (nat \<Rightarrow> SecretHash \<Rightarrow> nat \<Rightarrow> MessageID) \<Rightarrow> (nat \<Rightarrow> MessageID) \<Rightarrow> transition" where
  "nodeTransition e r ids msgId seed chainState stateChange =
     StateTransition e (r seed) (ids seed) chainState stateChange (msgId seed)"

lemma GetTokenNetworkByIdentifier_DeepCopy:
  "GetTokenNetworkByIdentifier e (the (DeepCopy (Some chain))) k =
     map_option DeepCopyTokenNetwork (GetTokenNetworkByIdentifier e chain k)"
  by (cases "smap_load (ch_IdentifiersToPaymentNetworks chain) (MicroPayContractAddress e)")
    (simp_all add: DeepCopy_def GetTokenNetworkByIdentifier_def smap_load_map DeepCopyPaymentNetwork_def)

text \<open>
  The state that a change is dispatched on is a copy without the fee schedules. So an acknowledgement, for one,
  which has nothing to do with fees, leaves no schedule in any token network.
\<close>

theorem fee_schedules_forgotten:
  assumes "Dispatch (nodeTransition e r ids msgId) seed (Some chain) (ND_ReceiveDelivered a m) = Some (Some chain', evs)"
    and "GetTokenNetworkByIdentifier e chain' k = Some tn"
  shows "tn_FeeScheduleMap tn = []"
proof -
  have "ch_IdentifiersToPaymentNetworks chain' = ch_IdentifiersToPaymentNetworks (the (DeepCopy (Some chain)))"
    using assms(1)
    by (auto simp: Dispatch_def nodeTransition_def StateTransition_def handleStateChangeForNode_def DeepCopy_def
        handleDelivered_def inPlaceDeleteMessageQueue_def updateQueues_def split: option.splits bind_splits)
  then have "GetTokenNetworkByIdentifier e chain' k = GetTokenNetworkByIdentifier e (the (DeepCopy (Some chain))) k"
    by (simp add: GetTokenNetworkByIdentifier_def)
  with assms(2) show ?thesis
    by (auto simp: GetTokenNetworkByIdentifier_DeepCopy DeepCopyTokenNetwork_def)
qed

section \<open>Sample\<close>

text \<open>A node is started, takes a snapshot, stops, starts again and receives an acknowledgement.\<close>

definition sample_init :: NodeChange where
  "sample_init = ND_ActionInitChain \<lparr>aic_BlockHeight = 0, aic_OurAddress = 1, aic_ChainId = 1\<rparr>"

definition sample_ack :: NodeChange where
  "sample_ack = ND_ReceiveDelivered 2 1"

definition sample_started :: ChainState where
  "sample_started = NewChainState\<lparr>ch_Address := 1, ch_ChainId := 1\<rparr>"

definition sample_codec :: codec where
  "sample_codec =
     \<lparr>cd_MarshalChange = (\<lambda>sc. case sc of ND_ActionInitChain _ \<Rightarrow> [0] | _ \<Rightarrow> [1]),
      cd_UnmarshalChange = (\<lambda>d. Some (if d = [0] then sample_init else sample_ack)),
      cd_MarshalState = (\<lambda>_. [2]), cd_UnmarshalState = (\<lambda>_. Some sample_started), cd_MarshalEvent = (\<lambda>_. [3]),
      cd_UnmarshalEvent = (\<lambda>_. None), cd_Extract = (\<lambda>_ _. None)\<rparr>"

abbreviation sample_transition :: transition where
  "sample_transition \<equiv> nodeTransition sample_env (\<lambda>_. sample_ranges) (\<lambda>_ _ _. 1) (\<lambda>_. 1)"

lemma sample_dispatch:
  "Dispatch (nodeTransition sample_env (\<lambda>_. sample_ranges) ids msgId) n None sample_init = Some (Some sample_started, [])"
  "Dispatch (nodeTransition sample_env (\<lambda>_. sample_ranges) ids msgId) n (Some sample_started) sample_ack = Some (Some sample_started, [])"
  by (simp_all add: Dispatch_def nodeTransition_def StateTransition_def handleStateChangeForNode_def sample_init_def
      sample_ack_def DeepCopy_def handleChainInit_def sample_started_def NewChainState_def updateQueues_def
      handleDelivered_def inPlaceDeleteMessageQueue_def smap_load_def)

lemma sample_logged:
  "\<exists>wal. logged {(sample_transition, sample_ranges)} sample_codec wal [sample_init, sample_ack] [(1, Some sample_started)]"
proof -
  let ?L = "logged {(sample_transition, sample_ranges)} sample_codec"
  let ?w0 = "\<lparr>wal_CurrentState = None, wal_StateChangeId = 0, wal_Storage = NewSQLiteStorage\<rparr>"
  obtain w1 where w1: "LogAndDispatch sample_transition sample_codec sample_init ?w0 = (w1, Some [])"
    and s1: "wal_CurrentState w1 = Some sample_started" "wal_StateChangeId w1 = 1"
    by (simp add: LogAndDispatch_def writeStateChange_def NewSQLiteStorage_def sample_dispatch Let_def)
  have r1: "?L w1 ([] @ [sample_init]) []" by (rule logged.dispatch [OF logged.new _ w1]) simp
  then have r2: "?L (Snapshot sample_codec w1) [sample_init] [(1, Some sample_started)]"
    using logged.snapshot [OF r1] s1 by simp
  have rb: "reads_back sample_codec sample_ranges [sample_init] [(1, Some sample_started)]"
    by (simp add: reads_back_def sample_codec_def sample_init_def AdjustChainState_def sample_started_def NewChainState_def)
  obtain w2 where w2: "RestoreToStateChange sample_transition sample_codec sample_ranges
      (wal_Storage (Snapshot sample_codec w1)) Latest = Some w2" and s2: "wal_CurrentState w2 = Some sample_started"
    using restarts_are_transparent [OF r2 rb] by (auto simp: sample_dispatch)
  have "\<exists>w3. LogAndDispatch sample_transition sample_codec sample_ack w2 = (w3, Some [])"
    using s2 by (simp add: LogAndDispatch_def writeStateChange_def sample_dispatch Let_def)
  then show ?thesis using logged.dispatch [OF logged.restart [OF r2 _ w2]] by fastforce
qed


end
