(* ===== verification/Pylons_Lookup.thy ===== *)
theory Pylons_Lookup
  imports Pylons_Storage
begin

text \<open>
  The queries over what is stored: \<open>storage/utils.go\<close> and the queries by fields of \<open>storage/sqlite.go\<close>. A query selects the
  rows whose text has given values at given paths, and the last of them is read. The settlement of a channel looks
  for the balance proof behind a balance hash in this way.
\<close>

section \<open>Values in a query\<close>

text \<open>\<open>strconv.AppendUint\<close> in base 10.\<close>

fun decimal :: "nat \<Rightarrow> string" where
  "decimal n = (if n < 10 then [char_of (48 + n)] else decimal (n div 10) @ [char_of (48 + n mod 10)])"

declare decimal.simps [simp del]

fun spaced :: "byte list \<Rightarrow> string" where
  "spaced [] = ''''"
| "spaced [b] = decimal (unat b)"
| "spaced (b # bs) = decimal (unat b) @ '' '' @ spaced bs"

text \<open>\<open>MarshalText\<close> of an array of bytes, and \<open>String\<close>: the text as a JSON string.\<close>

definition MarshalText :: "byte list \<Rightarrow> string" where
  "MarshalText bs = ''['' @ spaced bs @ '']''"

definition AddressString :: "Address \<Rightarrow> string" where
  "AddressString a = [CHR 0x22] @ MarshalText (addr_bytes a) @ [CHR 0x22]"

definition BalanceHashString :: "BalanceHash \<Rightarrow> string" where
  "BalanceHashString h = [CHR 0x22] @ MarshalText (hash_bytes h) @ [CHR 0x22]"

definition formatAddressForQuery :: "Address \<Rightarrow> string" where
  "formatAddressForQuery address = (let str = AddressString address in take (length str - 2) (drop 1 str))"

definition formatBalanceHashForQuery :: "BalanceHash \<Rightarrow> string" where
  "formatBalanceHashForQuery balanceHash = (let str = BalanceHashString balanceHash in take (length str - 2) (drop 1 str))"

definition formatLocksrootForQuery :: "LocksRoot \<Rightarrow> string" where
  "formatLocksrootForQuery locksRoot = (let str = BalanceHashString locksRoot in take (length str - 2) (drop 1 str))"

section \<open>Queries\<close>

text \<open>
  A filter is a list of paths and values; the order in which Go visits the map does not matter to a conjunction. A query
  with no field or more than three panics. Identifiers number the rows.
\<close>

type_synonym filters = "(string \<times> SqlValue) list"

record EventRecord =
  er_EventIdentifier :: nat
  er_StateChangeIdentifier :: nat
  er_Data :: "Event option"

record StateChangeRecord =
  sr_StateChangeIdentifier :: nat
  sr_Data :: "NodeChange option"

definition selects :: "codec \<Rightarrow> filters \<Rightarrow> byte list \<Rightarrow> bool" where
  "selects c filters data \<longleftrightarrow> list_all (\<lambda>(k, v). cd_Extract c data (''$.'' @ k) = Some v) filters"

definition GetLatestEventByDataField :: "codec \<Rightarrow> filters \<Rightarrow> SQLiteStorage \<Rightarrow> EventRecord option" where
  "GetLatestEventByDataField c filters st =
     (if length filters \<notin> {1, 2, 3} then None
      else let rows = filter (\<lambda>(_, _, data). selects c filters data) (enumerate 1 (st_state_events st));
               empty = \<lparr>er_EventIdentifier = 0, er_StateChangeIdentifier = 0, er_Data = None\<rparr>
           in Some (if rows = [] then empty
                    else case last rows of
                           (eventId, stateChangeId, data) \<Rightarrow>
                             (case cd_UnmarshalEvent c data of
                                None \<Rightarrow> empty
                              | Some ev \<Rightarrow> \<lparr>er_EventIdentifier = eventId, er_StateChangeIdentifier = stateChangeId,
                                            er_Data = Some ev\<rparr>)))"

definition GetLatestStateChangeByDataField :: "codec \<Rightarrow> filters \<Rightarrow> SQLiteStorage \<Rightarrow> StateChangeRecord option" where
  "GetLatestStateChangeByDataField c filters st =
     (if length filters \<notin> {1, 2, 3} then None
      else let rows = filter (\<lambda>(_, data). selects c filters data) (st_state_changes st);
               empty = \<lparr>sr_StateChangeIdentifier = 0, sr_Data = None\<rparr>
           in Some (if rows = [] then empty
                    else case cd_UnmarshalChange c (snd (last rows)) of
                           None \<Rightarrow> empty
                         | Some sc \<Rightarrow> \<lparr>sr_StateChangeIdentifier = fst (last rows), sr_Data = Some sc\<rparr>))"

text \<open>The rows from the last to the first; the first that cannot be read ends the list.\<close>

fun readEvents :: "codec \<Rightarrow> (nat \<times> nat \<times> byte list) list \<Rightarrow> EventRecord list" where
  "readEvents c [] = []"
| "readEvents c ((eventId, stateChangeId, data) # rows) =
     (case cd_UnmarshalEvent c data of
        None \<Rightarrow> []
      | Some ev \<Rightarrow> \<lparr>er_EventIdentifier = eventId, er_StateChangeIdentifier = stateChangeId, er_Data = Some ev\<rparr>
          # readEvents c rows)"

definition GetLatestEventsByDataField :: "codec \<Rightarrow> filters \<Rightarrow> SQLiteStorage \<Rightarrow> EventRecord list option" where
  "GetLatestEventsByDataField c filters st =
     (if length filters \<notin> {1, 2, 3} then None
      else Some (readEvents c (rev (filter (\<lambda>(_, _, data). selects c filters data) (enumerate 1 (st_state_events st))))))"

fun readStateChanges :: "codec \<Rightarrow> (nat \<times> byte list) list \<Rightarrow> StateChangeRecord list" where
  "readStateChanges c [] = []"
| "readStateChanges c ((stateChangeId, data) # rows) =
     (case cd_UnmarshalChange c data of
        None \<Rightarrow> []
      | Some sc \<Rightarrow> \<lparr>sr_StateChangeIdentifier = stateChangeId, sr_Data = Some sc\<rparr> # readStateChanges c rows)"

definition GetLatestStateChangesByDataField :: "codec \<Rightarrow> filters \<Rightarrow> SQLiteStorage \<Rightarrow> StateChangeRecord list option" where
  "GetLatestStateChangesByDataField c filters st =
     (if length filters \<notin> {1, 2, 3} then None
      else Some (readStateChanges c (rev (filter (\<lambda>(_, data). selects c filters data) (st_state_changes st)))))"

definition getLatestStateSnapshot :: "codec \<Rightarrow> SQLiteStorage \<Rightarrow> nat \<times> ChainState option" where
  "getLatestStateSnapshot c st =
     (if st_state_snapshot st = [] then (0, None)
      else case cd_UnmarshalState c (snd (last (st_state_snapshot st))) of
             None \<Rightarrow> (0, None)
           | Some snapshotState \<Rightarrow> (fst (last (st_state_snapshot st)), Some snapshotState))"

text \<open>The rows from \<open>offset\<close> on, at most \<open>limit\<close>; a negative limit is none, a negative offset is 0.\<close>

definition queryEvents :: "int \<Rightarrow> int \<Rightarrow> SQLiteStorage \<Rightarrow> (nat \<times> byte list) list" where
  "queryEvents limit offset st =
     (let rows = drop (nat offset) (st_state_events st) in if limit < 0 then rows else take (nat limit) rows)"

text \<open>The events of the rows that can be read; the time of a row is left out.\<close>

definition GetEventsWithTimestamps :: "codec \<Rightarrow> int \<Rightarrow> int \<Rightarrow> SQLiteStorage \<Rightarrow> Event list" where
  "GetEventsWithTimestamps c limit offset st =
     List.map_filter (\<lambda>(_, data). cd_UnmarshalEvent c data) (queryEvents limit offset st)"

text \<open>
  \<open>Scan\<close> copies the columns of a row into as many destinations, and fails for another number of them. A row of
  \<open>queryEvents\<close> has two columns, \<open>GetEvents\<close> gives one destination.
\<close>

definition scanRow :: "nat \<Rightarrow> 'a \<Rightarrow> 'a option" where
  "scanRow destinations row = (if destinations = 2 then Some row else None)"

definition GetEvents :: "codec \<Rightarrow> int \<Rightarrow> int \<Rightarrow> SQLiteStorage \<Rightarrow> Event list" where
  "GetEvents c limit offset st =
     List.map_filter (\<lambda>row. do { (_, data) \<leftarrow> scanRow 1 row; cd_UnmarshalEvent c data }) (queryEvents limit offset st)"

section \<open>Balance proofs\<close>

text \<open>The field \<open>BalanceProof\<close> of an event or a state change, or of the transfer it carries under the prefix.\<close>

datatype (plugins only: code) LoggedProof = Unsigned BalanceProofUnsignedState | Signed BalanceProofSignedState

primrec lp_ChannelId :: "LoggedProof \<Rightarrow> ChannelID" where
  "lp_ChannelId (Unsigned u) = bu_ChannelId u"
| "lp_ChannelId (Signed s) = bp_ChannelId s"

primrec lp_BalanceHash :: "LoggedProof \<Rightarrow> BalanceHash" where
  "lp_BalanceHash (Unsigned u) = bu_BalanceHash u"
| "lp_BalanceHash (Signed s) = bp_BalanceHash s"

primrec lp_TransferredAmount :: "LoggedProof \<Rightarrow> TokenAmount" where
  "lp_TransferredAmount (Unsigned u) = bu_TransferredAmount u"
| "lp_TransferredAmount (Signed s) = bp_TransferredAmount s"

primrec lp_LockedAmount :: "LoggedProof \<Rightarrow> TokenAmount" where
  "lp_LockedAmount (Unsigned u) = bu_LockedAmount u"
| "lp_LockedAmount (Signed s) = bp_LockedAmount s"

primrec lp_LocksRoot :: "LoggedProof \<Rightarrow> LocksRoot" where
  "lp_LocksRoot (Unsigned u) = bu_LocksRoot u"
| "lp_LocksRoot (Signed s) = bp_LocksRoot s"

primrec lp_Sender :: "LoggedProof \<Rightarrow> Address option" where
  "lp_Sender (Unsigned u) = None"
| "lp_Sender (Signed s) = Some (bp_Sender s)"

definition getPrefixesForBalanceProofQuery :: "string list" where
  "getPrefixesForBalanceProofQuery = ['''', ''Transfer'', ''FromTransfer'']"

fun eventProof :: "string \<Rightarrow> Event \<Rightarrow> LoggedProof option" where
  "eventProof prefix (SendDirectTransfer _ _ bp _) = (if prefix = '''' then Some (Unsigned bp) else None)"
| "eventProof prefix (SendLockExpired _ bp _) = (if prefix = '''' then Some (Unsigned bp) else None)"
| "eventProof prefix (SendBalanceProof _ _ _ _ _ bp) = (if prefix = '''' then Some (Unsigned bp) else None)"
| "eventProof prefix (ContractSendChannelClose _ _ _ bp) = (if prefix = '''' then map_option Signed bp else None)"
| "eventProof prefix (ContractSendChannelUpdateTransfer _ _ _ bp) = (if prefix = '''' then Some (Signed bp) else None)"
| "eventProof prefix (SendLockedTransfer _ tr) =
     (if prefix = ''Transfer'' then Some (Unsigned (lu_BalanceProof tr)) else None)"
| "eventProof prefix (SendRefundTransfer _ tr) =
     (if prefix = ''Transfer'' then Some (Unsigned (lu_BalanceProof tr)) else None)"
| "eventProof prefix _ = None"

fun changeProof :: "string \<Rightarrow> NodeChange \<Rightarrow> LoggedProof option" where
  "changeProof prefix (ND_Network (NC_Channel (SC_ReceiveTransferDirect x))) =
     (if prefix = '''' then Some (Signed (rtd_BalanceProof x)) else None)"
| "changeProof prefix (ND_Task (TC_ReceiveUnlock x)) = (if prefix = '''' then Some (Signed (rul_BalanceProof x)) else None)"
| "changeProof prefix (ND_Task (TC_ReceiveLockExpired x)) =
     (if prefix = '''' then Some (Signed (rle_BalanceProof x)) else None)"
| "changeProof prefix (ND_Task (TC_ReceiveTransferRefund x)) =
     (if prefix = '''' then map_option Signed (rtr_BalanceProof x)
      else if prefix = ''Transfer'' then Some (Signed (ls_BalanceProof (rtr_Transfer x))) else None)"
| "changeProof prefix (ND_Task (TC_ReceiveTransferRefundCancelRoute x)) =
     (if prefix = ''Transfer'' then Some (Signed (ls_BalanceProof (rrc_Transfer x))) else None)"
| "changeProof prefix (ND_Task (TC_ActionInitTarget x)) =
     (if prefix = ''Transfer'' then Some (Signed (ls_BalanceProof (ait_Transfer x))) else None)"
| "changeProof prefix (ND_Task (TC_ActionInitMediator x)) =
     (if prefix = ''FromTransfer'' then Some (Signed (ls_BalanceProof (aim_FromTransfer x))) else None)"
| "changeProof prefix _ = None"

text \<open>The amounts and the root; without a balance proof the reflection panics.\<close>

type_synonym ProofValues = "TokenAmount \<times> TokenAmount \<times> LocksRoot"

definition getValuesFromBalanceProof :: "LoggedProof option \<Rightarrow> ProofValues option" where
  "getValuesFromBalanceProof proof =
     map_option (\<lambda>p. (lp_TransferredAmount p, lp_LockedAmount p, lp_LocksRoot p)) proof"

definition bpPrefix :: "string \<Rightarrow> string" where
  "bpPrefix prefix = (if prefix = '''' then '''' else prefix @ ''.'')"

definition channelFilter :: "string \<Rightarrow> ChannelID \<Rightarrow> string \<times> SqlValue" where
  "channelFilter prefix channelId = (bpPrefix prefix @ ''BalanceProof.ChannelId'', SqlInteger (uint channelId))"

definition balanceHashFilter :: "string \<Rightarrow> BalanceHash \<Rightarrow> string \<times> SqlValue" where
  "balanceHashFilter prefix h = (bpPrefix prefix @ ''BalanceProof.BalanceHash'', SqlText (formatBalanceHashForQuery h))"

definition senderFilter :: "string \<Rightarrow> Address \<Rightarrow> string \<times> SqlValue" where
  "senderFilter prefix a = (bpPrefix prefix @ ''BalanceProof.Sender'', SqlText (formatAddressForQuery a))"

definition locksrootFilter :: "string \<Rightarrow> LocksRoot \<Rightarrow> string \<times> SqlValue" where
  "locksrootFilter prefix r = (bpPrefix prefix @ ''BalanceProof.LocksRoot'', SqlText (formatLocksrootForQuery r))"

text \<open>
  The prefixes in turn, until one of them has a record with the filters; \<open>query\<close> gives the record and the balance
  proof in it.
\<close>

fun latestProof ::
  "(string \<Rightarrow> ('r \<times> LoggedProof option) option option) \<Rightarrow> string list \<Rightarrow> ('r \<times> ProofValues) option option" where
  "latestProof query [] = Some None"
| "latestProof query (prefix # prefixes) =
     do { found \<leftarrow> query prefix;
          (case found of
             None \<Rightarrow> latestProof query prefixes
           | Some (rec, proof) \<Rightarrow> do { vs \<leftarrow> getValuesFromBalanceProof proof; Some (Some (rec, vs)) }) }"

definition queryEvent ::
  "codec \<Rightarrow> SQLiteStorage \<Rightarrow> (string \<Rightarrow> filters) \<Rightarrow> string \<Rightarrow> (EventRecord \<times> LoggedProof option) option option" where
  "queryEvent c st filters prefix =
     do { eventRecord \<leftarrow> GetLatestEventByDataField c (filters prefix) st;
          Some (map_option (\<lambda>ev. (eventRecord, eventProof prefix ev)) (er_Data eventRecord)) }"

definition queryStateChange ::
  "codec \<Rightarrow> SQLiteStorage \<Rightarrow> (string \<Rightarrow> filters) \<Rightarrow> string \<Rightarrow> (StateChangeRecord \<times> LoggedProof option) option option" where
  "queryStateChange c st filters prefix =
     do { stateChangeRecord \<leftarrow> GetLatestStateChangeByDataField c (filters prefix) st;
          Some (map_option (\<lambda>sc. (stateChangeRecord, changeProof prefix sc)) (sr_Data stateChangeRecord)) }"

definition GetLatestKnownBalanceProofFromStateChanges ::
  "codec \<Rightarrow> SQLiteStorage \<Rightarrow> ChannelID \<Rightarrow> BalanceHash \<Rightarrow> Address \<Rightarrow> ProofValues option option" where
  "GetLatestKnownBalanceProofFromStateChanges c st channelId balanceHash sender =
     map_option (map_option snd)
       (latestProof (queryStateChange c st (\<lambda>prefix.
          [channelFilter prefix channelId, balanceHashFilter prefix balanceHash, senderFilter prefix sender]))
         getPrefixesForBalanceProofQuery)"

definition GetLatestKnownBalanceProofFromEvents ::
  "codec \<Rightarrow> SQLiteStorage \<Rightarrow> ChannelID \<Rightarrow> BalanceHash \<Rightarrow> ProofValues option option" where
  "GetLatestKnownBalanceProofFromEvents c st channelId balanceHash =
     map_option (map_option snd)
       (latestProof (queryEvent c st (\<lambda>prefix. [channelFilter prefix channelId, balanceHashFilter prefix balanceHash]))
         getPrefixesForBalanceProofQuery)"

definition GetStateChangeWithBalanceProofByLocksroot ::
  "codec \<Rightarrow> SQLiteStorage \<Rightarrow> ChannelID \<Rightarrow> LocksRoot \<Rightarrow> Address \<Rightarrow> StateChangeRecord option option" where
  "GetStateChangeWithBalanceProofByLocksroot c st channelId locksRoot sender =
     map_option (map_option fst)
       (latestProof (queryStateChange c st (\<lambda>prefix.
          [channelFilter prefix channelId, senderFilter prefix sender, locksrootFilter prefix locksRoot]))
         getPrefixesForBalanceProofQuery)"

definition GetEventWithBalanceProofByLocksroot ::
  "codec \<Rightarrow> SQLiteStorage \<Rightarrow> ChannelID \<Rightarrow> LocksRoot \<Rightarrow> EventRecord option option" where
  "GetEventWithBalanceProofByLocksroot c st channelId locksRoot =
     map_option (map_option fst)
       (latestProof (queryEvent c st (\<lambda>prefix. [channelFilter prefix channelId, locksrootFilter prefix locksRoot]))
         getPrefixesForBalanceProofQuery)"

definition GetEventWithTargetAndPaymentId ::
  "codec \<Rightarrow> SQLiteStorage \<Rightarrow> Address \<Rightarrow> PaymentID \<Rightarrow> EventRecord option option" where
  "GetEventWithTargetAndPaymentId c st target identifier =
     map_option (\<lambda>eventRecord. if er_Data eventRecord = None then None else Some eventRecord)
       (GetLatestEventByDataField c [(''Identifier'', SqlInteger (sint identifier)),
          (''Target'', SqlText (formatAddressForQuery target))] st)"

section \<open>The text of a value\<close>

definition digits_value :: "string \<Rightarrow> nat" where
  "digits_value s = foldl (\<lambda>n d. 10 * n + (of_char d - 48)) 0 s"

lemma digits_value_decimal [simp]: "digits_value (decimal n) = n"
proof (induction n rule: decimal.induct)
  case (1 n)
  then show ?case by (subst decimal.simps) (auto simp: digits_value_def)
qed

lemma decimal_digits: "d \<in> set (decimal n) \<Longrightarrow> d \<noteq> CHR '' ''"
proof (induction n rule: decimal.induct)
  case (1 n)
  have "CHR '' '' \<noteq> char_of (48 + m)" if "m < 10" for m :: nat
  proof
    assume "CHR '' '' = char_of (48 + m)"
    then have "of_char (CHR '' '') = (of_char (char_of (48 + m) :: char) :: nat)" by (rule arg_cong)
    with that show False by simp
  qed
  from this [of "n mod 10"] this [of n] 1 show ?case by (subst (asm) (2) decimal.simps) (auto split: if_splits)
qed

lemma decimal_word: "takeWhile (\<lambda>d. d \<noteq> CHR '' '') (decimal n @ '' '' @ r) = decimal n"
  using decimal_digits by (simp add: takeWhile_append)

lemma spaced_inject: "length as = length bs \<Longrightarrow> spaced as = spaced bs \<Longrightarrow> as = bs"
proof (induction as arbitrary: bs rule: spaced.induct)
  case (2 a)
  then obtain b where "bs = [b]" by (cases bs) auto
  with 2 show ?case using digits_value_decimal by (metis spaced.simps(2) word_unat_eq_iff)
next
  case (3 a a' as)
  then obtain b b' bs' where bs: "bs = b # b' # bs'" by (cases bs; cases "tl bs") auto
  with 3(3) have e: "decimal (unat a) @ '' '' @ spaced (a' # as) = decimal (unat b) @ '' '' @ spaced (b' # bs')" by simp
  then have d: "decimal (unat a) = decimal (unat b)" by (metis decimal_word)
  then have "a = b" by (metis digits_value_decimal word_unat_eq_iff)
  moreover have "spaced (a' # as) = spaced (b' # bs')" using e d by simp
  ultimately show ?case using 3(1) [of "b' # bs'"] 3(2) bs by simp
qed simp

lemma formatted: "formatAddressForQuery a = MarshalText (addr_bytes a)" "formatBalanceHashForQuery h = MarshalText (hash_bytes h)"
  "formatLocksrootForQuery r = MarshalText (hash_bytes r)"
  by (simp_all add: formatAddressForQuery_def formatBalanceHashForQuery_def formatLocksrootForQuery_def AddressString_def
      BalanceHashString_def Let_def)

lemma format_inject:
  "formatAddressForQuery a = formatAddressForQuery a' \<longleftrightarrow> a = a'"
  "formatBalanceHashForQuery h = formatBalanceHashForQuery h' \<longleftrightarrow> h = h'"
  "formatLocksrootForQuery h = formatLocksrootForQuery h' \<longleftrightarrow> h = h'"
  using spaced_inject [of "addr_bytes a" "addr_bytes a'"] spaced_inject [of "hash_bytes h" "hash_bytes h'"]
  by (auto simp: formatted MarshalText_def)

section \<open>What a query finds\<close>

text \<open>The text of a value has the fields of its balance proofs, and no others, at their paths.\<close>

definition proof_text :: "codec \<Rightarrow> byte list \<Rightarrow> (string \<Rightarrow> LoggedProof option) \<Rightarrow> bool" where
  "proof_text c data proof \<longleftrightarrow>
     (\<forall>prefix \<in> set getPrefixesForBalanceProofQuery.
        (let field = (\<lambda>name. cd_Extract c data (''$.'' @ bpPrefix prefix @ ''BalanceProof.'' @ name)); p = proof prefix
         in field ''ChannelId'' = map_option (\<lambda>p. SqlInteger (uint (lp_ChannelId p))) p
          \<and> field ''BalanceHash'' = map_option (\<lambda>p. SqlText (formatBalanceHashForQuery (lp_BalanceHash p))) p
          \<and> field ''LocksRoot'' = map_option (\<lambda>p. SqlText (formatLocksrootForQuery (lp_LocksRoot p))) p
          \<and> field ''Sender'' = map_option (\<lambda>a. SqlText (formatAddressForQuery a)) (p \<bind> lp_Sender)))"

definition events_logged :: "codec \<Rightarrow> SQLiteStorage \<Rightarrow> (nat \<times> Event) list \<Rightarrow> bool" where
  "events_logged c st evs \<longleftrightarrow>
     st_state_events st = map (\<lambda>(i, ev). (i, cd_MarshalEvent c ev)) evs
   \<and> (\<forall>(i, ev) \<in> set evs. cd_UnmarshalEvent c (cd_MarshalEvent c ev) = Some ev
        \<and> proof_text c (cd_MarshalEvent c ev) (\<lambda>prefix. eventProof prefix ev))"

definition changes_logged :: "codec \<Rightarrow> SQLiteStorage \<Rightarrow> (nat \<times> NodeChange) list \<Rightarrow> bool" where
  "changes_logged c st scs \<longleftrightarrow>
     st_state_changes st = map (\<lambda>(i, sc). (i, cd_MarshalChange c sc)) scs
   \<and> (\<forall>(i, sc) \<in> set scs. cd_UnmarshalChange c (cd_MarshalChange c sc) = Some sc
        \<and> proof_text c (cd_MarshalChange c sc) (\<lambda>prefix. changeProof prefix sc))"

lemma selects_proof:
  assumes "proof_text c data proof" and "prefix \<in> set getPrefixesForBalanceProofQuery"
  shows "selects c [channelFilter prefix k, balanceHashFilter prefix h] data \<longleftrightarrow>
      (\<exists>p. proof prefix = Some p \<and> lp_ChannelId p = k \<and> lp_BalanceHash p = h)"
    and "selects c [channelFilter prefix k, balanceHashFilter prefix h, senderFilter prefix a] data \<longleftrightarrow>
      (\<exists>p. proof prefix = Some p \<and> lp_ChannelId p = k \<and> lp_BalanceHash p = h \<and> lp_Sender p = Some a)"
    and "selects c [channelFilter prefix k, locksrootFilter prefix r] data \<longleftrightarrow>
      (\<exists>p. proof prefix = Some p \<and> lp_ChannelId p = k \<and> lp_LocksRoot p = r)"
    and "selects c [channelFilter prefix k, senderFilter prefix a, locksrootFilter prefix r] data \<longleftrightarrow>
      (\<exists>p. proof prefix = Some p \<and> lp_ChannelId p = k \<and> lp_Sender p = Some a \<and> lp_LocksRoot p = r)"
proof -
  note t = assms(1) [unfolded proof_text_def Let_def, rule_format, OF assms(2)]
  note f = selects_def channelFilter_def balanceHashFilter_def senderFilter_def locksrootFilter_def
  have u: "uint x = uint y \<longleftrightarrow> x = y" for x y :: ChannelID by (simp add: word_uint_eq_iff)
  show "selects c [channelFilter prefix k, balanceHashFilter prefix h] data \<longleftrightarrow>
      (\<exists>p. proof prefix = Some p \<and> lp_ChannelId p = k \<and> lp_BalanceHash p = h)"
    using t by (cases "proof prefix") (auto simp: f format_inject u)
  show "selects c [channelFilter prefix k, balanceHashFilter prefix h, senderFilter prefix a] data \<longleftrightarrow>
      (\<exists>p. proof prefix = Some p \<and> lp_ChannelId p = k \<and> lp_BalanceHash p = h \<and> lp_Sender p = Some a)"
    using t by (cases "proof prefix") (auto simp: f format_inject u)
  show "selects c [channelFilter prefix k, locksrootFilter prefix r] data \<longleftrightarrow>
      (\<exists>p. proof prefix = Some p \<and> lp_ChannelId p = k \<and> lp_LocksRoot p = r)"
    using t by (cases "proof prefix") (auto simp: f format_inject u)
  show "selects c [channelFilter prefix k, senderFilter prefix a, locksrootFilter prefix r] data \<longleftrightarrow>
      (\<exists>p. proof prefix = Some p \<and> lp_ChannelId p = k \<and> lp_Sender p = Some a \<and> lp_LocksRoot p = r)"
    using t by (cases "proof prefix") (auto simp: f format_inject u)
qed

text \<open>The last row with the filters, if any has them.\<close>

lemma enumerate_mem: "(n, x) \<in> set (enumerate k xs) \<Longrightarrow> x \<in> set xs"
  by (metis imageI map_snd_enumerate set_map snd_conv)

lemma enumerate_ex: "x \<in> set xs \<Longrightarrow> \<exists>n. (n, x) \<in> set (enumerate k xs)"
  by (metis (no_types) imageE map_snd_enumerate prod.collapse set_map)

lemma latest_event:
  assumes "events_logged c st evs" and "length fs \<in> {1, 2, 3}"
    and "\<forall>(i, ev) \<in> set evs. selects c fs (cd_MarshalEvent c ev) \<longleftrightarrow> P ev"
  shows "\<exists>r. GetLatestEventByDataField c fs st = Some r
    \<and> (case er_Data r of None \<Rightarrow> \<forall>(i, ev) \<in> set evs. \<not> P ev
       | Some ev \<Rightarrow> (er_StateChangeIdentifier r, ev) \<in> set evs \<and> P ev)"
proof -
  let ?t = "map (\<lambda>(i, ev). (i, cd_MarshalEvent c ev)) evs"
  let ?rows = "filter (\<lambda>(_, _, data). selects c fs data) (enumerate 1 ?t)"
  have st: "st_state_events st = ?t" using assms(1) by (simp add: events_logged_def)
  have row: "\<exists>ev. (i, ev) \<in> set evs \<and> d = cd_MarshalEvent c ev \<and> P ev" if "(n, i, d) \<in> set ?rows" for n i d
  proof -
    have "(n, i, d) \<in> set (enumerate 1 ?t)" "selects c fs d" using that by simp_all
    then have "(i, d) \<in> set ?t" using enumerate_mem by metis
    with \<open>selects c fs d\<close> assms(3) show ?thesis by fastforce
  qed
  show ?thesis
  proof (cases "?rows = []")
    case True
    have "\<not> P ev" if "(i, ev) \<in> set evs" for i ev
    proof
      assume "P ev"
      with that assms(3) have "selects c fs (cd_MarshalEvent c ev)" by fast
      moreover have "(i, cd_MarshalEvent c ev) \<in> set ?t" using that by force
      then obtain n where "(n, i, cd_MarshalEvent c ev) \<in> set (enumerate 1 ?t)"
        using enumerate_ex by metis
      ultimately show False using True by (auto simp: filter_empty_conv)
    qed
    with True assms(2) st show ?thesis by (auto simp: GetLatestEventByDataField_def Let_def)
  next
    case False
    obtain n i d where l: "last ?rows = (n, i, d)" by (metis prod_cases3)
    then have "(n, i, d) \<in> set ?rows" using False last_in_set by metis
    then obtain ev where "(i, ev) \<in> set evs" "d = cd_MarshalEvent c ev" "P ev" using row by blast
    moreover have "cd_UnmarshalEvent c (cd_MarshalEvent c ev) = Some ev"
      using assms(1) calculation(1) by (auto simp: events_logged_def)
    ultimately show ?thesis using False l assms(2) st by (simp add: GetLatestEventByDataField_def Let_def)
  qed
qed

lemma latest_state_change:
  assumes "changes_logged c st scs" and "length fs \<in> {1, 2, 3}"
    and "\<forall>(i, sc) \<in> set scs. selects c fs (cd_MarshalChange c sc) \<longleftrightarrow> P sc"
  shows "\<exists>r. GetLatestStateChangeByDataField c fs st = Some r
    \<and> (case sr_Data r of None \<Rightarrow> \<forall>(i, sc) \<in> set scs. \<not> P sc
       | Some sc \<Rightarrow> (sr_StateChangeIdentifier r, sc) \<in> set scs \<and> P sc)"
proof -
  let ?rows = "filter (\<lambda>(_, data). selects c fs data) (map (\<lambda>(i, sc). (i, cd_MarshalChange c sc)) scs)"
  have st: "st_state_changes st = map (\<lambda>(i, sc). (i, cd_MarshalChange c sc)) scs"
    using assms(1) by (simp add: changes_logged_def)
  show ?thesis
  proof (cases "?rows = []")
    case True
    then have "\<forall>(i, sc) \<in> set scs. \<not> P sc" using assms(3) by (fastforce simp: filter_empty_conv)
    with True assms(2) st show ?thesis by (auto simp: GetLatestStateChangeByDataField_def Let_def)
  next
    case False
    then have "last ?rows \<in> set ?rows" using last_in_set by blast
    then obtain i sc where l: "last ?rows = (i, cd_MarshalChange c sc)" "(i, sc) \<in> set scs" "P sc"
      using assms(3) by fastforce
    moreover have "cd_UnmarshalChange c (cd_MarshalChange c sc) = Some sc"
      using assms(1) l(2) by (auto simp: changes_logged_def)
    ultimately show ?thesis using False assms(2) st by (simp add: GetLatestStateChangeByDataField_def Let_def)
  qed
qed

lemma latestProof_found:
  assumes "\<forall>prefix \<in> set prefixes. \<exists>res. query prefix = Some res
    \<and> (case res of None \<Rightarrow> \<not> has prefix | Some (r, proof) \<Rightarrow> \<exists>p. proof = Some p \<and> good p)"
  shows "\<exists>res. latestProof query prefixes = Some res
    \<and> (case res of None \<Rightarrow> \<forall>prefix \<in> set prefixes. \<not> has prefix
       | Some (r, vs) \<Rightarrow> \<exists>p. good p \<and> vs = (lp_TransferredAmount p, lp_LockedAmount p, lp_LocksRoot p))"
  using assms
proof (induction prefixes)
  case (Cons prefix prefixes)
  then obtain res where q: "query prefix = Some res"
    "case res of None \<Rightarrow> \<not> has prefix | Some (r, proof) \<Rightarrow> \<exists>p. proof = Some p \<and> good p" by auto
  show ?case
  proof (cases res)
    case None
    with q Cons show ?thesis by (auto split: option.splits)
  next
    case (Some x)
    with q show ?thesis by (cases x) (auto simp: getValuesFromBalanceProof_def)
  qed
qed simp

text \<open>
  The values found belong to a logged balance proof of the channel with the hash; nothing is found only when
  there is none.
\<close>

definition logged_proof :: "(string \<Rightarrow> 'v \<Rightarrow> LoggedProof option) \<Rightarrow> (nat \<times> 'v) list \<Rightarrow> LoggedProof \<Rightarrow> bool" where
  "logged_proof proof vs p \<longleftrightarrow>
     (\<exists>prefix \<in> set getPrefixesForBalanceProofQuery. \<exists>(i, v) \<in> set vs. proof prefix v = Some p)"

lemma event_proof_found:
  assumes "events_logged c st evs"
  shows "\<exists>res. GetLatestKnownBalanceProofFromEvents c st k h = Some res
    \<and> (case res of
         None \<Rightarrow> \<forall>p. logged_proof eventProof evs p \<longrightarrow> \<not> (lp_ChannelId p = k \<and> lp_BalanceHash p = h)
       | Some vs \<Rightarrow> \<exists>p. logged_proof eventProof evs p \<and> lp_ChannelId p = k \<and> lp_BalanceHash p = h
           \<and> vs = (lp_TransferredAmount p, lp_LockedAmount p, lp_LocksRoot p))"
proof -
  let ?fs = "\<lambda>prefix. [channelFilter prefix k, balanceHashFilter prefix h]"
  let ?P = "\<lambda>prefix ev. \<exists>p. eventProof prefix ev = Some p \<and> lp_ChannelId p = k \<and> lp_BalanceHash p = h"
  have "\<exists>res. queryEvent c st ?fs prefix = Some res
      \<and> (case res of None \<Rightarrow> \<not> (\<exists>(i, ev) \<in> set evs. ?P prefix ev)
         | Some (r, proof) \<Rightarrow> \<exists>p. proof = Some p \<and> logged_proof eventProof evs p \<and> lp_ChannelId p = k \<and> lp_BalanceHash p = h)"
    if "prefix \<in> set getPrefixesForBalanceProofQuery" for prefix
  proof -
    have "\<forall>(i, ev) \<in> set evs. selects c (?fs prefix) (cd_MarshalEvent c ev) \<longleftrightarrow> ?P prefix ev"
      using assms that by (auto simp: events_logged_def selects_proof(1))
    from latest_event [OF assms _ this] obtain r where r: "GetLatestEventByDataField c (?fs prefix) st = Some r"
        "case er_Data r of None \<Rightarrow> \<forall>(i, ev) \<in> set evs. \<not> ?P prefix ev
         | Some ev \<Rightarrow> (er_StateChangeIdentifier r, ev) \<in> set evs \<and> ?P prefix ev" by auto
    show ?thesis
    proof (cases "er_Data r")
      case None
      with r show ?thesis by (auto simp: queryEvent_def)
    next
      case (Some ev)
      with r that show ?thesis by (auto simp: queryEvent_def logged_proof_def)
    qed
  qed
  then have "\<forall>prefix \<in> set getPrefixesForBalanceProofQuery. \<exists>res. queryEvent c st ?fs prefix = Some res
      \<and> (case res of None \<Rightarrow> \<not> (\<exists>(i, ev) \<in> set evs. ?P prefix ev)
         | Some (r, proof) \<Rightarrow> \<exists>p. proof = Some p \<and> logged_proof eventProof evs p \<and> lp_ChannelId p = k \<and> lp_BalanceHash p = h)"
    by blast
  from latestProof_found [OF this] obtain res where r: "latestProof (queryEvent c st ?fs) getPrefixesForBalanceProofQuery = Some res"
    "case res of None \<Rightarrow> \<forall>prefix \<in> set getPrefixesForBalanceProofQuery. \<not> (\<exists>(i, ev) \<in> set evs. ?P prefix ev)
     | Some (r, vs) \<Rightarrow> \<exists>p. (logged_proof eventProof evs p \<and> lp_ChannelId p = k \<and> lp_BalanceHash p = h)
         \<and> vs = (lp_TransferredAmount p, lp_LockedAmount p, lp_LocksRoot p)"
    by blast
  then show ?thesis
    by (auto simp: GetLatestKnownBalanceProofFromEvents_def logged_proof_def split: option.splits)
qed

lemma state_change_proof_found:
  assumes "changes_logged c st scs"
  shows "\<exists>res. GetLatestKnownBalanceProofFromStateChanges c st k h a = Some res
    \<and> (case res of
         None \<Rightarrow> \<forall>p. logged_proof changeProof scs p \<longrightarrow> \<not> (lp_ChannelId p = k \<and> lp_BalanceHash p = h \<and> lp_Sender p = Some a)
       | Some vs \<Rightarrow> \<exists>p. logged_proof changeProof scs p \<and> lp_ChannelId p = k \<and> lp_BalanceHash p = h
           \<and> lp_Sender p = Some a \<and> vs = (lp_TransferredAmount p, lp_LockedAmount p, lp_LocksRoot p))"
proof -
  let ?fs = "\<lambda>prefix. [channelFilter prefix k, balanceHashFilter prefix h, senderFilter prefix a]"
  let ?P = "\<lambda>prefix sc. \<exists>p. changeProof prefix sc = Some p \<and> lp_ChannelId p = k \<and> lp_BalanceHash p = h \<and> lp_Sender p = Some a"
  let ?good = "\<lambda>p. logged_proof changeProof scs p \<and> lp_ChannelId p = k \<and> lp_BalanceHash p = h \<and> lp_Sender p = Some a"
  have "\<exists>res. queryStateChange c st ?fs prefix = Some res
      \<and> (case res of None \<Rightarrow> \<not> (\<exists>(i, sc) \<in> set scs. ?P prefix sc) | Some (r, proof) \<Rightarrow> \<exists>p. proof = Some p \<and> ?good p)"
    if "prefix \<in> set getPrefixesForBalanceProofQuery" for prefix
  proof -
    have "\<forall>(i, sc) \<in> set scs. selects c (?fs prefix) (cd_MarshalChange c sc) \<longleftrightarrow> ?P prefix sc"
      using assms that by (auto simp: changes_logged_def selects_proof(2))
    from latest_state_change [OF assms _ this] obtain r where r:
        "GetLatestStateChangeByDataField c (?fs prefix) st = Some r"
        "case sr_Data r of None \<Rightarrow> \<forall>(i, sc) \<in> set scs. \<not> ?P prefix sc
         | Some sc \<Rightarrow> (sr_StateChangeIdentifier r, sc) \<in> set scs \<and> ?P prefix sc" by auto
    show ?thesis
    proof (cases "sr_Data r")
      case None
      with r show ?thesis by (auto simp: queryStateChange_def)
    next
      case (Some sc)
      with r that show ?thesis by (auto simp: queryStateChange_def logged_proof_def)
    qed
  qed
  then have "\<forall>prefix \<in> set getPrefixesForBalanceProofQuery. \<exists>res. queryStateChange c st ?fs prefix = Some res
      \<and> (case res of None \<Rightarrow> \<not> (\<exists>(i, sc) \<in> set scs. ?P prefix sc) | Some (r, proof) \<Rightarrow> \<exists>p. proof = Some p \<and> ?good p)"
    by blast
  from latestProof_found [OF this] obtain res where
    "latestProof (queryStateChange c st ?fs) getPrefixesForBalanceProofQuery = Some res"
    "case res of None \<Rightarrow> \<forall>prefix \<in> set getPrefixesForBalanceProofQuery. \<not> (\<exists>(i, sc) \<in> set scs. ?P prefix sc)
     | Some (r, vs) \<Rightarrow> \<exists>p. ?good p \<and> vs = (lp_TransferredAmount p, lp_LockedAmount p, lp_LocksRoot p)"
    by blast
  then show ?thesis
    by (auto simp: GetLatestKnownBalanceProofFromStateChanges_def logged_proof_def split: option.splits)
qed

text \<open>\<open>GetEvents\<close> never returns an event.\<close>

theorem GetEvents_empty: "GetEvents c limit offset st = []"
  by (simp add: GetEvents_def scanRow_def map_filter_def)

end
