(* ===== verification/Pylons_Proxies.thy ===== *)
theory Pylons_Proxies
  imports Pylons_Wire
begin

text \<open>
  The proxies of the contracts: \<open>network/proxies/tokennetwork.go\<close>, \<open>network/proxies/paymentchannel.go\<close>,
  \<open>network/proxies/secretregistry.go\<close>. What the client of the chain answers is the parameter \<open>ChainClient\<close>; a view
  \<open>later\<close> is what it answers after a transaction has been waited for. The functions return the transactions they
  submit, and \<open>None\<close> when they panic. The locks only keep two calls apart and are left out: each call runs alone.
\<close>

section \<open>The client of the chain\<close>

record ParticipantInfo =
  pi_WalletAddr :: Address
  pi_Deposit :: u64
  pi_WithDrawAmount :: u64
  pi_IsCloser :: bool
  pi_BalanceHash :: "byte list"
  pi_Nonce :: u64
  pi_LocksRoot :: "byte list"
  pi_LockedAmount :: u64

record ChannelInfo =
  ci_SettleBlockHeight :: u64
  ci_ChannelState :: int

datatype (plugins only: code) ContractTx =
    TxOpenChannel Address PubKey Address u64
  | TxSetTotalDeposit u64 Address Address u64
  | TxCloseChannel u64 Address Address BalanceHash u64 "byte list" Signature PubKey
  | TxUpdateNonClosingBalanceProof u64 Address Address BalanceHash u64 "byte list" Signature Signature PubKey PubKey
  | TxSetTotalWithdraw u64 Address Address u64 Signature PubKey Signature PubKey
  | TxCooperativeSettle u64 Address u64 Address u64 Signature PubKey Signature PubKey
  | TxUnlock u64 Address Address "byte list"
  | TxSettleChannel u64 Address u64 u64 LocksRoot Address u64 u64 LocksRoot
  | TxRegisterSecretBatch "byte list"

text \<open>
  A failed query is \<open>None\<close>. \<open>cc_Submit\<close> is the error a submission fails with; \<open>cc_PollForTxConfirmed\<close> gets the hash of
  what was submitted, nil when that failed. The states of a channel in the contract are numbers of its package.
\<close>

record ChainClient =
  cc_GetChannelIdentifier :: "Address \<Rightarrow> Address \<Rightarrow> u64 option"
  cc_GetChannelInfo :: "u64 \<Rightarrow> Address \<Rightarrow> Address \<Rightarrow> ChannelInfo option"
  cc_GetChannelParticipantInfo :: "u64 \<Rightarrow> Address \<Rightarrow> Address \<Rightarrow> ParticipantInfo option"
  cc_BalanceOf :: "Address \<Rightarrow> error + u64"
  cc_GetCurrentBlockHeight :: "u64 option"
  cc_GetSecretRevealBlockHeight :: "SecretHash \<Rightarrow> u64 option"
  cc_Submit :: "ContractTx \<Rightarrow> error option"
  cc_PollForTxConfirmed :: "ContractTx option \<Rightarrow> bool \<times> error option"
  cc_NonExistent :: int
  cc_Opened :: int
  cc_Closed :: int
  cc_Settled :: int
  cc_Removed :: int

section \<open>Queries\<close>

record ParticipantDetails =
  pd_Address :: Address
  pd_Deposit :: TokenAmount
  pd_Withdrawn :: TokenAmount
  pd_isCloser :: bool
  pd_BalanceHash :: BalanceHash
  pd_Nonce :: Nonce
  pd_LocksRoot :: LocksRoot
  pd_LockedAmount :: TokenAmount

record ChannelData =
  cd_ChannelId :: ChannelID
  cd_SettleBlockHeight :: BlockHeight
  cd_State :: int

definition inspectChannelId :: "ChainClient \<Rightarrow> Address \<Rightarrow> Address \<Rightarrow> ChannelID" where
  "inspectChannelId cc participant1 participant2 =
     (case cc_GetChannelIdentifier cc participant1 participant2 of None \<Rightarrow> 0 | Some i \<Rightarrow> ucast i)"

text \<open>A hash of 32 bytes is copied, one without bytes is the empty hash.\<close>

definition detailParticipant :: "ChainClient \<Rightarrow> ChannelID \<Rightarrow> Address \<Rightarrow> Address \<Rightarrow> ParticipantDetails option" where
  "detailParticipant cc channelId participant partner =
     do { info \<leftarrow> cc_GetChannelParticipantInfo cc (ucast channelId) participant partner;
          (if length (pi_BalanceHash info) \<noteq> 0 \<and> length (pi_BalanceHash info) \<noteq> 32 then None
           else if length (pi_LocksRoot info) \<noteq> 0 \<and> length (pi_LocksRoot info) \<noteq> 32 then None
           else Some \<lparr>pd_Address = pi_WalletAddr info, pd_Deposit = pi_Deposit info, pd_Withdrawn = pi_WithDrawAmount info,
             pd_isCloser = pi_IsCloser info,
             pd_BalanceHash = (if length (pi_BalanceHash info) = 32 then copy_hash (pi_BalanceHash info) else 0),
             pd_Nonce = pi_Nonce info,
             pd_LocksRoot = (if length (pi_LocksRoot info) = 32 then copy_hash (pi_LocksRoot info) else 0),
             pd_LockedAmount = pi_LockedAmount info\<rparr>) }"

definition detailChannel :: "ChainClient \<Rightarrow> Address \<Rightarrow> Address \<Rightarrow> ChannelID \<Rightarrow> ChannelData option" where
  "detailChannel cc participant1 participant2 channelId =
     (let channelId = (if channelId = 0 then inspectChannelId cc participant1 participant2 else channelId)
      in do { info \<leftarrow> cc_GetChannelInfo cc (ucast channelId) participant1 participant2;
              Some \<lparr>cd_ChannelId = channelId, cd_SettleBlockHeight = ucast (ci_SettleBlockHeight info),
                    cd_State = ci_ChannelState info\<rparr> })"

text \<open>Our details and those of the partner, each of which may be nil.\<close>

type_synonym ParticipantsDetails = "ParticipantDetails option \<times> ParticipantDetails option"

definition DetailParticipants ::
  "ChainClient \<Rightarrow> Address \<Rightarrow> Address \<Rightarrow> Address \<Rightarrow> ChannelID \<Rightarrow> ParticipantsDetails option" where
  "DetailParticipants cc nodeAddress participant1 participant2 channelId =
     (if nodeAddress \<noteq> participant1 \<and> nodeAddress \<noteq> participant2 then None
      else let (participant1, participant2) =
                 (if nodeAddress = participant2 then (participant2, participant1) else (participant1, participant2));
               channelId = (if channelId = 0 then inspectChannelId cc participant1 participant2 else channelId)
           in Some (detailParticipant cc channelId participant1 participant2,
                    detailParticipant cc channelId participant2 participant1))"

definition getChannelState :: "ChainClient \<Rightarrow> Address \<Rightarrow> Address \<Rightarrow> ChannelID \<Rightarrow> int" where
  "getChannelState cc participant1 participant2 channelId =
     (case detailChannel cc participant1 participant2 channelId of None \<Rightarrow> cc_NonExistent cc | Some d \<Rightarrow> cd_State d)"

definition channelExistsAndNotSettled :: "ChainClient \<Rightarrow> Address \<Rightarrow> Address \<Rightarrow> ChannelID \<Rightarrow> bool" where
  "channelExistsAndNotSettled cc participant1 participant2 channelId \<longleftrightarrow>
     cc_NonExistent cc < getChannelState cc participant1 participant2 channelId
   \<and> getChannelState cc participant1 participant2 channelId < cc_Settled cc"

definition ChannelIsOpened :: "ChainClient \<Rightarrow> Address \<Rightarrow> Address \<Rightarrow> ChannelID \<Rightarrow> bool" where
  "ChannelIsOpened cc p1 p2 channelId \<longleftrightarrow> getChannelState cc p1 p2 channelId = cc_Opened cc"

definition ChannelIsClosed :: "ChainClient \<Rightarrow> Address \<Rightarrow> Address \<Rightarrow> ChannelID \<Rightarrow> bool" where
  "ChannelIsClosed cc p1 p2 channelId \<longleftrightarrow> getChannelState cc p1 p2 channelId = cc_Closed cc"

definition ChannelIsSettled :: "ChainClient \<Rightarrow> Address \<Rightarrow> Address \<Rightarrow> ChannelID \<Rightarrow> bool" where
  "ChannelIsSettled cc p1 p2 channelId \<longleftrightarrow> getChannelState cc p1 p2 channelId = cc_Settled cc"

definition ClosingAddress :: "ChainClient \<Rightarrow> Address \<Rightarrow> Address \<Rightarrow> Address \<Rightarrow> ChannelID \<Rightarrow> Address option" where
  "ClosingAddress cc nodeAddress participant1 participant2 channelId =
     do { channelData \<leftarrow> detailChannel cc participant1 participant2 channelId;
          (our, partner) \<leftarrow> DetailParticipants cc nodeAddress participant1 participant2 (cd_ChannelId channelData);
          our \<leftarrow> our;
          (if pd_isCloser our then Some (pd_Address our)
           else do { partner \<leftarrow> partner; Some (if pd_isCloser partner then pd_Address partner else 0) }) }"

definition ProxyCanTransfer :: "ChainClient \<Rightarrow> Address \<Rightarrow> Address \<Rightarrow> ChannelID \<Rightarrow> bool option" where
  "ProxyCanTransfer cc participant1 participant2 channelId =
     (if \<not> ChannelIsOpened cc participant1 participant2 channelId then Some False
      else do { details \<leftarrow> detailParticipant cc channelId participant1 participant2; Some (0 < pd_Deposit details) })"

definition CheckForOutdatedChannel :: "ChainClient \<Rightarrow> Address \<Rightarrow> Address \<Rightarrow> ChannelID \<Rightarrow> bool option" where
  "CheckForOutdatedChannel cc participant1 participant2 channelId =
     do { details \<leftarrow> detailChannel cc participant1 participant2 0; Some (cd_ChannelId details = channelId) }"

definition checkChannelStateForClose :: "ChainClient \<Rightarrow> Address \<Rightarrow> Address \<Rightarrow> ChannelID \<Rightarrow> bool" where
  "checkChannelStateForClose cc participant1 participant2 channelId \<longleftrightarrow>
     getChannelState cc participant1 participant2 channelId
       \<notin> {cc_NonExistent cc, cc_Removed cc, cc_Settled cc, cc_Closed cc}"

text \<open>The result is false in every case; only the error differs.\<close>

definition checkChannelStateForDeposit ::
  "ChainClient \<Rightarrow> Address \<Rightarrow> Address \<Rightarrow> Address \<Rightarrow> ChannelID \<Rightarrow> TokenAmount \<Rightarrow> (bool \<times> error option) option" where
  "checkChannelStateForDeposit cc nodeAddress participant1 participant2 channelId depositAmount =
     (let channelState = getChannelState cc nodeAddress participant2 channelId
      in if channelState = cc_NonExistent cc \<or> channelState = cc_Removed cc
         then Some (False, Some (Msg ''channel does not exist''))
         else if channelState = cc_Settled cc
         then Some (False, Some (Msg ''deposit is not possible due to channel being settled''))
         else if channelState = cc_Closed cc then Some (False, Some (Msg ''channel is already closed''))
         else do { (our, _) \<leftarrow> DetailParticipants cc nodeAddress participant1 participant2 channelId;
                   our \<leftarrow> our;
                   Some (False, if pd_Deposit our < depositAmount
                                then Some (Msg ''deposit amount did not increase after deposit transaction'') else None) })"

definition checkChannelStateForWithdraw ::
  "ChainClient \<Rightarrow> Address \<Rightarrow> Address \<Rightarrow> Address \<Rightarrow> ChannelID \<Rightarrow> TokenAmount \<Rightarrow> bool option" where
  "checkChannelStateForWithdraw cc nodeAddress participant1 participant2 channelId withdrawAmount =
     do { (our, _) \<leftarrow> DetailParticipants cc nodeAddress participant1 participant2 channelId;
          our \<leftarrow> our;
          Some (\<not> withdrawAmount < pd_Withdrawn our
            \<and> getChannelState cc participant1 participant2 channelId
                \<notin> {cc_NonExistent cc, cc_Removed cc, cc_Settled cc, cc_Closed cc}) }"

definition checkChannelStateForSettle :: "ChainClient \<Rightarrow> Address \<Rightarrow> Address \<Rightarrow> ChannelID \<Rightarrow> bool option" where
  "checkChannelStateForSettle cc participant1 participant2 channelId =
     do { channelData \<leftarrow> detailChannel cc participant1 participant2 channelId;
          Some (cd_State channelData \<notin> {cc_Settled cc, cc_Removed cc, cc_Opened cc}
            \<and> (cd_State channelData = cc_Closed cc \<longrightarrow>
                 (case cc_GetCurrentBlockHeight cc of
                    None \<Rightarrow> False
                  | Some height \<Rightarrow> \<not> height < ucast (cd_SettleBlockHeight channelData)))) }"

section \<open>Transactions\<close>

text \<open>\<open>newNettingChannel\<close> and its confirmation; an unconfirmed transaction without an error is a nil dereference.\<close>

definition openTransaction :: "ChainClient \<Rightarrow> Address \<Rightarrow> PubKey \<Rightarrow> Address \<Rightarrow> u64 \<Rightarrow> (bool \<times> ContractTx list) option" where
  "openTransaction cc nodeAddress pubKey partner settleTimeout =
     (let tx = TxOpenChannel nodeAddress pubKey partner settleTimeout
      in case cc_Submit cc tx of
           Some _ \<Rightarrow> Some (False, [])
         | None \<Rightarrow>
             (case cc_PollForTxConfirmed cc (Some tx) of
                (_, Some _) \<Rightarrow> Some (False, [tx])
              | (False, None) \<Rightarrow> None
              | (True, None) \<Rightarrow> Some (True, [tx])))"

definition NewNettingChannel ::
  "ChainClient \<Rightarrow> ChainClient \<Rightarrow> Address \<Rightarrow> PubKey \<Rightarrow> Address \<Rightarrow> u64 \<Rightarrow> (ChannelID \<times> ContractTx list) option" where
  "NewNettingChannel cc later nodeAddress pubKey partner settleTimeout =
     (if nodeAddress = partner then Some (0, [])
      else do { (ok, txs) \<leftarrow> openTransaction cc nodeAddress pubKey partner settleTimeout;
                (if \<not> ok then Some (0, txs)
                 else if channelExistsAndNotSettled later nodeAddress partner 0
                 then do { channelDetail \<leftarrow> detailChannel later nodeAddress partner 0; Some (cd_ChannelId channelDetail, txs) }
                 else Some (0, txs)) })"

definition ProxySetTotalDeposit ::
  "ChainClient \<Rightarrow> ChainClient \<Rightarrow> Address \<Rightarrow> ChannelID \<Rightarrow> TokenAmount \<Rightarrow> Address \<Rightarrow> (error option \<times> ContractTx list) option" where
  "ProxySetTotalDeposit cc later nodeAddress channelId totalDeposit partner =
     do { ok \<leftarrow> CheckForOutdatedChannel cc nodeAddress partner channelId;
          (if \<not> ok then Some (Some (Msg ''channel outdated''), [])
           else do { detail \<leftarrow> detailParticipant cc channelId nodeAddress partner;
                     let currentDeposit = pd_Deposit detail;
                     let amountToDeposit = totalDeposit - currentDeposit;
                     let tx = TxSetTotalDeposit (ucast channelId) nodeAddress partner totalDeposit;
                     (if totalDeposit \<le> currentDeposit then Some (None, [])
                      else case cc_BalanceOf cc nodeAddress of
                             Inl err \<Rightarrow> Some (Some err, [])
                           | Inr currentBalance \<Rightarrow>
                               (if currentBalance < amountToDeposit then Some (Some (Msg ''current balance not enough''), [])
                                else case cc_Submit cc tx of
                                       Some err \<Rightarrow> Some (Some err, [])
                                     | None \<Rightarrow>
                                         (case snd (cc_PollForTxConfirmed cc (Some tx)) of
                                            None \<Rightarrow> Some (None, [tx])
                                          | Some err \<Rightarrow>
                                              do { (ret, nerr) \<leftarrow> checkChannelStateForDeposit later nodeAddress nodeAddress partner
                                                      channelId totalDeposit;
                                                   Some (if \<not> ret then nerr else Some err, [tx]) }))) }) }"

definition ProxyClose ::
  "ChainClient \<Rightarrow> Address \<Rightarrow> ChannelID \<Rightarrow> Address \<Rightarrow> BalanceHash \<Rightarrow> Nonce \<Rightarrow> byte list \<Rightarrow> Signature \<Rightarrow> PubKey
     \<Rightarrow> ContractTx list option" where
  "ProxyClose cc nodeAddress channelId partner balanceHash nonce additionalHash signature partnerPubKey =
     do { ok \<leftarrow> CheckForOutdatedChannel cc nodeAddress partner channelId;
          let tx = TxCloseChannel (ucast channelId) nodeAddress partner balanceHash nonce additionalHash signature partnerPubKey;
          Some (if ok \<and> checkChannelStateForClose cc nodeAddress partner channelId \<and> cc_Submit cc tx = None then [tx] else []) }"

definition updateTransfer ::
  "ChainClient \<Rightarrow> Address \<Rightarrow> ChannelID \<Rightarrow> Address \<Rightarrow> BalanceHash \<Rightarrow> Nonce \<Rightarrow> byte list \<Rightarrow> Signature \<Rightarrow> Signature
     \<Rightarrow> PubKey \<Rightarrow> PubKey \<Rightarrow> ContractTx list option" where
  "updateTransfer cc nodeAddress channelId partner balanceHash nonce additionalHash closingSignature nonClosingSignature
       closePubKey nonClosePubKey =
     do { ok \<leftarrow> CheckForOutdatedChannel cc nodeAddress partner channelId;
          let tx = TxUpdateNonClosingBalanceProof (ucast channelId) partner nodeAddress balanceHash nonce additionalHash
                closingSignature nonClosingSignature closePubKey nonClosePubKey;
          Some (if ok \<and> cc_Submit cc tx = None then [tx] else []) }"

definition withDraw ::
  "ChainClient \<Rightarrow> ChainClient \<Rightarrow> Address \<Rightarrow> ChannelID \<Rightarrow> Address \<Rightarrow> TokenAmount \<Rightarrow> Signature \<Rightarrow> PubKey \<Rightarrow> Signature \<Rightarrow> PubKey
     \<Rightarrow> (error option \<times> ContractTx list) option" where
  "withDraw cc later nodeAddress channelId partner totalWithdraw partnerSignature partnerPubKey signature pubKey =
     do { ok \<leftarrow> CheckForOutdatedChannel cc nodeAddress partner channelId;
          let tx = TxSetTotalWithdraw (ucast channelId) nodeAddress partner totalWithdraw signature pubKey
                partnerSignature partnerPubKey;
          (if \<not> ok then Some (Some (Msg ''channel out dated''), [])
           else case cc_Submit cc tx of
                  Some err \<Rightarrow> Some (Some err, [])
                | None \<Rightarrow>
                    (case snd (cc_PollForTxConfirmed cc (Some tx)) of
                       None \<Rightarrow> Some (None, [tx])
                     | Some err \<Rightarrow>
                         do { _ \<leftarrow> checkChannelStateForWithdraw later nodeAddress nodeAddress partner channelId totalWithdraw;
                              Some (Some err, [tx]) })) }"

definition cooperativeSettle ::
  "ChainClient \<Rightarrow> Address \<Rightarrow> ChannelID \<Rightarrow> Address \<Rightarrow> TokenAmount \<Rightarrow> Address \<Rightarrow> TokenAmount
     \<Rightarrow> Signature \<Rightarrow> PubKey \<Rightarrow> Signature \<Rightarrow> PubKey \<Rightarrow> (error option \<times> ContractTx list) option" where
  "cooperativeSettle cc nodeAddress channelId participant1 participant1Balance participant2 participant2Balance
       participant1Signature participant1PubKey participant2Signature participant2PubKey =
     do { ok \<leftarrow> CheckForOutdatedChannel cc nodeAddress participant2 channelId;
          let tx = TxCooperativeSettle (ucast channelId) participant1 participant1Balance participant2 participant2Balance
                participant1Signature participant1PubKey participant2Signature participant2PubKey;
          Some (if \<not> ok then (Some (Msg ''channel out dated''), [])
                else case cc_Submit cc tx of
                       Some err \<Rightarrow> (Some err, [])
                     | None \<Rightarrow> (snd (cc_PollForTxConfirmed cc (Some tx)), [tx])) }"

definition unlock :: "ChainClient \<Rightarrow> Address \<Rightarrow> ChannelID \<Rightarrow> Address \<Rightarrow> HashTimeLockState list \<Rightarrow> ContractTx list" where
  "unlock cc nodeAddress channelId partner merkleTreeLeaves =
     (let tx = TxUnlock (ucast channelId) nodeAddress partner (concat (map PackData merkleTreeLeaves))
      in if merkleTreeLeaves \<noteq> [] \<and> cc_Submit cc tx = None then [tx] else [])"

text \<open>The participant with the smaller maximum comes first; the sums wrap.\<close>

definition settle ::
  "ChainClient \<Rightarrow> ChainClient \<Rightarrow> Address \<Rightarrow> ChannelID \<Rightarrow> TokenAmount \<Rightarrow> TokenAmount \<Rightarrow> LocksRoot \<Rightarrow> Address
     \<Rightarrow> TokenAmount \<Rightarrow> TokenAmount \<Rightarrow> LocksRoot \<Rightarrow> ContractTx list option" where
  "settle cc later nodeAddress channelId transferredAmount lockedAmount locksRoot partner
       partnerTransferredAmount partnerLockedAmount partnerLocksroot =
     do { ok \<leftarrow> CheckForOutdatedChannel cc nodeAddress partner channelId;
          let ourBpIsLarger = transferredAmount + lockedAmount > partnerTransferredAmount + partnerLockedAmount;
          let tx = (if ourBpIsLarger
                then TxSettleChannel (ucast channelId) partner partnerTransferredAmount partnerLockedAmount partnerLocksroot
                       nodeAddress transferredAmount lockedAmount locksRoot
                else TxSettleChannel (ucast channelId) nodeAddress transferredAmount lockedAmount locksRoot
                       partner partnerTransferredAmount partnerLockedAmount partnerLocksroot);
          (if \<not> ok \<or> cc_Submit cc tx \<noteq> None then Some []
           else case snd (cc_PollForTxConfirmed cc (Some tx)) of
                  None \<Rightarrow> Some [tx]
                | Some _ \<Rightarrow> do { _ \<leftarrow> checkChannelStateForSettle later nodeAddress partner channelId; Some [tx] }) }"

text \<open>\<open>NewPaymentChannel\<close>: the participants, the node first; an error when the node is none of them.\<close>

definition NewPaymentChannel :: "Address \<Rightarrow> Address \<times> Address \<Rightarrow> (Address \<times> Address) option" where
  "NewPaymentChannel nodeAddress args =
     (case args of (participant1, participant2) \<Rightarrow>
        if nodeAddress \<noteq> participant1 \<and> nodeAddress \<noteq> participant2 then None
        else Some (if nodeAddress = participant2 then (participant2, participant1) else (participant1, participant2)))"

section \<open>The registry of secrets\<close>

text \<open>\<open>openSecretTransactions\<close>: the hashes a transaction is open for.\<close>

definition IsSecretRegistered :: "ChainClient \<Rightarrow> SecretHash \<Rightarrow> bool" where
  "IsSecretRegistered cc secretHash \<longleftrightarrow>
     (case cc_GetSecretRevealBlockHeight cc secretHash of
        None \<Rightarrow> False | Some height \<Rightarrow> height \<noteq> 0 \<and> (ucast height :: BlockHeight) \<noteq> 0)"

text \<open>The secrets to register, the open hashes after them, and whether one of the secrets is there twice.\<close>

fun secretsToRegister ::
  "env \<Rightarrow> ChainClient \<Rightarrow> SecretHash list \<Rightarrow> SecretHash list \<Rightarrow> Secret list \<Rightarrow> Secret list \<times> SecretHash list \<times> bool" where
  "secretsToRegister e cc own openTxs [] = ([], openTxs, False)"
| "secretsToRegister e cc own openTxs (secret # secrets) =
     (let secretHash = sha256 e secret
      in if secretHash \<in> set openTxs
         then (case secretsToRegister e cc own openTxs secrets of
                 (reg, openTxs, twice) \<Rightarrow> (reg, openTxs, twice \<or> secretHash \<in> set own))
         else if IsSecretRegistered cc secretHash then secretsToRegister e cc own openTxs secrets
         else (case secretsToRegister e cc (secretHash # own) (secretHash # openTxs) secrets of
                 (reg, openTxs, twice) \<Rightarrow> (secret # reg, openTxs, twice)))"

text \<open>
  A secret that is in the batch twice is waited for by the call that holds its lock, for ever. When the transaction
  cannot be confirmed the hashes stay open.
\<close>

definition RegisterSecretBatch ::
  "env \<Rightarrow> ChainClient \<Rightarrow> Secret list \<Rightarrow> SecretHash list \<Rightarrow> (SecretHash list \<times> ContractTx list) option" where
  "RegisterSecretBatch e cc secrets openTxs =
     (let (reg, openTxs, twice) = secretsToRegister e cc [] openTxs secrets;
          tx = TxRegisterSecretBatch (concat reg)
      in if reg = [] then Some (openTxs, [])
         else let sent = (if cc_Submit cc tx = None then Some tx else None)
              in case cc_PollForTxConfirmed cc sent of
                   (_, Some _) \<Rightarrow> Some (openTxs, case sent of None \<Rightarrow> [] | Some tx \<Rightarrow> [tx])
                 | (False, None) \<Rightarrow> None
                 | (True, None) \<Rightarrow> if twice then None else Some ([], case sent of None \<Rightarrow> [] | Some tx \<Rightarrow> [tx]))"

definition RegisterSecret :: "env \<Rightarrow> ChainClient \<Rightarrow> Secret \<Rightarrow> SecretHash list \<Rightarrow> (SecretHash list \<times> ContractTx list) option" where
  "RegisterSecret e cc secret openTxs = RegisterSecretBatch e cc [secret] openTxs"

section \<open>What the transactions carry\<close>

lemma settle_tx:
  assumes "settle cc later nodeAddress k t1 l1 r1 partner t2 l2 r2 = Some txs" and "tx \<in> set txs"
  shows "tx = TxSettleChannel (ucast k) nodeAddress t1 l1 r1 partner t2 l2 r2 \<and> t1 + l1 \<le> t2 + l2
    \<or> tx = TxSettleChannel (ucast k) partner t2 l2 r2 nodeAddress t1 l1 r1 \<and> t2 + l2 \<le> t1 + l1"
  using assms by (auto simp: settle_def Let_def split: bind_splits if_splits option.split_asm)

text \<open>A deposit is only made of money the node has.\<close>

lemma deposit_covered:
  assumes "ProxySetTotalDeposit cc later nodeAddress k amount partner = Some (err, txs)" and "tx \<in> set txs"
  shows "tx = TxSetTotalDeposit (ucast k) nodeAddress partner amount
    \<and> (\<exists>d bal. detailParticipant cc k nodeAddress partner = Some d \<and> cc_BalanceOf cc nodeAddress = Inr bal
         \<and> pd_Deposit d < amount \<and> uint amount - uint (pd_Deposit d) \<le> uint bal)"
proof -
  have "uint amount - uint d \<le> uint bal" if "\<not> bal < amount - d" "\<not> amount \<le> d" for d bal :: u64
    using that by (simp add: word_less_def word_le_def uint_sub_lem [THEN iffD1])
  with assms show ?thesis
    by (auto simp: ProxySetTotalDeposit_def Let_def split: bind_splits if_splits option.split_asm sum.split_asm)
qed

section \<open>Departures\<close>

text \<open>When the chain cannot be asked about a channel, every call that would change it dereferences nil.\<close>

theorem unreachable_chain_panics:
  assumes "\<forall>k. cc_GetChannelInfo cc k nodeAddress partner = None"
  shows "settle cc later nodeAddress k t1 l1 r1 partner t2 l2 r2 = None"
    and "ProxyClose cc nodeAddress k partner h n ah sg pk = None"
    and "updateTransfer cc nodeAddress k partner h n ah sg sg' pk pk' = None"
    and "ProxySetTotalDeposit cc later nodeAddress k amount partner = None"
  using assms
  by (simp_all add: settle_def ProxyClose_def updateTransfer_def ProxySetTotalDeposit_def CheckForOutdatedChannel_def
      detailChannel_def Let_def)

text \<open>
  A comment says that the open hashes are cleared whether the transaction succeeds or not. When it cannot be
  confirmed they are kept, and the secret is never sent again.
\<close>

theorem failed_registration_not_repeated:
  assumes "\<not> IsSecretRegistered cc (sha256 e secret)" and "\<forall>tx. snd (cc_PollForTxConfirmed cc tx) \<noteq> None"
  shows "\<exists>openTxs txs. RegisterSecret e cc secret [] = Some (openTxs, txs)
    \<and> RegisterSecret e cc2 secret openTxs = Some (openTxs, [])"
proof -
  obtain sent where s: "sent = (if cc_Submit cc (TxRegisterSecretBatch secret) = None then Some (TxRegisterSecretBatch secret) else None)"
    by simp
  obtain b err where p: "cc_PollForTxConfirmed cc sent = (b, Some err)"
    using assms(2) by (metis option.exhaust prod.exhaust_sel)
  then have "RegisterSecret e cc secret [] = Some ([sha256 e secret], case sent of None \<Rightarrow> [] | Some tx \<Rightarrow> [tx])"
    using assms(1) s
    by (cases "cc_Submit cc (TxRegisterSecretBatch secret) = None"; cases b)
       (auto simp: RegisterSecret_def RegisterSecretBatch_def Let_def)
  moreover have "RegisterSecret e cc2 secret [sha256 e secret] = Some ([sha256 e secret], [])"
    by (simp add: RegisterSecret_def RegisterSecretBatch_def Let_def)
  ultimately show ?thesis by blast
qed

text \<open>A transaction that is not confirmed in time, without an error, panics.\<close>

theorem unconfirmed_registration_panics:
  assumes "\<not> IsSecretRegistered cc (sha256 e secret)" and "\<forall>tx. cc_PollForTxConfirmed cc tx = (False, None)"
  shows "RegisterSecret e cc secret [] = None"
  using assms by (simp add: RegisterSecret_def RegisterSecretBatch_def Let_def)

end
