(* ===== verification/Pylons_Service.thy ===== *)
theory Pylons_Service
  imports Pylons_Endpoint Pylons_Wal Pylons_Lookup Pylons_Proxies
begin

text \<open>
  The service of \<open>service/channel.go\<close> and \<open>service/channel_event_handler.go\<close>: a state change is logged and dispatched,
  and every event it gives is acted upon. Messages are signed and queued, the calls of the contracts are made, the
  callers that wait for a payment or a withdrawal are told.

  The functions return \<open>None\<close> when the code panics or waits for ever. What is asked of the blockchain, of the
  network and of the callers is a list of \<open>Call\<close>s, in their order; a failure that the proxy of a contract reports
  later is not modelled. Whether the network takes a message sent without a queue, whether the health check of a node can be
  started, whether a secret is registered and how a secret is encrypted are parameters.
  The handlers of settle and batch unlock first ask the client of the chain (\<open>ss_Chain\<close>) and the storage.
\<close>

section \<open>State\<close>

datatype (plugins only: code) PaymentType = PAYMENT_DIRECT | PAYMENT_MEDIATED

text \<open>\<open>ps_paymentDone\<close>: what lies in the channel, which has room for one.\<close>

record PaymentStatus =
  ps_paymentType :: PaymentType
  ps_paymentId :: PaymentID
  ps_amount :: TokenAmount
  ps_TokenNetworkId :: TokenNetworkID
  ps_paymentDone :: "bool option"

datatype (plugins only: code) Call =
    CallClose TokenNetworkID ChannelID Nonce BalanceHash Keccak256 Signature PubKey
  | CallUpdateTransfer TokenNetworkID ChannelID Nonce BalanceHash Keccak256 Signature Signature PubKey PubKey
  | CallSettle TokenNetworkID ChannelID TokenAmount TokenAmount LocksRoot TokenAmount TokenAmount LocksRoot
  | CallUnlock TokenNetworkID ChannelID "HashTimeLockState list"
  | CallRegisterSecret Secret
  | CallWithdraw TokenNetworkID ChannelID Address TokenAmount Signature PubKey Signature PubKey
  | CallCooperativeSettle TokenNetworkID ChannelID Address TokenAmount Address TokenAmount Signature PubKey Signature PubKey
  | P2pSend Address WireMessage
  | StartHealthCheck Address
  | WithdrawResult ChannelID bool error
  | PaymentReceived PaymentID TokenAmount Address
  | NotifyNewChannel ChannelID Address
  | JoinChannel Address TokenAmount

record Service =
  ss_Wal :: WriteAheadLog
  ss_snapshotGroup :: nat
  ss_Transport :: Transport
  ss_Account :: Account
  ss_service :: ChannelService
  ss_P2pSend :: "Address \<Rightarrow> WireMessage \<Rightarrow> bool"
  ss_StartHealthCheck :: "Address \<Rightarrow> error option"
  ss_IsSecretRegistered :: "SecretHash \<Rightarrow> bool"
  ss_EncryptSecret :: "Address \<Rightarrow> Secret \<Rightarrow> error + EncSecret"
  ss_Chain :: ChainClient
  ss_targetsToIdentifierToStatues :: "(Address, (PaymentID, PaymentStatus) smap) smap"
  ss_channelWithdrawStatus :: "(ChannelID, unit) smap"
  ss_calls :: "Call list"

definition StateFromChannel :: "Service \<Rightarrow> ChainState option" where
  "StateFromChannel s = wal_CurrentState (ss_Wal s)"

definition call :: "Call \<Rightarrow> Service \<Rightarrow> Service" where
  "call c s = s\<lparr>ss_calls := ss_calls s @ [c]\<rparr>"

section \<open>Payments and withdrawals somebody waits for\<close>

definition Match :: "PaymentType \<Rightarrow> TokenNetworkID \<Rightarrow> TokenAmount \<Rightarrow> PaymentStatus \<Rightarrow> bool" where
  "Match paymentType tokenNetworkId amount status \<longleftrightarrow>
     ps_paymentType status = paymentType \<and> ps_TokenNetworkId status = tokenNetworkId \<and> ps_amount status = amount"

definition storeStatus :: "Address \<Rightarrow> PaymentID \<Rightarrow> PaymentStatus \<Rightarrow> Service \<Rightarrow> Service" where
  "storeStatus target identifier status s =
     (let payments = (case smap_load (ss_targetsToIdentifierToStatues s) target of Some payments \<Rightarrow> payments | None \<Rightarrow> [])
      in s\<lparr>ss_targetsToIdentifierToStatues :=
           smap_store target (smap_store identifier status payments) (ss_targetsToIdentifierToStatues s)\<rparr>)"

definition RegisterPaymentStatus ::
  "Address \<Rightarrow> PaymentID \<Rightarrow> PaymentType \<Rightarrow> TokenAmount \<Rightarrow> TokenNetworkID \<Rightarrow> Service \<Rightarrow> Service" where
  "RegisterPaymentStatus target identifier paymentType amount tokenNetworkId s =
     storeStatus target identifier
       \<lparr>ps_paymentType = paymentType, ps_paymentId = identifier, ps_amount = amount,
        ps_TokenNetworkId = tokenNetworkId, ps_paymentDone = None\<rparr> s"

definition GetPaymentStatus :: "Address \<Rightarrow> PaymentID \<Rightarrow> Service \<Rightarrow> PaymentStatus option" where
  "GetPaymentStatus target identifier s =
     do { payments \<leftarrow> smap_load (ss_targetsToIdentifierToStatues s) target; smap_load payments identifier }"

definition RemovePaymentStatus :: "Address \<Rightarrow> PaymentID \<Rightarrow> Service \<Rightarrow> Service \<times> bool" where
  "RemovePaymentStatus target identifier s =
     (case smap_load (ss_targetsToIdentifierToStatues s) target of
        None \<Rightarrow> (s, False)
      | Some payments \<Rightarrow>
          (if smap_load payments identifier \<noteq> None
           then (s\<lparr>ss_targetsToIdentifierToStatues :=
                   smap_store target (smap_delete identifier payments) (ss_targetsToIdentifierToStatues s)\<rparr>, True)
           else (s, False)))"

text \<open>\<open>paymentDone <- result\<close>: the result of a payment; a second one finds no room and waits.\<close>

definition paymentDone :: "Address \<Rightarrow> PaymentID \<Rightarrow> bool \<Rightarrow> Service \<Rightarrow> Service option" where
  "paymentDone target identifier result s =
     (case GetPaymentStatus target identifier s of
        None \<Rightarrow> Some s
      | Some paymentStatus \<Rightarrow>
          (if ps_paymentDone paymentStatus \<noteq> None then None
           else Some (storeStatus target identifier (paymentStatus\<lparr>ps_paymentDone := Some result\<rparr>) s)))"

definition RegisterWithdrawStatus :: "ChannelID \<Rightarrow> Service \<Rightarrow> Service" where
  "RegisterWithdrawStatus channelId s =
     s\<lparr>ss_channelWithdrawStatus := smap_store channelId () (ss_channelWithdrawStatus s)\<rparr>"

definition GetWithdrawStatus :: "ChannelID \<Rightarrow> Service \<Rightarrow> bool" where
  "GetWithdrawStatus channelId s \<longleftrightarrow> smap_load (ss_channelWithdrawStatus s) channelId \<noteq> None"

definition RemoveWithdrawStatus :: "ChannelID \<Rightarrow> Service \<Rightarrow> Service" where
  "RemoveWithdrawStatus channelId s =
     s\<lparr>ss_channelWithdrawStatus := smap_delete channelId (ss_channelWithdrawStatus s)\<rparr>"

definition WithdrawResultNotify :: "ChannelID \<Rightarrow> bool \<Rightarrow> error \<Rightarrow> Service \<Rightarrow> Service" where
  "WithdrawResultNotify channelId result err s =
     (if GetWithdrawStatus channelId s
      then call (WithdrawResult channelId result err) (RemoveWithdrawStatus channelId s)
      else s)"

section \<open>Events\<close>

text \<open>\<open>channel.Sign\<close>, then \<open>SendAsync\<close> to the queue of the recipient and the channel. Errors are only logged.\<close>

definition sendQueued :: "env \<Rightarrow> SendMessageEvent \<Rightarrow> Event \<Rightarrow> Service \<Rightarrow> Service option" where
  "sendQueued e msg event s =
     do { message \<leftarrow> MessageFromSendEvent event;
          (case message of
             None \<Rightarrow> Some s
           | Some message \<Rightarrow>
               do { signed \<leftarrow> Sign e (sv_slices (ss_service s)) (ss_Account s) message;
                    (case signed of
                       Inl _ \<Rightarrow> Some s
                     | Inr message \<Rightarrow>
                         do { (err, tp) \<leftarrow> SendAsync \<lparr>qi_Recipient = sm_Recipient msg, qi_ChannelId = sm_ChannelId msg\<rparr>
                                message (ss_Transport s);
                              Some (s\<lparr>ss_Transport := tp\<rparr>) }) }) }"

text \<open>The withdrawal is forgotten in the current state itself, past the log.\<close>

definition handleWithdrawFailure :: "env \<Rightarrow> TokenNetworkID \<Rightarrow> ChannelID \<Rightarrow> error \<Rightarrow> Service \<Rightarrow> Service option" where
  "handleWithdrawFailure e tokenNetworkId channelId err s =
     do { let s = WithdrawResultNotify channelId False err s;
          chain \<leftarrow> StateFromChannel s;
          tn \<leftarrow> GetTokenNetworkByIdentifier e chain tokenNetworkId;
          channelState \<leftarrow> smap_load (tn_ChannelsMap tn) channelId;
          Some (s\<lparr>ss_Wal := (ss_Wal s)\<lparr>wal_CurrentState := Some (storeTokenNetwork e tokenNetworkId
            (tn\<lparr>tn_ChannelsMap := smap_store channelId (DeleteWithdrawTransaction channelState) (tn_ChannelsMap tn)\<rparr>)
            chain)\<rparr>\<rparr>) }"

definition HandleSendWithdrawRequest ::
  "env \<Rightarrow> SendMessageEvent \<Rightarrow> TokenNetworkID \<Rightarrow> Event \<Rightarrow> Service \<Rightarrow> Service option" where
  "HandleSendWithdrawRequest e msg tokenNetworkId event s =
     do { message \<leftarrow> MessageFromSendEvent event;
          (case message of
             None \<Rightarrow> Some s
           | Some message \<Rightarrow>
               do { signed \<leftarrow> Sign e (sv_slices (ss_service s)) (ss_Account s) message;
                    (case signed of
                       Inl _ \<Rightarrow> Some s
                     | Inr message \<Rightarrow>
                         (let s1 = call (P2pSend (sm_Recipient msg) message) s
                          in if ss_P2pSend s (sm_Recipient msg) message then Some s1
                             else handleWithdrawFailure e tokenNetworkId (sm_ChannelId msg)
                                    (Msg ''send withdraw request failed'') s1)) }) }"

definition HandleSendWithdraw :: "env \<Rightarrow> SendMessageEvent \<Rightarrow> Event \<Rightarrow> Service \<Rightarrow> Service option" where
  "HandleSendWithdraw e msg event s =
     do { message \<leftarrow> MessageFromSendEvent event;
          (case message of
             None \<Rightarrow> Some s
           | Some message \<Rightarrow>
               do { signed \<leftarrow> Sign e (sv_slices (ss_service s)) (ss_Account s) message;
                    Some (case signed of Inl _ \<Rightarrow> s | Inr message \<Rightarrow> call (P2pSend (sm_Recipient msg) message) s) }) }"

text \<open>\<open>GetPaymentChannelArgs\<close> finds the channel; without it the handlers of contract events panic.\<close>

definition GetPaymentChannelArgs :: "env \<Rightarrow> TokenNetworkID \<Rightarrow> ChannelID \<Rightarrow> Service \<Rightarrow> (Address \<times> Address) option" where
  "GetPaymentChannelArgs e tokenNetworkId channelId s =
     do { chain \<leftarrow> StateFromChannel s;
          channelState \<leftarrow> GetChannelStateByTokenNetworkId e chain tokenNetworkId channelId;
          _ \<leftarrow> cs_OpenTransaction channelState;
          Some (es_Address (cs_OurState channelState), es_Address (cs_PartnerState channelState)) }"

definition HandleContractSendChannelClose ::
  "env \<Rightarrow> TokenNetworkID \<Rightarrow> ChannelID \<Rightarrow> BalanceProofSignedState option \<Rightarrow> Service \<Rightarrow> Service option" where
  "HandleContractSendChannelClose e tokenNetworkId channelId balanceProof s =
     do { _ \<leftarrow> GetPaymentChannelArgs e tokenNetworkId channelId s;
          Some (call (case balanceProof of
              None \<Rightarrow> CallClose tokenNetworkId channelId 0 0 0 [] []
            | Some bp \<Rightarrow> CallClose tokenNetworkId channelId (bp_Nonce bp)
                (HashBalanceData e (bp_TransferredAmount bp) (bp_LockedAmount bp) (bp_LocksRoot bp))
                (bp_MessageHash bp) (bp_Signature bp) (bp_PublicKey bp)) s) }"

definition HandelContractSendChannelUpdate ::
  "env \<Rightarrow> TokenNetworkID \<Rightarrow> ChannelID \<Rightarrow> BalanceProofSignedState \<Rightarrow> Service \<Rightarrow> Service option" where
  "HandelContractSendChannelUpdate e tokenNetworkId channelId bp s =
     do { _ \<leftarrow> GetPaymentChannelArgs e tokenNetworkId channelId s;
          let balanceHash = HashBalanceData e (bp_TransferredAmount bp) (bp_LockedAmount bp) (bp_LocksRoot bp);
          let nonClosingData = PackBalanceProofUpdate e (bp_Nonce bp) balanceHash (hash_bytes (bp_MessageHash bp))
                (bp_ChannelId bp) (bp_TokenNetworkId bp) (bp_ChainId bp) (bp_Signature bp);
          (case ac_Sign (ss_Account s) nonClosingData of
             Inl _ \<Rightarrow> Some s
           | Inr ourSignature \<Rightarrow>
               Some (call (CallUpdateTransfer tokenNetworkId channelId (bp_Nonce bp) balanceHash (bp_MessageHash bp)
                 (bp_Signature bp) ourSignature (bp_PublicKey bp) (ac_PublicKey (ss_Account s))) s)) }"

definition contractCall :: "env \<Rightarrow> TokenNetworkID \<Rightarrow> ChannelID \<Rightarrow> Call \<Rightarrow> Service \<Rightarrow> Service option" where
  "contractCall e tokenNetworkId channelId c s =
     do { _ \<leftarrow> GetPaymentChannelArgs e tokenNetworkId channelId s; Some (call c s) }"

text \<open>What the contract knows of us and of the partner.\<close>

definition contractDetails :: "env \<Rightarrow> TokenNetworkID \<Rightarrow> ChannelID \<Rightarrow> Service \<Rightarrow> ParticipantsDetails option" where
  "contractDetails e tokenNetworkId channelId s =
     do { args \<leftarrow> GetPaymentChannelArgs e tokenNetworkId channelId s;
          (participant1, participant2) \<leftarrow> NewPaymentChannel (ac_Address (ss_Account s)) args;
          DetailParticipants (ss_Chain s) (ac_Address (ss_Account s)) participant1 participant2 channelId }"

definition HandleContractSendChannelSettle ::
  "env \<Rightarrow> codec \<Rightarrow> TokenNetworkID \<Rightarrow> ChannelID \<Rightarrow> Service \<Rightarrow> Service option" where
  "HandleContractSendChannelSettle e c tokenNetworkId channelId s =
     do { details \<leftarrow> contractDetails e tokenNetworkId channelId s;
          let storage = wal_Storage (ss_Wal s);
          (case details of
             (Some our, Some partner) \<Rightarrow>
               do { ourBalanceProof \<leftarrow>
                      (if pd_BalanceHash our = 0 then Some None
                       else GetLatestKnownBalanceProofFromEvents c storage channelId (pd_BalanceHash our));
                    partnerBalanceProof \<leftarrow>
                      (if pd_BalanceHash partner = 0 then Some None
                       else GetLatestKnownBalanceProofFromStateChanges c storage channelId (pd_BalanceHash partner)
                              (pd_Address partner));
                    (let (ta, la, lr) = (case ourBalanceProof of None \<Rightarrow> (0, 0, 0) | Some vs \<Rightarrow> vs);
                         (pta, pla, plr) = (case partnerBalanceProof of None \<Rightarrow> (0, 0, 0) | Some vs \<Rightarrow> vs)
                     in Some (call (CallSettle tokenNetworkId channelId ta la lr pta pla plr) s)) }
           | _ \<Rightarrow> Some s) }"

text \<open>Whose locks are unlocked is found by the participant; without a state change to restore the code panics.\<close>

definition HandleContractSendChannelUnlock ::
  "env \<Rightarrow> transition \<Rightarrow> codec \<Rightarrow> TokenNetworkID \<Rightarrow> ChannelID \<Rightarrow> Address \<Rightarrow> Service \<Rightarrow> Service option" where
  "HandleContractSendChannelUnlock e transition c tokenNetworkId channelId participant s =
     do { (our, partner) \<leftarrow> contractDetails e tokenNetworkId channelId s;
          our \<leftarrow> our;
          partner \<leftarrow> partner;
          let storage = wal_Storage (ss_Wal s);
          let isPartnerUnlock = (pd_Address partner = participant \<and> pd_LocksRoot partner \<noteq> 0);
          let isOurUnlock = (pd_Address our = participant \<and> pd_LocksRoot our \<noteq> 0);
          (if \<not> isPartnerUnlock \<and> \<not> isOurUnlock then Some s
           else do { stateChangeIdentifier \<leftarrow>
                       (if isPartnerUnlock
                        then map_option (\<lambda>rec. case rec of None \<Rightarrow> 0 | Some rec \<Rightarrow> sr_StateChangeIdentifier rec)
                               (GetStateChangeWithBalanceProofByLocksroot c storage channelId (pd_LocksRoot partner)
                                 (pd_Address partner))
                        else map_option (\<lambda>rec. case rec of None \<Rightarrow> 0 | Some rec \<Rightarrow> er_StateChangeIdentifier rec)
                               (GetEventWithBalanceProofByLocksroot c storage channelId (pd_LocksRoot our)));
                     (if stateChangeIdentifier = 0 then None
                      else do { restored \<leftarrow> ChannelStateUntilStateChange e transition c (sv_ranges (ss_service s)) storage
                                  channelId stateChangeIdentifier;
                                restoredChannelState \<leftarrow> restored;
                                merkleTreeLeaves \<leftarrow>
                                  (if AddressEqual (es_Address (cs_PartnerState restoredChannelState)) participant
                                   then GetBatchUnlock (cs_PartnerState restoredChannelState)
                                   else if AddressEqual (es_Address (cs_OurState restoredChannelState)) participant
                                   then GetBatchUnlock (cs_OurState restoredChannelState)
                                   else Some []);
                                Some (call (CallUnlock tokenNetworkId channelId merkleTreeLeaves) s) }) }) }"

definition OnChannelEvent :: "env \<Rightarrow> transition \<Rightarrow> codec \<Rightarrow> Event \<Rightarrow> Service \<Rightarrow> Service option" where
  "OnChannelEvent e transition c event s =
     (case event of
        SendDirectTransfer msg _ _ _ \<Rightarrow> sendQueued e msg event s
      | SendProcessed msg \<Rightarrow> sendQueued e msg event s
      | EventPaymentSentSuccess _ _ identifier _ target \<Rightarrow> paymentDone target identifier True s
      | EventPaymentSentFailed _ _ identifier target _ \<Rightarrow> paymentDone target identifier False s
      | EventPaymentReceivedSuccess _ _ identifier amount initiator \<Rightarrow> Some (call (PaymentReceived identifier amount initiator) s)
      | ContractSendChannelClose channelId _ tokenNetworkId bp \<Rightarrow> HandleContractSendChannelClose e tokenNetworkId channelId bp s
      | ContractSendChannelUpdateTransfer _ channelId tokenNetworkId bp \<Rightarrow>
          HandelContractSendChannelUpdate e tokenNetworkId channelId bp s
      | ContractSendChannelSettle channelId tokenNetworkId \<Rightarrow>
          HandleContractSendChannelSettle e c tokenNetworkId channelId s
      | SendLockedTransfer msg _ \<Rightarrow> sendQueued e msg event s
      | SendLockExpired msg _ _ \<Rightarrow> sendQueued e msg event s
      | SendSecretReveal msg _ _ \<Rightarrow> sendQueued e msg event s
      | SendBalanceProof msg _ _ _ _ _ \<Rightarrow> sendQueued e msg event s
      | NilSendBalanceProof \<Rightarrow> None
      | SendSecretRequest msg _ _ _ _ \<Rightarrow> sendQueued e msg event s
      | SendRefundTransfer msg _ \<Rightarrow> sendQueued e msg event s
      | ContractSendSecretReveal _ secret \<Rightarrow> Some (call (CallRegisterSecret secret) s)
      | SendWithdrawRequest msg _ tokenNetworkId _ \<Rightarrow> HandleSendWithdrawRequest e msg tokenNetworkId event s
      | SendWithdraw msg _ _ _ _ _ _ \<Rightarrow> HandleSendWithdraw e msg event s
      | ContractSendChannelWithdraw tokenNetworkId channelId _ amount sg1 a1 pk1 sg2 a2 pk2 \<Rightarrow>
          contractCall e tokenNetworkId channelId (CallWithdraw tokenNetworkId channelId a2 amount sg2 pk2 sg1 pk1) s
      | EventWithdrawRequestSentFailed tokenNetworkId channelId _ reason \<Rightarrow>
          handleWithdrawFailure e tokenNetworkId channelId (InMessage ''withdraw request sent failed: '' reason) s
      | EventInvalidReceivedWithdraw tokenNetworkId channelId _ _ _ \<Rightarrow>
          handleWithdrawFailure e tokenNetworkId channelId (Msg ''invalid receive withdraw'') s
      | EventWithdrawRequestTimeout tokenNetworkId channelId \<Rightarrow>
          handleWithdrawFailure e tokenNetworkId channelId (Msg ''withdraw request timeout'') s
      | SendCooperativeSettleRequest msg _ _ _ _ _ \<Rightarrow> sendQueued e msg event s
      | SendCooperativeSettle msg _ _ _ _ _ _ _ _ \<Rightarrow> sendQueued e msg event s
      | ContractSendChannelCooperativeSettle tokenNetworkId channelId p1 b1 p2 b2 sg1 _ pk1 sg2 _ pk2 \<Rightarrow>
          contractCall e tokenNetworkId channelId
            (CallCooperativeSettle tokenNetworkId channelId p1 b1 p2 b2 sg1 pk1 sg2 pk2) s
      | ContractSendChannelBatchUnlock _ tokenNetworkId channelId participant \<Rightarrow>
          HandleContractSendChannelUnlock e transition c tokenNetworkId channelId participant s
      | _ \<Rightarrow> Some s)"

fun onEvents :: "env \<Rightarrow> transition \<Rightarrow> codec \<Rightarrow> Event list \<Rightarrow> Service \<Rightarrow> Service option" where
  "onEvents e transition c [] s = Some s"
| "onEvents e transition c (event # events) s =
     do { s \<leftarrow> OnChannelEvent e transition c event s; onEvents e transition c events s }"

text \<open>The handlers of settle and unlock make one call at most.\<close>

lemma settle_calls:
  "HandleContractSendChannelSettle e c tn k s = Some s' \<Longrightarrow> s' = s \<or> (\<exists>x. s' = call x s)"
  by (auto simp: HandleContractSendChannelSettle_def Let_def split: bind_splits option.split_asm prod.split_asm if_splits)

lemma unlock_calls:
  "HandleContractSendChannelUnlock e t c tn k p s = Some s' \<Longrightarrow> s' = s \<or> (\<exists>x. s' = call x s)"
  by (auto simp: HandleContractSendChannelUnlock_def Let_def split: bind_splits if_splits)

section \<open>State changes\<close>

text \<open>\<open>every\<close> is the configured number of state changes between two snapshots.\<close>

definition HandleStateChange ::
  "env \<Rightarrow> transition \<Rightarrow> codec \<Rightarrow> nat \<Rightarrow> NodeChange \<Rightarrow> Service \<Rightarrow> (Service \<times> Event list) option" where
  "HandleStateChange e transition c every stateChange s =
     (case LogAndDispatch transition c stateChange (ss_Wal s) of
        (_, None) \<Rightarrow> None
      | (wal, Some eventList) \<Rightarrow>
          do { s \<leftarrow> onEvents e transition c eventList (s\<lparr>ss_Wal := wal\<rparr>);
               let newSnapShotGroup = wal_StateChangeId (ss_Wal s) div every;
               Some (if ss_snapshotGroup s < newSnapShotGroup
                     then s\<lparr>ss_Wal := Snapshot c (ss_Wal s), ss_snapshotGroup := newSnapShotGroup\<rparr>
                     else s, eventList) })"

text \<open>What the handler of a message makes of it is handled; the search for routes may have changed the weights of edges.\<close>

definition OnMessage ::
  "env \<Rightarrow> transition \<Rightarrow> codec \<Rightarrow> nat \<Rightarrow> WireMessage \<Rightarrow> Service \<Rightarrow> (Service \<times> Event list) option" where
  "OnMessage e transition c every message s =
     do { chainState \<leftarrow> StateFromChannel s;
          (stateChange, chainState) \<leftarrow> messageChange e (ss_service s) chainState message;
          let s = s\<lparr>ss_Wal := (ss_Wal s)\<lparr>wal_CurrentState := Some chainState\<rparr>\<rparr>;
          (case stateChange of
             None \<Rightarrow> Some (s, [])
           | Some stateChange \<Rightarrow> HandleStateChange e transition c every stateChange s) }"

text \<open>
  C23. What a node signs is well formed, and reading a well-formed message never panics. The messages a node makes of its
  events and signs are well formed. A well-formed message, whoever it comes from, is turned by the handlers of a node into
  a state change, or is ignored: every read through a pointer and every slice of a byte string that they make is
  covered, provided the search for routes returns. The handler then is that state change: it ends, and panics, exactly as
  \<open>HandleStateChange\<close> does on it. (That one can panic, on messages that are well formed but do not fit the state of
  the node: \<open>unknown_network_panics\<close>, \<open>unlock_at_initiator_panics\<close>, \<open>bad_encrypted_secret_panics\<close>,
  \<open>wrong_token_panics\<close>.)
\<close>

theorem well_formed_messages:
  assumes "StateFromChannel s = Some chain" and "routes_found e (ss_service s) chain"
  shows "(\<forall>ev w. MessageFromSendEvent ev = Some (Some w) \<longrightarrow> Sign e beyond account w = Some (Inr m) \<longrightarrow> well_formed m)
    \<and> (well_formed m \<longrightarrow>
        (\<exists>stateChange chain'. messageChange e (ss_service s) chain m = Some (stateChange, chain')
           \<and> OnMessage e transition c every m s =
              (let s = s\<lparr>ss_Wal := (ss_Wal s)\<lparr>wal_CurrentState := Some chain'\<rparr>\<rparr>
               in case stateChange of
                    None \<Rightarrow> Some (s, [])
                  | Some sc \<Rightarrow> HandleStateChange e transition c every sc s)))"
proof -
  have "\<exists>sc chain'. messageChange e (ss_service s) chain m = Some (sc, chain')" if "well_formed m"
    using well_formed_handled [OF that assms(2)] by auto
  then show ?thesis using signed_well_formed assms(1) by (fastforce simp: OnMessage_def Let_def)
qed

section \<open>Start\<close>

definition InitializeTransactionsQueues :: "env \<Rightarrow> transition \<Rightarrow> codec \<Rightarrow> ChainState \<Rightarrow> Service \<Rightarrow> Service option" where
  "InitializeTransactionsQueues e transition c chainState s = onEvents e transition c (ch_PendingTransactions chainState) s"

text \<open>
  A payment is registered under the recipient of the message, with the transferred amount of its balance proof. A
  message that cannot be signed is queued as it is.
\<close>

definition initializeMessage :: "env \<Rightarrow> QueueId \<Rightarrow> Event \<Rightarrow> Service \<Rightarrow> Service option" where
  "initializeMessage e queueId event s =
     do { let s = (case event of
              SendDirectTransfer msg paymentId bp _ \<Rightarrow>
                RegisterPaymentStatus (sm_Recipient msg) paymentId PAYMENT_DIRECT (bu_TransferredAmount bp) (bu_TokenNetworkId bp) s
            | SendLockedTransfer msg transfer \<Rightarrow>
                RegisterPaymentStatus (sm_Recipient msg) (lu_PaymentId transfer) PAYMENT_MEDIATED
                  (bu_TransferredAmount (lu_BalanceProof transfer)) (bu_TokenNetworkId (lu_BalanceProof transfer)) s
            | _ \<Rightarrow> s);
          message \<leftarrow> MessageFromSendEvent event;
          (case message of
             None \<Rightarrow> Some s
           | Some message \<Rightarrow>
               do { signed \<leftarrow> Sign e (sv_slices (ss_service s)) (ss_Account s) message;
                    (_, tp) \<leftarrow> SendAsync queueId (case signed of Inl _ \<Rightarrow> message | Inr m \<Rightarrow> m) (ss_Transport s);
                    Some (s\<lparr>ss_Transport := tp\<rparr>) }) }"

fun initializeQueue :: "env \<Rightarrow> QueueId \<Rightarrow> Event list \<Rightarrow> Service \<Rightarrow> Service option" where
  "initializeQueue e queueId [] s = Some s"
| "initializeQueue e queueId (event # eventQueue) s =
     do { s \<leftarrow> initializeMessage e queueId event s; initializeQueue e queueId eventQueue s }"

fun initializeQueues :: "env \<Rightarrow> (QueueId, Event list) smap \<Rightarrow> QueueId list \<Rightarrow> Service \<Rightarrow> Service option" where
  "initializeQueues e eventsQueues [] s = Some s"
| "initializeQueues e eventsQueues (queueId # queueIds) s =
     do { s \<leftarrow> initializeQueue e queueId (case smap_load eventsQueues queueId of Some evs \<Rightarrow> evs | None \<Rightarrow> [])
            (call (StartHealthCheck (qi_Recipient queueId)) s);
          initializeQueues e eventsQueues queueIds s }"

definition InitializeMessagesQueues :: "env \<Rightarrow> ChainState \<Rightarrow> Service \<Rightarrow> Service option" where
  "InitializeMessagesQueues e chainState s =
     initializeQueues e (ch_QueueIdsToQueues chainState)
       (rg_Queues (sv_ranges (ss_service s)) (map fst (ch_QueueIdsToQueues chainState))) s"

end
