(* ===== verification/Pylons_Handover.thy ===== *)
theory Pylons_Handover
  imports Pylons_Service
begin

text \<open>
  The chain state and the transport: the messages the chain state waits to see acknowledged are the ones the queues of
  the transport are given, after every state change and after a restart.
\<close>

section \<open>What the transport gets\<close>

text \<open>An item of a queue that carries the signed message of an event, under the id of the event.\<close>

definition carries :: "env \<Rightarrow> slices \<Rightarrow> Account \<Rightarrow> Event \<Rightarrow> QueueItem \<Rightarrow> bool" where
  "carries e beyond account ev item \<longleftrightarrow>
     (\<exists>w. MessageFromSendEvent ev = Some (Some w) \<and> Sign e beyond account w = Some (Inr (qm_message item)))
   \<and> qm_messageId item = map_option sm_MessageId (GetSenderMessageEvent ev)"

lemma GetSenderMessageEvent_message: "GetSenderMessageEvent ev = Some sm \<Longrightarrow> \<exists>w. MessageFromSendEvent ev = Some (Some w)"
  by (cases ev) (simp_all add: MessageFromSendEvent_def)

lemma signed_item:
  assumes "GetSenderMessageEvent ev = Some sm" and "MessageFromSendEvent ev = Some (Some w)"
    and "Sign e beyond account w = Some (Inr m)"
  shows "queueItem m = Some (Inr \<lparr>qm_message = m, qm_messageId = Some (sm_MessageId sm)\<rparr>)"
proof -
  obtain sg where m: "setSignature \<lparr>sg_Signature = sg, sg_Sender = Some (addr_bytes (ac_Address account)),
           sg_Publickey = ac_PublicKey account\<rparr> w = Some m"
    using Sign_signed [OF assms(3)] by blast
  show ?thesis
    using assms(1,2) m
    by (cases ev)
      (auto simp: MessageFromSendEvent_def setSignature_def queueItem_def
        ProcessedFromEvent_def DirectTransferFromEvent_def LockedTransferFromEvent_def
        SecretRequestFromEvent_def RefundTransferFromEvent_def UnlockFromEvent_def RevealSecretFromEvent_def
        LockExpiredFromEvent_def CooperativeSettleRequestFromEvent_def CooperativeSettleFromEvent_def Let_def)
qed

lemma signed_carries:
  assumes "GetSenderMessageEvent ev = Some sm" and "\<forall>d. \<exists>sg. ac_Sign account d = Inr sg"
  shows "\<exists>w item. MessageFromSendEvent ev = Some (Some w) \<and> Sign e beyond account w = Some (Inr (qm_message item))
     \<and> queueItem (qm_message item) = Some (Inr item) \<and> carries e beyond account ev item"
proof -
  obtain w where w: "MessageFromSendEvent ev = Some (Some w)" using GetSenderMessageEvent_message [OF assms(1)] by blast
  obtain r where r: "Sign e beyond account w = Some r" using Sign_returns [OF w] by blast
  obtain m where m: "r = Inr m"
    using assms(2) r by (cases r) (auto simp: Sign_def split: bind_splits sum.splits, metis Inr_not_Inl)
  let ?item = "\<lparr>qm_message = m, qm_messageId = Some (sm_MessageId sm)\<rparr>"
  have "queueItem m = Some (Inr ?item)" using signed_item [OF assms(1) w] r m by blast
  with w r m assms(1) have "MessageFromSendEvent ev = Some (Some w) \<and> Sign e beyond account w = Some (Inr (qm_message ?item))
     \<and> queueItem (qm_message ?item) = Some (Inr ?item) \<and> carries e beyond account ev ?item"
    by (simp add: carries_def)
  then show ?thesis by blast
qed

text \<open>The parts of the service the queues depend on.\<close>

definition same_queues :: "Service \<Rightarrow> Service \<Rightarrow> bool" where
  "same_queues s s' \<longleftrightarrow> ss_Account s' = ss_Account s \<and> ss_service s' = ss_service s
     \<and> tp_MaxMsgQueue (ss_Transport s') = tp_MaxMsgQueue (ss_Transport s)
     \<and> (\<forall>c. StateFromChannel s = Some c \<longrightarrow> (\<exists>c'. StateFromChannel s' = Some c' \<and> same_outbox c c'))"

lemma same_queues_refl [simp]: "same_queues s s"
  by (simp add: same_queues_def)

lemma same_queues_trans: "same_queues a b \<Longrightarrow> same_queues b c \<Longrightarrow> same_queues a c"
  unfolding same_queues_def using same_outbox_trans by metis

lemma same_queues_fields [simp]:
  "same_queues s (call x s') \<longleftrightarrow> same_queues s s'"
  "same_queues (call x s) s' \<longleftrightarrow> same_queues s s'"
  "same_queues s (storeStatus target i st s') \<longleftrightarrow> same_queues s s'"
  "same_queues s (WithdrawResultNotify k ok err s') \<longleftrightarrow> same_queues s s'"
  by (simp_all add: same_queues_def call_def storeStatus_def WithdrawResultNotify_def RemoveWithdrawStatus_def
      StateFromChannel_def Let_def)

lemma transport_fields [simp]:
  "ss_Transport (call x s) = ss_Transport s"
  "ss_Transport (storeStatus target i st s) = ss_Transport s"
  "ss_Transport (WithdrawResultNotify k ok err s) = ss_Transport s"
  by (simp_all add: call_def storeStatus_def WithdrawResultNotify_def RemoveWithdrawStatus_def Let_def)

lemma handleWithdrawFailure_queues:
  "handleWithdrawFailure e t k err s = Some s' \<Longrightarrow> same_queues s s' \<and> ss_Transport s' = ss_Transport s"
proof -
  assume a: "handleWithdrawFailure e t k err s = Some s'"
  let ?s = "WithdrawResultNotify k False err s"
  have "same_queues ?s s' \<and> ss_Transport s' = ss_Transport ?s"
    using a by (auto simp: handleWithdrawFailure_def same_queues_def StateFromChannel_def Let_def split: bind_splits)
  with same_queues_trans [of s ?s s'] show ?thesis by simp
qed

lemma OnChannelEvent_other:
  assumes "GetSenderMessageEvent ev = None" and "OnChannelEvent e t c ev s = Some s'"
  shows "same_queues s s' \<and> ss_Transport s' = ss_Transport s"
  using assms
  by (cases ev)
    (auto dest!: handleWithdrawFailure_queues settle_calls unlock_calls simp: OnChannelEvent_def paymentDone_def HandleContractSendChannelClose_def HandelContractSendChannelUpdate_def
      contractCall_def HandleSendWithdrawRequest_def HandleSendWithdraw_def Let_def
      split: option.split_asm sum.split_asm bind_splits if_splits)

lemma OnChannelEvent_queued:
  assumes "GetSenderMessageEvent ev = Some sm" and "\<forall>d. \<exists>sg. ac_Sign (ss_Account s) d = Inr sg"
    and "q = \<lparr>qi_Recipient = sm_Recipient sm, qi_ChannelId = sm_ChannelId sm\<rparr>"
    and "queue_holds (ss_Transport s) q xs" and "length xs < unat (tp_MaxMsgQueue (ss_Transport s))"
  shows "\<exists>s' item. OnChannelEvent e t c ev s = Some s' \<and> same_queues s s'
     \<and> carries e (sv_slices (ss_service s)) (ss_Account s) ev item
     \<and> queue_holds (ss_Transport s') q (xs @ [item])
     \<and> (\<forall>q' ys. q' \<noteq> q \<longrightarrow> queue_holds (ss_Transport s') q' ys = queue_holds (ss_Transport s) q' ys)"
proof -
  obtain w item where w: "MessageFromSendEvent ev = Some (Some w)"
      "Sign e (sv_slices (ss_service s)) (ss_Account s) w = Some (Inr (qm_message item))"
      "queueItem (qm_message item) = Some (Inr item)" "carries e (sv_slices (ss_service s)) (ss_Account s) ev item"
    using signed_carries [OF assms(1,2)] by blast
  obtain tp where tp: "SendAsync q (qm_message item) (ss_Transport s) = Some (None, tp)"
      "tp_MaxMsgQueue tp = tp_MaxMsgQueue (ss_Transport s)" "queue_holds tp q (xs @ [item])"
      "\<forall>q' ys. q' \<noteq> q \<longrightarrow> queue_holds tp q' ys = queue_holds (ss_Transport s) q' ys"
    using SendAsync_queues [OF w(3) assms(4,5)] by blast
  have "OnChannelEvent e t c ev s = sendQueued e sm ev s"
    using assms(1) by (cases ev) (simp_all add: OnChannelEvent_def)
  also have "\<dots> = Some (s\<lparr>ss_Transport := tp\<rparr>)" using w tp(1) assms(3) by (simp add: sendQueued_def)
  finally have o: "OnChannelEvent e t c ev s = Some (s\<lparr>ss_Transport := tp\<rparr>)" .
  have "same_queues s (s\<lparr>ss_Transport := tp\<rparr>)" using tp(2) by (simp add: same_queues_def StateFromChannel_def)
  with o w(4) tp(3,4) show ?thesis by (intro exI [of _ "s\<lparr>ss_Transport := tp\<rparr>"] exI [of _ item]) simp
qed

text \<open>All queues at once: what they held, and then the items of the events that go to them.\<close>

lemma onEvents_queues:
  assumes "onEvents e t c evs s = Some s'" and "\<forall>d. \<exists>sg. ac_Sign (ss_Account s) d = Inr sg"
    and "\<forall>q. queue_holds (ss_Transport s) q (xs q)"
    and "\<forall>q. length (xs q) + length [ev \<leftarrow> evs. goes_to q ev] \<le> unat (tp_MaxMsgQueue (ss_Transport s))"
  shows "same_queues s s' \<and> (\<forall>q. \<exists>items. queue_holds (ss_Transport s') q (xs q @ items)
     \<and> list_all2 (carries e (sv_slices (ss_service s)) (ss_Account s)) [ev \<leftarrow> evs. goes_to q ev] items)"
  using assms
proof (induction evs arbitrary: s xs)
  case Nil
  then show ?case by simp
next
  case (Cons ev evs)
  from Cons.prems(1) obtain s1 where o: "OnChannelEvent e t c ev s = Some s1" and r: "onEvents e t c evs s1 = Some s'"
    by (auto split: bind_splits)
  let ?c = "carries e (sv_slices (ss_service s)) (ss_Account s)"
  have "\<exists>ys. same_queues s s1 \<and> (\<forall>q. queue_holds (ss_Transport s1) q (xs q @ ys q)
     \<and> list_all2 ?c (if goes_to q ev then [ev] else []) (ys q))"
  proof (cases "GetSenderMessageEvent ev")
    case None
    with OnChannelEvent_other [OF None o] Cons.prems(3) show ?thesis
      by (intro exI [of _ "\<lambda>_. []"]) (simp add: goes_to_def)
  next
    case (Some sm)
    let ?q = "\<lparr>qi_Recipient = sm_Recipient sm, qi_ChannelId = sm_ChannelId sm\<rparr>"
    have "length (xs ?q) < unat (tp_MaxMsgQueue (ss_Transport s))"
      using spec [OF Cons.prems(4), of ?q] Some by (simp add: goes_to_def)
    from OnChannelEvent_queued [OF Some Cons.prems(2) refl spec [OF Cons.prems(3)] this, of e t c] o obtain item where
      "same_queues s s1" "?c ev item" "queue_holds (ss_Transport s1) ?q (xs ?q @ [item])"
      "\<forall>q' ys. q' \<noteq> ?q \<longrightarrow> queue_holds (ss_Transport s1) q' ys = queue_holds (ss_Transport s) q' ys" by auto
    with Cons.prems(3) Some show ?thesis
      by (intro exI [of _ "\<lambda>q. if q = ?q then [item] else []"]) (simp add: goes_to_def)
  qed
  then obtain ys where ys: "same_queues s s1" "\<And>q. queue_holds (ss_Transport s1) q (xs q @ ys q)"
      "\<And>q. list_all2 ?c (if goes_to q ev then [ev] else []) (ys q)" by blast
  have "length (ys q) = (if goes_to q ev then 1 else 0)" for q using list_all2_lengthD [OF ys(3) [of q]] by auto
  then have room: "\<forall>q. length (xs q @ ys q) + length [ev \<leftarrow> evs. goes_to q ev] \<le> unat (tp_MaxMsgQueue (ss_Transport s1))"
    using Cons.prems(4) ys(1) by (auto simp: same_queues_def split: if_splits)
  have same: "ss_Account s1 = ss_Account s" "ss_service s1 = ss_service s" using ys(1) by (auto simp: same_queues_def)
  from Cons.IH [OF r, of "\<lambda>q. xs q @ ys q"] Cons.prems(2) ys(2) room same
  have ih: "same_queues s1 s'" "\<And>q. \<exists>items. queue_holds (ss_Transport s') q ((xs q @ ys q) @ items)
     \<and> list_all2 ?c [ev \<leftarrow> evs. goes_to q ev] items" by auto
  have "\<exists>items. queue_holds (ss_Transport s') q (xs q @ items) \<and> list_all2 ?c [ev \<leftarrow> ev # evs. goes_to q ev] items" for q
  proof -
    obtain items where "queue_holds (ss_Transport s') q (xs q @ (ys q @ items))"
        "list_all2 ?c [ev \<leftarrow> evs. goes_to q ev] items" using ih(2) [of q] by auto
    moreover have "[ev \<leftarrow> ev # evs. goes_to q ev] = (if goes_to q ev then [ev] else []) @ [ev \<leftarrow> evs. goes_to q ev]" by simp
    ultimately show ?thesis using list_all2_appendI [OF ys(3) [of q]] by metis
  qed
  with same_queues_trans [OF ys(1) ih(1)] show ?case by blast
qed

section \<open>State changes and the queues\<close>

lemma GetChannelStateByTokenNetworkId_DeepCopy:
  "GetChannelStateByTokenNetworkId e (the (DeepCopy (Some chain))) t k = GetChannelStateByTokenNetworkId e chain t k"
  by (cases "GetTokenNetworkByIdentifier e chain t")
    (simp_all add: GetChannelStateByTokenNetworkId_def GetTokenNetworkByIdentifier_DeepCopy DeepCopyTokenNetwork_def)

lemma queueOf_DeepCopy: "queueOf (the (DeepCopy (Some chain))) q = queueOf chain q"
  by (simp add: queueOf_def DeepCopy_def)

text \<open>An acknowledgement always gives an iteration.\<close>

lemma nil_iteration:
  assumes "StateTransition e r ids (Some c) sc m = Some None"
  shows "\<not> acknowledges sc q ev"
  using assms
  by (cases sc) (auto simp: acknowledges_def StateTransition_def handleStateChangeForNode_def split: option.splits bind_splits)

lemma Dispatch_outbox:
  assumes "Dispatch (nodeTransition e r ids msgId) seed (Some c) sc = Some (c', evs)" and "\<forall>n. ranges_ok (r n)"
    and "\<And>k. GetChannelStateByTokenNetworkId e c 0 k = None"
  shows "\<exists>c1. c' = Some c1 \<and>
    (\<forall>q. queueOf c1 q = [ev \<leftarrow> queueOf c q. \<not> acknowledges sc q ev] @ [ev \<leftarrow> evs. goes_to q ev])"
proof -
  let ?c = "the (DeepCopy (Some c))"
  have d: "DeepCopy (Some c) = Some ?c" by (simp add: DeepCopy_def)
  obtain it where it: "StateTransition e (r seed) (ids seed) (Some ?c) sc (msgId seed) = Some it"
      "(c', evs) = (case it of None \<Rightarrow> (Some c, []) | Some (newState, events) \<Rightarrow> (Some newState, events))"
    using assms(1) d by (auto simp: Dispatch_def nodeTransition_def split: bind_splits)
  show ?thesis
  proof (cases it)
    case None
    with it nil_iteration show ?thesis by simp
  next
    case (Some p)
    obtain c1 where p: "p = (c1, evs)" "c' = Some c1" using it(2) Some by (cases p) simp
    have "queueOf c1 q = [ev \<leftarrow> queueOf ?c q. \<not> acknowledges sc q ev] @ [ev \<leftarrow> evs. goes_to q ev]" for q
      using outbox_exact [of e "r seed" "ids seed" ?c sc "msgId seed" c1 evs q] it(1) Some p(1) assms(2,3)
      by (simp add: GetChannelStateByTokenNetworkId_DeepCopy)
    with p(2) show ?thesis by (simp add: queueOf_DeepCopy)
  qed
qed

lemma HandleStateChange_queues:
  assumes "HandleStateChange e t cd every sc s = Some (s', evs)" and "StateFromChannel s = Some c"
    and "\<forall>d. \<exists>sg. ac_Sign (ss_Account s) d = Inr sg"
    and "\<forall>q. queue_holds (ss_Transport s) q (xs q)"
    and "\<forall>q. length (xs q) + length [ev \<leftarrow> evs. goes_to q ev] \<le> unat (tp_MaxMsgQueue (ss_Transport s))"
  shows "\<exists>seed c1. Dispatch t seed (Some c) sc = Some (c1, evs)
     \<and> (\<forall>c2. c1 = Some c2 \<longrightarrow> (\<exists>c'. StateFromChannel s' = Some c' \<and> same_outbox c2 c'))
     \<and> (\<forall>q. \<exists>items. queue_holds (ss_Transport s') q (xs q @ items)
         \<and> list_all2 (carries e (sv_slices (ss_service s)) (ss_Account s)) [ev \<leftarrow> evs. goes_to q ev] items)"
proof -
  obtain st seed where w: "writeStateChange cd sc (wal_Storage (ss_Wal s)) = (st, seed)" by fastforce
  obtain wal s1 where l: "LogAndDispatch t cd sc (ss_Wal s) = (wal, Some evs)"
    and o: "onEvents e t cd evs (s\<lparr>ss_Wal := wal\<rparr>) = Some s1"
    and s': "ss_Transport s' = ss_Transport s1" "StateFromChannel s' = StateFromChannel s1"
    using assms(1)
    by (auto simp: HandleStateChange_def StateFromChannel_def Snapshot_def Let_def
        split: prod.splits option.splits bind_splits if_splits)
  have d: "Dispatch t seed (Some c) sc = Some (wal_CurrentState wal, evs)"
    using l assms(2) by (auto simp: LogAndDispatch_def w StateFromChannel_def Let_def split: option.splits prod.splits)
  have "same_queues (s\<lparr>ss_Wal := wal\<rparr>) s1 \<and> (\<forall>q. \<exists>items. queue_holds (ss_Transport s1) q (xs q @ items)
      \<and> list_all2 (carries e (sv_slices (ss_service s)) (ss_Account s)) [ev \<leftarrow> evs. goes_to q ev] items)"
    using onEvents_queues [OF o, of xs] assms(3-5) by simp
  with d s' show ?thesis by (auto simp: same_queues_def StateFromChannel_def)
qed

text \<open>
  C13. The outbox of the chain state is what the transport gets. After a state change that the node handles, each
  queue of the chain state holds what it held and was not acknowledged, and then the new messages; and the queue of
  the transport with the same id holds what it held and then, in the same order and nothing else, one signed item for
  each of the new messages, with the id under which the chain state waits for its acknowledgement.
\<close>

theorem outbox_handed_over:
  assumes "HandleStateChange e (nodeTransition e r ids msgId) cd every sc s = Some (s', evs)" and "\<forall>n. ranges_ok (r n)"
    and "StateFromChannel s = Some c" and "\<forall>k. GetChannelStateByTokenNetworkId e c 0 k = None"
    and "\<forall>d. \<exists>sg. ac_Sign (ss_Account s) d = Inr sg"
    and "\<forall>q. queue_holds (ss_Transport s) q (xs q)"
    and "\<forall>q. length (xs q) + length [ev \<leftarrow> evs. goes_to q ev] \<le> unat (tp_MaxMsgQueue (ss_Transport s))"
  shows "\<exists>c'. StateFromChannel s' = Some c'
     \<and> (\<forall>q. queueOf c' q = [ev \<leftarrow> queueOf c q. \<not> acknowledges sc q ev] @ [ev \<leftarrow> evs. goes_to q ev])
     \<and> (\<forall>q. \<exists>items. queue_holds (ss_Transport s') q (xs q @ items)
         \<and> list_all2 (carries e (sv_slices (ss_service s)) (ss_Account s)) [ev \<leftarrow> evs. goes_to q ev] items)"
proof -
  obtain seed c1 where h: "Dispatch (nodeTransition e r ids msgId) seed (Some c) sc = Some (c1, evs)"
      "\<forall>c2. c1 = Some c2 \<longrightarrow> (\<exists>c'. StateFromChannel s' = Some c' \<and> same_outbox c2 c')"
      "\<forall>q. \<exists>items. queue_holds (ss_Transport s') q (xs q @ items)
         \<and> list_all2 (carries e (sv_slices (ss_service s)) (ss_Account s)) [ev \<leftarrow> evs. goes_to q ev] items"
    using HandleStateChange_queues [OF assms(1,3,5-7)] by blast
  obtain c2 where c2: "c1 = Some c2"
      "\<forall>q. queueOf c2 q = [ev \<leftarrow> queueOf c q. \<not> acknowledges sc q ev] @ [ev \<leftarrow> evs. goes_to q ev]"
    using Dispatch_outbox [OF h(1) assms(2)] assms(4) by blast
  obtain c' where c': "StateFromChannel s' = Some c'" "same_outbox c2 c'" using h(2) c2(1) by blast
  have "queueOf c' q = queueOf c2 q" for q using c'(2) by (intro queueOf_cong) (simp add: same_outbox_def)
  with c' c2(2) h(3) show ?thesis by auto
qed

section \<open>Restarts and the queues\<close>

definition outbox_ok :: "ChainState \<Rightarrow> bool" where
  "outbox_ok c \<longleftrightarrow> (\<forall>q. \<forall>ev \<in> set (queueOf c q). goes_to q ev)"

lemma outbox_ok_append:
  assumes "outbox_ok c" and "\<And>q. queueOf c' q = [ev \<leftarrow> queueOf c q. \<not> acknowledges sc q ev] @ [ev \<leftarrow> evs. goes_to q ev]"
  shows "outbox_ok c'"
  using assms by (auto simp: outbox_ok_def)

lemma RegisterPaymentStatus_fields [simp]:
  "ss_Transport (RegisterPaymentStatus a i t x n s) = ss_Transport s"
  "ss_Account (RegisterPaymentStatus a i t x n s) = ss_Account s"
  "ss_service (RegisterPaymentStatus a i t x n s) = ss_service s"
  "ss_Wal (RegisterPaymentStatus a i t x n s) = ss_Wal s"
  by (simp_all add: RegisterPaymentStatus_def storeStatus_def Let_def)

definition fixed_part :: "Service \<Rightarrow> Service \<Rightarrow> bool" where
  "fixed_part s s' \<longleftrightarrow> ss_Account s' = ss_Account s \<and> ss_service s' = ss_service s \<and> ss_Wal s' = ss_Wal s
     \<and> tp_MaxMsgQueue (ss_Transport s') = tp_MaxMsgQueue (ss_Transport s)"

definition other_queues :: "QueueId \<Rightarrow> Transport \<Rightarrow> Transport \<Rightarrow> bool" where
  "other_queues q tp tp' \<longleftrightarrow>
     (\<forall>q'. q' \<noteq> q \<longrightarrow> senderOf q' tp' = senderOf q' tp \<and> (\<forall>ys. queue_holds tp' q' ys = queue_holds tp q' ys))"

lemma other_queues_refl [simp]: "other_queues q tp tp"
  by (simp add: other_queues_def)

lemma other_queues_trans: "other_queues q a b \<Longrightarrow> other_queues q b c \<Longrightarrow> other_queues q a c"
  by (simp add: other_queues_def)

lemma initializeMessage_queues:
  assumes "goes_to q' ev" and "\<forall>d. \<exists>sg. ac_Sign (ss_Account s) d = Inr sg"
    and "ready (ss_Transport s) q xs" and "length xs < unat (tp_MaxMsgQueue (ss_Transport s))"
  shows "\<exists>s' item. initializeMessage e q ev s = Some s' \<and> fixed_part s s'
     \<and> carries e (sv_slices (ss_service s)) (ss_Account s) ev item
     \<and> ready (ss_Transport s') q (xs @ [item]) \<and> pushes_to (ss_Transport s) q [item] (ss_Transport s')
     \<and> other_queues q (ss_Transport s) (ss_Transport s')"
proof -
  obtain sm where sm: "GetSenderMessageEvent ev = Some sm" using assms(1) by (auto simp: goes_to_def split: option.splits)
  obtain w item where w: "MessageFromSendEvent ev = Some (Some w)"
      "Sign e (sv_slices (ss_service s)) (ss_Account s) w = Some (Inr (qm_message item))"
      "queueItem (qm_message item) = Some (Inr item)" "carries e (sv_slices (ss_service s)) (ss_Account s) ev item"
    using signed_carries [OF sm assms(2)] by blast
  obtain tp where tp: "SendAsync q (qm_message item) (ss_Transport s) = Some (None, tp)"
      "tp_MaxMsgQueue tp = tp_MaxMsgQueue (ss_Transport s)" "ready tp q (xs @ [item])"
      "pushes_to (ss_Transport s) q [item] tp" "other_queues q (ss_Transport s) tp"
    using SendAsync_ready [OF w(3) assms(3,4)] unfolding other_queues_def by blast
  obtain s0 where s0: "s0 = (case ev of
              SendDirectTransfer msg paymentId bp _ \<Rightarrow>
                RegisterPaymentStatus (sm_Recipient msg) paymentId PAYMENT_DIRECT (bu_TransferredAmount bp) (bu_TokenNetworkId bp) s
            | SendLockedTransfer msg transfer \<Rightarrow>
                RegisterPaymentStatus (sm_Recipient msg) (lu_PaymentId transfer) PAYMENT_MEDIATED
                  (bu_TransferredAmount (lu_BalanceProof transfer)) (bu_TokenNetworkId (lu_BalanceProof transfer)) s
            | _ \<Rightarrow> s)" by blast
  have f: "ss_Transport s0 = ss_Transport s" "ss_Account s0 = ss_Account s" "ss_service s0 = ss_service s" "ss_Wal s0 = ss_Wal s"
    unfolding s0 by (cases ev; simp)+
  have "initializeMessage e q ev s = Some (s0\<lparr>ss_Transport := tp\<rparr>)"
    unfolding initializeMessage_def s0 [symmetric] Let_def by (simp add: f w tp(1))
  moreover have "fixed_part s (s0\<lparr>ss_Transport := tp\<rparr>)" using f tp(2) by (simp add: fixed_part_def)
  ultimately show ?thesis
    using w(4) tp(3-5) by (intro exI [of _ "s0\<lparr>ss_Transport := tp\<rparr>"] exI [of _ item]) simp
qed

lemma initializeQueue_queues:
  assumes "\<forall>ev \<in> set evs. goes_to q' ev" and "\<forall>d. \<exists>sg. ac_Sign (ss_Account s) d = Inr sg"
    and "ready (ss_Transport s) q xs" and "length xs + length evs \<le> unat (tp_MaxMsgQueue (ss_Transport s))"
  shows "\<exists>s' items. initializeQueue e q evs s = Some s' \<and> fixed_part s s'
     \<and> list_all2 (carries e (sv_slices (ss_service s)) (ss_Account s)) evs items
     \<and> ready (ss_Transport s') q (xs @ items) \<and> pushes_to (ss_Transport s) q items (ss_Transport s')
     \<and> other_queues q (ss_Transport s) (ss_Transport s')"
  using assms
proof (induction evs arbitrary: s xs)
  case Nil
  then show ?case by (simp add: fixed_part_def)
next
  case (Cons ev evs)
  obtain s1 item where 1: "initializeMessage e q ev s = Some s1" "fixed_part s s1"
      "carries e (sv_slices (ss_service s)) (ss_Account s) ev item" "ready (ss_Transport s1) q (xs @ [item])"
      "pushes_to (ss_Transport s) q [item] (ss_Transport s1)" "other_queues q (ss_Transport s) (ss_Transport s1)"
    using initializeMessage_queues [of q' ev s q xs e] Cons.prems by auto
  obtain s' items where 2: "initializeQueue e q evs s1 = Some s'" "fixed_part s1 s'"
      "list_all2 (carries e (sv_slices (ss_service s1)) (ss_Account s1)) evs items"
      "ready (ss_Transport s') q ((xs @ [item]) @ items)"
      "pushes_to (ss_Transport s1) q items (ss_Transport s')" "other_queues q (ss_Transport s1) (ss_Transport s')"
    using Cons.IH [of s1 "xs @ [item]"] Cons.prems 1(2,4) by (auto simp: fixed_part_def)
  from 1 2 pushes_to_trans [OF 1(5) 2(5)] other_queues_trans [OF 1(6) 2(6)] show ?case
    by (intro exI [of _ s'] exI [of _ "item # items"]) (simp add: fixed_part_def)
qed

lemma initializeQueues_queues:
  assumes "distinct qs" and "\<forall>q \<in> set qs. \<forall>ev \<in> set (evs q). goes_to q ev" and "\<forall>d. \<exists>sg. ac_Sign (ss_Account s) d = Inr sg"
    and "\<forall>q \<in> set qs. (case smap_load m q of Some es \<Rightarrow> es | None \<Rightarrow> []) = evs q"
    and "\<forall>q. ready (ss_Transport s) q (xs q)"
    and "\<forall>q \<in> set qs. length (xs q) + length (evs q) \<le> unat (tp_MaxMsgQueue (ss_Transport s))"
  shows "\<exists>s'. initializeQueues e m qs s = Some s' \<and> fixed_part s s'
     \<and> (\<forall>q. \<exists>items. queue_holds (ss_Transport s') q (xs q @ items) \<and> pushes_to (ss_Transport s) q items (ss_Transport s')
         \<and> list_all2 (carries e (sv_slices (ss_service s)) (ss_Account s)) (if q \<in> set qs then evs q else []) items)"
  using assms
proof (induction qs arbitrary: s xs)
  case Nil
  then show ?case by (auto simp: fixed_part_def ready_def intro!: exI [of _ "[]"])
next
  case (Cons k qs)
  let ?s = "call (StartHealthCheck (qi_Recipient k)) s"
  let ?c = "carries e (sv_slices (ss_service s)) (ss_Account s)"
  have fs: "fixed_part s ?s" by (simp add: fixed_part_def call_def)
  obtain s1 new where 1: "initializeQueue e k (evs k) ?s = Some s1" "fixed_part ?s s1" "list_all2 ?c (evs k) new"
      "ready (ss_Transport s1) k (xs k @ new)" "pushes_to (ss_Transport s) k new (ss_Transport s1)"
      "other_queues k (ss_Transport s) (ss_Transport s1)"
    using initializeQueue_queues [of "evs k" k ?s k "xs k" e] Cons.prems fs by (auto simp: fixed_part_def)
  let ?xs = "xs(k := xs k @ new)"
  have r: "\<forall>q. ready (ss_Transport s1) q (?xs q)" using 1(4,6) Cons.prems(5) by (simp add: ready_def other_queues_def)
  have same: "ss_Account s1 = ss_Account s" "ss_service s1 = ss_service s"
      "tp_MaxMsgQueue (ss_Transport s1) = tp_MaxMsgQueue (ss_Transport s)"
    using fs 1(2) by (simp_all add: fixed_part_def)
  have "\<forall>q \<in> set qs. length (?xs q) + length (evs q) \<le> unat (tp_MaxMsgQueue (ss_Transport s1))"
    using Cons.prems(1,6) same(3) by auto
  then have "\<exists>s'. initializeQueues e m qs s1 = Some s' \<and> fixed_part s1 s'
     \<and> (\<forall>q. \<exists>items. queue_holds (ss_Transport s') q (?xs q @ items) \<and> pushes_to (ss_Transport s1) q items (ss_Transport s')
         \<and> list_all2 (carries e (sv_slices (ss_service s1)) (ss_Account s1)) (if q \<in> set qs then evs q else []) items)"
    using Cons.prems(1-4) r by (intro Cons.IH) (simp_all add: same)
  then obtain s' where 2: "initializeQueues e m qs s1 = Some s'" "fixed_part s1 s'"
      "\<forall>q. \<exists>items. queue_holds (ss_Transport s') q (?xs q @ items) \<and> pushes_to (ss_Transport s1) q items (ss_Transport s')
         \<and> list_all2 ?c (if q \<in> set qs then evs q else []) items"
    unfolding same by blast
  have "initializeQueues e m (k # qs) s = Some s'" using 1(1) 2(1) Cons.prems(4) by simp
  moreover have "fixed_part s s'" using fs 1(2) 2(2) by (simp add: fixed_part_def)
  moreover have "\<exists>items. queue_holds (ss_Transport s') q (xs q @ items) \<and> pushes_to (ss_Transport s) q items (ss_Transport s')
         \<and> list_all2 ?c (if q \<in> set (k # qs) then evs q else []) items" for q
  proof -
    obtain items where i: "queue_holds (ss_Transport s') q (?xs q @ items)" "pushes_to (ss_Transport s1) q items (ss_Transport s')"
        "list_all2 ?c (if q \<in> set qs then evs q else []) items" using 2(3) by blast
    have old: "pushes_to (ss_Transport s) q (if q = k then new else []) (ss_Transport s1)"
      using 1(5,6) by (simp add: other_queues_def)
    show ?thesis using i 1(3) Cons.prems(1) pushes_to_trans [OF old i(2)]
      by (intro exI [of _ "(if q = k then new else []) @ items"]) auto
  qed
  ultimately show ?case by blast
qed

text \<open>
  C14. A restart forgets no message. When a node that was restarted initializes its queues, every queue keeps what it
  holds by then (\<open>xs\<close>: what the synchronisation with the chain has sent before) and gets behind it one signed item
  for each message the chain state waits to see acknowledged, in the same order, under the same id. The calls are steps
  of the state machines of the queues that wait for nothing, provided each queue has room for its messages and \<open>DataCh\<close>
  of an empty queue is empty; the transport a process starts with has no queues at all. (A message that the synchronisation has
  sent is among both and so is queued twice.)
\<close>

theorem restart_refills_queues:
  assumes "outbox_ok c" and "smap_ok (ch_QueueIdsToQueues c)" and "ranges_ok (sv_ranges (ss_service s))"
    and "\<forall>d. \<exists>sg. ac_Sign (ss_Account s) d = Inr sg"
    and "\<forall>q. ready (ss_Transport s) q (xs q)"
    and "\<forall>q. length (xs q) + length (queueOf c q) \<le> unat (tp_MaxMsgQueue (ss_Transport s))"
  shows "\<exists>s'. InitializeMessagesQueues e c s = Some s' \<and> StateFromChannel s' = StateFromChannel s
     \<and> (\<forall>q. \<exists>items. queue_holds (ss_Transport s') q (xs q @ items) \<and> pushes_to (ss_Transport s) q items (ss_Transport s')
         \<and> list_all2 (carries e (sv_slices (ss_service s)) (ss_Account s)) (queueOf c q) items)"
proof -
  let ?m = "ch_QueueIdsToQueues c" let ?qs = "rg_Queues (sv_ranges (ss_service s)) (map fst ?m)"
  have order: "map_order (rg_Queues (sv_ranges (ss_service s)))" using assms(3) by (simp add: ranges_ok_def)
  have "mset ?qs = mset (map fst ?m)" using order unfolding map_order_def by blast
  then have qs: "distinct ?qs" "set ?qs = set (map fst ?m)"
    using assms(2) mset_eq_imp_distinct_iff mset_eq_setD unfolding smap_ok_def by blast+
  have none: "(if q \<in> set ?qs then queueOf c q else []) = queueOf c q" for q
    using qs(2) by (auto simp: queueOf_def smap_load_def split: option.splits dest!: map_of_SomeD)
      (metis fst_conv image_eqI)
  have "\<exists>s'. initializeQueues e ?m ?qs s = Some s' \<and> fixed_part s s'
     \<and> (\<forall>q. \<exists>items. queue_holds (ss_Transport s') q (xs q @ items) \<and> pushes_to (ss_Transport s) q items (ss_Transport s')
         \<and> list_all2 (carries e (sv_slices (ss_service s)) (ss_Account s)) (if q \<in> set ?qs then queueOf c q else []) items)"
    using assms(1,4-6) by (intro initializeQueues_queues qs(1)) (simp_all add: outbox_ok_def queueOf_def)
  then show ?thesis unfolding none by (auto simp: InitializeMessagesQueues_def fixed_part_def StateFromChannel_def)
qed

text \<open>The transport of a new process has no queue that could make a push wait.\<close>

lemma new_transport_ready: "tp_messageQueues tp = [] \<Longrightarrow> ready tp q []"
  by (simp add: ready_def queue_holds_def senderOf_def GetQueue_def NewSender_def Let_def)

section \<open>Samples\<close>

text \<open>A node pays its neighbour directly.\<close>

abbreviation sample_pay :: NodeChange where
  "sample_pay \<equiv> ND_Network (NC_Channel (SC_ActionTransferDirect
     \<lparr>atd_TokenNetworkId = 6, atd_ReceiverAddress = 2, atd_PaymentId = 77, atd_Amount = 30\<rparr>))"

lemma sample_channel_pays:
  "\<exists>cs' u. StateTransitionForChannel sample_env sample_payee (SC_ActionTransferDirect
       \<lparr>atd_TokenNetworkId = 6, atd_ReceiverAddress = 2, atd_PaymentId = 77, atd_Amount = 30\<rparr>) b 3 =
     Some (NewState cs', [SendDirectTransfer \<lparr>sm_Recipient = 2, sm_ChannelId = 5, sm_MessageId = 3\<rparr> 77 u 9])"
proof -
  obtain cs' u where s: "sendDirectTransfer sample_env sample_payee 30 3 77 = Some (cs', SendDirectTransfer
       \<lparr>sm_Recipient = 2, sm_ChannelId = 5, sm_MessageId = 3\<rparr> 77 u 9)"
    using sendDirectTransfer_eq [of 30 sample_payee sample_env 3 77] sample_distributable [of 30]
    by (simp add: GetStatus_def sample_channel_def)
  have "GetStatus sample_payee = ChannelStateOpened" by (simp add: GetStatus_def sample_channel_def)
  moreover have "bd_transferredAmount (getCurrentBalanceProof sample_side1) + 30 + bd_lockedAmount (getCurrentBalanceProof sample_side1) < MaxUint64"
    by (simp add: getCurrentBalanceProof_def sample_side1_def sample_proof_def getAmountLocked_def sample_lock_def MaxUint64_def range_sum_def)
  ultimately show ?thesis using s sample_distributable [of 30]
    by (simp add: StateTransitionForChannel_def handleSendDirectTransfer_def Let_def)
qed

lemma sample_node_pays:
  "\<exists>c' u. StateTransition sample_env sample_ranges ids (Some sample_node) sample_pay 3 =
     Some (Some (c', [SendDirectTransfer \<lparr>sm_Recipient = 2, sm_ChannelId = 5, sm_MessageId = 3\<rparr> 77 u 9]))"
proof -
  obtain cs' u where s: "StateTransitionForChannel sample_env sample_payee (SC_ActionTransferDirect
       \<lparr>atd_TokenNetworkId = 6, atd_ReceiverAddress = 2, atd_PaymentId = 77, atd_Amount = 30\<rparr>) 50 3 =
     Some (NewState cs', [SendDirectTransfer \<lparr>sm_Recipient = 2, sm_ChannelId = 5, sm_MessageId = 3\<rparr> 77 u 9])"
    using sample_channel_pays by blast
  have p: "partnerChannels sample_token_network 2 = [5]"
    by (simp add: partnerChannels_def sample_token_network_def smap_load_def)
  have f: "FilterChannelsByStatus sample_ranges sample_network [5] [ChannelStateUnusable] = [5]"
    by (simp add: FilterChannelsByStatus_def sample_ranges_def GetStatus_def)
  have r: "\<exists>k pn. GetTokenNetworkRegistryByTokenNetworkId sample_ranges sample_node 6 = Some (k, pn)"
    by (simp add: GetTokenNetworkRegistryByTokenNetworkId_def sample_ranges_def sample_node_def smap_load_def)
  show ?thesis using r s
    by (auto simp: StateTransition_def handleStateChangeForNode_def handleTokenNetworkAction_def stateTransitionForNetwork_def
      handleActionTransferDirect_def p f channelInPlace_def Let_def)
qed

lemma DeepCopy_sample_node: "DeepCopy (Some sample_node) = Some sample_node"
  by (simp add: DeepCopy_def sample_node_def DeepCopyPaymentNetwork_def DeepCopyTokenNetwork_def sample_token_network_def
      NewTokenNetworkState_def NewChainState_def)

definition sample_transport :: Transport where
  "sample_transport = \<lparr>tp_messageQueues = [], tp_addressQueueMap = [], tp_MaxMsgQueue = 5\<rparr>"

definition sample_client :: ChainClient where
  "sample_client =
     \<lparr>cc_GetChannelIdentifier = (\<lambda>_ _. None), cc_GetChannelInfo = (\<lambda>_ _ _. None),
      cc_GetChannelParticipantInfo = (\<lambda>_ _ _. None), cc_BalanceOf = (\<lambda>_. Inr 0), cc_GetCurrentBlockHeight = None,
      cc_GetSecretRevealBlockHeight = (\<lambda>_. None), cc_Submit = (\<lambda>_. None), cc_PollForTxConfirmed = (\<lambda>_. (True, None)),
      cc_NonExistent = 0, cc_Opened = 1, cc_Closed = 2, cc_Settled = 3, cc_Removed = 4\<rparr>"

definition sample_running :: "ChainState \<Rightarrow> Service" where
  "sample_running c =
     \<lparr>ss_Wal = \<lparr>wal_CurrentState = Some c, wal_StateChangeId = 0, wal_Storage = NewSQLiteStorage\<rparr>, ss_snapshotGroup = 0,
      ss_Transport = sample_transport, ss_Account = sample_account 1, ss_service = sample_service,
      ss_P2pSend = (\<lambda>_ _. True), ss_StartHealthCheck = (\<lambda>_. None),
      ss_IsSecretRegistered = (\<lambda>_. False), ss_EncryptSecret = (\<lambda>_ s. Inr s), ss_Chain = sample_client,
      ss_targetsToIdentifierToStatues = [],
      ss_channelWithdrawStatus = [], ss_calls = []\<rparr>"

lemma sample_running_simps [simp]:
  "StateFromChannel (sample_running c) = Some c" "ss_Transport (sample_running c) = sample_transport"
  "ss_Account (sample_running c) = sample_account 1" "ss_service (sample_running c) = sample_service"
  "tp_MaxMsgQueue sample_transport = 5" "tp_messageQueues sample_transport = []"
  by (simp_all add: sample_running_def StateFromChannel_def sample_transport_def)

lemma sample_empty: "queue_holds sample_transport q []"
  by (simp add: queue_holds_def)

lemma sample_signs_all: "\<forall>d. \<exists>sg. ac_Sign (sample_account a) d = Inr sg"
  by (simp add: sample_account_def)

lemma sample_handles:
  assumes "ss_Wal s = ss_Wal (sample_running sample_node)" and "ss_Transport s = sample_transport" and "ss_Account s = sample_account 1"
  shows "\<exists>s' u. HandleStateChange sample_env (nodeTransition sample_env (\<lambda>_. sample_ranges) ids (\<lambda>_. 3)) sample_codec 100 sample_pay
       s = Some (s', [SendDirectTransfer \<lparr>sm_Recipient = 2, sm_ChannelId = 5, sm_MessageId = 3\<rparr> 77 u 9])"
proof -
  let ?t = "nodeTransition sample_env (\<lambda>_. sample_ranges) ids (\<lambda>_. 3)"
  obtain c' u where c': "StateTransition sample_env sample_ranges (ids 1) (Some sample_node) sample_pay 3 =
     Some (Some (c', [SendDirectTransfer \<lparr>sm_Recipient = 2, sm_ChannelId = 5, sm_MessageId = 3\<rparr> 77 u 9]))"
    using sample_node_pays by blast
  let ?ev = "SendDirectTransfer \<lparr>sm_Recipient = 2, sm_ChannelId = 5, sm_MessageId = 3\<rparr> 77 u 9"
  have "\<exists>wal. LogAndDispatch ?t sample_codec sample_pay (ss_Wal (sample_running sample_node)) = (wal, Some [?ev])"
    using c' by (simp add: LogAndDispatch_def sample_running_def Dispatch_def nodeTransition_def DeepCopy_sample_node
        writeStateChange_def NewSQLiteStorage_def Let_def)
  then obtain wal where wal: "LogAndDispatch ?t sample_codec sample_pay (ss_Wal (sample_running sample_node)) = (wal, Some [?ev])"
    by blast
  let ?s = "s\<lparr>ss_Wal := wal\<rparr>"
  have "\<exists>s'. OnChannelEvent sample_env ?t sample_codec ?ev ?s = Some s'"
    using OnChannelEvent_queued [of ?ev _ ?s _ "[]" sample_env ?t sample_codec] sample_signs_all sample_empty assms(2,3) by fastforce
  then show ?thesis using wal assms(1) by (auto simp: HandleStateChange_def Let_def)
qed

theorem outbox_handed_over_witness:
  "\<exists>s' evs c' item. HandleStateChange sample_env (nodeTransition sample_env (\<lambda>_. sample_ranges) (\<lambda>_ _ _. 1) (\<lambda>_. 3)) sample_codec 100
       sample_pay (sample_running sample_node) = Some (s', evs)
     \<and> StateFromChannel s' = Some c' \<and> queueOf c' \<lparr>qi_Recipient = 2, qi_ChannelId = 5\<rparr> = evs
     \<and> queue_holds (ss_Transport s') \<lparr>qi_Recipient = 2, qi_ChannelId = 5\<rparr> [item]
     \<and> qm_messageId item = Some 3"
proof -
  let ?q = "\<lparr>qi_Recipient = 2, qi_ChannelId = 5\<rparr> :: QueueId"
  obtain s' u where s': "HandleStateChange sample_env (nodeTransition sample_env (\<lambda>_. sample_ranges) (\<lambda>_ _ _. 1) (\<lambda>_. 3)) sample_codec 100
       sample_pay (sample_running sample_node) = Some (s', [SendDirectTransfer \<lparr>sm_Recipient = 2, sm_ChannelId = 5, sm_MessageId = 3\<rparr> 77 u 9])"
    using sample_handles [OF refl sample_running_simps(2,3)] by blast
  let ?evs = "[SendDirectTransfer \<lparr>sm_Recipient = 2, sm_ChannelId = 5, sm_MessageId = 3\<rparr> 77 u 9]"
  let ?s = "sample_running sample_node"
  have n: "\<forall>k. GetChannelStateByTokenNetworkId sample_env sample_node 0 k = None"
    by (simp add: GetChannelStateByTokenNetworkId_def)
  have r: "\<forall>q. length ((\<lambda>_. [] :: QueueItem list) q) + length [ev \<leftarrow> ?evs. goes_to q ev] \<le> unat (tp_MaxMsgQueue (ss_Transport ?s))"
    by simp
  have f: "StateFromChannel ?s = Some sample_node" "\<forall>d. \<exists>sg. ac_Sign (ss_Account ?s) d = Inr sg"
      "\<forall>q. queue_holds (ss_Transport ?s) q ((\<lambda>_. []) q)"
    using sample_signs_all sample_empty by simp_all
  have ro: "\<forall>n. ranges_ok ((\<lambda>_. sample_ranges) n)" by simp
  obtain c' where c: "StateFromChannel s' = Some c'"
      "\<forall>q. queueOf c' q = [ev \<leftarrow> queueOf sample_node q. \<not> acknowledges sample_pay q ev] @ [ev \<leftarrow> ?evs. goes_to q ev]"
      "\<forall>q. \<exists>items. queue_holds (ss_Transport s') q ((\<lambda>_. []) q @ items)
         \<and> list_all2 (carries sample_env (sv_slices (ss_service ?s)) (ss_Account ?s)) [ev \<leftarrow> ?evs. goes_to q ev] items"
    using outbox_handed_over [OF s' ro f(1) n f(2,3) r] by blast
  have g: "[ev \<leftarrow> ?evs. goes_to ?q ev] = ?evs" by (simp add: goes_to_def)
  have c': "StateFromChannel s' = Some c'" "queueOf c' ?q = ?evs"
      "\<exists>items. queue_holds (ss_Transport s') ?q items
         \<and> list_all2 (carries sample_env (sv_slices sample_service) (sample_account 1)) ?evs items"
    using c(1) spec [OF c(2), of ?q] spec [OF c(3), of ?q] unfolding g by simp_all
  then obtain item where "queue_holds (ss_Transport s') ?q [item]"
      "carries sample_env (sv_slices sample_service) (sample_account 1) (hd ?evs) item"
    by (auto simp: list_all2_Cons1)
  with s' c'(1,2) show ?thesis by (auto simp: carries_def)
qed

text \<open>
  A node that was stopped with a message in its outbox, and the same when the synchronisation has sent a message to the
  same queue before.
\<close>

definition sample_synced :: Transport where
  "sample_synced = (case SendAsync \<lparr>qi_Recipient = 2, qi_ChannelId = 4\<rparr> sample_signed_transfer sample_transport of
     Some (_, tp) \<Rightarrow> tp | None \<Rightarrow> sample_transport)"

theorem restart_refills_queues_witness:
  "\<exists>first s' item. InitializeMessagesQueues sample_env
       (NewChainState\<lparr>ch_QueueIdsToQueues := [(\<lparr>qi_Recipient = 2, qi_ChannelId = 4\<rparr>, [sample_sent_transfer])]\<rparr>)
       ((sample_running NewChainState)\<lparr>ss_Transport := sample_synced\<rparr>) = Some s'
     \<and> queue_holds (ss_Transport s') \<lparr>qi_Recipient = 2, qi_ChannelId = 4\<rparr> [first, item]
     \<and> qm_message first = sample_signed_transfer \<and> qm_messageId item = Some 9"
proof -
  let ?q = "\<lparr>qi_Recipient = 2, qi_ChannelId = 4\<rparr> :: QueueId"
  let ?c = "NewChainState\<lparr>ch_QueueIdsToQueues := [(?q, [sample_sent_transfer])]\<rparr>"
  let ?s = "(sample_running NewChainState)\<lparr>ss_Transport := sample_synced\<rparr>"
  obtain first where first: "queueItem sample_signed_transfer = Some (Inr first)" "qm_message first = sample_signed_transfer"
    using sample_sent signed_item [of sample_sent_transfer] by (fastforce simp: sample_sent_transfer_def)
  have "ready sample_transport q []" for q by (rule new_transport_ready) (simp add: sample_transport_def)
  then obtain tp where tp: "SendAsync ?q sample_signed_transfer sample_transport = Some (None, tp)"
      "tp_MaxMsgQueue tp = 5" "ready tp ?q [first]"
      "\<forall>q. q \<noteq> ?q \<longrightarrow> senderOf q tp = senderOf q sample_transport \<and> (\<forall>ys. queue_holds tp q ys = queue_holds sample_transport q ys)"
    using SendAsync_ready [OF first(1), of sample_transport ?q "[]"] by auto
  have sync: "sample_synced = tp" using tp(1) by (simp add: sample_synced_def)
  let ?xs = "\<lambda>q. if q = ?q then [first] else []"
  have r: "\<forall>q. ready (ss_Transport ?s) q (?xs q)"
    using tp(3,4) \<open>\<And>q. ready sample_transport q []\<close> by (simp add: sync ready_def)
  have q: "queueOf ?c q = (if q = ?q then [sample_sent_transfer] else [])" for q
    by (simp add: queueOf_def smap_load_def)
  have ok: "outbox_ok ?c" unfolding outbox_ok_def q by (simp add: goes_to_def sample_sent_transfer_def)
  have "smap_ok (ch_QueueIdsToQueues ?c)" by (simp add: smap_ok_def)
  moreover have "ranges_ok (sv_ranges (ss_service ?s))"
    by (simp add: sample_service_def endpoint_ranges_def ranges_ok_def map_order_def)
  moreover have "\<forall>q. length (?xs q) + length (queueOf ?c q) \<le> unat (tp_MaxMsgQueue (ss_Transport ?s))"
    by (simp add: q sync tp(2))
  moreover have "\<forall>d. \<exists>sg. ac_Sign (ss_Account ?s) d = Inr sg" using sample_signs_all by simp
  ultimately obtain s' where s: "InitializeMessagesQueues sample_env ?c ?s = Some s'"
      "\<forall>q. \<exists>items. queue_holds (ss_Transport s') q (?xs q @ items) \<and> pushes_to (ss_Transport ?s) q items (ss_Transport s')
         \<and> list_all2 (carries sample_env (sv_slices (ss_service ?s)) (ss_Account ?s)) (queueOf ?c q) items"
    using restart_refills_queues [OF ok, of ?s ?xs sample_env] r by blast
  from s(2) obtain items where "queue_holds (ss_Transport s') ?q ([first] @ items)"
      "list_all2 (carries sample_env (sv_slices sample_service) (sample_account 1)) [sample_sent_transfer] items"
    by (auto simp: q dest!: spec [of _ ?q])
  then obtain item where "queue_holds (ss_Transport s') ?q [first, item]"
      "carries sample_env (sv_slices sample_service) (sample_account 1) sample_sent_transfer item"
    by (auto simp: list_all2_Cons1)
  with s(1) first(2) show ?thesis by (auto simp: carries_def sample_sent_transfer_def)
qed

text \<open>The sample message, received by the sample service.\<close>

theorem well_formed_messages_witness:
  "\<exists>stateChange chain'. OnMessage sample_env (nodeTransition sample_env (\<lambda>_. sample_ranges) (\<lambda>_ _ _. 1) (\<lambda>_. 3)) sample_codec 100 sample_signed_transfer
      (sample_running NewChainState) =
    (let s = (sample_running NewChainState)\<lparr>ss_Wal := (ss_Wal (sample_running NewChainState))\<lparr>wal_CurrentState := Some chain'\<rparr>\<rparr>
     in case stateChange of
          None \<Rightarrow> Some (s, [])
        | Some sc \<Rightarrow> HandleStateChange sample_env (nodeTransition sample_env (\<lambda>_. sample_ranges) (\<lambda>_ _ _. 1) (\<lambda>_. 3)) sample_codec 100 sc s)"
proof -
  have "routes_found sample_env (ss_service (sample_running NewChainState)) NewChainState" using sample_routes_found by simp
  with well_formed_messages [where s = "sample_running NewChainState" and account = "sample_account 1" and m = sample_signed_transfer
      and transition = "nodeTransition sample_env (\<lambda>_. sample_ranges) (\<lambda>_ _ _. 1) (\<lambda>_. 3)" and c = sample_codec and every = 100
      and beyond = "\<lambda>_ _. None"] sample_sent
  show ?thesis by (simp only: sample_running_simps) blast
qed

end
