(* ===== verification/Pylons_Views.thy ===== *)
theory Pylons_Views
  imports Pylons_NodeRuns
begin

text \<open>
  The views of the chain state in \<open>transfer/views.go\<close> that only the service calls; those the node calls itself are in
  \<open>Pylons_Node\<close>. A list of channels is a list of their structs; the order in which a map is visited is a parameter.
\<close>

section \<open>Networks\<close>

definition tokenNetworksOf :: "ranges \<Rightarrow> PaymentNetworkState \<Rightarrow> TokenNetworkState list" where
  "tokenNetworksOf r pn =
     List.map_filter (smap_load (pn_TokenIdentifiersToTokenNetworks pn))
       (rg_TokenNetworks r (map fst (pn_TokenIdentifiersToTokenNetworks pn)))"

definition paymentNetworksOf :: "ranges \<Rightarrow> ChainState \<Rightarrow> PaymentNetworkState list" where
  "paymentNetworksOf r chain =
     List.map_filter (smap_load (ch_IdentifiersToPaymentNetworks chain))
       (rg_PaymentNetworks r (map fst (ch_IdentifiersToPaymentNetworks chain)))"

definition channelsOf :: "ranges \<Rightarrow> TokenNetworkState \<Rightarrow> NettingChannelState list" where
  "channelsOf r tn = List.map_filter (smap_load (tn_ChannelsMap tn)) (rg_Channels r (map fst (tn_ChannelsMap tn)))"

definition GetNeighbours :: "ranges \<Rightarrow> ChainState \<Rightarrow> Address list" where
  "GetNeighbours r chain =
     concat (map (\<lambda>p. concat (map (\<lambda>t.
       [es_Address (cs_PartnerState c). c \<leftarrow> channelsOf r t, \<not> AddressEqual (es_Address (cs_PartnerState c)) 0])
         (tokenNetworksOf r p))) (paymentNetworksOf r chain))"

text \<open>A token network that is not known is a nil dereference.\<close>

definition GetTokenNetworkIdByTokenAddress ::
  "ChainState \<Rightarrow> PaymentNetworkID \<Rightarrow> TokenAddress \<Rightarrow> TokenNetworkID option" where
  "GetTokenNetworkIdByTokenAddress chainState paymentNetworkId tokenAddress =
     map_option tn_Address (GetTokenNetworkByTokenAddress chainState paymentNetworkId tokenAddress)"

definition CountTokenNetworkChannels :: "ChainState \<Rightarrow> PaymentNetworkID \<Rightarrow> TokenAddress \<Rightarrow> nat" where
  "CountTokenNetworkChannels chain paymentNetworkId tokenAddress =
     (case GetTokenNetworkByTokenAddress chain paymentNetworkId tokenAddress of
        None \<Rightarrow> 0 | Some tn \<Rightarrow> length (tn_ChannelsMap tn))"

definition TotalTokenNetworkChannels :: "ChainState \<Rightarrow> PaymentNetworkID \<Rightarrow> TokenAddress \<Rightarrow> nat" where
  "TotalTokenNetworkChannels chain paymentNetworkId tokenAddress =
     (case GetTokenNetworkByTokenAddress chain paymentNetworkId tokenAddress of
        None \<Rightarrow> 0 | Some tn \<Rightarrow> length (tn_ChannelsMap tn))"

definition GetPaymentNetworkIds :: "ranges \<Rightarrow> ChainState \<Rightarrow> PaymentNetworkID list" where
  "GetPaymentNetworkIds r chain = rg_PaymentNetworks r (map fst (ch_IdentifiersToPaymentNetworks chain))"

text \<open>
  These three fill a list of their own in an inner scope and return the outer one, which is nil (\<open>None\<close>).
\<close>

definition shadowed :: "'a list option \<Rightarrow> ('b \<Rightarrow> 'a list) \<Rightarrow> 'b option \<Rightarrow> 'a list option" where
  "shadowed result fill network =
     (case network of None \<Rightarrow> result | Some pn \<Rightarrow> (let inner = fill pn in result))"

definition GetTokenNetworkIds :: "ranges \<Rightarrow> ChainState \<Rightarrow> PaymentNetworkID \<Rightarrow> TokenNetworkID list option" where
  "GetTokenNetworkIds r chain paymentNetworkId =
     shadowed None (\<lambda>pn. map tn_Address (tokenNetworksOf r pn))
       (smap_load (ch_IdentifiersToPaymentNetworks chain) paymentNetworkId)"

definition GetTokenIdentifiers :: "ranges \<Rightarrow> ChainState \<Rightarrow> PaymentNetworkID \<Rightarrow> TokenNetworkID list option" where
  "GetTokenIdentifiers r chain paymentNetworkId =
     shadowed None (\<lambda>pn. rg_TokenNetworks r (map fst (pn_TokenIdentifiersToTokenNetworks pn)))
       (smap_load (ch_IdentifiersToPaymentNetworks chain) paymentNetworkId)"

definition GetTokenNetworkAddressesFor :: "ranges \<Rightarrow> ChainState \<Rightarrow> PaymentNetworkID \<Rightarrow> TokenAddress list option" where
  "GetTokenNetworkAddressesFor r chain paymentNetworkId =
     shadowed None (\<lambda>pn. map tn_TokenAddress (tokenNetworksOf r pn))
       (smap_load (ch_IdentifiersToPaymentNetworks chain) paymentNetworkId)"

text \<open>The network with the token network, or else the last one that was visited.\<close>

fun searchPaymentNetworks :: "TokenNetworkID \<Rightarrow> PaymentNetworkState option \<Rightarrow> PaymentNetworkState list \<Rightarrow> PaymentNetworkState option" where
  "searchPaymentNetworks tokenNetworkId found [] = found"
| "searchPaymentNetworks tokenNetworkId found (pn # pns) =
     (if smap_load (pn_TokenIdentifiersToTokenNetworks pn) tokenNetworkId \<noteq> None then Some pn
      else searchPaymentNetworks tokenNetworkId (Some pn) pns)"

definition searchPaymentNetworkByTokenNetworkId :: "ranges \<Rightarrow> ChainState \<Rightarrow> TokenNetworkID \<Rightarrow> PaymentNetworkState option" where
  "searchPaymentNetworkByTokenNetworkId r chain tokenNetworkId =
     searchPaymentNetworks tokenNetworkId None (paymentNetworksOf r chain)"

section \<open>Channels\<close>

definition GetChannelStateFor ::
  "ranges \<Rightarrow> ChainState \<Rightarrow> PaymentNetworkID \<Rightarrow> TokenAddress \<Rightarrow> Address \<Rightarrow> NettingChannelState option" where
  "GetChannelStateFor r chain paymentNetworkId tokenAddress partnerAddress =
     (case GetTokenNetworkByTokenAddress chain paymentNetworkId tokenAddress of
        None \<Rightarrow> None
      | Some tn \<Rightarrow>
          (let states = FilterChannelsByStatus r (tn_ChannelsMap tn) (partnerChannels tn partnerAddress) [ChannelStateUnusable]
           in if states \<noteq> [] then smap_load (tn_ChannelsMap tn) (last states) else None))"

definition GetChannelStateById ::
  "ChainState \<Rightarrow> PaymentNetworkID \<Rightarrow> TokenAddress \<Rightarrow> ChannelID \<Rightarrow> NettingChannelState option" where
  "GetChannelStateById chain paymentNetworkId tokenAddress channelId =
     (case GetTokenNetworkByTokenAddress chain paymentNetworkId tokenAddress of
        None \<Rightarrow> None | Some tn \<Rightarrow> smap_load (tn_ChannelsMap tn) channelId)"

text \<open>Without the token network these dereference nil.\<close>

definition getChannelStateFilter ::
  "ranges \<Rightarrow> ChainState \<Rightarrow> PaymentNetworkID \<Rightarrow> TokenAddress \<Rightarrow> (NettingChannelState \<Rightarrow> bool) \<Rightarrow> NettingChannelState list option" where
  "getChannelStateFilter r chain paymentNetworkId tokenAddress filterFn =
     do { tn \<leftarrow> GetTokenNetworkByTokenAddress chain paymentNetworkId tokenAddress; Some (filter filterFn (channelsOf r tn)) }"

definition GetChannelStateForReceiving ::
  "ranges \<Rightarrow> ChainState \<Rightarrow> PaymentNetworkID \<Rightarrow> TokenAddress \<Rightarrow> NettingChannelState list option" where
  "GetChannelStateForReceiving r chain paymentNetworkId tokenAddress =
     do { tn \<leftarrow> GetTokenNetworkByTokenAddress chain paymentNetworkId tokenAddress;
          Some [v \<leftarrow> channelsOf r tn. es_BalanceProof (cs_PartnerState v) \<noteq> None] }"

definition GetChannelStateOpen ::
  "ranges \<Rightarrow> ChainState \<Rightarrow> PaymentNetworkID \<Rightarrow> TokenAddress \<Rightarrow> NettingChannelState list option" where
  "GetChannelStateOpen r chain paymentNetworkId tokenAddress =
     getChannelStateFilter r chain paymentNetworkId tokenAddress (\<lambda>cs. GetStatus cs = ChannelStateOpened)"

definition GetChannelStateClosing ::
  "ranges \<Rightarrow> ChainState \<Rightarrow> PaymentNetworkID \<Rightarrow> TokenAddress \<Rightarrow> NettingChannelState list option" where
  "GetChannelStateClosing r chain paymentNetworkId tokenAddress =
     getChannelStateFilter r chain paymentNetworkId tokenAddress (\<lambda>cs. GetStatus cs = ChannelStateClosing)"

definition GetChannelStateClosed ::
  "ranges \<Rightarrow> ChainState \<Rightarrow> PaymentNetworkID \<Rightarrow> TokenAddress \<Rightarrow> NettingChannelState list option" where
  "GetChannelStateClosed r chain paymentNetworkId tokenAddress =
     getChannelStateFilter r chain paymentNetworkId tokenAddress (\<lambda>cs. GetStatus cs = ChannelStateClosed)"

definition GetChannelStateSettling ::
  "ranges \<Rightarrow> ChainState \<Rightarrow> PaymentNetworkID \<Rightarrow> TokenAddress \<Rightarrow> NettingChannelState list option" where
  "GetChannelStateSettling r chain paymentNetworkId tokenAddress =
     getChannelStateFilter r chain paymentNetworkId tokenAddress (\<lambda>cs. GetStatus cs = ChannelStateSettling)"

definition GetChannelStateSettled ::
  "ranges \<Rightarrow> ChainState \<Rightarrow> PaymentNetworkID \<Rightarrow> TokenAddress \<Rightarrow> NettingChannelState list option" where
  "GetChannelStateSettled r chain paymentNetworkId tokenAddress =
     getChannelStateFilter r chain paymentNetworkId tokenAddress (\<lambda>cs. GetStatus cs = ChannelStateSettled)"

text \<open>The sum wraps; the result is a signed integer.\<close>

definition GetOurCapacityForTokenNetwork :: "ranges \<Rightarrow> ChainState \<Rightarrow> PaymentNetworkID \<Rightarrow> TokenAddress \<Rightarrow> int option" where
  "GetOurCapacityForTokenNetwork r chain paymentNetworkId tokenAddress =
     do { openChannels \<leftarrow> GetChannelStateOpen r chain paymentNetworkId tokenAddress;
          Some (sint (foldl (\<lambda>totalDeposit cs. totalDeposit + es_ContractBalance (cs_OurState cs)) 0 openChannels :: u64)) }"

text \<open>The channels of the index by partner, sorted by their identifiers.\<close>

definition flattenChannelStates :: "ranges \<Rightarrow> TokenNetworkState \<Rightarrow> NettingChannelState list" where
  "flattenChannelStates r tn =
     sort_key cs_Identifier (concat (map (\<lambda>a. List.map_filter (smap_load (tn_ChannelsMap tn)) (rg_Channels r (partnerChannels tn a)))
       (rg_Partners r (map fst (tn_PartnerAddressesToChannels tn)))))"

definition ListChannelStateForTokenNetwork ::
  "ranges \<Rightarrow> ChainState \<Rightarrow> PaymentNetworkID \<Rightarrow> TokenAddress \<Rightarrow> NettingChannelState list option" where
  "ListChannelStateForTokenNetwork r chain paymentNetworkId tokenAddress =
     map_option (flattenChannelStates r) (GetTokenNetworkByTokenAddress chain paymentNetworkId tokenAddress)"

text \<open>Each token network overwrites the list; the last one visited remains, nil (\<open>None\<close>) when there is none.\<close>

definition ListAllChannelState :: "ranges \<Rightarrow> ChainState \<Rightarrow> NettingChannelState list option" where
  "ListAllChannelState r chain =
     foldl (\<lambda>result tn. Some (flattenChannelStates r tn)) None
       (concat (map (tokenNetworksOf r) (paymentNetworksOf r chain)))"

definition FilterChannelsByPartnerAddress ::
  "ranges \<Rightarrow> ChainState \<Rightarrow> PaymentNetworkID \<Rightarrow> TokenAddress \<Rightarrow> Address list \<Rightarrow> NettingChannelState list option" where
  "FilterChannelsByPartnerAddress r chain paymentNetworkId tokenAddress partnerAddresses =
     (case GetTokenNetworkByTokenAddress chain paymentNetworkId tokenAddress of
        None \<Rightarrow> if partnerAddresses = [] then Some [] else None
      | Some tn \<Rightarrow> Some (List.map_filter
          (\<lambda>partner. let states = FilterChannelsByStatus r (tn_ChannelsMap tn) (partnerChannels tn partner) [ChannelStateUnusable]
             in if states \<noteq> [] then smap_load (tn_ChannelsMap tn) (last states) else None) partnerAddresses))"

section \<open>What the views show\<close>

lemma map_filter_mem: "y \<in> set (List.map_filter f xs) \<longleftrightarrow> (\<exists>x \<in> set xs. f x = Some y)"
  by (induction xs) (auto simp: map_filter_simps split: option.split)

lemma channelsOf_all:
  assumes "ranges_ok r"
  shows "cs \<in> set (channelsOf r tn) \<longleftrightarrow> (\<exists>k. smap_load (tn_ChannelsMap tn) k = Some cs)"
proof -
  have "set (rg_Channels r ks) = set ks" for ks using assms map_order_set [of "rg_Channels r"] by (simp add: ranges_ok_def)
  then show ?thesis
    by (auto simp: channelsOf_def map_filter_mem smap_load_def dest: map_of_SomeD)
       (metis image_eqI fst_conv map_of_SomeD)
qed

text \<open>
  The list of the channels of a network, when its index is right: sorted, without gaps and without strangers.
\<close>

theorem channel_list_complete:
  assumes "index_ok tn" and "ranges_ok r"
  shows "sorted (map cs_Identifier (flattenChannelStates r tn))
    \<and> (cs \<in> set (flattenChannelStates r tn) \<longleftrightarrow> (\<exists>k. smap_load (tn_ChannelsMap tn) k = Some cs))"
proof -
  have ord: "set (rg_Channels r ks) = set ks" "set (rg_Partners r as) = set as" for ks as
    using assms(2) map_order_set [of "rg_Channels r"] map_order_set [of "rg_Partners r"] by (simp_all add: ranges_ok_def)
  have listed: "es_Address (cs_PartnerState cs) \<in> fst ` set (tn_PartnerAddressesToChannels tn)
      \<and> k \<in> set (partnerChannels tn (es_Address (cs_PartnerState cs)))" if "smap_load (tn_ChannelsMap tn) k = Some cs" for k
  proof -
    have "k \<in> set (partnerChannels tn (es_Address (cs_PartnerState cs)))" using assms(1) that unfolding index_ok_def by blast
    moreover from this have "smap_load (tn_PartnerAddressesToChannels tn) (es_Address (cs_PartnerState cs)) \<noteq> None"
      by (cases "smap_load (tn_PartnerAddressesToChannels tn) (es_Address (cs_PartnerState cs))")
         (simp_all add: partnerChannels_def)
    ultimately show ?thesis by (auto simp: smap_load_def dest: map_of_SomeD intro: rev_image_eqI)
  qed
  moreover have "cs \<in> set (flattenChannelStates r tn) \<longleftrightarrow>
      (\<exists>a \<in> fst ` set (tn_PartnerAddressesToChannels tn). \<exists>k \<in> set (partnerChannels tn a). smap_load (tn_ChannelsMap tn) k = Some cs)"
    by (simp add: flattenChannelStates_def map_filter_mem ord)
  ultimately have "cs \<in> set (flattenChannelStates r tn) \<longleftrightarrow> (\<exists>k. smap_load (tn_ChannelsMap tn) k = Some cs)" by blast
  then show ?thesis by (simp add: flattenChannelStates_def)
qed

section \<open>Departures\<close>

text \<open>The lists of token networks are nil whatever the state holds.\<close>

theorem token_networks_never_listed:
  "GetTokenNetworkIds r chain p = None" "GetTokenIdentifiers r chain p = None" "GetTokenNetworkAddressesFor r chain p = None"
  by (simp_all add: GetTokenNetworkIds_def GetTokenIdentifiers_def GetTokenNetworkAddressesFor_def shadowed_def
      split: option.split)

text \<open>Of all channels only those of one token network are listed.\<close>

theorem all_channels_of_one_network:
  assumes "concat (map (tokenNetworksOf r) (paymentNetworksOf r chain)) = tns @ [tn]"
  shows "ListAllChannelState r chain = Some (flattenChannelStates r tn)"
  using assms by (simp add: ListAllChannelState_def)

end
