(* ===== verification/Pylons_Client.thy ===== *)
theory Pylons_Client
  imports Pylons_Handover Pylons_Views
begin

text \<open>
  What a client of \<open>service/channel.go\<close> calls: the balances of a channel, payments, withdrawals and cooperative
  settlement. A call that waits for the result of a withdrawal ends here when it starts to wait.

  Every request runs in a goroutine of its own. The calls that start a payment first look whether it is known already
  and only later register it, with no lock over both: each is two steps here, the check and the start.
\<close>

section \<open>Balances\<close>

text \<open>The channel with a partner; the outer option is the panic without a chain state.\<close>

definition partnerChannel :: "env \<Rightarrow> Service \<Rightarrow> Address \<Rightarrow> NettingChannelState option option" where
  "partnerChannel e s partnerAddress =
     do { chainState \<leftarrow> StateFromChannel s;
          Some (GetChannelStateFor (sv_ranges (ss_service s)) chainState (MicroPayContractAddress e)
            (USDT_CONTRACT_ADDRESS e) partnerAddress) }"

definition CanTransfer :: "env \<Rightarrow> Address \<Rightarrow> TokenAmount \<Rightarrow> Service \<Rightarrow> bool option" where
  "CanTransfer e target amount s =
     do { channelState \<leftarrow> partnerChannel e s target;
          Some (case channelState of
              None \<Rightarrow> False
            | Some channelState \<Rightarrow>
                (if GetGasBalance (cs_OurState channelState) < amount then False
                 else GetStatus channelState \<notin> {ChannelStateClosed, ChannelStateSettled, ChannelStateSettling})) }"

definition GetTotalDepositBalance :: "env \<Rightarrow> Address \<Rightarrow> Service \<Rightarrow> (error + TokenAmount) option" where
  "GetTotalDepositBalance e partnerAddress s =
     do { channelState \<leftarrow> partnerChannel e s partnerAddress;
          Some (case channelState of
              None \<Rightarrow> Inl (Msg ''GetTotalDepositBalance error, channel state is nil'')
            | Some channelState \<Rightarrow> Inr (GetContractBalance (cs_OurState channelState))) }"

definition ServiceTotalWithdraw :: "env \<Rightarrow> Address \<Rightarrow> Service \<Rightarrow> (error + TokenAmount) option" where
  "ServiceTotalWithdraw e partnerAddress s =
     do { channelState \<leftarrow> partnerChannel e s partnerAddress;
          Some (case channelState of
              None \<Rightarrow> Inl (Msg ''GetTotalWithdraw error, channel state is nil'')
            | Some channelState \<Rightarrow> Inr (GetTotalWithdraw (cs_OurState channelState))) }"

definition GetCurrentBalance :: "env \<Rightarrow> Address \<Rightarrow> Service \<Rightarrow> (error + TokenAmount) option" where
  "GetCurrentBalance e partnerAddress s =
     do { channelState \<leftarrow> partnerChannel e s partnerAddress;
          Some (case channelState of
              None \<Rightarrow> Inl (Msg ''GetCurrentBalance error, channel state is nil'')
            | Some channelState \<Rightarrow> Inr (GetGasBalance (cs_OurState channelState))) }"

definition GetAvailableBalance :: "env \<Rightarrow> Address \<Rightarrow> Service \<Rightarrow> (error + TokenAmount) option" where
  "GetAvailableBalance e partnerAddress s =
     do { channelState \<leftarrow> partnerChannel e s partnerAddress;
          Some (case channelState of
              None \<Rightarrow> Inl (Msg ''GetAvailableBalance error, channel state is nil'')
            | Some channelState \<Rightarrow> Inr (GetDistributable (cs_OurState channelState) (cs_PartnerState channelState))) }"

section \<open>Payments\<close>

text \<open>
  What a call returns: the channel on which the end of the payment will be told (here the status it belongs to),
  and an error, which may be the one of the search for a route.
\<close>

type_synonym StartResult = "PaymentStatus option \<times> (error + RouteError) option"

abbreviation refused :: "string \<Rightarrow> StartResult" where
  "refused msg \<equiv> (None, Some (Inl (Msg msg)))"

text \<open>A call whose check has found the payment unknown, and what it is going to register and dispatch.\<close>

record PaymentCall =
  py_target :: Address
  py_paymentId :: PaymentID
  py_paymentType :: PaymentType
  py_amount :: TokenAmount
  py_TokenNetworkId :: TokenNetworkID
  py_change :: NodeChange

definition startPayment ::
  "env \<Rightarrow> transition \<Rightarrow> codec \<Rightarrow> nat \<Rightarrow> PaymentCall \<Rightarrow> Service \<Rightarrow> (StartResult \<times> Service) option" where
  "startPayment e transition c every p s =
     do { let s = RegisterPaymentStatus (py_target p) (py_paymentId p) (py_paymentType p) (py_amount p) (py_TokenNetworkId p) s;
          (s', _) \<leftarrow> HandleStateChange e transition c every (py_change p) s;
          Some ((GetPaymentStatus (py_target p) (py_paymentId p) s, None), s') }"

definition checkDirectTransfer ::
  "env \<Rightarrow> TokenAmount \<Rightarrow> Address \<Rightarrow> PaymentID \<Rightarrow> Service \<Rightarrow> ((StartResult + PaymentCall) \<times> Service) option" where
  "checkDirectTransfer e amount target paymentId s =
     (if target = 0 then Some (Inl (refused ''target address is invalid''), s)
      else if paymentId = 0 then Some (Inl (refused ''payment id cannot zero''), s)
      else do {
        chainState \<leftarrow> StateFromChannel s;
        tokenNetworkId \<leftarrow> GetTokenNetworkIdByTokenAddress chainState (MicroPayContractAddress e) (USDT_CONTRACT_ADDRESS e);
        let s = call (StartHealthCheck target) s;
        (case ss_StartHealthCheck s target of
           Some err \<Rightarrow> Some (Inl (None, Some (Inl err)), s)
         | None \<Rightarrow>
             Some (case GetPaymentStatus target paymentId s of
                Some paymentStatus \<Rightarrow>
                  Inl (if \<not> Match PAYMENT_DIRECT tokenNetworkId amount paymentStatus
                       then refused ''another payment with same id is in flight''
                       else (Some paymentStatus, Some (Inl (Msg ''payment already existed''))))
              | None \<Rightarrow>
                  Inr \<lparr>py_target = target, py_paymentId = paymentId, py_paymentType = PAYMENT_DIRECT, py_amount = amount,
                       py_TokenNetworkId = tokenNetworkId,
                       py_change = ND_Network (NC_Channel (SC_ActionTransferDirect
                         \<lparr>atd_TokenNetworkId = tokenNetworkId, atd_ReceiverAddress = target,
                          atd_PaymentId = paymentId, atd_Amount = amount\<rparr>))\<rparr>, s)) })"

text \<open>The two steps one after the other.\<close>

definition DirectTransferAsync ::
  "env \<Rightarrow> transition \<Rightarrow> codec \<Rightarrow> nat \<Rightarrow> TokenAmount \<Rightarrow> Address \<Rightarrow> PaymentID \<Rightarrow> Service
     \<Rightarrow> (StartResult \<times> Service) option" where
  "DirectTransferAsync e transition c every amount target paymentId s =
     do { (checked, s) \<leftarrow> checkDirectTransfer e amount target paymentId s;
          (case checked of
             Inl result \<Rightarrow> Some (result, s)
           | Inr p \<Rightarrow> startPayment e transition c every p s) }"

text \<open>\<open>float64(amount) * 0.003\<close>, cut off.\<close>

definition DefaultMediationFeeMargin :: rat where
  "DefaultMediationFeeMargin = f64_round (3 / 1000)"

definition calculateSafeAmountWithFee :: "env \<Rightarrow> u64 \<Rightarrow> u64" where
  "calculateSafeAmountWithFee e amount =
     amount + u64_of_f64 e (f64_round (f64_of_u64 amount * DefaultMediationFeeMargin))"

definition transferDescription ::
  "ChannelService \<Rightarrow> PaymentID \<Rightarrow> TokenAmount \<Rightarrow> Secret \<Rightarrow> SecretHash \<Rightarrow> EncSecret \<Rightarrow> TokenNetworkID \<Rightarrow> Address
     \<Rightarrow> TransferDescriptionWithSecretState" where
  "transferDescription srv paymentId transferAmount secret secretHash encSecret tokenNetworkId targetAddress =
     \<lparr>td_PaymentNetworkId = 0, td_PaymentId = paymentId, td_Amount = transferAmount,
      td_TokenNetworkId = tokenNetworkId, td_Initiator = sv_address srv, td_Target = targetAddress,
      td_Secret = secret, td_EncSecret = encSecret, td_SecretHash = secretHash\<rparr>"

text \<open>The secret must not be the 32 zero bytes. The search may change the weights of the edges.\<close>

definition InitiatorInit ::
  "env \<Rightarrow> ChannelService \<Rightarrow> ChainState \<Rightarrow> PaymentID \<Rightarrow> TokenAmount \<Rightarrow> Secret \<Rightarrow> SecretHash \<Rightarrow> EncSecret \<Rightarrow> TokenNetworkID
     \<Rightarrow> Address \<Rightarrow> (((error + RouteError) + ActionInitInitiator) \<times> ChainState) option" where
  "InitiatorInit e srv chain paymentId transferAmount secret secretHash encSecret tokenNetworkId targetAddress =
     (if secret = replicate 32 0
      then Some (Inl (Inl (Msg ''Should never end up initiating transfer with Secret 0x0 '')), chain)
      else do { (routes, chain) \<leftarrow> GetBestRoutes e (sv_ranges srv) (sv_orderNodes srv) (sv_orderEdges srv) (sv_routing srv)
                  chain tokenNetworkId (sv_address srv) targetAddress transferAmount [];
                Some (case routes of
                    Inl err \<Rightarrow> Inl (Inr err)
                  | Inr routes \<Rightarrow> Inr \<lparr>aii_TransferDescription = transferDescription srv paymentId transferAmount secret
                      secretHash encSecret tokenNetworkId targetAddress, aii_Routes = routes\<rparr>, chain) })"

definition InitiatorInitBySpecifiedMedia ::
  "env \<Rightarrow> ChannelService \<Rightarrow> ChainState \<Rightarrow> PaymentID \<Rightarrow> Address \<Rightarrow> TokenAmount \<Rightarrow> Secret \<Rightarrow> SecretHash \<Rightarrow> EncSecret
     \<Rightarrow> TokenNetworkID \<Rightarrow> Address \<Rightarrow> (error + RouteError) + ActionInitInitiator" where
  "InitiatorInitBySpecifiedMedia e srv chain paymentId media transferAmount secret secretHash encSecret tokenNetworkId
       targetAddress =
     (if secret = replicate 32 0
      then Inl (Inl (Msg ''Should never end up initiating transfer with Secret 0x0 ''))
      else case GetSpecifiedRoute e (sv_ranges srv) (sv_routing srv) chain tokenNetworkId media transferAmount of
             Inl err \<Rightarrow> Inl (Inr err)
           | Inr routes \<Rightarrow> Inr \<lparr>aii_TransferDescription = transferDescription srv paymentId transferAmount secret
               secretHash encSecret tokenNetworkId targetAddress, aii_Routes = routes\<rparr>)"

definition checkMediaTransfer ::
  "env \<Rightarrow> TokenAddress \<Rightarrow> Address \<Rightarrow> Address \<Rightarrow> TokenAmount \<Rightarrow> PaymentID \<Rightarrow> Service
     \<Rightarrow> ((StartResult + PaymentCall) \<times> Service) option" where
  "checkMediaTransfer e tokenAddress media target amount paymentId s =
     (if target = 0 then Some (Inl (refused ''target address is invalid''), s)
      else if amount = 0 then Some (Inl (refused ''amount negative''), s)
      else if paymentId = 0 then Some (Inl (refused ''payment id cannot zero''), s)
      else do {
        chainState \<leftarrow> StateFromChannel s;
        tokenNetworkId \<leftarrow> GetTokenNetworkIdByTokenAddress chainState (MicroPayContractAddress e) tokenAddress;
        let srv = ss_service s;
        let secret = sv_secretRandom srv;
        let secretHash = GetHash e secret;
        (if ss_IsSecretRegistered s secretHash
         then Some (Inl (refused ''SecretHash has been registerd onchain''), s)
         else case GetPaymentStatus target paymentId s of
                Some paymentStatus \<Rightarrow>
                  Some (Inl (if \<not> Match PAYMENT_MEDIATED tokenNetworkId amount paymentStatus
                             then refused ''Another payment with the same id is in flight. ''
                             else (Some paymentStatus, Some (Inl (Msg ''payment id already exist'')))), s)
              | None \<Rightarrow>
                  (case ss_EncryptSecret s target secret of
                     Inl err \<Rightarrow> Some (Inl (None, Some (Inl (InMessage ''encrypt secret error: '' err))), s)
                   | Inr encSecret \<Rightarrow>
                       do { let amount = calculateSafeAmountWithFee e amount;
                            (actionInitiator, chainState) \<leftarrow>
                              (if media = 0
                               then InitiatorInit e srv chainState paymentId amount secret secretHash encSecret tokenNetworkId target
                               else Some (InitiatorInitBySpecifiedMedia e srv chainState paymentId media amount secret
                                            secretHash encSecret tokenNetworkId target, chainState));
                            let s = s\<lparr>ss_Wal := (ss_Wal s)\<lparr>wal_CurrentState := Some chainState\<rparr>\<rparr>;
                            (case actionInitiator of
                               Inl err \<Rightarrow> Some (Inl (None, Some err), s)
                             | Inr actionInitiator \<Rightarrow>
                                 (case aii_Routes actionInitiator of
                                    [] \<Rightarrow> None
                                  | route # _ \<Rightarrow>
                                      Some (if \<not> NetworkReachable (sv_routing srv) (rt_NodeAddress route)
                                            then Inl (refused ''CheckPayRoute error: mediator is not reachable'')
                                            else Inr \<lparr>py_target = target, py_paymentId = paymentId, py_paymentType = PAYMENT_MEDIATED,
                                                   py_amount = amount, py_TokenNetworkId = tokenNetworkId,
                                                   py_change = ND_Task (TC_ActionInitInitiator actionInitiator)\<rparr>, s))) })) })"

definition MediaTransfer ::
  "env \<Rightarrow> transition \<Rightarrow> codec \<Rightarrow> nat \<Rightarrow> TokenAddress \<Rightarrow> Address \<Rightarrow> Address \<Rightarrow> TokenAmount \<Rightarrow> PaymentID \<Rightarrow> Service
     \<Rightarrow> (StartResult \<times> Service) option" where
  "MediaTransfer e transition c every tokenAddress media target amount paymentId s =
     do { (checked, s) \<leftarrow> checkMediaTransfer e tokenAddress media target amount paymentId s;
          (case checked of
             Inl result \<Rightarrow> Some (result, s)
           | Inr p \<Rightarrow> startPayment e transition c every p s) }"

section \<open>Withdrawals and settlement\<close>

text \<open>The call waits for the result; an error is returned at once.\<close>

definition ServiceWithdraw ::
  "env \<Rightarrow> transition \<Rightarrow> codec \<Rightarrow> nat \<Rightarrow> TokenAddress \<Rightarrow> Address \<Rightarrow> TokenAmount \<Rightarrow> Service
     \<Rightarrow> (error option \<times> Service) option" where
  "ServiceWithdraw e transition c every tokenAddress partnerAddress totalWithdraw s =
     do { chainState \<leftarrow> StateFromChannel s;
          (case GetChannelStateFor (sv_ranges (ss_service s)) chainState (MicroPayContractAddress e) tokenAddress partnerAddress of
             None \<Rightarrow> Some (Some (Msg ''can not find specific channel''), s)
           | Some channelState \<Rightarrow>
               (if GetWithdrawStatus (cs_Identifier channelState) s then Some (Some (Msg ''withdraw ongoing''), s)
                else do {
                  tokenNetworkId \<leftarrow> GetTokenNetworkIdByTokenAddress chainState (MicroPayContractAddress e) tokenAddress;
                  (s, _) \<leftarrow> HandleStateChange e transition c every
                    (ND_Network (NC_Channel (SC_ActionWithdraw
                      \<lparr>aw_TokenNetworkId = tokenNetworkId, aw_ChannelId = cs_Identifier channelState,
                       aw_Participant = sv_address (ss_service s), aw_Partner = partnerAddress,
                       aw_TotalWithdraw = totalWithdraw\<rparr>)))
                    (RegisterWithdrawStatus (cs_Identifier channelState) s);
                  Some (None, s) })) }"

definition ChannelCooperativeSettle ::
  "env \<Rightarrow> transition \<Rightarrow> codec \<Rightarrow> nat \<Rightarrow> TokenAddress \<Rightarrow> Address \<Rightarrow> Service \<Rightarrow> (error option \<times> Service) option" where
  "ChannelCooperativeSettle e transition c every tokenAddress partnerAddress s =
     do { chainState \<leftarrow> StateFromChannel s;
          tokenNetworkId \<leftarrow> GetTokenNetworkIdByTokenAddress chainState (MicroPayContractAddress e) tokenAddress;
          (case GetChannelStateByTokenNetworkAndPartner e (sv_ranges (ss_service s)) chainState tokenNetworkId partnerAddress of
             None \<Rightarrow> Some (Some (Msg ''ChannelCooperativeSettle error, no channel found with the partner''), s)
           | Some channelState \<Rightarrow>
               do { (s, _) \<leftarrow> HandleStateChange e transition c every
                      (ND_Network (NC_Channel (SC_ActionCooperativeSettle
                        \<lparr>acs_TokenNetworkId = tokenNetworkId, acs_ChannelId = cs_Identifier channelState\<rparr>))) s;
                    Some (None, s) }) }"

section \<open>Payments start once\<close>

definition registered :: "Service \<Rightarrow> Address \<times> PaymentID \<Rightarrow> bool" where
  "registered s k \<longleftrightarrow> GetPaymentStatus (fst k) (snd k) s \<noteq> None"

lemma registered_storeStatus [simp]:
  "registered (storeStatus target identifier st s) = (registered s)((target, identifier) := True)"
  by (auto simp: fun_eq_iff registered_def GetPaymentStatus_def storeStatus_def Let_def split: option.splits bind_splits)

lemma registered_fields [simp]:
  "registered (call x s) = registered s" "registered (s\<lparr>ss_Wal := w\<rparr>) = registered s"
  "registered (s\<lparr>ss_Transport := tp\<rparr>) = registered s" "registered (s\<lparr>ss_snapshotGroup := g\<rparr>) = registered s"
  "registered (WithdrawResultNotify k ok err s) = registered s" "registered (RegisterWithdrawStatus k s) = registered s"
  by (simp_all add: fun_eq_iff registered_def GetPaymentStatus_def call_def WithdrawResultNotify_def RemoveWithdrawStatus_def
      RegisterWithdrawStatus_def)

lemma registered_Register [simp]:
  "registered (RegisterPaymentStatus target identifier ty amount net s) = (registered s)((target, identifier) := True)"
  by (simp add: RegisterPaymentStatus_def)

lemma handleWithdrawFailure_registered: "handleWithdrawFailure e t k err s = Some s' \<Longrightarrow> registered s' = registered s"
  by (auto simp: handleWithdrawFailure_def Let_def split: bind_splits)

lemma paymentDone_registered:
  assumes "paymentDone t i r s = Some s'"
  shows "registered s' = registered s"
proof (cases "GetPaymentStatus t i s")
  case (Some st)
  with assms have "s' = storeStatus t i (st\<lparr>ps_paymentDone := Some r\<rparr>) s" by (simp add: paymentDone_def split: if_splits)
  moreover have "registered s (t, i)" using Some by (simp add: registered_def)
  ultimately show ?thesis by (simp add: fun_upd_idem)
qed (use assms in \<open>simp add: paymentDone_def\<close>)

lemma sendQueued_registered: "sendQueued e m ev s = Some s' \<Longrightarrow> registered s' = registered s"
  by (auto simp: sendQueued_def split: option.split_asm sum.split_asm bind_splits)

lemma OnChannelEvent_registered: "OnChannelEvent e t c ev s = Some s' \<Longrightarrow> registered s' = registered s"
  by (cases ev)
    (auto dest!: settle_calls unlock_calls handleWithdrawFailure_registered paymentDone_registered sendQueued_registered
      simp: OnChannelEvent_def HandleContractSendChannelClose_def HandelContractSendChannelUpdate_def contractCall_def
      HandleSendWithdrawRequest_def HandleSendWithdraw_def Let_def
      split: option.split_asm sum.split_asm bind_splits if_splits)

lemma onEvents_registered: "onEvents e t c evs s = Some s' \<Longrightarrow> registered s' = registered s"
  by (induction evs arbitrary: s) (auto dest!: OnChannelEvent_registered split: bind_splits)

lemma HandleStateChange_registered:
  assumes "HandleStateChange e t c every sc s = Some (s', evs)"
  shows "registered s' = registered s"
proof -
  obtain wal s1 where "onEvents e t c evs (s\<lparr>ss_Wal := wal\<rparr>) = Some s1"
    and "registered s' = registered s1"
    using assms by (auto simp: HandleStateChange_def Let_def split: prod.split_asm option.split_asm bind_splits if_splits)
  with onEvents_registered [of e t c evs "s\<lparr>ss_Wal := wal\<rparr>" s1] show ?thesis by simp
qed

lemma OnMessage_registered: "OnMessage e t c every m s = Some (s', evs) \<Longrightarrow> registered s' = registered s"
  by (auto simp: OnMessage_def Let_def dest!: HandleStateChange_registered split: option.splits bind_splits)

lemma other_registered:
  "ServiceWithdraw e t c every tk p x s = Some (err, s') \<Longrightarrow> registered s' = registered s"
  "ChannelCooperativeSettle e t c every tk p s = Some (err, s') \<Longrightarrow> registered s' = registered s"
  by (auto simp: ServiceWithdraw_def ChannelCooperativeSettle_def Let_def dest!: HandleStateChange_registered
      split: option.splits bind_splits if_splits)

lemma call_simps [simp]:
  "GetPaymentStatus target i (call x s) = GetPaymentStatus target i s" "ss_Wal (call x s) = ss_Wal s"
  "ss_StartHealthCheck (call x s) = ss_StartHealthCheck s"
  by (simp_all add: call_def GetPaymentStatus_def)

definition paymentOf :: "PaymentCall \<Rightarrow> Address \<times> PaymentID" where
  "paymentOf p = (py_target p, py_paymentId p)"

text \<open>A check registers and logs nothing, and lets a call go on only when the payment is not known.\<close>

lemma check_registered:
  "checkDirectTransfer e amount target i s = Some (r, s') \<Longrightarrow>
     registered s' = registered s \<and> wal_Storage (ss_Wal s') = wal_Storage (ss_Wal s)
     \<and> (\<forall>p. r = Inr p \<longrightarrow> paymentOf p = (target, i) \<and> \<not> registered s (target, i)) \<and> (\<forall>st err. r = Inl (st, err) \<longrightarrow> err \<noteq> None)"
  "checkMediaTransfer e tk media target amount i s = Some (r, s') \<Longrightarrow>
     registered s' = registered s \<and> wal_Storage (ss_Wal s') = wal_Storage (ss_Wal s)
     \<and> (\<forall>p. r = Inr p \<longrightarrow> paymentOf p = (target, i) \<and> \<not> registered s (target, i)) \<and> (\<forall>st err. r = Inl (st, err) \<longrightarrow> err \<noteq> None)"
  by (auto simp: checkDirectTransfer_def checkMediaTransfer_def paymentOf_def registered_def [of _ "(target, i)"] Let_def
      split: option.splits bind_splits if_splits sum.splits list.splits)

lemma start_registered:
  "startPayment e t c every p s = Some ((st, err), s') \<Longrightarrow>
    err = None \<and> registered s' = (registered s)(paymentOf p := True)"
  by (auto simp: startPayment_def paymentOf_def Let_def dest!: HandleStateChange_registered split: bind_splits)

text \<open>
  What a service does, with the calls whose check was passed and whose start is to come, the payments that were started, and the
  calls that were on their way at every moment. Any calls and messages may come between the check and the start of a call. Payments are
  named by their target and identifier.
\<close>

inductive service_run ::
  "env \<Rightarrow> transition \<Rightarrow> codec \<Rightarrow> nat \<Rightarrow> Service \<Rightarrow> PaymentCall list list \<Rightarrow> PaymentCall list \<Rightarrow> (Address \<times> PaymentID) list \<Rightarrow> Service \<Rightarrow> bool"
  for e t c every where
  none: "service_run e t c every s [] [] [] s"
| direct: "service_run e t c every s tr calls started s1 \<Longrightarrow> checkDirectTransfer e amount target i s1 = Some (Inr p, s2)
    \<Longrightarrow> service_run e t c every s (tr @ [calls @ [p]]) (calls @ [p]) started s2"
| direct_refused: "service_run e t c every s tr calls started s1 \<Longrightarrow> checkDirectTransfer e amount target i s1 = Some (Inl res, s2)
    \<Longrightarrow> service_run e t c every s tr calls started s2"
| media: "service_run e t c every s tr calls started s1 \<Longrightarrow> checkMediaTransfer e tk media target amount i s1 = Some (Inr p, s2)
    \<Longrightarrow> service_run e t c every s (tr @ [calls @ [p]]) (calls @ [p]) started s2"
| media_refused: "service_run e t c every s tr calls started s1 \<Longrightarrow> checkMediaTransfer e tk media target amount i s1 = Some (Inl res, s2)
    \<Longrightarrow> service_run e t c every s tr calls started s2"
| start: "service_run e t c every s tr (calls1 @ p # calls2) started s1 \<Longrightarrow> startPayment e t c every p s1 = Some (res, s2)
    \<Longrightarrow> service_run e t c every s tr (calls1 @ calls2) (started @ [paymentOf p]) s2"
| withdraw: "service_run e t c every s tr calls started s1 \<Longrightarrow> ServiceWithdraw e t c every tk partner x s1 = Some (err', s2)
    \<Longrightarrow> service_run e t c every s tr calls started s2"
| settle: "service_run e t c every s tr calls started s1 \<Longrightarrow> ChannelCooperativeSettle e t c every tk partner s1 = Some (err', s2)
    \<Longrightarrow> service_run e t c every s tr calls started s2"
| message: "service_run e t c every s tr calls started s1 \<Longrightarrow> OnMessage e t c every m s1 = Some (s2, evs)
    \<Longrightarrow> service_run e t c every s tr calls started s2"
| change: "service_run e t c every s tr calls started s1 \<Longrightarrow> HandleStateChange e t c every sc s1 = Some (s2, evs)
    \<Longrightarrow> service_run e t c every s tr calls started s2"

text \<open>No payment is known, started or on its way twice.\<close>

definition once :: "Service \<Rightarrow> PaymentCall list \<Rightarrow> (Address \<times> PaymentID) list \<Rightarrow> Service \<Rightarrow> bool" where
  "once s calls started s' \<longleftrightarrow> distinct started \<and> distinct (map paymentOf calls)
     \<and> (\<forall>k. registered s' k \<longleftrightarrow> registered s k \<or> k \<in> set started) \<and> (\<forall>k \<in> set started. \<not> registered s k)
     \<and> (\<forall>p \<in> set calls. \<not> registered s' (paymentOf p))"

lemma once_cong: "once s calls started s1 \<Longrightarrow> registered s2 = registered s1 \<Longrightarrow> once s calls started s2"
  by (simp add: once_def)

lemma once_call:
  "once s calls started s1 \<Longrightarrow> registered s2 = registered s1 \<Longrightarrow> \<not> registered s1 (paymentOf p) \<Longrightarrow> distinct (map paymentOf (calls @ [p]))
    \<Longrightarrow> once s (calls @ [p]) started s2"
  by (auto simp: once_def)

lemma once_start:
  assumes "once s (calls1 @ p # calls2) started s1" and "registered s2 = (registered s1)(paymentOf p := True)"
  shows "once s (calls1 @ calls2) (started @ [paymentOf p]) s2"
proof -
  have "distinct started" and "distinct (map paymentOf (calls1 @ p # calls2))" and k: "\<And>k. registered s1 k \<longleftrightarrow> registered s k \<or> k \<in> set started"
    and "\<forall>k \<in> set started. \<not> registered s k" and c: "\<forall>p \<in> set (calls1 @ p # calls2). \<not> registered s1 (paymentOf p)"
    using assms(1) unfolding once_def by (simp, simp, blast, simp, simp)
  moreover have "\<not> registered s (paymentOf p)" "paymentOf p \<notin> set started" using c k by auto
  ultimately show ?thesis unfolding once_def assms(2)
    by (auto simp del: split_paired_All) (metis image_eqI)+
qed

lemma service_run_once:
  "service_run e t c every s tr calls started s' \<Longrightarrow> \<forall>calls \<in> set tr. distinct (map paymentOf calls) \<Longrightarrow> once s calls started s'"
proof (induction rule: service_run.induct)
  case (none s)
  then show ?case by (simp add: once_def)
next
  case (direct s tr calls started s1 amount target i p s2)
  with check_registered(1) [OF direct.hyps(2)] show ?case by (auto intro!: once_call)
next
  case (media s tr calls started s1 tk media target amount i p s2)
  with check_registered(2) [OF media.hyps(2)] show ?case by (auto intro!: once_call)
next
  case (direct_refused s tr calls started s1 amount target i res s2)
  with check_registered(1) [OF direct_refused.hyps(2)] show ?case by (auto intro: once_cong)
next
  case (media_refused s tr calls started s1 tk media target amount i res s2)
  with check_registered(2) [OF media_refused.hyps(2)] show ?case by (auto intro: once_cong)
next
  case (start s tr calls1 p calls2 started s1 res s2)
  obtain st err where "res = (st, err)" by (cases res)
  with start start_registered [of e t c every p s1 st err s2] show ?case by (auto intro!: once_start)
qed (auto intro: once_cong dest!: other_registered OnMessage_registered HandleStateChange_registered)

lemma direct_registered:
  assumes "DirectTransferAsync e t c every amount target i s = Some ((st, err), s')" and "registered s (target, i)"
  shows "err \<noteq> None \<and> wal_Storage (ss_Wal s') = wal_Storage (ss_Wal s)"
proof -
  obtain r s1 where r: "checkDirectTransfer e amount target i s = Some (r, s1)"
    and d: "(case r of Inl result \<Rightarrow> Some (result, s1) | Inr p \<Rightarrow> startPayment e t c every p s1) = Some ((st, err), s')"
    using assms(1) by (auto simp: DirectTransferAsync_def split: bind_splits)
  from check_registered(1) [OF r] assms(2) d show ?thesis by (cases r) auto
qed

lemma media_registered:
  assumes "MediaTransfer e t c every tk media target amount i s = Some ((st, err), s')" and "registered s (target, i)"
  shows "err \<noteq> None \<and> wal_Storage (ss_Wal s') = wal_Storage (ss_Wal s)"
proof -
  obtain r s1 where r: "checkMediaTransfer e tk media target amount i s = Some (r, s1)"
    and d: "(case r of Inl result \<Rightarrow> Some (result, s1) | Inr p \<Rightarrow> startPayment e t c every p s1) = Some ((st, err), s')"
    using assms(1) by (auto simp: MediaTransfer_def split: bind_splits)
  from check_registered(2) [OF r] assms(2) d show ?thesis by (cases r) auto
qed

text \<open>
  C15. A payment whose calls do not overlap is started at most once. Whatever is asked of a node between its start and its end, in
  any order and with any messages and reports of the chain between the check and the start of a call, no two calls start a
  payment to the same target under the same identifier, be it direct or mediated, and no call starts one that is already known, as long as
  at no moment two calls for the same payment are on their way, checked and not yet started; a call for a payment that is known
  is refused and leaves the log as it was. (Two calls that overlap both start: \<open>overlapping_calls_both_start\<close>.)
\<close>

theorem payments_start_once:
  assumes "service_run e t c every s tr calls started s'" and "\<forall>calls \<in> set tr. distinct (map paymentOf calls)"
  shows "distinct started \<and> (\<forall>k \<in> set started. \<not> registered s k \<and> registered s' k)
    \<and> (\<forall>amount target i st err s2. DirectTransferAsync e t c every amount target i s' = Some ((st, err), s2) \<and>
          registered s' (target, i) \<longrightarrow> err \<noteq> None \<and> wal_Storage (ss_Wal s2) = wal_Storage (ss_Wal s'))
    \<and> (\<forall>tk media amount target i st err s2. MediaTransfer e t c every tk media target amount i s' = Some ((st, err), s2) \<and>
          registered s' (target, i) \<longrightarrow> err \<noteq> None \<and> wal_Storage (ss_Wal s2) = wal_Storage (ss_Wal s'))"
  using service_run_once [OF assms] unfolding once_def by (auto dest: direct_registered media_registered)

section \<open>Defects\<close>

text \<open>
  There is no lock over the check and the registration (the line that would take one is a comment in \<open>MediaTransfer\<close>). A second
  call for the same direct payment that is checked before the first is started passes the check as well, and the start
  never refuses: the payment is made twice.
\<close>

theorem overlapping_calls_both_start:
  assumes "checkDirectTransfer e amount target i s = Some (Inr p, s1)"
  shows "\<exists>s2. checkDirectTransfer e amount target i s1 = Some (Inr p, s2)
    \<and> (\<forall>r3 s3 r4 s4. startPayment e t c every p s2 = Some (r3, s3) \<and> startPayment e t c every p s3 = Some (r4, s4) \<longrightarrow>
         snd r3 = None \<and> snd r4 = None
         \<and> service_run e t c every s [[p], [p, p]] [] [paymentOf p, paymentOf p] s4)"
proof -
  have "StateFromChannel (call x s) = StateFromChannel s" for x by (simp add: StateFromChannel_def)
  then obtain s2 where s2: "checkDirectTransfer e amount target i s1 = Some (Inr p, s2)"
    using assms by (auto simp: checkDirectTransfer_def Let_def split: option.split_asm bind_splits if_splits)
  have "service_run e t c every s ([[p]] @ [[p] @ [p]]) ([p] @ [p]) [] s2"
    using service_run.direct [OF service_run.direct [OF service_run.none assms, simplified] s2, of t c every] by simp
  then have r: "service_run e t c every s [[p], [p, p]] ([] @ p # [p]) [] s2" by simp
  have "service_run e t c every s [[p], [p, p]] [] [paymentOf p, paymentOf p] s4"
    if "startPayment e t c every p s2 = Some (r3, s3)" "startPayment e t c every p s3 = Some (r4, s4)" for r3 s3 r4 s4
  proof -
    from service_run.start [OF r that(1)] have "service_run e t c every s [[p], [p, p]] ([] @ p # []) [paymentOf p] s3" by simp
    from service_run.start [OF this that(2)] show ?thesis by simp
  qed
  moreover have "snd r = None" if "startPayment e t c every p x = Some (r, y)" for x r y
    using start_registered [of e t c every p x "fst r" "snd r" y] that by simp
  ultimately show ?thesis using s2 by blast
qed

text \<open>
  A mediated payment is registered with the margin for fees added to its amount, and a second call compares without
  it: the same payment asked for again is taken for another one with its identifier, unless the margin is nothing.
\<close>

theorem repeated_payment_mismatch:
  assumes "StateFromChannel s = Some chain"
    and "GetTokenNetworkIdByTokenAddress chain (MicroPayContractAddress e) tk = Some net"
    and "GetPaymentStatus target i s = Some \<lparr>ps_paymentType = PAYMENT_MEDIATED, ps_paymentId = i,
           ps_amount = calculateSafeAmountWithFee e amount, ps_TokenNetworkId = net, ps_paymentDone = done\<rparr>"
    and "calculateSafeAmountWithFee e amount \<noteq> amount" and "target \<noteq> 0" and "amount \<noteq> 0" and "i \<noteq> 0"
    and "\<not> ss_IsSecretRegistered s (GetHash e (sv_secretRandom (ss_service s)))"
  shows "MediaTransfer e t c every tk media target amount i s =
    Some ((None, Some (Inl (Msg ''Another payment with the same id is in flight. ''))), s)"
  using assms by (simp add: MediaTransfer_def checkMediaTransfer_def Match_def Let_def)

text \<open>
  \<open>CanTransfer\<close> and \<open>GetCurrentBalance\<close> look at one side of the channel only. Once a node has paid more than it
  deposited, out of what it received, the difference wraps around and every payment seems possible.
\<close>

theorem CanTransfer_wraps:
  assumes "partnerChannel e s target = Some (Some cs)" and "GetStatus cs = ChannelStateOpened"
    and "es_BalanceProof (cs_OurState cs) = Some bp"
    and "uint (es_ContractBalance (cs_OurState cs)) - uint (es_TotalWithdraw (cs_OurState cs)) < uint (bp_TransferredAmount bp)"
    and "uint (bp_TransferredAmount bp) + uint (es_TotalWithdraw (cs_OurState cs)) < 2 ^ 63" and "uint amount < 2 ^ 63"
  shows "CanTransfer e target amount s = Some True"
proof -
  define x where "x = uint (es_ContractBalance (cs_OurState cs)) - uint (es_TotalWithdraw (cs_OurState cs)) - uint (bp_TransferredAmount bp)"
  have x: "- (2 ^ 63) < x" "x < 0"
    using assms(4,5) uint_ge_0 [of "es_ContractBalance (cs_OurState cs)"] unfolding x_def by linarith+
  have "GetGasBalance (cs_OurState cs) = word_of_int x"
    using assms(3) by (simp add: GetGasBalance_def x_def)
  then have "uint (GetGasBalance (cs_OurState cs)) = x mod 2 ^ 64" by (simp add: uint_word_of_int)
  also have "\<dots> = (x + 2 ^ 64) mod 2 ^ 64" by simp
  also have "\<dots> = x + 2 ^ 64" by (intro mod_pos_pos_trivial) (use x in simp_all)
  finally have "\<not> GetGasBalance (cs_OurState cs) < amount" using x assms(6) by (simp add: word_less_def)
  with assms(1,2) show ?thesis by (simp add: CanTransfer_def)
qed

text \<open>
  A failed withdrawal is forgotten in the current state without being logged: what a restart brings back does not
  depend on it.
\<close>

theorem withdraw_failure_not_logged:
  assumes "handleWithdrawFailure e tn k err s = Some s'"
  shows "RestoreToStateChange t c r (wal_Storage (ss_Wal s')) Latest = RestoreToStateChange t c r (wal_Storage (ss_Wal s)) Latest"
    and "\<exists>chain' cs. StateFromChannel s' = Some chain' \<and> GetChannelStateByTokenNetworkId e chain' tn k = Some cs
      \<and> cs_WithdrawTransaction cs = None"
proof -
  let ?s = "WithdrawResultNotify k False err s"
  obtain chain net cs where h: "StateFromChannel ?s = Some chain" "GetTokenNetworkByIdentifier e chain tn = Some net"
      "smap_load (tn_ChannelsMap net) k = Some cs"
    and s': "s' = ?s\<lparr>ss_Wal := (ss_Wal ?s)\<lparr>wal_CurrentState := Some (storeTokenNetwork e tn
            (net\<lparr>tn_ChannelsMap := smap_store k (DeleteWithdrawTransaction cs) (tn_ChannelsMap net)\<rparr>) chain)\<rparr>\<rparr>"
    using assms by (auto simp: handleWithdrawFailure_def Let_def split: bind_splits)
  have "ss_Wal ?s = ss_Wal s" by (simp add: WithdrawResultNotify_def RemoveWithdrawStatus_def)
  then show "RestoreToStateChange t c r (wal_Storage (ss_Wal s')) Latest = RestoreToStateChange t c r (wal_Storage (ss_Wal s)) Latest"
    unfolding s' by simp
  show "\<exists>chain' cs. StateFromChannel s' = Some chain' \<and> GetChannelStateByTokenNetworkId e chain' tn k = Some cs
      \<and> cs_WithdrawTransaction cs = None"
    using h unfolding s'
    by (auto simp: StateFromChannel_def GetChannelStateByTokenNetworkId_def GetTokenNetworkByIdentifier_def storeTokenNetwork_def
        DeleteWithdrawTransaction_def Let_def split: bind_splits)
qed

section \<open>Sample\<close>

theorem payments_start_once_witness:
  "\<exists>tr s. service_run sample_env (nodeTransition sample_env (\<lambda>_. sample_ranges) (\<lambda>_ _ _. 1) (\<lambda>_. 3)) sample_codec 100
       (sample_running sample_node) tr [] [(2, 77)] s
     \<and> \<not> registered (sample_running sample_node) (2, 77) \<and> registered s (2, 77)"
proof -
  let ?t = "nodeTransition sample_env (\<lambda>_. sample_ranges) (\<lambda>_ _ _. 1) (\<lambda>_. 3)" let ?base = "sample_running sample_node"
  let ?s = "RegisterPaymentStatus 2 77 PAYMENT_DIRECT 30 6 (call (StartHealthCheck 2) ?base)"
  have f: "ss_Wal ?s = ss_Wal ?base" "ss_Transport ?s = sample_transport" "ss_Account ?s = sample_account 1"
    by (simp_all add: call_def)
  have n: "GetTokenNetworkIdByTokenAddress sample_node (MicroPayContractAddress sample_env) (USDT_CONTRACT_ADDRESS sample_env) = Some 6"
    by (simp add: GetTokenNetworkIdByTokenAddress_def GetTokenNetworkByTokenAddress_def sample_node_def sample_env_def
        smap_load_def sample_token_network_def)
  have g: "GetPaymentStatus 2 77 ?base = None" "ss_StartHealthCheck ?base 2 = None"
    by (simp_all add: GetPaymentStatus_def sample_running_def)
  obtain s' evs where h: "HandleStateChange sample_env ?t sample_codec 100 sample_pay ?s = Some (s', evs)"
    using sample_handles [OF f] by blast
  have c: "checkDirectTransfer sample_env 30 2 77 ?base = Some (Inr \<lparr>py_target = 2, py_paymentId = 77,
      py_paymentType = PAYMENT_DIRECT, py_amount = 30, py_TokenNetworkId = 6, py_change = sample_pay\<rparr>, call (StartHealthCheck 2) ?base)"
    using n g by (simp add: checkDirectTransfer_def Let_def)
  let ?p = "\<lparr>py_target = 2, py_paymentId = 77, py_paymentType = PAYMENT_DIRECT, py_amount = 30, py_TokenNetworkId = 6,
      py_change = sample_pay\<rparr> :: PaymentCall"
  obtain res where st: "startPayment sample_env ?t sample_codec 100 ?p (call (StartHealthCheck 2) ?base) = Some (res, s')"
    using h by (simp add: startPayment_def Let_def)
  have "service_run sample_env ?t sample_codec 100 ?base [[?p]] ([] @ ?p # []) [] (call (StartHealthCheck 2) ?base)"
    using service_run.direct [OF service_run.none c] by simp
  from service_run.start [OF this st] have r: "service_run sample_env ?t sample_codec 100 ?base [[?p]] [] [(2, 77)] s'"
    by (simp add: paymentOf_def)
  from payments_start_once [OF this] r show ?thesis by auto
qed

end
