(* ===== verification/Pylons_ChainEvents.thy ===== *)
theory Pylons_ChainEvents
  imports Pylons_Client
begin

text \<open>
  The events of the blockchain (\<open>service/chain_events_handler.go\<close>): what the node polls is a JSON object for each event of the
  contract; it is parsed and becomes a state change. A JSON number is the \<open>float64\<close> it was read as, a rational.
  The proxy of a channel, the configuration and the events of a block are parameters.
\<close>

section \<open>Parsing\<close>

datatype (plugins only: code) json = JNumber rat | JString string | JArray "json list" | JOther

datatype (plugins only: code) EventValue =
    EV_Address Address
  | EV_ChannelID ChannelID
  | EV_BlockHeight BlockHeight
  | EV_TokenAmount TokenAmount
  | EV_Nonce Nonce
  | EV_Secret Secret
  | EV_SecretHash SecretHash
  | EV_LocksRoot LocksRoot
  | EV_FeeAmount FeeAmount
  | EV_ProportionalFeeAmount ProportionalFeeAmount
  | EV_String string

text \<open>The conversion of a number cuts off the fraction; Go leaves the value open when it does not fit.\<close>

definition json_number :: "json \<Rightarrow> rat option" where
  "json_number v = (case v of JNumber x \<Rightarrow> Some x | _ \<Rightarrow> None)"

definition number_u64 :: "env \<Rightarrow> rat \<Rightarrow> u64" where
  "number_u64 e x = (if 0 \<le> x \<and> x < 2 ^ 64 then of_int \<lfloor>x\<rfloor> else FloatOutOfRange e \<lfloor>x\<rfloor>)"

definition number_u32 :: "env \<Rightarrow> rat \<Rightarrow> u32" where
  "number_u32 e x = (if 0 \<le> x \<and> x < 2 ^ 32 then of_int \<lfloor>x\<rfloor> else ucast (FloatOutOfRange e \<lfloor>x\<rfloor>))"

definition number_byte :: "env \<Rightarrow> rat \<Rightarrow> byte" where
  "number_byte e x = (if 0 \<le> x \<and> x < 2 ^ 8 then of_int \<lfloor>x\<rfloor> else ucast (FloatOutOfRange e \<lfloor>x\<rfloor>))"

text \<open>A byte array of fixed length that is filled from an array of numbers: too many are an index out of range.\<close>

definition json_bytes :: "env \<Rightarrow> nat \<Rightarrow> json \<Rightarrow> byte list option" where
  "json_bytes e n v =
     (case v of
        JArray vs \<Rightarrow>
          do { xs \<leftarrow> those (map json_number vs);
               (if length xs \<le> n then Some (map (number_byte e) xs @ replicate (n - length xs) 0) else None) }
      | _ \<Rightarrow> None)"

definition json_address :: "env \<Rightarrow> json \<Rightarrow> Address option" where
  "json_address e v = map_option copy_address (json_bytes e 20 v)"

definition json_hash :: "env \<Rightarrow> json \<Rightarrow> Keccak256 option" where
  "json_hash e v = map_option copy_hash (json_bytes e 32 v)"

text \<open>What is stored for an item: the outer option is the panic of a type assertion, the inner one an item that is left out.\<close>

definition parseItem :: "env \<Rightarrow> string \<Rightarrow> json \<Rightarrow> EventValue option option" where
  "parseItem e item value =
     (let u64 = (\<lambda>c. map_option (\<lambda>x. Some (c (number_u64 e x))) (json_number value));
          u32 = (\<lambda>c. map_option (\<lambda>x. Some (c (number_u32 e x))) (json_number value))
      in if item \<in> {''participant'', ''participant1'', ''participant2'', ''partner'', ''closingParticipant''}
         then map_option (\<lambda>a. Some (EV_Address a)) (json_address e value)
         else if item = ''channelID'' then u32 EV_ChannelID
         else if item \<in> {''blockHeight'', ''settleTimeout''} then u32 EV_BlockHeight
         else if item \<in> {''totalDeposit'', ''totalWithdraw'', ''participant1_amount'', ''participant2_amount'', ''unlockedAmount'',
                ''returnedTokens''} then u64 EV_TokenAmount
         else if item = ''nonce'' then u64 EV_Nonce
         else if item = ''secret'' then map_option (\<lambda>s. Some (EV_Secret s)) (json_bytes e 32 value)
         else if item = ''secretHash'' then map_option (\<lambda>h. Some (EV_SecretHash h)) (json_hash e value)
         else if item = ''computedLocksroot'' then map_option (\<lambda>h. Some (EV_LocksRoot h)) (json_hash e value)
         else if item = ''walletAddr''
         then (case value of
                 JString s \<Rightarrow> Some (Some (EV_String s))
               | JArray _ \<Rightarrow> map_option (\<lambda>a. Some (EV_Address a)) (json_address e value)
               | _ \<Rightarrow> Some None)
         else if item = ''tokenAddr'' then map_option (\<lambda>a. Some (EV_Address a)) (json_address e value)
         else if item = ''flat'' then u64 EV_FeeAmount
         else if item = ''proportional'' then u64 EV_ProportionalFeeAmount
         else Some None)"

type_synonym ParsedEvent = "(string, EventValue) smap"

fun ParseEvent :: "env \<Rightarrow> (string, json) smap \<Rightarrow> ParsedEvent option" where
  "ParseEvent e [] = Some []"
| "ParseEvent e ((item, value) # event) =
     do { v \<leftarrow> parseItem e item value;
          events \<leftarrow> ParseEvent e event;
          Some (case v of None \<Rightarrow> events | Some v \<Rightarrow> (item, v) # events) }"

text \<open>The type assertions of the handlers.\<close>

definition evAddress :: "ParsedEvent \<Rightarrow> string \<Rightarrow> Address option" where
  "evAddress ev k = (case smap_load ev k of Some (EV_Address x) \<Rightarrow> Some x | _ \<Rightarrow> None)"

definition evChannelID :: "ParsedEvent \<Rightarrow> string \<Rightarrow> ChannelID option" where
  "evChannelID ev k = (case smap_load ev k of Some (EV_ChannelID x) \<Rightarrow> Some x | _ \<Rightarrow> None)"

definition evBlockHeight :: "ParsedEvent \<Rightarrow> string \<Rightarrow> BlockHeight option" where
  "evBlockHeight ev k = (case smap_load ev k of Some (EV_BlockHeight x) \<Rightarrow> Some x | _ \<Rightarrow> None)"

definition evTokenAmount :: "ParsedEvent \<Rightarrow> string \<Rightarrow> TokenAmount option" where
  "evTokenAmount ev k = (case smap_load ev k of Some (EV_TokenAmount x) \<Rightarrow> Some x | _ \<Rightarrow> None)"

section \<open>The handlers\<close>

text \<open>What the proxy of a channel says of it, the configuration, and the events of a block of the chain.\<close>

record PaymentChannelProxy =
  pc_OurAddress :: Address
  pc_OurDeposit :: TokenAmount
  pc_PartnerAddress :: Address
  pc_PartnerDeposit :: TokenAmount
  pc_ChainId :: ChainID
  pc_ChannelId :: ChannelID
  pc_SettleTimeout :: BlockHeight

record ChainView =
  cv_PaymentChannel :: "ChannelID \<Rightarrow> ParsedEvent \<Rightarrow> PaymentChannelProxy"
  cv_RevealTimeout :: "BlockHeight option"
  cv_FeeConfig :: MediationFeeConfig
  cv_Events :: "BlockHeight \<Rightarrow> (string, json) smap list option"

definition DefaultRevealTimeout :: BlockHeight where
  "DefaultRevealTimeout = 50"

definition SetupChannelState ::
  "TokenAddress \<Rightarrow> PaymentNetworkID \<Rightarrow> TokenNetworkID \<Rightarrow> BlockHeight \<Rightarrow> PaymentChannelProxy \<Rightarrow> BlockHeight
     \<Rightarrow> NettingChannelState option" where
  "SetupChannelState tokenAddress paymentNetworkId tokenNetworkAddress revealTimeout proxy openedBlockHeight =
     (if openedBlockHeight = 0 then None
      else Some
        \<lparr>cs_Identifier = pc_ChannelId proxy, cs_ChainId = pc_ChainId proxy, cs_TokenAddress = tokenAddress,
         cs_PaymentNetworkId = paymentNetworkId, cs_TokenNetworkId = tokenNetworkAddress,
         cs_RevealTimeout = ucast revealTimeout, cs_SettleTimeout = ucast (pc_SettleTimeout proxy), cs_FeeSchedule = None,
         cs_OurState = NewNettingChannelEndState\<lparr>es_Address := pc_OurAddress proxy, es_ContractBalance := pc_OurDeposit proxy\<rparr>,
         cs_PartnerState = NewNettingChannelEndState
           \<lparr>es_Address := pc_PartnerAddress proxy, es_ContractBalance := pc_PartnerDeposit proxy\<rparr>,
         cs_DepositTransactionQueue = [],
         cs_OpenTransaction = Some \<lparr>tx_StartedBlockHeight = 0, tx_FinishedBlockHeight = openedBlockHeight,
           tx_Result = TxnExecSucc\<rparr>,
         cs_CloseTransaction = None, cs_SettleTransaction = None, cs_UpdateTransaction = None,
         cs_OurUnlockTransaction = None, cs_WithdrawTransaction = None\<rparr>)"

text \<open>How a handler hands on its state change, and the channel an event is about.\<close>

type_synonym handler = "NodeChange \<Rightarrow> Service \<Rightarrow> (Service \<times> Event list) option"

definition handled :: "handler \<Rightarrow> NodeChange \<Rightarrow> Service \<Rightarrow> Service option" where
  "handled h sc s = map_option fst (h sc s)"

definition knownChannel :: "env \<Rightarrow> ChannelID \<Rightarrow> Service \<Rightarrow> NettingChannelState option option" where
  "knownChannel e channelId s =
     do { chainState \<leftarrow> StateFromChannel s;
          Some (GetChannelStateByTokenNetworkId e chainState (USDT_CONTRACT_ADDRESS e) channelId) }"

definition HandleChannelNew :: "env \<Rightarrow> ChainView \<Rightarrow> handler \<Rightarrow> ParsedEvent \<Rightarrow> Service \<Rightarrow> Service option" where
  "HandleChannelNew e cv h event s =
     do { participant1 \<leftarrow> evAddress event ''participant1'';
          participant2 \<leftarrow> evAddress event ''participant2'';
          channelId \<leftarrow> evChannelID event ''channelID'';
          blockNumber \<leftarrow> evBlockHeight event ''blockHeight'';
          let address = sv_address (ss_service s);
          let tokenNetworkId = USDT_CONTRACT_ADDRESS e;
          (if AddressEqual address participant1 \<or> AddressEqual address participant2
           then do {
             let revealTimeout = (case cv_RevealTimeout cv of None \<Rightarrow> DefaultRevealTimeout | Some rt \<Rightarrow> rt);
             channelState \<leftarrow> SetupChannelState (USDT_CONTRACT_ADDRESS e) (MicroPayContractAddress e) tokenNetworkId
               revealTimeout (cv_PaymentChannel cv channelId event) blockNumber;
             s \<leftarrow> handled h (ND_Network (NC_ContractReceiveChannelNew
               \<lparr>ccn_BlockHeight = blockNumber, ccn_TokenNetworkId = tokenNetworkId, ccn_ChannelState = channelState,
                ccn_ChannelId = channelId\<rparr>)) s;
             Some (call (NotifyNewChannel channelId (es_Address (cs_PartnerState channelState))) s) }
           else handled h (ND_Network (NC_ContractReceiveRouteNew
             \<lparr>crn_BlockHeight = blockNumber, crn_TokenNetworkId = tokenNetworkId, crn_ChannelId = channelId,
              crn_Participant1 = participant1, crn_Participant2 = participant2\<rparr>)) s) }"

text \<open>A deposit of the partner is matched with one of the same amount, unless one is on its way.\<close>

definition handleChannelNewBalance :: "env \<Rightarrow> ChainView \<Rightarrow> handler \<Rightarrow> ParsedEvent \<Rightarrow> Service \<Rightarrow> Service option" where
  "handleChannelNewBalance e cv h event s =
     do { participantAddress \<leftarrow> evAddress event ''participant'';
          channelId \<leftarrow> evChannelID event ''channelID'';
          depositBlockHeight \<leftarrow> evBlockHeight event ''blockHeight'';
          totalDeposit \<leftarrow> evTokenAmount event ''totalDeposit'';
          previousChannelState \<leftarrow> knownChannel e channelId s;
          (case previousChannelState of
             None \<Rightarrow> Some s
           | Some _ \<Rightarrow>
               do { s \<leftarrow> handled h (ND_Network (NC_Channel (SC_ContractReceiveChannelNewBalance
                      \<lparr>cnb_BlockHeight = depositBlockHeight, cnb_TokenNetworkId = USDT_CONTRACT_ADDRESS e,
                       cnb_ChannelId = channelId,
                       cnb_DepositTransaction = \<lparr>nb_ParticipantAddress = participantAddress, nb_ContractBalance = totalDeposit,
                         nb_DepositBlockHeight = depositBlockHeight\<rparr>,
                       cnb_FeeConfig = cv_FeeConfig cv\<rparr>))) s;
                    let address = sv_address (ss_service s);
                    (if participantAddress \<noteq> address
                     then do {
                       channelState \<leftarrow> knownChannel e channelId s;
                       channelState \<leftarrow> channelState;
                       Some (if \<exists>v \<in> set (cs_DepositTransactionQueue channelState).
                                  nb_ParticipantAddress (to_Transaction v) = address
                                \<and> nb_ContractBalance (to_Transaction v) \<noteq> 0
                             then s else call (JoinChannel participantAddress totalDeposit) s) }
                     else Some s) }) }"

definition HandleChannelClose :: "env \<Rightarrow> handler \<Rightarrow> ParsedEvent \<Rightarrow> Service \<Rightarrow> Service option" where
  "HandleChannelClose e h event s =
     do { closingParticipant \<leftarrow> evAddress event ''closingParticipant'';
          channelId \<leftarrow> evChannelID event ''channelID'';
          blockNumber \<leftarrow> evBlockHeight event ''blockHeight'';
          channelState \<leftarrow> knownChannel e channelId s;
          handled h (ND_Network (case channelState of
              Some _ \<Rightarrow> NC_Channel (SC_ContractReceiveChannelClosed
                \<lparr>ccl_BlockHeight = blockNumber, ccl_TransactionFrom = closingParticipant,
                 ccl_TokenNetworkId = USDT_CONTRACT_ADDRESS e, ccl_ChannelId = channelId\<rparr>)
            | None \<Rightarrow> NC_ContractReceiveRouteClosed
                \<lparr>crd_BlockHeight = blockNumber, crd_TokenNetworkId = USDT_CONTRACT_ADDRESS e, crd_ChannelId = channelId\<rparr>)) s }"

definition HandleChannelUpdateTransfer :: "env \<Rightarrow> handler \<Rightarrow> ParsedEvent \<Rightarrow> Service \<Rightarrow> Service option" where
  "HandleChannelUpdateTransfer e h event s =
     do { channelId \<leftarrow> evChannelID event ''channelID'';
          blockNumber \<leftarrow> evBlockHeight event ''blockHeight'';
          nonce \<leftarrow> (case smap_load event ''nonce'' of Some (EV_Nonce x) \<Rightarrow> Some x | _ \<Rightarrow> None);
          channelState \<leftarrow> knownChannel e channelId s;
          (case channelState of
             None \<Rightarrow> Some s
           | Some _ \<Rightarrow> handled h (ND_Network (NC_Channel (SC_ContractReceiveUpdateTransfer
               \<lparr>cut_BlockHeight = blockNumber, cut_TokenNetworkId = USDT_CONTRACT_ADDRESS e, cut_ChannelId = channelId,
                cut_Nonce = nonce\<rparr>))) s) }"

definition HandleChannelSettled :: "env \<Rightarrow> handler \<Rightarrow> ParsedEvent \<Rightarrow> Service \<Rightarrow> Service option" where
  "HandleChannelSettled e h event s =
     do { channelId \<leftarrow> evChannelID event ''channelID'';
          blockNumber \<leftarrow> evBlockHeight event ''blockHeight'';
          channelState \<leftarrow> knownChannel e channelId s;
          (case channelState of
             None \<Rightarrow> Some s
           | Some _ \<Rightarrow> handled h (ND_Network (NC_Channel (SC_ContractReceiveChannelSettled
               \<lparr>cst_BlockHeight = blockNumber, cst_TokenNetworkId = USDT_CONTRACT_ADDRESS e, cst_ChannelId = channelId\<rparr>))) s) }"

text \<open>The caller that waits for our withdrawal is told by a goroutine; here it runs first.\<close>

definition HandleWithdrawSuccess :: "ChannelID \<Rightarrow> Service \<Rightarrow> Service" where
  "HandleWithdrawSuccess channelId s = WithdrawResultNotify channelId True (Msg []) s"

definition HandleChannelWithdraw :: "env \<Rightarrow> handler \<Rightarrow> ParsedEvent \<Rightarrow> Service \<Rightarrow> Service option" where
  "HandleChannelWithdraw e h event s =
     do { participantAddress \<leftarrow> evAddress event ''participant'';
          channelId \<leftarrow> evChannelID event ''channelID'';
          blockNumber \<leftarrow> evBlockHeight event ''blockHeight'';
          totalWithdraw \<leftarrow> evTokenAmount event ''totalWithdraw'';
          channelState \<leftarrow> knownChannel e channelId s;
          (case channelState of
             None \<Rightarrow> Some s
           | Some channelState \<Rightarrow>
               handled h (ND_Network (NC_Channel (SC_ContractReceiveChannelWithdraw
                 \<lparr>crw_BlockHeight = blockNumber, crw_TokenNetworkId = USDT_CONTRACT_ADDRESS e, crw_ChannelId = channelId,
                  crw_Participant = participantAddress, crw_TotalWithdraw = totalWithdraw\<rparr>)))
                 (if AddressEqual (es_Address (cs_OurState channelState)) participantAddress
                  then HandleWithdrawSuccess channelId s else s)) }"

definition HandleChannelCooperativeSettled :: "env \<Rightarrow> handler \<Rightarrow> ParsedEvent \<Rightarrow> Service \<Rightarrow> Service option" where
  "HandleChannelCooperativeSettled e h event s =
     do { channelId \<leftarrow> evChannelID event ''channelID'';
          blockNumber \<leftarrow> evBlockHeight event ''blockHeight'';
          participant1Amount \<leftarrow> evTokenAmount event ''participant1_amount'';
          participant2Amount \<leftarrow> evTokenAmount event ''participant2_amount'';
          channelState \<leftarrow> knownChannel e channelId s;
          handled h (ND_Network (case channelState of
              Some _ \<Rightarrow> NC_Channel (SC_ContractReceiveChannelCooperativeSettled
                \<lparr>crc_BlockHeight = blockNumber, crc_TokenNetworkId = USDT_CONTRACT_ADDRESS e, crc_ChannelId = channelId,
                 crc_Participant1Amount = participant1Amount, crc_Participant2Amount = participant2Amount\<rparr>)
            | None \<Rightarrow> NC_ContractReceiveRouteClosed
                \<lparr>crd_BlockHeight = blockNumber, crd_TokenNetworkId = USDT_CONTRACT_ADDRESS e, crd_ChannelId = channelId\<rparr>)) s }"

definition HandleChannelBatchUnlock :: "env \<Rightarrow> handler \<Rightarrow> ParsedEvent \<Rightarrow> Service \<Rightarrow> Service option" where
  "HandleChannelBatchUnlock e h event s =
     do { blockNumber \<leftarrow> evBlockHeight event ''blockHeight'';
          participant \<leftarrow> evAddress event ''participant'';
          partner \<leftarrow> evAddress event ''partner'';
          locksRoot \<leftarrow> (case smap_load event ''computedLocksroot'' of Some (EV_LocksRoot x) \<Rightarrow> Some x | _ \<Rightarrow> None);
          unlockedAmount \<leftarrow> evTokenAmount event ''unlockedAmount'';
          returnedTokens \<leftarrow> evTokenAmount event ''returnedTokens'';
          handled h (ND_Network (NC_Channel (SC_ContractReceiveChannelBatchUnlock
            \<lparr>cbu_BlockHeight = blockNumber, cbu_TokenNetworkId = USDT_CONTRACT_ADDRESS e, cbu_Participant = participant,
             cbu_Partner = partner, cbu_LocksRoot = locksRoot, cbu_UnlockedAmount = unlockedAmount,
             cbu_ReturnedTokens = returnedTokens\<rparr>))) s }"

definition HandleSecretRevealed :: "handler \<Rightarrow> ParsedEvent \<Rightarrow> Service \<Rightarrow> Service option" where
  "HandleSecretRevealed h event s =
     do { blockNumber \<leftarrow> evBlockHeight event ''blockHeight'';
          secretHash \<leftarrow> (case smap_load event ''secretHash'' of Some (EV_SecretHash x) \<Rightarrow> Some x | _ \<Rightarrow> None);
          secret \<leftarrow> (case smap_load event ''secret'' of Some (EV_Secret x) \<Rightarrow> Some x | _ \<Rightarrow> None);
          handled h (ND_Task (TC_ContractReceiveSecretReveal
            \<lparr>csr_BlockHeight = blockNumber, csr_SecretRegistryAddress = 0, csr_SecretHash = secretHash, csr_Secret = secret\<rparr>)) s }"

definition HandleChannelSetFee :: "env \<Rightarrow> handler \<Rightarrow> ParsedEvent \<Rightarrow> Service \<Rightarrow> Service option" where
  "HandleChannelSetFee e h event s =
     do { blockNumber \<leftarrow> evBlockHeight event ''blockHeight'';
          walletAddr \<leftarrow> evAddress event ''walletAddr'';
          tokenAddr \<leftarrow> evAddress event ''tokenAddr'';
          flat \<leftarrow> (case smap_load event ''flat'' of Some (EV_FeeAmount x) \<Rightarrow> Some x | _ \<Rightarrow> None);
          proportional \<leftarrow> (case smap_load event ''proportional'' of Some (EV_ProportionalFeeAmount x) \<Rightarrow> Some x | _ \<Rightarrow> None);
          handled h (ND_Network (NC_ContractReceiveSetFee
            \<lparr>csf_BlockHeight = blockNumber, csf_WalletAddr = walletAddr, csf_TokenAddr = tokenAddr,
             csf_TokenNetworkId = USDT_CONTRACT_ADDRESS e,
             csf_FeeSchedule = \<lparr>fs_CapFees = False, fs_Flat = flat, fs_Proportional = proportional,
               fs_ImbalancePenalty = []\<rparr>\<rparr>)) s }"

definition OnBlockchainEvent :: "env \<Rightarrow> ChainView \<Rightarrow> handler \<Rightarrow> (string, json) smap \<Rightarrow> Service \<Rightarrow> Service option" where
  "OnBlockchainEvent e cv h event s =
     (case smap_load event ''eventName'' of
        Some (JString eventName) \<Rightarrow>
          do { events \<leftarrow> ParseEvent e event;
               (if eventName = ''chanOpened'' then HandleChannelNew e cv h events s
                else if eventName = ''ChannelClose'' then HandleChannelClose e h events s
                else if eventName = ''SetTotalDeposit'' then handleChannelNewBalance e cv h events s
                else if eventName = ''chanSettled'' then HandleChannelSettled e h events s
                else if eventName = ''NonClosingBPFUpdate'' then HandleChannelUpdateTransfer e h events s
                else if eventName = ''SetTotalWithdraw'' then HandleChannelWithdraw e h events s
                else if eventName = ''chanCooperativeSettled'' then HandleChannelCooperativeSettled e h events s
                else if eventName = ''SecretRevealed'' then HandleSecretRevealed h events s
                else if eventName = ''ChannelUnlocked'' then HandleChannelBatchUnlock e h events s
                else if eventName = ''SetFee'' then HandleChannelSetFee e h events s
                else Some s) }
      | _ \<Rightarrow> Some s)"

section \<open>Blocks\<close>

text \<open>
  A node that has caught up: for each new block its events and then the block. The service is
  returned with the last block that was handled; a block whose events cannot be fetched ends the round.
\<close>

fun onBlockchainEvents :: "env \<Rightarrow> ChainView \<Rightarrow> handler \<Rightarrow> (string, json) smap list \<Rightarrow> Service \<Rightarrow> Service option" where
  "onBlockchainEvents e cv h [] s = Some s"
| "onBlockchainEvents e cv h (event # events) s =
     do { s \<leftarrow> OnBlockchainEvent e cv h event s; onBlockchainEvents e cv h events s }"

fun newBlocks ::
  "env \<Rightarrow> ChainView \<Rightarrow> handler \<Rightarrow> BlockHeight list \<Rightarrow> BlockHeight \<Rightarrow> Service \<Rightarrow> (BlockHeight \<times> Service) option" where
  "newBlocks e cv h [] lastFilterBlock s = Some (lastFilterBlock, s)"
| "newBlocks e cv h (i # blocks) lastFilterBlock s =
     (case cv_Events cv i of
        None \<Rightarrow> Some (lastFilterBlock, s)
      | Some events \<Rightarrow>
          do { s \<leftarrow> onBlockchainEvents e cv h events s;
               s \<leftarrow> handled h (ND_Network (NC_Channel (Block i))) s;
               newBlocks e cv h blocks i s })"

section \<open>A channel is closed by the partner\<close>

text \<open>The channel of the report: closed, with the update of the balance proof on its way, and one event.\<close>

lemma handleChannelClosed_answers:
  assumes "GetStatus cs = ChannelStateOpened \<or> GetStatus cs = ChannelStateClosing"
    and "ccl_ChannelId x = cs_Identifier cs" and "ccl_TransactionFrom x \<noteq> es_Address (cs_OurState cs)"
    and "es_BalanceProof (cs_PartnerState cs) = Some bp" and "cs_UpdateTransaction cs = None"
  shows "\<exists>cs'. handleChannelClosed cs x = (NewState cs',
         [ContractSendChannelUpdateTransfer (ucast (ccl_BlockHeight x + ucast (cs_SettleTimeout cs)))
            (cs_Identifier cs) (cs_TokenNetworkId cs) bp])
     \<and> GetStatus cs' = ChannelStateClosed \<and> cs_OpenTransaction cs' = cs_OpenTransaction cs
     \<and> handleChannelClosed cs' y = (NewState cs', [])"
proof -
  let ?cs = "setClosed cs (ccl_BlockHeight x)"
  have keep: "cs_OurState ?cs = cs_OurState cs" "cs_PartnerState ?cs = cs_PartnerState cs"
    "cs_UpdateTransaction ?cs = cs_UpdateTransaction cs" "cs_SettleTimeout ?cs = cs_SettleTimeout cs"
    "cs_Identifier ?cs = cs_Identifier cs" "cs_TokenNetworkId ?cs = cs_TokenNetworkId cs"
    "cs_SettleTransaction ?cs = cs_SettleTransaction cs" "cs_OpenTransaction ?cs = cs_OpenTransaction cs"
    by (simp_all add: setClosed_def split: option.split)
  have "cs_SettleTransaction cs = None \<and> (\<exists>tx. cs_CloseTransaction ?cs = Some tx \<and> tx_Result tx = TxnExecSucc)"
    using assms(1) by (auto simp: setClosed_def GetStatus_def split: option.splits if_splits)
  then have closed: "GetStatus (?cs\<lparr>cs_UpdateTransaction := u\<rparr>) = ChannelStateClosed" for u
    by (auto simp: GetStatus_def keep)
  then have "handleChannelClosed (?cs\<lparr>cs_UpdateTransaction := u\<rparr>) y = (NewState (?cs\<lparr>cs_UpdateTransaction := u\<rparr>), [])" for u
    by (simp add: handleChannelClosed_def Let_def)
  with assms closed show ?thesis by (auto simp: handleChannelClosed_def Let_def keep)
qed

lemma network_registered:
  assumes "GetTokenNetworkByIdentifier e c t = Some tn" and "ranges_ok r"
  shows "\<exists>k pn. GetTokenNetworkRegistryByTokenNetworkId r c t = Some (k, pn)"
proof -
  let ?nets = "ch_IdentifiersToPaymentNetworks c"
  let ?has = "\<lambda>k. case smap_load ?nets k of Some pn \<Rightarrow> smap_load (pn_TokenIdentifiersToTokenNetworks pn) t \<noteq> None | None \<Rightarrow> False"
  have h: "?has (MicroPayContractAddress e)" using assms(1) by (auto simp: GetTokenNetworkByIdentifier_def split: bind_splits)
  then have "MicroPayContractAddress e \<in> set (map fst ?nets)"
    by (auto simp: smap_load_def split: option.splits dest!: map_of_SomeD) (metis fst_conv image_eqI)
  then have "MicroPayContractAddress e \<in> set (rg_PaymentNetworks r (map fst ?nets))"
    using assms(2) map_order_set unfolding ranges_ok_def by blast
  with h have "List.find ?has (rg_PaymentNetworks r (map fst ?nets)) \<noteq> None" by (auto simp: find_None_iff)
  then obtain k where k: "List.find ?has (rg_PaymentNetworks r (map fst ?nets)) = Some k" by blast
  then have "?has k" by (auto simp: find_Some_iff)
  then obtain pn where "smap_load ?nets k = Some pn" by (auto split: option.splits)
  with k show ?thesis by (simp add: GetTokenNetworkRegistryByTokenNetworkId_def Let_def)
qed

lemma GetTokenNetworkByIdentifier_store:
  assumes "GetTokenNetworkByIdentifier e c t = Some tn"
  shows "GetTokenNetworkByIdentifier e (storeTokenNetwork e t tn' c) t = Some tn'"
  using assms by (auto simp: GetTokenNetworkByIdentifier_def storeTokenNetwork_def Let_def split: bind_splits)

lemma closed_StateTransition:
  assumes "GetTokenNetworkByIdentifier e c t = Some tn" and "smap_load (tn_ChannelsMap tn) k = Some cs" and "ranges_ok r"
    and "ccl_TokenNetworkId x = t" and "ccl_ChannelId x = k" and "handleChannelClosed cs x = (NewState cs', evs)"
  shows "\<exists>c'. StateTransition e r ids (Some c) (ND_Network (NC_Channel (SC_ContractReceiveChannelClosed x))) m = Some (Some (c', evs))
     \<and> GetChannelStateByTokenNetworkId e c' t k = Some cs'"
proof -
  let ?sc = "NC_Channel (SC_ContractReceiveChannelClosed x)"
  let ?c1 = "case GetChannelStateByTokenNetworkId e c 0 k of
      None \<Rightarrow> c
    | Some cs \<Rightarrow> c\<lparr>ch_QueueIdsToQueues := smap_delete
        \<lparr>qi_Recipient = es_Address (cs_PartnerState cs), qi_ChannelId = k\<rparr> (ch_QueueIdsToQueues c)\<rparr>"
  have "ch_IdentifiersToPaymentNetworks ?c1 = ch_IdentifiersToPaymentNetworks c" by (simp split: option.split)
  moreover have "handleContractReceiveChannelClosed e r c x m = handleTokenNetworkAction e r ?c1 ?sc t m"
    using assms(4,5) by (simp add: handleContractReceiveChannelClosed_def)
  ultimately obtain c1 where c1: "ch_IdentifiersToPaymentNetworks c1 = ch_IdentifiersToPaymentNetworks c"
      "handleContractReceiveChannelClosed e r c x m = handleTokenNetworkAction e r c1 ?sc t m" by blast
  have tn: "GetTokenNetworkByIdentifier e c1 t = Some tn" using assms(1) c1(1) by (simp add: GetTokenNetworkByIdentifier_def)
  obtain key pn where reg: "GetTokenNetworkRegistryByTokenNetworkId r c1 t = Some (key, pn)"
    using network_registered [OF tn assms(3)] by blast
  have "tn_ChannelsMap (DelRoute k tn) = tn_ChannelsMap tn"
    by (simp add: DelRoute_def Let_def split: option.split)
  then have "\<exists>tn'. handleClosed e tn x b m = Some (tn', evs) \<and> smap_load (tn_ChannelsMap tn') k = Some cs'" for b
    using assms(2,5,6) by (auto simp: handleClosed_def subDispatchToChannelById_def StateTransitionForChannel_def putPartner_def
        Let_def)
  then obtain tn' where tn': "handleClosed e tn x (ch_BlockHeight c1) m = Some (tn', evs)"
      "smap_load (tn_ChannelsMap tn') k = Some cs'" by blast
  let ?c2 = "storeTokenNetwork e t tn' c1"
  have "handleContractReceiveChannelClosed e r c x m = Some (Some ?c2, evs)"
    using c1(2) reg tn tn'(1) by (simp add: handleTokenNetworkAction_def stateTransitionForNetwork_def)
  then have "StateTransition e r ids (Some c) (ND_Network ?sc) m = Some (Some (updateQueues ?c2 evs (ND_Network ?sc), evs))"
    by (simp add: StateTransition_def handleStateChangeForNode_def)
  moreover have "GetChannelStateByTokenNetworkId e (updateQueues ?c2 evs (ND_Network ?sc)) t k = Some cs'"
    using GetTokenNetworkByIdentifier_store [OF tn] tn'(2)
    by (simp add: GetChannelStateByTokenNetworkId_def GetTokenNetworkByIdentifier_def updateQueues_outbox(3))
  ultimately show ?thesis by blast
qed

text \<open>
  C16. When the partner closes a channel, the node answers on the chain. The event of the contract, parsed and handled,
  makes the node ask the contract to take the latest balance proof it has of the partner, with the partner's signature of
  it and its own over the two, and nothing else; the channel is closed then.
\<close>

theorem partner_close_answered:
  assumes "smap_load event ''eventName'' = Some (JString ''ChannelClose'')" and "ParseEvent e event = Some ev"
    and "evAddress ev ''closingParticipant'' = Some a" and "evChannelID ev ''channelID'' = Some k"
    and "evBlockHeight ev ''blockHeight'' = Some h"
    and "StateFromChannel s = Some c" and "GetTokenNetworkByIdentifier e c (USDT_CONTRACT_ADDRESS e) = Some tn"
    and "smap_load (tn_ChannelsMap tn) k = Some cs" and "cs_Identifier cs = k"
    and "cs_TokenNetworkId cs = USDT_CONTRACT_ADDRESS e" and "cs_OpenTransaction cs \<noteq> None"
    and "GetStatus cs = ChannelStateOpened \<or> GetStatus cs = ChannelStateClosing" and "a \<noteq> es_Address (cs_OurState cs)"
    and "es_BalanceProof (cs_PartnerState cs) = Some bp" and "cs_UpdateTransaction cs = None" and "\<forall>n. ranges_ok (r n)"
    and "ac_Sign (ss_Account s) (PackBalanceProofUpdate e (bp_Nonce bp)
           (HashBalanceData e (bp_TransferredAmount bp) (bp_LockedAmount bp) (bp_LocksRoot bp)) (hash_bytes (bp_MessageHash bp))
           (bp_ChannelId bp) (bp_TokenNetworkId bp) (bp_ChainId bp) (bp_Signature bp)) = Inr sg"
  shows "\<exists>s' c' cs'. OnBlockchainEvent e cv (HandleStateChange e (nodeTransition e r ids msgId) cd every) event s = Some s'
     \<and> ss_calls s' = ss_calls s @ [CallUpdateTransfer (USDT_CONTRACT_ADDRESS e) k (bp_Nonce bp)
           (HashBalanceData e (bp_TransferredAmount bp) (bp_LockedAmount bp) (bp_LocksRoot bp)) (bp_MessageHash bp)
           (bp_Signature bp) sg (bp_PublicKey bp) (ac_PublicKey (ss_Account s))]
     \<and> StateFromChannel s' = Some c' \<and> GetChannelStateByTokenNetworkId e c' (USDT_CONTRACT_ADDRESS e) k = Some cs'
     \<and> GetStatus cs' = ChannelStateClosed"
proof -
  let ?t = "USDT_CONTRACT_ADDRESS e" and ?tr = "nodeTransition e r ids msgId"
  let ?x = "\<lparr>ccl_BlockHeight = h, ccl_TransactionFrom = a, ccl_TokenNetworkId = ?t, ccl_ChannelId = k\<rparr>"
  let ?sc = "ND_Network (NC_Channel (SC_ContractReceiveChannelClosed ?x))"
  let ?ev = "ContractSendChannelUpdateTransfer (ucast (h + ucast (cs_SettleTimeout cs))) k ?t bp"
  obtain cs' where cs': "handleChannelClosed cs ?x = (NewState cs', [?ev])" "GetStatus cs' = ChannelStateClosed"
      "cs_OpenTransaction cs' = cs_OpenTransaction cs"
    using handleChannelClosed_answers [of cs ?x bp undefined] assms(9,10,12-15) by auto
  let ?c = "the (DeepCopy (Some c))"
  have tn: "GetTokenNetworkByIdentifier e ?c ?t = Some (DeepCopyTokenNetwork tn)"
    using assms(7) by (simp add: GetTokenNetworkByIdentifier_DeepCopy)
  have ch: "smap_load (tn_ChannelsMap (DeepCopyTokenNetwork tn)) k = Some cs" using assms(8) by (simp add: DeepCopyTokenNetwork_def)
  obtain st n where w: "writeStateChange cd ?sc (wal_Storage (ss_Wal s)) = (st, n)" by fastforce
  obtain c' where c': "StateTransition e (r n) (ids n) (Some ?c) ?sc (msgId n) = Some (Some (c', [?ev]))"
      "GetChannelStateByTokenNetworkId e c' ?t k = Some cs'"
    using closed_StateTransition [OF tn ch spec [OF assms(16), of n] _ _ cs'(1), where ids = "ids n" and m = "msgId n"] by auto
  have "Dispatch ?tr n (Some c) ?sc = Some (Some c', [?ev])"
    using c'(1) by (simp add: Dispatch_def nodeTransition_def DeepCopy_def)
  then obtain wal where l: "LogAndDispatch ?tr cd ?sc (ss_Wal s) = (wal, Some [?ev])" "wal_CurrentState wal = Some c'"
    using assms(6) by (simp add: LogAndDispatch_def w StateFromChannel_def Let_def)
  let ?s = "s\<lparr>ss_Wal := wal\<rparr>"
  let ?call = "CallUpdateTransfer ?t k (bp_Nonce bp) (HashBalanceData e (bp_TransferredAmount bp) (bp_LockedAmount bp) (bp_LocksRoot bp))
      (bp_MessageHash bp) (bp_Signature bp) sg (bp_PublicKey bp) (ac_PublicKey (ss_Account s))"
  have "OnChannelEvent e ?tr cd ?ev ?s = Some (call ?call ?s)"
    using assms(11,17) cs'(3) c'(2) l(2)
    by (auto simp: OnChannelEvent_def HandelContractSendChannelUpdate_def GetPaymentChannelArgs_def StateFromChannel_def Let_def)
  then obtain s' where s': "HandleStateChange e ?tr cd every ?sc s = Some (s', [?ev])"
      "ss_calls s' = ss_calls s @ [?call]" "StateFromChannel s' = Some c'"
    using l by (auto simp: HandleStateChange_def call_def StateFromChannel_def Snapshot_def Let_def)
  have "knownChannel e k s = Some (Some cs)"
    using assms(6-8) by (simp add: knownChannel_def GetChannelStateByTokenNetworkId_def)
  then have "OnBlockchainEvent e cv (HandleStateChange e ?tr cd every) event s = Some s'"
    using assms(1-5) s'(1) by (simp add: OnBlockchainEvent_def HandleChannelClose_def handled_def)
  with s' c'(2) cs'(2) show ?thesis by blast
qed

section \<open>Sample\<close>

text \<open>The second sample peer is told that the first one has closed.\<close>

definition closing_channel :: NettingChannelState where
  "closing_channel = sample2\<lparr>cs_TokenNetworkId := 9, cs_OpenTransaction :=
     Some \<lparr>tx_StartedBlockHeight = 0, tx_FinishedBlockHeight = 1, tx_Result = TxnExecSucc\<rparr>\<rparr>"

definition closing_network :: TokenNetworkState where
  "closing_network = (NewTokenNetworkState 1)\<lparr>tn_Address := 9, tn_TokenAddress := 9, tn_ChannelsMap := [(4, closing_channel)]\<rparr>"

definition closing_node :: ChainState where
  "closing_node = NewChainState\<lparr>ch_IdentifiersToPaymentNetworks := [(8, \<lparr>pn_Address = 8,
     pn_TokenIdentifiersToTokenNetworks = [(9, closing_network)], pn_TokenAddressesToTokenIdentifiers = [(9, 9)]\<rparr>)]\<rparr>"

definition closing_event :: "(string, json) smap" where
  "closing_event = [(''eventName'', JString ''ChannelClose''), (''channelID'', JNumber 4), (''blockHeight'', JNumber 30),
     (''closingParticipant'', JArray (replicate 19 (JNumber 0) @ [JNumber 1]))]"

lemma json_one: "json_address sample_env (JArray (replicate 19 (JNumber 0) @ [JNumber 1])) = Some 1"
  by code_simp

lemma closing_parsed:
  "ParseEvent sample_env closing_event =
     Some [(''channelID'', EV_ChannelID 4), (''blockHeight'', EV_BlockHeight 30), (''closingParticipant'', EV_Address 1)]"
  using json_one by (simp add: closing_event_def parseItem_def json_number_def number_u32_def Let_def)

definition sample_view :: ChainView where
  "sample_view = \<lparr>cv_PaymentChannel = (\<lambda>k _. \<lparr>pc_OurAddress = 2, pc_OurDeposit = 0, pc_PartnerAddress = 1, pc_PartnerDeposit = 0,
       pc_ChainId = 1, pc_ChannelId = k, pc_SettleTimeout = 50\<rparr>), cv_RevealTimeout = None,
     cv_FeeConfig = \<lparr>TokenToFlatFee = [], TokenToProportionalFee = [], TokenToProportionalImbalanceFee = [],
       CapMediationFees = False\<rparr>, cv_Events = (\<lambda>_. Some [])\<rparr>"

theorem partner_close_answered_witness:
  "\<exists>s' sg. OnBlockchainEvent sample_env sample_view
       (HandleStateChange sample_env (nodeTransition sample_env (\<lambda>_. sample_ranges) (\<lambda>_ _ _. 1) (\<lambda>_. 3)) sample_codec 100)
       closing_event (sample_running closing_node) = Some s'
     \<and> ss_calls s' = [CallUpdateTransfer 9 4 (bp_Nonce sample_proof) (HashBalanceData sample_env (bp_TransferredAmount sample_proof)
           (bp_LockedAmount sample_proof) (bp_LocksRoot sample_proof)) (bp_MessageHash sample_proof)
           (bp_Signature sample_proof) sg (bp_PublicKey sample_proof) [0]]"
proof -
  let ?ev = "[(''channelID'', EV_ChannelID 4), (''blockHeight'', EV_BlockHeight 30), (''closingParticipant'', EV_Address 1)]"
  have e: "smap_load closing_event ''eventName'' = Some (JString ''ChannelClose'')" by (simp add: closing_event_def smap_load_def)
  have v: "evAddress ?ev ''closingParticipant'' = Some 1" "evChannelID ?ev ''channelID'' = Some 4" "evBlockHeight ?ev ''blockHeight'' = Some 30"
    by (simp_all add: evAddress_def evChannelID_def evBlockHeight_def smap_load_def)
  have n: "GetTokenNetworkByIdentifier sample_env closing_node (USDT_CONTRACT_ADDRESS sample_env) = Some closing_network"
      "smap_load (tn_ChannelsMap closing_network) 4 = Some closing_channel"
    by (simp_all add: GetTokenNetworkByIdentifier_def closing_node_def closing_network_def sample_env_def smap_load_def)
  have c: "cs_Identifier closing_channel = 4" "cs_TokenNetworkId closing_channel = USDT_CONTRACT_ADDRESS sample_env"
      "cs_OpenTransaction closing_channel \<noteq> None" "GetStatus closing_channel = ChannelStateOpened \<or> GetStatus closing_channel = ChannelStateClosing"
      "1 \<noteq> es_Address (cs_OurState closing_channel)" "es_BalanceProof (cs_PartnerState closing_channel) = Some sample_proof"
      "cs_UpdateTransaction closing_channel = None"
    by (simp_all add: closing_channel_def sample_channel_def GetStatus_def sample_env_def sample_side1_def sample_side2_def)
  obtain sg where sg: "ac_Sign (ss_Account (sample_running closing_node)) (PackBalanceProofUpdate sample_env (bp_Nonce sample_proof)
           (HashBalanceData sample_env (bp_TransferredAmount sample_proof) (bp_LockedAmount sample_proof) (bp_LocksRoot sample_proof))
           (hash_bytes (bp_MessageHash sample_proof)) (bp_ChannelId sample_proof) (bp_TokenNetworkId sample_proof)
           (bp_ChainId sample_proof) (bp_Signature sample_proof)) = Inr sg"
    by (simp add: sample_account_def)
  have s: "StateFromChannel (sample_running closing_node) = Some closing_node" "ss_calls (sample_running closing_node) = []"
      "ac_PublicKey (ss_Account (sample_running closing_node)) = [0]" "USDT_CONTRACT_ADDRESS sample_env = 9"
    by (simp_all add: sample_running_def StateFromChannel_def sample_account_def sample_env_def)
  have ro: "\<forall>n. ranges_ok ((\<lambda>_. sample_ranges) n)" by simp
  from partner_close_answered [OF e closing_parsed v s(1) n c ro sg, where cv = sample_view and cd = sample_codec
      and every = 100 and ids = "\<lambda>_ _ _. 1" and msgId = "\<lambda>_. 3"] s(2-4)
  show ?thesis by auto
qed

end
