(* ===== verification/Pylons_ClassMeta.thy ===== *)
theory Pylons_ClassMeta
  imports Pylons_Wal
begin

text \<open>
  The class ids of \<open>transfer/class_meta.go\<close>: a struct that is stored is written with the number of its type, and
  read into a new struct of the type that number stands for. A type is a constructor of \<open>StateType\<close>,
  \<open>ChangeType\<close> or \<open>EventType\<close>. \<open>ContractReceiveSetFee\<close> has no method \<open>ClassId\<close> of its own and gets the one of the
  \<open>ContractReceiveStateChange\<close> it embeds; \<open>ActionCancelRoute\<close> has none at all, so it is not a \<open>StateChange\<close>.
\<close>

section \<open>Types and their numbers\<close>

datatype (plugins only: code) StateType =
  ST_InitiatorTask | ST_MediatorTask | ST_TargetTask | ST_ChainState | ST_PaymentNetworkState
  | ST_PaymentMappingState | ST_TokenNetworkState | ST_NettingChannelState | ST_NettingChannelEndState
  | ST_TransactionExecutionStatus | ST_UnlockPartialProofState | ST_HashTimeLockState
  | ST_InitiatorTransferState | ST_InitiatorPaymentState | ST_TargetTransferState | ST_MediatorTransferState

datatype (plugins only: code) ChangeType =
  CT_AuthenticatedSenderStateChange | CT_ContractReceiveStateChange | CT_Block | CT_ActionCancelPayment
  | CT_ActionChannelClose | CT_ActionCancelTransfer | CT_ActionTransferDirect | CT_ContractReceiveChannelNew
  | CT_ContractReceiveChannelClosed | CT_ActionInitChain | CT_ActionNewTokenNetwork
  | CT_ContractReceiveChannelNewBalance | CT_ContractReceiveChannelSettled | CT_ActionLeaveAllNetworks
  | CT_ActionChangeNodeNetworkState | CT_ContractReceiveNewPaymentNetwork | CT_ContractReceiveNewTokenNetwork
  | CT_ContractReceiveSecretReveal | CT_ContractReceiveChannelBatchUnlock | CT_ContractReceiveRouteNew
  | CT_ContractReceiveRouteClosed | CT_ContractReceiveUpdateTransfer | CT_ReceiveTransferDirect
  | CT_ReceiveUnlock | CT_ReceiveDelivered | CT_ReceiveProcessed | CT_ActionInitInitiator
  | CT_ReceiveSecretRequest | CT_ReceiveSecretReveal | CT_ReceiveLockExpired
  | CT_ReceiveTransferRefundCancelRoute | CT_ReceiveTransferRefund | CT_ActionInitTarget
  | CT_ActionInitMediator | CT_ActionWithdraw | CT_ReceiveWithdrawRequest | CT_ReceiveWithdraw
  | CT_ContractReceiveChannelWithdraw | CT_ActionCooperativeSettle | CT_ReceiveCooperativeSettleRequest
  | CT_ReceiveCooperativeSettle | CT_ContractReceiveChannelCooperativeSettled | CT_ContractReceiveSetFee

datatype (plugins only: code) EventType =
  ET_SendMessageEvent | ET_ContractSendEvent | ET_ContractSendExpireAbleEvent | ET_EventPaymentSentSuccess
  | ET_EventPaymentSentFailed | ET_EventPaymentReceivedSuccess | ET_EventTransferReceivedInvalidDirectTransfer
  | ET_SendDirectTransfer | ET_SendLockedTransfer | ET_SendLockExpired | ET_SendBalanceProof
  | ET_SendSecretReveal | ET_SendSecretRequest | ET_SendRefundTransfer | ET_SendProcessed
  | ET_ContractSendChannelClose | ET_ContractSendChannelSettle | ET_ContractSendChannelUpdateTransfer
  | ET_ContractSendChannelBatchUnlock | ET_ContractSendSecretReveal | ET_EventUnlockSuccess
  | ET_EventInvalidReceivedTransferRefund | ET_EventInvalidReceivedLockExpired
  | ET_EventInvalidReceivedLockedTransfer | ET_EventUnlockFailed | ET_EventUnlockClaimFailed
  | ET_EventInvalidReceivedUnlock | ET_EventUnlockClaimSuccess | ET_EventUnexpectedSecretReveal
  | ET_SendWithdrawRequest | ET_SendWithdraw | ET_ContractSendChannelWithdraw
  | ET_EventWithdrawRequestSentFailed | ET_EventInvalidReceivedWithdrawRequest
  | ET_EventInvalidReceivedWithdraw | ET_EventWithdrawRequestTimeout | ET_SendCooperativeSettleRequest
  | ET_SendCooperativeSettle | ET_ContractSendChannelCooperativeSettle
  | ET_EventCooperativeSettleRequestSentFailed | ET_EventInvalidReceivedCooperativeSettleRequest
  | ET_EventInvalidReceivedCooperativeSettle

text \<open>An object of any of these types.\<close>

datatype (plugins only: code) GoType = GT_State StateType | GT_Change ChangeType | GT_Event EventType

primrec StateClassId :: "StateType \<Rightarrow> int" where
  "StateClassId ST_InitiatorTask = 1"
| "StateClassId ST_MediatorTask = 2"
| "StateClassId ST_TargetTask = 3"
| "StateClassId ST_ChainState = 4"
| "StateClassId ST_PaymentNetworkState = 5"
| "StateClassId ST_PaymentMappingState = 6"
| "StateClassId ST_TokenNetworkState = 7"
| "StateClassId ST_NettingChannelState = 8"
| "StateClassId ST_NettingChannelEndState = 9"
| "StateClassId ST_TransactionExecutionStatus = 10"
| "StateClassId ST_UnlockPartialProofState = 11"
| "StateClassId ST_HashTimeLockState = 12"
| "StateClassId ST_InitiatorTransferState = 13"
| "StateClassId ST_InitiatorPaymentState = 14"
| "StateClassId ST_TargetTransferState = 15"
| "StateClassId ST_MediatorTransferState = 16"

primrec ChangeClassId :: "ChangeType \<Rightarrow> int" where
  "ChangeClassId CT_AuthenticatedSenderStateChange = 100"
| "ChangeClassId CT_ContractReceiveStateChange = 101"
| "ChangeClassId CT_Block = 102"
| "ChangeClassId CT_ActionCancelPayment = 103"
| "ChangeClassId CT_ActionChannelClose = 104"
| "ChangeClassId CT_ActionCancelTransfer = 105"
| "ChangeClassId CT_ActionTransferDirect = 106"
| "ChangeClassId CT_ContractReceiveChannelNew = 107"
| "ChangeClassId CT_ContractReceiveChannelClosed = 108"
| "ChangeClassId CT_ActionInitChain = 109"
| "ChangeClassId CT_ActionNewTokenNetwork = 110"
| "ChangeClassId CT_ContractReceiveChannelNewBalance = 111"
| "ChangeClassId CT_ContractReceiveChannelSettled = 112"
| "ChangeClassId CT_ActionLeaveAllNetworks = 113"
| "ChangeClassId CT_ActionChangeNodeNetworkState = 114"
| "ChangeClassId CT_ContractReceiveNewPaymentNetwork = 115"
| "ChangeClassId CT_ContractReceiveNewTokenNetwork = 116"
| "ChangeClassId CT_ContractReceiveSecretReveal = 117"
| "ChangeClassId CT_ContractReceiveChannelBatchUnlock = 118"
| "ChangeClassId CT_ContractReceiveRouteNew = 119"
| "ChangeClassId CT_ContractReceiveRouteClosed = 120"
| "ChangeClassId CT_ContractReceiveUpdateTransfer = 121"
| "ChangeClassId CT_ReceiveTransferDirect = 122"
| "ChangeClassId CT_ReceiveUnlock = 123"
| "ChangeClassId CT_ReceiveDelivered = 124"
| "ChangeClassId CT_ReceiveProcessed = 125"
| "ChangeClassId CT_ActionInitInitiator = 126"
| "ChangeClassId CT_ReceiveSecretRequest = 127"
| "ChangeClassId CT_ReceiveSecretReveal = 128"
| "ChangeClassId CT_ReceiveLockExpired = 129"
| "ChangeClassId CT_ReceiveTransferRefundCancelRoute = 130"
| "ChangeClassId CT_ReceiveTransferRefund = 131"
| "ChangeClassId CT_ActionInitTarget = 132"
| "ChangeClassId CT_ActionInitMediator = 133"
| "ChangeClassId CT_ActionWithdraw = 134"
| "ChangeClassId CT_ReceiveWithdrawRequest = 135"
| "ChangeClassId CT_ReceiveWithdraw = 136"
| "ChangeClassId CT_ContractReceiveChannelWithdraw = 137"
| "ChangeClassId CT_ActionCooperativeSettle = 138"
| "ChangeClassId CT_ReceiveCooperativeSettleRequest = 139"
| "ChangeClassId CT_ReceiveCooperativeSettle = 140"
| "ChangeClassId CT_ContractReceiveChannelCooperativeSettled = 141"
| "ChangeClassId CT_ContractReceiveSetFee = 101"

primrec EventClassId :: "EventType \<Rightarrow> int" where
  "EventClassId ET_SendMessageEvent = 200"
| "EventClassId ET_ContractSendEvent = 201"
| "EventClassId ET_ContractSendExpireAbleEvent = 202"
| "EventClassId ET_EventPaymentSentSuccess = 203"
| "EventClassId ET_EventPaymentSentFailed = 204"
| "EventClassId ET_EventPaymentReceivedSuccess = 205"
| "EventClassId ET_EventTransferReceivedInvalidDirectTransfer = 206"
| "EventClassId ET_SendDirectTransfer = 207"
| "EventClassId ET_SendLockedTransfer = 208"
| "EventClassId ET_SendLockExpired = 209"
| "EventClassId ET_SendBalanceProof = 210"
| "EventClassId ET_SendSecretReveal = 211"
| "EventClassId ET_SendSecretRequest = 212"
| "EventClassId ET_SendRefundTransfer = 213"
| "EventClassId ET_SendProcessed = 214"
| "EventClassId ET_ContractSendChannelClose = 215"
| "EventClassId ET_ContractSendChannelSettle = 216"
| "EventClassId ET_ContractSendChannelUpdateTransfer = 217"
| "EventClassId ET_ContractSendChannelBatchUnlock = 218"
| "EventClassId ET_ContractSendSecretReveal = 219"
| "EventClassId ET_EventUnlockSuccess = 220"
| "EventClassId ET_EventInvalidReceivedTransferRefund = 221"
| "EventClassId ET_EventInvalidReceivedLockExpired = 222"
| "EventClassId ET_EventInvalidReceivedLockedTransfer = 223"
| "EventClassId ET_EventUnlockFailed = 224"
| "EventClassId ET_EventUnlockClaimFailed = 225"
| "EventClassId ET_EventInvalidReceivedUnlock = 226"
| "EventClassId ET_EventUnlockClaimSuccess = 227"
| "EventClassId ET_EventUnexpectedSecretReveal = 228"
| "EventClassId ET_SendWithdrawRequest = 229"
| "EventClassId ET_SendWithdraw = 230"
| "EventClassId ET_ContractSendChannelWithdraw = 231"
| "EventClassId ET_EventWithdrawRequestSentFailed = 232"
| "EventClassId ET_EventInvalidReceivedWithdrawRequest = 233"
| "EventClassId ET_EventInvalidReceivedWithdraw = 234"
| "EventClassId ET_EventWithdrawRequestTimeout = 235"
| "EventClassId ET_SendCooperativeSettleRequest = 236"
| "EventClassId ET_SendCooperativeSettle = 237"
| "EventClassId ET_ContractSendChannelCooperativeSettle = 238"
| "EventClassId ET_EventCooperativeSettleRequestSentFailed = 239"
| "EventClassId ET_EventInvalidReceivedCooperativeSettleRequest = 240"
| "EventClassId ET_EventInvalidReceivedCooperativeSettle = 241"

primrec ClassId :: "GoType \<Rightarrow> int" where
  "ClassId (GT_State t) = StateClassId t"
| "ClassId (GT_Change t) = ChangeClassId t"
| "ClassId (GT_Event t) = EventClassId t"

section \<open>New objects\<close>

text \<open>The result is \<open>None\<close> for nil.\<close>

definition CreateStateByClassId :: "int \<Rightarrow> StateType option" where
  "CreateStateByClassId classId = map_of
     [(1, ST_InitiatorTask), (2, ST_MediatorTask), (3, ST_TargetTask), (4, ST_ChainState),
      (5, ST_PaymentNetworkState), (6, ST_PaymentMappingState), (7, ST_TokenNetworkState),
      (8, ST_NettingChannelState), (9, ST_NettingChannelEndState), (10, ST_TransactionExecutionStatus),
      (11, ST_UnlockPartialProofState), (12, ST_HashTimeLockState), (13, ST_InitiatorTransferState),
      (14, ST_InitiatorPaymentState), (16, ST_MediatorTransferState), (15, ST_TargetTransferState)] classId"

definition CreateStateChangeByClassId :: "int \<Rightarrow> ChangeType option" where
  "CreateStateChangeByClassId classId = map_of
     [(100, CT_AuthenticatedSenderStateChange), (101, CT_ContractReceiveStateChange), (102, CT_Block),
      (103, CT_ActionCancelPayment), (104, CT_ActionChannelClose), (105, CT_ActionCancelTransfer),
      (106, CT_ActionTransferDirect), (107, CT_ContractReceiveChannelNew),
      (108, CT_ContractReceiveChannelClosed), (109, CT_ActionInitChain), (110, CT_ActionNewTokenNetwork),
      (111, CT_ContractReceiveChannelNewBalance), (112, CT_ContractReceiveChannelSettled),
      (113, CT_ActionLeaveAllNetworks), (114, CT_ActionChangeNodeNetworkState),
      (115, CT_ContractReceiveNewPaymentNetwork), (116, CT_ContractReceiveNewTokenNetwork),
      (117, CT_ContractReceiveSecretReveal), (118, CT_ContractReceiveChannelBatchUnlock),
      (119, CT_ContractReceiveRouteNew), (120, CT_ContractReceiveRouteClosed),
      (121, CT_ContractReceiveUpdateTransfer), (122, CT_ReceiveTransferDirect), (123, CT_ReceiveUnlock),
      (124, CT_ReceiveDelivered), (125, CT_ReceiveProcessed), (126, CT_ActionInitInitiator),
      (133, CT_ActionInitMediator), (132, CT_ActionInitTarget), (127, CT_ReceiveSecretRequest),
      (128, CT_ReceiveSecretReveal), (129, CT_ReceiveLockExpired), (130, CT_ReceiveTransferRefundCancelRoute),
      (131, CT_ReceiveTransferRefund), (134, CT_ActionWithdraw), (135, CT_ReceiveWithdrawRequest),
      (136, CT_ReceiveWithdraw), (137, CT_ContractReceiveChannelWithdraw), (138, CT_ActionCooperativeSettle),
      (139, CT_ReceiveCooperativeSettleRequest), (140, CT_ReceiveCooperativeSettle),
      (141, CT_ContractReceiveChannelCooperativeSettled)] classId"

definition CreateEventByClassId :: "int \<Rightarrow> EventType option" where
  "CreateEventByClassId classId = map_of
     [(200, ET_SendMessageEvent), (201, ET_ContractSendEvent), (202, ET_ContractSendExpireAbleEvent),
      (203, ET_EventPaymentSentSuccess), (204, ET_EventPaymentSentFailed),
      (205, ET_EventPaymentReceivedSuccess), (206, ET_EventTransferReceivedInvalidDirectTransfer),
      (207, ET_SendDirectTransfer), (208, ET_SendLockedTransfer), (209, ET_SendLockExpired),
      (210, ET_SendBalanceProof), (211, ET_SendSecretReveal), (212, ET_SendSecretRequest),
      (213, ET_SendRefundTransfer), (214, ET_SendProcessed), (215, ET_ContractSendChannelClose),
      (216, ET_ContractSendChannelSettle), (217, ET_ContractSendChannelUpdateTransfer),
      (218, ET_ContractSendChannelBatchUnlock), (219, ET_ContractSendSecretReveal),
      (220, ET_EventUnlockSuccess), (221, ET_EventInvalidReceivedTransferRefund),
      (222, ET_EventInvalidReceivedLockExpired), (223, ET_EventInvalidReceivedLockedTransfer),
      (224, ET_EventUnlockFailed), (225, ET_EventUnlockClaimFailed), (226, ET_EventInvalidReceivedUnlock),
      (227, ET_EventUnlockClaimSuccess), (228, ET_EventUnexpectedSecretReveal), (229, ET_SendWithdrawRequest),
      (230, ET_SendWithdraw), (231, ET_ContractSendChannelWithdraw), (232, ET_EventWithdrawRequestSentFailed),
      (233, ET_EventInvalidReceivedWithdrawRequest), (234, ET_EventInvalidReceivedWithdraw),
      (235, ET_EventWithdrawRequestTimeout), (236, ET_SendCooperativeSettleRequest),
      (237, ET_SendCooperativeSettle), (238, ET_ContractSendChannelCooperativeSettle),
      (239, ET_EventCooperativeSettleRequestSentFailed),
      (240, ET_EventInvalidReceivedCooperativeSettleRequest), (241, ET_EventInvalidReceivedCooperativeSettle)] classId"

definition CreateObjectByClassId :: "int \<Rightarrow> GoType option" where
  "CreateObjectByClassId classId =
     (case CreateStateByClassId classId of
        Some t \<Rightarrow> Some (GT_State t)
      | None \<Rightarrow>
          (case CreateStateChangeByClassId classId of
             Some t \<Rightarrow> Some (GT_Change t)
           | None \<Rightarrow> map_option GT_Event (CreateEventByClassId classId)))"

section \<open>The types of the model\<close>

primrec type_of_channel_change :: "StateChange \<Rightarrow> ChangeType" where
  "type_of_channel_change (Block _) = CT_Block"
| "type_of_channel_change (ActionChannelClose _ _) = CT_ActionChannelClose"
| "type_of_channel_change (SC_ActionTransferDirect _) = CT_ActionTransferDirect"
| "type_of_channel_change (SC_ContractReceiveChannelClosed _) = CT_ContractReceiveChannelClosed"
| "type_of_channel_change (SC_ContractReceiveUpdateTransfer _) = CT_ContractReceiveUpdateTransfer"
| "type_of_channel_change (SC_ContractReceiveChannelSettled _) = CT_ContractReceiveChannelSettled"
| "type_of_channel_change (SC_ContractReceiveChannelNewBalance _) = CT_ContractReceiveChannelNewBalance"
| "type_of_channel_change (SC_ReceiveTransferDirect _) = CT_ReceiveTransferDirect"
| "type_of_channel_change (SC_ActionWithdraw _) = CT_ActionWithdraw"
| "type_of_channel_change (SC_ReceiveWithdrawRequest _) = CT_ReceiveWithdrawRequest"
| "type_of_channel_change (SC_ReceiveWithdraw _) = CT_ReceiveWithdraw"
| "type_of_channel_change (SC_ContractReceiveChannelWithdraw _) = CT_ContractReceiveChannelWithdraw"
| "type_of_channel_change (SC_ActionCooperativeSettle _) = CT_ActionCooperativeSettle"
| "type_of_channel_change (SC_ReceiveCooperativeSettleRequest _) = CT_ReceiveCooperativeSettleRequest"
| "type_of_channel_change (SC_ReceiveCooperativeSettle _) = CT_ReceiveCooperativeSettle"
| "type_of_channel_change (SC_ContractReceiveChannelCooperativeSettled _) = CT_ContractReceiveChannelCooperativeSettled"
| "type_of_channel_change (SC_ContractReceiveChannelBatchUnlock _) = CT_ContractReceiveChannelBatchUnlock"

primrec type_of_network_change :: "NetworkChange \<Rightarrow> ChangeType" where
  "type_of_network_change (NC_Channel x) = type_of_channel_change x"
| "type_of_network_change (NC_ContractReceiveChannelNew _) = CT_ContractReceiveChannelNew"
| "type_of_network_change (NC_ContractReceiveRouteNew _) = CT_ContractReceiveRouteNew"
| "type_of_network_change (NC_ContractReceiveRouteClosed _) = CT_ContractReceiveRouteClosed"
| "type_of_network_change (NC_ContractReceiveSetFee _) = CT_ContractReceiveSetFee"

text \<open>\<open>None\<close> for \<open>ActionCancelRoute\<close>, which has no class id.\<close>

primrec type_of_task_change :: "TaskChange \<Rightarrow> ChangeType option" where
  "type_of_task_change (TC_Block _) = Some CT_Block"
| "type_of_task_change (TC_ActionInitInitiator _) = Some CT_ActionInitInitiator"
| "type_of_task_change (TC_ActionInitMediator _) = Some CT_ActionInitMediator"
| "type_of_task_change (TC_ActionInitTarget _) = Some CT_ActionInitTarget"
| "type_of_task_change (TC_ActionCancelRoute _) = None"
| "type_of_task_change (TC_ActionCancelPayment _) = Some CT_ActionCancelPayment"
| "type_of_task_change (TC_ReceiveSecretRequest _) = Some CT_ReceiveSecretRequest"
| "type_of_task_change (TC_ReceiveSecretReveal _) = Some CT_ReceiveSecretReveal"
| "type_of_task_change (TC_ReceiveTransferRefund _) = Some CT_ReceiveTransferRefund"
| "type_of_task_change (TC_ReceiveTransferRefundCancelRoute _) = Some CT_ReceiveTransferRefundCancelRoute"
| "type_of_task_change (TC_ReceiveUnlock _) = Some CT_ReceiveUnlock"
| "type_of_task_change (TC_ReceiveLockExpired _) = Some CT_ReceiveLockExpired"
| "type_of_task_change (TC_ContractReceiveSecretReveal _) = Some CT_ContractReceiveSecretReveal"

primrec type_of_change :: "NodeChange \<Rightarrow> ChangeType option" where
  "type_of_change (ND_Network x) = Some (type_of_network_change x)"
| "type_of_change (ND_Task x) = type_of_task_change x"
| "type_of_change (ND_ActionInitChain _) = Some CT_ActionInitChain"
| "type_of_change (ND_ActionNewTokenNetwork _ _) = Some CT_ActionNewTokenNetwork"
| "type_of_change ND_ActionLeaveAllNetworks = Some CT_ActionLeaveAllNetworks"
| "type_of_change (ND_ContractReceiveNewPaymentNetwork _) = Some CT_ContractReceiveNewPaymentNetwork"
| "type_of_change (ND_ContractReceiveNewTokenNetwork _ _) = Some CT_ContractReceiveNewTokenNetwork"
| "type_of_change (ND_ReceiveDelivered _ _) = Some CT_ReceiveDelivered"
| "type_of_change (ND_ReceiveProcessed _ _) = Some CT_ReceiveProcessed"
| "type_of_change (ND_ContractReceiveStateChange _) = Some CT_ContractReceiveStateChange"

text \<open>What is read from the text of a state change has the type that its class id creates.\<close>

definition types_kept :: "codec \<Rightarrow> bool" where
  "types_kept c \<longleftrightarrow>
     (\<forall>sc sc'. cd_UnmarshalChange c (cd_MarshalChange c sc) = Some sc' \<longrightarrow>
        map_option GT_Change (type_of_change sc') =
        (type_of_change sc \<bind> (\<lambda>t. CreateObjectByClassId (ChangeClassId t))))"

section \<open>Reading\<close>

lemmas created = CreateStateByClassId_def CreateStateChangeByClassId_def CreateEventByClassId_def

lemma state_created: "CreateStateByClassId (StateClassId t) = Some t"
  by (cases t) (simp_all add: created)

lemma change_created: "t \<noteq> CT_ContractReceiveSetFee \<Longrightarrow> CreateStateChangeByClassId (ChangeClassId t) = Some t"
  by (cases t) (simp_all add: created)

lemma event_created: "CreateEventByClassId (EventClassId t) = Some t"
  by (cases t) (simp_all add: created)

lemma state_ids: "CreateStateByClassId n = Some t \<Longrightarrow> StateClassId t = n"
  unfolding created by (drule map_of_SomeD) auto

lemma change_ids: "CreateStateChangeByClassId n = Some t \<Longrightarrow> ChangeClassId t = n \<and> t \<noteq> CT_ContractReceiveSetFee"
  unfolding created by (drule map_of_SomeD) auto

lemma event_ids: "CreateEventByClassId n = Some t \<Longrightarrow> EventClassId t = n"
  unfolding created by (drule map_of_SomeD) auto

text \<open>The three ranges of numbers.\<close>

lemma state_range: "StateClassId t < 100"
  by (cases t) simp_all

lemma change_range: "100 \<le> ChangeClassId t \<and> ChangeClassId t < 200"
  by (cases t) simp_all

lemma event_range: "200 \<le> EventClassId t"
  by (cases t) simp_all

lemma no_state: "100 \<le> n \<Longrightarrow> CreateStateByClassId n = None"
  using state_ids [of n] state_range by (metis linorder_not_less not_None_eq)

lemma no_change: "200 \<le> n \<Longrightarrow> CreateStateChangeByClassId n = None"
  using change_ids [of n] change_range by (metis linorder_not_less not_None_eq)

text \<open>
  C40. A stored object is read as what it was. The class id of a type creates an object of that type and no other
  number does, for every state, state change and event, with one exception: a \<open>ContractReceiveSetFee\<close> is never
  created.
\<close>

theorem class_ids_recover_types:
  "CreateObjectByClassId n = Some t \<longleftrightarrow> ClassId t = n \<and> t \<noteq> GT_Change CT_ContractReceiveSetFee"
proof
  assume "CreateObjectByClassId n = Some t"
  then show "ClassId t = n \<and> t \<noteq> GT_Change CT_ContractReceiveSetFee"
    by (auto simp: CreateObjectByClassId_def split: option.split_asm dest: state_ids change_ids event_ids)
next
  assume "ClassId t = n \<and> t \<noteq> GT_Change CT_ContractReceiveSetFee"
  then show "CreateObjectByClassId n = Some t"
    by (cases t) (auto simp: CreateObjectByClassId_def state_created change_created event_created no_state no_change
        change_range event_range order_trans [OF _ event_range, of 100])
qed

section \<open>Fees set on the chain\<close>

text \<open>
  A fee set on the chain is read from the log as the bare \<open>ContractReceiveStateChange\<close>, which no handler knows: after
  a restart it is as if it had not been set.
\<close>

lemma set_fee_created: "CreateObjectByClassId (ChangeClassId CT_ContractReceiveSetFee) = Some (GT_Change CT_ContractReceiveStateChange)"
  by (simp add: CreateObjectByClassId_def created)

lemma only_bare: "type_of_change sc = Some CT_ContractReceiveStateChange \<Longrightarrow> \<exists>h. sc = ND_ContractReceiveStateChange h"
proof (cases sc)
  case (ND_Network x)
  moreover have "type_of_network_change x \<noteq> CT_ContractReceiveStateChange"
    by (cases x; simp) (rename_tac y, case_tac y; simp)
  ultimately show "type_of_change sc = Some CT_ContractReceiveStateChange \<Longrightarrow> ?thesis" by simp
next
  case (ND_Task x)
  then show "type_of_change sc = Some CT_ContractReceiveStateChange \<Longrightarrow> ?thesis" by (cases x) simp_all
qed simp_all

theorem set_fee_forgotten:
  assumes "types_kept c" and "cd_UnmarshalChange c (cd_MarshalChange c (ND_Network (NC_ContractReceiveSetFee x))) = Some sc"
  shows "Dispatch (nodeTransition e r ids msgId) seed (Some chain) sc = Some (Some chain, [])"
proof -
  have "map_option GT_Change (type_of_change sc) = Some (GT_Change CT_ContractReceiveStateChange)"
    using assms set_fee_created by (simp add: types_kept_def)
  then obtain h where "sc = ND_ContractReceiveStateChange h" using only_bare by auto
  then show ?thesis by (simp add: Dispatch_def nodeTransition_def StateTransition_def handleStateChangeForNode_def)
qed

lemma reads_back_no_fee:
  assumes "types_kept c" and "reads_back c r hist snaps"
  shows "ND_Network (NC_ContractReceiveSetFee x) \<notin> set hist"
proof
  assume "ND_Network (NC_ContractReceiveSetFee x) \<in> set hist"
  with assms set_fee_created show False by (force simp: types_kept_def reads_back_def)
qed

end
