(* ===== verification/Pylons_Settlement.thy ===== *)
theory Pylons_Settlement
  imports Pylons_Handover
begin

text \<open>
  The settlement of a closed channel: what the service finds in its storage, and the transaction the proxy makes of
  it, against what the contract holds of both participants.
\<close>

section \<open>Balance hashes\<close>

definition honest :: "env \<Rightarrow> LoggedProof \<Rightarrow> bool" where
  "honest e p \<longleftrightarrow> lp_BalanceHash p = HashBalanceData e (lp_TransferredAmount p) (lp_LockedAmount p) (lp_LocksRoot p)"

text \<open>The values open the hash; without a hash nothing was transferred.\<close>

definition opens :: "env \<Rightarrow> BalanceHash \<Rightarrow> ProofValues \<Rightarrow> bool" where
  "opens e h vs = (case vs of (t, l, r) \<Rightarrow> if h = 0 then t = 0 \<and> l = 0 \<and> r = 0 else HashBalanceData e t l r = h)"

text \<open>Every balance proof that arrives in a message is honest, since its hash is computed on arrival.\<close>

lemma received_honest:
  assumes "BalanceProofFromEnvelope e beyond message dataToSign = Some bp"
  shows "honest e (Signed bp)"
  using assms by (auto simp: BalanceProofFromEnvelope_def honest_def split: bind_splits)

text \<open>Every balance proof that is sent is made by \<open>newBalanceProof\<close>.\<close>

lemma created_honest: "honest e (Unsigned (newBalanceProof e n t l r tn k ch))"
  by (simp add: honest_def newBalanceProof_def)

section \<open>Settlement\<close>

lemma settle_details:
  assumes "GetPaymentChannelArgs e tn k s = Some (our, partner)" and "our = ac_Address (ss_Account s)" and "k \<noteq> 0"
  shows "contractDetails e tn k s = Some (detailParticipant (ss_Chain s) k our partner, detailParticipant (ss_Chain s) k partner our)"
  using assms by (auto simp: contractDetails_def NewPaymentChannel_def DetailParticipants_def)


text \<open>A channel on whose contract the node's own transfer of 10 tokens is known; the partner never sent anything.\<close>

definition settled_event :: Event where
  "settled_event = SendDirectTransfer \<lparr>sm_Recipient = 2, sm_ChannelId = 5, sm_MessageId = 9\<rparr> 5
     (newBalanceProof sample_env 1 10 0 0 6 5 1) 9"

definition settle_codec :: codec where
  "settle_codec = sample_codec\<lparr>cd_MarshalEvent := (\<lambda>_. [3]), cd_UnmarshalEvent := (\<lambda>_. Some settled_event),
     cd_Extract := (\<lambda>_ path. if path = ''$.BalanceProof.ChannelId'' then Some (SqlInteger 5)
       else if path = ''$.BalanceProof.BalanceHash'' then Some (SqlText (formatBalanceHashForQuery 7))
       else if path = ''$.BalanceProof.LocksRoot'' then Some (SqlText (formatLocksrootForQuery 0)) else None)\<rparr>"

definition settle_client :: ChainClient where
  "settle_client = sample_client\<lparr>cc_GetChannelParticipantInfo := (\<lambda>_ p _. Some
     \<lparr>pi_WalletAddr = p, pi_Deposit = 100, pi_WithDrawAmount = 0, pi_IsCloser = (p = 2),
      pi_BalanceHash = (if p = 1 then hash_bytes 7 else []), pi_Nonce = 1, pi_LocksRoot = [], pi_LockedAmount = 0\<rparr>)\<rparr>"

definition settle_node :: ChainState where
  "settle_node = storeTokenNetwork sample_env 6 (sample_token_network\<lparr>tn_ChannelsMap := [(5, sample1\<lparr>cs_OpenTransaction :=
     Some \<lparr>tx_StartedBlockHeight = 0, tx_FinishedBlockHeight = 1, tx_Result = TxnExecSucc\<rparr>\<rparr>)]\<rparr>) sample_node"

definition settle_service :: Service where
  "settle_service = (sample_running sample_node)\<lparr>ss_Chain := settle_client,
     ss_Wal := \<lparr>wal_CurrentState = Some settle_node, wal_StateChangeId = 1,
       wal_Storage = NewSQLiteStorage\<lparr>st_state_events := [(1, [3])]\<rparr>\<rparr>\<rparr>"


end
