(* ===== verification/Pylons_Waiting.thy ===== *)
theory Pylons_Waiting
  imports Pylons_Views Pylons_Lookup
begin

text \<open>
  The loops of \<open>service/waiting.go\<close> that look at the state again and again. \<open>polls i\<close> is what the loop sees when it looks for the
  \<open>i\<close>-th time. A loop is a partial function: its value is \<open>None\<close> when it never ends. The balances of a channel they look at are
  in \<open>transfer/state.go\<close>.
\<close>

section \<open>Balances of a channel\<close>

definition ChannelContractBalance :: "NettingChannelState \<Rightarrow> Address \<Rightarrow> Address \<Rightarrow> Address \<Rightarrow> error + TokenAmount" where
  "ChannelContractBalance cs ownAddress targetAddress partnerAddress =
     (if AddressEqual targetAddress ownAddress then Inr (es_ContractBalance (cs_OurState cs))
      else if AddressEqual partnerAddress ownAddress then Inr (es_ContractBalance (cs_PartnerState cs))
      else Inl (Msg ''target address must be one of the channel participants!''))"

definition ChannelGasBalance :: "NettingChannelState \<Rightarrow> Address \<Rightarrow> Address \<Rightarrow> Address \<Rightarrow> error + TokenAmount" where
  "ChannelGasBalance cs ownAddress targetAddress partnerAddress =
     (if AddressEqual targetAddress ownAddress then Inr (GetGasBalance (cs_OurState cs))
      else if AddressEqual partnerAddress ownAddress then Inr (GetGasBalance (cs_PartnerState cs))
      else Inl (Msg ''target address must be one of the channel participants!''))"

section \<open>Loops\<close>

text \<open>The number of the look that ended the loop.\<close>

partial_function (option) WaitForBlock :: "(nat \<Rightarrow> ChainState) \<Rightarrow> BlockHeight \<Rightarrow> nat \<Rightarrow> nat option" where
  "WaitForBlock polls blockNumber i =
     (if ch_BlockHeight (polls i) < blockNumber then WaitForBlock polls blockNumber (Suc i) else Some i)"

text \<open>At most \<open>retryTimes\<close> further looks.\<close>

fun newChannelLoop :: "(nat \<Rightarrow> NettingChannelState option) \<Rightarrow> nat \<Rightarrow> nat \<Rightarrow> NettingChannelState option" where
  "newChannelLoop look 0 i = look i"
| "newChannelLoop look (Suc retries) i =
     (case look i of Some channelState \<Rightarrow> Some channelState | None \<Rightarrow> newChannelLoop look retries (Suc i))"

definition WaitForNewChannel ::
  "ranges \<Rightarrow> (nat \<Rightarrow> ChainState) \<Rightarrow> PaymentNetworkID \<Rightarrow> TokenAddress \<Rightarrow> Address \<Rightarrow> int \<Rightarrow> NettingChannelState option" where
  "WaitForNewChannel r polls paymentNetworkID tokenAddress partnerAddress retryTimes =
     newChannelLoop (\<lambda>i. GetChannelStateFor r (polls i) paymentNetworkID tokenAddress partnerAddress) (nat retryTimes) 0"

text \<open>The loops that wait for a balance; \<open>balance\<close> is how it is read from the channel.\<close>

partial_function (option) balanceLoop ::
  "(nat \<Rightarrow> NettingChannelState option) \<Rightarrow> (NettingChannelState \<Rightarrow> error + TokenAmount) \<Rightarrow> TokenAmount \<Rightarrow> nat \<Rightarrow> error option option" where
  "balanceLoop look balance targetBalance i =
     (case look i of
        None \<Rightarrow> balanceLoop look balance targetBalance (Suc i)
      | Some channelState \<Rightarrow>
          (case balance channelState of
             Inl err \<Rightarrow> Some (Some err)
           | Inr currentBalance \<Rightarrow>
               (if currentBalance < targetBalance then balanceLoop look balance targetBalance (Suc i) else Some None)))"

definition WaitForParticipantNewBalance ::
  "ranges \<Rightarrow> (nat \<Rightarrow> ChainState) \<Rightarrow> Address \<Rightarrow> PaymentNetworkID \<Rightarrow> TokenAddress \<Rightarrow> Address \<Rightarrow> Address \<Rightarrow> TokenAmount
     \<Rightarrow> error option option" where
  "WaitForParticipantNewBalance r polls own paymentNetworkId tokenAddress partnerAddress targetAddress targetBalance =
     balanceLoop (\<lambda>i. GetChannelStateFor r (polls i) paymentNetworkId tokenAddress partnerAddress)
       (\<lambda>cs. ChannelContractBalance cs own targetAddress partnerAddress) targetBalance 0"

definition WaitForPaymentBalance ::
  "ranges \<Rightarrow> (nat \<Rightarrow> ChainState) \<Rightarrow> Address \<Rightarrow> PaymentNetworkID \<Rightarrow> TokenAddress \<Rightarrow> Address \<Rightarrow> Address \<Rightarrow> TokenAmount
     \<Rightarrow> error option option" where
  "WaitForPaymentBalance r polls own paymentNetworkId tokenAddress partnerAddress targetAddress targetBalance =
     balanceLoop (\<lambda>i. GetChannelStateFor r (polls i) paymentNetworkId tokenAddress partnerAddress)
       (\<lambda>cs. ChannelGasBalance cs own targetAddress partnerAddress) targetBalance 0"

text \<open>
  The loops over the channels that are to be closed or settled, the last of the list first. The status is read before
  the channel is compared with nil: \<open>False\<close> is the panic that follows for a channel the state does not know.
\<close>

partial_function (option) statusLoop ::
  "(nat \<Rightarrow> ChannelID \<Rightarrow> NettingChannelState option) \<Rightarrow> ChannelStatus set \<Rightarrow> ChannelID list \<Rightarrow> nat \<Rightarrow> bool option" where
  "statusLoop look done channelIds i =
     (if channelIds = [] then Some True
      else case look i (last channelIds) of
             None \<Rightarrow> Some False
           | Some channelState \<Rightarrow>
               statusLoop look done (if GetStatus channelState \<in> done then butlast channelIds else channelIds) (Suc i))"

definition WaitForClose ::
  "(nat \<Rightarrow> ChainState) \<Rightarrow> PaymentNetworkID \<Rightarrow> TokenAddress \<Rightarrow> ChannelID list \<Rightarrow> bool option" where
  "WaitForClose polls paymentNetworkId tokenAddress channelIds =
     statusLoop (\<lambda>i. GetChannelStateById (polls i) paymentNetworkId tokenAddress)
       {ChannelStateClosed, ChannelStateSettled, ChannelStateSettling} channelIds 0"

definition WaitForSettle ::
  "(nat \<Rightarrow> ChainState) \<Rightarrow> PaymentNetworkID \<Rightarrow> TokenAddress \<Rightarrow> ChannelID list \<Rightarrow> bool option" where
  "WaitForSettle polls paymentNetworkId tokenAddress channelIds =
     statusLoop (\<lambda>i. GetChannelStateById (polls i) paymentNetworkId tokenAddress) {ChannelStateSettled} channelIds 0"

text \<open>The token network is looked up under the empty network and token.\<close>

definition WaitForSettleAllChannels :: "ranges \<Rightarrow> (nat \<Rightarrow> ChainState) \<Rightarrow> bool option" where
  "WaitForSettleAllChannels r polls =
     (case GetTokenNetworkByTokenAddress (polls 0) 0 0 of
        None \<Rightarrow> Some False
      | Some tn \<Rightarrow> WaitForSettle (\<lambda>i. polls (Suc i)) 0 0 (rg_Channels r (map fst (tn_ChannelsMap tn))))"

text \<open>\<open>GetNetworkStatuses\<close> makes an empty map; a missing entry reads as the empty string.\<close>

definition GetNetworkStatuses :: "ChainState \<Rightarrow> (Address, string) smap" where
  "GetNetworkStatuses chain = []"

definition NetworkReachable :: string where
  "NetworkReachable = ''reachable''"

partial_function (option) WaitForhealthy :: "(nat \<Rightarrow> ChainState) \<Rightarrow> Address \<Rightarrow> nat \<Rightarrow> nat option" where
  "WaitForhealthy polls nodeAddress i =
     (if (case smap_load (GetNetworkStatuses (polls i)) nodeAddress of None \<Rightarrow> '''' | Some st \<Rightarrow> st) \<noteq> NetworkReachable
      then WaitForhealthy polls nodeAddress (Suc i) else Some i)"

text \<open>The amount is compared as a payment amount, which has the same width.\<close>

partial_function (option) WaitForTransferSuccess ::
  "codec \<Rightarrow> (nat \<Rightarrow> SQLiteStorage) \<Rightarrow> PaymentID \<Rightarrow> PaymentAmount \<Rightarrow> nat \<Rightarrow> nat option" where
  "WaitForTransferSuccess c polls paymentId amount i =
     (if \<exists>ev \<in> set (GetEvents c (-1) 0 (polls i)).
           (case ev of EventPaymentReceivedSuccess _ _ identifier a _ \<Rightarrow> identifier = paymentId \<and> a = amount | _ \<Rightarrow> False)
      then Some i else WaitForTransferSuccess c polls paymentId amount (Suc i))"

section \<open>When they end\<close>

lemma WaitForBlock_from:
  assumes "blockNumber \<le> ch_BlockHeight (polls (i + n))"
  shows "\<exists>j. WaitForBlock polls blockNumber i = Some j"
  using assms
proof (induction n arbitrary: i)
  case 0
  then have "WaitForBlock polls blockNumber i = Some i"
    by (subst WaitForBlock.simps) auto
  then show ?case by simp
next
  case (Suc n)
  then have "\<exists>j. WaitForBlock polls blockNumber (Suc i) = Some j" by simp
  then show ?case by (subst WaitForBlock.simps) simp
qed

lemma WaitForBlock_Some: "WaitForBlock polls blockNumber i = Some j \<Longrightarrow> blockNumber \<le> ch_BlockHeight (polls j)"
  by (rule WaitForBlock.raw_induct [where P = "\<lambda>polls b i j. b \<le> ch_BlockHeight (polls j)", rotated])
     (auto split: if_splits)

text \<open>Waiting for a block ends exactly when the block comes.\<close>

theorem WaitForBlock_returns:
  "(\<exists>j. WaitForBlock polls blockNumber 0 = Some j) \<longleftrightarrow> (\<exists>j. blockNumber \<le> ch_BlockHeight (polls j))"
  using WaitForBlock_from [where i = 0] WaitForBlock_Some by (metis add_0)

text \<open>A channel that appears within the retries is found, and only then.\<close>

lemma newChannelLoop_found:
  "(\<exists>cs. newChannelLoop look n i = Some cs) \<longleftrightarrow> (\<exists>j \<le> n. look (i + j) \<noteq> None)"
proof (induction n arbitrary: i)
  case (Suc n)
  have "(\<exists>j \<le> Suc n. look (i + j) \<noteq> None) \<longleftrightarrow> look i \<noteq> None \<or> (\<exists>j \<le> n. look (Suc i + j) \<noteq> None)"
    by (metis Suc_le_mono add_0_right add_Suc_right add_Suc_shift not0_implies_Suc le0)
  with Suc show ?case by (auto split: option.split)
qed auto

text \<open>Waiting for a status ends well when every channel stays known and has the status from some look on.\<close>

lemma statusLoop_one:
  assumes "\<forall>j. look j k \<noteq> None" and "\<forall>j \<ge> m. \<forall>cs. look j k = Some cs \<longrightarrow> GetStatus cs \<in> done"
  shows "\<exists>j. statusLoop look done (ks @ [k]) i = statusLoop look done ks j"
proof (induction "m - i" arbitrary: i)
  case 0
  then obtain cs where "look i k = Some cs" "GetStatus cs \<in> done" using assms by fastforce
  then have "statusLoop look done (ks @ [k]) i = statusLoop look done ks (Suc i)" by (subst statusLoop.simps) simp
  then show ?case by blast
next
  case (Suc n)
  obtain cs where cs: "look i k = Some cs" using assms(1) by fastforce
  show ?case
  proof (cases "GetStatus cs \<in> done")
    case True
    with cs have "statusLoop look done (ks @ [k]) i = statusLoop look done ks (Suc i)" by (subst statusLoop.simps) simp
    then show ?thesis by blast
  next
    case False
    with cs have "statusLoop look done (ks @ [k]) i = statusLoop look done (ks @ [k]) (Suc i)"
      by (subst statusLoop.simps) simp
    moreover have "n = m - Suc i" using Suc.hyps(2) by simp
    ultimately show ?thesis using Suc.hyps(1) by metis
  qed
qed

lemma statusLoop_ends:
  assumes "\<forall>k \<in> set ks. (\<forall>j. look j k \<noteq> None) \<and> (\<forall>j \<ge> m. \<forall>cs. look j k = Some cs \<longrightarrow> GetStatus cs \<in> done)"
  shows "statusLoop look done ks i = Some True"
  using assms
proof (induction ks arbitrary: i rule: rev_induct)
  case Nil
  then show ?case by (subst statusLoop.simps) simp
next
  case (snoc k ks)
  then obtain j where "statusLoop look done (ks @ [k]) i = statusLoop look done ks j"
    using statusLoop_one [of look k m "done" ks i] by auto
  with snoc show ?case by simp
qed

theorem WaitForClose_returns:
  assumes "\<forall>k \<in> set ks. \<forall>j. \<exists>cs. GetChannelStateById (polls j) p tk k = Some cs
     \<and> (m \<le> j \<longrightarrow> GetStatus cs \<in> {ChannelStateClosed, ChannelStateSettled, ChannelStateSettling})"
  shows "WaitForClose polls p tk ks = Some True"
proof -
  have "GetChannelStateById (polls j) p tk k \<noteq> None" if "k \<in> set ks" for j k using bspec [OF assms that] by (metis option.distinct(1))
  moreover have "GetStatus cs \<in> {ChannelStateClosed, ChannelStateSettled, ChannelStateSettling}"
    if "k \<in> set ks" "m \<le> j" "GetChannelStateById (polls j) p tk k = Some cs" for j k cs
    using bspec [OF assms that(1)] that(2,3) by (metis option.inject)
  ultimately show ?thesis unfolding WaitForClose_def by (intro statusLoop_ends [where m = m]) blast
qed

section \<open>Departures\<close>

text \<open>A channel that is gone, as it is once it has been settled, makes the loops panic instead of ending.\<close>

theorem wait_for_unknown_channel_panics:
  assumes "GetChannelStateById (polls 0) p tk k = None"
  shows "WaitForClose polls p tk (ks @ [k]) = Some False" "WaitForSettle polls p tk (ks @ [k]) = Some False"
  using assms by (simp_all add: WaitForClose_def WaitForSettle_def statusLoop.simps [of _ _ "ks @ [k]"])

text \<open>The balance of the partner cannot be asked for: the other participant is compared with the node itself.\<close>

theorem partner_balance_refused:
  assumes "partner \<noteq> own"
  shows "ChannelContractBalance cs own partner partner = Inl (Msg ''target address must be one of the channel participants!'')"
  using assms by (simp add: ChannelContractBalance_def)

text \<open>Waiting for a healthy node, or for a received transfer, never ends.\<close>

theorem WaitForhealthy_never_returns: "WaitForhealthy polls a i = None"
proof -
  have "WaitForhealthy polls a i = Some j \<Longrightarrow> False" for j
    by (rule WaitForhealthy.raw_induct [where P = "\<lambda>polls a i j. False", rotated])
       (auto simp: GetNetworkStatuses_def smap_load_def NetworkReachable_def)
  then show ?thesis by (cases "WaitForhealthy polls a i") simp_all
qed

theorem WaitForTransferSuccess_never_returns: "WaitForTransferSuccess c polls pid amount i = None"
proof -
  have "WaitForTransferSuccess c polls pid amount i = Some j \<Longrightarrow> False" for j
    by (rule WaitForTransferSuccess.raw_induct [where P = "\<lambda>c polls pid amount i j. False", rotated])
       (auto simp: GetEvents_def scanRow_def map_filter_def)
  then show ?thesis by (cases "WaitForTransferSuccess c polls pid amount i") simp_all
qed

end
