(* ===== verification/Pylons_Sync.thy ===== *)
theory Pylons_Sync
  imports Pylons_ChainEvents
begin

text \<open>
  A service and the blocks of the chain: its start, the synchronisation with old blocks and the rounds of polling
  (\<open>service/channel.go\<close>, \<open>service/tasks.go\<close>). What the chain answers in a round is the record \<open>SyncView\<close>. A round gets
  the flag \<open>firstRun\<close>, the last block that was handled and the service, and returns them.
\<close>

section \<open>Old blocks\<close>

text \<open>
  The events of a range of blocks with the positions of each block's events in the list. Beyond its length, up to
  its capacity, the list holds empty events.
\<close>

record FilteredEvents =
  fe_events :: "(string, json) smap list"
  fe_capacity :: nat
  fe_positions :: "(BlockHeight, u32 \<times> u32) smap"

record SyncView =
  sy_BlockHeight :: "nat \<Rightarrow> BlockHeight option"
  sy_Events :: "BlockHeight \<Rightarrow> BlockHeight \<Rightarrow> FilteredEvents option"
  sy_SecretEvents :: "BlockHeight \<Rightarrow> BlockHeight \<Rightarrow> FilteredEvents option"
  sy_OpenChannels :: "(u64 \<times> (Address \<times> Address \<times> ChannelID) list) option"

text \<open>An end of 0 stands for a single event.\<close>

definition blockEvents :: "FilteredEvents \<Rightarrow> BlockHeight \<Rightarrow> (string, json) smap list option" where
  "blockEvents fe i =
     (case smap_load (fe_positions fe) i of
        None \<Rightarrow> Some []
      | Some (start, end) \<Rightarrow>
          (let first = unat start; next = unat ((if end = 0 then start else end) + 1)
           in if first \<le> next \<and> next \<le> fe_capacity fe
              then Some (take (next - first) (drop first
                     (fe_events fe @ replicate (fe_capacity fe - length (fe_events fe)) [])))
              else None))"

text \<open>The heights after \<open>below\<close> up to \<open>height\<close>.\<close>

definition heights :: "BlockHeight \<Rightarrow> BlockHeight \<Rightarrow> BlockHeight list" where
  "heights below height = map of_nat [unat below + 1 ..< unat height + 1]"

fun syncBlocks ::
  "env \<Rightarrow> ChainView \<Rightarrow> handler \<Rightarrow> FilteredEvents \<Rightarrow> FilteredEvents \<Rightarrow> BlockHeight list \<Rightarrow> BlockHeight \<Rightarrow> Service
     \<Rightarrow> (BlockHeight \<times> Service) option" where
  "syncBlocks e cv h own secrets [] lastFilterBlock s = Some (lastFilterBlock, s)"
| "syncBlocks e cv h own secrets (i # blocks) lastFilterBlock s =
     do { events \<leftarrow> blockEvents own i;
          s \<leftarrow> onBlockchainEvents e cv h events s;
          secretRevealEvents \<leftarrow> blockEvents secrets i;
          s \<leftarrow> onBlockchainEvents e cv h secretRevealEvents s;
          s \<leftarrow> handled h (ND_Network (NC_Channel (Block i))) s;
          syncBlocks e cv h own secrets blocks i s }"

text \<open>
  The loop of the synchronisation; \<open>n\<close> numbers the questions for the height. It ends less than twenty blocks before
  the end of the chain, or (\<open>False\<close>) when the events cannot be fetched. Up to the greatest height it would go on
  for ever.
\<close>

partial_function (option) fastSync ::
  "env \<Rightarrow> ChainView \<Rightarrow> handler \<Rightarrow> SyncView \<Rightarrow> nat \<Rightarrow> BlockHeight \<Rightarrow> Service \<Rightarrow> (bool \<times> BlockHeight \<times> Service) option" where
  "fastSync e cv h sy n lastFilterBlock s =
     (case sy_BlockHeight sy n of
        None \<Rightarrow> fastSync e cv h sy (Suc n) lastFilterBlock s
      | Some endBlockHeight \<Rightarrow>
          (if endBlockHeight - lastFilterBlock < 20 then Some (True, lastFilterBlock, s)
           else (case sy_Events sy (lastFilterBlock + 1) endBlockHeight of
                   None \<Rightarrow> Some (False, lastFilterBlock, s)
                 | Some own \<Rightarrow>
                     (case sy_SecretEvents sy (lastFilterBlock + 1) endBlockHeight of
                        None \<Rightarrow> Some (False, lastFilterBlock, s)
                      | Some secrets \<Rightarrow>
                          (if endBlockHeight = - 1 then None
                           else do { r \<leftarrow> syncBlocks e cv h own secrets (heights lastFilterBlock endBlockHeight) lastFilterBlock s;
                                     fastSync e cv h sy (Suc n) (fst r) (snd r) })))))"

section \<open>Rounds\<close>

text \<open>The open channels of the chain become routes of the current state, past the log.\<close>

fun addOpenChannels :: "ranges \<Rightarrow> Address \<Rightarrow> (Address \<times> Address \<times> ChannelID) list \<Rightarrow> TokenNetworkState \<times> Service \<Rightarrow> TokenNetworkState \<times> Service" where
  "addOpenChannels r own [] ts = ts"
| "addOpenChannels r own ((partAddr1, partAddr2, _) # channels) (tn, s) =
     addOpenChannels r own channels
       (AddRoute r partAddr1 partAddr2 tn, if AddressEqual partAddr1 own then call (StartHealthCheck partAddr2) s else s)"

definition UpdateRouteMap :: "env \<Rightarrow> SyncView \<Rightarrow> Service \<Rightarrow> Service option" where
  "UpdateRouteMap e sy s =
     do { chain \<leftarrow> StateFromChannel s;
          (case sy_OpenChannels sy of
             None \<Rightarrow> Some s
           | Some (participantNum, participants) \<Rightarrow>
               (if participantNum = 0 then Some s
                else if length participants < unat participantNum then None
                else do { tokenNetwork \<leftarrow> GetTokenNetworkByIdentifier e chain (USDT_CONTRACT_ADDRESS e);
                          let (tn, s) = addOpenChannels (sv_ranges (ss_service s)) (sv_address (ss_service s))
                                (take (unat participantNum) participants) (tokenNetwork, s);
                          Some (s\<lparr>ss_Wal := (ss_Wal s)\<lparr>wal_CurrentState :=
                            Some (storeTokenNetwork e (USDT_CONTRACT_ADDRESS e) tn chain)\<rparr>\<rparr>) })) }"

definition CallbackNewBlock ::
  "env \<Rightarrow> ChainView \<Rightarrow> handler \<Rightarrow> SyncView \<Rightarrow> bool \<times> BlockHeight \<times> Service \<Rightarrow> (bool \<times> BlockHeight \<times> Service) option" where
  "CallbackNewBlock e cv h sy st =
     (case st of (firstRun, lastFilterBlock, s) \<Rightarrow>
        (case sy_BlockHeight sy 0 of
           None \<Rightarrow> Some st
         | Some chainBlockHeight \<Rightarrow>
             (if chainBlockHeight \<le> lastFilterBlock then Some st
              else if firstRun \<or> 30 < chainBlockHeight - lastFilterBlock
              then do { (finished, lastFilterBlock, s) \<leftarrow> fastSync e cv h sy 1 lastFilterBlock s;
                        (if \<not> finished then Some (firstRun, lastFilterBlock, s)
                         else do { s \<leftarrow> (if \<not> firstRun then UpdateRouteMap e sy s else Some s);
                                   Some (False, lastFilterBlock, s) }) }
              else if chainBlockHeight = - 1 then None
              else map_option (Pair firstRun) (newBlocks e cv h (heights lastFilterBlock chainBlockHeight) lastFilterBlock s))))"

text \<open>\<open>LoopUntilStop\<close> with the one callback that is registered: a round for each tick of the clock. What the
  chain answers (\<open>ChainView\<close>, \<open>SyncView\<close>) is asked for again in every round.\<close>

fun LoopUntilStop ::
  "env \<Rightarrow> handler \<Rightarrow> (ChainView \<times> SyncView) list \<Rightarrow> bool \<times> BlockHeight \<times> Service \<Rightarrow> (bool \<times> BlockHeight \<times> Service) option" where
  "LoopUntilStop e h [] st = Some st"
| "LoopUntilStop e h ((cv, sy) # ticks) st = do { st \<leftarrow> CallbackNewBlock e cv h sy st; LoopUntilStop e h ticks st }"

section \<open>Heights\<close>

lemma heights_same [simp]: "heights l l = []"
  by (simp add: heights_def)

lemma heights_below [simp]: "m \<le> l \<Longrightarrow> heights l m = []"
  by (simp add: heights_def word_le_nat_alt)

lemma heights_append: "l \<le> m \<Longrightarrow> m \<le> n \<Longrightarrow> heights l m @ heights m n = heights l n"
  unfolding heights_def map_append [symmetric] word_le_nat_alt
  by (metis Suc_eq_plus1 Suc_le_mono le_add_diff_inverse upt_add_eq_append)

text \<open>A beginning of the heights is the heights up to its last.\<close>

lemma heights_take:
  assumes "n \<le> length (heights l h)"
  shows "take n (heights l h) = heights l (last (l # take n (heights l h))) \<and> l \<le> last (l # take n (heights l h))"
proof (cases n)
  case (Suc k)
  let ?a = "unat l + 1"
  have n: "?a + n \<le> unat h + 1" using assms Suc by (simp add: heights_def del: upt_Suc)
  have t: "take n (heights l h) = map of_nat [?a ..< ?a + n]" using n by (simp add: heights_def take_map take_upt del: upt_Suc)
  have "last (l # take n (heights l h)) = of_nat (unat l + n)" using Suc unfolding t by (simp add: last_map)
  moreover have "unat (of_nat (unat l + n) :: BlockHeight) = unat l + n"
    using n unsigned_less [of h, where 'a = nat] by (simp add: unat_of_nat take_bit_nat_eq_self del: of_nat_add)
  ultimately show ?thesis using t by (simp add: heights_def word_le_nat_alt)
qed simp

lemma heights_all:
  "heights l h = heights l (last (l # heights l h)) \<and> l \<le> last (l # heights l h)"
  using heights_take [of "length (heights l h)" l h] by simp

section \<open>The log\<close>

definition blockOf :: "NodeChange \<Rightarrow> BlockHeight option" where
  "blockOf sc = (case sc of ND_Network (NC_Channel (Block b)) \<Rightarrow> Some b | _ \<Rightarrow> None)"

lemma blockOf_simps [simp]:
  "blockOf (ND_Network (NC_Channel (Block b))) = Some b"
  "blockOf (ND_Network (NC_ContractReceiveChannelNew x1)) = None" "blockOf (ND_Network (NC_ContractReceiveRouteNew x2)) = None"
  "blockOf (ND_Network (NC_ContractReceiveRouteClosed x3)) = None" "blockOf (ND_Network (NC_ContractReceiveSetFee x4)) = None"
  "blockOf (ND_Network (NC_Channel (SC_ContractReceiveChannelNewBalance x5))) = None"
  "blockOf (ND_Network (NC_Channel (SC_ContractReceiveChannelClosed x6))) = None"
  "blockOf (ND_Network (NC_Channel (SC_ContractReceiveUpdateTransfer x7))) = None"
  "blockOf (ND_Network (NC_Channel (SC_ContractReceiveChannelSettled x8))) = None"
  "blockOf (ND_Network (NC_Channel (SC_ContractReceiveChannelWithdraw x9))) = None"
  "blockOf (ND_Network (NC_Channel (SC_ContractReceiveChannelCooperativeSettled x10))) = None"
  "blockOf (ND_Network (NC_Channel (SC_ContractReceiveChannelBatchUnlock x11))) = None"
  "blockOf (ND_Task (TC_ContractReceiveSecretReveal x12)) = None"
  by (simp_all add: blockOf_def)

text \<open>What the synchronisation needs of a handler: that it writes its state change to the log, and nothing else does.\<close>

locale logging_handler =
  fixes h :: handler and logs :: "Service \<Rightarrow> 'a list" and text_of :: "NodeChange \<Rightarrow> 'a"
  assumes handles: "h sc s = Some (s', evs) \<Longrightarrow> logs s' = logs s @ [text_of sc]"
    and calls [simp]: "logs (call x s) = logs s"
    and notifies [simp]: "logs (WithdrawResultNotify k ok err s) = logs s"
    and routes [simp]: "logs (s\<lparr>ss_Wal := (ss_Wal s)\<lparr>wal_CurrentState := c\<rparr>\<rparr>) = logs s"
begin

definition grows :: "BlockHeight list \<Rightarrow> Service \<Rightarrow> Service \<Rightarrow> bool" where
  "grows blocks s s' \<longleftrightarrow> (\<exists>changes. logs s' = logs s @ map text_of changes \<and> List.map_filter blockOf changes = blocks)"

lemma grows_refl [simp]: "grows [] s s"
  unfolding grows_def by (rule exI [of _ "[]"]) (simp add: map_filter_simps)

lemma grows_trans:
  assumes "grows bs s t" and "grows bs' t u"
  shows "grows (bs @ bs') s u"
proof -
  obtain as as' where "logs t = logs s @ map text_of as" "logs u = logs t @ map text_of as'"
      "List.map_filter blockOf as = bs" "List.map_filter blockOf as' = bs'"
    using assms unfolding grows_def by blast
  then show ?thesis unfolding grows_def by (intro exI [of _ "as @ as'"]) (simp add: map_filter_def)
qed

lemma grows_calls [simp]:
  "grows bs s (call x t) = grows bs s t" "grows bs (call x s) t = grows bs s t"
  "grows bs (WithdrawResultNotify k ok err s) t = grows bs s t"
  "grows bs s (t\<lparr>ss_Wal := (ss_Wal t)\<lparr>wal_CurrentState := c\<rparr>\<rparr>) = grows bs s t"
  by (simp_all add: grows_def)

lemma handled_grows: "handled h sc s = Some s' \<Longrightarrow> grows (case blockOf sc of None \<Rightarrow> [] | Some b \<Rightarrow> [b]) s s'"
  unfolding grows_def handled_def
  by (rule exI [of _ "[sc]"]) (auto simp: map_filter_simps dest: handles split: option.split)

lemma event_grows: "OnBlockchainEvent e cv h event s = Some s' \<Longrightarrow> grows [] s s'"
  unfolding OnBlockchainEvent_def
  by (auto dest!: handled_grows split: option.split_asm json.split_asm if_splits bind_splits
      simp: HandleChannelNew_def HandleChannelClose_def handleChannelNewBalance_def HandleChannelSettled_def
        HandleChannelUpdateTransfer_def HandleChannelWithdraw_def HandleChannelCooperativeSettled_def HandleSecretRevealed_def
        HandleChannelBatchUnlock_def HandleChannelSetFee_def HandleWithdrawSuccess_def Let_def)

lemma events_grow: "onBlockchainEvents e cv h events s = Some s' \<Longrightarrow> grows [] s s'"
proof (induction events arbitrary: s)
  case (Cons event events)
  then obtain t where "OnBlockchainEvent e cv h event s = Some t" "onBlockchainEvents e cv h events t = Some s'"
    by (auto split: bind_splits)
  with Cons.IH event_grows grows_trans [of "[]" s t "[]" s'] show ?case by simp
qed simp

lemma block_grows:
  assumes "onBlockchainEvents e cv h events s = Some t" and "handled h (ND_Network (NC_Channel (Block i))) t = Some u"
  shows "grows [i] s u"
  using grows_trans [OF events_grow [OF assms(1)] handled_grows [OF assms(2)]] by simp

lemma newBlocks_grow:
  assumes "newBlocks e cv h blocks l s = Some (l', s')"
  shows "\<exists>n \<le> length blocks. grows (take n blocks) s s' \<and> l' = last (l # take n blocks)"
  using assms
proof (induction blocks arbitrary: l s)
  case (Cons i blocks)
  show ?case
  proof (cases "cv_Events cv i")
    case None
    with Cons.prems show ?thesis by (intro exI [of _ 0]) simp
  next
    case (Some events)
    with Cons.prems obtain t u where tu: "onBlockchainEvents e cv h events s = Some t"
        "handled h (ND_Network (NC_Channel (Block i))) t = Some u" "newBlocks e cv h blocks i u = Some (l', s')"
      by (auto split: bind_splits)
    then obtain n where n: "n \<le> length blocks" "grows (take n blocks) u s'" "l' = last (i # take n blocks)"
      using Cons.IH by blast
    with grows_trans [OF block_grows [OF tu(1,2)] n(2)] show ?thesis by (intro exI [of _ "Suc n"]) simp
  qed
qed simp

lemma syncBlocks_grow:
  "syncBlocks e cv h own secrets blocks l s = Some (l', s') \<Longrightarrow> grows blocks s s' \<and> l' = last (l # blocks)"
proof (induction blocks arbitrary: l s)
  case (Cons i blocks)
  then obtain events t secretEvents t' u where "onBlockchainEvents e cv h events s = Some t"
      "onBlockchainEvents e cv h secretEvents t = Some t'"
      "handled h (ND_Network (NC_Channel (Block i))) t' = Some u" "syncBlocks e cv h own secrets blocks i u = Some (l', s')"
    by (auto split: bind_splits)
  with Cons.IH [of i u] grows_trans [OF events_grow grows_trans [OF block_grows]] show ?case by fastforce
qed simp

text \<open>From one height to another: the log has grown by exactly the blocks between them.\<close>

definition catches_up :: "BlockHeight \<Rightarrow> Service \<Rightarrow> BlockHeight \<Rightarrow> Service \<Rightarrow> bool" where
  "catches_up l s l' s' \<longleftrightarrow> l \<le> l' \<and> grows (heights l l') s s'"

lemma catches_up_refl [simp]: "catches_up l s l s"
  by (simp add: catches_up_def)

lemma catches_up_trans: "catches_up l s m t \<Longrightarrow> catches_up m t n u \<Longrightarrow> catches_up l s n u"
  unfolding catches_up_def using grows_trans [of "heights l m" s t "heights m n" u] heights_append [of l m n] by auto

lemma newBlocks_catches_up: "newBlocks e cv h (heights l m) l s = Some (l', s') \<Longrightarrow> catches_up l s l' s'"
  unfolding catches_up_def using heights_take by (metis newBlocks_grow)

lemma syncBlocks_catches_up: "syncBlocks e cv h own secrets (heights l m) l s = Some (l', s') \<Longrightarrow> catches_up l s l' s'"
  unfolding catches_up_def using heights_all by (metis syncBlocks_grow)

lemma fastSync_catches_up:
  assumes "fastSync e cv h sy n l s = Some (finished, l', s')"
  shows "catches_up l s l' s'"
proof -
  have "h = h \<longrightarrow> catches_up l s (fst (snd r)) (snd (snd r))" if "fastSync e cv h sy n l s = Some r" for r
  proof (rule fastSync.raw_induct [where P = "\<lambda>e cv hd sy n l s r. hd = h \<longrightarrow> catches_up l s (fst (snd r)) (snd (snd r))",
        OF _ that])
    fix f e cv hd sy n l s r
    assume IH: "\<And>e cv hd sy n l s r. f e cv hd sy n l s = Some r \<Longrightarrow> hd = h \<longrightarrow> catches_up l s (fst (snd r)) (snd (snd r))"
      and eq: "(case sy_BlockHeight sy n of None \<Rightarrow> f e cv hd sy (Suc n) l s
        | Some endBlockHeight \<Rightarrow>
          (if endBlockHeight - l < 20 then Some (True, l, s)
           else (case sy_Events sy (l + 1) endBlockHeight of
                   None \<Rightarrow> Some (False, l, s)
                 | Some own \<Rightarrow>
                     (case sy_SecretEvents sy (l + 1) endBlockHeight of
                        None \<Rightarrow> Some (False, l, s)
                      | Some secrets \<Rightarrow>
                          (if endBlockHeight = - 1 then None
                           else do { r \<leftarrow> syncBlocks e cv hd own secrets (heights l endBlockHeight) l s;
                                     f e cv hd sy (Suc n) (fst r) (snd r) }))))) = Some r"
    show "hd = h \<longrightarrow> catches_up l s (fst (snd r)) (snd (snd r))"
    proof
      assume hd: "hd = h"
      have step: "catches_up l s (fst (snd r)) (snd (snd r))"
        if "syncBlocks e cv h own secrets (heights l m) l s = Some (k, t)" "f e cv h sy (Suc n) k t = Some r" for own secrets m k t
        using catches_up_trans [OF syncBlocks_catches_up [OF that(1)]] IH [OF that(2)] by blast
      have wait: "catches_up l s (fst (snd r)) (snd (snd r))" if "f e cv h sy (Suc n) l s = Some r" using IH [OF that] by blast
      from eq show "catches_up l s (fst (snd r)) (snd (snd r))" unfolding hd
        by (auto split: option.split_asm if_splits bind_splits dest: step wait)
    qed
  qed
  from this [OF assms] show ?thesis by simp
qed

lemma addOpenChannels_grow: "addOpenChannels r own channels (tn, s) = (tn', s') \<Longrightarrow> logs s' = logs s"
  by (induction r own channels "(tn, s)" arbitrary: tn s rule: addOpenChannels.induct) (auto split: if_splits)

lemma UpdateRouteMap_logs: "UpdateRouteMap e sy s = Some s' \<Longrightarrow> logs s' = logs s"
  by (auto simp: UpdateRouteMap_def Let_def dest!: addOpenChannels_grow split: bind_splits option.split_asm if_splits prod.split_asm)

lemma CallbackNewBlock_catches_up:
  assumes "CallbackNewBlock e cv h sy (fr, l, s) = Some (fr', l', s')"
  shows "catches_up l s l' s'"
proof -
  have "catches_up l s k t" if "fastSync e cv h sy 1 l s = Some (b, k, u)" "UpdateRouteMap e sy u = Some t" for b k u t
    using fastSync_catches_up [OF that(1)] UpdateRouteMap_logs [OF that(2)] by (simp add: catches_up_def grows_def)
  with assms show ?thesis
    by (auto simp: CallbackNewBlock_def dest!: newBlocks_catches_up dest: fastSync_catches_up split: option.split_asm if_splits bind_splits)
qed

lemma LoopUntilStop_catches_up:
  "LoopUntilStop e h ticks (fr, l, s) = Some (fr', l', s') \<Longrightarrow> catches_up l s l' s'"
proof (induction ticks arbitrary: fr l s)
  case (Cons tick ticks)
  then obtain cv sy f1 l1 s1 where "CallbackNewBlock e cv h sy (fr, l, s) = Some (f1, l1, s1)"
      "LoopUntilStop e h ticks (f1, l1, s1) = Some (fr', l', s')"
    by (cases tick) (auto split: bind_splits)
  with Cons.IH CallbackNewBlock_catches_up catches_up_trans show ?case by blast
qed simp

lemma LoopUntilStop_logs:
  assumes "LoopUntilStop e h ticks (fr, l, s) = Some (fr', l', s')"
  shows "l \<le> l' \<and> (\<exists>changes. logs s' = logs s @ map text_of changes \<and> List.map_filter blockOf changes = heights l l')"
  using LoopUntilStop_catches_up [OF assms] by (simp add: catches_up_def grows_def)

end

section \<open>The service writes its log\<close>

lemma handleWithdrawFailure_storage: "handleWithdrawFailure e t k err s = Some s' \<Longrightarrow> wal_Storage (ss_Wal s') = wal_Storage (ss_Wal s)"
  by (auto simp: handleWithdrawFailure_def WithdrawResultNotify_def RemoveWithdrawStatus_def call_def Let_def split: bind_splits)

lemma paymentDone_storage: "paymentDone t i r s = Some s' \<Longrightarrow> wal_Storage (ss_Wal s') = wal_Storage (ss_Wal s)"
  by (auto simp: paymentDone_def storeStatus_def Let_def split: option.split_asm if_splits)

lemma sendQueued_storage: "sendQueued e m ev s = Some s' \<Longrightarrow> wal_Storage (ss_Wal s') = wal_Storage (ss_Wal s)"
  by (auto simp: sendQueued_def split: option.split_asm sum.split_asm bind_splits)

lemma OnChannelEvent_storage: "OnChannelEvent e t c ev s = Some s' \<Longrightarrow> wal_Storage (ss_Wal s') = wal_Storage (ss_Wal s)"
  by (cases ev)
    (auto dest!: settle_calls unlock_calls handleWithdrawFailure_storage paymentDone_storage sendQueued_storage
      simp: OnChannelEvent_def HandleContractSendChannelClose_def HandelContractSendChannelUpdate_def contractCall_def
      HandleSendWithdrawRequest_def HandleSendWithdraw_def Let_def call_def
      split: option.split_asm sum.split_asm bind_splits if_splits)

lemma onEvents_storage: "onEvents e t c evs s = Some s' \<Longrightarrow> wal_Storage (ss_Wal s') = wal_Storage (ss_Wal s)"
  by (induction evs arbitrary: s) (auto dest!: OnChannelEvent_storage split: bind_splits)

definition loggedTexts :: "Service \<Rightarrow> byte list list" where
  "loggedTexts s = map snd (st_state_changes (wal_Storage (ss_Wal s)))"

lemma HandleStateChange_logs:
  assumes "HandleStateChange e t c every sc s = Some (s', evs)"
  shows "loggedTexts s' = loggedTexts s @ [cd_MarshalChange c sc]"
proof -
  obtain wal s1 where wal: "LogAndDispatch t c sc (ss_Wal s) = (wal, Some evs)" and s1: "onEvents e t c evs (s\<lparr>ss_Wal := wal\<rparr>) = Some s1"
    and s': "loggedTexts s' = loggedTexts s1"
    using assms by (auto simp: HandleStateChange_def loggedTexts_def Snapshot_def writeStateSnapshot_def Let_def
        split: prod.split_asm option.split_asm bind_splits if_splits)
  have "loggedTexts s1 = map snd (st_state_changes (wal_Storage wal))" using onEvents_storage [OF s1] by (simp add: loggedTexts_def)
  with wal s' show ?thesis
    by (auto simp: LogAndDispatch_def writeStateChange_def writeEvents_def loggedTexts_def Let_def split: option.split_asm)
qed

interpretation lh: logging_handler "HandleStateChange e t c every" loggedTexts "cd_MarshalChange c" for e t c every
proof
  show "loggedTexts s' = loggedTexts s @ [cd_MarshalChange c sc]" if "HandleStateChange e t c every sc s = Some (s', evs)" for sc s s' evs
    using HandleStateChange_logs [OF that] .
qed (simp_all add: loggedTexts_def call_def WithdrawResultNotify_def RemoveWithdrawStatus_def)

text \<open>
  C18. The node handles every block of the chain once. Over any number of rounds of polling, with fast
  synchronisation or without, whatever the client of the chain answers, what the log gains contains the blocks after the last one
  that was handled, without gap or repetition and in order, up to the one that the rounds end with.
\<close>

theorem every_block_once:
  assumes "LoopUntilStop e (HandleStateChange e t c every) ticks (firstRun, l, s) = Some (firstRun', l', s')"
  shows "l \<le> l' \<and> (\<exists>changes. loggedTexts s' = loggedTexts s @ map (cd_MarshalChange c) changes
     \<and> List.map_filter blockOf changes = heights l l')"
  using lh.LoopUntilStop_logs [OF assms] .

section \<open>The synchronisation ends\<close>

lemma heights_last: "last (l # heights l m) = (if l < m then m else l)"
  by (cases "l < m") (simp_all add: heights_def last_map word_less_nat_alt)

lemma syncBlocks_last: "syncBlocks e cv h own secrets blocks l s = Some (l', s') \<Longrightarrow> l' = last (l # blocks)"
  by (induction blocks arbitrary: l s) (auto split: bind_splits)

text \<open>
  The synchronisation ends when the chain stops growing: there is a greatest height, reported from some question on,
  and events can be fetched and handled.
\<close>

theorem fastSync_returns:
  assumes "\<forall>a b. \<exists>own secrets. sy_Events sy a b = Some own \<and> sy_SecretEvents sy a b = Some secrets
      \<and> (\<forall>l s. syncBlocks e cv h own secrets (heights l b) l s \<noteq> None)"
    and "\<forall>m \<ge> N. sy_BlockHeight sy m = Some H" and "\<forall>m k. sy_BlockHeight sy m = Some k \<longrightarrow> k \<le> H"
    and "H \<noteq> - 1" and "l \<le> H"
  shows "\<exists>l' s'. fastSync e cv h sy n l s = Some (True, l', s')"
proof -
  have step: "(\<exists>l' s'. fastSync e cv h sy n l s = Some (True, l', s'))
      \<or> (\<exists>l' s'. fastSync e cv h sy n l s = fastSync e cv h sy (Suc n) l' s' \<and> l' \<le> H
            \<and> (sy_BlockHeight sy n = Some H \<longrightarrow> l' = H))" if "l \<le> H" for n l s
  proof (cases "sy_BlockHeight sy n")
    case None
    then have "fastSync e cv h sy n l s = fastSync e cv h sy (Suc n) l s" by (subst fastSync.simps) simp
    with that None show ?thesis by auto
  next
    case (Some k)
    with assms(3,4) have k: "k \<le> H" "k \<noteq> - 1" by (auto dest: word_order.extremum_uniqueI)
    show ?thesis
    proof (cases "k - l < 20")
      case True
      with Some show ?thesis by (subst fastSync.simps) simp
    next
      case False
      obtain own secrets where ev: "sy_Events sy (l + 1) k = Some own" "sy_SecretEvents sy (l + 1) k = Some secrets"
          "syncBlocks e cv h own secrets (heights l k) l s \<noteq> None" using assms(1) by blast
      then obtain l' s' where l': "syncBlocks e cv h own secrets (heights l k) l s = Some (l', s')" by auto
      have "fastSync e cv h sy n l s = fastSync e cv h sy (Suc n) l' s'"
        using Some False ev l' k(2) by (subst fastSync.simps) simp
      moreover have "l' \<le> H \<and> (k = H \<longrightarrow> l' = H)" using syncBlocks_last [OF l'] heights_last [of l k] k(1) that by auto
      ultimately show ?thesis using Some by auto
    qed
  qed
  have fin: "\<exists>l' s'. fastSync e cv h sy n H s = Some (True, l', s')" if "N \<le> n" for n s
    using assms(2) that by (subst fastSync.simps) simp
  have late: "\<exists>l' s'. fastSync e cv h sy n l s = Some (True, l', s')" if "N \<le> n" "l \<le> H" for n l s
    using step [OF that(2), of n s] fin [of "Suc n"] assms(2) that(1) by (metis le_SucI)
  show ?thesis
    using assms(5)
  proof (induction "N - n" arbitrary: n l s)
    case 0
    then show ?case using late by simp
  next
    case (Suc d)
    then have "d = N - Suc n" by simp
    with Suc step [OF Suc.prems, of n s] show ?case by metis
  qed
qed

text \<open>
  When the chain falls back behind the last block that was handled, while a synchronisation runs, the difference of
  the heights wraps around: the loop goes on until the chain has caught up.
\<close>

theorem fastSync_behind_never_ends:
  assumes "\<forall>m \<ge> n. sy_BlockHeight sy m = Some H" and "H < l" and "20 \<le> H - l"
    and "\<forall>a b. sy_Events sy a b \<noteq> None \<and> sy_SecretEvents sy a b \<noteq> None"
  shows "fastSync e cv h sy n l s = None"
proof -
  have "((\<forall>m \<ge> n. sy_BlockHeight sy' m = Some H) \<and> sy' = sy \<and> l' = l) \<longrightarrow> False"
    if "fastSync e cv h sy' n l' s = Some r" for sy' l' n s r
  proof (rule fastSync.raw_induct [where P = "\<lambda>e cv h sy' n l' s r.
        (\<forall>m \<ge> n. sy_BlockHeight sy' m = Some H) \<and> sy' = sy \<and> l' = l \<longrightarrow> False", OF _ that])
    fix f e cv h sy' n l' s r
    assume IH: "\<And>e cv h sy' n l' s r. f e cv h sy' n l' s = Some r \<Longrightarrow>
        (\<forall>m \<ge> n. sy_BlockHeight sy' m = Some H) \<and> sy' = sy \<and> l' = l \<longrightarrow> False"
      and eq: "(case sy_BlockHeight sy' n of None \<Rightarrow> f e cv h sy' (Suc n) l' s
        | Some endBlockHeight \<Rightarrow>
          (if endBlockHeight - l' < 20 then Some (True, l', s)
           else (case sy_Events sy' (l' + 1) endBlockHeight of
                   None \<Rightarrow> Some (False, l', s)
                 | Some own \<Rightarrow>
                     (case sy_SecretEvents sy' (l' + 1) endBlockHeight of
                        None \<Rightarrow> Some (False, l', s)
                      | Some secrets \<Rightarrow>
                          (if endBlockHeight = - 1 then None
                           else do { r \<leftarrow> syncBlocks e cv h own secrets (heights l' endBlockHeight) l' s;
                                     f e cv h sy' (Suc n) (fst r) (snd r) }))))) = Some r"
    show "(\<forall>m \<ge> n. sy_BlockHeight sy' m = Some H) \<and> sy' = sy \<and> l' = l \<longrightarrow> False"
    proof
      assume a: "(\<forall>m \<ge> n. sy_BlockHeight sy' m = Some H) \<and> sy' = sy \<and> l' = l"
      obtain own secrets where "sy_Events sy (l + 1) H = Some own" "sy_SecretEvents sy (l + 1) H = Some secrets"
        using assms(4) by fastforce
      with a have "f e cv h sy' (Suc n) l' s = Some r"
        using eq assms(2,3) by (auto split: if_splits)
      then show False using IH [of e cv h sy' "Suc n" l' s r] a by auto
    qed
  qed
  from this [of sy n l s] assms(1) show ?thesis by (cases "fastSync e cv h sy n l s") auto
qed

section \<open>Sample\<close>

lemma sample_block:
  "StateTransition sample_env sample_ranges (\<lambda>_ _. 1) (Some NewChainState) (ND_Network (NC_Channel (Block 1))) 1
     = Some (Some (NewChainState\<lparr>ch_BlockHeight := 1\<rparr>, []))"
  by (simp add: StateTransition_def handleStateChangeForNode_def NewChainState_def handleBlockForNode_def Let_def
      subDispatchToAllChannels_def subDispatchToAllLockedTransfers_def updateQueues_def sample_ranges_def)

definition sample_sync :: SyncView where
  "sample_sync = \<lparr>sy_BlockHeight = (\<lambda>_. Some 1), sy_Events = (\<lambda>_ _. None), sy_SecretEvents = (\<lambda>_ _. None),
     sy_OpenChannels = None\<rparr>"

theorem every_block_once_witness:
  "\<exists>s' changes. LoopUntilStop sample_env
        (HandleStateChange sample_env (nodeTransition sample_env (\<lambda>_. sample_ranges) (\<lambda>_ _ _. 1) (\<lambda>_. 1)) sample_codec 100)
        [(sample_view, sample_sync)] (False, 0, sample_running NewChainState) = Some (False, 1, s')
     \<and> loggedTexts s' = loggedTexts (sample_running NewChainState) @ map (cd_MarshalChange sample_codec) changes
     \<and> List.map_filter blockOf changes = [1]"
proof -
  let ?t = "nodeTransition sample_env (\<lambda>_. sample_ranges) (\<lambda>_ _ _. 1) (\<lambda>_. 1)"
  have d: "DeepCopy (Some NewChainState) = Some NewChainState" by (simp add: DeepCopy_def NewChainState_def)
  have "\<exists>wal. LogAndDispatch ?t sample_codec (ND_Network (NC_Channel (Block 1))) (ss_Wal (sample_running NewChainState))
      = (wal, Some [])"
    using sample_block by (simp add: LogAndDispatch_def sample_running_def Dispatch_def nodeTransition_def d
        writeStateChange_def NewSQLiteStorage_def Let_def)
  then obtain s' where s': "HandleStateChange sample_env ?t sample_codec 100 (ND_Network (NC_Channel (Block 1)))
      (sample_running NewChainState) = Some (s', [])"
    by (auto simp: HandleStateChange_def Let_def)
  have h: "heights 0 1 = [1]" by (simp add: heights_def)
  have l: "LoopUntilStop sample_env (HandleStateChange sample_env ?t sample_codec 100) [(sample_view, sample_sync)]
      (False, 0, sample_running NewChainState) = Some (False, 1, s')"
    using s' h by (simp add: CallbackNewBlock_def sample_sync_def sample_view_def handled_def)
  from every_block_once [OF l] l h show ?thesis by auto
qed

end
