(* ===== verification/Pylons_Start.thy ===== *)
theory Pylons_Start
  imports Pylons_Sync
begin

text \<open>
  The start of a service (\<open>service/channel.go\<close>): the log is opened and replayed, a log without a state gets the first
  three state changes, and the queues are filled. What the chain answers is the record \<open>Startup\<close>. The place of the
  database in the file system is not modelled.
\<close>

section \<open>Opening the log\<close>

record Startup =
  su_GetNodePubKey :: "byte list option"
  su_GetNetworkId :: "ChainID option"
  su_BlockHeight :: "BlockHeight option"

definition InitializeTokenNetwork :: "env \<Rightarrow> transition \<Rightarrow> codec \<Rightarrow> nat \<Rightarrow> Service \<Rightarrow> Service option" where
  "InitializeTokenNetwork e transition c every s =
     map_option fst (HandleStateChange e transition c every
       (ND_ContractReceiveNewTokenNetwork (MicroPayContractAddress e)
         ((NewTokenNetworkState (sv_address (ss_service s)))
           \<lparr>tn_Address := USDT_CONTRACT_ADDRESS e, tn_TokenAddress := USDT_CONTRACT_ADDRESS e\<rparr>)) s)"

definition checkAddressIntegrity :: "ChainState \<Rightarrow> Service \<Rightarrow> error option" where
  "checkAddressIntegrity chainState s =
     (if \<not> AddressEqual (sv_address (ss_service s)) (ch_Address chainState)
      then Some (Msg ''[checkAddressIntegrity] failed'') else None)"

text \<open>
  The result is the error, the last block that was handled (\<open>lastFilterBlock\<close>, 0 before it is set) and the service.
\<close>

definition initDB ::
  "env \<Rightarrow> transition \<Rightarrow> codec \<Rightarrow> nat \<Rightarrow> Startup \<Rightarrow> SQLiteStorage \<Rightarrow> Service \<Rightarrow> (error option \<times> BlockHeight \<times> Service) option" where
  "initDB e transition c every su storage s =
     do { wal \<leftarrow> RestoreToStateChange transition c (sv_ranges (ss_service s)) storage Latest;
          let s = s\<lparr>ss_snapshotGroup := CountStateChanges storage div every, ss_Wal := wal\<rparr>;
          (case wal_CurrentState wal of
             None \<Rightarrow>
               (if su_GetNodePubKey su \<notin> {None, Some []}
                then Some (Some (Msg ''chain has record with this wallet address, but local db was not found''), 0, s)
                else (case su_GetNetworkId su of
                        None \<Rightarrow> Some (Some (Msg ''get network id failed''), 0, s)
                      | Some networkId \<Rightarrow>
                          do { (s, _) \<leftarrow> HandleStateChange e transition c every (ND_ActionInitChain
                                 \<lparr>aic_BlockHeight = 0, aic_OurAddress = sv_address (ss_service s), aic_ChainId = networkId\<rparr>) s;
                               (s, _) \<leftarrow> HandleStateChange e transition c every (ND_ContractReceiveNewPaymentNetwork
                                 (NewPaymentNetworkState\<lparr>pn_Address := MicroPayContractAddress e\<rparr>)) s;
                               s \<leftarrow> InitializeTokenNetwork e transition c every s;
                               Some (None, 0, s) }))
           | Some chainState \<Rightarrow>
               (if su_BlockHeight su = None then Some (Some (Msg ''get chainBlockHeight failed''), 0, s)
                else (case checkAddressIntegrity chainState s of
                        Some err \<Rightarrow> Some (Some err, 0, s)
                      | None \<Rightarrow> Some (None, ch_BlockHeight chainState, s)))) }"

section \<open>Start\<close>

definition StartService :: "env \<Rightarrow> transition \<Rightarrow> codec \<Rightarrow> SyncView \<Rightarrow> Service \<Rightarrow> Service option" where
  "StartService e transition c sy s =
     do { s \<leftarrow> UpdateRouteMap e sy s;
          chainState \<leftarrow> StateFromChannel s;
          s \<leftarrow> InitializeTransactionsQueues e transition c chainState s;
          InitializeMessagesQueues e chainState s }"

text \<open>The first synchronisation, before the service is started.\<close>

definition SyncBlockData ::
  "env \<Rightarrow> ChainView \<Rightarrow> handler \<Rightarrow> SyncView \<Rightarrow> bool \<times> BlockHeight \<times> Service \<Rightarrow> (bool \<times> BlockHeight \<times> Service) option" where
  "SyncBlockData e cv h sy st = CallbackNewBlock e cv h sy st"

section \<open>The first start\<close>

definition firstNetwork :: "env \<Rightarrow> Address \<Rightarrow> TokenNetworkState" where
  "firstNetwork e own =
     (NewTokenNetworkState own)\<lparr>tn_Address := USDT_CONTRACT_ADDRESS e, tn_TokenAddress := USDT_CONTRACT_ADDRESS e\<rparr>"

definition firstState :: "env \<Rightarrow> Address \<Rightarrow> ChainID \<Rightarrow> ChainState" where
  "firstState e own networkId = NewChainState\<lparr>ch_Address := own, ch_ChainId := networkId,
     ch_IdentifiersToPaymentNetworks := [(MicroPayContractAddress e,
       \<lparr>pn_Address = MicroPayContractAddress e,
        pn_TokenIdentifiersToTokenNetworks = [(USDT_CONTRACT_ADDRESS e, firstNetwork e own)],
        pn_TokenAddressesToTokenIdentifiers = [(USDT_CONTRACT_ADDRESS e, USDT_CONTRACT_ADDRESS e)]\<rparr>)]\<rparr>"

text \<open>A state change without events, before the first snapshot.\<close>

lemma HandleStateChange_quiet:
  assumes "t (st_sequence (wal_Storage (ss_Wal s)) + 1) (DeepCopy (wal_CurrentState (ss_Wal s))) sc = Some (Some (chain, []))"
    and "st_sequence (wal_Storage (ss_Wal s)) + 1 < every"
  shows "\<exists>s'. HandleStateChange e t c every sc s = Some (s', []) \<and> LogAndDispatch t c sc (ss_Wal s) = (ss_Wal s', Some [])
    \<and> wal_CurrentState (ss_Wal s') = Some chain
    \<and> st_sequence (wal_Storage (ss_Wal s')) = st_sequence (wal_Storage (ss_Wal s)) + 1 \<and> ss_service s' = ss_service s"
  using assms by (simp add: HandleStateChange_def LogAndDispatch_def Dispatch_def writeStateChange_def writeEvents_def Let_def)

definition bareState :: "Address \<Rightarrow> ChainID \<Rightarrow> ChainState" where
  "bareState own networkId = NewChainState\<lparr>ch_Address := own, ch_ChainId := networkId\<rparr>"

definition bareNetwork :: "env \<Rightarrow> PaymentNetworkState" where
  "bareNetwork e = NewPaymentNetworkState\<lparr>pn_Address := MicroPayContractAddress e\<rparr>"

definition firstChanges :: "env \<Rightarrow> Address \<Rightarrow> ChainID \<Rightarrow> NodeChange list" where
  "firstChanges e own networkId =
     [ND_ActionInitChain \<lparr>aic_BlockHeight = 0, aic_OurAddress = own, aic_ChainId = networkId\<rparr>,
      ND_ContractReceiveNewPaymentNetwork (bareNetwork e),
      ND_ContractReceiveNewTokenNetwork (MicroPayContractAddress e) (firstNetwork e own)]"

lemma first_transitions:
  "nodeTransition e r ids msgId n (DeepCopy None)
      (ND_ActionInitChain \<lparr>aic_BlockHeight = 0, aic_OurAddress = own, aic_ChainId = networkId\<rparr>)
     = Some (Some (bareState own networkId, []))"
  "nodeTransition e r ids msgId n (DeepCopy (Some (bareState own networkId))) (ND_ContractReceiveNewPaymentNetwork (bareNetwork e))
     = Some (Some ((bareState own networkId)\<lparr>ch_IdentifiersToPaymentNetworks := [(MicroPayContractAddress e, bareNetwork e)]\<rparr>, []))"
  "nodeTransition e r ids msgId n
      (DeepCopy (Some ((bareState own networkId)\<lparr>ch_IdentifiersToPaymentNetworks := [(MicroPayContractAddress e, bareNetwork e)]\<rparr>)))
      (ND_ContractReceiveNewTokenNetwork (MicroPayContractAddress e) (firstNetwork e own)) = Some (Some (firstState e own networkId, []))"
  by (simp_all add: bareState_def bareNetwork_def nodeTransition_def StateTransition_def handleStateChangeForNode_def DeepCopy_def
      DeepCopyPaymentNetwork_def handleChainInit_def handleNewPaymentNetwork_def maybeAddTokenNetwork_def updateQueues_def
      NewChainState_def NewPaymentNetworkState_def firstState_def firstNetwork_def smap_load_def smap_store_def
      GetTokenNetworkByTokenAddress_def Let_def)

text \<open>The changes as \<open>jsonext\<close> gives them back: the network of the third has an empty graph.\<close>

definition firstReadBack :: "env \<Rightarrow> Address \<Rightarrow> ChainID \<Rightarrow> NodeChange list" where
  "firstReadBack e own networkId = map changeWithoutMaps (firstChanges e own networkId)"

lemma second_transition:
  "nodeTransition e r ids msgId n
      (DeepCopy (Some ((bareState own networkId)\<lparr>ch_IdentifiersToPaymentNetworks := [(MicroPayContractAddress e, bareNetwork e)]\<rparr>)))
      (ND_ContractReceiveNewTokenNetwork (MicroPayContractAddress e) (withoutNetworkMaps (firstNetwork e own)))
     = Some (Some (withoutMaps (firstState e own networkId), []))"
  by (simp add: bareState_def bareNetwork_def nodeTransition_def StateTransition_def handleStateChangeForNode_def DeepCopy_def
      DeepCopyPaymentNetwork_def maybeAddTokenNetwork_def updateQueues_def withoutMaps_def withoutNetworkMaps_def
      NewChainState_def NewPaymentNetworkState_def NewTokenNetworkState_def firstState_def firstNetwork_def smap_load_def smap_store_def
      GetTokenNetworkByTokenAddress_def Let_def)

lemma first_replay:
  "replayChanges (nodeTransition e r ids msgId) n (firstReadBack e own networkId) None = Some (Some (withoutMaps (firstState e own networkId)))"
  using first_transitions(1,2) second_transition
  by (simp add: firstReadBack_def firstChanges_def changeWithoutMaps_def Dispatch_def bareNetwork_def NewPaymentNetworkState_def)

lemma restore_new: "RestoreToStateChange t c r NewSQLiteStorage Latest =
    Some \<lparr>wal_CurrentState = None, wal_StateChangeId = 0, wal_Storage = NewSQLiteStorage\<rparr>"
  using restore_latest [OF stored_new, of t c r] by (simp add: lastSnapshot_def readBack_def map_filter_simps)

text \<open>A service that opens a log goes on with the state the log brings back.\<close>

lemma restart_resumes:
  assumes "RestoreToStateChange t c (sv_ranges (ss_service s)) st Latest = Some wal"
    and "wal_CurrentState wal = Some chain" and "ch_Address chain = sv_address (ss_service s)" and "su_BlockHeight su \<noteq> None"
  shows "\<exists>s'. initDB e t c every su st s = Some (None, ch_BlockHeight chain, s') \<and> StateFromChannel s' = Some chain"
  using assms by (auto simp: initDB_def checkAddressIntegrity_def StateFromChannel_def AddressEqual_def)

text \<open>
  C19. A node starts, and starts again. Over an empty log, when the chain does not know its key, a node opens with the one
  payment network and the one token network, no channels and nothing pending; its log holds the three state changes
  that made this. A service that opens that log finds the same networks, whatever it draws, with one difference: it is
  assumed that \<open>jsonext\<close> gives the changes back with their \<open>sync.Map\<close>s empty, and so the routing graph, which held the node itself, is
  empty then.
\<close>

theorem node_starts:
  assumes "su_GetNodePubKey su \<in> {None, Some []}" and "su_GetNetworkId su = Some networkId" and "3 < every"
    and "own = sv_address (ss_service s)"
    and "\<forall>sc \<in> set (firstChanges e own networkId). cd_UnmarshalChange c (cd_MarshalChange c sc) = Some (changeWithoutMaps sc)"
    and "su_BlockHeight su2 \<noteq> None" and "ss_service s2 = ss_service s"
  shows "\<exists>s' s''. initDB e (nodeTransition e r ids msgId) c every su NewSQLiteStorage s = Some (None, 0, s')
     \<and> StateFromChannel s' = Some (firstState e own networkId)
     \<and> loggedTexts s' = map (cd_MarshalChange c) (firstChanges e own networkId)
     \<and> initDB e (nodeTransition e r2 ids2 msgId2) c every su2 (wal_Storage (ss_Wal s')) s2 = Some (None, 0, s'')
     \<and> StateFromChannel s'' = Some (withoutMaps (firstState e own networkId))"
proof -
  let ?t = "nodeTransition e r ids msgId"
  let ?wal = "\<lparr>wal_CurrentState = None, wal_StateChangeId = 0, wal_Storage = NewSQLiteStorage\<rparr>"
  let ?s0 = "s\<lparr>ss_snapshotGroup := 0, ss_Wal := ?wal\<rparr>"
  have z: "st_sequence (wal_Storage (ss_Wal ?s0)) = 0" "ss_service ?s0 = ss_service s" "wal_CurrentState (ss_Wal ?s0) = None"
    by (simp_all add: NewSQLiteStorage_def)
  obtain u1 where u1: "HandleStateChange e ?t c every (firstChanges e own networkId ! 0) ?s0 = Some (u1, [])"
      "LogAndDispatch ?t c (firstChanges e own networkId ! 0) (ss_Wal ?s0) = (ss_Wal u1, Some [])"
      "wal_CurrentState (ss_Wal u1) = Some (bareState own networkId)" "st_sequence (wal_Storage (ss_Wal u1)) = 1"
      "ss_service u1 = ss_service s"
    using HandleStateChange_quiet [of ?t ?s0 "firstChanges e own networkId ! 0" "bareState own networkId" every e c] assms(3) z
      first_transitions(1) by (auto simp: firstChanges_def)
  obtain u2 where u2: "HandleStateChange e ?t c every (firstChanges e own networkId ! 1) u1 = Some (u2, [])"
      "LogAndDispatch ?t c (firstChanges e own networkId ! 1) (ss_Wal u1) = (ss_Wal u2, Some [])"
      "wal_CurrentState (ss_Wal u2) = Some ((bareState own networkId)\<lparr>ch_IdentifiersToPaymentNetworks := [(MicroPayContractAddress e, bareNetwork e)]\<rparr>)"
      "st_sequence (wal_Storage (ss_Wal u2)) = 2" "ss_service u2 = ss_service s"
    using HandleStateChange_quiet [of ?t u1 "firstChanges e own networkId ! 1" _ every e c] assms(3) u1 first_transitions(2)
    by (fastforce simp: firstChanges_def)
  obtain u3 where u3: "HandleStateChange e ?t c every (firstChanges e own networkId ! 2) u2 = Some (u3, [])"
      "LogAndDispatch ?t c (firstChanges e own networkId ! 2) (ss_Wal u2) = (ss_Wal u3, Some [])"
      "wal_CurrentState (ss_Wal u3) = Some (firstState e own networkId)" "ss_service u3 = ss_service s"
    using HandleStateChange_quiet [of ?t u2 "firstChanges e own networkId ! 2" _ every e c] assms(3) u2 first_transitions(3)
    by (fastforce simp: firstChanges_def)
  have i: "initDB e ?t c every su NewSQLiteStorage s = Some (None, 0, u3)"
    using assms(1,2,4) restore_new [of ?t c "sv_ranges (ss_service s)"] u1(1,5) u2(1,5) u3(1)
    by (auto simp: initDB_def InitializeTokenNetwork_def CountStateChanges_def NewSQLiteStorage_def firstChanges_def
        bareNetwork_def firstNetwork_def)
  have st: "stored c (wal_Storage (ss_Wal u3)) (firstChanges e own networkId) []"
  proof -
    let ?a = "\<lambda>i. firstChanges e own networkId ! i"
    have 1: "stored c (wal_Storage (ss_Wal u1)) [?a 0] []"
      using LogAndDispatch_stored [OF _ u1(2), of "[]" "[]"] stored_new by simp
    have 2: "stored c (wal_Storage (ss_Wal u2)) [?a 0, ?a 1] []" using LogAndDispatch_stored [OF 1 u2(2)] by simp
    have "stored c (wal_Storage (ss_Wal u3)) [?a 0, ?a 1, ?a 2] []" using LogAndDispatch_stored [OF 2 u3(2)] by simp
    then show ?thesis by (simp add: firstChanges_def)
  qed
  have "readBack c (firstChanges e own networkId) = firstReadBack e own networkId"
    using assms(5) by (simp add: readBack_def firstReadBack_def firstChanges_def map_filter_simps)
  then have "RestoreToStateChange (nodeTransition e r2 ids2 msgId2) c (sv_ranges (ss_service s2)) (wal_Storage (ss_Wal u3)) Latest =
      Some \<lparr>wal_CurrentState = Some (withoutMaps (firstState e own networkId)), wal_StateChangeId = 0, wal_Storage = wal_Storage (ss_Wal u3)\<rparr>"
    by (simp add: restore_latest [OF st] lastSnapshot_def first_replay)
  moreover have "ch_Address (withoutMaps (firstState e own networkId)) = own" "ch_BlockHeight (withoutMaps (firstState e own networkId)) = 0"
    by (simp_all add: withoutMaps_def firstState_def NewChainState_def)
  ultimately obtain s'' where "initDB e (nodeTransition e r2 ids2 msgId2) c every su2 (wal_Storage (ss_Wal u3)) s2 = Some (None, 0, s'')"
      "StateFromChannel s'' = Some (withoutMaps (firstState e own networkId))"
    using restart_resumes [of _ c s2 "wal_Storage (ss_Wal u3)"] assms(4,6,7) by fastforce
  moreover have "loggedTexts u3 = map (cd_MarshalChange c) (firstChanges e own networkId)"
    using HandleStateChange_logs [OF u1(1)] HandleStateChange_logs [OF u2(1)] HandleStateChange_logs [OF u3(1)]
    by (simp add: loggedTexts_def NewSQLiteStorage_def firstChanges_def)
  ultimately show ?thesis using i u3(3) by (simp add: StateFromChannel_def)
qed

text \<open>The own node is in the graph after the first start and not after the second.\<close>

lemma own_node_lost:
  "GetTokenNetworkByIdentifier e (firstState e own networkId) (USDT_CONTRACT_ADDRESS e) = Some (firstNetwork e own)"
  "gr_Nodes (tn_NetworkGraph (firstNetwork e own)) = [(own, 1)]"
  "map_option (gr_Nodes \<circ> tn_NetworkGraph)
     (GetTokenNetworkByIdentifier e (withoutMaps (firstState e own networkId)) (USDT_CONTRACT_ADDRESS e)) = Some []"
  by (simp_all add: GetTokenNetworkByIdentifier_def firstState_def firstNetwork_def NewTokenNetworkState_def NewChainState_def
      withoutMaps_def withoutNetworkMaps_def smap_load_def)

section \<open>Sample\<close>

definition start_codec :: codec where
  "start_codec = sample_codec\<lparr>cd_MarshalChange := (\<lambda>sc. case sc of ND_ActionInitChain _ \<Rightarrow> [0]
       | ND_ContractReceiveNewPaymentNetwork _ \<Rightarrow> [1] | _ \<Rightarrow> [2]),
     cd_UnmarshalChange := (\<lambda>d. Some (firstReadBack sample_env 2 7 ! (unat (hd d))))\<rparr>"

theorem node_starts_witness:
  "\<exists>s' s''. initDB sample_env (nodeTransition sample_env (\<lambda>_. endpoint_ranges) (\<lambda>_ _ _. 1) (\<lambda>_. 1)) start_codec 100
        \<lparr>su_GetNodePubKey = None, su_GetNetworkId = Some 7, su_BlockHeight = None\<rparr> NewSQLiteStorage (sample_running NewChainState)
        = Some (None, 0, s')
     \<and> StateFromChannel s' = Some (firstState sample_env 2 7)
     \<and> loggedTexts s' = [[0], [1], [2]]
     \<and> initDB sample_env (nodeTransition sample_env (\<lambda>_. endpoint_ranges) (\<lambda>_ _ _. 5) (\<lambda>_. 6)) start_codec 100
        \<lparr>su_GetNodePubKey = Some [3], su_GetNetworkId = None, su_BlockHeight = Some 40\<rparr> (wal_Storage (ss_Wal s'))
        (sample_running NewChainState) = Some (None, 0, s'')
     \<and> StateFromChannel s'' = Some (withoutMaps (firstState sample_env 2 7))"
proof -
  let ?su = "\<lparr>su_GetNodePubKey = None, su_GetNetworkId = Some 7, su_BlockHeight = None\<rparr> :: Startup"
  let ?su2 = "\<lparr>su_GetNodePubKey = Some [3], su_GetNetworkId = None, su_BlockHeight = Some 40\<rparr> :: Startup"
  have own: "2 = sv_address (ss_service (sample_running NewChainState))" by (simp add: sample_service_def)
  have rb: "\<forall>sc \<in> set (firstChanges sample_env 2 7).
      cd_UnmarshalChange start_codec (cd_MarshalChange start_codec sc) = Some (changeWithoutMaps sc)"
    by (simp add: start_codec_def firstReadBack_def firstChanges_def)
  have "map (cd_MarshalChange start_codec) (firstChanges sample_env 2 7) = [[0], [1], [2]]"
    by (simp add: start_codec_def firstChanges_def)
  with node_starts [of ?su 7 100 2 "sample_running NewChainState" sample_env start_codec ?su2 "sample_running NewChainState"
      "\<lambda>_. endpoint_ranges" "\<lambda>_ _ _. 1" "\<lambda>_. 1" "\<lambda>_. endpoint_ranges" "\<lambda>_ _ _. 5" "\<lambda>_. 6"] own rb
  show ?thesis by simp
qed

end
