(* ===== verification/Spec2Isabelle.thy ===== *)
theory Spec2Isabelle
  imports Pylons_ChannelRuns Pylons_NodeProperties Pylons_Deposits Pylons_RouteSample Pylons_ChainEvents
    Pylons_ClassMeta Pylons_Settlement Pylons_Waiting Pylons_Start
begin

text \<open>
  \<^bold>\<open>Verification of the payment channels of pylons.\<close>

  Pylons is an off-chain payment network: two nodes put deposits into a channel on a blockchain and
  then pay each other, or pay through each other, by signing balance proofs. The logic is the package
  \<open>src/transfer\<close>, a pure state machine: a state change (a message from a partner, an action of the
  user, a block, an event of the contract) is applied to the state, and the result is a new state and a
  list of events (messages to send, transactions to make). Around it, \<open>src/route\<close> searches paths
  in the graph of channels, \<open>src/storage\<close> logs every state change so that a restart can replay them,
  \<open>src/network/transport\<close> checks, acknowledges, queues and resends messages, and
  \<open>src/service\<close> connects these parts: it turns calls of the user, messages and blockchain events into
  state changes and hands the resulting events to the transport and to the chain.

  \<^bold>\<open>Theories and the code they model.\<close>

  \<^item> \<open>Pylons_Prelude\<close>: lemma collections, machine integers (an amount or nonce is a
    64-bit word, a block height or channel id a 32-bit word, so additions wrap as in Go), big-endian bytes, \<open>sync.Map\<close> as an association
    list with \<open>smap_load\<close>, \<open>smap_store\<close>, \<open>smap_delete\<close>.
  \<^item> \<open>Pylons_State\<close>, \<open>Pylons_Changes\<close>, \<open>Pylons_Events\<close>: the structs of
    \<open>state.go\<close>, \<open>statechange.go\<close> and \<open>events.go\<close> as records and datatypes, and the
    record \<open>env\<close> of what the code takes from elsewhere: the hash function, the signature scheme,
    the configuration. These are parameters; what a theorem needs of them is a hypothesis.
  \<^item> \<open>Pylons_Common\<close>: \<open>common/common.go\<close>, \<open>common/signature.go\<close>,
    \<open>transfer/utils.go\<close> and \<open>transfer/pack.go\<close>: comparison of addresses and hashes, encoding
    of integers, the bytes that are hashed and signed.
  \<^item> \<open>Pylons_Merkle\<close>: \<open>merkle_tree.go\<close> and the two update functions of
    \<open>channel.go\<close>. The locale \<open>lock_tree\<close> states what the channel code needs of a tree of
    locks; its interpretation \<open>mt\<close> shows that the code's trees give it.
  \<^item> \<open>Pylons_Locks\<close>, \<open>Pylons_EndState\<close>: one side of a channel, \<open>NettingChannelEndState\<close>: its
    locks, secrets, balance and distributable amount; the invariant \<open>wf_end\<close> (the Merkle tree holds
    exactly the pending locks, each lock is in one map, the balance proof commits to their sum and root)
    and \<open>solvent\<close> (neither side has given away more than it has).
  \<^item> \<open>Pylons_Validate\<close>, \<open>Pylons_Send\<close>, \<open>Pylons_Channel\<close>: the rest of
    \<open>channel.go\<close>: the \<open>IsValid\<close> functions, the functions that create messages, every handler and
    the dispatcher \<open>StateTransitionForChannel\<close>.
  \<^item> \<open>Pylons_Invariant\<close>, \<open>Pylons_Runs\<close>: every operation keeps the invariant, stated through
    three moves of money (\<open>pays\<close>, \<open>locks\<close>, \<open>drops\<close>); \<open>channel_step\<close> is the step
    relation of one channel (the dispatcher and the operations that payment tasks call), and
    the locale \<open>invariant_machine\<close> carries the invariant along runs.
  \<^item> \<open>Pylons_Protocol\<close>: two nodes with one channel. \<open>mirrored\<close> says that each side's view
    of the other is the other's view of itself. What one node sends, the other accepts, and the views are
    mirrored again.
  \<^item> \<open>Pylons_Messages\<close>: the messages that carry balance proofs as one datatype, and the locale
    \<open>sequenced\<close> of receivers that accept a message only with the next number; it gives the
    theorems on nonces, replay and authenticity.
  \<^item> \<open>Pylons_Tasks\<close>: the state of the payment tasks, the state changes that concern a payment, and
    the test whether it is safe to wait for a lock.
  \<^item> \<open>Pylons_Target\<close>: \<open>mediated_target.go\<close>; \<open>Pylons_Initiator\<close>:
    \<open>mediated_initiator.go\<close> and \<open>mediated_initiator_manager.go\<close>, with \<open>chans_steps\<close>, the
    relation that each channel of a map takes channel steps only.
  \<^item> \<open>Pylons_Payment\<close>: a payment over one channel, from the initiator's first message to the end of
    both tasks.
  \<^item> \<open>Pylons_Fees\<close>: the fee of a mediator, with the rounding of 64-bit floating point numbers
    (\<open>f64_round\<close>); \<open>Pylons_Mediator\<close>: every function of \<open>mediator.go\<close>.
  \<^item> \<open>Pylons_Mediation\<close>: a mediator changes its channels through channel steps only, and each handler
    leaves the transfers of its pairs alone; \<open>Pylons_MediationSafety\<close>: how a transfer is passed on, and
    how long the task lasts; \<open>Pylons_MediationPays\<close>: when the mediator pays, reveals and registers
    a secret; \<open>Pylons_MediationSample\<close>: a concrete mediation.
  \<^item> \<open>Pylons_TokenNetwork\<close>: \<open>tokennetwork.go\<close> and the network parts of \<open>state.go\<close>: the
    channels of a network, their index by partner, the graph of routes, the dispatch to channels. The
    structs live in the map of channels; the index, which in the code holds pointers to the same structs,
    holds their ids. The order in which Go visits the keys of a map is a parameter (\<open>ranges\<close>).
  \<^item> \<open>Pylons_Node\<close>: \<open>node.go\<close> and the lookups of \<open>views.go\<close> it uses: the chain state, the dispatch of
    every state change to networks and payment tasks, the queues of messages and the pending transactions.
  \<^item> \<open>Pylons_Identity\<close>: what no operation of a channel changes; \<open>Pylons_ChannelRuns\<close>: histories of calls
    of one channel with nothing assumed of them (\<open>channel_history\<close>), and the conditions on a call that make it a step
    (\<open>call_ok\<close>); \<open>Pylons_NodeRuns\<close>: every handler
    of the node keeps the channels safe and the index consistent; \<open>Pylons_Outbox\<close>: what a state
    change does to queues and pending transactions; \<open>Pylons_NodeProperties\<close>: the runs of a node, as the states
    in which changes arrive and the changes (\<open>node_arrivals\<close>).
  \<^item> \<open>Pylons_Deposits\<close>: the loop of \<open>handleBlock\<close> over deposits waiting for confirmation.
  \<^item> \<open>Pylons_Graph\<close>: paths in a graph given by its edges; \<open>Pylons_Routing\<close>: \<open>route/dfs.go\<close>, the
    depth first search; \<open>Pylons_Dijkstra\<close>: \<open>route/dijkstra.go\<close>, the weighted search; \<open>Pylons_Routes\<close>:
    the choice of routes in \<open>service/route.go\<close> and the weights of edges; \<open>Pylons_RouteChoice\<close>: that the
    searches return, and find first hops of shortest and lightest routes; \<open>Pylons_RouteSample\<close>: a concrete network.
  \<^item> \<open>Pylons_Wire\<close>: the messages of \<open>network/transport/messages\<close> as structs of optional fields,
    what a signature covers, and their construction from events; \<open>Pylons_Inbound\<close>: \<open>service/message_handler.go\<close>, as
    the state change that a handler hands to \<open>HandleStateChange\<close> (\<open>messageChange\<close>; \<open>OnMessage\<close> in \<open>Pylons_Service\<close> is the
    whole call);
    \<open>Pylons_Delivery\<close>: what is signed is what was checked, and which messages are acknowledged.
  \<^item> \<open>Pylons_Storage\<close>: \<open>storage/wal.go\<close>, \<open>storage/sqlite.go\<close> as tables of changes, snapshots and
    events; \<open>Pylons_Wal\<close>: the replay of the log after a restart, what \<open>jsonext\<close> loses, and the transition of the node, whose
    message ids, map orders and DNS answers may differ from change to change; \<open>Pylons_ClassMeta\<close>: the class ids of
    \<open>class_meta.go\<close>, by which a stored object is read as its type; \<open>Pylons_Lookup\<close>: \<open>storage/utils.go\<close> and the
    queries by fields, which find a balance proof again.
  \<^item> \<open>Pylons_Queue\<close>: \<open>network/transport/queue.go\<close>, with the locale \<open>bounded_fifo\<close> interpreted as \<open>lq\<close>. \<open>Push\<close>
    has no result as long as it waits for \<open>DataCh\<close>; \<open>pushLocked\<close> is what it does before it sends;
    \<open>Pylons_Transport\<close>: the goroutine that sends, resends and removes the messages of a queue, as a step relation;
    \<open>Pylons_Endpoint\<close>: the queues of one node and the calls that fill and empty them.
  \<^item> \<open>Pylons_Proxies\<close>: \<open>network/proxies\<close>, the calls of the contracts with the checks around them and the
    registration of secrets, over a client of the chain that is a parameter (\<open>ChainClient\<close>).
  \<^item> \<open>Pylons_Service\<close>: \<open>service/channel.go\<close> and \<open>service/channel_event_handler.go\<close>: the service,
    \<open>HandleStateChange\<close>, what is done for every event, the initialisation of the queues at the start;
    \<open>Pylons_Handover\<close>: that the queues of the chain state and those of the transport agree;
    \<open>Pylons_Client\<close>: the calls of the user, a payment as two steps, the check and the start, between which other
    goroutines may come (\<open>service_run\<close>); \<open>Pylons_ChainEvents\<close>: \<open>service/chain_events_handler.go\<close>;
    \<open>Pylons_Settlement\<close>: the settlement of a closed channel, from storage to transaction;
    \<open>Pylons_Sync\<close>: the synchronisation with old blocks and the rounds of polling, with the locale
    \<open>logging_handler\<close> interpreted as \<open>lh\<close>; \<open>Pylons_Start\<close>: the start of a service.
  \<^item> \<open>Pylons_Views\<close>: the views of \<open>transfer/views.go\<close> that the service reads; \<open>Pylons_Waiting\<close>: the loops of
    \<open>service/waiting.go\<close>, over the sequence of states they look at.
  \<^item> \<open>Pylons_Sample\<close>: a concrete \<open>env\<close> for the witnesses.

  \<^bold>\<open>How Go is written in HOL.\<close> A panic (nil dereference, index out of range) is the value
  \<open>None\<close> of an outer option; an \<open>error\<close> result is the left side of a sum. A pointer that may be nil
  is an option. A function that changes its argument returns the new value; this includes
  \<open>lock.LockHash = lock.CalcLockHash()\<close>, which some validation functions do on the shared lock
  (\<open>rehashLock\<close>). A returned nil state keeps the contents of the struct (\<open>NilState\<close>), since a
  caller may still hold the pointer. A random message number is an argument. Logging has no
  effect on the state and is left out; error texts are constructors of the datatype \<open>error\<close>. Sorting
  with \<open>sort.Sort\<close> is a stable sort; the order of deposits at equal height does not matter because
  a contract balance only grows. No fuel is used
  anywhere: the recursive functions are total with their termination proved, except the loop of the weighted
  search and those that wait or synchronise, which are a \<open>partial_function (option)\<close>; \<open>GetBestRoutes_returns\<close>,
  \<open>WaitForBlock_returns\<close>, \<open>WaitForClose_returns\<close> and \<open>fastSync_returns\<close> show when they return. A
  goroutine that blocks on a channel has no step.

  These things are parameters because they are left open by Go or come from outside: the order of iteration
  over a map, the value of a floating point number converted out of range (\<open>FloatOutOfRange\<close>), the message
  ids, the bytes beyond the length of a slice (\<open>slices\<close>), the JSON text of stored values and what SQLite
  extracts from it (\<open>codec\<close>), and the answers of the chain (\<open>ChainClient\<close>, \<open>ChainView\<close>, \<open>SyncView\<close>, \<open>Startup\<close>),
  which may be others in every round of polling. No text is assumed to be read as what was written; what a theorem needs of a codec is a
  hypothesis: that logged balance proofs are found by their fields (\<open>events_logged\<close>), that a type is kept (\<open>types_kept\<close>), and
  in \<open>node_starts\<close> that three state changes are read back without the contents of their \<open>sync.Map\<close>s, as \<open>jsonext\<close> reads them.
  \<open>NodeChange\<close> writes a block as a state change of channels or of tasks; both go to the same handler.

  \<^bold>\<open>What is shown.\<close> From a safe state no handler of a channel panics and every call keeps both
  sides well-formed and solvent, with no amount wrapping around; this holds as long as twice
  the largest deposit fits 64 bits, a lock is only added under a secret hash that is not in use, and the chain
  reports possible amounts (\<open>call_ok\<close>, \<open>change_ok\<close>). Two honest nodes agree: each message of the sending functions passes
  the checks of the receiving ones. Accepted messages are signed by the partner, have consecutive nonces
  and cannot be replayed; rejected ones change nothing. Transactions to the chain (settle, update,
  batch unlock, withdraw, cooperative settle) are made at the right time with exact amounts, a settlement once unless
  an invalid answer takes it back.
  Trees of locks implement finite sets of lock hashes.

  A payment over one channel completes: both nodes end with the same amount and agree again. An initiator
  reports a payment only when it was made for the secret, and reveals the secret once, for a proper request.
  A target reveals a secret only when its lock is recorded and has a payment only under the
  partner's signature. A mediator passes on no more than it received, over an open channel, at the same
  expiration; it pays only when it can claim the payer's lock, keeps its task as long as a lock is pending, and
  reveals and registers the secret at most once. A node, in whatever order changes arrive that
  satisfy \<open>change_ok\<close>, keeps all its channels safe and its index consistent; it keeps every message until it is acknowledged.

  The search for routes returns, and names neighbours that begin shortest (or lightest) routes to the target.
  A message built from an event is well formed, and a message that is handled is acknowledged. A restart
  dispatches every change that was logged after the last snapshot once and in order, as it is read back, on the snapshot. The queue of the
  transport gives the results of a bounded first-in first-out queue, its blocking calls included, and its sender can always send unless it
  is blocked. What the node queues is handed to the transport after every state change and again after a restart; a payment is
  started once when its calls do not overlap, and a close of a channel by the partner is answered on the chain with the latest balance proof. A closed channel is
  settled with amounts that open the balance hashes in the contract. A stored object is read with the type it had.
  A node starts over an empty log and again over its own, and every block of the chain is handled once, in order.

  \<^bold>\<open>Departures.\<close> Some lemmas show what the code does where it departs from its intention. In the channel:
  \<open>merkle_proof_panics\<close>, \<open>overflow_checks_vacuous\<close>, \<open>reused_secret_hash_loses_lock\<close>,
  \<open>invalid_cooperative_settle_reopens\<close>. In the target: \<open>bad_encrypted_secret_panics\<close>,
  \<open>lock_expired_test_inverted\<close>, \<open>expired_target_alternates\<close>. In the mediator:
  \<open>mediator_refund_dropped\<close>, \<open>wrong_token_panics\<close>, \<open>sanity_check_rejects\<close>,
  \<open>waiting_transfer_expires_at_once\<close>. In the node: \<open>unknown_network_panics\<close>,
  \<open>unlock_at_initiator_panics\<close>, \<open>secret_request_at_mediator_panics\<close>, \<open>second_payment_panics\<close>,
  \<open>processed_reports_total\<close>, \<open>processed_unknown_channel_panics\<close>. Because of the panics the theorems on
  the node speak about transitions that return, while those on one channel show that it does. In the routes:
  \<open>fee_schedules_forgotten\<close>, \<open>weighted_search_misses_route\<close>, \<open>weigh_cheap\<close>, \<open>no_dns_no_route\<close>. In the log:
  \<open>restore_number_repeats\<close>, \<open>snapshot_loses_locks\<close>, \<open>own_node_lost\<close>, \<open>set_fee_forgotten\<close>, \<open>GetEvents_empty\<close>. In the transport: \<open>push_deadlock\<close>,
  \<open>obsolete_message_deadlock\<close>, \<open>sender_not_verified\<close>. In the service: \<open>CanTransfer_wraps\<close>, \<open>overlapping_calls_both_start\<close>,
  \<open>repeated_payment_mismatch\<close>, \<open>withdraw_failure_not_logged\<close>, \<open>fastSync_behind_never_ends\<close>. In the proxies: \<open>unreachable_chain_panics\<close>,
  \<open>failed_registration_not_repeated\<close>, \<open>unconfirmed_registration_panics\<close>. In views and loops:
  \<open>token_networks_never_listed\<close>, \<open>all_channels_of_one_network\<close>, \<open>wait_for_unknown_channel_panics\<close>,
  \<open>partner_balance_refused\<close>, \<open>WaitForhealthy_never_returns\<close>, \<open>WaitForTransferSuccess_never_returns\<close>.

  \<^bold>\<open>What is not modelled.\<close> The encodings (protobuf messages, the JSON of stored values with the
  encoder and decoder of \<open>utils/jsonext\<close>) and the client of the blockchain: formats and
  calls of other systems, which the logic uses through parameters. The connection manager, of which only \<open>JoinChannel\<close> is reached, the
  histories and fee settings of the service are left out; the actors and the p2p network only pass values on. Changes that the service makes to the state without dispatching a state change (a
  failed withdraw, the weights of routes) are not in the log, so no restart brings them back; nor does it bring back fees set
  on the chain (\<open>reads_back_no_fee\<close>), the routing graph, and the locks in a snapshot. The lemma \<open>restarts_are_transparent\<close> states what
  would hold if everything were read back and the same were drawn again, which is not so of the code.
\<close>

section \<open>Safety of one channel\<close>

text \<open>
  C1. The sides of a channel stay safe. Along a history of calls of the channel code, in any order and from any safe state, both
  sides stay well-formed and solvent: the Merkle tree holds exactly the pending locks, the balance proof commits to them, and
  neither side has spent more than it has; and the locked amounts are exact. This holds as long as each call is made under the
  conditions \<open>call_ok\<close>, which the code leaves to its callers and to the chain: a lock is added under a secret hash
  that is not in use on its side (\<open>reused_secret_hash_loses_lock\<close> shows what happens otherwise), a lock is given up as expired only
  when it is pending and not registered on the chain, a deposit the chain reports is at most \<open>N\<close>, twice of which
  fits 64 bits, and a withdrawal it reports was valid for the amounts at that time. Of the other calls nothing is asked.
\<close>

theorem channel_run_safe:
  assumes "channel_history e cs tr cs'" and "\<forall>(s, c) \<in> set tr. call_ok N s c" and "2 * N < 2 ^ 64" and "safe e N cs"
  shows "wf_end e (cs_OurState cs') \<and> wf_end e (cs_PartnerState cs')
     \<and> solvent (cs_OurState cs') (cs_PartnerState cs')
     \<and> uint (getAmountLocked (cs_OurState cs')) = lock_sum (pending (cs_OurState cs'))
     \<and> uint (getAmountLocked (cs_PartnerState cs')) = lock_sum (pending (cs_PartnerState cs'))"
proof -
  note s = safeD [OF history_safe [OF assms]]
  from s(4-6) amount_locked_exact [OF s(6)] amount_locked_exact [OF s(7)] show ?thesis by simp
qed

text \<open>The second sample peer locks 15 under a new secret hash.\<close>

theorem channel_run_safe_witness:
  "\<exists>a' ev. sendLockedTransfer sample_env sample2 2 1 15 1 2 200 [] 5 [] = Some (a', ev) \<and> ev \<noteq> None
     \<and> solvent (cs_OurState a') (cs_PartnerState a')"
proof -
  have "15 \<le> GetDistributable sample_side2 sample_side1"
    using GetDistributable_exact [of sample_env sample_side2 sample_side1] by (simp add: word_le_def)
  then obtain a' ev where s: "sendLockedTransfer sample_env sample2 2 1 15 1 2 200 [] 5 [] = Some (a', ev)" "ev \<noteq> None"
    using sendLockedTransfer_eq(2) [of sample_env sample2 15 200 5 2 1 1 2 "[]" "[]"] by auto
  have h: "channel_history sample_env sample2 [(sample2, AddsOwnLock 5)] a'"
    by (rule Call [OF CallSendLocked [OF s(1)] Untouched])
  have "safe sample_env 1000 sample2"
    using sample_network_safe sample_network_simps(1) unfolding chans_safe_def by blast
  moreover have "GetLock (cs_OurState sample2) 5 = None" by (simp add: GetLock_pending)
  ultimately show ?thesis using channel_run_safe [OF h, of 1000] s by (simp add: call_ok_def)
qed

text \<open>
  C2. The dispatcher of a channel never panics on a safe channel, whatever the state change, the
  block number and the message id are, and the resulting state is safe again (given that a reported
  deposit is within the supply and a reported withdrawal was allowed).
\<close>

theorem StateTransitionForChannel_total:
  assumes "safe e N cs" and "2 * N < 2 ^ 64" and "chain_ok N cs sc"
  shows "\<exists>r evs. StateTransitionForChannel e cs sc n m = Some (r, evs) \<and> safe e N (the_channel r)"
  using StateTransitionForChannel_step [OF assms] .

text \<open>A block arrives at the sample channel.\<close>

theorem StateTransitionForChannel_total_witness:
  "\<exists>r evs. StateTransitionForChannel sample_env sample1 (Block 5) 5 1 = Some (r, evs) \<and> safe sample_env 1000 (the_channel r)"
  using StateTransitionForChannel_total [of sample_env 1000 sample1 "Block 5" 5 1] by (simp add: chain_ok_def)

section \<open>Agreement of the two peers\<close>

text \<open>
  C3. A direct transfer that one peer sends is accepted by the other. In mirrored states, with the
  receiver's channel open, the receiver's handler takes the signed balance proof, reports a payment of
  exactly the amount sent, acknowledges the message, and the peers' states are mirrored again.
\<close>

theorem direct_transfer_agreement:
  assumes "mirrored e a b" and "solvent_channel a" and "GetStatus b = ChannelStateOpened" and "n > 0"
    and "sendDirectTransfer e a n m p = Some (a', SendDirectTransfer msg p' u tok)"
    and "signs e (es_Address (cs_OurState a)) u (rtd_BalanceProof x)"
  shows "\<exists>b'. handleReceiveDirectTransfer e b x =
       (NewState b', [EventPaymentReceivedSuccess (cs_PaymentNetworkId b) (cs_TokenNetworkId b) (rtd_PaymentId x) n
            (es_Address (cs_OurState a)),
          SendProcessed \<lparr>sm_Recipient = bp_Sender (rtd_BalanceProof x), sm_ChannelId = ChannelIdGlobalQueue,
            sm_MessageId = rtd_MessageId x\<rparr>])
     \<and> mirrored e a' b'"
proof -
  have "u = nextProof e a (transferred (cs_OurState a) + n) (getAmountLocked (cs_OurState a))
      (bd_locksRoot (getCurrentBalanceProof (cs_OurState a)))"
    using assms(5) sendDirectTransfer_eq [OF sendDirectTransfer_cases [OF assms(5)], of e m p] by simp
  note d = direct_agreement [OF assms(1-5) assms(6) [unfolded this]]
  note m = mirroredD [OF assms(1)]
  show ?thesis
    using d same_viewD(6) [OF m(3)] getCurrentBalanceProof_wf(2) [OF m(8)]
    by (simp add: handleReceiveDirectTransfer_def Let_def)
qed

text \<open>30 tokens are sent over the sample channel.\<close>

theorem direct_transfer_agreement_witness:
  "\<exists>a' u b'. sendDirectTransfer sample_env sample1 30 1 2 = Some (a', SendDirectTransfer
       \<lparr>sm_Recipient = 2, sm_ChannelId = 4, sm_MessageId = 1\<rparr> 2 u (cs_TokenAddress sample1))
     \<and> fst (handleReceiveDirectTransfer sample_env sample2 \<lparr>rtd_Sender = 1, rtd_TokenNetworkId = 6, rtd_MessageId = 1,
          rtd_PaymentId = 2, rtd_BalanceProof = sample_signed u\<rparr>) = NewState b'
     \<and> mirrored sample_env a' b'"
proof -
  obtain a' u where s: "sendDirectTransfer sample_env sample1 30 1 2 = Some (a', SendDirectTransfer
       \<lparr>sm_Recipient = 2, sm_ChannelId = 4, sm_MessageId = 1\<rparr> 2 u (cs_TokenAddress sample1))"
    using sendDirectTransfer_eq [of 30 sample1 sample_env 1 2] sample_distributable [of 30] by simp
  have "signs sample_env (es_Address (cs_OurState sample1)) u (rtd_BalanceProof
      \<lparr>rtd_Sender = 1, rtd_TokenNetworkId = 6, rtd_MessageId = 1, rtd_PaymentId = 2, rtd_BalanceProof = sample_signed u\<rparr>)"
    using sample_signs by simp
  from direct_transfer_agreement [OF sample_mirrored _ _ _ s this] s show ?thesis
    by (fastforce simp: solvent_channel_def)
qed

text \<open>
  C4. A locked transfer that one peer sends, for a secret hash it has not in use and below the limit
  of pending transfers, is accepted by the other; both record the same lock and stay mirrored.
\<close>

theorem locked_transfer_agreement:
  assumes "mirrored e a b" and "GetStatus b = ChannelStateOpened"
    and "GetLock (cs_OurState a) h = None" and "h \<noteq> 0"
    and "getNumberOfPendingTransfers (cs_OurState a) < MAXIMUM_PENDING_TRANSFERS"
    and "sendLockedTransfer e a i tg n m p x es h md = Some (a', Some (SendLockedTransfer msg ut))"
    and "signs e (es_Address (cs_OurState a)) (lu_BalanceProof ut) (ls_BalanceProof tr)"
    and "same_lock (ls_Lock tr) (lu_Lock ut)"
  shows "\<exists>b'. HandleReceiveLockedTransfer e b tr =
       Some (b', [SendProcessed \<lparr>sm_Recipient = bp_Sender (ls_BalanceProof tr), sm_ChannelId = ChannelIdGlobalQueue,
            sm_MessageId = ls_MessageId tr\<rparr>], None)
     \<and> mirrored e a' b'"
proof -
  obtain t where "IsValidLockedTransfer e tr b (cs_PartnerState b) (cs_OurState b) = Some (Inr t)"
    and "mirrored e a' (storePartnerLock e b (ls_BalanceProof tr) t (ls_Lock tr))"
    using locked_agreement [OF assms] .
  then show ?thesis by (simp add: HandleReceiveLockedTransfer_def)
qed

text \<open>The second sample peer, which has no lock pending, locks 15 tokens.\<close>

theorem locked_transfer_agreement_witness:
  "\<exists>a' ut b'. sendLockedTransfer sample_env sample2 2 1 15 1 2 200 [] 5 [] = Some (a', Some (SendLockedTransfer
       \<lparr>sm_Recipient = 1, sm_ChannelId = 4, sm_MessageId = 1\<rparr> ut))
     \<and> map_option fst (HandleReceiveLockedTransfer sample_env sample1 \<lparr>ls_MessageId = 1, ls_PaymentId = 2, ls_Token = 9,
          ls_BalanceProof = (sample_signed (lu_BalanceProof ut))\<lparr>bp_PublicKey := [0, 0]\<rparr>, ls_Lock = lu_Lock ut,
          ls_Initiator = 2, ls_Target = 1, ls_EncSecret = [], ls_Mediators = []\<rparr>) = Some b'
     \<and> mirrored sample_env a' b'"
proof -
  have d: "15 \<le> GetDistributable sample_side2 sample_side1"
    using GetDistributable_exact [of sample_env sample_side2 sample_side1] by (simp add: word_le_def)
  then obtain a' ut where s: "sendLockedTransfer sample_env sample2 2 1 15 1 2 200 [] 5 [] = Some (a', Some (SendLockedTransfer
       \<lparr>sm_Recipient = 1, sm_ChannelId = 4, sm_MessageId = 1\<rparr> ut))"
    using sendLockedTransfer_eq(2) [of sample_env sample2 15 200 5 2 1 1 2 "[]" "[]"] by simp
  let ?tr = "\<lparr>ls_MessageId = 1, ls_PaymentId = 2, ls_Token = 9,
          ls_BalanceProof = (sample_signed (lu_BalanceProof ut))\<lparr>bp_PublicKey := [0, 0]\<rparr>, ls_Lock = lu_Lock ut,
          ls_Initiator = 2, ls_Target = 1, ls_EncSecret = [], ls_Mediators = []\<rparr>"
  have m: "mirrored sample_env sample2 sample1" using sample_mirrored mirrored_sym by blast
  have "signs sample_env (es_Address (cs_OurState sample2)) (lu_BalanceProof ut) (ls_BalanceProof ?tr)"
    by (simp add: signs_def sample_signed_def bp_signed_def signed_by_def) (simp add: fakeSigned_def)
  moreover have "GetLock (cs_OurState sample2) 5 = None" by (simp add: GetLock_pending)
  moreover have "getNumberOfPendingTransfers (cs_OurState sample2) < MAXIMUM_PENDING_TRANSFERS"
    by (simp add: getNumberOfPendingTransfers_def sample_side2_def MerkleTreeWidth_def GetEmptyMerkleTree_def
        MAXIMUM_PENDING_TRANSFERS_def)
  ultimately have "\<exists>b'. HandleReceiveLockedTransfer sample_env sample1 ?tr =
       Some (b', [SendProcessed \<lparr>sm_Recipient = bp_Sender (ls_BalanceProof ?tr), sm_ChannelId = ChannelIdGlobalQueue,
            sm_MessageId = ls_MessageId ?tr\<rparr>], None) \<and> mirrored sample_env a' b'"
    by (intro locked_transfer_agreement [OF m _ _ _ _ s]) simp_all
  with s show ?thesis by fastforce
qed

text \<open>
  C5. The unlock message that one peer sends when it knows the secret of a pending lock is accepted
  by the other; the lock is gone on both sides, its amount is transferred, and the peers stay mirrored.
\<close>

theorem unlock_message_agreement:
  assumes "mirrored e a b" and "GetStatus b = ChannelStateOpened"
    and "GetLock (cs_OurState a) (GetHash e s) = Some l"
    and "SendUnlock e a m p s (GetHash e s) = Some (a', Some (SendBalanceProof msg p' tk s' h' u))"
    and "signs e (es_Address (cs_OurState a)) u (rul_BalanceProof x)" and "rul_Secret x = s"
  shows "\<exists>b'. HandleUnlock e b x =
       Some (b', True, [SendProcessed \<lparr>sm_Recipient = bp_Sender (rul_BalanceProof x),
            sm_ChannelId = ChannelIdGlobalQueue, sm_MessageId = rul_MessageId x\<rparr>], None)
     \<and> mirrored e a' b'
     \<and> transferred (cs_PartnerState b') = transferred (cs_OurState a) + lk_Amount l
     \<and> add_mset (GetHash e s, l) (mset (pending (cs_PartnerState b'))) = mset (pending (cs_PartnerState b))"
proof -
  note m = mirroredD [OF assms(1)]
  let ?B = "cs_PartnerState b" and ?h = "GetHash e s"
  have lB: "GetLock ?B ?h = Some l" using same_view_GetLock [OF m(3,5,8)] assms(3) by simp
  obtain t where t: "IsValidUnlock e x b ?B = Some (?B, Inr t)"
    and mi: "mirrored e a' (b\<lparr>cs_PartnerState := DelLock (?B\<lparr>es_BalanceProof := Some (rul_BalanceProof x),
           es_MerkleTree := Some t\<rparr>) ?h\<rparr>)"
    using unlock_agreement [OF assms(1,2,4-6)] .
  have "drops e l (lk_Amount l) ?B (DelLock (?B\<lparr>es_BalanceProof := Some (rul_BalanceProof x), es_MerkleTree := Some t\<rparr>) ?h)"
    using HandleUnlock_drops [OF m(2) t] lB assms(6) by (auto simp del: Del_update)
  moreover have "lk_SecretHash l = ?h" using GetLock_wf(2) [OF m(8) lB] .
  ultimately show ?thesis
    using t mi assms(6) same_viewD(1) [OF m(3)]
    by (auto simp: HandleUnlock_def drops_def Let_def transferred_def simp del: Del_update)
qed

text \<open>The lock of the sample channel is unlocked.\<close>

theorem unlock_message_agreement_witness:
  "\<exists>a' u b'. SendUnlock sample_env sample1 3 2 [1] 7 = Some (a', Some (SendBalanceProof
       \<lparr>sm_Recipient = 2, sm_ChannelId = 4, sm_MessageId = 3\<rparr> 2 (cs_TokenAddress sample1) [1] 0 u))
     \<and> map_option fst (HandleUnlock sample_env sample2 \<lparr>rul_Sender = 1, rul_MessageId = 3, rul_Secret = [1],
          rul_SecretHash = 7, rul_BalanceProof = sample_signed u\<rparr>) = Some b'
     \<and> transferred (cs_PartnerState b') = 30 \<and> mirrored sample_env a' b'"
proof -
  have h: "GetHash sample_env [1] = 7" by (simp add: GetHash_def)
  have l: "GetLock (cs_OurState sample1) 7 = Some sample_lock" by (simp add: GetLock_pending)
  then obtain a' u where s: "SendUnlock sample_env sample1 3 2 [1] 7 = Some (a', Some (SendBalanceProof
       \<lparr>sm_Recipient = 2, sm_ChannelId = 4, sm_MessageId = 3\<rparr> 2 (cs_TokenAddress sample1) [1] 0 u))"
    using SendUnlock_eq [of sample_env sample1 7 sample_lock 3 2 "[1]"] by simp
  let ?x = "\<lparr>rul_Sender = 1, rul_MessageId = 3, rul_Secret = [1], rul_SecretHash = 7, rul_BalanceProof = sample_signed u\<rparr>"
  have "signs sample_env (es_Address (cs_OurState sample1)) u (rul_BalanceProof ?x)" using sample_signs by simp
  from unlock_message_agreement [of sample_env sample1 sample2 "[1]" sample_lock, unfolded h, OF _ _ l s this] s
  show ?thesis by (fastforce simp: sample_lock_def)
qed

text \<open>
  C6. When a lock has expired and neither side registered its secret on chain, the message that
  removes it is accepted by a peer that still holds it as locked, and the peers stay mirrored.
\<close>

theorem lock_expired_agreement:
  assumes "mirrored e a b" and "GetStatus b = ChannelStateOpened"
    and "smap_load (es_LockedLocks (cs_PartnerState b)) h = Some l"
    and "smap_load (es_OnChainUnLockedLocks (cs_OurState a)) h = None"
    and "smap_load (es_OnChainUnLockedLocks (cs_OurState b)) h = None"
    and "lk_Expiration l + ucast (ConfirmBlockCount (Config e) - MaxBlockDelay (Config e)) \<le> n"
    and "EventsForExpiredLock e a l m = Some (a', [SendLockExpired msg u h'])"
    and "signs e (es_Address (cs_OurState a)) u (rle_BalanceProof x)" and "rle_SecretHash x = h"
  shows "\<exists>b'. handleReceiveLockExpired e b x n =
       Some (NewState b', [SendProcessed \<lparr>sm_Recipient = bp_Sender (rle_BalanceProof x),
            sm_ChannelId = ChannelIdGlobalQueue, sm_MessageId = rle_MessageId x\<rparr>])
     \<and> mirrored e a' b' \<and> h' = h \<and> GetLock (cs_PartnerState b') h = None"
proof -
  note m = mirroredD [OF assms(1)]
  let ?B = "cs_PartnerState b"
  obtain t where t: "IsValidLockExpired e x b ?B (cs_OurState b) n = Some (?B, Inr t)"
    and mi: "mirrored e a' (b\<lparr>cs_PartnerState := DelUnclaimedLock (?B\<lparr>es_BalanceProof := Some (rle_BalanceProof x),
           es_MerkleTree := Some t\<rparr>) h\<rparr>)"
    using expired_agreement [OF assms] .
  have lA: "GetLock (cs_OurState a) h = Some l"
    using same_view_GetLock [OF m(3,5,8)] assms(3) by (simp add: GetLock_def)
  have "h' = h" using assms(7) EventsForExpiredLock_eq [OF m(5) lA, of m] by simp
  moreover have "GetLock (DelUnclaimedLock (?B\<lparr>es_BalanceProof := Some (rle_BalanceProof x),
      es_MerkleTree := Some t\<rparr>) h) h = None"
    using assms(3) wf_end_disjoint [OF m(8), of h] by (simp add: DelUnclaimedLock_def GetLock_def)
  ultimately show ?thesis
    using t mi assms(9) by (simp add: handleReceiveLockExpired_def del: Del_update)
qed

text \<open>The lock of the sample channel, which expires at block 100, is removed at block 105.\<close>

theorem lock_expired_agreement_witness:
  "\<exists>a' u b'. EventsForExpiredLock sample_env sample1 sample_lock 3 = Some (a', [SendLockExpired
       \<lparr>sm_Recipient = 2, sm_ChannelId = 4, sm_MessageId = 3\<rparr> u 7])
     \<and> map_option fst (handleReceiveLockExpired sample_env sample2 \<lparr>rle_BalanceProof = sample_signed u,
          rle_SecretHash = 7, rle_MessageId = 3\<rparr> 105) = Some (NewState b')
     \<and> GetLock (cs_PartnerState b') 7 = None \<and> mirrored sample_env a' b'"
proof -
  have l: "GetLock (cs_OurState sample1) 7 = Some sample_lock" by (simp add: GetLock_pending)
  then obtain a' u where s: "EventsForExpiredLock sample_env sample1 sample_lock 3 = Some (a', [SendLockExpired
       \<lparr>sm_Recipient = 2, sm_ChannelId = 4, sm_MessageId = 3\<rparr> u 7])"
    using EventsForExpiredLock_eq [of sample_env sample1 7 sample_lock 3] by simp
  let ?x = "\<lparr>rle_BalanceProof = sample_signed u, rle_SecretHash = 7, rle_MessageId = 3\<rparr>"
  have "signs sample_env (es_Address (cs_OurState sample1)) u (rle_BalanceProof ?x)" using sample_signs by simp
  moreover have "smap_load (es_LockedLocks (cs_PartnerState sample2)) 7 = Some sample_lock"
    "smap_load (es_OnChainUnLockedLocks (cs_OurState sample1)) 7 = None"
    "smap_load (es_OnChainUnLockedLocks (cs_OurState sample2)) 7 = None"
    by (simp_all add: sample_side1_def sample_side2_def smap_load_def)
  moreover have "lk_Expiration sample_lock + ucast (ConfirmBlockCount (Config sample_env) - MaxBlockDelay (Config sample_env)) \<le> 105"
    by (simp add: sample_lock_def)
  ultimately have "\<exists>b'. handleReceiveLockExpired sample_env sample2 ?x 105 =
       Some (NewState b', [SendProcessed \<lparr>sm_Recipient = bp_Sender (rle_BalanceProof ?x),
            sm_ChannelId = ChannelIdGlobalQueue, sm_MessageId = rle_MessageId ?x\<rparr>])
     \<and> mirrored sample_env a' b' \<and> 7 = (7 :: SecretHash) \<and> GetLock (cs_PartnerState b') 7 = None"
    by (intro lock_expired_agreement [OF sample_mirrored _ _ _ _ _ s]) simp_all
  with s show ?thesis by fastforce
qed

text \<open>
  C7. The two peers compute the same cooperative settlement. The request of one peer, signed, passes
  the check of the other, which then starts settling too and answers with the same balances; and
  the two balances add up to the deposits less the withdrawals.
\<close>

theorem cooperative_settle_agreement:
  assumes "mirrored e a b" and "GetStatus a = ChannelStateOpened" and "GetStatus b = ChannelStateOpened"
    and "handleSendCooperativeSettleRequest a act m = (r, [SendCooperativeSettleRequest msg tn p1 b1 p2 b2])"
    and "rcr_Participant1 x = p1" and "rcr_Participant1Balance x = b1" and "rcr_Participant2 x = p2"
    and "rcr_Participant2Balance x = b2" and "rcr_Participant1Address x = p1"
    and "signed_by e p1 (PackCooperativeSettle e (rcr_ChannelId x) p1 b1 p2 b2)
      (rcr_Participant1PublicKey x) (rcr_Participant1Signature x)"
  shows "handleCooperativeSettleRequestReceived e b x m' =
       (NewState (b\<lparr>cs_SettleTransaction := Some runningSettle\<rparr>),
        [SendCooperativeSettle \<lparr>sm_Recipient = p1, sm_ChannelId = rcr_ChannelId x, sm_MessageId = m'\<rparr>
           (rcr_TokenNetworkId x) p1 b1 p2 b2 (rcr_Participant1Signature x) p1 (rcr_Participant1PublicKey x),
         SendProcessed \<lparr>sm_Recipient = p1, sm_ChannelId = ChannelIdGlobalQueue, sm_MessageId = rcr_MessageId x\<rparr>])
     \<and> b1 + b2 = es_ContractBalance (cs_OurState a) - es_TotalWithdraw (cs_OurState a)
         + (es_ContractBalance (cs_PartnerState a) - es_TotalWithdraw (cs_PartnerState a))"
proof -
  note m = mirroredD [OF assms(1)] and v = same_viewD(6) [OF mirroredD(3) [OF assms(1)]] same_viewD(6) [OF mirroredD(4) [OF assms(1)]]
  have ev: "p1 = es_Address (cs_OurState a)" "p2 = es_Address (cs_PartnerState a)"
    "b1 = calculateCooperativeSettleBalance (cs_OurState a) (cs_PartnerState a)"
    "b2 = calculateCooperativeSettleBalance (cs_PartnerState a) (cs_OurState a)"
    using assms(2,4) by (auto simp: handleSendCooperativeSettleRequest_def GetCooprativeSettleBalances_def
        GetChannelEndState_def GetAddress_def Let_def)
  have bal: "calculateCooperativeSettleBalance (cs_PartnerState b) (cs_OurState b) = b1"
    "calculateCooperativeSettleBalance (cs_OurState b) (cs_PartnerState b) = b2"
    using settle_balance_view [OF m(3,4,5,8,6,7)] settle_balance_view [OF m(4,3,6,7,5,8)] ev by simp_all
  have "isValidSignature e (PackCooperativeSettle e (rcr_ChannelId x) p1 b1 p2 b2)
      (rcr_Participant1PublicKey x) (rcr_Participant1Signature x) p1 = Inr ()"
    using assms(10) by (simp add: isValidSignature_iff)
  then have "isValidCooperativeSettleRequest e b x = Inr ()"
    using assms(3,5-9) bal v ev(1,2) by (simp add: isValidCooperativeSettleRequest_def GetChannelEndState_def Let_def)
  moreover have "b1 + b2 = es_ContractBalance (cs_OurState a) - es_TotalWithdraw (cs_OurState a)
         + (es_ContractBalance (cs_PartnerState a) - es_TotalWithdraw (cs_PartnerState a))"
    unfolding ev by (simp add: calculateCooperativeSettleBalance_def Let_def)
  ultimately show ?thesis using assms(5-9) by (simp add: handleCooperativeSettleRequestReceived_def)
qed

text \<open>The sample peers settle: 70 for the first, which has 10 tokens locked for the second, 80 for the second.\<close>

theorem cooperative_settle_agreement_witness:
  "\<exists>r. handleSendCooperativeSettleRequest sample1 \<lparr>acs_TokenNetworkId = 6, acs_ChannelId = 4\<rparr> 1 =
       (r, [SendCooperativeSettleRequest \<lparr>sm_Recipient = 2, sm_ChannelId = 4, sm_MessageId = 1\<rparr> 6 1 70 2 80])
     \<and> fst (handleCooperativeSettleRequestReceived sample_env sample2 \<lparr>rcr_TokenNetworkId = 6, rcr_MessageId = 1,
          rcr_ChannelId = 4, rcr_Participant1 = 1, rcr_Participant1Balance = 70, rcr_Participant2 = 2,
          rcr_Participant2Balance = 80, rcr_Participant1Signature = [], rcr_Participant1Address = 1,
          rcr_Participant1PublicKey = [0]\<rparr> 5) = NewState (sample2\<lparr>cs_SettleTransaction := Some runningSettle\<rparr>)"
proof -
  have amt: "getAmountLocked sample_side1 = 10" "getAmountLocked sample_side2 = 0"
    by (simp_all add: getAmountLocked_pending sample_lock_def)
  have bal: "calculateCooperativeSettleBalance sample_side1 sample_side2 = 70"
    "calculateCooperativeSettleBalance sample_side2 sample_side1 = 80"
    using getCurrentBalanceProof_wf [OF sample_wf(1)] getCurrentBalanceProof_wf [OF sample_wf(2)]
    by (simp_all add: calculateCooperativeSettleBalance_def amt)
  have s: "handleSendCooperativeSettleRequest sample1 \<lparr>acs_TokenNetworkId = 6, acs_ChannelId = 4\<rparr> 1 =
       (NewState (sample1\<lparr>cs_SettleTransaction := Some runningSettle\<rparr>),
        [SendCooperativeSettleRequest \<lparr>sm_Recipient = 2, sm_ChannelId = 4, sm_MessageId = 1\<rparr> 6 1 70 2 80])"
    by (simp add: handleSendCooperativeSettleRequest_def GetCooprativeSettleBalances_def GetChannelEndState_def
        GetAddress_def bal)
  from cooperative_settle_agreement [OF sample_mirrored _ _ s, of "\<lparr>rcr_TokenNetworkId = 6, rcr_MessageId = 1,
          rcr_ChannelId = 4, rcr_Participant1 = 1, rcr_Participant1Balance = 70, rcr_Participant2 = 2,
          rcr_Participant2Balance = 80, rcr_Participant1Signature = [], rcr_Participant1Address = 1,
          rcr_Participant1PublicKey = [0]\<rparr>" 5] s
  show ?thesis by (simp add: signed_by_def)
qed

section \<open>The sequence of accepted messages\<close>

text \<open>A message the second sample peer accepts: the unlock of the pending lock.\<close>

lemma sample_accepts: "\<exists>msg cs'. accept sample_env sample2 msg = Some cs'"
proof -
  have h: "GetHash sample_env [1] = 7" by (simp add: GetHash_def)
  have "GetLock (cs_OurState sample1) 7 = Some sample_lock" by (simp add: GetLock_pending)
  then obtain a' u where s: "SendUnlock sample_env sample1 3 2 [1] 7 = Some (a', Some (SendBalanceProof
       \<lparr>sm_Recipient = 2, sm_ChannelId = 4, sm_MessageId = 3\<rparr> 2 (cs_TokenAddress sample1) [1] 0 u))"
    using SendUnlock_eq [of sample_env sample1 7 sample_lock 3 2 "[1]"] by simp
  let ?x = "\<lparr>rul_Sender = 1, rul_MessageId = 3, rul_Secret = [1], rul_SecretHash = 7, rul_BalanceProof = sample_signed u\<rparr>"
  have sg: "signs sample_env (es_Address (cs_OurState sample1)) u (rul_BalanceProof ?x)" using sample_signs by simp
  obtain t where "IsValidUnlock sample_env ?x sample2 (cs_PartnerState sample2) = Some (cs_PartnerState sample2, Inr t)"
    using unlock_agreement [of sample_env sample1 sample2 3 2 "[1]", unfolded h, OF sample_mirrored _ s sg] by auto
  then have "accept sample_env sample2 (MUnlock ?x) \<noteq> None"
    by (simp add: accept_def HandleUnlock_def)
  then show ?thesis by blast
qed

text \<open>
  C26. The balance proofs a peer accepts carry consecutive nonces: in any sequence of accepted messages,
  of whatever kinds, each nonce is one more than the one before, starting from the next nonce of the
  partner's side.
\<close>

theorem accepted_nonces_consecutive:
  assumes "accept_all (accept e) cs msgs = Some cs'"
  shows "map (\<lambda>m. bp_Nonce (message_proof m)) msgs =
       map (\<lambda>i. getNextNonce (cs_PartnerState cs) + of_nat i) [0..<length msgs]
     \<and> getNextNonce (cs_PartnerState cs') = getNextNonce (cs_PartnerState cs) + of_nat (length msgs)"
  using msgs.run_seqnos [OF assms] by (simp add: comp_def)

text \<open>The one message of the sample has nonce 3, after the proof with nonce 2.\<close>

theorem accepted_nonces_consecutive_witness:
  "\<exists>msg cs'. accept sample_env sample2 msg = Some cs' \<and> bp_Nonce (message_proof msg) = 3"
proof -
  obtain msg cs' where a: "accept sample_env sample2 msg = Some cs'" using sample_accepts by blast
  have "getNextNonce sample_side1 = 3" by (simp add: getNextNonce_def sample_side1_def sample_proof_def)
  with a accepted_nonces_consecutive [of sample_env sample2 "[msg]" cs'] show ?thesis by auto
qed

text \<open>A message that was accepted is rejected when it is delivered again.\<close>

theorem accepted_message_not_replayed:
  assumes "accept e cs msg = Some cs'"
  shows "accept e cs' msg = None"
  using msgs.no_replay [OF assms] .

text \<open>The accepted message of the sample, delivered twice.\<close>

theorem accepted_message_not_replayed_witness:
  "\<exists>msg cs'. accept sample_env sample2 msg = Some cs' \<and> accept sample_env cs' msg = None"
  using sample_accepts accepted_message_not_replayed by blast

text \<open>
  C27. Only the partner can move the partner's side: an accepted message carries a balance proof
  with the partner's signature over its nonce, amounts, locks root and channel, the channel is open,
  the proof is for this channel, token network and chain; it becomes the partner's current proof,
  and our own side is not touched.
\<close>

theorem accepted_message_authentic:
  assumes "accept e cs msg = Some cs'"
  shows "bp_signed e (message_proof msg) (es_Address (cs_PartnerState cs))
     \<and> GetStatus cs = ChannelStateOpened
     \<and> bp_ChannelId (message_proof msg) = cs_Identifier cs
     \<and> bp_TokenNetworkId (message_proof msg) = cs_TokenNetworkId cs
     \<and> bp_ChainId (message_proof msg) = cs_ChainId cs
     \<and> es_BalanceProof (cs_PartnerState cs') = Some (message_proof msg)
     \<and> cs_OurState cs' = cs_OurState cs"
  using accept_cases [OF assms] by (simp add: pylons_defs)

text \<open>The accepted message of the sample is signed by address 1.\<close>

theorem accepted_message_authentic_witness:
  "\<exists>msg cs'. accept sample_env sample2 msg = Some cs' \<and> bp_signed sample_env (message_proof msg) 1
     \<and> cs_OurState cs' = sample_side2"
proof -
  obtain msg cs' where a: "accept sample_env sample2 msg = Some cs'" using sample_accepts by blast
  from accepted_message_authentic [OF a] a show ?thesis by auto
qed



section \<open>The life cycle of a channel\<close>

text \<open>
  Once a channel is no longer open, no value moves by new transfers: every message is rejected,
  a direct transfer is refused with the failure event and leaves the state as it is, and a locked
  transfer or a refund cannot be created.
\<close>

theorem no_transfer_unless_opened:
  assumes "GetStatus cs \<noteq> ChannelStateOpened"
  shows "accept e cs msg = None
     \<and> handleSendDirectTransfer e cs act m = Some (NewState cs, [EventPaymentSentFailed (cs_PaymentNetworkId cs)
          (cs_TokenNetworkId cs) (atd_PaymentId act) (atd_ReceiverAddress act) (Msg ''Channel is not opened'')])
     \<and> (\<exists>err. createSendLockedTransfer e cs i tg n m p x es h md = Some (Inl err))
     \<and> sendLockedTransfer e cs i tg n m p x es h md = Some (cs, None)"
proof -
  have "accept e cs msg = None"
    using accept_cases(1) [of e cs msg] assms by (cases "accept e cs msg") (auto simp: pylons_defs)
  moreover have c: "\<exists>err. createSendLockedTransfer e cs i tg n m p x es h md = Some (Inl err)"
    using assms by (simp add: createSendLockedTransfer_def Let_def)
  moreover have "sendLockedTransfer e cs i tg n m p x es h md = Some (cs, None)"
    using c by (auto simp: sendLockedTransfer_def)
  ultimately show ?thesis using assms by (simp add: handleSendDirectTransfer_def Let_def)
qed

text \<open>A sample channel whose close transaction is running.\<close>

theorem no_transfer_unless_opened_witness:
  "accept sample_env (sample1\<lparr>cs_CloseTransaction := Some runningSettle\<rparr>) (MDirect \<lparr>rtd_Sender = 2,
     rtd_TokenNetworkId = 6, rtd_MessageId = 1, rtd_PaymentId = 1, rtd_BalanceProof = sample_proof\<rparr>) = None"
proof -
  have "GetStatus (sample1\<lparr>cs_CloseTransaction := Some runningSettle\<rparr>) \<noteq> ChannelStateOpened"
    by (simp add: GetStatus_Opened)
  from no_transfer_unless_opened [OF this] show ?thesis by blast
qed

lemma applyConfirmedDeposits_keeps:
  assumes "applyConfirmedDeposits e cs n = Some cs'"
  shows "cs_SettleTransaction cs' = cs_SettleTransaction cs" "cs_CloseTransaction cs' = cs_CloseTransaction cs"
    "cs_Identifier cs' = cs_Identifier cs" "cs_TokenNetworkId cs' = cs_TokenNetworkId cs"
proof -
  let ?P = "\<lambda>c. cs_SettleTransaction c = cs_SettleTransaction cs \<and> cs_CloseTransaction c = cs_CloseTransaction cs
    \<and> cs_Identifier c = cs_Identifier cs \<and> cs_TokenNetworkId c = cs_TokenNetworkId cs"
  have "?P cs'"
    using applyConfirmedDeposits_invariant [of ?P cs e n] assms by (auto simp: applyChannelNewBalance_def Let_def)
  then show "cs_SettleTransaction cs' = cs_SettleTransaction cs" "cs_CloseTransaction cs' = cs_CloseTransaction cs"
    "cs_Identifier cs' = cs_Identifier cs" "cs_TokenNetworkId cs' = cs_TokenNetworkId cs" by simp_all
qed

text \<open>
  C38. A settle transaction is sent only for a channel that is closed, after the settle timeout that
  follows the block of its close has passed; the channel is then settling. And it is sent once: whatever calls the channel
  sees afterwards, in any order, no state change that is dispatched to it sends another, as long as no answer to a
  cooperative settlement arrives that fails its checks (\<open>invalid_cooperative_settle_reopens\<close> shows that such an answer takes the
  settlement back).
\<close>

theorem settle_after_timeout_once:
  assumes "handleBlock e cs h n = Some (NewState cs', evs)" and "ContractSendChannelSettle c t \<in> set evs"
    and "channel_history e cs' tr cs''" and "\<forall>(s, call) \<in> set tr. \<not> takes_back e s call"
    and "StateTransitionForChannel e cs'' sc n' m' = Some (r, evs'')"
  shows "GetStatus cs = ChannelStateClosed \<and> c = cs_Identifier cs
     \<and> (\<exists>tx. cs_CloseTransaction cs = Some tx \<and> h > tx_FinishedBlockHeight tx + ucast (cs_SettleTimeout cs))
     \<and> GetStatus cs' = ChannelStateSettling
     \<and> ContractSendChannelSettle k t' \<notin> set evs''"
proof -
  obtain cs1 ev1 where b: "blockSettle cs h = (cs1, ev1)" by (cases "blockSettle cs h")
  have a: "applyConfirmedDeposits e cs1 n = Some cs'" and ev: "ContractSendChannelSettle c t \<in> set ev1"
    using assms(1,2) b blockWithdrawTimeout_not_settle [of c t e cs' n]
    by (auto simp: handleBlock_def split: Option.bind_split_asm)
  have s: "GetStatus cs = ChannelStateClosed" "c = cs_Identifier cs"
    "\<exists>tx. cs_CloseTransaction cs = Some tx \<and> h > tx_FinishedBlockHeight tx + ucast (cs_SettleTimeout cs)"
    "cs_SettleTransaction cs1 = Some \<lparr>tx_StartedBlockHeight = h, tx_FinishedBlockHeight = 0, tx_Result = ''''\<rparr>"
    using b ev by (auto simp: blockSettle_def Let_def split: if_splits option.splits)
  have st: "cs_SettleTransaction cs' = Some \<lparr>tx_StartedBlockHeight = h, tx_FinishedBlockHeight = 0, tx_Result = ''''\<rparr>"
    using s(4) applyConfirmedDeposits_settling [OF a] by simp
  then have "cs_SettleTransaction cs'' \<noteq> None" using history_keeps [OF assms(3,4)] by (simp add: keeps_settling_def)
  from dispatch_settles_not [OF assms(5) this] s(1-3) st show ?thesis by (simp add: GetStatus_def TxnExecSucc_def)
qed

text \<open>
  The sample channel, closed at block 10 with a settle timeout of 50, at block 61; a secret is revealed after it, and block 62
  comes.
\<close>

theorem settle_after_timeout_once_witness:
  "\<exists>cs' evs r'' evs''. handleBlock sample_env (sample1\<lparr>cs_CloseTransaction := Some \<lparr>tx_StartedBlockHeight = 0,
       tx_FinishedBlockHeight = 10, tx_Result = TxnExecSucc\<rparr>\<rparr>) 61 61 = Some (NewState cs', evs)
     \<and> ContractSendChannelSettle 4 6 \<in> set evs \<and> GetStatus cs' = ChannelStateSettling
     \<and> StateTransitionForChannel sample_env (RegisterOffChainSecret cs' [1] 7) (Block 62) 62 1 = Some (r'', evs'')
     \<and> ContractSendChannelSettle 4 6 \<notin> set evs''"
proof -
  let ?cs = "sample1\<lparr>cs_CloseTransaction := Some \<lparr>tx_StartedBlockHeight = 0, tx_FinishedBlockHeight = 10,
       tx_Result = TxnExecSucc\<rparr>\<rparr>"
  let ?cs' = "?cs\<lparr>cs_SettleTransaction := Some \<lparr>tx_StartedBlockHeight = 61, tx_FinishedBlockHeight = 0, tx_Result = ''''\<rparr>\<rparr>"
  let ?cs'' = "RegisterOffChainSecret ?cs' [1] 7"
  have st: "GetStatus ?cs = ChannelStateClosed" "GetStatus ?cs' = ChannelStateSettling"
    by (simp_all add: GetStatus_def TxnExecSucc_def)
  have "blockSettle ?cs 61 = (?cs', [ContractSendChannelSettle 4 6])"
    using st(1) by (simp add: blockSettle_def) (simp add: sample_channel_def)
  moreover have "applyConfirmedDeposits sample_env ?cs' k = Some ?cs'" for k
    by (simp add: applyConfirmedDeposits.simps isDepositConfirmed_def)
  moreover have "blockWithdrawTimeout sample_env ?cs' k = []" for k
    using st(2) by (simp add: blockWithdrawTimeout_def)
  ultimately have one: "handleBlock sample_env ?cs 61 61 = Some (NewState ?cs', [ContractSendChannelSettle 4 6])"
    by (simp add: handleBlock_def)
  have "safe sample_env 1000 ?cs'" using safe_cong [of ?cs' sample1] by simp
  then have "safe sample_env 1000 ?cs''" using Register_safe(1) by blast
  then obtain r'' evs'' where two: "StateTransitionForChannel sample_env ?cs'' (Block 62) 62 1 = Some (r'', evs'')"
    using StateTransitionForChannel_step [of sample_env 1000 ?cs'' "Block 62" 62 1] by (auto simp: chain_ok_def)
  have h: "channel_history sample_env ?cs' [(?cs', OtherCall)] ?cs''" by (rule Call [OF CallOffChainSecret Untouched])
  from settle_after_timeout_once [OF one _ h _ two, of 4 6 4 6] one two show ?thesis by (auto simp: takes_back_def)
qed

text \<open>
  When the partner closes an open channel, we answer with our latest balance proof of the partner, once:
  the channel becomes closed, the one event updates the contract with that proof and expires with the settle
  timeout, and reporting the close again has no effect.
\<close>

theorem partner_close_answered_once:
  assumes "GetStatus cs = ChannelStateOpened \<or> GetStatus cs = ChannelStateClosing"
    and "ccl_ChannelId x = cs_Identifier cs" and "ccl_TransactionFrom x \<noteq> es_Address (cs_OurState cs)"
    and "es_BalanceProof (cs_PartnerState cs) = Some bp" and "cs_UpdateTransaction cs = None"
  shows "\<exists>cs'. handleChannelClosed cs x = (NewState cs',
         [ContractSendChannelUpdateTransfer (ucast (ccl_BlockHeight x + ucast (cs_SettleTimeout cs)))
            (cs_Identifier cs) (cs_TokenNetworkId cs) bp])
     \<and> GetStatus cs' = ChannelStateClosed
     \<and> handleChannelClosed cs' y = (NewState cs', [])"
  using handleChannelClosed_answers [OF assms] by blast

text \<open>The second sample peer, told at block 30 that the first one has closed.\<close>

theorem partner_close_answered_once_witness:
  "\<exists>cs'. handleChannelClosed sample2 \<lparr>ccl_BlockHeight = 30, ccl_TransactionFrom = 1, ccl_TokenNetworkId = 6,
       ccl_ChannelId = 4\<rparr> = (NewState cs', [ContractSendChannelUpdateTransfer 80 4 6 sample_proof])
     \<and> GetStatus cs' = ChannelStateClosed"
proof -
  have u: "cs_UpdateTransaction sample2 = None" "cs_TokenNetworkId sample2 = 6" "cs_SettleTimeout sample2 = 50"
    by (simp_all add: sample_channel_def)
  have p: "es_BalanceProof (cs_PartnerState sample2) = Some sample_proof" by (simp add: sample_side1_def)
  from partner_close_answered_once [of sample2 "\<lparr>ccl_BlockHeight = 30, ccl_TransactionFrom = 1,
       ccl_TokenNetworkId = 6, ccl_ChannelId = 4\<rparr>" sample_proof] u p show ?thesis by auto
qed

text \<open>
  A withdrawal is countersigned only within the balance. When a request of the partner is answered,
  it carries the partner's signature, it raises the partner's total withdrawal by at most what
  the partner can still spend, and the channel stays solvent when the chain reports it.
\<close>

theorem withdraw_request_within_balance:
  assumes "wf_channel e cs" and "solvent_channel cs"
    and "handleWithdrawRequestReceived e cs x m = (r, SendWithdraw msg p tn w sg ad pk # evs)"
  shows "w = rwr_TotalWithdraw x
     \<and> signed_by e (es_Address (cs_PartnerState cs)) (PackWithdraw e (rwr_ChannelId x) (rwr_Participant x) w) pk sg
     \<and> uint (es_TotalWithdraw (cs_PartnerState cs)) < uint w
     \<and> uint w - uint (es_TotalWithdraw (cs_PartnerState cs)) \<le> capacity (cs_PartnerState cs) (cs_OurState cs)
     \<and> solvent ((cs_PartnerState cs)\<lparr>es_TotalWithdraw := w\<rparr>) (cs_OurState cs)"
proof -
  let ?P = "cs_PartnerState cs" and ?O = "cs_OurState cs"
  note wf = wf_channelD(2) [OF assms(1)]
  have sol: "solvent ?P ?O" using assms(2) solvent_sym by (simp add: solvent_channel_def)
  have v: "isValidWithdrawRequest e cs x = Inr ()" and w: "w = rwr_TotalWithdraw x" "sg = rwr_ParticipantSignature x"
    "pk = rwr_ParticipantPublicKey x"
    using assms(3) by (auto simp: handleWithdrawRequestReceived_def split: sum.splits)
  have sig: "rwr_Participant x = es_Address ?P" "rwr_ParticipantAddress x = es_Address ?P"
    "isValidWithdrawAmount ?P ?O w = Inr ()"
    "signed_by e (es_Address ?P) (PackWithdraw e (rwr_ChannelId x) (rwr_Participant x) w) pk sg"
    using v w by (auto simp: isValidWithdrawRequest_def GetChannelEndState_def Let_def isValidSignature_iff
        split: if_splits sum.splits)
  have am: "\<not> w < es_TotalWithdraw ?P" "w - es_TotalWithdraw ?P \<noteq> 0" "w - es_TotalWithdraw ?P \<le> GetDistributable ?P ?O"
    using sig(3) by (auto simp: isValidWithdrawAmount_def GetTotalWithdraw_def Let_def split: if_splits)
  then have less: "uint (es_TotalWithdraw ?P) < uint w"
    by (metis linorder_neqE right_minus_eq word_less_def)
  then have "uint (w - es_TotalWithdraw ?P) = uint w - uint (es_TotalWithdraw ?P)"
    by (simp add: uint_minus_simple_alt [symmetric] uint_sub_lem [THEN iffD1])
  with distributable_bounds(1) [OF wf sol am(3)] less sig w(1) solvent_withdraw [OF wf sol sig(3)]
  show ?thesis by simp
qed

text \<open>The second sample peer asks to withdraw 40 of its 50 tokens.\<close>

theorem withdraw_request_within_balance_witness:
  "\<exists>r evs. handleWithdrawRequestReceived sample_env sample1 \<lparr>rwr_TokenNetworkId = 6, rwr_MessageId = 1, rwr_ChannelId = 4,
       rwr_Participant = 2, rwr_TotalWithdraw = 40, rwr_ParticipantSignature = [], rwr_ParticipantAddress = 2,
       rwr_ParticipantPublicKey = [0, 0]\<rparr> 9 = (r, SendWithdraw \<lparr>sm_Recipient = 2, sm_ChannelId = 4, sm_MessageId = 9\<rparr>
         2 (cs_TokenNetworkId sample1) 40 [] 2 [0, 0] # evs)
     \<and> solvent (sample_side2\<lparr>es_TotalWithdraw := 40\<rparr>) sample_side1"
proof -
  let ?x = "\<lparr>rwr_TokenNetworkId = 6, rwr_MessageId = 1, rwr_ChannelId = 4,
       rwr_Participant = 2, rwr_TotalWithdraw = 40, rwr_ParticipantSignature = [], rwr_ParticipantAddress = 2,
       rwr_ParticipantPublicKey = [0, 0]\<rparr>"
  have "40 \<le> GetDistributable sample_side2 sample_side1"
    using GetDistributable_exact [of sample_env sample_side2 sample_side1] by (simp add: word_le_def)
  then have "isValidWithdrawAmount sample_side2 sample_side1 40 = Inr ()"
    by (simp add: isValidWithdrawAmount_def GetTotalWithdraw_def GetContractBalance_def Let_def)
  moreover have "isValidSignature sample_env (PackWithdraw sample_env 4 2 40) [0, 0] [] 2 = Inr ()"
    by (simp add: isValidSignature_iff signed_by_def)
  ultimately have "isValidWithdrawRequest sample_env sample1 ?x = Inr ()"
    by (simp add: isValidWithdrawRequest_def GetChannelEndState_def)
  then obtain r evs where h: "handleWithdrawRequestReceived sample_env sample1 ?x 9 =
      (r, SendWithdraw \<lparr>sm_Recipient = 2, sm_ChannelId = 4, sm_MessageId = 9\<rparr>
         2 (cs_TokenNetworkId sample1) 40 [] 2 [0, 0] # evs)"
    by (simp add: handleWithdrawRequestReceived_def)
  from withdraw_request_within_balance [OF _ _ h] h show ?thesis by (simp add: wf_channel_def solvent_channel_def)
qed

text \<open>
  The balances of a cooperative settlement are exact and pay out everything. On a solvent channel the
  64-bit result is what the participant can spend plus the partner's pending locks, and the two
  balances add up to both deposits less both withdrawals, without wrap-around.
\<close>

theorem cooperative_settle_exact:
  assumes "wf_channel e cs" and "solvent_channel cs" and "GetCooprativeSettleBalances cs = (b1, b2)"
  shows "uint b1 = capacity (cs_OurState cs) (cs_PartnerState cs) + lock_sum (pending (cs_PartnerState cs))
     \<and> uint b2 = capacity (cs_PartnerState cs) (cs_OurState cs) + lock_sum (pending (cs_OurState cs))
     \<and> uint b1 + uint b2 = uint (es_ContractBalance (cs_OurState cs)) - uint (es_TotalWithdraw (cs_OurState cs))
         + (uint (es_ContractBalance (cs_PartnerState cs)) - uint (es_TotalWithdraw (cs_PartnerState cs)))"
proof -
  have *: "uint (calculateCooperativeSettleBalance a b) = capacity a b + lock_sum (pending b)"
    if "wf_end e a" "wf_end e b" "solvent a b" for a b
  proof -
    have "calculateCooperativeSettleBalance a b = word_of_int (capacity a b + lock_sum (pending b))"
      using getCurrentBalanceProof_wf [OF that(1)] getCurrentBalanceProof_wf [OF that(2)]
      by (simp add: calculateCooperativeSettleBalance_def capacity_def getAmountLocked_pending lock_total_sum wi_hom_syms)
    moreover have "0 \<le> uint (es_TotalWithdraw a)" "0 \<le> uint (es_TotalWithdraw b)" by simp_all
    with that(3) lock_sum_nonneg [of "pending a"] lock_sum_nonneg [of "pending b"]
    have "0 \<le> capacity a b + lock_sum (pending b)" "capacity a b + lock_sum (pending b) < 2 ^ 64"
      unfolding solvent_def capacity_def by linarith+
    ultimately show ?thesis by (metis uint_of_int_u64)
  qed
  have "solvent (cs_OurState cs) (cs_PartnerState cs)" "solvent (cs_PartnerState cs) (cs_OurState cs)"
    using assms(2) solvent_sym by (auto simp: solvent_channel_def)
  with assms(1,3) * have "uint b1 = capacity (cs_OurState cs) (cs_PartnerState cs) + lock_sum (pending (cs_PartnerState cs))"
    "uint b2 = capacity (cs_PartnerState cs) (cs_OurState cs) + lock_sum (pending (cs_OurState cs))"
    by (auto simp: GetCooprativeSettleBalances_def GetChannelEndState_def wf_channel_def Let_def)
  then show ?thesis by (simp add: capacity_def)
qed

text \<open>The sample channel settles at 70 and 80, the 150 tokens deposited.\<close>

theorem cooperative_settle_exact_witness:
  "uint (fst (GetCooprativeSettleBalances sample1)) = 70 \<and> uint (snd (GetCooprativeSettleBalances sample1)) = 80"
proof -
  obtain b1 b2 where b: "GetCooprativeSettleBalances sample1 = (b1, b2)" by (cases "GetCooprativeSettleBalances sample1")
  from cooperative_settle_exact [OF _ _ b, of sample_env] b show ?thesis
    by (simp add: wf_channel_def solvent_channel_def sample_lock_def)
qed

section \<open>Deviations\<close>

text \<open>
  The overflow checks of the validation code are vacuous: a sum of two 64-bit amounts, computed in 64 bits,
  is compared with the largest 64-bit value.
\<close>

theorem overflow_checks_vacuous: "IsBalanceProofSafeForOnchainOperations bp \<and> IsValidAmount es amount"
  by simp

lemma range_sum_store_known:
  fixes f :: "'v \<Rightarrow> 'a :: ab_group_add"
  assumes "smap_ok m" and "smap_load m k = Some u"
  shows "range_sum f (smap_store k v m) = range_sum f m - f u + f v"
proof -
  define d where "d = smap_delete k m"
  have d: "smap_ok d" "smap_load d k = None" using assms(1) by (simp_all add: d_def)
  have ok: "distinct (map fst (smap_store k v m))" "distinct (map fst (smap_store k v d))"
    using smap_ok_store [OF assms(1)] smap_ok_store [OF d(1)] by (simp_all add: smap_ok_def)
  have "smap_load (smap_store k v m) = smap_load (smap_store k v d)" by (simp add: d_def)
  then have "map_of (smap_store k v m) = map_of (smap_store k v d)" unfolding smap_load_def by (simp add: fun_eq_iff)
  from mset_eq_of_map_of [OF ok this]
  have "range_sum f (smap_store k v m) = range_sum f (smap_store k v d)" by (rule range_sum_perm)
  also have "\<dots> = f v + range_sum f d" by (rule range_sum_store_fresh [OF d])
  finally show ?thesis unfolding range_sum_delete [OF assms, of f] d_def by simp
qed

text \<open>
  A locked transfer whose secret hash is already pending on the partner's side is accepted, and replaces the
  older lock in the map while the balance proof and the Merkle tree keep both: the locked amount
  computed from the map is then less than the one in the proof.
\<close>

theorem reused_secret_hash_loses_lock:
  assumes "wf_channel e cs" and "HandleReceiveLockedTransfer e cs tr = Some (cs', evs, None)"
    and "smap_load (es_LockedLocks (cs_PartnerState cs)) (lk_SecretHash (ls_Lock tr)) = Some l0"
  shows "getAmountLocked (cs_PartnerState cs') = bp_LockedAmount (ls_BalanceProof tr) - lk_Amount l0"
proof -
  note wf = wf_channelD(2) [OF assms(1)]
  obtain t where v: "ValidLockedTransferCheck e cs (cs_PartnerState cs) (cs_OurState cs) ''LockedTransfer''
      (ls_BalanceProof tr) (ls_Lock tr) = Some (Inr t)"
    and cs': "cs' = storePartnerLock e cs (ls_BalanceProof tr) t (ls_Lock tr)"
    using assms(2) by (auto simp: HandleReceiveLockedTransfer_def IsValidLockedTransfer_def
        split: Option.bind_split_asm sum.split_asm)
  have "bp_LockedAmount (ls_BalanceProof tr) = getAmountLocked (cs_PartnerState cs) + lk_Amount (ls_Lock tr)"
    using v unfolding ValidLockedTransferCheck_iff [OF wf] by simp
  moreover have "getAmountLocked (cs_PartnerState cs') =
      getAmountLocked (cs_PartnerState cs) - lk_Amount l0 + lk_Amount (ls_Lock tr)"
    using range_sum_store_known [OF wf_end_smap_ok(1) [OF wf] assms(3), of lk_Amount]
    by (simp add: cs' storePartnerLock_def getAmountLocked_def Let_def algebra_simps)
  ultimately show ?thesis by simp
qed

text \<open>
  An answer to a cooperative settlement that fails its checks clears the settle transaction, even of a
  channel that is already settled; no signature is needed for that.
\<close>

theorem invalid_cooperative_settle_reopens:
  assumes "GetStatus cs = ChannelStateSettled"
  shows "\<exists>err. handleCooperativeSettleReceived e cs x =
     (NewState (cs\<lparr>cs_SettleTransaction := None\<rparr>),
      [EventInvalidReceivedCooperativeSettle (rcs_TokenNetworkId x) (rcs_ChannelId x) err])"
  using assms by (simp add: handleCooperativeSettleReceived_def isValidCooperativeSettle_def Let_def)

end
